(* ===== verification/Go_Prelude.thy ===== *)
theory Go_Prelude
  imports Main "HOL-Library.Word"
begin

text \<open>
  The part of the Go language and of its standard library that every component of
  the framework uses: strings as byte sequences, \<open>error\<close> values, the outcome of a
  call that may panic or never return, decimal formatting (\<open>fmt\<close>'s \<open>%d\<close>) and
  \<open>strings.TrimSpace\<close>.

  A Go \<open>string\<close> or \<open>[]byte\<close> is a list of bytes, HOL's \<^typ>\<open>string\<close>. A call that
  talks to the outside (an RPC node, an HTTP server) takes the state of the outside
  world \<open>'w\<close> as its last argument and returns a \<open>('a, 'w) go\<close>: the value and the
  next world, a panic, or \<open>Hang\<close> for a call that never returns.
\<close>

section \<open>Collections of rewrite rules\<close>

named_theorems go_simps \<open>unfolding rules of the Go runtime model\<close>
named_theorems model_defs \<open>the definitions of the operations of a component\<close>

section \<open>Errors\<close>

text \<open>
  An \<open>error\<close> that is not nil. \<open>ErrNotFound\<close> and \<open>ErrUnprocessableEntity\<close> are the two
  package variables of \<open>client/chainlink.go\<close>, compared by identity; \<open>ErrorString\<close> is
  what \<open>errors.New\<close> and \<open>fmt.Errorf\<close> make; \<open>Errorf_v\<close> is what \<open>fmt.Errorf\<close> makes when
  its \<open>%v\<close> prints another error between the text before and after it; \<open>LibError\<close> is an
  error of a library call, known by its message; \<open>JsonError\<close> is the error of
  \<open>json.Unmarshal\<close> on the text it carries, whose wording is not modelled.
\<close>

datatype go_error =
    ErrNotFound
  | ErrUnprocessableEntity
  | ErrorString string
  | Errorf_v string go_error string
  | LibError string
  | JsonError string

text \<open>A result of type \<open>error\<close>: \<open>None\<close> is nil.\<close>

type_synonym err = "go_error option"

abbreviation nil :: "'a option" where
  "nil \<equiv> None"

section \<open>Outcomes\<close>

datatype go_panic =
    NilDereference
  | IndexOutOfRange
  | TypeAssertion

text \<open>The outcome of a call without effects on the outside.\<close>

datatype 'a outcome = Value 'a | Panic go_panic

text \<open>The outcome of a call in a world.\<close>

datatype ('a, 'w) go = Ret 'a 'w | Crash go_panic 'w | Hang

fun bind_go :: "('a, 'w) go \<Rightarrow> ('a \<Rightarrow> 'w \<Rightarrow> ('b, 'w) go) \<Rightarrow> ('b, 'w) go" where
  "bind_go (Ret a w) f = f a w"
| "bind_go (Crash p w) f = Crash p w"
| "bind_go Hang f = Hang"

lemma bind_go_Ret_right [simp]: "bind_go m Ret = m"
  by (cases m) simp_all

lemma bind_go_assoc: "bind_go (bind_go m f) g = bind_go m (\<lambda>a w. bind_go (f a w) g)"
  by (cases m) simp_all

lemma bind_go_eq_Ret [go_simps]:
  "bind_go m f = Ret b w' \<longleftrightarrow> (\<exists>a w. m = Ret a w \<and> f a w = Ret b w')"
  by (cases m) auto

lemma bind_go_eq_Hang:
  "bind_go m f = Hang \<longleftrightarrow> m = Hang \<or> (\<exists>a w. m = Ret a w \<and> f a w = Hang)"
  by (cases m) auto

lemma bind_go_eq_Crash:
  "bind_go m f = Crash p w' \<longleftrightarrow> m = Crash p w' \<or> (\<exists>a w. m = Ret a w \<and> f a w = Crash p w')"
  by (cases m) auto

lemmas bind_go_iffs = bind_go_eq_Ret bind_go_eq_Hang bind_go_eq_Crash

lemma bind_go_split:
  "P (bind_go m f) \<longleftrightarrow>
     (\<forall>a w. m = Ret a w \<longrightarrow> P (f a w)) \<and> (\<forall>p w. m = Crash p w \<longrightarrow> P (Crash p w)) \<and>
     (m = Hang \<longrightarrow> P Hang)"
  by (cases m) auto

text \<open>\<open>if err != nil { return err }\<close> after a call: success means that the call succeeded.\<close>

lemma case_err_Inr [go_simps]:
  "(case r of Inl e \<Rightarrow> Ret (Inl (g e)) w | Inr x \<Rightarrow> f x) = Ret (Inr b) w' \<longleftrightarrow>
     (\<exists>x. r = Inr x \<and> f x = Ret (Inr b) w')"
  by (cases r) auto

lemma case_err_opt_Inr [go_simps]:
  "(case r of Some e \<Rightarrow> Ret (Inl (g e)) w | None \<Rightarrow> m) = Ret (Inr b) w' \<longleftrightarrow> r = None \<and> m = Ret (Inr b) w'"
  by (cases r) auto

text \<open>A library call on the world, with the value it returns.\<close>

definition call :: "('w \<Rightarrow> 'a \<times> 'w) \<Rightarrow> 'w \<Rightarrow> ('a, 'w) go" where
  "call f w = (case f w of (a, w') \<Rightarrow> Ret a w')"

lemma bind_call: "bind_go (call f w) g = g (fst (f w)) (snd (f w))"
  by (simp add: call_def split: prod.split)

section \<open>Slices\<close>

text \<open>\<open>xs[i]\<close> with a Go \<open>int\<close> index: out of range panics, a negative index too.\<close>

definition index :: "'a list \<Rightarrow> int \<Rightarrow> 'a outcome" where
  "index xs i = (if 0 \<le> i \<and> i < int (length xs) then Value (xs ! nat i) else Panic IndexOutOfRange)"

lemma index_Value_iff: "index xs i = Value x \<longleftrightarrow> 0 \<le> i \<and> i < int (length xs) \<and> x = xs ! nat i"
  by (auto simp: index_def)

lemma index_Panic_iff: "index xs i = Panic p \<longleftrightarrow> p = IndexOutOfRange \<and> (i < 0 \<or> int (length xs) \<le> i)"
  by (auto simp: index_def)

section \<open>Decimal numbers (the verb \<open>%d\<close>)\<close>

definition digit_char :: "nat \<Rightarrow> char" where
  "digit_char d = char_of (48 + d)"

fun nat_digits :: "nat \<Rightarrow> string" where
  "nat_digits n = (if n < 10 then [digit_char n] else nat_digits (n div 10) @ [digit_char (n mod 10)])"

declare nat_digits.simps [simp del]

definition fmt_d :: "int \<Rightarrow> string" where
  "fmt_d i = (if i < 0 then CHR ''-'' # nat_digits (nat (- i)) else nat_digits (nat i))"

text \<open>Reading decimal digits back, to state that \<open>%d\<close> is injective.\<close>

definition read_digits :: "string \<Rightarrow> nat" where
  "read_digits s = foldl (\<lambda>n c. 10 * n + (of_char c - 48)) 0 s"

lemma of_digit_char [simp]: "d < 10 \<Longrightarrow> (of_char (digit_char d) :: nat) = 48 + d"
  by (simp add: digit_char_def)

lemma read_nat_digits [simp]: "read_digits (nat_digits n) = n"
proof (induction n rule: nat_digits.induct)
  case (1 n)
  show ?case
  proof (cases "n < 10")
    case True
    then show ?thesis by (simp add: nat_digits.simps [of n] read_digits_def)
  next
    case False
    with "1.IH" have "read_digits (nat_digits (n div 10)) = n div 10" by simp
    with False show ?thesis by (simp add: nat_digits.simps [of n] read_digits_def)
  qed
qed

lemma nat_digits_inj: "nat_digits m = nat_digits n \<longleftrightarrow> m = n"
  by (metis read_nat_digits)

lemma nat_digits_not_Nil [simp]: "nat_digits n \<noteq> []"
  by (subst nat_digits.simps) simp

lemma nat_digits_range: "c \<in> set (nat_digits n) \<Longrightarrow> 48 \<le> (of_char c :: nat) \<and> (of_char c :: nat) < 58"
proof (induction n rule: nat_digits.induct)
  case (1 n)
  then show ?case
    by (cases "n < 10") (auto simp: nat_digits.simps [of n])
qed

lemma hd_nat_digits: "hd (nat_digits n) \<noteq> CHR ''-''"
proof
  assume "hd (nat_digits n) = CHR ''-''"
  then have "CHR ''-'' \<in> set (nat_digits n)"
    by (metis hd_in_set nat_digits_not_Nil)
  from nat_digits_range [OF this] show False by simp
qed

lemma fmt_d_inj: "fmt_d i = fmt_d j \<longleftrightarrow> i = j"
proof
  assume eq: "fmt_d i = fmt_d j"
  have neq: "CHR ''-'' # s \<noteq> nat_digits n" for s n
    using hd_nat_digits [of n] by (metis list.sel(1))
  show "i = j"
    using eq neq [symmetric] neq
    by (auto simp: fmt_d_def nat_digits_inj split: if_splits)
qed simp

section \<open>\<open>strings.TrimSpace\<close>\<close>

text \<open>
  \<open>TrimSpace\<close> cuts leading and trailing Unicode white space. The white space code
  points are the ASCII bytes 9 to 13 and 32, U+0085 and U+00A0 (two bytes in UTF-8),
  and U+1680, U+2000 to U+200A, U+2028, U+2029, U+202F, U+205F and U+3000 (three
  bytes). \<open>space_prefix\<close> is the length of the white space code point a string starts
  with, 0 if there is none.
\<close>

abbreviation byte :: "char \<Rightarrow> nat" where
  "byte c \<equiv> of_char c"

definition ascii_space :: "char \<Rightarrow> bool" where
  "ascii_space c = (byte c \<in> {9, 10, 11, 12, 13, 32})"

definition space2 :: "char \<Rightarrow> char \<Rightarrow> bool" where
  "space2 a b = (byte a = 194 \<and> byte b \<in> {133, 160})"

definition space3 :: "char \<Rightarrow> char \<Rightarrow> char \<Rightarrow> bool" where
  "space3 a b c =
     ((byte a = 225 \<and> byte b = 154 \<and> byte c = 128) \<or>
      (byte a = 226 \<and> byte b = 128 \<and> ((128 \<le> byte c \<and> byte c \<le> 138) \<or> byte c \<in> {168, 169, 175})) \<or>
      (byte a = 226 \<and> byte b = 129 \<and> byte c = 159) \<or>
      (byte a = 227 \<and> byte b = 128 \<and> byte c = 128))"

fun trim_left :: "string \<Rightarrow> string" where
  "trim_left [] = []"
| "trim_left [a] = (if ascii_space a then [] else [a])"
| "trim_left [a, b] =
     (if ascii_space a then trim_left [b] else if space2 a b then [] else [a, b])"
| "trim_left (a # b # c # s) =
     (if ascii_space a then trim_left (b # c # s)
      else if space2 a b then trim_left (c # s)
      else if space3 a b c then trim_left s
      else a # b # c # s)"

fun trim_right_rev :: "string \<Rightarrow> string" where
  "trim_right_rev [] = []"
| "trim_right_rev [a] = (if ascii_space a then [] else [a])"
| "trim_right_rev [b, a] =
     (if ascii_space b then trim_right_rev [a] else if space2 a b then [] else [b, a])"
| "trim_right_rev (c # b # a # s) =
     (if ascii_space c then trim_right_rev (b # a # s)
      else if space2 b c then trim_right_rev (a # s)
      else if space3 a b c then trim_right_rev s
      else c # b # a # s)"

definition TrimSpace :: "string \<Rightarrow> string" where
  "TrimSpace s = rev (trim_right_rev (rev (trim_left s)))"

lemma TrimSpace_graphic:
  assumes "\<forall>c \<in> set s. 32 < byte c \<and> byte c < 127"
  shows "TrimSpace s = s"
proof -
  have left: "trim_left t = t" if "\<forall>c \<in> set t. 32 < byte c \<and> byte c < 127" for t
    using that by (cases t rule: trim_left.cases) (auto simp: ascii_space_def space2_def space3_def)
  have right: "trim_right_rev t = t" if "\<forall>c \<in> set t. 32 < byte c \<and> byte c < 127" for t
    using that by (cases t rule: trim_right_rev.cases) (auto simp: ascii_space_def space2_def space3_def)
  show ?thesis
    using assms by (simp add: TrimSpace_def left right)
qed

section \<open>Machine integers\<close>

type_synonym u8 = "8 word"
type_synonym u16 = "16 word"
type_synonym u32 = "32 word"
type_synonym u64 = "64 word"

text \<open>Go's \<open>int\<close>, \<open>int64\<close> and \<open>time.Duration\<close>: 64 bits, read with \<^const>\<open>sint\<close>.\<close>

type_synonym i64 = "64 word"

lemma sint_range64: "- (2 ^ 63) \<le> sint (x :: i64) \<and> sint x < 2 ^ 63"
  using sint_greater_eq [of x] sint_lt [of x] by simp

lemma sint_succ64:
  assumes "sint (x :: i64) < 2 ^ 63 - 1"
  shows "sint (x + 1) = sint x + 1"
proof -
  have "- (2 ^ 63) \<le> sint x + 1" "sint x + 1 < 2 ^ 63"
    using assms sint_range64 [of x] by linarith+
  then show ?thesis
    by (simp add: sint_word_ariths signed_take_bit_int_eq_self)
qed

text \<open>Reading an unsigned 64-bit number as a signed one (Go's \<open>int64(x)\<close>).\<close>

lemma sint_of_unat64:
  "sint (x :: u64) = (if unat x < 2 ^ 63 then int (unat x) else int (unat x) - 2 ^ 64)"
proof -
  have sint: "sint x = (int (unat x) + 9223372036854775808) mod 18446744073709551616 - 9223372036854775808"
    by (simp add: sint_uint signed_take_bit_eq_take_bit_shift take_bit_eq_mod)
  have bound: "unat x < 18446744073709551616" using unsigned_less [of x] by simp
  show ?thesis
  proof (cases "unat x < 9223372036854775808")
    case True
    then have "(int (unat x) + 9223372036854775808) mod 18446744073709551616 = int (unat x) + 9223372036854775808"
      by (intro mod_pos_pos_trivial) linarith+
    with True sint show ?thesis by simp
  next
    case False
    then have "(int (unat x) + 9223372036854775808 - 18446744073709551616) mod 18446744073709551616 =
        int (unat x) + 9223372036854775808 - 18446744073709551616"
      using bound by (intro mod_pos_pos_trivial) linarith+
    then have "(int (unat x) + 9223372036854775808) mod 18446744073709551616 =
        int (unat x) + 9223372036854775808 - 18446744073709551616"
      by (metis minus_mod_self2)
    with False sint show ?thesis by simp
  qed
qed

end
