(* ===== verification/Go_Json.thy ===== *)
theory Go_Json
  imports Go_Prelude
begin

text \<open>
  What the framework uses of Go's \<open>encoding/json\<close> (Go 1.16): the text of strings and of
  the structs it marshals, the parser, and unmarshalling into structs, slices, strings,
  integers and untyped maps. A JSON text is a byte string.

  The parser returns \<open>None\<close> for every text that \<open>json.Unmarshal\<close> rejects as invalid;
  the wording of its syntax errors is not modelled.
\<close>

section \<open>UTF-8\<close>

definition cont :: "char \<Rightarrow> bool" where
  "cont c \<longleftrightarrow> 128 \<le> byte c \<and> byte c < 192"

definition utf8_second :: "char \<Rightarrow> char \<Rightarrow> bool" where
  "utf8_second a b =
     (if byte a = 224 then 160 \<le> byte b \<and> byte b < 192
      else if byte a = 237 then 128 \<le> byte b \<and> byte b < 160
      else if byte a = 240 then 144 \<le> byte b \<and> byte b < 192
      else if byte a = 244 then 128 \<le> byte b \<and> byte b < 144
      else cont b)"

text \<open>The length of the valid code point a text starts with, 0 if there is none.\<close>

fun utf8_len :: "string \<Rightarrow> nat" where
  "utf8_len (a # s) =
     (if byte a < 128 then 1
      else case s of
        b # s' \<Rightarrow>
          if 194 \<le> byte a \<and> byte a < 224 \<and> cont b then 2
          else (case s' of
            c # s'' \<Rightarrow>
              if 224 \<le> byte a \<and> byte a < 240 \<and> utf8_second a b \<and> cont c then 3
              else (case s'' of
                d # _ \<Rightarrow> if 240 \<le> byte a \<and> byte a < 245 \<and> utf8_second a b \<and> cont c \<and> cont d then 4 else 0
              | [] \<Rightarrow> 0)
          | [] \<Rightarrow> 0)
      | [] \<Rightarrow> 0)"
| "utf8_len [] = 0"

definition utf8_encode :: "nat \<Rightarrow> string" where
  "utf8_encode r =
     (if r < 128 then [char_of r]
      else if r < 2048 then [char_of (192 + r div 64), char_of (128 + r mod 64)]
      else if r < 65536 then [char_of (224 + r div 4096), char_of (128 + r div 64 mod 64), char_of (128 + r mod 64)]
      else [char_of (240 + r div 262144), char_of (128 + r div 4096 mod 64),
            char_of (128 + r div 64 mod 64), char_of (128 + r mod 64)])"

text \<open>The replacement character U+FFFD.\<close>

definition replacement :: string where
  "replacement = utf8_encode 65533"

function valid_utf8 :: "string \<Rightarrow> bool" where
  "valid_utf8 s =
     (if s = [] then True else if utf8_len s = 0 then False else valid_utf8 (drop (utf8_len s) s))"
  by pat_completeness auto
termination
  by (relation "measure length") auto

declare valid_utf8.simps [simp del]

section \<open>Printing\<close>

abbreviation bsl :: char where "bsl \<equiv> CHR 0x5C"
abbreviation dq :: char where "dq \<equiv> CHR 0x22"

definition hex_digit :: "nat \<Rightarrow> char" where
  "hex_digit n = (if n < 10 then char_of (48 + n) else char_of (87 + n))"

text \<open>A byte below 128 as it is written: HTML characters are escaped too.\<close>

definition escape_ascii :: "char \<Rightarrow> string" where
  "escape_ascii c =
     (if c = bsl \<or> c = dq then [bsl, c]
      else if byte c = 10 then [bsl, CHR ''n'']
      else if byte c = 13 then [bsl, CHR ''r'']
      else if byte c = 9 then [bsl, CHR ''t'']
      else if byte c < 32 \<or> c = CHR ''<'' \<or> c = CHR ''>'' \<or> c = CHR ''&''
      then [bsl, CHR ''u'', CHR ''0'', CHR ''0'', hex_digit (byte c div 16), hex_digit (byte c mod 16)]
      else [c])"

definition line_sep :: "string \<Rightarrow> string option" where
  "line_sep s =
     (if take 3 s = utf8_encode 8232 then Some [bsl, CHR ''u'', CHR ''2'', CHR ''0'', CHR ''2'', CHR ''8'']
      else if take 3 s = utf8_encode 8233 then Some [bsl, CHR ''u'', CHR ''2'', CHR ''0'', CHR ''2'', CHR ''9'']
      else None)"

function escape :: "string \<Rightarrow> string" where
  "escape s =
     (if s = [] then []
      else if byte (hd s) < 128 then escape_ascii (hd s) @ escape (tl s)
      else if utf8_len s = 0
      then [bsl, CHR ''u'', CHR ''f'', CHR ''f'', CHR ''f'', CHR ''d''] @ escape (tl s)
      else (case line_sep s of Some t \<Rightarrow> t | None \<Rightarrow> take (utf8_len s) s) @ escape (drop (utf8_len s) s))"
  by pat_completeness auto
termination
  by (relation "measure length") auto

declare escape.simps [simp del]

definition quote :: "string \<Rightarrow> string" where
  "quote s = dq # escape s @ [dq]"

datatype json =
    JNull
  | JBool bool
  | JNum string
  | JStr string
  | JArr "json list"
  | JObj "(string \<times> json) list"

definition commas :: "string list \<Rightarrow> string" where
  "commas ss = (case ss of [] \<Rightarrow> [] | s # ss \<Rightarrow> s @ concat (map (\<lambda>t. CHR '','' # t) ss))"

fun json_print :: "json \<Rightarrow> string" where
  "json_print JNull = ''null''"
| "json_print (JBool b) = (if b then ''true'' else ''false'')"
| "json_print (JNum n) = n"
| "json_print (JStr s) = quote s"
| "json_print (JArr vs) = ''['' @ commas (map json_print vs) @ '']''"
| "json_print (JObj kvs) = ''{'' @ commas (map (\<lambda>(k, v). quote k @ '':'' @ json_print v) kvs) @ ''}''"

section \<open>Parsing\<close>

definition is_ws :: "char \<Rightarrow> bool" where
  "is_ws c = (byte c \<in> {9, 10, 13, 32})"

definition skip_ws :: "string \<Rightarrow> string" where
  "skip_ws s = dropWhile is_ws s"

lemma length_skip_ws [simp]: "length (skip_ws s) \<le> length s"
  by (simp add: skip_ws_def length_dropWhile_le)

lemma skip_ws_Cons_length: "skip_ws s = c # r \<Longrightarrow> length r < length s"
  by (metis Suc_le_eq length_Cons length_skip_ws)

definition hex_val :: "char \<Rightarrow> nat option" where
  "hex_val c =
     (if 48 \<le> byte c \<and> byte c \<le> 57 then Some (byte c - 48)
      else if 97 \<le> byte c \<and> byte c \<le> 102 then Some (byte c - 87)
      else if 65 \<le> byte c \<and> byte c \<le> 70 then Some (byte c - 55)
      else None)"

text \<open>Four hexadecimal digits.\<close>

fun hex4 :: "string \<Rightarrow> (nat \<times> string) option" where
  "hex4 (a # b # c # d # s) =
     (case (hex_val a, hex_val b, hex_val c, hex_val d) of
        (Some x, Some y, Some z, Some u) \<Rightarrow> Some (4096 * x + 256 * y + 16 * z + u, s)
      | _ \<Rightarrow> None)"
| "hex4 _ = None"

lemma hex4_length: "hex4 s = Some (r, t) \<Longrightarrow> length s = length t + 4"
  by (cases s rule: hex4.cases) (auto split: option.splits)

definition low_surrogate :: "string \<Rightarrow> (nat \<times> string) option" where
  "low_surrogate s =
     (case s of
        b # u # s' \<Rightarrow>
          if b = bsl \<and> u = CHR ''u'' then
            (case hex4 s' of
               Some (r, t) \<Rightarrow> if 56320 \<le> r \<and> r < 57344 then Some (r, t) else None
             | None \<Rightarrow> None)
          else None
      | _ \<Rightarrow> None)"

text \<open>A \<open>\u\<close> escape after its four digits: a surrogate pair is one code point, a lone surrogate U+FFFD.\<close>

definition unescape_u :: "nat \<Rightarrow> string \<Rightarrow> string \<times> string" where
  "unescape_u r s =
     (if 55296 \<le> r \<and> r < 57344 then
        (case low_surrogate s of
           Some (r2, t) \<Rightarrow>
             if r < 56320 then (utf8_encode (65536 + (r - 55296) * 1024 + (r2 - 56320)), t)
             else (replacement, s)
         | None \<Rightarrow> (replacement, s))
      else (utf8_encode r, s))"

text \<open>An escape after its backslash.\<close>

definition unescape :: "string \<Rightarrow> (string \<times> string) option" where
  "unescape s =
     (case s of
        [] \<Rightarrow> None
      | e # s' \<Rightarrow>
          if e = dq \<or> e = bsl \<or> e = CHR ''/'' then Some ([e], s')
          else if e = CHR ''b'' then Some ([char_of (8 :: nat)], s')
          else if e = CHR ''f'' then Some ([char_of (12 :: nat)], s')
          else if e = CHR ''n'' then Some ([char_of (10 :: nat)], s')
          else if e = CHR ''r'' then Some ([char_of (13 :: nat)], s')
          else if e = CHR ''t'' then Some ([char_of (9 :: nat)], s')
          else if e = CHR ''u'' then map_option (\<lambda>(r, t). unescape_u r t) (hex4 s')
          else None)"

lemma unescape_length: "unescape s = Some (x, t) \<Longrightarrow> length t < length s"
  by (auto simp: unescape_def unescape_u_def low_surrogate_def split: list.splits if_splits option.splits
      dest!: hex4_length)

text \<open>A string literal after its opening quote: its value and what follows the closing quote.\<close>

function str_body :: "string \<Rightarrow> (string \<times> string) option" where
  "str_body s =
     (case s of
        [] \<Rightarrow> None
      | c # s' \<Rightarrow>
          if c = dq then Some ([], s')
          else if c = bsl then
            (case unescape s' of
               None \<Rightarrow> None
             | Some (x, t) \<Rightarrow> map_option (\<lambda>(y, r). (x @ y, r)) (str_body t))
          else if byte c < 32 then None
          else if utf8_len s = 0 then map_option (\<lambda>(y, r). (replacement @ y, r)) (str_body s')
          else map_option (\<lambda>(y, r). (take (utf8_len s) s @ y, r)) (str_body (drop (utf8_len s) s)))"
  by pat_completeness auto
termination
  by (relation "measure length") (auto dest: unescape_length)

declare str_body.simps [simp del]

definition is_digit :: "char \<Rightarrow> bool" where
  "is_digit c \<longleftrightarrow> 48 \<le> byte c \<and> byte c \<le> 57"

definition span_digits :: "string \<Rightarrow> string \<times> string" where
  "span_digits s = (takeWhile is_digit s, dropWhile is_digit s)"

text \<open>The optional fraction and exponent of a number, each with what it consumed.\<close>

definition num_frac :: "string \<Rightarrow> (string \<times> string) option" where
  "num_frac s =
     (case s of
        c # r \<Rightarrow>
          if c = CHR ''.'' then
            (case span_digits r of (ds, t) \<Rightarrow> if ds = [] then None else Some (c # ds, t))
          else Some ([], s)
      | [] \<Rightarrow> Some ([], []))"

definition num_exp :: "string \<Rightarrow> (string \<times> string) option" where
  "num_exp s =
     (case s of
        c # r \<Rightarrow>
          if c = CHR ''e'' \<or> c = CHR ''E'' then
            (case r of
               sg # r' \<Rightarrow>
                 if sg = CHR ''+'' \<or> sg = CHR ''-'' then
                   (case span_digits r' of (ds, t) \<Rightarrow> if ds = [] then None else Some (c # sg # ds, t))
                 else (case span_digits r of (ds, t) \<Rightarrow> if ds = [] then None else Some (c # ds, t))
             | [] \<Rightarrow> None)
          else Some ([], s)
      | [] \<Rightarrow> Some ([], []))"

definition num_int :: "string \<Rightarrow> (string \<times> string) option" where
  "num_int s =
     (case s of
        [] \<Rightarrow> None
      | c # r \<Rightarrow>
          if c = CHR ''0'' then Some ([c], r)
          else if is_digit c then Some (span_digits s)
          else None)"

definition parse_number :: "string \<Rightarrow> (string \<times> string) option" where
  "parse_number s =
     (case (case s of c # r \<Rightarrow> if c = CHR ''-'' then (''-'', r) else ([], s) | [] \<Rightarrow> ([], s)) of
        (sg, s1) \<Rightarrow>
          (case num_int s1 of None \<Rightarrow> None | Some (i, s2) \<Rightarrow>
          (case num_frac s2 of None \<Rightarrow> None | Some (f, s3) \<Rightarrow>
          (case num_exp s3 of None \<Rightarrow> None | Some (e, s4) \<Rightarrow> Some (sg @ i @ f @ e, s4)))))"

fun strip_prefix :: "string \<Rightarrow> string \<Rightarrow> string option" where
  "strip_prefix [] s = Some s"
| "strip_prefix (p # ps) [] = None"
| "strip_prefix (p # ps) (c # s) = (if p = c then strip_prefix ps s else None)"

text \<open>
  A value, the elements of an array after its opening bracket, the members of an object
  after its opening brace. The first argument is how many more levels may be opened. The
  tests on lengths always hold (\<open>parse_shortens\<close>); they make the recursion well founded.
\<close>

function (sequential) parse_value :: "nat \<Rightarrow> string \<Rightarrow> (json \<times> string) option"
  and parse_elems :: "nat \<Rightarrow> string \<Rightarrow> (json list \<times> string) option"
  and parse_members :: "nat \<Rightarrow> string \<Rightarrow> ((string \<times> json) list \<times> string) option" where
  "parse_value d s =
     (case skip_ws s of
        [] \<Rightarrow> None
      | c # r \<Rightarrow>
          if c = dq then map_option (\<lambda>(x, t). (JStr x, t)) (str_body r)
          else if c = CHR ''['' then
            (if d = 0 then None
             else case skip_ws r of
               [] \<Rightarrow> None
             | c2 # r2 \<Rightarrow>
                 if c2 = CHR '']'' then Some (JArr [], r2)
                 else map_option (\<lambda>(vs, t). (JArr vs, t)) (parse_elems (d - 1) r))
          else if c = CHR ''{'' then
            (if d = 0 then None
             else case skip_ws r of
               [] \<Rightarrow> None
             | c2 # r2 \<Rightarrow>
                 if c2 = CHR ''}'' then Some (JObj [], r2)
                 else map_option (\<lambda>(kvs, t). (JObj kvs, t)) (parse_members (d - 1) r))
          else if c = CHR ''t'' then map_option (\<lambda>t. (JBool True, t)) (strip_prefix ''rue'' r)
          else if c = CHR ''f'' then map_option (\<lambda>t. (JBool False, t)) (strip_prefix ''alse'' r)
          else if c = CHR ''n'' then map_option (\<lambda>t. (JNull, t)) (strip_prefix ''ull'' r)
          else map_option (\<lambda>(n, t). (JNum n, t)) (parse_number (c # r)))"
| "parse_elems d s =
     (case parse_value d s of
        None \<Rightarrow> None
      | Some (v, r) \<Rightarrow>
          (case skip_ws r of
             [] \<Rightarrow> None
           | c # r' \<Rightarrow>
               if c = CHR '']'' then Some ([v], r')
               else if c = CHR '','' \<and> length r' < length s
               then map_option (\<lambda>(vs, t). (v # vs, t)) (parse_elems d r')
               else None))"
| "parse_members d s =
     (case skip_ws s of
        [] \<Rightarrow> None
      | q # s1 \<Rightarrow>
          if q \<noteq> dq then None
          else (case str_body s1 of
             None \<Rightarrow> None
           | Some (k, s2) \<Rightarrow>
               (case skip_ws s2 of
                  [] \<Rightarrow> None
                | c # s3 \<Rightarrow>
                    if c = CHR '':'' \<and> length s3 < length s then
                      (case parse_value d s3 of
                         None \<Rightarrow> None
                       | Some (v, r) \<Rightarrow>
                           (case skip_ws r of
                              [] \<Rightarrow> None
                            | c # r' \<Rightarrow>
                                if c = CHR ''}'' then Some ([(k, v)], r')
                                else if c = CHR '','' \<and> length r' < length s
                                then map_option (\<lambda>(kvs, t). ((k, v) # kvs, t)) (parse_members d r')
                                else None))
                    else None)))"
  by pat_completeness auto
termination
  by (relation "measures [\<lambda>x. case x of Inl (d, s) \<Rightarrow> length s | Inr (Inl (d, s)) \<Rightarrow> length s | Inr (Inr (d, s)) \<Rightarrow> length s,
      \<lambda>x. case x of Inl _ \<Rightarrow> 0 | Inr _ \<Rightarrow> 1]")
    (auto dest: skip_ws_Cons_length)

declare parse_value.simps [simp del] parse_elems.simps [simp del] parse_members.simps [simp del]

definition max_depth :: nat where
  "max_depth = 10000"

definition parse_json :: "string \<Rightarrow> json option" where
  "parse_json s =
     (case parse_value max_depth s of
        Some (v, r) \<Rightarrow> if skip_ws r = [] then Some v else None
      | None \<Rightarrow> None)"

section \<open>Code points\<close>

lemma utf8_len_le: "utf8_len s \<le> length s"
  by (cases s) (auto split: list.splits)

lemma utf8_len_take:
  assumes "utf8_len s = n" and "n \<noteq> 0"
  shows "utf8_len (take n s @ u) = n"
  using assms by (cases s) (auto split: list.splits if_splits)

lemma utf8_len_ascii: "byte c < 128 \<Longrightarrow> utf8_len (c # s) = 1"
  by simp

lemma utf8_len_nonascii: "byte (hd s) \<ge> 128 \<Longrightarrow> utf8_len s \<noteq> 1"
  by (cases s) (auto split: list.splits if_splits)

section \<open>Strings are read back\<close>

lemma hex_val_digit: "n < 16 \<Longrightarrow> hex_val (hex_digit n) = Some n"
  by (auto simp: hex_val_def hex_digit_def)

lemma unescape_u00:
  "byte c < 128 \<Longrightarrow>
   hex4 (CHR ''0'' # CHR ''0'' # hex_digit (byte c div 16) # hex_digit (byte c mod 16) # t) = Some (byte c, t)"
  by (simp add: hex_val_digit hex_val_def [of "CHR ''0''"])

lemma str_body_ascii:
  assumes "byte c < 128"
  shows "str_body (escape_ascii c @ t) = map_option (\<lambda>(y, r). (c # y, r)) (str_body t)"
proof -
  have u: "unescape_u (byte c) t = ([c], t)"
    using assms by (simp add: unescape_u_def utf8_encode_def)
  consider (special) "c = bsl \<or> c = dq" | (nl) "byte c = 10" | (cr) "byte c = 13" | (tab) "byte c = 9"
    | (u) "c \<noteq> bsl" "c \<noteq> dq" "byte c \<noteq> 10" "byte c \<noteq> 13" "byte c \<noteq> 9"
        "byte c < 32 \<or> c = CHR ''<'' \<or> c = CHR ''>'' \<or> c = CHR ''&''"
    | (plain) "c \<noteq> bsl" "c \<noteq> dq" "32 \<le> byte c" "\<not> (c = CHR ''<'' \<or> c = CHR ''>'' \<or> c = CHR ''&'')"
    by fastforce
  then show ?thesis
  proof cases
    case special
    then show ?thesis
      by (subst str_body.simps) (auto simp: escape_ascii_def unescape_def)
  next
    case nl
    then have "c = char_of (10 :: nat)" by (metis char_of_char)
    then show ?thesis
      by (subst str_body.simps) (simp add: escape_ascii_def unescape_def)
  next
    case cr
    then have "c = char_of (13 :: nat)" by (metis char_of_char)
    then show ?thesis
      by (subst str_body.simps) (simp add: escape_ascii_def unescape_def)
  next
    case tab
    then have "c = char_of (9 :: nat)" by (metis char_of_char)
    then show ?thesis
      by (subst str_body.simps) (simp add: escape_ascii_def unescape_def)
  next
    case u
    then have "escape_ascii c = [bsl, CHR ''u'', CHR ''0'', CHR ''0'', hex_digit (byte c div 16), hex_digit (byte c mod 16)]"
      by (auto simp: escape_ascii_def)
    then show ?thesis
      by (subst str_body.simps) (simp add: unescape_def unescape_u00 [OF assms] \<open>unescape_u (byte c) t = _\<close> del: hex4.simps)
  next
    case plain
    then have "escape_ascii c = [c]" by (auto simp: escape_ascii_def)
    with plain assms show ?thesis by (subst str_body.simps) simp
  qed
qed

lemma line_sep_utf8:
  assumes "line_sep s = Some t"
  shows "utf8_len s = 3 \<and> str_body (t @ u) = map_option (\<lambda>(y, r). (take 3 s @ y, r)) (str_body u)"
proof -
  from assms consider (ls) "take 3 s = utf8_encode 8232" "t = [bsl, CHR ''u'', CHR ''2'', CHR ''0'', CHR ''2'', CHR ''8'']"
    | (ps) "take 3 s = utf8_encode 8233" "t = [bsl, CHR ''u'', CHR ''2'', CHR ''0'', CHR ''2'', CHR ''9'']"
    by (auto simp: line_sep_def split: if_splits)
  then show ?thesis
  proof cases
    case ls
    have "utf8_len (take 3 s @ drop 3 s) = 3"
      unfolding ls by (simp add: utf8_encode_def utf8_second_def cont_def)
    then have "utf8_len s = 3" by (simp only: append_take_drop_id)
    moreover have "str_body (t @ u) = map_option (\<lambda>(y, r). (utf8_encode 8232 @ y, r)) (str_body u)"
      unfolding ls by (subst str_body.simps) (simp add: unescape_def unescape_u_def hex_val_def)
    ultimately show ?thesis by (simp add: ls)
  next
    case ps
    have "utf8_len (take 3 s @ drop 3 s) = 3"
      unfolding ps by (simp add: utf8_encode_def utf8_second_def cont_def)
    then have "utf8_len s = 3" by (simp only: append_take_drop_id)
    moreover have "str_body (t @ u) = map_option (\<lambda>(y, r). (utf8_encode 8233 @ y, r)) (str_body u)"
      unfolding ps by (subst str_body.simps) (simp add: unescape_def unescape_u_def hex_val_def)
    ultimately show ?thesis by (simp add: ps)
  qed
qed

lemma str_body_raw:
  assumes "128 \<le> byte (hd s)" and "utf8_len s \<noteq> 0" and "s \<noteq> []"
  shows "str_body (take (utf8_len s) s @ u) = map_option (\<lambda>(y, r). (take (utf8_len s) s @ y, r)) (str_body u)"
proof -
  obtain c s' where s: "s = c # s'" using assms(3) by (cases s) auto
  let ?n = "utf8_len s"
  obtain m where n: "?n = Suc m" using assms(2) by (cases ?n) auto
  have len: "utf8_len (take ?n s @ u) = ?n" using utf8_len_take assms(2) by blast
  have hd: "take ?n s @ u = c # (take m s' @ u)" unfolding n by (simp add: s)
  have le: "length (take ?n s) = ?n" using utf8_len_le [of s] by simp
  have "c \<noteq> dq" "c \<noteq> bsl" "\<not> byte c < 32" using assms(1) s by auto
  then have "str_body (take ?n s @ u) =
      map_option (\<lambda>(y, r). (take ?n (take ?n s @ u) @ y, r)) (str_body (drop ?n (take ?n s @ u)))"
    using len assms(2) by (subst str_body.simps) (simp add: hd del: utf8_len.simps)
  then show ?thesis using le by simp
qed

lemma str_body_escape:
  "valid_utf8 s \<Longrightarrow> str_body (escape s @ dq # rest) = Some (s, rest)"
proof (induction s rule: length_induct)
  case (1 s)
  show ?case
  proof (cases "s = []")
    case True
    then show ?thesis by (simp add: escape.simps [of "[]"] str_body.simps [of "dq # rest"])
  next
    case False
    let ?n = "utf8_len s"
    from False "1.prems" have n: "?n \<noteq> 0" and tail: "valid_utf8 (drop ?n s)"
      by (auto simp: valid_utf8.simps [of s] split: if_splits)
    with False "1.IH" have IH: "str_body (escape (drop ?n s) @ dq # rest) = Some (drop ?n s, rest)"
      by simp
    show ?thesis
    proof (cases "byte (hd s) < 128")
      case True
      with False have s: "s = hd s # drop ?n s" and "?n = 1" by (cases s; simp)+
      have esc: "escape s = escape_ascii (hd s) @ escape (drop ?n s)"
        using True False \<open>?n = 1\<close> by (simp add: escape.simps [of s] drop_Suc)
      show ?thesis
        unfolding esc append_assoc str_body_ascii [OF True] IH using s by simp
    next
      case nonascii: False
      have esc: "escape s = (case line_sep s of Some t \<Rightarrow> t | None \<Rightarrow> take ?n s) @ escape (drop ?n s)"
        using nonascii False n by (simp add: escape.simps [of s])
      show ?thesis
      proof (cases "line_sep s")
        case None
        with esc have "escape s = take ?n s @ escape (drop ?n s)" by simp
        with str_body_raw [of s "escape (drop ?n s) @ dq # rest"] nonascii n False IH show ?thesis by simp
      next
        case (Some t)
        with line_sep_utf8 [OF Some] esc IH show ?thesis by simp
      qed
    qed
  qed
qed

section \<open>Parsing consumes its input\<close>

lemma str_body_length: "str_body s = Some (x, t) \<Longrightarrow> length t < length s"
proof (induction s arbitrary: x rule: str_body.induct)
  case (1 s)
  show ?case
  proof (cases s)
    case Nil
    with "1.prems" show ?thesis by (simp add: str_body.simps)
  next
    case (Cons c s')
    note step = "1.prems" [unfolded str_body.simps [of s]]
    show ?thesis
    proof (cases "c = bsl")
      case True
      with step Cons obtain y u z where "unescape s' = Some (y, u)" "str_body u = Some (z, t)"
        by (auto split: option.splits prod.splits)
      with "1.IH"(1) [OF Cons, of "(y, u)" y u z] True Cons show ?thesis
        using unescape_length [of s' y u] by simp
    next
      case False
      show ?thesis
      proof (cases "c = dq \<or> utf8_len s = 0")
        case True
        with step Cons False "1.IH"(2) [OF Cons] show ?thesis
          by (auto split: if_splits)
      next
        case nz: False
        with step Cons False obtain z where "str_body (drop (utf8_len s) s) = Some (z, t)" "\<not> byte c < 32"
          by (auto split: if_splits simp del: utf8_len.simps)
        with "1.IH"(3) [OF Cons, of z] nz False Cons have "length t < length (drop (utf8_len s) s)" by simp
        then show ?thesis by simp
      qed
    qed
  qed
qed

lemma num_int_length: "num_int s = Some (x, t) \<Longrightarrow> length t < length s"
  by (auto simp: num_int_def span_digits_def length_dropWhile_le less_Suc_eq_le split: list.splits if_splits)

lemma num_frac_length: "num_frac s = Some (x, t) \<Longrightarrow> length t \<le> length s"
  by (auto simp: num_frac_def span_digits_def intro: le_SucI length_dropWhile_le split: list.splits if_splits)

lemma num_exp_length: "num_exp s = Some (x, t) \<Longrightarrow> length t \<le> length s"
  by (auto simp: num_exp_def span_digits_def intro: le_SucI length_dropWhile_le split: list.splits if_splits)

lemma parse_number_length: "parse_number s = Some (x, t) \<Longrightarrow> length t < length s"
  by (auto simp: parse_number_def split: option.splits prod.splits list.splits if_splits
      dest!: num_int_length num_frac_length num_exp_length)

lemma strip_prefix_length: "strip_prefix p s = Some t \<Longrightarrow> length t \<le> length s"
  by (induction p s rule: strip_prefix.induct) (auto split: if_splits)


lemma skip_ws_le: "skip_ws s = c # r \<Longrightarrow> length r + 1 \<le> length s"
  using skip_ws_Cons_length by fastforce

text \<open>The parts of a list of elements and of members that was read.\<close>

lemma parse_elemsE:
  assumes "parse_elems d s = Some (vs, t)"
  obtains v r c r' where "parse_value d s = Some (v, r)" "skip_ws r = c # r'" "c = CHR '']''" "t = r'"
  | v r c r' vs' where "parse_value d s = Some (v, r)" "skip_ws r = c # r'" "c \<noteq> CHR '']''" "c = CHR '',''"
      "length r' < length s" "parse_elems d r' = Some (vs', t)"
  using assms by (auto simp: parse_elems.simps [of d s] split: option.splits list.splits if_splits)

lemma parse_membersE:
  assumes "parse_members d s = Some (kvs, t)"
  obtains q s1 k s2 c s3 v r c' r' where "skip_ws s = q # s1" "q = dq" "str_body s1 = Some (k, s2)" "skip_ws s2 = c # s3"
      "c = CHR '':''" "length s3 < length s" "parse_value d s3 = Some (v, r)" "skip_ws r = c' # r'"
      "c' = CHR ''}'' \<and> t = r' \<or>
       c' \<noteq> CHR ''}'' \<and> c' = CHR '','' \<and> length r' < length s \<and> (\<exists>kvs'. parse_members d r' = Some (kvs', t))"
  using assms by (auto simp: parse_members.simps [of d s] split: option.splits list.splits if_splits)

lemma parse_value_len:
  assumes "parse_value d s = Some (v, t)" "skip_ws s = c # r"
    and "\<And>c2 r2 vs. c = CHR ''['' \<Longrightarrow> d \<noteq> 0 \<Longrightarrow> skip_ws r = c2 # r2 \<Longrightarrow> c2 \<noteq> CHR '']'' \<Longrightarrow>
      parse_elems (d - 1) r = Some (vs, t) \<Longrightarrow> length t < length r"
    and "\<And>c2 r2 kvs. c = CHR ''{'' \<Longrightarrow> d \<noteq> 0 \<Longrightarrow> skip_ws r = c2 # r2 \<Longrightarrow> c2 \<noteq> CHR ''}'' \<Longrightarrow>
      parse_members (d - 1) r = Some (kvs, t) \<Longrightarrow> length t < length r"
  shows "length t \<le> length r"
proof -
  consider "c = dq" | "c = CHR ''[''" | "c = CHR ''{''" | "c \<noteq> dq" "c \<noteq> CHR ''[''" "c \<noteq> CHR ''{''" by blast
  then show ?thesis
  proof cases
    case 1
    with assms(1,2) show ?thesis by (auto simp: parse_value.simps [of d s] dest: str_body_length)
  next
    case 2
    with assms(1,2,3) show ?thesis
      by (auto simp: parse_value.simps [of d s] split: if_splits list.splits dest: skip_ws_Cons_length intro: less_imp_le)
  next
    case 3
    with assms(1,2,4) show ?thesis
      by (auto simp: parse_value.simps [of d s] split: if_splits list.splits dest: skip_ws_Cons_length intro: less_imp_le)
  next
    case 4
    with assms(1,2) show ?thesis
      by (auto simp: parse_value.simps [of d s] split: if_splits dest!: strip_prefix_length parse_number_length)
  qed
qed

lemma parse_shortens:
  "parse_value d s = Some (v, t) \<Longrightarrow> length t < length s"
  "parse_elems d s = Some (vs, t) \<Longrightarrow> length t < length s"
  "parse_members d s = Some (kvs, t) \<Longrightarrow> length t < length s"
proof (induction d s and d s and d s arbitrary: v t and vs t and kvs t
    rule: parse_value_parse_elems_parse_members.induct)
  case (1 d s)
  from "1.prems" obtain c r where ws: "skip_ws s = c # r" and less: "length r < length s"
    by (auto simp: parse_value.simps [of d s] skip_ws_Cons_length split: list.splits)
  have "length t \<le> length r"
    by (rule parse_value_len [OF "1.prems" ws]) (use "1.IH" [OF ws] in auto)
  with less show ?case by simp
next
  case (2 d s)
  from "2.prems" show ?case
  proof (cases rule: parse_elemsE)
    case (1 v r c r')
    with "2.IH"(1) [OF 1(1)] skip_ws_Cons_length [OF 1(2)] show ?thesis by simp
  next
    case step: (2 v r c r' vs')
    with "2.IH"(2) [OF step(1) refl step(2,3), of vs' t] show ?thesis by simp
  qed
next
  case (3 d s)
  from "3.prems" show ?case
  proof (cases rule: parse_membersE)
    case step: (1 q s1 k s2 c s3 v r c' r')
    have "length r' < length s"
      using "3.IH"(1) [OF step(1) _ step(3) refl step(4), of v r] step skip_ws_Cons_length [OF step(8)] by simp
    with "3.IH"(2) [OF step(1) _ step(3) refl step(4) _ step(7) refl step(8)] step show ?thesis by fastforce
  qed
qed

section \<open>Printed values are read back\<close>

text \<open>What may follow a value: nothing, or a character that no number continues with.\<close>

definition delim :: "string \<Rightarrow> bool" where
  "delim s \<longleftrightarrow> (case s of [] \<Rightarrow> True | c # _ \<Rightarrow> c = CHR '','' \<or> c = CHR '']'' \<or> c = CHR ''}'' \<or> is_ws c)"

lemma delim_Cons_no_number:
  "delim (c # r) \<Longrightarrow> \<not> is_digit c \<and> c \<noteq> CHR ''.'' \<and> c \<noteq> CHR ''e'' \<and> c \<noteq> CHR ''E''"
  by (auto simp: delim_def is_digit_def is_ws_def)

lemma span_digits_append:
  assumes "span_digits s = (ds, t)" "delim rest"
  shows "span_digits (s @ rest) = (ds, t @ rest)"
proof (cases "\<forall>c \<in> set s. is_digit c")
  case True
  then have "takeWhile is_digit s = s" by (simp add: takeWhile_eq_all_conv)
  with True assms show ?thesis
    by (cases rest) (auto simp: span_digits_def takeWhile_append2 dropWhile_append2 dest: delim_Cons_no_number)
next
  case False
  then obtain c where "c \<in> set s" "\<not> is_digit c" by blast
  with assms(1) show ?thesis
    by (auto simp: span_digits_def takeWhile_append1 dropWhile_append1)
qed

lemma num_int_append:
  "num_int s = Some (x, t) \<Longrightarrow> delim rest \<Longrightarrow> num_int (s @ rest) = Some (x, t @ rest)"
  using span_digits_append [of s x t rest]
  by (auto simp: num_int_def split: list.splits if_splits)

lemma num_frac_append:
  assumes "num_frac s = Some (x, t)" "delim rest"
  shows "num_frac (s @ rest) = Some (x, t @ rest)"
proof (cases s)
  case Nil
  with assms show ?thesis
    by (cases rest) (auto simp: num_frac_def dest: delim_Cons_no_number)
next
  case (Cons c r)
  obtain ds u where sp: "span_digits r = (ds, u)" by (cases "span_digits r")
  show ?thesis
    using assms(1) span_digits_append [OF sp assms(2)] by (auto simp: num_frac_def Cons sp split: if_splits)
qed

lemma num_exp_append:
  assumes "num_exp s = Some (x, t)" "delim rest"
  shows "num_exp (s @ rest) = Some (x, t @ rest)"
proof (cases s)
  case Nil
  with assms show ?thesis
    by (cases rest) (auto simp: num_exp_def dest: delim_Cons_no_number)
next
  case (Cons c r)
  show ?thesis
  proof (cases "(c = CHR ''e'' \<or> c = CHR ''E'') \<and> r \<noteq> []")
    case True
    then obtain sg r' where r: "r = sg # r'" by (cases r) auto
    obtain ds u where sp: "span_digits r = (ds, u)" by (cases "span_digits r")
    obtain ds' u' where sp': "span_digits r' = (ds', u')" by (cases "span_digits r'")
    show ?thesis
      using assms(1) True span_digits_append [OF sp assms(2)] span_digits_append [OF sp' assms(2)] sp sp'
      by (auto simp: num_exp_def Cons r split: if_splits)
  next
    case False
    with assms Cons show ?thesis by (auto simp: num_exp_def split: if_splits)
  qed
qed

lemma parse_number_append:
  assumes "parse_number s = Some (x, t)" "delim rest"
  shows "parse_number (s @ rest) = Some (x, t @ rest)"
proof -
  let ?sign = "\<lambda>s. case s of c # r \<Rightarrow> if c = CHR ''-'' then (''-'', r) else ([], s) | [] \<Rightarrow> ([], s)"
  have "s \<noteq> []" using parse_number_length [OF assms(1)] by auto
  obtain sg s1 where sg: "?sign s = (sg, s1)" by (cases "?sign s")
  with \<open>s \<noteq> []\<close> have sg': "?sign (s @ rest) = (sg, s1 @ rest)" by (cases s) (auto split: if_splits)
  from assms(1) obtain i s2 f s3 e where "num_int s1 = Some (i, s2)" "num_frac s2 = Some (f, s3)"
    "num_exp s3 = Some (e, t)" and x: "x = sg @ i @ f @ e"
    unfolding parse_number_def sg by (auto split: option.splits)
  then have "num_int (s1 @ rest) = Some (i, s2 @ rest)" "num_frac (s2 @ rest) = Some (f, s3 @ rest)"
    "num_exp (s3 @ rest) = Some (e, t @ rest)"
    using assms(2) by (simp_all add: num_int_append num_frac_append num_exp_append)
  then show ?thesis unfolding parse_number_def sg' x by simp
qed

lemma parse_number_head:
  "parse_number (c # r) = Some (x, t) \<Longrightarrow> c = CHR ''-'' \<or> is_digit c"
  by (auto simp: parse_number_def num_int_def is_digit_def split: option.splits prod.splits if_splits list.splits)

text \<open>A value the printer writes as a JSON text of at most \<open>d\<close> levels.\<close>

fun wf_json :: "nat \<Rightarrow> json \<Rightarrow> bool" where
  "wf_json d JNull = True"
| "wf_json d (JBool b) = True"
| "wf_json d (JNum n) = (parse_number n = Some (n, []))"
| "wf_json d (JStr s) = valid_utf8 s"
| "wf_json d (JArr vs) = (d \<noteq> 0 \<and> (\<forall>v \<in> set vs. wf_json (d - 1) v))"
| "wf_json d (JObj kvs) = (d \<noteq> 0 \<and> (\<forall>kv \<in> set kvs. valid_utf8 (fst kv) \<and> wf_json (d - 1) (snd kv)))"

text \<open>The first character of a printed value: not white space, not a closing bracket.\<close>

definition opener :: "char \<Rightarrow> bool" where
  "opener c \<longleftrightarrow> \<not> is_ws c \<and> c \<noteq> CHR '']'' \<and> c \<noteq> CHR ''}''"

lemma json_print_head:
  assumes "wf_json d j"
  shows "\<exists>c r. json_print j = c # r \<and> opener c"
proof (cases j)
  case (JNum n)
  with assms have "parse_number n = Some (n, [])" by simp
  moreover from this have "n \<noteq> []" using parse_number_length by fastforce
  ultimately show ?thesis using JNum
    by (cases n) (auto simp: opener_def is_ws_def is_digit_def dest!: parse_number_head)
qed (auto simp: opener_def is_ws_def quote_def)

lemma skip_ws_opener [simp]: "opener c \<Longrightarrow> skip_ws (c # r) = c # r"
  by (simp add: skip_ws_def opener_def)

lemma skip_ws_punct [simp]:
  "skip_ws (CHR '','' # r) = CHR '','' # r" "skip_ws (CHR '']'' # r) = CHR '']'' # r"
  "skip_ws (CHR ''}'' # r) = CHR ''}'' # r" "skip_ws (CHR '':'' # r) = CHR '':'' # r"
  "skip_ws (dq # r) = dq # r" "skip_ws (CHR ''['' # r) = CHR ''['' # r" "skip_ws (CHR ''{'' # r) = CHR ''{'' # r"
  "skip_ws (CHR ''t'' # r) = CHR ''t'' # r" "skip_ws (CHR ''f'' # r) = CHR ''f'' # r"
  "skip_ws (CHR ''n'' # r) = CHR ''n'' # r" "skip_ws [] = []"
  by (simp_all add: skip_ws_def is_ws_def)

lemma commas_simps [simp]:
  "commas [] = []" "commas [s] = s" "commas (s # t # ss) = s @ CHR '','' # commas (t # ss)"
  by (simp_all add: commas_def)

lemma parse_elems_print:
  assumes "\<And>v rest. v \<in> set vs \<Longrightarrow> delim rest \<Longrightarrow> parse_value d (json_print v @ rest) = Some (v, rest)"
    and "vs \<noteq> []"
  shows "parse_elems d (commas (map json_print vs) @ CHR '']'' # rest) = Some (vs, rest)"
  using assms
proof (induction vs rule: induct_list012)
  case (2 v)
  then show ?case by (simp add: parse_elems.simps [of d "_ @ _"] delim_def)
next
  case (3 v v' vs)
  let ?tail = "commas (map json_print (v' # vs)) @ CHR '']'' # rest"
  have "parse_elems d ?tail = Some (v' # vs, rest)"
    using 3 by simp
  moreover have "parse_value d (json_print v @ CHR '','' # ?tail) = Some (v, CHR '','' # ?tail)"
    using "3.prems"(1) [of v "CHR '','' # ?tail"] by (simp add: delim_def)
  ultimately show ?case
    by (simp add: parse_elems.simps [of d "json_print v @ _"])
qed simp

lemma parse_members_print:
  assumes "\<And>k v rest. (k, v) \<in> set kvs \<Longrightarrow> delim rest \<Longrightarrow> parse_value d (json_print v @ rest) = Some (v, rest)"
    and "\<And>k v. (k, v) \<in> set kvs \<Longrightarrow> valid_utf8 k" and "kvs \<noteq> []"
  shows "parse_members d (commas (map (\<lambda>(k, v). quote k @ '':'' @ json_print v) kvs) @ CHR ''}'' # rest) = Some (kvs, rest)"
  using assms
proof (induction kvs rule: induct_list012)
  case (2 kv)
  obtain k v where kv: "kv = (k, v)" by (cases kv)
  show ?case
    using "2.prems"(1) [of k v "CHR ''}'' # rest"] "2.prems"(2) [of k v]
    by (simp add: kv quote_def parse_members.simps [of d "dq # _"] str_body_escape delim_def)
next
  case (3 kv kv' kvs)
  obtain k v where kv: "kv = (k, v)" by (cases kv)
  let ?tail = "commas (map (\<lambda>(k, v). quote k @ '':'' @ json_print v) (kv' # kvs)) @ CHR ''}'' # rest"
  have "parse_members d ?tail = Some (kv' # kvs, rest)"
    using 3 by (metis list.distinct(1) list.set_intros(2))
  moreover have "parse_value d (json_print v @ CHR '','' # ?tail) = Some (v, CHR '','' # ?tail)"
    using "3.prems"(1) [of k v "CHR '','' # ?tail"] by (simp add: kv delim_def)
  moreover have "valid_utf8 k" using "3.prems"(2) [of k v] kv by simp
  ultimately show ?case
    by (simp add: kv quote_def parse_members.simps [of d "dq # _"] str_body_escape)
qed simp

lemma parse_value_print:
  "wf_json d j \<Longrightarrow> delim rest \<Longrightarrow> parse_value d (json_print j @ rest) = Some (j, rest)"
proof (induction j arbitrary: d rest)
  case (JBool b)
  then show ?case by (cases b) (simp_all add: parse_value.simps)
next
  case (JNum n)
  then obtain c r where n: "n = c # r" and "opener c"
    using json_print_head [of d "JNum n"] by auto
  have num: "parse_number (n @ rest) = Some (n, rest)"
    using JNum parse_number_append by fastforce
  have "c = CHR ''-'' \<or> is_digit c"
    using JNum.prems n by (auto dest: parse_number_head)
  then have "c \<notin> {dq, CHR ''['', CHR ''{'', CHR ''t'', CHR ''f'', CHR ''n''}"
    by (auto simp: is_digit_def)
  with num n \<open>opener c\<close> show ?case by (simp add: parse_value.simps)
next
  case (JStr s)
  then show ?case by (simp add: parse_value.simps quote_def str_body_escape)
next
  case (JArr vs)
  show ?case
  proof (cases vs)
    case Nil
    with JArr.prems show ?thesis by (simp add: parse_value.simps)
  next
    case (Cons v vs')
    let ?body = "commas (map json_print vs) @ CHR '']'' # rest"
    obtain c r where "json_print v = c # r" "opener c"
      using JArr.prems Cons json_print_head by fastforce
    then obtain r' where body: "?body = c # r'"
      using Cons by (cases vs') auto
    have "parse_elems (d - 1) ?body = Some (vs, rest)"
      using JArr Cons by (intro parse_elems_print) auto
    with \<open>opener c\<close> JArr.prems show ?thesis
      by (simp add: parse_value.simps body opener_def)
  qed
next
  case (JObj kvs)
  show ?case
  proof (cases kvs)
    case Nil
    with JObj.prems show ?thesis by (simp add: parse_value.simps)
  next
    case (Cons kv kvs')
    let ?body = "commas (map (\<lambda>(k, v). quote k @ CHR '':'' # json_print v) kvs) @ CHR ''}'' # rest"
    obtain r' where body: "?body = dq # r'"
      using Cons by (cases kv; cases kvs') (auto simp: quote_def)
    have "parse_members (d - 1) ?body = Some (kvs, rest)"
      using JObj Cons parse_members_print [of kvs "d - 1" rest] by fastforce
    with JObj.prems show ?thesis
      by (simp add: parse_value.simps body)
  qed
qed (simp add: parse_value.simps)

lemma parse_json_print: "wf_json max_depth j \<Longrightarrow> parse_json (json_print j) = Some j"
  using parse_value_print [of max_depth j "[]"] by (simp add: parse_json_def delim_def)
end
