(* ===== verification/Json_Decode.thy ===== *)
theory Json_Decode
  imports Go_Json "HOL-Library.AList"
begin

text \<open>
  \<open>json.Unmarshal\<close> (Go 1.16) for the types the framework decodes into: strings, integers,
  structs, slices of structs, pointers and \<open>map[string]interface{}\<close>.

  Unmarshalling first checks the whole text, so that a syntax error leaves the target as it
  was. A value that does not fit its target is skipped: the target keeps what it had, decoding
  goes on, and the call returns an error in the end. A decoder takes the value and the old
  target and returns the new target and whether everything fitted.
\<close>

type_synonym 'a dec = "json \<Rightarrow> 'a \<Rightarrow> 'a \<times> bool"

definition dec_string :: "string dec" where
  "dec_string j s = (case j of JStr t \<Rightarrow> (t, True) | JNull \<Rightarrow> (s, True) | _ \<Rightarrow> (s, False))"

text \<open>\<open>strconv.ParseInt(s, 10, 64)\<close> on a JSON number.\<close>

definition parse_int :: "string \<Rightarrow> i64 option" where
  "parse_int s =
     (case (case s of c # r \<Rightarrow> if c = CHR ''-'' then (True, r) else (False, s) | [] \<Rightarrow> (False, [])) of
        (neg, ds) \<Rightarrow>
          let n = (if neg then - int (read_digits ds) else int (read_digits ds))
          in if ds \<noteq> [] \<and> list_all is_digit ds \<and> - (2 ^ 63) \<le> n \<and> n < 2 ^ 63 then Some (of_int n) else None)"

definition dec_int :: "i64 dec" where
  "dec_int j n =
     (case j of
        JNum s \<Rightarrow> (case parse_int s of Some i \<Rightarrow> (i, True) | None \<Rightarrow> (n, False))
      | JNull \<Rightarrow> (n, True)
      | _ \<Rightarrow> (n, False))"

text \<open>
  Names of fields are compared without regard to case, where U+212A (the Kelvin sign) folds
  to K and U+017F (the long s) to S.
\<close>

function fold_key :: "string \<Rightarrow> string" where
  "fold_key s =
     (case s of
        [] \<Rightarrow> []
      | c # r \<Rightarrow>
          if take 3 s = utf8_encode 8490 then CHR ''K'' # fold_key (drop 3 s)
          else if take 2 s = utf8_encode 383 then CHR ''S'' # fold_key (drop 2 s)
          else (if 97 \<le> byte c \<and> byte c \<le> 122 then char_of (byte c - 32) else c) # fold_key r)"
  by pat_completeness auto
termination
  by (relation "measure length") auto

declare fold_key.simps [simp del]

text \<open>The field a key names: the one of exactly that name, else the first one of that name up to case.\<close>

definition field_of :: "(string \<times> 'f) list \<Rightarrow> string \<Rightarrow> 'f option" where
  "field_of fs k =
     (case map_of fs k of
        Some f \<Rightarrow> Some f
      | None \<Rightarrow> map_of (map (\<lambda>(n, f). (fold_key n, f)) fs) (fold_key k))"

definition dec_field :: "(string \<times> 's dec) list \<Rightarrow> string \<times> json \<Rightarrow> 's \<times> bool \<Rightarrow> 's \<times> bool" where
  "dec_field fs kv sb =
     (case field_of fs (fst kv) of
        Some f \<Rightarrow> (case f (snd kv) (fst sb) of (s, b) \<Rightarrow> (s, b \<and> snd sb))
      | None \<Rightarrow> sb)"

text \<open>Members are decoded in their order, a repeated one over what the earlier one left.\<close>

definition dec_struct :: "(string \<times> 's dec) list \<Rightarrow> 's dec" where
  "dec_struct fs j s =
     (case j of
        JObj kvs \<Rightarrow> fold (dec_field fs) kvs (s, True)
      | JNull \<Rightarrow> (s, True)
      | _ \<Rightarrow> (s, False))"

text \<open>A field of a struct, by how it is read and replaced.\<close>

definition in_field :: "('s \<Rightarrow> 'a) \<Rightarrow> ('a \<Rightarrow> 's \<Rightarrow> 's) \<Rightarrow> 'a dec \<Rightarrow> 's dec" where
  "in_field get put f j s = (case f j (get s) of (a, b) \<Rightarrow> (put a s, b))"

text \<open>
  A slice: nil, or its elements and the elements its array still holds behind them, which
  come back as the old values of the elements when a later, longer array is decoded into it.
\<close>

datatype 'a slice = NilSlice | SliceOf "'a list" "'a list"

fun elems :: "'a slice \<Rightarrow> 'a list" where
  "elems NilSlice = []"
| "elems (SliceOf xs _) = xs"

fun backing :: "'a slice \<Rightarrow> 'a list" where
  "backing NilSlice = []"
| "backing (SliceOf xs ys) = xs @ ys"

fun dec_elems :: "'a dec \<Rightarrow> 'a \<Rightarrow> json list \<Rightarrow> 'a list \<Rightarrow> 'a list \<times> 'a list \<times> bool" where
  "dec_elems f z [] old = ([], old, True)"
| "dec_elems f z (v # vs) old =
     (case f v (case old of [] \<Rightarrow> z | x # _ \<Rightarrow> x) of (a, b) \<Rightarrow>
      (case dec_elems f z vs (case old of [] \<Rightarrow> [] | _ # xs \<Rightarrow> xs) of (as, rest, bs) \<Rightarrow> (a # as, rest, b \<and> bs)))"

definition dec_slice :: "'a dec \<Rightarrow> 'a \<Rightarrow> 'a slice dec" where
  "dec_slice f z j sl =
     (case j of
        JArr [] \<Rightarrow> (SliceOf [] [], True)
      | JArr vs \<Rightarrow> (case dec_elems f z vs (backing sl) of (as, rest, b) \<Rightarrow> (SliceOf as rest, b))
      | JNull \<Rightarrow> (NilSlice, True)
      | _ \<Rightarrow> (sl, False))"

text \<open>A pointer target: null makes it nil, anything else is decoded into what it points to.\<close>

definition dec_ptr :: "'a dec \<Rightarrow> 'a \<Rightarrow> 'a option dec" where
  "dec_ptr f z j p =
     (case j of
        JNull \<Rightarrow> (nil, True)
      | _ \<Rightarrow> (case f j (case p of Some a \<Rightarrow> a | None \<Rightarrow> z) of (a, b) \<Rightarrow> (Some a, b)))"

text \<open>
  An \<open>interface{}\<close> value: a number is a float64, given by its JSON literal; a map is an
  association list with distinct keys.
\<close>

datatype any = ANil | ABool bool | AFloat string | AString string | ASlice "any list" | AMap "(string \<times> any) list"

text \<open>Whether the value of a JSON number rounds to something beyond the largest float64.\<close>

definition num_parts :: "string \<Rightarrow> nat \<times> nat \<times> int" where
  "num_parts s =
     (let u = (case s of c # r \<Rightarrow> if c = CHR ''-'' then r else s | [] \<Rightarrow> []);
          mant = takeWhile (\<lambda>c. c \<noteq> CHR ''e'' \<and> c \<noteq> CHR ''E'') u;
          ex = drop (Suc (length mant)) u;
          frac = drop (Suc (length (takeWhile is_digit mant))) mant;
          exd = filter is_digit ex;
          e = (if ex \<noteq> [] \<and> hd ex = CHR ''-'' then - int (read_digits exd) else int (read_digits exd))
      in (read_digits (filter is_digit mant), length frac, e))"

definition float_overflows :: "string \<Rightarrow> bool" where
  "float_overflows s =
     (case num_parts s of (m, k, e) \<Rightarrow>
        let bound = 2 ^ 1024 - 2 ^ 970 :: nat; e' = e - int k
        in if 0 \<le> e' then bound \<le> m * 10 ^ nat e' else bound * 10 ^ nat (- e') \<le> m)"

fun any_of :: "json \<Rightarrow> any \<times> bool" where
  "any_of JNull = (ANil, True)"
| "any_of (JBool b) = (ABool b, True)"
| "any_of (JNum n) = (if float_overflows n then (ANil, False) else (AFloat n, True))"
| "any_of (JStr s) = (AString s, True)"
| "any_of (JArr vs) = (ASlice (map (fst \<circ> any_of) vs), list_all (snd \<circ> any_of) vs)"
| "any_of (JObj kvs) =
     (AMap (fold (\<lambda>(k, v) m. AList.update k (fst v) m) (map (\<lambda>(k, v). (k, any_of v)) kvs) []),
      list_all (\<lambda>(k, v). snd (any_of v)) kvs)"

type_synonym any_map = "(string \<times> any) list option"

definition dec_map :: "any_map dec" where
  "dec_map j m =
     (case j of
        JObj kvs \<Rightarrow>
          (Some (fold (\<lambda>(k, v) m. AList.update k (fst (any_of v)) m) kvs (case m of Some l \<Rightarrow> l | None \<Rightarrow> [])),
           list_all (\<lambda>(k, v). snd (any_of v)) kvs)
      | JNull \<Rightarrow> (nil, True)
      | _ \<Rightarrow> (m, False))"

definition unmarshal :: "'a dec \<Rightarrow> string \<Rightarrow> 'a \<Rightarrow> 'a \<times> err" where
  "unmarshal f s a =
     (case parse_json s of
        None \<Rightarrow> (a, Some (JsonError s))
      | Some j \<Rightarrow> (case f j a of (a', b) \<Rightarrow> (a', if b then nil else Some (JsonError s))))"

section \<open>Laws of decoding\<close>

text \<open>Members no field is named by do not matter.\<close>

lemma dec_struct_unknown:
  "dec_struct fs (JObj kvs) s = dec_struct fs (JObj (filter (\<lambda>kv. field_of fs (fst kv) \<noteq> None) kvs)) s"
proof -
  have "fold (dec_field fs) kvs sb = fold (dec_field fs) (filter (\<lambda>kv. field_of fs (fst kv) \<noteq> None) kvs) sb" for sb
    by (induction kvs arbitrary: sb) (auto simp: dec_field_def)
  then show ?thesis by (simp add: dec_struct_def)
qed

lemma dec_struct_simps [simp]:
  "dec_struct fs (JObj []) s = (s, True)"
  "dec_struct fs JNull s = (s, True)"
  by (simp_all add: dec_struct_def)

lemma fold_dec_field_and:
  "fold (dec_field fs) kvs (s, b) = (case fold (dec_field fs) kvs (s, True) of (t, ok) \<Rightarrow> (t, ok \<and> b))"
proof (induction kvs arbitrary: s b)
  case (Cons kv kvs)
  show ?case
  proof (cases "field_of fs (fst kv)")
    case None
    with Cons [of s b] show ?thesis by (simp add: dec_field_def)
  next
    case (Some f)
    obtain t b1 where f: "f (snd kv) s = (t, b1)" by (cases "f (snd kv) s")
    show ?thesis
      using Some f Cons.IH [of t "b1 \<and> b"] Cons.IH [of t b1]
      by (auto simp: dec_field_def split: prod.splits)
  qed
qed simp

lemma dec_struct_Cons [simp]:
  "dec_struct fs (JObj ((k, v) # kvs)) s =
     (case field_of fs k of
        None \<Rightarrow> dec_struct fs (JObj kvs) s
      | Some f \<Rightarrow> (case f v s of (t, b) \<Rightarrow> (case dec_struct fs (JObj kvs) t of (u, b') \<Rightarrow> (u, b' \<and> b))))"
proof (cases "field_of fs k")
  case None
  then show ?thesis by (simp add: dec_struct_def dec_field_def)
next
  case (Some f)
  obtain t b where "f v s = (t, b)" by (cases "f v s")
  with Some show ?thesis
    using fold_dec_field_and [of fs kvs t b] by (simp add: dec_struct_def dec_field_def)
qed

lemma dec_string_JStr [simp]: "dec_string (JStr s) t = (s, True)"
  by (simp add: dec_string_def)

lemma field_of_exact [simp]:
  "field_of ((n, f) # fs) n = Some f"
  "map_of fs k = Some g \<Longrightarrow> n \<noteq> k \<Longrightarrow> field_of ((n, f) # fs) k = Some g"
  by (simp_all add: field_of_def)

text \<open>
  A type that is printed and read back: what a decoder promises for the values \<open>enc a\<close> that
  marshalling makes of the \<open>a\<close> with \<open>good a\<close>, decoding into the target \<open>zero\<close>.
\<close>

locale codec =
  fixes dec :: "'a dec" and enc :: "'a \<Rightarrow> json" and good :: "'a \<Rightarrow> bool" and zero :: 'a
  assumes dec_enc: "good a \<Longrightarrow> dec (enc a) zero = (a, True)"
    and wf_enc: "good a \<Longrightarrow> wf_json max_depth (enc a)"
begin

lemma unmarshal_marshal: "good a \<Longrightarrow> unmarshal dec (json_print (enc a)) zero = (a, nil)"
  by (simp add: unmarshal_def parse_json_print wf_enc dec_enc)

lemma marshal_inj: "good a \<Longrightarrow> good b \<Longrightarrow> json_print (enc a) = json_print (enc b) \<longleftrightarrow> a = b"
  by (metis fst_conv unmarshal_marshal)

end

text \<open>A slice is read back when its elements are, whatever the elements are decoded over.\<close>

lemma dec_elems_enc:
  assumes "\<And>a z. good a \<Longrightarrow> dec (enc a) z = (a, True)" and "list_all good as"
  shows "dec_elems dec zero (map enc as) [] = (as, [], True)"
  using assms(2) by (induction as) (simp_all add: assms(1))

lemma dec_slice_enc:
  assumes "\<And>a z. good a \<Longrightarrow> dec (enc a) z = (a, True)" and "list_all good as"
  shows "dec_slice dec zero (JArr (map enc as)) NilSlice = (SliceOf as [], True)"
  using dec_elems_enc [where dec = dec and good = good and enc = enc and zero = zero, OF assms] by (cases as) (simp_all add: dec_slice_def)

text \<open>Integers.\<close>

lemma nat_digits_digits: "list_all is_digit (nat_digits n)"
  using nat_digits_range by (fastforce simp: list_all_iff is_digit_def)

lemma parse_int_fmt_d: "parse_int (fmt_d (sint i)) = Some i"
proof -
  have range: "- (2 ^ 63) \<le> sint i" "sint i < 2 ^ 63" using sint_range64 [of i] by auto
  show ?thesis
  proof (cases "sint i < 0")
    case True
    with range show ?thesis
      by (simp add: parse_int_def fmt_d_def nat_digits_digits)
  next
    case False
    obtain c r where ds: "nat_digits (nat (sint i)) = c # r"
      by (metis nat_digits_not_Nil neq_Nil_conv)
    with hd_nat_digits [of "nat (sint i)"] have "c \<noteq> CHR ''-''" by simp
    with range False ds nat_digits_digits [of "nat (sint i)"] read_nat_digits [of "nat (sint i)"] show ?thesis
      by (simp add: parse_int_def fmt_d_def)
  qed
qed

lemma nat_digits_no_zero: "0 < n \<Longrightarrow> hd (nat_digits n) \<noteq> CHR ''0''"
proof (induction n rule: nat_digits.induct)
  case (1 n)
  show ?case
  proof (cases "n < 10")
    case True
    have "digit_char n \<noteq> CHR ''0''"
    proof
      assume "digit_char n = CHR ''0''"
      then have "byte (digit_char n) = 48" by simp
      with True "1.prems" show False by simp
    qed
    with True show ?thesis by (simp add: nat_digits.simps [of n])
  next
    case False
    with "1.IH" "1.prems" show ?thesis by (simp add: nat_digits.simps [of n] div_greater_zero_iff)
  qed
qed

lemma num_int_nat_digits: "num_int (nat_digits n) = Some (nat_digits n, [])"
proof (cases "n = 0")
  case True
  have "byte (digit_char 0) = byte CHR ''0''" by simp
  then have "digit_char 0 = CHR ''0''" by (simp only: of_char_eq_iff)
  with True show ?thesis by (simp add: nat_digits.simps num_int_def)
next
  case False
  obtain c r where ds: "nat_digits n = c # r" by (metis nat_digits_not_Nil neq_Nil_conv)
  with nat_digits_no_zero [of n] nat_digits_digits [of n] False show ?thesis
    by (auto simp: num_int_def span_digits_def list_all_iff takeWhile_eq_all_conv dropWhile_eq_Nil_conv)
qed

lemma parse_number_fmt_d: "parse_number (fmt_d n) = Some (fmt_d n, [])"
proof (cases "n < 0")
  case True
  then show ?thesis
    by (simp add: parse_number_def fmt_d_def num_int_nat_digits num_frac_def num_exp_def)
next
  case False
  obtain c r where ds: "nat_digits (nat n) = c # r" by (metis nat_digits_not_Nil neq_Nil_conv)
  with hd_nat_digits [of "nat n"] num_int_nat_digits [of "nat n"] False show ?thesis
    by (simp add: parse_number_def fmt_d_def num_frac_def num_exp_def)
qed

lemma dec_int_fmt_d [simp]: "dec_int (JNum (fmt_d (sint i))) j = (i, True)"
  by (simp add: dec_int_def parse_int_fmt_d)

end
