(* ===== verification/Chainlink_Client.thy ===== *)
theory Chainlink_Client
  imports Json_Decode
begin

text \<open>
  \<open>client/chainlink_models.go\<close> and \<open>client/chainlink.go\<close>: the client of the REST interface
  of a Chainlink node. Go's HTTP client (the check of a URL and the exchange with the server)
  is a parameter \<open>'w http\<close>; what the framework does with the answer, JSON included, is
  modelled.
\<close>

section \<open>What the client uses of \<open>net/http\<close>\<close>

record cookie =
  ck_Name :: string
  ck_Value :: string

record request =
  rq_Method :: string
  rq_URL :: string
  rq_ContentType :: "string option"
  rq_Cookie :: string
  rq_Body :: string

text \<open>A response: the status, what reading the body to its end yields, and the cookies it sets.\<close>

record response =
  StatusCode :: int
  Body :: "string \<times> err"
  Cookies :: "cookie list"

text \<open>
  \<open>URL_error\<close> is the error of \<open>http.NewRequest\<close> for a URL. \<open>Do\<close> sends a request with the
  client of a \<open>*http.Client\<close>; as documented, its response is not nil when its error is nil.
\<close>

type_synonym http_client = nat

record 'w http =
  URL_error :: "string \<Rightarrow> err"
  Do :: "http_client \<Rightarrow> request \<Rightarrow> 'w \<Rightarrow> (response option \<times> err) \<times> 'w"

abbreviation (input) DefaultClient :: http_client where
  "DefaultClient \<equiv> 0"

definition NewRequest :: "'w http \<Rightarrow> string \<Rightarrow> string \<Rightarrow> string \<Rightarrow> go_error + request" where
  "NewRequest H method url body =
     (case URL_error H url of
        Some err \<Rightarrow> Inl err
      | None \<Rightarrow> Inr \<lparr>rq_Method = method, rq_URL = url, rq_ContentType = nil, rq_Cookie = [], rq_Body = body\<rparr>)"

text \<open>\<open>Request.AddCookie\<close>: only the name and the value are sent, cleaned of bytes a header may not hold.\<close>

definition cookie_name :: "string \<Rightarrow> string" where
  "cookie_name = map (\<lambda>c. if byte c = 10 \<or> byte c = 13 then CHR ''-'' else c)"

definition cookie_byte :: "char \<Rightarrow> bool" where
  "cookie_byte c \<longleftrightarrow> 32 \<le> byte c \<and> byte c < 127 \<and> c \<noteq> dq \<and> c \<noteq> CHR '';'' \<and> c \<noteq> bsl"

definition cookie_value :: "string \<Rightarrow> string" where
  "cookie_value s =
     (let v = filter cookie_byte s
      in if CHR '' '' \<in> set v \<or> CHR '','' \<in> set v then dq # v @ [dq] else v)"

definition AddCookie :: "cookie \<Rightarrow> request \<Rightarrow> request" where
  "AddCookie c r =
     (let s = cookie_name (ck_Name c) @ ''='' @ cookie_value (ck_Value c)
      in r\<lparr>rq_Cookie := (if rq_Cookie r = [] then s else rq_Cookie r @ ''; '' @ s)\<rparr>)"

definition Post :: "'w http \<Rightarrow> string \<Rightarrow> string \<Rightarrow> string \<Rightarrow> 'w \<Rightarrow> (response option \<times> err) \<times> 'w" where
  "Post H url contentType body w =
     (case NewRequest H ''POST'' url body of
        Inl err \<Rightarrow> ((nil, Some err), w)
      | Inr req \<Rightarrow> Do H DefaultClient (req\<lparr>rq_ContentType := Some contentType\<rparr>) w)"

section \<open>Models (\<open>client/chainlink_models.go\<close>)\<close>

record ChainlinkConfig =
  URL :: string
  Email :: string
  Password :: string

record ResponseSlice = rs_Data :: "any_map slice"
record Response = rp_Data :: any_map
record BridgeTypeAttributes =
  bta_Name :: string
  bta_URL :: string
record BridgeTypeData = btd_Attributes :: BridgeTypeAttributes
record BridgeType = bt_Data :: BridgeTypeData
record Session =
  sn_Email :: string
  sn_Password :: string
record OCRKeyAttributes =
  ocr_ID :: string
  ConfigPublicKey :: string
  OffChainPublicKey :: string
  OnChainSigningAddress :: string
record OCRKeyData = ocrd_Attributes :: OCRKeyAttributes
record OCRKey = ock_Data :: OCRKeyData
record OCRKeys = ocks_Data :: "OCRKeyData slice"
record P2PKeyAttributes =
  p2p_ID :: i64
  PeerID :: string
  p2p_PublicKey :: string
record P2PKeyData = p2pd_Attributes :: P2PKeyAttributes
record P2PKey = p2pk_Data :: P2PKeyData
record P2PKeys = p2pks_Data :: "P2PKeyData slice"
record ETHKeyAttributes = eth_Address :: string
record ETHKeyData = ethd_Attributes :: ETHKeyAttributes
record ETHKey = ethk_Data :: ETHKeyData
record ETHKeys = ethks_Data :: "ETHKeyData slice"
record SpecForm = sf_TOML :: string
record SpecData = sd_ID :: string
record Spec = sp_Data :: SpecData
record JobForm = jf_TOML :: string
record JobData = jd_ID :: string
record Job = job_Data :: JobData

text \<open>Unmarshalling follows the tags of the fields; a field without a tag has its own name.\<close>

definition dec_BridgeTypeAttributes :: "BridgeTypeAttributes dec" where
  "dec_BridgeTypeAttributes = dec_struct
     [(''name'', in_field bta_Name (\<lambda>a. bta_Name_update (\<lambda>_. a)) dec_string),
      (''url'', in_field bta_URL (\<lambda>a. bta_URL_update (\<lambda>_. a)) dec_string)]"

definition dec_BridgeTypeData :: "BridgeTypeData dec" where
  "dec_BridgeTypeData = dec_struct
     [(''attributes'', in_field btd_Attributes (\<lambda>a. btd_Attributes_update (\<lambda>_. a)) dec_BridgeTypeAttributes)]"

definition dec_BridgeType :: "BridgeType dec" where
  "dec_BridgeType = dec_struct [(''data'', in_field bt_Data (\<lambda>a. bt_Data_update (\<lambda>_. a)) dec_BridgeTypeData)]"

definition dec_OCRKeyAttributes :: "OCRKeyAttributes dec" where
  "dec_OCRKeyAttributes = dec_struct
     [(''id'', in_field ocr_ID (\<lambda>a. ocr_ID_update (\<lambda>_. a)) dec_string),
      (''configPublicKey'', in_field ConfigPublicKey (\<lambda>a. ConfigPublicKey_update (\<lambda>_. a)) dec_string),
      (''offChainPublicKey'', in_field OffChainPublicKey (\<lambda>a. OffChainPublicKey_update (\<lambda>_. a)) dec_string),
      (''onChainSigningAddress'', in_field OnChainSigningAddress (\<lambda>a. OnChainSigningAddress_update (\<lambda>_. a)) dec_string)]"

definition dec_OCRKeyData :: "OCRKeyData dec" where
  "dec_OCRKeyData = dec_struct
     [(''attributes'', in_field ocrd_Attributes (\<lambda>a. ocrd_Attributes_update (\<lambda>_. a)) dec_OCRKeyAttributes)]"

definition dec_OCRKey :: "OCRKey dec" where
  "dec_OCRKey = dec_struct [(''data'', in_field ock_Data (\<lambda>a. ock_Data_update (\<lambda>_. a)) dec_OCRKeyData)]"

definition zero_OCRKeyData :: OCRKeyData where
  "zero_OCRKeyData = \<lparr>ocrd_Attributes = \<lparr>ocr_ID = [], ConfigPublicKey = [], OffChainPublicKey = [], OnChainSigningAddress = []\<rparr>\<rparr>"

definition dec_OCRKeys :: "OCRKeys dec" where
  "dec_OCRKeys = dec_struct
     [(''data'', in_field ocks_Data (\<lambda>a. ocks_Data_update (\<lambda>_. a)) (dec_slice dec_OCRKeyData zero_OCRKeyData))]"

definition dec_P2PKeyAttributes :: "P2PKeyAttributes dec" where
  "dec_P2PKeyAttributes = dec_struct
     [(''id'', in_field p2p_ID (\<lambda>a. p2p_ID_update (\<lambda>_. a)) dec_int),
      (''peerId'', in_field PeerID (\<lambda>a. PeerID_update (\<lambda>_. a)) dec_string),
      (''publicKey'', in_field p2p_PublicKey (\<lambda>a. p2p_PublicKey_update (\<lambda>_. a)) dec_string)]"

definition dec_P2PKeyData :: "P2PKeyData dec" where
  "dec_P2PKeyData = dec_struct
     [(''attributes'', in_field p2pd_Attributes (\<lambda>a. p2pd_Attributes_update (\<lambda>_. a)) dec_P2PKeyAttributes)]"

definition dec_P2PKey :: "P2PKey dec" where
  "dec_P2PKey = dec_struct [(''data'', in_field p2pk_Data (\<lambda>a. p2pk_Data_update (\<lambda>_. a)) dec_P2PKeyData)]"

definition zero_P2PKeyData :: P2PKeyData where
  "zero_P2PKeyData = \<lparr>p2pd_Attributes = \<lparr>p2p_ID = 0, PeerID = [], p2p_PublicKey = []\<rparr>\<rparr>"

definition dec_P2PKeys :: "P2PKeys dec" where
  "dec_P2PKeys = dec_struct
     [(''data'', in_field p2pks_Data (\<lambda>a. p2pks_Data_update (\<lambda>_. a)) (dec_slice dec_P2PKeyData zero_P2PKeyData))]"

definition dec_ETHKeyAttributes :: "ETHKeyAttributes dec" where
  "dec_ETHKeyAttributes = dec_struct [(''address'', in_field eth_Address (\<lambda>a. eth_Address_update (\<lambda>_. a)) dec_string)]"

definition dec_ETHKeyData :: "ETHKeyData dec" where
  "dec_ETHKeyData = dec_struct
     [(''attributes'', in_field ethd_Attributes (\<lambda>a. ethd_Attributes_update (\<lambda>_. a)) dec_ETHKeyAttributes)]"

definition zero_ETHKeyData :: ETHKeyData where
  "zero_ETHKeyData = \<lparr>ethd_Attributes = \<lparr>eth_Address = []\<rparr>\<rparr>"

definition dec_ETHKeys :: "ETHKeys dec" where
  "dec_ETHKeys = dec_struct
     [(''data'', in_field ethks_Data (\<lambda>a. ethks_Data_update (\<lambda>_. a)) (dec_slice dec_ETHKeyData zero_ETHKeyData))]"

definition dec_Response :: "Response dec" where
  "dec_Response = dec_struct [(''Data'', in_field rp_Data (\<lambda>a. rp_Data_update (\<lambda>_. a)) dec_map)]"

definition dec_SpecData :: "SpecData dec" where
  "dec_SpecData = dec_struct [(''id'', in_field sd_ID (\<lambda>a. sd_ID_update (\<lambda>_. a)) dec_string)]"

definition dec_Spec :: "Spec dec" where
  "dec_Spec = dec_struct [(''data'', in_field sp_Data (\<lambda>a. sp_Data_update (\<lambda>_. a)) dec_SpecData)]"

definition dec_JobData :: "JobData dec" where
  "dec_JobData = dec_struct [(''id'', in_field jd_ID (\<lambda>a. jd_ID_update (\<lambda>_. a)) dec_string)]"

definition dec_Job :: "Job dec" where
  "dec_Job = dec_struct [(''data'', in_field job_Data (\<lambda>a. job_Data_update (\<lambda>_. a)) dec_JobData)]"

text \<open>The zero values the calls decode into.\<close>

definition zero_BridgeType :: BridgeType where
  "zero_BridgeType = \<lparr>bt_Data = \<lparr>btd_Attributes = \<lparr>bta_Name = [], bta_URL = []\<rparr>\<rparr>\<rparr>"

definition zero_Spec :: Spec where
  "zero_Spec = \<lparr>sp_Data = \<lparr>sd_ID = []\<rparr>\<rparr>"

definition zero_Job :: Job where
  "zero_Job = \<lparr>job_Data = \<lparr>jd_ID = []\<rparr>\<rparr>"

text \<open>Marshalling: the members in the order of the fields.\<close>

definition enc_BridgeTypeAttributes :: "BridgeTypeAttributes \<Rightarrow> json" where
  "enc_BridgeTypeAttributes a = JObj [(''name'', JStr (bta_Name a)), (''url'', JStr (bta_URL a))]"

definition enc_Session :: "Session \<Rightarrow> json" where
  "enc_Session s = JObj [(''email'', JStr (sn_Email s)), (''password'', JStr (sn_Password s))]"

definition enc_JobForm :: "JobForm \<Rightarrow> json" where
  "enc_JobForm f = JObj [(''toml'', JStr (jf_TOML f))]"

section \<open>The client (\<open>client/chainlink.go\<close>)\<close>

record chainlink =
  cl_Client :: "http_client option"
  cl_Config :: "ChainlinkConfig option"
  cl_Cookies :: "cookie list"

definition NewChainlink :: "ChainlinkConfig option \<Rightarrow> chainlink" where
  "NewChainlink c = \<lparr>cl_Client = nil, cl_Config = c, cl_Cookies = []\<rparr>"

definition read_error :: "ChainlinkConfig \<Rightarrow> string \<Rightarrow> go_error \<Rightarrow> go_error" where
  "read_error cfg b e =
     Errorf_v ''error while reading response: '' e (''\<newline>URL: '' @ URL cfg @ ''\<newline>response received: '' @ b)"

definition status_error :: "ChainlinkConfig \<Rightarrow> string \<Rightarrow> int \<Rightarrow> go_error" where
  "status_error cfg b st =
     ErrorString (''unexpected response code, got '' @ fmt_d st @ '', expected 200'' @
       ''\<newline>URL: '' @ URL cfg @ ''\<newline>response received: '' @ b)"

definition unmarshal_error :: "ChainlinkConfig \<Rightarrow> string \<Rightarrow> go_error \<Rightarrow> go_error" where
  "unmarshal_error cfg b e =
     Errorf_v ''error while unmarshaling response: '' e (''\<newline>URL: '' @ URL cfg @ ''\<newline>response received: '' @ b)"

text \<open>
  \<open>doRaw\<close>: the object to unmarshal into is given by its decoder (\<open>None\<close> for nil) and its
  old contents; it comes back with its new contents. A nil \<open>Config\<close> or \<open>Client\<close> panics.
\<close>

definition doRaw :: "'w http \<Rightarrow> chainlink \<Rightarrow> string \<Rightarrow> string \<Rightarrow> string \<Rightarrow> 'a dec option \<Rightarrow> 'a \<Rightarrow> int \<Rightarrow> 'w
    \<Rightarrow> ((response option \<times> err) \<times> 'a, 'w) go" where
  "doRaw H c method endpoint body dec obj expectedStatusCode w =
     (case cl_Config c of
        None \<Rightarrow> Crash NilDereference w
      | Some cfg \<Rightarrow>
     (case NewRequest H method (URL cfg @ endpoint) body of
        Inl err \<Rightarrow> Ret ((nil, Some err), obj) w
      | Inr req0 \<Rightarrow>
        let req = fold AddCookie (cl_Cookies c) req0 in
     (case cl_Client c of
        None \<Rightarrow> Crash NilDereference w
      | Some client \<Rightarrow>
        bind_go (call (Do H client req) w) (\<lambda>(resp, err) w.
     (case err of
        Some e \<Rightarrow> Ret ((resp, Some e), obj) w
      | None \<Rightarrow>
     (case resp of
        None \<Rightarrow> Crash NilDereference w
      | Some r \<Rightarrow>
     (case Body r of (b, err) \<Rightarrow>
     (case err of
        Some e \<Rightarrow> Ret ((nil, Some (read_error cfg b e)), obj) w
      | None \<Rightarrow>
        if StatusCode r = 404 then Ret ((resp, Some ErrNotFound), obj) w
        else if StatusCode r = 422 then Ret ((resp, Some ErrUnprocessableEntity), obj) w
        else if StatusCode r \<noteq> expectedStatusCode then Ret ((resp, Some (status_error cfg b (StatusCode r))), obj) w
        else
     (case dec of
        None \<Rightarrow> Ret ((resp, nil), obj) w
      | Some f \<Rightarrow>
     (case unmarshal f b obj of
        (obj', Some e) \<Rightarrow> Ret ((nil, Some (unmarshal_error cfg b e)), obj') w
      | (obj', None) \<Rightarrow> Ret ((resp, nil), obj') w)))))))))) "

text \<open>
  \<open>do\<close>: the body is given by its JSON value. A nil body is marshalled too and goes out as
  the literal \<open>null\<close>; marshalling the values the client passes never fails.
\<close>

definition do_req :: "'w http \<Rightarrow> chainlink \<Rightarrow> string \<Rightarrow> string \<Rightarrow> json option \<Rightarrow> 'a dec option \<Rightarrow> 'a \<Rightarrow> int \<Rightarrow> 'w
    \<Rightarrow> ((response option \<times> err) \<times> 'a, 'w) go" where
  "do_req H c method endpoint body dec obj expectedStatusCode w =
     doRaw H c method endpoint (json_print (case body of Some j \<Rightarrow> j | None \<Rightarrow> JNull)) dec obj expectedStatusCode w"

definition result_obj :: "((response option \<times> err) \<times> 'a, 'w) go \<Rightarrow> ('a \<times> err, 'w) go" where
  "result_obj m = bind_go m (\<lambda>((resp, err), obj) w. Ret (obj, err) w)"

definition result_err :: "((response option \<times> err) \<times> unit, 'w) go \<Rightarrow> (err, 'w) go" where
  "result_err m = bind_go m (\<lambda>((resp, err), obj) w. Ret err w)"

definition CreateJob :: "'w http \<Rightarrow> chainlink \<Rightarrow> string \<Rightarrow> 'w \<Rightarrow> (Job option \<times> err, 'w) go" where
  "CreateJob H c spec w =
     result_obj (do_req H c ''POST'' ''/v2/jobs'' (Some (enc_JobForm \<lparr>jf_TOML = spec\<rparr>))
       (Some (dec_ptr dec_Job zero_Job)) (Some zero_Job) 200 w)"

definition ReadJob :: "'w http \<Rightarrow> chainlink \<Rightarrow> string \<Rightarrow> 'w \<Rightarrow> (err, 'w) go" where
  "ReadJob H c ident w = result_err (do_req H c ''GET'' (''/v2/jobs/'' @ ident) nil nil () 200 w)"

definition DeleteJob :: "'w http \<Rightarrow> chainlink \<Rightarrow> string \<Rightarrow> 'w \<Rightarrow> (err, 'w) go" where
  "DeleteJob H c ident w = result_err (do_req H c ''DELETE'' (''/v2/jobs/'' @ ident) nil nil () 204 w)"

definition CreateSpec :: "'w http \<Rightarrow> chainlink \<Rightarrow> string \<Rightarrow> 'w \<Rightarrow> (Spec \<times> err, 'w) go" where
  "CreateSpec H c spec w =
     result_obj (doRaw H c ''POST'' ''/v2/specs'' spec (Some dec_Spec) zero_Spec 200 w)"

definition ReadSpec :: "'w http \<Rightarrow> chainlink \<Rightarrow> string \<Rightarrow> 'w \<Rightarrow> (Response \<times> err, 'w) go" where
  "ReadSpec H c ident w =
     result_obj (do_req H c ''GET'' (''/v2/specs/'' @ ident) nil (Some dec_Response) \<lparr>rp_Data = nil\<rparr> 200 w)"

definition DeleteSpec :: "'w http \<Rightarrow> chainlink \<Rightarrow> string \<Rightarrow> 'w \<Rightarrow> (err, 'w) go" where
  "DeleteSpec H c ident w = result_err (do_req H c ''DELETE'' (''/v2/specs/'' @ ident) nil nil () 204 w)"

definition CreateBridge :: "'w http \<Rightarrow> chainlink \<Rightarrow> BridgeTypeAttributes option \<Rightarrow> 'w \<Rightarrow> (err, 'w) go" where
  "CreateBridge H c bta w =
     result_err (do_req H c ''POST'' ''/v2/bridge_types''
       (Some (case bta of Some a \<Rightarrow> enc_BridgeTypeAttributes a | None \<Rightarrow> JNull)) nil () 200 w)"

definition ReadBridge :: "'w http \<Rightarrow> chainlink \<Rightarrow> string \<Rightarrow> 'w \<Rightarrow> (BridgeType \<times> err, 'w) go" where
  "ReadBridge H c name w =
     result_obj (do_req H c ''GET'' (''/v2/bridge_types/'' @ name) nil (Some dec_BridgeType) zero_BridgeType 200 w)"

definition DeleteBridge :: "'w http \<Rightarrow> chainlink \<Rightarrow> string \<Rightarrow> 'w \<Rightarrow> (err, 'w) go" where
  "DeleteBridge H c name w = result_err (do_req H c ''DELETE'' (''/v2/bridge_types/'' @ name) nil nil () 200 w)"

definition CreateOCRKey :: "'w http \<Rightarrow> chainlink \<Rightarrow> 'w \<Rightarrow> (OCRKey \<times> err, 'w) go" where
  "CreateOCRKey H c w =
     result_obj (do_req H c ''POST'' ''/v2/keys/ocr'' nil (Some dec_OCRKey) \<lparr>ock_Data = zero_OCRKeyData\<rparr> 200 w)"

definition ReadOCRKeys :: "'w http \<Rightarrow> chainlink \<Rightarrow> 'w \<Rightarrow> (OCRKeys \<times> err, 'w) go" where
  "ReadOCRKeys H c w =
     result_obj (do_req H c ''GET'' ''/v2/keys/ocr'' nil (Some dec_OCRKeys) \<lparr>ocks_Data = NilSlice\<rparr> 200 w)"

definition DeleteOCRKey :: "'w http \<Rightarrow> chainlink \<Rightarrow> string \<Rightarrow> 'w \<Rightarrow> (err, 'w) go" where
  "DeleteOCRKey H c ident w = result_err (do_req H c ''DELETE'' (''/v2/keys/ocr/'' @ ident) nil nil () 200 w)"

definition CreateP2PKey :: "'w http \<Rightarrow> chainlink \<Rightarrow> 'w \<Rightarrow> (P2PKey \<times> err, 'w) go" where
  "CreateP2PKey H c w =
     result_obj (do_req H c ''POST'' ''/v2/keys/p2p'' nil (Some dec_P2PKey) \<lparr>p2pk_Data = zero_P2PKeyData\<rparr> 200 w)"

definition ReadP2PKeys :: "'w http \<Rightarrow> chainlink \<Rightarrow> 'w \<Rightarrow> (P2PKeys \<times> err, 'w) go" where
  "ReadP2PKeys H c w =
     result_obj (do_req H c ''GET'' ''/v2/keys/p2p'' nil (Some dec_P2PKeys) \<lparr>p2pks_Data = NilSlice\<rparr> 200 w)"

definition DeleteP2PKey :: "'w http \<Rightarrow> chainlink \<Rightarrow> i64 \<Rightarrow> 'w \<Rightarrow> (err, 'w) go" where
  "DeleteP2PKey H c ident w =
     result_err (do_req H c ''DELETE'' (''/v2/keys/p2p/'' @ fmt_d (sint ident)) nil nil () 200 w)"

definition ReadETHKeys :: "'w http \<Rightarrow> chainlink \<Rightarrow> 'w \<Rightarrow> (ETHKeys \<times> err, 'w) go" where
  "ReadETHKeys H c w =
     result_obj (do_req H c ''GET'' ''/v2/keys/eth'' nil (Some dec_ETHKeys) \<lparr>ethks_Data = NilSlice\<rparr> 200 w)"

text \<open>
  \<open>SetSessionCookie\<close> posts with the default HTTP client, whatever client was set. It returns
  the error and the client with its new cookies.
\<close>

definition session_status_error :: "ChainlinkConfig \<Rightarrow> string \<Rightarrow> int \<Rightarrow> go_error" where
  "session_status_error cfg b st =
     ErrorString (''status code of '' @ fmt_d st @ '' was returned when trying to get a session'' @
       ''\<newline>URL: '' @ URL cfg @ ''\<newline>response received: '' @ b)"

definition SetSessionCookie :: "'w http \<Rightarrow> chainlink \<Rightarrow> 'w \<Rightarrow> (err \<times> chainlink, 'w) go" where
  "SetSessionCookie H c w =
     (case cl_Config c of
        None \<Rightarrow> Crash NilDereference w
      | Some cfg \<Rightarrow>
        let session = \<lparr>sn_Email = Email cfg, sn_Password = Password cfg\<rparr> in
        bind_go (call (Post H (URL cfg @ ''/sessions'') ''application/json'' (json_print (enc_Session session))) w)
          (\<lambda>(resp, err) w.
     (case err of
        Some e \<Rightarrow> Ret (Some e, c) w
      | None \<Rightarrow>
     (case resp of
        None \<Rightarrow> Crash NilDereference w
      | Some r \<Rightarrow>
     (case Body r of (b, err) \<Rightarrow>
     (case err of
        Some e \<Rightarrow> Ret (Some (read_error cfg b e), c) w
      | None \<Rightarrow>
        if StatusCode r \<noteq> 200 then Ret (Some (session_status_error cfg b (StatusCode r)), c) w
        else if Cookies r = [] then Ret (Some (ErrorString ''no cookie was returned after getting a session''), c) w
        else
          let c' = c\<lparr>cl_Cookies := Cookies r\<rparr> in
          if list_ex (\<lambda>ck. ck_Name ck = ''clsession'') (Cookies r) then Ret (nil, c') w
          else Ret (Some (ErrorString ''chainlink: session cookie wasn't returned on login''), c') w)))))) "

definition SetClient :: "http_client option \<Rightarrow> chainlink \<Rightarrow> chainlink" where
  "SetClient client c = c\<lparr>cl_Client := client\<rparr>"

section \<open>Requests\<close>

text \<open>The cookie header of a request that carries the client's cookies.\<close>

definition cookie_pair :: "cookie \<Rightarrow> string" where
  "cookie_pair c = cookie_name (ck_Name c) @ ''='' @ cookie_value (ck_Value c)"

fun cookie_header :: "cookie list \<Rightarrow> string" where
  "cookie_header [] = []"
| "cookie_header [c] = cookie_pair c"
| "cookie_header (c # cs) = cookie_pair c @ ''; '' @ cookie_header cs"

lemma AddCookie_pair:
  "AddCookie c r = r\<lparr>rq_Cookie := (if rq_Cookie r = [] then cookie_pair c else rq_Cookie r @ ''; '' @ cookie_pair c)\<rparr>"
  by (simp add: AddCookie_def cookie_pair_def Let_def)

lemma fold_AddCookie:
  "fold AddCookie cs r = r\<lparr>rq_Cookie := (if cs = [] then rq_Cookie r
     else if rq_Cookie r = [] then cookie_header cs else rq_Cookie r @ ''; '' @ cookie_header cs)\<rparr>"
proof (induction cs arbitrary: r)
  case (Cons c cs)
  have "cookie_pair c \<noteq> []" by (simp add: cookie_pair_def)
  then show ?case
    unfolding fold_simps comp_apply Cons by (cases cs) (auto simp: AddCookie_pair)
qed simp

text \<open>The request of a call to a node.\<close>

definition api_request :: "chainlink \<Rightarrow> ChainlinkConfig \<Rightarrow> string \<Rightarrow> string \<Rightarrow> string \<Rightarrow> request" where
  "api_request c cfg method endpoint body =
     \<lparr>rq_Method = method, rq_URL = URL cfg @ endpoint, rq_ContentType = nil,
      rq_Cookie = cookie_header (cl_Cookies c), rq_Body = body\<rparr>"

lemma request_of_call:
  "NewRequest H method (URL cfg @ endpoint) body = Inr req0 \<Longrightarrow>
   fold AddCookie (cl_Cookies c) req0 = api_request c cfg method endpoint body"
  by (auto simp: NewRequest_def api_request_def fold_AddCookie split: option.splits)

text \<open>What \<open>doRaw\<close> makes of a response that arrived.\<close>

definition on_response :: "ChainlinkConfig \<Rightarrow> int \<Rightarrow> 'a dec option \<Rightarrow> 'a \<Rightarrow> response \<Rightarrow> (response option \<times> err) \<times> 'a" where
  "on_response cfg expected dec obj r =
     (case snd (Body r) of
        Some e \<Rightarrow> ((nil, Some (read_error cfg (fst (Body r)) e)), obj)
      | None \<Rightarrow>
          if StatusCode r = 404 then ((Some r, Some ErrNotFound), obj)
          else if StatusCode r = 422 then ((Some r, Some ErrUnprocessableEntity), obj)
          else if StatusCode r \<noteq> expected then ((Some r, Some (status_error cfg (fst (Body r)) (StatusCode r))), obj)
          else (case dec of
             None \<Rightarrow> ((Some r, nil), obj)
           | Some f \<Rightarrow> (case unmarshal f (fst (Body r)) obj of
               (obj', Some e) \<Rightarrow> ((nil, Some (unmarshal_error cfg (fst (Body r)) e)), obj')
             | (obj', None) \<Rightarrow> ((Some r, nil), obj'))))"

lemma doRaw_eq:
  "doRaw H c method endpoint body dec obj expected w =
     (case cl_Config c of
        None \<Rightarrow> Crash NilDereference w
      | Some cfg \<Rightarrow>
     (case URL_error H (URL cfg @ endpoint) of
        Some e \<Rightarrow> Ret ((nil, Some e), obj) w
      | None \<Rightarrow>
     (case cl_Client c of
        None \<Rightarrow> Crash NilDereference w
      | Some client \<Rightarrow>
     (case Do H client (api_request c cfg method endpoint body) w of
        ((resp, Some e), w') \<Rightarrow> Ret ((resp, Some e), obj) w'
      | ((None, None), w') \<Rightarrow> Crash NilDereference w'
      | ((Some r, None), w') \<Rightarrow> Ret (on_response cfg expected dec obj r) w'))))"
proof -
  have req: "fold AddCookie (cl_Cookies c) \<lparr>rq_Method = method, rq_URL = URL cfg @ endpoint, rq_ContentType = nil,
      rq_Cookie = [], rq_Body = body\<rparr> = api_request c cfg method endpoint body" for cfg
    by (simp add: api_request_def fold_AddCookie)
  show ?thesis
    unfolding doRaw_def NewRequest_def
    by (auto simp: Let_def bind_call req on_response_def split: option.split prod.split)
qed


text \<open>The calls of the \<open>Chainlink\<close> interface that talk to the node, and what each of them requests.\<close>

datatype api_call =
    CallCreateJob string | CallReadJob string | CallDeleteJob string
  | CallCreateSpec string | CallReadSpec string | CallDeleteSpec string
  | CallCreateBridge "BridgeTypeAttributes option" | CallReadBridge string | CallDeleteBridge string
  | CallCreateOCRKey | CallReadOCRKeys | CallDeleteOCRKey string
  | CallCreateP2PKey | CallReadP2PKeys | CallDeleteP2PKey i64
  | CallReadETHKeys

definition drop_obj :: "('a \<times> err, 'w) go \<Rightarrow> (err, 'w) go" where
  "drop_obj m = bind_go m (\<lambda>(obj, err) w. Ret err w)"

fun run_call :: "'w http \<Rightarrow> chainlink \<Rightarrow> api_call \<Rightarrow> 'w \<Rightarrow> (err, 'w) go" where
  "run_call H c (CallCreateJob s) = (\<lambda>w. drop_obj (CreateJob H c s w))"
| "run_call H c (CallReadJob s) = ReadJob H c s"
| "run_call H c (CallDeleteJob s) = DeleteJob H c s"
| "run_call H c (CallCreateSpec s) = (\<lambda>w. drop_obj (CreateSpec H c s w))"
| "run_call H c (CallReadSpec s) = (\<lambda>w. drop_obj (ReadSpec H c s w))"
| "run_call H c (CallDeleteSpec s) = DeleteSpec H c s"
| "run_call H c (CallCreateBridge b) = CreateBridge H c b"
| "run_call H c (CallReadBridge s) = (\<lambda>w. drop_obj (ReadBridge H c s w))"
| "run_call H c (CallDeleteBridge s) = DeleteBridge H c s"
| "run_call H c CallCreateOCRKey = (\<lambda>w. drop_obj (CreateOCRKey H c w))"
| "run_call H c CallReadOCRKeys = (\<lambda>w. drop_obj (ReadOCRKeys H c w))"
| "run_call H c (CallDeleteOCRKey s) = DeleteOCRKey H c s"
| "run_call H c CallCreateP2PKey = (\<lambda>w. drop_obj (CreateP2PKey H c w))"
| "run_call H c CallReadP2PKeys = (\<lambda>w. drop_obj (ReadP2PKeys H c w))"
| "run_call H c (CallDeleteP2PKey i) = DeleteP2PKey H c i"
| "run_call H c CallReadETHKeys = (\<lambda>w. drop_obj (ReadETHKeys H c w))"

text \<open>
  The REST resources as the Chainlink node's interface has them: the method, the path and the
  body of each call, and the status it takes for success.
\<close>

fun call_method :: "api_call \<Rightarrow> string" where
  "call_method (CallCreateJob _) = ''POST''"
| "call_method (CallCreateSpec _) = ''POST''"
| "call_method (CallCreateBridge _) = ''POST''"
| "call_method CallCreateOCRKey = ''POST''"
| "call_method CallCreateP2PKey = ''POST''"
| "call_method (CallDeleteJob _) = ''DELETE''"
| "call_method (CallDeleteSpec _) = ''DELETE''"
| "call_method (CallDeleteBridge _) = ''DELETE''"
| "call_method (CallDeleteOCRKey _) = ''DELETE''"
| "call_method (CallDeleteP2PKey _) = ''DELETE''"
| "call_method _ = ''GET''"

fun call_path :: "api_call \<Rightarrow> string" where
  "call_path (CallCreateJob _) = ''/v2/jobs''"
| "call_path (CallReadJob s) = ''/v2/jobs/'' @ s"
| "call_path (CallDeleteJob s) = ''/v2/jobs/'' @ s"
| "call_path (CallCreateSpec _) = ''/v2/specs''"
| "call_path (CallReadSpec s) = ''/v2/specs/'' @ s"
| "call_path (CallDeleteSpec s) = ''/v2/specs/'' @ s"
| "call_path (CallCreateBridge _) = ''/v2/bridge_types''"
| "call_path (CallReadBridge s) = ''/v2/bridge_types/'' @ s"
| "call_path (CallDeleteBridge s) = ''/v2/bridge_types/'' @ s"
| "call_path CallCreateOCRKey = ''/v2/keys/ocr''"
| "call_path CallReadOCRKeys = ''/v2/keys/ocr''"
| "call_path (CallDeleteOCRKey s) = ''/v2/keys/ocr/'' @ s"
| "call_path CallCreateP2PKey = ''/v2/keys/p2p''"
| "call_path CallReadP2PKeys = ''/v2/keys/p2p''"
| "call_path (CallDeleteP2PKey i) = ''/v2/keys/p2p/'' @ fmt_d (sint i)"
| "call_path CallReadETHKeys = ''/v2/keys/eth''"

fun call_body :: "api_call \<Rightarrow> string" where
  "call_body (CallCreateJob s) = json_print (enc_JobForm \<lparr>jf_TOML = s\<rparr>)"
| "call_body (CallCreateSpec s) = s"
| "call_body (CallCreateBridge (Some a)) = json_print (enc_BridgeTypeAttributes a)"
| "call_body _ = ''null''"

definition call_expected :: "api_call \<Rightarrow> int" where
  "call_expected a = (case a of CallDeleteJob _ \<Rightarrow> 204 | CallDeleteSpec _ \<Rightarrow> 204 | _ \<Rightarrow> 200)"

lemmas api_defs = CreateJob_def ReadJob_def DeleteJob_def CreateSpec_def ReadSpec_def DeleteSpec_def
  CreateBridge_def ReadBridge_def DeleteBridge_def CreateOCRKey_def ReadOCRKeys_def DeleteOCRKey_def
  CreateP2PKey_def ReadP2PKeys_def DeleteP2PKey_def ReadETHKeys_def

definition err_of_call :: "((response option \<times> err) \<times> 'a, 'w) go \<Rightarrow> (err, 'w) go" where
  "err_of_call m = bind_go m (\<lambda>((resp, err), obj) w. Ret err w)"

lemma drop_obj_result: "drop_obj (result_obj m) = err_of_call m"
  by (simp add: drop_obj_def result_obj_def err_of_call_def bind_go_assoc split_def)

lemma result_err_of_call: "result_err m = err_of_call m"
  by (simp add: result_err_def err_of_call_def)

text \<open>The error of unmarshalling a body of the expected status, nil for a call that decodes nothing.\<close>

fun call_check :: "api_call \<Rightarrow> string \<Rightarrow> err" where
  "call_check (CallCreateJob _) b = snd (unmarshal (dec_ptr dec_Job zero_Job) b (Some zero_Job))"
| "call_check (CallCreateSpec _) b = snd (unmarshal dec_Spec b zero_Spec)"
| "call_check (CallReadSpec _) b = snd (unmarshal dec_Response b \<lparr>rp_Data = nil\<rparr>)"
| "call_check (CallReadBridge _) b = snd (unmarshal dec_BridgeType b zero_BridgeType)"
| "call_check CallCreateOCRKey b = snd (unmarshal dec_OCRKey b \<lparr>ock_Data = zero_OCRKeyData\<rparr>)"
| "call_check CallReadOCRKeys b = snd (unmarshal dec_OCRKeys b \<lparr>ocks_Data = NilSlice\<rparr>)"
| "call_check CallCreateP2PKey b = snd (unmarshal dec_P2PKey b \<lparr>p2pk_Data = zero_P2PKeyData\<rparr>)"
| "call_check CallReadP2PKeys b = snd (unmarshal dec_P2PKeys b \<lparr>p2pks_Data = NilSlice\<rparr>)"
| "call_check CallReadETHKeys b = snd (unmarshal dec_ETHKeys b \<lparr>ethks_Data = NilSlice\<rparr>)"
| "call_check _ b = nil"

text \<open>How a call ends, as a function of what the server answers.\<close>

definition call_err :: "ChainlinkConfig \<Rightarrow> api_call \<Rightarrow> response \<Rightarrow> err" where
  "call_err cfg a r =
     (case Body r of
        (b, Some e) \<Rightarrow> Some (read_error cfg b e)
      | (b, None) \<Rightarrow>
          if StatusCode r = 404 then Some ErrNotFound
          else if StatusCode r = 422 then Some ErrUnprocessableEntity
          else if StatusCode r \<noteq> call_expected a then Some (status_error cfg b (StatusCode r))
          else map_option (unmarshal_error cfg b) (call_check a b))"

definition call_request :: "chainlink \<Rightarrow> ChainlinkConfig \<Rightarrow> api_call \<Rightarrow> request" where
  "call_request c cfg a = api_request c cfg (call_method a) (call_path a) (call_body a)"

definition call_result :: "'w http \<Rightarrow> chainlink \<Rightarrow> api_call \<Rightarrow> 'w \<Rightarrow> (err, 'w) go" where
  "call_result H c a w =
     (case cl_Config c of
        None \<Rightarrow> Crash NilDereference w
      | Some cfg \<Rightarrow>
     (case URL_error H (URL cfg @ call_path a) of
        Some e \<Rightarrow> Ret (Some e) w
      | None \<Rightarrow>
     (case cl_Client c of
        None \<Rightarrow> Crash NilDereference w
      | Some client \<Rightarrow>
     (case Do H client (call_request c cfg a) w of
        ((resp, Some e), w') \<Rightarrow> Ret (Some e) w'
      | ((None, None), w') \<Rightarrow> Crash NilDereference w'
      | ((Some r, None), w') \<Rightarrow> Ret (call_err cfg a r) w'))))"

lemma err_of_doRaw:
  assumes "method = call_method a" "endpoint = call_path a" "body = call_body a" "expected = call_expected a"
    and "\<And>b. call_check a b = (case dec of None \<Rightarrow> nil | Some f \<Rightarrow> snd (unmarshal f b obj))"
  shows "err_of_call (doRaw H c method endpoint body dec obj expected w) = call_result H c a w"
  unfolding doRaw_eq call_result_def call_request_def call_err_def on_response_def err_of_call_def assms
  by (auto split: option.split prod.split)

lemma run_call_result: "run_call H c a w = call_result H c a w"
  by (cases a) (auto simp: api_defs do_req_def drop_obj_result result_err_of_call call_expected_def
      intro!: err_of_doRaw split: option.split)

section \<open>Recording the requests\<close>

text \<open>The same HTTP client, with the requests handed to it appended to a log.\<close>

definition recorded :: "'w http \<Rightarrow> (request list \<times> 'w) http" where
  "recorded H = \<lparr>URL_error = URL_error H,
     Do = (\<lambda>client req (log, w). case Do H client req w of (r, w') \<Rightarrow> (r, (log @ [req], w')))\<rparr>"

lemma recorded_simps [simp]:
  "URL_error (recorded H) = URL_error H"
  "Do (recorded H) client req (log, w) = (fst (Do H client req w), (log @ [req], snd (Do H client req w)))"
  by (simp_all add: recorded_def split: prod.split)

lemma run_call_recorded:
  assumes "cl_Config c = Some cfg" "cl_Client c = Some client" "URL_error H (URL cfg @ call_path a) = nil"
  shows "run_call (recorded H) c a (log, w) =
    (case run_call H c a w of
       Ret err w' \<Rightarrow> Ret err (log @ [call_request c cfg a], w')
     | Crash p w' \<Rightarrow> Crash p (log @ [call_request c cfg a], w')
     | Hang \<Rightarrow> Hang)"
  using assms unfolding run_call_result call_result_def
  by (auto split: option.split prod.split)

section \<open>Codecs\<close>

definition enc_BridgeType :: "BridgeType \<Rightarrow> json" where
  "enc_BridgeType b = JObj [(''data'', JObj [(''attributes'', enc_BridgeTypeAttributes (btd_Attributes (bt_Data b)))])]"

definition good_bridge :: "BridgeTypeAttributes \<Rightarrow> bool" where
  "good_bridge a \<longleftrightarrow> valid_utf8 (bta_Name a) \<and> valid_utf8 (bta_URL a)"

lemma valid_utf8_ascii: "\<forall>c \<in> set s. byte c < 128 \<Longrightarrow> valid_utf8 s"
  by (induction s) (auto simp: valid_utf8.simps)

interpretation bridge_attributes: codec dec_BridgeTypeAttributes enc_BridgeTypeAttributes good_bridge
    "\<lparr>bta_Name = [], bta_URL = []\<rparr>"
  by unfold_locales
    (auto simp: dec_BridgeTypeAttributes_def enc_BridgeTypeAttributes_def good_bridge_def in_field_def max_depth_def
      valid_utf8_ascii)

interpretation bridge: codec dec_BridgeType enc_BridgeType "\<lambda>b. good_bridge (btd_Attributes (bt_Data b))" zero_BridgeType
  by unfold_locales
    (auto simp: dec_BridgeType_def dec_BridgeTypeData_def dec_BridgeTypeAttributes_def enc_BridgeType_def
      enc_BridgeTypeAttributes_def good_bridge_def in_field_def max_depth_def zero_BridgeType_def valid_utf8_ascii)

definition enc_Data :: "json \<Rightarrow> json" where
  "enc_Data j = JObj [(''data'', j)]"

definition enc_Attributes :: "json \<Rightarrow> json" where
  "enc_Attributes j = JObj [(''attributes'', j)]"

definition enc_OCRKeyData :: "OCRKeyData \<Rightarrow> json" where
  "enc_OCRKeyData d = (case ocrd_Attributes d of a \<Rightarrow> enc_Attributes (JObj
     [(''id'', JStr (ocr_ID a)), (''configPublicKey'', JStr (ConfigPublicKey a)),
      (''offChainPublicKey'', JStr (OffChainPublicKey a)), (''onChainSigningAddress'', JStr (OnChainSigningAddress a))]))"

definition good_ocr :: "OCRKeyData \<Rightarrow> bool" where
  "good_ocr d \<longleftrightarrow> (case ocrd_Attributes d of a \<Rightarrow>
     list_all valid_utf8 [ocr_ID a, ConfigPublicKey a, OffChainPublicKey a, OnChainSigningAddress a])"

definition enc_P2PKeyData :: "P2PKeyData \<Rightarrow> json" where
  "enc_P2PKeyData d = (case p2pd_Attributes d of a \<Rightarrow> enc_Attributes (JObj
     [(''id'', JNum (fmt_d (sint (p2p_ID a)))), (''peerId'', JStr (PeerID a)), (''publicKey'', JStr (p2p_PublicKey a))]))"

definition good_p2p :: "P2PKeyData \<Rightarrow> bool" where
  "good_p2p d \<longleftrightarrow> valid_utf8 (PeerID (p2pd_Attributes d)) \<and> valid_utf8 (p2p_PublicKey (p2pd_Attributes d))"

definition enc_ETHKeyData :: "ETHKeyData \<Rightarrow> json" where
  "enc_ETHKeyData d = enc_Attributes (JObj [(''address'', JStr (eth_Address (ethd_Attributes d)))])"

definition good_eth :: "ETHKeyData \<Rightarrow> bool" where
  "good_eth d \<longleftrightarrow> valid_utf8 (eth_Address (ethd_Attributes d))"

text \<open>The values a fresh slice can hold.\<close>

definition fresh :: "('a \<Rightarrow> bool) \<Rightarrow> 'a slice \<Rightarrow> bool" where
  "fresh good s \<longleftrightarrow> (\<exists>as. s = SliceOf as [] \<and> list_all good as)"

lemma dec_OCRKeyData_enc: "good_ocr d \<Longrightarrow> dec_OCRKeyData (enc_OCRKeyData d) z = (d, True)"
  by (simp add: dec_OCRKeyData_def dec_OCRKeyAttributes_def enc_OCRKeyData_def enc_Attributes_def in_field_def)

lemma dec_P2PKeyData_enc: "good_p2p d \<Longrightarrow> dec_P2PKeyData (enc_P2PKeyData d) z = (d, True)"
  by (simp add: dec_P2PKeyData_def dec_P2PKeyAttributes_def enc_P2PKeyData_def enc_Attributes_def in_field_def)

lemma dec_ETHKeyData_enc: "good_eth d \<Longrightarrow> dec_ETHKeyData (enc_ETHKeyData d) z = (d, True)"
  by (simp add: dec_ETHKeyData_def dec_ETHKeyAttributes_def enc_ETHKeyData_def enc_Attributes_def in_field_def)

lemma dec_Data_slice:
  assumes "\<And>a z. good a \<Longrightarrow> dec (enc a) z = (a, True)" and "fresh good sl" and "get s = NilSlice"
  shows "dec_struct [(''data'', in_field get put (dec_slice dec zero))] (enc_Data (JArr (map enc (elems sl)))) s =
    (put sl s, True)"
proof -
  from assms(2) obtain as where sl: "sl = SliceOf as []" "list_all good as" by (auto simp: fresh_def)
  have "dec_slice dec zero (JArr (map enc as)) NilSlice = (SliceOf as [], True)"
    using sl by (intro dec_slice_enc [where good = good]) (simp_all add: assms(1))
  with sl assms(3) show ?thesis by (simp add: enc_Data_def in_field_def)
qed

lemmas codec_simps = max_depth_def enc_Data_def enc_Attributes_def valid_utf8_ascii in_field_def

interpretation ocr_keys: codec dec_OCRKeys "\<lambda>k. enc_Data (JArr (map enc_OCRKeyData (elems (ocks_Data k))))"
    "\<lambda>k. fresh good_ocr (ocks_Data k)" "\<lparr>ocks_Data = NilSlice\<rparr>"
proof unfold_locales
  fix k :: OCRKeys
  assume good: "fresh good_ocr (ocks_Data k)"
  show "dec_OCRKeys (enc_Data (JArr (map enc_OCRKeyData (elems (ocks_Data k))))) \<lparr>ocks_Data = NilSlice\<rparr> = (k, True)"
    unfolding dec_OCRKeys_def
    by (subst dec_Data_slice [where good = good_ocr]) (simp_all add: dec_OCRKeyData_enc good)
  show "wf_json max_depth (enc_Data (JArr (map enc_OCRKeyData (elems (ocks_Data k)))))"
    using good by (auto simp: codec_simps fresh_def enc_OCRKeyData_def good_ocr_def list_all_iff)
qed

interpretation p2p_keys: codec dec_P2PKeys "\<lambda>k. enc_Data (JArr (map enc_P2PKeyData (elems (p2pks_Data k))))"
    "\<lambda>k. fresh good_p2p (p2pks_Data k)" "\<lparr>p2pks_Data = NilSlice\<rparr>"
proof unfold_locales
  fix k :: P2PKeys
  assume good: "fresh good_p2p (p2pks_Data k)"
  show "dec_P2PKeys (enc_Data (JArr (map enc_P2PKeyData (elems (p2pks_Data k))))) \<lparr>p2pks_Data = NilSlice\<rparr> = (k, True)"
    unfolding dec_P2PKeys_def
    by (subst dec_Data_slice [where good = good_p2p]) (simp_all add: dec_P2PKeyData_enc good)
  show "wf_json max_depth (enc_Data (JArr (map enc_P2PKeyData (elems (p2pks_Data k)))))"
    using good by (auto simp: codec_simps fresh_def enc_P2PKeyData_def good_p2p_def list_all_iff parse_number_fmt_d)
qed

interpretation eth_keys: codec dec_ETHKeys "\<lambda>k. enc_Data (JArr (map enc_ETHKeyData (elems (ethks_Data k))))"
    "\<lambda>k. fresh good_eth (ethks_Data k)" "\<lparr>ethks_Data = NilSlice\<rparr>"
proof unfold_locales
  fix k :: ETHKeys
  assume good: "fresh good_eth (ethks_Data k)"
  show "dec_ETHKeys (enc_Data (JArr (map enc_ETHKeyData (elems (ethks_Data k))))) \<lparr>ethks_Data = NilSlice\<rparr> = (k, True)"
    unfolding dec_ETHKeys_def
    by (subst dec_Data_slice [where good = good_eth]) (simp_all add: dec_ETHKeyData_enc good)
  show "wf_json max_depth (enc_Data (JArr (map enc_ETHKeyData (elems (ethks_Data k)))))"
    using good by (auto simp: codec_simps fresh_def enc_ETHKeyData_def good_eth_def list_all_iff)
qed

definition dec_Session :: "Session dec" where
  "dec_Session = dec_struct
     [(''email'', in_field sn_Email (\<lambda>a. sn_Email_update (\<lambda>_. a)) dec_string),
      (''password'', in_field sn_Password (\<lambda>a. sn_Password_update (\<lambda>_. a)) dec_string)]"

interpretation session: codec dec_Session enc_Session "\<lambda>s. valid_utf8 (sn_Email s) \<and> valid_utf8 (sn_Password s)"
    "\<lparr>sn_Email = [], sn_Password = []\<rparr>"
  by unfold_locales (auto simp: dec_Session_def enc_Session_def codec_simps)


lemma read_reply:
  assumes "cl_Config c = Some cfg" "cl_Client c = Some client" "URL_error H (URL cfg @ endpoint) = nil"
    and "Do H client (api_request c cfg method endpoint (json_print (case body of Some j \<Rightarrow> j | None \<Rightarrow> JNull))) w =
      ((Some r, nil), w')"
    and "StatusCode r = 200" "Body r = (b, nil)" "unmarshal f b obj = (obj', nil)"
  shows "result_obj (do_req H c method endpoint body (Some f) obj 200 w) = Ret (obj', nil) w'"
  using assms by (simp add: do_req_def doRaw_eq result_obj_def on_response_def)

text \<open>A response that was read without an error.\<close>

definition plain_response :: "int \<Rightarrow> string \<Rightarrow> cookie list \<Rightarrow> response" where
  "plain_response st b cs = \<lparr>StatusCode = st, Body = (b, nil), Cookies = cs\<rparr>"

section \<open>Sessions\<close>

definition session_request :: "ChainlinkConfig \<Rightarrow> request" where
  "session_request cfg =
     \<lparr>rq_Method = ''POST'', rq_URL = URL cfg @ ''/sessions'', rq_ContentType = Some ''application/json'', rq_Cookie = [],
      rq_Body = json_print (enc_Session \<lparr>sn_Email = Email cfg, sn_Password = Password cfg\<rparr>)\<rparr>"

lemma Post_session:
  "URL_error H (URL cfg @ ''/sessions'') = nil \<Longrightarrow>
   Post H (URL cfg @ ''/sessions'') ''application/json'' (json_print (enc_Session \<lparr>sn_Email = Email cfg, sn_Password = Password cfg\<rparr>)) w =
     Do H DefaultClient (session_request cfg) w"
  "URL_error H (URL cfg @ ''/sessions'') = Some e \<Longrightarrow>
   Post H (URL cfg @ ''/sessions'') ''application/json'' (json_print (enc_Session \<lparr>sn_Email = Email cfg, sn_Password = Password cfg\<rparr>)) w =
     ((nil, Some e), w)"
  by (simp_all add: Post_def NewRequest_def session_request_def)

definition has_session :: "cookie list \<Rightarrow> bool" where
  "has_session cs = list_ex (\<lambda>ck. ck_Name ck = ''clsession'') cs"

text \<open>Whether the answer of the node is one that makes \<open>SetSessionCookie\<close> store its cookies.\<close>

definition session_stored :: "response \<Rightarrow> bool" where
  "session_stored r \<longleftrightarrow> snd (Body r) = nil \<and> StatusCode r = 200 \<and> Cookies r \<noteq> []"

lemma SetSessionCookie_reply:
  assumes "cl_Config c = Some cfg" "URL_error H (URL cfg @ ''/sessions'') = nil"
    and "Do H DefaultClient (session_request cfg) w = ((Some r, nil), w')"
  shows "\<exists>err. SetSessionCookie H c w = Ret (err, if session_stored r then c\<lparr>cl_Cookies := Cookies r\<rparr> else c) w' \<and>
    (err = nil \<longleftrightarrow> session_stored r \<and> has_session (Cookies r))"
proof -
  obtain b e where "Body r = (b, e)" by (cases "Body r")
  with assms show ?thesis
    by (cases e) (simp_all add: SetSessionCookie_def Post_session bind_call session_stored_def has_session_def Let_def)
qed

section \<open>A concrete server\<close>

text \<open>A server that gives every request the same answer and counts the requests.\<close>

definition sample_http :: "response \<Rightarrow> nat http" where
  "sample_http r = \<lparr>URL_error = (\<lambda>_. nil), Do = (\<lambda>client req w. ((Some r, nil), Suc w))\<rparr>"

definition sample_config :: ChainlinkConfig where
  "sample_config = \<lparr>URL = ''http://localhost:6688'', Email = ''notreal@fakeemail.ch'', Password = ''twochains''\<rparr>"

definition sample_chainlink :: chainlink where
  "sample_chainlink = SetClient (Some 1) (NewChainlink (Some sample_config))"

lemma sample_server_simps [simp]:
  "URL_error (sample_http r) u = nil" "Do (sample_http r) client req w = ((Some r, nil), Suc w)"
  "cl_Config sample_chainlink = Some sample_config" "cl_Client sample_chainlink = Some 1"
  "cl_Cookies sample_chainlink = []"
  "StatusCode (plain_response st b cs) = st" "Body (plain_response st b cs) = (b, nil)"
  "Cookies (plain_response st b cs) = cs"
  by (simp_all add: sample_http_def sample_chainlink_def SetClient_def NewChainlink_def plain_response_def)

section \<open>Properties\<close>



text \<open>
  Every call of the interface makes exactly one request when the node's URL is valid: to
  the resource's path below the URL, with the resource's method and body, and with all the
  cookies the client holds; and recording it does not change what the call returns.
\<close>

theorem api_call_sends_one_request:
  assumes "cl_Config c = Some cfg" "cl_Client c = Some client" "URL_error H (URL cfg @ call_path a) = nil"
    and "run_call (recorded H) c a (log, w) = Ret err (log', w')"
  shows "run_call H c a w = Ret err w' \<and>
    log' = log @ [\<lparr>rq_Method = call_method a, rq_URL = URL cfg @ call_path a, rq_ContentType = nil,
                   rq_Cookie = cookie_header (cl_Cookies c), rq_Body = call_body a\<rparr>]"
  using assms(4) unfolding run_call_recorded [OF assms(1-3)] call_request_def api_request_def
  by (cases "run_call H c a w") auto

theorem api_call_sends_one_request_witness:
  "\<exists>req. run_call (recorded (sample_http (plain_response 200 [] []))) sample_chainlink (CallDeleteP2PKey 12) ([], 0) =
      Ret nil ([req], 1) \<and> rq_URL req = ''http://localhost:6688/v2/keys/p2p/12''"
proof -
  have num: "fmt_d 12 = ''12''" by code_simp
  have run: "run_call (recorded (sample_http (plain_response 200 [] []))) sample_chainlink (CallDeleteP2PKey 12) ([], 0) =
      Ret nil ([call_request sample_chainlink sample_config (CallDeleteP2PKey 12)], 1)"
    by (simp add: run_call_recorded [of _ sample_config 1] run_call_result call_result_def call_err_def call_expected_def
        del: run_call.simps)
  from api_call_sends_one_request [OF _ _ _ run, of sample_config 1] run show ?thesis
    by (simp add: num sample_config_def)
qed

text \<open>
  C37. A bridge is read as it was created. For a name and a URL in valid UTF-8 and a configuration whose
  addresses can be parsed: however \<open>CreateBridge\<close> ends, it has made one request, a POST to the bridge types
  of the node, whose body unmarshals to the attributes it was given; and when the node answers with a
  bridge type of these attributes marshalled to JSON, \<open>ReadBridge\<close> returns exactly that bridge type.
\<close>

theorem bridge_round_trip:
  assumes "cl_Config c = Some cfg" "cl_Client c = Some client" "URL_error H (URL cfg @ ''/v2/bridge_types/'' @ name) = nil"
    and "URL_error H (URL cfg @ ''/v2/bridge_types'') = nil"
    and "Do H client (call_request c cfg (CallReadBridge name)) w = ((Some r, nil), w')"
    and "StatusCode r = 200" "Body r = (json_print (enc_BridgeType bt), nil)"
    and "good_bridge (btd_Attributes (bt_Data bt))"
  shows "ReadBridge H c name w = Ret (bt, nil) w' \<and>
    (\<exists>req. rq_Method req = ''POST'' \<and> rq_URL req = URL cfg @ ''/v2/bridge_types'' \<and>
      unmarshal dec_BridgeTypeAttributes (rq_Body req) \<lparr>bta_Name = [], bta_URL = []\<rparr> = (btd_Attributes (bt_Data bt), nil) \<and>
      (\<forall>log w0.
        case CreateBridge (recorded H) c (Some (btd_Attributes (bt_Data bt))) (log, w0) of
          Ret err (log', w1) \<Rightarrow> log' = log @ [req]
        | Crash p (log', w1) \<Rightarrow> log' = log @ [req]
        | Hang \<Rightarrow> False))"
proof
  show "ReadBridge H c name w = Ret (bt, nil) w'"
    unfolding ReadBridge_def
    by (rule read_reply [OF assms(1,2) _ _ assms(6,7) bridge.unmarshal_marshal [OF assms(8)]])
      (use assms(3,5) in \<open>simp_all add: call_request_def\<close>)
  let ?a = "CallCreateBridge (Some (btd_Attributes (bt_Data bt)))"
  have "run_call H c ?a w0 \<noteq> Hang" for w0
    using assms(1,2,4) unfolding run_call_result call_result_def by (auto split: option.split prod.split)
  then have "\<forall>log w0. case run_call (recorded H) c ?a (log, w0) of
          Ret err (log', w1) \<Rightarrow> log' = log @ [call_request c cfg ?a]
        | Crash p (log', w1) \<Rightarrow> log' = log @ [call_request c cfg ?a]
        | Hang \<Rightarrow> False"
    using run_call_recorded [OF assms(1,2), of H ?a] assms(4) by (auto split: go.splits simp del: run_call.simps)
  then show "\<exists>req. rq_Method req = ''POST'' \<and> rq_URL req = URL cfg @ ''/v2/bridge_types'' \<and>
      unmarshal dec_BridgeTypeAttributes (rq_Body req) \<lparr>bta_Name = [], bta_URL = []\<rparr> = (btd_Attributes (bt_Data bt), nil) \<and>
      (\<forall>log w0.
        case CreateBridge (recorded H) c (Some (btd_Attributes (bt_Data bt))) (log, w0) of
          Ret err (log', w1) \<Rightarrow> log' = log @ [req]
        | Crash p (log', w1) \<Rightarrow> log' = log @ [req]
        | Hang \<Rightarrow> False)"
    using bridge_attributes.unmarshal_marshal [OF assms(8)]
    by (intro exI [of _ "call_request c cfg ?a"]) (simp add: call_request_def api_request_def)
qed

definition sample_bridge :: BridgeType where
  "sample_bridge = \<lparr>bt_Data = \<lparr>btd_Attributes = \<lparr>bta_Name = ''substrate'', bta_URL = ''http://adapter''\<rparr>\<rparr>\<rparr>"

theorem bridge_round_trip_witness:
  "let H = sample_http (plain_response 200 (json_print (enc_BridgeType sample_bridge)) []) in
   ReadBridge H sample_chainlink ''substrate'' 0 = Ret (sample_bridge, nil) 1 \<and>
   (\<exists>req. CreateBridge (recorded H) sample_chainlink (Some (btd_Attributes (bt_Data sample_bridge))) ([], 0) = Ret nil ([req], 1) \<and>
     unmarshal dec_BridgeTypeAttributes (rq_Body req) \<lparr>bta_Name = [], bta_URL = []\<rparr> = (btd_Attributes (bt_Data sample_bridge), nil))"
proof -
  let ?H = "sample_http (plain_response 200 (json_print (enc_BridgeType sample_bridge)) [])"
  let ?b = "CallCreateBridge (Some (btd_Attributes (bt_Data sample_bridge)))"
  have good: "good_bridge (btd_Attributes (bt_Data sample_bridge))" by (simp add: sample_bridge_def good_bridge_def valid_utf8_ascii)
  have "run_call (recorded ?H) sample_chainlink ?b ([], 0) = Ret nil ([call_request sample_chainlink sample_config ?b], 1)"
    by (simp add: run_call_recorded [of _ sample_config 1] run_call_result call_result_def call_err_def call_expected_def
        del: run_call.simps)
  then have run: "CreateBridge (recorded ?H) sample_chainlink (Some (btd_Attributes (bt_Data sample_bridge))) ([], 0) =
      Ret nil ([call_request sample_chainlink sample_config ?b], 1)" by simp
  have "ReadBridge ?H sample_chainlink ''substrate'' 0 = Ret (sample_bridge, nil) 1 \<and>
    (\<exists>req. rq_Method req = ''POST'' \<and> rq_URL req = URL sample_config @ ''/v2/bridge_types'' \<and>
      unmarshal dec_BridgeTypeAttributes (rq_Body req) \<lparr>bta_Name = [], bta_URL = []\<rparr> = (btd_Attributes (bt_Data sample_bridge), nil) \<and>
      (\<forall>log w0.
        case CreateBridge (recorded ?H) sample_chainlink (Some (btd_Attributes (bt_Data sample_bridge))) (log, w0) of
          Ret err (log', w1) \<Rightarrow> log' = log @ [req]
        | Crash p (log', w1) \<Rightarrow> log' = log @ [req]
        | Hang \<Rightarrow> False))"
    by (rule bridge_round_trip [where r = "plain_response 200 (json_print (enc_BridgeType sample_bridge)) []" and client = 1])
      (simp_all add: good)
  then obtain req where read: "ReadBridge ?H sample_chainlink ''substrate'' 0 = Ret (sample_bridge, nil) 1"
    and req: "unmarshal dec_BridgeTypeAttributes (rq_Body req) \<lparr>bta_Name = [], bta_URL = []\<rparr> = (btd_Attributes (bt_Data sample_bridge), nil)"
    and log: "case CreateBridge (recorded ?H) sample_chainlink (Some (btd_Attributes (bt_Data sample_bridge))) ([], 0) of
          Ret err (log', w1) \<Rightarrow> log' = [] @ [req]
        | Crash p (log', w1) \<Rightarrow> log' = [] @ [req]
        | Hang \<Rightarrow> False" by blast
  from log run have "call_request sample_chainlink sample_config ?b = req" by simp
  with read req run show ?thesis unfolding Let_def by blast
qed

text \<open>
  The key lists of a node are read completely and in order: when the node answers with
  marshalled lists, \<open>ReadOCRKeys\<close>, \<open>ReadP2PKeys\<close> and \<open>ReadETHKeys\<close> return exactly these
  lists, every 64-bit key number included.
\<close>

theorem key_lists_read_back:
  assumes "cl_Config c = Some cfg" "cl_Client c = Some client" "\<And>u. URL_error H u = nil"
    and "list_all good_ocr ocrs" "list_all good_p2p p2ps" "list_all good_eth eths"
    and "Do H client (call_request c cfg CallReadOCRKeys) w =
      ((Some (plain_response 200 (json_print (enc_Data (JArr (map enc_OCRKeyData ocrs)))) cs), nil), w1)"
    and "Do H client (call_request c cfg CallReadP2PKeys) w =
      ((Some (plain_response 200 (json_print (enc_Data (JArr (map enc_P2PKeyData p2ps)))) cs), nil), w2)"
    and "Do H client (call_request c cfg CallReadETHKeys) w =
      ((Some (plain_response 200 (json_print (enc_Data (JArr (map enc_ETHKeyData eths)))) cs), nil), w3)"
  shows "ReadOCRKeys H c w = Ret (\<lparr>ocks_Data = SliceOf ocrs []\<rparr>, nil) w1 \<and>
    ReadP2PKeys H c w = Ret (\<lparr>p2pks_Data = SliceOf p2ps []\<rparr>, nil) w2 \<and>
    ReadETHKeys H c w = Ret (\<lparr>ethks_Data = SliceOf eths []\<rparr>, nil) w3"
proof (intro conjI)
  show "ReadOCRKeys H c w = Ret (\<lparr>ocks_Data = SliceOf ocrs []\<rparr>, nil) w1"
    using assms ocr_keys.unmarshal_marshal [of "\<lparr>ocks_Data = SliceOf ocrs []\<rparr>"]
    by (auto simp: ReadOCRKeys_def call_request_def fresh_def intro!: read_reply)
  show "ReadP2PKeys H c w = Ret (\<lparr>p2pks_Data = SliceOf p2ps []\<rparr>, nil) w2"
    using assms p2p_keys.unmarshal_marshal [of "\<lparr>p2pks_Data = SliceOf p2ps []\<rparr>"]
    by (auto simp: ReadP2PKeys_def call_request_def fresh_def intro!: read_reply)
  show "ReadETHKeys H c w = Ret (\<lparr>ethks_Data = SliceOf eths []\<rparr>, nil) w3"
    using assms eth_keys.unmarshal_marshal [of "\<lparr>ethks_Data = SliceOf eths []\<rparr>"]
    by (auto simp: ReadETHKeys_def call_request_def fresh_def intro!: read_reply)
qed

text \<open>A server that answers each of the three key requests with a list.\<close>

definition key_server :: "OCRKeyData list \<Rightarrow> P2PKeyData list \<Rightarrow> ETHKeyData list \<Rightarrow> nat http" where
  "key_server ocrs p2ps eths = \<lparr>URL_error = (\<lambda>_. nil), Do = (\<lambda>client req w. ((Some (plain_response 200
     (json_print (enc_Data (JArr
       (if rq_URL req = URL sample_config @ ''/v2/keys/ocr'' then map enc_OCRKeyData ocrs
        else if rq_URL req = URL sample_config @ ''/v2/keys/p2p'' then map enc_P2PKeyData p2ps
        else map enc_ETHKeyData eths)))) []), nil), Suc w))\<rparr>"

theorem key_lists_read_back_witness:
  "ReadP2PKeys (key_server [] [\<lparr>p2pd_Attributes = \<lparr>p2p_ID = -1, PeerID = ''p'', p2p_PublicKey = ''k''\<rparr>\<rparr>] []) sample_chainlink 0 =
     Ret (\<lparr>p2pks_Data = SliceOf [\<lparr>p2pd_Attributes = \<lparr>p2p_ID = -1, PeerID = ''p'', p2p_PublicKey = ''k''\<rparr>\<rparr>] []\<rparr>, nil) 1"
  by (rule key_lists_read_back [where cfg = sample_config and client = 1 and ocrs = "[]" and eths = "[]"
        and ?w1.0 = 1 and ?w3.0 = 1 and cs = "[]", THEN conjunct2, THEN conjunct1])
    (simp_all add: key_server_def good_p2p_def valid_utf8_ascii call_request_def api_request_def)

text \<open>
  Logging in: \<open>SetSessionCookie\<close> posts the configured credentials to \<open>/sessions\<close>
  with the default HTTP client, whichever client was set. It returns nil exactly when the node
  answered with status 200 and a cookie named \<open>clsession\<close>. The cookies of an answer with
  status 200 replace the old ones even when \<open>clsession\<close> is not among them and an error is
  returned; otherwise the client is unchanged. From then on every call carries the stored
  cookies.
\<close>

theorem session_login:
  assumes "cl_Config c = Some cfg" "URL_error H (URL cfg @ ''/sessions'') = nil"
    and "Do H DefaultClient (session_request cfg) w = ((Some r, nil), w')"
    and "valid_utf8 (Email cfg)" "valid_utf8 (Password cfg)"
  shows "\<exists>err c'. SetSessionCookie H c w = Ret (err, c') w' \<and>
    unmarshal dec_Session (rq_Body (session_request cfg)) \<lparr>sn_Email = [], sn_Password = []\<rparr> =
      (\<lparr>sn_Email = Email cfg, sn_Password = Password cfg\<rparr>, nil) \<and>
    (err = nil \<longleftrightarrow> session_stored r \<and> has_session (Cookies r)) \<and>
    (\<forall>a. rq_Cookie (call_request c' cfg a) =
       (if session_stored r then cookie_header (Cookies r) else cookie_header (cl_Cookies c)))"
proof -
  have "unmarshal dec_Session (rq_Body (session_request cfg)) \<lparr>sn_Email = [], sn_Password = []\<rparr> =
      (\<lparr>sn_Email = Email cfg, sn_Password = Password cfg\<rparr>, nil)"
    using assms(4,5) by (simp add: session_request_def session.unmarshal_marshal)
  with SetSessionCookie_reply [OF assms(1-3)] show ?thesis
    by (auto simp: call_request_def api_request_def)
qed

theorem session_login_witness:
  "\<exists>err c'. SetSessionCookie (sample_http (plain_response 200 [] [\<lparr>ck_Name = ''other'', ck_Value = ''v''\<rparr>])) sample_chainlink 0 =
      Ret (err, c') 1 \<and> err \<noteq> nil \<and> rq_Cookie (call_request c' sample_config CallReadETHKeys) = ''other=v''"
proof -
  have "valid_utf8 (Email sample_config)" "valid_utf8 (Password sample_config)"
    by (simp_all add: sample_config_def valid_utf8_ascii)
  from session_login [OF _ _ _ this, of sample_chainlink "sample_http (plain_response 200 [] [\<lparr>ck_Name = ''other'', ck_Value = ''v''\<rparr>])" 0
      "plain_response 200 [] [\<lparr>ck_Name = ''other'', ck_Value = ''v''\<rparr>]" 1]
  show ?thesis
    by (auto simp: session_stored_def has_session_def cookie_pair_def cookie_name_def cookie_value_def cookie_byte_def)
qed

text \<open>
  \<open>CreateJob\<close> returns a nil job without an error when the node answers 200 with the
  JSON value \<open>null\<close> (the address of the pointer is decoded into), where \<open>CreateSpec\<close> then
  returns the empty spec.
\<close>

theorem create_job_null_is_nil:
  assumes "cl_Config c = Some cfg" "cl_Client c = Some client" "\<And>u. URL_error H u = nil"
    and "\<And>req w. Do H client req w = ((Some r, nil), f w)"
    and "StatusCode r = 200" "Body r = (''null'', nil)"
  shows "CreateJob H c spec w = Ret (nil, nil) (f w) \<and> CreateSpec H c spec w = Ret (zero_Spec, nil) (f w)"
proof -
  have "parse_json ''null'' = Some JNull" using parse_json_print [of JNull] by simp
  then have "unmarshal (dec_ptr dec_Job zero_Job) ''null'' (Some zero_Job) = (nil, nil)"
    "unmarshal dec_Spec ''null'' zero_Spec = (zero_Spec, nil)"
    by (simp_all add: unmarshal_def dec_ptr_def dec_Spec_def)
  with assms show ?thesis
    by (simp add: CreateJob_def CreateSpec_def do_req_def doRaw_eq result_obj_def on_response_def)
qed

theorem create_job_null_is_nil_witness:
  "CreateJob (sample_http (plain_response 200 ''null'' [])) sample_chainlink ''x'' 0 = Ret (nil, nil) 1"
  using create_job_null_is_nil [of sample_chainlink sample_config 1 "sample_http (plain_response 200 ''null'' [])"
      "plain_response 200 ''null'' []" Suc] by simp

end
