(* ===== verification/Main_Program.thy ===== *)
theory Main_Program
  imports Chainlink_Client
begin

text \<open>
  \<open>main.go\<close>: create a job spec on the node for every file of \<open>../specs\<close>. The file system is
  a parameter; what the program prints is its result. The deferred closing of the files, when
  \<open>main\<close> returns, is not modelled.
\<close>

text \<open>\<open>ioutil.ReadDir\<close> gives the names in order; a file is known by its descriptor.\<close>

record 'w files =
  ReadDir :: "string \<Rightarrow> 'w \<Rightarrow> (go_error + string list) \<times> 'w"
  Open :: "string \<Rightarrow> 'w \<Rightarrow> (go_error + nat) \<times> 'w"
  ReadAll :: "nat \<Rightarrow> 'w \<Rightarrow> (string \<times> err) \<times> 'w"

datatype line = ErrorLine go_error | CreatedLine Spec

datatype main_exit = Fatal go_error | Printed "line list"

text \<open>\<open>&http.Client{}\<close>.\<close>

abbreviation (input) ZeroClient :: http_client where
  "ZeroClient \<equiv> 1"

definition newDefaultClient :: "string \<Rightarrow> chainlink" where
  "newDefaultClient url =
     NewChainlink (Some \<lparr>URL = url, Email = ''notreal@fakeemail.ch'', Password = ''twochains''\<rparr>)"

text \<open>
  The contents of a file that was opened; reading the nil file that a failed \<open>os.Open\<close> leaves
  gives nothing, and so does the beginning of a file where reading fails: errors of \<open>ReadAll\<close>
  are dropped.
\<close>

definition read_spec :: "'w files \<Rightarrow> nat option \<Rightarrow> 'w \<Rightarrow> string \<times> 'w" where
  "read_spec F jsonFile w =
     (case jsonFile of
        None \<Rightarrow> ([], w)
      | Some fd \<Rightarrow> (case ReadAll F fd w of ((spec, _), w') \<Rightarrow> (spec, w')))"

text \<open>One round of the loop over the files: none of its errors ends the program.\<close>

definition create_spec_of :: "'w http \<Rightarrow> 'w files \<Rightarrow> string \<Rightarrow> 'w \<Rightarrow> (line list, 'w) go" where
  "create_spec_of H F name w =
     bind_go (call (Open F (''../specs/'' @ name)) w) (\<lambda>opened w.
     let out1 = (case opened of Inl err \<Rightarrow> [ErrorLine err] | Inr _ \<Rightarrow> []);
         jsonFile = (case opened of Inl _ \<Rightarrow> None | Inr fd \<Rightarrow> Some fd) in
     bind_go (call (read_spec F jsonFile) w) (\<lambda>spec w.
     let c = SetClient (Some ZeroClient) (newDefaultClient ''http://localhost:6688'') in
     bind_go (SetSessionCookie H c w) (\<lambda>(_, c) w.
     bind_go (CreateSpec H c spec w) (\<lambda>(s, err) w.
     let out2 = (case err of Some e \<Rightarrow> [ErrorLine e] | None \<Rightarrow> []) in
     Ret (out1 @ out2 @ [CreatedLine s]) w))))"

fun create_specs :: "'w http \<Rightarrow> 'w files \<Rightarrow> string list \<Rightarrow> 'w \<Rightarrow> (line list, 'w) go" where
  "create_specs H F [] w = Ret [] w"
| "create_specs H F (name # names) w =
     bind_go (create_spec_of H F name w) (\<lambda>out w.
     bind_go (create_specs H F names w) (\<lambda>outs w. Ret (out @ outs) w))"

definition main_program :: "'w http \<Rightarrow> 'w files \<Rightarrow> 'w \<Rightarrow> (main_exit, 'w) go" where
  "main_program H F w =
     bind_go (call (ReadDir F ''../specs'') w) (\<lambda>files w.
     case files of
       Inl err \<Rightarrow> Ret (Fatal err) w
     | Inr names \<Rightarrow> bind_go (create_specs H F names w) (\<lambda>out w. Ret (Printed out) w))"

section \<open>What the program requests\<close>

abbreviation node_config :: ChainlinkConfig where
  "node_config \<equiv> \<lparr>URL = ''http://localhost:6688'', Email = ''notreal@fakeemail.ch'', Password = ''twochains''\<rparr>"

text \<open>The part of a request that does not depend on the session.\<close>

definition request_core :: "request \<Rightarrow> string \<times> string \<times> string" where
  "request_core r = (rq_Method r, rq_URL r, rq_Body r)"

text \<open>The login and the creation of a spec, for one file.\<close>

definition spec_requests :: "string \<Rightarrow> (string \<times> string \<times> string) list" where
  "spec_requests spec =
     [request_core (session_request node_config), (''POST'', ''http://localhost:6688/v2/specs'', spec)]"

text \<open>A file system, beside a log of requests, in which files have contents that do not change.\<close>

definition static_files :: "(string \<Rightarrow> string option) \<Rightarrow> (request list \<times> 'w) files \<Rightarrow> bool" where
  "static_files contents F \<longleftrightarrow>
     (\<forall>name w. case contents name of
        None \<Rightarrow> \<exists>e. Open F (''../specs/'' @ name) w = (Inl e, w)
      | Some s \<Rightarrow> \<exists>fd. Open F (''../specs/'' @ name) w = (Inr fd, w) \<and> (\<forall>w. \<exists>e. ReadAll F fd w = ((s, e), w)))"

definition spec_text :: "(string \<Rightarrow> string option) \<Rightarrow> string \<Rightarrow> string" where
  "spec_text contents name = (case contents name of Some s \<Rightarrow> s | None \<Rightarrow> [])"

text \<open>The documented promise of Go's HTTP client.\<close>

definition responds :: "'w http \<Rightarrow> bool" where
  "responds H \<longleftrightarrow> (\<forall>u. URL_error H u = nil) \<and> (\<forall>client req w. fst (Do H client req w) \<noteq> (nil, nil))"

lemma responds_cases:
  assumes "responds H"
  obtains r w' where "Do H client req w = ((Some r, nil), w')"
    | resp e w' where "Do H client req w = ((resp, Some e), w')"
proof -
  obtain resp err w' where d: "Do H client req w = ((resp, err), w')" by (metis surj_pair)
  with assms have "\<not> (resp = nil \<and> err = nil)" unfolding responds_def by (metis fst_conv)
  with d that show thesis by (cases err; cases resp) auto
qed

lemma session_recorded:
  assumes "responds H" and "cl_Config c = Some cfg"
  shows "\<exists>err cs w'. SetSessionCookie (recorded H) c (log, w) = Ret (err, c\<lparr>cl_Cookies := cs\<rparr>) (log @ [session_request cfg], w')"
proof -
  have url: "URL_error (recorded H) (URL cfg @ ''/sessions'') = nil"
    using assms(1) by (simp add: responds_def)
  show ?thesis
  proof (rule responds_cases [OF assms(1), of DefaultClient "session_request cfg" w])
    fix r w'
    assume "Do H DefaultClient (session_request cfg) w = ((Some r, nil), w')"
    then have "Do (recorded H) DefaultClient (session_request cfg) (log, w) = ((Some r, nil), (log @ [session_request cfg], w'))"
      by simp
    from SetSessionCookie_reply [OF assms(2) url this] obtain err where
      "SetSessionCookie (recorded H) c (log, w) =
        Ret (err, c\<lparr>cl_Cookies := if session_stored r then Cookies r else cl_Cookies c\<rparr>) (log @ [session_request cfg], w')"
      by (auto split: if_splits)
    then show ?thesis by blast
  next
    fix resp e w'
    assume "Do H DefaultClient (session_request cfg) w = ((resp, Some e), w')"
    then have "SetSessionCookie (recorded H) c (log, w) =
        Ret (Some e, c\<lparr>cl_Cookies := cl_Cookies c\<rparr>) (log @ [session_request cfg], w')"
      using assms(2) url by (simp add: SetSessionCookie_def Post_session bind_call)
    then show ?thesis by blast
  qed
qed

lemma create_spec_recorded:
  assumes "responds H" and "cl_Config c = Some cfg" and "cl_Client c = Some client"
  shows "\<exists>s err w'. CreateSpec (recorded H) c spec (log, w) = Ret (s, err) (log @ [call_request c cfg (CallCreateSpec spec)], w')"
proof -
  have "\<exists>err w'. call_result (recorded H) c (CallCreateSpec spec) (log, w) = Ret err w'"
    by (rule responds_cases [OF assms(1), of client "call_request c cfg (CallCreateSpec spec)" w])
      (use assms in \<open>simp_all add: call_result_def responds_def split: option.split\<close>)
  then obtain err log' w' where run: "run_call (recorded H) c (CallCreateSpec spec) (log, w) = Ret err (log', w')"
    unfolding run_call_result [symmetric] by (metis surj_pair)
  have "log' = log @ [call_request c cfg (CallCreateSpec spec)]"
    using run run_call_recorded [OF assms(2,3), of H "CallCreateSpec spec" log w] assms(1)
    by (auto simp: responds_def split: go.splits simp del: run_call.simps)
  with run show ?thesis by (auto simp: drop_obj_def bind_go_eq_Ret)
qed

lemma read_static:
  assumes "static_files contents F"
  shows "\<exists>opened. Open F (''../specs/'' @ name) w = (opened, w) \<and>
    read_spec F (case opened of Inl _ \<Rightarrow> None | Inr fd \<Rightarrow> Some fd) w = (spec_text contents name, w)"
proof -
  note static = assms [unfolded static_files_def, rule_format, of name w]
  show ?thesis
  proof (cases "contents name")
    case None
    with static show ?thesis by (auto simp: read_spec_def spec_text_def)
  next
    case (Some s)
    with static obtain fd e where "Open F (''../specs/'' @ name) w = (Inr fd, w)" "ReadAll F fd w = ((s, e), w)"
      by (simp del: split_paired_All) metis
    with Some show ?thesis by (simp add: read_spec_def spec_text_def)
  qed
qed

lemma create_spec_of_recorded:
  assumes "responds H" and "static_files contents F"
  shows "\<exists>out s new w'. create_spec_of (recorded H) F name (log, w) = Ret (out @ [CreatedLine s]) (log @ new, w') \<and>
    map request_core new = spec_requests (spec_text contents name)"
proof -
  let ?c = "SetClient (Some ZeroClient) (newDefaultClient ''http://localhost:6688'')"
  have c: "cl_Config (?c\<lparr>cl_Cookies := cs\<rparr>) = Some node_config" "cl_Client (?c\<lparr>cl_Cookies := cs\<rparr>) = Some ZeroClient"
    "cl_Config ?c = Some node_config" for cs
    by (simp_all add: SetClient_def newDefaultClient_def NewChainlink_def)
  obtain opened where opened: "Open F (''../specs/'' @ name) (log, w) = (opened, (log, w))"
    "read_spec F (case opened of Inl _ \<Rightarrow> None | Inr fd \<Rightarrow> Some fd) (log, w) = (spec_text contents name, (log, w))"
    using read_static [OF assms(2), of name "(log, w)"] by blast
  obtain err cs w1 where login: "SetSessionCookie (recorded H) ?c (log, w) =
      Ret (err, ?c\<lparr>cl_Cookies := cs\<rparr>) (log @ [session_request node_config], w1)"
    using session_recorded [OF assms(1) c(3)] by blast
  let ?create = "call_request (?c\<lparr>cl_Cookies := cs\<rparr>) node_config (CallCreateSpec (spec_text contents name))"
  obtain s err2 w2 where create: "CreateSpec (recorded H) (?c\<lparr>cl_Cookies := cs\<rparr>) (spec_text contents name)
      (log @ [session_request node_config], w1) = Ret (s, err2) ((log @ [session_request node_config]) @ [?create], w2)"
    using create_spec_recorded [OF assms(1) c(1,2)] by blast
  have "map request_core [session_request node_config, ?create] = spec_requests (spec_text contents name)"
    by (simp add: spec_requests_def request_core_def call_request_def api_request_def)
  moreover have "create_spec_of (recorded H) F name (log, w) =
      Ret (((case opened of Inl err \<Rightarrow> [ErrorLine err] | Inr _ \<Rightarrow> []) @ (case err2 of Some e \<Rightarrow> [ErrorLine e] | None \<Rightarrow> []))
        @ [CreatedLine s]) (log @ [session_request node_config, ?create], w2)"
    using opened login create by (simp add: create_spec_of_def bind_call Let_def)
  ultimately show ?thesis by blast
qed

lemma create_specs_recorded:
  assumes "responds H" and "static_files contents F"
  shows "\<exists>out new w'. create_specs (recorded H) F names (log, w) = Ret out (log @ new, w') \<and>
    map request_core new = concat (map (\<lambda>n. spec_requests (spec_text contents n)) names) \<and>
    length (filter (\<lambda>l. \<exists>s. l = CreatedLine s) out) \<ge> length names"
proof (induction names arbitrary: log w)
  case (Cons name names)
  obtain out1 s new1 w1 where one: "create_spec_of (recorded H) F name (log, w) = Ret (out1 @ [CreatedLine s]) (log @ new1, w1)"
    "map request_core new1 = spec_requests (spec_text contents name)"
    using create_spec_of_recorded [OF assms] by blast
  obtain out2 new2 w2 where rest: "create_specs (recorded H) F names (log @ new1, w1) = Ret out2 ((log @ new1) @ new2, w2)"
    "map request_core new2 = concat (map (\<lambda>n. spec_requests (spec_text contents n)) names)"
    "length (filter (\<lambda>l. \<exists>s. l = CreatedLine s) out2) \<ge> length names"
    using Cons.IH by blast
  show ?case
    by (rule exI [of _ "(out1 @ [CreatedLine s]) @ out2"], rule exI [of _ "new1 @ new2"], rule exI [of _ w2])
      (use one rest in simp)
qed simp

section \<open>Properties\<close>

text \<open>
  C40. The program logs in and posts a job spec once for every file, in the order of the
  names, and ends normally. A file that cannot be opened does not stop it and is posted as an
  empty spec, and no answer of the node stops it either. For each file it prints that a
  spec was created, even if none was.
\<close>

theorem main_posts_every_spec:
  assumes "responds H" and "static_files contents F" and "ReadDir F ''../specs'' (log, w) = (Inr names, (log, w))"
  shows "\<exists>out new w'. main_program (recorded H) F (log, w) = Ret (Printed out) (log @ new, w') \<and>
    map request_core new = concat (map (\<lambda>n. spec_requests (spec_text contents n)) names) \<and>
    length names \<le> length (filter (\<lambda>l. \<exists>s. l = CreatedLine s) out)"
proof -
  obtain out new w' where "create_specs (recorded H) F names (log, w) = Ret out (log @ new, w')"
    "map request_core new = concat (map (\<lambda>n. spec_requests (spec_text contents n)) names)"
    "length names \<le> length (filter (\<lambda>l. \<exists>s. l = CreatedLine s) out)"
    using create_specs_recorded [OF assms(1,2)] by blast
  with assms(3) show ?thesis by (auto simp: main_program_def bind_call)
qed

definition sample_files :: "(request list \<times> nat) files" where
  "sample_files = \<lparr>ReadDir = (\<lambda>_ w. (Inr [''a.json'', ''b.json''], w)),
     Open = (\<lambda>p w. if p = ''../specs/a.json'' then (Inr 3, w) else (Inl (LibError ''permission denied''), w)),
     ReadAll = (\<lambda>_ w. ((''spec'', nil), w))\<rparr>"

theorem main_posts_every_spec_witness:
  "\<exists>out new w'. main_program (recorded (sample_http (plain_response 500 [] []))) sample_files ([], 0) = Ret (Printed out) (new, w') \<and>
     map request_core new = spec_requests ''spec'' @ spec_requests []"
proof -
  have "static_files ((\<lambda>_. None)(''a.json'' := Some ''spec'')) sample_files"
    by (auto simp: static_files_def sample_files_def)
  moreover have "responds (sample_http (plain_response 500 [] []))"
    by (simp add: responds_def)
  moreover have "ReadDir sample_files ''../specs'' ([], 0) = (Inr [''a.json'', ''b.json''], ([], 0))"
    by (simp add: sample_files_def)
  ultimately show ?thesis
    using main_posts_every_spec by (fastforce simp: spec_text_def)
qed

end
