(* ===== verification/Substrate.thy ===== *)
theory Substrate
  imports Main "HOL-Library.Word"
begin

text \<open>
  The part of the Substrate runtime that the two Chainlink pallets use. A dispatchable
  (an extrinsic) runs on the storage of the chain and returns the storage together with
  \<open>Ok\<close>, an error or a panic; a failing dispatchable keeps what it has written, unless it
  ran inside \<open>with_transaction_result\<close> of \<open>pallet-chainlink-feed/src/utils.rs\<close>.

  The \<open>Currency\<close> of the runtime is code of another repository: it is a parameter, a record
  of the operations of the trait \<open>ReservableCurrency\<close> that the pallets call, on an opaque
  state \<open>'w\<close> of the other pallets. What its documentation promises is the predicate
  \<open>reservable\<close>, a named hypothesis of the properties that need it.
\<close>

section \<open>Types of the runtime\<close>

text \<open>The associated types as \<open>substrate-node-example/runtime/src/lib.rs\<close> sets them.\<close>

type_synonym account_id = "256 word"
type_synonym balance = "128 word"
type_synonym block_number = "32 word"

datatype origin = Root | Signed account_id | Unsigned

datatype 'e dispatch_error = BadOrigin | PalletError 'e | CurrencyError nat

datatype ('e, 'r) dispatch = Ok 'r | Err "'e dispatch_error" | Panic

section \<open>Checked and saturating arithmetic\<close>

definition checked_add :: "'a::len word \<Rightarrow> 'a word \<Rightarrow> 'a word option" where
  "checked_add a b = (if unat a + unat b < 2 ^ LENGTH('a) then Some (a + b) else None)"

definition checked_sub :: "'a::len word \<Rightarrow> 'a word \<Rightarrow> 'a word option" where
  "checked_sub a b = (if b \<le> a then Some (a - b) else None)"

definition saturating_add :: "'a::len word \<Rightarrow> 'a word \<Rightarrow> 'a word" where
  "saturating_add a b = (if unat a + unat b < 2 ^ LENGTH('a) then a + b else - 1)"

definition saturating_sub :: "'a::len word \<Rightarrow> 'a word \<Rightarrow> 'a word" where
  "saturating_sub a b = (if b \<le> a then a - b else 0)"

section \<open>Dispatchables\<close>

text \<open>
  The \<open>?\<close> operator: the rest of the function runs on the value of an \<open>Ok\<close> only.
\<close>

definition bind_dispatch ::
  "('e, 'r) dispatch \<times> 's \<Rightarrow> ('r \<Rightarrow> 's \<Rightarrow> ('e, 'q) dispatch \<times> 's) \<Rightarrow> ('e, 'q) dispatch \<times> 's" where
  "bind_dispatch m f =
     (case m of
        (Ok r, s) \<Rightarrow> f r s
      | (Err e, s) \<Rightarrow> (Err e, s)
      | (Panic, s) \<Rightarrow> (Panic, s))"

definition ensure :: "bool \<Rightarrow> 'e \<Rightarrow> ('e, unit) dispatch" where
  "ensure c e = (if c then Ok () else Err (PalletError e))"

definition ok_or :: "'a option \<Rightarrow> 'e \<Rightarrow> ('e, 'a) dispatch" where
  "ok_or x e = (case x of Some v \<Rightarrow> Ok v | None \<Rightarrow> Err (PalletError e))"

definition ensure_signed :: "origin \<Rightarrow> ('e, account_id) dispatch" where
  "ensure_signed origin = (case origin of Signed who \<Rightarrow> Ok who | _ \<Rightarrow> Err BadOrigin)"

text \<open>All changes to storage are discarded unless the closure returns \<open>Ok\<close>.\<close>

definition with_transaction_result :: "('s \<Rightarrow> ('e, 'r) dispatch \<times> 's) \<Rightarrow> 's \<Rightarrow> ('e, 'r) dispatch \<times> 's" where
  "with_transaction_result f s =
     (case f s of (res, s') \<Rightarrow> (case res of Ok _ \<Rightarrow> (res, s') | _ \<Rightarrow> (res, s)))"

section \<open>Double maps of the storage\<close>

type_synonym ('k, 'l, 'v) double_map = "'k \<Rightarrow> 'l \<Rightarrow> 'v option"

definition dm_insert :: "'k \<Rightarrow> 'l \<Rightarrow> 'v \<Rightarrow> ('k, 'l, 'v) double_map \<Rightarrow> ('k, 'l, 'v) double_map" where
  "dm_insert k l v m = m(k := (m k)(l := Some v))"

definition dm_remove :: "'k \<Rightarrow> 'l \<Rightarrow> ('k, 'l, 'v) double_map \<Rightarrow> ('k, 'l, 'v) double_map" where
  "dm_remove k l m = m(k := (m k)(l := None))"

section \<open>The currency\<close>

text \<open>
  An operation that may fail returns the error, or \<open>None\<close> for \<open>Ok\<close>. \<open>unreserve\<close> and
  \<open>repatriate_reserved\<close> also return what they could not move, which the pallets drop.
  \<open>transfer\<close> is called with \<open>ExistenceRequirement::KeepAlive\<close> only, \<open>repatriate_reserved\<close>
  with \<open>BalanceStatus::Free\<close> only.
\<close>

record 'w currency =
  free_balance :: "account_id \<Rightarrow> 'w \<Rightarrow> balance"
  reserved_balance :: "account_id \<Rightarrow> 'w \<Rightarrow> balance"
  reserve :: "account_id \<Rightarrow> balance \<Rightarrow> 'w \<Rightarrow> nat option \<times> 'w"
  unreserve :: "account_id \<Rightarrow> balance \<Rightarrow> 'w \<Rightarrow> balance \<times> 'w"
  transfer :: "account_id \<Rightarrow> account_id \<Rightarrow> balance \<Rightarrow> 'w \<Rightarrow> nat option \<times> 'w"
  repatriate_reserved :: "account_id \<Rightarrow> account_id \<Rightarrow> balance \<Rightarrow> 'w \<Rightarrow> nat option \<times> 'w"

text \<open>
  The documented behaviour of \<open>ReservableCurrency\<close>: \<open>reserve\<close> moves exactly the amount, or
  fails and moves nothing; \<open>unreserve\<close> moves up to the amount; \<open>transfer\<close> moves free
  balance only; \<open>repatriate_reserved\<close> takes up to the amount from the reserved balance of
  the slashed account, and touches no reserved balance of another one when its target is
  the free balance.
\<close>

definition reserve_exact :: "'w currency \<Rightarrow> bool" where
  "reserve_exact C \<longleftrightarrow>
     (\<forall>a v w w'. reserve C a v w = (None, w') \<longrightarrow>
        unat (reserved_balance C a w') = unat (reserved_balance C a w) + unat v \<and>
        (\<forall>b. b \<noteq> a \<longrightarrow> reserved_balance C b w' = reserved_balance C b w)) \<and>
     (\<forall>a v w e w'. reserve C a v w = (Some e, w') \<longrightarrow> w' = w)"

definition unreserve_up_to :: "'w currency \<Rightarrow> bool" where
  "unreserve_up_to C \<longleftrightarrow>
     (\<forall>a v w r w'. unreserve C a v w = (r, w') \<longrightarrow>
        unat (reserved_balance C a w') = unat (reserved_balance C a w) - unat v \<and>
        (\<forall>b. b \<noteq> a \<longrightarrow> reserved_balance C b w' = reserved_balance C b w))"

definition transfer_free_only :: "'w currency \<Rightarrow> bool" where
  "transfer_free_only C \<longleftrightarrow>
     (\<forall>a b v w r w' c. transfer C a b v w = (r, w') \<longrightarrow> reserved_balance C c w' = reserved_balance C c w)"

definition repatriates_from_slashed :: "'w currency \<Rightarrow> bool" where
  "repatriates_from_slashed C \<longleftrightarrow>
     (\<forall>a b v w r w' c. repatriate_reserved C a b v w = (r, w') \<longrightarrow> c \<noteq> a \<longrightarrow>
        reserved_balance C c w' = reserved_balance C c w)"

definition reservable :: "'w currency \<Rightarrow> bool" where
  "reservable C \<longleftrightarrow> reserve_exact C \<and> unreserve_up_to C \<and> transfer_free_only C \<and> repatriates_from_slashed C"

section \<open>Lemmas\<close>

named_theorems dispatch_simps \<open>how dispatchables compose\<close>

lemma bind_Ok [simp]: "bind_dispatch (Ok r, s) f = f r s"
  and bind_Err [simp]: "bind_dispatch (Err e, s) f = (Err e, s)"
  and bind_Panic [simp]: "bind_dispatch (Panic, s) f = (Panic, s)"
  by (simp_all add: bind_dispatch_def)

lemma bind_Ok_iff [dispatch_simps]:
  "bind_dispatch m f = (Ok q, s'') \<longleftrightarrow> (\<exists>r s'. m = (Ok r, s') \<and> f r s' = (Ok q, s''))"
  by (cases m; cases "fst m") (auto simp: bind_dispatch_def)

lemma bind_Err_iff:
  "bind_dispatch m f = (Err e, s'') \<longleftrightarrow> m = (Err e, s'') \<or> (\<exists>r s'. m = (Ok r, s') \<and> f r s' = (Err e, s''))"
  by (cases m; cases "fst m") (auto simp: bind_dispatch_def)

lemma bind_Panic_iff:
  "bind_dispatch m f = (Panic, s'') \<longleftrightarrow> m = (Panic, s'') \<or> (\<exists>r s'. m = (Ok r, s') \<and> f r s' = (Panic, s''))"
  by (cases m; cases "fst m") (auto simp: bind_dispatch_def)

lemma ensure_Ok [dispatch_simps]: "ensure c e = Ok u \<longleftrightarrow> c"
  and ensure_true [simp]: "ensure True e = Ok ()"
  and ensure_false [simp]: "ensure False e = Err (PalletError e)"
  and ensure_Panic [simp]: "ensure c e \<noteq> Panic"
  by (simp_all add: ensure_def)

lemma ok_or_Ok [dispatch_simps]: "ok_or x e = Ok v \<longleftrightarrow> x = Some v"
  and ok_or_Some [simp]: "ok_or (Some w) e = Ok w"
  and ok_or_None [simp]: "ok_or None e = Err (PalletError e)"
  and ok_or_Panic [simp]: "ok_or x e \<noteq> Panic"
  by (simp_all add: ok_or_def split: option.splits)

lemma ensure_signed_Ok [dispatch_simps]: "ensure_signed origin = Ok who \<longleftrightarrow> origin = Signed who"
  and ensure_signed_Signed [simp]: "ensure_signed (Signed a) = Ok a"
  and ensure_signed_Panic [simp]: "ensure_signed origin \<noteq> Panic"
  by (simp_all add: ensure_signed_def split: origin.splits)

lemma transaction_Ok [dispatch_simps]: "with_transaction_result f s = (Ok r, s') \<longleftrightarrow> f s = (Ok r, s')"
  by (auto simp: with_transaction_result_def split: prod.splits dispatch.splits)

lemma transaction_not_Ok:
  "with_transaction_result f s = (res, s') \<Longrightarrow> (\<And>r. res \<noteq> Ok r) \<Longrightarrow> s' = s"
  by (auto simp: with_transaction_result_def split: prod.splits dispatch.splits)

lemma transaction_Panic: "with_transaction_result f s = (Panic, s') \<Longrightarrow> \<exists>s''. f s = (Panic, s'')"
  by (auto simp: with_transaction_result_def split: prod.splits dispatch.splits)

lemma dm_insert_apply [simp]: "dm_insert k l v m k' l' = (if k' = k \<and> l' = l then Some v else m k' l')"
  and dm_remove_apply [simp]: "dm_remove k l m k' l' = (if k' = k \<and> l' = l then None else m k' l')"
  by (simp_all add: dm_insert_def dm_remove_def)

lemma dm_insert_row: "dm_insert k l v m k' = (if k' = k then (m k)(l := Some v) else m k')"
  and dm_remove_row: "dm_remove k l m k' = (if k' = k then (m k)(l := None) else m k')"
  by (simp_all add: dm_insert_def dm_remove_def)

lemma unat_plus_fits: "unat a + unat b < 2 ^ LENGTH('a) \<Longrightarrow> unat (a + b) = unat a + unat b"
  for a b :: "'a::len word"
  by (simp add: unat_word_ariths)

lemma unat_minus_le: "b \<le> a \<Longrightarrow> unat (a - b) = unat a - unat b"
  for a b :: "'a::len word"
  by (simp add: unat_sub)

lemma checked_add_Some: "checked_add a b = Some c \<Longrightarrow> unat c = unat a + unat b"
  by (auto simp: checked_add_def unat_plus_fits split: if_splits)

lemma checked_sub_Some: "checked_sub a b = Some c \<Longrightarrow> unat c + unat b = unat a"
  by (auto simp: checked_sub_def unat_minus_le word_le_nat_alt split: if_splits)

lemma unat_saturating_sub: "unat (saturating_sub a b) = unat a - unat b"
  by (auto simp: saturating_sub_def unat_minus_le word_le_nat_alt)

lemma unat_saturating_add: "unat (saturating_add a b) = min (unat a + unat b) (2 ^ LENGTH('a) - 1)"
  for a b :: "'a::len word"
  by (auto simp: saturating_add_def unat_plus_fits min_def unsigned_minus_1_eq_mask mask_eq_exp_minus_1)

lemma reserve_Ok:
  "reservable C \<Longrightarrow> reserve C a v w = (None, w') \<Longrightarrow>
     unat (reserved_balance C a w') = unat (reserved_balance C a w) + unat v"
  by (auto simp: reservable_def reserve_exact_def)

lemma reserve_Err: "reservable C \<Longrightarrow> reserve C a v w = (Some e, w') \<Longrightarrow> w' = w"
  by (auto simp: reservable_def reserve_exact_def)

lemma unreserve_moves:
  "reservable C \<Longrightarrow> unreserve C a v w = (r, w') \<Longrightarrow>
     unat (reserved_balance C a w') = unat (reserved_balance C a w) - unat v"
  by (auto simp: reservable_def unreserve_up_to_def)

lemma transfer_reserved:
  "reservable C \<Longrightarrow> transfer C a b v w = (r, w') \<Longrightarrow> reserved_balance C c w' = reserved_balance C c w"
  unfolding reservable_def transfer_free_only_def by metis

lemma repatriate_others:
  "reservable C \<Longrightarrow> repatriate_reserved C a b v w = (r, w') \<Longrightarrow> c \<noteq> a \<Longrightarrow>
     reserved_balance C c w' = reserved_balance C c w"
  unfolding reservable_def repatriates_from_slashed_def by metis

text \<open>A sum over all keys after one of them changes.\<close>

lemma sum_update:
  fixes g :: "'k::finite \<Rightarrow> nat"
  shows "(\<Sum>x\<in>UNIV. (g(k := v)) x) + g k = (\<Sum>x\<in>UNIV. g x) + v"
proof -
  have "(\<Sum>x\<in>UNIV. (g(k := v)) x) = v + (\<Sum>x\<in>UNIV - {k}. g x)"
    by (subst sum.remove [of _ k]) (auto intro: sum.cong)
  moreover have "(\<Sum>x\<in>UNIV. g x) = g k + (\<Sum>x\<in>UNIV - {k}. g x)"
    by (subst sum.remove [of _ k]) auto
  ultimately show ?thesis by simp
qed

section \<open>Words that do not wrap around\<close>

lemma less_max_neq: "x < y \<Longrightarrow> x \<noteq> - 1" for x y :: "'a::len word"
  using word_order.extremum_strict by blast

lemma unat_inc: "x \<noteq> - 1 \<Longrightarrow> unat (x + 1) = Suc (unat x)" for x :: "'a::len word"
  by (metis Suc_eq_plus1 add.commute add_eq_0_iff unatSuc)

lemma inc_nonzero: "x \<noteq> - 1 \<Longrightarrow> x + 1 \<noteq> 0" for x :: "'a::len word"
  by (metis unat_inc unat_0 nat.distinct(1))

lemma inc_le_iff: "x \<noteq> - 1 \<Longrightarrow> x + 1 \<le> y \<longleftrightarrow> x < y" for x y :: "'a::len word"
  by (simp add: word_le_nat_alt word_less_nat_alt unat_inc Suc_le_eq)

lemma less_inc_iff: "x \<noteq> - 1 \<Longrightarrow> y < x + 1 \<longleftrightarrow> y \<le> x" for x y :: "'a::len word"
  by (simp add: word_le_nat_alt word_less_nat_alt unat_inc less_Suc_eq_le)

lemma le_inc_iff: "x \<noteq> - 1 \<Longrightarrow> y \<le> x + 1 \<longleftrightarrow> y \<le> x \<or> y = x + 1" for x y :: "'a::len word"
  by (auto simp: le_less [of y "x + 1"] less_inc_iff)

lemma saturating_inc: "saturating_add x 1 = x + 1" if "x \<noteq> - 1" for x :: "32 word"
proof -
  have "unat (x + 1) < 2 ^ LENGTH(32)" by (rule unsigned_less)
  with unat_inc [OF that] show ?thesis by (simp add: saturating_add_def)
qed

lemma saturating_top: "saturating_add (- 1) 1 = (- 1 :: 32 word)"
  by (simp add: saturating_add_def unsigned_minus_1_eq_mask mask_eq_exp_minus_1)

lemma saturating_dec: "saturating_sub (x + 1) 1 = x" if "x \<noteq> - 1" for x :: "32 word"
  using that by (simp add: saturating_sub_def word_le_nat_alt unat_inc)

lemma dec_less: "0 < x \<Longrightarrow> saturating_sub x 1 < x" for x :: "32 word"
  by (simp add: word_less_nat_alt unat_saturating_sub)

lemma one_le_iff: "1 \<le> x \<longleftrightarrow> 0 < x" for x :: "32 word"
  by (simp add: word_le_nat_alt word_less_nat_alt Suc_le_eq)

end
