(* ===== verification/Feed_Pallet.thy ===== *)
theory Feed_Pallet
  imports Substrate
begin

text \<open>
  The price feed pallet, \<open>pallet-chainlink-feed/src/lib.rs\<close>: its storage as a record, its
  structs, and every dispatchable with the methods of the proxy \<open>Feed\<close> that they call.

  A \<open>Feed\<close> is a copy of the stored configuration that is written back when it is dropped;
  a method of it works on the pair of the proxy and the storage, and \<open>with_feed\<close> is the
  scope at whose end the proxy is dropped, on \<open>Ok\<close> and on an error alike. The state of the
  other pallets, on which the currency and the \<open>OnAnswerHandler\<close> work, is the field
  \<open>outside\<close>. Weights are not modelled.
\<close>

section \<open>Data\<close>

type_synonym feed_id = "32 word"
type_synonym round_id = "32 word"
type_synonym feed_value = "128 word"

record FeedConfig =
  fc_owner :: account_id
  fc_pending_owner :: "account_id option"
  fc_submission_value_bounds :: "feed_value \<times> feed_value"
  fc_submission_count_bounds :: "32 word \<times> 32 word"
  fc_payment :: balance
  fc_timeout :: block_number
  fc_decimals :: "8 word"
  fc_description :: string
  fc_restart_delay :: round_id
  fc_reporting_round :: round_id
  fc_latest_round :: round_id
  fc_first_valid_round :: "round_id option"
  fc_oracle_count :: "32 word"
  fc_pruning_window :: round_id
  fc_next_round_to_prune :: round_id
  fc_debt :: balance
  fc_max_debt :: "balance option"

record Round =
  rnd_started_at :: block_number
  rnd_answer :: "feed_value option"
  rnd_updated_at :: "block_number option"
  rnd_answered_in_round :: "round_id option"

definition Round_new :: "block_number \<Rightarrow> Round" where
  "Round_new started_at =
     \<lparr>rnd_started_at = started_at, rnd_answer = None, rnd_updated_at = None, rnd_answered_in_round = None\<rparr>"

record RoundDetails =
  det_submissions :: "feed_value list"
  det_submission_count_bounds :: "32 word \<times> 32 word"
  det_payment :: balance
  det_timeout :: block_number

record OracleMeta =
  om_withdrawable :: balance
  om_admin :: account_id
  om_pending_admin :: "account_id option"

record OracleStatus =
  os_starting_round :: round_id
  os_ending_round :: "round_id option"
  os_last_reported_round :: "round_id option"
  os_last_started_round :: "round_id option"
  os_latest_submission :: "feed_value option"

definition OracleStatus_new :: "round_id \<Rightarrow> OracleStatus" where
  "OracleStatus_new starting_round =
     \<lparr>os_starting_round = starting_round, os_ending_round = None, os_last_reported_round = None,
      os_last_started_round = None, os_latest_submission = None\<rparr>"

record Requester =
  rq_delay :: round_id
  rq_last_started_round :: "round_id option"

record RoundData =
  dat_started_at :: block_number
  dat_answer :: feed_value
  dat_updated_at :: block_number
  dat_answered_in_round :: round_id

text \<open>The conversion fails, with \<open>MissingField\<close>, unless all three fields are there.\<close>

definition try_from :: "Round \<Rightarrow> RoundData option" where
  "try_from r =
     (case (rnd_answered_in_round r, rnd_answer r, rnd_updated_at r) of
        (Some round, Some answer, Some updated_at) \<Rightarrow>
          Some \<lparr>dat_started_at = rnd_started_at r, dat_answer = answer, dat_updated_at = updated_at,
                dat_answered_in_round = round\<rparr>
      | _ \<Rightarrow> None)"

definition into_round :: "RoundData \<Rightarrow> Round" where
  "into_round d =
     \<lparr>rnd_started_at = dat_started_at d, rnd_answer = Some (dat_answer d),
      rnd_updated_at = Some (dat_updated_at d), rnd_answered_in_round = Some (dat_answered_in_round d)\<rparr>"

definition RoundData_default :: RoundData where
  "RoundData_default = \<lparr>dat_started_at = 0, dat_answer = 0, dat_updated_at = 0, dat_answered_in_round = 0\<rparr>"

datatype feed_event =
    FeedCreated feed_id account_id
  | NewRound feed_id round_id account_id block_number
  | SubmissionReceived feed_id round_id feed_value account_id
  | AnswerUpdated feed_id round_id feed_value block_number
  | RoundDetailsUpdated feed_id balance "32 word \<times> 32 word" round_id block_number
  | OracleAdminUpdateRequested account_id account_id account_id
  | OracleAdminUpdated account_id account_id
  | OraclePermissionsUpdated feed_id account_id bool
  | RequesterPermissionsSet feed_id account_id bool round_id
  | OwnerUpdateRequested feed_id account_id account_id
  | OwnerUpdated feed_id account_id
  | PalletAdminUpdateRequested account_id account_id
  | PalletAdminUpdated account_id
  | FeedCreator account_id
  | FeedCreatorRemoved account_id

datatype feed_error =
    Overflow | NotOracle | OracleNotEnabled | OracleDisabled | NotEnoughOracles | ReportingOrder
  | FeedNotFound | RoundNotFound | RequesterNotFound | RoundNotSupersedable | OracleNotFound
  | NotAcceptingSubmissions | SubmissionBelowMinimum | SubmissionAboveMaximum | DescriptionTooLong
  | OraclesLimitExceeded | AlreadyEnabled | OwnerCannotChangeAdmin | NotFeedOwner | NotPendingOwner
  | WrongBounds | MaxExceededTotal | DelayNotBelowCount | NotAdmin | NotPendingAdmin
  | CannotRequestRoundYet | NotAuthorizedRequester | InsufficientFunds | InsufficientReserve
  | NotPalletAdmin | NotPendingPalletAdmin | CannotPruneRoundZero | FeedLimitReached | NotSupersedable
  | InvalidRound | NotFeedCreator | MaxDebtReached

type_synonym 'r result = "(feed_error, 'r) dispatch"

section \<open>Storage and configuration of the pallet\<close>

record 'w storage =
  PalletAdmin :: account_id
  PendingPalletAdmin :: "account_id option"
  FeedCounter :: feed_id
  Feeds :: "feed_id \<Rightarrow> FeedConfig option"
  FeedCreators :: "account_id \<Rightarrow> unit option"
  Rounds :: "(feed_id, round_id, Round) double_map"
  Details :: "(feed_id, round_id, RoundDetails) double_map"
  Oracles :: "account_id \<Rightarrow> OracleMeta option"
  OracleStatuses :: "(feed_id, account_id, OracleStatus) double_map"
  Requesters :: "(feed_id, account_id, Requester) double_map"
  Events :: "feed_event list"
  block_num :: block_number
  outside :: 'w

record 'w runtime =
  Currency :: "'w currency"
  fund_account :: account_id
  MinimumReserve :: balance
  StringLimit :: "32 word"
  OracleCountLimit :: "32 word"
  FeedLimit :: feed_id
  on_answer :: "feed_id \<Rightarrow> RoundData \<Rightarrow> 'w \<Rightarrow> 'w"

text \<open>
  The handler \<open>()\<close> of \<open>traits.rs\<close>, which the runtime of the example node uses.
\<close>

definition on_answer_nop :: "feed_id \<Rightarrow> RoundData \<Rightarrow> 'w \<Rightarrow> 'w" where
  "on_answer_nop feed new_data w = w"

definition deposit_event :: "feed_event \<Rightarrow> 'w storage \<Rightarrow> 'w storage" where
  "deposit_event ev s = s\<lparr>Events := Events s @ [ev]\<rparr>"

definition genesis_build :: "account_id option \<Rightarrow> account_id list \<Rightarrow> 'w storage \<Rightarrow> 'w storage" where
  "genesis_build pallet_admin feed_creators s =
     fold (\<lambda>creator s. s\<lparr>FeedCreators := (FeedCreators s)(creator := Some ())\<rparr>) feed_creators
       (case pallet_admin of Some admin \<Rightarrow> s\<lparr>PalletAdmin := admin\<rparr> | None \<Rightarrow> s)"

text \<open>Storage that was never written, in which every \<open>ValueQuery\<close> gives the default.\<close>

definition empty_storage :: "'w \<Rightarrow> 'w storage" where
  "empty_storage w =
     \<lparr>PalletAdmin = 0, PendingPalletAdmin = None, FeedCounter = 0, Feeds = \<lambda>_. None,
      FeedCreators = \<lambda>_. None, Rounds = \<lambda>_ _. None, Details = \<lambda>_ _. None, Oracles = \<lambda>_. None,
      OracleStatuses = \<lambda>_ _. None, Requesters = \<lambda>_ _. None, Events = [], block_num = 0, outside = w\<rparr>"

definition debt :: "'w storage \<Rightarrow> feed_id \<Rightarrow> balance result" where
  "debt s feed_id = (case Feeds s feed_id of Some feed_config \<Rightarrow> Ok (fc_debt feed_config)
     | None \<Rightarrow> Err (PalletError FeedNotFound))"

section \<open>The median\<close>

text \<open>
  The slice is sorted in place: the result is the median and the sorted slice, or \<open>None\<close>
  where indexing an empty slice panics.
\<close>

definition median :: "feed_value list \<Rightarrow> (feed_value \<times> feed_value list) option" where
  "median unsorted =
     (let numbers = sort unsorted; mid = length numbers div 2 in
      if length numbers mod 2 = 0
      then if mid = 0 then None
           else Some (saturating_add (numbers ! (mid - 1)) (numbers ! mid) div 2, numbers)
      else Some (numbers ! mid, numbers))"

section \<open>The proxy of a feed\<close>

record Feed =
  feed_ident :: feed_id
  feed_conf :: FeedConfig
  should_sync :: bool

type_synonym 'w scope = "Feed \<times> 'w storage"

definition Feed_new :: "feed_id \<Rightarrow> FeedConfig \<Rightarrow> Feed" where
  "Feed_new ident config = \<lparr>feed_ident = ident, feed_conf = config, should_sync = True\<rparr>"

definition read_only_from :: "'w storage \<Rightarrow> feed_id \<Rightarrow> Feed option" where
  "read_only_from s ident =
     map_option (\<lambda>config. \<lparr>feed_ident = ident, feed_conf = config, should_sync = False\<rparr>) (Feeds s ident)"

definition load_from :: "'w storage \<Rightarrow> feed_id \<Rightarrow> Feed option" where
  "load_from s ident =
     map_option (\<lambda>config. \<lparr>feed_ident = ident, feed_conf = config, should_sync = True\<rparr>) (Feeds s ident)"

definition sync_to_storage :: "Feed \<Rightarrow> 'w storage \<Rightarrow> 'w storage" where
  "sync_to_storage self s = s\<lparr>Feeds := (Feeds s)(feed_ident self := Some (feed_conf self))\<rparr>"

definition drop_feed :: "Feed \<Rightarrow> 'w storage \<Rightarrow> 'w storage" where
  "drop_feed self s = (if should_sync self then sync_to_storage self s else s)"

definition with_feed :: "Feed \<Rightarrow> ('w scope \<Rightarrow> 'r result \<times> 'w scope) \<Rightarrow> 'w storage \<Rightarrow> 'r result \<times> 'w storage" where
  "with_feed feed body s = (case body (feed, s) of (res, feed', s') \<Rightarrow> (res, drop_feed feed' s'))"

definition reporting_round_id :: "Feed \<Rightarrow> round_id" where
  "reporting_round_id self = fc_reporting_round (feed_conf self)"

definition feed_round :: "'w scope \<Rightarrow> round_id \<Rightarrow> Round option" where
  "feed_round = (\<lambda>(self, s) round. Rounds s (feed_ident self) round)"

definition feed_details :: "'w scope \<Rightarrow> round_id \<Rightarrow> RoundDetails option" where
  "feed_details = (\<lambda>(self, s) round. Details s (feed_ident self) round)"

definition feed_status :: "'w scope \<Rightarrow> account_id \<Rightarrow> OracleStatus option" where
  "feed_status = (\<lambda>(self, s) oracle. OracleStatuses s (feed_ident self) oracle)"

definition oracle_count :: "Feed \<Rightarrow> 32 word" where
  "oracle_count self = fc_oracle_count (feed_conf self)"

subsection \<open>Checks\<close>

definition ensure_owner :: "Feed \<Rightarrow> account_id \<Rightarrow> unit result" where
  "ensure_owner self owner = ensure (fc_owner (feed_conf self) = owner) NotFeedOwner"

definition is_timed_out :: "'w scope \<Rightarrow> round_id \<Rightarrow> bool" where
  "is_timed_out self round =
     (let started_at = (case feed_round self round of Some r \<Rightarrow> rnd_started_at r | None \<Rightarrow> 0);
          timeout = (case feed_details self round of Some d \<Rightarrow> det_timeout d | None \<Rightarrow> 0);
          now = block_num (snd self)
      in started_at > 0 \<and> timeout > 0 \<and> saturating_add started_at timeout < now)"

definition was_updated :: "'w scope \<Rightarrow> round_id \<Rightarrow> bool" where
  "was_updated self round = (case feed_round self round of Some r \<Rightarrow> rnd_updated_at r \<noteq> None | None \<Rightarrow> False)"

definition is_supersedable :: "'w scope \<Rightarrow> round_id \<Rightarrow> bool" where
  "is_supersedable self round \<longleftrightarrow> round = 0 \<or> was_updated self round \<or> is_timed_out self round"

definition ensure_valid_round :: "'w scope \<Rightarrow> account_id \<Rightarrow> round_id \<Rightarrow> unit result" where
  "ensure_valid_round self oracle round_id =
     (case feed_status self oracle of None \<Rightarrow> Err (PalletError NotOracle) | Some status \<Rightarrow>
      if \<not> os_starting_round status \<le> round_id then Err (PalletError OracleNotEnabled)
      else if \<not> (case os_ending_round status of Some e \<Rightarrow> e \<ge> round_id | None \<Rightarrow> True)
      then Err (PalletError OracleDisabled)
      else if \<not> (case os_last_reported_round status of Some l \<Rightarrow> l < round_id | None \<Rightarrow> True)
      then Err (PalletError ReportingOrder)
      else
        let reporting = reporting_round_id (fst self);
            is_current = round_id = reporting;
            is_next = round_id = saturating_add reporting 1;
            current_unanswered =
              (case feed_round self reporting of Some r \<Rightarrow> rnd_updated_at r = None | None \<Rightarrow> True);
            is_previous = saturating_add round_id 1 = reporting
        in if \<not> (is_current \<or> is_next \<or> (is_previous \<and> current_unanswered))
           then Err (PalletError InvalidRound)
           else if \<not> (round_id = 1 \<or> is_supersedable self (saturating_sub round_id 1))
           then Err (PalletError NotSupersedable)
           else Ok ())"

subsection \<open>Mutators\<close>

definition track_oracle :: "account_id \<Rightarrow> account_id \<Rightarrow> 'w storage \<Rightarrow> unit result \<times> 'w storage" where
  "track_oracle oracle admin s =
     (case Oracles s oracle of
        Some meta \<Rightarrow> (ensure (om_admin meta = admin) OwnerCannotChangeAdmin, s)
      | None \<Rightarrow> (Ok (), s\<lparr>Oracles := (Oracles s)(oracle \<mapsto>
          \<lparr>om_withdrawable = 0, om_admin = admin, om_pending_admin = None\<rparr>)\<rparr>))"

definition enable_oracle :: "feed_id \<Rightarrow> round_id \<Rightarrow> account_id \<Rightarrow> 'w storage \<Rightarrow> unit result \<times> 'w storage" where
  "enable_oracle ident reporting oracle s =
     (case OracleStatuses s ident oracle of
        Some status \<Rightarrow>
          if os_ending_round status = None then (Err (PalletError AlreadyEnabled), s)
          else (Ok (), s\<lparr>OracleStatuses := dm_insert ident oracle
                 (status\<lparr>os_starting_round := reporting, os_ending_round := None\<rparr>) (OracleStatuses s)\<rparr>)
      | None \<Rightarrow>
          (Ok (), s\<lparr>OracleStatuses := dm_insert ident oracle (OracleStatus_new reporting) (OracleStatuses s)\<rparr>))"

fun add_oracles_loop :: "feed_id \<Rightarrow> round_id \<Rightarrow> (account_id \<times> account_id) list \<Rightarrow> 'w storage \<Rightarrow> unit result \<times> 'w storage" where
  "add_oracles_loop ident reporting [] s = (Ok (), s)"
| "add_oracles_loop ident reporting ((oracle, admin) # to_add) s =
     bind_dispatch (track_oracle oracle admin s) (\<lambda>_ s.
     bind_dispatch (enable_oracle ident reporting oracle s) (\<lambda>_ s.
     add_oracles_loop ident reporting to_add (deposit_event (OraclePermissionsUpdated ident oracle True) s)))"

text \<open>The count is set before the oracles are added; an error discards both.\<close>

definition add_oracles :: "'w runtime \<Rightarrow> (account_id \<times> account_id) list \<Rightarrow> 'w scope \<Rightarrow> unit result \<times> 'w scope" where
  "add_oracles R to_add = (\<lambda>(self, s).
     let new_count = saturating_add (oracle_count self) (of_nat (length to_add)) in
     if \<not> new_count \<le> OracleCountLimit R then (Err (PalletError OraclesLimitExceeded), (self, s))
     else
       let self = self\<lparr>feed_conf := (feed_conf self)\<lparr>fc_oracle_count := new_count\<rparr>\<rparr> in
       (case add_oracles_loop (feed_ident self) (reporting_round_id self) to_add s of
          (res, s) \<Rightarrow> (res, (self, s))))"

fun disable_oracles_loop :: "feed_id \<Rightarrow> round_id \<Rightarrow> account_id list \<Rightarrow> 'w storage \<Rightarrow> unit result \<times> 'w storage" where
  "disable_oracles_loop ident reporting [] s = (Ok (), s)"
| "disable_oracles_loop ident reporting (d # to_disable) s =
     (case OracleStatuses s ident d of
        None \<Rightarrow> (Err (PalletError OracleNotFound), s)
      | Some status \<Rightarrow>
          if os_ending_round status \<noteq> None then (Err (PalletError OracleDisabled), s)
          else disable_oracles_loop ident reporting to_disable
            (deposit_event (OraclePermissionsUpdated ident d False)
              (s\<lparr>OracleStatuses := dm_insert ident d (status\<lparr>os_ending_round := Some reporting\<rparr>)
                 (OracleStatuses s)\<rparr>)))"

definition disable_oracles :: "account_id list \<Rightarrow> 'w scope \<Rightarrow> unit result \<times> 'w scope" where
  "disable_oracles to_disable = (\<lambda>(self, s).
     case checked_sub (fc_oracle_count (feed_conf self)) (of_nat (length to_disable)) of
       None \<Rightarrow> (Err (PalletError NotEnoughOracles), (self, s))
     | Some new_count \<Rightarrow>
         let self = self\<lparr>feed_conf := (feed_conf self)\<lparr>fc_oracle_count := new_count\<rparr>\<rparr> in
         (case disable_oracles_loop (feed_ident self) (reporting_round_id self) to_disable s of
            (res, s) \<Rightarrow> (res, (self, s))))"

definition Feed_update_future_rounds ::
  "balance \<Rightarrow> 32 word \<times> 32 word \<Rightarrow> round_id \<Rightarrow> block_number \<Rightarrow> 'w scope \<Rightarrow> unit result \<times> 'w scope" where
  "Feed_update_future_rounds payment submission_count_bounds restart_delay timeout = (\<lambda>(self, s).
     case submission_count_bounds of (min_count, max_count) \<Rightarrow>
     if \<not> max_count \<ge> min_count then (Err (PalletError WrongBounds), (self, s))
     else if \<not> oracle_count self \<ge> max_count then (Err (PalletError MaxExceededTotal), (self, s))
     else if \<not> oracle_count self > restart_delay then (Err (PalletError DelayNotBelowCount), (self, s))
     else if oracle_count self > 0 \<and> \<not> min_count > 0 then (Err (PalletError WrongBounds), (self, s))
     else
       (Ok (),
        (self\<lparr>feed_conf := (feed_conf self)\<lparr>fc_payment := payment,
           fc_submission_count_bounds := submission_count_bounds, fc_restart_delay := restart_delay,
           fc_timeout := timeout\<rparr>\<rparr>,
         deposit_event (RoundDetailsUpdated (feed_ident self) payment submission_count_bounds restart_delay timeout) s)))"

definition current_window :: "Feed \<Rightarrow> 32 word" where
  "current_window self = saturating_sub (fc_latest_round (feed_conf self)) (fc_next_round_to_prune (feed_conf self))"

definition prune_oldest :: "'w scope \<Rightarrow> bool \<times> 'w scope" where
  "prune_oldest = (\<lambda>(self, s).
     let prune_next = fc_next_round_to_prune (feed_conf self) in
     if current_window self \<ge> fc_pruning_window (feed_conf self) then
       (True,
        (self\<lparr>feed_conf := (feed_conf self)\<lparr>fc_next_round_to_prune := prune_next + 1,
           fc_first_valid_round := Some (prune_next + 1)\<rparr>\<rparr>,
         s\<lparr>Rounds := dm_remove (feed_ident self) prune_next (Rounds s),
           Details := dm_remove (feed_ident self) prune_next (Details s)\<rparr>))
     else (False, (self, s)))"

definition close_timed_out_round :: "round_id \<Rightarrow> 'w scope \<Rightarrow> unit result \<times> 'w scope" where
  "close_timed_out_round timed_out_id = (\<lambda>(self, s).
     case feed_round (self, s) (saturating_sub timed_out_id 1) of
       None \<Rightarrow> (Err (PalletError RoundNotFound), (self, s))
     | Some prev_round \<Rightarrow>
     (case feed_round (self, s) timed_out_id of
       None \<Rightarrow> (Err (PalletError RoundNotFound), (self, s))
     | Some timed_out_round \<Rightarrow>
         (Ok (), (self, s\<lparr>Rounds := dm_insert (feed_ident self) timed_out_id
              (timed_out_round\<lparr>rnd_answer := rnd_answer prev_round,
                 rnd_answered_in_round := rnd_answered_in_round prev_round,
                 rnd_updated_at := Some (block_num s)\<rparr>) (Rounds s),
            Details := dm_remove (feed_ident self) timed_out_id (Details s)\<rparr>))))"

definition fresh_details :: "FeedConfig \<Rightarrow> RoundDetails" where
  "fresh_details c = \<lparr>det_submissions = [], det_submission_count_bounds = fc_submission_count_bounds c,
     det_payment = fc_payment c, det_timeout = fc_timeout c\<rparr>"

definition initialize_round :: "round_id \<Rightarrow> 'w scope \<Rightarrow> block_number result \<times> 'w scope" where
  "initialize_round new_round_id = (\<lambda>(self, s).
     let self = self\<lparr>feed_conf := (feed_conf self)\<lparr>fc_reporting_round := new_round_id\<rparr>\<rparr>;
         prev_round_id = saturating_sub new_round_id 1 in
     bind_dispatch
       (if is_timed_out (self, s) prev_round_id then close_timed_out_round prev_round_id (self, s)
        else (Ok (), (self, s))) (\<lambda>_ (self, s).
     (Ok (block_num s), (self,
        s\<lparr>Details := dm_insert (feed_ident self) new_round_id (fresh_details (feed_conf self)) (Details s),
          Rounds := dm_insert (feed_ident self) new_round_id (Round_new (block_num s)) (Rounds s)\<rparr>))))"

section \<open>The interface for other pallets\<close>

definition pallet_feed :: "'w storage \<Rightarrow> feed_id \<Rightarrow> Feed option" where
  "pallet_feed s ident = read_only_from s ident"

definition pallet_feed_mut :: "'w storage \<Rightarrow> feed_id \<Rightarrow> Feed option" where
  "pallet_feed_mut s ident = load_from s ident"

definition first_valid_round :: "Feed \<Rightarrow> round_id option" where
  "first_valid_round self = fc_first_valid_round (feed_conf self)"

definition latest_round :: "Feed \<Rightarrow> round_id" where
  "latest_round self = fc_latest_round (feed_conf self)"

definition data_at :: "'w scope \<Rightarrow> round_id \<Rightarrow> RoundData option" where
  "data_at self round = (case feed_round self round of None \<Rightarrow> None | Some r \<Rightarrow> try_from r)"

text \<open>The \<open>debug_assert\<close> on the default branch is compiled out of a release build.\<close>

definition latest_data :: "'w scope \<Rightarrow> RoundData" where
  "latest_data self =
     (case data_at self (latest_round (fst self)) of Some d \<Rightarrow> d | None \<Rightarrow> RoundData_default)"

definition feed_decimals :: "Feed \<Rightarrow> 8 word" where
  "feed_decimals self = fc_decimals (feed_conf self)"

definition Feed_request_new_round :: "account_id \<Rightarrow> 'w scope \<Rightarrow> unit result \<times> 'w scope" where
  "Feed_request_new_round requester = (\<lambda>(self, s).
     case checked_add (reporting_round_id self) 1 of
       None \<Rightarrow> (Err (PalletError Overflow), (self, s))
     | Some new_round \<Rightarrow>
         if \<not> is_supersedable (self, s) (reporting_round_id self)
         then (Err (PalletError RoundNotSupersedable), (self, s))
         else bind_dispatch (initialize_round new_round (self, s)) (\<lambda>started_at (self, s).
           (Ok (), (self, deposit_event (NewRound (feed_ident self) new_round requester started_at) s))))"

section \<open>Dispatchables on feeds\<close>

text \<open>
  The seed data of round 0, and what happens inside the scope of the proxy of the new feed.
\<close>

definition seed_round :: "block_number \<Rightarrow> Round" where
  "seed_round started_at = \<lparr>rnd_started_at = started_at, rnd_answer = Some 0, rnd_updated_at = Some started_at,
     rnd_answered_in_round = Some 0\<rparr>"

definition create_feed_body :: "'w runtime \<Rightarrow> account_id \<Rightarrow> balance \<Rightarrow> block_number \<Rightarrow> 32 word \<times> 32 word \<Rightarrow> round_id \<Rightarrow>
    (account_id \<times> account_id) list \<Rightarrow> 'w scope \<Rightarrow> unit result \<times> 'w scope" where
  "create_feed_body R owner payment timeout submission_count_bounds restart_delay oracles = (\<lambda>(feed, s).
     let started_at = block_num s;
         s = s\<lparr>Rounds := dm_insert (feed_ident feed) 0 (seed_round started_at) (Rounds s)\<rparr>
     in bind_dispatch (add_oracles R oracles (feed, s)) (\<lambda>_ scope.
        bind_dispatch (Feed_update_future_rounds payment submission_count_bounds restart_delay timeout scope)
          (\<lambda>_ (feed, s). (Ok (), (feed, deposit_event (FeedCreated (feed_ident feed) owner) s)))))"

definition create_feed :: "'w runtime \<Rightarrow> origin \<Rightarrow> balance \<Rightarrow> block_number \<Rightarrow> feed_value \<times> feed_value \<Rightarrow>
    32 word \<Rightarrow> 8 word \<Rightarrow> string \<Rightarrow> round_id \<Rightarrow> (account_id \<times> account_id) list \<Rightarrow> round_id option \<Rightarrow>
    balance option \<Rightarrow> 'w storage \<Rightarrow> unit result \<times> 'w storage" where
  "create_feed R origin payment timeout submission_value_bounds min_submissions decimals description
       restart_delay oracles pruning_window max_debt s =
     bind_dispatch (ensure_signed origin, s) (\<lambda>owner s.
     bind_dispatch (ensure (FeedCreators s owner \<noteq> None) NotFeedCreator, s) (\<lambda>_ s.
     bind_dispatch (ensure (of_nat (length description) \<le> StringLimit R) DescriptionTooLong, s) (\<lambda>_ s.
     let window = (case pruning_window of Some window \<Rightarrow> window | None \<Rightarrow> - 1) in
     bind_dispatch (ensure (window > 0) CannotPruneRoundZero, s) (\<lambda>_ s.
     let submission_count_bounds = (min_submissions, of_nat (length oracles)) in
     with_transaction_result (\<lambda>s.
       let ident = FeedCounter s in
       bind_dispatch (ensure (ident < FeedLimit R) FeedLimitReached, s) (\<lambda>_ s.
       bind_dispatch (ok_or (checked_add ident 1) Overflow, s) (\<lambda>new_id s.
       let new_config = \<lparr>fc_owner = owner, fc_pending_owner = None,
             fc_submission_value_bounds = submission_value_bounds,
             fc_submission_count_bounds = submission_count_bounds, fc_payment = payment,
             fc_timeout = timeout, fc_decimals = decimals, fc_description = description,
             fc_restart_delay = restart_delay, fc_reporting_round = 0, fc_latest_round = 0,
             fc_first_valid_round = None, fc_oracle_count = 0, fc_pruning_window = window,
             fc_next_round_to_prune = 1, fc_debt = 0, fc_max_debt = max_debt\<rparr>
       in with_feed (Feed_new ident new_config)
            (create_feed_body R owner payment timeout submission_count_bounds restart_delay oracles)
            (s\<lparr>FeedCounter := new_id\<rparr>)))) s))))"

definition transfer_ownership :: "origin \<Rightarrow> feed_id \<Rightarrow> account_id \<Rightarrow> 'w storage \<Rightarrow> unit result \<times> 'w storage" where
  "transfer_ownership origin feed_id new_owner s =
     bind_dispatch (ensure_signed origin, s) (\<lambda>old_owner s.
     bind_dispatch (ok_or (Feeds s feed_id) FeedNotFound, s) (\<lambda>feed s.
     bind_dispatch (ensure (fc_owner feed = old_owner) NotFeedOwner, s) (\<lambda>_ s.
     (Ok (), deposit_event (OwnerUpdateRequested feed_id old_owner new_owner)
        (s\<lparr>Feeds := (Feeds s)(feed_id \<mapsto> feed\<lparr>fc_pending_owner := Some new_owner\<rparr>)\<rparr>)))))"

definition accept_ownership :: "origin \<Rightarrow> feed_id \<Rightarrow> 'w storage \<Rightarrow> unit result \<times> 'w storage" where
  "accept_ownership origin feed_id s =
     bind_dispatch (ensure_signed origin, s) (\<lambda>new_owner s.
     bind_dispatch (ok_or (Feeds s feed_id) FeedNotFound, s) (\<lambda>feed s.
     bind_dispatch (ensure (fc_pending_owner feed = Some new_owner) NotPendingOwner, s) (\<lambda>_ s.
     (Ok (), deposit_event (OwnerUpdated feed_id new_owner)
        (s\<lparr>Feeds := (Feeds s)(feed_id \<mapsto> feed\<lparr>fc_pending_owner := None, fc_owner := new_owner\<rparr>)\<rparr>)))))"

text \<open>
  The loop that prunes all rounds outside the window: \<open>partial_function\<close>, since its end
  depends on the window not being zero.
\<close>

partial_function (option) prune_all :: "'w scope \<Rightarrow> 'w scope option" where
  "prune_all scope =
     (case prune_oldest scope of (pruned, scope) \<Rightarrow> if \<not> pruned then Some scope else prune_all scope)"

text \<open>A loop that never ends would stop the block: it is a panic here.\<close>

definition set_pruning_window :: "origin \<Rightarrow> feed_id \<Rightarrow> round_id \<Rightarrow> 'w storage \<Rightarrow> unit result \<times> 'w storage" where
  "set_pruning_window origin feed_id pruning_window s =
     bind_dispatch (ensure_signed origin, s) (\<lambda>owner s.
     bind_dispatch (ensure (pruning_window > 0) CannotPruneRoundZero, s) (\<lambda>_ s.
     bind_dispatch (ok_or (load_from s feed_id) FeedNotFound, s) (\<lambda>feed s.
     with_feed feed (\<lambda>(feed, s).
       bind_dispatch (ensure_owner feed owner, (feed, s)) (\<lambda>_ (feed, s).
         (case prune_all (feed\<lparr>feed_conf := (feed_conf feed)\<lparr>fc_pruning_window := pruning_window\<rparr>\<rparr>, s) of
            Some scope \<Rightarrow> (Ok (), scope)
          | None \<Rightarrow> (Panic, (feed, s))))) s)))"

subsection \<open>Submissions\<close>

text \<open>
  \<open>submit\<close> in the steps its comments name: the round is initialized if the oracle may start
  it; the submission is recorded, which takes the details out of the storage; the answer is
  updated once there are enough submissions; the payment is reserved, or becomes a debt of
  the feed, and is credited to the oracle; the details go back unless the round is full.
\<close>

definition submit_open :: "account_id \<Rightarrow> round_id \<Rightarrow> OracleStatus \<Rightarrow> 'w scope \<Rightarrow> OracleStatus result \<times> 'w scope" where
  "submit_open oracle round_id oracle_status = (\<lambda>(feed, s).
     let new_round_id = saturating_add (reporting_round_id feed) 1 in
     bind_dispatch (ok_or (checked_add (case os_last_started_round oracle_status of Some l \<Rightarrow> l | None \<Rightarrow> 0)
         (fc_restart_delay (feed_conf feed))) Overflow, (feed, s)) (\<lambda>delayed (feed, s).
     bind_dispatch (ok_or (checked_add delayed 1) Overflow, (feed, s)) (\<lambda>next_eligible_round (feed, s).
     let eligible_to_start = round_id \<ge> next_eligible_round \<or> os_last_started_round oracle_status = None in
     if round_id = new_round_id \<and> eligible_to_start then
       bind_dispatch (initialize_round new_round_id (feed, s)) (\<lambda>started_at (feed, s).
         (Ok (oracle_status\<lparr>os_last_started_round := Some new_round_id\<rparr>),
          (feed, deposit_event (NewRound (feed_ident feed) new_round_id oracle started_at) s)))
     else (Ok oracle_status, (feed, s)))))"

definition submit_record :: "account_id \<Rightarrow> round_id \<Rightarrow> feed_value \<Rightarrow> OracleStatus \<Rightarrow> 'w scope \<Rightarrow>
    RoundDetails result \<times> 'w scope" where
  "submit_record oracle round_id submission oracle_status = (\<lambda>(feed, s).
     case Details s (feed_ident feed) round_id of
       None \<Rightarrow> (Err (PalletError NotAcceptingSubmissions), (feed, s))
     | Some details \<Rightarrow>
         (Ok (details\<lparr>det_submissions := det_submissions details @ [submission]\<rparr>),
          (feed, deposit_event (SubmissionReceived (feed_ident feed) round_id submission oracle)
             (s\<lparr>Details := dm_remove (feed_ident feed) round_id (Details s),
                OracleStatuses := dm_insert (feed_ident feed) oracle
                  (oracle_status\<lparr>os_last_reported_round := Some round_id,
                     os_latest_submission := Some submission\<rparr>) (OracleStatuses s)\<rparr>))))"

definition answer_round :: "'w runtime \<Rightarrow> round_id \<Rightarrow> Round \<Rightarrow> feed_value \<Rightarrow> 'w scope \<Rightarrow> 'w scope" where
  "answer_round R round_id r new_answer = (\<lambda>(feed, s).
     let updated_at = block_num s;
         ident = feed_ident feed;
         round = \<lparr>dat_started_at = rnd_started_at r, dat_answer = new_answer,
           dat_updated_at = updated_at, dat_answered_in_round = round_id\<rparr>;
         s = s\<lparr>Rounds := dm_insert ident round_id (into_round round) (Rounds s)\<rparr>;
         config = (feed_conf feed)\<lparr>fc_latest_round := round_id\<rparr>;
         config = (if fc_first_valid_round config = None
                   then config\<lparr>fc_first_valid_round := Some round_id\<rparr> else config);
         prev_round_id = saturating_sub round_id 1;
         s = (if prev_round_id > 0 then s\<lparr>Details := dm_remove ident prev_round_id (Details s)\<rparr> else s)
     in (case prune_oldest (feed\<lparr>feed_conf := config\<rparr>, s) of (_, (feed, s)) \<Rightarrow>
          (feed, deposit_event (AnswerUpdated ident round_id new_answer updated_at)
             (s\<lparr>outside := on_answer R ident round (outside s)\<rparr>))))"

definition submit_answer :: "'w runtime \<Rightarrow> round_id \<Rightarrow> RoundDetails \<Rightarrow> 'w scope \<Rightarrow> RoundDetails result \<times> 'w scope" where
  "submit_answer R round_id details = (\<lambda>(feed, s).
     if \<not> length (det_submissions details) \<ge> unat (fst (det_submission_count_bounds details))
     then (Ok details, (feed, s))
     else
       (case median (det_submissions details) of
          None \<Rightarrow> (Panic, (feed, s))
        | Some (new_answer, numbers) \<Rightarrow>
            bind_dispatch (ok_or (Rounds s (feed_ident feed) round_id) RoundNotFound, (feed, s)) (\<lambda>r scope.
              (Ok (details\<lparr>det_submissions := numbers\<rparr>), answer_round R round_id r new_answer scope))))"

definition submit_reserve :: "'w runtime \<Rightarrow> balance \<Rightarrow> 'w scope \<Rightarrow> unit result \<times> 'w scope" where
  "submit_reserve R payment = (\<lambda>(feed, s).
     case reserve (Currency R) (fund_account R) payment (outside s) of
       (None, w) \<Rightarrow> (Ok (), (feed, s\<lparr>outside := w\<rparr>))
     | (Some _, w) \<Rightarrow>
         let s = s\<lparr>outside := w\<rparr> in
         bind_dispatch (ok_or (checked_add (fc_debt (feed_conf feed)) payment) Overflow, (feed, s))
           (\<lambda>new_debt (feed, s).
         bind_dispatch (case fc_max_debt (feed_conf feed) of
             Some max_debt \<Rightarrow> ensure (new_debt \<le> max_debt) MaxDebtReached | None \<Rightarrow> Ok (), (feed, s))
           (\<lambda>_ (feed, s). (Ok (), (feed\<lparr>feed_conf := (feed_conf feed)\<lparr>fc_debt := new_debt\<rparr>\<rparr>, s)))))"

definition submit_credit :: "account_id \<Rightarrow> balance \<Rightarrow> 'w scope \<Rightarrow> unit result \<times> 'w scope" where
  "submit_credit oracle payment = (\<lambda>(feed, s).
     bind_dispatch (ok_or (Oracles s oracle) OracleNotFound, (feed, s)) (\<lambda>oracle_meta (feed, s).
     bind_dispatch (ok_or (checked_add (om_withdrawable oracle_meta) payment) Overflow, (feed, s))
       (\<lambda>withdrawable (feed, s).
     (Ok (), (feed, s\<lparr>Oracles := (Oracles s)(oracle \<mapsto> oracle_meta\<lparr>om_withdrawable := withdrawable\<rparr>)\<rparr>)))))"

definition submit_body :: "'w runtime \<Rightarrow> account_id \<Rightarrow> round_id \<Rightarrow> feed_value \<Rightarrow> 'w scope \<Rightarrow> unit result \<times> 'w scope" where
  "submit_body R oracle round_id submission = (\<lambda>(feed, s).
     bind_dispatch (ok_or (OracleStatuses s (feed_ident feed) oracle) NotOracle, (feed, s)) (\<lambda>oracle_status (feed, s).
     bind_dispatch (ensure_valid_round (feed, s) oracle round_id, (feed, s)) (\<lambda>_ (feed, s).
     let (min_val, max_val) = fc_submission_value_bounds (feed_conf feed) in
     bind_dispatch (ensure (submission \<ge> min_val) SubmissionBelowMinimum, (feed, s)) (\<lambda>_ scope.
     bind_dispatch (ensure (submission \<le> max_val) SubmissionAboveMaximum, scope) (\<lambda>_ scope.
     bind_dispatch (submit_open oracle round_id oracle_status scope) (\<lambda>oracle_status scope.
     bind_dispatch (submit_record oracle round_id submission oracle_status scope) (\<lambda>details scope.
     bind_dispatch (submit_answer R round_id details scope) (\<lambda>details scope.
     bind_dispatch (submit_reserve R (det_payment details) scope) (\<lambda>_ scope.
     bind_dispatch (submit_credit oracle (det_payment details) scope) (\<lambda>_ (feed, s).
     (Ok (), (feed,
        if length (det_submissions details) < unat (snd (det_submission_count_bounds details))
        then s\<lparr>Details := dm_insert (feed_ident feed) round_id details (Details s)\<rparr> else s))))))))))))"

definition submit :: "'w runtime \<Rightarrow> origin \<Rightarrow> feed_id \<Rightarrow> round_id \<Rightarrow> feed_value \<Rightarrow> 'w storage \<Rightarrow>
    unit result \<times> 'w storage" where
  "submit R origin feed_id round_id submission s =
     bind_dispatch (ensure_signed origin, s) (\<lambda>oracle s.
     with_transaction_result (\<lambda>s.
       bind_dispatch (ok_or (load_from s feed_id) FeedNotFound, s) (\<lambda>feed s.
       with_feed feed (submit_body R oracle round_id submission) s)) s)"

subsection \<open>Oracles, rounds and requesters\<close>

definition change_oracles :: "'w runtime \<Rightarrow> origin \<Rightarrow> feed_id \<Rightarrow> account_id list \<Rightarrow> (account_id \<times> account_id) list \<Rightarrow>
    'w storage \<Rightarrow> unit result \<times> 'w storage" where
  "change_oracles R origin feed_id to_disable to_add s =
     bind_dispatch (ensure_signed origin, s) (\<lambda>owner s.
     with_transaction_result (\<lambda>s.
       bind_dispatch (ok_or (load_from s feed_id) FeedNotFound, s) (\<lambda>feed s.
       with_feed feed (\<lambda>(feed, s).
         bind_dispatch (ensure_owner feed owner, (feed, s)) (\<lambda>_ scope.
         bind_dispatch (disable_oracles to_disable scope) (\<lambda>_ scope.
         add_oracles R to_add scope))) s)) s)"

definition update_future_rounds :: "origin \<Rightarrow> feed_id \<Rightarrow> balance \<Rightarrow> 32 word \<times> 32 word \<Rightarrow> round_id \<Rightarrow>
    block_number \<Rightarrow> 'w storage \<Rightarrow> unit result \<times> 'w storage" where
  "update_future_rounds origin feed_id payment submission_count_bounds restart_delay timeout s =
     bind_dispatch (ensure_signed origin, s) (\<lambda>owner s.
     with_transaction_result (\<lambda>s.
       bind_dispatch (ok_or (load_from s feed_id) FeedNotFound, s) (\<lambda>feed s.
       with_feed feed (\<lambda>(feed, s).
         bind_dispatch (ensure_owner feed owner, (feed, s)) (\<lambda>_ scope.
         Feed_update_future_rounds payment submission_count_bounds restart_delay timeout scope)) s)) s)"

definition set_requester :: "origin \<Rightarrow> feed_id \<Rightarrow> account_id \<Rightarrow> round_id \<Rightarrow> 'w storage \<Rightarrow> unit result \<times> 'w storage" where
  "set_requester origin feed_id requester delay s =
     bind_dispatch (ensure_signed origin, s) (\<lambda>owner s.
     bind_dispatch (ok_or (Feeds s feed_id) FeedNotFound, s) (\<lambda>feed s.
     bind_dispatch (ensure (fc_owner feed = owner) NotFeedOwner, s) (\<lambda>_ s.
     let requester_meta = (case Requesters s feed_id requester of Some m \<Rightarrow> m
           | None \<Rightarrow> \<lparr>rq_delay = 0, rq_last_started_round = None\<rparr>) in
     (Ok (), deposit_event (RequesterPermissionsSet feed_id requester True delay)
        (s\<lparr>Requesters := dm_insert feed_id requester (requester_meta\<lparr>rq_delay := delay\<rparr>) (Requesters s)\<rparr>)))))"

definition remove_requester :: "origin \<Rightarrow> feed_id \<Rightarrow> account_id \<Rightarrow> 'w storage \<Rightarrow> unit result \<times> 'w storage" where
  "remove_requester origin feed_id requester s =
     bind_dispatch (ensure_signed origin, s) (\<lambda>owner s.
     bind_dispatch (ok_or (Feeds s feed_id) FeedNotFound, s) (\<lambda>feed s.
     bind_dispatch (ensure (fc_owner feed = owner) NotFeedOwner, s) (\<lambda>_ s.
     bind_dispatch (ok_or (Requesters s feed_id requester) RequesterNotFound, s) (\<lambda>requester_meta s.
     (Ok (), deposit_event (RequesterPermissionsSet feed_id requester False (rq_delay requester_meta))
        (s\<lparr>Requesters := dm_remove feed_id requester (Requesters s)\<rparr>))))))"

definition request_new_round_body :: "feed_id \<Rightarrow> account_id \<Rightarrow> Requester \<Rightarrow> 'w scope \<Rightarrow> unit result \<times> 'w scope" where
  "request_new_round_body feed_id sender requester = (\<lambda>(feed, s).
     bind_dispatch (ok_or (checked_add (reporting_round_id feed) 1) Overflow, (feed, s)) (\<lambda>new_round (feed, s).
     let last_started = (case rq_last_started_round requester of Some l \<Rightarrow> l | None \<Rightarrow> 0) in
     bind_dispatch (ok_or (checked_add last_started (rq_delay requester)) Overflow, (feed, s))
       (\<lambda>next_allowed_round (feed, s).
     bind_dispatch (ensure (rq_last_started_round requester = None \<or> new_round > next_allowed_round)
         CannotRequestRoundYet, (feed, s)) (\<lambda>_ (feed, s).
     Feed_request_new_round sender (feed,
       s\<lparr>Requesters := dm_insert feed_id sender (requester\<lparr>rq_last_started_round := Some new_round\<rparr>)
          (Requesters s)\<rparr>)))))"

definition request_new_round :: "origin \<Rightarrow> feed_id \<Rightarrow> 'w storage \<Rightarrow> unit result \<times> 'w storage" where
  "request_new_round origin feed_id s =
     bind_dispatch (ensure_signed origin, s) (\<lambda>sender s.
     bind_dispatch (ok_or (Requesters s feed_id sender) NotAuthorizedRequester, s) (\<lambda>requester s.
     with_transaction_result (\<lambda>s.
       bind_dispatch (ok_or (load_from s feed_id) FeedNotFound, s) (\<lambda>feed s.
       with_feed feed (request_new_round_body feed_id sender requester) s)) s))"

section \<open>Dispatchables on oracles\<close>

definition withdraw_payment :: "'w runtime \<Rightarrow> origin \<Rightarrow> account_id \<Rightarrow> account_id \<Rightarrow> balance \<Rightarrow> 'w storage \<Rightarrow>
    unit result \<times> 'w storage" where
  "withdraw_payment R origin oracle recipient amount s =
     bind_dispatch (ensure_signed origin, s) (\<lambda>admin s.
     bind_dispatch (ok_or (Oracles s oracle) OracleNotFound, s) (\<lambda>oracle_meta s.
     bind_dispatch (ensure (om_admin oracle_meta = admin) NotAdmin, s) (\<lambda>_ s.
     bind_dispatch (ok_or (checked_sub (om_withdrawable oracle_meta) amount) InsufficientFunds, s) (\<lambda>withdrawable s.
     let fund = fund_account R in
     bind_dispatch (ensure (reserved_balance (Currency R) fund (outside s) \<ge> amount) InsufficientReserve, s) (\<lambda>_ s.
     let s = s\<lparr>outside := snd (unreserve (Currency R) fund amount (outside s))\<rparr> in
     (case transfer (Currency R) fund recipient amount (outside s) of
        (Some e, w) \<Rightarrow> (Err (CurrencyError e), s\<lparr>outside := w\<rparr>)
      | (None, w) \<Rightarrow>
          (Ok (), s\<lparr>outside := w, Oracles := (Oracles s)(oracle \<mapsto>
             oracle_meta\<lparr>om_withdrawable := withdrawable\<rparr>)\<rparr>)))))))"

definition transfer_admin :: "origin \<Rightarrow> account_id \<Rightarrow> account_id \<Rightarrow> 'w storage \<Rightarrow> unit result \<times> 'w storage" where
  "transfer_admin origin oracle new_admin s =
     bind_dispatch (ensure_signed origin, s) (\<lambda>old_admin s.
     bind_dispatch (ok_or (Oracles s oracle) OracleNotFound, s) (\<lambda>oracle_meta s.
     bind_dispatch (ensure (om_admin oracle_meta = old_admin) NotAdmin, s) (\<lambda>_ s.
     (Ok (), deposit_event (OracleAdminUpdateRequested oracle old_admin new_admin)
        (s\<lparr>Oracles := (Oracles s)(oracle \<mapsto> oracle_meta\<lparr>om_pending_admin := Some new_admin\<rparr>)\<rparr>)))))"

definition accept_admin :: "origin \<Rightarrow> account_id \<Rightarrow> 'w storage \<Rightarrow> unit result \<times> 'w storage" where
  "accept_admin origin oracle s =
     bind_dispatch (ensure_signed origin, s) (\<lambda>new_admin s.
     bind_dispatch (ok_or (Oracles s oracle) OracleNotFound, s) (\<lambda>oracle_meta s.
     bind_dispatch (ensure (om_pending_admin oracle_meta = Some new_admin) NotPendingAdmin, s) (\<lambda>_ s.
     (Ok (), deposit_event (OracleAdminUpdated oracle new_admin)
        (s\<lparr>Oracles := (Oracles s)(oracle \<mapsto>
           oracle_meta\<lparr>om_pending_admin := None, om_admin := new_admin\<rparr>)\<rparr>)))))"

section \<open>Dispatchables on the pallet\<close>

definition withdraw_funds :: "'w runtime \<Rightarrow> origin \<Rightarrow> account_id \<Rightarrow> balance \<Rightarrow> 'w storage \<Rightarrow> unit result \<times> 'w storage" where
  "withdraw_funds R origin recipient amount s =
     bind_dispatch (ensure_signed origin, s) (\<lambda>sender s.
     bind_dispatch (ensure (sender = PalletAdmin s) NotPalletAdmin, s) (\<lambda>_ s.
     let fund = fund_account R; free_reserve = free_balance (Currency R) fund (outside s) in
     bind_dispatch (ok_or (checked_sub free_reserve amount) InsufficientFunds, s) (\<lambda>new_reserve s.
     bind_dispatch (ensure (new_reserve \<ge> MinimumReserve R) InsufficientReserve, s) (\<lambda>_ s.
     (case transfer (Currency R) fund recipient amount (outside s) of
        (Some e, w) \<Rightarrow> (Err (CurrencyError e), s\<lparr>outside := w\<rparr>)
      | (None, w) \<Rightarrow> (Ok (), s\<lparr>outside := w\<rparr>))))))"

definition reduce_debt :: "'w runtime \<Rightarrow> origin \<Rightarrow> feed_id \<Rightarrow> balance \<Rightarrow> 'w storage \<Rightarrow> unit result \<times> 'w storage" where
  "reduce_debt R origin feed_id amount s =
     bind_dispatch (ensure_signed origin, s) (\<lambda>_ s.
     bind_dispatch (ok_or (load_from s feed_id) FeedNotFound, s) (\<lambda>feed s.
     with_feed feed (\<lambda>(feed, s).
       let to_reserve = min amount (fc_debt (feed_conf feed)) in
       (case reserve (Currency R) (fund_account R) to_reserve (outside s) of
          (Some e, w) \<Rightarrow> (Err (CurrencyError e), (feed, s\<lparr>outside := w\<rparr>))
        | (None, w) \<Rightarrow>
            (Ok (), (feed\<lparr>feed_conf := (feed_conf feed)\<lparr>fc_debt :=
               saturating_sub (fc_debt (feed_conf feed)) amount\<rparr>\<rparr>, s\<lparr>outside := w\<rparr>)))) s))"

definition transfer_pallet_admin :: "origin \<Rightarrow> account_id \<Rightarrow> 'w storage \<Rightarrow> unit result \<times> 'w storage" where
  "transfer_pallet_admin origin new_pallet_admin s =
     bind_dispatch (ensure_signed origin, s) (\<lambda>old_admin s.
     bind_dispatch (ensure (PalletAdmin s = old_admin) NotPalletAdmin, s) (\<lambda>_ s.
     (Ok (), deposit_event (PalletAdminUpdateRequested old_admin new_pallet_admin)
        (s\<lparr>PendingPalletAdmin := Some new_pallet_admin\<rparr>))))"

definition accept_pallet_admin :: "origin \<Rightarrow> 'w storage \<Rightarrow> unit result \<times> 'w storage" where
  "accept_pallet_admin origin s =
     bind_dispatch (ensure_signed origin, s) (\<lambda>new_pallet_admin s.
     bind_dispatch (ensure (PendingPalletAdmin s = Some new_pallet_admin) NotPendingPalletAdmin, s) (\<lambda>_ s.
     (Ok (), deposit_event (PalletAdminUpdated new_pallet_admin)
        (s\<lparr>PendingPalletAdmin := None, PalletAdmin := new_pallet_admin\<rparr>))))"

definition set_feed_creator :: "origin \<Rightarrow> account_id \<Rightarrow> 'w storage \<Rightarrow> unit result \<times> 'w storage" where
  "set_feed_creator origin new_creator s =
     bind_dispatch (ensure_signed origin, s) (\<lambda>admin s.
     bind_dispatch (ensure (PalletAdmin s = admin) NotPalletAdmin, s) (\<lambda>_ s.
     (Ok (), deposit_event (FeedCreator new_creator)
        (s\<lparr>FeedCreators := (FeedCreators s)(new_creator \<mapsto> ())\<rparr>))))"

definition remove_feed_creator :: "origin \<Rightarrow> account_id \<Rightarrow> 'w storage \<Rightarrow> unit result \<times> 'w storage" where
  "remove_feed_creator origin creator s =
     bind_dispatch (ensure_signed origin, s) (\<lambda>admin s.
     bind_dispatch (ensure (PalletAdmin s = admin) NotPalletAdmin, s) (\<lambda>_ s.
     (Ok (), deposit_event (FeedCreatorRemoved creator)
        (s\<lparr>FeedCreators := (FeedCreators s)(creator := None)\<rparr>))))"

section \<open>Calls\<close>

datatype feed_call =
    CreateFeed balance block_number "feed_value \<times> feed_value" "32 word" "8 word" string round_id
      "(account_id \<times> account_id) list" "round_id option" "balance option"
  | TransferOwnership feed_id account_id
  | AcceptOwnership feed_id
  | SetPruningWindow feed_id round_id
  | Submit feed_id round_id feed_value
  | ChangeOracles feed_id "account_id list" "(account_id \<times> account_id) list"
  | UpdateFutureRounds feed_id balance "32 word \<times> 32 word" round_id block_number
  | SetRequester feed_id account_id round_id
  | RemoveRequester feed_id account_id
  | RequestNewRound feed_id
  | WithdrawPayment account_id account_id balance
  | TransferAdmin account_id account_id
  | AcceptAdmin account_id
  | WithdrawFunds account_id balance
  | ReduceDebt feed_id balance
  | TransferPalletAdmin account_id
  | AcceptPalletAdmin
  | SetFeedCreator account_id
  | RemoveFeedCreator account_id

fun dispatch_call :: "'w runtime \<Rightarrow> origin \<Rightarrow> feed_call \<Rightarrow> 'w storage \<Rightarrow> unit result \<times> 'w storage" where
  "dispatch_call R origin (CreateFeed payment timeout value_bounds min_submissions decimals description
      restart_delay oracles pruning_window max_debt) =
     create_feed R origin payment timeout value_bounds min_submissions decimals description restart_delay
       oracles pruning_window max_debt"
| "dispatch_call R origin (TransferOwnership f a) = transfer_ownership origin f a"
| "dispatch_call R origin (AcceptOwnership f) = accept_ownership origin f"
| "dispatch_call R origin (SetPruningWindow f n) = set_pruning_window origin f n"
| "dispatch_call R origin (Submit f r v) = submit R origin f r v"
| "dispatch_call R origin (ChangeOracles f to_disable to_add) = change_oracles R origin f to_disable to_add"
| "dispatch_call R origin (UpdateFutureRounds f payment bounds delay timeout) =
     update_future_rounds origin f payment bounds delay timeout"
| "dispatch_call R origin (SetRequester f a delay) = set_requester origin f a delay"
| "dispatch_call R origin (RemoveRequester f a) = remove_requester origin f a"
| "dispatch_call R origin (RequestNewRound f) = request_new_round origin f"
| "dispatch_call R origin (WithdrawPayment a b amount) = withdraw_payment R origin a b amount"
| "dispatch_call R origin (TransferAdmin a b) = transfer_admin origin a b"
| "dispatch_call R origin (AcceptAdmin a) = accept_admin origin a"
| "dispatch_call R origin (WithdrawFunds a amount) = withdraw_funds R origin a amount"
| "dispatch_call R origin (ReduceDebt f amount) = reduce_debt R origin f amount"
| "dispatch_call R origin (TransferPalletAdmin a) = transfer_pallet_admin origin a"
| "dispatch_call R origin AcceptPalletAdmin = accept_pallet_admin origin"
| "dispatch_call R origin (SetFeedCreator a) = set_feed_creator origin a"
| "dispatch_call R origin (RemoveFeedCreator a) = remove_feed_creator origin a"

end
