(* ===== verification/Feed_Median.thy ===== *)
theory Feed_Median
  imports Feed_Pallet
begin

text \<open>
  The median of the submissions: with values below \<open>2 ^ 127\<close> it is between the smallest and the
  largest one, and at most half of the submissions are on either side of it. The mean of the two
  middle values is a saturating sum divided by two, which is wrong for larger values.
\<close>

section \<open>Counting in a sorted list\<close>

lemma filter_few_below:
  assumes "i \<le> length ys" "\<And>j. i \<le> j \<Longrightarrow> j < length ys \<Longrightarrow> \<not> P (ys ! j)"
  shows "length (filter P ys) \<le> i"
proof -
  have "filter P (drop i ys) = []" using assms(2) by (auto simp: filter_empty_conv in_set_conv_nth)
  then have "filter P ys = filter P (take i ys)" by (metis append_Nil2 append_take_drop_id filter_append)
  then show ?thesis using length_filter_le [of P "take i ys"] assms(1) by simp
qed

lemma filter_few_above:
  assumes "i \<le> length ys" "\<And>j. j < i \<Longrightarrow> \<not> P (ys ! j)"
  shows "length (filter P ys) \<le> length ys - i"
proof -
  have "filter P (take i ys) = []" using assms by (auto simp: filter_empty_conv in_set_conv_nth)
  then have "filter P ys = filter P (drop i ys)" by (metis append_Nil append_take_drop_id filter_append)
  then show ?thesis using length_filter_le [of P "drop i ys"] by simp
qed

lemma sort_filter_length: "length (filter P (sort xs)) = length (filter P xs)"
  by (simp add: filter_sort)

section \<open>The mean of two values\<close>

lemma unat_half: "unat (x div 2) = unat x div 2" for x :: "128 word"
  by (simp add: unat_div)

lemma mean_between:
  fixes a b :: "128 word"
  assumes "a \<le> b" "unat a + unat b < 2 ^ 128"
  shows "a \<le> saturating_add a b div 2" "saturating_add a b div 2 \<le> b"
  using assms by (auto simp: word_le_nat_alt unat_half unat_saturating_add)

lemma small_sum: "x < 2 ^ 127 \<Longrightarrow> y < 2 ^ 127 \<Longrightarrow> unat x + unat y < 2 ^ 128" for x y :: "128 word"
  by (simp add: word_less_nat_alt)

text \<open>The median lies between the two middle values, which coincide when the number is odd.\<close>

lemma median_between:
  assumes "xs \<noteq> []" "\<And>x. x \<in> set xs \<Longrightarrow> x < 2 ^ 127"
  obtains m where "median xs = Some (m, sort xs)"
    "sort xs ! ((length xs - 1) div 2) \<le> m" "m \<le> sort xs ! (length xs div 2)"
proof (cases "even (length xs)")
  case True
  let ?mid = "length xs div 2"
  have mid: "0 < ?mid" "?mid < length xs" using assms(1) True by (auto elim!: evenE intro!: Nat.gr0I)
  have a: "sort xs ! (?mid - 1) \<in> set xs" "sort xs ! ?mid \<in> set xs"
    using mid nth_mem [of "?mid - 1" "sort xs"] nth_mem [of ?mid "sort xs"] by simp_all
  have "sort xs ! (?mid - 1) \<le> sort xs ! ?mid" using mid by (intro sorted_nth_mono) simp_all
  note mean = mean_between [OF this small_sum [OF assms(2) [OF a(1)] assms(2) [OF a(2)]]]
  moreover have "(length xs - 1) div 2 = ?mid - 1" using True mid by (auto elim!: evenE)
  ultimately show thesis
    using that True mid by (auto simp: median_def Let_def)
next
  case False
  then have "(length xs - 1) div 2 = length xs div 2" by (auto elim!: oddE)
  with False that show thesis by (auto simp: median_def Let_def odd_iff_mod_2_eq_one)
qed

lemma sort_bounds: "x \<in> set xs \<Longrightarrow> Min (set xs) \<le> x \<and> x \<le> Max (set xs)" for x :: "'a::linorder"
  by simp

text \<open>
  The answer of a round is in the middle of its submissions: for values below \<open>2 ^ 127\<close>, at most
  half of the submissions are smaller and at most half are larger, and the answer is between
  the smallest and the largest one. Sorting keeps the submissions.
\<close>

theorem median_is_middle:
  assumes "xs \<noteq> []" "\<forall>x\<in>set xs. x < 2 ^ 127"
  shows "\<exists>m. median xs = Some (m, sort xs) \<and>
    2 * length (filter (\<lambda>x. x < m) xs) \<le> length xs \<and> 2 * length (filter (\<lambda>x. m < x) xs) \<le> length xs \<and>
    Min (set xs) \<le> m \<and> m \<le> Max (set xs)"
proof -
  let ?lo = "(length xs - 1) div 2" and ?hi = "length xs div 2"
  obtain m where m: "median xs = Some (m, sort xs)" "sort xs ! ?lo \<le> m" "m \<le> sort xs ! ?hi"
    using median_between assms by metis
  have lo: "?lo < length xs" and hi: "?hi < length xs" using assms(1) by (cases xs; simp)+
  have "length (filter (\<lambda>x. x < m) (sort xs)) \<le> ?hi"
    using m(3) hi by (intro filter_few_below) (auto simp: not_less intro!: order_trans [OF m(3) sorted_nth_mono])
  moreover have "length (filter (\<lambda>x. m < x) (sort xs)) \<le> length (sort xs) - Suc ?lo"
    using m(2) lo by (intro filter_few_above) (auto simp: not_less intro!: order_trans [OF sorted_nth_mono m(2)])
  moreover have "sort xs ! ?lo \<in> set xs" "sort xs ! ?hi \<in> set xs"
    using lo hi nth_mem [of ?lo "sort xs"] nth_mem [of ?hi "sort xs"] by simp_all
  then have "Min (set xs) \<le> m" "m \<le> Max (set xs)"
    using m(2,3) sort_bounds order_trans by meson+
  ultimately show ?thesis using m(1) by (simp add: sort_filter_length) linarith
qed

theorem median_is_middle_witness:
  "\<exists>m. median [7, 3, 100, 5] = Some (m, [3, 5, 7, 100]) \<and> 3 \<le> m \<and> m \<le> 100"
proof -
  have "\<forall>x\<in>set [7, 3, 100, 5 :: feed_value]. x < 2 ^ 127" by (simp add: word_less_nat_alt)
  from median_is_middle [OF _ this] show ?thesis by (simp del: filter.simps) blast
qed

text \<open>
  With larger values the sum saturates: the median of two equal values is then not that value but
  \<open>2 ^ 127 - 1\<close>.
\<close>

lemma median_saturates: "2 ^ 127 \<le> x \<Longrightarrow> median [x, x] = Some (2 ^ 127 - 1, [x, x])"
proof -
  assume "2 ^ 127 \<le> x"
  then have "\<not> unat x + unat x < 2 ^ 128" by (simp add: word_le_nat_alt)
  then show ?thesis by (simp add: median_def saturating_add_def)
qed

end
