(* ===== verification/Feed_Invariant.thy ===== *)
theory Feed_Invariant
  imports Feed_Pallet
begin

text \<open>
  The invariant of the feed pallet. \<open>rounds_ok\<close> and \<open>oracles_ok\<close> are what holds of one feed:
  round 0 and the rounds from the oldest one not pruned to the reporting one are stored, all
  of them answered except perhaps the reporting one; the number of enabled oracles is the one
  the configuration has. \<open>feeds_ok\<close> is the invariant of the storage, \<open>scope_ok\<close> that of a proxy
  in its scope, \<open>frame\<close> what a method of a proxy leaves alone. The lemmas are on the methods
  that start, close and prune rounds.
\<close>


section \<open>The invariant of a feed\<close>

definition complete :: "Round \<Rightarrow> bool" where
  "complete r \<longleftrightarrow> rnd_answer r \<noteq> None \<and> rnd_updated_at r \<noteq> None \<and> rnd_answered_in_round r \<noteq> None"

definition blank :: "Round \<Rightarrow> bool" where
  "blank r \<longleftrightarrow> rnd_answer r = None \<and> rnd_updated_at r = None \<and> rnd_answered_in_round r = None"

definition count_bounds_ok :: "32 word \<times> 32 word \<Rightarrow> bool" where
  "count_bounds_ok b \<longleftrightarrow> 0 < fst b \<and> fst b \<le> snd b"

definition in_bounds :: "feed_value \<times> feed_value \<Rightarrow> feed_value \<Rightarrow> bool" where
  "in_bounds b v \<longleftrightarrow> fst b \<le> v \<and> v \<le> snd b"

definition details_ok :: "feed_value \<times> feed_value \<Rightarrow> RoundDetails \<Rightarrow> bool" where
  "details_ok b d \<longleftrightarrow> count_bounds_ok (det_submission_count_bounds d) \<and>
     length (det_submissions d) < unat (snd (det_submission_count_bounds d)) \<and>
     list_all (in_bounds b) (det_submissions d)"

definition rounds_ok :: "FeedConfig \<Rightarrow> (round_id \<Rightarrow> Round option) \<Rightarrow> (round_id \<Rightarrow> RoundDetails option) \<Rightarrow> bool" where
  "rounds_ok c rounds details \<longleftrightarrow>
     fc_latest_round c \<le> fc_reporting_round c \<and> 0 < fc_pruning_window c \<and>
     count_bounds_ok (fc_submission_count_bounds c) \<and>
     0 < fc_next_round_to_prune c \<and>
     (fc_next_round_to_prune c \<le> fc_latest_round c \<or> fc_next_round_to_prune c = 1) \<and>
     (\<forall>r. rounds r \<noteq> None \<longleftrightarrow> r = 0 \<or> fc_next_round_to_prune c \<le> r \<and> r \<le> fc_reporting_round c) \<and>
     (\<forall>r x. rounds r = Some x \<longrightarrow> complete x \<or> blank x \<and> r = fc_reporting_round c) \<and>
     (\<exists>x. rounds (fc_latest_round c) = Some x \<and> complete x) \<and>
     (\<forall>r d. details r = Some d \<longrightarrow> fc_next_round_to_prune c \<le> r \<and> r \<le> fc_reporting_round c \<and>
        details_ok (fc_submission_value_bounds c) d)"

definition enabled_oracles :: "(account_id \<Rightarrow> OracleStatus option) \<Rightarrow> account_id set" where
  "enabled_oracles statuses = {a. \<exists>st. statuses a = Some st \<and> os_ending_round st = None}"

definition status_ok :: "round_id \<Rightarrow> OracleStatus \<Rightarrow> bool" where
  "status_ok reporting st \<longleftrightarrow> os_starting_round st \<le> reporting \<and>
     (\<forall>l. os_last_reported_round st = Some l \<longrightarrow> l \<le> reporting) \<and>
     (\<forall>l. os_last_started_round st = Some l \<longrightarrow> l \<le> reporting)"

definition statuses_ok :: "round_id \<Rightarrow> (account_id \<Rightarrow> OracleStatus option) \<Rightarrow> bool" where
  "statuses_ok reporting statuses \<longleftrightarrow> (\<forall>a st. statuses a = Some st \<longrightarrow> status_ok reporting st)"

text \<open>The last round that an account reported to, if it ever did.\<close>

definition reported :: "(account_id \<Rightarrow> OracleStatus option) \<Rightarrow> account_id \<Rightarrow> round_id option" where
  "reported statuses a = Option.bind (statuses a) os_last_reported_round"

definition oracles_ok :: "'w runtime \<Rightarrow> FeedConfig \<Rightarrow> (account_id \<Rightarrow> OracleStatus option) \<Rightarrow> bool" where
  "oracles_ok R c statuses \<longleftrightarrow>
     unat (fc_oracle_count c) = card (enabled_oracles statuses) \<and>
     fc_oracle_count c \<le> OracleCountLimit R \<and>
     statuses_ok (fc_reporting_round c) statuses"

text \<open>
  The feeds are numbered from 0 to the counter, nothing is stored for other identifiers,
  and every oracle of a feed has its metadata.
\<close>

definition slot_ok :: "'w runtime \<Rightarrow> feed_id \<Rightarrow> feed_id \<Rightarrow> FeedConfig option \<Rightarrow> (round_id \<Rightarrow> Round option) \<Rightarrow>
    (round_id \<Rightarrow> RoundDetails option) \<Rightarrow> (account_id \<Rightarrow> OracleStatus option) \<Rightarrow> bool" where
  "slot_ok R counter f config rounds details statuses \<longleftrightarrow>
     (case config of
        Some c \<Rightarrow> f < counter \<and> rounds_ok c rounds details \<and> oracles_ok R c statuses
      | None \<Rightarrow> counter \<le> f \<and> rounds = (\<lambda>_. None) \<and> details = (\<lambda>_. None) \<and> statuses = (\<lambda>_. None))"

definition feeds_ok :: "'w runtime \<Rightarrow> 'w storage \<Rightarrow> bool" where
  "feeds_ok R s \<longleftrightarrow>
     (\<forall>f. slot_ok R (FeedCounter s) f (Feeds s f) (Rounds s f) (Details s f) (OracleStatuses s f)) \<and>
     (\<forall>f a. OracleStatuses s f a \<noteq> None \<longrightarrow> Oracles s a \<noteq> None)"

definition scope_ok :: "'w runtime \<Rightarrow> 'w scope \<Rightarrow> bool" where
  "scope_ok R scope \<longleftrightarrow>
     rounds_ok (feed_conf (fst scope)) (Rounds (snd scope) (feed_ident (fst scope)))
       (Details (snd scope) (feed_ident (fst scope))) \<and>
     oracles_ok R (feed_conf (fst scope)) (OracleStatuses (snd scope) (feed_ident (fst scope)))"

text \<open>What a method of a proxy leaves alone: everything of the other feeds.\<close>

definition frame :: "'w scope \<Rightarrow> 'w scope \<Rightarrow> bool" where
  "frame = (\<lambda>(feed, s) (feed', s').
     feed_ident feed' = feed_ident feed \<and> should_sync feed' = should_sync feed \<and>
     PalletAdmin s' = PalletAdmin s \<and> PendingPalletAdmin s' = PendingPalletAdmin s \<and>
     FeedCounter s' = FeedCounter s \<and> Feeds s' = Feeds s \<and> block_num s' = block_num s \<and>
     (\<forall>g. g \<noteq> feed_ident feed \<longrightarrow> Rounds s' g = Rounds s g \<and> Details s' g = Details s g \<and>
        OracleStatuses s' g = OracleStatuses s g) \<and>
     (\<forall>a. Oracles s a \<noteq> None \<longrightarrow> Oracles s' a \<noteq> None) \<and>
     (\<forall>a. OracleStatuses s' (feed_ident feed) a \<noteq> None \<longrightarrow>
        OracleStatuses s (feed_ident feed) a \<noteq> None \<or> Oracles s' a \<noteq> None))"

section \<open>Frames\<close>

lemma frame_refl [simp, intro]: "frame scope scope"
  by (auto simp: frame_def split: prod.splits)

lemma frame_trans: "frame a b \<Longrightarrow> frame b c \<Longrightarrow> frame a c"
  by (cases a; cases b; cases c) (simp add: frame_def, metis)

lemma deposit_event_fields [simp]:
  "PalletAdmin (deposit_event ev s) = PalletAdmin s"
  "PendingPalletAdmin (deposit_event ev s) = PendingPalletAdmin s"
  "FeedCounter (deposit_event ev s) = FeedCounter s"
  "Feeds (deposit_event ev s) = Feeds s"
  "FeedCreators (deposit_event ev s) = FeedCreators s"
  "Rounds (deposit_event ev s) = Rounds s"
  "Details (deposit_event ev s) = Details s"
  "Oracles (deposit_event ev s) = Oracles s"
  "OracleStatuses (deposit_event ev s) = OracleStatuses s"
  "Requesters (deposit_event ev s) = Requesters s"
  "block_num (deposit_event ev s) = block_num s"
  "outside (deposit_event ev s) = outside s"
  by (simp_all add: deposit_event_def)

section \<open>Starting a round\<close>

lemma rounds_okD:
  assumes "rounds_ok c rounds details"
  shows "fc_latest_round c \<le> fc_reporting_round c" "0 < fc_pruning_window c"
    and "count_bounds_ok (fc_submission_count_bounds c)" "0 < fc_next_round_to_prune c"
    and "fc_next_round_to_prune c \<le> fc_latest_round c \<or> fc_next_round_to_prune c = 1"
    and "\<exists>x. rounds (fc_latest_round c) = Some x \<and> complete x"
  using assms by (auto simp: rounds_ok_def)

lemma rounds_ok_present:
  "rounds_ok c rounds details \<Longrightarrow>
     (\<exists>x. rounds r = Some x) \<longleftrightarrow> r = 0 \<or> fc_next_round_to_prune c \<le> r \<and> r \<le> fc_reporting_round c"
  by (auto simp: rounds_ok_def)

lemma rounds_ok_complete:
  "rounds_ok c rounds details \<Longrightarrow> rounds r = Some x \<Longrightarrow> complete x \<or> blank x \<and> r = fc_reporting_round c"
  by (auto simp: rounds_ok_def)

lemma rounds_ok_details:
  "rounds_ok c rounds details \<Longrightarrow> details r = Some d \<Longrightarrow>
     fc_next_round_to_prune c \<le> r \<and> r \<le> fc_reporting_round c \<and> details_ok (fc_submission_value_bounds c) d"
  by (auto simp: rounds_ok_def)

lemma complete_not_blank [simp]: "complete x \<Longrightarrow> \<not> blank x"
  by (simp add: complete_def blank_def)

lemma Round_new_blank [simp]: "blank (Round_new b)"
  by (simp add: blank_def Round_new_def)

lemma into_round_complete [simp]: "complete (into_round d)"
  by (simp add: complete_def into_round_def)

text \<open>The round that is started, once the reporting round is complete.\<close>

lemma rounds_ok_start:
  assumes ok: "rounds_ok c rounds details" and max: "fc_reporting_round c \<noteq> - 1"
    and answered: "rounds (fc_reporting_round c) = Some x" "complete x"
    and c': "fc_submission_count_bounds c' = fc_submission_count_bounds c"
  shows "rounds_ok (c\<lparr>fc_reporting_round := fc_reporting_round c + 1\<rparr>)
     (rounds(fc_reporting_round c + 1 := Some (Round_new b)))
     (details(fc_reporting_round c + 1 := Some (fresh_details c')))"
proof -
  let ?n = "fc_reporting_round c"
  have "fc_latest_round c < ?n + 1"
    using rounds_okD(1) [OF ok] max by (simp add: less_inc_iff)
  with max have lt: "fc_latest_round c < ?n + 1" "fc_latest_round c \<noteq> ?n + 1" "?n + 1 \<noteq> 0"
    by (auto simp: inc_nonzero)
  have next_le: "fc_next_round_to_prune c \<le> ?n + 1"
    using rounds_okD(1,5) [OF ok] lt by (auto simp: one_le_iff word_gt_0)
  have new: "details_ok (fc_submission_value_bounds c) (fresh_details c')"
    using rounds_okD(3) [OF ok] c'
    by (auto simp: details_ok_def fresh_details_def count_bounds_ok_def word_less_nat_alt word_le_nat_alt)
  have "complete y" if "rounds r = Some y" for r y
    using rounds_ok_complete [OF ok that] answered that by auto
  with ok lt next_le new max show ?thesis
    by (auto simp: rounds_ok_def le_inc_iff)
qed

text \<open>Closing a round that timed out completes it, since the round before it is complete.\<close>

lemma rounds_ok_close:
  assumes ok: "rounds_ok c rounds details" and prev: "rounds (saturating_sub (fc_reporting_round c) 1) = Some y"
    and pos: "0 < fc_reporting_round c" and cur: "rounds (fc_reporting_round c) = Some x"
  shows "complete (x\<lparr>rnd_answer := rnd_answer y, rnd_answered_in_round := rnd_answered_in_round y,
      rnd_updated_at := Some b\<rparr>)"
    and "rounds_ok c (rounds(fc_reporting_round c := Some (x\<lparr>rnd_answer := rnd_answer y,
      rnd_answered_in_round := rnd_answered_in_round y, rnd_updated_at := Some b\<rparr>)))
      (details(fc_reporting_round c := None))"
proof -
  have "complete y"
    using rounds_ok_complete [OF ok prev] dec_less [OF pos] by auto
  then show new: "complete (x\<lparr>rnd_answer := rnd_answer y, rnd_answered_in_round := rnd_answered_in_round y,
      rnd_updated_at := Some b\<rparr>)"
    by (simp add: complete_def)
  have "\<forall>r. (rounds(fc_reporting_round c := Some (x\<lparr>rnd_answer := rnd_answer y,
      rnd_answered_in_round := rnd_answered_in_round y, rnd_updated_at := Some b\<rparr>))) r \<noteq> None \<longleftrightarrow> rounds r \<noteq> None"
    using cur by simp
  with new ok show "rounds_ok c (rounds(fc_reporting_round c := Some (x\<lparr>rnd_answer := rnd_answer y,
      rnd_answered_in_round := rnd_answered_in_round y, rnd_updated_at := Some b\<rparr>)))
      (details(fc_reporting_round c := None))"
    by (auto simp: rounds_ok_def simp del: fun_upd_apply) (auto split: if_splits)
qed

lemma is_timed_out_details: "is_timed_out scope r \<Longrightarrow> \<exists>d. feed_details scope r = Some d"
  by (auto simp: is_timed_out_def split: option.splits)

lemma scope_fields [simp]:
  "feed_round (self, s) r = Rounds s (feed_ident self) r"
  "feed_details (self, s) r = Details s (feed_ident self) r"
  "feed_status (self, s) a = OracleStatuses s (feed_ident self) a"
  by (simp_all add: feed_round_def feed_details_def feed_status_def)

lemma scope_ok_rounds:
  "scope_ok R (feed, s) \<Longrightarrow>
     rounds_ok (feed_conf feed) (Rounds s (feed_ident feed)) (Details s (feed_ident feed))"
  by (simp add: scope_ok_def)

text \<open>
  What a successful \<open>initialize_round\<close> does, in terms of the rounds and details after the
  previous round was closed, if it was.
\<close>

lemma initialize_round_Ok:
  assumes init: "initialize_round n (feed, s) = (Ok b, (feed', s'))"
    and ok: "scope_ok R (feed, s)" and max: "reporting_round_id feed \<noteq> - 1"
    and n: "n = reporting_round_id feed + 1"
    and sup: "is_supersedable (feed, s) (reporting_round_id feed)"
  shows "b = block_num s" "frame (feed, s) (feed', s')"
    "feed' = feed\<lparr>feed_conf := (feed_conf feed)\<lparr>fc_reporting_round := n\<rparr>\<rparr>"
    "OracleStatuses s' = OracleStatuses s" "Oracles s' = Oracles s" "outside s' = outside s" "block_num s' = block_num s"
    "rounds_ok (feed_conf feed') (Rounds s' (feed_ident feed)) (Details s' (feed_ident feed))"
    "Details s' (feed_ident feed) n = Some (fresh_details (feed_conf feed))"
proof -
  let ?c = "feed_conf feed" and ?f = "feed_ident feed"
  let ?r = "fc_reporting_round ?c"
  have rok: "rounds_ok ?c (Rounds s ?f) (Details s ?f)" using ok by (rule scope_ok_rounds)
  have dec: "saturating_sub n 1 = ?r" "saturating_sub (?r + 1) 1 = ?r" using n max by (simp_all add: saturating_dec reporting_round_id_def)
  have to: "is_timed_out (feed\<lparr>feed_conf := c'\<rparr>, s) r = is_timed_out (feed, s) r" for c' r
    by (simp add: is_timed_out_def)
  show "b = block_num s" "feed' = feed\<lparr>feed_conf := (feed_conf feed)\<lparr>fc_reporting_round := n\<rparr>\<rparr>"
    "OracleStatuses s' = OracleStatuses s" "Oracles s' = Oracles s" "outside s' = outside s" "block_num s' = block_num s"
    "Details s' (feed_ident feed) n = Some (fresh_details (feed_conf feed))"
    "frame (feed, s) (feed', s')"
    using init by (auto simp: initialize_round_def Let_def close_timed_out_round_def dispatch_simps frame_def fresh_details_def
        dm_insert_row dm_remove_row split: if_splits option.splits)
  show "rounds_ok (feed_conf feed') (Rounds s' ?f) (Details s' ?f)"
  proof (cases "is_timed_out (feed, s) ?r")
    case False
    with sup have "?r = 0 \<or> was_updated (feed, s) ?r"
      by (simp add: is_supersedable_def reporting_round_id_def)
    then obtain x where x: "Rounds s ?f ?r = Some x" "complete x"
      using rounds_okD(1,6) [OF rok] rounds_ok_complete [OF rok, of ?r]
      by (auto simp: was_updated_def blank_def split: option.splits)
    show ?thesis
      using init False rounds_ok_start [OF rok _ x] max n
      by (auto simp: initialize_round_def Let_def dec to dm_insert_row reporting_round_id_def)
  next
    case True
    then have pos: "0 < ?r"
      using is_timed_out_details [OF True] rounds_ok_details [OF rok] rounds_okD(4) [OF rok] by fastforce
    obtain y x where yx: "Rounds s ?f (saturating_sub ?r 1) = Some y" "Rounds s ?f ?r = Some x"
      using init True by (auto simp: initialize_round_def Let_def dec to close_timed_out_round_def split: option.splits)
    note closed = rounds_ok_close [OF rok yx(1) pos yx(2)]
    show ?thesis
      using init True rounds_ok_start [OF closed(2) _ _ closed(1)] max n yx
      by (auto simp: initialize_round_def Let_def dec to close_timed_out_round_def dm_insert_row dm_remove_row
          reporting_round_id_def)
  qed
qed

section \<open>Answering and pruning\<close>

lemma rounds_ok_remove: "rounds_ok c rounds details \<Longrightarrow> rounds_ok c rounds (details(r := None))"
  by (simp add: rounds_ok_def)

lemma rounds_ok_insert:
  "rounds_ok c rounds details \<Longrightarrow> fc_next_round_to_prune c \<le> r \<Longrightarrow> r \<le> fc_reporting_round c \<Longrightarrow>
     details_ok (fc_submission_value_bounds c) d \<Longrightarrow> rounds_ok c rounds (details(r := Some d))"
  by (simp add: rounds_ok_def)

lemma rounds_ok_answer:
  assumes "rounds_ok c rounds details" "fc_latest_round c \<le> r" "r \<le> fc_reporting_round c"
    "fc_next_round_to_prune c \<le> r" "complete x"
  shows "rounds_ok (c\<lparr>fc_latest_round := r\<rparr>) (rounds(r := Some x)) details"
  using assms by (auto simp: rounds_ok_def)

lemma rounds_ok_first_valid [simp]:
  "rounds_ok (c\<lparr>fc_first_valid_round := v\<rparr>) = rounds_ok c"
  "rounds_ok (c\<lparr>fc_debt := v'\<rparr>) = rounds_ok c"
  by (simp_all add: rounds_ok_def fun_eq_iff)

lemma prune_condition:
  assumes "rounds_ok c rounds details" "saturating_sub (fc_latest_round c) (fc_next_round_to_prune c) \<ge> fc_pruning_window c"
  shows "fc_next_round_to_prune c < fc_latest_round c"
proof -
  have "0 < unat (saturating_sub (fc_latest_round c) (fc_next_round_to_prune c))"
    using assms rounds_okD(2) [OF assms(1)] by (simp add: word_le_nat_alt word_less_nat_alt)
  then show ?thesis by (simp add: unat_saturating_sub word_less_nat_alt)
qed

lemma rounds_ok_prune:
  assumes ok: "rounds_ok c rounds details" and lt: "fc_next_round_to_prune c < fc_latest_round c"
  shows "rounds_ok (c\<lparr>fc_next_round_to_prune := fc_next_round_to_prune c + 1\<rparr>)
     (rounds(fc_next_round_to_prune c := None)) (details(fc_next_round_to_prune c := None))"
proof -
  let ?p = "fc_next_round_to_prune c"
  have max: "?p \<noteq> - 1" using lt by (rule less_max_neq)
  then have le: "?p + 1 \<le> r \<longleftrightarrow> ?p \<le> r \<and> r \<noteq> ?p" for r
    by (auto simp: inc_le_iff order.strict_iff_order)
  have "0 < ?p + 1" using inc_nonzero [OF max] by (simp add: word_gt_0)
  with ok lt max show ?thesis
    by (auto simp: rounds_ok_def le)
qed

lemma prune_oldest_scope:
  assumes prune: "prune_oldest (feed, s) = (b, (feed', s'))"
    and ok: "rounds_ok (feed_conf feed) (Rounds s (feed_ident feed)) (Details s (feed_ident feed))"
  shows "rounds_ok (feed_conf feed') (Rounds s' (feed_ident feed)) (Details s' (feed_ident feed))"
    "frame (feed, s) (feed', s')" "OracleStatuses s' = OracleStatuses s" "Oracles s' = Oracles s"
    "outside s' = outside s" "block_num s' = block_num s"
    "\<exists>p v. feed' = feed\<lparr>feed_conf := (feed_conf feed)\<lparr>fc_next_round_to_prune := p, fc_first_valid_round := v\<rparr>\<rparr> \<and>
       (p = fc_next_round_to_prune (feed_conf feed) \<or> p \<le> fc_latest_round (feed_conf feed))"
    "b \<longleftrightarrow> fc_next_round_to_prune (feed_conf feed) < fc_next_round_to_prune (feed_conf feed')"
proof -
  let ?p = "fc_next_round_to_prune (feed_conf feed)"
  show "rounds_ok (feed_conf feed') (Rounds s' (feed_ident feed)) (Details s' (feed_ident feed))"
    using prune ok rounds_ok_prune [OF ok prune_condition [OF ok]]
    by (auto simp: prune_oldest_def Let_def current_window_def dm_remove_row split: if_splits)
  show "frame (feed, s) (feed', s')" "OracleStatuses s' = OracleStatuses s" "Oracles s' = Oracles s"
    "outside s' = outside s" "block_num s' = block_num s"
    using prune by (auto simp: prune_oldest_def Let_def frame_def dm_remove_row split: if_splits)
  show "\<exists>p v. feed' = feed\<lparr>feed_conf := (feed_conf feed)\<lparr>fc_next_round_to_prune := p, fc_first_valid_round := v\<rparr>\<rparr> \<and>
       (p = ?p \<or> p \<le> fc_latest_round (feed_conf feed))"
  proof (cases "current_window feed \<ge> fc_pruning_window (feed_conf feed)")
    case True
    then have "?p < fc_latest_round (feed_conf feed)" using prune_condition [OF ok] by (simp add: current_window_def)
    with prune True show ?thesis
      by (intro exI [of _ "?p + 1"] exI [of _ "Some (?p + 1)"])
        (auto simp: prune_oldest_def Let_def inc_le_iff less_max_neq)
  next
    case False
    with prune show ?thesis
      by (intro exI [of _ ?p] exI [of _ "fc_first_valid_round (feed_conf feed)"]) (auto simp: prune_oldest_def Let_def)
  qed
  show "b \<longleftrightarrow> ?p < fc_next_round_to_prune (feed_conf feed')"
    using prune prune_condition [OF ok]
    by (auto simp: prune_oldest_def Let_def current_window_def less_inc_iff dest: less_max_neq split: if_splits)
qed

section \<open>Submitting\<close>

lemma valid_round_Ok:
  assumes "ensure_valid_round (feed, s) oracle r = Ok u" "reporting_round_id feed \<noteq> - 1"
  obtains st where "OracleStatuses s (feed_ident feed) oracle = Some st"
    "\<And>l. os_last_reported_round st = Some l \<Longrightarrow> l < r" "os_starting_round st \<le> r"
    "\<And>e. os_ending_round st = Some e \<Longrightarrow> r \<le> e"
    "r = reporting_round_id feed \<or> r = reporting_round_id feed + 1 \<or>
     saturating_add r 1 = reporting_round_id feed \<and>
       (\<forall>x. Rounds s (feed_ident feed) (reporting_round_id feed) = Some x \<longrightarrow> rnd_updated_at x = None)"
    "r = reporting_round_id feed + 1 \<Longrightarrow> is_supersedable (feed, s) (reporting_round_id feed)"
proof -
  have dec: "saturating_sub (reporting_round_id feed + 1) 1 = reporting_round_id feed"
    using assms(2) by (rule saturating_dec)
  have zero: "reporting_round_id feed + 1 = 1 \<Longrightarrow> is_supersedable (feed, s) (reporting_round_id feed)"
    by (simp add: is_supersedable_def)
  from assms(1) obtain st where st: "OracleStatuses s (feed_ident feed) oracle = Some st"
    by (auto simp: ensure_valid_round_def split: option.splits)
  show thesis
    using assms st zero
    by (intro that [of st])
      (auto simp: ensure_valid_round_def Let_def saturating_inc dec split: if_splits option.splits)
qed

end
