(* ===== verification/Feed_Submit.thy ===== *)
theory Feed_Submit
  imports Feed_Invariant
begin

text \<open>
  The steps of a submission, in their order: each keeps the invariant of the scope
  (\<open>submit_body_Ok\<close>), a round that has enough submissions is answered with their median
  (\<open>submit_answer_value\<close>), and the oracle is credited with what is reserved for it or lent by
  the feed (\<open>submit_body_effect\<close>). \<open>submit_chain\<close> takes a successful submission apart.
\<close>

text \<open>
  What the steps of \<open>submit\<close> leave alone of the proxy: only the round counters, the bounds
  of the stored rounds and the debt of its configuration change.
\<close>

definition keeps_settings :: "FeedConfig \<Rightarrow> FeedConfig \<Rightarrow> bool" where
  "keeps_settings c c' \<longleftrightarrow> (\<exists>r l v p d. c' = c\<lparr>fc_reporting_round := r, fc_latest_round := l,
     fc_first_valid_round := v, fc_next_round_to_prune := p, fc_debt := d\<rparr>)"

lemma keeps_settings_fields:
  assumes "keeps_settings c c'"
  shows "fc_owner c' = fc_owner c" "fc_submission_value_bounds c' = fc_submission_value_bounds c"
    "fc_oracle_count c' = fc_oracle_count c" "fc_payment c' = fc_payment c" "fc_max_debt c' = fc_max_debt c"
    "fc_submission_count_bounds c' = fc_submission_count_bounds c" "fc_pending_owner c' = fc_pending_owner c"
  using assms by (auto simp: keeps_settings_def)

lemma keeps_settings_trans: "keeps_settings a b \<Longrightarrow> keeps_settings b c \<Longrightarrow> keeps_settings a c"
  by (auto simp: keeps_settings_def) (metis FeedConfig.surjective FeedConfig.update_convs(10-12,15-16))

lemma keeps_settingsI:
  "keeps_settings c c"
  "keeps_settings c (c\<lparr>fc_reporting_round := r\<rparr>)"
  "keeps_settings c (c\<lparr>fc_latest_round := r\<rparr>)"
  "keeps_settings c (c\<lparr>fc_latest_round := r, fc_first_valid_round := v\<rparr>)"
  "keeps_settings c (c\<lparr>fc_next_round_to_prune := p, fc_first_valid_round := v\<rparr>)"
  "keeps_settings c (c\<lparr>fc_debt := d\<rparr>)"
  by (cases c; simp add: keeps_settings_def)+

lemma status_ok_mono: "status_ok r st \<Longrightarrow> r \<le> r' \<Longrightarrow> status_ok r' st"
  by (auto simp: status_ok_def intro: order_trans)

lemma oracles_ok_mono:
  "oracles_ok R c statuses \<Longrightarrow> fc_oracle_count c' = fc_oracle_count c \<Longrightarrow>
     fc_reporting_round c \<le> fc_reporting_round c' \<Longrightarrow> oracles_ok R c' statuses"
  by (auto simp: oracles_ok_def statuses_ok_def intro: status_ok_mono)

lemma oracles_ok_update:
  "oracles_ok R c statuses \<Longrightarrow> statuses a = Some st \<Longrightarrow> os_ending_round st' = os_ending_round st \<Longrightarrow>
     status_ok (fc_reporting_round c) st' \<Longrightarrow> oracles_ok R c (statuses(a := Some st'))"
proof -
  assume a: "oracles_ok R c statuses" "statuses a = Some st" "os_ending_round st' = os_ending_round st"
    "status_ok (fc_reporting_round c) st'"
  then have "enabled_oracles (statuses(a := Some st')) = enabled_oracles statuses"
    by (auto simp: enabled_oracles_def)
  with a show ?thesis by (simp add: oracles_ok_def statuses_ok_def)
qed

lemma latest_le_submitted:
  assumes rok: "rounds_ok (feed_conf feed) (Rounds s (feed_ident feed)) (Details s (feed_ident feed))"
    and valid: "ensure_valid_round (feed, s) oracle r = Ok u" and max: "reporting_round_id feed \<noteq> - 1"
    and det: "Details s (feed_ident feed) r \<noteq> None"
  shows "fc_latest_round (feed_conf feed) \<le> r"
proof -
  let ?n = "reporting_round_id feed"
  from det have "r \<le> ?n" using rounds_ok_details [OF rok] by (auto simp: reporting_round_id_def)
  with less_inc_iff [OF max, of r] have "r \<noteq> ?n + 1" by auto
  with valid_round_Ok [OF valid max]
  consider "r = ?n" | "saturating_add r 1 = ?n"
      "\<forall>x. Rounds s (feed_ident feed) ?n = Some x \<longrightarrow> rnd_updated_at x = None"
    by metis
  then show ?thesis
  proof cases
    case 1
    then show ?thesis using rounds_okD(1) [OF rok] by (simp add: reporting_round_id_def)
  next
    case 2
    then have "fc_latest_round (feed_conf feed) \<noteq> ?n"
      using rounds_okD(6) [OF rok] by (auto simp: complete_def)
    moreover have "r \<noteq> - 1" using 2(1) max saturating_top by auto
    ultimately show ?thesis
      using 2(1) rounds_okD(1) [OF rok] saturating_inc [of r] le_inc_iff [of r]
      by (auto simp: reporting_round_id_def)
  qed
qed

lemma submit_open_cases:
  assumes "submit_open oracle r st (feed, s) = (Ok st', (feed', s'))" "reporting_round_id feed \<noteq> - 1"
  obtains (same) "feed' = feed" "s' = s" "st' = st"
  | (init) b s1 where "r = reporting_round_id feed + 1"
      "initialize_round (reporting_round_id feed + 1) (feed, s) = (Ok b, (feed', s1))"
      "s' = deposit_event (NewRound (feed_ident feed') (reporting_round_id feed + 1) oracle b) s1"
      "st' = st\<lparr>os_last_started_round := Some (reporting_round_id feed + 1)\<rparr>"
  using assms by (auto simp: submit_open_def Let_def saturating_inc dispatch_simps split: if_splits prod.splits)

text \<open>Opening: the round submitted to is then the reporting one or the one before it.\<close>

lemma submit_open_Ok:
  assumes opened: "submit_open oracle r st (feed, s) = (Ok st', (feed', s'))" and ok: "scope_ok R (feed, s)"
    and valid: "ensure_valid_round (feed, s) oracle r = Ok u" and max: "reporting_round_id feed \<noteq> - 1"
    and st: "OracleStatuses s (feed_ident feed) oracle = Some st"
  shows "frame (feed, s) (feed', s')" "keeps_settings (feed_conf feed) (feed_conf feed')"
    "scope_ok R (feed', s')" "OracleStatuses s' = OracleStatuses s" "Oracles s' = Oracles s"
    "outside s' = outside s" "block_num s' = block_num s" "fc_debt (feed_conf feed') = fc_debt (feed_conf feed)"
    "\<exists>l. st' = st\<lparr>os_last_started_round := l\<rparr>" "status_ok (reporting_round_id feed') st'"
    "Details s' (feed_ident feed) r \<noteq> None \<Longrightarrow> fc_latest_round (feed_conf feed') \<le> r"
proof -
  let ?f = "feed_ident feed" and ?n = "reporting_round_id feed"
  from ok have rok: "rounds_ok (feed_conf feed) (Rounds s ?f) (Details s ?f)"
    and ook: "oracles_ok R (feed_conf feed) (OracleStatuses s ?f)"
    by (simp_all add: scope_ok_def)
  have stok: "status_ok ?n st" using ook st by (simp add: oracles_ok_def statuses_ok_def reporting_round_id_def)
  from opened max have "frame (feed, s) (feed', s') \<and> keeps_settings (feed_conf feed) (feed_conf feed') \<and>
    scope_ok R (feed', s') \<and> OracleStatuses s' = OracleStatuses s \<and> Oracles s' = Oracles s \<and>
    outside s' = outside s \<and> block_num s' = block_num s \<and> fc_debt (feed_conf feed') = fc_debt (feed_conf feed) \<and>
    (\<exists>l. st' = st\<lparr>os_last_started_round := l\<rparr>) \<and> status_ok (reporting_round_id feed') st' \<and>
    (Details s' ?f r \<noteq> None \<longrightarrow> fc_latest_round (feed_conf feed') \<le> r)"
  proof (cases rule: submit_open_cases)
    case same
    have "fc_latest_round (feed_conf feed) \<le> r" if "Details s ?f r \<noteq> None"
      using latest_le_submitted [OF rok valid max that] .
    with same ok stok show ?thesis
      by (auto intro: keeps_settingsI exI [of _ "os_last_started_round st"])
  next
    case (init b s1)
    have sup: "is_supersedable (feed, s) ?n"
      using valid_round_Ok [OF valid max] init(1) by metis
    note i = initialize_round_Ok [OF init(2) ok max refl sup]
    have le: "?n \<le> ?n + 1" using max by (simp add: le_inc_iff)
    have lat: "fc_latest_round (feed_conf feed) \<le> ?n + 1"
      using rounds_okD(1) [OF rok] le by (auto simp: reporting_round_id_def)
    have "status_ok (?n + 1) st'"
      using stok le init(4) by (auto simp: status_ok_def intro: order_trans)
    moreover have "oracles_ok R (feed_conf feed') (OracleStatuses s' ?f)"
      using ook i(3,4) init(3) le by (auto simp: reporting_round_id_def elim: oracles_ok_mono)
    moreover have "frame (feed', s1) (feed', s')" using init(3) by (simp add: frame_def)
    ultimately show ?thesis
      using i init lat
      by (auto simp: scope_ok_def reporting_round_id_def keeps_settingsI intro: frame_trans exI [of _ "Some (?n + 1)"])
  qed
  then show "frame (feed, s) (feed', s')" "keeps_settings (feed_conf feed) (feed_conf feed')"
    "scope_ok R (feed', s')" "OracleStatuses s' = OracleStatuses s" "Oracles s' = Oracles s"
    "outside s' = outside s" "block_num s' = block_num s" "fc_debt (feed_conf feed') = fc_debt (feed_conf feed)"
    "\<exists>l. st' = st\<lparr>os_last_started_round := l\<rparr>" "status_ok (reporting_round_id feed') st'"
    "Details s' (feed_ident feed) r \<noteq> None \<Longrightarrow> fc_latest_round (feed_conf feed') \<le> r"
    by simp_all
qed

text \<open>The details that a submission finds: those of the round, or fresh ones.\<close>

definition details_for :: "FeedConfig \<Rightarrow> RoundDetails option \<Rightarrow> RoundDetails" where
  "details_for c x = (case x of Some d \<Rightarrow> d | None \<Rightarrow> fresh_details c)"

lemma submit_open_details:
  assumes opened: "submit_open oracle r st (feed, s) = (Ok st', (feed', s'))" and ok: "scope_ok R (feed, s)"
    and valid: "ensure_valid_round (feed, s) oracle r = Ok u" and max: "reporting_round_id feed \<noteq> - 1"
    and d: "Details s' (feed_ident feed) r = Some d"
  shows "d = details_for (feed_conf feed) (Details s (feed_ident feed) r)"
    "fc_latest_round (feed_conf feed') = fc_latest_round (feed_conf feed)"
proof -
  let ?f = "feed_ident feed" and ?n = "reporting_round_id feed"
  from opened max have "d = details_for (feed_conf feed) (Details s ?f r) \<and> fc_latest_round (feed_conf feed') = fc_latest_round (feed_conf feed)"
  proof (cases rule: submit_open_cases)
    case same
    with d show ?thesis by (simp add: details_for_def)
  next
    case (init b s1)
    have sup: "is_supersedable (feed, s) ?n"
      using valid_round_Ok [OF valid max] init(1) by metis
    note i = initialize_round_Ok [OF init(2) ok max refl sup]
    have "Details s ?f r = None"
      using rounds_ok_details [OF scope_ok_rounds [OF ok], of r] init(1) less_inc_iff [OF max, of r]
      by (cases "Details s ?f r") (auto simp: reporting_round_id_def)
    with i init d show ?thesis by (simp add: details_for_def)
  qed
  then show "d = details_for (feed_conf feed) (Details s ?f r)"
    "fc_latest_round (feed_conf feed') = fc_latest_round (feed_conf feed)" by simp_all
qed

lemma median_nonempty: "xs \<noteq> [] \<Longrightarrow> \<exists>m. median xs = Some (m, sort xs)"
  by (cases xs) (auto simp: median_def Let_def mod2_eq_if)

lemma median_sorts: "median xs = Some (m, ys) \<Longrightarrow> ys = sort xs"
  by (auto simp: median_def Let_def split: if_splits)

lemma answer_round_scope:
  assumes answer: "answer_round R r x m (feed, s) = (feed', s')"
    and ok: "rounds_ok (feed_conf feed) (Rounds s (feed_ident feed)) (Details s (feed_ident feed))"
    and r: "fc_next_round_to_prune (feed_conf feed) \<le> r" "fc_latest_round (feed_conf feed) \<le> r"
      "r \<le> fc_reporting_round (feed_conf feed)"
  shows "frame (feed, s) (feed', s')" "keeps_settings (feed_conf feed) (feed_conf feed')"
    "rounds_ok (feed_conf feed') (Rounds s' (feed_ident feed)) (Details s' (feed_ident feed))"
    "fc_next_round_to_prune (feed_conf feed') \<le> r"
    "fc_reporting_round (feed_conf feed') = fc_reporting_round (feed_conf feed)"
    "OracleStatuses s' = OracleStatuses s" "Oracles s' = Oracles s" "fc_debt (feed_conf feed') = fc_debt (feed_conf feed)"
    "\<exists>data. outside s' = on_answer R (feed_ident feed) data (outside s)"
    "Rounds s' (feed_ident feed) r = Some (into_round \<lparr>dat_started_at = rnd_started_at x, dat_answer = m,
       dat_updated_at = block_num s, dat_answered_in_round = r\<rparr>)"
    "fc_latest_round (feed_conf feed') = r"
proof -
  let ?f = "feed_ident feed" and ?c = "feed_conf feed"
  define data where "data = \<lparr>dat_started_at = rnd_started_at x, dat_answer = m,
    dat_updated_at = block_num s, dat_answered_in_round = r\<rparr>"
  define c where "c = ?c\<lparr>fc_latest_round := r, fc_first_valid_round :=
    (if fc_first_valid_round ?c = None then Some r else fc_first_valid_round ?c)\<rparr>"
  define s1 where "s1 = s\<lparr>Rounds := dm_insert ?f r (into_round data) (Rounds s), Details :=
    (if saturating_sub r 1 > 0 then dm_remove ?f (saturating_sub r 1) (Details s) else Details s)\<rparr>"
  obtain b s2 where prune: "prune_oldest (feed\<lparr>feed_conf := c\<rparr>, s1) = (b, (feed', s2))"
    and s': "s' = deposit_event (AnswerUpdated ?f r m (block_num s)) (s2\<lparr>outside := on_answer R ?f data (outside s2)\<rparr>)"
    using answer by (cases "fc_first_valid_round ?c = None"; cases "saturating_sub r 1 > 0")
      (auto simp: answer_round_def Let_def c_def s1_def data_def split: prod.splits)
  have "rounds_ok (?c\<lparr>fc_latest_round := r\<rparr>) ((Rounds s ?f)(r := Some (into_round data))) (Details s ?f)"
    using ok r by (simp add: rounds_ok_answer)
  then have ok1: "rounds_ok c (Rounds s1 ?f) (Details s1 ?f)"
    by (auto simp: c_def s1_def dm_insert_row dm_remove_row intro: rounds_ok_remove)
  then have ok1': "rounds_ok (feed_conf (feed\<lparr>feed_conf := c\<rparr>)) (Rounds s1 (feed_ident (feed\<lparr>feed_conf := c\<rparr>)))
      (Details s1 (feed_ident (feed\<lparr>feed_conf := c\<rparr>)))"
    by simp
  note p = prune_oldest_scope [OF prune ok1', simplified]
  obtain q v where q: "feed' = feed\<lparr>feed_conf := c\<lparr>fc_next_round_to_prune := q, fc_first_valid_round := v\<rparr>\<rparr>"
    "q = fc_next_round_to_prune c \<or> q \<le> fc_latest_round c"
    using p(7) by auto
  show "frame (feed, s) (feed', s')"
    using p(2) by (auto simp: frame_def s1_def s' dm_insert_row dm_remove_row)
  show "keeps_settings (feed_conf feed) (feed_conf feed')"
    using q(1) keeps_settings_trans [OF keeps_settingsI(4) keeps_settingsI(5)] by (simp add: c_def)
  show "rounds_ok (feed_conf feed') (Rounds s' ?f) (Details s' ?f)" using p(1) by (simp add: s')
  show "fc_next_round_to_prune (feed_conf feed') \<le> r" using q r(1) by (auto simp: c_def)
  show "fc_reporting_round (feed_conf feed') = fc_reporting_round ?c" "fc_debt (feed_conf feed') = fc_debt ?c"
    using q(1) by (simp_all add: c_def)
  show "OracleStatuses s' = OracleStatuses s" "Oracles s' = Oracles s" using p(3,4) by (simp_all add: s' s1_def)
  show "\<exists>data. outside s' = on_answer R ?f data (outside s)" using p(5) by (auto simp: s' s1_def)
  show "fc_latest_round (feed_conf feed') = r" using q(1) by (simp add: c_def)
  have "\<not> (current_window (feed\<lparr>feed_conf := c\<rparr>) \<ge> fc_pruning_window c \<and> fc_next_round_to_prune c = r)"
    using prune_condition [OF ok1] by (auto simp: current_window_def c_def)
  then show "Rounds s' ?f r = Some (into_round \<lparr>dat_started_at = rnd_started_at x, dat_answer = m,
       dat_updated_at = block_num s, dat_answered_in_round = r\<rparr>)"
    using prune by (auto simp: prune_oldest_def Let_def s' s1_def data_def split: if_splits)
qed

lemma submit_answer_Ok:
  assumes answer: "submit_answer R r d (feed, s) = (Ok d', (feed', s'))"
    and ok: "rounds_ok (feed_conf feed) (Rounds s (feed_ident feed)) (Details s (feed_ident feed))"
    and r: "fc_next_round_to_prune (feed_conf feed) \<le> r" "fc_latest_round (feed_conf feed) \<le> r"
      "r \<le> fc_reporting_round (feed_conf feed)"
  shows "frame (feed, s) (feed', s')" "keeps_settings (feed_conf feed) (feed_conf feed')"
    "rounds_ok (feed_conf feed') (Rounds s' (feed_ident feed)) (Details s' (feed_ident feed))"
    "fc_next_round_to_prune (feed_conf feed') \<le> r"
    "fc_reporting_round (feed_conf feed') = fc_reporting_round (feed_conf feed)"
    "OracleStatuses s' = OracleStatuses s" "Oracles s' = Oracles s" "fc_debt (feed_conf feed') = fc_debt (feed_conf feed)"
    "outside s' = outside s \<or> (\<exists>data. outside s' = on_answer R (feed_ident feed) data (outside s))"
    "det_submission_count_bounds d' = det_submission_count_bounds d" "det_payment d' = det_payment d"
    "length (det_submissions d') = length (det_submissions d)" "set (det_submissions d') = set (det_submissions d)"
proof -
  consider (few) "d' = d" "feed' = feed" "s' = s"
    | (enough) m x where "answer_round R r x m (feed, s) = (feed', s')"
      "d' = d\<lparr>det_submissions := sort (det_submissions d)\<rparr>"
    using answer
    by (auto simp: submit_answer_def dispatch_simps dest: median_sorts split: if_splits option.splits prod.splits)
  then show "frame (feed, s) (feed', s')" "keeps_settings (feed_conf feed) (feed_conf feed')"
    "rounds_ok (feed_conf feed') (Rounds s' (feed_ident feed)) (Details s' (feed_ident feed))"
    "fc_next_round_to_prune (feed_conf feed') \<le> r"
    "fc_reporting_round (feed_conf feed') = fc_reporting_round (feed_conf feed)"
    "OracleStatuses s' = OracleStatuses s" "Oracles s' = Oracles s" "fc_debt (feed_conf feed') = fc_debt (feed_conf feed)"
    "outside s' = outside s \<or> (\<exists>data. outside s' = on_answer R (feed_ident feed) data (outside s))"
    "det_submission_count_bounds d' = det_submission_count_bounds d" "det_payment d' = det_payment d"
    "length (det_submissions d') = length (det_submissions d)" "set (det_submissions d') = set (det_submissions d)"
    by (cases; insert ok r; simp add: answer_round_scope keeps_settingsI; fail)+
qed

text \<open>The answer: with enough submissions it is their median, otherwise nothing changes.\<close>

lemma submit_answer_value:
  assumes answer: "submit_answer R r d (feed, s) = (Ok d', (feed', s'))"
    and ok: "rounds_ok (feed_conf feed) (Rounds s (feed_ident feed)) (Details s (feed_ident feed))"
    and r: "fc_next_round_to_prune (feed_conf feed) \<le> r" "fc_latest_round (feed_conf feed) \<le> r"
      "r \<le> fc_reporting_round (feed_conf feed)"
  obtains (few) "length (det_submissions d) < unat (fst (det_submission_count_bounds d))" "d' = d" "feed' = feed" "s' = s"
  | (enough) m x where "unat (fst (det_submission_count_bounds d)) \<le> length (det_submissions d)"
      "median (det_submissions d) = Some (m, sort (det_submissions d))"
      "d' = d\<lparr>det_submissions := sort (det_submissions d)\<rparr>"
      "Rounds s' (feed_ident feed) r = Some (into_round \<lparr>dat_started_at = x, dat_answer = m,
         dat_updated_at = block_num s, dat_answered_in_round = r\<rparr>)"
      "fc_latest_round (feed_conf feed') = r"
proof (cases "length (det_submissions d) < unat (fst (det_submission_count_bounds d))")
  case True
  then have "d' = d" "feed' = feed" "s' = s" using answer by (simp_all add: submit_answer_def)
  with True show thesis by (rule few)
next
  case False
  with answer obtain m ys x where m: "median (det_submissions d) = Some (m, ys)" "d' = d\<lparr>det_submissions := ys\<rparr>"
    and a: "answer_round R r x m (feed, s) = (feed', s')"
    by (auto simp: submit_answer_def dispatch_simps split: option.splits)
  from m median_sorts have "ys = sort (det_submissions d)" by blast
  with False m answer_round_scope(10,11) [OF a ok r] show thesis by (intro enough) auto
qed

lemma submit_reserve_Ok:
  assumes "submit_reserve R p (feed, s) = (Ok u, (feed', s'))"
  obtains (paid) w where "reserve (Currency R) (fund_account R) p (outside s) = (None, w)" "feed' = feed"
      "s' = s\<lparr>outside := w\<rparr>"
  | (owed) e w d where "reserve (Currency R) (fund_account R) p (outside s) = (Some e, w)"
      "checked_add (fc_debt (feed_conf feed)) p = Some d" "feed' = feed\<lparr>feed_conf := (feed_conf feed)\<lparr>fc_debt := d\<rparr>\<rparr>"
      "s' = s\<lparr>outside := w\<rparr>" "\<And>m. fc_max_debt (feed_conf feed) = Some m \<Longrightarrow> d \<le> m"
  using assms
  by (fastforce simp: submit_reserve_def Let_def dispatch_simps split: prod.splits option.splits)

lemma submit_credit_Ok:
  assumes "submit_credit oracle p (feed, s) = (Ok u, (feed', s'))"
  shows "\<exists>m b. feed' = feed \<and> Oracles s oracle = Some m \<and> checked_add (om_withdrawable m) p = Some b \<and>
    s' = s\<lparr>Oracles := (Oracles s)(oracle \<mapsto> m\<lparr>om_withdrawable := b\<rparr>)\<rparr>"
  using assms by (auto simp: submit_credit_def dispatch_simps split: prod.splits)

lemma submit_bodyE:
  assumes "submit_body R oracle r v (feed, s) = (Ok u, (feed', s'))"
  obtains st st1 d d1 f1 s1 f2 s2 f3 s3 f4 s4 s5 where
    "OracleStatuses s (feed_ident feed) oracle = Some st"
    "ensure_valid_round (feed, s) oracle r = Ok ()" "in_bounds (fc_submission_value_bounds (feed_conf feed)) v"
    "submit_open oracle r st (feed, s) = (Ok st1, (f1, s1))"
    "submit_record oracle r v st1 (f1, s1) = (Ok d, (f2, s2))"
    "submit_answer R r d (f2, s2) = (Ok d1, (f3, s3))"
    "submit_reserve R (det_payment d1) (f3, s3) = (Ok (), (f4, s4))"
    "submit_credit oracle (det_payment d1) (f4, s4) = (Ok (), (feed', s5))"
    "s' = (if length (det_submissions d1) < unat (snd (det_submission_count_bounds d1))
       then s5\<lparr>Details := dm_insert (feed_ident feed') r d1 (Details s5)\<rparr> else s5)"
proof (cases "fc_submission_value_bounds (feed_conf feed)")
  case (Pair lo hi)
  show thesis
    using assms Pair
    by (auto simp: submit_body_def dispatch_simps in_bounds_def split: prod.splits elim!: that [rotated 3])
qed

lemma submit_record_Ok:
  assumes recorded: "submit_record oracle r v st1 (f1, s1) = (Ok d, (f2, s2))" and ok: "scope_ok R (f1, s1)"
    and st: "OracleStatuses s1 (feed_ident f1) oracle = Some st" "os_ending_round st1 = os_ending_round st"
      "status_ok (reporting_round_id f1) st1"
    and v: "in_bounds (fc_submission_value_bounds (feed_conf f1)) v"
  obtains d0 where "Details s1 (feed_ident f1) r = Some d0" "d = d0\<lparr>det_submissions := det_submissions d0 @ [v]\<rparr>"
    "f2 = f1" "frame (f1, s1) (f1, s2)" "scope_ok R (f1, s2)" "Oracles s2 = Oracles s1" "outside s2 = outside s1"
    "OracleStatuses s2 (feed_ident f1) oracle =
       Some (st1\<lparr>os_last_reported_round := Some r, os_latest_submission := Some v\<rparr>)"
    "fc_next_round_to_prune (feed_conf f1) \<le> r" "r \<le> fc_reporting_round (feed_conf f1)"
    "count_bounds_ok (det_submission_count_bounds d)"
    "list_all (in_bounds (fc_submission_value_bounds (feed_conf f1))) (det_submissions d)"
proof -
  from recorded obtain d0 where d0: "Details s1 (feed_ident f1) r = Some d0"
    and d: "d = d0\<lparr>det_submissions := det_submissions d0 @ [v]\<rparr>" and f2: "f2 = f1"
    and s2: "s2 = deposit_event (SubmissionReceived (feed_ident f1) r v oracle)
      (s1\<lparr>Details := dm_remove (feed_ident f1) r (Details s1),
          OracleStatuses := dm_insert (feed_ident f1) oracle (st1\<lparr>os_last_reported_round := Some r,
            os_latest_submission := Some v\<rparr>) (OracleStatuses s1)\<rparr>)"
    by (auto simp: submit_record_def split: option.splits)
  note rd = rounds_ok_details [OF scope_ok_rounds [OF ok] d0]
  have "status_ok (fc_reporting_round (feed_conf f1))
      (st1\<lparr>os_last_reported_round := Some r, os_latest_submission := Some v\<rparr>)"
    using st(3) rd by (simp add: status_ok_def reporting_round_id_def)
  with ok st(1,2) have "scope_ok R (f1, s2)"
    by (auto simp: scope_ok_def s2 dm_insert_row dm_remove_row intro: rounds_ok_remove oracles_ok_update)
  moreover have "frame (f1, s1) (f1, s2)" using st(1) by (auto simp: frame_def s2 dm_insert_row dm_remove_row)
  ultimately show thesis
    using that [OF d0 d f2] d rd v by (auto simp: details_ok_def s2)
qed

text \<open>All the steps of a successful \<open>submit\<close>, with what holds between them.\<close>

lemma submit_chain:
  assumes submit: "submit_body R a r v (feed, s) = (Ok u, (feed', s'))" and ok: "scope_ok R (feed, s)"
    and max: "reporting_round_id feed \<noteq> - 1"
  obtains st st1 d0 d d1 f1 s1 s2 f3 s3 f4 s4 s5 where
    "OracleStatuses s (feed_ident feed) a = Some st" "ensure_valid_round (feed, s) a r = Ok ()"
    "submit_open a r st (feed, s) = (Ok st1, (f1, s1))"
    "submit_answer R r d (f1, s2) = (Ok d1, (f3, s3))"
    "submit_reserve R (det_payment d1) (f3, s3) = (Ok (), (f4, s4))"
    "submit_credit a (det_payment d1) (f4, s4) = (Ok (), (feed', s5))"
    "s' = (if length (det_submissions d1) < unat (snd (det_submission_count_bounds d1))
       then s5\<lparr>Details := dm_insert (feed_ident feed') r d1 (Details s5)\<rparr> else s5)"
    "Details s1 (feed_ident feed) r = Some d0" "d = d0\<lparr>det_submissions := det_submissions d0 @ [v]\<rparr>"
    "feed_ident f1 = feed_ident feed"
    "fc_submission_value_bounds (feed_conf f1) = fc_submission_value_bounds (feed_conf feed)"
    "frame (f1, s1) (f1, s2)" "scope_ok R (f1, s2)" "Oracles s2 = Oracles s1" "outside s2 = outside s1"
    "OracleStatuses s2 = dm_insert (feed_ident feed) a
       (st1\<lparr>os_last_reported_round := Some r, os_latest_submission := Some v\<rparr>) (OracleStatuses s)"
    "fc_next_round_to_prune (feed_conf f1) \<le> r" "fc_latest_round (feed_conf f1) \<le> r"
    "r \<le> fc_reporting_round (feed_conf f1)"
    "count_bounds_ok (det_submission_count_bounds d)"
    "list_all (in_bounds (fc_submission_value_bounds (feed_conf feed))) (det_submissions d)"
    "block_num s2 = block_num s" "Details s2 (feed_ident feed) r = None"
proof -
  let ?f = "feed_ident feed" and ?b = "fc_submission_value_bounds (feed_conf feed)"
  from submit obtain st st1 d d1 f1 s1 f2 s2 f3 s3 f4 s4 s5 where
      st: "OracleStatuses s ?f a = Some st" and valid: "ensure_valid_round (feed, s) a r = Ok ()"
    and v: "in_bounds ?b v" and opened: "submit_open a r st (feed, s) = (Ok st1, (f1, s1))"
    and recorded: "submit_record a r v st1 (f1, s1) = (Ok d, (f2, s2))"
    and rest: "submit_answer R r d (f2, s2) = (Ok d1, (f3, s3))"
      "submit_reserve R (det_payment d1) (f3, s3) = (Ok (), (f4, s4))"
      "submit_credit a (det_payment d1) (f4, s4) = (Ok (), (feed', s5))"
      "s' = (if length (det_submissions d1) < unat (snd (det_submission_count_bounds d1))
        then s5\<lparr>Details := dm_insert (feed_ident feed') r d1 (Details s5)\<rparr> else s5)"
    by (rule submit_bodyE)
  note o = submit_open_Ok [OF opened ok valid max st]
  have ids: "feed_ident f1 = ?f" "fc_submission_value_bounds (feed_conf f1) = ?b"
    using o(1) keeps_settings_fields [OF o(2)] by (simp_all add: frame_def)
  have h: "OracleStatuses s1 (feed_ident f1) a = Some st" "os_ending_round st1 = os_ending_round st"
    "in_bounds (fc_submission_value_bounds (feed_conf f1)) v"
    using o(4,9) st v ids by auto
  from submit_record_Ok [OF recorded o(3) h(1,2) o(10) h(3)]
  obtain d0 where d0: "Details s1 ?f r = Some d0" "d = d0\<lparr>det_submissions := det_submissions d0 @ [v]\<rparr>" "f2 = f1"
      "frame (f1, s1) (f1, s2)" "scope_ok R (f1, s2)" "Oracles s2 = Oracles s1" "outside s2 = outside s1"
      "fc_next_round_to_prune (feed_conf f1) \<le> r" "r \<le> fc_reporting_round (feed_conf f1)"
      "count_bounds_ok (det_submission_count_bounds d)" "list_all (in_bounds ?b) (det_submissions d)"
    using ids by metis
  have sts: "OracleStatuses s2 = dm_insert ?f a
       (st1\<lparr>os_last_reported_round := Some r, os_latest_submission := Some v\<rparr>) (OracleStatuses s)"
    using recorded o(4) by (auto simp: submit_record_def ids split: option.splits)
  have now: "block_num s2 = block_num s" "Details s2 ?f r = None"
    using recorded o(7) by (auto simp: submit_record_def ids split: option.splits)
  from o(11) d0(1) have lat: "fc_latest_round (feed_conf f1) \<le> r" by simp
  show thesis
    using that [OF st valid opened rest(1) [unfolded d0(3)] rest(2,3,4) d0(1,2) ids d0(4-7) sts d0(8) lat d0(9-11) now] .
qed

lemma submit_body_Ok:
  assumes submit: "submit_body R a r v (feed, s) = (Ok u, (feed', s'))" and ok: "scope_ok R (feed, s)"
    and max: "reporting_round_id feed \<noteq> - 1"
  shows "frame (feed, s) (feed', s') \<and> keeps_settings (feed_conf feed) (feed_conf feed') \<and> scope_ok R (feed', s')"
  using assms
proof (rule submit_chain)
  fix st st1 d0 d d1 f1 s1 s2 f3 s3 f4 s4 s5
  let ?f = "feed_ident feed" and ?b = "fc_submission_value_bounds (feed_conf feed)"
  assume st: "OracleStatuses s ?f a = Some st" and valid: "ensure_valid_round (feed, s) a r = Ok ()"
    and opened: "submit_open a r st (feed, s) = (Ok st1, (f1, s1))"
    and answered: "submit_answer R r d (f1, s2) = (Ok d1, (f3, s3))"
    and reserved: "submit_reserve R (det_payment d1) (f3, s3) = (Ok (), (f4, s4))"
    and credited: "submit_credit a (det_payment d1) (f4, s4) = (Ok (), (feed', s5))"
    and s': "s' = (if length (det_submissions d1) < unat (snd (det_submission_count_bounds d1))
        then s5\<lparr>Details := dm_insert (feed_ident feed') r d1 (Details s5)\<rparr> else s5)"
    and ids: "feed_ident f1 = ?f" "fc_submission_value_bounds (feed_conf f1) = ?b"
    and fr2: "frame (f1, s1) (f1, s2)" and ok2: "scope_ok R (f1, s2)"
    and r: "fc_next_round_to_prune (feed_conf f1) \<le> r" "fc_latest_round (feed_conf f1) \<le> r"
      "r \<le> fc_reporting_round (feed_conf f1)"
    and d: "count_bounds_ok (det_submission_count_bounds d)" "list_all (in_bounds ?b) (det_submissions d)"
  note o = submit_open_Ok [OF opened ok valid max st]
  note a = submit_answer_Ok [OF answered scope_ok_rounds [OF ok2] r, unfolded ids]
  from a(1) ids have ids3: "feed_ident f3 = ?f" by (simp add: frame_def)
  have vb3: "fc_submission_value_bounds (feed_conf f3) = ?b"
    using keeps_settings_fields [OF a(2)] ids by simp
  have ok3: "scope_ok R (f3, s3)"
    using ok2 a(3,5,6) keeps_settings_fields(3) [OF a(2)] by (simp add: scope_ok_def ids ids3 oracles_ok_def)
  obtain x w where f4: "f4 = f3\<lparr>feed_conf := (feed_conf f3)\<lparr>fc_debt := x\<rparr>\<rparr>" and s4: "s4 = s3\<lparr>outside := w\<rparr>"
    using reserved by (rule submit_reserve_Ok) (simp add: that [of "fc_debt (feed_conf f3)"], rule that)
  obtain m where s5: "feed' = f4" "s5 = s4\<lparr>Oracles := (Oracles s4)(a \<mapsto> m)\<rparr>"
    using submit_credit_Ok [OF credited] by auto
  have "details_ok ?b d1" if "length (det_submissions d1) < unat (snd (det_submission_count_bounds d1))"
    using that a(10,13) d by (simp add: details_ok_def list_all_iff)
  then have "scope_ok R (feed', s')"
    using ok3 s4 a(4,5) r(3) vb3
    by (auto simp: scope_ok_def s' s5 f4 dm_insert_row ids3 oracles_ok_def intro: rounds_ok_insert)
  moreover have "frame (f3, s3) (feed', s')"
    using s4 by (auto simp: frame_def s' s5 f4 dm_insert_row)
  then have "frame (feed, s) (feed', s')"
    using frame_trans [OF o(1) frame_trans [OF fr2 frame_trans [OF a(1)]]] by simp
  moreover have "keeps_settings (feed_conf feed) (feed_conf feed')"
    using keeps_settings_trans [OF o(2) keeps_settings_trans [OF a(2) keeps_settingsI(6)]] by (simp add: s5 f4)
  ultimately show ?thesis by simp
qed

text \<open>
  What a successful \<open>submit\<close> does beyond the rounds: the oracle has reported to the round,
  to which it had not reported before, and is credited with the payment, which is reserved
  or becomes a debt of the feed.
\<close>

lemma submit_body_effect:
  assumes submit: "submit_body R a r v (feed, s) = (Ok u, (feed', s'))" and ok: "scope_ok R (feed, s)"
    and max: "reporting_round_id feed \<noteq> - 1"
  obtains p m b st w where "Oracles s a = Some m" "checked_add (om_withdrawable m) p = Some b"
    "Oracles s' = (Oracles s)(a \<mapsto> m\<lparr>om_withdrawable := b\<rparr>)"
    "OracleStatuses s' = dm_insert (feed_ident feed) a st (OracleStatuses s)" "os_last_reported_round st = Some r"
    "\<And>l. reported (OracleStatuses s (feed_ident feed)) a = Some l \<Longrightarrow> l < r"
    "w = outside s \<or> (\<exists>data. w = on_answer R (feed_ident feed) data (outside s))"
    "reserve (Currency R) (fund_account R) p w = (None, outside s') \<and> fc_debt (feed_conf feed') = fc_debt (feed_conf feed) \<or>
     (\<exists>e. reserve (Currency R) (fund_account R) p w = (Some e, outside s') \<and>
        checked_add (fc_debt (feed_conf feed)) p = Some (fc_debt (feed_conf feed')) \<and>
        (\<forall>x. fc_max_debt (feed_conf feed) = Some x \<longrightarrow> fc_debt (feed_conf feed') \<le> x))"
  using assms
proof (rule submit_chain)
  fix st st1 d0 d d1 f1 s1 s2 f3 s3 f4 s4 s5
  let ?f = "feed_ident feed"
  assume st: "OracleStatuses s ?f a = Some st" and valid: "ensure_valid_round (feed, s) a r = Ok ()"
    and opened: "submit_open a r st (feed, s) = (Ok st1, (f1, s1))"
    and answered: "submit_answer R r d (f1, s2) = (Ok d1, (f3, s3))"
    and reserved: "submit_reserve R (det_payment d1) (f3, s3) = (Ok (), (f4, s4))"
    and credited: "submit_credit a (det_payment d1) (f4, s4) = (Ok (), (feed', s5))"
    and s': "s' = (if length (det_submissions d1) < unat (snd (det_submission_count_bounds d1))
        then s5\<lparr>Details := dm_insert (feed_ident feed') r d1 (Details s5)\<rparr> else s5)"
    and ids: "feed_ident f1 = ?f" and ok2: "scope_ok R (f1, s2)"
    and s2: "Oracles s2 = Oracles s1" "outside s2 = outside s1"
      "OracleStatuses s2 = dm_insert ?f a
         (st1\<lparr>os_last_reported_round := Some r, os_latest_submission := Some v\<rparr>) (OracleStatuses s)"
    and r: "fc_next_round_to_prune (feed_conf f1) \<le> r" "fc_latest_round (feed_conf f1) \<le> r"
      "r \<le> fc_reporting_round (feed_conf f1)"
  note o = submit_open_Ok [OF opened ok valid max st]
  note a = submit_answer_Ok [OF answered scope_ok_rounds [OF ok2] r, unfolded ids]
  have sets: "fc_max_debt (feed_conf f3) = fc_max_debt (feed_conf feed)" "fc_debt (feed_conf f3) = fc_debt (feed_conf feed)"
    using keeps_settings_fields(5) [OF o(2)] keeps_settings_fields(5) [OF a(2)] o(8) a(8) by simp_all
  obtain m b where c: "feed' = f4" "Oracles s4 a = Some m" "checked_add (om_withdrawable m) (det_payment d1) = Some b"
    "s5 = s4\<lparr>Oracles := (Oracles s4)(a \<mapsto> m\<lparr>om_withdrawable := b\<rparr>)\<rparr>"
    using submit_credit_Ok [OF credited] by auto
  have "l < r" if "reported (OracleStatuses s ?f) a = Some l" for l
    using valid_round_Ok [OF valid max] that by (fastforce simp: reported_def)
  moreover have "reserve (Currency R) (fund_account R) (det_payment d1) (outside s3) = (None, outside s') \<and>
       fc_debt (feed_conf feed') = fc_debt (feed_conf feed) \<or>
     (\<exists>e. reserve (Currency R) (fund_account R) (det_payment d1) (outside s3) = (Some e, outside s') \<and>
        checked_add (fc_debt (feed_conf feed)) (det_payment d1) = Some (fc_debt (feed_conf feed')) \<and>
        (\<forall>x. fc_max_debt (feed_conf feed) = Some x \<longrightarrow> fc_debt (feed_conf feed') \<le> x)) "
    using reserved by (rule submit_reserve_Ok) (auto simp: s' c(1,4) sets)
  moreover have "Oracles s4 = Oracles s" "OracleStatuses s4 = OracleStatuses s2"
    using reserved o(5) s2(1) a(6,7) by (auto elim!: submit_reserve_Ok)
  ultimately show thesis
    using that [of m "det_payment d1" b, OF _ c(3)] c a(9) s2 o(6) by (simp add: s')
qed

lemma answer_round_details:
  "answer_round R r x m (feed, s) = (feed', s') \<Longrightarrow> Details s f q = None \<Longrightarrow> Details s' f q = None"
  by (auto simp: answer_round_def prune_oldest_def Let_def split: if_splits)

lemma submit_answer_details:
  "submit_answer R r d (feed, s) = (Ok d', (feed', s')) \<Longrightarrow> Details s f q = None \<Longrightarrow> Details s' f q = None"
  by (auto simp: submit_answer_def dispatch_simps elim!: answer_round_details split: if_splits option.splits)

text \<open>
  The submissions of a round with the new one: the round is answered with their median once
  there are enough of them, and takes no more of them once it is full.
\<close>

lemma submit_body_answer:
  fixes feed :: Feed and s :: "'w storage"
  assumes submit: "submit_body R a r v (feed, s) = (Ok u, (feed', s'))" and ok: "scope_ok R (feed, s)"
    and max: "reporting_round_id feed \<noteq> - 1"
  defines "d \<equiv> details_for (feed_conf feed) (Details s (feed_ident feed) r)"
  defines "xs \<equiv> det_submissions d @ [v]"
  shows "if length xs < unat (fst (det_submission_count_bounds d))
      then fc_latest_round (feed_conf feed') = fc_latest_round (feed_conf feed)
      else fc_latest_round (feed_conf feed') = r \<and> (\<exists>m x. median xs = Some (m, sort xs) \<and>
         Rounds s' (feed_ident feed) r = Some (into_round \<lparr>dat_started_at = x, dat_answer = m,
           dat_updated_at = block_num s, dat_answered_in_round = r\<rparr>))"
    and "if length xs < unat (snd (det_submission_count_bounds d))
      then \<exists>ys. sort ys = sort xs \<and> Details s' (feed_ident feed) r = Some (d\<lparr>det_submissions := ys\<rparr>)
      else Details s' (feed_ident feed) r = None"
proof -
  let ?f = "feed_ident feed"
  from submit ok max obtain st st1 d0 d2 d1 f1 s1 s2 f3 s3 f4 s4 s5 where st: "OracleStatuses s ?f a = Some st"
    and valid: "ensure_valid_round (feed, s) a r = Ok ()"
    and opened: "submit_open a r st (feed, s) = (Ok st1, (f1, s1))"
    and answered: "submit_answer R r d2 (f1, s2) = (Ok d1, (f3, s3))"
    and reserved: "submit_reserve R (det_payment d1) (f3, s3) = (Ok (), (f4, s4))"
    and credited: "submit_credit a (det_payment d1) (f4, s4) = (Ok (), (feed', s5))"
    and s': "s' = (if length (det_submissions d1) < unat (snd (det_submission_count_bounds d1))
        then s5\<lparr>Details := dm_insert (feed_ident feed') r d1 (Details s5)\<rparr> else s5)"
    and d0: "Details s1 ?f r = Some d0" "d2 = d0\<lparr>det_submissions := det_submissions d0 @ [v]\<rparr>"
    and ids: "feed_ident f1 = ?f" and ok2: "scope_ok R (f1, s2)"
    and r: "fc_next_round_to_prune (feed_conf f1) \<le> r" "fc_latest_round (feed_conf f1) \<le> r"
      "r \<le> fc_reporting_round (feed_conf f1)"
    and now: "block_num s2 = block_num s" "Details s2 ?f r = None"
    by (rule submit_chain)
  have d0': "d0 = d" and lat: "fc_latest_round (feed_conf f1) = fc_latest_round (feed_conf feed)"
    using submit_open_details [OF opened ok valid max d0(1)] by (simp_all add: d_def)
  have d2: "det_submissions d2 = xs" "det_submission_count_bounds d2 = det_submission_count_bounds d"
    "d2 = d\<lparr>det_submissions := xs\<rparr>"
    by (simp_all add: d0 d0' xs_def)
  note rok = scope_ok_rounds [OF ok2]
  have "feed_ident f3 = ?f" using submit_answer_Ok(1) [OF answered rok r] ids by (simp add: frame_def)
  moreover have tail: "feed_ident feed' = feed_ident f3" "fc_latest_round (feed_conf feed') = fc_latest_round (feed_conf f3)"
    "Rounds s' = Rounds s3" "Details s5 = Details s3"
    using reserved submit_credit_Ok [OF credited] by (auto simp: s' elim!: submit_reserve_Ok)
  ultimately have f': "feed_ident feed' = ?f" by simp
  have none: "Details s3 ?f r = None" using submit_answer_details [OF answered now(2)] .
  from answered rok r show "if length xs < unat (fst (det_submission_count_bounds d))
      then fc_latest_round (feed_conf feed') = fc_latest_round (feed_conf feed)
      else fc_latest_round (feed_conf feed') = r \<and> (\<exists>m x. median xs = Some (m, sort xs) \<and>
         Rounds s' ?f r = Some (into_round \<lparr>dat_started_at = x, dat_answer = m,
           dat_updated_at = block_num s, dat_answered_in_round = r\<rparr>))"
    by (cases rule: submit_answer_value) (auto simp: tail lat d2 ids now)
  have "sort (sort xs) = sort xs \<and> length (sort xs) = length xs" by (simp add: sorted_sort_id)
  with answered rok r have "\<exists>ys. sort ys = sort xs \<and> length ys = length xs \<and> d1 = d\<lparr>det_submissions := ys\<rparr>"
    by (cases rule: submit_answer_value) (auto simp: d2)
  then show "if length xs < unat (snd (det_submission_count_bounds d))
      then \<exists>ys. sort ys = sort xs \<and> Details s' ?f r = Some (d\<lparr>det_submissions := ys\<rparr>)
      else Details s' ?f r = None"
    by (auto simp: s' f' tail none)
qed

end
