(* ===== verification/Feed_Calls.thy ===== *)
theory Feed_Calls
  imports Feed_Submit
begin

text \<open>
  Every dispatchable of the feed pallet keeps the invariant: the oracles of a feed, the
  settings, requested rounds, pruning (whose loop ends, \<open>prune_all_ends\<close>), new feeds, debts,
  and the calls that only touch roles. A step of the chain is a call by any origin or the
  start of a block; the reachable states are those after the genesis.
\<close>

section \<open>Enabling and disabling oracles\<close>

definition withdrawable_of :: "'w storage \<Rightarrow> account_id \<Rightarrow> nat" where
  "withdrawable_of s a = (case Oracles s a of Some m \<Rightarrow> unat (om_withdrawable m) | None \<Rightarrow> 0)"

text \<open>
  What changing the oracles of a feed leaves alone, with the number of enabled oracles
  before and after.
\<close>

definition oracles_changed :: "feed_id \<Rightarrow> round_id \<Rightarrow> 'w storage \<Rightarrow> 'w storage \<Rightarrow> bool" where
  "oracles_changed f reporting s s' \<longleftrightarrow>
     PalletAdmin s' = PalletAdmin s \<and> PendingPalletAdmin s' = PendingPalletAdmin s \<and>
     FeedCounter s' = FeedCounter s \<and> Feeds s' = Feeds s \<and> Rounds s' = Rounds s \<and> Details s' = Details s \<and>
     block_num s' = block_num s \<and> outside s' = outside s \<and> withdrawable_of s' = withdrawable_of s \<and>
     (\<forall>g. g \<noteq> f \<longrightarrow> OracleStatuses s' g = OracleStatuses s g) \<and>
     (\<forall>a m. Oracles s a = Some m \<longrightarrow> Oracles s' a = Some m) \<and>
     (\<forall>a. OracleStatuses s' f a \<noteq> None \<longrightarrow> OracleStatuses s f a \<noteq> None \<or> Oracles s' a \<noteq> None) \<and>
     (statuses_ok reporting (OracleStatuses s f) \<longrightarrow> statuses_ok reporting (OracleStatuses s' f)) \<and>
     (\<forall>a. reported (OracleStatuses s' f) a = reported (OracleStatuses s f) a)"

lemma oracles_changed_refl [simp]: "oracles_changed f reporting s s"
  by (simp add: oracles_changed_def)

lemma oracles_changed_trans:
  "oracles_changed f r a b \<Longrightarrow> oracles_changed f r b c \<Longrightarrow> oracles_changed f r a c"
  unfolding oracles_changed_def by simp blast

lemma enabled_insert:
  "enabled_oracles (statuses(a := Some st)) =
     (if os_ending_round st = None then insert a (enabled_oracles statuses) else enabled_oracles statuses - {a})"
  by (auto simp: enabled_oracles_def)

lemma enable_one:
  assumes "track_oracle oracle admin s = (Ok u, s1)" "enable_oracle f reporting oracle s1 = (Ok u', s2)"
  shows "oracles_changed f reporting s s2"
    "card (enabled_oracles (OracleStatuses s2 f)) = Suc (card (enabled_oracles (OracleStatuses s f)))"
proof -
  from assms(1) obtain os1 where s1: "s1 = s\<lparr>Oracles := os1\<rparr>" "os1 oracle \<noteq> None"
    "withdrawable_of s1 = withdrawable_of s" "\<forall>a m. Oracles s a = Some m \<longrightarrow> os1 a = Some m"
  proof (cases "Oracles s oracle")
    case None
    with assms(1) show thesis
      by (intro that [of "Oracles s1"]) (auto simp: track_oracle_def withdrawable_of_def fun_eq_iff)
  next
    case (Some m)
    with assms(1) show thesis
      by (intro that [of "Oracles s"]) (auto simp: track_oracle_def dispatch_simps)
  qed
  from assms(2) obtain st' where st': "s2 = s1\<lparr>OracleStatuses := dm_insert f oracle st' (OracleStatuses s)\<rparr>"
    "os_starting_round st' = reporting" "os_ending_round st' = None"
    and old: "\<And>st. OracleStatuses s f oracle = Some st \<Longrightarrow> os_ending_round st \<noteq> None \<and>
       os_last_reported_round st' = os_last_reported_round st \<and> os_last_started_round st' = os_last_started_round st"
    and new: "OracleStatuses s f oracle = None \<Longrightarrow> st' = OracleStatus_new reporting"
    by (auto simp: enable_oracle_def OracleStatus_new_def s1(1) split: option.splits if_splits)
  have "status_ok reporting st'" if "statuses_ok reporting (OracleStatuses s f)"
    using that st'(2) old new
    by (cases "OracleStatuses s f oracle") (auto simp: statuses_ok_def status_ok_def OracleStatus_new_def)
  moreover have "os_last_reported_round st' = reported (OracleStatuses s f) oracle"
    using old new by (cases "OracleStatuses s f oracle") (auto simp: reported_def OracleStatus_new_def)
  moreover have "withdrawable_of s2 = withdrawable_of s"
    using s1(3) by (simp add: st'(1) withdrawable_of_def fun_eq_iff)
  ultimately show "oracles_changed f reporting s s2"
    using s1(2,4) old unfolding oracles_changed_def
    by (simp add: st'(1) s1(1) dm_insert_row statuses_ok_def reported_def)
  have "oracle \<notin> enabled_oracles (OracleStatuses s f)"
    using old by (auto simp: enabled_oracles_def)
  then show "card (enabled_oracles (OracleStatuses s2 f)) = Suc (card (enabled_oracles (OracleStatuses s f)))"
    by (simp add: st' dm_insert_row enabled_insert)
qed

lemma oracles_changed_event [simp]:
  "oracles_changed f r s (deposit_event ev s') = oracles_changed f r s s'"
  "oracles_changed f r (deposit_event ev s) s' = oracles_changed f r s s'"
  by (simp_all add: oracles_changed_def withdrawable_of_def fun_eq_iff)

lemma add_oracles_loop_Ok:
  "add_oracles_loop f reporting xs s = (Ok u, s') \<Longrightarrow>
     oracles_changed f reporting s s' \<and>
     card (enabled_oracles (OracleStatuses s' f)) = card (enabled_oracles (OracleStatuses s f)) + length xs"
proof (induction f reporting xs s rule: add_oracles_loop.induct)
  case (2 f reporting a admin xs s)
  from 2(2) obtain s1 s2 where s12: "track_oracle a admin s = (Ok (), s1)"
      "enable_oracle f reporting a s1 = (Ok (), s2)"
    and rest: "add_oracles_loop f reporting xs (deposit_event (OraclePermissionsUpdated f a True) s2) = (Ok u, s')"
    by (auto simp: dispatch_simps)
  from 2(1) [OF rest] enable_one [OF s12] show ?case
    by (auto intro: oracles_changed_trans)
qed simp

lemma disable_one:
  assumes "OracleStatuses s f d = Some st" "os_ending_round st = None"
    and s': "s' = s\<lparr>OracleStatuses := dm_insert f d (st\<lparr>os_ending_round := Some reporting\<rparr>) (OracleStatuses s)\<rparr>"
  shows "oracles_changed f reporting s s'"
    "card (enabled_oracles (OracleStatuses s f)) = Suc (card (enabled_oracles (OracleStatuses s' f)))"
proof -
  have "d \<in> enabled_oracles (OracleStatuses s f)" using assms by (simp add: enabled_oracles_def)
  then show "card (enabled_oracles (OracleStatuses s f)) = Suc (card (enabled_oracles (OracleStatuses s' f)))"
    using card_gt_0_iff [of "enabled_oracles (OracleStatuses s f)"]
    by (auto simp: s' dm_insert_row enabled_insert)
  show "oracles_changed f reporting s s'"
    using assms(1) by (auto simp: oracles_changed_def s' dm_insert_row withdrawable_of_def fun_eq_iff
        statuses_ok_def status_ok_def reported_def)
qed

lemma disable_oracles_loop_Ok:
  "disable_oracles_loop f reporting xs s = (Ok u, s') \<Longrightarrow>
     oracles_changed f reporting s s' \<and>
     card (enabled_oracles (OracleStatuses s f)) = card (enabled_oracles (OracleStatuses s' f)) + length xs"
proof (induction f reporting xs s rule: disable_oracles_loop.induct)
  case (2 f reporting d xs s)
  from 2(2) obtain st where st: "OracleStatuses s f d = Some st" "os_ending_round st = None"
    by (auto split: option.splits if_splits)
  define s1 where "s1 = s\<lparr>OracleStatuses := dm_insert f d (st\<lparr>os_ending_round := Some reporting\<rparr>) (OracleStatuses s)\<rparr>"
  from 2(2) st have rest: "disable_oracles_loop f reporting xs (deposit_event (OraclePermissionsUpdated f d False) s1) = (Ok u, s')"
    by (simp add: s1_def)
  have "oracles_changed f reporting s1 s' \<and>
      card (enabled_oracles (OracleStatuses s1 f)) = card (enabled_oracles (OracleStatuses s' f)) + length xs"
    using 2(1) [OF st(1)] st rest by (simp add: s1_def dm_insert_row fun_upd_def)
  with disable_one [OF st s1_def] show ?case
    by (auto intro: oracles_changed_trans)
qed simp

lemma oracles_changed_frame:
  "oracles_changed (feed_ident feed) r s s' \<Longrightarrow>
     frame (feed, s) (feed\<lparr>feed_conf := c\<rparr>, s')"
  by (auto simp: oracles_changed_def frame_def)

lemma unat_of_length: "length xs < 2 ^ 32 \<Longrightarrow> unat (of_nat (length xs) :: 32 word) = length xs"
  by (simp add: unat_of_nat take_bit_nat_eq_self)

text \<open>
  Adding keeps the invariant as long as the configured limit is not the largest number,
  at which the saturating addition would lose track of the count.
\<close>

lemma add_oracles_Ok:
  assumes add: "add_oracles R xs (feed, s) = (Ok u, (feed', s'))" and ok: "oracles_ok R (feed_conf feed) (OracleStatuses s (feed_ident feed))"
    and limit: "OracleCountLimit R < - 1" and len: "length xs < 2 ^ 32"
  shows "\<exists>n. feed' = feed\<lparr>feed_conf := (feed_conf feed)\<lparr>fc_oracle_count := n\<rparr>\<rparr>"
    "oracles_changed (feed_ident feed) (reporting_round_id feed) s s'"
    "oracles_ok R (feed_conf feed') (OracleStatuses s' (feed_ident feed))"
proof -
  define n where "n = saturating_add (oracle_count feed) (of_nat (length xs))"
  have le: "n \<le> OracleCountLimit R" and feed': "feed' = feed\<lparr>feed_conf := (feed_conf feed)\<lparr>fc_oracle_count := n\<rparr>\<rparr>"
    and loop: "add_oracles_loop (feed_ident feed) (reporting_round_id feed) xs s = (Ok u, s')"
    using add by (auto simp: add_oracles_def Let_def n_def reporting_round_id_def split: if_splits prod.splits)
  note l = add_oracles_loop_Ok [OF loop]
  have "unat n < 2 ^ 32 - 1"
    using le limit by (simp add: word_le_nat_alt word_less_nat_alt unsigned_minus_1_eq_mask mask_eq_exp_minus_1)
  then have "unat n = unat (oracle_count feed) + length xs"
    using unat_of_length [OF len] by (simp add: n_def unat_saturating_add min_def split: if_splits)
  with l ok le show "oracles_ok R (feed_conf feed') (OracleStatuses s' (feed_ident feed))"
    by (auto simp: oracles_ok_def feed' oracles_changed_def oracle_count_def reporting_round_id_def)
  show "\<exists>n. feed' = feed\<lparr>feed_conf := (feed_conf feed)\<lparr>fc_oracle_count := n\<rparr>\<rparr>" using feed' by blast
  show "oracles_changed (feed_ident feed) (reporting_round_id feed) s s'" using l by simp
qed

lemma disable_oracles_Ok:
  assumes disable: "disable_oracles xs (feed, s) = (Ok u, (feed', s'))"
    and ok: "oracles_ok R (feed_conf feed) (OracleStatuses s (feed_ident feed))" and len: "length xs < 2 ^ 32"
  shows "\<exists>n. feed' = feed\<lparr>feed_conf := (feed_conf feed)\<lparr>fc_oracle_count := n\<rparr>\<rparr>"
    "oracles_changed (feed_ident feed) (reporting_round_id feed) s s'"
    "oracles_ok R (feed_conf feed') (OracleStatuses s' (feed_ident feed))"
proof -
  obtain n where n: "checked_sub (fc_oracle_count (feed_conf feed)) (of_nat (length xs)) = Some n"
    and feed': "feed' = feed\<lparr>feed_conf := (feed_conf feed)\<lparr>fc_oracle_count := n\<rparr>\<rparr>"
    and loop: "disable_oracles_loop (feed_ident feed) (reporting_round_id feed) xs s = (Ok u, s')"
    using disable by (auto simp: disable_oracles_def Let_def reporting_round_id_def split: option.splits prod.splits)
  note l = disable_oracles_loop_Ok [OF loop]
  have "unat n + length xs = unat (fc_oracle_count (feed_conf feed))"
    using checked_sub_Some [OF n] unat_of_length [OF len] by simp
  with l ok show "oracles_ok R (feed_conf feed') (OracleStatuses s' (feed_ident feed))"
    by (auto simp: oracles_ok_def feed' oracles_changed_def reporting_round_id_def word_le_nat_alt)
  show "\<exists>n. feed' = feed\<lparr>feed_conf := (feed_conf feed)\<lparr>fc_oracle_count := n\<rparr>\<rparr>" using feed' by blast
  show "oracles_changed (feed_ident feed) (reporting_round_id feed) s s'" using l by simp
qed

section \<open>From the scope of a proxy to the storage\<close>

lemma feeds_ok_feed:
  "feeds_ok R s \<Longrightarrow> Feeds s f = Some c \<Longrightarrow>
     f < FeedCounter s \<and> rounds_ok c (Rounds s f) (Details s f) \<and> oracles_ok R c (OracleStatuses s f)"
  by (auto simp: feeds_ok_def slot_ok_def split: option.splits)

lemma load_from_ok:
  assumes "load_from s f = Some feed"
  shows "feed_ident feed = f" "should_sync feed" "Feeds s f = Some (feed_conf feed)"
    "feeds_ok R s \<Longrightarrow> scope_ok R (feed, s)"
  using assms feeds_ok_feed by (fastforce simp: load_from_def scope_ok_def)+

lemma feeds_ok_cong:
  "feeds_ok R s \<Longrightarrow> FeedCounter s' = FeedCounter s \<Longrightarrow> Feeds s' = Feeds s \<Longrightarrow> Rounds s' = Rounds s \<Longrightarrow>
     Details s' = Details s \<Longrightarrow> OracleStatuses s' = OracleStatuses s \<Longrightarrow>
     (\<And>a. Oracles s a \<noteq> None \<Longrightarrow> Oracles s' a \<noteq> None) \<Longrightarrow> feeds_ok R s'"
  by (simp add: feeds_ok_def)

lemma feeds_ok_event [simp]: "feeds_ok R (deposit_event ev s) = feeds_ok R s"
  by (simp add: feeds_ok_def)

lemma feeds_ok_config:
  assumes "feeds_ok R s" "Feeds s f = Some c" "\<And>rs ds. rounds_ok c' rs ds = rounds_ok c rs ds"
    "fc_oracle_count c' = fc_oracle_count c" "fc_reporting_round c' = fc_reporting_round c"
  shows "feeds_ok R (s\<lparr>Feeds := (Feeds s)(f \<mapsto> c')\<rparr>)"
  using assms feeds_ok_feed [OF assms(1,2)] by (auto simp: feeds_ok_def slot_ok_def oracles_ok_def)

lemma feeds_ok_drop:
  assumes ok: "feeds_ok R s" and c: "Feeds s (feed_ident feed) = Some c" and sync: "should_sync feed"
    and frame: "frame (feed, s) (feed', s')" and scope: "scope_ok R (feed', s')"
  shows "feeds_ok R (drop_feed feed' s')"
proof -
  let ?f = "feed_ident feed"
  have meta: "Oracles s' a \<noteq> None" if "OracleStatuses s' g a \<noteq> None" for g a
    using that frame ok by (cases "g = ?f") (simp_all add: frame_def feeds_ok_def, blast+)
  from frame sync have "drop_feed feed' s' = s'\<lparr>Feeds := (Feeds s)(?f \<mapsto> feed_conf feed')\<rparr>"
    by (simp add: frame_def drop_feed_def sync_to_storage_def)
  then show ?thesis
    using frame scope feeds_ok_feed [OF ok c] meta ok
    by (simp add: feeds_ok_def frame_def scope_ok_def slot_ok_def [of _ _ "feed_ident feed"])
qed

lemma with_feed_feeds_ok:
  assumes "with_feed feed body s = (res, s')" "load_from s f = Some feed" "feeds_ok R s"
    and "\<And>feed' s1. scope_ok R (feed, s) \<Longrightarrow> body (feed, s) = (res, (feed', s1)) \<Longrightarrow>
      frame (feed, s) (feed', s1) \<and> scope_ok R (feed', s1)"
  shows "feeds_ok R s'"
proof -
  obtain feed' s1 where body: "body (feed, s) = (res, (feed', s1))" and s': "s' = drop_feed feed' s1"
    using assms(1) by (auto simp: with_feed_def split: prod.splits)
  note l = load_from_ok [OF assms(2)]
  from assms(4) [OF l(4) [OF assms(3)] body] l assms(3) show ?thesis
    by (auto simp: s' intro: feeds_ok_drop)
qed

section \<open>Every call keeps the invariant\<close>

text \<open>
  Pruning ends: every round of the loop that prunes moves the oldest round towards the
  latest one.
\<close>

lemma prune_all_ends:
  assumes "rounds_ok (feed_conf feed) (Rounds s (feed_ident feed)) (Details s (feed_ident feed))"
  shows "\<exists>feed' s' p v. prune_all (feed, s) = Some (feed', s') \<and> frame (feed, s) (feed', s') \<and>
    feed' = feed\<lparr>feed_conf := (feed_conf feed)\<lparr>fc_next_round_to_prune := p, fc_first_valid_round := v\<rparr>\<rparr> \<and>
    rounds_ok (feed_conf feed') (Rounds s' (feed_ident feed)) (Details s' (feed_ident feed)) \<and>
    OracleStatuses s' = OracleStatuses s \<and> Oracles s' = Oracles s \<and> outside s' = outside s \<and>
    \<not> fst (prune_oldest (feed', s'))"
  using assms
proof (induction "unat (fc_latest_round (feed_conf feed)) - unat (fc_next_round_to_prune (feed_conf feed))"
    arbitrary: feed s rule: less_induct)
  case less
  obtain b feed1 s1 where prune: "prune_oldest (feed, s) = (b, (feed1, s1))" by (metis prod_cases3)
  note p = prune_oldest_scope [OF prune less.prems]
  obtain q w where q: "feed1 = feed\<lparr>feed_conf := (feed_conf feed)\<lparr>fc_next_round_to_prune := q, fc_first_valid_round := w\<rparr>\<rparr>"
    "q = fc_next_round_to_prune (feed_conf feed) \<or> q \<le> fc_latest_round (feed_conf feed)"
    using p(7) by blast
  show ?case
  proof (cases b)
    case False
    with prune have "feed1 = feed" "s1 = s" by (auto simp: prune_oldest_def Let_def split: if_splits)
    with prune False less.prems show ?thesis
      by (subst prune_all.simps) (auto intro!: exI [of _ "fc_next_round_to_prune (feed_conf feed)"]
          exI [of _ "fc_first_valid_round (feed_conf feed)"])
  next
    case True
    with p(8) q have lt: "fc_next_round_to_prune (feed_conf feed) < q" "q \<le> fc_latest_round (feed_conf feed)" by auto
    have rec: "prune_all (feed, s) = prune_all (feed1, s1)" using prune True by (subst prune_all.simps) simp
    have "unat (fc_latest_round (feed_conf feed1)) - unat (fc_next_round_to_prune (feed_conf feed1))
        < unat (fc_latest_round (feed_conf feed)) - unat (fc_next_round_to_prune (feed_conf feed))"
      using lt by (simp add: q(1) word_less_nat_alt word_le_nat_alt)
    moreover have "feed_ident feed1 = feed_ident feed" using q(1) by simp
    ultimately obtain feed' s' p' v' where ih: "prune_all (feed1, s1) = Some (feed', s')"
      "frame (feed1, s1) (feed', s')"
      "feed' = feed1\<lparr>feed_conf := (feed_conf feed1)\<lparr>fc_next_round_to_prune := p', fc_first_valid_round := v'\<rparr>\<rparr>"
      "rounds_ok (feed_conf feed') (Rounds s' (feed_ident feed)) (Details s' (feed_ident feed))"
      "OracleStatuses s' = OracleStatuses s1" "Oracles s' = Oracles s1" "outside s' = outside s1"
      "\<not> fst (prune_oldest (feed', s'))"
      using less.hyps p(1) by metis
    show ?thesis
    proof (intro exI conjI)
      show "prune_all (feed, s) = Some (feed', s')" using rec ih(1) by simp
      show "frame (feed, s) (feed', s')" using frame_trans [OF p(2) ih(2)] .
      show "feed' = feed\<lparr>feed_conf := (feed_conf feed)\<lparr>fc_next_round_to_prune := p', fc_first_valid_round := v'\<rparr>\<rparr>"
        using ih(3) q(1) by simp
    qed (use ih(4-8) p(3-5) in simp_all)
  qed
qed

lemma with_feed_iff:
  "with_feed feed body s = (res, s') \<longleftrightarrow> (\<exists>feed' s1. body (feed, s) = (res, (feed', s1)) \<and> s' = drop_feed feed' s1)"
  by (cases "body (feed, s)") (auto simp: with_feed_def)

text \<open>A transaction on a feed changes nothing, or it was \<open>Ok\<close> and the proxy is dropped.\<close>

lemma transactionalE:
  assumes run: "with_transaction_result (\<lambda>s. bind_dispatch (ok_or (load_from s f) e, s) (\<lambda>feed s. with_feed feed body s)) s = (res, s')"
  obtains "s' = s" "\<And>u. res \<noteq> Ok u"
    | u feed feed' s1 where "res = Ok u" "load_from s f = Some feed" "body (feed, s) = (Ok u, (feed', s1))" "s' = drop_feed feed' s1"
proof (cases "\<exists>u. res = Ok u")
  case True
  with run that(2) show thesis by (auto simp: dispatch_simps with_feed_iff)
next
  case False
  then have "s' = s" using transaction_not_Ok [OF run] by auto
  with False that(1) show thesis by auto
qed

lemma transactional_feeds_ok:
  assumes run: "with_transaction_result (\<lambda>s. bind_dispatch (ok_or (load_from s f) e, s) (\<lambda>feed s. with_feed feed body s)) s = (res, s')"
    and ok: "feeds_ok R s"
    and body: "\<And>feed u feed' s1. scope_ok R (feed, s) \<Longrightarrow> Feeds s f = Some (feed_conf feed) \<Longrightarrow> feed_ident feed = f \<Longrightarrow>
      body (feed, s) = (Ok u, (feed', s1)) \<Longrightarrow> frame (feed, s) (feed', s1) \<and> scope_ok R (feed', s1)"
  shows "feeds_ok R s'"
  using run
proof (rule transactionalE)
  fix u feed feed' s1
  assume load: "load_from s f = Some feed" and b: "body (feed, s) = (Ok u, (feed', s1))" and s': "s' = drop_feed feed' s1"
  note l = load_from_ok [OF load]
  from body [OF l(4) [OF ok] l(3,1) b] l(1-3) show ?thesis
    unfolding s' by (intro feeds_ok_drop [OF ok]) auto
qed (use ok in simp)

text \<open>
  The two things the invariant needs: numbers of rounds that are left, and a limit of
  oracles below the largest number.
\<close>

definition rounds_left :: "'w storage \<Rightarrow> bool" where
  "rounds_left s \<longleftrightarrow> (\<forall>f c. Feeds s f = Some c \<longrightarrow> fc_reporting_round c \<noteq> - 1)"

definition runtime_ok :: "'w runtime \<Rightarrow> bool" where
  "runtime_ok R \<longleftrightarrow> OracleCountLimit R < - 1"

text \<open>The vectors of a call are in the 32 bit address space of the runtime.\<close>

fun call_fits :: "feed_call \<Rightarrow> bool" where
  "call_fits (CreateFeed p t v m d str r oracles w x) \<longleftrightarrow> length oracles < 2 ^ 32"
| "call_fits (ChangeOracles f to_disable to_add) \<longleftrightarrow> length to_disable < 2 ^ 32 \<and> length to_add < 2 ^ 32"
| "call_fits _ \<longleftrightarrow> True"

text \<open>A call that is not signed changes nothing; a check that fails changes nothing.\<close>

lemma signedE:
  assumes "bind_dispatch (ensure_signed origin, s) k = (res, s')"
  obtains "s' = s" | who where "origin = Signed who" "k who s = (res, s')"
  using assms by (cases origin) (auto simp: ensure_signed_def)

lemma checkedE:
  assumes "bind_dispatch (m, s) k = (res, s')"
  obtains "s' = s" | v where "m = Ok v" "k v s = (res, s')"
  using assms by (cases m) auto

lemma check_OkD: "bind_dispatch (m, s) k = (Ok u, s') \<Longrightarrow> \<exists>v. m = Ok v \<and> k v s = (Ok u, s')"
  by (auto simp: dispatch_simps)

lemma submit_feeds_ok:
  assumes "submit R origin f r v s = (res, s')" and ok: "feeds_ok R s" and left: "rounds_left s"
  shows "feeds_ok R s'"
  using assms(1) unfolding submit_def
proof (rule signedE)
  fix who
  assume "with_transaction_result (\<lambda>s. bind_dispatch (ok_or (load_from s f) FeedNotFound, s)
      (\<lambda>feed s. with_feed feed (submit_body R who r v) s)) s = (res, s')"
  then show ?thesis using ok
  proof (rule transactional_feeds_ok)
    fix feed :: Feed and u feed' s1
    assume *: "scope_ok R (feed, s)" "Feeds s f = Some (feed_conf feed)" "submit_body R who r v (feed, s) = (Ok u, (feed', s1))"
    then have "reporting_round_id feed \<noteq> - 1" using left by (simp add: rounds_left_def reporting_round_id_def)
    from submit_body_Ok [OF *(3,1) this] show "frame (feed, s) (feed', s1) \<and> scope_ok R (feed', s1)" by simp
  qed
qed (use ok in simp)

lemma change_oracles_scope:
  assumes body: "bind_dispatch (disable_oracles xs (feed, s)) (\<lambda>_ scope. add_oracles R ys scope) = (Ok u, (feed', s'))"
    and ok: "scope_ok R (feed, s)" and R: "runtime_ok R" and len: "length xs < 2 ^ 32" "length ys < 2 ^ 32"
  shows "frame (feed, s) (feed', s') \<and> scope_ok R (feed', s') \<and>
    oracles_changed (feed_ident feed) (reporting_round_id feed) s s' \<and>
    (\<exists>n. feed' = feed\<lparr>feed_conf := (feed_conf feed)\<lparr>fc_oracle_count := n\<rparr>\<rparr>)"
proof -
  from body obtain f1 s1 where d: "disable_oracles xs (feed, s) = (Ok (), (f1, s1))" and a: "add_oracles R ys (f1, s1) = (Ok u, (feed', s'))"
    by (auto simp: dispatch_simps)
  from ok have "oracles_ok R (feed_conf feed) (OracleStatuses s (feed_ident feed))" by (simp add: scope_ok_def)
  note d = disable_oracles_Ok [OF d this len(1)]
  obtain n where f1: "f1 = feed\<lparr>feed_conf := (feed_conf feed)\<lparr>fc_oracle_count := n\<rparr>\<rparr>" using d(1) by blast
  from d(3) have "oracles_ok R (feed_conf f1) (OracleStatuses s1 (feed_ident f1))" by (simp add: f1)
  note a = add_oracles_Ok [OF a this R [unfolded runtime_ok_def] len(2)]
  obtain m where feed': "feed' = feed\<lparr>feed_conf := (feed_conf feed)\<lparr>fc_oracle_count := m\<rparr>\<rparr>"
    using a(1) by (auto simp: f1)
  have ch: "oracles_changed (feed_ident feed) (reporting_round_id feed) s s'"
    using d(2) a(2) oracles_changed_trans by (fastforce simp: f1 reporting_round_id_def)
  have "rounds_ok (feed_conf feed') = rounds_ok (feed_conf feed)"
    by (simp add: feed' rounds_ok_def fun_eq_iff)
  then have "scope_ok R (feed', s')"
    using ok ch a(3) by (simp add: scope_ok_def feed' oracles_changed_def f1)
  then show ?thesis
    using ch oracles_changed_frame [OF ch] feed' by blast
qed

lemma change_oracles_feeds_ok:
  assumes "change_oracles R origin f xs ys s = (res, s')" and ok: "feeds_ok R s" and R: "runtime_ok R"
    and len: "length xs < 2 ^ 32" "length ys < 2 ^ 32"
  shows "feeds_ok R s'"
  using assms(1) unfolding change_oracles_def
proof (rule signedE)
  fix who
  assume "with_transaction_result (\<lambda>s. bind_dispatch (ok_or (load_from s f) FeedNotFound, s)
      (\<lambda>feed s. with_feed feed (\<lambda>(feed, s). bind_dispatch (ensure_owner feed who, (feed, s)) (\<lambda>_ scope.
         bind_dispatch (disable_oracles xs scope) (\<lambda>_ scope. add_oracles R ys scope))) s)) s = (res, s')"
  then show ?thesis using ok
    by (rule transactional_feeds_ok) (auto dest!: check_OkD dest: change_oracles_scope [OF _ _ R len])
qed (use ok in simp)

lemma rounds_ok_settings:
  "count_bounds_ok b \<Longrightarrow> rounds_ok c rounds details \<Longrightarrow>
     rounds_ok (c\<lparr>fc_payment := p, fc_submission_count_bounds := b, fc_restart_delay := d, fc_timeout := t\<rparr>) rounds details"
  by (simp add: rounds_ok_def)

lemma Feed_update_scope:
  assumes "Feed_update_future_rounds p b d t (feed, s) = (Ok u, (feed', s'))" "scope_ok R (feed, s)"
  shows "frame (feed, s) (feed', s') \<and> scope_ok R (feed', s')"
proof -
  from assms(1) have "0 < fst b" "fst b \<le> snd b"
    and feed': "feed' = feed\<lparr>feed_conf := (feed_conf feed)\<lparr>fc_payment := p, fc_submission_count_bounds := b,
      fc_restart_delay := d, fc_timeout := t\<rparr>\<rparr>" "s' = deposit_event (RoundDetailsUpdated (feed_ident feed) p b d t) s"
    by (auto simp: Feed_update_future_rounds_def word_gt_0 split: if_splits prod.splits)
  then have "rounds_ok (feed_conf feed') (Rounds s (feed_ident feed)) (Details s (feed_ident feed))"
    using scope_ok_rounds [OF assms(2)] by (simp add: rounds_ok_settings count_bounds_ok_def)
  with feed' assms(2) show ?thesis
    by (simp add: frame_def scope_ok_def oracles_ok_def)
qed

lemma update_future_rounds_feeds_ok:
  assumes "update_future_rounds origin f p b d t s = (res, s')" and ok: "feeds_ok R s"
  shows "feeds_ok R s'"
  using assms(1) unfolding update_future_rounds_def
proof (rule signedE)
  fix who
  assume "with_transaction_result (\<lambda>s. bind_dispatch (ok_or (load_from s f) FeedNotFound, s)
      (\<lambda>feed s. with_feed feed (\<lambda>(feed, s). bind_dispatch (ensure_owner feed who, (feed, s)) (\<lambda>_ scope.
         Feed_update_future_rounds p b d t scope)) s)) s = (res, s')"
  then show ?thesis using ok
    by (rule transactional_feeds_ok) (auto dest!: check_OkD dest: Feed_update_scope)
qed (use ok in simp)

lemma Feed_request_scope:
  assumes req: "Feed_request_new_round who (feed, s) = (Ok u, (feed', s'))" and ok: "scope_ok R (feed, s)"
  shows "frame (feed, s) (feed', s') \<and> scope_ok R (feed', s') \<and> outside s' = outside s \<and> Oracles s' = Oracles s \<and>
    OracleStatuses s' = OracleStatuses s \<and>
    feed' = feed\<lparr>feed_conf := (feed_conf feed)\<lparr>fc_reporting_round := reporting_round_id feed + 1\<rparr>\<rparr>"
proof -
  from req obtain n where n: "checked_add (reporting_round_id feed) 1 = Some n"
    by (auto simp: Feed_request_new_round_def split: option.splits)
  then have "reporting_round_id feed \<noteq> - 1" and n': "n = reporting_round_id feed + 1"
    by (auto simp: checked_add_def unsigned_minus_1_eq_mask mask_eq_exp_minus_1 split: if_splits)
  note max = this(1)
  from req n n' obtain b s1 where sup: "is_supersedable (feed, s) (reporting_round_id feed)"
    and init: "initialize_round (reporting_round_id feed + 1) (feed, s) = (Ok b, (feed', s1))"
    and s': "s' = deposit_event (NewRound (feed_ident feed') (reporting_round_id feed + 1) who b) s1"
    by (auto simp: Feed_request_new_round_def dispatch_simps split: if_splits prod.splits)
  note i = initialize_round_Ok [OF init ok max refl sup]
  have "oracles_ok R (feed_conf feed') (OracleStatuses s (feed_ident feed))"
    using ok i(3) max by (auto simp: scope_ok_def reporting_round_id_def le_inc_iff elim: oracles_ok_mono)
  moreover have "frame (feed', s1) (feed', s')" by (simp add: s' frame_def)
  ultimately show ?thesis
    using i s' frame_trans [OF i(2)] by (simp add: scope_ok_def)
qed

lemma request_body_scope:
  assumes req: "request_new_round_body f who requester (feed, s) = (Ok u, (feed', s'))" and ok: "scope_ok R (feed, s)"
  shows "frame (feed, s) (feed', s') \<and> scope_ok R (feed', s') \<and> outside s' = outside s \<and> Oracles s' = Oracles s \<and>
    OracleStatuses s' = OracleStatuses s \<and>
    feed' = feed\<lparr>feed_conf := (feed_conf feed)\<lparr>fc_reporting_round := reporting_round_id feed + 1\<rparr>\<rparr>"
proof -
  from req obtain n where "Feed_request_new_round who (feed,
      s\<lparr>Requesters := dm_insert f who (requester\<lparr>rq_last_started_round := Some n\<rparr>) (Requesters s)\<rparr>) = (Ok u, (feed', s'))"
    (is "Feed_request_new_round who (feed, ?s) = _")
    by (auto simp: request_new_round_body_def Let_def dest!: check_OkD)
  moreover have "scope_ok R (feed, ?s)" and "frame (feed, s) (feed, ?s)"
    using ok by (simp_all add: scope_ok_def frame_def)
  ultimately show ?thesis
    using Feed_request_scope frame_trans by fastforce
qed

lemma request_new_round_feeds_ok:
  assumes "request_new_round origin f s = (res, s')" and ok: "feeds_ok R s"
  shows "feeds_ok R s'"
  using assms(1) unfolding request_new_round_def
proof (elim signedE checkedE)
  fix who requester
  assume "with_transaction_result (\<lambda>s. bind_dispatch (ok_or (load_from s f) FeedNotFound, s)
      (\<lambda>feed s. with_feed feed (request_new_round_body f who requester) s)) s = (res, s')"
  then show ?thesis using ok
    by (rule transactional_feeds_ok) (auto dest: request_body_scope)
qed (use ok in simp_all)

lemma rounds_ok_window: "0 < w \<Longrightarrow> rounds_ok c rounds details \<Longrightarrow> rounds_ok (c\<lparr>fc_pruning_window := w\<rparr>) rounds details"
  by (simp add: rounds_ok_def)

text \<open>The body of \<open>set_pruning_window\<close> never runs forever.\<close>

lemma set_window_scope:
  assumes "scope_ok R (feed, s)" "0 < w"
  shows "\<exists>feed' s'. prune_all (feed\<lparr>feed_conf := (feed_conf feed)\<lparr>fc_pruning_window := w\<rparr>\<rparr>, s) = Some (feed', s') \<and>
    frame (feed, s) (feed', s') \<and> scope_ok R (feed', s') \<and> Oracles s' = Oracles s \<and> outside s' = outside s \<and>
    OracleStatuses s' = OracleStatuses s \<and> fc_debt (feed_conf feed') = fc_debt (feed_conf feed) \<and>
    fc_owner (feed_conf feed') = fc_owner (feed_conf feed) \<and>
    fc_pending_owner (feed_conf feed') = fc_pending_owner (feed_conf feed) \<and>
    fc_pruning_window (feed_conf feed') = w \<and> current_window feed' < w"
proof -
  let ?feed = "feed\<lparr>feed_conf := (feed_conf feed)\<lparr>fc_pruning_window := w\<rparr>\<rparr>"
  have "rounds_ok (feed_conf ?feed) (Rounds s (feed_ident ?feed)) (Details s (feed_ident ?feed))"
    using assms by (simp add: scope_ok_def rounds_ok_window)
  then obtain feed' s' p v where e: "prune_all (?feed, s) = Some (feed', s')"
    "frame (?feed, s) (feed', s')"
    "feed' = ?feed\<lparr>feed_conf := (feed_conf ?feed)\<lparr>fc_next_round_to_prune := p, fc_first_valid_round := v\<rparr>\<rparr>"
    "rounds_ok (feed_conf feed') (Rounds s' (feed_ident ?feed)) (Details s' (feed_ident ?feed))"
    "OracleStatuses s' = OracleStatuses s" "Oracles s' = Oracles s" "outside s' = outside s"
    "\<not> fst (prune_oldest (feed', s'))"
    using prune_all_ends by blast
  from e(2) have "frame (feed, s) (feed', s')" by (simp add: frame_def)
  moreover from e assms have "scope_ok R (feed', s')" by (simp add: scope_ok_def oracles_ok_def)
  moreover have "current_window feed' < w"
    using e(3,8) by (auto simp: prune_oldest_def Let_def split: if_splits)
  ultimately show ?thesis using e by auto
qed

lemma set_pruning_window_feeds_ok:
  assumes "set_pruning_window origin f w s = (res, s')" and ok: "feeds_ok R s"
  shows "feeds_ok R s'"
  using assms(1) unfolding set_pruning_window_def
proof (elim signedE checkedE)
  fix who u feed
  assume w: "ensure (0 < w) CannotPruneRoundZero = Ok u" and load: "ok_or (load_from s f) FeedNotFound = Ok feed"
    and run: "with_feed feed (\<lambda>(feed, s).
       bind_dispatch (ensure_owner feed who, (feed, s)) (\<lambda>_ (feed, s).
         (case prune_all (feed\<lparr>feed_conf := (feed_conf feed)\<lparr>fc_pruning_window := w\<rparr>\<rparr>, s) of
            Some scope \<Rightarrow> (Ok (), scope)
          | None \<Rightarrow> (Panic, (feed, s))))) s = (res, s')"
  from load have "load_from s f = Some feed" by (simp add: dispatch_simps)
  with run show ?thesis using ok
  proof (rule with_feed_feeds_ok)
    fix feed' s1
    assume "scope_ok R (feed, s)" and body: "(case (feed, s) of (feed, s) \<Rightarrow>
       bind_dispatch (ensure_owner feed who, (feed, s)) (\<lambda>_ (feed, s).
         (case prune_all (feed\<lparr>feed_conf := (feed_conf feed)\<lparr>fc_pruning_window := w\<rparr>\<rparr>, s) of
            Some scope \<Rightarrow> (Ok (), scope)
          | None \<Rightarrow> (Panic, (feed, s))))) = (res, (feed', s1))"
    with set_window_scope [of R feed s w] w show "frame (feed, s) (feed', s1) \<and> scope_ok R (feed', s1)"
      by (cases "fc_owner (feed_conf feed) = who") (auto simp: dispatch_simps ensure_owner_def)
  qed
qed (use ok in simp_all)

section \<open>Creating a feed\<close>

lemma create_feed_scope:
  assumes body: "create_feed_body R owner p t b d oracles (feed, s) = (Ok u, (feed', s'))" and R: "runtime_ok R"
    and len: "length oracles < 2 ^ 32" and sync: "should_sync feed"
    and empty: "Rounds s (feed_ident feed) = (\<lambda>_. None)" "Details s (feed_ident feed) = (\<lambda>_. None)"
      "OracleStatuses s (feed_ident feed) = (\<lambda>_. None)"
    and new: "fc_reporting_round (feed_conf feed) = 0" "fc_latest_round (feed_conf feed) = 0"
      "fc_next_round_to_prune (feed_conf feed) = 1" "fc_oracle_count (feed_conf feed) = 0"
      "0 < fc_pruning_window (feed_conf feed)"
  shows "frame (feed, s) (feed', s')" "scope_ok R (feed', s')" "withdrawable_of s' = withdrawable_of s"
    "outside s' = outside s" "\<forall>a m. Oracles s a = Some m \<longrightarrow> Oracles s' a = Some m" "fc_debt (feed_conf feed') = fc_debt (feed_conf feed)"
    "fc_owner (feed_conf feed') = fc_owner (feed_conf feed)"
    "fc_submission_value_bounds (feed_conf feed') = fc_submission_value_bounds (feed_conf feed)"
proof -
  let ?f = "feed_ident feed"
  define s1 where "s1 = s\<lparr>Rounds := dm_insert ?f 0 (seed_round (block_num s)) (Rounds s)\<rparr>"
  from body obtain f2 s2 s3 where add: "add_oracles R oracles (feed, s1) = (Ok (), (f2, s2))"
    and upd: "Feed_update_future_rounds p b d t (f2, s2) = (Ok (), (feed', s3))"
    and s': "s' = deposit_event (FeedCreated (feed_ident feed') owner) s3"
    by (auto simp: create_feed_body_def Let_def s1_def dispatch_simps split: prod.splits)
  have "oracles_ok R (feed_conf feed) (OracleStatuses s1 ?f)"
    using empty new by (simp add: oracles_ok_def s1_def enabled_oracles_def statuses_ok_def)
  note a = add_oracles_Ok [OF add this R [unfolded runtime_ok_def] len]
  obtain n where f2: "f2 = feed\<lparr>feed_conf := (feed_conf feed)\<lparr>fc_oracle_count := n\<rparr>\<rparr>" using a(1) by blast
  from upd have bounds: "count_bounds_ok b"
    and feed': "feed' = f2\<lparr>feed_conf := (feed_conf f2)\<lparr>fc_payment := p, fc_submission_count_bounds := b,
      fc_restart_delay := d, fc_timeout := t\<rparr>\<rparr>" and s3: "s3 = deposit_event (RoundDetailsUpdated ?f p b d t) s2"
    by (auto simp: Feed_update_future_rounds_def count_bounds_ok_def word_gt_0 f2 split: if_splits prod.splits)
  have "complete (seed_round x)" for x by (simp add: complete_def seed_round_def)
  moreover have rds: "Rounds s2 ?f = (\<lambda>_. None)(0 := Some (seed_round (block_num s)))" "Details s2 ?f = (\<lambda>_. None)"
    using a(2) empty by (simp_all add: oracles_changed_def s1_def dm_insert_row)
  ultimately have "rounds_ok (feed_conf feed') (Rounds s2 ?f) (Details s2 ?f)"
    using bounds new by (auto simp: rounds_ok_def feed' f2 one_le_iff word_gt_0)
  then show "scope_ok R (feed', s')"
    using a(3) by (simp add: scope_ok_def s' s3 feed' f2 oracles_ok_def)
  have "frame (feed, s1) (f2, s2)" using oracles_changed_frame [OF a(2)] by (simp add: f2)
  then have "frame (feed, s1) (feed', s')" by (simp add: frame_def feed' s' s3)
  moreover have "frame (feed, s) (feed, s1)" by (simp add: frame_def s1_def dm_insert_row)
  ultimately show "frame (feed, s) (feed', s')" by (blast intro: frame_trans)
  show "withdrawable_of s' = withdrawable_of s" "outside s' = outside s"
    "\<forall>a m. Oracles s a = Some m \<longrightarrow> Oracles s' a = Some m"
    using a(2) by (simp_all add: s' s3 s1_def oracles_changed_def withdrawable_of_def fun_eq_iff)
  show "fc_debt (feed_conf feed') = fc_debt (feed_conf feed)"
    "fc_owner (feed_conf feed') = fc_owner (feed_conf feed)"
    "fc_submission_value_bounds (feed_conf feed') = fc_submission_value_bounds (feed_conf feed)"
    by (simp_all add: feed' f2)
qed

lemma create_feed_Ok:
  assumes create: "create_feed R origin p t vb m dec desc d oracles pw md s = (Ok u, s')"
    and ok: "feeds_ok R s" and R: "runtime_ok R" and len: "length oracles < 2 ^ 32"
  obtains owner feed feed' s1 where "origin = Signed owner" "FeedCreators s owner \<noteq> None" "FeedCounter s < FeedLimit R"
    "FeedCounter s \<noteq> - 1" "feed_ident feed = FeedCounter s" "should_sync feed" "fc_debt (feed_conf feed) = 0"
    "fc_owner (feed_conf feed) = owner"
    "frame (feed, s\<lparr>FeedCounter := FeedCounter s + 1\<rparr>) (feed', s1)" "scope_ok R (feed', s1)"
    "withdrawable_of s1 = withdrawable_of s" "outside s1 = outside s"
    "\<forall>a m. Oracles s a = Some m \<longrightarrow> Oracles s1 a = Some m" "fc_debt (feed_conf feed') = 0"
    "fc_owner (feed_conf feed') = owner" "s' = drop_feed feed' s1" "Feeds s (FeedCounter s) = None"
    "OracleStatuses s (FeedCounter s) = (\<lambda>_. None)"
proof -
  define new where "new = (\<lambda>owner. \<lparr>fc_owner = owner, fc_pending_owner = None, fc_submission_value_bounds = vb,
    fc_submission_count_bounds = (m, of_nat (length oracles)), fc_payment = p, fc_timeout = t, fc_decimals = dec,
    fc_description = desc, fc_restart_delay = d, fc_reporting_round = 0, fc_latest_round = 0,
    fc_first_valid_round = None, fc_oracle_count = 0,
    fc_pruning_window = (case pw of Some window \<Rightarrow> window | None \<Rightarrow> - 1), fc_next_round_to_prune = 1,
    fc_debt = 0, fc_max_debt = md\<rparr>)"
  from create obtain owner n where h: "origin = Signed owner" "FeedCreators s owner \<noteq> None"
      "FeedCounter s < FeedLimit R" "checked_add (FeedCounter s) 1 = Some n"
    and w: "0 < fc_pruning_window (new owner)"
    and run: "with_feed (Feed_new (FeedCounter s) (new owner)) (create_feed_body R owner p t (m, of_nat (length oracles)) d oracles)
       (s\<lparr>FeedCounter := n\<rparr>) = (Ok u, s')"
    by (auto simp: create_feed_def Let_def dispatch_simps new_def)
  define c where "c = new owner"
  have c: "fc_owner c = owner" "fc_reporting_round c = 0" "fc_latest_round c = 0" "fc_next_round_to_prune c = 1"
      "fc_oracle_count c = 0" "0 < fc_pruning_window c" "fc_debt c = 0"
    using w by (simp_all add: c_def new_def)
  note run = run [folded c_def]
  from h(4) have n: "n = FeedCounter s + 1" and max: "FeedCounter s \<noteq> - 1"
    by (auto simp: checked_add_def unsigned_minus_1_eq_mask mask_eq_exp_minus_1 split: if_splits)
  have slot: "slot_ok R (FeedCounter s) (FeedCounter s) (Feeds s (FeedCounter s)) (Rounds s (FeedCounter s))
      (Details s (FeedCounter s)) (OracleStatuses s (FeedCounter s))"
    using ok by (simp add: feeds_ok_def)
  let ?feed = "Feed_new (FeedCounter s) c"
  from run obtain feed' s1 where body: "create_feed_body R owner p t (m, of_nat (length oracles)) d oracles
      (?feed, s\<lparr>FeedCounter := n\<rparr>) = (Ok u, (feed', s1))" and s': "s' = drop_feed feed' s1"
    by (auto simp: with_feed_def split: prod.splits)
  have "should_sync ?feed" "feed_ident ?feed = FeedCounter s" "feed_conf ?feed = c" by (simp_all add: Feed_new_def)
  note fd = this
  note b = create_feed_scope [OF body R len fd(1)]
  have none: "Feeds s (FeedCounter s) = None" "Rounds s (FeedCounter s) = (\<lambda>_. None)"
    "Details s (FeedCounter s) = (\<lambda>_. None)" "OracleStatuses s (FeedCounter s) = (\<lambda>_. None)"
    using slot by (auto simp: slot_ok_def split: option.splits)
  have "withdrawable_of (s\<lparr>FeedCounter := n\<rparr>) = withdrawable_of s" by (simp add: withdrawable_of_def fun_eq_iff)
  then show thesis
    using that [OF h(1-3) max fd(2,1) _ _ _ _ _ _ _ _ _ s' none(1,4)] b none c n by (simp add: fd)
qed

lemma create_feed_feeds_ok:
  assumes create: "create_feed R origin p t vb m dec desc d oracles pw md s = (res, s')"
    and ok: "feeds_ok R s" and R: "runtime_ok R" and len: "length oracles < 2 ^ 32"
  shows "feeds_ok R s'"
proof (cases res)
  case (Ok u)
  with create have "create_feed R origin p t vb m dec desc d oracles pw md s = (Ok u, s')" by simp
  then show ?thesis using ok R len
  proof (rule create_feed_Ok)
    fix owner feed feed' s1
    assume max: "FeedCounter s \<noteq> - 1" and f: "feed_ident feed = FeedCounter s" "should_sync feed"
      and frame: "frame (feed, s\<lparr>FeedCounter := FeedCounter s + 1\<rparr>) (feed', s1)" and scope: "scope_ok R (feed', s1)"
      and s': "s' = drop_feed feed' s1"
    let ?f = "FeedCounter s"
    have meta: "Oracles s1 a \<noteq> None" if "OracleStatuses s1 g a \<noteq> None" for g a
      using that frame ok by (cases "g = ?f") (simp_all add: frame_def feeds_ok_def f, blast+)
    have others: "slot_ok R (?f + 1) g c rs ds sts" if "slot_ok R ?f g c rs ds sts" "g \<noteq> ?f" for g c rs ds sts
      using that max by (auto simp: slot_ok_def inc_le_iff less_inc_iff split: option.splits)
    show ?thesis
      using frame scope meta others ok max
      by (simp add: s' drop_feed_def sync_to_storage_def feeds_ok_def frame_def f scope_ok_def
          slot_ok_def [of _ _ "FeedCounter s"] less_inc_iff)
  qed
next
  case (Err e)
  with create ok show ?thesis
    unfolding create_feed_def Let_def by (elim signedE checkedE) (auto dest: transaction_not_Ok)
next
  case Panic
  with create ok show ?thesis
    unfolding create_feed_def Let_def by (elim signedE checkedE) (auto dest: transaction_not_Ok)
qed

section \<open>Calls on owners, admins and funds\<close>

lemma rounds_ok_owner:
  "rounds_ok (c\<lparr>fc_pending_owner := x\<rparr>) rs ds = rounds_ok c rs ds"
  "rounds_ok (c\<lparr>fc_pending_owner := x, fc_owner := y\<rparr>) rs ds = rounds_ok c rs ds"
  by (simp_all add: rounds_ok_def)

lemma ownership_feeds_ok:
  assumes "transfer_ownership origin f a s = (res, s') \<or> accept_ownership origin f s = (res, s')" "feeds_ok R s"
  shows "feeds_ok R s'"
  using assms unfolding transfer_ownership_def accept_ownership_def
  by (elim disjE signedE checkedE) (auto simp: dispatch_simps rounds_ok_owner intro!: feeds_ok_config)

lemma requesters_feeds_ok:
  assumes "set_requester origin f a d s = (res, s') \<or> remove_requester origin f a s = (res, s')" "feeds_ok R s"
  shows "feeds_ok R s'"
  using assms unfolding set_requester_def remove_requester_def Let_def
  by (elim disjE signedE checkedE) (auto elim: feeds_ok_cong)

lemma admins_feeds_ok:
  assumes "transfer_admin origin a b s = (res, s') \<or> accept_admin origin a s = (res, s')" "feeds_ok R s"
  shows "feeds_ok R s'"
  using assms unfolding transfer_admin_def accept_admin_def
  by (elim disjE signedE checkedE) (auto elim: feeds_ok_cong)

lemma withdraw_feeds_ok:
  assumes "withdraw_payment R' origin a b n s = (res, s') \<or> withdraw_funds R' origin b n s = (res, s')" "feeds_ok R s"
  shows "feeds_ok R s'"
  using assms unfolding withdraw_payment_def withdraw_funds_def Let_def
  by (elim disjE signedE checkedE) (auto elim: feeds_ok_cong split: prod.splits option.splits)

lemma pallet_admin_feeds_ok:
  assumes "transfer_pallet_admin origin a s = (res, s') \<or> accept_pallet_admin origin s = (res, s') \<or>
    set_feed_creator origin a s = (res, s') \<or> remove_feed_creator origin a s = (res, s')" "feeds_ok R s"
  shows "feeds_ok R s'"
  using assms unfolding transfer_pallet_admin_def accept_pallet_admin_def set_feed_creator_def remove_feed_creator_def
  by (elim disjE signedE checkedE) (auto elim: feeds_ok_cong)

lemma reduce_debt_Ok:
  assumes "reduce_debt R origin f n s = (res, s')"
  obtains "s' = s" | feed w x where "load_from s f = Some feed"
    "reserve (Currency R) (fund_account R) (min n (fc_debt (feed_conf feed))) (outside s) = (x, w)"
    "s' = s\<lparr>outside := w, Feeds := (Feeds s)(f \<mapsto> (feed_conf feed)\<lparr>fc_debt :=
       if x = None then saturating_sub (fc_debt (feed_conf feed)) n else fc_debt (feed_conf feed)\<rparr>)\<rparr>"
  using assms unfolding reduce_debt_def
proof (elim signedE checkedE)
  fix feed
  assume th: "\<And>feed x w. load_from s f = Some feed \<Longrightarrow>
      reserve (Currency R) (fund_account R) (min n (fc_debt (feed_conf feed))) (outside s) = (x, w) \<Longrightarrow>
      s' = s\<lparr>outside := w, Feeds := (Feeds s)(f \<mapsto> (feed_conf feed)\<lparr>fc_debt :=
       if x = None then saturating_sub (fc_debt (feed_conf feed)) n else fc_debt (feed_conf feed)\<rparr>)\<rparr> \<Longrightarrow> thesis"
    and load: "ok_or (load_from s f) FeedNotFound = Ok feed"
    and run: "with_feed feed (\<lambda>(feed, s).
       let to_reserve = min n (fc_debt (feed_conf feed)) in
       (case reserve (Currency R) (fund_account R) to_reserve (outside s) of
          (Some e, w) \<Rightarrow> (Err (CurrencyError e), (feed, s\<lparr>outside := w\<rparr>))
        | (None, w) \<Rightarrow>
            (Ok (), (feed\<lparr>feed_conf := (feed_conf feed)\<lparr>fc_debt :=
               saturating_sub (fc_debt (feed_conf feed)) n\<rparr>\<rparr>, s\<lparr>outside := w\<rparr>)))) s = (res, s')"
  from load have l: "load_from s f = Some feed" by (simp add: dispatch_simps)
  obtain x w where "reserve (Currency R) (fund_account R) (min n (fc_debt (feed_conf feed))) (outside s) = (x, w)"
    by (metis surj_pair)
  with run l th show thesis
    by (cases x) (auto simp: with_feed_def drop_feed_def sync_to_storage_def load_from_ok(1,2) [OF l])
qed auto

lemma reduce_debt_feeds_ok:
  assumes "reduce_debt R' origin f n s = (res, s')" "feeds_ok R s"
  shows "feeds_ok R s'"
  using assms(1)
proof (rule reduce_debt_Ok)
  fix feed w x
  assume l: "load_from s f = Some feed" and s': "s' = s\<lparr>outside := w, Feeds := (Feeds s)(f \<mapsto> (feed_conf feed)\<lparr>fc_debt :=
       if x = None then saturating_sub (fc_debt (feed_conf feed)) n else fc_debt (feed_conf feed)\<rparr>)\<rparr>"
  have "feeds_ok R (s\<lparr>outside := w\<rparr>)" using assms(2) by (auto elim: feeds_ok_cong)
  then show ?thesis unfolding s' using load_from_ok(3) [OF l] feeds_ok_config [of R "s\<lparr>outside := w\<rparr>" f] by simp
qed (use assms(2) in simp)

section \<open>Reachable states\<close>

lemmas call_feeds_ok = create_feed_feeds_ok set_pruning_window_feeds_ok submit_feeds_ok change_oracles_feeds_ok
  update_future_rounds_feeds_ok request_new_round_feeds_ok reduce_debt_feeds_ok
  ownership_feeds_ok [OF disjI1] ownership_feeds_ok [OF disjI2] requesters_feeds_ok [OF disjI1]
  requesters_feeds_ok [OF disjI2] withdraw_feeds_ok [OF disjI1] withdraw_feeds_ok [OF disjI2]
  admins_feeds_ok [OF disjI1] admins_feeds_ok [OF disjI2] pallet_admin_feeds_ok [OF disjI1]
  pallet_admin_feeds_ok [OF disjI2 [OF disjI1]] pallet_admin_feeds_ok [OF disjI2 [OF disjI2 [OF disjI1]]]
  pallet_admin_feeds_ok [OF disjI2 [OF disjI2 [OF disjI2]]]

lemma dispatch_feeds_ok:
  assumes "dispatch_call R origin call s = (res, s')" "feeds_ok R s" "rounds_left s" "runtime_ok R" "call_fits call"
  shows "feeds_ok R s'"
  using assms by (cases call) (auto elim: call_feeds_ok)

text \<open>
  A step of the chain: a new block, the other pallets doing what they do, or a call, by any
  account and with any result, as long as the numbers of rounds are not used up. The chain
  starts from the genesis of the pallet.
\<close>

inductive chain_step :: "'w runtime \<Rightarrow> 'w storage \<Rightarrow> 'w storage \<Rightarrow> bool" for R :: "'w runtime" where
  block: "chain_step R s (s\<lparr>block_num := n\<rparr>)"
| others: "chain_step R s (s\<lparr>outside := w\<rparr>)"
| call: "rounds_left s \<Longrightarrow> call_fits call \<Longrightarrow> dispatch_call R origin call s = (res, s') \<Longrightarrow> chain_step R s s'"

inductive reachable :: "'w runtime \<Rightarrow> 'w storage \<Rightarrow> bool" for R :: "'w runtime" where
  genesis: "reachable R (genesis_build admin creators (empty_storage w))"
| step: "reachable R s \<Longrightarrow> chain_step R s s' \<Longrightarrow> reachable R s'"

lemma chain_step_feeds_ok: "chain_step R s s' \<Longrightarrow> feeds_ok R s \<Longrightarrow> runtime_ok R \<Longrightarrow> feeds_ok R s'"
  by (induction rule: chain_step.induct) (auto elim: feeds_ok_cong intro: dispatch_feeds_ok)

lemma genesis_fold:
  "\<exists>fc. fold (\<lambda>creator s. s\<lparr>FeedCreators := (FeedCreators s)(creator := Some ())\<rparr>) creators s = s\<lparr>FeedCreators := fc\<rparr>"
proof (induction creators arbitrary: s)
  case Nil
  show ?case by (intro exI [of _ "FeedCreators s"]) simp
next
  case (Cons a creators)
  from Cons.IH [of "s\<lparr>FeedCreators := (FeedCreators s)(a := Some ())\<rparr>"] show ?case
    by (simp add: fun_upd_def)
qed

lemma genesis_shape:
  "\<exists>fc a. genesis_build admin creators s = s\<lparr>PalletAdmin := a, FeedCreators := fc\<rparr>"
proof -
  let ?s = "case admin of Some a \<Rightarrow> s\<lparr>PalletAdmin := a\<rparr> | None \<Rightarrow> s"
  obtain fc where "genesis_build admin creators s = ?s\<lparr>FeedCreators := fc\<rparr>"
    using genesis_fold [of creators ?s] by (auto simp: genesis_build_def)
  moreover have "?s = s\<lparr>PalletAdmin := case admin of Some a \<Rightarrow> a | None \<Rightarrow> PalletAdmin s\<rparr>"
    by (cases admin) simp_all
  ultimately show ?thesis by metis
qed

lemma genesis_fields:
  "FeedCounter (genesis_build admin creators s) = FeedCounter s"
  "Feeds (genesis_build admin creators s) = Feeds s"
  "Rounds (genesis_build admin creators s) = Rounds s"
  "Details (genesis_build admin creators s) = Details s"
  "Oracles (genesis_build admin creators s) = Oracles s"
  "OracleStatuses (genesis_build admin creators s) = OracleStatuses s"
  "outside (genesis_build admin creators s) = outside s"
  using genesis_shape [of admin creators s] by auto

lemma genesis_feeds_ok: "feeds_ok R (genesis_build admin creators (empty_storage w))"
  by (simp add: feeds_ok_def genesis_fields empty_storage_def slot_ok_def)

lemma reachable_feeds_ok:
  assumes "reachable R s" "runtime_ok R"
  shows "feeds_ok R s"
  using assms by induction (auto simp: genesis_feeds_ok intro: chain_step_feeds_ok)

end
