(* ===== verification/Feed_Progress.thy ===== *)
theory Feed_Progress
  imports Feed_Calls
begin

text \<open>
  When a submission is accepted. \<open>may_report\<close> is when an oracle may report to a round: to the
  reporting round while it takes submissions, or to the next one, which it then starts.
  \<open>payable\<close> is that its payment can be recorded, on a feed whose debt is not limited; it does not
  depend on the currency, since what cannot be reserved becomes a debt.
\<close>

section \<open>The conditions\<close>

definition may_report :: "'w scope \<Rightarrow> OracleStatus \<Rightarrow> round_id \<Rightarrow> bool" where
  "may_report scope st r \<longleftrightarrow>
     (let n = reporting_round_id (fst scope); delay = fc_restart_delay (feed_conf (fst scope));
          last = (case os_last_started_round st of Some l \<Rightarrow> l | None \<Rightarrow> 0) in
      os_ending_round st = None \<and> (\<forall>l. os_last_reported_round st = Some l \<longrightarrow> l < r) \<and>
      unat last + unat delay + 1 < 2 ^ 32 \<and>
      (r = n \<and> feed_details scope n \<noteq> None \<and> (n = 1 \<or> is_supersedable scope (saturating_sub n 1)) \<or>
       r = n + 1 \<and> is_supersedable scope n \<and> \<not> is_timed_out scope n \<and>
         (os_last_started_round st = None \<or> unat last + unat delay < unat r)))"

definition payable :: "'w scope \<Rightarrow> account_id \<Rightarrow> balance \<Rightarrow> bool" where
  "payable scope a p \<longleftrightarrow>
     fc_max_debt (feed_conf (fst scope)) = None \<and> unat (fc_debt (feed_conf (fst scope))) + unat p < 2 ^ 128 \<and>
     (\<exists>m. Oracles (snd scope) a = Some m \<and> unat (om_withdrawable m) + unat p < 2 ^ 128)"

section \<open>Each step succeeds\<close>

lemma may_reportE:
  assumes "may_report (feed, s) st r"
  obtains (reporting) "r = reporting_round_id feed" "Details s (feed_ident feed) (reporting_round_id feed) \<noteq> None"
      "reporting_round_id feed = 1 \<or> is_supersedable (feed, s) (saturating_sub (reporting_round_id feed) 1)"
  | (starting) "r = reporting_round_id feed + 1" "is_supersedable (feed, s) (reporting_round_id feed)"
      "\<not> is_timed_out (feed, s) (reporting_round_id feed)"
      "os_last_started_round st = None \<or> unat (case os_last_started_round st of Some l \<Rightarrow> l | None \<Rightarrow> 0) +
         unat (fc_restart_delay (feed_conf feed)) < unat r"
  using assms unfolding may_report_def Let_def fst_conv scope_fields by blast

lemma may_report_status:
  assumes "may_report scope st r"
  shows "os_ending_round st = None" "os_last_reported_round st = Some l \<Longrightarrow> l < r"
    "unat (case os_last_started_round st of Some l \<Rightarrow> l | None \<Rightarrow> 0) + unat (fc_restart_delay (feed_conf (fst scope))) + 1 < 2 ^ 32"
  using assms unfolding may_report_def Let_def by blast+

lemma may_report_valid:
  assumes may: "may_report (feed, s) st r" and st: "OracleStatuses s (feed_ident feed) a = Some st"
    "os_starting_round st \<le> reporting_round_id feed" and max: "reporting_round_id feed \<noteq> - 1"
  shows "ensure_valid_round (feed, s) a r = Ok ()"
proof -
  let ?n = "reporting_round_id feed"
  have "?n \<le> ?n + 1" using max by (simp add: le_inc_iff)
  then have le: "os_starting_round st \<le> ?n + 1" using st(2) by (rule order_trans [rotated])
  have reported: "\<not> (case os_last_reported_round st of Some l \<Rightarrow> l < r | None \<Rightarrow> True) \<Longrightarrow> False"
    using may_report_status(2) [OF may] by (auto split: option.splits)
  from may show ?thesis
  proof (cases rule: may_reportE)
    case reporting
    with st reported may_report_status(1) [OF may] show ?thesis
      by (auto simp: ensure_valid_round_def Let_def)
  next
    case starting
    with st le reported may_report_status(1) [OF may] show ?thesis
      by (auto simp: ensure_valid_round_def Let_def saturating_inc [OF max] saturating_dec [OF max])
  qed
qed

lemma initialize_fresh:
  assumes "\<not> is_timed_out (feed, s) n" "n \<noteq> - 1"
  obtains s' where "initialize_round (n + 1) (feed, s) =
      (Ok (block_num s), (feed\<lparr>feed_conf := (feed_conf feed)\<lparr>fc_reporting_round := n + 1\<rparr>\<rparr>, s'))"
    "Rounds s' (feed_ident feed) (n + 1) \<noteq> None"
    "Details s' (feed_ident feed) (n + 1) = Some (fresh_details (feed_conf feed))"
proof -
  have "is_timed_out (feed\<lparr>feed_conf := x\<rparr>, s) n = is_timed_out (feed, s) n" for x by (simp add: is_timed_out_def)
  with assms show thesis
    by (intro that) (auto simp: initialize_round_def Let_def saturating_dec fresh_details_def)
qed

lemma submit_open_succeeds:
  assumes may: "may_report (feed, s) st r" and max: "reporting_round_id feed \<noteq> - 1" and ok: "scope_ok R (feed, s)"
  obtains st' f1 s1 where "submit_open a r st (feed, s) = (Ok st', (f1, s1))"
    "Details s1 (feed_ident feed) r = Some (details_for (feed_conf feed) (Details s (feed_ident feed) r))"
proof -
  let ?n = "reporting_round_id feed" and ?f = "feed_ident feed"
  define last where "last = (case os_last_started_round st of Some l \<Rightarrow> l | None \<Rightarrow> 0)"
  define delay where "delay = fc_restart_delay (feed_conf feed)"
  have fits: "unat last + unat delay + 1 < 2 ^ 32"
    using may_report_status(3) [OF may] by (simp add: last_def delay_def)
  have sum: "unat (last + delay) = unat last + unat delay" by (rule unat_plus_fits) (use fits in simp)
  have add: "checked_add last delay = Some (last + delay)" "checked_add (last + delay) 1 = Some (last + delay + 1)"
    using fits by (simp_all add: checked_add_def sum)
  note unfold = submit_open_def Let_def last_def [symmetric] delay_def [symmetric]
  have neq: "?n \<noteq> ?n + 1" using less_inc_iff [OF max, of ?n] by auto
  note inc = saturating_inc [OF max]
  from may show thesis
  proof (cases rule: may_reportE)
    case reporting
    then have "submit_open a r st (feed, s) = (Ok st, (feed, s))" using neq by (simp add: unfold add inc)
    with reporting(1,2) show thesis by (intro that) (auto simp: details_for_def)
  next
    case starting
    have "last + delay \<noteq> - 1" using fits sum by (auto simp: unsigned_minus_1_eq_mask mask_eq_exp_minus_1)
    then have elig: "r \<ge> last + delay + 1 \<or> os_last_started_round st = None"
      using starting(4) sum by (auto simp: inc_le_iff word_less_nat_alt last_def delay_def)
    obtain s1 where i: "initialize_round (?n + 1) (feed, s) =
        (Ok (block_num s), (feed\<lparr>feed_conf := (feed_conf feed)\<lparr>fc_reporting_round := ?n + 1\<rparr>\<rparr>, s1))"
      "Details s1 ?f (?n + 1) = Some (fresh_details (feed_conf feed))"
      using initialize_fresh [OF starting(3) max] by metis
    have "Details s ?f (?n + 1) = None"
      using rounds_ok_details [OF scope_ok_rounds [OF ok], of "?n + 1"] less_inc_iff [OF max, of "?n + 1"]
      by (cases "Details s ?f (?n + 1)") (auto simp: reporting_round_id_def)
    moreover have "\<exists>st' f1 e. submit_open a r st (feed, s) = (Ok st', (f1, deposit_event e s1))"
      using elig starting(1) i(1) by (simp add: unfold add inc) blast
    ultimately show thesis using that starting(1) i(2) by (auto simp: details_for_def)
  qed
qed

lemma submit_answer_succeeds:
  assumes "det_submissions d \<noteq> []" "Rounds s (feed_ident feed) r \<noteq> None"
  shows "\<exists>d' f' s'. submit_answer R r d (feed, s) = (Ok d', (f', s'))"
proof -
  obtain m x where "median (det_submissions d) = Some (m, sort (det_submissions d))" "Rounds s (feed_ident feed) r = Some x"
    using median_nonempty [OF assms(1)] assms(2) by blast
  moreover obtain f' s' where "answer_round R r x m (feed, s) = (f', s')" by (metis surj_pair)
  ultimately show ?thesis by (simp add: submit_answer_def)
qed

lemma submit_reserve_succeeds:
  assumes "payable (feed, s) a p"
  obtains f' s' where "submit_reserve R p (feed, s) = (Ok (), (f', s'))" "Oracles s' = Oracles s"
proof -
  obtain x w where res: "reserve (Currency R) (fund_account R) p (outside s) = (x, w)" by (metis surj_pair)
  have "\<exists>f'. submit_reserve R p (feed, s) = (Ok (), (f', s\<lparr>outside := w\<rparr>))"
    using assms res by (cases x) (auto simp: submit_reserve_def payable_def checked_add_def Let_def)
  then show thesis using that by auto
qed

lemma submit_credit_succeeds:
  assumes "payable scope a p" "Oracles s a = Oracles (snd scope) a"
  shows "\<exists>f' s'. submit_credit a p (feed, s) = (Ok (), (f', s'))"
  using assms by (auto simp: submit_credit_def payable_def checked_add_def)

lemma submit_body_succeeds:
  assumes may: "may_report (feed, s) st r" and st: "OracleStatuses s (feed_ident feed) a = Some st"
    and pay: "payable (feed, s) a (det_payment (details_for (feed_conf feed) (Details s (feed_ident feed) r)))"
    and v: "in_bounds (fc_submission_value_bounds (feed_conf feed)) v"
    and ok: "scope_ok R (feed, s)" and max: "reporting_round_id feed \<noteq> - 1"
  shows "\<exists>scope. submit_body R a r v (feed, s) = (Ok (), scope)"
proof -
  let ?f = "feed_ident feed" and ?d = "details_for (feed_conf feed) (Details s (feed_ident feed) r)"
  have "os_starting_round st \<le> reporting_round_id feed"
    using ok st by (auto simp: scope_ok_def oracles_ok_def statuses_ok_def status_ok_def reporting_round_id_def)
  note valid = may_report_valid [OF may st this max]
  obtain st1 f1 s1 where opened: "submit_open a r st (feed, s) = (Ok st1, (f1, s1))" and d: "Details s1 ?f r = Some ?d"
    using submit_open_succeeds [OF may max ok] .
  note o = submit_open_Ok [OF opened ok valid max st]
  have f1: "feed_ident f1 = ?f" using o(1) by (simp add: frame_def)
  define d1 where "d1 = ?d\<lparr>det_submissions := det_submissions ?d @ [v]\<rparr>"
  obtain s2 where recorded: "submit_record a r v st1 (f1, s1) = (Ok d1, (f1, s2))"
    using d by (simp add: submit_record_def f1 d1_def)
  have h: "OracleStatuses s1 (feed_ident f1) a = Some st" "os_ending_round st1 = os_ending_round st"
    "in_bounds (fc_submission_value_bounds (feed_conf f1)) v"
    using o(4,9) st f1 v keeps_settings_fields(2) [OF o(2)] by auto
  from submit_record_Ok [OF recorded o(3) h(1,2) o(10) h(3)] have ok2: "scope_ok R (f1, s2)" "Oracles s2 = Oracles s1"
    and r: "fc_next_round_to_prune (feed_conf f1) \<le> r" "r \<le> fc_reporting_round (feed_conf f1)" by metis+
  note rok = scope_ok_rounds [OF ok2(1)]
  have "Rounds s2 (feed_ident f1) r \<noteq> None" using rounds_ok_present [OF rok, of r] r by auto
  then obtain d2 f3 s3 where answered: "submit_answer R r d1 (f1, s2) = (Ok d2, (f3, s3))"
    using submit_answer_succeeds [of d1 s2 f1 r R] by (auto simp: d1_def)
  note an = submit_answer_Ok [OF answered rok r(1) _ r(2)]
  have lat: "fc_latest_round (feed_conf f1) \<le> r" using o(11) d by simp
  have p: "payable (f3, s3) a (det_payment d2)"
    using pay an(7,8,11) [OF lat] o(5,8) ok2(2) keeps_settings_fields(5) [OF o(2)] keeps_settings_fields(5) [OF an(2) [OF lat]]
    by (simp add: payable_def d1_def)
  obtain f4 s4 where reserved: "submit_reserve R (det_payment d2) (f3, s3) = (Ok (), (f4, s4))" "Oracles s4 = Oracles s3"
    using submit_reserve_succeeds [OF p] .
  obtain f5 s5 where "submit_credit a (det_payment d2) (f4, s4) = (Ok (), (f5, s5))"
    using submit_credit_succeeds [OF p, of s4 f4] reserved(2) by auto
  then show ?thesis
    using st valid v opened recorded answered reserved(1) by (auto simp: submit_body_def in_bounds_def split_beta)
qed

end
