(* ===== verification/Feed_Errors.thy ===== *)
theory Feed_Errors
  imports Feed_Calls
begin

text \<open>
  The error paths: no dispatchable panics, whatever its arguments and its caller are, and one
  that returns an error has changed nothing. The one exception is \<open>withdraw_payment\<close>, whose
  transfer is made after the payment is taken out of the reserve.
\<close>

section \<open>No call panics\<close>

named_theorems no_panic \<open>operations that do not panic\<close>

lemma bind_no_panic [no_panic]:
  "fst m \<noteq> Panic \<Longrightarrow> (\<And>r s. m = (Ok r, s) \<Longrightarrow> fst (k r s) \<noteq> Panic) \<Longrightarrow> fst (bind_dispatch m k) \<noteq> Panic"
  by (cases m; cases "fst m") auto

lemma bind_scope_no_panic:
  "fst m \<noteq> Panic \<Longrightarrow> (\<And>r feed s. m = (Ok r, (feed, s)) \<Longrightarrow> fst (k r feed s) \<noteq> Panic) \<Longrightarrow>
     fst (bind_dispatch m (\<lambda>r (feed, s). k r feed s)) \<noteq> Panic"
  by (rule bind_no_panic) auto

lemma feed_methods_no_panic [no_panic]:
  "fst (track_oracle a b s) \<noteq> Panic" "fst (enable_oracle f r a s) \<noteq> Panic"
  "fst (Feed_update_future_rounds p bounds d t scope) \<noteq> Panic" "fst (close_timed_out_round r scope) \<noteq> Panic"
  by (auto simp: track_oracle_def enable_oracle_def Feed_update_future_rounds_def close_timed_out_round_def
      split: option.splits prod.splits)

lemma add_loop_no_panic [no_panic]: "fst (add_oracles_loop f r to_add s) \<noteq> Panic"
  by (induction f r to_add s rule: add_oracles_loop.induct) (auto simp: no_panic intro!: bind_no_panic)

lemma disable_loop_no_panic [no_panic]: "fst (disable_oracles_loop f r to_disable s) \<noteq> Panic"
  by (induction f r to_disable s rule: disable_oracles_loop.induct) (auto split: option.splits)

lemma add_no_panic [no_panic]: "fst (add_oracles R to_add scope) \<noteq> Panic"
  by (cases scope) (auto simp: add_oracles_def Let_def split_beta no_panic)

lemma disable_no_panic [no_panic]: "fst (disable_oracles to_disable scope) \<noteq> Panic"
  by (cases scope) (auto simp: disable_oracles_def Let_def split_beta no_panic split: option.splits)

lemma initialize_no_panic [no_panic]: "fst (initialize_round r scope) \<noteq> Panic"
  by (auto simp: initialize_round_def Let_def no_panic split: prod.splits intro!: bind_no_panic)

lemma request_no_panic [no_panic]:
  "fst (Feed_request_new_round a scope) \<noteq> Panic"
  "fst (request_new_round_body f a q scope) \<noteq> Panic"
  by (auto simp: Feed_request_new_round_def request_new_round_body_def Let_def no_panic
      split: prod.splits option.splits intro!: bind_no_panic)


lemma submit_steps_no_panic [no_panic]:
  "fst (submit_open a r st scope) \<noteq> Panic" "fst (submit_record a r v st scope) \<noteq> Panic"
  "fst (submit_reserve R p scope) \<noteq> Panic" "fst (submit_credit a p scope) \<noteq> Panic"
  "ensure_valid_round scope a r \<noteq> Panic"
  by (auto simp: submit_open_def submit_record_def submit_reserve_def submit_credit_def ensure_valid_round_def Let_def
      no_panic split: prod.splits option.splits intro!: bind_no_panic)

lemma submit_answer_no_panic: "det_submissions d \<noteq> [] \<Longrightarrow> fst (submit_answer R r d scope) \<noteq> Panic"
  using median_nonempty [of "det_submissions d"]
  by (auto simp: submit_answer_def no_panic split: prod.splits option.splits intro!: bind_no_panic)

lemma submit_record_nonempty: "submit_record a r v st scope = (Ok d, scope') \<Longrightarrow> det_submissions d \<noteq> []"
  by (auto simp: submit_record_def split: prod.splits option.splits)

lemma submit_body_no_panic [no_panic]: "fst (submit_body R a r v scope) \<noteq> Panic"
  by (cases scope; simp add: submit_body_def Let_def split_beta; intro bind_scope_no_panic bind_no_panic)
    (auto simp: no_panic submit_answer_no_panic dest: submit_record_nonempty)

section \<open>A call that fails changes nothing\<close>

definition clean :: "'s \<Rightarrow> unit result \<times> 's \<Rightarrow> bool" where
  "clean s out \<longleftrightarrow> (case fst out of Ok _ \<Rightarrow> True | Err _ \<Rightarrow> snd out = s | Panic \<Rightarrow> False)"

lemma clean_Ok [simp]: "clean s (Ok u, s')"
  and clean_Err [simp]: "clean s (Err e, s') \<longleftrightarrow> s' = s"
  and clean_Panic [simp]: "\<not> clean s (Panic, s')"
  by (simp_all add: clean_def)

lemma clean_bind: "m \<noteq> Panic \<Longrightarrow> (\<And>v. m = Ok v \<Longrightarrow> clean s (k v s)) \<Longrightarrow> clean s (bind_dispatch (m, s) k)"
  by (cases m) auto

lemma clean_transaction: "fst (f s) \<noteq> Panic \<Longrightarrow> clean s (with_transaction_result f s)"
  by (cases "f s"; cases "fst (f s)") (auto simp: with_transaction_result_def)

lemma fst_with_feed [simp]: "fst (with_feed feed body s) = fst (body (feed, s))"
  by (simp add: with_feed_def split_beta)

lemma drop_loaded: "load_from s f = Some feed \<Longrightarrow> drop_feed feed s = s"
  by (auto simp: load_from_def drop_feed_def sync_to_storage_def fun_upd_idem)

lemma clean_with_feed:
  assumes "load_from s f = Some feed" "clean (feed, s) (body (feed, s))"
  shows "clean s (with_feed feed body s)"
  using assms drop_loaded by (cases "body (feed, s)"; cases "fst (body (feed, s))") (auto simp: with_feed_def)

text \<open>What is needed of the currency: an operation that fails changes nothing.\<close>

definition failures_atomic :: "'w currency \<Rightarrow> bool" where
  "failures_atomic C \<longleftrightarrow>
     (\<forall>a v w e w'. reserve C a v w = (Some e, w') \<longrightarrow> w' = w) \<and>
     (\<forall>a b v w e w'. transfer C a b v w = (Some e, w') \<longrightarrow> w' = w)"

lemma transactional_clean:
  "clean s (create_feed R origin p t vb m dec desc d oracles pw md s)" "clean s (submit R origin f r v s)"
  "clean s (change_oracles R origin f to_disable to_add s)" "clean s (update_future_rounds origin f p b d t s)"
  "clean s (request_new_round origin f s)"
  unfolding create_feed_def submit_def change_oracles_def update_future_rounds_def request_new_round_def Let_def
    create_feed_body_def ensure_owner_def
  by (intro clean_bind clean_transaction bind_no_panic; auto simp: no_panic split_beta intro!: bind_no_panic; fail)+

lemma set_pruning_window_clean:
  assumes "feeds_ok R s"
  shows "clean s (set_pruning_window origin f w s)"
proof -
  have "clean (feed, s) (bind_dispatch (ensure_owner feed owner, (feed, s)) (\<lambda>_ (feed, s).
         (case prune_all (feed\<lparr>feed_conf := (feed_conf feed)\<lparr>fc_pruning_window := w\<rparr>\<rparr>, s) of
            Some scope \<Rightarrow> (Ok (), scope) | None \<Rightarrow> (Panic, (feed, s)))))"
    if "load_from s f = Some feed" "0 < w" for feed owner
    using set_window_scope [OF load_from_ok(4) [OF that(1) assms] that(2)]
    by (intro clean_bind) (auto simp: ensure_owner_def)
  then show ?thesis
    unfolding set_pruning_window_def
    by (intro clean_bind) (auto simp: dispatch_simps intro!: clean_with_feed)
qed

lemma reduce_debt_clean:
  assumes "failures_atomic (Currency R)"
  shows "clean s (reduce_debt R origin f n s)"
  unfolding reduce_debt_def
  using assms
  by (intro clean_bind)
    (auto simp: dispatch_simps Let_def failures_atomic_def intro!: clean_with_feed split: prod.splits option.splits)

lemma roles_clean:
  "clean s (transfer_ownership origin f a s)" "clean s (accept_ownership origin f s)"
  "clean s (transfer_admin origin b a s)" "clean s (accept_admin origin b s)"
  "clean s (transfer_pallet_admin origin a s)" "clean s (accept_pallet_admin origin s)"
  "clean s (set_feed_creator origin a s)" "clean s (remove_feed_creator origin a s)"
  "clean s (set_requester origin f a d s)" "clean s (remove_requester origin f a s)"
  unfolding transfer_ownership_def accept_ownership_def transfer_admin_def accept_admin_def transfer_pallet_admin_def
    accept_pallet_admin_def set_feed_creator_def remove_feed_creator_def set_requester_def remove_requester_def Let_def
  by (intro clean_bind; simp)+

lemma withdraw_funds_clean:
  assumes "failures_atomic (Currency R)"
  shows "clean s (withdraw_funds R origin a n s)"
  unfolding withdraw_funds_def Let_def
  using assms by (intro clean_bind) (auto simp: failures_atomic_def split: prod.splits option.splits)

lemma dispatch_clean:
  assumes "feeds_ok R s" "failures_atomic (Currency R)" "\<forall>a b n. call \<noteq> WithdrawPayment a b n"
  shows "clean s (dispatch_call R origin call s)"
  using assms
  by (cases call) (simp_all add: transactional_clean set_pruning_window_clean reduce_debt_clean roles_clean withdraw_funds_clean)

lemma withdraw_payment_no_panic: "fst (withdraw_payment R origin a b n s) \<noteq> Panic"
  unfolding withdraw_payment_def Let_def
  by (intro bind_no_panic) (auto split: prod.splits option.splits)

end
