(* ===== verification/Feed_Timeouts.thy ===== *)
theory Feed_Timeouts
  imports Feed_Errors
begin

text \<open>
  What happens to a round that is answered, is not full, and then times out: its details are still
  stored, so that the next round closes it as if it had never been answered. Its answer is
  replaced by the one of the round before; and if that round is pruned already, the next round
  cannot be started at all.
\<close>

section \<open>Closing a round that timed out\<close>

lemma initialize_timed_out:
  assumes "is_timed_out (feed, s) n" "n \<noteq> - 1" "feed_round (feed, s) n = Some x"
    and "feed_round (feed, s) (saturating_sub n 1) = Some prev"
    and "initialize_round (n + 1) (feed, s) = (Ok b, (feed', s'))"
  shows "Rounds s' (feed_ident feed) n = Some (x\<lparr>rnd_answer := rnd_answer prev,
    rnd_answered_in_round := rnd_answered_in_round prev, rnd_updated_at := Some (block_num s)\<rparr>)"
proof -
  have "n + 1 \<noteq> n" using less_inc_iff [OF assms(2), of n] by auto
  with assms show ?thesis
    by (auto simp: initialize_round_def Let_def saturating_dec is_timed_out_def close_timed_out_round_def)
qed

lemma initialize_without_previous:
  assumes "is_timed_out (feed, s) n" "n \<noteq> - 1" "feed_round (feed, s) (saturating_sub n 1) = None"
  shows "initialize_round (n + 1) (feed, s) \<noteq> (Ok b, scope)"
  using assms by (auto simp: initialize_round_def Let_def saturating_dec is_timed_out_def close_timed_out_round_def)

section \<open>A feed without its previous round\<close>

definition stuck :: "Feed \<Rightarrow> 'w storage \<Rightarrow> bool" where
  "stuck feed s \<longleftrightarrow> 1 < reporting_round_id feed \<and> is_timed_out (feed, s) (reporting_round_id feed) \<and>
     feed_round (feed, s) (saturating_sub (reporting_round_id feed) 1) = None"

lemma stuck_round:
  assumes "stuck feed s" "scope_ok R (feed, s)" "reporting_round_id feed \<noteq> - 1" "ensure_valid_round (feed, s) a r = Ok u"
  shows "r \<noteq> reporting_round_id feed" "r = reporting_round_id feed + 1 \<or> Details s (feed_ident feed) r = None"
proof -
  let ?n = "reporting_round_id feed"
  have n: "1 < ?n" "?n \<noteq> 1" "saturating_sub ?n 1 \<noteq> 0" "feed_round (feed, s) (saturating_sub ?n 1) = None"
    using assms(1) by (auto simp: stuck_def saturating_sub_def split: if_splits)
  then have "\<not> is_supersedable (feed, s) (saturating_sub ?n 1)"
    by (simp add: is_supersedable_def was_updated_def is_timed_out_def)
  with n assms(4) show neq: "r \<noteq> ?n" by (auto simp: ensure_valid_round_def Let_def split: if_splits option.splits)
  have "Details s (feed_ident feed) r = None" if "r \<noteq> ?n + 1"
  proof (rule ccontr)
    assume "Details s (feed_ident feed) r \<noteq> None"
    then obtain d where d: "Details s (feed_ident feed) r = Some d" by blast
    note rok = scope_ok_rounds [OF assms(2)]
    from valid_round_Ok [OF assms(4,3)] neq that have "saturating_add r 1 = ?n" by metis
    moreover have "r \<noteq> - 1" using calculation assms(3) saturating_top by auto
    ultimately have "?n = r + 1" using saturating_inc by metis
    with \<open>r \<noteq> - 1\<close> have "saturating_sub ?n 1 = r" using saturating_dec by simp
    with n(4) have "Rounds s (feed_ident feed) r = None" by simp
    with rounds_ok_details [OF rok d] rounds_ok_present [OF rok, of r] show False by simp
  qed
  then show "r = ?n + 1 \<or> Details s (feed_ident feed) r = None" by (cases "r = ?n + 1") simp_all
qed

lemma stuck_submit:
  assumes "stuck feed s" "scope_ok R (feed, s)" "reporting_round_id feed \<noteq> - 1"
  shows "submit_body R a r v (feed, s) \<noteq> (Ok u, scope)"
proof
  let ?n = "reporting_round_id feed" and ?f = "feed_ident feed"
  assume "submit_body R a r v (feed, s) = (Ok u, scope)"
  moreover obtain feed' s' where "scope = (feed', s')" by (cases scope)
  ultimately have b: "submit_body R a r v (feed, s) = (Ok u, (feed', s'))" by simp
  from submit_bodyE [OF b] obtain st st1 d f1 s1 f2 s2 where valid: "ensure_valid_round (feed, s) a r = Ok ()"
    and opened: "submit_open a r st (feed, s) = (Ok st1, (f1, s1))"
    and recorded: "submit_record a r v st1 (f1, s1) = (Ok d, (f2, s2))"
    by metis
  have prev: "feed_round (feed, s) (saturating_sub ?n 1) = None" "is_timed_out (feed, s) ?n"
    using assms(1) by (simp_all add: stuck_def)
  have "f1 = feed \<and> s1 = s"
    using opened initialize_without_previous [OF prev(2) assms(3) prev(1)]
    by (auto simp: submit_open_def Let_def saturating_inc [OF assms(3)] dispatch_simps split: if_splits prod.splits)
  with recorded have "Details s ?f r \<noteq> None" by (auto simp: submit_record_def split: option.splits)
  moreover have "Details s ?f (?n + 1) = None"
    using rounds_ok_details [OF scope_ok_rounds [OF assms(2)], of "?n + 1"] less_inc_iff [OF assms(3), of "?n + 1"]
    by (cases "Details s ?f (?n + 1)") (auto simp: reporting_round_id_def)
  ultimately show False using stuck_round(2) [OF assms(1-3) valid] by auto
qed

lemma stuck_request:
  assumes "stuck feed s" "reporting_round_id feed \<noteq> - 1"
  shows "request_new_round_body f a q (feed, s) \<noteq> (Ok u, scope)"
proof
  let ?n = "reporting_round_id feed"
  assume b: "request_new_round_body f a q (feed, s) = (Ok u, scope)"
  then obtain rs n where r: "Feed_request_new_round a (feed, s\<lparr>Requesters := rs\<rparr>) = (Ok u, scope)"
    by (auto simp: request_new_round_body_def Let_def dispatch_simps)
  have "checked_add ?n 1 = Some (?n + 1)" using b assms(2)
    by (auto simp: request_new_round_body_def dispatch_simps checked_add_def split: if_splits)
  with r obtain b' scope' where "initialize_round (?n + 1) (feed, s\<lparr>Requesters := rs\<rparr>) = (Ok b', scope')"
    by (auto simp: Feed_request_new_round_def dispatch_simps split: if_splits)
  moreover have "is_timed_out (feed, s\<lparr>Requesters := rs\<rparr>) ?n"
    "feed_round (feed, s\<lparr>Requesters := rs\<rparr>) (saturating_sub ?n 1) = None"
    using assms(1) by (simp_all add: stuck_def is_timed_out_def)
  ultimately show False using initialize_without_previous assms(2) by blast
qed

lemma not_Ok_clean: "clean s out \<Longrightarrow> (\<And>s'. out \<noteq> (Ok (), s')) \<Longrightarrow> \<exists>e. out = (Err e, s)"
  by (cases out; cases "fst out") auto

lemma stuck_calls:
  assumes stuck: "load_from s f = Some feed" "stuck feed s" and ok: "feeds_ok R s" and left: "rounds_left s"
  shows "\<exists>e. submit R origin f r v s = (Err e, s)" "\<exists>e. request_new_round origin f s = (Err e, s)"
proof -
  note lf = load_from_ok [OF stuck(1)]
  have max: "reporting_round_id feed \<noteq> - 1" using left lf(3) by (auto simp: rounds_left_def reporting_round_id_def)
  have "submit R origin f r v s \<noteq> (Ok (), s')" for s'
    using stuck_submit [OF stuck(2) lf(4) [OF ok] max] stuck(1)
    by (auto simp: submit_def dispatch_simps with_feed_iff)
  then show "\<exists>e. submit R origin f r v s = (Err e, s)" by (rule not_Ok_clean [OF transactional_clean(2)])
  have "request_new_round origin f s \<noteq> (Ok (), s')" for s'
    using stuck_request [OF stuck(2) max] stuck(1)
    by (auto simp: request_new_round_def dispatch_simps with_feed_iff)
  then show "\<exists>e. request_new_round origin f s = (Err e, s)" by (rule not_Ok_clean [OF transactional_clean(5)])
qed

text \<open>A round that is answered and requested anew after its timeout.\<close>

lemma request_overwrites:
  assumes req: "request_new_round origin f s = (Ok (), s')" and load: "load_from s f = Some feed"
    and ok: "feeds_ok R s" and left: "rounds_left s" and out: "is_timed_out (feed, s) (reporting_round_id feed)"
    and prev: "Rounds s f (saturating_sub (reporting_round_id feed) 1) = Some prev"
  shows "\<exists>c' x. Feeds s' f = Some c' \<and> fc_latest_round c' = fc_latest_round (feed_conf feed) \<and>
    Rounds s' f (reporting_round_id feed) = Some (x\<lparr>rnd_answer := rnd_answer prev,
       rnd_answered_in_round := rnd_answered_in_round prev, rnd_updated_at := Some (block_num s)\<rparr>)"
proof -
  let ?n = "reporting_round_id feed"
  note lf = load_from_ok [OF load]
  have max: "?n \<noteq> - 1" using left lf(3) by (auto simp: rounds_left_def reporting_round_id_def)
  from req load obtain who q feed' s1 where b: "request_new_round_body f who q (feed, s) = (Ok (), (feed', s1))"
    and s': "s' = drop_feed feed' s1"
    by (auto simp: request_new_round_def dispatch_simps with_feed_iff)
  from b obtain rs where r: "Feed_request_new_round who (feed, s\<lparr>Requesters := rs\<rparr>) = (Ok (), (feed', s1))"
    by (auto simp: request_new_round_body_def Let_def dispatch_simps)
  have "checked_add ?n 1 = Some (?n + 1)" using b max
    by (auto simp: request_new_round_body_def dispatch_simps checked_add_def split: if_splits)
  with r obtain b' s2 e where init: "initialize_round (?n + 1) (feed, s\<lparr>Requesters := rs\<rparr>) = (Ok b', (feed', s2))"
    and s1: "s1 = deposit_event e s2"
    by (auto simp: Feed_request_new_round_def dispatch_simps split: if_splits)
  have sc: "scope_ok R (feed, s\<lparr>Requesters := rs\<rparr>)" using lf(4) [OF ok] by (simp add: scope_ok_def)
  have out': "is_timed_out (feed, s\<lparr>Requesters := rs\<rparr>) ?n" using out by (simp add: is_timed_out_def)
  then have sup: "is_supersedable (feed, s\<lparr>Requesters := rs\<rparr>) ?n" by (simp add: is_supersedable_def)
  note i = initialize_round_Ok [OF init sc max refl sup]
  have "\<exists>x. Rounds s f ?n = Some x"
    using rounds_ok_present [OF scope_ok_rounds [OF lf(4) [OF ok]], of ?n] is_timed_out_details [OF out]
      rounds_ok_details [OF scope_ok_rounds [OF lf(4) [OF ok]], of ?n] lf(1)
    by auto
  then obtain x where "feed_round (feed, s\<lparr>Requesters := rs\<rparr>) ?n = Some x" using lf(1) by auto
  from initialize_timed_out [OF out' max this _ init] prev lf(1)
  have "Rounds s2 f ?n = Some (x\<lparr>rnd_answer := rnd_answer prev,
       rnd_answered_in_round := rnd_answered_in_round prev, rnd_updated_at := Some (block_num s)\<rparr>)"
    by simp
  then show ?thesis
    using i(3) lf(1,2) by (auto simp: s' s1 drop_feed_def sync_to_storage_def)
qed

end
