(* ===== verification/Feed_Stuck.thy ===== *)
theory Feed_Stuck
  imports Feed_Timeouts
begin

text \<open>
  A feed that is stuck stays so: no call of anyone, the owner of the feed and the admin of the
  pallet included, changes its rounds again. What a call leaves alone of a feed is \<open>same_rounds\<close>.
\<close>

section \<open>What keeps the rounds of a feed\<close>

definition stuck_feed :: "feed_id \<Rightarrow> 'w storage \<Rightarrow> bool" where
  "stuck_feed f s \<longleftrightarrow> (\<exists>feed. load_from s f = Some feed \<and> stuck feed s)"

definition same_rounds :: "feed_id \<Rightarrow> 'w storage \<Rightarrow> 'w storage \<Rightarrow> bool" where
  "same_rounds f s s' \<longleftrightarrow> block_num s' = block_num s \<and> Rounds s' f = Rounds s f \<and> Details s' f = Details s f \<and>
     map_option fc_reporting_round (Feeds s' f) = map_option fc_reporting_round (Feeds s f)"

lemma same_rounds_refl [simp]: "same_rounds f s s"
  by (simp add: same_rounds_def)

lemma stuck_same_rounds:
  assumes "same_rounds f s s'" "stuck_feed f s"
  shows "stuck_feed f s'"
proof -
  from assms obtain c c' where c: "Feeds s f = Some c" "Feeds s' f = Some c'" "fc_reporting_round c' = fc_reporting_round c"
    by (auto simp: stuck_feed_def same_rounds_def load_from_def)
  with assms show ?thesis
    by (simp add: stuck_feed_def same_rounds_def load_from_def stuck_def is_timed_out_def reporting_round_id_def)
qed

lemma same_rounds_drop:
  assumes "frame (feed, s) (feed', s1)" "feed_ident feed = g"
    and "f = g \<Longrightarrow> Rounds s1 g = Rounds s g \<and> Details s1 g = Details s g \<and> Feeds s g = Some (feed_conf feed) \<and>
      fc_reporting_round (feed_conf feed') = fc_reporting_round (feed_conf feed)"
  shows "same_rounds f s (drop_feed feed' s1)"
  using assms by (cases "f = g") (auto simp: same_rounds_def frame_def drop_feed_def sync_to_storage_def)

lemma transactional_same_rounds:
  assumes run: "with_transaction_result (\<lambda>s. bind_dispatch (ok_or (load_from s g) e, s) (\<lambda>feed s. with_feed feed body s)) s = (res, s')"
    and ok: "feeds_ok R s"
    and body: "\<And>feed u feed' s1. scope_ok R (feed, s) \<Longrightarrow> Feeds s g = Some (feed_conf feed) \<Longrightarrow> feed_ident feed = g \<Longrightarrow>
      body (feed, s) = (Ok u, (feed', s1)) \<Longrightarrow> frame (feed, s) (feed', s1) \<and>
      (f = g \<longrightarrow> Rounds s1 g = Rounds s g \<and> Details s1 g = Details s g \<and>
         fc_reporting_round (feed_conf feed') = fc_reporting_round (feed_conf feed))"
  shows "same_rounds f s s'"
  using run
proof (rule transactionalE)
  fix u feed feed' s1
  assume load: "load_from s g = Some feed" and b: "body (feed, s) = (Ok u, (feed', s1))" and s': "s' = drop_feed feed' s1"
  note l = load_from_ok [OF load]
  from body [OF l(4) [OF ok] l(3,1) b] l(1,3) show ?thesis unfolding s' by (intro same_rounds_drop) auto
qed simp

section \<open>The calls\<close>

lemma submit_same_rounds:
  assumes "submit R origin g r v s = (res, s')" "feeds_ok R s" "rounds_left s" "stuck_feed f s"
  shows "same_rounds f s s'"
proof (cases "f = g")
  case True
  with assms stuck_calls(1) [of s f _ R origin r v] show ?thesis by (fastforce simp: stuck_feed_def)
next
  case False
  from assms(1) show ?thesis unfolding submit_def
  proof (rule signedE)
    fix who
    assume "with_transaction_result (\<lambda>s. bind_dispatch (ok_or (load_from s g) FeedNotFound, s)
      (\<lambda>feed s. with_feed feed (submit_body R who r v) s)) s = (res, s')"
    then show ?thesis using assms(2)
      by (rule transactional_same_rounds)
        (use False assms(3) submit_body_Ok in \<open>fastforce simp: rounds_left_def reporting_round_id_def\<close>)
  qed simp
qed

lemma request_same_rounds:
  assumes "request_new_round origin g s = (res, s')" "feeds_ok R s" "rounds_left s" "stuck_feed f s"
  shows "same_rounds f s s'"
proof (cases "f = g")
  case True
  with assms stuck_calls(2) [of s f _ R origin] show ?thesis by (fastforce simp: stuck_feed_def)
next
  case False
  from assms(1) show ?thesis unfolding request_new_round_def
  proof (elim signedE checkedE)
    fix who q
    assume "with_transaction_result (\<lambda>s. bind_dispatch (ok_or (load_from s g) FeedNotFound, s)
      (\<lambda>feed s. with_feed feed (request_new_round_body g who q) s)) s = (res, s')"
    then show ?thesis using assms(2)
      by (rule transactional_same_rounds) (use False request_body_scope in blast)
  qed simp_all
qed

lemma change_oracles_same_rounds:
  assumes "change_oracles R origin g xs ys s = (res, s')" "feeds_ok R s" "runtime_ok R" "length xs < 2 ^ 32" "length ys < 2 ^ 32"
  shows "same_rounds f s s'"
  using assms(1) unfolding change_oracles_def
proof (rule signedE)
  fix who
  assume run: "with_transaction_result (\<lambda>s. bind_dispatch (ok_or (load_from s g) FeedNotFound, s) (\<lambda>feed s. with_feed feed (\<lambda>(feed, s).
         bind_dispatch (ensure_owner feed who, (feed, s)) (\<lambda>_ scope.
         bind_dispatch (disable_oracles xs scope) (\<lambda>_ scope. add_oracles R ys scope))) s)) s = (res, s')"
  show ?thesis
  proof (rule transactional_same_rounds [OF run assms(2)])
    fix feed u feed' s1
    assume sc: "scope_ok R (feed, s)" and "feed_ident feed = g"
      and b: "(case (feed, s) of (feed, s) \<Rightarrow> bind_dispatch (ensure_owner feed who, (feed, s)) (\<lambda>_ scope.
         bind_dispatch (disable_oracles xs scope) (\<lambda>_ scope. add_oracles R ys scope))) = (Ok u, (feed', s1))"
    from b have "bind_dispatch (disable_oracles xs (feed, s)) (\<lambda>_ scope. add_oracles R ys scope) = (Ok u, (feed', s1))"
      by (auto dest!: check_OkD)
    from change_oracles_scope [OF this sc assms(3-5)] show "frame (feed, s) (feed', s1) \<and>
      (f = g \<longrightarrow> Rounds s1 g = Rounds s g \<and> Details s1 g = Details s g \<and>
         fc_reporting_round (feed_conf feed') = fc_reporting_round (feed_conf feed))"
      by (auto simp: oracles_changed_def)
  qed
qed simp

lemma update_same_rounds:
  assumes "update_future_rounds origin g p b d t s = (res, s')" "feeds_ok R s"
  shows "same_rounds f s s'"
  using assms(1) unfolding update_future_rounds_def
proof (rule signedE)
  fix who
  assume "with_transaction_result (\<lambda>s. bind_dispatch (ok_or (load_from s g) FeedNotFound, s) (\<lambda>feed s. with_feed feed (\<lambda>(feed, s).
         bind_dispatch (ensure_owner feed who, (feed, s)) (\<lambda>_ scope. Feed_update_future_rounds p b d t scope)) s)) s = (res, s')"
  then show ?thesis using assms(2)
    by (rule transactional_same_rounds)
      (auto simp: Feed_update_future_rounds_def frame_def dest!: check_OkD split: if_splits prod.splits)
qed simp

text \<open>In a stuck feed there is nothing left to prune, so that a narrower window changes nothing.\<close>

lemma stuck_nothing_to_prune:
  assumes "stuck feed s" "scope_ok R (feed, s)" "0 < w" "reporting_round_id feed \<noteq> - 1"
  shows "prune_all (feed\<lparr>feed_conf := (feed_conf feed)\<lparr>fc_pruning_window := w\<rparr>\<rparr>, s) =
    Some (feed\<lparr>feed_conf := (feed_conf feed)\<lparr>fc_pruning_window := w\<rparr>\<rparr>, s)"
proof -
  let ?n = "reporting_round_id feed" and ?c = "feed_conf feed"
  note rok = scope_ok_rounds [OF assms(2)]
  have n: "1 < ?n" "Rounds s (feed_ident feed) (saturating_sub ?n 1) = None" using assms(1) by (simp_all add: stuck_def)
  have "unat (saturating_sub ?n 1) = unat ?n - 1" by (simp add: unat_saturating_sub)
  with n rounds_ok_present [OF rok, of "saturating_sub ?n 1"] have "unat ?n \<le> unat (fc_next_round_to_prune ?c)"
    by (auto simp: word_le_nat_alt word_less_nat_alt reporting_round_id_def unat_saturating_sub)
  then have "unat (saturating_sub (fc_latest_round ?c) (fc_next_round_to_prune ?c)) = 0"
    using rounds_okD(1) [OF rok] by (simp add: unat_saturating_sub word_le_nat_alt reporting_round_id_def)
  then have "\<not> w \<le> saturating_sub (fc_latest_round ?c) (fc_next_round_to_prune ?c)"
    using assms(3) by (simp add: word_le_nat_alt word_less_nat_alt)
  then show ?thesis by (subst prune_all.simps) (simp add: prune_oldest_def Let_def current_window_def)
qed

lemma set_pruning_window_same_rounds:
  assumes "set_pruning_window origin g w s = (res, s')" "feeds_ok R s" "rounds_left s" "stuck_feed f s"
  shows "same_rounds f s s'"
  using assms(1) unfolding set_pruning_window_def
proof (elim signedE checkedE)
  fix who u feed
  assume w: "ensure (0 < w) CannotPruneRoundZero = Ok u" and load: "ok_or (load_from s g) FeedNotFound = Ok feed"
    and run: "with_feed feed (\<lambda>(feed, s). bind_dispatch (ensure_owner feed who, (feed, s)) (\<lambda>_ (feed, s).
         (case prune_all (feed\<lparr>feed_conf := (feed_conf feed)\<lparr>fc_pruning_window := w\<rparr>\<rparr>, s) of
            Some scope \<Rightarrow> (Ok (), scope) | None \<Rightarrow> (Panic, (feed, s))))) s = (res, s')"
  from load have l: "load_from s g = Some feed" by (simp add: ok_or_Ok)
  from w have w0: "0 < w" by (simp add: ensure_Ok)
  note lf = load_from_ok [OF l]
  have sc: "scope_ok R (feed, s)" and max: "reporting_round_id feed \<noteq> - 1"
    using lf(3,4) assms(2,3) by (auto simp: rounds_left_def reporting_round_id_def)
  from set_window_scope [OF sc w0] obtain feed' s1 where p: "prune_all (feed\<lparr>feed_conf := (feed_conf feed)\<lparr>fc_pruning_window := w\<rparr>\<rparr>, s) = Some (feed', s1)"
    and fr: "frame (feed, s) (feed', s1)" by blast
  have "f = g \<Longrightarrow> feed' = feed\<lparr>feed_conf := (feed_conf feed)\<lparr>fc_pruning_window := w\<rparr>\<rparr> \<and> s1 = s"
    using assms(4) l stuck_nothing_to_prune [OF _ sc w0 max] p by (auto simp: stuck_feed_def)
  then have "same_rounds f s (drop_feed feed' s1)"
    using lf(1,3) by (intro same_rounds_drop [OF fr]) auto
  moreover have "s' = drop_feed feed' s1 \<or> s' = drop_feed feed s"
    using run p by (auto simp: with_feed_iff ensure_owner_def ensure_def split: if_splits)
  ultimately show ?thesis using drop_loaded [OF l] by auto
qed simp_all

lemma create_feed_same_rounds:
  assumes "create_feed R origin p t vb m dec desc d oracles pw md s = (res, s')" "feeds_ok R s" "runtime_ok R"
    "length oracles < 2 ^ 32" "stuck_feed f s"
  shows "same_rounds f s s'"
proof (cases "\<exists>u. res = Ok u")
  case True
  then obtain u where "create_feed R origin p t vb m dec desc d oracles pw md s = (Ok u, s')" using assms(1) by auto
  then show ?thesis using assms(2-4)
  proof (rule create_feed_Ok)
    fix feed feed' s1
    assume fr: "frame (feed, s\<lparr>FeedCounter := FeedCounter s + 1\<rparr>) (feed', s1)" and g: "feed_ident feed = FeedCounter s"
      and s': "s' = drop_feed feed' s1" and new: "Feeds s (FeedCounter s) = None"
    have "f \<noteq> FeedCounter s" using new assms(5) by (auto simp: stuck_feed_def load_from_def)
    then have "same_rounds f (s\<lparr>FeedCounter := FeedCounter s + 1\<rparr>) s'"
      unfolding s' by (intro same_rounds_drop [OF fr g]) simp
    then show ?thesis by (simp add: same_rounds_def)
  qed
next
  case False
  with transactional_clean(1) [of s R origin p t vb m dec desc d oracles pw md] assms(1) show ?thesis
    by (cases res) auto
qed

lemma reduce_debt_same_rounds: "reduce_debt R origin g n s = (res, s') \<Longrightarrow> same_rounds f s s'"
  by (erule reduce_debt_Ok) (auto simp: same_rounds_def load_from_def)

lemma simple_calls_same_rounds:
  assumes "set_requester origin g a d s = (res, s') \<or> remove_requester origin g a s = (res, s') \<or>
    set_feed_creator origin a s = (res, s') \<or> remove_feed_creator origin a s = (res, s') \<or>
    withdraw_payment R origin a b n s = (res, s') \<or> withdraw_funds R origin b n s = (res, s') \<or>
    transfer_ownership origin g a s = (res, s') \<or> accept_ownership origin g s = (res, s') \<or>
    transfer_admin origin a b s = (res, s') \<or> accept_admin origin a s = (res, s') \<or>
    transfer_pallet_admin origin a s = (res, s') \<or> accept_pallet_admin origin s = (res, s')"
  shows "same_rounds f s s'"
  using assms unfolding set_requester_def remove_requester_def set_feed_creator_def remove_feed_creator_def
    withdraw_payment_def withdraw_funds_def transfer_ownership_def accept_ownership_def transfer_admin_def
    accept_admin_def transfer_pallet_admin_def accept_pallet_admin_def Let_def
  by (elim disjE signedE checkedE) (auto simp: same_rounds_def dispatch_simps split: prod.splits option.splits)

lemma dispatch_stuck:
  assumes "dispatch_call R origin call s = (res, s')" "feeds_ok R s" "rounds_left s" "runtime_ok R" "call_fits call"
    "stuck_feed f s"
  shows "stuck_feed f s'"
proof -
  have "same_rounds f s s'"
    using assms
    by (cases call) (auto intro: create_feed_same_rounds set_pruning_window_same_rounds submit_same_rounds
        change_oracles_same_rounds update_same_rounds request_same_rounds reduce_debt_same_rounds simple_calls_same_rounds)
  then show ?thesis using assms(6) by (rule stuck_same_rounds)
qed

lemma later_stuck: "stuck_feed f s \<Longrightarrow> block_num s \<le> n \<Longrightarrow> stuck_feed f (s\<lparr>block_num := n\<rparr>)"
  by (auto simp: stuck_feed_def stuck_def is_timed_out_def load_from_def Let_def)

text \<open>Time only passes on the chain.\<close>

definition onward :: "'w runtime \<Rightarrow> 'w storage \<Rightarrow> 'w storage \<Rightarrow> bool" where
  "onward R s s' \<longleftrightarrow> chain_step R s s' \<and> block_num s \<le> block_num s'"

lemma onward_stuck:
  assumes "onward R s s'" "feeds_ok R s" "runtime_ok R" "stuck_feed f s"
  shows "stuck_feed f s' \<and> feeds_ok R s'"
proof -
  from assms(1) have step: "chain_step R s s'" and time: "block_num s \<le> block_num s'" by (simp_all add: onward_def)
  from step have "stuck_feed f s'"
  proof cases
    case (block n)
    with time assms(4) show ?thesis by (simp add: later_stuck)
  next
    case (others w)
    then have "same_rounds f s s'" by (simp add: same_rounds_def)
    then show ?thesis using assms(4) by (rule stuck_same_rounds)
  next
    case (call call origin res)
    show ?thesis by (rule dispatch_stuck [OF call(3) assms(2) call(1) assms(3) call(2) assms(4)])
  qed
  with chain_step_feeds_ok [OF step assms(2,3)] show ?thesis by simp
qed

lemma onwards_stuck:
  assumes "(onward R)\<^sup>*\<^sup>* s s'" "feeds_ok R s" "runtime_ok R" "stuck_feed f s"
  shows "stuck_feed f s' \<and> feeds_ok R s'"
  using assms by (induction rule: rtranclp_induct) (auto dest: onward_stuck)

end
