(* ===== verification/Sample_Currency.thy ===== *)
theory Sample_Currency
  imports Substrate
begin

text \<open>
  A concrete currency, to show that the behaviour that is asked of the currency of the runtime is
  satisfiable: it satisfies \<open>reservable\<close>. It is used by witnesses only.
\<close>

section \<open>A currency\<close>

text \<open>
  Free and reserved balances of every account. A transfer has to leave something on the
  paying account, as \<open>KeepAlive\<close> asks for with an existential deposit of 1.
\<close>

type_synonym balances = "(account_id \<Rightarrow> balance) \<times> (account_id \<Rightarrow> balance)"

definition sample_reserve :: "account_id \<Rightarrow> balance \<Rightarrow> balances \<Rightarrow> nat option \<times> balances" where
  "sample_reserve a v w =
     (if v \<le> fst w a \<and> unat (snd w a) + unat v < 2 ^ 128
      then (None, ((fst w)(a := fst w a - v), (snd w)(a := snd w a + v))) else (Some 1, w))"

definition sample_unreserve :: "account_id \<Rightarrow> balance \<Rightarrow> balances \<Rightarrow> balance \<times> balances" where
  "sample_unreserve a v w =
     (let m = min v (snd w a) in (v - m, ((fst w)(a := saturating_add (fst w a) m), (snd w)(a := snd w a - m))))"

definition sample_transfer :: "account_id \<Rightarrow> account_id \<Rightarrow> balance \<Rightarrow> balances \<Rightarrow> nat option \<times> balances" where
  "sample_transfer a b v w =
     (if v < fst w a
      then (None, (let free = (fst w)(a := fst w a - v) in free(b := saturating_add (free b) v), snd w))
      else (Some 2, w))"

definition sample_repatriate :: "account_id \<Rightarrow> account_id \<Rightarrow> balance \<Rightarrow> balances \<Rightarrow> nat option \<times> balances" where
  "sample_repatriate a b v w =
     (let m = min v (snd w a) in
      (None, ((fst w)(b := saturating_add (fst w b) m), (snd w)(a := snd w a - m))))"

definition sample_currency :: "balances currency" where
  "sample_currency =
     \<lparr>free_balance = \<lambda>a w. fst w a, reserved_balance = \<lambda>a w. snd w a, reserve = sample_reserve,
      unreserve = sample_unreserve, transfer = sample_transfer, repatriate_reserved = sample_repatriate\<rparr>"

lemma unat_minus_min: "unat (x - min v x) = unat x - unat v" for x v :: "'a::len word"
  by (auto simp: min_def unat_minus_le word_le_nat_alt)

lemma sample_currency_reservable: "reservable sample_currency"
proof -
  have "reserve_exact sample_currency"
    by (auto simp: reserve_exact_def sample_currency_def sample_reserve_def unat_plus_fits split: if_splits)
  moreover have "unreserve_up_to sample_currency"
    by (auto simp: unreserve_up_to_def sample_currency_def sample_unreserve_def Let_def unat_minus_min)
  moreover have "transfer_free_only sample_currency"
    by (auto simp: transfer_free_only_def sample_currency_def sample_transfer_def split: if_splits)
  moreover have "repatriates_from_slashed sample_currency"
    by (auto simp: repatriates_from_slashed_def sample_currency_def sample_repatriate_def Let_def)
  ultimately show ?thesis by (simp add: reservable_def)
qed

text \<open>The currency of a runtime that has other state beside the balances.\<close>

definition beside :: "'w currency \<Rightarrow> ('w \<times> 'x) currency" where
  "beside C =
     \<lparr>free_balance = \<lambda>a w. free_balance C a (fst w), reserved_balance = \<lambda>a w. reserved_balance C a (fst w),
      reserve = \<lambda>a v w. (fst (reserve C a v (fst w)), snd (reserve C a v (fst w)), snd w),
      unreserve = \<lambda>a v w. (fst (unreserve C a v (fst w)), snd (unreserve C a v (fst w)), snd w),
      transfer = \<lambda>a b v w. (fst (transfer C a b v (fst w)), snd (transfer C a b v (fst w)), snd w),
      repatriate_reserved = \<lambda>a b v w. (fst (repatriate_reserved C a b v (fst w)),
         snd (repatriate_reserved C a b v (fst w)), snd w)\<rparr>"

lemma beside_reservable:
  assumes "reservable C"
  shows "reservable (beside C)"
proof -
  have "reserve_exact (beside C)"
    using assms unfolding reservable_def reserve_exact_def beside_def by (auto, (metis prod.collapse)+)
  moreover have "unreserve_up_to (beside C)"
    using assms unfolding reservable_def unreserve_up_to_def beside_def by (auto, (metis prod.collapse)+)
  moreover have "transfer_free_only (beside C)"
    using assms unfolding reservable_def transfer_free_only_def beside_def by (auto, (metis prod.collapse)+)
  moreover have "repatriates_from_slashed (beside C)"
    using assms unfolding reservable_def repatriates_from_slashed_def beside_def by (auto, (metis prod.collapse)+)
  ultimately show ?thesis by (simp add: reservable_def)
qed

end
