(* ===== verification/Feed_Ledger.thy ===== *)
theory Feed_Ledger
  imports Feed_Calls
begin

text \<open>
  What the pallet promises about money, as an abstract ledger: what it owes to each oracle,
  what is reserved for that on its fund account, and what each feed still has to cover. A
  step pays an oracle out of the reserve or on credit, settles a debt, or pays out what is
  owed; a balanced ledger stays balanced. Every dispatchable is such a step, or none, on the
  ledger of the storage (\<open>dispatch_ledger\<close>), with one exception: a \<open>withdraw_payment\<close> that
  fails.
\<close>

section \<open>The abstract ledger\<close>

record ledger =
  owed :: "account_id \<Rightarrow> nat"
  backed :: nat
  debts :: "feed_id \<Rightarrow> nat"

inductive ledger_step :: "ledger \<Rightarrow> ledger \<Rightarrow> bool" where
  idle: "ledger_step l l"
| pay: "ledger_step l (l\<lparr>owed := (owed l)(a := owed l a + n), backed := backed l + n\<rparr>)"
| lend: "ledger_step l (l\<lparr>owed := (owed l)(a := owed l a + n), debts := (debts l)(f := debts l f + n)\<rparr>)"
| settle: "n \<le> debts l f \<Longrightarrow>
    ledger_step l (l\<lparr>backed := backed l + n, debts := (debts l)(f := debts l f - n)\<rparr>)"
| payout: "n \<le> owed l a \<Longrightarrow> n \<le> backed l \<Longrightarrow>
    ledger_step l (l\<lparr>owed := (owed l)(a := owed l a - n), backed := backed l - n\<rparr>)"

text \<open>Everything that is owed is in the reserve or is the debt of a feed.\<close>

definition balanced :: "ledger \<Rightarrow> bool" where
  "balanced l \<longleftrightarrow> (\<Sum>a\<in>UNIV. owed l a) = backed l + (\<Sum>f\<in>UNIV. debts l f)"

lemma ledger_step_balanced: "ledger_step l l' \<Longrightarrow> balanced l \<Longrightarrow> balanced l'"
proof (induction rule: ledger_step.induct)
  case (pay l n a)
  then show ?case using sum_update [of "owed l" a "owed l a + n"] by (simp add: balanced_def)
next
  case (lend l f n a)
  then show ?case
    using sum_update [of "owed l" a "owed l a + n"] sum_update [of "debts l" f "debts l f + n"]
    by (simp add: balanced_def)
next
  case (settle n l f)
  then show ?case using sum_update [of "debts l" f "debts l f - n"] by (simp add: balanced_def)
next
  case (payout n l a)
  then show ?case using sum_update [of "owed l" a "owed l a - n"] by (simp add: balanced_def)
qed

section \<open>The ledger of the pallet\<close>

definition debt_of :: "'w storage \<Rightarrow> feed_id \<Rightarrow> nat" where
  "debt_of s f = (case Feeds s f of Some c \<Rightarrow> unat (fc_debt c) | None \<Rightarrow> 0)"

definition reserve_of :: "'w runtime \<Rightarrow> 'w \<Rightarrow> nat" where
  "reserve_of R w = unat (reserved_balance (Currency R) (fund_account R) w)"

definition ledger_of :: "'w runtime \<Rightarrow> 'w storage \<Rightarrow> ledger" where
  "ledger_of R s = \<lparr>owed = withdrawable_of s, backed = reserve_of R (outside s), debts = debt_of s\<rparr>"

text \<open>What the ledger needs of the other pallets.\<close>

definition currency_ok :: "'w runtime \<Rightarrow> bool" where
  "currency_ok R \<longleftrightarrow> reservable (Currency R) \<and> (\<forall>f data w. reserve_of R (on_answer R f data w) = reserve_of R w)"

lemma reserve_paid: "currency_ok R \<Longrightarrow> reserve (Currency R) (fund_account R) n w = (None, w') \<Longrightarrow> reserve_of R w' = reserve_of R w + unat n"
  by (auto simp: currency_ok_def reserve_of_def dest: reserve_Ok)

lemma reserve_failed: "currency_ok R \<Longrightarrow> reserve (Currency R) (fund_account R) n w = (Some e, w') \<Longrightarrow> w' = w"
  by (auto simp: currency_ok_def dest: reserve_Err)

lemma ledger_eq_idle: "ledger_of R s' = ledger_of R s \<Longrightarrow> ledger_step (ledger_of R s) (ledger_of R s')"
  by (simp add: idle)

lemma withdrawable_credit:
  assumes "Oracles s a = Some m" "checked_add (om_withdrawable m) p = Some b"
  shows "withdrawable_of (s\<lparr>Oracles := (Oracles s)(a \<mapsto> m\<lparr>om_withdrawable := b\<rparr>)\<rparr>) =
    (withdrawable_of s)(a := withdrawable_of s a + unat p)"
  using assms checked_add_Some [OF assms(2)] by (auto simp: withdrawable_of_def fun_eq_iff)

lemma withdrawable_cong: "Oracles s' = Oracles s \<Longrightarrow> withdrawable_of s' = withdrawable_of s"
  by (simp add: withdrawable_of_def fun_eq_iff)

text \<open>The proxy is dropped: the ledger of the storage after the scope of a feed.\<close>

lemma ledger_drop:
  assumes "Feeds s (feed_ident feed) = Some (feed_conf feed)" "should_sync feed" "frame (feed, s) (feed', s')"
  shows "ledger_of R (drop_feed feed' s') = \<lparr>owed = withdrawable_of s', backed = reserve_of R (outside s'),
    debts = (debt_of s)(feed_ident feed := unat (fc_debt (feed_conf feed')))\<rparr>"
  using assms by (auto simp: ledger_of_def frame_def drop_feed_def sync_to_storage_def withdrawable_of_def debt_of_def fun_eq_iff)

lemma submit_body_ledger:
  assumes submit: "submit_body R a r v (feed, s) = (Ok u, (feed', s'))" and ok: "scope_ok R (feed, s)"
    and max: "reporting_round_id feed \<noteq> - 1" and R: "currency_ok R"
  obtains p where "withdrawable_of s' = (withdrawable_of s)(a := withdrawable_of s a + p)"
    "reserve_of R (outside s') = reserve_of R (outside s) + p \<and> fc_debt (feed_conf feed') = fc_debt (feed_conf feed) \<or>
     reserve_of R (outside s') = reserve_of R (outside s) \<and>
       unat (fc_debt (feed_conf feed')) = unat (fc_debt (feed_conf feed)) + p"
  using submit ok max
proof (rule submit_body_effect)
  fix p m b w
  assume m: "Oracles s a = Some m" "checked_add (om_withdrawable m) p = Some b"
    and s': "Oracles s' = (Oracles s)(a \<mapsto> m\<lparr>om_withdrawable := b\<rparr>)"
    and w: "w = outside s \<or> (\<exists>data. w = on_answer R (feed_ident feed) data (outside s))"
    and paid: "reserve (Currency R) (fund_account R) p w = (None, outside s') \<and> fc_debt (feed_conf feed') = fc_debt (feed_conf feed) \<or>
     (\<exists>e. reserve (Currency R) (fund_account R) p w = (Some e, outside s') \<and>
        checked_add (fc_debt (feed_conf feed)) p = Some (fc_debt (feed_conf feed')) \<and>
        (\<forall>x. fc_max_debt (feed_conf feed) = Some x \<longrightarrow> fc_debt (feed_conf feed') \<le> x))"
  from w R have "reserve_of R w = reserve_of R (outside s)" by (auto simp: currency_ok_def)
  with paid have "reserve_of R (outside s') = reserve_of R (outside s) + unat p \<and> fc_debt (feed_conf feed') = fc_debt (feed_conf feed) \<or>
     reserve_of R (outside s') = reserve_of R (outside s) \<and>
       unat (fc_debt (feed_conf feed')) = unat (fc_debt (feed_conf feed)) + unat p"
    using reserve_paid [OF R] reserve_failed [OF R] checked_add_Some by metis
  moreover have "withdrawable_of s' = (withdrawable_of s)(a := withdrawable_of s a + unat p)"
    using withdrawable_credit [OF m] s' by (simp add: withdrawable_of_def fun_eq_iff)
  ultimately show thesis using that by blast
qed

section \<open>Every call is a step of the ledger\<close>

lemma debt_of_loaded: "Feeds s f = Some c \<Longrightarrow> debt_of s f = unat (fc_debt c)"
  by (simp add: debt_of_def)

lemma transactional_ledger:
  assumes run: "with_transaction_result (\<lambda>s. bind_dispatch (ok_or (load_from s f) e, s) (\<lambda>feed s. with_feed feed body s)) s = (res, s')"
    and ok: "feeds_ok R s"
    and body: "\<And>feed u feed' s1. scope_ok R (feed, s) \<Longrightarrow> Feeds s f = Some (feed_conf feed) \<Longrightarrow> feed_ident feed = f \<Longrightarrow>
      body (feed, s) = (Ok u, (feed', s1)) \<Longrightarrow> frame (feed, s) (feed', s1) \<and>
      ledger_step (ledger_of R s) \<lparr>owed = withdrawable_of s1, backed = reserve_of R (outside s1),
        debts = (debt_of s)(f := unat (fc_debt (feed_conf feed')))\<rparr>"
  shows "ledger_step (ledger_of R s) (ledger_of R s')"
  using run
proof (rule transactionalE)
  fix u feed feed' s1
  assume load: "load_from s f = Some feed" and b: "body (feed, s) = (Ok u, (feed', s1))" and s': "s' = drop_feed feed' s1"
  note l = load_from_ok [OF load]
  from body [OF l(4) [OF ok] l(3,1) b] ledger_drop [of s feed feed' s1 R] l(1-3) show ?thesis
    by (simp add: s')
qed (simp add: idle)

lemma submit_ledger:
  assumes "submit R origin f r v s = (res, s')" and ok: "feeds_ok R s" and left: "rounds_left s" and R: "currency_ok R"
  shows "ledger_step (ledger_of R s) (ledger_of R s')"
  using assms(1) unfolding submit_def
proof (rule signedE)
  fix who
  assume "with_transaction_result (\<lambda>s. bind_dispatch (ok_or (load_from s f) FeedNotFound, s)
      (\<lambda>feed s. with_feed feed (submit_body R who r v) s)) s = (res, s')"
  then show ?thesis using ok
  proof (rule transactional_ledger)
    fix feed :: Feed and u feed' s1
    assume *: "scope_ok R (feed, s)" "Feeds s f = Some (feed_conf feed)" "feed_ident feed = f"
      and body: "submit_body R who r v (feed, s) = (Ok u, (feed', s1))"
    then have max: "reporting_round_id feed \<noteq> - 1" using left by (simp add: rounds_left_def reporting_round_id_def)
    obtain p where p: "withdrawable_of s1 = (withdrawable_of s)(who := withdrawable_of s who + p)"
      and cases: "reserve_of R (outside s1) = reserve_of R (outside s) + p \<and> fc_debt (feed_conf feed') = fc_debt (feed_conf feed) \<or>
        reserve_of R (outside s1) = reserve_of R (outside s) \<and>
        unat (fc_debt (feed_conf feed')) = unat (fc_debt (feed_conf feed)) + p"
      using submit_body_ledger [OF body *(1) max R] .
    have same: "(debt_of s)(f := unat (fc_debt (feed_conf feed))) = debt_of s"
      using debt_of_loaded [OF *(2)] by (simp add: fun_eq_iff)
    from cases have "ledger_step (ledger_of R s) \<lparr>owed = withdrawable_of s1, backed = reserve_of R (outside s1),
        debts = (debt_of s)(f := unat (fc_debt (feed_conf feed')))\<rparr>"
      using pay [of "ledger_of R s" p who] lend [of "ledger_of R s" f p who] debt_of_loaded [OF *(2)]
      by (auto simp: ledger_of_def p same)
    with submit_body_Ok [OF body *(1) max] show "frame (feed, s) (feed', s1) \<and>
      ledger_step (ledger_of R s) \<lparr>owed = withdrawable_of s1, backed = reserve_of R (outside s1),
        debts = (debt_of s)(f := unat (fc_debt (feed_conf feed')))\<rparr>" by simp
  qed
qed (simp add: idle)

text \<open>The calls that move no money.\<close>

lemma idle_scope:
  assumes "Feeds s f = Some c" "withdrawable_of s1 = withdrawable_of s" "outside s1 = outside s" "fc_debt c' = fc_debt c"
  shows "ledger_step (ledger_of R s) \<lparr>owed = withdrawable_of s1, backed = reserve_of R (outside s1),
      debts = (debt_of s)(f := unat (fc_debt c'))\<rparr>"
proof -
  have "(debt_of s)(f := unat (fc_debt c')) = debt_of s"
    using assms debt_of_loaded [OF assms(1)] by (simp add: fun_eq_iff)
  then show ?thesis using assms by (simp add: ledger_of_def idle)
qed

lemma change_oracles_ledger:
  assumes "change_oracles R origin f xs ys s = (res, s')" and ok: "feeds_ok R s" and R: "runtime_ok R"
    and len: "length xs < 2 ^ 32" "length ys < 2 ^ 32"
  shows "ledger_step (ledger_of R s) (ledger_of R s')"
  using assms(1) unfolding change_oracles_def
proof (rule signedE)
  fix who
  assume "with_transaction_result (\<lambda>s. bind_dispatch (ok_or (load_from s f) FeedNotFound, s)
      (\<lambda>feed s. with_feed feed (\<lambda>(feed, s). bind_dispatch (ensure_owner feed who, (feed, s)) (\<lambda>_ scope.
         bind_dispatch (disable_oracles xs scope) (\<lambda>_ scope. add_oracles R ys scope))) s)) s = (res, s')"
  then show ?thesis using ok
    by (rule transactional_ledger)
      (auto simp: oracles_changed_def dest!: check_OkD change_oracles_scope [OF _ _ R len] intro!: idle_scope)
qed (simp add: idle)

lemma Feed_update_ledger:
  assumes "Feed_update_future_rounds p b d t (feed, s) = (Ok u, (feed', s'))"
  shows "withdrawable_of s' = withdrawable_of s" "outside s' = outside s" "fc_debt (feed_conf feed') = fc_debt (feed_conf feed)"
  using assms by (auto simp: Feed_update_future_rounds_def withdrawable_of_def fun_eq_iff split: if_splits prod.splits)

lemma update_future_rounds_ledger:
  assumes "update_future_rounds origin f p b d t s = (res, s')" and ok: "feeds_ok R s"
  shows "ledger_step (ledger_of R s) (ledger_of R s')"
  using assms(1) unfolding update_future_rounds_def
proof (rule signedE)
  fix who
  assume "with_transaction_result (\<lambda>s. bind_dispatch (ok_or (load_from s f) FeedNotFound, s)
      (\<lambda>feed s. with_feed feed (\<lambda>(feed, s). bind_dispatch (ensure_owner feed who, (feed, s)) (\<lambda>_ scope.
         Feed_update_future_rounds p b d t scope)) s)) s = (res, s')"
  then show ?thesis using ok
    by (rule transactional_ledger)
      (auto dest!: check_OkD dest: Feed_update_scope Feed_update_ledger intro: idle_scope)
qed (simp add: idle)

lemma request_new_round_ledger:
  assumes "request_new_round origin f s = (res, s')" and ok: "feeds_ok R s"
  shows "ledger_step (ledger_of R s) (ledger_of R s')"
  using assms(1) unfolding request_new_round_def
proof (elim signedE checkedE)
  fix who requester
  assume "with_transaction_result (\<lambda>s. bind_dispatch (ok_or (load_from s f) FeedNotFound, s)
      (\<lambda>feed s. with_feed feed (request_new_round_body f who requester) s)) s = (res, s')"
  then show ?thesis using ok
    by (rule transactional_ledger) (auto dest!: request_body_scope intro!: idle_scope withdrawable_cong)
qed (simp_all add: idle)

lemma create_feed_ledger:
  assumes create: "create_feed R origin p t vb m dec desc d oracles pw md s = (res, s')"
    and ok: "feeds_ok R s" and R: "runtime_ok R" and len: "length oracles < 2 ^ 32"
  shows "ledger_step (ledger_of R s) (ledger_of R s')"
proof (cases "\<exists>u. res = Ok u")
  case True
  then obtain u where "create_feed R origin p t vb m dec desc d oracles pw md s = (Ok u, s')" using create by auto
  then show ?thesis using ok R len
    by (rule create_feed_Ok, intro ledger_eq_idle) (auto simp: ledger_of_def drop_feed_def sync_to_storage_def
        frame_def debt_of_def withdrawable_of_def fun_eq_iff)
next
  case False
  with create have "s' = s"
    unfolding create_feed_def Let_def by (elim signedE checkedE) (auto dest: transaction_not_Ok)
  then show ?thesis by (simp add: idle)
qed

lemma set_pruning_window_ledger:
  assumes "set_pruning_window origin f w s = (res, s')" and ok: "feeds_ok R s"
  shows "ledger_step (ledger_of R s) (ledger_of R s')"
  using assms(1) unfolding set_pruning_window_def
proof (elim signedE checkedE)
  fix who u feed
  assume w: "ensure (0 < w) CannotPruneRoundZero = Ok u" and load: "ok_or (load_from s f) FeedNotFound = Ok feed"
    and run: "with_feed feed (\<lambda>(feed, s).
       bind_dispatch (ensure_owner feed who, (feed, s)) (\<lambda>_ (feed, s).
         (case prune_all (feed\<lparr>feed_conf := (feed_conf feed)\<lparr>fc_pruning_window := w\<rparr>\<rparr>, s) of
            Some scope \<Rightarrow> (Ok (), scope)
          | None \<Rightarrow> (Panic, (feed, s))))) s = (res, s')"
  from load have l: "load_from s f = Some feed" by (simp add: dispatch_simps)
  note lo = load_from_ok [OF l]
  obtain feed' s1 where s1: "s' = drop_feed feed' s1" "frame (feed, s) (feed', s1)" "Oracles s1 = Oracles s"
    "outside s1 = outside s" "fc_debt (feed_conf feed') = fc_debt (feed_conf feed)"
    using run set_window_scope [OF lo(4) [OF ok], of w] w
    by (cases "fc_owner (feed_conf feed) = who") (auto simp: with_feed_iff dispatch_simps ensure_owner_def)
  from ledger_drop [of s feed feed' s1 R] lo(1-3) s1 show ?thesis
    using idle_scope [of s f "feed_conf feed" s1 "feed_conf feed'" R] withdrawable_cong [OF s1(3)] by simp
qed (simp_all add: idle)

lemma owners_ledger:
  assumes "transfer_ownership origin f a s = (res, s') \<or> accept_ownership origin f s = (res, s')"
  shows "ledger_of R s' = ledger_of R s"
  using assms unfolding transfer_ownership_def accept_ownership_def
  by (elim disjE signedE checkedE)
    (auto simp: dispatch_simps ledger_of_def debt_of_def withdrawable_of_def fun_eq_iff)

lemma permissions_ledger:
  assumes "set_requester origin f a d s = (res, s') \<or> remove_requester origin f a s = (res, s') \<or>
    transfer_pallet_admin origin a s = (res, s') \<or> accept_pallet_admin origin s = (res, s') \<or>
    set_feed_creator origin a s = (res, s') \<or> remove_feed_creator origin a s = (res, s')"
  shows "ledger_of R s' = ledger_of R s"
  using assms unfolding set_requester_def remove_requester_def transfer_pallet_admin_def accept_pallet_admin_def
    set_feed_creator_def remove_feed_creator_def Let_def
  by (elim disjE signedE checkedE)
    (auto simp: ledger_of_def debt_of_def withdrawable_of_def fun_eq_iff)

lemma admins_ledger:
  assumes "transfer_admin origin a b s = (res, s') \<or> accept_admin origin a s = (res, s')"
  shows "ledger_of R s' = ledger_of R s"
  using assms unfolding transfer_admin_def accept_admin_def
  by (elim disjE signedE checkedE)
    (auto simp: dispatch_simps ledger_of_def debt_of_def withdrawable_of_def fun_eq_iff)

lemma transfer_keeps_reserve:
  "currency_ok R \<Longrightarrow> transfer (Currency R) a b n w = (x, w') \<Longrightarrow> reserve_of R w' = reserve_of R w"
  using transfer_reserved [of "Currency R" a b n w x w' "fund_account R"] by (simp add: currency_ok_def reserve_of_def)

lemma withdraw_funds_ledger:
  assumes "withdraw_funds R origin b n s = (res, s')" "currency_ok R"
  shows "ledger_of R s' = ledger_of R s"
  using assms(1) unfolding withdraw_funds_def Let_def
  by (elim signedE checkedE)
    (auto simp: ledger_of_def debt_of_def withdrawable_of_def fun_eq_iff
      dest: transfer_keeps_reserve [OF assms(2)] split: prod.splits option.splits)

lemma reduce_debt_ledger:
  assumes "reduce_debt R origin f n s = (res, s')" "currency_ok R"
  shows "ledger_step (ledger_of R s) (ledger_of R s')"
  using assms(1)
proof (rule reduce_debt_Ok)
  fix feed w x
  assume l: "load_from s f = Some feed"
    and res: "reserve (Currency R) (fund_account R) (min n (fc_debt (feed_conf feed))) (outside s) = (x, w)"
    and s': "s' = s\<lparr>outside := w, Feeds := (Feeds s)(f \<mapsto> (feed_conf feed)\<lparr>fc_debt :=
       if x = None then saturating_sub (fc_debt (feed_conf feed)) n else fc_debt (feed_conf feed)\<rparr>)\<rparr>"
  let ?d = "fc_debt (feed_conf feed)"
  note lo = load_from_ok [OF l]
  have d: "debt_of s f = unat ?d" using lo(3) by (rule debt_of_loaded)
  show ?thesis
  proof (cases x)
    case None
    let ?m = "unat (min n ?d)"
    have m: "?m \<le> unat ?d" "unat ?d - ?m = unat (saturating_sub ?d n)"
      by (auto simp: min_def word_le_nat_alt unat_saturating_sub)
    have "ledger_of R s' = (ledger_of R s)\<lparr>backed := backed (ledger_of R s) + ?m,
        debts := (debts (ledger_of R s))(f := debts (ledger_of R s) f - ?m)\<rparr>"
      using None reserve_paid [OF assms(2), of "min n ?d" "outside s" w] res m d
      by (auto simp: ledger_of_def s' withdrawable_of_def debt_of_def fun_eq_iff)
    then show ?thesis using settle [of ?m "ledger_of R s" f] m d by (simp add: ledger_of_def)
  next
    case (Some e)
    with res reserve_failed [OF assms(2)] have "w = outside s" by blast
    with Some d show ?thesis
      by (intro ledger_eq_idle) (auto simp: ledger_of_def s' withdrawable_of_def debt_of_def fun_eq_iff lo(3))
  qed
qed (simp add: idle)

lemma withdraw_payment_ledger:
  assumes "withdraw_payment R origin a b n s = (Ok u, s')" "currency_ok R"
  shows "ledger_step (ledger_of R s) (ledger_of R s')"
proof -
  let ?C = "Currency R" and ?f = "fund_account R"
  from assms(1) obtain m x w where m: "Oracles s a = Some m" "checked_sub (om_withdrawable m) n = Some x"
      "n \<le> reserved_balance ?C ?f (outside s)"
    and w: "transfer ?C ?f b n (snd (unreserve ?C ?f n (outside s))) = (None, w)"
    and s': "s' = s\<lparr>outside := w, Oracles := (Oracles s)(a \<mapsto> m\<lparr>om_withdrawable := x\<rparr>)\<rparr>"
    by (cases "transfer ?C ?f b n (snd (unreserve ?C ?f n (outside s)))"; cases "fst (transfer ?C ?f b n (snd (unreserve ?C ?f n (outside s))))")
      (auto simp: withdraw_payment_def Let_def dispatch_simps)
  have "reserve_of R (snd (unreserve ?C ?f n (outside s))) = reserve_of R (outside s) - unat n"
    using assms(2) unreserve_moves [of ?C ?f n "outside s"] by (simp add: currency_ok_def reserve_of_def prod_eq_iff)
  then have "reserve_of R w = reserve_of R (outside s) - unat n"
    using transfer_keeps_reserve [OF assms(2) w] by simp
  then have "ledger_of R s' = (ledger_of R s)\<lparr>owed := (owed (ledger_of R s))(a := owed (ledger_of R s) a - unat n),
      backed := backed (ledger_of R s) - unat n\<rparr>"
    using checked_sub_Some [OF m(2)] m(1)
    by (auto simp: ledger_of_def s' withdrawable_of_def debt_of_def fun_eq_iff)
  moreover have "unat n \<le> owed (ledger_of R s) a" "unat n \<le> backed (ledger_of R s)"
    using checked_sub_Some [OF m(2)] m(1,3) by (simp_all add: ledger_of_def withdrawable_of_def reserve_of_def word_le_nat_alt)
  ultimately show ?thesis using payout by metis
qed

lemmas call_idle = owners_ledger [OF disjI1] owners_ledger [OF disjI2] admins_ledger [OF disjI1]
  admins_ledger [OF disjI2] permissions_ledger [OF disjI1] permissions_ledger [OF disjI2 [OF disjI1]]
  permissions_ledger [OF disjI2 [OF disjI2 [OF disjI1]]]
  permissions_ledger [OF disjI2 [OF disjI2 [OF disjI2 [OF disjI1]]]]
  permissions_ledger [OF disjI2 [OF disjI2 [OF disjI2 [OF disjI2 [OF disjI1]]]]]
  permissions_ledger [OF disjI2 [OF disjI2 [OF disjI2 [OF disjI2 [OF disjI2]]]]]
  withdraw_funds_ledger

lemmas call_ledger = create_feed_ledger set_pruning_window_ledger submit_ledger change_oracles_ledger
  update_future_rounds_ledger request_new_round_ledger reduce_debt_ledger withdraw_payment_ledger
  call_idle [THEN ledger_eq_idle]

lemma dispatch_ledger:
  assumes "dispatch_call R origin call s = (res, s')" "feeds_ok R s" "rounds_left s" "runtime_ok R" "currency_ok R"
    "call_fits call" "res = Ok () \<or> (\<forall>a b n. call \<noteq> WithdrawPayment a b n)"
  shows "ledger_step (ledger_of R s) (ledger_of R s')"
  using assms by (cases call) (auto elim: call_ledger)

end
