(* ===== verification/Feed_Roles.thy ===== *)
theory Feed_Roles
  imports Feed_Calls
begin

text \<open>
  Who may do what. The owner of a feed, the admin of an oracle and the admin of the pallet
  are handed over in two steps, a nomination and its acceptance: the locale
  \<open>two_step_transfer\<close> is that contract, interpreted on the three pairs of dispatchables.
  Every other call leaves all three roles alone, and no call makes an oracle forget the
  last round it reported to.
\<close>

section \<open>Roles\<close>

type_synonym role = "account_id \<times> account_id option"

definition feed_role :: "feed_id \<Rightarrow> 'w storage \<Rightarrow> role option" where
  "feed_role f s = map_option (\<lambda>c. (fc_owner c, fc_pending_owner c)) (Feeds s f)"

definition admin_role :: "account_id \<Rightarrow> 'w storage \<Rightarrow> role option" where
  "admin_role a s = map_option (\<lambda>m. (om_admin m, om_pending_admin m)) (Oracles s a)"

definition pallet_role :: "'w storage \<Rightarrow> role option" where
  "pallet_role s = Some (PalletAdmin s, PendingPalletAdmin s)"

section \<open>The contract of a transfer in two steps\<close>

locale two_step_transfer =
  fixes role_of :: "'s \<Rightarrow> role option"
    and nominate :: "origin \<Rightarrow> account_id \<Rightarrow> 's \<Rightarrow> unit result \<times> 's"
    and accept :: "origin \<Rightarrow> 's \<Rightarrow> unit result \<times> 's"
  assumes nominate_holder: "role_of s = Some (h, p) \<Longrightarrow>
      \<exists>s'. nominate (Signed h) x s = (Ok (), s') \<and> role_of s' = Some (h, Some x)"
    and nominate_others: "\<not> (\<exists>h p. role_of s = Some (h, p) \<and> origin = Signed h) \<Longrightarrow> \<exists>e. nominate origin x s = (Err e, s)"
    and accept_pending: "role_of s = Some (h, Some x) \<Longrightarrow>
      \<exists>s'. accept (Signed x) s = (Ok (), s') \<and> role_of s' = Some (x, None)"
    and accept_others: "\<not> (\<exists>h x. role_of s = Some (h, Some x) \<and> origin = Signed x) \<Longrightarrow> \<exists>e. accept origin s = (Err e, s)"
begin

text \<open>The holder can hand over to anyone, and only the nominee then can take over.\<close>

lemma handover:
  assumes "role_of s = Some (h, p)"
  obtains s1 s2 where "nominate (Signed h) x s = (Ok (), s1)" "accept (Signed x) s1 = (Ok (), s2)"
    "role_of s2 = Some (x, None)" "\<And>y. y \<noteq> x \<Longrightarrow> \<exists>e. accept (Signed y) s1 = (Err e, s1)"
proof -
  from nominate_holder [OF assms] obtain s1 where s1: "nominate (Signed h) x s = (Ok (), s1)" "role_of s1 = Some (h, Some x)"
    by blast
  from accept_pending [OF s1(2)] obtain s2 where "accept (Signed x) s1 = (Ok (), s2)" "role_of s2 = Some (x, None)"
    by blast
  with s1 show thesis using that accept_others [of s1] by auto
qed

lemma nominate_cases:
  assumes "nominate origin x s = (res, s')"
  shows "s' = s \<or> (\<exists>h p. role_of s = Some (h, p) \<and> origin = Signed h \<and> role_of s' = Some (h, Some x))"
proof (cases "\<exists>h p. role_of s = Some (h, p) \<and> origin = Signed h")
  case True
  with nominate_holder [of s] assms show ?thesis by (metis prod.inject)
next
  case False
  with nominate_others assms show ?thesis by (metis prod.inject)
qed

lemma accept_cases:
  assumes "accept origin s = (res, s')"
  shows "s' = s \<or> (\<exists>h x. role_of s = Some (h, Some x) \<and> origin = Signed x \<and> role_of s' = Some (x, None))"
proof (cases "\<exists>h x. role_of s = Some (h, Some x) \<and> origin = Signed x")
  case True
  with accept_pending [of s] assms show ?thesis by (metis prod.inject)
next
  case False
  with accept_others assms show ?thesis by (metis prod.inject)
qed

end

interpretation feed_owner: two_step_transfer "feed_role f" "\<lambda>origin x. transfer_ownership origin f x"
    "\<lambda>origin. accept_ownership origin f" for f
proof
  show "\<exists>s'. transfer_ownership (Signed h) f x s = (Ok (), s') \<and> feed_role f s' = Some (h, Some x)"
    if "feed_role f s = Some (h, p)" for s :: "'a storage" and h p x
    using that by (auto simp: feed_role_def transfer_ownership_def)
  show "\<exists>e. transfer_ownership origin f x s = (Err e, s)"
    if "\<not> (\<exists>h p. feed_role f s = Some (h, p) \<and> origin = Signed h)" for s :: "'a storage" and origin x
    using that by (cases origin; cases "Feeds s f")
      (auto simp: feed_role_def transfer_ownership_def ensure_signed_def ensure_def)
  show "\<exists>s'. accept_ownership (Signed x) f s = (Ok (), s') \<and> feed_role f s' = Some (x, None)"
    if "feed_role f s = Some (h, Some x)" for s :: "'a storage" and h x
    using that by (auto simp: feed_role_def accept_ownership_def)
  show "\<exists>e. accept_ownership origin f s = (Err e, s)"
    if "\<not> (\<exists>h x. feed_role f s = Some (h, Some x) \<and> origin = Signed x)" for s :: "'a storage" and origin
    using that by (cases origin; cases "Feeds s f")
      (auto simp: feed_role_def accept_ownership_def ensure_signed_def ensure_def)
qed

interpretation oracle_admin: two_step_transfer "admin_role a" "\<lambda>origin x. transfer_admin origin a x"
    "\<lambda>origin. accept_admin origin a" for a
proof
  show "\<exists>s'. transfer_admin (Signed h) a x s = (Ok (), s') \<and> admin_role a s' = Some (h, Some x)"
    if "admin_role a s = Some (h, p)" for s :: "'a storage" and h p x
    using that by (auto simp: admin_role_def transfer_admin_def)
  show "\<exists>e. transfer_admin origin a x s = (Err e, s)"
    if "\<not> (\<exists>h p. admin_role a s = Some (h, p) \<and> origin = Signed h)" for s :: "'a storage" and origin x
    using that by (cases origin; cases "Oracles s a")
      (auto simp: admin_role_def transfer_admin_def ensure_signed_def ensure_def)
  show "\<exists>s'. accept_admin (Signed x) a s = (Ok (), s') \<and> admin_role a s' = Some (x, None)"
    if "admin_role a s = Some (h, Some x)" for s :: "'a storage" and h x
    using that by (auto simp: admin_role_def accept_admin_def)
  show "\<exists>e. accept_admin origin a s = (Err e, s)"
    if "\<not> (\<exists>h x. admin_role a s = Some (h, Some x) \<and> origin = Signed x)" for s :: "'a storage" and origin
    using that by (cases origin; cases "Oracles s a")
      (auto simp: admin_role_def accept_admin_def ensure_signed_def ensure_def)
qed

interpretation pallet_admin: two_step_transfer pallet_role transfer_pallet_admin accept_pallet_admin
proof
  show "\<exists>s'. transfer_pallet_admin (Signed h) x s = (Ok (), s') \<and> pallet_role s' = Some (h, Some x)"
    if "pallet_role s = Some (h, p)" for s :: "'a storage" and h p x
    using that by (auto simp: pallet_role_def transfer_pallet_admin_def)
  show "\<exists>e. transfer_pallet_admin origin x s = (Err e, s)"
    if "\<not> (\<exists>h p. pallet_role s = Some (h, p) \<and> origin = Signed h)" for s :: "'a storage" and origin x
    using that by (cases origin) (auto simp: pallet_role_def transfer_pallet_admin_def ensure_signed_def ensure_def)
  show "\<exists>s'. accept_pallet_admin (Signed x) s = (Ok (), s') \<and> pallet_role s' = Some (x, None)"
    if "pallet_role s = Some (h, Some x)" for s :: "'a storage" and h x
    using that by (auto simp: pallet_role_def accept_pallet_admin_def)
  show "\<exists>e. accept_pallet_admin origin s = (Err e, s)"
    if "\<not> (\<exists>h x. pallet_role s = Some (h, Some x) \<and> origin = Signed x)" for s :: "'a storage" and origin
    using that by (cases origin) (auto simp: pallet_role_def accept_pallet_admin_def ensure_signed_def ensure_def)
qed

section \<open>What every other call leaves alone\<close>

definition admins_kept :: "'w storage \<Rightarrow> 'w storage \<Rightarrow> bool" where
  "admins_kept s s' \<longleftrightarrow> (\<forall>a x. admin_role a s = Some x \<longrightarrow> admin_role a s' = Some x)"

definition roles_kept :: "'w storage \<Rightarrow> 'w storage \<Rightarrow> bool" where
  "roles_kept s s' \<longleftrightarrow> (\<forall>f x. feed_role f s = Some x \<longrightarrow> feed_role f s' = Some x) \<and>
     admins_kept s s' \<and> pallet_role s' = pallet_role s"

definition reports_grow :: "'w storage \<Rightarrow> 'w storage \<Rightarrow> bool" where
  "reports_grow s s' \<longleftrightarrow> (\<forall>f a l. reported (OracleStatuses s f) a = Some l \<longrightarrow>
     (\<exists>l'. reported (OracleStatuses s' f) a = Some l' \<and> l \<le> l'))"

lemma kept_refl [simp]: "roles_kept s s" "reports_grow s s"
  by (auto simp: roles_kept_def admins_kept_def reports_grow_def)

lemma reports_grow_trans: "reports_grow a b \<Longrightarrow> reports_grow b c \<Longrightarrow> reports_grow a c"
  unfolding reports_grow_def by (meson order_trans)

lemma reports_grow_same: "OracleStatuses s' = OracleStatuses s \<Longrightarrow> reports_grow s s'"
  by (simp add: reports_grow_def)

text \<open>After the scope of a feed, whose body kept its owners and the admins of oracles.\<close>

lemma roles_kept_drop:
  assumes "Feeds s (feed_ident feed) = Some (feed_conf feed)" "should_sync feed" "frame (feed, s) (feed', s')"
    and "fc_owner (feed_conf feed') = fc_owner (feed_conf feed)"
      "fc_pending_owner (feed_conf feed') = fc_pending_owner (feed_conf feed)"
    and "admins_kept s s'"
  shows "roles_kept s (drop_feed feed' s')"
  using assms
  by (auto simp: roles_kept_def admins_kept_def drop_feed_def sync_to_storage_def frame_def feed_role_def
      admin_role_def pallet_role_def)

lemma transactional_kept:
  assumes run: "with_transaction_result (\<lambda>s. bind_dispatch (ok_or (load_from s f) e, s) (\<lambda>feed s. with_feed feed body s)) s = (res, s')"
    and ok: "feeds_ok R s"
    and body: "\<And>feed u feed' s1. scope_ok R (feed, s) \<Longrightarrow> Feeds s f = Some (feed_conf feed) \<Longrightarrow> feed_ident feed = f \<Longrightarrow>
      body (feed, s) = (Ok u, (feed', s1)) \<Longrightarrow> frame (feed, s) (feed', s1) \<and>
      fc_owner (feed_conf feed') = fc_owner (feed_conf feed) \<and>
      fc_pending_owner (feed_conf feed') = fc_pending_owner (feed_conf feed) \<and>
      admins_kept s s1 \<and> reports_grow s s1"
  shows "roles_kept s s' \<and> reports_grow s s'"
  using run
proof (rule transactionalE)
  fix u feed feed' s1
  assume load: "load_from s f = Some feed" and b: "body (feed, s) = (Ok u, (feed', s1))" and s': "s' = drop_feed feed' s1"
  note l = load_from_ok [OF load]
  note h = body [OF l(4) [OF ok] l(3,1) b]
  have "reports_grow s (drop_feed feed' s1)"
    using h by (simp add: reports_grow_def drop_feed_def sync_to_storage_def)
  with h roles_kept_drop [of s feed feed' s1] l(1-3) show ?thesis by (simp add: s')
qed simp

lemma submit_kept:
  assumes "submit R origin f r v s = (res, s')" and ok: "feeds_ok R s" and left: "rounds_left s"
  shows "roles_kept s s' \<and> reports_grow s s'"
  using assms(1) unfolding submit_def
proof (rule signedE)
  fix who
  assume "with_transaction_result (\<lambda>s. bind_dispatch (ok_or (load_from s f) FeedNotFound, s)
      (\<lambda>feed s. with_feed feed (submit_body R who r v) s)) s = (res, s')"
  then show ?thesis using ok
  proof (rule transactional_kept)
    fix feed :: Feed and u feed' s1
    assume *: "scope_ok R (feed, s)" "Feeds s f = Some (feed_conf feed)" "feed_ident feed = f"
      and body: "submit_body R who r v (feed, s) = (Ok u, (feed', s1))"
    then have max: "reporting_round_id feed \<noteq> - 1" using left by (simp add: rounds_left_def reporting_round_id_def)
    note h = submit_body_Ok [OF body *(1) max]
    have "admins_kept s s1 \<and> reports_grow s s1"
      using body *(1) max
      by (rule submit_body_effect) (auto simp: admins_kept_def admin_role_def reports_grow_def reported_def intro: less_imp_le)
    with h keeps_settings_fields [of "feed_conf feed" "feed_conf feed'"]
    show "frame (feed, s) (feed', s1) \<and> fc_owner (feed_conf feed') = fc_owner (feed_conf feed) \<and>
      fc_pending_owner (feed_conf feed') = fc_pending_owner (feed_conf feed) \<and>
      admins_kept s s1 \<and> reports_grow s s1" by simp
  qed
qed simp

lemma admins_kept_same: "(\<And>a m. Oracles s a = Some m \<Longrightarrow> Oracles s' a = Some m) \<Longrightarrow> admins_kept s s'"
  by (auto simp: admins_kept_def admin_role_def)

lemma reports_grow_changed: "oracles_changed f r s s' \<Longrightarrow> reports_grow s s'"
  unfolding reports_grow_def
proof (intro allI impI)
  fix g a l
  assume "oracles_changed f r s s'" and "reported (OracleStatuses s g) a = Some l"
  then show "\<exists>l'. reported (OracleStatuses s' g) a = Some l' \<and> l \<le> l'"
    by (cases "g = f") (simp_all add: oracles_changed_def)
qed

lemma change_oracles_kept:
  assumes "change_oracles R origin f xs ys s = (res, s')" and ok: "feeds_ok R s" and R: "runtime_ok R"
    and len: "length xs < 2 ^ 32" "length ys < 2 ^ 32"
  shows "roles_kept s s' \<and> reports_grow s s'"
  using assms(1) unfolding change_oracles_def
proof (rule signedE)
  fix who
  assume "with_transaction_result (\<lambda>s. bind_dispatch (ok_or (load_from s f) FeedNotFound, s)
      (\<lambda>feed s. with_feed feed (\<lambda>(feed, s). bind_dispatch (ensure_owner feed who, (feed, s)) (\<lambda>_ scope.
         bind_dispatch (disable_oracles xs scope) (\<lambda>_ scope. add_oracles R ys scope))) s)) s = (res, s')"
  then show ?thesis using ok
    by (rule transactional_kept) (auto dest!: check_OkD change_oracles_scope [OF _ _ R len]
        intro!: admins_kept_same intro: reports_grow_changed simp: oracles_changed_def)
qed simp

lemma update_future_rounds_kept:
  assumes "update_future_rounds origin f p b d t s = (res, s')" and ok: "feeds_ok R s"
  shows "roles_kept s s' \<and> reports_grow s s'"
  using assms(1) unfolding update_future_rounds_def
proof (rule signedE)
  fix who
  assume "with_transaction_result (\<lambda>s. bind_dispatch (ok_or (load_from s f) FeedNotFound, s)
      (\<lambda>feed s. with_feed feed (\<lambda>(feed, s). bind_dispatch (ensure_owner feed who, (feed, s)) (\<lambda>_ scope.
         Feed_update_future_rounds p b d t scope)) s)) s = (res, s')"
  then show ?thesis using ok
    by (rule transactional_kept) (auto dest!: check_OkD simp: Feed_update_future_rounds_def frame_def
        split: if_splits prod.splits intro!: admins_kept_same reports_grow_same)
qed simp

lemma request_new_round_kept:
  assumes "request_new_round origin f s = (res, s')" and ok: "feeds_ok R s"
  shows "roles_kept s s' \<and> reports_grow s s'"
  using assms(1) unfolding request_new_round_def
proof (elim signedE checkedE)
  fix who requester
  assume "with_transaction_result (\<lambda>s. bind_dispatch (ok_or (load_from s f) FeedNotFound, s)
      (\<lambda>feed s. with_feed feed (request_new_round_body f who requester) s)) s = (res, s')"
  then show ?thesis using ok
    by (rule transactional_kept) (auto dest!: request_body_scope intro!: admins_kept_same reports_grow_same)
qed simp_all

lemma create_feed_kept:
  assumes create: "create_feed R origin p t vb m dec desc d oracles pw md s = (res, s')"
    and ok: "feeds_ok R s" and R: "runtime_ok R" and len: "length oracles < 2 ^ 32"
  shows "roles_kept s s' \<and> reports_grow s s'"
proof (cases "\<exists>u. res = Ok u")
  case True
  then obtain u where "create_feed R origin p t vb m dec desc d oracles pw md s = (Ok u, s')" using create by auto
  then show ?thesis using ok R len
  proof (rule create_feed_Ok)
    fix feed feed' s1
    assume f: "feed_ident feed = FeedCounter s" "should_sync feed"
      and frame: "frame (feed, s\<lparr>FeedCounter := FeedCounter s + 1\<rparr>) (feed', s1)"
      and old: "\<forall>a m. Oracles s a = Some m \<longrightarrow> Oracles s1 a = Some m" and s': "s' = drop_feed feed' s1"
      and new: "Feeds s (FeedCounter s) = None" "OracleStatuses s (FeedCounter s) = (\<lambda>_. None)"
    have "reports_grow s s'"
      unfolding reports_grow_def
    proof (intro allI impI)
      fix g a l
      assume "reported (OracleStatuses s g) a = Some l"
      with new have "g \<noteq> FeedCounter s" by (auto simp: reported_def)
      with frame f \<open>reported (OracleStatuses s g) a = Some l\<close>
      show "\<exists>l'. reported (OracleStatuses s' g) a = Some l' \<and> l \<le> l'"
        by (simp add: frame_def s' drop_feed_def sync_to_storage_def)
    qed
    moreover have "roles_kept s s'"
      using frame f old new by (auto simp: roles_kept_def admins_kept_def feed_role_def admin_role_def pallet_role_def
          s' drop_feed_def sync_to_storage_def frame_def)
    ultimately show ?thesis by simp
  qed
next
  case False
  with create have "s' = s"
    unfolding create_feed_def Let_def by (elim signedE checkedE) (auto dest: transaction_not_Ok)
  then show ?thesis by simp
qed

lemma set_pruning_window_kept:
  assumes "set_pruning_window origin f w s = (res, s')" and ok: "feeds_ok R s"
  shows "roles_kept s s' \<and> reports_grow s s'"
  using assms(1) unfolding set_pruning_window_def
proof (elim signedE checkedE)
  fix who u feed
  assume w: "ensure (0 < w) CannotPruneRoundZero = Ok u" and load: "ok_or (load_from s f) FeedNotFound = Ok feed"
    and run: "with_feed feed (\<lambda>(feed, s).
       bind_dispatch (ensure_owner feed who, (feed, s)) (\<lambda>_ (feed, s).
         (case prune_all (feed\<lparr>feed_conf := (feed_conf feed)\<lparr>fc_pruning_window := w\<rparr>\<rparr>, s) of
            Some scope \<Rightarrow> (Ok (), scope)
          | None \<Rightarrow> (Panic, (feed, s))))) s = (res, s')"
  from load have l: "load_from s f = Some feed" by (simp add: dispatch_simps)
  note lo = load_from_ok [OF l]
  obtain feed' s1 where s1: "s' = drop_feed feed' s1" "frame (feed, s) (feed', s1)" "Oracles s1 = Oracles s"
    "OracleStatuses s1 = OracleStatuses s" "fc_owner (feed_conf feed') = fc_owner (feed_conf feed)"
    "fc_pending_owner (feed_conf feed') = fc_pending_owner (feed_conf feed)"
    using run set_window_scope [OF lo(4) [OF ok], of w] w
    by (cases "fc_owner (feed_conf feed) = who") (auto simp: with_feed_iff dispatch_simps ensure_owner_def)
  have "reports_grow s s'" using s1 by (intro reports_grow_same) (simp add: drop_feed_def sync_to_storage_def)
  with roles_kept_drop [of s feed feed' s1] lo(1-3) s1 admins_kept_same [of s s1] show ?thesis by simp
qed simp_all

lemma other_calls_kept:
  assumes "set_requester origin f a d s = (res, s') \<or> remove_requester origin f a s = (res, s') \<or>
    set_feed_creator origin a s = (res, s') \<or> remove_feed_creator origin a s = (res, s') \<or>
    withdraw_payment R origin a b n s = (res, s') \<or> withdraw_funds R origin b n s = (res, s')"
  shows "roles_kept s s' \<and> reports_grow s s'"
  using assms unfolding set_requester_def remove_requester_def set_feed_creator_def remove_feed_creator_def
    withdraw_payment_def withdraw_funds_def Let_def
  by (elim disjE signedE checkedE)
    (auto simp: roles_kept_def admins_kept_def feed_role_def admin_role_def pallet_role_def dispatch_simps
      intro!: reports_grow_same split: prod.splits option.splits)

lemma reduce_debt_kept:
  assumes "reduce_debt R origin f n s = (res, s')"
  shows "roles_kept s s' \<and> reports_grow s s'"
  using assms
  by (rule reduce_debt_Ok) (auto simp: roles_kept_def admins_kept_def feed_role_def admin_role_def pallet_role_def
      load_from_def intro!: reports_grow_same)

section \<open>All calls\<close>

fun changes_role :: "feed_call \<Rightarrow> bool" where
  "changes_role (TransferOwnership f a) \<longleftrightarrow> True"
| "changes_role (AcceptOwnership f) \<longleftrightarrow> True"
| "changes_role (TransferAdmin a b) \<longleftrightarrow> True"
| "changes_role (AcceptAdmin a) \<longleftrightarrow> True"
| "changes_role (TransferPalletAdmin a) \<longleftrightarrow> True"
| "changes_role AcceptPalletAdmin \<longleftrightarrow> True"
| "changes_role _ \<longleftrightarrow> False"

lemmas call_kept = create_feed_kept set_pruning_window_kept submit_kept change_oracles_kept update_future_rounds_kept
  request_new_round_kept reduce_debt_kept other_calls_kept [OF disjI1] other_calls_kept [OF disjI2 [OF disjI1]]
  other_calls_kept [OF disjI2 [OF disjI2 [OF disjI1]]] other_calls_kept [OF disjI2 [OF disjI2 [OF disjI2 [OF disjI1]]]]
  other_calls_kept [OF disjI2 [OF disjI2 [OF disjI2 [OF disjI2 [OF disjI1]]]]]
  other_calls_kept [OF disjI2 [OF disjI2 [OF disjI2 [OF disjI2 [OF disjI2]]]]]

lemma dispatch_kept:
  assumes "dispatch_call R origin call s = (res, s')" "feeds_ok R s" "rounds_left s" "runtime_ok R" "call_fits call"
    "\<not> changes_role call"
  shows "roles_kept s s' \<and> reports_grow s s'"
  using assms by (cases call) (simp_all add: call_kept)

text \<open>A call that hands a role over leaves the other kinds of roles and the reports alone.\<close>

lemma ownership_frame:
  assumes "transfer_ownership origin f a s = (res, s') \<or> accept_ownership origin f s = (res, s')"
  shows "g \<noteq> f \<Longrightarrow> feed_role g s' = feed_role g s" "admin_role b s' = admin_role b s" "pallet_role s' = pallet_role s"
    "OracleStatuses s' = OracleStatuses s"
  using assms unfolding transfer_ownership_def accept_ownership_def
  by (elim disjE signedE checkedE; auto simp: feed_role_def admin_role_def pallet_role_def; fail)+

lemma admin_frame:
  assumes "transfer_admin origin a b s = (res, s') \<or> accept_admin origin a s = (res, s')"
  shows "c \<noteq> a \<Longrightarrow> admin_role c s' = admin_role c s" "feed_role f s' = feed_role f s" "pallet_role s' = pallet_role s"
    "OracleStatuses s' = OracleStatuses s"
  using assms unfolding transfer_admin_def accept_admin_def
  by (elim disjE signedE checkedE; auto simp: feed_role_def admin_role_def pallet_role_def; fail)+

lemma pallet_frame:
  assumes "transfer_pallet_admin origin a s = (res, s') \<or> accept_pallet_admin origin s = (res, s')"
  shows "admin_role c s' = admin_role c s" "feed_role f s' = feed_role f s" "OracleStatuses s' = OracleStatuses s"
  using assms unfolding transfer_pallet_admin_def accept_pallet_admin_def
  by (elim disjE signedE checkedE; auto simp: feed_role_def admin_role_def pallet_role_def; fail)+

lemma dispatch_reports_grow:
  assumes "dispatch_call R origin call s = (res, s')" "feeds_ok R s" "rounds_left s" "runtime_ok R" "call_fits call"
  shows "reports_grow s s'"
proof (cases "changes_role call")
  case True
  with assms(1) have "OracleStatuses s' = OracleStatuses s"
    by (cases call) (auto dest: ownership_frame(4) [OF disjI1] ownership_frame(4) [OF disjI2] admin_frame(4) [OF disjI1]
        admin_frame(4) [OF disjI2] pallet_frame(3) [OF disjI1] pallet_frame(3) [OF disjI2])
  then show ?thesis by (rule reports_grow_same)
next
  case False
  with dispatch_kept [OF assms] show ?thesis by simp
qed

definition role_step :: "('w storage \<Rightarrow> role option) \<Rightarrow> (account_id \<Rightarrow> feed_call) \<Rightarrow> feed_call \<Rightarrow> origin \<Rightarrow> feed_call \<Rightarrow>
    'w storage \<Rightarrow> 'w storage \<Rightarrow> bool" where
  "role_step role_of nominate accept origin call s s' \<longleftrightarrow> (\<forall>h p. role_of s = Some (h, p) \<longrightarrow>
     role_of s' = Some (h, p) \<or>
     (\<exists>x. call = nominate x \<and> origin = Signed h \<and> role_of s' = Some (h, Some x)) \<or>
     (\<exists>x. call = accept \<and> p = Some x \<and> origin = Signed x \<and> role_of s' = Some (x, None)))"

lemma role_step_same: "role_of s' = role_of s \<Longrightarrow> role_step role_of nominate accept origin call s s'"
  by (simp add: role_step_def)

lemma role_step_kept:
  assumes "roles_kept s s'"
  shows "role_step (feed_role f) nom acc origin call s s'" "role_step (admin_role a) nom acc origin call s s'"
    "role_step pallet_role nom acc origin call s s'"
  using assms by (auto simp: role_step_def roles_kept_def admins_kept_def)

lemma role_call_steps:
  assumes "dispatch_call R origin call s = (res, s')" "changes_role call"
  shows "role_step (feed_role f) (TransferOwnership f) (AcceptOwnership f) origin call s s' \<and>
    role_step (admin_role a) (TransferAdmin a) (AcceptAdmin a) origin call s s' \<and>
    role_step pallet_role TransferPalletAdmin AcceptPalletAdmin origin call s s'"
proof (cases call)
  case (TransferOwnership g x)
  with assms(1) have c: "transfer_ownership origin g x s = (res, s')" by simp
  with feed_owner.nominate_cases [OF c] ownership_frame [OF disjI1, OF c] TransferOwnership show ?thesis
    by (cases "f = g") (auto simp: role_step_def)
next
  case (AcceptOwnership g)
  with assms(1) have c: "accept_ownership origin g s = (res, s')" by simp
  with feed_owner.accept_cases [OF c] ownership_frame [OF disjI2, OF c] AcceptOwnership show ?thesis
    by (cases "f = g") (auto simp: role_step_def)
next
  case (TransferAdmin b x)
  with assms(1) have c: "transfer_admin origin b x s = (res, s')" by simp
  with oracle_admin.nominate_cases [OF c] admin_frame [OF disjI1, OF c] TransferAdmin show ?thesis
    by (cases "a = b") (auto simp: role_step_def)
next
  case (AcceptAdmin b)
  with assms(1) have c: "accept_admin origin b s = (res, s')" by simp
  with oracle_admin.accept_cases [OF c] admin_frame [OF disjI2, OF c] AcceptAdmin show ?thesis
    by (cases "a = b") (auto simp: role_step_def)
next
  case (TransferPalletAdmin x)
  with assms(1) have c: "transfer_pallet_admin origin x s = (res, s')" by simp
  with pallet_admin.nominate_cases [OF c] pallet_frame [OF disjI1, OF c] TransferPalletAdmin show ?thesis
    by (auto simp: role_step_def)
next
  case AcceptPalletAdmin
  with assms(1) have c: "accept_pallet_admin origin s = (res, s')" by simp
  with pallet_admin.accept_cases [OF c] pallet_frame [OF disjI2, OF c] AcceptPalletAdmin show ?thesis
    by (auto simp: role_step_def)
qed (use assms(2) in simp_all)

lemma dispatch_roles:
  assumes "dispatch_call R origin call s = (res, s')" "feeds_ok R s" "rounds_left s" "runtime_ok R" "call_fits call"
  shows "role_step (feed_role f) (TransferOwnership f) (AcceptOwnership f) origin call s s' \<and>
    role_step (admin_role a) (TransferAdmin a) (AcceptAdmin a) origin call s s' \<and>
    role_step pallet_role TransferPalletAdmin AcceptPalletAdmin origin call s s'"
proof (cases "changes_role call")
  case False
  with dispatch_kept [OF assms] role_step_kept show ?thesis by blast
next
  case True
  with assms(1) show ?thesis by (rule role_call_steps)
qed

end
