(* ===== verification/Feed_Sample.thy ===== *)
theory Feed_Sample
  imports Sample_Currency Feed_Ledger Feed_Roles
begin

text \<open>
  Short histories of the feed pallet, on the sample currency. They show that the hypotheses of
  the properties hold together: the states are reached from a genesis by calls of the pallet.
\<close>

section \<open>A runtime and its first feed\<close>

definition sample_runtime :: "balances runtime" where
  "sample_runtime =
     \<lparr>Currency = sample_currency, fund_account = 9, MinimumReserve = 1, StringLimit = 30, OracleCountLimit = 10,
      FeedLimit = 5, on_answer = on_answer_nop\<rparr>"

lemma sample_runtime_ok [simp]: "runtime_ok sample_runtime" "currency_ok sample_runtime"
  by (simp_all add: runtime_ok_def currency_ok_def sample_runtime_def sample_currency_reservable on_answer_nop_def reserve_of_def)

text \<open>
  Account 1 administers the pallet, 2 creates feeds, 3 and 4 are oracles whose admin is 5.
  The feed pays 2 for a submission, times out after 10 blocks and answers from one
  submission on.
\<close>

definition sample_genesis :: "balance \<Rightarrow> balances storage" where
  "sample_genesis funds = genesis_build (Some 1) [2] (empty_storage ((\<lambda>_. 0)(9 := funds), \<lambda>_. 0))"

definition sample_create :: "round_id option \<Rightarrow> feed_call" where
  "sample_create window = CreateFeed 2 10 (10, 1000) 1 2 ''BTC'' 0 [(3, 5), (4, 5)] window None"

text \<open>The storage after the feed is created in block 1.\<close>

definition sample_feed_config :: "round_id \<Rightarrow> FeedConfig" where
  "sample_feed_config window =
     \<lparr>fc_owner = 2, fc_pending_owner = None, fc_submission_value_bounds = (10, 1000),
      fc_submission_count_bounds = (1, 2), fc_payment = 2, fc_timeout = 10, fc_decimals = 2, fc_description = ''BTC'',
      fc_restart_delay = 0, fc_reporting_round = 0, fc_latest_round = 0, fc_first_valid_round = None,
      fc_oracle_count = 2, fc_pruning_window = window, fc_next_round_to_prune = 1, fc_debt = 0, fc_max_debt = None\<rparr>"

definition feed_store :: "round_id \<Rightarrow> balances storage" where
  "feed_store window = \<lparr>PalletAdmin = 1, PendingPalletAdmin = None, FeedCounter = 1, Feeds = [0 \<mapsto> sample_feed_config window],
     FeedCreators = [2 \<mapsto> ()], Rounds = dm_insert 0 0 (seed_round 1) (\<lambda>_ _. None), Details = \<lambda>_ _. None,
     Oracles = [3 \<mapsto> \<lparr>om_withdrawable = 0, om_admin = 5, om_pending_admin = None\<rparr>,
       4 \<mapsto> \<lparr>om_withdrawable = 0, om_admin = 5, om_pending_admin = None\<rparr>],
     OracleStatuses = dm_insert 0 4 (OracleStatus_new 0) (dm_insert 0 3 (OracleStatus_new 0) (\<lambda>_ _. None)),
     Requesters = \<lambda>_ _. None,
     Events = [OraclePermissionsUpdated 0 3 True, OraclePermissionsUpdated 0 4 True, RoundDetailsUpdated 0 2 (1, 2) 0 10,
       FeedCreated 0 2], block_num = 1, outside = ((\<lambda>_. 0)(9 := 100), \<lambda>_. 0)\<rparr>"

lemmas feed_eval =
  create_feed_def genesis_build_def empty_storage_def Let_def with_transaction_result_def checked_add_def with_feed_def
  Feed_new_def create_feed_body_def add_oracles_def oracle_count_def saturating_add_def reporting_round_id_def
  track_oracle_def enable_oracle_def deposit_event_def Feed_update_future_rounds_def drop_feed_def sync_to_storage_def
  submit_def load_from_def submit_body_def ensure_valid_round_def feed_status_def OracleStatus_new_def submit_open_def
  initialize_round_def saturating_sub_def is_timed_out_def feed_round_def feed_details_def submit_record_def
  submit_answer_def answer_round_def median_def fresh_details_def prune_oldest_def current_window_def
  submit_reserve_def submit_credit_def on_answer_nop_def Round_new_def is_supersedable_def was_updated_def
  set_requester_def request_new_round_def request_new_round_body_def Feed_request_new_round_def close_timed_out_round_def
  into_round_def seed_round_def

lemma window_five [simp]: "\<not> (5 :: round_id) \<le> 1" "\<not> (5 :: round_id) \<le> 2"
  by (simp_all add: word_le_nat_alt)

lemmas sample_eval = feed_eval sample_genesis_def sample_create_def sample_runtime_def sample_currency_def
  sample_reserve_def sample_unreserve_def sample_transfer_def feed_store_def sample_feed_config_def

lemma sample_created:
  "dispatch_call sample_runtime (Signed 2) (sample_create (Some 5)) ((sample_genesis 100)\<lparr>block_num := 1\<rparr>) = (Ok (), feed_store 5)"
  "dispatch_call sample_runtime (Signed 2) (sample_create (Some 1)) ((sample_genesis 100)\<lparr>block_num := 1\<rparr>) = (Ok (), feed_store 1)"
  by (simp_all add: sample_eval)

text \<open>
  Then oracle 3 answers round 1 with 500, oracle 4 answers round 2 with 600, account 6 may
  request rounds, and 20 blocks have passed.
\<close>

definition answered_store :: "round_id \<Rightarrow> balances storage" where
  "answered_store window = snd (dispatch_call sample_runtime (Signed 3) (Submit 0 1 500) (feed_store window))"

definition later_store :: "round_id \<Rightarrow> balances storage" where
  "later_store window = (snd (dispatch_call sample_runtime (Signed 2) (SetRequester 0 6 0)
     (snd (dispatch_call sample_runtime (Signed 4) (Submit 0 2 600) (answered_store window)))))\<lparr>block_num := 20\<rparr>"

lemma reachable_call:
  "reachable R s \<Longrightarrow> rounds_left s \<Longrightarrow> call_fits call \<Longrightarrow> reachable R (snd (dispatch_call R origin call s))"
  by (metis chain_step.call prod.collapse reachable.step)

lemma created_reachable: "window = 5 \<or> window = 1 \<Longrightarrow> reachable sample_runtime (feed_store window)"
proof -
  assume w: "window = 5 \<or> window = 1"
  have "reachable sample_runtime ((sample_genesis 100)\<lparr>block_num := 1\<rparr>)"
    unfolding sample_genesis_def by (rule reachable.step [OF reachable.genesis chain_step.block])
  moreover have "rounds_left ((sample_genesis 100)\<lparr>block_num := 1\<rparr>)" by (simp add: rounds_left_def sample_eval)
  moreover have "call_fits (sample_create x)" for x by (simp add: sample_create_def)
  ultimately have "reachable sample_runtime (snd (dispatch_call sample_runtime (Signed 2) (sample_create x)
      ((sample_genesis 100)\<lparr>block_num := 1\<rparr>)))" for x
    by (rule reachable_call)
  from this [of "Some 5"] this [of "Some 1"] w show ?thesis by (auto simp: sample_created)
qed


lemma sample_rounds_left:
  "rounds_left (feed_store window)"
  "window = 5 \<or> window = 1 \<Longrightarrow> rounds_left (answered_store window)"
  "window = 5 \<or> window = 1 \<Longrightarrow> rounds_left (snd (dispatch_call sample_runtime (Signed 4) (Submit 0 2 600) (answered_store window)))"
  "rounds_left (later_store 5)" "rounds_left (later_store 1)"
  by (auto simp: rounds_left_def answered_store_def later_store_def sample_eval)

lemma sample_reachable:
  assumes "window = 5 \<or> window = 1"
  shows "reachable sample_runtime (answered_store window)" "reachable sample_runtime (later_store window)"
proof -
  show *: "reachable sample_runtime (answered_store window)"
    unfolding answered_store_def using assms by (intro reachable_call created_reachable sample_rounds_left) simp_all
  have "reachable sample_runtime (snd (dispatch_call sample_runtime (Signed 4) (Submit 0 2 600) (answered_store window)))"
    using * assms by (intro reachable_call sample_rounds_left) simp_all
  then show "reachable sample_runtime (later_store window)"
    unfolding later_store_def using assms
    by (intro reachable.step [OF reachable_call chain_step.block] sample_rounds_left) simp_all
qed

text \<open>What the last of these states has stored, for a window of 5 rounds and for one of 1.\<close>

lemma later_five:
  "Feeds (later_store 5) 0 = Some ((sample_feed_config 5)\<lparr>fc_reporting_round := 2, fc_latest_round := 2, fc_first_valid_round := Some 1\<rparr>)"
  "Rounds (later_store 5) 0 1 = Some (into_round \<lparr>dat_started_at = 1, dat_answer = 500, dat_updated_at = 1, dat_answered_in_round = 1\<rparr>)"
  "Rounds (later_store 5) 0 2 = Some (into_round \<lparr>dat_started_at = 1, dat_answer = 600, dat_updated_at = 1, dat_answered_in_round = 2\<rparr>)"
  "Details (later_store 5) 0 2 = Some ((fresh_details (sample_feed_config 5))\<lparr>det_submissions := [600]\<rparr>)"
  by (simp_all add: later_store_def answered_store_def sample_eval)

lemma later_one:
  "Feeds (later_store 1) 0 = Some ((sample_feed_config 1)\<lparr>fc_reporting_round := 2, fc_latest_round := 2,
     fc_first_valid_round := Some 2, fc_next_round_to_prune := 2\<rparr>)"
  "Rounds (later_store 1) 0 1 = None"
  "Rounds (later_store 1) 0 2 = Some (into_round \<lparr>dat_started_at = 1, dat_answer = 600, dat_updated_at = 1, dat_answered_in_round = 2\<rparr>)"
  "Details (later_store 1) 0 2 = Some ((fresh_details (sample_feed_config 1))\<lparr>det_submissions := [600]\<rparr>)"
  by (simp_all add: later_store_def answered_store_def sample_eval)

lemma later_block [simp]: "block_num (later_store window) = 20"
  by (simp add: later_store_def)

end
