(* ===== verification/Feed_Properties.thy ===== *)
theory Feed_Properties
  imports Feed_Median Feed_Progress Feed_Stuck Feed_Sample
begin

text \<open>
  The properties of the feed pallet, each with a witness on the sample histories.
\<close>

section \<open>Rounds and answers\<close>

text \<open>
  C32. Whatever calls are made, by anyone, a feed that exists has data for its latest round, so
  that the default value of \<open>latest_data\<close> is never returned; exactly round 0 and the rounds
  from the oldest one that is not pruned to the reporting round are stored, and each of them
  has an answer, except perhaps the reporting round.
\<close>

theorem latest_data_always_available:
  assumes "reachable R s" "runtime_ok R" "pallet_feed s f = Some feed"
  shows "data_at (feed, s) (latest_round feed) = Some (latest_data (feed, s)) \<and>
    latest_round feed \<le> reporting_round_id feed \<and>
    (\<forall>r. feed_round (feed, s) r \<noteq> None \<longleftrightarrow>
       r = 0 \<or> fc_next_round_to_prune (feed_conf feed) \<le> r \<and> r \<le> reporting_round_id feed) \<and>
    (\<forall>r. feed_round (feed, s) r \<noteq> None \<and> r \<noteq> reporting_round_id feed \<longrightarrow> data_at (feed, s) r \<noteq> None)"
proof -
  have f: "feed_ident feed = f" "Feeds s f = Some (feed_conf feed)"
    using assms(3) by (auto simp: pallet_feed_def read_only_from_def)
  have ok: "rounds_ok (feed_conf feed) (Rounds s f) (Details s f)"
    using feeds_ok_feed [OF reachable_feeds_ok [OF assms(1,2)] f(2)] by simp
  have data: "complete x \<Longrightarrow> \<exists>d. try_from x = Some d" for x by (auto simp: complete_def try_from_def)
  show ?thesis
    using rounds_okD(1,6) [OF ok] rounds_ok_present [OF ok] rounds_ok_complete [OF ok] data f(1)
    by (fastforce simp: latest_data_def data_at_def latest_round_def feed_round_def reporting_round_id_def)
qed

theorem latest_data_always_available_witness:
  "\<exists>feed. pallet_feed (later_store 5) 0 = Some feed \<and>
     data_at (feed, later_store 5) (latest_round feed) = Some (latest_data (feed, later_store 5))"
proof -
  obtain feed where feed: "pallet_feed (later_store 5) 0 = Some feed"
    by (simp add: later_five pallet_feed_def read_only_from_def)
  with latest_data_always_available [OF sample_reachable(2) sample_runtime_ok(1) feed] show ?thesis by blast
qed

text \<open>
  The oracle count of a feed is the number of its enabled oracles, never more than the limit,
  and every oracle of it, enabled or not, has metadata to be paid on and has not reported to a
  round beyond the reporting one.
\<close>

theorem oracle_count_is_exact:
  assumes "reachable R s" "runtime_ok R" "Feeds s f = Some c"
  shows "unat (fc_oracle_count c) = card {a. \<exists>st. OracleStatuses s f a = Some st \<and> os_ending_round st = None} \<and>
    fc_oracle_count c \<le> OracleCountLimit R \<and>
    (\<forall>a st l. OracleStatuses s f a = Some st \<longrightarrow> Oracles s a \<noteq> None \<and>
       (os_last_reported_round st = Some l \<longrightarrow> l \<le> fc_reporting_round c))"
proof -
  have ok: "feeds_ok R s" using assms(1,2) by (rule reachable_feeds_ok)
  then have "oracles_ok R c (OracleStatuses s f)" using feeds_ok_feed assms(3) by blast
  moreover have "OracleStatuses s f a = Some st \<Longrightarrow> Oracles s a \<noteq> None" for a st
    using ok unfolding feeds_ok_def by blast
  ultimately show ?thesis
    by (simp add: oracles_ok_def enabled_oracles_def statuses_ok_def status_ok_def)
qed

theorem oracle_count_is_exact_witness:
  "card {a. \<exists>st. OracleStatuses (feed_store 5) 0 a = Some st \<and> os_ending_round st = None} = 2"
proof -
  obtain c where c: "Feeds (feed_store 5) 0 = Some c" "fc_oracle_count c = 2" by (auto simp: feed_store_def sample_feed_config_def)
  have "reachable sample_runtime (feed_store 5)" by (rule created_reachable) simp
  from oracle_count_is_exact [OF this sample_runtime_ok(1) c(1)] c(2) show ?thesis by simp
qed

lemma chain_step_reports_grow:
  assumes "chain_step R s s'" "feeds_ok R s" "runtime_ok R"
  shows "reports_grow s s'"
  using assms by cases (auto intro: reports_grow_same dispatch_reports_grow)

lemma chain_reports_grow:
  assumes "(chain_step R)\<^sup>*\<^sup>* s s'" "feeds_ok R s" "runtime_ok R"
  shows "reports_grow s s' \<and> feeds_ok R s'"
  using assms
  by (induction rule: rtranclp_induct)
    (auto intro: chain_step_feeds_ok reports_grow_trans chain_step_reports_grow)

lemma submit_reported:
  assumes submit: "submit R (Signed a) f r v s = (Ok (), s')" and ok: "feeds_ok R s" and left: "rounds_left s"
  shows "reported (OracleStatuses s' f) a = Some r"
    "reported (OracleStatuses s f) a = Some l \<Longrightarrow> l < r"
proof -
  from submit obtain feed feed' s1 where l: "load_from s f = Some feed"
    and b: "submit_body R a r v (feed, s) = (Ok (), (feed', s1))" and s': "s' = drop_feed feed' s1"
    by (auto simp: submit_def dispatch_simps with_feed_iff)
  note lf = load_from_ok [OF l]
  have max: "reporting_round_id feed \<noteq> - 1" using left lf(3) by (auto simp: rounds_left_def reporting_round_id_def)
  from submit_body_effect [OF b lf(4) [OF ok] max] lf(1)
  obtain st where "OracleStatuses s1 = dm_insert f a st (OracleStatuses s)" "os_last_reported_round st = Some r"
    "\<And>l. reported (OracleStatuses s f) a = Some l \<Longrightarrow> l < r"
    by metis
  then show "reported (OracleStatuses s' f) a = Some r" "reported (OracleStatuses s f) a = Some l \<Longrightarrow> l < r"
    by (auto simp: s' drop_feed_def sync_to_storage_def reported_def)
qed

text \<open>
  An oracle never reports twice to a round, nor to an earlier round than one it has reported
  to, whatever happens in between: disabling it and enabling it again included.
\<close>

theorem oracle_reports_in_order:
  assumes "reachable R s0" "runtime_ok R" "rounds_left s0" "rounds_left s2"
    and "submit R (Signed a) f q u s0 = (Ok (), s1)" "(chain_step R)\<^sup>*\<^sup>* s1 s2"
    and "submit R (Signed a) f r v s2 = (Ok (), s3)"
  shows "q < r"
proof -
  have ok0: "feeds_ok R s0" using assms(1,2) by (rule reachable_feeds_ok)
  then have ok1: "feeds_ok R s1" using submit_feeds_ok assms(3,5) by blast
  from chain_reports_grow [OF assms(6) ok1 assms(2)] have "reports_grow s1 s2" and ok2: "feeds_ok R s2" by simp_all
  with submit_reported(1) [OF assms(5) ok0 assms(3)]
  obtain l where "reported (OracleStatuses s2 f) a = Some l" "q \<le> l" unfolding reports_grow_def by blast
  with submit_reported(2) [OF assms(7) ok2 assms(4)] show ?thesis by fastforce
qed

theorem oracle_reports_in_order_witness:
  "\<exists>s1 s2 s3. submit sample_runtime (Signed 3) 0 1 500 (feed_store 5) = (Ok (), s1) \<and>
     (chain_step sample_runtime)\<^sup>*\<^sup>* s1 s2 \<and> submit sample_runtime (Signed 3) 0 2 700 s2 = (Ok (), s3) \<and> (1::round_id) < 2"
proof -
  have s1: "submit sample_runtime (Signed 3) 0 1 500 (feed_store 5) = (Ok (), answered_store 5)"
    by (simp add: answered_store_def sample_eval)
  obtain s3 where s3: "submit sample_runtime (Signed 3) 0 2 700 (answered_store 5) = (Ok (), s3)"
    by (simp add: answered_store_def sample_eval)
  have "reachable sample_runtime (feed_store 5)" by (rule created_reachable) simp
  from oracle_reports_in_order [OF this sample_runtime_ok(1) sample_rounds_left(1,2) s1 _ s3] s1 s3
  show ?thesis by blast
qed

lemma submit_answers:
  assumes "reachable R s" "runtime_ok R" "rounds_left s" "Feeds s f = Some c"
    and "submit R (Signed a) f r v s = (Ok (), s')"
    and "d = details_for c (Details s f r)" "xs = det_submissions d @ [v]"
  shows "\<exists>feed. pallet_feed s' f = Some feed \<and>
    (if length xs < unat (fst (det_submission_count_bounds d)) then latest_round feed = fc_latest_round c
     else latest_round feed = r \<and> (\<exists>m x. median xs = Some (m, sort xs) \<and>
       latest_data (feed, s') = \<lparr>dat_started_at = x, dat_answer = m, dat_updated_at = block_num s,
         dat_answered_in_round = r\<rparr>)) \<and>
    (if length xs < unat (snd (det_submission_count_bounds d))
     then \<exists>ys. sort ys = sort xs \<and> feed_details (feed, s') r = Some (d\<lparr>det_submissions := ys\<rparr>)
     else feed_details (feed, s') r = None)"
proof -
  from assms(5) obtain feed feed' s1 where l: "load_from s f = Some feed"
    and b: "submit_body R a r v (feed, s) = (Ok (), (feed', s1))" and s': "s' = drop_feed feed' s1"
    by (auto simp: submit_def dispatch_simps with_feed_iff)
  have ok: "feeds_ok R s" using assms(1,2) by (rule reachable_feeds_ok)
  note lf = load_from_ok [OF l]
  have c: "feed_conf feed = c" using lf(3) assms(4) by simp
  have max: "reporting_round_id feed \<noteq> - 1" using assms(3) lf(3) by (auto simp: rounds_left_def reporting_round_id_def)
  have ids: "feed_ident feed' = f" "should_sync feed'"
    using submit_body_Ok [OF b lf(4) [OF ok] max] lf(1,2) by (auto simp: frame_def)
  let ?feed = "\<lparr>feed_ident = f, feed_conf = feed_conf feed', should_sync = False\<rparr>"
  have "pallet_feed s' f = Some ?feed" "Rounds s' = Rounds s1" "Details s' = Details s1"
    by (simp_all add: pallet_feed_def read_only_from_def s' drop_feed_def sync_to_storage_def ids)
  with submit_body_answer [OF b lf(4) [OF ok] max] show ?thesis
    by (auto simp: lf(1) c assms(6,7) latest_round_def latest_data_def data_at_def feed_round_def feed_details_def
        into_round_def try_from_def)
qed

text \<open>
  C33. What a submission does to the answer: the submissions of the round with the new one become,
  once they are as many as the minimum of the round, its answer by their median, and the round
  the latest one; before that the latest round stays. The answer is a value of which, if the
  submissions are below \<open>2 ^ 127\<close>, at most half of them are smaller and at most half larger. The
  round takes further submissions until they are as many as its maximum.
\<close>

theorem submit_answers_with_median:
  assumes "reachable R s" "runtime_ok R" "rounds_left s" "Feeds s f = Some c"
    and "submit R (Signed a) f r v s = (Ok (), s')"
    and "d = details_for c (Details s f r)" "xs = det_submissions d @ [v]"
  shows "\<exists>feed. pallet_feed s' f = Some feed \<and>
    (if length xs < unat (fst (det_submission_count_bounds d)) then latest_round feed = fc_latest_round c
     else latest_round feed = r \<and> (\<exists>m x. median xs = Some (m, sort xs) \<and>
       ((\<forall>y\<in>set xs. y < 2 ^ 127) \<longrightarrow>
         2 * length (filter (\<lambda>y. y < m) xs) \<le> length xs \<and> 2 * length (filter (\<lambda>y. m < y) xs) \<le> length xs) \<and>
       latest_data (feed, s') = \<lparr>dat_started_at = x, dat_answer = m, dat_updated_at = block_num s,
         dat_answered_in_round = r\<rparr>)) \<and>
    (if length xs < unat (snd (det_submission_count_bounds d))
     then \<exists>ys. sort ys = sort xs \<and> feed_details (feed, s') r = Some (d\<lparr>det_submissions := ys\<rparr>)
     else feed_details (feed, s') r = None)"
proof -
  have "xs \<noteq> []" using assms(7) by simp
  then have "2 * length (filter (\<lambda>y. y < m) xs) \<le> length xs \<and> 2 * length (filter (\<lambda>y. m < y) xs) \<le> length xs"
    if "median xs = Some (m, sort xs)" "\<forall>y\<in>set xs. y < 2 ^ 127" for m
    using median_is_middle [of xs] that by auto
  with submit_answers [OF assms] show ?thesis by (elim exE conjE, intro exI conjI) (auto split: if_splits)
qed

theorem submit_answers_with_median_witness:
  "\<exists>feed s'. submit sample_runtime (Signed 4) 0 1 700 (answered_store 5) = (Ok (), s') \<and>
     pallet_feed s' 0 = Some feed \<and> dat_answer (latest_data (feed, s')) = 600 \<and> feed_details (feed, s') 1 = None"
proof -
  have r: "reachable sample_runtime (answered_store 5)" "rounds_left (answered_store 5)"
    by (simp_all add: sample_reachable sample_rounds_left)
  obtain s' where s': "submit sample_runtime (Signed 4) 0 1 700 (answered_store 5) = (Ok (), s')"
    by (simp add: answered_store_def sample_eval)
  obtain c where c: "Feeds (answered_store 5) 0 = Some c" by (simp add: answered_store_def sample_eval)
  have d: "details_for c (Details (answered_store 5) 0 1) =
      \<lparr>det_submissions = [500], det_submission_count_bounds = (1, 2), det_payment = 2, det_timeout = 10\<rparr>"
    by (simp add: details_for_def answered_store_def sample_eval)
  have "median [500, 700] = Some (600, [500, 700])" by (simp add: median_def saturating_add_def)
  with submit_answers_with_median [OF r(1) sample_runtime_ok(1) r(2) c s' d [symmetric] refl] s' show ?thesis by auto
qed

text \<open>
  A submission that is in order is accepted: an enabled oracle that has not reported to it yet can
  report to the reporting round while that takes submissions, and can start the next round when
  the reporting one is answered and its own delay is over, with any value within the bounds. The
  payment does not stand in the way, with a feed whose debt is not limited, whatever the currency
  answers. The round is then the last one it has reported to.
\<close>

theorem submissions_are_accepted:
  assumes "reachable R s" "runtime_ok R" "rounds_left s" "load_from s f = Some feed"
    and "OracleStatuses s f a = Some st" "may_report (feed, s) st r"
    and "payable (feed, s) a (det_payment (details_for (feed_conf feed) (Details s f r)))"
    and "in_bounds (fc_submission_value_bounds (feed_conf feed)) v"
  shows "\<exists>s' st'. submit R (Signed a) f r v s = (Ok (), s') \<and>
    OracleStatuses s' f a = Some st' \<and> os_last_reported_round st' = Some r"
proof -
  have ok: "feeds_ok R s" using assms(1,2) by (rule reachable_feeds_ok)
  note l = load_from_ok [OF assms(4)]
  have max: "reporting_round_id feed \<noteq> - 1" using assms(3) l(3) by (auto simp: rounds_left_def reporting_round_id_def)
  have "\<exists>scope. submit_body R a r v (feed, s) = (Ok (), scope)"
    using submit_body_succeeds [OF assms(6) _ _ assms(8) l(4) [OF ok] max] assms(5,7) l(1) by simp
  then obtain s' where run: "submit R (Signed a) f r v s = (Ok (), s')"
    using assms(4) by (auto simp: submit_def with_transaction_result_def with_feed_def)
  from submit_reported(1) [OF this ok assms(3)] run show ?thesis by (auto simp: reported_def bind_eq_Some_conv)
qed

theorem submissions_are_accepted_witness:
  "\<exists>s'. submit sample_runtime (Signed 3) 0 1 500 (feed_store 5) = (Ok (), s')"
proof -
  let ?s = "feed_store 5" and ?feed = "Feed_new 0 (sample_feed_config 5)"
  have l: "load_from ?s 0 = Some ?feed" "OracleStatuses ?s 0 3 = Some (OracleStatus_new 0)"
    by (simp_all add: load_from_def feed_store_def Feed_new_def)
  have may: "may_report (?feed, ?s) (OracleStatus_new 0) 1"
    by (simp add: may_report_def OracleStatus_new_def Feed_new_def sample_feed_config_def reporting_round_id_def
        is_supersedable_def is_timed_out_def feed_store_def)
  have pay: "payable (?feed, ?s) 3 (det_payment (details_for (feed_conf ?feed) (Details ?s 0 1)))"
    by (simp add: payable_def Feed_new_def sample_feed_config_def feed_store_def details_for_def fresh_details_def)
  have v: "in_bounds (fc_submission_value_bounds (feed_conf ?feed)) 500"
    by (simp add: in_bounds_def Feed_new_def sample_feed_config_def word_le_nat_alt)
  have "reachable sample_runtime ?s" by (rule created_reachable) simp
  from submissions_are_accepted [OF this sample_runtime_ok(1) sample_rounds_left(1) l may pay v] show ?thesis by blast
qed

text \<open>
  The window of stored rounds can be narrowed at any time: the loop of \<open>set_pruning_window\<close> ends,
  and afterwards fewer answered rounds than the window are stored before the latest one, while all
  rounds from the oldest one left to the reporting one are there.
\<close>

theorem set_pruning_window_ends:
  assumes "reachable R s" "runtime_ok R" "Feeds s f = Some c" "0 < window"
  shows "\<exists>s' feed. set_pruning_window (Signed (fc_owner c)) f window s = (Ok (), s') \<and> pallet_feed s' f = Some feed \<and>
    fc_pruning_window (feed_conf feed) = window \<and> current_window feed < window \<and>
    (\<forall>r. feed_round (feed, s') r \<noteq> None \<longleftrightarrow>
       r = 0 \<or> fc_next_round_to_prune (feed_conf feed) \<le> r \<and> r \<le> reporting_round_id feed) \<and>
    (\<exists>data. data_at (feed, s') (latest_round feed) = Some data)"
proof -
  define feed where "feed = \<lparr>feed_ident = f, feed_conf = c, should_sync = True\<rparr>"
  have l: "load_from s f = Some feed" using assms(3) by (simp add: load_from_def feed_def)
  have "scope_ok R (feed, s)" using load_from_ok(4) [OF l reachable_feeds_ok [OF assms(1,2)]] .
  from set_window_scope [OF this assms(4)] obtain feed' s1 where
      p: "prune_all (feed\<lparr>feed_conf := (feed_conf feed)\<lparr>fc_pruning_window := window\<rparr>\<rparr>, s) = Some (feed', s1)"
    and fr: "frame (feed, s) (feed', s1)" and ok: "scope_ok R (feed', s1)"
    and w: "fc_pruning_window (feed_conf feed') = window" "current_window feed' < window"
    by blast
  have ids: "feed_ident feed' = f" "should_sync feed'" using fr by (simp_all add: frame_def feed_def)
  let ?s = "drop_feed feed' s1" and ?feed = "\<lparr>feed_ident = f, feed_conf = feed_conf feed', should_sync = False\<rparr>"
  have run: "set_pruning_window (Signed (fc_owner c)) f window s = (Ok (), ?s)"
    using assms(4) l p by (simp add: set_pruning_window_def with_feed_def ensure_owner_def feed_def)
  have "pallet_feed ?s f = Some ?feed" "Rounds ?s = Rounds s1"
    by (simp_all add: pallet_feed_def read_only_from_def drop_feed_def sync_to_storage_def ids)
  moreover note rok = scope_ok_rounds [OF ok, unfolded ids]
  obtain x where "Rounds s1 f (fc_latest_round (feed_conf feed')) = Some x" "complete x" using rounds_okD(6) [OF rok] by blast
  moreover have "try_from x \<noteq> None" using calculation(4) by (auto simp: complete_def try_from_def)
  ultimately show ?thesis
    using run w rounds_ok_present [OF rok]
    by (intro exI [of _ ?s] exI [of _ ?feed])
      (auto simp: feed_round_def reporting_round_id_def current_window_def data_at_def latest_round_def)
qed

theorem set_pruning_window_ends_witness:
  "\<exists>s' feed. set_pruning_window (Signed 2) 0 1 (later_store 5) = (Ok (), s') \<and> pallet_feed s' 0 = Some feed \<and>
     current_window feed < 1"
proof -
  obtain c where c: "Feeds (later_store 5) 0 = Some c" "fc_owner c = 2"
    by (auto simp: later_five sample_feed_config_def)
  have "reachable sample_runtime (later_store 5)" by (rule sample_reachable) simp
  from set_pruning_window_ends [OF this sample_runtime_ok(1) c(1), of 1] c(2) show ?thesis by fastforce
qed

section \<open>Rounds that time out after they are answered\<close>

text \<open>
  When a round that is answered but not full has timed out, requesting the next one replaces its
  answer by that of the round before: the latest data of the feed goes back to an older answer,
  with the current block as the time of its update.
\<close>

theorem timed_out_answer_is_replaced:
  assumes "reachable R s" "runtime_ok R" "rounds_left s" "load_from s f = Some feed"
    and "latest_round feed = reporting_round_id feed" "is_timed_out (feed, s) (reporting_round_id feed)"
    and "data_at (feed, s) (saturating_sub (reporting_round_id feed) 1) = Some older"
    and "request_new_round (Signed who) f s = (Ok (), s')"
  shows "\<exists>feed'. pallet_feed s' f = Some feed' \<and> latest_round feed' = latest_round feed \<and>
    dat_answer (latest_data (feed', s')) = dat_answer older \<and>
    dat_answered_in_round (latest_data (feed', s')) = dat_answered_in_round older \<and>
    dat_updated_at (latest_data (feed', s')) = block_num s"
proof -
  let ?n = "reporting_round_id feed"
  obtain prev where prev: "Rounds s f (saturating_sub ?n 1) = Some prev" "try_from prev = Some older"
    using assms(7) load_from_ok(1) [OF assms(4)] by (auto simp: data_at_def split: option.splits)
  from request_overwrites [OF assms(8,4) reachable_feeds_ok [OF assms(1,2)] assms(3,6) prev(1)]
  obtain c' x where c': "Feeds s' f = Some c'" "fc_latest_round c' = fc_latest_round (feed_conf feed)"
    "Rounds s' f ?n = Some (x\<lparr>rnd_answer := rnd_answer prev, rnd_answered_in_round := rnd_answered_in_round prev,
       rnd_updated_at := Some (block_num s)\<rparr>)"
    by blast
  have "rnd_answer prev = Some (dat_answer older)" "rnd_answered_in_round prev = Some (dat_answered_in_round older)"
    using prev(2) by (auto simp: try_from_def split: option.splits)
  with c' assms(5) show ?thesis
    by (simp add: pallet_feed_def read_only_from_def latest_round_def latest_data_def data_at_def try_from_def)
qed

theorem timed_out_answer_is_replaced_witness:
  "\<exists>feed feed' s'. pallet_feed (later_store 5) 0 = Some feed \<and> dat_answer (latest_data (feed, later_store 5)) = 600 \<and>
     request_new_round (Signed 6) 0 (later_store 5) = (Ok (), s') \<and>
     pallet_feed s' 0 = Some feed' \<and> dat_answer (latest_data (feed', s')) = 500"
proof -
  let ?s = "later_store 5"
  define feed where "feed = the (load_from ?s 0)"
  have l: "load_from ?s 0 = Some feed" and n: "latest_round feed = 2" "reporting_round_id feed = 2"
    and out: "is_timed_out (feed, ?s) 2"
    and older: "data_at (feed, ?s) 1 = Some \<lparr>dat_started_at = 1, dat_answer = 500, dat_updated_at = 1, dat_answered_in_round = 1\<rparr>"
    by (simp_all add: feed_def load_from_def later_five latest_round_def reporting_round_id_def is_timed_out_def
        fresh_details_def sample_feed_config_def into_round_def saturating_add_def data_at_def try_from_def)
  obtain pf where pf: "pallet_feed ?s 0 = Some pf" "dat_answer (latest_data (pf, ?s)) = 600"
    by (simp add: pallet_feed_def read_only_from_def later_five latest_data_def latest_round_def data_at_def try_from_def into_round_def)
  obtain s' where s': "request_new_round (Signed 6) 0 ?s = (Ok (), s')"
    by (simp add: later_store_def answered_store_def sample_eval)
  have "reachable sample_runtime ?s" by (rule sample_reachable) simp
  from timed_out_answer_is_replaced [OF this sample_runtime_ok(1) sample_rounds_left(4) l _ _ _ s']
  have "\<exists>feed'. pallet_feed s' 0 = Some feed' \<and> dat_answer (latest_data (feed', s')) = 500"
    using n out older by (auto simp: saturating_sub_def)
  with pf s' show ?thesis by blast
qed

text \<open>
  C35. When, beyond that, the round before is already pruned, the feed is stuck for ever: whatever
  calls are made, by anyone, and whatever time passes, nobody can submit to any round of it or
  request a new one, and no attempt to do so changes anything.
\<close>

theorem feed_gets_stuck:
  assumes "reachable R s" "runtime_ok R" "load_from s f = Some feed"
    and "1 < reporting_round_id feed" "is_timed_out (feed, s) (reporting_round_id feed)"
    and "feed_round (feed, s) (saturating_sub (reporting_round_id feed) 1) = None"
    and "(onward R)\<^sup>*\<^sup>* s s'" "rounds_left s'"
  shows "(\<exists>e. submit R origin f r v s' = (Err e, s')) \<and> (\<exists>e. request_new_round origin f s' = (Err e, s'))"
proof -
  have "stuck_feed f s" using assms(3-6) by (auto simp: stuck_feed_def stuck_def)
  from onwards_stuck [OF assms(7) reachable_feeds_ok [OF assms(1,2)] assms(2) this]
  obtain feed' where "load_from s' f = Some feed'" "stuck feed' s'" and ok: "feeds_ok R s'" by (auto simp: stuck_feed_def)
  from stuck_calls [OF this(1,2) ok assms(8)] show ?thesis by blast
qed

theorem feed_gets_stuck_witness:
  "\<exists>e. request_new_round (Signed 6) 0 ((later_store 1)\<lparr>block_num := 1000\<rparr>) = (Err e, (later_store 1)\<lparr>block_num := 1000\<rparr>)"
proof -
  let ?s = "later_store 1"
  define feed where "feed = the (load_from ?s 0)"
  have l: "load_from ?s 0 = Some feed" and n: "reporting_round_id feed = 2"
    and out: "is_timed_out (feed, ?s) 2" "feed_round (feed, ?s) 1 = None"
    by (simp_all add: feed_def load_from_def later_one reporting_round_id_def is_timed_out_def fresh_details_def
        sample_feed_config_def into_round_def saturating_add_def)
  have "onward sample_runtime ?s (?s\<lparr>block_num := 1000\<rparr>)"
    by (simp add: onward_def chain_step.block word_le_nat_alt)
  then have later: "(onward sample_runtime)\<^sup>*\<^sup>* ?s (?s\<lparr>block_num := 1000\<rparr>)" by blast
  have left: "rounds_left (?s\<lparr>block_num := 1000\<rparr>)" using sample_rounds_left(5) by (simp add: rounds_left_def)
  have "reachable sample_runtime ?s" by (rule sample_reachable) simp
  from feed_gets_stuck [OF this sample_runtime_ok(1) l _ _ _ later left, of "Signed 6"] n out
  show ?thesis by (simp add: saturating_sub_def)
qed

section \<open>Payments\<close>

text \<open>
  C34. The pallet implements its ledger: every call is one of the steps of the abstract ledger, with
  the exception of a \<open>withdraw_payment\<close> that fails. So what is owed to the oracles is always
  the reserve of the fund account and the debts of the feeds, once it is.
\<close>

theorem calls_refine_ledger:
  assumes "reachable R s" "runtime_ok R" "currency_ok R" "rounds_left s" "call_fits call"
    and "dispatch_call R origin call s = (res, s')" "res = Ok () \<or> (\<forall>a b n. call \<noteq> WithdrawPayment a b n)"
  shows "ledger_step (ledger_of R s) (ledger_of R s') \<and> (balanced (ledger_of R s) \<longrightarrow> balanced (ledger_of R s'))"
  using dispatch_ledger [OF assms(6) reachable_feeds_ok [OF assms(1,2)] assms(4,2,3,5,7)] ledger_step_balanced by blast

lemma feed_store_balanced: "balanced (ledger_of sample_runtime (feed_store window))"
proof -
  have "withdrawable_of (feed_store window) = (\<lambda>_. 0)" "debt_of (feed_store window) = (\<lambda>_. 0)"
    "reserve_of sample_runtime (outside (feed_store window)) = 0"
    by (auto simp: withdrawable_of_def debt_of_def reserve_of_def feed_store_def sample_feed_config_def sample_runtime_def
        sample_currency_def)
  then show ?thesis by (simp add: balanced_def ledger_of_def)
qed

theorem calls_refine_ledger_witness:
  "withdrawable_of (answered_store 5) 3 = 2 \<and> balanced (ledger_of sample_runtime (answered_store 5))"
proof -
  have r: "reachable sample_runtime (feed_store 5)" by (rule created_reachable) simp
  have c: "dispatch_call sample_runtime (Signed 3) (Submit 0 1 500) (feed_store 5) = (Ok (), answered_store 5)"
    by (simp add: answered_store_def sample_eval)
  have "call_fits (Submit 0 1 500)" by simp
  from calls_refine_ledger [OF r sample_runtime_ok sample_rounds_left(1) this c] feed_store_balanced
  have "balanced (ledger_of sample_runtime (answered_store 5))" by blast
  moreover have "withdrawable_of (answered_store 5) 3 = 2"
    by (simp add: withdrawable_of_def answered_store_def sample_eval)
  ultimately show ?thesis by simp
qed

text \<open>
  A withdrawal whose transfer fails is the exception, because the payment is taken out of the
  reserve before: the error is returned, the oracle is still owed what it was, and the amount is
  no longer reserved for it. The ledger was balanced before and is not afterwards.
\<close>

theorem failed_withdrawal_unbalances:
  assumes "currency_ok R" "Oracles s a = Some m" "amount \<le> om_withdrawable m" "0 < amount"
    and "amount \<le> reserved_balance (Currency R) (fund_account R) (outside s)"
    and "transfer (Currency R) (fund_account R) b amount
      (snd (unreserve (Currency R) (fund_account R) amount (outside s))) = (Some e, w)"
    and "balanced (ledger_of R s)"
  shows "\<exists>s'. withdraw_payment R (Signed (om_admin m)) a b amount s = (Err (CurrencyError e), s') \<and>
    withdrawable_of s' = withdrawable_of s \<and> debt_of s' = debt_of s \<and>
    reserve_of R (outside s') + unat amount = reserve_of R (outside s) \<and> \<not> balanced (ledger_of R s')"
proof -
  let ?w = "snd (unreserve (Currency R) (fund_account R) amount (outside s))"
  have "withdraw_payment R (Signed (om_admin m)) a b amount s = (Err (CurrencyError e), s\<lparr>outside := w\<rparr>)"
    using assms(2,3,5,6) by (simp add: withdraw_payment_def checked_sub_def Let_def)
  moreover have "reserve_of R ?w + unat amount = reserve_of R (outside s)"
    using unreserve_moves [of "Currency R" "fund_account R" amount "outside s"] assms(1,5)
    by (cases "unreserve (Currency R) (fund_account R) amount (outside s)")
      (auto simp: reserve_of_def currency_ok_def word_le_nat_alt)
  moreover have "reserve_of R w = reserve_of R ?w"
    using transfer_reserved [OF _ assms(6)] assms(1) by (simp add: reserve_of_def currency_ok_def)
  moreover have "withdrawable_of (s\<lparr>outside := w\<rparr>) = withdrawable_of s" "debt_of (s\<lparr>outside := w\<rparr>) = debt_of s"
    by (auto simp: withdrawable_of_def debt_of_def)
  moreover have "0 < unat amount" using assms(4) by (simp add: word_less_nat_alt)
  ultimately show ?thesis using assms(7) by (simp add: balanced_def ledger_of_def)
qed

definition drained_store :: "balances storage" where
  "drained_store = (answered_store 5)\<lparr>outside := (\<lambda>_. 0, (\<lambda>_. 0)(9 := 2))\<rparr>"

lemma answered_balanced: "balanced (ledger_of sample_runtime (answered_store 5))"
proof -
  have "dispatch_call sample_runtime (Signed 3) (Submit 0 1 500) (feed_store 5) = (Ok (), answered_store 5)"
    by (simp add: answered_store_def sample_eval)
  from dispatch_ledger [OF this reachable_feeds_ok [OF created_reachable]] feed_store_balanced ledger_step_balanced
  show ?thesis by (simp add: sample_rounds_left)
qed

theorem failed_withdrawal_unbalances_witness:
  "\<exists>s'. withdraw_payment sample_runtime (Signed 5) 3 7 2 drained_store = (Err (CurrencyError 2), s') \<and>
     withdrawable_of s' 3 = 2 \<and> \<not> balanced (ledger_of sample_runtime s')"
proof -
  obtain m where m: "Oracles drained_store 3 = Some m" "2 \<le> om_withdrawable m" "om_admin m = 5" "withdrawable_of drained_store 3 = 2"
    by (simp add: drained_store_def answered_store_def sample_eval withdrawable_of_def)
  have res: "2 \<le> reserved_balance (Currency sample_runtime) (fund_account sample_runtime) (outside drained_store)"
    by (simp add: drained_store_def sample_runtime_def sample_currency_def)
  have tr: "\<exists>w. transfer (Currency sample_runtime) (fund_account sample_runtime) 7 2
      (snd (unreserve (Currency sample_runtime) (fund_account sample_runtime) 2 (outside drained_store))) = (Some 2, w)"
    by (simp add: drained_store_def sample_eval)
  have "ledger_of sample_runtime drained_store = ledger_of sample_runtime (answered_store 5)"
    by (auto simp: ledger_of_def drained_store_def withdrawable_of_def debt_of_def reserve_of_def answered_store_def sample_eval)
  then have "balanced (ledger_of sample_runtime drained_store)" using answered_balanced by simp
  with failed_withdrawal_unbalances [OF sample_runtime_ok(2) m(1,2) _ res] tr m show ?thesis by fastforce
qed

section \<open>Calls\<close>

text \<open>
  The owner of a feed, the admin of an oracle and the admin of the pallet change only in two
  steps: the holder of the role nominates an account, and that account accepts. No other call and
  no other caller changes the holder or the nominee.
\<close>

theorem roles_change_in_two_steps:
  assumes "reachable R s" "runtime_ok R" "rounds_left s" "call_fits call" "dispatch_call R origin call s = (res, s')"
  shows "role_step (feed_role f) (TransferOwnership f) (AcceptOwnership f) origin call s s' \<and>
    role_step (admin_role a) (TransferAdmin a) (AcceptAdmin a) origin call s s' \<and>
    role_step pallet_role TransferPalletAdmin AcceptPalletAdmin origin call s s'"
  using dispatch_roles [OF assms(5) reachable_feeds_ok [OF assms(1,2)] assms(3,2,4)] by blast

theorem roles_change_in_two_steps_witness:
  "\<exists>s'. dispatch_call sample_runtime (Signed 2) (TransferOwnership 0 8) (feed_store 5) = (Ok (), s') \<and>
     feed_role 0 (feed_store 5) = Some (2, None) \<and> feed_role 0 s' \<noteq> Some (8, None)"
proof -
  obtain s' where s': "dispatch_call sample_runtime (Signed 2) (TransferOwnership 0 8) (feed_store 5) = (Ok (), s')"
    by (simp add: transfer_ownership_def sample_eval)
  have role: "feed_role 0 (feed_store 5) = Some (2, None)" by (simp add: feed_role_def feed_store_def sample_feed_config_def)
  have "call_fits (TransferOwnership 0 8)" "reachable sample_runtime (feed_store 5)"
    by (simp, rule created_reachable, simp)
  from roles_change_in_two_steps [OF this(2) sample_runtime_ok(1) sample_rounds_left(1) this(1) s', of 0] s' role
  show ?thesis by (auto simp: role_step_def)
qed

text \<open>
  No call panics, and a call that returns an error has changed nothing, not even in its own
  bookkeeping, unless it is a \<open>withdraw_payment\<close>.
\<close>

theorem failed_calls_change_nothing:
  assumes "reachable R s" "runtime_ok R" "failures_atomic (Currency R)" "dispatch_call R origin call s = (res, s')"
  shows "res \<noteq> Panic \<and> (res = Ok () \<or> (\<exists>a b n. call = WithdrawPayment a b n) \<or> s' = s)"
proof (cases "\<exists>a b n. call = WithdrawPayment a b n")
  case True
  with assms(4) withdraw_payment_no_panic show ?thesis by (metis dispatch_call.simps(11) fst_conv)
next
  case False
  with dispatch_clean [OF reachable_feeds_ok [OF assms(1,2)] assms(3), of call origin] assms(4)
  show ?thesis by (cases res) simp_all
qed

lemma sample_currency_atomic: "failures_atomic (Currency sample_runtime)"
  by (auto simp: failures_atomic_def sample_runtime_def sample_currency_def sample_reserve_def sample_transfer_def split: if_splits)

theorem failed_calls_change_nothing_witness:
  "\<exists>e. dispatch_call sample_runtime (Signed 7) (Submit 0 1 500) (feed_store 5) = (Err e, feed_store 5)"
proof -
  obtain e s' where e: "dispatch_call sample_runtime (Signed 7) (Submit 0 1 500) (feed_store 5) = (Err e, s')"
    by (simp add: sample_eval)
  have "reachable sample_runtime (feed_store 5)" by (rule created_reachable) simp
  from failed_calls_change_nothing [OF this sample_runtime_ok(1) sample_currency_atomic e] e show ?thesis by simp
qed

end
