(* ===== verification/Request_Pallet.thy ===== *)
theory Request_Pallet
  imports Substrate
begin

text \<open>
  The request pallet, \<open>pallet-chainlink/src/lib.rs\<close>: operators register, a user asks one of them
  for data and reserves a fee, the operator answers through \<open>callback\<close>, and a request without an
  answer is dropped at the end of a block once its period is over.

  The callback of a request is a call of another pallet: what \<open>with_result\<close> makes of it and what
  dispatching it does to the other pallets are fields of the runtime. The runtime of the example
  node sets them to its pallet \<open>Example\<close>, modelled at the end. Overflow is that of a release build:
  the request counter and the sum of the block and the period wrap around.
\<close>

section \<open>Data\<close>

type_synonym request_id = "64 word"
type_synonym bytes = "8 word list"

datatype request_event =
    OracleRequest account_id bytes request_id account_id "64 word" bytes string balance
  | OracleAnswer account_id request_id account_id bytes balance
  | OperatorRegistered account_id
  | OperatorUnregistered account_id
  | KillRequest request_id

datatype request_error =
  UnknownOperator | UnknownRequest | WrongOperator | OperatorAlreadyRegistered | UnknownCallback | InsufficientFee

type_synonym request_result = "(request_error, unit) dispatch"

type_synonym 'c request = "account_id \<times> 'c list \<times> block_number \<times> balance"

record ('c, 'w) request_storage =
  Operators :: "account_id \<Rightarrow> bool"
  NextRequestIdentifier :: request_id
  Requests :: "request_id \<Rightarrow> 'c request option"
  RequestEvents :: "request_event list"
  request_block :: block_number
  other_pallets :: 'w

record ('c, 'w) request_config =
  RequestCurrency :: "'w currency"
  ValidityPeriod :: block_number
  with_result :: "'c \<Rightarrow> bytes \<Rightarrow> 'c option"
  dispatch_bypass_filter :: "'c \<Rightarrow> origin \<Rightarrow> 'w \<Rightarrow> 'w"

definition request_deposit_event :: "request_event \<Rightarrow> ('c, 'w) request_storage \<Rightarrow> ('c, 'w) request_storage" where
  "request_deposit_event ev s = s\<lparr>RequestEvents := RequestEvents s @ [ev]\<rparr>"

section \<open>Dispatchables\<close>

definition register_operator :: "origin \<Rightarrow> ('c, 'w) request_storage \<Rightarrow> request_result \<times> ('c, 'w) request_storage" where
  "register_operator origin s =
     bind_dispatch (ensure_signed origin, s) (\<lambda>who s.
     bind_dispatch (ensure (\<not> Operators s who) OperatorAlreadyRegistered, s) (\<lambda>_ s.
     (Ok (), request_deposit_event (OperatorRegistered who) (s\<lparr>Operators := (Operators s)(who := True)\<rparr>))))"

text \<open>\<open>take\<close> resets the entry, whatever it was.\<close>

definition unregister_operator :: "origin \<Rightarrow> ('c, 'w) request_storage \<Rightarrow> request_result \<times> ('c, 'w) request_storage" where
  "unregister_operator origin s =
     bind_dispatch (ensure_signed origin, s) (\<lambda>who s.
     let registered = Operators s who; s = s\<lparr>Operators := (Operators s)(who := False)\<rparr> in
     if registered then (Ok (), request_deposit_event (OperatorUnregistered who) s)
     else (Err (PalletError UnknownOperator), s))"

definition initiate_request :: "('c, 'w) request_config \<Rightarrow> origin \<Rightarrow> account_id \<Rightarrow> bytes \<Rightarrow> 64 word \<Rightarrow> bytes \<Rightarrow> balance \<Rightarrow>
    'c \<Rightarrow> ('c, 'w) request_storage \<Rightarrow> request_result \<times> ('c, 'w) request_storage" where
  "initiate_request R origin operator spec_index data_version data fee callback s =
     bind_dispatch (ensure_signed origin, s) (\<lambda>who s.
     bind_dispatch (ensure (Operators s operator) UnknownOperator, s) (\<lambda>_ s.
     bind_dispatch (ensure (fee > 0) InsufficientFee, s) (\<lambda>_ s.
     (case reserve (RequestCurrency R) who fee (other_pallets s) of
        (Some e, w) \<Rightarrow> (Err (CurrencyError e), s\<lparr>other_pallets := w\<rparr>)
      | (None, w) \<Rightarrow>
          let request_id = NextRequestIdentifier s in
          (Ok (), request_deposit_event
             (OracleRequest operator spec_index request_id who data_version data ''Chainlink.callback'' fee)
             (s\<lparr>other_pallets := w, NextRequestIdentifier := request_id + 1,
                Requests := (Requests s)(request_id \<mapsto> (operator, [callback], request_block s, fee))\<rparr>))))))"

text \<open>
  Indexing an empty vector of callbacks panics. The fee is moved from the reserved balance of the
  caller, who is the operator, to the operator; the result of the dispatched call is dropped.
\<close>

definition callback :: "('c, 'w) request_config \<Rightarrow> origin \<Rightarrow> request_id \<Rightarrow> bytes \<Rightarrow> ('c, 'w) request_storage \<Rightarrow>
    request_result \<times> ('c, 'w) request_storage" where
  "callback R origin request_id result s =
     bind_dispatch (ensure_signed origin, s) (\<lambda>who s.
     bind_dispatch (ok_or (Requests s request_id) UnknownRequest, s) (\<lambda>(operator, callbacks, _, fee) s.
     bind_dispatch (ensure (operator = who) WrongOperator, s) (\<lambda>_ s.
     (case repatriate_reserved (RequestCurrency R) who operator fee (other_pallets s) of
        (Some e, w) \<Rightarrow> (Err (CurrencyError e), s\<lparr>other_pallets := w\<rparr>)
      | (None, w) \<Rightarrow>
          let s = s\<lparr>other_pallets := w\<rparr> in
          (case callbacks of
             [] \<Rightarrow> (Panic, s)
           | c # _ \<Rightarrow>
               bind_dispatch (ok_or (with_result R c result) UnknownCallback, s) (\<lambda>call s.
               (Ok (), request_deposit_event (OracleAnswer operator request_id who result fee)
                  (s\<lparr>other_pallets := dispatch_bypass_filter R call Root (other_pallets s)\<rparr>))))))))"

text \<open>
  \<open>order\<close> is the order in which the storage map is iterated, that of the hashes of its keys.
\<close>

definition finalize_one :: "('c, 'w) request_config \<Rightarrow> block_number \<Rightarrow> request_id \<Rightarrow> ('c, 'w) request_storage \<Rightarrow>
    ('c, 'w) request_storage" where
  "finalize_one R n request_identifier s =
     (case Requests s request_identifier of
        None \<Rightarrow> s
      | Some (_, _, block_number, _) \<Rightarrow>
          if n > block_number + ValidityPeriod R
          then request_deposit_event (KillRequest request_identifier)
            (s\<lparr>Requests := (Requests s)(request_identifier := None)\<rparr>)
          else s)"

definition on_finalize :: "('c, 'w) request_config \<Rightarrow> request_id list \<Rightarrow> block_number \<Rightarrow> ('c, 'w) request_storage \<Rightarrow>
    ('c, 'w) request_storage" where
  "on_finalize R order n s = fold (finalize_one R n) order s"

section \<open>The example pallet of the node\<close>

text \<open>
  \<open>runtime/src/example.rs\<close>: its call \<open>callback\<close> takes the result of a request, and is the only one
  that can be the callback of one. The SCALE codec decodes the result; its state is the result.
\<close>

datatype example_call = SendRequest account_id bytes | ExampleCallback bytes

datatype example_error = DecodingFailed

definition example_with_result :: "example_call \<Rightarrow> bytes \<Rightarrow> example_call option" where
  "example_with_result self result =
     (case self of ExampleCallback _ \<Rightarrow> Some (ExampleCallback result) | SendRequest _ _ \<Rightarrow> None)"

definition example_callback :: "(bytes \<Rightarrow> int option) \<Rightarrow> origin \<Rightarrow> bytes \<Rightarrow> int \<Rightarrow> (example_error, unit) dispatch \<times> int" where
  "example_callback decode origin result stored =
     (if origin \<noteq> Root then (Err BadOrigin, stored)
      else (case decode result of None \<Rightarrow> (Err (PalletError DecodingFailed), stored) | Some r \<Rightarrow> (Ok (), r)))"

definition send_request :: "(example_call, 'w) request_config \<Rightarrow> bytes \<Rightarrow> origin \<Rightarrow> account_id \<Rightarrow> bytes \<Rightarrow>
    (example_call, 'w) request_storage \<Rightarrow> request_result \<times> (example_call, 'w) request_storage" where
  "send_request R parameters origin operator specid =
     initiate_request R origin operator specid 0 parameters 100 (ExampleCallback [])"

text \<open>
  Dispatching a call of the example pallet as root, on the state of the other pallets and the
  stored result: \<open>send_request\<close> asks for a signed origin and so fails without a change.
\<close>

definition example_dispatch :: "(bytes \<Rightarrow> int option) \<Rightarrow> example_call \<Rightarrow> origin \<Rightarrow> 'w \<times> int \<Rightarrow> 'w \<times> int" where
  "example_dispatch decode call origin w =
     (case call of
        ExampleCallback result \<Rightarrow> (fst w, snd (example_callback decode origin result (snd w)))
      | SendRequest _ _ \<Rightarrow> w)"

end
