(* ===== verification/Request_Properties.thy ===== *)
theory Request_Properties
  imports Request_Pallet Sample_Currency
begin

text \<open>
  The life of a request. The states of the pallet are those reached by its calls, by any account,
  the ends of blocks and whatever the other pallets do, as long as the 64-bit identifiers are not
  used up. A concrete configuration with the callback of the example pallet shows that the
  hypotheses hold together.
\<close>

section \<open>Steps and the invariant\<close>

inductive request_step :: "('c, 'w) request_config \<Rightarrow> ('c, 'w) request_storage \<Rightarrow> ('c, 'w) request_storage \<Rightarrow> bool"
  for R :: "('c, 'w) request_config" where
  register: "register_operator origin s = (res, s') \<Longrightarrow> request_step R s s'"
| unregister: "unregister_operator origin s = (res, s') \<Longrightarrow> request_step R s s'"
| initiate: "NextRequestIdentifier s \<noteq> - 1 \<Longrightarrow>
    initiate_request R origin operator spec version data fee c s = (res, s') \<Longrightarrow> request_step R s s'"
| answer: "callback R origin i result s = (res, s') \<Longrightarrow> request_step R s s'"
| finalize: "set order = dom (Requests s) \<Longrightarrow> distinct order \<Longrightarrow>
    request_step R s (on_finalize R order (request_block s) s)"
| block: "request_step R s (s\<lparr>request_block := n\<rparr>)"
| world: "request_step R s (s\<lparr>other_pallets := w\<rparr>)"

definition request_empty :: "'w \<Rightarrow> ('c, 'w) request_storage" where
  "request_empty w = \<lparr>Operators = \<lambda>_. False, NextRequestIdentifier = 0, Requests = \<lambda>_. None, RequestEvents = [],
     request_block = 0, other_pallets = w\<rparr>"

inductive request_reachable :: "('c, 'w) request_config \<Rightarrow> ('c, 'w) request_storage \<Rightarrow> bool"
  for R :: "('c, 'w) request_config" where
  start: "request_reachable R (request_empty w)"
| step: "request_reachable R s \<Longrightarrow> request_step R s s' \<Longrightarrow> request_reachable R s'"

text \<open>The requests are numbered below the counter and have a callback.\<close>

definition requests_ok :: "('c, 'w) request_storage \<Rightarrow> bool" where
  "requests_ok s \<longleftrightarrow> (\<forall>i operator cs b fee. Requests s i = Some (operator, cs, b, fee) \<longrightarrow>
     i < NextRequestIdentifier s \<and> cs \<noteq> [])"

section \<open>What the operations do\<close>

lemma deposit_fields [simp]:
  "Requests (request_deposit_event ev s) = Requests s"
  "NextRequestIdentifier (request_deposit_event ev s) = NextRequestIdentifier s"
  "Operators (request_deposit_event ev s) = Operators s"
  "other_pallets (request_deposit_event ev s) = other_pallets s"
  "request_block (request_deposit_event ev s) = request_block s"
  "RequestEvents (request_deposit_event ev s) = RequestEvents s @ [ev]"
  by (simp_all add: request_deposit_event_def)

lemma operators_keep_requests:
  "register_operator origin s = (res, s') \<Longrightarrow> Requests s' = Requests s \<and> NextRequestIdentifier s' = NextRequestIdentifier s"
  "unregister_operator origin s = (res, s') \<Longrightarrow> Requests s' = Requests s \<and> NextRequestIdentifier s' = NextRequestIdentifier s"
  by (cases origin; auto simp: register_operator_def unregister_operator_def ensure_signed_def ensure_def Let_def split: if_splits)+

lemma callback_keeps_requests:
  "callback R origin i result s = (res, s') \<Longrightarrow> Requests s' = Requests s \<and> NextRequestIdentifier s' = NextRequestIdentifier s"
  by (cases origin; cases "Requests s i"; cases "with_result R (hd (fst (snd (the (Requests s i))))) result")
    (auto simp: callback_def ensure_signed_def ensure_def Let_def split: if_splits prod.splits option.splits list.splits)

lemma initiate_cases:
  assumes "initiate_request R origin operator spec version data fee c s = (res, s')"
  obtains "Requests s' = Requests s" "NextRequestIdentifier s' = NextRequestIdentifier s"
  | who w where "origin = Signed who" "Operators s operator" "0 < fee" "res = Ok ()"
      "reserve (RequestCurrency R) who fee (other_pallets s) = (None, w)" "other_pallets s' = w"
      "Requests s' = (Requests s)(NextRequestIdentifier s \<mapsto> (operator, [c], request_block s, fee))"
      "NextRequestIdentifier s' = NextRequestIdentifier s + 1"
  using assms
  by (cases origin; cases "Operators s operator"; cases "0 < fee")
    (auto simp: initiate_request_def ensure_signed_def ensure_def Let_def split: prod.splits option.splits)

text \<open>The end of a block, one request after the other.\<close>

definition expired :: "('c, 'w) request_config \<Rightarrow> block_number \<Rightarrow> 'c request \<Rightarrow> bool" where
  "expired R n q = (case q of (_, _, b, _) \<Rightarrow> n > b + ValidityPeriod R)"

lemma finalize_one_fields:
  "Requests (finalize_one R n x s) i =
     (case Requests s i of Some q \<Rightarrow> if i = x \<and> expired R n q then None else Some q | None \<Rightarrow> None)"
  "RequestEvents (finalize_one R n x s) = RequestEvents s @
     (if \<exists>q. Requests s x = Some q \<and> expired R n q then [KillRequest x] else [])"
  "NextRequestIdentifier (finalize_one R n x s) = NextRequestIdentifier s"
  "Operators (finalize_one R n x s) = Operators s" "other_pallets (finalize_one R n x s) = other_pallets s"
  by (auto simp: finalize_one_def expired_def split: option.splits)

lemma finalize_fold:
  assumes "distinct order"
  shows "(\<forall>i. Requests (on_finalize R order n s) i =
      (case Requests s i of Some q \<Rightarrow> if i \<in> set order \<and> expired R n q then None else Some q | None \<Rightarrow> None)) \<and>
    RequestEvents (on_finalize R order n s) = RequestEvents s @
       map KillRequest (filter (\<lambda>i. \<exists>q. Requests s i = Some q \<and> expired R n q) order) \<and>
    NextRequestIdentifier (on_finalize R order n s) = NextRequestIdentifier s \<and>
    Operators (on_finalize R order n s) = Operators s \<and> other_pallets (on_finalize R order n s) = other_pallets s"
  using assms
proof (induction order arbitrary: s)
  case Nil
  then show ?case by (simp add: on_finalize_def split: option.splits)
next
  case (Cons x order)
  let ?s = "finalize_one R n x s"
  have same: "filter (\<lambda>i. \<exists>q. Requests ?s i = Some q \<and> expired R n q) order =
      filter (\<lambda>i. \<exists>q. Requests s i = Some q \<and> expired R n q) order"
    using Cons.prems by (intro filter_cong) (auto simp: finalize_one_fields(1) split: option.splits if_splits)
  have fold: "on_finalize R (x # order) n s = on_finalize R order n ?s" by (simp add: on_finalize_def)
  show ?case
    using Cons.IH [of ?s] Cons.prems same unfolding fold
    by (simp add: finalize_one_fields split: option.splits) 
qed

lemma finalize_keeps:
  "distinct order \<Longrightarrow> Requests (on_finalize R order n s) i = Some q \<Longrightarrow> Requests s i = Some q"
  using finalize_fold [of order R n s] by (cases "Requests s i") (auto split: if_splits)

lemma request_step_cases:
  assumes "request_step R s s'"
  obtains (same) "Requests s' = Requests s" "NextRequestIdentifier s' = NextRequestIdentifier s"
  | (added) operator c b fee where "NextRequestIdentifier s \<noteq> - 1" "NextRequestIdentifier s' = NextRequestIdentifier s + 1"
      "Requests s' = (Requests s)(NextRequestIdentifier s \<mapsto> (operator, [c], b, fee))"
  | (killed) order where "set order = dom (Requests s)" "distinct order" "s' = on_finalize R order (request_block s) s"
  using assms
proof cases
  case (initiate origin operator spec version data fee c res)
  from initiate(2) show thesis by (cases rule: initiate_cases) (use same added [OF initiate(1)] in auto)
next
  case (finalize order)
  then show thesis using killed by blast
qed (use same in \<open>auto dest: operators_keep_requests callback_keeps_requests\<close>)

lemma request_step_ok:
  assumes "request_step R s s'" "requests_ok s"
  shows "requests_ok s'"
  using assms(1)
proof (cases rule: request_step_cases)
  case same
  with assms(2) show ?thesis by (simp add: requests_ok_def)
next
  case (added operator c b fee)
  have "i < NextRequestIdentifier s' \<longleftrightarrow> i \<le> NextRequestIdentifier s" for i
    using less_inc_iff [OF added(1)] added(2) by simp
  with assms(2) added(3) show ?thesis unfolding requests_ok_def by (auto intro: less_imp_le)
next
  case (killed order)
  then have "NextRequestIdentifier s' = NextRequestIdentifier s" using finalize_fold by blast
  with killed assms(2) show ?thesis unfolding requests_ok_def by (metis finalize_keeps)
qed

lemma request_reachable_ok: "request_reachable R s \<Longrightarrow> requests_ok s"
  by (induction rule: request_reachable.induct) (simp add: request_empty_def requests_ok_def, rule request_step_ok)

text \<open>What is asked of the callbacks: they do not touch reserved balances.\<close>

definition callbacks_keep_reserves :: "('c, 'w) request_config \<Rightarrow> bool" where
  "callbacks_keep_reserves R \<longleftrightarrow> (\<forall>c origin w a. reserved_balance (RequestCurrency R) a (dispatch_bypass_filter R c origin w) =
     reserved_balance (RequestCurrency R) a w)"

section \<open>A configuration and a request\<close>

text \<open>
  The configuration of the example node on the sample currency, with a codec that reads one byte.
  Account 1 is an operator, account 2 asks it through the example pallet, and it answers with 42.
\<close>

definition sample_decode :: "bytes \<Rightarrow> int option" where
  "sample_decode bs = (case bs of b # _ \<Rightarrow> Some (uint b) | [] \<Rightarrow> None)"

definition sample_node :: "(example_call, balances \<times> int) request_config" where
  "sample_node =
     \<lparr>RequestCurrency = beside sample_currency, ValidityPeriod = 10, with_result = example_with_result,
      dispatch_bypass_filter = example_dispatch sample_decode\<rparr>"

definition sample_registered :: "(example_call, balances \<times> int) request_storage" where
  "sample_registered = snd (register_operator (Signed 1) (request_empty (((\<lambda>_. 0)(2 := 1000), \<lambda>_. 0), 0)))"

definition sample_asked :: "(example_call, balances \<times> int) request_storage" where
  "sample_asked = snd (send_request sample_node [] (Signed 2) 1 [7] sample_registered)"

lemmas request_eval = register_operator_def request_empty_def request_deposit_event_def send_request_def
  initiate_request_def callback_def Let_def sample_node_def beside_def sample_currency_def sample_reserve_def
  sample_repatriate_def example_with_result_def example_dispatch_def example_callback_def sample_decode_def
  sample_registered_def sample_asked_def

lemma sample_reservable: "reservable (RequestCurrency sample_node)"
  by (simp add: sample_node_def beside_reservable sample_currency_reservable)

lemma sample_asked_run:
  "send_request sample_node [] (Signed 2) 1 [7] sample_registered = (Ok (), sample_asked)"
  "NextRequestIdentifier sample_registered = 0"
  "Requests sample_asked = [0 \<mapsto> (1, [ExampleCallback []], 0, 100)]"
  by (simp_all add: request_eval)

lemma sample_asked_reachable: "request_reachable sample_node sample_asked"
proof -
  have "request_reachable sample_node sample_registered"
    unfolding sample_registered_def
    by (rule request_reachable.step [OF request_reachable.start request_step.register], rule prod.collapse [symmetric])
  moreover have "request_step sample_node sample_registered sample_asked"
    using sample_asked_run(1,2) unfolding send_request_def by (intro request_step.initiate) auto
  ultimately show ?thesis by (rule request_reachable.step)
qed

section \<open>Properties\<close>

text \<open>
  A request stays as it is, answered or not, until a block ends that is past its period: no call
  of anyone changes or removes it, and no later request takes its number. It always has a
  callback to dispatch, so that answering it never panics.
\<close>

theorem request_kept_until_expiry:
  assumes "request_reachable R s" "request_step R s s'" "Requests s i = Some (operator, cs, b, fee)"
  shows "(Requests s' i = Some (operator, cs, b, fee) \<or> Requests s' i = None \<and> b + ValidityPeriod R < request_block s) \<and>
    fst (callback R origin i result s) \<noteq> Panic"
proof -
  have ok: "i < NextRequestIdentifier s" "cs \<noteq> []"
    using request_reachable_ok [OF assms(1)] assms(3) unfolding requests_ok_def by blast+
  from assms(2) have "Requests s' i = Requests s i \<or> Requests s' i = None \<and> b + ValidityPeriod R < request_block s"
  proof (cases rule: request_step_cases)
    case (killed order)
    with finalize_fold [of order R "request_block s" s] assms(3) show ?thesis by (auto simp: expired_def split: if_splits)
  qed (use ok(1) in auto)
  moreover have "fst (callback R origin i result s) \<noteq> Panic"
    using ok(2) assms(3)
    by (cases origin; cases "with_result R (hd cs) result"; cases cs)
      (auto simp: callback_def ensure_signed_def ensure_def Let_def split: prod.splits option.splits)
  ultimately show ?thesis using assms(3) by simp
qed

theorem request_kept_until_expiry_witness:
  "\<exists>s'. callback sample_node (Signed 1) 0 [42] sample_asked = (Ok (), s') \<and> snd (other_pallets s') = 42 \<and>
     Requests s' 0 = Some (1, [ExampleCallback []], 0, 100)"
proof -
  obtain s' where s': "callback sample_node (Signed 1) 0 [42] sample_asked = (Ok (), s')" "snd (other_pallets s') = 42"
    by (simp add: request_eval)
  have "Requests sample_asked 0 = Some (1, [ExampleCallback []], 0, 100)" "\<not> 0 + ValidityPeriod sample_node < request_block sample_asked"
    by (simp_all add: request_eval)
  with request_kept_until_expiry [OF sample_asked_reachable request_step.answer [OF s'(1)]] s' show ?thesis by blast
qed

text \<open>
  The end of a block removes exactly the requests whose period is over, in whatever order the
  storage is iterated, announces each of them once, and changes nothing else: in particular the
  fee of a request that is removed stays reserved.
\<close>

theorem on_finalize_kills_expired:
  assumes "set order = dom (Requests s)" "distinct order"
  shows "(\<forall>i. Requests (on_finalize R order n s) i = (case Requests s i of None \<Rightarrow> None
      | Some (operator, cs, b, fee) \<Rightarrow> if b + ValidityPeriod R < n then None else Some (operator, cs, b, fee))) \<and>
    (\<exists>killed. RequestEvents (on_finalize R order n s) = RequestEvents s @ map KillRequest killed \<and> distinct killed \<and>
       set killed = {i. Requests s i \<noteq> None \<and> Requests (on_finalize R order n s) i = None}) \<and>
    NextRequestIdentifier (on_finalize R order n s) = NextRequestIdentifier s \<and>
    Operators (on_finalize R order n s) = Operators s \<and> other_pallets (on_finalize R order n s) = other_pallets s"
proof -
  let ?killed = "filter (\<lambda>i. \<exists>q. Requests s i = Some q \<and> expired R n q) order"
  note f = finalize_fold [OF assms(2), of R n s]
  have req: "Requests (on_finalize R order n s) i = (case Requests s i of None \<Rightarrow> None
      | Some (operator, cs, b, fee) \<Rightarrow> if b + ValidityPeriod R < n then None else Some (operator, cs, b, fee))" for i
    using f assms(1) by (auto simp: expired_def split: option.splits)
  moreover have "set ?killed = {i. Requests s i \<noteq> None \<and> Requests (on_finalize R order n s) i = None}"
    using assms(1) by (auto simp: req expired_def split: option.splits)
  ultimately show ?thesis using f assms(2) by (auto intro!: exI [of _ ?killed])
qed

theorem on_finalize_kills_expired_witness:
  "Requests (on_finalize sample_node [0] 20 sample_asked) 0 = None \<and>
     other_pallets (on_finalize sample_node [0] 20 sample_asked) = other_pallets sample_asked"
proof -
  have "set [0] = dom (Requests sample_asked)" "distinct [0::request_id]" "ValidityPeriod sample_node = 10"
    by (simp_all add: sample_asked_run, simp add: sample_node_def)
  with on_finalize_kills_expired [OF this(1,2), of sample_node 20] show ?thesis
    by (simp add: sample_asked_run)
qed

text \<open>
  C36. The fee of a request never reaches its operator. The reserved balance that \<open>callback\<close> moves is
  that of the caller, the operator itself, so that after a request and its answer the fee is still
  reserved on the account that asked. The request is not removed either, and can be answered again.
\<close>

theorem fee_stays_reserved:
  assumes "reservable (RequestCurrency R)" "callbacks_keep_reserves R" "asker \<noteq> operator"
    and "initiate_request R (Signed asker) operator spec version data fee c s = (Ok (), s1)"
    and "callback R (Signed operator) (NextRequestIdentifier s) result s1 = (Ok (), s2)"
  shows "unat (reserved_balance (RequestCurrency R) asker (other_pallets s2)) =
      unat (reserved_balance (RequestCurrency R) asker (other_pallets s)) + unat fee \<and>
    Requests s2 (NextRequestIdentifier s) = Some (operator, [c], request_block s, fee)"
proof -
  from assms(4) have r: "reserve (RequestCurrency R) asker fee (other_pallets s) = (None, other_pallets s1)"
    and q: "Requests s1 (NextRequestIdentifier s) = Some (operator, [c], request_block s, fee)"
    by (auto simp: initiate_request_def dispatch_simps Let_def split: prod.splits option.splits)
  from assms(5) q obtain w call where p: "repatriate_reserved (RequestCurrency R) operator operator fee (other_pallets s1) = (None, w)"
    and s2: "other_pallets s2 = dispatch_bypass_filter R call Root w"
    by (auto simp: callback_def dispatch_simps Let_def split: prod.splits option.splits)
  have "reserved_balance (RequestCurrency R) asker (other_pallets s2) = reserved_balance (RequestCurrency R) asker (other_pallets s1)"
    using assms(2) repatriate_others [OF assms(1) p assms(3)] by (simp add: s2 callbacks_keep_reserves_def)
  with reserve_Ok [OF assms(1) r] callback_keeps_requests [OF assms(5)] q show ?thesis by simp
qed

theorem fee_stays_reserved_witness:
  "\<exists>s2. callback sample_node (Signed 1) 0 [42] sample_asked = (Ok (), s2) \<and>
     reserved_balance (RequestCurrency sample_node) 2 (other_pallets s2) = 100"
proof -
  obtain s2 where s2: "callback sample_node (Signed 1) 0 [42] sample_asked = (Ok (), s2)"
    by (simp add: request_eval)
  have keeps: "callbacks_keep_reserves sample_node"
    by (auto simp: callbacks_keep_reserves_def sample_node_def beside_def example_dispatch_def split: example_call.splits)
  have "reserved_balance (RequestCurrency sample_node) 2 (other_pallets sample_registered) = 0"
    by (simp add: request_eval)
  with fee_stays_reserved [OF sample_reservable keeps _ sample_asked_run(1) [unfolded send_request_def], of "[42]" s2] s2
  have "unat (reserved_balance (RequestCurrency sample_node) 2 (other_pallets s2)) = unat (100::balance)"
    by (simp add: sample_asked_run)
  with s2 show ?thesis unfolding word_unat_eq_iff by blast
qed

end
