(* ===== verification/Framework_Config.thy ===== *)
theory Framework_Config
  imports Go_Prelude
begin

text \<open>
  \<open>config/config.go\<close>: the configuration of the framework, read through viper, and the
  stores private keys come from. The networks of a configuration are held by pointer
  and the pointers are shared with every \<open>EthereumNetwork\<close> made from them, so the
  \<open>NetworkConfig\<close> values live in a heap (\<open>nc_heap\<close>) and a configuration maps names to
  addresses of it. Viper is a parameter (\<open>viper\<close>).
\<close>

section \<open>Data\<close>

type_synonym ConfigurationType = string

definition LocalConfig :: ConfigurationType where
  "LocalConfig = ''local''"

definition SecretConfig :: ConfigurationType where
  "SecretConfig = ''secret''"

text \<open>The two implementations of the interface \<open>PrivateKeyStore\<close>. A slice is \<open>None\<close> when nil.\<close>

record LocalStore =
  rawKeys :: "string list option"

record SecretStore =
  networkName :: string

datatype PrivateKeyStore = Local LocalStore | Secret SecretStore

record NetworkConfig =
  nc_Name :: string
  nc_URL :: string
  nc_ChainID :: i64
  nc_PrivateKeys :: "string list option"
  nc_TransactionLimit :: u64
  nc_Timeout :: i64
  nc_LinkTokenAddress :: string
  nc_MinimumConfirmations :: i64
  nc_GasEstimationBuffer :: u64
  nc_PrivateKeyStore :: "PrivateKeyStore option"

type_synonym nc_ptr = nat

text \<open>The \<open>NetworkConfig\<close> values behind the pointers, and the first free address.\<close>

record nc_heap =
  cells :: "nc_ptr \<Rightarrow> NetworkConfig"
  next_free :: nc_ptr

definition nc_store :: "nc_heap \<Rightarrow> nc_ptr \<Rightarrow> NetworkConfig \<Rightarrow> nc_heap" where
  "nc_store h p c = h\<lparr>cells := (cells h)(p := c)\<rparr>"

text \<open>A Go map, listed in some order with each key once.\<close>

record Config =
  Networks :: "(string \<times> nc_ptr) list"
  DefaultKeyStore :: string

section \<open>Operations\<close>

definition GetNetworkConfig :: "Config \<Rightarrow> string \<Rightarrow> go_error + nc_ptr" where
  "GetNetworkConfig c name =
     (case map_of (Networks c) name of
        Some network \<Rightarrow> Inr network
      | None \<Rightarrow> Inl (ErrorString (''no supported network of name '' @ name @
          '' was found. Ensure that the config for it exists.'')))"

definition LocalStore_Fetch :: "LocalStore \<Rightarrow> string list option \<times> err" where
  "LocalStore_Fetch l =
     (case rawKeys l of
        None \<Rightarrow> (nil, Some (ErrorString ''no keys found, ensure your configuration is properly set''))
      | Some keys \<Rightarrow> (Some keys, nil))"

definition SecretStore_Fetch :: "SecretStore \<Rightarrow> string list option \<times> err" where
  "SecretStore_Fetch s = (Some [''''], nil)"

text \<open>The dynamic dispatch of a call through the interface \<open>PrivateKeyStore\<close>.\<close>

fun Fetch :: "PrivateKeyStore \<Rightarrow> string list option \<times> err" where
  "Fetch (Local l) = LocalStore_Fetch l"
| "Fetch (Secret s) = SecretStore_Fetch s"

definition NewPrivateKeyStore :: "ConfigurationType \<Rightarrow> NetworkConfig \<Rightarrow> PrivateKeyStore option" where
  "NewPrivateKeyStore configType network =
     (if configType = LocalConfig then Some (Local \<lparr>rawKeys = nc_PrivateKeys network\<rparr>)
      else if configType = SecretConfig then Some (Secret \<lparr>networkName = nc_Name network\<rparr>)
      else nil)"

text \<open>
  Viper: what the instance has been told before it reads, whether reading succeeds, and
  what unmarshalling into a \<open>Config\<close> yields: its networks (a null entry is a nil
  pointer), the default key store and an error.
\<close>

record viper_settings =
  AutomaticEnv :: bool
  ConfigName :: string
  ConfigType :: string
  ConfigPaths :: "string list"

record viper =
  ReadInConfig :: "viper_settings \<Rightarrow> err"
  Unmarshal :: "viper_settings \<Rightarrow> ((string \<times> NetworkConfig option) list \<times> string) \<times> err"

text \<open>Unmarshalling allocates one \<open>NetworkConfig\<close> per entry that is not null.\<close>

fun alloc_networks ::
  "nc_heap \<Rightarrow> (string \<times> NetworkConfig option) list \<Rightarrow> nc_heap \<times> (string \<times> nc_ptr option) list" where
  "alloc_networks h [] = (h, [])"
| "alloc_networks h ((name, None) # rest) =
     (case alloc_networks h rest of (h', ps) \<Rightarrow> (h', (name, None) # ps))"
| "alloc_networks h ((name, Some c) # rest) =
     (case alloc_networks (nc_store (h\<lparr>next_free := Suc (next_free h)\<rparr>) (next_free h) c) rest of
        (h', ps) \<Rightarrow> (h', (name, Some (next_free h)) # ps))"

text \<open>
  The loop that gives every network its key store. On a nil entry it panics: either
  \<open>NewPrivateKeyStore\<close> reads a field of it, or the assignment to its field does.
\<close>

fun set_key_stores :: "ConfigurationType \<Rightarrow> nc_ptr option list \<Rightarrow> nc_heap \<Rightarrow> nc_heap outcome" where
  "set_key_stores configType [] h = Value h"
| "set_key_stores configType (None # ps) h = Panic NilDereference"
| "set_key_stores configType (Some p # ps) h =
     set_key_stores configType ps
       (nc_store h p ((cells h p)\<lparr>nc_PrivateKeyStore := NewPrivateKeyStore configType (cells h p)\<rparr>))"

definition config_settings :: "string \<Rightarrow> viper_settings" where
  "config_settings configFilePath =
     \<lparr>AutomaticEnv = True, ConfigName = ''config'', ConfigType = ''yml'',
      ConfigPaths = [if configFilePath = [] then ''./'' else configFilePath]\<rparr>"

definition NewWithPath ::
  "viper \<Rightarrow> ConfigurationType \<Rightarrow> string \<Rightarrow> nc_heap \<Rightarrow> ((Config option \<times> err) \<times> nc_heap) outcome" where
  "NewWithPath vp configType configFilePath h =
     (let v = config_settings configFilePath
      in case ReadInConfig vp v of
           Some err \<Rightarrow> Value ((nil, Some err), h)
         | None \<Rightarrow>
             (case Unmarshal vp v of
                ((networks, keyStore), err) \<Rightarrow>
                  (case alloc_networks h networks of
                     (h1, ps) \<Rightarrow>
                       (case set_key_stores configType (map snd ps) h1 of
                          Panic p \<Rightarrow> Panic p
                        | Value h2 \<Rightarrow>
                            Value ((Some \<lparr>Networks = map (\<lambda>(n, p). (n, the p)) ps,
                                          DefaultKeyStore = keyStore\<rparr>, err), h2)))))"

definition NewConfig ::
  "viper \<Rightarrow> ConfigurationType \<Rightarrow> nc_heap \<Rightarrow> ((Config option \<times> err) \<times> nc_heap) outcome" where
  "NewConfig vp configType h = NewWithPath vp configType [] h"

section \<open>The interface \<open>PrivateKeyStore\<close>\<close>

text \<open>
  What callers of \<open>Fetch\<close> rely on: it hands out keys or an error, and keys that come
  without an error are a proper slice.
\<close>

locale key_store =
  fixes fetch :: "'s \<Rightarrow> string list option \<times> err"
  assumes keys_or_error: "(fst (fetch s) = None) = (snd (fetch s) \<noteq> None)"
begin

lemma fetch_cases:
  obtains (keys) ks where "fetch s = (Some ks, nil)"
  | (error) e where "fetch s = (nil, Some e)"
proof -
  obtain k e where eq: "fetch s = (k, e)" by (cases "fetch s")
  show thesis
    using keys_or_error [of s] keys error by (cases k; cases e) (auto simp: eq)
qed

end

interpretation local_store: key_store LocalStore_Fetch
  by unfold_locales (auto simp: LocalStore_Fetch_def split: option.splits)

interpretation secret_store: key_store SecretStore_Fetch
  by unfold_locales (auto simp: SecretStore_Fetch_def)

interpretation stores: key_store Fetch
proof
  fix s
  show "(fst (Fetch s) = None) = (snd (Fetch s) \<noteq> None)"
    using local_store.keys_or_error secret_store.keys_or_error by (cases s) simp_all
qed

section \<open>What a loaded configuration holds\<close>

lemma cells_nc_store [simp]: "cells (nc_store h p c) = (cells h)(p := c)"
  by (simp add: nc_store_def)

lemma next_free_nc_store [simp]: "next_free (nc_store h p c) = next_free h"
  by (simp add: nc_store_def)

lemma alloc_networks_names [simp]: "map fst (snd (alloc_networks h ns)) = map fst ns"
  by (induction h ns rule: alloc_networks.induct) (auto split: prod.splits)

lemma alloc_networks_frame:
  "p < next_free h \<Longrightarrow> cells (fst (alloc_networks h ns)) p = cells h p"
  by (induction h ns rule: alloc_networks.induct) (auto split: prod.splits)

lemma alloc_networks_fresh:
  "(n, Some p) \<in> set (snd (alloc_networks h ns)) \<Longrightarrow> next_free h \<le> p"
proof (induction h ns rule: alloc_networks.induct)
  case (3 h name c rest)
  let ?h = "nc_store (h\<lparr>next_free := Suc (next_free h)\<rparr>) (next_free h) c"
  from "3.prems" have "p = next_free h \<or> (n, Some p) \<in> set (snd (alloc_networks ?h rest))"
    by (auto split: prod.splits)
  then show ?case
    using "3.IH" by (auto dest: Suc_leD)
qed (auto split: prod.splits)

text \<open>Each entry gets its own cell, holding what was unmarshalled for it.\<close>

lemma alloc_networks_entry:
  "map_of ns n = Some (Some c) \<Longrightarrow>
   \<exists>p. map_of (snd (alloc_networks h ns)) n = Some (Some p) \<and> cells (fst (alloc_networks h ns)) p = c"
proof (induction h ns rule: alloc_networks.induct)
  case (3 h name d rest)
  let ?h = "nc_store (h\<lparr>next_free := Suc (next_free h)\<rparr>) (next_free h) d"
  have "cells (fst (alloc_networks ?h rest)) (next_free h) = d"
    by (subst alloc_networks_frame) simp_all
  with "3" show ?case
    by (cases "n = name") (simp_all add: case_prod_beta)
qed (simp_all add: case_prod_beta split: if_splits)

lemma alloc_networks_None_iff:
  "None \<in> set (map snd (snd (alloc_networks h ns))) \<longleftrightarrow> None \<in> set (map snd ns)"
  by (induction h ns rule: alloc_networks.induct) (simp_all add: case_prod_beta)

lemma set_key_stores_Value:
  "set_key_stores ct ps h = Value h' \<longleftrightarrow>
     None \<notin> set ps \<and>
     h' = fold (\<lambda>p h. nc_store h p ((cells h p)\<lparr>nc_PrivateKeyStore := NewPrivateKeyStore ct (cells h p)\<rparr>))
            (map the ps) h"
  by (induction ct ps h rule: set_key_stores.induct) auto

definition with_key_store :: "ConfigurationType \<Rightarrow> NetworkConfig \<Rightarrow> NetworkConfig" where
  "with_key_store ct c = c\<lparr>nc_PrivateKeyStore := NewPrivateKeyStore ct c\<rparr>"

lemma NewPrivateKeyStore_idem [simp]:
  "NewPrivateKeyStore ct (c\<lparr>nc_PrivateKeyStore := s\<rparr>) = NewPrivateKeyStore ct c"
  by (simp add: NewPrivateKeyStore_def)

lemma set_key_stores_fold:
  "fold (\<lambda>p h. nc_store h p (with_key_store ct (cells h p))) ps h =
     h\<lparr>cells := (\<lambda>p. if p \<in> set ps then with_key_store ct (cells h p) else cells h p)\<rparr>"
  by (induction ps arbitrary: h) (auto simp: nc_store_def with_key_store_def fun_eq_iff)

text \<open>The loop over the map: which cells it writes, and with what, does not depend on its order.\<close>

lemma set_key_stores_eq:
  "set_key_stores ct ps h =
     (if None \<in> set ps then Panic NilDereference
      else Value (h\<lparr>cells := (\<lambda>p. if Some p \<in> set ps then with_key_store ct (cells h p) else cells h p)\<rparr>))"
proof (cases "None \<in> set ps")
  case True
  then show ?thesis
    by (induction ct ps h rule: set_key_stores.induct) auto
next
  case False
  then have img: "p \<in> the ` set ps \<longleftrightarrow> Some p \<in> set ps" for p
    by (metis (no_types, lifting) image_iff option.collapse option.sel)
  have "set_key_stores ct ps h = Value (fold (\<lambda>p h. nc_store h p (with_key_store ct (cells h p))) (map the ps) h)"
    using False by (simp add: set_key_stores_Value with_key_store_def)
  with False show ?thesis
    by (simp add: set_key_stores_fold img)
qed

lemma map_of_the: "map_of ps n = Some (Some p) \<Longrightarrow> map_of (map (\<lambda>(n, p). (n, the p)) ps) n = Some p"
  by (induction ps) auto

text \<open>A load that succeeds, described by what viper unmarshalled.\<close>

lemma NewWithPath_entry:
  assumes load: "NewWithPath vp ct path h = Value ((Some conf, err), h')"
    and nets: "Unmarshal vp (config_settings path) = ((ns, ks), err)"
    and entry: "map_of ns name = Some (Some c)"
  shows "\<exists>p. GetNetworkConfig conf name = Inr p \<and> cells h' p = with_key_store ct c"
proof -
  obtain h1 ps where alloc: "alloc_networks h ns = (h1, ps)"
    by (cases "alloc_networks h ns")
  have read: "ReadInConfig vp (config_settings path) = None"
    using load by (simp add: NewWithPath_def Let_def split: option.splits)
  have conf: "Networks conf = map (\<lambda>(n, p). (n, the p)) ps"
    and h': "set_key_stores ct (map snd ps) h1 = Value h'"
    using load by (auto simp: NewWithPath_def Let_def read nets alloc split: outcome.splits)
  from alloc_networks_entry [OF entry, of h] alloc obtain p
    where p: "map_of ps name = Some (Some p)" "cells h1 p = c" by auto
  then have "Some p \<in> set (map snd ps)"
    by (force dest: map_of_SomeD)
  with h' p have "cells h' p = with_key_store ct c"
    by (simp add: set_key_stores_eq split: if_splits) force
  moreover have "GetNetworkConfig conf name = Inr p"
    using conf map_of_the [OF p(1)] by (simp add: GetNetworkConfig_def)
  ultimately show ?thesis by blast
qed

section \<open>Properties\<close>

text \<open>
  Loading a local configuration gives every network that viper unmarshalled a
  pointer of its own under its name, to a configuration that differs from the
  unmarshalled one in its key store only; fetching from that key store returns the
  configured keys, and fails exactly when the configuration lists none.
\<close>

theorem local_config_keys:
  assumes "NewWithPath vp LocalConfig path h = Value ((Some conf, err), h')"
    and "Unmarshal vp (config_settings path) = ((ns, ks), err)"
    and "map_of ns name = Some (Some c)"
  shows "\<exists>p s. GetNetworkConfig conf name = Inr p \<and>
    cells h' p = c\<lparr>nc_PrivateKeyStore := Some s\<rparr> \<and>
    fst (Fetch s) = nc_PrivateKeys c \<and> (snd (Fetch s) = nil) = (nc_PrivateKeys c \<noteq> None)"
proof -
  from NewWithPath_entry [OF assms] obtain p
    where "GetNetworkConfig conf name = Inr p" "cells h' p = with_key_store LocalConfig c" by blast
  then show ?thesis
    by (auto simp: with_key_store_def NewPrivateKeyStore_def LocalStore_Fetch_def split: option.splits)
qed

definition sample_network :: NetworkConfig where
  "sample_network = \<lparr>nc_Name = ''Ethereum Hardhat'', nc_URL = ''ws://localhost:8545'', nc_ChainID = 31337,
     nc_PrivateKeys = Some [''ac0974'', '' 59c699 ''], nc_TransactionLimit = 9500000, nc_Timeout = 0,
     nc_LinkTokenAddress = [], nc_MinimumConfirmations = 0, nc_GasEstimationBuffer = 0,
     nc_PrivateKeyStore = None\<rparr>"

definition sample_heap :: nc_heap where
  "sample_heap = \<lparr>cells = (\<lambda>_. sample_network), next_free = 0\<rparr>"

definition sample_viper :: viper where
  "sample_viper = \<lparr>ReadInConfig = (\<lambda>_. None),
     Unmarshal = (\<lambda>_. (([(''ethereum_hardhat'', Some sample_network)], []), None))\<rparr>"

theorem local_config_keys_witness:
  "\<exists>conf h' p s. NewWithPath sample_viper LocalConfig [] sample_heap = Value ((Some conf, None), h') \<and>
     GetNetworkConfig conf ''ethereum_hardhat'' = Inr p \<and>
     cells h' p = sample_network\<lparr>nc_PrivateKeyStore := Some s\<rparr> \<and>
     Fetch s = (Some [''ac0974'', '' 59c699 ''], nil)"
proof -
  obtain conf h' where load: "NewWithPath sample_viper LocalConfig [] sample_heap = Value ((Some conf, None), h')"
    by (simp add: NewWithPath_def sample_viper_def)
  have nets: "Unmarshal sample_viper (config_settings []) = (([(''ethereum_hardhat'', Some sample_network)], []), None)"
    by (simp add: sample_viper_def)
  obtain p s where "GetNetworkConfig conf ''ethereum_hardhat'' = Inr p"
    "cells h' p = sample_network\<lparr>nc_PrivateKeyStore := Some s\<rparr>"
    "fst (Fetch s) = nc_PrivateKeys sample_network"
    "(snd (Fetch s) = nil) = (nc_PrivateKeys sample_network \<noteq> None)"
    using local_config_keys [OF load nets, of "''ethereum_hardhat''" sample_network] by auto
  moreover have "nc_PrivateKeys sample_network = Some [''ac0974'', '' 59c699 '']"
    by (simp add: sample_network_def)
  ultimately show ?thesis
    using load by (metis option.distinct(1) prod.collapse)
qed

text \<open>
  The loop that hands out key stores ranges over a Go map, whose order is not
  specified: any two orders of the same entries leave the same heap, or both panic.
\<close>

theorem key_store_order_irrelevant:
  assumes "set ps = set ps'"
  shows "set_key_stores ct ps h = set_key_stores ct ps' h"
  using assms by (simp add: set_key_stores_eq)

theorem key_store_order_irrelevant_witness:
  "set_key_stores LocalConfig [Some 0, Some 1] sample_heap = set_key_stores LocalConfig [Some 1, Some 0] sample_heap"
  by (rule key_store_order_irrelevant) auto

end
