(* ===== verification/Blockchain.thy ===== *)
theory Blockchain
  imports Framework_Config
begin

text \<open>
  \<open>client/blockchain.go\<close>: the networks that can be tested against and the wallets on
  them. Only one implementation exists of each interface (\<open>EthereumNetwork\<close>, \<open>Wallets\<close>,
  \<open>EthereumWallet\<close>), so an interface value is a value of that type. The elliptic curve and
  address functions of go-ethereum are a parameter (\<open>crypto\<close>).
\<close>

section \<open>go-ethereum's keys and addresses\<close>

type_synonym address = "160 word"
type_synonym ecdsa_key = "256 word"

record crypto =
  HexToECDSA :: "string \<Rightarrow> go_error + ecdsa_key"
  PubkeyToAddress :: "ecdsa_key \<Rightarrow> address"
  HexToAddress :: "string \<Rightarrow> address"
  Address_Hex :: "address \<Rightarrow> string"

text \<open>\<open>HexToAddress\<close> reads back what \<open>Address.Hex\<close> prints.\<close>

definition hex_roundtrip :: "crypto \<Rightarrow> bool" where
  "hex_roundtrip cr \<longleftrightarrow> (\<forall>a. HexToAddress cr (Address_Hex cr a) = a)"

section \<open>Networks\<close>

type_synonym BlockchainNetworkID = string

definition EthereumHardhatID :: BlockchainNetworkID where
  "EthereumHardhatID = ''ethereum_hardhat''"

definition EthereumKovanID :: BlockchainNetworkID where
  "EthereumKovanID = ''ethereum_kovan''"

definition EthereumGoerliID :: BlockchainNetworkID where
  "EthereumGoerliID = ''ethereum_goerli''"

record EthereumNetwork =
  networkID :: string
  networkConfig :: nc_ptr

definition newEthereumNetwork :: "Config \<Rightarrow> BlockchainNetworkID \<Rightarrow> go_error + EthereumNetwork" where
  "newEthereumNetwork conf networkId =
     (case GetNetworkConfig conf networkId of
        Inl err \<Rightarrow> Inl err
      | Inr networkConf \<Rightarrow> Inr \<lparr>networkID = networkId, networkConfig = networkConf\<rparr>)"

definition NewHardhatNetwork :: "Config \<Rightarrow> go_error + EthereumNetwork" where
  "NewHardhatNetwork conf = newEthereumNetwork conf EthereumHardhatID"

definition NewKovanNetwork :: "Config \<Rightarrow> go_error + EthereumNetwork" where
  "NewKovanNetwork conf = newEthereumNetwork conf EthereumKovanID"

definition NewGoerliNetwork :: "Config \<Rightarrow> go_error + EthereumNetwork" where
  "NewGoerliNetwork conf = newEthereumNetwork conf EthereumGoerliID"

definition Network_ID :: "EthereumNetwork \<Rightarrow> string" where
  "Network_ID e = networkID e"

definition Network_URL :: "nc_heap \<Rightarrow> EthereumNetwork \<Rightarrow> string" where
  "Network_URL h e = nc_URL (cells h (networkConfig e))"

text \<open>\<open>big.NewInt(int64)\<close>: the signed value.\<close>

definition Network_ChainID :: "nc_heap \<Rightarrow> EthereumNetwork \<Rightarrow> int" where
  "Network_ChainID h e = sint (nc_ChainID (cells h (networkConfig e)))"

definition Network_Config :: "EthereumNetwork \<Rightarrow> nc_ptr" where
  "Network_Config e = networkConfig e"

section \<open>Wallets\<close>

record EthereumWallet =
  privateKey :: string
  wallet_address :: address

definition NewEthereumWallet :: "crypto \<Rightarrow> string \<Rightarrow> go_error + EthereumWallet" where
  "NewEthereumWallet cr pk =
     (case HexToECDSA cr pk of
        Inl err \<Rightarrow> Inl (Errorf_v ''invalid private key: '' err [])
      | Inr key \<Rightarrow> Inr \<lparr>privateKey = pk, wallet_address = PubkeyToAddress cr key\<rparr>)"

definition PrivateKey :: "EthereumWallet \<Rightarrow> string" where
  "PrivateKey e = privateKey e"

definition Address :: "crypto \<Rightarrow> EthereumWallet \<Rightarrow> string" where
  "Address cr e = Address_Hex cr (wallet_address e)"

text \<open>The indices are Go \<open>int\<close>s: compared, never computed with, so \<^typ>\<open>int\<close> stands for them.\<close>

record Wallets =
  defaultWallet :: int
  wallets :: "EthereumWallet list"

definition walletSliceIndexInRange :: "EthereumWallet list \<Rightarrow> int \<Rightarrow> err" where
  "walletSliceIndexInRange ws i =
     (if i > int (length ws) - 1 then Some (ErrorString ''invalid index in list of wallets'') else nil)"

definition Default :: "Wallets \<Rightarrow> EthereumWallet outcome" where
  "Default w = index (wallets w) (defaultWallet w)"

definition SetDefault :: "Wallets \<Rightarrow> int \<Rightarrow> Wallets \<times> err" where
  "SetDefault w i =
     (case walletSliceIndexInRange (wallets w) i of
        Some err \<Rightarrow> (w, Some err)
      | None \<Rightarrow> (w\<lparr>defaultWallet := i\<rparr>, nil))"

definition Wallet :: "Wallets \<Rightarrow> int \<Rightarrow> (EthereumWallet option \<times> err) outcome" where
  "Wallet w i =
     (case walletSliceIndexInRange (wallets w) i of
        Some err \<Rightarrow> Value (nil, Some err)
      | None \<Rightarrow>
          (case index (wallets w) i of
             Value x \<Rightarrow> Value (Some x, nil)
           | Panic p \<Rightarrow> Panic p))"

text \<open>The loop over the fetched keys, with the wallets processed so far.\<close>

fun process_keys :: "crypto \<Rightarrow> string list \<Rightarrow> EthereumWallet list \<Rightarrow> Wallets \<times> err" where
  "process_keys cr [] processedWallets = (\<lparr>defaultWallet = 0, wallets = processedWallets\<rparr>, nil)"
| "process_keys cr (key # keys) processedWallets =
     (case NewEthereumWallet cr (TrimSpace key) of
        Inl err \<Rightarrow> (\<lparr>defaultWallet = 0, wallets = []\<rparr>, Some err)
      | Inr wallet \<Rightarrow> process_keys cr keys (processedWallets @ [wallet]))"

text \<open>A call through a nil \<open>PrivateKeyStore\<close> panics; ranging over a nil slice does nothing.\<close>

definition newEthereumWallets :: "crypto \<Rightarrow> PrivateKeyStore option \<Rightarrow> (Wallets option \<times> err) outcome" where
  "newEthereumWallets cr pkStore =
     (case pkStore of
        None \<Rightarrow> Panic NilDereference
      | Some st \<Rightarrow>
          (case Fetch st of
             (_, Some err) \<Rightarrow> Value (nil, Some err)
           | (keys, None) \<Rightarrow>
               (case process_keys cr (case keys of None \<Rightarrow> [] | Some ks \<Rightarrow> ks) [] of
                  (ws, err) \<Rightarrow> Value (Some ws, err))))"

definition Network_Wallets ::
  "crypto \<Rightarrow> nc_heap \<Rightarrow> EthereumNetwork \<Rightarrow> (Wallets option \<times> err) outcome" where
  "Network_Wallets cr h e = newEthereumWallets cr (nc_PrivateKeyStore (cells h (networkConfig e)))"

section \<open>The interface \<open>BlockchainWallets\<close>\<close>

text \<open>
  What a user of a set of wallets may rely on, for indices that are not negative: a
  wallet of the slice or an error by index, a default that is the last one accepted,
  and a slice that choosing a default does not change.
\<close>

locale blockchain_wallets =
  fixes default :: "'s \<Rightarrow> 'x outcome"
    and set_default :: "'s \<Rightarrow> int \<Rightarrow> 's \<times> err"
    and wallet :: "'s \<Rightarrow> int \<Rightarrow> ('x option \<times> err) outcome"
    and slice :: "'s \<Rightarrow> 'x list"
  assumes wallet_in: "0 \<le> i \<Longrightarrow> i < int (length (slice s)) \<Longrightarrow> wallet s i = Value (Some (slice s ! nat i), nil)"
    and wallet_beyond: "int (length (slice s)) \<le> i \<Longrightarrow> \<exists>e. wallet s i = Value (nil, Some e)"
    and set_default_in: "0 \<le> i \<Longrightarrow> i < int (length (slice s)) \<Longrightarrow>
      snd (set_default s i) = nil \<and> default (fst (set_default s i)) = Value (slice s ! nat i)"
    and set_default_beyond: "int (length (slice s)) \<le> i \<Longrightarrow> fst (set_default s i) = s \<and> snd (set_default s i) \<noteq> nil"
    and set_default_slice: "slice (fst (set_default s i)) = slice s"
begin

lemma set_defaults_slice: "slice (fold (\<lambda>i s. fst (set_default s i)) js s) = slice s"
  by (induction js arbitrary: s) (simp_all add: set_default_slice)

text \<open>A run of calls leaves the wallet at the last index in range as the default.\<close>

lemma set_defaults_default:
  assumes "\<forall>i \<in> set js. 0 \<le> i" and "0 \<le> d" and "d < int (length (slice s))"
    and "default s = Value (slice s ! nat d)"
  shows "default (fold (\<lambda>i s. fst (set_default s i)) js s) =
    Value (slice s ! nat (last (d # filter (\<lambda>i. i < int (length (slice s))) js)))"
  using assms
proof (induction js arbitrary: s d)
  case Nil
  then show ?case by simp
next
  case (Cons j js)
  let ?s = "fst (set_default s j)"
  show ?case
  proof (cases "j < int (length (slice s))")
    case True
    with Cons.prems set_default_in [of j s] have "default ?s = Value (slice s ! nat j)" by simp
    with True Cons.prems Cons.IH [of j ?s] show ?thesis
      by (simp add: set_default_slice)
  next
    case False
    with set_default_beyond [of s j] have "?s = s" by simp
    with False Cons.prems Cons.IH [of d s] show ?thesis by simp
  qed
qed

lemma default_is_wallet:
  assumes "0 \<le> i" and "set_default s i = (s', nil)"
  shows "\<exists>x. default s' = Value x \<and> wallet s' i = Value (Some x, nil)"
proof (cases "i < int (length (slice s))")
  case True
  with assms set_default_in [of i s] set_default_slice [of s i] wallet_in [of i s']
  show ?thesis by auto
next
  case False
  with set_default_beyond [of s i] assms show ?thesis by simp
qed

end

interpretation ews: blockchain_wallets Default SetDefault Wallet wallets
  by unfold_locales
    (auto simp: Default_def SetDefault_def Wallet_def walletSliceIndexInRange_def index_def)

section \<open>The wallets of a key store\<close>

text \<open>The wallet made of a fetched key.\<close>

definition wallet_of_key :: "crypto \<Rightarrow> string \<Rightarrow> EthereumWallet \<Rightarrow> bool" where
  "wallet_of_key cr key x = (NewEthereumWallet cr (TrimSpace key) = Inr x)"

lemma wallet_of_key_PrivateKey: "wallet_of_key cr key x \<Longrightarrow> PrivateKey x = TrimSpace key"
  by (auto simp: wallet_of_key_def NewEthereumWallet_def PrivateKey_def split: sum.splits)

lemma process_keys_cases:
  obtains (made) ws where "list_all2 (wallet_of_key cr) keys ws"
    "process_keys cr keys acc = (\<lparr>defaultWallet = 0, wallets = acc @ ws\<rparr>, nil)"
  | (bad_key) good key rest ws e where "keys = good @ key # rest" "list_all2 (wallet_of_key cr) good ws"
    "NewEthereumWallet cr (TrimSpace key) = Inl e"
    "process_keys cr keys acc = (\<lparr>defaultWallet = 0, wallets = []\<rparr>, Some e)"
proof (induction keys arbitrary: acc thesis)
  case Nil
  then show ?case by simp
next
  case (Cons k ks)
  show ?case
  proof (cases "NewEthereumWallet cr (TrimSpace k)")
    case (Inl e)
    then show ?thesis using Cons.prems(2) [of "[]" k ks "[]" e] by simp
  next
    case (Inr x)
    then have first: "wallet_of_key cr k x"
      and step: "process_keys cr (k # ks) acc = process_keys cr ks (acc @ [x])"
      by (simp_all add: wallet_of_key_def)
    show ?thesis
    proof (rule Cons.IH [of "acc @ [x]"])
      fix ws
      assume "list_all2 (wallet_of_key cr) ks ws"
        "process_keys cr ks (acc @ [x]) = (\<lparr>defaultWallet = 0, wallets = (acc @ [x]) @ ws\<rparr>, nil)"
      with first step show ?thesis by (intro Cons.prems(1) [of "x # ws"]) simp_all
    next
      fix good key rest ws e
      assume "ks = good @ key # rest" "list_all2 (wallet_of_key cr) good ws"
        "NewEthereumWallet cr (TrimSpace key) = Inl e"
        "process_keys cr ks (acc @ [x]) = (\<lparr>defaultWallet = 0, wallets = []\<rparr>, Some e)"
      with first step show ?thesis
        by (intro Cons.prems(2) [of "k # good" key rest "x # ws" e]) simp_all
    qed
  qed
qed

section \<open>Properties\<close>

text \<open>
  Making the wallets of a key store either yields one wallet per fetched key, in
  the store's order, each with its key stripped of surrounding white space and the
  address of that key, the first one being the default; or it fails with the error of
  the first key that is no private key, and then with no wallet at all.
\<close>

theorem wallets_of_key_store:
  assumes "Fetch st = (Some keys, nil)"
  shows "(\<exists>ws. newEthereumWallets cr (Some st) = Value (Some \<lparr>defaultWallet = 0, wallets = ws\<rparr>, nil) \<and>
           list_all2 (wallet_of_key cr) keys ws \<and> map PrivateKey ws = map TrimSpace keys) \<or>
    (\<exists>good key rest e.
       newEthereumWallets cr (Some st) = Value (Some \<lparr>defaultWallet = 0, wallets = []\<rparr>, Some e) \<and>
       keys = good @ key # rest \<and> NewEthereumWallet cr (TrimSpace key) = Inl e \<and>
       (\<exists>ws. list_all2 (wallet_of_key cr) good ws))"
proof (cases rule: process_keys_cases [of cr keys "[]"])
  case (made ws)
  from made(1) have "map PrivateKey ws = map TrimSpace keys"
    by (induction rule: list_all2_induct) (auto dest: wallet_of_key_PrivateKey)
  with made assms show ?thesis by (auto simp: newEthereumWallets_def)
next
  case bad_key
  with assms show ?thesis by (auto simp: newEthereumWallets_def)
qed

definition sample_crypto :: crypto where
  "sample_crypto = \<lparr>HexToECDSA = (\<lambda>s. if s = [] then Inl (LibError ''invalid length, need 256 bits'') else Inr (of_nat (length s))),
     PubkeyToAddress = (\<lambda>k. of_nat (unat k)),
     HexToAddress = (\<lambda>s. of_nat (length s)),
     Address_Hex = (\<lambda>a. replicate (unat a) CHR ''0'')\<rparr>"

theorem wallets_of_key_store_witness:
  "(\<exists>ws. newEthereumWallets sample_crypto (Some (Local \<lparr>rawKeys = Some [''ac'', '' 59 '']\<rparr>)) =
       Value (Some \<lparr>defaultWallet = 0, wallets = ws\<rparr>, nil) \<and> map PrivateKey ws = [''ac'', ''59''])"
proof -
  have keys: "Fetch (Local \<lparr>rawKeys = Some [''ac'', '' 59 '']\<rparr>) = (Some [''ac'', '' 59 ''], nil)"
    by (simp add: LocalStore_Fetch_def)
  have trim: "TrimSpace ''ac'' = ''ac''" "TrimSpace '' 59 '' = ''59''"
    by (simp_all add: TrimSpace_def ascii_space_def space2_def space3_def)
  have ok: "NewEthereumWallet sample_crypto (TrimSpace k) \<noteq> Inl e" if "k \<in> {''ac'', '' 59 ''}" for k e
    using that trim by (auto simp: NewEthereumWallet_def sample_crypto_def)
  show ?thesis
    using wallets_of_key_store [OF keys, of sample_crypto] ok trim
    by (auto simp: Cons_eq_append_conv)
qed

text \<open>
  Wallets made from a non-empty store always have a default: after any calls of
  \<open>SetDefault\<close> with indices that are not negative, accepted or not, \<open>Default\<close> returns
  the wallet at the last index that was in range, the first wallet if there was none.
\<close>

theorem default_wallet_after_calls:
  assumes "\<forall>i \<in> set js. 0 \<le> i" and "ws \<noteq> []"
  shows "Default (fold (\<lambda>i w. fst (SetDefault w i)) js \<lparr>defaultWallet = 0, wallets = ws\<rparr>) =
    Value (ws ! nat (last (0 # filter (\<lambda>i. i < int (length ws)) js)))"
  using ews.set_defaults_default [OF assms(1), of 0 "\<lparr>defaultWallet = 0, wallets = ws\<rparr>"] assms(2)
  by (simp add: Default_def index_def)

theorem default_wallet_after_calls_witness:
  "Default (fold (\<lambda>i w. fst (SetDefault w i)) [1, 7]
      \<lparr>defaultWallet = 0, wallets = [\<lparr>privateKey = ''a'', wallet_address = 1\<rparr>, \<lparr>privateKey = ''b'', wallet_address = 2\<rparr>]\<rparr>) =
    Value \<lparr>privateKey = ''b'', wallet_address = 2\<rparr>"
  using default_wallet_after_calls [of "[1, 7]" "[\<lparr>privateKey = ''a'', wallet_address = 1\<rparr>, \<lparr>privateKey = ''b'', wallet_address = 2\<rparr>]"]
  by simp

text \<open>
  The range check of \<open>SetDefault\<close> and \<open>Wallet\<close> has no lower bound. \<open>SetDefault\<close>
  accepts exactly the indices below the number of wallets; an accepted index makes the
  next \<open>Default\<close> panic exactly when it is negative, and \<open>Wallet\<close> panics, instead of
  returning an error, exactly at a negative index.
\<close>

theorem index_check_exact:
  "(snd (SetDefault w i) = nil) = (i < int (length (wallets w))) \<and>
   (snd (SetDefault w i) = nil \<and> Default (fst (SetDefault w i)) = Panic IndexOutOfRange) = (i < 0) \<and>
   (\<exists>p. Wallet w i = Panic p) = (i < 0)"
  by (auto simp: SetDefault_def Wallet_def Default_def walletSliceIndexInRange_def index_def)

end
