(* ===== verification/Eth_Client.thy ===== *)
theory Eth_Client
  imports Blockchain
begin

text \<open>
  \<open>client/ethereum.go\<close>: the client that sends transactions to an EVM chain, deploys
  contracts and waits for confirmations. The JSON-RPC connection of go-ethereum
  (\<open>ethclient\<close>) and its signing functions are a parameter (\<open>'w eth_rpc\<close>): each call
  takes the state \<open>'w\<close> of the outside world and returns its result and the next state.
  Log output is not modelled.
\<close>

section \<open>What the client uses of go-ethereum\<close>

type_synonym hash = "256 word"

text \<open>A \<open>*big.Int\<close> argument may be nil.\<close>

type_synonym big = "int option"

record CallMsg =
  cm_From :: address
  cm_To :: "address option"
  cm_Gas :: u64
  cm_GasPrice :: int
  cm_Value :: big
  cm_Data :: string

record LegacyTx =
  ltx_Nonce :: u64
  ltx_GasPrice :: int
  ltx_Gas :: u64
  ltx_To :: "address option"
  ltx_Value :: big
  ltx_Data :: string

text \<open>A signed transaction: its hash and what was signed.\<close>

record Transaction =
  tx_Hash :: hash
  tx_inner :: LegacyTx

record TransactOpts =
  to_From :: address
  to_Nonce :: int
  to_Signer :: "ecdsa_key \<times> int"
  to_Value :: big
  to_GasPrice :: int
  to_GasLimit :: u64

text \<open>
  What a \<open>select\<close> of \<open>WaitForTransaction\<close> receives: a value of the subscription's error
  channel (nil when the channel is closed), the header of a new block, or the timer of
  \<open>time.After\<close>. Which one is ready first is the environment's choice; the timer always
  fires in the end, so a \<open>select\<close> always returns.
\<close>

datatype wait_event = SubErr err | NewHead int | TimerFired

record 'w eth_rpc =
  Dial :: "string \<Rightarrow> 'w \<Rightarrow> (go_error + nat) \<times> 'w"
  SuggestGasPrice :: "nat \<Rightarrow> 'w \<Rightarrow> (go_error + int) \<times> 'w"
  PendingNonceAt :: "nat \<Rightarrow> address \<Rightarrow> 'w \<Rightarrow> (go_error + u64) \<times> 'w"
  BroadcastTransaction :: "nat \<Rightarrow> Transaction \<Rightarrow> 'w \<Rightarrow> err \<times> 'w"
  SubscribeNewHead :: "nat \<Rightarrow> 'w \<Rightarrow> (go_error + nat) \<times> 'w"
  Unsubscribe :: "nat \<Rightarrow> 'w \<Rightarrow> unit \<times> 'w"
  Select :: "nat \<Rightarrow> i64 \<Rightarrow> 'w \<Rightarrow> wait_event \<times> 'w"
  BlockByNumber :: "nat \<Rightarrow> int \<Rightarrow> 'w \<Rightarrow> err \<times> 'w"
  TransactionByHash :: "nat \<Rightarrow> hash \<Rightarrow> 'w \<Rightarrow> (bool \<times> err) \<times> 'w"
  SignNewTx :: "ecdsa_key \<Rightarrow> int \<Rightarrow> LegacyTx \<Rightarrow> go_error + Transaction"
  NewKeyedTransactorWithChainID :: "ecdsa_key \<Rightarrow> int \<Rightarrow> go_error + TransactOpts"
  keys :: crypto

section \<open>The client\<close>

record EthereumClient =
  Client :: nat
  Network :: EthereumNetwork

abbreviation network_config :: "nc_heap \<Rightarrow> EthereumClient \<Rightarrow> NetworkConfig" where
  "network_config h e \<equiv> cells h (Network_Config (Network e))"

definition NewEthereumClient ::
  "'w eth_rpc \<Rightarrow> nc_heap \<Rightarrow> EthereumNetwork \<Rightarrow> 'w \<Rightarrow> (go_error + EthereumClient, 'w) go" where
  "NewEthereumClient E h network w =
     bind_go (call (Dial E (Network_URL h network)) w) (\<lambda>r w.
     case r of
       Inl err \<Rightarrow> Ret (Inl err) w
     | Inr cl \<Rightarrow> Ret (Inr \<lparr>Client = cl, Network = network\<rparr>) w)"

definition TransactionCallMessage ::
  "'w eth_rpc \<Rightarrow> nc_heap \<Rightarrow> EthereumClient \<Rightarrow> EthereumWallet \<Rightarrow> address \<Rightarrow> big \<Rightarrow> string \<Rightarrow> 'w \<Rightarrow>
     (go_error + CallMsg, 'w) go" where
  "TransactionCallMessage E h e from to value data w =
     bind_go (call (SuggestGasPrice E (Client e)) w) (\<lambda>r w.
     case r of
       Inl err \<Rightarrow> Ret (Inl err) w
     | Inr gasPrice \<Rightarrow>
         Ret (Inr \<lparr>cm_From = HexToAddress (keys E) (Address (keys E) from),
                   cm_To = Some to,
                   cm_Gas = nc_TransactionLimit (network_config h e) + nc_GasEstimationBuffer (network_config h e),
                   cm_GasPrice = gasPrice,
                   cm_Value = value,
                   cm_Data = data\<rparr>) w)"

definition invalid_private_key :: "go_error \<Rightarrow> go_error" where
  "invalid_private_key err = Errorf_v ''invalid private key: '' err []"

text \<open>
  \<open>opts.Nonce = big.NewInt(int64(nonce))\<close> reads the unsigned nonce as a signed number.
  The recipient and the data only go into the call message, of which the options keep
  the sender, the gas price and the gas limit.
\<close>

definition TransactionOpts ::
  "'w eth_rpc \<Rightarrow> nc_heap \<Rightarrow> EthereumClient \<Rightarrow> EthereumWallet \<Rightarrow> address \<Rightarrow> big \<Rightarrow> string \<Rightarrow> 'w \<Rightarrow>
     (go_error + TransactOpts, 'w) go" where
  "TransactionOpts E h e from to value data w =
     bind_go (TransactionCallMessage E h e from to value data w) (\<lambda>r w.
     case r of Inl err \<Rightarrow> Ret (Inl err) w
     | Inr callMsg \<Rightarrow>
     bind_go (call (PendingNonceAt E (Client e) (HexToAddress (keys E) (Address (keys E) from))) w) (\<lambda>r w.
     case r of Inl err \<Rightarrow> Ret (Inl err) w
     | Inr nonce \<Rightarrow>
     (case HexToECDSA (keys E) (PrivateKey from) of Inl err \<Rightarrow> Ret (Inl (invalid_private_key err)) w
     | Inr pk \<Rightarrow>
     (case NewKeyedTransactorWithChainID E pk (Network_ChainID h (Network e)) of Inl err \<Rightarrow> Ret (Inl err) w
     | Inr opts \<Rightarrow>
         Ret (Inr (opts\<lparr>to_From := cm_From callMsg,
                        to_Nonce := sint nonce,
                        to_Value := value,
                        to_GasPrice := cm_GasPrice callMsg,
                        to_GasLimit := cm_Gas callMsg\<rparr>)) w))))"

definition isTxConfirmed :: "'w eth_rpc \<Rightarrow> EthereumClient \<Rightarrow> hash \<Rightarrow> 'w \<Rightarrow> (bool \<times> err) \<times> 'w" where
  "isTxConfirmed E e txHash w =
     (case TransactionByHash E (Client e) txHash w of
        ((isPending, err), w') \<Rightarrow> ((\<not> isPending, err), w'))"

text \<open>
  The error of a timeout, with \<open>timeout.Seconds()\<close> printed by \<open>%f\<close>: six digits after
  the point, so the duration in whole microseconds, rounded to the nearest.
\<close>

definition fmt_f_seconds :: "i64 \<Rightarrow> string" where
  "fmt_f_seconds d =
     (let us = (\<bar>sint d\<bar> + 500) div 1000; frac = nat_digits (nat (us mod 1000000))
      in (if sint d < 0 then ''-'' else []) @ fmt_d (us div 1000000) @ ''.'' @
         replicate (6 - length frac) CHR ''0'' @ frac)"

definition timeout_error :: "i64 \<Rightarrow> go_error" where
  "timeout_error timeout =
     ErrorString (''timeout waiting for transaction after '' @ fmt_f_seconds timeout @ '' seconds'')"

text \<open>
  The \<open>for\<close> loop of \<open>WaitForTransaction\<close> with its confirmation counter, one \<open>select\<close> per
  round. Nothing bounds the number of rounds: the loop is partial, and \<open>None\<close> means
  that it never returns.
\<close>

partial_function (option) wait_loop ::
  "'w eth_rpc \<Rightarrow> nc_heap \<Rightarrow> EthereumClient \<Rightarrow> nat \<Rightarrow> hash \<Rightarrow> i64 \<Rightarrow> 'w \<Rightarrow> (err \<times> 'w) option" where
  "wait_loop E h e sub txHash confirmations w =
     (case Select E sub (nc_Timeout (network_config h e)) w of
        (SubErr err, w) \<Rightarrow> Some (err, w)
      | (NewHead number, w) \<Rightarrow>
          (case BlockByNumber E (Client e) number w of
             (Some err, w) \<Rightarrow> Some (Some err, w)
           | (None, w) \<Rightarrow>
               (case isTxConfirmed E e txHash w of
                  ((isConfirmed, err), w) \<Rightarrow>
                    if err \<noteq> nil then Some (err, w)
                    else if \<not> isConfirmed then wait_loop E h e sub txHash confirmations w
                    else if sint (confirmations + 1) \<ge> sint (nc_MinimumConfirmations (network_config h e))
                    then Some (err, w)
                    else wait_loop E h e sub txHash (confirmations + 1) w))
      | (TimerFired, w) \<Rightarrow>
          (case isTxConfirmed E e txHash w of
             ((isConfirmed, err), w) \<Rightarrow>
               if err \<noteq> nil then Some (err, w)
               else if isConfirmed then Some (nil, w)
               else Some (Some (timeout_error (nc_Timeout (network_config h e))), w)))"

definition WaitForTransaction ::
  "'w eth_rpc \<Rightarrow> nc_heap \<Rightarrow> EthereumClient \<Rightarrow> hash \<Rightarrow> 'w \<Rightarrow> (err, 'w) go" where
  "WaitForTransaction E h e transactionHash w =
     bind_go (call (SubscribeNewHead E (Client e)) w) (\<lambda>r w.
     case r of Inl err \<Rightarrow> Ret (Some err) w
     | Inr subscription \<Rightarrow>
         (case wait_loop E h e subscription transactionHash 0 w of
            None \<Rightarrow> Hang
          | Some (err, w) \<Rightarrow> bind_go (call (Unsubscribe E subscription) w) (\<lambda>_ w. Ret err w)))"

definition SendTransaction ::
  "'w eth_rpc \<Rightarrow> nc_heap \<Rightarrow> EthereumClient \<Rightarrow> EthereumWallet \<Rightarrow> address \<Rightarrow> big \<Rightarrow> string \<Rightarrow> 'w \<Rightarrow>
     (hash option \<times> err, 'w) go" where
  "SendTransaction E h e from to value data w =
     bind_go (TransactionCallMessage E h e from to value data w) (\<lambda>r w.
     case r of Inl err \<Rightarrow> Ret (nil, Some err) w
     | Inr callMsg \<Rightarrow>
     (case HexToECDSA (keys E) (PrivateKey from) of Inl err \<Rightarrow> Ret (nil, Some (invalid_private_key err)) w
     | Inr pk \<Rightarrow>
     bind_go (call (PendingNonceAt E (Client e) (HexToAddress (keys E) (Address (keys E) from))) w) (\<lambda>r w.
     case r of Inl err \<Rightarrow> Ret (nil, Some err) w
     | Inr nonce \<Rightarrow>
     (case SignNewTx E pk (Network_ChainID h (Network e))
             \<lparr>ltx_Nonce = nonce, ltx_GasPrice = cm_GasPrice callMsg, ltx_Gas = cm_Gas callMsg,
              ltx_To = cm_To callMsg, ltx_Value = cm_Value callMsg, ltx_Data = cm_Data callMsg\<rparr> of
        Inl err \<Rightarrow> Ret (nil, Some err) w
      | Inr tx \<Rightarrow>
     bind_go (call (BroadcastTransaction E (Client e) tx) w) (\<lambda>err w.
     if err \<noteq> nil then Ret (nil, err) w
     else bind_go (WaitForTransaction E h e (tx_Hash tx) w) (\<lambda>err w. Ret (Some (tx_Hash tx), err) w))))))"

text \<open>
  \<open>DeployContract\<close> runs a deployer, which makes the deployment transaction and the
  binding of the contract, and waits for the transaction.
\<close>

definition DeployContract ::
  "'w eth_rpc \<Rightarrow> nc_heap \<Rightarrow> EthereumClient \<Rightarrow> EthereumWallet \<Rightarrow> string \<Rightarrow>
     (TransactOpts \<Rightarrow> nat \<Rightarrow> 'w \<Rightarrow> (go_error + address \<times> Transaction \<times> 'i, 'w) go) \<Rightarrow> 'w \<Rightarrow>
     (go_error + address \<times> Transaction \<times> 'i, 'w) go" where
  "DeployContract E h e fromWallet contractName deployer w =
     bind_go (TransactionOpts E h e fromWallet 0 (Some 0) [] w) (\<lambda>r w.
     case r of Inl err \<Rightarrow> Ret (Inl err) w
     | Inr opts \<Rightarrow>
     bind_go (deployer opts (Client e) w) (\<lambda>r w.
     case r of Inl err \<Rightarrow> Ret (Inl err) w
     | Inr (contractAddress, transaction, contractInstance) \<Rightarrow>
     bind_go (WaitForTransaction E h e (tx_Hash transaction) w) (\<lambda>err w.
     case err of
       Some err \<Rightarrow> Ret (Inl err) w
     | None \<Rightarrow> Ret (Inr (contractAddress, transaction, contractInstance)) w)))"

section \<open>The waiting loop as a state machine\<close>

text \<open>
  One round of the loop: a new block with the transaction confirmed or still pending,
  or the end of the loop.
\<close>

datatype 'w wait_round = Confirmed 'w | Pending 'w | Exit err 'w

definition wait_round ::
  "'w eth_rpc \<Rightarrow> nc_heap \<Rightarrow> EthereumClient \<Rightarrow> nat \<Rightarrow> hash \<Rightarrow> 'w \<Rightarrow> 'w wait_round" where
  "wait_round E h e sub txHash w =
     (case Select E sub (nc_Timeout (network_config h e)) w of
        (SubErr err, w) \<Rightarrow> Exit err w
      | (NewHead number, w) \<Rightarrow>
          (case BlockByNumber E (Client e) number w of
             (Some err, w) \<Rightarrow> Exit (Some err) w
           | (None, w) \<Rightarrow>
               (case isTxConfirmed E e txHash w of
                  ((isConfirmed, Some err), w) \<Rightarrow> Exit (Some err) w
                | ((isConfirmed, None), w) \<Rightarrow> if isConfirmed then Confirmed w else Pending w))
      | (TimerFired, w) \<Rightarrow>
          (case isTxConfirmed E e txHash w of
             ((isConfirmed, Some err), w) \<Rightarrow> Exit (Some err) w
           | ((isConfirmed, None), w) \<Rightarrow>
               Exit (if isConfirmed then nil else Some (timeout_error (nc_Timeout (network_config h e)))) w))"

abbreviation min_confirmations :: "nc_heap \<Rightarrow> EthereumClient \<Rightarrow> int" where
  "min_confirmations h e \<equiv> sint (nc_MinimumConfirmations (network_config h e))"

text \<open>The body of the loop, with any continuation for the next round, by its round.\<close>

lemma wait_body_round:
  "(case Select E sub (nc_Timeout (network_config h e)) w of
        (SubErr err, w) \<Rightarrow> Some (err, w)
      | (NewHead number, w) \<Rightarrow>
          (case BlockByNumber E (Client e) number w of
             (Some err, w) \<Rightarrow> Some (Some err, w)
           | (None, w) \<Rightarrow>
               (case isTxConfirmed E e tx w of
                  ((isConfirmed, err), w) \<Rightarrow>
                    if err \<noteq> nil then Some (err, w)
                    else if \<not> isConfirmed then k c w
                    else if sint (c + 1) \<ge> min_confirmations h e then Some (err, w)
                    else k (c + 1) w))
      | (TimerFired, w) \<Rightarrow>
          (case isTxConfirmed E e tx w of
             ((isConfirmed, err), w) \<Rightarrow>
               if err \<noteq> nil then Some (err, w)
               else if isConfirmed then Some (nil, w)
               else Some (Some (timeout_error (nc_Timeout (network_config h e))), w))) =
     (case wait_round E h e sub tx w of
        Exit err w \<Rightarrow> Some (err, w)
      | Pending w \<Rightarrow> k c w
      | Confirmed w \<Rightarrow> if min_confirmations h e \<le> sint (c + 1) then Some (nil, w) else k (c + 1) w)"
  by (simp add: wait_round_def split: prod.split wait_event.split option.split if_split)

lemma wait_loop_round:
  "wait_loop E h e sub tx c w =
     (case wait_round E h e sub tx w of
        Exit err w \<Rightarrow> Some (err, w)
      | Pending w \<Rightarrow> wait_loop E h e sub tx c w
      | Confirmed w \<Rightarrow>
          if min_confirmations h e \<le> sint (c + 1) then Some (nil, w) else wait_loop E h e sub tx (c + 1) w)"
  by (subst wait_loop.simps) (rule wait_body_round)

text \<open>
  A path: rounds that do not end the loop, each recorded as whether it found the
  transaction confirmed, from a counter and world to a later counter and world.
\<close>

inductive wait_path ::
  "'w eth_rpc \<Rightarrow> nc_heap \<Rightarrow> EthereumClient \<Rightarrow> nat \<Rightarrow> hash \<Rightarrow> i64 \<Rightarrow> 'w \<Rightarrow> bool list \<Rightarrow> i64 \<Rightarrow> 'w \<Rightarrow> bool"
  for E h e sub tx where
  here: "wait_path E h e sub tx c w [] c w"
| pending: "wait_round E h e sub tx w = Pending w1 \<Longrightarrow> wait_path E h e sub tx c w1 rs c2 w2 \<Longrightarrow>
    wait_path E h e sub tx c w (False # rs) c2 w2"
| confirmed: "wait_round E h e sub tx w = Confirmed w1 \<Longrightarrow> sint (c + 1) < min_confirmations h e \<Longrightarrow>
    wait_path E h e sub tx (c + 1) w1 rs c2 w2 \<Longrightarrow> wait_path E h e sub tx c w (True # rs) c2 w2"

inductive_cases wait_path_NilE: "wait_path E h e sub tx c w [] c2 w2"
inductive_cases wait_path_ConsE: "wait_path E h e sub tx c w (r # rs) c2 w2"

text \<open>The round that ends the loop, with its result.\<close>

definition wait_ends ::
  "'w eth_rpc \<Rightarrow> nc_heap \<Rightarrow> EthereumClient \<Rightarrow> nat \<Rightarrow> hash \<Rightarrow> i64 \<Rightarrow> 'w \<Rightarrow> err \<times> 'w \<Rightarrow> bool" where
  "wait_ends E h e sub tx c w r =
     (case wait_round E h e sub tx w of
        Exit err w2 \<Rightarrow> r = (err, w2)
      | Pending w2 \<Rightarrow> False
      | Confirmed w2 \<Rightarrow> min_confirmations h e \<le> sint (c + 1) \<and> r = (nil, w2))"

lemma wait_path_loop:
  "wait_path E h e sub tx c w rs c2 w2 \<Longrightarrow> wait_loop E h e sub tx c w = wait_loop E h e sub tx c2 w2"
proof (induction rule: wait_path.induct)
  case (here c w)
  show ?case ..
next
  case (pending w w1 c rs c2 w2)
  then show ?case by (subst wait_loop_round) simp
next
  case (confirmed w w1 c rs c2 w2)
  then show ?case by (subst wait_loop_round) simp
qed

lemma wait_ends_loop: "wait_ends E h e sub tx c w r \<Longrightarrow> wait_loop E h e sub tx c w = Some r"
  by (subst wait_loop_round) (auto simp: wait_ends_def split: wait_round.splits)

lemma wait_loop_path:
  assumes "wait_loop E h e sub tx c w = Some r"
  shows "\<exists>rs c1 w1. wait_path E h e sub tx c w rs c1 w1 \<and> wait_ends E h e sub tx c1 w1 r"
proof (rule wait_loop.raw_induct [where P = "\<lambda>E h e sub tx c w r.
    \<exists>rs c1 w1. wait_path E h e sub tx c w rs c1 w1 \<and> wait_ends E h e sub tx c1 w1 r", OF _ assms],
    unfold wait_body_round)
  fix f :: "'a eth_rpc \<Rightarrow> nc_heap \<Rightarrow> EthereumClient \<Rightarrow> nat \<Rightarrow> hash \<Rightarrow> i64 \<Rightarrow> 'a \<Rightarrow> (err \<times> 'a) option"
    and E h e sub tx c w r
  assume IH: "\<And>E h e sub tx c w r. f E h e sub tx c w = Some r \<Longrightarrow>
      \<exists>rs c1 w1. wait_path E h e sub tx c w rs c1 w1 \<and> wait_ends E h e sub tx c1 w1 r"
    and body: "(case wait_round E h e sub tx w of
        Exit err w \<Rightarrow> Some (err, w)
      | Pending w \<Rightarrow> f E h e sub tx c w
      | Confirmed w \<Rightarrow>
          if min_confirmations h e \<le> sint (c + 1) then Some (nil, w) else f E h e sub tx (c + 1) w) = Some r"
  show "\<exists>rs c1 w1. wait_path E h e sub tx c w rs c1 w1 \<and> wait_ends E h e sub tx c1 w1 r"
  proof (cases "wait_ends E h e sub tx c w r")
    case True
    then show ?thesis by (blast intro: wait_path.here)
  next
    case False
    with body consider w2 where "wait_round E h e sub tx w = Pending w2" "f E h e sub tx c w2 = Some r"
      | w2 where "wait_round E h e sub tx w = Confirmed w2" "sint (c + 1) < min_confirmations h e"
          "f E h e sub tx (c + 1) w2 = Some r"
      by (auto simp: wait_ends_def split: wait_round.splits if_splits)
    then show ?thesis
      by cases (blast dest: IH intro: wait_path.pending wait_path.confirmed)+
  qed
qed

lemma wait_loop_iff:
  "wait_loop E h e sub tx c w = Some r \<longleftrightarrow>
     (\<exists>rs c1 w1. wait_path E h e sub tx c w rs c1 w1 \<and> wait_ends E h e sub tx c1 w1 r)"
  using wait_loop_path wait_path_loop wait_ends_loop by metis

text \<open>The counter counts the confirmed rounds, and stays below the required number.\<close>

lemma wait_path_count:
  assumes "wait_path E h e sub tx c w rs c1 w1" and "sint c < 2 ^ 63 - 1"
  shows "sint c1 = sint c + int (count_list rs True) \<and>
    (True \<in> set rs \<longrightarrow> sint c1 < min_confirmations h e) \<and> sint c1 < 2 ^ 63 - 1"
  using assms
proof (induction rule: wait_path.induct)
  case (here c w)
  then show ?case by simp
next
  case (pending w w1 c rs c2 w2)
  then show ?case by auto
next
  case (confirmed w w1 c rs c2 w2)
  have "sint (c + 1) < 2 ^ 63 - 1"
    using confirmed.hyps(2) sint_range64 [of "nc_MinimumConfirmations (network_config h e)"] by linarith
  with confirmed.IH confirmed.hyps(2) confirmed.prems show ?case
    by (cases "True \<in> set rs") (auto simp: sint_succ64 count_notin)
qed

lemma wait_round_Exit_nil:
  "wait_round E h e sub tx w = Exit nil w2 \<longleftrightarrow>
     Select E sub (nc_Timeout (network_config h e)) w = (SubErr nil, w2) \<or>
     (\<exists>w1. Select E sub (nc_Timeout (network_config h e)) w = (TimerFired, w1) \<and>
        isTxConfirmed E e tx w1 = ((True, nil), w2))"
  by (auto simp: wait_round_def split: prod.splits wait_event.splits option.splits if_splits)

lemma WaitForTransaction_Ret:
  "WaitForTransaction E h e tx w = Ret r w' \<longleftrightarrow>
     (\<exists>err. SubscribeNewHead E (Client e) w = (Inl err, w') \<and> r = Some err) \<or>
     (\<exists>sub w1 w2. SubscribeNewHead E (Client e) w = (Inr sub, w1) \<and>
        wait_loop E h e sub tx 0 w1 = Some (r, w2) \<and> w' = snd (Unsubscribe E sub w2))"
  by (cases "SubscribeNewHead E (Client e) w")
    (auto simp: WaitForTransaction_def bind_call split: sum.splits option.splits prod.splits)

lemma WaitForTransaction_Hang:
  "WaitForTransaction E h e tx w = Hang \<longleftrightarrow>
     (\<exists>sub w1. SubscribeNewHead E (Client e) w = (Inr sub, w1) \<and> wait_loop E h e sub tx 0 w1 = None)"
  by (cases "SubscribeNewHead E (Client e) w")
    (auto simp: WaitForTransaction_def bind_call split: sum.splits option.splits prod.splits)

section \<open>A log of broadcasts\<close>

text \<open>
  To speak of what a run broadcasts, the connection is wrapped so that its world also
  carries the list of the transactions handed to \<open>SendTransaction\<close> of the node. The
  wrapper changes nothing else (\<open>SendTransaction_logged\<close>).
\<close>

definition pass :: "('w \<Rightarrow> 'a \<times> 'w) \<Rightarrow> 'l \<times> 'w \<Rightarrow> 'a \<times> 'l \<times> 'w" where
  "pass f lw = (case lw of (l, w) \<Rightarrow> (case f w of (r, w') \<Rightarrow> (r, l, w')))"

definition logged :: "'w eth_rpc \<Rightarrow> (Transaction list \<times> 'w) eth_rpc" where
  "logged E = \<lparr>Dial = (\<lambda>u. pass (Dial E u)),
     SuggestGasPrice = (\<lambda>c. pass (SuggestGasPrice E c)),
     PendingNonceAt = (\<lambda>c a. pass (PendingNonceAt E c a)),
     BroadcastTransaction = (\<lambda>c tx (l, w). pass (BroadcastTransaction E c tx) (l @ [tx], w)),
     SubscribeNewHead = (\<lambda>c. pass (SubscribeNewHead E c)),
     Unsubscribe = (\<lambda>s. pass (Unsubscribe E s)),
     Select = (\<lambda>s t. pass (Select E s t)),
     BlockByNumber = (\<lambda>c n. pass (BlockByNumber E c n)),
     TransactionByHash = (\<lambda>c t. pass (TransactionByHash E c t)),
     SignNewTx = SignNewTx E,
     NewKeyedTransactorWithChainID = NewKeyedTransactorWithChainID E,
     keys = keys E\<rparr>"

lemma wait_round_logged:
  "wait_round (logged E) h e sub tx (l, w) = map_wait_round (Pair l) (wait_round E h e sub tx w)"
  by (simp add: wait_round_def isTxConfirmed_def logged_def pass_def
      split: prod.split wait_event.split option.split)

lemma wait_path_logged:
  "wait_path E h e sub tx c w rs c1 w1 \<Longrightarrow> wait_path (logged E) h e sub tx c (l, w) rs c1 (l, w1)"
  by (induction rule: wait_path.induct) (auto intro: wait_path.intros simp: wait_round_logged)

lemma wait_path_unlogged:
  "wait_path (logged E) h e sub tx c lw rs c1 lw1 \<Longrightarrow>
     fst lw1 = fst lw \<and> wait_path E h e sub tx c (snd lw) rs c1 (snd lw1)"
proof (induction rule: wait_path.induct)
  case (pending lw lw1 c rs c2 lw2)
  then obtain w1 where "wait_round E h e sub tx (snd lw) = Pending w1" "lw1 = (fst lw, w1)"
    using wait_round_logged [of E h e sub tx "fst lw" "snd lw"]
    by (cases "wait_round E h e sub tx (snd lw)") auto
  with pending.IH show ?case by (auto intro: wait_path.pending)
next
  case (confirmed lw lw1 c rs c2 lw2)
  then obtain w1 where "wait_round E h e sub tx (snd lw) = Confirmed w1" "lw1 = (fst lw, w1)"
    using wait_round_logged [of E h e sub tx "fst lw" "snd lw"]
    by (cases "wait_round E h e sub tx (snd lw)") auto
  with confirmed.IH confirmed.hyps show ?case by (auto intro: wait_path.confirmed)
qed (simp add: wait_path.here)

lemma wait_ends_logged:
  "wait_ends (logged E) h e sub tx c (l, w) r \<longleftrightarrow>
     (\<exists>err w'. r = (err, (l, w')) \<and> wait_ends E h e sub tx c w (err, w'))"
  by (cases "wait_round E h e sub tx w") (auto simp: wait_ends_def wait_round_logged)

lemma wait_loop_logged:
  "wait_loop (logged E) h e sub tx c (l, w) = map_option (\<lambda>(r, w). (r, l, w)) (wait_loop E h e sub tx c w)"
proof (cases "wait_loop E h e sub tx c w")
  case (Some r)
  then obtain rs c1 w1 where "wait_path E h e sub tx c w rs c1 w1" "wait_ends E h e sub tx c1 w1 r"
    by (auto simp: wait_loop_iff)
  then have "wait_loop (logged E) h e sub tx c (l, w) = Some (fst r, l, snd r)"
    unfolding wait_loop_iff by (metis prod.collapse wait_ends_logged wait_path_logged)
  with Some show ?thesis by (simp add: case_prod_beta)
next
  case None
  have "wait_loop (logged E) h e sub tx c (l, w) \<noteq> Some r" for r
  proof
    assume "wait_loop (logged E) h e sub tx c (l, w) = Some r"
    then obtain rs c1 w1 where "wait_path (logged E) h e sub tx c (l, w) rs c1 (l, w1)"
      "wait_ends (logged E) h e sub tx c1 (l, w1) r"
      unfolding wait_loop_iff using wait_path_unlogged
      by (metis fst_conv prod.collapse)
    then have "\<exists>r. wait_loop E h e sub tx c w = Some r"
      unfolding wait_loop_iff by (metis snd_conv wait_ends_logged wait_path_unlogged)
    with None show False by simp
  qed
  with None show ?thesis by (metis not_Some_eq option.map(1))
qed

text \<open>Adding a log to the world of an outcome.\<close>

definition with_log :: "'l \<Rightarrow> ('a, 'w) go \<Rightarrow> ('a, 'l \<times> 'w) go" where
  "with_log l m = map_go id (Pair l) m"

lemma with_log_simps [simp]:
  "with_log l (Ret a w) = Ret a (l, w)"
  "with_log l (Crash p w) = Crash p (l, w)"
  "with_log l Hang = Hang"
  by (simp_all add: with_log_def)

lemma with_log_eq_Ret: "with_log l m = Ret a lw \<longleftrightarrow> (\<exists>w. lw = (l, w) \<and> m = Ret a w)"
  by (cases m) auto

lemma WaitForTransaction_logged:
  "WaitForTransaction (logged E) h e tx (l, w) = with_log l (WaitForTransaction E h e tx w)"
proof -
  have sub: "SubscribeNewHead (logged E) = (\<lambda>c. pass (SubscribeNewHead E c))"
    and unsub: "Unsubscribe (logged E) = (\<lambda>s. pass (Unsubscribe E s))"
    by (simp_all add: logged_def)
  show ?thesis
    by (simp add: WaitForTransaction_def bind_call sub unsub pass_def wait_loop_logged
        split: prod.split sum.split option.split)
qed

lemma TransactionCallMessage_logged:
  "TransactionCallMessage (logged E) h e from to value data (l, w) =
     with_log l (TransactionCallMessage E h e from to value data w)"
  by (simp add: TransactionCallMessage_def bind_call logged_def pass_def split: prod.split sum.split)

lemma logged_simps [simp]:
  "keys (logged E) = keys E" "SignNewTx (logged E) = SignNewTx E"
  "PendingNonceAt (logged E) c a (l, w) = (fst (PendingNonceAt E c a w), l, snd (PendingNonceAt E c a w))"
  "BroadcastTransaction (logged E) c tx (l, w) =
     (fst (BroadcastTransaction E c tx w), l @ [tx], snd (BroadcastTransaction E c tx w))"
  by (simp_all add: logged_def pass_def split: prod.split)

lemma TransactionCallMessage_Ret:
  "TransactionCallMessage E h e from to value data w = Ret (Inr m) w' \<longleftrightarrow>
     (\<exists>gasPrice. SuggestGasPrice E (Client e) w = (Inr gasPrice, w') \<and>
        m = \<lparr>cm_From = HexToAddress (keys E) (Address (keys E) from), cm_To = Some to,
             cm_Gas = nc_TransactionLimit (network_config h e) + nc_GasEstimationBuffer (network_config h e),
             cm_GasPrice = gasPrice, cm_Value = value, cm_Data = data\<rparr>)"
  by (cases "SuggestGasPrice E (Client e) w")
    (auto simp: TransactionCallMessage_def bind_call split: sum.splits)

lemma TransactionCallMessage_total:
  obtains r w' where "TransactionCallMessage E h e from to value data w = Ret r w'"
  by (cases "fst (SuggestGasPrice E (Client e) w)") (auto simp: TransactionCallMessage_def bind_call)

text \<open>
  A small chain to run the client against: a block arrives at every \<open>select\<close>, and a
  transaction is pending while fewer than \<open>n\<close> blocks have arrived.
\<close>

definition sample_rpc :: "nat \<Rightarrow> nat eth_rpc" where
  "sample_rpc n = \<lparr>Dial = (\<lambda>_ w. (Inr 0, w)),
     SuggestGasPrice = (\<lambda>_ w. (Inr 7, w)),
     PendingNonceAt = (\<lambda>_ _ w. (Inr 3, w)),
     BroadcastTransaction = (\<lambda>_ _ w. (nil, w)),
     SubscribeNewHead = (\<lambda>_ w. (Inr 4, w)),
     Unsubscribe = (\<lambda>_ w. ((), w)),
     Select = (\<lambda>_ _ w. (NewHead (int w), Suc w)),
     BlockByNumber = (\<lambda>_ _ w. (nil, w)),
     TransactionByHash = (\<lambda>_ _ w. ((w < n, nil), w)),
     SignNewTx = (\<lambda>_ _ t. Inr \<lparr>tx_Hash = 99, tx_inner = t\<rparr>),
     NewKeyedTransactorWithChainID = (\<lambda>k c. Inr \<lparr>to_From = 0, to_Nonce = 0, to_Signer = (k, c), to_Value = nil,
        to_GasPrice = 0, to_GasLimit = 0\<rparr>),
     keys = sample_crypto\<rparr>"

definition sample_client :: EthereumClient where
  "sample_client = \<lparr>Client = 0, Network = \<lparr>networkID = ''ethereum_hardhat'', networkConfig = 0\<rparr>\<rparr>"

definition sample_wallet :: EthereumWallet where
  "sample_wallet = \<lparr>privateKey = ''ac0974'', wallet_address = 42\<rparr>"

lemma sample_rpc_simps [simp]:
  "SuggestGasPrice (sample_rpc n) c w = (Inr 7, w)"
  "PendingNonceAt (sample_rpc n) c a w = (Inr 3, w)"
  "BroadcastTransaction (sample_rpc n) c t w = (nil, w)"
  "SubscribeNewHead (sample_rpc n) c w = (Inr 4, w)"
  "Unsubscribe (sample_rpc n) s w = ((), w)"
  "Select (sample_rpc n) s d w = (NewHead (int w), Suc w)"
  "BlockByNumber (sample_rpc n) c i w = (nil, w)"
  "TransactionByHash (sample_rpc n) c x w = ((w < n, nil), w)"
  "SignNewTx (sample_rpc n) k i l = Inr \<lparr>tx_Hash = 99, tx_inner = l\<rparr>"
  "NewKeyedTransactorWithChainID (sample_rpc n) k i = Inr \<lparr>to_From = 0, to_Nonce = 0, to_Signer = (k, i),
     to_Value = nil, to_GasPrice = 0, to_GasLimit = 0\<rparr>"
  "keys (sample_rpc n) = sample_crypto"
  by (simp_all add: sample_rpc_def)

lemma sample_config_simps [simp]:
  "cells sample_heap p = sample_network"
  "nc_TransactionLimit sample_network = 9500000" "nc_GasEstimationBuffer sample_network = 0"
  "nc_MinimumConfirmations sample_network = 0" "nc_Timeout sample_network = 0"
  by (simp_all add: sample_heap_def sample_network_def)

lemma sample_key [simp]: "HexToECDSA sample_crypto (PrivateKey sample_wallet) = Inr 6"
  by (simp add: sample_crypto_def sample_wallet_def PrivateKey_def)

lemma sample_round:
  "wait_round (sample_rpc n) sample_heap sample_client sub tx w = (if Suc w < n then Pending (Suc w) else Confirmed (Suc w))"
  by (simp add: wait_round_def isTxConfirmed_def)

lemma sample_wait:
  "n \<le> Suc w \<Longrightarrow> WaitForTransaction (sample_rpc n) sample_heap sample_client tx w = Ret nil (Suc w)"
  by (simp add: WaitForTransaction_def bind_call wait_loop_round [of _ _ _ _ _ _ w] sample_round)

section \<open>Properties\<close>

text \<open>
  C1. \<open>WaitForTransaction\<close> returns nil only in three ways: after exactly
  \<open>max(1, MinimumConfirmations)\<close> new blocks at which the node reported the transaction
  as no longer pending; at the timeout, with the transaction no longer pending; or
  because the error channel of the subscription delivered nil.
\<close>

theorem wait_nil_means:
  assumes "WaitForTransaction E h e tx w = Ret nil w'"
  shows "\<exists>sub w0 rs c w1 w2.
    SubscribeNewHead E (Client e) w = (Inr sub, w0) \<and> wait_path E h e sub tx 0 w0 rs c w1 \<and>
    w' = snd (Unsubscribe E sub w2) \<and>
    ((wait_round E h e sub tx w1 = Confirmed w2 \<and>
        int (count_list rs True) + 1 = max 1 (min_confirmations h e)) \<or>
     (\<exists>w3. Select E sub (nc_Timeout (network_config h e)) w1 = (TimerFired, w3) \<and>
        isTxConfirmed E e tx w3 = ((True, nil), w2)) \<or>
     Select E sub (nc_Timeout (network_config h e)) w1 = (SubErr nil, w2))"
proof -
  from assms obtain sub w0 w2 where sub: "SubscribeNewHead E (Client e) w = (Inr sub, w0)"
    and loop: "wait_loop E h e sub tx 0 w0 = Some (nil, w2)" and w': "w' = snd (Unsubscribe E sub w2)"
    by (auto simp: WaitForTransaction_Ret)
  from loop obtain rs c w1 where path: "wait_path E h e sub tx 0 w0 rs c w1"
    and ends: "wait_ends E h e sub tx c w1 (nil, w2)"
    by (auto simp: wait_loop_iff)
  have c: "sint c = int (count_list rs True)" "True \<in> set rs \<longrightarrow> sint c < min_confirmations h e"
    "sint c < 2 ^ 63 - 1"
    using wait_path_count [OF path] by auto
  then have "int (count_list rs True) + 1 = max 1 (min_confirmations h e)"
    if "min_confirmations h e \<le> sint (c + 1)"
    using that by (cases "True \<in> set rs") (auto simp: sint_succ64 count_notin)
  with ends have "(wait_round E h e sub tx w1 = Confirmed w2 \<and>
        int (count_list rs True) + 1 = max 1 (min_confirmations h e)) \<or>
      wait_round E h e sub tx w1 = Exit nil w2"
    by (auto simp: wait_ends_def split: wait_round.splits)
  with sub path w' show ?thesis
    unfolding wait_round_Exit_nil by blast
qed

theorem wait_nil_means_witness:
  "\<exists>sub w0 rs c w1 w2. SubscribeNewHead (sample_rpc 1) (Client sample_client) 0 = (Inr sub, w0) \<and>
     wait_path (sample_rpc 1) sample_heap sample_client sub 99 0 w0 rs c w1 \<and>
     wait_round (sample_rpc 1) sample_heap sample_client sub 99 w1 = Confirmed w2"
  using wait_nil_means [OF sample_wait [of 1 0 99]] by auto

text \<open>
  Liveness: if the node first reports new blocks, and among them the transaction
  as no longer pending at \<open>max(1, MinimumConfirmations)\<close> of them, the last one
  included, then the waiting returns, with nil. (The rounds before the last are a path:
  they deliver blocks, no error and no timer.)
\<close>

theorem wait_returns_when_confirmed:
  assumes "SubscribeNewHead E (Client e) w = (Inr sub, w0)"
    and "wait_path E h e sub tx 0 w0 rs c w1"
    and "wait_round E h e sub tx w1 = Confirmed w2"
    and "int (count_list rs True) + 1 = max 1 (min_confirmations h e)"
  shows "WaitForTransaction E h e tx w = Ret nil (snd (Unsubscribe E sub w2))"
proof -
  have "sint c = int (count_list rs True)" "sint c < 2 ^ 63 - 1"
    using wait_path_count [OF assms(2)] by simp_all
  with assms(4) have "min_confirmations h e \<le> sint (c + 1)"
    by (simp add: sint_succ64)
  with assms(3) have "wait_ends E h e sub tx c w1 (nil, w2)"
    by (simp add: wait_ends_def)
  with assms(2) have "wait_loop E h e sub tx 0 w0 = Some (nil, w2)"
    unfolding wait_loop_iff by blast
  with assms(1) show ?thesis by (auto simp: WaitForTransaction_Ret)
qed

theorem wait_returns_when_confirmed_witness:
  "WaitForTransaction (sample_rpc 2) sample_heap sample_client 99 0 = Ret nil 2"
proof -
  have path: "wait_path (sample_rpc 2) sample_heap sample_client 4 99 0 0 [False] 0 (Suc 0)"
    by (rule wait_path.pending [OF _ wait_path.here]) (simp add: sample_round)
  have "WaitForTransaction (sample_rpc 2) sample_heap sample_client 99 0 =
      Ret nil (snd (Unsubscribe (sample_rpc 2) 4 2))"
    by (rule wait_returns_when_confirmed [OF _ path]) (simp_all add: sample_round)
  then show ?thesis by simp
qed

text \<open>
  C38. The configured timeout restarts with every block. As long as a new block arrives
  before the timer fires and the transaction stays pending, the waiting never returns,
  whatever the timeout is: \<open>I\<close> is any set of world states in which this goes on.
\<close>

theorem wait_never_times_out_while_blocks_arrive:
  assumes "SubscribeNewHead E (Client e) w = (Inr sub, w0)" and "w0 \<in> I"
    and blocks: "\<And>w. w \<in> I \<Longrightarrow> \<exists>n w1 w2 w3. Select E sub (nc_Timeout (network_config h e)) w = (NewHead n, w1) \<and>
      BlockByNumber E (Client e) n w1 = (nil, w2) \<and>
      TransactionByHash E (Client e) tx w2 = ((True, nil), w3) \<and> w3 \<in> I"
  shows "WaitForTransaction E h e tx w = Hang"
proof -
  have round: "\<exists>w1 \<in> I. wait_round E h e sub tx w = Pending w1" if "w \<in> I" for w
    using blocks [OF that] by (auto simp: wait_round_def isTxConfirmed_def)
  have stay: "w1 \<in> I" if "wait_path E h e sub tx c w rs c1 w1" "w \<in> I" for c w rs c1 w1
    using that by (induction rule: wait_path.induct) (use round in fastforce)+
  have "\<not> wait_ends E h e sub tx c w r" if "w \<in> I" for c w r
    using round [OF that] by (auto simp: wait_ends_def)
  with stay assms(2) have "wait_loop E h e sub tx 0 w0 \<noteq> Some r" for r
    unfolding wait_loop_iff by blast
  then have "wait_loop E h e sub tx 0 w0 = None" by (metis not_Some_eq)
  with assms(1) show ?thesis by (auto simp: WaitForTransaction_Hang)
qed

theorem wait_never_times_out_while_blocks_arrive_witness:
  "WaitForTransaction ((sample_rpc 0)\<lparr>TransactionByHash := (\<lambda>_ _ w. ((True, nil), w))\<rparr>)
     sample_heap sample_client 99 0 = Hang"
  by (rule wait_never_times_out_while_blocks_arrive [where sub = 4 and ?w0.0 = 0 and I = UNIV]) simp_all

text \<open>
  C2. \<open>SendTransaction\<close> hands at most one transaction to the node, and only one that
  was signed with the sender's key for the chain of the network and carries the
  recipient, value and data asked for and the configured gas limit plus buffer. It
  returns the hash of a transaction only if it broadcast it, and fails if it broadcast
  none. Recording the broadcasts does not change the run.
\<close>

theorem send_broadcasts_once:
  assumes "SendTransaction (logged E) h e from to value data (log, w) = Ret (hash, err) (log', w')"
  shows "SendTransaction E h e from to value data w = Ret (hash, err) w' \<and>
    ((log' = log \<and> hash = nil \<and> err \<noteq> nil) \<or>
     (\<exists>tx pk nonce gasPrice. log' = log @ [tx] \<and> HexToECDSA (keys E) (PrivateKey from) = Inr pk \<and>
        SignNewTx E pk (Network_ChainID h (Network e))
          \<lparr>ltx_Nonce = nonce, ltx_GasPrice = gasPrice,
           ltx_Gas = nc_TransactionLimit (network_config h e) + nc_GasEstimationBuffer (network_config h e),
           ltx_To = Some to, ltx_Value = value, ltx_Data = data\<rparr> = Inr tx \<and>
        (hash = Some (tx_Hash tx) \<or> (hash = nil \<and> err \<noteq> nil))))"
proof -
  obtain r w1 where msg: "TransactionCallMessage E h e from to value data w = Ret r w1"
    by (rule TransactionCallMessage_total)
  note unfold = SendTransaction_def TransactionCallMessage_logged msg bind_call
    WaitForTransaction_logged bind_go_eq_Ret with_log_eq_Ret
  show ?thesis
  proof (cases r)
    case (Inl err)
    with assms show ?thesis by (auto simp: unfold)
  next
    case (Inr m)
    with msg obtain gasPrice where m: "cm_To m = Some to" "cm_Value m = value" "cm_Data m = data"
      "cm_Gas m = nc_TransactionLimit (network_config h e) + nc_GasEstimationBuffer (network_config h e)"
      by (auto simp: TransactionCallMessage_Ret)
    with assms Inr show ?thesis
      by (auto simp: unfold m split: sum.splits if_splits)
  qed
qed

theorem send_broadcasts_once_witness:
  "\<exists>tx. SendTransaction (sample_rpc 1) sample_heap sample_client sample_wallet 5 (Some 10) [] 0 =
      Ret (Some (tx_Hash tx), nil) 1 \<and>
    SendTransaction (logged (sample_rpc 1)) sample_heap sample_client sample_wallet 5 (Some 10) [] ([], 0) =
      Ret (Some (tx_Hash tx), nil) ([tx], 1) \<and> ltx_Value (tx_inner tx) = Some 10"
proof -
  let ?tx = "\<lparr>tx_Hash = 99, tx_inner = \<lparr>ltx_Nonce = 3, ltx_GasPrice = 7, ltx_Gas = 9500000,
    ltx_To = Some 5, ltx_Value = Some 10, ltx_Data = []\<rparr>\<rparr>"
  have "SendTransaction (logged (sample_rpc 1)) sample_heap sample_client sample_wallet 5 (Some 10) [] ([], 0) =
      Ret (Some 99, nil) ([?tx], 1)"
    by (simp add: SendTransaction_def TransactionCallMessage_logged WaitForTransaction_logged bind_call
        sample_wait TransactionCallMessage_def [of "sample_rpc _"])
  from send_broadcasts_once [OF this] this show ?thesis
    by (intro exI [of _ ?tx]) simp
qed

text \<open>
  The options of a contract transaction carry the sender, value, suggested gas
  price and the sum of gas limit and buffer modulo 2^64; they do not depend on the
  recipient or the data passed in; and their nonce is the node's nonce only below 2^63,
  from where on the signed reading makes it negative.
\<close>

theorem transaction_opts_fields:
  assumes "TransactionOpts E h e from to value data w = Ret (Inr opts) w'"
  shows "(\<exists>nonce w1. PendingNonceAt E (Client e) (HexToAddress (keys E) (Address (keys E) from)) w1 = (Inr nonce, w') \<and>
      to_Nonce opts = (if unat nonce < 2 ^ 63 then int (unat nonce) else int (unat nonce) - 2 ^ 64)) \<and>
    unat (to_GasLimit opts) =
      (unat (nc_TransactionLimit (network_config h e)) + unat (nc_GasEstimationBuffer (network_config h e))) mod 2 ^ 64 \<and>
    to_Value opts = value \<and> to_From opts = HexToAddress (keys E) (Address (keys E) from) \<and>
    (\<forall>to' data'. TransactionOpts E h e from to' value data' w = Ret (Inr opts) w')"
proof -
  let ?from = "HexToAddress (keys E) (Address (keys E) from)"
  obtain gp w1 where gas: "SuggestGasPrice E (Client e) w = (gp, w1)"
    by (cases "SuggestGasPrice E (Client e) w")
  obtain n w2 where nonce: "PendingNonceAt E (Client e) ?from w1 = (n, w2)"
    by (cases "PendingNonceAt E (Client e) ?from w1")
  note opts = TransactionOpts_def TransactionCallMessage_def bind_call gas nonce
  from assms obtain gasPrice nn pk o1 where g: "gp = Inr gasPrice" and n: "n = Inr nn" "w2 = w'"
    and k: "HexToECDSA (keys E) (PrivateKey from) = Inr pk"
      "NewKeyedTransactorWithChainID E pk (Network_ChainID h (Network e)) = Inr o1"
    by (auto simp: opts split: sum.splits)
  with assms have fields: "to_Nonce opts = sint nn" "to_Value opts = value" "to_From opts = ?from"
    "to_GasLimit opts = nc_TransactionLimit (network_config h e) + nc_GasEstimationBuffer (network_config h e)"
    by (auto simp: opts)
  have "TransactionOpts E h e from to' value data' w = Ret (Inr opts) w'" for to' data'
    using assms g n k by (simp add: opts)
  moreover have "PendingNonceAt E (Client e) ?from w1 = (Inr nn, w')"
    using nonce n by simp
  ultimately show ?thesis
    using fields sint_of_unat64 [of nn] by (auto simp: unat_word_ariths)
qed

theorem transaction_opts_fields_witness:
  "\<exists>opts. TransactionOpts (sample_rpc 1) sample_heap sample_client sample_wallet 5 (Some 0) ''x'' 0 = Ret (Inr opts) 0 \<and>
     to_Nonce opts = 3 \<and> unat (to_GasLimit opts) = 9500000 \<and> to_Value opts = Some 0"
proof -
  obtain opts where run: "TransactionOpts (sample_rpc 1) sample_heap sample_client sample_wallet 5 (Some 0) ''x'' 0 = Ret (Inr opts) 0"
    by (simp add: TransactionOpts_def TransactionCallMessage_def bind_call)
  from transaction_opts_fields [OF run] run show ?thesis
    by auto
qed

text \<open>
  A contract counts as deployed only once its deployment transaction is waited
  for: \<open>DeployContract\<close> returns the address, transaction and binding the deployer made,
  and only if the deployer got the options of the sending wallet with value 0 and no
  recipient and the waiting for that very transaction returned nil.
\<close>

theorem deployed_means_waited:
  assumes "DeployContract E h e fromWallet name deployer w = Ret (Inr (addr, tx, inst)) w'"
  shows "\<exists>opts w1 w2. TransactionOpts E h e fromWallet 0 (Some 0) [] w = Ret (Inr opts) w1 \<and>
    deployer opts (Client e) w1 = Ret (Inr (addr, tx, inst)) w2 \<and>
    WaitForTransaction E h e (tx_Hash tx) w2 = Ret nil w'"
  using assms by (auto simp: DeployContract_def go_simps split: prod.splits)

theorem deployed_means_waited_witness:
  "\<exists>opts w1 w2. TransactionOpts (sample_rpc 1) sample_heap sample_client sample_wallet 0 (Some 0) [] 0 = Ret (Inr opts) w1 \<and>
     WaitForTransaction (sample_rpc 1) sample_heap sample_client 8 w2 = Ret nil (Suc 0)"
proof -
  let ?tx = "\<lparr>tx_Hash = 8, tx_inner = \<lparr>ltx_Nonce = 3, ltx_GasPrice = 7, ltx_Gas = 0, ltx_To = None, ltx_Value = None, ltx_Data = []\<rparr>\<rparr>"
  let ?deployer = "\<lambda>opts c w. Ret (Inr (77, ?tx, ())) w"
  have "DeployContract (sample_rpc 1) sample_heap sample_client sample_wallet ''Storage'' ?deployer 0 =
      Ret (Inr (77, ?tx, ())) (Suc 0)"
    by (simp add: DeployContract_def TransactionOpts_def TransactionCallMessage_def bind_call sample_wait)
  from deployed_means_waited [OF this] show ?thesis by auto
qed

end
