(* ===== verification/Bind.thy ===== *)
theory Bind
  imports Eth_Client
begin

text \<open>
  What the generated contract bindings (\<open>contracts/ethereum/*.go\<close>) share. The generic
  contract wrapper of go-ethereum (\<open>accounts/abi/bind\<close>: packing of arguments, calls,
  transactions, log subscriptions) is a parameter \<open>'w bind\<close>. The code that the generator
  repeats for every method and every event (the conversion of return values, the iterator
  over logs, the forwarding of watched events) is defined here once and instantiated in the
  theory of each contract.

  Options are never nil, and a nil slice is the empty list.
\<close>

section \<open>Values and ABIs\<close>

text \<open>The Go types the bindings use, and the values an \<open>interface{}\<close> holds of them.\<close>

datatype go_type =
    TBig | TUint8 | TUint16 | TUint32 | TUint64 | TBool | TString | TBytes | TFixed nat
  | TAddress | TAddresses | TBigs | TBytes32s

datatype abi_val =
    VBig big
  | VUint8 u8
  | VUint16 u16
  | VUint32 u32
  | VUint64 u64
  | VBool bool
  | VString string
  | VBytes string
  | VFixed nat string
  | VAddress address
  | VAddresses "address list"
  | VBigs "big list"
  | VBytes32s "string list"

fun type_of :: "abi_val \<Rightarrow> go_type" where
  "type_of (VBig _) = TBig"
| "type_of (VUint8 _) = TUint8"
| "type_of (VUint16 _) = TUint16"
| "type_of (VUint32 _) = TUint32"
| "type_of (VUint64 _) = TUint64"
| "type_of (VBool _) = TBool"
| "type_of (VString _) = TString"
| "type_of (VBytes _) = TBytes"
| "type_of (VFixed n _) = TFixed n"
| "type_of (VAddress _) = TAddress"
| "type_of (VAddresses _) = TAddresses"
| "type_of (VBigs _) = TBigs"
| "type_of (VBytes32s _) = TBytes32s"

text \<open>
  The ABI of a contract, as the JSON text in the binding lists it. Types are Solidity's
  names of them.
\<close>

record abi_method =
  am_name :: string
  am_inputs :: "(string \<times> string) list"
  am_outputs :: "(string \<times> string) list"
  am_view :: bool

record abi_event =
  ae_name :: string
  ae_inputs :: "(string \<times> string \<times> bool) list"

record abi =
  ab_constructor :: "(string \<times> string) list"
  ab_methods :: "abi_method list"
  ab_events :: "abi_event list"

text \<open>The compiled contracts, by the variables of the bindings that hold them.\<close>

datatype bytecode = StoreBin | VRFBin | LinkTokenBin | FluxAggregatorBin | OffchainAggregatorBin

section \<open>What the bindings use of go-ethereum\<close>

type_synonym backend = nat

record CallOpts =
  co_Pending :: bool
  co_From :: address
  co_BlockNumber :: big
  co_Context :: nat

record FilterOpts =
  fo_Start :: u64
  fo_End :: "u64 option"
  fo_Context :: nat

record WatchOpts =
  wo_Start :: "u64 option"
  wo_Context :: nat

record log =
  lg_Address :: address
  lg_Topics :: "hash list"
  lg_Data :: string

record BoundContract =
  bc_address :: address
  bc_abi :: abi
  bc_caller :: "backend option"
  bc_transactor :: "backend option"
  bc_filterer :: "backend option"

text \<open>
  \<open>abi_JSON\<close> is the error of parsing an ABI. \<open>UnpackLog\<close> fills a struct with the given
  fields. A subscription to logs is known by a number: \<open>recv_log\<close> is the \<open>select\<close> that
  waits for a log or for the end of the subscription with an error or nil (\<open>None\<close>: for
  ever), \<open>poll_log\<close> the one that takes a log only if there is one.
\<close>

type_synonym struct = "(string \<times> go_type) list"

record 'w bind =
  abi_JSON :: "abi \<Rightarrow> err"
  BindDeploy :: "TransactOpts \<Rightarrow> abi \<Rightarrow> bytecode \<Rightarrow> backend \<Rightarrow> abi_val list \<Rightarrow> 'w \<Rightarrow>
    (go_error + address \<times> Transaction \<times> BoundContract) \<times> 'w"
  BindCall :: "BoundContract \<Rightarrow> CallOpts \<Rightarrow> string \<Rightarrow> abi_val list \<Rightarrow> 'w \<Rightarrow> (go_error + abi_val list) \<times> 'w"
  BindTransact :: "BoundContract \<Rightarrow> TransactOpts \<Rightarrow> string \<Rightarrow> abi_val list \<Rightarrow> 'w \<Rightarrow> (go_error + Transaction) \<times> 'w"
  BindTransfer :: "BoundContract \<Rightarrow> TransactOpts \<Rightarrow> 'w \<Rightarrow> (go_error + Transaction) \<times> 'w"
  FilterLogs :: "BoundContract \<Rightarrow> FilterOpts \<Rightarrow> string \<Rightarrow> abi_val list list \<Rightarrow> 'w \<Rightarrow> (go_error + nat) \<times> 'w"
  WatchLogs :: "BoundContract \<Rightarrow> WatchOpts \<Rightarrow> string \<Rightarrow> abi_val list list \<Rightarrow> 'w \<Rightarrow> (go_error + nat) \<times> 'w"
  UnpackLog :: "BoundContract \<Rightarrow> struct \<Rightarrow> string \<Rightarrow> log \<Rightarrow> go_error + abi_val list"
  ConvertType :: "go_type \<Rightarrow> abi_val \<Rightarrow> abi_val outcome"
  recv_log :: "nat \<Rightarrow> 'w \<Rightarrow> (log + err) option \<times> 'w"
  poll_log :: "nat \<Rightarrow> 'w \<Rightarrow> log option \<times> 'w"
  LogsUnsubscribe :: "nat \<Rightarrow> 'w \<Rightarrow> unit \<times> 'w"

section \<open>Bindings\<close>

text \<open>The structs of a binding, which have the same fields for every contract.\<close>

record caller = caller_contract :: BoundContract
record transactor = transactor_contract :: BoundContract
record filterer = filterer_contract :: BoundContract

record binding =
  Caller :: caller
  Transactor :: transactor
  Filterer :: filterer

record session =
  ses_Contract :: binding
  ses_CallOpts :: CallOpts
  ses_TransactOpts :: TransactOpts

record caller_session =
  cs_Contract :: caller
  cs_CallOpts :: CallOpts

record transactor_session =
  ts_Contract :: transactor
  ts_TransactOpts :: TransactOpts

record raw = raw_Contract :: binding
record caller_raw = craw_Contract :: caller
record transactor_raw = traw_Contract :: transactor

definition bind_contract :: "'w bind \<Rightarrow> abi \<Rightarrow> address \<Rightarrow> backend option \<Rightarrow> backend option \<Rightarrow> backend option \<Rightarrow>
    go_error + BoundContract" where
  "bind_contract B abi address caller transactor filterer =
     (case abi_JSON B abi of
        Some err \<Rightarrow> Inl err
      | None \<Rightarrow> Inr \<lparr>bc_address = address, bc_abi = abi, bc_caller = caller, bc_transactor = transactor,
                    bc_filterer = filterer\<rparr>)"

definition binding_of :: "BoundContract \<Rightarrow> binding" where
  "binding_of contract =
     \<lparr>Caller = \<lparr>caller_contract = contract\<rparr>, Transactor = \<lparr>transactor_contract = contract\<rparr>,
      Filterer = \<lparr>filterer_contract = contract\<rparr>\<rparr>"

definition deploy_contract :: "'w bind \<Rightarrow> abi \<Rightarrow> bytecode \<Rightarrow> TransactOpts \<Rightarrow> backend \<Rightarrow> abi_val list \<Rightarrow> 'w \<Rightarrow>
    (go_error + address \<times> Transaction \<times> binding, 'w) go" where
  "deploy_contract B abi bin auth backend params w =
     (case abi_JSON B abi of
        Some err \<Rightarrow> Ret (Inl err) w
      | None \<Rightarrow> bind_go (call (BindDeploy B auth abi bin backend params) w) (\<lambda>r w.
          case r of
            Inl err \<Rightarrow> Ret (Inl err) w
          | Inr (address, tx, contract) \<Rightarrow> Ret (Inr (address, tx, binding_of contract)) w))"

section \<open>Return values\<close>

fun bind_outcome :: "'a outcome \<Rightarrow> ('a \<Rightarrow> 'b outcome) \<Rightarrow> 'b outcome" where
  "bind_outcome (Value a) f = f a"
| "bind_outcome (Panic p) f = Panic p"

text \<open>\<open>*abi.ConvertType(out[i], new(T)).(*T)\<close>: the index, the conversion and the assertion may panic.\<close>

definition converted :: "'w bind \<Rightarrow> go_type \<Rightarrow> abi_val list \<Rightarrow> nat \<Rightarrow> abi_val outcome" where
  "converted B ty out i = bind_outcome (index out (int i)) (ConvertType B ty)"

definition out_big :: "'w bind \<Rightarrow> abi_val list \<Rightarrow> nat \<Rightarrow> big outcome" where
  "out_big B out i = bind_outcome (converted B TBig out i)
     (\<lambda>v. case v of VBig x \<Rightarrow> Value x | _ \<Rightarrow> Panic TypeAssertion)"

definition out_uint8 :: "'w bind \<Rightarrow> abi_val list \<Rightarrow> nat \<Rightarrow> u8 outcome" where
  "out_uint8 B out i = bind_outcome (converted B TUint8 out i)
     (\<lambda>v. case v of VUint8 x \<Rightarrow> Value x | _ \<Rightarrow> Panic TypeAssertion)"

definition out_uint16 :: "'w bind \<Rightarrow> abi_val list \<Rightarrow> nat \<Rightarrow> u16 outcome" where
  "out_uint16 B out i = bind_outcome (converted B TUint16 out i)
     (\<lambda>v. case v of VUint16 x \<Rightarrow> Value x | _ \<Rightarrow> Panic TypeAssertion)"

definition out_uint32 :: "'w bind \<Rightarrow> abi_val list \<Rightarrow> nat \<Rightarrow> u32 outcome" where
  "out_uint32 B out i = bind_outcome (converted B TUint32 out i)
     (\<lambda>v. case v of VUint32 x \<Rightarrow> Value x | _ \<Rightarrow> Panic TypeAssertion)"

definition out_uint64 :: "'w bind \<Rightarrow> abi_val list \<Rightarrow> nat \<Rightarrow> u64 outcome" where
  "out_uint64 B out i = bind_outcome (converted B TUint64 out i)
     (\<lambda>v. case v of VUint64 x \<Rightarrow> Value x | _ \<Rightarrow> Panic TypeAssertion)"

definition out_bool :: "'w bind \<Rightarrow> abi_val list \<Rightarrow> nat \<Rightarrow> bool outcome" where
  "out_bool B out i = bind_outcome (converted B TBool out i)
     (\<lambda>v. case v of VBool x \<Rightarrow> Value x | _ \<Rightarrow> Panic TypeAssertion)"

definition out_string :: "'w bind \<Rightarrow> abi_val list \<Rightarrow> nat \<Rightarrow> string outcome" where
  "out_string B out i = bind_outcome (converted B TString out i)
     (\<lambda>v. case v of VString x \<Rightarrow> Value x | _ \<Rightarrow> Panic TypeAssertion)"

definition out_address :: "'w bind \<Rightarrow> abi_val list \<Rightarrow> nat \<Rightarrow> address outcome" where
  "out_address B out i = bind_outcome (converted B TAddress out i)
     (\<lambda>v. case v of VAddress x \<Rightarrow> Value x | _ \<Rightarrow> Panic TypeAssertion)"

definition out_addresses :: "'w bind \<Rightarrow> abi_val list \<Rightarrow> nat \<Rightarrow> address list outcome" where
  "out_addresses B out i = bind_outcome (converted B TAddresses out i)
     (\<lambda>v. case v of VAddresses x \<Rightarrow> Value x | _ \<Rightarrow> Panic TypeAssertion)"

definition out_bytes16 :: "'w bind \<Rightarrow> abi_val list \<Rightarrow> nat \<Rightarrow> string outcome" where
  "out_bytes16 B out i = bind_outcome (converted B (TFixed 16) out i)
     (\<lambda>v. case v of VFixed n x \<Rightarrow> if n = 16 then Value x else Panic TypeAssertion | _ \<Rightarrow> Panic TypeAssertion)"

definition zero_bytes16 :: string where
  "zero_bytes16 = replicate 16 (char_of (0 :: nat))"

text \<open>A read-only method: the error and the zero value, or the results taken out of the list of outputs.\<close>

definition call_method_with :: "'w bind \<Rightarrow> BoundContract \<Rightarrow> CallOpts \<Rightarrow> string \<Rightarrow> abi_val list \<Rightarrow>
    (abi_val list \<Rightarrow> 'a outcome) \<Rightarrow> 'a \<Rightarrow> 'w \<Rightarrow> ('a \<times> err, 'w) go" where
  "call_method_with B contract opts method params take_out zero w =
     bind_go (call (BindCall B contract opts method params) w) (\<lambda>r w.
     case r of
       Inl err \<Rightarrow> Ret (zero, Some err) w
     | Inr out \<Rightarrow> (case take_out out of Value a \<Rightarrow> Ret (a, nil) w | Panic p \<Rightarrow> Crash p w))"

text \<open>
  The struct \<open>RoundData\<close> of \<open>contracts/contract_models.go\<close>. Methods that return round data have an
  anonymous struct with these fields, which Go converts to \<open>RoundData\<close> and which this record
  stands for too.
\<close>

record RoundData =
  rd_RoundId :: big
  rd_Answer :: big
  rd_StartedAt :: big
  rd_UpdatedAt :: big
  rd_AnsweredInRound :: big

section \<open>Iterators\<close>

text \<open>An event: its fields and the raw log, or what a failed \<open>UnpackLog\<close> left of it.\<close>

datatype event = Event "abi_val list" log | Broken

record iterator =
  it_Event :: "event option"
  it_contract :: BoundContract
  it_event :: string
  it_logs :: nat
  it_done :: bool
  it_fail :: err

definition take_log :: "'w bind \<Rightarrow> struct \<Rightarrow> iterator \<Rightarrow> log \<Rightarrow> bool \<times> iterator" where
  "take_log B ty it lg =
     (case UnpackLog B (it_contract it) ty (it_event it) lg of
        Inl err \<Rightarrow> (False, it\<lparr>it_Event := Some Broken, it_fail := Some err\<rparr>)
      | Inr vs \<Rightarrow> (True, it\<lparr>it_Event := Some (Event vs lg)\<rparr>))"

text \<open>\<open>Next\<close> once the subscription ended: whatever is left of the logs.\<close>

definition next_done :: "'w bind \<Rightarrow> struct \<Rightarrow> iterator \<Rightarrow> 'w \<Rightarrow> (bool \<times> iterator, 'w) go" where
  "next_done B ty it w =
     bind_go (call (poll_log B (it_logs it)) w) (\<lambda>r w.
     case r of Some lg \<Rightarrow> Ret (take_log B ty it lg) w | None \<Rightarrow> Ret (False, it) w)"

definition it_Next :: "'w bind \<Rightarrow> struct \<Rightarrow> iterator \<Rightarrow> 'w \<Rightarrow> (bool \<times> iterator, 'w) go" where
  "it_Next B ty it w =
     (if it_fail it \<noteq> nil then Ret (False, it) w
      else if it_done it then next_done B ty it w
      else bind_go (call (recv_log B (it_logs it)) w) (\<lambda>r w.
        case r of
          None \<Rightarrow> Hang
        | Some (Inl lg) \<Rightarrow> Ret (take_log B ty it lg) w
        | Some (Inr err) \<Rightarrow>
            let it = it\<lparr>it_done := True, it_fail := err\<rparr>
            in if err \<noteq> nil then Ret (False, it) w else next_done B ty it w))"

definition it_Error :: "iterator \<Rightarrow> err" where
  "it_Error it = it_fail it"

definition it_Close :: "'w bind \<Rightarrow> iterator \<Rightarrow> 'w \<Rightarrow> (err, 'w) go" where
  "it_Close B it w = bind_go (call (LogsUnsubscribe B (it_logs it)) w) (\<lambda>_ w. Ret nil w)"

definition filter_logs :: "'w bind \<Rightarrow> BoundContract \<Rightarrow> FilterOpts \<Rightarrow> string \<Rightarrow> abi_val list list \<Rightarrow> 'w \<Rightarrow>
    (go_error + iterator, 'w) go" where
  "filter_logs B contract opts name rules w =
     bind_go (call (FilterLogs B contract opts name rules) w) (\<lambda>r w.
     case r of
       Inl err \<Rightarrow> Ret (Inl err) w
     | Inr logs \<Rightarrow> Ret (Inr \<lparr>it_Event = None, it_contract = contract, it_event = name, it_logs = logs,
                            it_done = False, it_fail = nil\<rparr>) w)"

definition parse_log :: "'w bind \<Rightarrow> BoundContract \<Rightarrow> string \<Rightarrow> struct \<Rightarrow> log \<Rightarrow> go_error + event" where
  "parse_log B contract name ty lg =
     (case UnpackLog B contract ty name lg of Inl err \<Rightarrow> Inl err | Inr vs \<Rightarrow> Inr (Event vs lg))"

section \<open>Watching\<close>

text \<open>
  A subscription that forwards events to a sink (a channel, by its number): what the function
  handed to \<open>event.NewSubscription\<close> has captured.
\<close>

record watcher =
  wt_contract :: BoundContract
  wt_event :: string
  wt_struct :: struct
  wt_logs :: nat
  wt_sink :: nat

definition watch_logs :: "'w bind \<Rightarrow> BoundContract \<Rightarrow> WatchOpts \<Rightarrow> string \<Rightarrow> struct \<Rightarrow> nat \<Rightarrow> abi_val list list \<Rightarrow> 'w \<Rightarrow>
    (go_error + watcher, 'w) go" where
  "watch_logs B contract opts name ty sink rules w =
     bind_go (call (WatchLogs B contract opts name rules) w) (\<lambda>r w.
     case r of
       Inl err \<Rightarrow> Ret (Inl err) w
     | Inr logs \<Rightarrow> Ret (Inr \<lparr>wt_contract = contract, wt_event = name, wt_struct = ty, wt_logs = logs, wt_sink = sink\<rparr>) w)"

text \<open>
  Where the forwarding goroutine is: in the outer \<open>select\<close>, in the inner one with an event to
  send, or returned with an error after unsubscribing.
\<close>

datatype watch_state = Listening | Sending event | Stopped err

text \<open>What a \<open>select\<close> of it receives: a log, the end of the subscription, a request to quit, or that the sink took the event.\<close>

datatype watch_input = LogArrived log | SubEnded err | QuitAsked | SinkTook

text \<open>A step of the goroutine, with the events the sink takes in it.\<close>

inductive watch_step :: "'w bind \<Rightarrow> watcher \<Rightarrow> watch_state \<Rightarrow> watch_input \<Rightarrow> event list \<Rightarrow> watch_state \<Rightarrow> bool"
  for B wt where
  arrives: "UnpackLog B (wt_contract wt) (wt_struct wt) (wt_event wt) lg = Inr vs \<Longrightarrow>
    watch_step B wt Listening (LogArrived lg) [] (Sending (Event vs lg))"
| unreadable: "UnpackLog B (wt_contract wt) (wt_struct wt) (wt_event wt) lg = Inl err \<Longrightarrow>
    watch_step B wt Listening (LogArrived lg) [] (Stopped (Some err))"
| ended: "watch_step B wt Listening (SubEnded err) [] (Stopped err)"
| quit: "watch_step B wt Listening QuitAsked [] (Stopped nil)"
| taken: "watch_step B wt (Sending ev) SinkTook [ev] Listening"
| ended_sending: "watch_step B wt (Sending ev) (SubEnded err) [] (Stopped err)"
| quit_sending: "watch_step B wt (Sending ev) QuitAsked [] (Stopped nil)"

inductive_cases watch_step_ListeningE: "watch_step B wt Listening i evs s"
inductive_cases watch_step_SendingE: "watch_step B wt (Sending ev) i evs s"
inductive_simps watch_step_Stopped: "watch_step B wt (Stopped err) i evs s"

inductive watch_run :: "'w bind \<Rightarrow> watcher \<Rightarrow> watch_input list \<Rightarrow> event list \<Rightarrow> watch_state \<Rightarrow> bool"
  for B wt where
  start: "watch_run B wt [] [] Listening"
| step: "watch_run B wt is evs s \<Longrightarrow> watch_step B wt s i new s' \<Longrightarrow> watch_run B wt (is @ [i]) (evs @ new) s'"

section \<open>Conformity with the ABI\<close>

text \<open>The Go type of a Solidity type: integers that no Go integer type fits are big integers.\<close>

definition sol_go :: "string \<Rightarrow> go_type option" where
  "sol_go = map_of
     [(''uint8'', TUint8), (''uint16'', TUint16), (''uint32'', TUint32), (''uint64'', TUint64),
      (''uint80'', TBig), (''uint128'', TBig), (''uint256'', TBig), (''int192'', TBig), (''int256'', TBig),
      (''bool'', TBool), (''string'', TString), (''bytes'', TBytes), (''bytes16'', TFixed 16), (''bytes32'', TFixed 32),
      (''address'', TAddress), (''address[]'', TAddresses), (''int192[]'', TBigs), (''bytes32[]'', TBytes32s)]"

definition find_method :: "abi \<Rightarrow> string \<Rightarrow> abi_method option" where
  "find_method a m = find (\<lambda>am. am_name am = m) (ab_methods a)"

text \<open>A method of the ABI with these Go types of arguments and results.\<close>

definition has_method :: "abi \<Rightarrow> string \<Rightarrow> bool \<Rightarrow> go_type list \<Rightarrow> go_type list \<Rightarrow> bool" where
  "has_method a m view ins outs =
     (case find_method a m of
        None \<Rightarrow> False
      | Some am \<Rightarrow> am_view am = view \<and> map (sol_go \<circ> snd) (am_inputs am) = map Some ins \<and>
          map (sol_go \<circ> snd) (am_outputs am) = map Some outs)"

text \<open>A method that is called with a transaction; what it returns is not read.\<close>

definition has_transaction :: "abi \<Rightarrow> string \<Rightarrow> go_type list \<Rightarrow> bool" where
  "has_transaction a m ins =
     (case find_method a m of
        None \<Rightarrow> False
      | Some am \<Rightarrow> \<not> am_view am \<and> map (sol_go \<circ> snd) (am_inputs am) = map Some ins)"

text \<open>
  An event of the ABI whose inputs, in order, have the types of the fields of a struct, with
  the types of the indexed ones. Events that share their name are told apart by a number
  appended to the name of the later ones.
\<close>

fun resolve_names :: "nat \<Rightarrow> string list \<Rightarrow> string list \<Rightarrow> string list" where
  "resolve_names k seen [] = []"
| "resolve_names k seen (n # ns) =
     (if n \<in> set seen then (n @ nat_digits k) # resolve_names (Suc k) seen ns else n # resolve_names k (n # seen) ns)"

definition find_event :: "abi \<Rightarrow> string \<Rightarrow> abi_event option" where
  "find_event a e = map_of (zip (resolve_names 0 [] (map ae_name (ab_events a))) (ab_events a)) e"

definition has_event :: "abi \<Rightarrow> string \<Rightarrow> struct \<Rightarrow> go_type list \<Rightarrow> bool" where
  "has_event a e ty indexed =
     (case find_event a e of
        None \<Rightarrow> False
      | Some ae \<Rightarrow> map (\<lambda>(n, s, i). sol_go s) (ae_inputs ae) = map (Some \<circ> snd) ty \<and>
          map (\<lambda>(n, s, i). sol_go s) (filter (\<lambda>(n, s, i). i) (ae_inputs ae)) = map Some indexed)"

text \<open>
  What is documented of the generic wrapper: a call that succeeds was one of a method of the
  contract's ABI with arguments of its types, and returns values of its types; converting a
  value to the type it has gives the value.
\<close>

definition abi_typed :: "'w bind \<Rightarrow> bool" where
  "abi_typed B \<longleftrightarrow>
     (\<forall>c opts m ps w out w'. BindCall B c opts m ps w = (Inr out, w') \<longrightarrow>
        (\<exists>am. find_method (bc_abi c) m = Some am \<and> map (sol_go \<circ> snd) (am_outputs am) = map (Some \<circ> type_of) out)) \<and>
     (\<forall>v. ConvertType B (type_of v) v = Value v)"

lemma abi_typed_outputs:
  assumes "abi_typed B" "BindCall B c opts m ps w = (Inr out, w')" "has_method (bc_abi c) m view ins outs"
  shows "map type_of out = outs"
proof -
  obtain am where am: "find_method (bc_abi c) m = Some am"
    "map (sol_go \<circ> snd) (am_outputs am) = map (Some \<circ> type_of) out"
    using assms(1,2) unfolding abi_typed_def by blast
  with assms(3) have "map Some outs = map Some (map type_of out)"
    unfolding has_method_def by simp
  then show ?thesis by (metis inj_Some inj_map_eq_map)
qed

text \<open>Results of the right types are taken out without a panic.\<close>

lemma converted_Value:
  assumes "abi_typed B" "map type_of out = outs" "i < length outs" "outs ! i = ty"
  shows "converted B ty out i = Value (out ! i) \<and> type_of (out ! i) = ty"
proof -
  have "i < length out" "type_of (out ! i) = ty" using assms(2-4) by auto
  then show ?thesis
    using assms(1) unfolding abi_typed_def converted_def index_def by auto
qed

lemma out_Value:
  assumes "abi_typed B" "map type_of out = outs" "i < length outs"
  shows "outs ! i = TBig \<Longrightarrow> \<exists>x. out_big B out i = Value x"
    and "outs ! i = TUint8 \<Longrightarrow> \<exists>x. out_uint8 B out i = Value x"
    and "outs ! i = TUint16 \<Longrightarrow> \<exists>x. out_uint16 B out i = Value x"
    and "outs ! i = TUint32 \<Longrightarrow> \<exists>x. out_uint32 B out i = Value x"
    and "outs ! i = TUint64 \<Longrightarrow> \<exists>x. out_uint64 B out i = Value x"
    and "outs ! i = TBool \<Longrightarrow> \<exists>x. out_bool B out i = Value x"
    and "outs ! i = TString \<Longrightarrow> \<exists>x. out_string B out i = Value x"
    and "outs ! i = TAddress \<Longrightarrow> \<exists>x. out_address B out i = Value x"
    and "outs ! i = TAddresses \<Longrightarrow> \<exists>x. out_addresses B out i = Value x"
    and "outs ! i = TFixed 16 \<Longrightarrow> \<exists>x. out_bytes16 B out i = Value x"
  using converted_Value [OF assms]
  by (auto simp: out_big_def out_uint8_def out_uint16_def out_uint32_def out_uint64_def out_bool_def out_string_def
      out_address_def out_addresses_def out_bytes16_def split: abi_val.splits)

text \<open>A read-only method that takes its results out of the types its ABI promises returns.\<close>

lemma call_method_returns:
  assumes "abi_typed B" "has_method (bc_abi c) m view ins outs"
    and "\<And>out. map type_of out = outs \<Longrightarrow> \<exists>a. take_out out = Value a"
  shows "\<exists>r w'. call_method_with B c opts m ps take_out zero w = Ret r w'"
proof (cases "BindCall B c opts m ps w")
  case (Pair r w')
  show ?thesis
  proof (cases r)
    case (Inl err)
    with Pair show ?thesis by (simp add: call_method_with_def bind_call)
  next
    case (Inr out)
    with Pair assms abi_typed_outputs obtain a where "take_out out = Value a" by metis
    with Pair Inr show ?thesis by (simp add: call_method_with_def bind_call)
  qed
qed

lemma bind_outcome_Value: "\<exists>x. m = Value x \<Longrightarrow> (\<And>x. \<exists>y. f x = Value y) \<Longrightarrow> \<exists>y. bind_outcome m f = Value y"
  by auto

section \<open>Safe methods\<close>

text \<open>
  A read-only method of a binding calls a method the ABI of the contract has as such, with
  arguments of its types, and returns: none of the conversions of its results panics.
\<close>

definition safe_call :: "'w bind \<Rightarrow> BoundContract \<Rightarrow> CallOpts \<Rightarrow> ('w \<Rightarrow> ('a \<times> err, 'w) go) \<Rightarrow> bool" where
  "safe_call B c opts f \<longleftrightarrow>
     (\<exists>m ps outs take_out zero. f = call_method_with B c opts m ps take_out zero \<and>
        has_method (bc_abi c) m True (map type_of ps) outs) \<and>
     (\<forall>w. \<exists>r w'. f w = Ret r w')"

lemma safe_callI:
  assumes "abi_typed B" "has_method (bc_abi c) m True (map type_of ps) outs"
    and "\<And>out. map type_of out = outs \<Longrightarrow> \<exists>a. take_out out = Value a"
  shows "safe_call B c opts (call_method_with B c opts m ps take_out zero)"
  unfolding safe_call_def using assms(2) call_method_returns [where take_out = take_out, OF assms] by blast

text \<open>A transaction method sends a transaction of a method of the ABI, with arguments of its types.\<close>

definition safe_transact :: "'w bind \<Rightarrow> BoundContract \<Rightarrow> TransactOpts \<Rightarrow> ('w \<Rightarrow> (go_error + Transaction, 'w) go) \<Rightarrow> bool" where
  "safe_transact B c opts f \<longleftrightarrow>
     (\<exists>m ps. f = call (BindTransact B c opts m ps) \<and> has_transaction (bc_abi c) m (map type_of ps))"

lemma safe_transactI:
  "has_transaction (bc_abi c) m (map type_of ps) \<Longrightarrow> safe_transact B c opts (call (BindTransact B c opts m ps))"
  unfolding safe_transact_def by blast

text \<open>
  An event is filtered, watched and parsed as the ABI declares it: with rules for its indexed
  inputs, of their types, and into a struct with the types of its inputs.
\<close>

definition safe_event :: "'w bind \<Rightarrow> BoundContract \<Rightarrow> FilterOpts \<Rightarrow> WatchOpts \<Rightarrow> nat \<Rightarrow>
    ('w \<Rightarrow> (go_error + iterator, 'w) go) \<Rightarrow> ('w \<Rightarrow> (go_error + watcher, 'w) go) \<Rightarrow> (log \<Rightarrow> go_error + event) \<Rightarrow> bool" where
  "safe_event B c fopts wopts sink filt wat parse \<longleftrightarrow>
     (\<exists>e ty rules ixs. filt = filter_logs B c fopts e rules \<and> wat = watch_logs B c wopts e ty sink rules \<and>
        parse = parse_log B c e ty \<and> has_event (bc_abi c) e ty ixs \<and>
        list_all2 (\<lambda>r t. \<forall>v \<in> set r. type_of v = t) rules ixs)"

lemma safe_eventI:
  "has_event (bc_abi c) e ty ixs \<Longrightarrow> list_all2 (\<lambda>r t. \<forall>v \<in> set r. type_of v = t) rules ixs \<Longrightarrow>
   safe_event B c fopts wopts sink (filter_logs B c fopts e rules) (watch_logs B c wopts e ty sink rules) (parse_log B c e ty)"
  unfolding safe_event_def by blast

section \<open>Iterators deliver every log\<close>

text \<open>A loop \<open>for it.Next() { use(it.Event) }\<close> of at most \<open>n\<close> rounds: the events, and whether \<open>Next\<close> was still true.\<close>

fun nexts :: "'w bind \<Rightarrow> struct \<Rightarrow> nat \<Rightarrow> iterator \<Rightarrow> 'w \<Rightarrow> (event list \<times> bool \<times> iterator, 'w) go" where
  "nexts B ty 0 it w = Ret ([], True, it) w"
| "nexts B ty (Suc n) it w =
     bind_go (it_Next B ty it w) (\<lambda>(more, it) w.
     if more then bind_go (nexts B ty n it w) (\<lambda>(evs, more, it') w. Ret (the (it_Event it) # evs, more, it') w)
     else Ret ([], False, it) w)"

text \<open>
  A subscription that delivers its logs and ends without an error. \<open>left w\<close> are the logs not
  yet taken from it in the world \<open>w\<close>. Its end may be seen while logs are left in the
  channel: \<open>ended w\<close>, from when on logs can be polled.
\<close>

definition delivers :: "'w bind \<Rightarrow> nat \<Rightarrow> ('w \<Rightarrow> log list) \<Rightarrow> ('w \<Rightarrow> bool) \<Rightarrow> bool" where
  "delivers B s left ended \<longleftrightarrow>
     (\<forall>w. case recv_log B s w of
        (None, w') \<Rightarrow> False
      | (Some (Inl lg), w') \<Rightarrow> left w = lg # left w'
      | (Some (Inr err), w') \<Rightarrow> err = nil \<and> left w' = left w \<and> ended w') \<and>
     (\<forall>w. ended w \<longrightarrow> (case poll_log B s w of
        (None, w') \<Rightarrow> left w = [] \<and> left w' = []
      | (Some lg, w') \<Rightarrow> left w = lg # left w' \<and> ended w'))"

lemma delivers_poll:
  assumes "delivers B s left ended" "ended w"
  obtains w' where "poll_log B s w = (None, w')" "left w = []" "left w' = []"
    | lg w' where "poll_log B s w = (Some lg, w')" "left w = lg # left w'" "ended w'"
  using assms unfolding delivers_def by (cases "poll_log B s w"; cases "fst (poll_log B s w)") fastforce+

lemma delivers_recv:
  assumes "delivers B s left ended"
  obtains lg w' where "recv_log B s w = (Some (Inl lg), w')" "left w = lg # left w'"
    | w' where "recv_log B s w = (Some (Inr nil), w')" "left w' = left w" "ended w'"
proof -
  obtain r w' where r: "recv_log B s w = (r, w')" by (cases "recv_log B s w")
  from assms [unfolded delivers_def, THEN conjunct1, THEN spec, of w] r that show thesis
    by (auto split: option.splits sum.splits)
qed

text \<open>One call of \<open>Next\<close> on an iterator that has not failed.\<close>

definition same_stream :: "iterator \<Rightarrow> iterator \<Rightarrow> bool" where
  "same_stream it it' \<longleftrightarrow> it_logs it' = it_logs it \<and> it_contract it' = it_contract it \<and> it_event it' = it_event it"

definition reads_all :: "'w bind \<Rightarrow> struct \<Rightarrow> iterator \<Rightarrow> (log \<Rightarrow> abi_val list) \<Rightarrow> bool" where
  "reads_all B ty it f \<longleftrightarrow> (\<forall>lg. UnpackLog B (it_contract it) ty (it_event it) lg = Inr (f lg))"

lemma take_log_reads:
  "reads_all B ty it f \<Longrightarrow> take_log B ty it lg = (True, it\<lparr>it_Event := Some (Event (f lg) lg)\<rparr>)"
  by (simp add: reads_all_def take_log_def)

lemma next_done_delivers:
  assumes "delivers B (it_logs it) left ended" "ended w" "reads_all B ty it f"
  obtains w' where "next_done B ty it w = Ret (False, it) w'" "left w = []" "left w' = []"
    | lg w' where "next_done B ty it w = Ret (True, it\<lparr>it_Event := Some (Event (f lg) lg)\<rparr>) w'" "left w = lg # left w'" "ended w'"
  using assms(1,2)
proof (cases rule: delivers_poll)
  case (1 w')
  with that(1) show thesis by (simp add: next_done_def bind_call)
next
  case (2 lg w')
  with that(2) assms(3) show thesis by (simp add: next_done_def bind_call take_log_reads)
qed

lemma next_delivers:
  assumes "delivers B (it_logs it) left ended" "it_fail it = nil" "it_done it \<longrightarrow> ended w" "reads_all B ty it f"
  obtains it' w' where "it_Next B ty it w = Ret (False, it') w'" "left w = []" "left w' = []" "it_fail it' = nil"
    | lg it' w' where "it_Next B ty it w = Ret (True, it') w'" "left w = lg # left w'" "it_Event it' = Some (Event (f lg) lg)"
        "it_fail it' = nil" "it_done it' \<longrightarrow> ended w'" "same_stream it it'"
proof (cases "it_done it")
  case True
  with assms have "ended w" by simp
  from assms(1) this assms(4) show thesis
    by (cases rule: next_done_delivers) (use assms(2) True that in \<open>auto simp: it_Next_def same_stream_def\<close>)
next
  case False
  from assms(1) show thesis
  proof (cases rule: delivers_recv [of _ _ _ _ w])
    case (1 lg w')
    with that(2) [of "it\<lparr>it_Event := Some (Event (f lg) lg)\<rparr>" w' lg] False assms(2,4) show thesis
      by (simp add: it_Next_def bind_call take_log_reads same_stream_def)
  next
    case (2 w1)
    let ?it = "it\<lparr>it_done := True\<rparr>"
    have upd: "it\<lparr>it_done := True, it_fail := nil\<rparr> = ?it" using assms(2) by simp
    have step: "it_Next B ty it w = next_done B ty ?it w1"
      using 2 False assms(2) by (simp add: it_Next_def bind_call Let_def upd)
    have "delivers B (it_logs ?it) left ended" "reads_all B ty ?it f"
      using assms(1,4) by (simp_all add: reads_all_def)
    from this(1) 2(3) this(2) show thesis
      by (cases rule: next_done_delivers)
        (use 2 assms(2) step that in \<open>auto simp: same_stream_def\<close>)
  qed
qed

lemma nexts_deliver:
  assumes "delivers B (it_logs it) left ended" "it_fail it = nil" "it_done it \<longrightarrow> ended w" "reads_all B ty it f"
    and "length (left w) < n"
  shows "\<exists>it' w'. nexts B ty n it w = Ret (map (\<lambda>lg. Event (f lg) lg) (left w), False, it') w' \<and>
    it_fail it' = nil \<and> left w' = []"
  using assms
proof (induction n arbitrary: it w)
  case (Suc n)
  from Suc.prems(1-4) show ?case
  proof (cases rule: next_delivers)
    case (1 it' w')
    then show ?thesis by simp
  next
    case (2 lg it' w')
    with Suc.prems have "delivers B (it_logs it') left ended" "reads_all B ty it' f" "length (left w') < n"
      by (auto simp: same_stream_def reads_all_def)
    with Suc.IH [of it' w'] 2 obtain it'' w'' where
      "nexts B ty n it' w' = Ret (map (\<lambda>lg. Event (f lg) lg) (left w'), False, it'') w''"
      "it_fail it'' = nil" "left w'' = []" by blast
    with 2 show ?thesis by simp
  qed
qed simp

section \<open>Watchers forward every event once\<close>

definition arrivals :: "watch_input list \<Rightarrow> log list" where
  "arrivals ins = concat (map (\<lambda>i. case i of LogArrived lg \<Rightarrow> [lg] | _ \<Rightarrow> []) ins)"

definition readable :: "'w bind \<Rightarrow> watcher \<Rightarrow> log list \<Rightarrow> event list" where
  "readable B wt lgs = concat (map (\<lambda>lg.
     case UnpackLog B (wt_contract wt) (wt_struct wt) (wt_event wt) lg of Inr vs \<Rightarrow> [Event vs lg] | Inl _ \<Rightarrow> []) lgs)"

lemma arrivals_append [simp]: "arrivals (ins @ js) = arrivals ins @ arrivals js"
  by (simp add: arrivals_def)

lemma arrivals_single [simp]: "arrivals [i] = (case i of LogArrived lg \<Rightarrow> [lg] | _ \<Rightarrow> [])"
  by (simp add: arrivals_def)

lemma readable_append [simp]: "readable B wt (xs @ ys) = readable B wt xs @ readable B wt ys"
  by (simp add: readable_def)

lemma watch_forwards:
  "watch_run B wt ins evs s \<Longrightarrow>
     (case s of
        Listening \<Rightarrow> readable B wt (arrivals ins) = evs
      | Sending ev \<Rightarrow> readable B wt (arrivals ins) = evs @ [ev]
      | Stopped err \<Rightarrow> \<exists>lost. length lost \<le> 1 \<and> readable B wt (arrivals ins) = evs @ lost)"
proof (induction rule: watch_run.induct)
  case start
  then show ?case by (simp add: arrivals_def readable_def)
next
  case (step ins evs s i new s')
  from step.hyps(2) step.IH show ?case
    by (induction rule: watch_step.induct) (auto simp: readable_def [of B wt "[_]"] readable_def [of B wt "[]"])
qed

section \<open>A concrete wrapper\<close>

text \<open>
  A wrapper whose world is the logs of one subscription, and in which a method of the ABI
  returns zero values.
\<close>

fun zero_val :: "go_type \<Rightarrow> abi_val" where
  "zero_val TBig = VBig (Some 0)"
| "zero_val TUint8 = VUint8 0"
| "zero_val TUint16 = VUint16 0"
| "zero_val TUint32 = VUint32 0"
| "zero_val TUint64 = VUint64 0"
| "zero_val TBool = VBool False"
| "zero_val TString = VString []"
| "zero_val TBytes = VBytes []"
| "zero_val (TFixed n) = VFixed n (replicate n (char_of (0 :: nat)))"
| "zero_val TAddress = VAddress 0"
| "zero_val TAddresses = VAddresses []"
| "zero_val TBigs = VBigs []"
| "zero_val TBytes32s = VBytes32s []"

lemma type_of_zero_val [simp]: "type_of (zero_val t) = t"
  by (cases t) simp_all

definition sample_call :: "abi \<Rightarrow> string \<Rightarrow> go_error + abi_val list" where
  "sample_call a m =
     (case find_method a m of
        None \<Rightarrow> Inl (LibError ''method not found'')
      | Some am \<Rightarrow>
          if list_all (\<lambda>p. sol_go (snd p) \<noteq> None) (am_outputs am)
          then Inr (map (zero_val \<circ> the \<circ> sol_go \<circ> snd) (am_outputs am))
          else Inl (LibError ''unsupported type''))"

definition sample_bind :: "log list bind" where
  "sample_bind = \<lparr>abi_JSON = (\<lambda>_. nil),
     BindDeploy = (\<lambda>auth a bin cl ps w. (Inl (LibError ''out of gas''), w)),
     BindCall = (\<lambda>c opts m ps w. (sample_call (bc_abi c) m, w)),
     BindTransact = (\<lambda>c opts m ps w. (Inl (LibError ''out of gas''), w)),
     BindTransfer = (\<lambda>c opts w. (Inl (LibError ''out of gas''), w)),
     FilterLogs = (\<lambda>c opts e rules w. (Inr 0, w)),
     WatchLogs = (\<lambda>c opts e rules w. (Inr 0, w)),
     UnpackLog = (\<lambda>c ty e lg. Inr [VAddress (lg_Address lg)]),
     ConvertType = (\<lambda>ty v. if type_of v = ty then Value v else Panic TypeAssertion),
     recv_log = (\<lambda>s w. case w of [] \<Rightarrow> (Some (Inr nil), []) | lg # rest \<Rightarrow> (Some (Inl lg), rest)),
     poll_log = (\<lambda>s w. case w of [] \<Rightarrow> (None, []) | lg # rest \<Rightarrow> (Some lg, rest)),
     LogsUnsubscribe = (\<lambda>s w. ((), w))\<rparr>"

lemma sample_bind_typed: "abi_typed sample_bind"
proof -
  have "map (sol_go \<circ> snd) (am_outputs am) = map (Some \<circ> type_of) out"
    if "sample_call a m = Inr out" "find_method a m = Some am" for a m am out
    using that by (auto simp: sample_call_def list_all_iff split: if_splits)
  moreover have "\<exists>am. find_method a m = Some am" if "sample_call a m = Inr out" for a m out
    using that by (auto simp: sample_call_def split: option.splits)
  ultimately show ?thesis
    unfolding abi_typed_def sample_bind_def by fastforce
qed

definition sample_contract :: "abi \<Rightarrow> BoundContract" where
  "sample_contract a = \<lparr>bc_address = 0, bc_abi = a, bc_caller = Some 0, bc_transactor = Some 0, bc_filterer = Some 0\<rparr>"

definition sample_opts :: CallOpts where
  "sample_opts = \<lparr>co_Pending = True, co_From = 0, co_BlockNumber = nil, co_Context = 0\<rparr>"

definition sample_iterator :: iterator where
  "sample_iterator = \<lparr>it_Event = None,
     it_contract = sample_contract \<lparr>ab_constructor = [], ab_methods = [], ab_events = []\<rparr>,
     it_event = ''Set'', it_logs = 0, it_done = False, it_fail = nil\<rparr>"

section \<open>Properties\<close>

text \<open>
  A loop over an iterator gets every log of the subscription, once and in order, and then
  ends without an error, even if the end of the subscription is noticed while logs are still
  in the channel (\<open>delivers\<close> leaves open when that is). It ends after at most one more call
  of \<open>Next\<close> than there are logs.
\<close>

theorem iterator_delivers_every_log:
  assumes "delivers B (it_logs it) left ended" "it_fail it = nil" "it_done it \<longrightarrow> ended w"
    and "reads_all B ty it f" "length (left w) < n"
  shows "\<exists>it' w'. nexts B ty n it w = Ret (map (\<lambda>lg. Event (f lg) lg) (left w), False, it') w' \<and>
    it_Error it' = nil \<and> left w' = []"
  using nexts_deliver [OF assms] by (simp add: it_Error_def)

theorem iterator_delivers_every_log_witness:
  "\<exists>it' w'. nexts sample_bind [(''Who'', TAddress)] 3 sample_iterator
      [\<lparr>lg_Address = 5, lg_Topics = [], lg_Data = []\<rparr>, \<lparr>lg_Address = 6, lg_Topics = [], lg_Data = []\<rparr>] =
    Ret ([Event [VAddress 5] \<lparr>lg_Address = 5, lg_Topics = [], lg_Data = []\<rparr>,
          Event [VAddress 6] \<lparr>lg_Address = 6, lg_Topics = [], lg_Data = []\<rparr>], False, it') w'"
proof -
  have "delivers sample_bind (it_logs sample_iterator) (\<lambda>w. w) (\<lambda>w. True)"
    by (simp add: delivers_def sample_bind_def split: list.split)
  moreover have "reads_all sample_bind [(''Who'', TAddress)] sample_iterator (\<lambda>lg. [VAddress (lg_Address lg)])"
    by (simp add: reads_all_def sample_bind_def)
  ultimately show ?thesis
    using iterator_delivers_every_log [where n = 3 and w = "[\<lparr>lg_Address = 5, lg_Topics = [], lg_Data = []\<rparr>,
      \<lparr>lg_Address = 6, lg_Topics = [], lg_Data = []\<rparr>]"] by (fastforce simp: sample_iterator_def)
qed

text \<open>
  A watcher forwards the readable logs that arrived to the sink, each once and in order:
  all of them while it listens, all but the one it is about to send, and all but at most one
  when it has stopped; and after stopping it does nothing more.
\<close>

theorem watcher_forwards_once:
  assumes "watch_run B wt ins evs s"
  shows "(case s of
      Listening \<Rightarrow> readable B wt (arrivals ins) = evs
    | Sending ev \<Rightarrow> readable B wt (arrivals ins) = evs @ [ev]
    | Stopped err \<Rightarrow> (\<exists>lost. length lost \<le> 1 \<and> readable B wt (arrivals ins) = evs @ lost) \<and>
        (\<forall>i new s'. \<not> watch_step B wt s i new s'))"
  using watch_forwards [OF assms] by (cases s) (auto simp: watch_step_Stopped)

definition sample_watcher :: watcher where
  "sample_watcher = \<lparr>wt_contract = it_contract sample_iterator, wt_event = ''Set'', wt_struct = [(''Who'', TAddress)],
     wt_logs = 0, wt_sink = 0\<rparr>"

theorem watcher_forwards_once_witness:
  "watch_run sample_bind sample_watcher [LogArrived \<lparr>lg_Address = 5, lg_Topics = [], lg_Data = []\<rparr>, SinkTook]
      [Event [VAddress 5] \<lparr>lg_Address = 5, lg_Topics = [], lg_Data = []\<rparr>] Listening \<and>
   readable sample_bind sample_watcher [\<lparr>lg_Address = 5, lg_Topics = [], lg_Data = []\<rparr>] =
      [Event [VAddress 5] \<lparr>lg_Address = 5, lg_Topics = [], lg_Data = []\<rparr>]"
proof -
  let ?lg = "\<lparr>lg_Address = 5, lg_Topics = [], lg_Data = []\<rparr>"
  have "watch_run sample_bind sample_watcher ([] @ [LogArrived ?lg]) ([] @ []) (Sending (Event [VAddress 5] ?lg))"
    by (rule watch_run.step [OF watch_run.start watch_step.arrives]) (simp add: sample_bind_def)
  from watch_run.step [OF this watch_step.taken]
  have "watch_run sample_bind sample_watcher [LogArrived ?lg, SinkTook] [Event [VAddress 5] ?lg] Listening" by simp
  from this watcher_forwards_once [OF this] show ?thesis by (simp add: arrivals_def)
qed

end
