(* ===== verification/Store_Binding.thy ===== *)
theory Store_Binding
  imports Bind
begin

text \<open>
  \<open>contracts/ethereum/store.go\<close>: the generated binding of the contract Store. Its ABI, its structs
  (those of \<open>Bind\<close>) and one definition for each of its functions, named after the type of the
  receiver and the method.
\<close>

definition StoreABI :: abi where
  "StoreABI =
     \<lparr>ab_constructor = [],
      ab_methods =
        [\<lparr>am_name = ''get'', am_inputs = [], am_outputs = [('''', ''uint256'')], am_view = True\<rparr>,
         \<lparr>am_name = ''set'', am_inputs = [(''x'', ''uint256'')], am_outputs = [], am_view = False\<rparr>],
      ab_events =
        []\<rparr>"

type_synonym Store = binding

type_synonym StoreCaller = caller

type_synonym StoreTransactor = transactor

type_synonym StoreFilterer = filterer

type_synonym StoreSession = session

type_synonym StoreCallerSession = caller_session

type_synonym StoreTransactorSession = transactor_session

type_synonym StoreRaw = raw

type_synonym StoreCallerRaw = caller_raw

type_synonym StoreTransactorRaw = transactor_raw

definition DeployStore :: "'w bind \<Rightarrow> TransactOpts \<Rightarrow> backend \<Rightarrow> 'w \<Rightarrow> (go_error + address \<times> Transaction \<times> binding, 'w) go" where
  "DeployStore B auth backend =
     deploy_contract B StoreABI StoreBin auth backend
       []"

definition bindStore :: "'w bind \<Rightarrow> address \<Rightarrow> backend option \<Rightarrow> backend option \<Rightarrow> backend option \<Rightarrow> go_error + BoundContract" where
  "bindStore B address caller transactor filterer = bind_contract B StoreABI address caller transactor filterer"

definition NewStore :: "'w bind \<Rightarrow> address \<Rightarrow> backend \<Rightarrow> go_error + binding" where
  "NewStore B address backend =
     (case bindStore B address (Some backend) (Some backend) (Some backend) of
        Inl err \<Rightarrow> Inl err
      | Inr contract \<Rightarrow> Inr (binding_of contract))"

definition NewStoreCaller :: "'w bind \<Rightarrow> address \<Rightarrow> backend \<Rightarrow> go_error + caller" where
  "NewStoreCaller B address b =
     (case bindStore B address (Some b) None None of
        Inl err \<Rightarrow> Inl err
      | Inr contract \<Rightarrow> Inr \<lparr>caller_contract = contract\<rparr>)"

definition NewStoreTransactor :: "'w bind \<Rightarrow> address \<Rightarrow> backend \<Rightarrow> go_error + transactor" where
  "NewStoreTransactor B address b =
     (case bindStore B address None (Some b) None of
        Inl err \<Rightarrow> Inl err
      | Inr contract \<Rightarrow> Inr \<lparr>transactor_contract = contract\<rparr>)"

definition NewStoreFilterer :: "'w bind \<Rightarrow> address \<Rightarrow> backend \<Rightarrow> go_error + filterer" where
  "NewStoreFilterer B address b =
     (case bindStore B address None None (Some b) of
        Inl err \<Rightarrow> Inl err
      | Inr contract \<Rightarrow> Inr \<lparr>filterer_contract = contract\<rparr>)"

definition StoreRaw_Call :: "'w bind \<Rightarrow> raw \<Rightarrow> CallOpts \<Rightarrow> string \<Rightarrow> abi_val list \<Rightarrow> 'w \<Rightarrow> (go_error + abi_val list, 'w) go" where
  "StoreRaw_Call B r opts method params = call (BindCall B (caller_contract (Caller (raw_Contract r))) opts method params)"

definition StoreRaw_Transfer :: "'w bind \<Rightarrow> raw \<Rightarrow> TransactOpts \<Rightarrow> 'w \<Rightarrow> (go_error + Transaction, 'w) go" where
  "StoreRaw_Transfer B r opts = call (BindTransfer B (transactor_contract (Transactor (raw_Contract r))) opts)"

definition StoreRaw_Transact :: "'w bind \<Rightarrow> raw \<Rightarrow> TransactOpts \<Rightarrow> string \<Rightarrow> abi_val list \<Rightarrow> 'w \<Rightarrow> (go_error + Transaction, 'w) go" where
  "StoreRaw_Transact B r opts method params = call (BindTransact B (transactor_contract (Transactor (raw_Contract r))) opts method params)"

definition StoreCallerRaw_Call :: "'w bind \<Rightarrow> caller_raw \<Rightarrow> CallOpts \<Rightarrow> string \<Rightarrow> abi_val list \<Rightarrow> 'w \<Rightarrow> (go_error + abi_val list, 'w) go" where
  "StoreCallerRaw_Call B r opts method params = call (BindCall B (caller_contract (craw_Contract r)) opts method params)"

definition StoreTransactorRaw_Transfer :: "'w bind \<Rightarrow> transactor_raw \<Rightarrow> TransactOpts \<Rightarrow> 'w \<Rightarrow> (go_error + Transaction, 'w) go" where
  "StoreTransactorRaw_Transfer B r opts = call (BindTransfer B (transactor_contract (traw_Contract r)) opts)"

definition StoreTransactorRaw_Transact :: "'w bind \<Rightarrow> transactor_raw \<Rightarrow> TransactOpts \<Rightarrow> string \<Rightarrow> abi_val list \<Rightarrow> 'w \<Rightarrow> (go_error + Transaction, 'w) go" where
  "StoreTransactorRaw_Transact B r opts method params = call (BindTransact B (transactor_contract (traw_Contract r)) opts method params)"

section \<open>Read-only methods\<close>

definition StoreCaller_Get :: "'w bind \<Rightarrow> caller \<Rightarrow> CallOpts \<Rightarrow> 'w \<Rightarrow> (big \<times> err, 'w) go" where
  "StoreCaller_Get B c opts =
     call_method_with B (caller_contract c) opts ''get'' []
       (\<lambda>out. out_big B out 0) nil"

definition StoreSession_Get :: "'w bind \<Rightarrow> session \<Rightarrow> 'w \<Rightarrow> (big \<times> err, 'w) go" where
  "StoreSession_Get B s = StoreCaller_Get B (Caller (ses_Contract s)) (ses_CallOpts s)"

definition StoreCallerSession_Get :: "'w bind \<Rightarrow> caller_session \<Rightarrow> 'w \<Rightarrow> (big \<times> err, 'w) go" where
  "StoreCallerSession_Get B s = StoreCaller_Get B (cs_Contract s) (cs_CallOpts s)"

section \<open>Transactions\<close>

definition StoreTransactor_Set :: "'w bind \<Rightarrow> transactor \<Rightarrow> TransactOpts \<Rightarrow> big \<Rightarrow> 'w \<Rightarrow> (go_error + Transaction, 'w) go" where
  "StoreTransactor_Set B c opts x =
     call (BindTransact B (transactor_contract c) opts ''set'' [VBig x])"

definition StoreSession_Set :: "'w bind \<Rightarrow> session \<Rightarrow> big \<Rightarrow> 'w \<Rightarrow> (go_error + Transaction, 'w) go" where
  "StoreSession_Set B s x = StoreTransactor_Set B (Transactor (ses_Contract s)) (ses_TransactOpts s) x"

definition StoreTransactorSession_Set :: "'w bind \<Rightarrow> transactor_session \<Rightarrow> big \<Rightarrow> 'w \<Rightarrow> (go_error + Transaction, 'w) go" where
  "StoreTransactorSession_Set B s x = StoreTransactor_Set B (ts_Contract s) (ts_TransactOpts s) x"

section \<open>Conformity with the ABI\<close>

lemma store_methods:
  "has_method StoreABI ''get'' True [] [TBig]"
  by code_simp+

lemma store_transactions:
  "has_transaction StoreABI ''set'' [TBig]"
  by code_simp+

lemmas store_defs =
  StoreCaller_Get_def StoreTransactor_Set_def
  caller.simps transactor.simps filterer.simps

text \<open>
  Every read-only method of the Store binding calls a view method of the
  contract's ABI with arguments of its types, and reads its results at their types, so that it
  returns and never panics; every transaction
  method sends one of the ABI's methods with arguments of its types.
\<close>

theorem store_binding_conforms:
  assumes "abi_typed B" and "bc_abi C = StoreABI"
  shows "safe_call B C opts (StoreCaller_Get B \<lparr>caller_contract = C\<rparr> opts) \<and>
    (\<forall>x. safe_transact B C auth (StoreTransactor_Set B \<lparr>transactor_contract = C\<rparr> auth x))"
  unfolding store_defs
  by ((intro conjI allI)?)
     ((rule safe_callI [OF assms(1)], unfold assms(2) list.map type_of.simps, rule store_methods,
        (auto intro!: out_Value [OF assms(1)] bind_outcome_Value)[1])
      | (rule safe_transactI, unfold assms(2) list.map type_of.simps, rule store_transactions))+

theorem store_binding_conforms_witness:
  "\<exists>r w'. StoreCaller_Get sample_bind \<lparr>caller_contract = sample_contract StoreABI\<rparr> sample_opts [] = Ret r w'"
  using store_binding_conforms [OF sample_bind_typed, of "sample_contract StoreABI" sample_opts]
  by (simp add: safe_call_def sample_contract_def)

end
