(* ===== verification/VRF_Binding.thy ===== *)
theory VRF_Binding
  imports Bind
begin

text \<open>
  \<open>contracts/ethereum/VRF.go\<close>: the generated binding of the contract VRF. Its ABI, its structs
  (those of \<open>Bind\<close>) and one definition for each of its functions, named after the type of the
  receiver and the method.
\<close>

definition VRFABI :: abi where
  "VRFABI =
     \<lparr>ab_constructor = [],
      ab_methods =
        [\<lparr>am_name = ''PROOF_LENGTH'', am_inputs = [], am_outputs = [('''', ''uint256'')], am_view = True\<rparr>],
      ab_events =
        []\<rparr>"

type_synonym VRF = binding

type_synonym VRFCaller = caller

type_synonym VRFTransactor = transactor

type_synonym VRFFilterer = filterer

type_synonym VRFSession = session

type_synonym VRFCallerSession = caller_session

type_synonym VRFTransactorSession = transactor_session

type_synonym VRFRaw = raw

type_synonym VRFCallerRaw = caller_raw

type_synonym VRFTransactorRaw = transactor_raw

definition DeployVRF :: "'w bind \<Rightarrow> TransactOpts \<Rightarrow> backend \<Rightarrow> 'w \<Rightarrow> (go_error + address \<times> Transaction \<times> binding, 'w) go" where
  "DeployVRF B auth backend =
     deploy_contract B VRFABI VRFBin auth backend
       []"

definition bindVRF :: "'w bind \<Rightarrow> address \<Rightarrow> backend option \<Rightarrow> backend option \<Rightarrow> backend option \<Rightarrow> go_error + BoundContract" where
  "bindVRF B address caller transactor filterer = bind_contract B VRFABI address caller transactor filterer"

definition NewVRF :: "'w bind \<Rightarrow> address \<Rightarrow> backend \<Rightarrow> go_error + binding" where
  "NewVRF B address backend =
     (case bindVRF B address (Some backend) (Some backend) (Some backend) of
        Inl err \<Rightarrow> Inl err
      | Inr contract \<Rightarrow> Inr (binding_of contract))"

definition NewVRFCaller :: "'w bind \<Rightarrow> address \<Rightarrow> backend \<Rightarrow> go_error + caller" where
  "NewVRFCaller B address b =
     (case bindVRF B address (Some b) None None of
        Inl err \<Rightarrow> Inl err
      | Inr contract \<Rightarrow> Inr \<lparr>caller_contract = contract\<rparr>)"

definition NewVRFTransactor :: "'w bind \<Rightarrow> address \<Rightarrow> backend \<Rightarrow> go_error + transactor" where
  "NewVRFTransactor B address b =
     (case bindVRF B address None (Some b) None of
        Inl err \<Rightarrow> Inl err
      | Inr contract \<Rightarrow> Inr \<lparr>transactor_contract = contract\<rparr>)"

definition NewVRFFilterer :: "'w bind \<Rightarrow> address \<Rightarrow> backend \<Rightarrow> go_error + filterer" where
  "NewVRFFilterer B address b =
     (case bindVRF B address None None (Some b) of
        Inl err \<Rightarrow> Inl err
      | Inr contract \<Rightarrow> Inr \<lparr>filterer_contract = contract\<rparr>)"

definition VRFRaw_Call :: "'w bind \<Rightarrow> raw \<Rightarrow> CallOpts \<Rightarrow> string \<Rightarrow> abi_val list \<Rightarrow> 'w \<Rightarrow> (go_error + abi_val list, 'w) go" where
  "VRFRaw_Call B r opts method params = call (BindCall B (caller_contract (Caller (raw_Contract r))) opts method params)"

definition VRFRaw_Transfer :: "'w bind \<Rightarrow> raw \<Rightarrow> TransactOpts \<Rightarrow> 'w \<Rightarrow> (go_error + Transaction, 'w) go" where
  "VRFRaw_Transfer B r opts = call (BindTransfer B (transactor_contract (Transactor (raw_Contract r))) opts)"

definition VRFRaw_Transact :: "'w bind \<Rightarrow> raw \<Rightarrow> TransactOpts \<Rightarrow> string \<Rightarrow> abi_val list \<Rightarrow> 'w \<Rightarrow> (go_error + Transaction, 'w) go" where
  "VRFRaw_Transact B r opts method params = call (BindTransact B (transactor_contract (Transactor (raw_Contract r))) opts method params)"

definition VRFCallerRaw_Call :: "'w bind \<Rightarrow> caller_raw \<Rightarrow> CallOpts \<Rightarrow> string \<Rightarrow> abi_val list \<Rightarrow> 'w \<Rightarrow> (go_error + abi_val list, 'w) go" where
  "VRFCallerRaw_Call B r opts method params = call (BindCall B (caller_contract (craw_Contract r)) opts method params)"

definition VRFTransactorRaw_Transfer :: "'w bind \<Rightarrow> transactor_raw \<Rightarrow> TransactOpts \<Rightarrow> 'w \<Rightarrow> (go_error + Transaction, 'w) go" where
  "VRFTransactorRaw_Transfer B r opts = call (BindTransfer B (transactor_contract (traw_Contract r)) opts)"

definition VRFTransactorRaw_Transact :: "'w bind \<Rightarrow> transactor_raw \<Rightarrow> TransactOpts \<Rightarrow> string \<Rightarrow> abi_val list \<Rightarrow> 'w \<Rightarrow> (go_error + Transaction, 'w) go" where
  "VRFTransactorRaw_Transact B r opts method params = call (BindTransact B (transactor_contract (traw_Contract r)) opts method params)"

section \<open>Read-only methods\<close>

definition VRFCaller_PROOFLENGTH :: "'w bind \<Rightarrow> caller \<Rightarrow> CallOpts \<Rightarrow> 'w \<Rightarrow> (big \<times> err, 'w) go" where
  "VRFCaller_PROOFLENGTH B c opts =
     call_method_with B (caller_contract c) opts ''PROOF_LENGTH'' []
       (\<lambda>out. out_big B out 0) nil"

definition VRFSession_PROOFLENGTH :: "'w bind \<Rightarrow> session \<Rightarrow> 'w \<Rightarrow> (big \<times> err, 'w) go" where
  "VRFSession_PROOFLENGTH B s = VRFCaller_PROOFLENGTH B (Caller (ses_Contract s)) (ses_CallOpts s)"

definition VRFCallerSession_PROOFLENGTH :: "'w bind \<Rightarrow> caller_session \<Rightarrow> 'w \<Rightarrow> (big \<times> err, 'w) go" where
  "VRFCallerSession_PROOFLENGTH B s = VRFCaller_PROOFLENGTH B (cs_Contract s) (cs_CallOpts s)"

section \<open>Conformity with the ABI\<close>

lemma vrf_methods:
  "has_method VRFABI ''PROOF_LENGTH'' True [] [TBig]"
  by code_simp+

lemmas vrf_defs =
  VRFCaller_PROOFLENGTH_def
  caller.simps transactor.simps filterer.simps

text \<open>
  Every read-only method of the VRF binding calls a view method of the
  contract's ABI with arguments of its types, and reads its results at their types, so that it
  returns and never panics.
\<close>

theorem vrf_binding_conforms:
  assumes "abi_typed B" and "bc_abi C = VRFABI"
  shows "safe_call B C opts (VRFCaller_PROOFLENGTH B \<lparr>caller_contract = C\<rparr> opts)"
  unfolding vrf_defs
  by ((intro conjI allI)?)
     ((rule safe_callI [OF assms(1)], unfold assms(2) list.map type_of.simps, rule vrf_methods,
        (auto intro!: out_Value [OF assms(1)] bind_outcome_Value)[1]))+

theorem vrf_binding_conforms_witness:
  "\<exists>r w'. VRFCaller_PROOFLENGTH sample_bind \<lparr>caller_contract = sample_contract VRFABI\<rparr> sample_opts [] = Ret r w'"
  using vrf_binding_conforms [OF sample_bind_typed, of "sample_contract VRFABI" sample_opts]
  by (simp add: safe_call_def sample_contract_def)

end
