(* ===== verification/LinkToken_Binding.thy ===== *)
theory LinkToken_Binding
  imports Bind
begin

text \<open>
  \<open>contracts/ethereum/LinkToken.go\<close>: the generated binding of the contract LinkToken. Its ABI, its structs
  (those of \<open>Bind\<close>) and one definition for each of its functions, named after the type of the
  receiver and the method.
\<close>

definition LinkTokenABI :: abi where
  "LinkTokenABI =
     \<lparr>ab_constructor = [],
      ab_methods =
        [\<lparr>am_name = ''name'', am_inputs = [], am_outputs = [('''', ''string'')], am_view = True\<rparr>,
         \<lparr>am_name = ''approve'', am_inputs = [(''_spender'', ''address''), (''_value'', ''uint256'')], am_outputs = [('''', ''bool'')], am_view = False\<rparr>,
         \<lparr>am_name = ''totalSupply'', am_inputs = [], am_outputs = [('''', ''uint256'')], am_view = True\<rparr>,
         \<lparr>am_name = ''transferFrom'', am_inputs = [(''_from'', ''address''), (''_to'', ''address''), (''_value'', ''uint256'')], am_outputs = [('''', ''bool'')], am_view = False\<rparr>,
         \<lparr>am_name = ''decimals'', am_inputs = [], am_outputs = [('''', ''uint8'')], am_view = True\<rparr>,
         \<lparr>am_name = ''transferAndCall'', am_inputs = [(''_to'', ''address''), (''_value'', ''uint256''), (''_data'', ''bytes'')], am_outputs = [(''success'', ''bool'')], am_view = False\<rparr>,
         \<lparr>am_name = ''decreaseApproval'', am_inputs = [(''_spender'', ''address''), (''_subtractedValue'', ''uint256'')], am_outputs = [(''success'', ''bool'')], am_view = False\<rparr>,
         \<lparr>am_name = ''balanceOf'', am_inputs = [(''_owner'', ''address'')], am_outputs = [(''balance'', ''uint256'')], am_view = True\<rparr>,
         \<lparr>am_name = ''symbol'', am_inputs = [], am_outputs = [('''', ''string'')], am_view = True\<rparr>,
         \<lparr>am_name = ''transfer'', am_inputs = [(''_to'', ''address''), (''_value'', ''uint256'')], am_outputs = [(''success'', ''bool'')], am_view = False\<rparr>,
         \<lparr>am_name = ''increaseApproval'', am_inputs = [(''_spender'', ''address''), (''_addedValue'', ''uint256'')], am_outputs = [(''success'', ''bool'')], am_view = False\<rparr>,
         \<lparr>am_name = ''allowance'', am_inputs = [(''_owner'', ''address''), (''_spender'', ''address'')], am_outputs = [(''remaining'', ''uint256'')], am_view = True\<rparr>],
      ab_events =
        [\<lparr>ae_name = ''Transfer'', ae_inputs = [(''from'', ''address'', True), (''to'', ''address'', True), (''value'', ''uint256'', False), (''data'', ''bytes'', False)]\<rparr>,
         \<lparr>ae_name = ''Approval'', ae_inputs = [(''owner'', ''address'', True), (''spender'', ''address'', True), (''value'', ''uint256'', False)]\<rparr>,
         \<lparr>ae_name = ''Transfer'', ae_inputs = [(''from'', ''address'', True), (''to'', ''address'', True), (''value'', ''uint256'', False)]\<rparr>]\<rparr>"

type_synonym LinkToken = binding

type_synonym LinkTokenCaller = caller

type_synonym LinkTokenTransactor = transactor

type_synonym LinkTokenFilterer = filterer

type_synonym LinkTokenSession = session

type_synonym LinkTokenCallerSession = caller_session

type_synonym LinkTokenTransactorSession = transactor_session

type_synonym LinkTokenRaw = raw

type_synonym LinkTokenCallerRaw = caller_raw

type_synonym LinkTokenTransactorRaw = transactor_raw

definition DeployLinkToken :: "'w bind \<Rightarrow> TransactOpts \<Rightarrow> backend \<Rightarrow> 'w \<Rightarrow> (go_error + address \<times> Transaction \<times> binding, 'w) go" where
  "DeployLinkToken B auth backend =
     deploy_contract B LinkTokenABI LinkTokenBin auth backend
       []"

definition bindLinkToken :: "'w bind \<Rightarrow> address \<Rightarrow> backend option \<Rightarrow> backend option \<Rightarrow> backend option \<Rightarrow> go_error + BoundContract" where
  "bindLinkToken B address caller transactor filterer = bind_contract B LinkTokenABI address caller transactor filterer"

definition NewLinkToken :: "'w bind \<Rightarrow> address \<Rightarrow> backend \<Rightarrow> go_error + binding" where
  "NewLinkToken B address backend =
     (case bindLinkToken B address (Some backend) (Some backend) (Some backend) of
        Inl err \<Rightarrow> Inl err
      | Inr contract \<Rightarrow> Inr (binding_of contract))"

definition NewLinkTokenCaller :: "'w bind \<Rightarrow> address \<Rightarrow> backend \<Rightarrow> go_error + caller" where
  "NewLinkTokenCaller B address b =
     (case bindLinkToken B address (Some b) None None of
        Inl err \<Rightarrow> Inl err
      | Inr contract \<Rightarrow> Inr \<lparr>caller_contract = contract\<rparr>)"

definition NewLinkTokenTransactor :: "'w bind \<Rightarrow> address \<Rightarrow> backend \<Rightarrow> go_error + transactor" where
  "NewLinkTokenTransactor B address b =
     (case bindLinkToken B address None (Some b) None of
        Inl err \<Rightarrow> Inl err
      | Inr contract \<Rightarrow> Inr \<lparr>transactor_contract = contract\<rparr>)"

definition NewLinkTokenFilterer :: "'w bind \<Rightarrow> address \<Rightarrow> backend \<Rightarrow> go_error + filterer" where
  "NewLinkTokenFilterer B address b =
     (case bindLinkToken B address None None (Some b) of
        Inl err \<Rightarrow> Inl err
      | Inr contract \<Rightarrow> Inr \<lparr>filterer_contract = contract\<rparr>)"

definition LinkTokenRaw_Call :: "'w bind \<Rightarrow> raw \<Rightarrow> CallOpts \<Rightarrow> string \<Rightarrow> abi_val list \<Rightarrow> 'w \<Rightarrow> (go_error + abi_val list, 'w) go" where
  "LinkTokenRaw_Call B r opts method params = call (BindCall B (caller_contract (Caller (raw_Contract r))) opts method params)"

definition LinkTokenRaw_Transfer :: "'w bind \<Rightarrow> raw \<Rightarrow> TransactOpts \<Rightarrow> 'w \<Rightarrow> (go_error + Transaction, 'w) go" where
  "LinkTokenRaw_Transfer B r opts = call (BindTransfer B (transactor_contract (Transactor (raw_Contract r))) opts)"

definition LinkTokenRaw_Transact :: "'w bind \<Rightarrow> raw \<Rightarrow> TransactOpts \<Rightarrow> string \<Rightarrow> abi_val list \<Rightarrow> 'w \<Rightarrow> (go_error + Transaction, 'w) go" where
  "LinkTokenRaw_Transact B r opts method params = call (BindTransact B (transactor_contract (Transactor (raw_Contract r))) opts method params)"

definition LinkTokenCallerRaw_Call :: "'w bind \<Rightarrow> caller_raw \<Rightarrow> CallOpts \<Rightarrow> string \<Rightarrow> abi_val list \<Rightarrow> 'w \<Rightarrow> (go_error + abi_val list, 'w) go" where
  "LinkTokenCallerRaw_Call B r opts method params = call (BindCall B (caller_contract (craw_Contract r)) opts method params)"

definition LinkTokenTransactorRaw_Transfer :: "'w bind \<Rightarrow> transactor_raw \<Rightarrow> TransactOpts \<Rightarrow> 'w \<Rightarrow> (go_error + Transaction, 'w) go" where
  "LinkTokenTransactorRaw_Transfer B r opts = call (BindTransfer B (transactor_contract (traw_Contract r)) opts)"

definition LinkTokenTransactorRaw_Transact :: "'w bind \<Rightarrow> transactor_raw \<Rightarrow> TransactOpts \<Rightarrow> string \<Rightarrow> abi_val list \<Rightarrow> 'w \<Rightarrow> (go_error + Transaction, 'w) go" where
  "LinkTokenTransactorRaw_Transact B r opts method params = call (BindTransact B (transactor_contract (traw_Contract r)) opts method params)"

section \<open>Read-only methods\<close>

definition LinkTokenCaller_Allowance :: "'w bind \<Rightarrow> caller \<Rightarrow> CallOpts \<Rightarrow> address \<Rightarrow> address \<Rightarrow> 'w \<Rightarrow> (big \<times> err, 'w) go" where
  "LinkTokenCaller_Allowance B c opts owner spender =
     call_method_with B (caller_contract c) opts ''allowance'' [VAddress owner, VAddress spender]
       (\<lambda>out. out_big B out 0) nil"

definition LinkTokenSession_Allowance :: "'w bind \<Rightarrow> session \<Rightarrow> address \<Rightarrow> address \<Rightarrow> 'w \<Rightarrow> (big \<times> err, 'w) go" where
  "LinkTokenSession_Allowance B s owner spender = LinkTokenCaller_Allowance B (Caller (ses_Contract s)) (ses_CallOpts s) owner spender"

definition LinkTokenCallerSession_Allowance :: "'w bind \<Rightarrow> caller_session \<Rightarrow> address \<Rightarrow> address \<Rightarrow> 'w \<Rightarrow> (big \<times> err, 'w) go" where
  "LinkTokenCallerSession_Allowance B s owner spender = LinkTokenCaller_Allowance B (cs_Contract s) (cs_CallOpts s) owner spender"

definition LinkTokenCaller_BalanceOf :: "'w bind \<Rightarrow> caller \<Rightarrow> CallOpts \<Rightarrow> address \<Rightarrow> 'w \<Rightarrow> (big \<times> err, 'w) go" where
  "LinkTokenCaller_BalanceOf B c opts owner =
     call_method_with B (caller_contract c) opts ''balanceOf'' [VAddress owner]
       (\<lambda>out. out_big B out 0) nil"

definition LinkTokenSession_BalanceOf :: "'w bind \<Rightarrow> session \<Rightarrow> address \<Rightarrow> 'w \<Rightarrow> (big \<times> err, 'w) go" where
  "LinkTokenSession_BalanceOf B s owner = LinkTokenCaller_BalanceOf B (Caller (ses_Contract s)) (ses_CallOpts s) owner"

definition LinkTokenCallerSession_BalanceOf :: "'w bind \<Rightarrow> caller_session \<Rightarrow> address \<Rightarrow> 'w \<Rightarrow> (big \<times> err, 'w) go" where
  "LinkTokenCallerSession_BalanceOf B s owner = LinkTokenCaller_BalanceOf B (cs_Contract s) (cs_CallOpts s) owner"

definition LinkTokenCaller_Decimals :: "'w bind \<Rightarrow> caller \<Rightarrow> CallOpts \<Rightarrow> 'w \<Rightarrow> (u8 \<times> err, 'w) go" where
  "LinkTokenCaller_Decimals B c opts =
     call_method_with B (caller_contract c) opts ''decimals'' []
       (\<lambda>out. out_uint8 B out 0) 0"

definition LinkTokenSession_Decimals :: "'w bind \<Rightarrow> session \<Rightarrow> 'w \<Rightarrow> (u8 \<times> err, 'w) go" where
  "LinkTokenSession_Decimals B s = LinkTokenCaller_Decimals B (Caller (ses_Contract s)) (ses_CallOpts s)"

definition LinkTokenCallerSession_Decimals :: "'w bind \<Rightarrow> caller_session \<Rightarrow> 'w \<Rightarrow> (u8 \<times> err, 'w) go" where
  "LinkTokenCallerSession_Decimals B s = LinkTokenCaller_Decimals B (cs_Contract s) (cs_CallOpts s)"

definition LinkTokenCaller_Name :: "'w bind \<Rightarrow> caller \<Rightarrow> CallOpts \<Rightarrow> 'w \<Rightarrow> (string \<times> err, 'w) go" where
  "LinkTokenCaller_Name B c opts =
     call_method_with B (caller_contract c) opts ''name'' []
       (\<lambda>out. out_string B out 0) []"

definition LinkTokenSession_Name :: "'w bind \<Rightarrow> session \<Rightarrow> 'w \<Rightarrow> (string \<times> err, 'w) go" where
  "LinkTokenSession_Name B s = LinkTokenCaller_Name B (Caller (ses_Contract s)) (ses_CallOpts s)"

definition LinkTokenCallerSession_Name :: "'w bind \<Rightarrow> caller_session \<Rightarrow> 'w \<Rightarrow> (string \<times> err, 'w) go" where
  "LinkTokenCallerSession_Name B s = LinkTokenCaller_Name B (cs_Contract s) (cs_CallOpts s)"

definition LinkTokenCaller_Symbol :: "'w bind \<Rightarrow> caller \<Rightarrow> CallOpts \<Rightarrow> 'w \<Rightarrow> (string \<times> err, 'w) go" where
  "LinkTokenCaller_Symbol B c opts =
     call_method_with B (caller_contract c) opts ''symbol'' []
       (\<lambda>out. out_string B out 0) []"

definition LinkTokenSession_Symbol :: "'w bind \<Rightarrow> session \<Rightarrow> 'w \<Rightarrow> (string \<times> err, 'w) go" where
  "LinkTokenSession_Symbol B s = LinkTokenCaller_Symbol B (Caller (ses_Contract s)) (ses_CallOpts s)"

definition LinkTokenCallerSession_Symbol :: "'w bind \<Rightarrow> caller_session \<Rightarrow> 'w \<Rightarrow> (string \<times> err, 'w) go" where
  "LinkTokenCallerSession_Symbol B s = LinkTokenCaller_Symbol B (cs_Contract s) (cs_CallOpts s)"

definition LinkTokenCaller_TotalSupply :: "'w bind \<Rightarrow> caller \<Rightarrow> CallOpts \<Rightarrow> 'w \<Rightarrow> (big \<times> err, 'w) go" where
  "LinkTokenCaller_TotalSupply B c opts =
     call_method_with B (caller_contract c) opts ''totalSupply'' []
       (\<lambda>out. out_big B out 0) nil"

definition LinkTokenSession_TotalSupply :: "'w bind \<Rightarrow> session \<Rightarrow> 'w \<Rightarrow> (big \<times> err, 'w) go" where
  "LinkTokenSession_TotalSupply B s = LinkTokenCaller_TotalSupply B (Caller (ses_Contract s)) (ses_CallOpts s)"

definition LinkTokenCallerSession_TotalSupply :: "'w bind \<Rightarrow> caller_session \<Rightarrow> 'w \<Rightarrow> (big \<times> err, 'w) go" where
  "LinkTokenCallerSession_TotalSupply B s = LinkTokenCaller_TotalSupply B (cs_Contract s) (cs_CallOpts s)"

section \<open>Transactions\<close>

definition LinkTokenTransactor_Approve :: "'w bind \<Rightarrow> transactor \<Rightarrow> TransactOpts \<Rightarrow> address \<Rightarrow> big \<Rightarrow> 'w \<Rightarrow> (go_error + Transaction, 'w) go" where
  "LinkTokenTransactor_Approve B c opts spender value =
     call (BindTransact B (transactor_contract c) opts ''approve'' [VAddress spender, VBig value])"

definition LinkTokenSession_Approve :: "'w bind \<Rightarrow> session \<Rightarrow> address \<Rightarrow> big \<Rightarrow> 'w \<Rightarrow> (go_error + Transaction, 'w) go" where
  "LinkTokenSession_Approve B s spender value = LinkTokenTransactor_Approve B (Transactor (ses_Contract s)) (ses_TransactOpts s) spender value"

definition LinkTokenTransactorSession_Approve :: "'w bind \<Rightarrow> transactor_session \<Rightarrow> address \<Rightarrow> big \<Rightarrow> 'w \<Rightarrow> (go_error + Transaction, 'w) go" where
  "LinkTokenTransactorSession_Approve B s spender value = LinkTokenTransactor_Approve B (ts_Contract s) (ts_TransactOpts s) spender value"

definition LinkTokenTransactor_DecreaseApproval :: "'w bind \<Rightarrow> transactor \<Rightarrow> TransactOpts \<Rightarrow> address \<Rightarrow> big \<Rightarrow> 'w \<Rightarrow> (go_error + Transaction, 'w) go" where
  "LinkTokenTransactor_DecreaseApproval B c opts spender subtractedValue =
     call (BindTransact B (transactor_contract c) opts ''decreaseApproval'' [VAddress spender, VBig subtractedValue])"

definition LinkTokenSession_DecreaseApproval :: "'w bind \<Rightarrow> session \<Rightarrow> address \<Rightarrow> big \<Rightarrow> 'w \<Rightarrow> (go_error + Transaction, 'w) go" where
  "LinkTokenSession_DecreaseApproval B s spender subtractedValue = LinkTokenTransactor_DecreaseApproval B (Transactor (ses_Contract s)) (ses_TransactOpts s) spender subtractedValue"

definition LinkTokenTransactorSession_DecreaseApproval :: "'w bind \<Rightarrow> transactor_session \<Rightarrow> address \<Rightarrow> big \<Rightarrow> 'w \<Rightarrow> (go_error + Transaction, 'w) go" where
  "LinkTokenTransactorSession_DecreaseApproval B s spender subtractedValue = LinkTokenTransactor_DecreaseApproval B (ts_Contract s) (ts_TransactOpts s) spender subtractedValue"

definition LinkTokenTransactor_IncreaseApproval :: "'w bind \<Rightarrow> transactor \<Rightarrow> TransactOpts \<Rightarrow> address \<Rightarrow> big \<Rightarrow> 'w \<Rightarrow> (go_error + Transaction, 'w) go" where
  "LinkTokenTransactor_IncreaseApproval B c opts spender addedValue =
     call (BindTransact B (transactor_contract c) opts ''increaseApproval'' [VAddress spender, VBig addedValue])"

definition LinkTokenSession_IncreaseApproval :: "'w bind \<Rightarrow> session \<Rightarrow> address \<Rightarrow> big \<Rightarrow> 'w \<Rightarrow> (go_error + Transaction, 'w) go" where
  "LinkTokenSession_IncreaseApproval B s spender addedValue = LinkTokenTransactor_IncreaseApproval B (Transactor (ses_Contract s)) (ses_TransactOpts s) spender addedValue"

definition LinkTokenTransactorSession_IncreaseApproval :: "'w bind \<Rightarrow> transactor_session \<Rightarrow> address \<Rightarrow> big \<Rightarrow> 'w \<Rightarrow> (go_error + Transaction, 'w) go" where
  "LinkTokenTransactorSession_IncreaseApproval B s spender addedValue = LinkTokenTransactor_IncreaseApproval B (ts_Contract s) (ts_TransactOpts s) spender addedValue"

definition LinkTokenTransactor_Transfer :: "'w bind \<Rightarrow> transactor \<Rightarrow> TransactOpts \<Rightarrow> address \<Rightarrow> big \<Rightarrow> 'w \<Rightarrow> (go_error + Transaction, 'w) go" where
  "LinkTokenTransactor_Transfer B c opts to value =
     call (BindTransact B (transactor_contract c) opts ''transfer'' [VAddress to, VBig value])"

definition LinkTokenSession_Transfer :: "'w bind \<Rightarrow> session \<Rightarrow> address \<Rightarrow> big \<Rightarrow> 'w \<Rightarrow> (go_error + Transaction, 'w) go" where
  "LinkTokenSession_Transfer B s to value = LinkTokenTransactor_Transfer B (Transactor (ses_Contract s)) (ses_TransactOpts s) to value"

definition LinkTokenTransactorSession_Transfer :: "'w bind \<Rightarrow> transactor_session \<Rightarrow> address \<Rightarrow> big \<Rightarrow> 'w \<Rightarrow> (go_error + Transaction, 'w) go" where
  "LinkTokenTransactorSession_Transfer B s to value = LinkTokenTransactor_Transfer B (ts_Contract s) (ts_TransactOpts s) to value"

definition LinkTokenTransactor_TransferAndCall :: "'w bind \<Rightarrow> transactor \<Rightarrow> TransactOpts \<Rightarrow> address \<Rightarrow> big \<Rightarrow> string \<Rightarrow> 'w \<Rightarrow> (go_error + Transaction, 'w) go" where
  "LinkTokenTransactor_TransferAndCall B c opts to value data =
     call (BindTransact B (transactor_contract c) opts ''transferAndCall'' [VAddress to, VBig value, VBytes data])"

definition LinkTokenSession_TransferAndCall :: "'w bind \<Rightarrow> session \<Rightarrow> address \<Rightarrow> big \<Rightarrow> string \<Rightarrow> 'w \<Rightarrow> (go_error + Transaction, 'w) go" where
  "LinkTokenSession_TransferAndCall B s to value data = LinkTokenTransactor_TransferAndCall B (Transactor (ses_Contract s)) (ses_TransactOpts s) to value data"

definition LinkTokenTransactorSession_TransferAndCall :: "'w bind \<Rightarrow> transactor_session \<Rightarrow> address \<Rightarrow> big \<Rightarrow> string \<Rightarrow> 'w \<Rightarrow> (go_error + Transaction, 'w) go" where
  "LinkTokenTransactorSession_TransferAndCall B s to value data = LinkTokenTransactor_TransferAndCall B (ts_Contract s) (ts_TransactOpts s) to value data"

definition LinkTokenTransactor_TransferFrom :: "'w bind \<Rightarrow> transactor \<Rightarrow> TransactOpts \<Rightarrow> address \<Rightarrow> address \<Rightarrow> big \<Rightarrow> 'w \<Rightarrow> (go_error + Transaction, 'w) go" where
  "LinkTokenTransactor_TransferFrom B c opts from to value =
     call (BindTransact B (transactor_contract c) opts ''transferFrom'' [VAddress from, VAddress to, VBig value])"

definition LinkTokenSession_TransferFrom :: "'w bind \<Rightarrow> session \<Rightarrow> address \<Rightarrow> address \<Rightarrow> big \<Rightarrow> 'w \<Rightarrow> (go_error + Transaction, 'w) go" where
  "LinkTokenSession_TransferFrom B s from to value = LinkTokenTransactor_TransferFrom B (Transactor (ses_Contract s)) (ses_TransactOpts s) from to value"

definition LinkTokenTransactorSession_TransferFrom :: "'w bind \<Rightarrow> transactor_session \<Rightarrow> address \<Rightarrow> address \<Rightarrow> big \<Rightarrow> 'w \<Rightarrow> (go_error + Transaction, 'w) go" where
  "LinkTokenTransactorSession_TransferFrom B s from to value = LinkTokenTransactor_TransferFrom B (ts_Contract s) (ts_TransactOpts s) from to value"

section \<open>Events\<close>

definition LinkTokenApproval :: struct where
  "LinkTokenApproval = [(''Owner'', TAddress), (''Spender'', TAddress), (''Value'', TBig)]"

type_synonym LinkTokenApprovalIterator = iterator

definition LinkTokenApprovalIterator_Next :: "'w bind \<Rightarrow> iterator \<Rightarrow> 'w \<Rightarrow> (bool \<times> iterator, 'w) go" where
  "LinkTokenApprovalIterator_Next B it = it_Next B LinkTokenApproval it"

definition LinkTokenApprovalIterator_Error :: "iterator \<Rightarrow> err" where
  "LinkTokenApprovalIterator_Error it = it_Error it"

definition LinkTokenApprovalIterator_Close :: "'w bind \<Rightarrow> iterator \<Rightarrow> 'w \<Rightarrow> (err, 'w) go" where
  "LinkTokenApprovalIterator_Close B it = it_Close B it"

definition LinkTokenFilterer_FilterApproval :: "'w bind \<Rightarrow> filterer \<Rightarrow> FilterOpts \<Rightarrow> address list \<Rightarrow> address list \<Rightarrow> 'w \<Rightarrow> (go_error + iterator, 'w) go" where
  "LinkTokenFilterer_FilterApproval B c opts owner spender = filter_logs B (filterer_contract c) opts ''Approval'' [map VAddress owner, map VAddress spender]"

definition LinkTokenFilterer_WatchApproval :: "'w bind \<Rightarrow> filterer \<Rightarrow> WatchOpts \<Rightarrow> nat \<Rightarrow> address list \<Rightarrow> address list \<Rightarrow> 'w \<Rightarrow> (go_error + watcher, 'w) go" where
  "LinkTokenFilterer_WatchApproval B c opts sink owner spender =
     watch_logs B (filterer_contract c) opts ''Approval'' LinkTokenApproval sink [map VAddress owner, map VAddress spender]"

definition LinkTokenFilterer_ParseApproval :: "'w bind \<Rightarrow> filterer \<Rightarrow> log \<Rightarrow> go_error + event" where
  "LinkTokenFilterer_ParseApproval B c = parse_log B (filterer_contract c) ''Approval'' LinkTokenApproval"

definition LinkTokenTransfer :: struct where
  "LinkTokenTransfer = [(''From'', TAddress), (''To'', TAddress), (''Value'', TBig), (''Data'', TBytes)]"

type_synonym LinkTokenTransferIterator = iterator

definition LinkTokenTransferIterator_Next :: "'w bind \<Rightarrow> iterator \<Rightarrow> 'w \<Rightarrow> (bool \<times> iterator, 'w) go" where
  "LinkTokenTransferIterator_Next B it = it_Next B LinkTokenTransfer it"

definition LinkTokenTransferIterator_Error :: "iterator \<Rightarrow> err" where
  "LinkTokenTransferIterator_Error it = it_Error it"

definition LinkTokenTransferIterator_Close :: "'w bind \<Rightarrow> iterator \<Rightarrow> 'w \<Rightarrow> (err, 'w) go" where
  "LinkTokenTransferIterator_Close B it = it_Close B it"

definition LinkTokenFilterer_FilterTransfer :: "'w bind \<Rightarrow> filterer \<Rightarrow> FilterOpts \<Rightarrow> address list \<Rightarrow> address list \<Rightarrow> 'w \<Rightarrow> (go_error + iterator, 'w) go" where
  "LinkTokenFilterer_FilterTransfer B c opts from to = filter_logs B (filterer_contract c) opts ''Transfer'' [map VAddress from, map VAddress to]"

definition LinkTokenFilterer_WatchTransfer :: "'w bind \<Rightarrow> filterer \<Rightarrow> WatchOpts \<Rightarrow> nat \<Rightarrow> address list \<Rightarrow> address list \<Rightarrow> 'w \<Rightarrow> (go_error + watcher, 'w) go" where
  "LinkTokenFilterer_WatchTransfer B c opts sink from to =
     watch_logs B (filterer_contract c) opts ''Transfer'' LinkTokenTransfer sink [map VAddress from, map VAddress to]"

definition LinkTokenFilterer_ParseTransfer :: "'w bind \<Rightarrow> filterer \<Rightarrow> log \<Rightarrow> go_error + event" where
  "LinkTokenFilterer_ParseTransfer B c = parse_log B (filterer_contract c) ''Transfer'' LinkTokenTransfer"

definition LinkTokenTransfer0 :: struct where
  "LinkTokenTransfer0 = [(''From'', TAddress), (''To'', TAddress), (''Value'', TBig)]"

type_synonym LinkTokenTransfer0Iterator = iterator

definition LinkTokenTransfer0Iterator_Next :: "'w bind \<Rightarrow> iterator \<Rightarrow> 'w \<Rightarrow> (bool \<times> iterator, 'w) go" where
  "LinkTokenTransfer0Iterator_Next B it = it_Next B LinkTokenTransfer0 it"

definition LinkTokenTransfer0Iterator_Error :: "iterator \<Rightarrow> err" where
  "LinkTokenTransfer0Iterator_Error it = it_Error it"

definition LinkTokenTransfer0Iterator_Close :: "'w bind \<Rightarrow> iterator \<Rightarrow> 'w \<Rightarrow> (err, 'w) go" where
  "LinkTokenTransfer0Iterator_Close B it = it_Close B it"

definition LinkTokenFilterer_FilterTransfer0 :: "'w bind \<Rightarrow> filterer \<Rightarrow> FilterOpts \<Rightarrow> address list \<Rightarrow> address list \<Rightarrow> 'w \<Rightarrow> (go_error + iterator, 'w) go" where
  "LinkTokenFilterer_FilterTransfer0 B c opts from to = filter_logs B (filterer_contract c) opts ''Transfer0'' [map VAddress from, map VAddress to]"

definition LinkTokenFilterer_WatchTransfer0 :: "'w bind \<Rightarrow> filterer \<Rightarrow> WatchOpts \<Rightarrow> nat \<Rightarrow> address list \<Rightarrow> address list \<Rightarrow> 'w \<Rightarrow> (go_error + watcher, 'w) go" where
  "LinkTokenFilterer_WatchTransfer0 B c opts sink from to =
     watch_logs B (filterer_contract c) opts ''Transfer0'' LinkTokenTransfer0 sink [map VAddress from, map VAddress to]"

definition LinkTokenFilterer_ParseTransfer0 :: "'w bind \<Rightarrow> filterer \<Rightarrow> log \<Rightarrow> go_error + event" where
  "LinkTokenFilterer_ParseTransfer0 B c = parse_log B (filterer_contract c) ''Transfer0'' LinkTokenTransfer0"

section \<open>Conformity with the ABI\<close>

lemma link_token_methods:
  "has_method LinkTokenABI ''allowance'' True [TAddress, TAddress] [TBig]"
  "has_method LinkTokenABI ''balanceOf'' True [TAddress] [TBig]"
  "has_method LinkTokenABI ''decimals'' True [] [TUint8]"
  "has_method LinkTokenABI ''name'' True [] [TString]"
  "has_method LinkTokenABI ''symbol'' True [] [TString]"
  "has_method LinkTokenABI ''totalSupply'' True [] [TBig]"
  by code_simp+

lemma link_token_transactions:
  "has_transaction LinkTokenABI ''approve'' [TAddress, TBig]"
  "has_transaction LinkTokenABI ''decreaseApproval'' [TAddress, TBig]"
  "has_transaction LinkTokenABI ''increaseApproval'' [TAddress, TBig]"
  "has_transaction LinkTokenABI ''transfer'' [TAddress, TBig]"
  "has_transaction LinkTokenABI ''transferAndCall'' [TAddress, TBig, TBytes]"
  "has_transaction LinkTokenABI ''transferFrom'' [TAddress, TAddress, TBig]"
  by code_simp+

lemma link_token_events:
  "has_event LinkTokenABI ''Approval'' LinkTokenApproval [TAddress, TAddress]"
  "has_event LinkTokenABI ''Transfer'' LinkTokenTransfer [TAddress, TAddress]"
  "has_event LinkTokenABI ''Transfer0'' LinkTokenTransfer0 [TAddress, TAddress]"
  by code_simp+

lemmas link_token_defs =
  LinkTokenCaller_Allowance_def LinkTokenCaller_BalanceOf_def LinkTokenCaller_Decimals_def
  LinkTokenCaller_Name_def LinkTokenCaller_Symbol_def LinkTokenCaller_TotalSupply_def
  LinkTokenTransactor_Approve_def LinkTokenTransactor_DecreaseApproval_def
  LinkTokenTransactor_IncreaseApproval_def LinkTokenTransactor_Transfer_def
  LinkTokenTransactor_TransferAndCall_def LinkTokenTransactor_TransferFrom_def
  LinkTokenFilterer_FilterApproval_def LinkTokenFilterer_WatchApproval_def LinkTokenFilterer_ParseApproval_def
  LinkTokenFilterer_FilterTransfer_def LinkTokenFilterer_WatchTransfer_def LinkTokenFilterer_ParseTransfer_def
  LinkTokenFilterer_FilterTransfer0_def LinkTokenFilterer_WatchTransfer0_def
  LinkTokenFilterer_ParseTransfer0_def
  caller.simps transactor.simps filterer.simps

text \<open>
  Every read-only method of the LinkToken binding calls a view method of the
  contract's ABI with arguments of its types, and reads its results at their types, so that it
  returns and never panics; every transaction
  method sends one of the ABI's methods with arguments of its types; and every event is
  filtered, watched and parsed as the ABI declares it.
\<close>

theorem link_token_binding_conforms:
  assumes "abi_typed B" and "bc_abi C = LinkTokenABI"
  shows "(\<forall>owner spender. safe_call B C opts (LinkTokenCaller_Allowance B \<lparr>caller_contract = C\<rparr> opts owner spender)) \<and>
    (\<forall>owner. safe_call B C opts (LinkTokenCaller_BalanceOf B \<lparr>caller_contract = C\<rparr> opts owner)) \<and>
    safe_call B C opts (LinkTokenCaller_Decimals B \<lparr>caller_contract = C\<rparr> opts) \<and>
    safe_call B C opts (LinkTokenCaller_Name B \<lparr>caller_contract = C\<rparr> opts) \<and>
    safe_call B C opts (LinkTokenCaller_Symbol B \<lparr>caller_contract = C\<rparr> opts) \<and>
    safe_call B C opts (LinkTokenCaller_TotalSupply B \<lparr>caller_contract = C\<rparr> opts) \<and>
    (\<forall>spender value. safe_transact B C auth (LinkTokenTransactor_Approve B \<lparr>transactor_contract = C\<rparr> auth spender value)) \<and>
    (\<forall>spender subtractedValue. safe_transact B C auth (LinkTokenTransactor_DecreaseApproval B \<lparr>transactor_contract = C\<rparr> auth spender subtractedValue)) \<and>
    (\<forall>spender addedValue. safe_transact B C auth (LinkTokenTransactor_IncreaseApproval B \<lparr>transactor_contract = C\<rparr> auth spender addedValue)) \<and>
    (\<forall>to value. safe_transact B C auth (LinkTokenTransactor_Transfer B \<lparr>transactor_contract = C\<rparr> auth to value)) \<and>
    (\<forall>to value data. safe_transact B C auth (LinkTokenTransactor_TransferAndCall B \<lparr>transactor_contract = C\<rparr> auth to value data)) \<and>
    (\<forall>from to value. safe_transact B C auth (LinkTokenTransactor_TransferFrom B \<lparr>transactor_contract = C\<rparr> auth from to value)) \<and>
    (\<forall>owner spender. safe_event B C fopts wopts sink (LinkTokenFilterer_FilterApproval B \<lparr>filterer_contract = C\<rparr> fopts owner spender)
      (LinkTokenFilterer_WatchApproval B \<lparr>filterer_contract = C\<rparr> wopts sink owner spender) (LinkTokenFilterer_ParseApproval B \<lparr>filterer_contract = C\<rparr>)) \<and>
    (\<forall>from to. safe_event B C fopts wopts sink (LinkTokenFilterer_FilterTransfer B \<lparr>filterer_contract = C\<rparr> fopts from to)
      (LinkTokenFilterer_WatchTransfer B \<lparr>filterer_contract = C\<rparr> wopts sink from to) (LinkTokenFilterer_ParseTransfer B \<lparr>filterer_contract = C\<rparr>)) \<and>
    (\<forall>from to. safe_event B C fopts wopts sink (LinkTokenFilterer_FilterTransfer0 B \<lparr>filterer_contract = C\<rparr> fopts from to)
      (LinkTokenFilterer_WatchTransfer0 B \<lparr>filterer_contract = C\<rparr> wopts sink from to) (LinkTokenFilterer_ParseTransfer0 B \<lparr>filterer_contract = C\<rparr>))"
  unfolding link_token_defs
  by ((intro conjI allI)?)
     ((rule safe_callI [OF assms(1)], unfold assms(2) list.map type_of.simps, rule link_token_methods,
        (auto intro!: out_Value [OF assms(1)] bind_outcome_Value)[1])
      | (rule safe_transactI, unfold assms(2) list.map type_of.simps, rule link_token_transactions)
      | (rule safe_eventI, unfold assms(2), rule link_token_events, (auto)[1]))+

theorem link_token_binding_conforms_witness:
  "\<exists>r w'. LinkTokenCaller_Name sample_bind \<lparr>caller_contract = sample_contract LinkTokenABI\<rparr> sample_opts [] = Ret r w'"
  using link_token_binding_conforms [OF sample_bind_typed, of "sample_contract LinkTokenABI" sample_opts]
  by (simp add: safe_call_def sample_contract_def)

end
