(* ===== verification/FluxAggregator_Binding.thy ===== *)
theory FluxAggregator_Binding
  imports Bind
begin

text \<open>
  \<open>contracts/ethereum/FluxAggregator.go\<close>: the generated binding of the contract FluxAggregator. Its ABI, its structs
  (those of \<open>Bind\<close>) and one definition for each of its functions, named after the type of the
  receiver and the method.
\<close>

definition FluxAggregatorABI :: abi where
  "FluxAggregatorABI =
     \<lparr>ab_constructor = [(''_link'', ''address''), (''_paymentAmount'', ''uint128''), (''_timeout'', ''uint32''), (''_validator'', ''address''), (''_minSubmissionValue'', ''int256''), (''_maxSubmissionValue'', ''int256''), (''_decimals'', ''uint8''), (''_description'', ''string'')],
      ab_methods =
        [\<lparr>am_name = ''acceptAdmin'', am_inputs = [(''_oracle'', ''address'')], am_outputs = [], am_view = False\<rparr>,
         \<lparr>am_name = ''acceptOwnership'', am_inputs = [], am_outputs = [], am_view = False\<rparr>,
         \<lparr>am_name = ''allocatedFunds'', am_inputs = [], am_outputs = [('''', ''uint128'')], am_view = True\<rparr>,
         \<lparr>am_name = ''availableFunds'', am_inputs = [], am_outputs = [('''', ''uint128'')], am_view = True\<rparr>,
         \<lparr>am_name = ''changeOracles'', am_inputs = [(''_removed'', ''address[]''), (''_added'', ''address[]''), (''_addedAdmins'', ''address[]''), (''_minSubmissions'', ''uint32''), (''_maxSubmissions'', ''uint32''), (''_restartDelay'', ''uint32'')], am_outputs = [], am_view = False\<rparr>,
         \<lparr>am_name = ''decimals'', am_inputs = [], am_outputs = [('''', ''uint8'')], am_view = True\<rparr>,
         \<lparr>am_name = ''description'', am_inputs = [], am_outputs = [('''', ''string'')], am_view = True\<rparr>,
         \<lparr>am_name = ''getAdmin'', am_inputs = [(''_oracle'', ''address'')], am_outputs = [('''', ''address'')], am_view = True\<rparr>,
         \<lparr>am_name = ''getAnswer'', am_inputs = [(''_roundId'', ''uint256'')], am_outputs = [('''', ''int256'')], am_view = True\<rparr>,
         \<lparr>am_name = ''getOracles'', am_inputs = [], am_outputs = [('''', ''address[]'')], am_view = True\<rparr>,
         \<lparr>am_name = ''getRoundData'', am_inputs = [(''_roundId'', ''uint80'')], am_outputs = [(''roundId'', ''uint80''), (''answer'', ''int256''), (''startedAt'', ''uint256''), (''updatedAt'', ''uint256''), (''answeredInRound'', ''uint80'')], am_view = True\<rparr>,
         \<lparr>am_name = ''getTimestamp'', am_inputs = [(''_roundId'', ''uint256'')], am_outputs = [('''', ''uint256'')], am_view = True\<rparr>,
         \<lparr>am_name = ''latestAnswer'', am_inputs = [], am_outputs = [('''', ''int256'')], am_view = True\<rparr>,
         \<lparr>am_name = ''latestRound'', am_inputs = [], am_outputs = [('''', ''uint256'')], am_view = True\<rparr>,
         \<lparr>am_name = ''latestRoundData'', am_inputs = [], am_outputs = [(''roundId'', ''uint80''), (''answer'', ''int256''), (''startedAt'', ''uint256''), (''updatedAt'', ''uint256''), (''answeredInRound'', ''uint80'')], am_view = True\<rparr>,
         \<lparr>am_name = ''latestTimestamp'', am_inputs = [], am_outputs = [('''', ''uint256'')], am_view = True\<rparr>,
         \<lparr>am_name = ''linkToken'', am_inputs = [], am_outputs = [('''', ''address'')], am_view = True\<rparr>,
         \<lparr>am_name = ''maxSubmissionCount'', am_inputs = [], am_outputs = [('''', ''uint32'')], am_view = True\<rparr>,
         \<lparr>am_name = ''maxSubmissionValue'', am_inputs = [], am_outputs = [('''', ''int256'')], am_view = True\<rparr>,
         \<lparr>am_name = ''minSubmissionCount'', am_inputs = [], am_outputs = [('''', ''uint32'')], am_view = True\<rparr>,
         \<lparr>am_name = ''minSubmissionValue'', am_inputs = [], am_outputs = [('''', ''int256'')], am_view = True\<rparr>,
         \<lparr>am_name = ''onTokenTransfer'', am_inputs = [('''', ''address''), ('''', ''uint256''), (''_data'', ''bytes'')], am_outputs = [], am_view = False\<rparr>,
         \<lparr>am_name = ''oracleCount'', am_inputs = [], am_outputs = [('''', ''uint8'')], am_view = True\<rparr>,
         \<lparr>am_name = ''oracleRoundState'', am_inputs = [(''_oracle'', ''address''), (''_queriedRoundId'', ''uint32'')], am_outputs = [(''_eligibleToSubmit'', ''bool''), (''_roundId'', ''uint32''), (''_latestSubmission'', ''int256''), (''_startedAt'', ''uint64''), (''_timeout'', ''uint64''), (''_availableFunds'', ''uint128''), (''_oracleCount'', ''uint8''), (''_paymentAmount'', ''uint128'')], am_view = True\<rparr>,
         \<lparr>am_name = ''owner'', am_inputs = [], am_outputs = [('''', ''address'')], am_view = True\<rparr>,
         \<lparr>am_name = ''paymentAmount'', am_inputs = [], am_outputs = [('''', ''uint128'')], am_view = True\<rparr>,
         \<lparr>am_name = ''requestNewRound'', am_inputs = [], am_outputs = [('''', ''uint80'')], am_view = False\<rparr>,
         \<lparr>am_name = ''restartDelay'', am_inputs = [], am_outputs = [('''', ''uint32'')], am_view = True\<rparr>,
         \<lparr>am_name = ''setRequesterPermissions'', am_inputs = [(''_requester'', ''address''), (''_authorized'', ''bool''), (''_delay'', ''uint32'')], am_outputs = [], am_view = False\<rparr>,
         \<lparr>am_name = ''setValidator'', am_inputs = [(''_newValidator'', ''address'')], am_outputs = [], am_view = False\<rparr>,
         \<lparr>am_name = ''submit'', am_inputs = [(''_roundId'', ''uint256''), (''_submission'', ''int256'')], am_outputs = [], am_view = False\<rparr>,
         \<lparr>am_name = ''timeout'', am_inputs = [], am_outputs = [('''', ''uint32'')], am_view = True\<rparr>,
         \<lparr>am_name = ''transferAdmin'', am_inputs = [(''_oracle'', ''address''), (''_newAdmin'', ''address'')], am_outputs = [], am_view = False\<rparr>,
         \<lparr>am_name = ''transferOwnership'', am_inputs = [(''_to'', ''address'')], am_outputs = [], am_view = False\<rparr>,
         \<lparr>am_name = ''updateAvailableFunds'', am_inputs = [], am_outputs = [], am_view = False\<rparr>,
         \<lparr>am_name = ''updateFutureRounds'', am_inputs = [(''_paymentAmount'', ''uint128''), (''_minSubmissions'', ''uint32''), (''_maxSubmissions'', ''uint32''), (''_restartDelay'', ''uint32''), (''_timeout'', ''uint32'')], am_outputs = [], am_view = False\<rparr>,
         \<lparr>am_name = ''validator'', am_inputs = [], am_outputs = [('''', ''address'')], am_view = True\<rparr>,
         \<lparr>am_name = ''version'', am_inputs = [], am_outputs = [('''', ''uint256'')], am_view = True\<rparr>,
         \<lparr>am_name = ''withdrawFunds'', am_inputs = [(''_recipient'', ''address''), (''_amount'', ''uint256'')], am_outputs = [], am_view = False\<rparr>,
         \<lparr>am_name = ''withdrawPayment'', am_inputs = [(''_oracle'', ''address''), (''_recipient'', ''address''), (''_amount'', ''uint256'')], am_outputs = [], am_view = False\<rparr>,
         \<lparr>am_name = ''withdrawablePayment'', am_inputs = [(''_oracle'', ''address'')], am_outputs = [('''', ''uint256'')], am_view = True\<rparr>],
      ab_events =
        [\<lparr>ae_name = ''AnswerUpdated'', ae_inputs = [(''current'', ''int256'', True), (''roundId'', ''uint256'', True), (''updatedAt'', ''uint256'', False)]\<rparr>,
         \<lparr>ae_name = ''AvailableFundsUpdated'', ae_inputs = [(''amount'', ''uint256'', True)]\<rparr>,
         \<lparr>ae_name = ''NewRound'', ae_inputs = [(''roundId'', ''uint256'', True), (''startedBy'', ''address'', True), (''startedAt'', ''uint256'', False)]\<rparr>,
         \<lparr>ae_name = ''OracleAdminUpdateRequested'', ae_inputs = [(''oracle'', ''address'', True), (''admin'', ''address'', False), (''newAdmin'', ''address'', False)]\<rparr>,
         \<lparr>ae_name = ''OracleAdminUpdated'', ae_inputs = [(''oracle'', ''address'', True), (''newAdmin'', ''address'', True)]\<rparr>,
         \<lparr>ae_name = ''OraclePermissionsUpdated'', ae_inputs = [(''oracle'', ''address'', True), (''whitelisted'', ''bool'', True)]\<rparr>,
         \<lparr>ae_name = ''OwnershipTransferRequested'', ae_inputs = [(''from'', ''address'', True), (''to'', ''address'', True)]\<rparr>,
         \<lparr>ae_name = ''OwnershipTransferred'', ae_inputs = [(''from'', ''address'', True), (''to'', ''address'', True)]\<rparr>,
         \<lparr>ae_name = ''RequesterPermissionsSet'', ae_inputs = [(''requester'', ''address'', True), (''authorized'', ''bool'', False), (''delay'', ''uint32'', False)]\<rparr>,
         \<lparr>ae_name = ''RoundDetailsUpdated'', ae_inputs = [(''paymentAmount'', ''uint128'', True), (''minSubmissionCount'', ''uint32'', True), (''maxSubmissionCount'', ''uint32'', True), (''restartDelay'', ''uint32'', False), (''timeout'', ''uint32'', False)]\<rparr>,
         \<lparr>ae_name = ''SubmissionReceived'', ae_inputs = [(''submission'', ''int256'', True), (''round'', ''uint32'', True), (''oracle'', ''address'', True)]\<rparr>,
         \<lparr>ae_name = ''ValidatorUpdated'', ae_inputs = [(''previous'', ''address'', True), (''current'', ''address'', True)]\<rparr>]\<rparr>"

type_synonym FluxAggregator = binding

type_synonym FluxAggregatorCaller = caller

type_synonym FluxAggregatorTransactor = transactor

type_synonym FluxAggregatorFilterer = filterer

type_synonym FluxAggregatorSession = session

type_synonym FluxAggregatorCallerSession = caller_session

type_synonym FluxAggregatorTransactorSession = transactor_session

type_synonym FluxAggregatorRaw = raw

type_synonym FluxAggregatorCallerRaw = caller_raw

type_synonym FluxAggregatorTransactorRaw = transactor_raw

definition DeployFluxAggregator :: "'w bind \<Rightarrow> TransactOpts \<Rightarrow> backend \<Rightarrow> address \<Rightarrow> big \<Rightarrow> u32 \<Rightarrow> address \<Rightarrow> big \<Rightarrow> big \<Rightarrow> u8 \<Rightarrow> string \<Rightarrow> 'w \<Rightarrow> (go_error + address \<times> Transaction \<times> binding, 'w) go" where
  "DeployFluxAggregator B auth backend link paymentAmount timeout validator minSubmissionValue maxSubmissionValue decimals description =
     deploy_contract B FluxAggregatorABI FluxAggregatorBin auth backend
       [VAddress link, VBig paymentAmount, VUint32 timeout, VAddress validator, VBig minSubmissionValue, VBig maxSubmissionValue, VUint8 decimals, VString description]"

definition bindFluxAggregator :: "'w bind \<Rightarrow> address \<Rightarrow> backend option \<Rightarrow> backend option \<Rightarrow> backend option \<Rightarrow> go_error + BoundContract" where
  "bindFluxAggregator B address caller transactor filterer = bind_contract B FluxAggregatorABI address caller transactor filterer"

definition NewFluxAggregator :: "'w bind \<Rightarrow> address \<Rightarrow> backend \<Rightarrow> go_error + binding" where
  "NewFluxAggregator B address backend =
     (case bindFluxAggregator B address (Some backend) (Some backend) (Some backend) of
        Inl err \<Rightarrow> Inl err
      | Inr contract \<Rightarrow> Inr (binding_of contract))"

definition NewFluxAggregatorCaller :: "'w bind \<Rightarrow> address \<Rightarrow> backend \<Rightarrow> go_error + caller" where
  "NewFluxAggregatorCaller B address b =
     (case bindFluxAggregator B address (Some b) None None of
        Inl err \<Rightarrow> Inl err
      | Inr contract \<Rightarrow> Inr \<lparr>caller_contract = contract\<rparr>)"

definition NewFluxAggregatorTransactor :: "'w bind \<Rightarrow> address \<Rightarrow> backend \<Rightarrow> go_error + transactor" where
  "NewFluxAggregatorTransactor B address b =
     (case bindFluxAggregator B address None (Some b) None of
        Inl err \<Rightarrow> Inl err
      | Inr contract \<Rightarrow> Inr \<lparr>transactor_contract = contract\<rparr>)"

definition NewFluxAggregatorFilterer :: "'w bind \<Rightarrow> address \<Rightarrow> backend \<Rightarrow> go_error + filterer" where
  "NewFluxAggregatorFilterer B address b =
     (case bindFluxAggregator B address None None (Some b) of
        Inl err \<Rightarrow> Inl err
      | Inr contract \<Rightarrow> Inr \<lparr>filterer_contract = contract\<rparr>)"

definition FluxAggregatorRaw_Call :: "'w bind \<Rightarrow> raw \<Rightarrow> CallOpts \<Rightarrow> string \<Rightarrow> abi_val list \<Rightarrow> 'w \<Rightarrow> (go_error + abi_val list, 'w) go" where
  "FluxAggregatorRaw_Call B r opts method params = call (BindCall B (caller_contract (Caller (raw_Contract r))) opts method params)"

definition FluxAggregatorRaw_Transfer :: "'w bind \<Rightarrow> raw \<Rightarrow> TransactOpts \<Rightarrow> 'w \<Rightarrow> (go_error + Transaction, 'w) go" where
  "FluxAggregatorRaw_Transfer B r opts = call (BindTransfer B (transactor_contract (Transactor (raw_Contract r))) opts)"

definition FluxAggregatorRaw_Transact :: "'w bind \<Rightarrow> raw \<Rightarrow> TransactOpts \<Rightarrow> string \<Rightarrow> abi_val list \<Rightarrow> 'w \<Rightarrow> (go_error + Transaction, 'w) go" where
  "FluxAggregatorRaw_Transact B r opts method params = call (BindTransact B (transactor_contract (Transactor (raw_Contract r))) opts method params)"

definition FluxAggregatorCallerRaw_Call :: "'w bind \<Rightarrow> caller_raw \<Rightarrow> CallOpts \<Rightarrow> string \<Rightarrow> abi_val list \<Rightarrow> 'w \<Rightarrow> (go_error + abi_val list, 'w) go" where
  "FluxAggregatorCallerRaw_Call B r opts method params = call (BindCall B (caller_contract (craw_Contract r)) opts method params)"

definition FluxAggregatorTransactorRaw_Transfer :: "'w bind \<Rightarrow> transactor_raw \<Rightarrow> TransactOpts \<Rightarrow> 'w \<Rightarrow> (go_error + Transaction, 'w) go" where
  "FluxAggregatorTransactorRaw_Transfer B r opts = call (BindTransfer B (transactor_contract (traw_Contract r)) opts)"

definition FluxAggregatorTransactorRaw_Transact :: "'w bind \<Rightarrow> transactor_raw \<Rightarrow> TransactOpts \<Rightarrow> string \<Rightarrow> abi_val list \<Rightarrow> 'w \<Rightarrow> (go_error + Transaction, 'w) go" where
  "FluxAggregatorTransactorRaw_Transact B r opts method params = call (BindTransact B (transactor_contract (traw_Contract r)) opts method params)"

section \<open>Read-only methods\<close>

definition FluxAggregatorCaller_AllocatedFunds :: "'w bind \<Rightarrow> caller \<Rightarrow> CallOpts \<Rightarrow> 'w \<Rightarrow> (big \<times> err, 'w) go" where
  "FluxAggregatorCaller_AllocatedFunds B c opts =
     call_method_with B (caller_contract c) opts ''allocatedFunds'' []
       (\<lambda>out. out_big B out 0) nil"

definition FluxAggregatorSession_AllocatedFunds :: "'w bind \<Rightarrow> session \<Rightarrow> 'w \<Rightarrow> (big \<times> err, 'w) go" where
  "FluxAggregatorSession_AllocatedFunds B s = FluxAggregatorCaller_AllocatedFunds B (Caller (ses_Contract s)) (ses_CallOpts s)"

definition FluxAggregatorCallerSession_AllocatedFunds :: "'w bind \<Rightarrow> caller_session \<Rightarrow> 'w \<Rightarrow> (big \<times> err, 'w) go" where
  "FluxAggregatorCallerSession_AllocatedFunds B s = FluxAggregatorCaller_AllocatedFunds B (cs_Contract s) (cs_CallOpts s)"

definition FluxAggregatorCaller_AvailableFunds :: "'w bind \<Rightarrow> caller \<Rightarrow> CallOpts \<Rightarrow> 'w \<Rightarrow> (big \<times> err, 'w) go" where
  "FluxAggregatorCaller_AvailableFunds B c opts =
     call_method_with B (caller_contract c) opts ''availableFunds'' []
       (\<lambda>out. out_big B out 0) nil"

definition FluxAggregatorSession_AvailableFunds :: "'w bind \<Rightarrow> session \<Rightarrow> 'w \<Rightarrow> (big \<times> err, 'w) go" where
  "FluxAggregatorSession_AvailableFunds B s = FluxAggregatorCaller_AvailableFunds B (Caller (ses_Contract s)) (ses_CallOpts s)"

definition FluxAggregatorCallerSession_AvailableFunds :: "'w bind \<Rightarrow> caller_session \<Rightarrow> 'w \<Rightarrow> (big \<times> err, 'w) go" where
  "FluxAggregatorCallerSession_AvailableFunds B s = FluxAggregatorCaller_AvailableFunds B (cs_Contract s) (cs_CallOpts s)"

definition FluxAggregatorCaller_Decimals :: "'w bind \<Rightarrow> caller \<Rightarrow> CallOpts \<Rightarrow> 'w \<Rightarrow> (u8 \<times> err, 'w) go" where
  "FluxAggregatorCaller_Decimals B c opts =
     call_method_with B (caller_contract c) opts ''decimals'' []
       (\<lambda>out. out_uint8 B out 0) 0"

definition FluxAggregatorSession_Decimals :: "'w bind \<Rightarrow> session \<Rightarrow> 'w \<Rightarrow> (u8 \<times> err, 'w) go" where
  "FluxAggregatorSession_Decimals B s = FluxAggregatorCaller_Decimals B (Caller (ses_Contract s)) (ses_CallOpts s)"

definition FluxAggregatorCallerSession_Decimals :: "'w bind \<Rightarrow> caller_session \<Rightarrow> 'w \<Rightarrow> (u8 \<times> err, 'w) go" where
  "FluxAggregatorCallerSession_Decimals B s = FluxAggregatorCaller_Decimals B (cs_Contract s) (cs_CallOpts s)"

definition FluxAggregatorCaller_Description :: "'w bind \<Rightarrow> caller \<Rightarrow> CallOpts \<Rightarrow> 'w \<Rightarrow> (string \<times> err, 'w) go" where
  "FluxAggregatorCaller_Description B c opts =
     call_method_with B (caller_contract c) opts ''description'' []
       (\<lambda>out. out_string B out 0) []"

definition FluxAggregatorSession_Description :: "'w bind \<Rightarrow> session \<Rightarrow> 'w \<Rightarrow> (string \<times> err, 'w) go" where
  "FluxAggregatorSession_Description B s = FluxAggregatorCaller_Description B (Caller (ses_Contract s)) (ses_CallOpts s)"

definition FluxAggregatorCallerSession_Description :: "'w bind \<Rightarrow> caller_session \<Rightarrow> 'w \<Rightarrow> (string \<times> err, 'w) go" where
  "FluxAggregatorCallerSession_Description B s = FluxAggregatorCaller_Description B (cs_Contract s) (cs_CallOpts s)"

definition FluxAggregatorCaller_GetAdmin :: "'w bind \<Rightarrow> caller \<Rightarrow> CallOpts \<Rightarrow> address \<Rightarrow> 'w \<Rightarrow> (address \<times> err, 'w) go" where
  "FluxAggregatorCaller_GetAdmin B c opts oracle =
     call_method_with B (caller_contract c) opts ''getAdmin'' [VAddress oracle]
       (\<lambda>out. out_address B out 0) 0"

definition FluxAggregatorSession_GetAdmin :: "'w bind \<Rightarrow> session \<Rightarrow> address \<Rightarrow> 'w \<Rightarrow> (address \<times> err, 'w) go" where
  "FluxAggregatorSession_GetAdmin B s oracle = FluxAggregatorCaller_GetAdmin B (Caller (ses_Contract s)) (ses_CallOpts s) oracle"

definition FluxAggregatorCallerSession_GetAdmin :: "'w bind \<Rightarrow> caller_session \<Rightarrow> address \<Rightarrow> 'w \<Rightarrow> (address \<times> err, 'w) go" where
  "FluxAggregatorCallerSession_GetAdmin B s oracle = FluxAggregatorCaller_GetAdmin B (cs_Contract s) (cs_CallOpts s) oracle"

definition FluxAggregatorCaller_GetAnswer :: "'w bind \<Rightarrow> caller \<Rightarrow> CallOpts \<Rightarrow> big \<Rightarrow> 'w \<Rightarrow> (big \<times> err, 'w) go" where
  "FluxAggregatorCaller_GetAnswer B c opts roundId =
     call_method_with B (caller_contract c) opts ''getAnswer'' [VBig roundId]
       (\<lambda>out. out_big B out 0) nil"

definition FluxAggregatorSession_GetAnswer :: "'w bind \<Rightarrow> session \<Rightarrow> big \<Rightarrow> 'w \<Rightarrow> (big \<times> err, 'w) go" where
  "FluxAggregatorSession_GetAnswer B s roundId = FluxAggregatorCaller_GetAnswer B (Caller (ses_Contract s)) (ses_CallOpts s) roundId"

definition FluxAggregatorCallerSession_GetAnswer :: "'w bind \<Rightarrow> caller_session \<Rightarrow> big \<Rightarrow> 'w \<Rightarrow> (big \<times> err, 'w) go" where
  "FluxAggregatorCallerSession_GetAnswer B s roundId = FluxAggregatorCaller_GetAnswer B (cs_Contract s) (cs_CallOpts s) roundId"

definition FluxAggregatorCaller_GetOracles :: "'w bind \<Rightarrow> caller \<Rightarrow> CallOpts \<Rightarrow> 'w \<Rightarrow> (address list \<times> err, 'w) go" where
  "FluxAggregatorCaller_GetOracles B c opts =
     call_method_with B (caller_contract c) opts ''getOracles'' []
       (\<lambda>out. out_addresses B out 0) []"

definition FluxAggregatorSession_GetOracles :: "'w bind \<Rightarrow> session \<Rightarrow> 'w \<Rightarrow> (address list \<times> err, 'w) go" where
  "FluxAggregatorSession_GetOracles B s = FluxAggregatorCaller_GetOracles B (Caller (ses_Contract s)) (ses_CallOpts s)"

definition FluxAggregatorCallerSession_GetOracles :: "'w bind \<Rightarrow> caller_session \<Rightarrow> 'w \<Rightarrow> (address list \<times> err, 'w) go" where
  "FluxAggregatorCallerSession_GetOracles B s = FluxAggregatorCaller_GetOracles B (cs_Contract s) (cs_CallOpts s)"

definition FluxAggregatorCaller_GetRoundData :: "'w bind \<Rightarrow> caller \<Rightarrow> CallOpts \<Rightarrow> big \<Rightarrow> 'w \<Rightarrow> (RoundData \<times> err, 'w) go" where
  "FluxAggregatorCaller_GetRoundData B c opts roundId =
     call_method_with B (caller_contract c) opts ''getRoundData'' [VBig roundId]
       (\<lambda>out. 
          bind_outcome (out_big B out 0) (\<lambda>x0.
          bind_outcome (out_big B out 1) (\<lambda>x1.
          bind_outcome (out_big B out 2) (\<lambda>x2.
          bind_outcome (out_big B out 3) (\<lambda>x3.
          bind_outcome (out_big B out 4) (\<lambda>x4.
          Value \<lparr>rd_RoundId = x0, rd_Answer = x1, rd_StartedAt = x2, rd_UpdatedAt = x3, rd_AnsweredInRound = x4\<rparr>)))))) \<lparr>rd_RoundId = nil, rd_Answer = nil, rd_StartedAt = nil, rd_UpdatedAt = nil, rd_AnsweredInRound = nil\<rparr>"

definition FluxAggregatorSession_GetRoundData :: "'w bind \<Rightarrow> session \<Rightarrow> big \<Rightarrow> 'w \<Rightarrow> (RoundData \<times> err, 'w) go" where
  "FluxAggregatorSession_GetRoundData B s roundId = FluxAggregatorCaller_GetRoundData B (Caller (ses_Contract s)) (ses_CallOpts s) roundId"

definition FluxAggregatorCallerSession_GetRoundData :: "'w bind \<Rightarrow> caller_session \<Rightarrow> big \<Rightarrow> 'w \<Rightarrow> (RoundData \<times> err, 'w) go" where
  "FluxAggregatorCallerSession_GetRoundData B s roundId = FluxAggregatorCaller_GetRoundData B (cs_Contract s) (cs_CallOpts s) roundId"

definition FluxAggregatorCaller_GetTimestamp :: "'w bind \<Rightarrow> caller \<Rightarrow> CallOpts \<Rightarrow> big \<Rightarrow> 'w \<Rightarrow> (big \<times> err, 'w) go" where
  "FluxAggregatorCaller_GetTimestamp B c opts roundId =
     call_method_with B (caller_contract c) opts ''getTimestamp'' [VBig roundId]
       (\<lambda>out. out_big B out 0) nil"

definition FluxAggregatorSession_GetTimestamp :: "'w bind \<Rightarrow> session \<Rightarrow> big \<Rightarrow> 'w \<Rightarrow> (big \<times> err, 'w) go" where
  "FluxAggregatorSession_GetTimestamp B s roundId = FluxAggregatorCaller_GetTimestamp B (Caller (ses_Contract s)) (ses_CallOpts s) roundId"

definition FluxAggregatorCallerSession_GetTimestamp :: "'w bind \<Rightarrow> caller_session \<Rightarrow> big \<Rightarrow> 'w \<Rightarrow> (big \<times> err, 'w) go" where
  "FluxAggregatorCallerSession_GetTimestamp B s roundId = FluxAggregatorCaller_GetTimestamp B (cs_Contract s) (cs_CallOpts s) roundId"

definition FluxAggregatorCaller_LatestAnswer :: "'w bind \<Rightarrow> caller \<Rightarrow> CallOpts \<Rightarrow> 'w \<Rightarrow> (big \<times> err, 'w) go" where
  "FluxAggregatorCaller_LatestAnswer B c opts =
     call_method_with B (caller_contract c) opts ''latestAnswer'' []
       (\<lambda>out. out_big B out 0) nil"

definition FluxAggregatorSession_LatestAnswer :: "'w bind \<Rightarrow> session \<Rightarrow> 'w \<Rightarrow> (big \<times> err, 'w) go" where
  "FluxAggregatorSession_LatestAnswer B s = FluxAggregatorCaller_LatestAnswer B (Caller (ses_Contract s)) (ses_CallOpts s)"

definition FluxAggregatorCallerSession_LatestAnswer :: "'w bind \<Rightarrow> caller_session \<Rightarrow> 'w \<Rightarrow> (big \<times> err, 'w) go" where
  "FluxAggregatorCallerSession_LatestAnswer B s = FluxAggregatorCaller_LatestAnswer B (cs_Contract s) (cs_CallOpts s)"

definition FluxAggregatorCaller_LatestRound :: "'w bind \<Rightarrow> caller \<Rightarrow> CallOpts \<Rightarrow> 'w \<Rightarrow> (big \<times> err, 'w) go" where
  "FluxAggregatorCaller_LatestRound B c opts =
     call_method_with B (caller_contract c) opts ''latestRound'' []
       (\<lambda>out. out_big B out 0) nil"

definition FluxAggregatorSession_LatestRound :: "'w bind \<Rightarrow> session \<Rightarrow> 'w \<Rightarrow> (big \<times> err, 'w) go" where
  "FluxAggregatorSession_LatestRound B s = FluxAggregatorCaller_LatestRound B (Caller (ses_Contract s)) (ses_CallOpts s)"

definition FluxAggregatorCallerSession_LatestRound :: "'w bind \<Rightarrow> caller_session \<Rightarrow> 'w \<Rightarrow> (big \<times> err, 'w) go" where
  "FluxAggregatorCallerSession_LatestRound B s = FluxAggregatorCaller_LatestRound B (cs_Contract s) (cs_CallOpts s)"

definition FluxAggregatorCaller_LatestRoundData :: "'w bind \<Rightarrow> caller \<Rightarrow> CallOpts \<Rightarrow> 'w \<Rightarrow> (RoundData \<times> err, 'w) go" where
  "FluxAggregatorCaller_LatestRoundData B c opts =
     call_method_with B (caller_contract c) opts ''latestRoundData'' []
       (\<lambda>out. 
          bind_outcome (out_big B out 0) (\<lambda>x0.
          bind_outcome (out_big B out 1) (\<lambda>x1.
          bind_outcome (out_big B out 2) (\<lambda>x2.
          bind_outcome (out_big B out 3) (\<lambda>x3.
          bind_outcome (out_big B out 4) (\<lambda>x4.
          Value \<lparr>rd_RoundId = x0, rd_Answer = x1, rd_StartedAt = x2, rd_UpdatedAt = x3, rd_AnsweredInRound = x4\<rparr>)))))) \<lparr>rd_RoundId = nil, rd_Answer = nil, rd_StartedAt = nil, rd_UpdatedAt = nil, rd_AnsweredInRound = nil\<rparr>"

definition FluxAggregatorSession_LatestRoundData :: "'w bind \<Rightarrow> session \<Rightarrow> 'w \<Rightarrow> (RoundData \<times> err, 'w) go" where
  "FluxAggregatorSession_LatestRoundData B s = FluxAggregatorCaller_LatestRoundData B (Caller (ses_Contract s)) (ses_CallOpts s)"

definition FluxAggregatorCallerSession_LatestRoundData :: "'w bind \<Rightarrow> caller_session \<Rightarrow> 'w \<Rightarrow> (RoundData \<times> err, 'w) go" where
  "FluxAggregatorCallerSession_LatestRoundData B s = FluxAggregatorCaller_LatestRoundData B (cs_Contract s) (cs_CallOpts s)"

definition FluxAggregatorCaller_LatestTimestamp :: "'w bind \<Rightarrow> caller \<Rightarrow> CallOpts \<Rightarrow> 'w \<Rightarrow> (big \<times> err, 'w) go" where
  "FluxAggregatorCaller_LatestTimestamp B c opts =
     call_method_with B (caller_contract c) opts ''latestTimestamp'' []
       (\<lambda>out. out_big B out 0) nil"

definition FluxAggregatorSession_LatestTimestamp :: "'w bind \<Rightarrow> session \<Rightarrow> 'w \<Rightarrow> (big \<times> err, 'w) go" where
  "FluxAggregatorSession_LatestTimestamp B s = FluxAggregatorCaller_LatestTimestamp B (Caller (ses_Contract s)) (ses_CallOpts s)"

definition FluxAggregatorCallerSession_LatestTimestamp :: "'w bind \<Rightarrow> caller_session \<Rightarrow> 'w \<Rightarrow> (big \<times> err, 'w) go" where
  "FluxAggregatorCallerSession_LatestTimestamp B s = FluxAggregatorCaller_LatestTimestamp B (cs_Contract s) (cs_CallOpts s)"

definition FluxAggregatorCaller_LinkToken :: "'w bind \<Rightarrow> caller \<Rightarrow> CallOpts \<Rightarrow> 'w \<Rightarrow> (address \<times> err, 'w) go" where
  "FluxAggregatorCaller_LinkToken B c opts =
     call_method_with B (caller_contract c) opts ''linkToken'' []
       (\<lambda>out. out_address B out 0) 0"

definition FluxAggregatorSession_LinkToken :: "'w bind \<Rightarrow> session \<Rightarrow> 'w \<Rightarrow> (address \<times> err, 'w) go" where
  "FluxAggregatorSession_LinkToken B s = FluxAggregatorCaller_LinkToken B (Caller (ses_Contract s)) (ses_CallOpts s)"

definition FluxAggregatorCallerSession_LinkToken :: "'w bind \<Rightarrow> caller_session \<Rightarrow> 'w \<Rightarrow> (address \<times> err, 'w) go" where
  "FluxAggregatorCallerSession_LinkToken B s = FluxAggregatorCaller_LinkToken B (cs_Contract s) (cs_CallOpts s)"

definition FluxAggregatorCaller_MaxSubmissionCount :: "'w bind \<Rightarrow> caller \<Rightarrow> CallOpts \<Rightarrow> 'w \<Rightarrow> (u32 \<times> err, 'w) go" where
  "FluxAggregatorCaller_MaxSubmissionCount B c opts =
     call_method_with B (caller_contract c) opts ''maxSubmissionCount'' []
       (\<lambda>out. out_uint32 B out 0) 0"

definition FluxAggregatorSession_MaxSubmissionCount :: "'w bind \<Rightarrow> session \<Rightarrow> 'w \<Rightarrow> (u32 \<times> err, 'w) go" where
  "FluxAggregatorSession_MaxSubmissionCount B s = FluxAggregatorCaller_MaxSubmissionCount B (Caller (ses_Contract s)) (ses_CallOpts s)"

definition FluxAggregatorCallerSession_MaxSubmissionCount :: "'w bind \<Rightarrow> caller_session \<Rightarrow> 'w \<Rightarrow> (u32 \<times> err, 'w) go" where
  "FluxAggregatorCallerSession_MaxSubmissionCount B s = FluxAggregatorCaller_MaxSubmissionCount B (cs_Contract s) (cs_CallOpts s)"

definition FluxAggregatorCaller_MaxSubmissionValue :: "'w bind \<Rightarrow> caller \<Rightarrow> CallOpts \<Rightarrow> 'w \<Rightarrow> (big \<times> err, 'w) go" where
  "FluxAggregatorCaller_MaxSubmissionValue B c opts =
     call_method_with B (caller_contract c) opts ''maxSubmissionValue'' []
       (\<lambda>out. out_big B out 0) nil"

definition FluxAggregatorSession_MaxSubmissionValue :: "'w bind \<Rightarrow> session \<Rightarrow> 'w \<Rightarrow> (big \<times> err, 'w) go" where
  "FluxAggregatorSession_MaxSubmissionValue B s = FluxAggregatorCaller_MaxSubmissionValue B (Caller (ses_Contract s)) (ses_CallOpts s)"

definition FluxAggregatorCallerSession_MaxSubmissionValue :: "'w bind \<Rightarrow> caller_session \<Rightarrow> 'w \<Rightarrow> (big \<times> err, 'w) go" where
  "FluxAggregatorCallerSession_MaxSubmissionValue B s = FluxAggregatorCaller_MaxSubmissionValue B (cs_Contract s) (cs_CallOpts s)"

definition FluxAggregatorCaller_MinSubmissionCount :: "'w bind \<Rightarrow> caller \<Rightarrow> CallOpts \<Rightarrow> 'w \<Rightarrow> (u32 \<times> err, 'w) go" where
  "FluxAggregatorCaller_MinSubmissionCount B c opts =
     call_method_with B (caller_contract c) opts ''minSubmissionCount'' []
       (\<lambda>out. out_uint32 B out 0) 0"

definition FluxAggregatorSession_MinSubmissionCount :: "'w bind \<Rightarrow> session \<Rightarrow> 'w \<Rightarrow> (u32 \<times> err, 'w) go" where
  "FluxAggregatorSession_MinSubmissionCount B s = FluxAggregatorCaller_MinSubmissionCount B (Caller (ses_Contract s)) (ses_CallOpts s)"

definition FluxAggregatorCallerSession_MinSubmissionCount :: "'w bind \<Rightarrow> caller_session \<Rightarrow> 'w \<Rightarrow> (u32 \<times> err, 'w) go" where
  "FluxAggregatorCallerSession_MinSubmissionCount B s = FluxAggregatorCaller_MinSubmissionCount B (cs_Contract s) (cs_CallOpts s)"

definition FluxAggregatorCaller_MinSubmissionValue :: "'w bind \<Rightarrow> caller \<Rightarrow> CallOpts \<Rightarrow> 'w \<Rightarrow> (big \<times> err, 'w) go" where
  "FluxAggregatorCaller_MinSubmissionValue B c opts =
     call_method_with B (caller_contract c) opts ''minSubmissionValue'' []
       (\<lambda>out. out_big B out 0) nil"

definition FluxAggregatorSession_MinSubmissionValue :: "'w bind \<Rightarrow> session \<Rightarrow> 'w \<Rightarrow> (big \<times> err, 'w) go" where
  "FluxAggregatorSession_MinSubmissionValue B s = FluxAggregatorCaller_MinSubmissionValue B (Caller (ses_Contract s)) (ses_CallOpts s)"

definition FluxAggregatorCallerSession_MinSubmissionValue :: "'w bind \<Rightarrow> caller_session \<Rightarrow> 'w \<Rightarrow> (big \<times> err, 'w) go" where
  "FluxAggregatorCallerSession_MinSubmissionValue B s = FluxAggregatorCaller_MinSubmissionValue B (cs_Contract s) (cs_CallOpts s)"

definition FluxAggregatorCaller_OracleCount :: "'w bind \<Rightarrow> caller \<Rightarrow> CallOpts \<Rightarrow> 'w \<Rightarrow> (u8 \<times> err, 'w) go" where
  "FluxAggregatorCaller_OracleCount B c opts =
     call_method_with B (caller_contract c) opts ''oracleCount'' []
       (\<lambda>out. out_uint8 B out 0) 0"

definition FluxAggregatorSession_OracleCount :: "'w bind \<Rightarrow> session \<Rightarrow> 'w \<Rightarrow> (u8 \<times> err, 'w) go" where
  "FluxAggregatorSession_OracleCount B s = FluxAggregatorCaller_OracleCount B (Caller (ses_Contract s)) (ses_CallOpts s)"

definition FluxAggregatorCallerSession_OracleCount :: "'w bind \<Rightarrow> caller_session \<Rightarrow> 'w \<Rightarrow> (u8 \<times> err, 'w) go" where
  "FluxAggregatorCallerSession_OracleCount B s = FluxAggregatorCaller_OracleCount B (cs_Contract s) (cs_CallOpts s)"

record FluxAggregator_OracleRoundState_results =
  fa_ors_EligibleToSubmit :: "bool"
  fa_ors_RoundId :: "u32"
  fa_ors_LatestSubmission :: "big"
  fa_ors_StartedAt :: "u64"
  fa_ors_Timeout :: "u64"
  fa_ors_AvailableFunds :: "big"
  fa_ors_OracleCount :: "u8"
  fa_ors_PaymentAmount :: "big"

definition FluxAggregatorCaller_OracleRoundState :: "'w bind \<Rightarrow> caller \<Rightarrow> CallOpts \<Rightarrow> address \<Rightarrow> u32 \<Rightarrow> 'w \<Rightarrow> (FluxAggregator_OracleRoundState_results \<times> err, 'w) go" where
  "FluxAggregatorCaller_OracleRoundState B c opts oracle queriedRoundId =
     call_method_with B (caller_contract c) opts ''oracleRoundState'' [VAddress oracle, VUint32 queriedRoundId]
       (\<lambda>out. 
          bind_outcome (out_bool B out 0) (\<lambda>x0.
          bind_outcome (out_uint32 B out 1) (\<lambda>x1.
          bind_outcome (out_big B out 2) (\<lambda>x2.
          bind_outcome (out_uint64 B out 3) (\<lambda>x3.
          bind_outcome (out_uint64 B out 4) (\<lambda>x4.
          bind_outcome (out_big B out 5) (\<lambda>x5.
          bind_outcome (out_uint8 B out 6) (\<lambda>x6.
          bind_outcome (out_big B out 7) (\<lambda>x7.
          Value \<lparr>fa_ors_EligibleToSubmit = x0, fa_ors_RoundId = x1, fa_ors_LatestSubmission = x2, fa_ors_StartedAt = x3, fa_ors_Timeout = x4, fa_ors_AvailableFunds = x5, fa_ors_OracleCount = x6, fa_ors_PaymentAmount = x7\<rparr>))))))))) \<lparr>fa_ors_EligibleToSubmit = False, fa_ors_RoundId = 0, fa_ors_LatestSubmission = nil, fa_ors_StartedAt = 0, fa_ors_Timeout = 0, fa_ors_AvailableFunds = nil, fa_ors_OracleCount = 0, fa_ors_PaymentAmount = nil\<rparr>"

definition FluxAggregatorSession_OracleRoundState :: "'w bind \<Rightarrow> session \<Rightarrow> address \<Rightarrow> u32 \<Rightarrow> 'w \<Rightarrow> (FluxAggregator_OracleRoundState_results \<times> err, 'w) go" where
  "FluxAggregatorSession_OracleRoundState B s oracle queriedRoundId = FluxAggregatorCaller_OracleRoundState B (Caller (ses_Contract s)) (ses_CallOpts s) oracle queriedRoundId"

definition FluxAggregatorCallerSession_OracleRoundState :: "'w bind \<Rightarrow> caller_session \<Rightarrow> address \<Rightarrow> u32 \<Rightarrow> 'w \<Rightarrow> (FluxAggregator_OracleRoundState_results \<times> err, 'w) go" where
  "FluxAggregatorCallerSession_OracleRoundState B s oracle queriedRoundId = FluxAggregatorCaller_OracleRoundState B (cs_Contract s) (cs_CallOpts s) oracle queriedRoundId"

definition FluxAggregatorCaller_Owner :: "'w bind \<Rightarrow> caller \<Rightarrow> CallOpts \<Rightarrow> 'w \<Rightarrow> (address \<times> err, 'w) go" where
  "FluxAggregatorCaller_Owner B c opts =
     call_method_with B (caller_contract c) opts ''owner'' []
       (\<lambda>out. out_address B out 0) 0"

definition FluxAggregatorSession_Owner :: "'w bind \<Rightarrow> session \<Rightarrow> 'w \<Rightarrow> (address \<times> err, 'w) go" where
  "FluxAggregatorSession_Owner B s = FluxAggregatorCaller_Owner B (Caller (ses_Contract s)) (ses_CallOpts s)"

definition FluxAggregatorCallerSession_Owner :: "'w bind \<Rightarrow> caller_session \<Rightarrow> 'w \<Rightarrow> (address \<times> err, 'w) go" where
  "FluxAggregatorCallerSession_Owner B s = FluxAggregatorCaller_Owner B (cs_Contract s) (cs_CallOpts s)"

definition FluxAggregatorCaller_PaymentAmount :: "'w bind \<Rightarrow> caller \<Rightarrow> CallOpts \<Rightarrow> 'w \<Rightarrow> (big \<times> err, 'w) go" where
  "FluxAggregatorCaller_PaymentAmount B c opts =
     call_method_with B (caller_contract c) opts ''paymentAmount'' []
       (\<lambda>out. out_big B out 0) nil"

definition FluxAggregatorSession_PaymentAmount :: "'w bind \<Rightarrow> session \<Rightarrow> 'w \<Rightarrow> (big \<times> err, 'w) go" where
  "FluxAggregatorSession_PaymentAmount B s = FluxAggregatorCaller_PaymentAmount B (Caller (ses_Contract s)) (ses_CallOpts s)"

definition FluxAggregatorCallerSession_PaymentAmount :: "'w bind \<Rightarrow> caller_session \<Rightarrow> 'w \<Rightarrow> (big \<times> err, 'w) go" where
  "FluxAggregatorCallerSession_PaymentAmount B s = FluxAggregatorCaller_PaymentAmount B (cs_Contract s) (cs_CallOpts s)"

definition FluxAggregatorCaller_RestartDelay :: "'w bind \<Rightarrow> caller \<Rightarrow> CallOpts \<Rightarrow> 'w \<Rightarrow> (u32 \<times> err, 'w) go" where
  "FluxAggregatorCaller_RestartDelay B c opts =
     call_method_with B (caller_contract c) opts ''restartDelay'' []
       (\<lambda>out. out_uint32 B out 0) 0"

definition FluxAggregatorSession_RestartDelay :: "'w bind \<Rightarrow> session \<Rightarrow> 'w \<Rightarrow> (u32 \<times> err, 'w) go" where
  "FluxAggregatorSession_RestartDelay B s = FluxAggregatorCaller_RestartDelay B (Caller (ses_Contract s)) (ses_CallOpts s)"

definition FluxAggregatorCallerSession_RestartDelay :: "'w bind \<Rightarrow> caller_session \<Rightarrow> 'w \<Rightarrow> (u32 \<times> err, 'w) go" where
  "FluxAggregatorCallerSession_RestartDelay B s = FluxAggregatorCaller_RestartDelay B (cs_Contract s) (cs_CallOpts s)"

definition FluxAggregatorCaller_Timeout :: "'w bind \<Rightarrow> caller \<Rightarrow> CallOpts \<Rightarrow> 'w \<Rightarrow> (u32 \<times> err, 'w) go" where
  "FluxAggregatorCaller_Timeout B c opts =
     call_method_with B (caller_contract c) opts ''timeout'' []
       (\<lambda>out. out_uint32 B out 0) 0"

definition FluxAggregatorSession_Timeout :: "'w bind \<Rightarrow> session \<Rightarrow> 'w \<Rightarrow> (u32 \<times> err, 'w) go" where
  "FluxAggregatorSession_Timeout B s = FluxAggregatorCaller_Timeout B (Caller (ses_Contract s)) (ses_CallOpts s)"

definition FluxAggregatorCallerSession_Timeout :: "'w bind \<Rightarrow> caller_session \<Rightarrow> 'w \<Rightarrow> (u32 \<times> err, 'w) go" where
  "FluxAggregatorCallerSession_Timeout B s = FluxAggregatorCaller_Timeout B (cs_Contract s) (cs_CallOpts s)"

definition FluxAggregatorCaller_Validator :: "'w bind \<Rightarrow> caller \<Rightarrow> CallOpts \<Rightarrow> 'w \<Rightarrow> (address \<times> err, 'w) go" where
  "FluxAggregatorCaller_Validator B c opts =
     call_method_with B (caller_contract c) opts ''validator'' []
       (\<lambda>out. out_address B out 0) 0"

definition FluxAggregatorSession_Validator :: "'w bind \<Rightarrow> session \<Rightarrow> 'w \<Rightarrow> (address \<times> err, 'w) go" where
  "FluxAggregatorSession_Validator B s = FluxAggregatorCaller_Validator B (Caller (ses_Contract s)) (ses_CallOpts s)"

definition FluxAggregatorCallerSession_Validator :: "'w bind \<Rightarrow> caller_session \<Rightarrow> 'w \<Rightarrow> (address \<times> err, 'w) go" where
  "FluxAggregatorCallerSession_Validator B s = FluxAggregatorCaller_Validator B (cs_Contract s) (cs_CallOpts s)"

definition FluxAggregatorCaller_Version :: "'w bind \<Rightarrow> caller \<Rightarrow> CallOpts \<Rightarrow> 'w \<Rightarrow> (big \<times> err, 'w) go" where
  "FluxAggregatorCaller_Version B c opts =
     call_method_with B (caller_contract c) opts ''version'' []
       (\<lambda>out. out_big B out 0) nil"

definition FluxAggregatorSession_Version :: "'w bind \<Rightarrow> session \<Rightarrow> 'w \<Rightarrow> (big \<times> err, 'w) go" where
  "FluxAggregatorSession_Version B s = FluxAggregatorCaller_Version B (Caller (ses_Contract s)) (ses_CallOpts s)"

definition FluxAggregatorCallerSession_Version :: "'w bind \<Rightarrow> caller_session \<Rightarrow> 'w \<Rightarrow> (big \<times> err, 'w) go" where
  "FluxAggregatorCallerSession_Version B s = FluxAggregatorCaller_Version B (cs_Contract s) (cs_CallOpts s)"

definition FluxAggregatorCaller_WithdrawablePayment :: "'w bind \<Rightarrow> caller \<Rightarrow> CallOpts \<Rightarrow> address \<Rightarrow> 'w \<Rightarrow> (big \<times> err, 'w) go" where
  "FluxAggregatorCaller_WithdrawablePayment B c opts oracle =
     call_method_with B (caller_contract c) opts ''withdrawablePayment'' [VAddress oracle]
       (\<lambda>out. out_big B out 0) nil"

definition FluxAggregatorSession_WithdrawablePayment :: "'w bind \<Rightarrow> session \<Rightarrow> address \<Rightarrow> 'w \<Rightarrow> (big \<times> err, 'w) go" where
  "FluxAggregatorSession_WithdrawablePayment B s oracle = FluxAggregatorCaller_WithdrawablePayment B (Caller (ses_Contract s)) (ses_CallOpts s) oracle"

definition FluxAggregatorCallerSession_WithdrawablePayment :: "'w bind \<Rightarrow> caller_session \<Rightarrow> address \<Rightarrow> 'w \<Rightarrow> (big \<times> err, 'w) go" where
  "FluxAggregatorCallerSession_WithdrawablePayment B s oracle = FluxAggregatorCaller_WithdrawablePayment B (cs_Contract s) (cs_CallOpts s) oracle"

section \<open>Transactions\<close>

definition FluxAggregatorTransactor_AcceptAdmin :: "'w bind \<Rightarrow> transactor \<Rightarrow> TransactOpts \<Rightarrow> address \<Rightarrow> 'w \<Rightarrow> (go_error + Transaction, 'w) go" where
  "FluxAggregatorTransactor_AcceptAdmin B c opts oracle =
     call (BindTransact B (transactor_contract c) opts ''acceptAdmin'' [VAddress oracle])"

definition FluxAggregatorSession_AcceptAdmin :: "'w bind \<Rightarrow> session \<Rightarrow> address \<Rightarrow> 'w \<Rightarrow> (go_error + Transaction, 'w) go" where
  "FluxAggregatorSession_AcceptAdmin B s oracle = FluxAggregatorTransactor_AcceptAdmin B (Transactor (ses_Contract s)) (ses_TransactOpts s) oracle"

definition FluxAggregatorTransactorSession_AcceptAdmin :: "'w bind \<Rightarrow> transactor_session \<Rightarrow> address \<Rightarrow> 'w \<Rightarrow> (go_error + Transaction, 'w) go" where
  "FluxAggregatorTransactorSession_AcceptAdmin B s oracle = FluxAggregatorTransactor_AcceptAdmin B (ts_Contract s) (ts_TransactOpts s) oracle"

definition FluxAggregatorTransactor_AcceptOwnership :: "'w bind \<Rightarrow> transactor \<Rightarrow> TransactOpts \<Rightarrow> 'w \<Rightarrow> (go_error + Transaction, 'w) go" where
  "FluxAggregatorTransactor_AcceptOwnership B c opts =
     call (BindTransact B (transactor_contract c) opts ''acceptOwnership'' [])"

definition FluxAggregatorSession_AcceptOwnership :: "'w bind \<Rightarrow> session \<Rightarrow> 'w \<Rightarrow> (go_error + Transaction, 'w) go" where
  "FluxAggregatorSession_AcceptOwnership B s = FluxAggregatorTransactor_AcceptOwnership B (Transactor (ses_Contract s)) (ses_TransactOpts s)"

definition FluxAggregatorTransactorSession_AcceptOwnership :: "'w bind \<Rightarrow> transactor_session \<Rightarrow> 'w \<Rightarrow> (go_error + Transaction, 'w) go" where
  "FluxAggregatorTransactorSession_AcceptOwnership B s = FluxAggregatorTransactor_AcceptOwnership B (ts_Contract s) (ts_TransactOpts s)"

definition FluxAggregatorTransactor_ChangeOracles :: "'w bind \<Rightarrow> transactor \<Rightarrow> TransactOpts \<Rightarrow> address list \<Rightarrow> address list \<Rightarrow> address list \<Rightarrow> u32 \<Rightarrow> u32 \<Rightarrow> u32 \<Rightarrow> 'w \<Rightarrow> (go_error + Transaction, 'w) go" where
  "FluxAggregatorTransactor_ChangeOracles B c opts removed added addedAdmins minSubmissions maxSubmissions restartDelay =
     call (BindTransact B (transactor_contract c) opts ''changeOracles'' [VAddresses removed, VAddresses added, VAddresses addedAdmins, VUint32 minSubmissions, VUint32 maxSubmissions, VUint32 restartDelay])"

definition FluxAggregatorSession_ChangeOracles :: "'w bind \<Rightarrow> session \<Rightarrow> address list \<Rightarrow> address list \<Rightarrow> address list \<Rightarrow> u32 \<Rightarrow> u32 \<Rightarrow> u32 \<Rightarrow> 'w \<Rightarrow> (go_error + Transaction, 'w) go" where
  "FluxAggregatorSession_ChangeOracles B s removed added addedAdmins minSubmissions maxSubmissions restartDelay = FluxAggregatorTransactor_ChangeOracles B (Transactor (ses_Contract s)) (ses_TransactOpts s) removed added addedAdmins minSubmissions maxSubmissions restartDelay"

definition FluxAggregatorTransactorSession_ChangeOracles :: "'w bind \<Rightarrow> transactor_session \<Rightarrow> address list \<Rightarrow> address list \<Rightarrow> address list \<Rightarrow> u32 \<Rightarrow> u32 \<Rightarrow> u32 \<Rightarrow> 'w \<Rightarrow> (go_error + Transaction, 'w) go" where
  "FluxAggregatorTransactorSession_ChangeOracles B s removed added addedAdmins minSubmissions maxSubmissions restartDelay = FluxAggregatorTransactor_ChangeOracles B (ts_Contract s) (ts_TransactOpts s) removed added addedAdmins minSubmissions maxSubmissions restartDelay"

definition FluxAggregatorTransactor_OnTokenTransfer :: "'w bind \<Rightarrow> transactor \<Rightarrow> TransactOpts \<Rightarrow> address \<Rightarrow> big \<Rightarrow> string \<Rightarrow> 'w \<Rightarrow> (go_error + Transaction, 'w) go" where
  "FluxAggregatorTransactor_OnTokenTransfer B c opts arg0 arg1 data =
     call (BindTransact B (transactor_contract c) opts ''onTokenTransfer'' [VAddress arg0, VBig arg1, VBytes data])"

definition FluxAggregatorSession_OnTokenTransfer :: "'w bind \<Rightarrow> session \<Rightarrow> address \<Rightarrow> big \<Rightarrow> string \<Rightarrow> 'w \<Rightarrow> (go_error + Transaction, 'w) go" where
  "FluxAggregatorSession_OnTokenTransfer B s arg0 arg1 data = FluxAggregatorTransactor_OnTokenTransfer B (Transactor (ses_Contract s)) (ses_TransactOpts s) arg0 arg1 data"

definition FluxAggregatorTransactorSession_OnTokenTransfer :: "'w bind \<Rightarrow> transactor_session \<Rightarrow> address \<Rightarrow> big \<Rightarrow> string \<Rightarrow> 'w \<Rightarrow> (go_error + Transaction, 'w) go" where
  "FluxAggregatorTransactorSession_OnTokenTransfer B s arg0 arg1 data = FluxAggregatorTransactor_OnTokenTransfer B (ts_Contract s) (ts_TransactOpts s) arg0 arg1 data"

definition FluxAggregatorTransactor_RequestNewRound :: "'w bind \<Rightarrow> transactor \<Rightarrow> TransactOpts \<Rightarrow> 'w \<Rightarrow> (go_error + Transaction, 'w) go" where
  "FluxAggregatorTransactor_RequestNewRound B c opts =
     call (BindTransact B (transactor_contract c) opts ''requestNewRound'' [])"

definition FluxAggregatorSession_RequestNewRound :: "'w bind \<Rightarrow> session \<Rightarrow> 'w \<Rightarrow> (go_error + Transaction, 'w) go" where
  "FluxAggregatorSession_RequestNewRound B s = FluxAggregatorTransactor_RequestNewRound B (Transactor (ses_Contract s)) (ses_TransactOpts s)"

definition FluxAggregatorTransactorSession_RequestNewRound :: "'w bind \<Rightarrow> transactor_session \<Rightarrow> 'w \<Rightarrow> (go_error + Transaction, 'w) go" where
  "FluxAggregatorTransactorSession_RequestNewRound B s = FluxAggregatorTransactor_RequestNewRound B (ts_Contract s) (ts_TransactOpts s)"

definition FluxAggregatorTransactor_SetRequesterPermissions :: "'w bind \<Rightarrow> transactor \<Rightarrow> TransactOpts \<Rightarrow> address \<Rightarrow> bool \<Rightarrow> u32 \<Rightarrow> 'w \<Rightarrow> (go_error + Transaction, 'w) go" where
  "FluxAggregatorTransactor_SetRequesterPermissions B c opts requester authorized delay =
     call (BindTransact B (transactor_contract c) opts ''setRequesterPermissions'' [VAddress requester, VBool authorized, VUint32 delay])"

definition FluxAggregatorSession_SetRequesterPermissions :: "'w bind \<Rightarrow> session \<Rightarrow> address \<Rightarrow> bool \<Rightarrow> u32 \<Rightarrow> 'w \<Rightarrow> (go_error + Transaction, 'w) go" where
  "FluxAggregatorSession_SetRequesterPermissions B s requester authorized delay = FluxAggregatorTransactor_SetRequesterPermissions B (Transactor (ses_Contract s)) (ses_TransactOpts s) requester authorized delay"

definition FluxAggregatorTransactorSession_SetRequesterPermissions :: "'w bind \<Rightarrow> transactor_session \<Rightarrow> address \<Rightarrow> bool \<Rightarrow> u32 \<Rightarrow> 'w \<Rightarrow> (go_error + Transaction, 'w) go" where
  "FluxAggregatorTransactorSession_SetRequesterPermissions B s requester authorized delay = FluxAggregatorTransactor_SetRequesterPermissions B (ts_Contract s) (ts_TransactOpts s) requester authorized delay"

definition FluxAggregatorTransactor_SetValidator :: "'w bind \<Rightarrow> transactor \<Rightarrow> TransactOpts \<Rightarrow> address \<Rightarrow> 'w \<Rightarrow> (go_error + Transaction, 'w) go" where
  "FluxAggregatorTransactor_SetValidator B c opts newValidator =
     call (BindTransact B (transactor_contract c) opts ''setValidator'' [VAddress newValidator])"

definition FluxAggregatorSession_SetValidator :: "'w bind \<Rightarrow> session \<Rightarrow> address \<Rightarrow> 'w \<Rightarrow> (go_error + Transaction, 'w) go" where
  "FluxAggregatorSession_SetValidator B s newValidator = FluxAggregatorTransactor_SetValidator B (Transactor (ses_Contract s)) (ses_TransactOpts s) newValidator"

definition FluxAggregatorTransactorSession_SetValidator :: "'w bind \<Rightarrow> transactor_session \<Rightarrow> address \<Rightarrow> 'w \<Rightarrow> (go_error + Transaction, 'w) go" where
  "FluxAggregatorTransactorSession_SetValidator B s newValidator = FluxAggregatorTransactor_SetValidator B (ts_Contract s) (ts_TransactOpts s) newValidator"

definition FluxAggregatorTransactor_Submit :: "'w bind \<Rightarrow> transactor \<Rightarrow> TransactOpts \<Rightarrow> big \<Rightarrow> big \<Rightarrow> 'w \<Rightarrow> (go_error + Transaction, 'w) go" where
  "FluxAggregatorTransactor_Submit B c opts roundId submission =
     call (BindTransact B (transactor_contract c) opts ''submit'' [VBig roundId, VBig submission])"

definition FluxAggregatorSession_Submit :: "'w bind \<Rightarrow> session \<Rightarrow> big \<Rightarrow> big \<Rightarrow> 'w \<Rightarrow> (go_error + Transaction, 'w) go" where
  "FluxAggregatorSession_Submit B s roundId submission = FluxAggregatorTransactor_Submit B (Transactor (ses_Contract s)) (ses_TransactOpts s) roundId submission"

definition FluxAggregatorTransactorSession_Submit :: "'w bind \<Rightarrow> transactor_session \<Rightarrow> big \<Rightarrow> big \<Rightarrow> 'w \<Rightarrow> (go_error + Transaction, 'w) go" where
  "FluxAggregatorTransactorSession_Submit B s roundId submission = FluxAggregatorTransactor_Submit B (ts_Contract s) (ts_TransactOpts s) roundId submission"

definition FluxAggregatorTransactor_TransferAdmin :: "'w bind \<Rightarrow> transactor \<Rightarrow> TransactOpts \<Rightarrow> address \<Rightarrow> address \<Rightarrow> 'w \<Rightarrow> (go_error + Transaction, 'w) go" where
  "FluxAggregatorTransactor_TransferAdmin B c opts oracle newAdmin =
     call (BindTransact B (transactor_contract c) opts ''transferAdmin'' [VAddress oracle, VAddress newAdmin])"

definition FluxAggregatorSession_TransferAdmin :: "'w bind \<Rightarrow> session \<Rightarrow> address \<Rightarrow> address \<Rightarrow> 'w \<Rightarrow> (go_error + Transaction, 'w) go" where
  "FluxAggregatorSession_TransferAdmin B s oracle newAdmin = FluxAggregatorTransactor_TransferAdmin B (Transactor (ses_Contract s)) (ses_TransactOpts s) oracle newAdmin"

definition FluxAggregatorTransactorSession_TransferAdmin :: "'w bind \<Rightarrow> transactor_session \<Rightarrow> address \<Rightarrow> address \<Rightarrow> 'w \<Rightarrow> (go_error + Transaction, 'w) go" where
  "FluxAggregatorTransactorSession_TransferAdmin B s oracle newAdmin = FluxAggregatorTransactor_TransferAdmin B (ts_Contract s) (ts_TransactOpts s) oracle newAdmin"

definition FluxAggregatorTransactor_TransferOwnership :: "'w bind \<Rightarrow> transactor \<Rightarrow> TransactOpts \<Rightarrow> address \<Rightarrow> 'w \<Rightarrow> (go_error + Transaction, 'w) go" where
  "FluxAggregatorTransactor_TransferOwnership B c opts to =
     call (BindTransact B (transactor_contract c) opts ''transferOwnership'' [VAddress to])"

definition FluxAggregatorSession_TransferOwnership :: "'w bind \<Rightarrow> session \<Rightarrow> address \<Rightarrow> 'w \<Rightarrow> (go_error + Transaction, 'w) go" where
  "FluxAggregatorSession_TransferOwnership B s to = FluxAggregatorTransactor_TransferOwnership B (Transactor (ses_Contract s)) (ses_TransactOpts s) to"

definition FluxAggregatorTransactorSession_TransferOwnership :: "'w bind \<Rightarrow> transactor_session \<Rightarrow> address \<Rightarrow> 'w \<Rightarrow> (go_error + Transaction, 'w) go" where
  "FluxAggregatorTransactorSession_TransferOwnership B s to = FluxAggregatorTransactor_TransferOwnership B (ts_Contract s) (ts_TransactOpts s) to"

definition FluxAggregatorTransactor_UpdateAvailableFunds :: "'w bind \<Rightarrow> transactor \<Rightarrow> TransactOpts \<Rightarrow> 'w \<Rightarrow> (go_error + Transaction, 'w) go" where
  "FluxAggregatorTransactor_UpdateAvailableFunds B c opts =
     call (BindTransact B (transactor_contract c) opts ''updateAvailableFunds'' [])"

definition FluxAggregatorSession_UpdateAvailableFunds :: "'w bind \<Rightarrow> session \<Rightarrow> 'w \<Rightarrow> (go_error + Transaction, 'w) go" where
  "FluxAggregatorSession_UpdateAvailableFunds B s = FluxAggregatorTransactor_UpdateAvailableFunds B (Transactor (ses_Contract s)) (ses_TransactOpts s)"

definition FluxAggregatorTransactorSession_UpdateAvailableFunds :: "'w bind \<Rightarrow> transactor_session \<Rightarrow> 'w \<Rightarrow> (go_error + Transaction, 'w) go" where
  "FluxAggregatorTransactorSession_UpdateAvailableFunds B s = FluxAggregatorTransactor_UpdateAvailableFunds B (ts_Contract s) (ts_TransactOpts s)"

definition FluxAggregatorTransactor_UpdateFutureRounds :: "'w bind \<Rightarrow> transactor \<Rightarrow> TransactOpts \<Rightarrow> big \<Rightarrow> u32 \<Rightarrow> u32 \<Rightarrow> u32 \<Rightarrow> u32 \<Rightarrow> 'w \<Rightarrow> (go_error + Transaction, 'w) go" where
  "FluxAggregatorTransactor_UpdateFutureRounds B c opts paymentAmount minSubmissions maxSubmissions restartDelay timeout =
     call (BindTransact B (transactor_contract c) opts ''updateFutureRounds'' [VBig paymentAmount, VUint32 minSubmissions, VUint32 maxSubmissions, VUint32 restartDelay, VUint32 timeout])"

definition FluxAggregatorSession_UpdateFutureRounds :: "'w bind \<Rightarrow> session \<Rightarrow> big \<Rightarrow> u32 \<Rightarrow> u32 \<Rightarrow> u32 \<Rightarrow> u32 \<Rightarrow> 'w \<Rightarrow> (go_error + Transaction, 'w) go" where
  "FluxAggregatorSession_UpdateFutureRounds B s paymentAmount minSubmissions maxSubmissions restartDelay timeout = FluxAggregatorTransactor_UpdateFutureRounds B (Transactor (ses_Contract s)) (ses_TransactOpts s) paymentAmount minSubmissions maxSubmissions restartDelay timeout"

definition FluxAggregatorTransactorSession_UpdateFutureRounds :: "'w bind \<Rightarrow> transactor_session \<Rightarrow> big \<Rightarrow> u32 \<Rightarrow> u32 \<Rightarrow> u32 \<Rightarrow> u32 \<Rightarrow> 'w \<Rightarrow> (go_error + Transaction, 'w) go" where
  "FluxAggregatorTransactorSession_UpdateFutureRounds B s paymentAmount minSubmissions maxSubmissions restartDelay timeout = FluxAggregatorTransactor_UpdateFutureRounds B (ts_Contract s) (ts_TransactOpts s) paymentAmount minSubmissions maxSubmissions restartDelay timeout"

definition FluxAggregatorTransactor_WithdrawFunds :: "'w bind \<Rightarrow> transactor \<Rightarrow> TransactOpts \<Rightarrow> address \<Rightarrow> big \<Rightarrow> 'w \<Rightarrow> (go_error + Transaction, 'w) go" where
  "FluxAggregatorTransactor_WithdrawFunds B c opts recipient amount =
     call (BindTransact B (transactor_contract c) opts ''withdrawFunds'' [VAddress recipient, VBig amount])"

definition FluxAggregatorSession_WithdrawFunds :: "'w bind \<Rightarrow> session \<Rightarrow> address \<Rightarrow> big \<Rightarrow> 'w \<Rightarrow> (go_error + Transaction, 'w) go" where
  "FluxAggregatorSession_WithdrawFunds B s recipient amount = FluxAggregatorTransactor_WithdrawFunds B (Transactor (ses_Contract s)) (ses_TransactOpts s) recipient amount"

definition FluxAggregatorTransactorSession_WithdrawFunds :: "'w bind \<Rightarrow> transactor_session \<Rightarrow> address \<Rightarrow> big \<Rightarrow> 'w \<Rightarrow> (go_error + Transaction, 'w) go" where
  "FluxAggregatorTransactorSession_WithdrawFunds B s recipient amount = FluxAggregatorTransactor_WithdrawFunds B (ts_Contract s) (ts_TransactOpts s) recipient amount"

definition FluxAggregatorTransactor_WithdrawPayment :: "'w bind \<Rightarrow> transactor \<Rightarrow> TransactOpts \<Rightarrow> address \<Rightarrow> address \<Rightarrow> big \<Rightarrow> 'w \<Rightarrow> (go_error + Transaction, 'w) go" where
  "FluxAggregatorTransactor_WithdrawPayment B c opts oracle recipient amount =
     call (BindTransact B (transactor_contract c) opts ''withdrawPayment'' [VAddress oracle, VAddress recipient, VBig amount])"

definition FluxAggregatorSession_WithdrawPayment :: "'w bind \<Rightarrow> session \<Rightarrow> address \<Rightarrow> address \<Rightarrow> big \<Rightarrow> 'w \<Rightarrow> (go_error + Transaction, 'w) go" where
  "FluxAggregatorSession_WithdrawPayment B s oracle recipient amount = FluxAggregatorTransactor_WithdrawPayment B (Transactor (ses_Contract s)) (ses_TransactOpts s) oracle recipient amount"

definition FluxAggregatorTransactorSession_WithdrawPayment :: "'w bind \<Rightarrow> transactor_session \<Rightarrow> address \<Rightarrow> address \<Rightarrow> big \<Rightarrow> 'w \<Rightarrow> (go_error + Transaction, 'w) go" where
  "FluxAggregatorTransactorSession_WithdrawPayment B s oracle recipient amount = FluxAggregatorTransactor_WithdrawPayment B (ts_Contract s) (ts_TransactOpts s) oracle recipient amount"

section \<open>Events\<close>

definition FluxAggregatorAnswerUpdated :: struct where
  "FluxAggregatorAnswerUpdated = [(''Current'', TBig), (''RoundId'', TBig), (''UpdatedAt'', TBig)]"

type_synonym FluxAggregatorAnswerUpdatedIterator = iterator

definition FluxAggregatorAnswerUpdatedIterator_Next :: "'w bind \<Rightarrow> iterator \<Rightarrow> 'w \<Rightarrow> (bool \<times> iterator, 'w) go" where
  "FluxAggregatorAnswerUpdatedIterator_Next B it = it_Next B FluxAggregatorAnswerUpdated it"

definition FluxAggregatorAnswerUpdatedIterator_Error :: "iterator \<Rightarrow> err" where
  "FluxAggregatorAnswerUpdatedIterator_Error it = it_Error it"

definition FluxAggregatorAnswerUpdatedIterator_Close :: "'w bind \<Rightarrow> iterator \<Rightarrow> 'w \<Rightarrow> (err, 'w) go" where
  "FluxAggregatorAnswerUpdatedIterator_Close B it = it_Close B it"

definition FluxAggregatorFilterer_FilterAnswerUpdated :: "'w bind \<Rightarrow> filterer \<Rightarrow> FilterOpts \<Rightarrow> big list \<Rightarrow> big list \<Rightarrow> 'w \<Rightarrow> (go_error + iterator, 'w) go" where
  "FluxAggregatorFilterer_FilterAnswerUpdated B c opts current roundId = filter_logs B (filterer_contract c) opts ''AnswerUpdated'' [map VBig current, map VBig roundId]"

definition FluxAggregatorFilterer_WatchAnswerUpdated :: "'w bind \<Rightarrow> filterer \<Rightarrow> WatchOpts \<Rightarrow> nat \<Rightarrow> big list \<Rightarrow> big list \<Rightarrow> 'w \<Rightarrow> (go_error + watcher, 'w) go" where
  "FluxAggregatorFilterer_WatchAnswerUpdated B c opts sink current roundId =
     watch_logs B (filterer_contract c) opts ''AnswerUpdated'' FluxAggregatorAnswerUpdated sink [map VBig current, map VBig roundId]"

definition FluxAggregatorFilterer_ParseAnswerUpdated :: "'w bind \<Rightarrow> filterer \<Rightarrow> log \<Rightarrow> go_error + event" where
  "FluxAggregatorFilterer_ParseAnswerUpdated B c = parse_log B (filterer_contract c) ''AnswerUpdated'' FluxAggregatorAnswerUpdated"

definition FluxAggregatorAvailableFundsUpdated :: struct where
  "FluxAggregatorAvailableFundsUpdated = [(''Amount'', TBig)]"

type_synonym FluxAggregatorAvailableFundsUpdatedIterator = iterator

definition FluxAggregatorAvailableFundsUpdatedIterator_Next :: "'w bind \<Rightarrow> iterator \<Rightarrow> 'w \<Rightarrow> (bool \<times> iterator, 'w) go" where
  "FluxAggregatorAvailableFundsUpdatedIterator_Next B it = it_Next B FluxAggregatorAvailableFundsUpdated it"

definition FluxAggregatorAvailableFundsUpdatedIterator_Error :: "iterator \<Rightarrow> err" where
  "FluxAggregatorAvailableFundsUpdatedIterator_Error it = it_Error it"

definition FluxAggregatorAvailableFundsUpdatedIterator_Close :: "'w bind \<Rightarrow> iterator \<Rightarrow> 'w \<Rightarrow> (err, 'w) go" where
  "FluxAggregatorAvailableFundsUpdatedIterator_Close B it = it_Close B it"

definition FluxAggregatorFilterer_FilterAvailableFundsUpdated :: "'w bind \<Rightarrow> filterer \<Rightarrow> FilterOpts \<Rightarrow> big list \<Rightarrow> 'w \<Rightarrow> (go_error + iterator, 'w) go" where
  "FluxAggregatorFilterer_FilterAvailableFundsUpdated B c opts amount = filter_logs B (filterer_contract c) opts ''AvailableFundsUpdated'' [map VBig amount]"

definition FluxAggregatorFilterer_WatchAvailableFundsUpdated :: "'w bind \<Rightarrow> filterer \<Rightarrow> WatchOpts \<Rightarrow> nat \<Rightarrow> big list \<Rightarrow> 'w \<Rightarrow> (go_error + watcher, 'w) go" where
  "FluxAggregatorFilterer_WatchAvailableFundsUpdated B c opts sink amount =
     watch_logs B (filterer_contract c) opts ''AvailableFundsUpdated'' FluxAggregatorAvailableFundsUpdated sink [map VBig amount]"

definition FluxAggregatorFilterer_ParseAvailableFundsUpdated :: "'w bind \<Rightarrow> filterer \<Rightarrow> log \<Rightarrow> go_error + event" where
  "FluxAggregatorFilterer_ParseAvailableFundsUpdated B c = parse_log B (filterer_contract c) ''AvailableFundsUpdated'' FluxAggregatorAvailableFundsUpdated"

definition FluxAggregatorNewRound :: struct where
  "FluxAggregatorNewRound = [(''RoundId'', TBig), (''StartedBy'', TAddress), (''StartedAt'', TBig)]"

type_synonym FluxAggregatorNewRoundIterator = iterator

definition FluxAggregatorNewRoundIterator_Next :: "'w bind \<Rightarrow> iterator \<Rightarrow> 'w \<Rightarrow> (bool \<times> iterator, 'w) go" where
  "FluxAggregatorNewRoundIterator_Next B it = it_Next B FluxAggregatorNewRound it"

definition FluxAggregatorNewRoundIterator_Error :: "iterator \<Rightarrow> err" where
  "FluxAggregatorNewRoundIterator_Error it = it_Error it"

definition FluxAggregatorNewRoundIterator_Close :: "'w bind \<Rightarrow> iterator \<Rightarrow> 'w \<Rightarrow> (err, 'w) go" where
  "FluxAggregatorNewRoundIterator_Close B it = it_Close B it"

definition FluxAggregatorFilterer_FilterNewRound :: "'w bind \<Rightarrow> filterer \<Rightarrow> FilterOpts \<Rightarrow> big list \<Rightarrow> address list \<Rightarrow> 'w \<Rightarrow> (go_error + iterator, 'w) go" where
  "FluxAggregatorFilterer_FilterNewRound B c opts roundId startedBy = filter_logs B (filterer_contract c) opts ''NewRound'' [map VBig roundId, map VAddress startedBy]"

definition FluxAggregatorFilterer_WatchNewRound :: "'w bind \<Rightarrow> filterer \<Rightarrow> WatchOpts \<Rightarrow> nat \<Rightarrow> big list \<Rightarrow> address list \<Rightarrow> 'w \<Rightarrow> (go_error + watcher, 'w) go" where
  "FluxAggregatorFilterer_WatchNewRound B c opts sink roundId startedBy =
     watch_logs B (filterer_contract c) opts ''NewRound'' FluxAggregatorNewRound sink [map VBig roundId, map VAddress startedBy]"

definition FluxAggregatorFilterer_ParseNewRound :: "'w bind \<Rightarrow> filterer \<Rightarrow> log \<Rightarrow> go_error + event" where
  "FluxAggregatorFilterer_ParseNewRound B c = parse_log B (filterer_contract c) ''NewRound'' FluxAggregatorNewRound"

definition FluxAggregatorOracleAdminUpdateRequested :: struct where
  "FluxAggregatorOracleAdminUpdateRequested = [(''Oracle'', TAddress), (''Admin'', TAddress), (''NewAdmin'', TAddress)]"

type_synonym FluxAggregatorOracleAdminUpdateRequestedIterator = iterator

definition FluxAggregatorOracleAdminUpdateRequestedIterator_Next :: "'w bind \<Rightarrow> iterator \<Rightarrow> 'w \<Rightarrow> (bool \<times> iterator, 'w) go" where
  "FluxAggregatorOracleAdminUpdateRequestedIterator_Next B it = it_Next B FluxAggregatorOracleAdminUpdateRequested it"

definition FluxAggregatorOracleAdminUpdateRequestedIterator_Error :: "iterator \<Rightarrow> err" where
  "FluxAggregatorOracleAdminUpdateRequestedIterator_Error it = it_Error it"

definition FluxAggregatorOracleAdminUpdateRequestedIterator_Close :: "'w bind \<Rightarrow> iterator \<Rightarrow> 'w \<Rightarrow> (err, 'w) go" where
  "FluxAggregatorOracleAdminUpdateRequestedIterator_Close B it = it_Close B it"

definition FluxAggregatorFilterer_FilterOracleAdminUpdateRequested :: "'w bind \<Rightarrow> filterer \<Rightarrow> FilterOpts \<Rightarrow> address list \<Rightarrow> 'w \<Rightarrow> (go_error + iterator, 'w) go" where
  "FluxAggregatorFilterer_FilterOracleAdminUpdateRequested B c opts oracle = filter_logs B (filterer_contract c) opts ''OracleAdminUpdateRequested'' [map VAddress oracle]"

definition FluxAggregatorFilterer_WatchOracleAdminUpdateRequested :: "'w bind \<Rightarrow> filterer \<Rightarrow> WatchOpts \<Rightarrow> nat \<Rightarrow> address list \<Rightarrow> 'w \<Rightarrow> (go_error + watcher, 'w) go" where
  "FluxAggregatorFilterer_WatchOracleAdminUpdateRequested B c opts sink oracle =
     watch_logs B (filterer_contract c) opts ''OracleAdminUpdateRequested'' FluxAggregatorOracleAdminUpdateRequested sink [map VAddress oracle]"

definition FluxAggregatorFilterer_ParseOracleAdminUpdateRequested :: "'w bind \<Rightarrow> filterer \<Rightarrow> log \<Rightarrow> go_error + event" where
  "FluxAggregatorFilterer_ParseOracleAdminUpdateRequested B c = parse_log B (filterer_contract c) ''OracleAdminUpdateRequested'' FluxAggregatorOracleAdminUpdateRequested"

definition FluxAggregatorOracleAdminUpdated :: struct where
  "FluxAggregatorOracleAdminUpdated = [(''Oracle'', TAddress), (''NewAdmin'', TAddress)]"

type_synonym FluxAggregatorOracleAdminUpdatedIterator = iterator

definition FluxAggregatorOracleAdminUpdatedIterator_Next :: "'w bind \<Rightarrow> iterator \<Rightarrow> 'w \<Rightarrow> (bool \<times> iterator, 'w) go" where
  "FluxAggregatorOracleAdminUpdatedIterator_Next B it = it_Next B FluxAggregatorOracleAdminUpdated it"

definition FluxAggregatorOracleAdminUpdatedIterator_Error :: "iterator \<Rightarrow> err" where
  "FluxAggregatorOracleAdminUpdatedIterator_Error it = it_Error it"

definition FluxAggregatorOracleAdminUpdatedIterator_Close :: "'w bind \<Rightarrow> iterator \<Rightarrow> 'w \<Rightarrow> (err, 'w) go" where
  "FluxAggregatorOracleAdminUpdatedIterator_Close B it = it_Close B it"

definition FluxAggregatorFilterer_FilterOracleAdminUpdated :: "'w bind \<Rightarrow> filterer \<Rightarrow> FilterOpts \<Rightarrow> address list \<Rightarrow> address list \<Rightarrow> 'w \<Rightarrow> (go_error + iterator, 'w) go" where
  "FluxAggregatorFilterer_FilterOracleAdminUpdated B c opts oracle newAdmin = filter_logs B (filterer_contract c) opts ''OracleAdminUpdated'' [map VAddress oracle, map VAddress newAdmin]"

definition FluxAggregatorFilterer_WatchOracleAdminUpdated :: "'w bind \<Rightarrow> filterer \<Rightarrow> WatchOpts \<Rightarrow> nat \<Rightarrow> address list \<Rightarrow> address list \<Rightarrow> 'w \<Rightarrow> (go_error + watcher, 'w) go" where
  "FluxAggregatorFilterer_WatchOracleAdminUpdated B c opts sink oracle newAdmin =
     watch_logs B (filterer_contract c) opts ''OracleAdminUpdated'' FluxAggregatorOracleAdminUpdated sink [map VAddress oracle, map VAddress newAdmin]"

definition FluxAggregatorFilterer_ParseOracleAdminUpdated :: "'w bind \<Rightarrow> filterer \<Rightarrow> log \<Rightarrow> go_error + event" where
  "FluxAggregatorFilterer_ParseOracleAdminUpdated B c = parse_log B (filterer_contract c) ''OracleAdminUpdated'' FluxAggregatorOracleAdminUpdated"

definition FluxAggregatorOraclePermissionsUpdated :: struct where
  "FluxAggregatorOraclePermissionsUpdated = [(''Oracle'', TAddress), (''Whitelisted'', TBool)]"

type_synonym FluxAggregatorOraclePermissionsUpdatedIterator = iterator

definition FluxAggregatorOraclePermissionsUpdatedIterator_Next :: "'w bind \<Rightarrow> iterator \<Rightarrow> 'w \<Rightarrow> (bool \<times> iterator, 'w) go" where
  "FluxAggregatorOraclePermissionsUpdatedIterator_Next B it = it_Next B FluxAggregatorOraclePermissionsUpdated it"

definition FluxAggregatorOraclePermissionsUpdatedIterator_Error :: "iterator \<Rightarrow> err" where
  "FluxAggregatorOraclePermissionsUpdatedIterator_Error it = it_Error it"

definition FluxAggregatorOraclePermissionsUpdatedIterator_Close :: "'w bind \<Rightarrow> iterator \<Rightarrow> 'w \<Rightarrow> (err, 'w) go" where
  "FluxAggregatorOraclePermissionsUpdatedIterator_Close B it = it_Close B it"

definition FluxAggregatorFilterer_FilterOraclePermissionsUpdated :: "'w bind \<Rightarrow> filterer \<Rightarrow> FilterOpts \<Rightarrow> address list \<Rightarrow> bool list \<Rightarrow> 'w \<Rightarrow> (go_error + iterator, 'w) go" where
  "FluxAggregatorFilterer_FilterOraclePermissionsUpdated B c opts oracle whitelisted = filter_logs B (filterer_contract c) opts ''OraclePermissionsUpdated'' [map VAddress oracle, map VBool whitelisted]"

definition FluxAggregatorFilterer_WatchOraclePermissionsUpdated :: "'w bind \<Rightarrow> filterer \<Rightarrow> WatchOpts \<Rightarrow> nat \<Rightarrow> address list \<Rightarrow> bool list \<Rightarrow> 'w \<Rightarrow> (go_error + watcher, 'w) go" where
  "FluxAggregatorFilterer_WatchOraclePermissionsUpdated B c opts sink oracle whitelisted =
     watch_logs B (filterer_contract c) opts ''OraclePermissionsUpdated'' FluxAggregatorOraclePermissionsUpdated sink [map VAddress oracle, map VBool whitelisted]"

definition FluxAggregatorFilterer_ParseOraclePermissionsUpdated :: "'w bind \<Rightarrow> filterer \<Rightarrow> log \<Rightarrow> go_error + event" where
  "FluxAggregatorFilterer_ParseOraclePermissionsUpdated B c = parse_log B (filterer_contract c) ''OraclePermissionsUpdated'' FluxAggregatorOraclePermissionsUpdated"

definition FluxAggregatorOwnershipTransferRequested :: struct where
  "FluxAggregatorOwnershipTransferRequested = [(''From'', TAddress), (''To'', TAddress)]"

type_synonym FluxAggregatorOwnershipTransferRequestedIterator = iterator

definition FluxAggregatorOwnershipTransferRequestedIterator_Next :: "'w bind \<Rightarrow> iterator \<Rightarrow> 'w \<Rightarrow> (bool \<times> iterator, 'w) go" where
  "FluxAggregatorOwnershipTransferRequestedIterator_Next B it = it_Next B FluxAggregatorOwnershipTransferRequested it"

definition FluxAggregatorOwnershipTransferRequestedIterator_Error :: "iterator \<Rightarrow> err" where
  "FluxAggregatorOwnershipTransferRequestedIterator_Error it = it_Error it"

definition FluxAggregatorOwnershipTransferRequestedIterator_Close :: "'w bind \<Rightarrow> iterator \<Rightarrow> 'w \<Rightarrow> (err, 'w) go" where
  "FluxAggregatorOwnershipTransferRequestedIterator_Close B it = it_Close B it"

definition FluxAggregatorFilterer_FilterOwnershipTransferRequested :: "'w bind \<Rightarrow> filterer \<Rightarrow> FilterOpts \<Rightarrow> address list \<Rightarrow> address list \<Rightarrow> 'w \<Rightarrow> (go_error + iterator, 'w) go" where
  "FluxAggregatorFilterer_FilterOwnershipTransferRequested B c opts from to = filter_logs B (filterer_contract c) opts ''OwnershipTransferRequested'' [map VAddress from, map VAddress to]"

definition FluxAggregatorFilterer_WatchOwnershipTransferRequested :: "'w bind \<Rightarrow> filterer \<Rightarrow> WatchOpts \<Rightarrow> nat \<Rightarrow> address list \<Rightarrow> address list \<Rightarrow> 'w \<Rightarrow> (go_error + watcher, 'w) go" where
  "FluxAggregatorFilterer_WatchOwnershipTransferRequested B c opts sink from to =
     watch_logs B (filterer_contract c) opts ''OwnershipTransferRequested'' FluxAggregatorOwnershipTransferRequested sink [map VAddress from, map VAddress to]"

definition FluxAggregatorFilterer_ParseOwnershipTransferRequested :: "'w bind \<Rightarrow> filterer \<Rightarrow> log \<Rightarrow> go_error + event" where
  "FluxAggregatorFilterer_ParseOwnershipTransferRequested B c = parse_log B (filterer_contract c) ''OwnershipTransferRequested'' FluxAggregatorOwnershipTransferRequested"

definition FluxAggregatorOwnershipTransferred :: struct where
  "FluxAggregatorOwnershipTransferred = [(''From'', TAddress), (''To'', TAddress)]"

type_synonym FluxAggregatorOwnershipTransferredIterator = iterator

definition FluxAggregatorOwnershipTransferredIterator_Next :: "'w bind \<Rightarrow> iterator \<Rightarrow> 'w \<Rightarrow> (bool \<times> iterator, 'w) go" where
  "FluxAggregatorOwnershipTransferredIterator_Next B it = it_Next B FluxAggregatorOwnershipTransferred it"

definition FluxAggregatorOwnershipTransferredIterator_Error :: "iterator \<Rightarrow> err" where
  "FluxAggregatorOwnershipTransferredIterator_Error it = it_Error it"

definition FluxAggregatorOwnershipTransferredIterator_Close :: "'w bind \<Rightarrow> iterator \<Rightarrow> 'w \<Rightarrow> (err, 'w) go" where
  "FluxAggregatorOwnershipTransferredIterator_Close B it = it_Close B it"

definition FluxAggregatorFilterer_FilterOwnershipTransferred :: "'w bind \<Rightarrow> filterer \<Rightarrow> FilterOpts \<Rightarrow> address list \<Rightarrow> address list \<Rightarrow> 'w \<Rightarrow> (go_error + iterator, 'w) go" where
  "FluxAggregatorFilterer_FilterOwnershipTransferred B c opts from to = filter_logs B (filterer_contract c) opts ''OwnershipTransferred'' [map VAddress from, map VAddress to]"

definition FluxAggregatorFilterer_WatchOwnershipTransferred :: "'w bind \<Rightarrow> filterer \<Rightarrow> WatchOpts \<Rightarrow> nat \<Rightarrow> address list \<Rightarrow> address list \<Rightarrow> 'w \<Rightarrow> (go_error + watcher, 'w) go" where
  "FluxAggregatorFilterer_WatchOwnershipTransferred B c opts sink from to =
     watch_logs B (filterer_contract c) opts ''OwnershipTransferred'' FluxAggregatorOwnershipTransferred sink [map VAddress from, map VAddress to]"

definition FluxAggregatorFilterer_ParseOwnershipTransferred :: "'w bind \<Rightarrow> filterer \<Rightarrow> log \<Rightarrow> go_error + event" where
  "FluxAggregatorFilterer_ParseOwnershipTransferred B c = parse_log B (filterer_contract c) ''OwnershipTransferred'' FluxAggregatorOwnershipTransferred"

definition FluxAggregatorRequesterPermissionsSet :: struct where
  "FluxAggregatorRequesterPermissionsSet = [(''Requester'', TAddress), (''Authorized'', TBool), (''Delay'', TUint32)]"

type_synonym FluxAggregatorRequesterPermissionsSetIterator = iterator

definition FluxAggregatorRequesterPermissionsSetIterator_Next :: "'w bind \<Rightarrow> iterator \<Rightarrow> 'w \<Rightarrow> (bool \<times> iterator, 'w) go" where
  "FluxAggregatorRequesterPermissionsSetIterator_Next B it = it_Next B FluxAggregatorRequesterPermissionsSet it"

definition FluxAggregatorRequesterPermissionsSetIterator_Error :: "iterator \<Rightarrow> err" where
  "FluxAggregatorRequesterPermissionsSetIterator_Error it = it_Error it"

definition FluxAggregatorRequesterPermissionsSetIterator_Close :: "'w bind \<Rightarrow> iterator \<Rightarrow> 'w \<Rightarrow> (err, 'w) go" where
  "FluxAggregatorRequesterPermissionsSetIterator_Close B it = it_Close B it"

definition FluxAggregatorFilterer_FilterRequesterPermissionsSet :: "'w bind \<Rightarrow> filterer \<Rightarrow> FilterOpts \<Rightarrow> address list \<Rightarrow> 'w \<Rightarrow> (go_error + iterator, 'w) go" where
  "FluxAggregatorFilterer_FilterRequesterPermissionsSet B c opts requester = filter_logs B (filterer_contract c) opts ''RequesterPermissionsSet'' [map VAddress requester]"

definition FluxAggregatorFilterer_WatchRequesterPermissionsSet :: "'w bind \<Rightarrow> filterer \<Rightarrow> WatchOpts \<Rightarrow> nat \<Rightarrow> address list \<Rightarrow> 'w \<Rightarrow> (go_error + watcher, 'w) go" where
  "FluxAggregatorFilterer_WatchRequesterPermissionsSet B c opts sink requester =
     watch_logs B (filterer_contract c) opts ''RequesterPermissionsSet'' FluxAggregatorRequesterPermissionsSet sink [map VAddress requester]"

definition FluxAggregatorFilterer_ParseRequesterPermissionsSet :: "'w bind \<Rightarrow> filterer \<Rightarrow> log \<Rightarrow> go_error + event" where
  "FluxAggregatorFilterer_ParseRequesterPermissionsSet B c = parse_log B (filterer_contract c) ''RequesterPermissionsSet'' FluxAggregatorRequesterPermissionsSet"

definition FluxAggregatorRoundDetailsUpdated :: struct where
  "FluxAggregatorRoundDetailsUpdated = [(''PaymentAmount'', TBig), (''MinSubmissionCount'', TUint32), (''MaxSubmissionCount'', TUint32), (''RestartDelay'', TUint32), (''Timeout'', TUint32)]"

type_synonym FluxAggregatorRoundDetailsUpdatedIterator = iterator

definition FluxAggregatorRoundDetailsUpdatedIterator_Next :: "'w bind \<Rightarrow> iterator \<Rightarrow> 'w \<Rightarrow> (bool \<times> iterator, 'w) go" where
  "FluxAggregatorRoundDetailsUpdatedIterator_Next B it = it_Next B FluxAggregatorRoundDetailsUpdated it"

definition FluxAggregatorRoundDetailsUpdatedIterator_Error :: "iterator \<Rightarrow> err" where
  "FluxAggregatorRoundDetailsUpdatedIterator_Error it = it_Error it"

definition FluxAggregatorRoundDetailsUpdatedIterator_Close :: "'w bind \<Rightarrow> iterator \<Rightarrow> 'w \<Rightarrow> (err, 'w) go" where
  "FluxAggregatorRoundDetailsUpdatedIterator_Close B it = it_Close B it"

definition FluxAggregatorFilterer_FilterRoundDetailsUpdated :: "'w bind \<Rightarrow> filterer \<Rightarrow> FilterOpts \<Rightarrow> big list \<Rightarrow> u32 list \<Rightarrow> u32 list \<Rightarrow> 'w \<Rightarrow> (go_error + iterator, 'w) go" where
  "FluxAggregatorFilterer_FilterRoundDetailsUpdated B c opts paymentAmount minSubmissionCount maxSubmissionCount = filter_logs B (filterer_contract c) opts ''RoundDetailsUpdated'' [map VBig paymentAmount, map VUint32 minSubmissionCount, map VUint32 maxSubmissionCount]"

definition FluxAggregatorFilterer_WatchRoundDetailsUpdated :: "'w bind \<Rightarrow> filterer \<Rightarrow> WatchOpts \<Rightarrow> nat \<Rightarrow> big list \<Rightarrow> u32 list \<Rightarrow> u32 list \<Rightarrow> 'w \<Rightarrow> (go_error + watcher, 'w) go" where
  "FluxAggregatorFilterer_WatchRoundDetailsUpdated B c opts sink paymentAmount minSubmissionCount maxSubmissionCount =
     watch_logs B (filterer_contract c) opts ''RoundDetailsUpdated'' FluxAggregatorRoundDetailsUpdated sink [map VBig paymentAmount, map VUint32 minSubmissionCount, map VUint32 maxSubmissionCount]"

definition FluxAggregatorFilterer_ParseRoundDetailsUpdated :: "'w bind \<Rightarrow> filterer \<Rightarrow> log \<Rightarrow> go_error + event" where
  "FluxAggregatorFilterer_ParseRoundDetailsUpdated B c = parse_log B (filterer_contract c) ''RoundDetailsUpdated'' FluxAggregatorRoundDetailsUpdated"

definition FluxAggregatorSubmissionReceived :: struct where
  "FluxAggregatorSubmissionReceived = [(''Submission'', TBig), (''Round'', TUint32), (''Oracle'', TAddress)]"

type_synonym FluxAggregatorSubmissionReceivedIterator = iterator

definition FluxAggregatorSubmissionReceivedIterator_Next :: "'w bind \<Rightarrow> iterator \<Rightarrow> 'w \<Rightarrow> (bool \<times> iterator, 'w) go" where
  "FluxAggregatorSubmissionReceivedIterator_Next B it = it_Next B FluxAggregatorSubmissionReceived it"

definition FluxAggregatorSubmissionReceivedIterator_Error :: "iterator \<Rightarrow> err" where
  "FluxAggregatorSubmissionReceivedIterator_Error it = it_Error it"

definition FluxAggregatorSubmissionReceivedIterator_Close :: "'w bind \<Rightarrow> iterator \<Rightarrow> 'w \<Rightarrow> (err, 'w) go" where
  "FluxAggregatorSubmissionReceivedIterator_Close B it = it_Close B it"

definition FluxAggregatorFilterer_FilterSubmissionReceived :: "'w bind \<Rightarrow> filterer \<Rightarrow> FilterOpts \<Rightarrow> big list \<Rightarrow> u32 list \<Rightarrow> address list \<Rightarrow> 'w \<Rightarrow> (go_error + iterator, 'w) go" where
  "FluxAggregatorFilterer_FilterSubmissionReceived B c opts submission round oracle = filter_logs B (filterer_contract c) opts ''SubmissionReceived'' [map VBig submission, map VUint32 round, map VAddress oracle]"

definition FluxAggregatorFilterer_WatchSubmissionReceived :: "'w bind \<Rightarrow> filterer \<Rightarrow> WatchOpts \<Rightarrow> nat \<Rightarrow> big list \<Rightarrow> u32 list \<Rightarrow> address list \<Rightarrow> 'w \<Rightarrow> (go_error + watcher, 'w) go" where
  "FluxAggregatorFilterer_WatchSubmissionReceived B c opts sink submission round oracle =
     watch_logs B (filterer_contract c) opts ''SubmissionReceived'' FluxAggregatorSubmissionReceived sink [map VBig submission, map VUint32 round, map VAddress oracle]"

definition FluxAggregatorFilterer_ParseSubmissionReceived :: "'w bind \<Rightarrow> filterer \<Rightarrow> log \<Rightarrow> go_error + event" where
  "FluxAggregatorFilterer_ParseSubmissionReceived B c = parse_log B (filterer_contract c) ''SubmissionReceived'' FluxAggregatorSubmissionReceived"

definition FluxAggregatorValidatorUpdated :: struct where
  "FluxAggregatorValidatorUpdated = [(''Previous'', TAddress), (''Current'', TAddress)]"

type_synonym FluxAggregatorValidatorUpdatedIterator = iterator

definition FluxAggregatorValidatorUpdatedIterator_Next :: "'w bind \<Rightarrow> iterator \<Rightarrow> 'w \<Rightarrow> (bool \<times> iterator, 'w) go" where
  "FluxAggregatorValidatorUpdatedIterator_Next B it = it_Next B FluxAggregatorValidatorUpdated it"

definition FluxAggregatorValidatorUpdatedIterator_Error :: "iterator \<Rightarrow> err" where
  "FluxAggregatorValidatorUpdatedIterator_Error it = it_Error it"

definition FluxAggregatorValidatorUpdatedIterator_Close :: "'w bind \<Rightarrow> iterator \<Rightarrow> 'w \<Rightarrow> (err, 'w) go" where
  "FluxAggregatorValidatorUpdatedIterator_Close B it = it_Close B it"

definition FluxAggregatorFilterer_FilterValidatorUpdated :: "'w bind \<Rightarrow> filterer \<Rightarrow> FilterOpts \<Rightarrow> address list \<Rightarrow> address list \<Rightarrow> 'w \<Rightarrow> (go_error + iterator, 'w) go" where
  "FluxAggregatorFilterer_FilterValidatorUpdated B c opts previous current = filter_logs B (filterer_contract c) opts ''ValidatorUpdated'' [map VAddress previous, map VAddress current]"

definition FluxAggregatorFilterer_WatchValidatorUpdated :: "'w bind \<Rightarrow> filterer \<Rightarrow> WatchOpts \<Rightarrow> nat \<Rightarrow> address list \<Rightarrow> address list \<Rightarrow> 'w \<Rightarrow> (go_error + watcher, 'w) go" where
  "FluxAggregatorFilterer_WatchValidatorUpdated B c opts sink previous current =
     watch_logs B (filterer_contract c) opts ''ValidatorUpdated'' FluxAggregatorValidatorUpdated sink [map VAddress previous, map VAddress current]"

definition FluxAggregatorFilterer_ParseValidatorUpdated :: "'w bind \<Rightarrow> filterer \<Rightarrow> log \<Rightarrow> go_error + event" where
  "FluxAggregatorFilterer_ParseValidatorUpdated B c = parse_log B (filterer_contract c) ''ValidatorUpdated'' FluxAggregatorValidatorUpdated"

section \<open>Conformity with the ABI\<close>

lemma flux_aggregator_methods:
  "has_method FluxAggregatorABI ''allocatedFunds'' True [] [TBig]"
  "has_method FluxAggregatorABI ''availableFunds'' True [] [TBig]"
  "has_method FluxAggregatorABI ''decimals'' True [] [TUint8]"
  "has_method FluxAggregatorABI ''description'' True [] [TString]"
  "has_method FluxAggregatorABI ''getAdmin'' True [TAddress] [TAddress]"
  "has_method FluxAggregatorABI ''getAnswer'' True [TBig] [TBig]"
  "has_method FluxAggregatorABI ''getOracles'' True [] [TAddresses]"
  "has_method FluxAggregatorABI ''getRoundData'' True [TBig] [TBig, TBig, TBig, TBig, TBig]"
  "has_method FluxAggregatorABI ''getTimestamp'' True [TBig] [TBig]"
  "has_method FluxAggregatorABI ''latestAnswer'' True [] [TBig]"
  "has_method FluxAggregatorABI ''latestRound'' True [] [TBig]"
  "has_method FluxAggregatorABI ''latestRoundData'' True [] [TBig, TBig, TBig, TBig, TBig]"
  "has_method FluxAggregatorABI ''latestTimestamp'' True [] [TBig]"
  "has_method FluxAggregatorABI ''linkToken'' True [] [TAddress]"
  "has_method FluxAggregatorABI ''maxSubmissionCount'' True [] [TUint32]"
  "has_method FluxAggregatorABI ''maxSubmissionValue'' True [] [TBig]"
  "has_method FluxAggregatorABI ''minSubmissionCount'' True [] [TUint32]"
  "has_method FluxAggregatorABI ''minSubmissionValue'' True [] [TBig]"
  "has_method FluxAggregatorABI ''oracleCount'' True [] [TUint8]"
  "has_method FluxAggregatorABI ''oracleRoundState'' True [TAddress, TUint32] [TBool, TUint32, TBig, TUint64, TUint64, TBig, TUint8, TBig]"
  "has_method FluxAggregatorABI ''owner'' True [] [TAddress]"
  "has_method FluxAggregatorABI ''paymentAmount'' True [] [TBig]"
  "has_method FluxAggregatorABI ''restartDelay'' True [] [TUint32]"
  "has_method FluxAggregatorABI ''timeout'' True [] [TUint32]"
  "has_method FluxAggregatorABI ''validator'' True [] [TAddress]"
  "has_method FluxAggregatorABI ''version'' True [] [TBig]"
  "has_method FluxAggregatorABI ''withdrawablePayment'' True [TAddress] [TBig]"
  by code_simp+

lemma flux_aggregator_transactions:
  "has_transaction FluxAggregatorABI ''acceptAdmin'' [TAddress]"
  "has_transaction FluxAggregatorABI ''acceptOwnership'' []"
  "has_transaction FluxAggregatorABI ''changeOracles'' [TAddresses, TAddresses, TAddresses, TUint32, TUint32, TUint32]"
  "has_transaction FluxAggregatorABI ''onTokenTransfer'' [TAddress, TBig, TBytes]"
  "has_transaction FluxAggregatorABI ''requestNewRound'' []"
  "has_transaction FluxAggregatorABI ''setRequesterPermissions'' [TAddress, TBool, TUint32]"
  "has_transaction FluxAggregatorABI ''setValidator'' [TAddress]"
  "has_transaction FluxAggregatorABI ''submit'' [TBig, TBig]"
  "has_transaction FluxAggregatorABI ''transferAdmin'' [TAddress, TAddress]"
  "has_transaction FluxAggregatorABI ''transferOwnership'' [TAddress]"
  "has_transaction FluxAggregatorABI ''updateAvailableFunds'' []"
  "has_transaction FluxAggregatorABI ''updateFutureRounds'' [TBig, TUint32, TUint32, TUint32, TUint32]"
  "has_transaction FluxAggregatorABI ''withdrawFunds'' [TAddress, TBig]"
  "has_transaction FluxAggregatorABI ''withdrawPayment'' [TAddress, TAddress, TBig]"
  by code_simp+

lemma flux_aggregator_events:
  "has_event FluxAggregatorABI ''AnswerUpdated'' FluxAggregatorAnswerUpdated [TBig, TBig]"
  "has_event FluxAggregatorABI ''AvailableFundsUpdated'' FluxAggregatorAvailableFundsUpdated [TBig]"
  "has_event FluxAggregatorABI ''NewRound'' FluxAggregatorNewRound [TBig, TAddress]"
  "has_event FluxAggregatorABI ''OracleAdminUpdateRequested'' FluxAggregatorOracleAdminUpdateRequested [TAddress]"
  "has_event FluxAggregatorABI ''OracleAdminUpdated'' FluxAggregatorOracleAdminUpdated [TAddress, TAddress]"
  "has_event FluxAggregatorABI ''OraclePermissionsUpdated'' FluxAggregatorOraclePermissionsUpdated [TAddress, TBool]"
  "has_event FluxAggregatorABI ''OwnershipTransferRequested'' FluxAggregatorOwnershipTransferRequested [TAddress, TAddress]"
  "has_event FluxAggregatorABI ''OwnershipTransferred'' FluxAggregatorOwnershipTransferred [TAddress, TAddress]"
  "has_event FluxAggregatorABI ''RequesterPermissionsSet'' FluxAggregatorRequesterPermissionsSet [TAddress]"
  "has_event FluxAggregatorABI ''RoundDetailsUpdated'' FluxAggregatorRoundDetailsUpdated [TBig, TUint32, TUint32]"
  "has_event FluxAggregatorABI ''SubmissionReceived'' FluxAggregatorSubmissionReceived [TBig, TUint32, TAddress]"
  "has_event FluxAggregatorABI ''ValidatorUpdated'' FluxAggregatorValidatorUpdated [TAddress, TAddress]"
  by code_simp+

lemmas flux_aggregator_defs =
  FluxAggregatorCaller_AllocatedFunds_def FluxAggregatorCaller_AvailableFunds_def
  FluxAggregatorCaller_Decimals_def FluxAggregatorCaller_Description_def FluxAggregatorCaller_GetAdmin_def
  FluxAggregatorCaller_GetAnswer_def FluxAggregatorCaller_GetOracles_def FluxAggregatorCaller_GetRoundData_def
  FluxAggregatorCaller_GetTimestamp_def FluxAggregatorCaller_LatestAnswer_def
  FluxAggregatorCaller_LatestRound_def FluxAggregatorCaller_LatestRoundData_def
  FluxAggregatorCaller_LatestTimestamp_def FluxAggregatorCaller_LinkToken_def
  FluxAggregatorCaller_MaxSubmissionCount_def FluxAggregatorCaller_MaxSubmissionValue_def
  FluxAggregatorCaller_MinSubmissionCount_def FluxAggregatorCaller_MinSubmissionValue_def
  FluxAggregatorCaller_OracleCount_def FluxAggregatorCaller_OracleRoundState_def FluxAggregatorCaller_Owner_def
  FluxAggregatorCaller_PaymentAmount_def FluxAggregatorCaller_RestartDelay_def FluxAggregatorCaller_Timeout_def
  FluxAggregatorCaller_Validator_def FluxAggregatorCaller_Version_def
  FluxAggregatorCaller_WithdrawablePayment_def FluxAggregatorTransactor_AcceptAdmin_def
  FluxAggregatorTransactor_AcceptOwnership_def FluxAggregatorTransactor_ChangeOracles_def
  FluxAggregatorTransactor_OnTokenTransfer_def FluxAggregatorTransactor_RequestNewRound_def
  FluxAggregatorTransactor_SetRequesterPermissions_def FluxAggregatorTransactor_SetValidator_def
  FluxAggregatorTransactor_Submit_def FluxAggregatorTransactor_TransferAdmin_def
  FluxAggregatorTransactor_TransferOwnership_def FluxAggregatorTransactor_UpdateAvailableFunds_def
  FluxAggregatorTransactor_UpdateFutureRounds_def FluxAggregatorTransactor_WithdrawFunds_def
  FluxAggregatorTransactor_WithdrawPayment_def FluxAggregatorFilterer_FilterAnswerUpdated_def
  FluxAggregatorFilterer_WatchAnswerUpdated_def FluxAggregatorFilterer_ParseAnswerUpdated_def
  FluxAggregatorFilterer_FilterAvailableFundsUpdated_def FluxAggregatorFilterer_WatchAvailableFundsUpdated_def
  FluxAggregatorFilterer_ParseAvailableFundsUpdated_def FluxAggregatorFilterer_FilterNewRound_def
  FluxAggregatorFilterer_WatchNewRound_def FluxAggregatorFilterer_ParseNewRound_def
  FluxAggregatorFilterer_FilterOracleAdminUpdateRequested_def
  FluxAggregatorFilterer_WatchOracleAdminUpdateRequested_def
  FluxAggregatorFilterer_ParseOracleAdminUpdateRequested_def FluxAggregatorFilterer_FilterOracleAdminUpdated_def
  FluxAggregatorFilterer_WatchOracleAdminUpdated_def FluxAggregatorFilterer_ParseOracleAdminUpdated_def
  FluxAggregatorFilterer_FilterOraclePermissionsUpdated_def
  FluxAggregatorFilterer_WatchOraclePermissionsUpdated_def
  FluxAggregatorFilterer_ParseOraclePermissionsUpdated_def
  FluxAggregatorFilterer_FilterOwnershipTransferRequested_def
  FluxAggregatorFilterer_WatchOwnershipTransferRequested_def
  FluxAggregatorFilterer_ParseOwnershipTransferRequested_def
  FluxAggregatorFilterer_FilterOwnershipTransferred_def FluxAggregatorFilterer_WatchOwnershipTransferred_def
  FluxAggregatorFilterer_ParseOwnershipTransferred_def FluxAggregatorFilterer_FilterRequesterPermissionsSet_def
  FluxAggregatorFilterer_WatchRequesterPermissionsSet_def
  FluxAggregatorFilterer_ParseRequesterPermissionsSet_def FluxAggregatorFilterer_FilterRoundDetailsUpdated_def
  FluxAggregatorFilterer_WatchRoundDetailsUpdated_def FluxAggregatorFilterer_ParseRoundDetailsUpdated_def
  FluxAggregatorFilterer_FilterSubmissionReceived_def FluxAggregatorFilterer_WatchSubmissionReceived_def
  FluxAggregatorFilterer_ParseSubmissionReceived_def FluxAggregatorFilterer_FilterValidatorUpdated_def
  FluxAggregatorFilterer_WatchValidatorUpdated_def FluxAggregatorFilterer_ParseValidatorUpdated_def
  caller.simps transactor.simps filterer.simps

text \<open>
  Every read-only method of the FluxAggregator binding calls a view method of the
  contract's ABI with arguments of its types, and reads its results at their types, so that it
  returns and never panics; every transaction
  method sends one of the ABI's methods with arguments of its types; and every event is
  filtered, watched and parsed as the ABI declares it.
\<close>

theorem flux_aggregator_binding_conforms:
  assumes "abi_typed B" and "bc_abi C = FluxAggregatorABI"
  shows "safe_call B C opts (FluxAggregatorCaller_AllocatedFunds B \<lparr>caller_contract = C\<rparr> opts) \<and>
    safe_call B C opts (FluxAggregatorCaller_AvailableFunds B \<lparr>caller_contract = C\<rparr> opts) \<and>
    safe_call B C opts (FluxAggregatorCaller_Decimals B \<lparr>caller_contract = C\<rparr> opts) \<and>
    safe_call B C opts (FluxAggregatorCaller_Description B \<lparr>caller_contract = C\<rparr> opts) \<and>
    (\<forall>oracle. safe_call B C opts (FluxAggregatorCaller_GetAdmin B \<lparr>caller_contract = C\<rparr> opts oracle)) \<and>
    (\<forall>roundId. safe_call B C opts (FluxAggregatorCaller_GetAnswer B \<lparr>caller_contract = C\<rparr> opts roundId)) \<and>
    safe_call B C opts (FluxAggregatorCaller_GetOracles B \<lparr>caller_contract = C\<rparr> opts) \<and>
    (\<forall>roundId. safe_call B C opts (FluxAggregatorCaller_GetRoundData B \<lparr>caller_contract = C\<rparr> opts roundId)) \<and>
    (\<forall>roundId. safe_call B C opts (FluxAggregatorCaller_GetTimestamp B \<lparr>caller_contract = C\<rparr> opts roundId)) \<and>
    safe_call B C opts (FluxAggregatorCaller_LatestAnswer B \<lparr>caller_contract = C\<rparr> opts) \<and>
    safe_call B C opts (FluxAggregatorCaller_LatestRound B \<lparr>caller_contract = C\<rparr> opts) \<and>
    safe_call B C opts (FluxAggregatorCaller_LatestRoundData B \<lparr>caller_contract = C\<rparr> opts) \<and>
    safe_call B C opts (FluxAggregatorCaller_LatestTimestamp B \<lparr>caller_contract = C\<rparr> opts) \<and>
    safe_call B C opts (FluxAggregatorCaller_LinkToken B \<lparr>caller_contract = C\<rparr> opts) \<and>
    safe_call B C opts (FluxAggregatorCaller_MaxSubmissionCount B \<lparr>caller_contract = C\<rparr> opts) \<and>
    safe_call B C opts (FluxAggregatorCaller_MaxSubmissionValue B \<lparr>caller_contract = C\<rparr> opts) \<and>
    safe_call B C opts (FluxAggregatorCaller_MinSubmissionCount B \<lparr>caller_contract = C\<rparr> opts) \<and>
    safe_call B C opts (FluxAggregatorCaller_MinSubmissionValue B \<lparr>caller_contract = C\<rparr> opts) \<and>
    safe_call B C opts (FluxAggregatorCaller_OracleCount B \<lparr>caller_contract = C\<rparr> opts) \<and>
    (\<forall>oracle queriedRoundId. safe_call B C opts (FluxAggregatorCaller_OracleRoundState B \<lparr>caller_contract = C\<rparr> opts oracle queriedRoundId)) \<and>
    safe_call B C opts (FluxAggregatorCaller_Owner B \<lparr>caller_contract = C\<rparr> opts) \<and>
    safe_call B C opts (FluxAggregatorCaller_PaymentAmount B \<lparr>caller_contract = C\<rparr> opts) \<and>
    safe_call B C opts (FluxAggregatorCaller_RestartDelay B \<lparr>caller_contract = C\<rparr> opts) \<and>
    safe_call B C opts (FluxAggregatorCaller_Timeout B \<lparr>caller_contract = C\<rparr> opts) \<and>
    safe_call B C opts (FluxAggregatorCaller_Validator B \<lparr>caller_contract = C\<rparr> opts) \<and>
    safe_call B C opts (FluxAggregatorCaller_Version B \<lparr>caller_contract = C\<rparr> opts) \<and>
    (\<forall>oracle. safe_call B C opts (FluxAggregatorCaller_WithdrawablePayment B \<lparr>caller_contract = C\<rparr> opts oracle)) \<and>
    (\<forall>oracle. safe_transact B C auth (FluxAggregatorTransactor_AcceptAdmin B \<lparr>transactor_contract = C\<rparr> auth oracle)) \<and>
    safe_transact B C auth (FluxAggregatorTransactor_AcceptOwnership B \<lparr>transactor_contract = C\<rparr> auth) \<and>
    (\<forall>removed added addedAdmins minSubmissions maxSubmissions restartDelay. safe_transact B C auth (FluxAggregatorTransactor_ChangeOracles B \<lparr>transactor_contract = C\<rparr> auth removed added addedAdmins minSubmissions maxSubmissions restartDelay)) \<and>
    (\<forall>arg0 arg1 data. safe_transact B C auth (FluxAggregatorTransactor_OnTokenTransfer B \<lparr>transactor_contract = C\<rparr> auth arg0 arg1 data)) \<and>
    safe_transact B C auth (FluxAggregatorTransactor_RequestNewRound B \<lparr>transactor_contract = C\<rparr> auth) \<and>
    (\<forall>requester authorized delay. safe_transact B C auth (FluxAggregatorTransactor_SetRequesterPermissions B \<lparr>transactor_contract = C\<rparr> auth requester authorized delay)) \<and>
    (\<forall>newValidator. safe_transact B C auth (FluxAggregatorTransactor_SetValidator B \<lparr>transactor_contract = C\<rparr> auth newValidator)) \<and>
    (\<forall>roundId submission. safe_transact B C auth (FluxAggregatorTransactor_Submit B \<lparr>transactor_contract = C\<rparr> auth roundId submission)) \<and>
    (\<forall>oracle newAdmin. safe_transact B C auth (FluxAggregatorTransactor_TransferAdmin B \<lparr>transactor_contract = C\<rparr> auth oracle newAdmin)) \<and>
    (\<forall>to. safe_transact B C auth (FluxAggregatorTransactor_TransferOwnership B \<lparr>transactor_contract = C\<rparr> auth to)) \<and>
    safe_transact B C auth (FluxAggregatorTransactor_UpdateAvailableFunds B \<lparr>transactor_contract = C\<rparr> auth) \<and>
    (\<forall>paymentAmount minSubmissions maxSubmissions restartDelay timeout. safe_transact B C auth (FluxAggregatorTransactor_UpdateFutureRounds B \<lparr>transactor_contract = C\<rparr> auth paymentAmount minSubmissions maxSubmissions restartDelay timeout)) \<and>
    (\<forall>recipient amount. safe_transact B C auth (FluxAggregatorTransactor_WithdrawFunds B \<lparr>transactor_contract = C\<rparr> auth recipient amount)) \<and>
    (\<forall>oracle recipient amount. safe_transact B C auth (FluxAggregatorTransactor_WithdrawPayment B \<lparr>transactor_contract = C\<rparr> auth oracle recipient amount)) \<and>
    (\<forall>current roundId. safe_event B C fopts wopts sink (FluxAggregatorFilterer_FilterAnswerUpdated B \<lparr>filterer_contract = C\<rparr> fopts current roundId)
      (FluxAggregatorFilterer_WatchAnswerUpdated B \<lparr>filterer_contract = C\<rparr> wopts sink current roundId) (FluxAggregatorFilterer_ParseAnswerUpdated B \<lparr>filterer_contract = C\<rparr>)) \<and>
    (\<forall>amount. safe_event B C fopts wopts sink (FluxAggregatorFilterer_FilterAvailableFundsUpdated B \<lparr>filterer_contract = C\<rparr> fopts amount)
      (FluxAggregatorFilterer_WatchAvailableFundsUpdated B \<lparr>filterer_contract = C\<rparr> wopts sink amount) (FluxAggregatorFilterer_ParseAvailableFundsUpdated B \<lparr>filterer_contract = C\<rparr>)) \<and>
    (\<forall>roundId startedBy. safe_event B C fopts wopts sink (FluxAggregatorFilterer_FilterNewRound B \<lparr>filterer_contract = C\<rparr> fopts roundId startedBy)
      (FluxAggregatorFilterer_WatchNewRound B \<lparr>filterer_contract = C\<rparr> wopts sink roundId startedBy) (FluxAggregatorFilterer_ParseNewRound B \<lparr>filterer_contract = C\<rparr>)) \<and>
    (\<forall>oracle. safe_event B C fopts wopts sink (FluxAggregatorFilterer_FilterOracleAdminUpdateRequested B \<lparr>filterer_contract = C\<rparr> fopts oracle)
      (FluxAggregatorFilterer_WatchOracleAdminUpdateRequested B \<lparr>filterer_contract = C\<rparr> wopts sink oracle) (FluxAggregatorFilterer_ParseOracleAdminUpdateRequested B \<lparr>filterer_contract = C\<rparr>)) \<and>
    (\<forall>oracle newAdmin. safe_event B C fopts wopts sink (FluxAggregatorFilterer_FilterOracleAdminUpdated B \<lparr>filterer_contract = C\<rparr> fopts oracle newAdmin)
      (FluxAggregatorFilterer_WatchOracleAdminUpdated B \<lparr>filterer_contract = C\<rparr> wopts sink oracle newAdmin) (FluxAggregatorFilterer_ParseOracleAdminUpdated B \<lparr>filterer_contract = C\<rparr>)) \<and>
    (\<forall>oracle whitelisted. safe_event B C fopts wopts sink (FluxAggregatorFilterer_FilterOraclePermissionsUpdated B \<lparr>filterer_contract = C\<rparr> fopts oracle whitelisted)
      (FluxAggregatorFilterer_WatchOraclePermissionsUpdated B \<lparr>filterer_contract = C\<rparr> wopts sink oracle whitelisted) (FluxAggregatorFilterer_ParseOraclePermissionsUpdated B \<lparr>filterer_contract = C\<rparr>)) \<and>
    (\<forall>from to. safe_event B C fopts wopts sink (FluxAggregatorFilterer_FilterOwnershipTransferRequested B \<lparr>filterer_contract = C\<rparr> fopts from to)
      (FluxAggregatorFilterer_WatchOwnershipTransferRequested B \<lparr>filterer_contract = C\<rparr> wopts sink from to) (FluxAggregatorFilterer_ParseOwnershipTransferRequested B \<lparr>filterer_contract = C\<rparr>)) \<and>
    (\<forall>from to. safe_event B C fopts wopts sink (FluxAggregatorFilterer_FilterOwnershipTransferred B \<lparr>filterer_contract = C\<rparr> fopts from to)
      (FluxAggregatorFilterer_WatchOwnershipTransferred B \<lparr>filterer_contract = C\<rparr> wopts sink from to) (FluxAggregatorFilterer_ParseOwnershipTransferred B \<lparr>filterer_contract = C\<rparr>)) \<and>
    (\<forall>requester. safe_event B C fopts wopts sink (FluxAggregatorFilterer_FilterRequesterPermissionsSet B \<lparr>filterer_contract = C\<rparr> fopts requester)
      (FluxAggregatorFilterer_WatchRequesterPermissionsSet B \<lparr>filterer_contract = C\<rparr> wopts sink requester) (FluxAggregatorFilterer_ParseRequesterPermissionsSet B \<lparr>filterer_contract = C\<rparr>)) \<and>
    (\<forall>paymentAmount minSubmissionCount maxSubmissionCount. safe_event B C fopts wopts sink (FluxAggregatorFilterer_FilterRoundDetailsUpdated B \<lparr>filterer_contract = C\<rparr> fopts paymentAmount minSubmissionCount maxSubmissionCount)
      (FluxAggregatorFilterer_WatchRoundDetailsUpdated B \<lparr>filterer_contract = C\<rparr> wopts sink paymentAmount minSubmissionCount maxSubmissionCount) (FluxAggregatorFilterer_ParseRoundDetailsUpdated B \<lparr>filterer_contract = C\<rparr>)) \<and>
    (\<forall>submission round oracle. safe_event B C fopts wopts sink (FluxAggregatorFilterer_FilterSubmissionReceived B \<lparr>filterer_contract = C\<rparr> fopts submission round oracle)
      (FluxAggregatorFilterer_WatchSubmissionReceived B \<lparr>filterer_contract = C\<rparr> wopts sink submission round oracle) (FluxAggregatorFilterer_ParseSubmissionReceived B \<lparr>filterer_contract = C\<rparr>)) \<and>
    (\<forall>previous current. safe_event B C fopts wopts sink (FluxAggregatorFilterer_FilterValidatorUpdated B \<lparr>filterer_contract = C\<rparr> fopts previous current)
      (FluxAggregatorFilterer_WatchValidatorUpdated B \<lparr>filterer_contract = C\<rparr> wopts sink previous current) (FluxAggregatorFilterer_ParseValidatorUpdated B \<lparr>filterer_contract = C\<rparr>))"
  unfolding flux_aggregator_defs
  by ((intro conjI allI)?)
     ((rule safe_callI [OF assms(1)], unfold assms(2) list.map type_of.simps, rule flux_aggregator_methods,
        (auto intro!: out_Value [OF assms(1)] bind_outcome_Value)[1])
      | (rule safe_transactI, unfold assms(2) list.map type_of.simps, rule flux_aggregator_transactions)
      | (rule safe_eventI, unfold assms(2), rule flux_aggregator_events, (auto)[1]))+

theorem flux_aggregator_binding_conforms_witness:
  "\<exists>r w'. FluxAggregatorCaller_LatestRoundData sample_bind \<lparr>caller_contract = sample_contract FluxAggregatorABI\<rparr> sample_opts [] = Ret r w'"
  using flux_aggregator_binding_conforms [OF sample_bind_typed, of "sample_contract FluxAggregatorABI" sample_opts]
  by (simp add: safe_call_def sample_contract_def)

end
