(* ===== verification/OffchainAggregator_Binding.thy ===== *)
theory OffchainAggregator_Binding
  imports Bind
begin

text \<open>
  \<open>contracts/ethereum/OffchainAggregator.go\<close>: the generated binding of the contract OffchainAggregator. Its ABI, its structs
  (those of \<open>Bind\<close>) and one definition for each of its functions, named after the type of the
  receiver and the method.
\<close>

definition OffchainAggregatorABI :: abi where
  "OffchainAggregatorABI =
     \<lparr>ab_constructor = [(''_maximumGasPrice'', ''uint32''), (''_reasonableGasPrice'', ''uint32''), (''_microLinkPerEth'', ''uint32''), (''_linkGweiPerObservation'', ''uint32''), (''_linkGweiPerTransmission'', ''uint32''), (''_link'', ''address''), (''_minAnswer'', ''int192''), (''_maxAnswer'', ''int192''), (''_billingAccessController'', ''address''), (''_requesterAccessController'', ''address''), (''_decimals'', ''uint8''), (''_description'', ''string'')],
      ab_methods =
        [\<lparr>am_name = ''LINK'', am_inputs = [], am_outputs = [('''', ''address'')], am_view = True\<rparr>,
         \<lparr>am_name = ''acceptOwnership'', am_inputs = [], am_outputs = [], am_view = False\<rparr>,
         \<lparr>am_name = ''acceptPayeeship'', am_inputs = [(''_transmitter'', ''address'')], am_outputs = [], am_view = False\<rparr>,
         \<lparr>am_name = ''billingAccessController'', am_inputs = [], am_outputs = [('''', ''address'')], am_view = True\<rparr>,
         \<lparr>am_name = ''decimals'', am_inputs = [], am_outputs = [('''', ''uint8'')], am_view = True\<rparr>,
         \<lparr>am_name = ''description'', am_inputs = [], am_outputs = [('''', ''string'')], am_view = True\<rparr>,
         \<lparr>am_name = ''getAnswer'', am_inputs = [(''_roundId'', ''uint256'')], am_outputs = [('''', ''int256'')], am_view = True\<rparr>,
         \<lparr>am_name = ''getBilling'', am_inputs = [], am_outputs = [(''maximumGasPrice'', ''uint32''), (''reasonableGasPrice'', ''uint32''), (''microLinkPerEth'', ''uint32''), (''linkGweiPerObservation'', ''uint32''), (''linkGweiPerTransmission'', ''uint32'')], am_view = True\<rparr>,
         \<lparr>am_name = ''getRoundData'', am_inputs = [(''_roundId'', ''uint80'')], am_outputs = [(''roundId'', ''uint80''), (''answer'', ''int256''), (''startedAt'', ''uint256''), (''updatedAt'', ''uint256''), (''answeredInRound'', ''uint80'')], am_view = True\<rparr>,
         \<lparr>am_name = ''getTimestamp'', am_inputs = [(''_roundId'', ''uint256'')], am_outputs = [('''', ''uint256'')], am_view = True\<rparr>,
         \<lparr>am_name = ''latestAnswer'', am_inputs = [], am_outputs = [('''', ''int256'')], am_view = True\<rparr>,
         \<lparr>am_name = ''latestConfigDetails'', am_inputs = [], am_outputs = [(''configCount'', ''uint32''), (''blockNumber'', ''uint32''), (''configDigest'', ''bytes16'')], am_view = True\<rparr>,
         \<lparr>am_name = ''latestRound'', am_inputs = [], am_outputs = [('''', ''uint256'')], am_view = True\<rparr>,
         \<lparr>am_name = ''latestRoundData'', am_inputs = [], am_outputs = [(''roundId'', ''uint80''), (''answer'', ''int256''), (''startedAt'', ''uint256''), (''updatedAt'', ''uint256''), (''answeredInRound'', ''uint80'')], am_view = True\<rparr>,
         \<lparr>am_name = ''latestTimestamp'', am_inputs = [], am_outputs = [('''', ''uint256'')], am_view = True\<rparr>,
         \<lparr>am_name = ''latestTransmissionDetails'', am_inputs = [], am_outputs = [(''configDigest'', ''bytes16''), (''epoch'', ''uint32''), (''round'', ''uint8''), (''latestAnswer'', ''int192''), (''latestTimestamp'', ''uint64'')], am_view = True\<rparr>,
         \<lparr>am_name = ''linkAvailableForPayment'', am_inputs = [], am_outputs = [(''availableBalance'', ''int256'')], am_view = True\<rparr>,
         \<lparr>am_name = ''maxAnswer'', am_inputs = [], am_outputs = [('''', ''int192'')], am_view = True\<rparr>,
         \<lparr>am_name = ''minAnswer'', am_inputs = [], am_outputs = [('''', ''int192'')], am_view = True\<rparr>,
         \<lparr>am_name = ''oracleObservationCount'', am_inputs = [(''_signerOrTransmitter'', ''address'')], am_outputs = [('''', ''uint16'')], am_view = True\<rparr>,
         \<lparr>am_name = ''owedPayment'', am_inputs = [(''_transmitter'', ''address'')], am_outputs = [('''', ''uint256'')], am_view = True\<rparr>,
         \<lparr>am_name = ''owner'', am_inputs = [], am_outputs = [('''', ''address'')], am_view = True\<rparr>,
         \<lparr>am_name = ''requestNewRound'', am_inputs = [], am_outputs = [('''', ''uint80'')], am_view = False\<rparr>,
         \<lparr>am_name = ''requesterAccessController'', am_inputs = [], am_outputs = [('''', ''address'')], am_view = True\<rparr>,
         \<lparr>am_name = ''setBilling'', am_inputs = [(''_maximumGasPrice'', ''uint32''), (''_reasonableGasPrice'', ''uint32''), (''_microLinkPerEth'', ''uint32''), (''_linkGweiPerObservation'', ''uint32''), (''_linkGweiPerTransmission'', ''uint32'')], am_outputs = [], am_view = False\<rparr>,
         \<lparr>am_name = ''setBillingAccessController'', am_inputs = [(''_billingAccessController'', ''address'')], am_outputs = [], am_view = False\<rparr>,
         \<lparr>am_name = ''setConfig'', am_inputs = [(''_signers'', ''address[]''), (''_transmitters'', ''address[]''), (''_threshold'', ''uint8''), (''_encodedConfigVersion'', ''uint64''), (''_encoded'', ''bytes'')], am_outputs = [], am_view = False\<rparr>,
         \<lparr>am_name = ''setPayees'', am_inputs = [(''_transmitters'', ''address[]''), (''_payees'', ''address[]'')], am_outputs = [], am_view = False\<rparr>,
         \<lparr>am_name = ''setRequesterAccessController'', am_inputs = [(''_requesterAccessController'', ''address'')], am_outputs = [], am_view = False\<rparr>,
         \<lparr>am_name = ''setValidatorConfig'', am_inputs = [(''_newValidator'', ''address''), (''_newGasLimit'', ''uint32'')], am_outputs = [], am_view = False\<rparr>,
         \<lparr>am_name = ''transferOwnership'', am_inputs = [(''_to'', ''address'')], am_outputs = [], am_view = False\<rparr>,
         \<lparr>am_name = ''transferPayeeship'', am_inputs = [(''_transmitter'', ''address''), (''_proposed'', ''address'')], am_outputs = [], am_view = False\<rparr>,
         \<lparr>am_name = ''transmit'', am_inputs = [(''_report'', ''bytes''), (''_rs'', ''bytes32[]''), (''_ss'', ''bytes32[]''), (''_rawVs'', ''bytes32'')], am_outputs = [], am_view = False\<rparr>,
         \<lparr>am_name = ''transmitters'', am_inputs = [], am_outputs = [('''', ''address[]'')], am_view = True\<rparr>,
         \<lparr>am_name = ''typeAndVersion'', am_inputs = [], am_outputs = [('''', ''string'')], am_view = True\<rparr>,
         \<lparr>am_name = ''validatorConfig'', am_inputs = [], am_outputs = [(''validator'', ''address''), (''gasLimit'', ''uint32'')], am_view = True\<rparr>,
         \<lparr>am_name = ''version'', am_inputs = [], am_outputs = [('''', ''uint256'')], am_view = True\<rparr>,
         \<lparr>am_name = ''withdrawFunds'', am_inputs = [(''_recipient'', ''address''), (''_amount'', ''uint256'')], am_outputs = [], am_view = False\<rparr>,
         \<lparr>am_name = ''withdrawPayment'', am_inputs = [(''_transmitter'', ''address'')], am_outputs = [], am_view = False\<rparr>],
      ab_events =
        [\<lparr>ae_name = ''AnswerUpdated'', ae_inputs = [(''current'', ''int256'', True), (''roundId'', ''uint256'', True), (''updatedAt'', ''uint256'', False)]\<rparr>,
         \<lparr>ae_name = ''BillingAccessControllerSet'', ae_inputs = [(''old'', ''address'', False), (''current'', ''address'', False)]\<rparr>,
         \<lparr>ae_name = ''BillingSet'', ae_inputs = [(''maximumGasPrice'', ''uint32'', False), (''reasonableGasPrice'', ''uint32'', False), (''microLinkPerEth'', ''uint32'', False), (''linkGweiPerObservation'', ''uint32'', False), (''linkGweiPerTransmission'', ''uint32'', False)]\<rparr>,
         \<lparr>ae_name = ''ConfigSet'', ae_inputs = [(''previousConfigBlockNumber'', ''uint32'', False), (''configCount'', ''uint64'', False), (''signers'', ''address[]'', False), (''transmitters'', ''address[]'', False), (''threshold'', ''uint8'', False), (''encodedConfigVersion'', ''uint64'', False), (''encoded'', ''bytes'', False)]\<rparr>,
         \<lparr>ae_name = ''NewRound'', ae_inputs = [(''roundId'', ''uint256'', True), (''startedBy'', ''address'', True), (''startedAt'', ''uint256'', False)]\<rparr>,
         \<lparr>ae_name = ''NewTransmission'', ae_inputs = [(''aggregatorRoundId'', ''uint32'', True), (''answer'', ''int192'', False), (''transmitter'', ''address'', False), (''observations'', ''int192[]'', False), (''observers'', ''bytes'', False), (''rawReportContext'', ''bytes32'', False)]\<rparr>,
         \<lparr>ae_name = ''OraclePaid'', ae_inputs = [(''transmitter'', ''address'', False), (''payee'', ''address'', False), (''amount'', ''uint256'', False)]\<rparr>,
         \<lparr>ae_name = ''OwnershipTransferRequested'', ae_inputs = [(''from'', ''address'', True), (''to'', ''address'', True)]\<rparr>,
         \<lparr>ae_name = ''OwnershipTransferred'', ae_inputs = [(''from'', ''address'', True), (''to'', ''address'', True)]\<rparr>,
         \<lparr>ae_name = ''PayeeshipTransferRequested'', ae_inputs = [(''transmitter'', ''address'', True), (''current'', ''address'', True), (''proposed'', ''address'', True)]\<rparr>,
         \<lparr>ae_name = ''PayeeshipTransferred'', ae_inputs = [(''transmitter'', ''address'', True), (''previous'', ''address'', True), (''current'', ''address'', True)]\<rparr>,
         \<lparr>ae_name = ''RequesterAccessControllerSet'', ae_inputs = [(''old'', ''address'', False), (''current'', ''address'', False)]\<rparr>,
         \<lparr>ae_name = ''RoundRequested'', ae_inputs = [(''requester'', ''address'', True), (''configDigest'', ''bytes16'', False), (''epoch'', ''uint32'', False), (''round'', ''uint8'', False)]\<rparr>,
         \<lparr>ae_name = ''ValidatorConfigSet'', ae_inputs = [(''previousValidator'', ''address'', True), (''previousGasLimit'', ''uint32'', False), (''currentValidator'', ''address'', True), (''currentGasLimit'', ''uint32'', False)]\<rparr>]\<rparr>"

type_synonym OffchainAggregator = binding

type_synonym OffchainAggregatorCaller = caller

type_synonym OffchainAggregatorTransactor = transactor

type_synonym OffchainAggregatorFilterer = filterer

type_synonym OffchainAggregatorSession = session

type_synonym OffchainAggregatorCallerSession = caller_session

type_synonym OffchainAggregatorTransactorSession = transactor_session

type_synonym OffchainAggregatorRaw = raw

type_synonym OffchainAggregatorCallerRaw = caller_raw

type_synonym OffchainAggregatorTransactorRaw = transactor_raw

definition DeployOffchainAggregator :: "'w bind \<Rightarrow> TransactOpts \<Rightarrow> backend \<Rightarrow> u32 \<Rightarrow> u32 \<Rightarrow> u32 \<Rightarrow> u32 \<Rightarrow> u32 \<Rightarrow> address \<Rightarrow> big \<Rightarrow> big \<Rightarrow> address \<Rightarrow> address \<Rightarrow> u8 \<Rightarrow> string \<Rightarrow> 'w \<Rightarrow> (go_error + address \<times> Transaction \<times> binding, 'w) go" where
  "DeployOffchainAggregator B auth backend maximumGasPrice reasonableGasPrice microLinkPerEth linkGweiPerObservation linkGweiPerTransmission link minAnswer maxAnswer billingAccessController requesterAccessController decimals description =
     deploy_contract B OffchainAggregatorABI OffchainAggregatorBin auth backend
       [VUint32 maximumGasPrice, VUint32 reasonableGasPrice, VUint32 microLinkPerEth, VUint32 linkGweiPerObservation, VUint32 linkGweiPerTransmission, VAddress link, VBig minAnswer, VBig maxAnswer, VAddress billingAccessController, VAddress requesterAccessController, VUint8 decimals, VString description]"

definition bindOffchainAggregator :: "'w bind \<Rightarrow> address \<Rightarrow> backend option \<Rightarrow> backend option \<Rightarrow> backend option \<Rightarrow> go_error + BoundContract" where
  "bindOffchainAggregator B address caller transactor filterer = bind_contract B OffchainAggregatorABI address caller transactor filterer"

definition NewOffchainAggregator :: "'w bind \<Rightarrow> address \<Rightarrow> backend \<Rightarrow> go_error + binding" where
  "NewOffchainAggregator B address backend =
     (case bindOffchainAggregator B address (Some backend) (Some backend) (Some backend) of
        Inl err \<Rightarrow> Inl err
      | Inr contract \<Rightarrow> Inr (binding_of contract))"

definition NewOffchainAggregatorCaller :: "'w bind \<Rightarrow> address \<Rightarrow> backend \<Rightarrow> go_error + caller" where
  "NewOffchainAggregatorCaller B address b =
     (case bindOffchainAggregator B address (Some b) None None of
        Inl err \<Rightarrow> Inl err
      | Inr contract \<Rightarrow> Inr \<lparr>caller_contract = contract\<rparr>)"

definition NewOffchainAggregatorTransactor :: "'w bind \<Rightarrow> address \<Rightarrow> backend \<Rightarrow> go_error + transactor" where
  "NewOffchainAggregatorTransactor B address b =
     (case bindOffchainAggregator B address None (Some b) None of
        Inl err \<Rightarrow> Inl err
      | Inr contract \<Rightarrow> Inr \<lparr>transactor_contract = contract\<rparr>)"

definition NewOffchainAggregatorFilterer :: "'w bind \<Rightarrow> address \<Rightarrow> backend \<Rightarrow> go_error + filterer" where
  "NewOffchainAggregatorFilterer B address b =
     (case bindOffchainAggregator B address None None (Some b) of
        Inl err \<Rightarrow> Inl err
      | Inr contract \<Rightarrow> Inr \<lparr>filterer_contract = contract\<rparr>)"

definition OffchainAggregatorRaw_Call :: "'w bind \<Rightarrow> raw \<Rightarrow> CallOpts \<Rightarrow> string \<Rightarrow> abi_val list \<Rightarrow> 'w \<Rightarrow> (go_error + abi_val list, 'w) go" where
  "OffchainAggregatorRaw_Call B r opts method params = call (BindCall B (caller_contract (Caller (raw_Contract r))) opts method params)"

definition OffchainAggregatorRaw_Transfer :: "'w bind \<Rightarrow> raw \<Rightarrow> TransactOpts \<Rightarrow> 'w \<Rightarrow> (go_error + Transaction, 'w) go" where
  "OffchainAggregatorRaw_Transfer B r opts = call (BindTransfer B (transactor_contract (Transactor (raw_Contract r))) opts)"

definition OffchainAggregatorRaw_Transact :: "'w bind \<Rightarrow> raw \<Rightarrow> TransactOpts \<Rightarrow> string \<Rightarrow> abi_val list \<Rightarrow> 'w \<Rightarrow> (go_error + Transaction, 'w) go" where
  "OffchainAggregatorRaw_Transact B r opts method params = call (BindTransact B (transactor_contract (Transactor (raw_Contract r))) opts method params)"

definition OffchainAggregatorCallerRaw_Call :: "'w bind \<Rightarrow> caller_raw \<Rightarrow> CallOpts \<Rightarrow> string \<Rightarrow> abi_val list \<Rightarrow> 'w \<Rightarrow> (go_error + abi_val list, 'w) go" where
  "OffchainAggregatorCallerRaw_Call B r opts method params = call (BindCall B (caller_contract (craw_Contract r)) opts method params)"

definition OffchainAggregatorTransactorRaw_Transfer :: "'w bind \<Rightarrow> transactor_raw \<Rightarrow> TransactOpts \<Rightarrow> 'w \<Rightarrow> (go_error + Transaction, 'w) go" where
  "OffchainAggregatorTransactorRaw_Transfer B r opts = call (BindTransfer B (transactor_contract (traw_Contract r)) opts)"

definition OffchainAggregatorTransactorRaw_Transact :: "'w bind \<Rightarrow> transactor_raw \<Rightarrow> TransactOpts \<Rightarrow> string \<Rightarrow> abi_val list \<Rightarrow> 'w \<Rightarrow> (go_error + Transaction, 'w) go" where
  "OffchainAggregatorTransactorRaw_Transact B r opts method params = call (BindTransact B (transactor_contract (traw_Contract r)) opts method params)"

section \<open>Read-only methods\<close>

definition OffchainAggregatorCaller_LINK :: "'w bind \<Rightarrow> caller \<Rightarrow> CallOpts \<Rightarrow> 'w \<Rightarrow> (address \<times> err, 'w) go" where
  "OffchainAggregatorCaller_LINK B c opts =
     call_method_with B (caller_contract c) opts ''LINK'' []
       (\<lambda>out. out_address B out 0) 0"

definition OffchainAggregatorSession_LINK :: "'w bind \<Rightarrow> session \<Rightarrow> 'w \<Rightarrow> (address \<times> err, 'w) go" where
  "OffchainAggregatorSession_LINK B s = OffchainAggregatorCaller_LINK B (Caller (ses_Contract s)) (ses_CallOpts s)"

definition OffchainAggregatorCallerSession_LINK :: "'w bind \<Rightarrow> caller_session \<Rightarrow> 'w \<Rightarrow> (address \<times> err, 'w) go" where
  "OffchainAggregatorCallerSession_LINK B s = OffchainAggregatorCaller_LINK B (cs_Contract s) (cs_CallOpts s)"

definition OffchainAggregatorCaller_BillingAccessController :: "'w bind \<Rightarrow> caller \<Rightarrow> CallOpts \<Rightarrow> 'w \<Rightarrow> (address \<times> err, 'w) go" where
  "OffchainAggregatorCaller_BillingAccessController B c opts =
     call_method_with B (caller_contract c) opts ''billingAccessController'' []
       (\<lambda>out. out_address B out 0) 0"

definition OffchainAggregatorSession_BillingAccessController :: "'w bind \<Rightarrow> session \<Rightarrow> 'w \<Rightarrow> (address \<times> err, 'w) go" where
  "OffchainAggregatorSession_BillingAccessController B s = OffchainAggregatorCaller_BillingAccessController B (Caller (ses_Contract s)) (ses_CallOpts s)"

definition OffchainAggregatorCallerSession_BillingAccessController :: "'w bind \<Rightarrow> caller_session \<Rightarrow> 'w \<Rightarrow> (address \<times> err, 'w) go" where
  "OffchainAggregatorCallerSession_BillingAccessController B s = OffchainAggregatorCaller_BillingAccessController B (cs_Contract s) (cs_CallOpts s)"

definition OffchainAggregatorCaller_Decimals :: "'w bind \<Rightarrow> caller \<Rightarrow> CallOpts \<Rightarrow> 'w \<Rightarrow> (u8 \<times> err, 'w) go" where
  "OffchainAggregatorCaller_Decimals B c opts =
     call_method_with B (caller_contract c) opts ''decimals'' []
       (\<lambda>out. out_uint8 B out 0) 0"

definition OffchainAggregatorSession_Decimals :: "'w bind \<Rightarrow> session \<Rightarrow> 'w \<Rightarrow> (u8 \<times> err, 'w) go" where
  "OffchainAggregatorSession_Decimals B s = OffchainAggregatorCaller_Decimals B (Caller (ses_Contract s)) (ses_CallOpts s)"

definition OffchainAggregatorCallerSession_Decimals :: "'w bind \<Rightarrow> caller_session \<Rightarrow> 'w \<Rightarrow> (u8 \<times> err, 'w) go" where
  "OffchainAggregatorCallerSession_Decimals B s = OffchainAggregatorCaller_Decimals B (cs_Contract s) (cs_CallOpts s)"

definition OffchainAggregatorCaller_Description :: "'w bind \<Rightarrow> caller \<Rightarrow> CallOpts \<Rightarrow> 'w \<Rightarrow> (string \<times> err, 'w) go" where
  "OffchainAggregatorCaller_Description B c opts =
     call_method_with B (caller_contract c) opts ''description'' []
       (\<lambda>out. out_string B out 0) []"

definition OffchainAggregatorSession_Description :: "'w bind \<Rightarrow> session \<Rightarrow> 'w \<Rightarrow> (string \<times> err, 'w) go" where
  "OffchainAggregatorSession_Description B s = OffchainAggregatorCaller_Description B (Caller (ses_Contract s)) (ses_CallOpts s)"

definition OffchainAggregatorCallerSession_Description :: "'w bind \<Rightarrow> caller_session \<Rightarrow> 'w \<Rightarrow> (string \<times> err, 'w) go" where
  "OffchainAggregatorCallerSession_Description B s = OffchainAggregatorCaller_Description B (cs_Contract s) (cs_CallOpts s)"

definition OffchainAggregatorCaller_GetAnswer :: "'w bind \<Rightarrow> caller \<Rightarrow> CallOpts \<Rightarrow> big \<Rightarrow> 'w \<Rightarrow> (big \<times> err, 'w) go" where
  "OffchainAggregatorCaller_GetAnswer B c opts roundId =
     call_method_with B (caller_contract c) opts ''getAnswer'' [VBig roundId]
       (\<lambda>out. out_big B out 0) nil"

definition OffchainAggregatorSession_GetAnswer :: "'w bind \<Rightarrow> session \<Rightarrow> big \<Rightarrow> 'w \<Rightarrow> (big \<times> err, 'w) go" where
  "OffchainAggregatorSession_GetAnswer B s roundId = OffchainAggregatorCaller_GetAnswer B (Caller (ses_Contract s)) (ses_CallOpts s) roundId"

definition OffchainAggregatorCallerSession_GetAnswer :: "'w bind \<Rightarrow> caller_session \<Rightarrow> big \<Rightarrow> 'w \<Rightarrow> (big \<times> err, 'w) go" where
  "OffchainAggregatorCallerSession_GetAnswer B s roundId = OffchainAggregatorCaller_GetAnswer B (cs_Contract s) (cs_CallOpts s) roundId"

record OffchainAggregator_GetBilling_results =
  oa_gb_MaximumGasPrice :: "u32"
  oa_gb_ReasonableGasPrice :: "u32"
  oa_gb_MicroLinkPerEth :: "u32"
  oa_gb_LinkGweiPerObservation :: "u32"
  oa_gb_LinkGweiPerTransmission :: "u32"

definition OffchainAggregatorCaller_GetBilling :: "'w bind \<Rightarrow> caller \<Rightarrow> CallOpts \<Rightarrow> 'w \<Rightarrow> (OffchainAggregator_GetBilling_results \<times> err, 'w) go" where
  "OffchainAggregatorCaller_GetBilling B c opts =
     call_method_with B (caller_contract c) opts ''getBilling'' []
       (\<lambda>out. 
          bind_outcome (out_uint32 B out 0) (\<lambda>x0.
          bind_outcome (out_uint32 B out 1) (\<lambda>x1.
          bind_outcome (out_uint32 B out 2) (\<lambda>x2.
          bind_outcome (out_uint32 B out 3) (\<lambda>x3.
          bind_outcome (out_uint32 B out 4) (\<lambda>x4.
          Value \<lparr>oa_gb_MaximumGasPrice = x0, oa_gb_ReasonableGasPrice = x1, oa_gb_MicroLinkPerEth = x2, oa_gb_LinkGweiPerObservation = x3, oa_gb_LinkGweiPerTransmission = x4\<rparr>)))))) \<lparr>oa_gb_MaximumGasPrice = 0, oa_gb_ReasonableGasPrice = 0, oa_gb_MicroLinkPerEth = 0, oa_gb_LinkGweiPerObservation = 0, oa_gb_LinkGweiPerTransmission = 0\<rparr>"

definition OffchainAggregatorSession_GetBilling :: "'w bind \<Rightarrow> session \<Rightarrow> 'w \<Rightarrow> (OffchainAggregator_GetBilling_results \<times> err, 'w) go" where
  "OffchainAggregatorSession_GetBilling B s = OffchainAggregatorCaller_GetBilling B (Caller (ses_Contract s)) (ses_CallOpts s)"

definition OffchainAggregatorCallerSession_GetBilling :: "'w bind \<Rightarrow> caller_session \<Rightarrow> 'w \<Rightarrow> (OffchainAggregator_GetBilling_results \<times> err, 'w) go" where
  "OffchainAggregatorCallerSession_GetBilling B s = OffchainAggregatorCaller_GetBilling B (cs_Contract s) (cs_CallOpts s)"

definition OffchainAggregatorCaller_GetRoundData :: "'w bind \<Rightarrow> caller \<Rightarrow> CallOpts \<Rightarrow> big \<Rightarrow> 'w \<Rightarrow> (RoundData \<times> err, 'w) go" where
  "OffchainAggregatorCaller_GetRoundData B c opts roundId =
     call_method_with B (caller_contract c) opts ''getRoundData'' [VBig roundId]
       (\<lambda>out. 
          bind_outcome (out_big B out 0) (\<lambda>x0.
          bind_outcome (out_big B out 1) (\<lambda>x1.
          bind_outcome (out_big B out 2) (\<lambda>x2.
          bind_outcome (out_big B out 3) (\<lambda>x3.
          bind_outcome (out_big B out 4) (\<lambda>x4.
          Value \<lparr>rd_RoundId = x0, rd_Answer = x1, rd_StartedAt = x2, rd_UpdatedAt = x3, rd_AnsweredInRound = x4\<rparr>)))))) \<lparr>rd_RoundId = nil, rd_Answer = nil, rd_StartedAt = nil, rd_UpdatedAt = nil, rd_AnsweredInRound = nil\<rparr>"

definition OffchainAggregatorSession_GetRoundData :: "'w bind \<Rightarrow> session \<Rightarrow> big \<Rightarrow> 'w \<Rightarrow> (RoundData \<times> err, 'w) go" where
  "OffchainAggregatorSession_GetRoundData B s roundId = OffchainAggregatorCaller_GetRoundData B (Caller (ses_Contract s)) (ses_CallOpts s) roundId"

definition OffchainAggregatorCallerSession_GetRoundData :: "'w bind \<Rightarrow> caller_session \<Rightarrow> big \<Rightarrow> 'w \<Rightarrow> (RoundData \<times> err, 'w) go" where
  "OffchainAggregatorCallerSession_GetRoundData B s roundId = OffchainAggregatorCaller_GetRoundData B (cs_Contract s) (cs_CallOpts s) roundId"

definition OffchainAggregatorCaller_GetTimestamp :: "'w bind \<Rightarrow> caller \<Rightarrow> CallOpts \<Rightarrow> big \<Rightarrow> 'w \<Rightarrow> (big \<times> err, 'w) go" where
  "OffchainAggregatorCaller_GetTimestamp B c opts roundId =
     call_method_with B (caller_contract c) opts ''getTimestamp'' [VBig roundId]
       (\<lambda>out. out_big B out 0) nil"

definition OffchainAggregatorSession_GetTimestamp :: "'w bind \<Rightarrow> session \<Rightarrow> big \<Rightarrow> 'w \<Rightarrow> (big \<times> err, 'w) go" where
  "OffchainAggregatorSession_GetTimestamp B s roundId = OffchainAggregatorCaller_GetTimestamp B (Caller (ses_Contract s)) (ses_CallOpts s) roundId"

definition OffchainAggregatorCallerSession_GetTimestamp :: "'w bind \<Rightarrow> caller_session \<Rightarrow> big \<Rightarrow> 'w \<Rightarrow> (big \<times> err, 'w) go" where
  "OffchainAggregatorCallerSession_GetTimestamp B s roundId = OffchainAggregatorCaller_GetTimestamp B (cs_Contract s) (cs_CallOpts s) roundId"

definition OffchainAggregatorCaller_LatestAnswer :: "'w bind \<Rightarrow> caller \<Rightarrow> CallOpts \<Rightarrow> 'w \<Rightarrow> (big \<times> err, 'w) go" where
  "OffchainAggregatorCaller_LatestAnswer B c opts =
     call_method_with B (caller_contract c) opts ''latestAnswer'' []
       (\<lambda>out. out_big B out 0) nil"

definition OffchainAggregatorSession_LatestAnswer :: "'w bind \<Rightarrow> session \<Rightarrow> 'w \<Rightarrow> (big \<times> err, 'w) go" where
  "OffchainAggregatorSession_LatestAnswer B s = OffchainAggregatorCaller_LatestAnswer B (Caller (ses_Contract s)) (ses_CallOpts s)"

definition OffchainAggregatorCallerSession_LatestAnswer :: "'w bind \<Rightarrow> caller_session \<Rightarrow> 'w \<Rightarrow> (big \<times> err, 'w) go" where
  "OffchainAggregatorCallerSession_LatestAnswer B s = OffchainAggregatorCaller_LatestAnswer B (cs_Contract s) (cs_CallOpts s)"

record OffchainAggregator_LatestConfigDetails_results =
  oa_lcd_ConfigCount :: "u32"
  oa_lcd_BlockNumber :: "u32"
  oa_lcd_ConfigDigest :: "string"

definition OffchainAggregatorCaller_LatestConfigDetails :: "'w bind \<Rightarrow> caller \<Rightarrow> CallOpts \<Rightarrow> 'w \<Rightarrow> (OffchainAggregator_LatestConfigDetails_results \<times> err, 'w) go" where
  "OffchainAggregatorCaller_LatestConfigDetails B c opts =
     call_method_with B (caller_contract c) opts ''latestConfigDetails'' []
       (\<lambda>out. 
          bind_outcome (out_uint32 B out 0) (\<lambda>x0.
          bind_outcome (out_uint32 B out 1) (\<lambda>x1.
          bind_outcome (out_bytes16 B out 2) (\<lambda>x2.
          Value \<lparr>oa_lcd_ConfigCount = x0, oa_lcd_BlockNumber = x1, oa_lcd_ConfigDigest = x2\<rparr>)))) \<lparr>oa_lcd_ConfigCount = 0, oa_lcd_BlockNumber = 0, oa_lcd_ConfigDigest = zero_bytes16\<rparr>"

definition OffchainAggregatorSession_LatestConfigDetails :: "'w bind \<Rightarrow> session \<Rightarrow> 'w \<Rightarrow> (OffchainAggregator_LatestConfigDetails_results \<times> err, 'w) go" where
  "OffchainAggregatorSession_LatestConfigDetails B s = OffchainAggregatorCaller_LatestConfigDetails B (Caller (ses_Contract s)) (ses_CallOpts s)"

definition OffchainAggregatorCallerSession_LatestConfigDetails :: "'w bind \<Rightarrow> caller_session \<Rightarrow> 'w \<Rightarrow> (OffchainAggregator_LatestConfigDetails_results \<times> err, 'w) go" where
  "OffchainAggregatorCallerSession_LatestConfigDetails B s = OffchainAggregatorCaller_LatestConfigDetails B (cs_Contract s) (cs_CallOpts s)"

definition OffchainAggregatorCaller_LatestRound :: "'w bind \<Rightarrow> caller \<Rightarrow> CallOpts \<Rightarrow> 'w \<Rightarrow> (big \<times> err, 'w) go" where
  "OffchainAggregatorCaller_LatestRound B c opts =
     call_method_with B (caller_contract c) opts ''latestRound'' []
       (\<lambda>out. out_big B out 0) nil"

definition OffchainAggregatorSession_LatestRound :: "'w bind \<Rightarrow> session \<Rightarrow> 'w \<Rightarrow> (big \<times> err, 'w) go" where
  "OffchainAggregatorSession_LatestRound B s = OffchainAggregatorCaller_LatestRound B (Caller (ses_Contract s)) (ses_CallOpts s)"

definition OffchainAggregatorCallerSession_LatestRound :: "'w bind \<Rightarrow> caller_session \<Rightarrow> 'w \<Rightarrow> (big \<times> err, 'w) go" where
  "OffchainAggregatorCallerSession_LatestRound B s = OffchainAggregatorCaller_LatestRound B (cs_Contract s) (cs_CallOpts s)"

definition OffchainAggregatorCaller_LatestRoundData :: "'w bind \<Rightarrow> caller \<Rightarrow> CallOpts \<Rightarrow> 'w \<Rightarrow> (RoundData \<times> err, 'w) go" where
  "OffchainAggregatorCaller_LatestRoundData B c opts =
     call_method_with B (caller_contract c) opts ''latestRoundData'' []
       (\<lambda>out. 
          bind_outcome (out_big B out 0) (\<lambda>x0.
          bind_outcome (out_big B out 1) (\<lambda>x1.
          bind_outcome (out_big B out 2) (\<lambda>x2.
          bind_outcome (out_big B out 3) (\<lambda>x3.
          bind_outcome (out_big B out 4) (\<lambda>x4.
          Value \<lparr>rd_RoundId = x0, rd_Answer = x1, rd_StartedAt = x2, rd_UpdatedAt = x3, rd_AnsweredInRound = x4\<rparr>)))))) \<lparr>rd_RoundId = nil, rd_Answer = nil, rd_StartedAt = nil, rd_UpdatedAt = nil, rd_AnsweredInRound = nil\<rparr>"

definition OffchainAggregatorSession_LatestRoundData :: "'w bind \<Rightarrow> session \<Rightarrow> 'w \<Rightarrow> (RoundData \<times> err, 'w) go" where
  "OffchainAggregatorSession_LatestRoundData B s = OffchainAggregatorCaller_LatestRoundData B (Caller (ses_Contract s)) (ses_CallOpts s)"

definition OffchainAggregatorCallerSession_LatestRoundData :: "'w bind \<Rightarrow> caller_session \<Rightarrow> 'w \<Rightarrow> (RoundData \<times> err, 'w) go" where
  "OffchainAggregatorCallerSession_LatestRoundData B s = OffchainAggregatorCaller_LatestRoundData B (cs_Contract s) (cs_CallOpts s)"

definition OffchainAggregatorCaller_LatestTimestamp :: "'w bind \<Rightarrow> caller \<Rightarrow> CallOpts \<Rightarrow> 'w \<Rightarrow> (big \<times> err, 'w) go" where
  "OffchainAggregatorCaller_LatestTimestamp B c opts =
     call_method_with B (caller_contract c) opts ''latestTimestamp'' []
       (\<lambda>out. out_big B out 0) nil"

definition OffchainAggregatorSession_LatestTimestamp :: "'w bind \<Rightarrow> session \<Rightarrow> 'w \<Rightarrow> (big \<times> err, 'w) go" where
  "OffchainAggregatorSession_LatestTimestamp B s = OffchainAggregatorCaller_LatestTimestamp B (Caller (ses_Contract s)) (ses_CallOpts s)"

definition OffchainAggregatorCallerSession_LatestTimestamp :: "'w bind \<Rightarrow> caller_session \<Rightarrow> 'w \<Rightarrow> (big \<times> err, 'w) go" where
  "OffchainAggregatorCallerSession_LatestTimestamp B s = OffchainAggregatorCaller_LatestTimestamp B (cs_Contract s) (cs_CallOpts s)"

record OffchainAggregator_LatestTransmissionDetails_results =
  oa_ltd_ConfigDigest :: "string"
  oa_ltd_Epoch :: "u32"
  oa_ltd_Round :: "u8"
  oa_ltd_LatestAnswer :: "big"
  oa_ltd_LatestTimestamp :: "u64"

definition OffchainAggregatorCaller_LatestTransmissionDetails :: "'w bind \<Rightarrow> caller \<Rightarrow> CallOpts \<Rightarrow> 'w \<Rightarrow> (OffchainAggregator_LatestTransmissionDetails_results \<times> err, 'w) go" where
  "OffchainAggregatorCaller_LatestTransmissionDetails B c opts =
     call_method_with B (caller_contract c) opts ''latestTransmissionDetails'' []
       (\<lambda>out. 
          bind_outcome (out_bytes16 B out 0) (\<lambda>x0.
          bind_outcome (out_uint32 B out 1) (\<lambda>x1.
          bind_outcome (out_uint8 B out 2) (\<lambda>x2.
          bind_outcome (out_big B out 3) (\<lambda>x3.
          bind_outcome (out_uint64 B out 4) (\<lambda>x4.
          Value \<lparr>oa_ltd_ConfigDigest = x0, oa_ltd_Epoch = x1, oa_ltd_Round = x2, oa_ltd_LatestAnswer = x3, oa_ltd_LatestTimestamp = x4\<rparr>)))))) \<lparr>oa_ltd_ConfigDigest = zero_bytes16, oa_ltd_Epoch = 0, oa_ltd_Round = 0, oa_ltd_LatestAnswer = nil, oa_ltd_LatestTimestamp = 0\<rparr>"

definition OffchainAggregatorSession_LatestTransmissionDetails :: "'w bind \<Rightarrow> session \<Rightarrow> 'w \<Rightarrow> (OffchainAggregator_LatestTransmissionDetails_results \<times> err, 'w) go" where
  "OffchainAggregatorSession_LatestTransmissionDetails B s = OffchainAggregatorCaller_LatestTransmissionDetails B (Caller (ses_Contract s)) (ses_CallOpts s)"

definition OffchainAggregatorCallerSession_LatestTransmissionDetails :: "'w bind \<Rightarrow> caller_session \<Rightarrow> 'w \<Rightarrow> (OffchainAggregator_LatestTransmissionDetails_results \<times> err, 'w) go" where
  "OffchainAggregatorCallerSession_LatestTransmissionDetails B s = OffchainAggregatorCaller_LatestTransmissionDetails B (cs_Contract s) (cs_CallOpts s)"

definition OffchainAggregatorCaller_LinkAvailableForPayment :: "'w bind \<Rightarrow> caller \<Rightarrow> CallOpts \<Rightarrow> 'w \<Rightarrow> (big \<times> err, 'w) go" where
  "OffchainAggregatorCaller_LinkAvailableForPayment B c opts =
     call_method_with B (caller_contract c) opts ''linkAvailableForPayment'' []
       (\<lambda>out. out_big B out 0) nil"

definition OffchainAggregatorSession_LinkAvailableForPayment :: "'w bind \<Rightarrow> session \<Rightarrow> 'w \<Rightarrow> (big \<times> err, 'w) go" where
  "OffchainAggregatorSession_LinkAvailableForPayment B s = OffchainAggregatorCaller_LinkAvailableForPayment B (Caller (ses_Contract s)) (ses_CallOpts s)"

definition OffchainAggregatorCallerSession_LinkAvailableForPayment :: "'w bind \<Rightarrow> caller_session \<Rightarrow> 'w \<Rightarrow> (big \<times> err, 'w) go" where
  "OffchainAggregatorCallerSession_LinkAvailableForPayment B s = OffchainAggregatorCaller_LinkAvailableForPayment B (cs_Contract s) (cs_CallOpts s)"

definition OffchainAggregatorCaller_MaxAnswer :: "'w bind \<Rightarrow> caller \<Rightarrow> CallOpts \<Rightarrow> 'w \<Rightarrow> (big \<times> err, 'w) go" where
  "OffchainAggregatorCaller_MaxAnswer B c opts =
     call_method_with B (caller_contract c) opts ''maxAnswer'' []
       (\<lambda>out. out_big B out 0) nil"

definition OffchainAggregatorSession_MaxAnswer :: "'w bind \<Rightarrow> session \<Rightarrow> 'w \<Rightarrow> (big \<times> err, 'w) go" where
  "OffchainAggregatorSession_MaxAnswer B s = OffchainAggregatorCaller_MaxAnswer B (Caller (ses_Contract s)) (ses_CallOpts s)"

definition OffchainAggregatorCallerSession_MaxAnswer :: "'w bind \<Rightarrow> caller_session \<Rightarrow> 'w \<Rightarrow> (big \<times> err, 'w) go" where
  "OffchainAggregatorCallerSession_MaxAnswer B s = OffchainAggregatorCaller_MaxAnswer B (cs_Contract s) (cs_CallOpts s)"

definition OffchainAggregatorCaller_MinAnswer :: "'w bind \<Rightarrow> caller \<Rightarrow> CallOpts \<Rightarrow> 'w \<Rightarrow> (big \<times> err, 'w) go" where
  "OffchainAggregatorCaller_MinAnswer B c opts =
     call_method_with B (caller_contract c) opts ''minAnswer'' []
       (\<lambda>out. out_big B out 0) nil"

definition OffchainAggregatorSession_MinAnswer :: "'w bind \<Rightarrow> session \<Rightarrow> 'w \<Rightarrow> (big \<times> err, 'w) go" where
  "OffchainAggregatorSession_MinAnswer B s = OffchainAggregatorCaller_MinAnswer B (Caller (ses_Contract s)) (ses_CallOpts s)"

definition OffchainAggregatorCallerSession_MinAnswer :: "'w bind \<Rightarrow> caller_session \<Rightarrow> 'w \<Rightarrow> (big \<times> err, 'w) go" where
  "OffchainAggregatorCallerSession_MinAnswer B s = OffchainAggregatorCaller_MinAnswer B (cs_Contract s) (cs_CallOpts s)"

definition OffchainAggregatorCaller_OracleObservationCount :: "'w bind \<Rightarrow> caller \<Rightarrow> CallOpts \<Rightarrow> address \<Rightarrow> 'w \<Rightarrow> (u16 \<times> err, 'w) go" where
  "OffchainAggregatorCaller_OracleObservationCount B c opts signerOrTransmitter =
     call_method_with B (caller_contract c) opts ''oracleObservationCount'' [VAddress signerOrTransmitter]
       (\<lambda>out. out_uint16 B out 0) 0"

definition OffchainAggregatorSession_OracleObservationCount :: "'w bind \<Rightarrow> session \<Rightarrow> address \<Rightarrow> 'w \<Rightarrow> (u16 \<times> err, 'w) go" where
  "OffchainAggregatorSession_OracleObservationCount B s signerOrTransmitter = OffchainAggregatorCaller_OracleObservationCount B (Caller (ses_Contract s)) (ses_CallOpts s) signerOrTransmitter"

definition OffchainAggregatorCallerSession_OracleObservationCount :: "'w bind \<Rightarrow> caller_session \<Rightarrow> address \<Rightarrow> 'w \<Rightarrow> (u16 \<times> err, 'w) go" where
  "OffchainAggregatorCallerSession_OracleObservationCount B s signerOrTransmitter = OffchainAggregatorCaller_OracleObservationCount B (cs_Contract s) (cs_CallOpts s) signerOrTransmitter"

definition OffchainAggregatorCaller_OwedPayment :: "'w bind \<Rightarrow> caller \<Rightarrow> CallOpts \<Rightarrow> address \<Rightarrow> 'w \<Rightarrow> (big \<times> err, 'w) go" where
  "OffchainAggregatorCaller_OwedPayment B c opts transmitter =
     call_method_with B (caller_contract c) opts ''owedPayment'' [VAddress transmitter]
       (\<lambda>out. out_big B out 0) nil"

definition OffchainAggregatorSession_OwedPayment :: "'w bind \<Rightarrow> session \<Rightarrow> address \<Rightarrow> 'w \<Rightarrow> (big \<times> err, 'w) go" where
  "OffchainAggregatorSession_OwedPayment B s transmitter = OffchainAggregatorCaller_OwedPayment B (Caller (ses_Contract s)) (ses_CallOpts s) transmitter"

definition OffchainAggregatorCallerSession_OwedPayment :: "'w bind \<Rightarrow> caller_session \<Rightarrow> address \<Rightarrow> 'w \<Rightarrow> (big \<times> err, 'w) go" where
  "OffchainAggregatorCallerSession_OwedPayment B s transmitter = OffchainAggregatorCaller_OwedPayment B (cs_Contract s) (cs_CallOpts s) transmitter"

definition OffchainAggregatorCaller_Owner :: "'w bind \<Rightarrow> caller \<Rightarrow> CallOpts \<Rightarrow> 'w \<Rightarrow> (address \<times> err, 'w) go" where
  "OffchainAggregatorCaller_Owner B c opts =
     call_method_with B (caller_contract c) opts ''owner'' []
       (\<lambda>out. out_address B out 0) 0"

definition OffchainAggregatorSession_Owner :: "'w bind \<Rightarrow> session \<Rightarrow> 'w \<Rightarrow> (address \<times> err, 'w) go" where
  "OffchainAggregatorSession_Owner B s = OffchainAggregatorCaller_Owner B (Caller (ses_Contract s)) (ses_CallOpts s)"

definition OffchainAggregatorCallerSession_Owner :: "'w bind \<Rightarrow> caller_session \<Rightarrow> 'w \<Rightarrow> (address \<times> err, 'w) go" where
  "OffchainAggregatorCallerSession_Owner B s = OffchainAggregatorCaller_Owner B (cs_Contract s) (cs_CallOpts s)"

definition OffchainAggregatorCaller_RequesterAccessController :: "'w bind \<Rightarrow> caller \<Rightarrow> CallOpts \<Rightarrow> 'w \<Rightarrow> (address \<times> err, 'w) go" where
  "OffchainAggregatorCaller_RequesterAccessController B c opts =
     call_method_with B (caller_contract c) opts ''requesterAccessController'' []
       (\<lambda>out. out_address B out 0) 0"

definition OffchainAggregatorSession_RequesterAccessController :: "'w bind \<Rightarrow> session \<Rightarrow> 'w \<Rightarrow> (address \<times> err, 'w) go" where
  "OffchainAggregatorSession_RequesterAccessController B s = OffchainAggregatorCaller_RequesterAccessController B (Caller (ses_Contract s)) (ses_CallOpts s)"

definition OffchainAggregatorCallerSession_RequesterAccessController :: "'w bind \<Rightarrow> caller_session \<Rightarrow> 'w \<Rightarrow> (address \<times> err, 'w) go" where
  "OffchainAggregatorCallerSession_RequesterAccessController B s = OffchainAggregatorCaller_RequesterAccessController B (cs_Contract s) (cs_CallOpts s)"

definition OffchainAggregatorCaller_Transmitters :: "'w bind \<Rightarrow> caller \<Rightarrow> CallOpts \<Rightarrow> 'w \<Rightarrow> (address list \<times> err, 'w) go" where
  "OffchainAggregatorCaller_Transmitters B c opts =
     call_method_with B (caller_contract c) opts ''transmitters'' []
       (\<lambda>out. out_addresses B out 0) []"

definition OffchainAggregatorSession_Transmitters :: "'w bind \<Rightarrow> session \<Rightarrow> 'w \<Rightarrow> (address list \<times> err, 'w) go" where
  "OffchainAggregatorSession_Transmitters B s = OffchainAggregatorCaller_Transmitters B (Caller (ses_Contract s)) (ses_CallOpts s)"

definition OffchainAggregatorCallerSession_Transmitters :: "'w bind \<Rightarrow> caller_session \<Rightarrow> 'w \<Rightarrow> (address list \<times> err, 'w) go" where
  "OffchainAggregatorCallerSession_Transmitters B s = OffchainAggregatorCaller_Transmitters B (cs_Contract s) (cs_CallOpts s)"

definition OffchainAggregatorCaller_TypeAndVersion :: "'w bind \<Rightarrow> caller \<Rightarrow> CallOpts \<Rightarrow> 'w \<Rightarrow> (string \<times> err, 'w) go" where
  "OffchainAggregatorCaller_TypeAndVersion B c opts =
     call_method_with B (caller_contract c) opts ''typeAndVersion'' []
       (\<lambda>out. out_string B out 0) []"

definition OffchainAggregatorSession_TypeAndVersion :: "'w bind \<Rightarrow> session \<Rightarrow> 'w \<Rightarrow> (string \<times> err, 'w) go" where
  "OffchainAggregatorSession_TypeAndVersion B s = OffchainAggregatorCaller_TypeAndVersion B (Caller (ses_Contract s)) (ses_CallOpts s)"

definition OffchainAggregatorCallerSession_TypeAndVersion :: "'w bind \<Rightarrow> caller_session \<Rightarrow> 'w \<Rightarrow> (string \<times> err, 'w) go" where
  "OffchainAggregatorCallerSession_TypeAndVersion B s = OffchainAggregatorCaller_TypeAndVersion B (cs_Contract s) (cs_CallOpts s)"

record OffchainAggregator_ValidatorConfig_results =
  oa_vc_Validator :: "address"
  oa_vc_GasLimit :: "u32"

definition OffchainAggregatorCaller_ValidatorConfig :: "'w bind \<Rightarrow> caller \<Rightarrow> CallOpts \<Rightarrow> 'w \<Rightarrow> (OffchainAggregator_ValidatorConfig_results \<times> err, 'w) go" where
  "OffchainAggregatorCaller_ValidatorConfig B c opts =
     call_method_with B (caller_contract c) opts ''validatorConfig'' []
       (\<lambda>out. 
          bind_outcome (out_address B out 0) (\<lambda>x0.
          bind_outcome (out_uint32 B out 1) (\<lambda>x1.
          Value \<lparr>oa_vc_Validator = x0, oa_vc_GasLimit = x1\<rparr>))) \<lparr>oa_vc_Validator = 0, oa_vc_GasLimit = 0\<rparr>"

definition OffchainAggregatorSession_ValidatorConfig :: "'w bind \<Rightarrow> session \<Rightarrow> 'w \<Rightarrow> (OffchainAggregator_ValidatorConfig_results \<times> err, 'w) go" where
  "OffchainAggregatorSession_ValidatorConfig B s = OffchainAggregatorCaller_ValidatorConfig B (Caller (ses_Contract s)) (ses_CallOpts s)"

definition OffchainAggregatorCallerSession_ValidatorConfig :: "'w bind \<Rightarrow> caller_session \<Rightarrow> 'w \<Rightarrow> (OffchainAggregator_ValidatorConfig_results \<times> err, 'w) go" where
  "OffchainAggregatorCallerSession_ValidatorConfig B s = OffchainAggregatorCaller_ValidatorConfig B (cs_Contract s) (cs_CallOpts s)"

definition OffchainAggregatorCaller_Version :: "'w bind \<Rightarrow> caller \<Rightarrow> CallOpts \<Rightarrow> 'w \<Rightarrow> (big \<times> err, 'w) go" where
  "OffchainAggregatorCaller_Version B c opts =
     call_method_with B (caller_contract c) opts ''version'' []
       (\<lambda>out. out_big B out 0) nil"

definition OffchainAggregatorSession_Version :: "'w bind \<Rightarrow> session \<Rightarrow> 'w \<Rightarrow> (big \<times> err, 'w) go" where
  "OffchainAggregatorSession_Version B s = OffchainAggregatorCaller_Version B (Caller (ses_Contract s)) (ses_CallOpts s)"

definition OffchainAggregatorCallerSession_Version :: "'w bind \<Rightarrow> caller_session \<Rightarrow> 'w \<Rightarrow> (big \<times> err, 'w) go" where
  "OffchainAggregatorCallerSession_Version B s = OffchainAggregatorCaller_Version B (cs_Contract s) (cs_CallOpts s)"

section \<open>Transactions\<close>

definition OffchainAggregatorTransactor_AcceptOwnership :: "'w bind \<Rightarrow> transactor \<Rightarrow> TransactOpts \<Rightarrow> 'w \<Rightarrow> (go_error + Transaction, 'w) go" where
  "OffchainAggregatorTransactor_AcceptOwnership B c opts =
     call (BindTransact B (transactor_contract c) opts ''acceptOwnership'' [])"

definition OffchainAggregatorSession_AcceptOwnership :: "'w bind \<Rightarrow> session \<Rightarrow> 'w \<Rightarrow> (go_error + Transaction, 'w) go" where
  "OffchainAggregatorSession_AcceptOwnership B s = OffchainAggregatorTransactor_AcceptOwnership B (Transactor (ses_Contract s)) (ses_TransactOpts s)"

definition OffchainAggregatorTransactorSession_AcceptOwnership :: "'w bind \<Rightarrow> transactor_session \<Rightarrow> 'w \<Rightarrow> (go_error + Transaction, 'w) go" where
  "OffchainAggregatorTransactorSession_AcceptOwnership B s = OffchainAggregatorTransactor_AcceptOwnership B (ts_Contract s) (ts_TransactOpts s)"

definition OffchainAggregatorTransactor_AcceptPayeeship :: "'w bind \<Rightarrow> transactor \<Rightarrow> TransactOpts \<Rightarrow> address \<Rightarrow> 'w \<Rightarrow> (go_error + Transaction, 'w) go" where
  "OffchainAggregatorTransactor_AcceptPayeeship B c opts transmitter =
     call (BindTransact B (transactor_contract c) opts ''acceptPayeeship'' [VAddress transmitter])"

definition OffchainAggregatorSession_AcceptPayeeship :: "'w bind \<Rightarrow> session \<Rightarrow> address \<Rightarrow> 'w \<Rightarrow> (go_error + Transaction, 'w) go" where
  "OffchainAggregatorSession_AcceptPayeeship B s transmitter = OffchainAggregatorTransactor_AcceptPayeeship B (Transactor (ses_Contract s)) (ses_TransactOpts s) transmitter"

definition OffchainAggregatorTransactorSession_AcceptPayeeship :: "'w bind \<Rightarrow> transactor_session \<Rightarrow> address \<Rightarrow> 'w \<Rightarrow> (go_error + Transaction, 'w) go" where
  "OffchainAggregatorTransactorSession_AcceptPayeeship B s transmitter = OffchainAggregatorTransactor_AcceptPayeeship B (ts_Contract s) (ts_TransactOpts s) transmitter"

definition OffchainAggregatorTransactor_RequestNewRound :: "'w bind \<Rightarrow> transactor \<Rightarrow> TransactOpts \<Rightarrow> 'w \<Rightarrow> (go_error + Transaction, 'w) go" where
  "OffchainAggregatorTransactor_RequestNewRound B c opts =
     call (BindTransact B (transactor_contract c) opts ''requestNewRound'' [])"

definition OffchainAggregatorSession_RequestNewRound :: "'w bind \<Rightarrow> session \<Rightarrow> 'w \<Rightarrow> (go_error + Transaction, 'w) go" where
  "OffchainAggregatorSession_RequestNewRound B s = OffchainAggregatorTransactor_RequestNewRound B (Transactor (ses_Contract s)) (ses_TransactOpts s)"

definition OffchainAggregatorTransactorSession_RequestNewRound :: "'w bind \<Rightarrow> transactor_session \<Rightarrow> 'w \<Rightarrow> (go_error + Transaction, 'w) go" where
  "OffchainAggregatorTransactorSession_RequestNewRound B s = OffchainAggregatorTransactor_RequestNewRound B (ts_Contract s) (ts_TransactOpts s)"

definition OffchainAggregatorTransactor_SetBilling :: "'w bind \<Rightarrow> transactor \<Rightarrow> TransactOpts \<Rightarrow> u32 \<Rightarrow> u32 \<Rightarrow> u32 \<Rightarrow> u32 \<Rightarrow> u32 \<Rightarrow> 'w \<Rightarrow> (go_error + Transaction, 'w) go" where
  "OffchainAggregatorTransactor_SetBilling B c opts maximumGasPrice reasonableGasPrice microLinkPerEth linkGweiPerObservation linkGweiPerTransmission =
     call (BindTransact B (transactor_contract c) opts ''setBilling'' [VUint32 maximumGasPrice, VUint32 reasonableGasPrice, VUint32 microLinkPerEth, VUint32 linkGweiPerObservation, VUint32 linkGweiPerTransmission])"

definition OffchainAggregatorSession_SetBilling :: "'w bind \<Rightarrow> session \<Rightarrow> u32 \<Rightarrow> u32 \<Rightarrow> u32 \<Rightarrow> u32 \<Rightarrow> u32 \<Rightarrow> 'w \<Rightarrow> (go_error + Transaction, 'w) go" where
  "OffchainAggregatorSession_SetBilling B s maximumGasPrice reasonableGasPrice microLinkPerEth linkGweiPerObservation linkGweiPerTransmission = OffchainAggregatorTransactor_SetBilling B (Transactor (ses_Contract s)) (ses_TransactOpts s) maximumGasPrice reasonableGasPrice microLinkPerEth linkGweiPerObservation linkGweiPerTransmission"

definition OffchainAggregatorTransactorSession_SetBilling :: "'w bind \<Rightarrow> transactor_session \<Rightarrow> u32 \<Rightarrow> u32 \<Rightarrow> u32 \<Rightarrow> u32 \<Rightarrow> u32 \<Rightarrow> 'w \<Rightarrow> (go_error + Transaction, 'w) go" where
  "OffchainAggregatorTransactorSession_SetBilling B s maximumGasPrice reasonableGasPrice microLinkPerEth linkGweiPerObservation linkGweiPerTransmission = OffchainAggregatorTransactor_SetBilling B (ts_Contract s) (ts_TransactOpts s) maximumGasPrice reasonableGasPrice microLinkPerEth linkGweiPerObservation linkGweiPerTransmission"

definition OffchainAggregatorTransactor_SetBillingAccessController :: "'w bind \<Rightarrow> transactor \<Rightarrow> TransactOpts \<Rightarrow> address \<Rightarrow> 'w \<Rightarrow> (go_error + Transaction, 'w) go" where
  "OffchainAggregatorTransactor_SetBillingAccessController B c opts billingAccessController =
     call (BindTransact B (transactor_contract c) opts ''setBillingAccessController'' [VAddress billingAccessController])"

definition OffchainAggregatorSession_SetBillingAccessController :: "'w bind \<Rightarrow> session \<Rightarrow> address \<Rightarrow> 'w \<Rightarrow> (go_error + Transaction, 'w) go" where
  "OffchainAggregatorSession_SetBillingAccessController B s billingAccessController = OffchainAggregatorTransactor_SetBillingAccessController B (Transactor (ses_Contract s)) (ses_TransactOpts s) billingAccessController"

definition OffchainAggregatorTransactorSession_SetBillingAccessController :: "'w bind \<Rightarrow> transactor_session \<Rightarrow> address \<Rightarrow> 'w \<Rightarrow> (go_error + Transaction, 'w) go" where
  "OffchainAggregatorTransactorSession_SetBillingAccessController B s billingAccessController = OffchainAggregatorTransactor_SetBillingAccessController B (ts_Contract s) (ts_TransactOpts s) billingAccessController"

definition OffchainAggregatorTransactor_SetConfig :: "'w bind \<Rightarrow> transactor \<Rightarrow> TransactOpts \<Rightarrow> address list \<Rightarrow> address list \<Rightarrow> u8 \<Rightarrow> u64 \<Rightarrow> string \<Rightarrow> 'w \<Rightarrow> (go_error + Transaction, 'w) go" where
  "OffchainAggregatorTransactor_SetConfig B c opts signers transmitters threshold encodedConfigVersion encoded =
     call (BindTransact B (transactor_contract c) opts ''setConfig'' [VAddresses signers, VAddresses transmitters, VUint8 threshold, VUint64 encodedConfigVersion, VBytes encoded])"

definition OffchainAggregatorSession_SetConfig :: "'w bind \<Rightarrow> session \<Rightarrow> address list \<Rightarrow> address list \<Rightarrow> u8 \<Rightarrow> u64 \<Rightarrow> string \<Rightarrow> 'w \<Rightarrow> (go_error + Transaction, 'w) go" where
  "OffchainAggregatorSession_SetConfig B s signers transmitters threshold encodedConfigVersion encoded = OffchainAggregatorTransactor_SetConfig B (Transactor (ses_Contract s)) (ses_TransactOpts s) signers transmitters threshold encodedConfigVersion encoded"

definition OffchainAggregatorTransactorSession_SetConfig :: "'w bind \<Rightarrow> transactor_session \<Rightarrow> address list \<Rightarrow> address list \<Rightarrow> u8 \<Rightarrow> u64 \<Rightarrow> string \<Rightarrow> 'w \<Rightarrow> (go_error + Transaction, 'w) go" where
  "OffchainAggregatorTransactorSession_SetConfig B s signers transmitters threshold encodedConfigVersion encoded = OffchainAggregatorTransactor_SetConfig B (ts_Contract s) (ts_TransactOpts s) signers transmitters threshold encodedConfigVersion encoded"

definition OffchainAggregatorTransactor_SetPayees :: "'w bind \<Rightarrow> transactor \<Rightarrow> TransactOpts \<Rightarrow> address list \<Rightarrow> address list \<Rightarrow> 'w \<Rightarrow> (go_error + Transaction, 'w) go" where
  "OffchainAggregatorTransactor_SetPayees B c opts transmitters payees =
     call (BindTransact B (transactor_contract c) opts ''setPayees'' [VAddresses transmitters, VAddresses payees])"

definition OffchainAggregatorSession_SetPayees :: "'w bind \<Rightarrow> session \<Rightarrow> address list \<Rightarrow> address list \<Rightarrow> 'w \<Rightarrow> (go_error + Transaction, 'w) go" where
  "OffchainAggregatorSession_SetPayees B s transmitters payees = OffchainAggregatorTransactor_SetPayees B (Transactor (ses_Contract s)) (ses_TransactOpts s) transmitters payees"

definition OffchainAggregatorTransactorSession_SetPayees :: "'w bind \<Rightarrow> transactor_session \<Rightarrow> address list \<Rightarrow> address list \<Rightarrow> 'w \<Rightarrow> (go_error + Transaction, 'w) go" where
  "OffchainAggregatorTransactorSession_SetPayees B s transmitters payees = OffchainAggregatorTransactor_SetPayees B (ts_Contract s) (ts_TransactOpts s) transmitters payees"

definition OffchainAggregatorTransactor_SetRequesterAccessController :: "'w bind \<Rightarrow> transactor \<Rightarrow> TransactOpts \<Rightarrow> address \<Rightarrow> 'w \<Rightarrow> (go_error + Transaction, 'w) go" where
  "OffchainAggregatorTransactor_SetRequesterAccessController B c opts requesterAccessController =
     call (BindTransact B (transactor_contract c) opts ''setRequesterAccessController'' [VAddress requesterAccessController])"

definition OffchainAggregatorSession_SetRequesterAccessController :: "'w bind \<Rightarrow> session \<Rightarrow> address \<Rightarrow> 'w \<Rightarrow> (go_error + Transaction, 'w) go" where
  "OffchainAggregatorSession_SetRequesterAccessController B s requesterAccessController = OffchainAggregatorTransactor_SetRequesterAccessController B (Transactor (ses_Contract s)) (ses_TransactOpts s) requesterAccessController"

definition OffchainAggregatorTransactorSession_SetRequesterAccessController :: "'w bind \<Rightarrow> transactor_session \<Rightarrow> address \<Rightarrow> 'w \<Rightarrow> (go_error + Transaction, 'w) go" where
  "OffchainAggregatorTransactorSession_SetRequesterAccessController B s requesterAccessController = OffchainAggregatorTransactor_SetRequesterAccessController B (ts_Contract s) (ts_TransactOpts s) requesterAccessController"

definition OffchainAggregatorTransactor_SetValidatorConfig :: "'w bind \<Rightarrow> transactor \<Rightarrow> TransactOpts \<Rightarrow> address \<Rightarrow> u32 \<Rightarrow> 'w \<Rightarrow> (go_error + Transaction, 'w) go" where
  "OffchainAggregatorTransactor_SetValidatorConfig B c opts newValidator newGasLimit =
     call (BindTransact B (transactor_contract c) opts ''setValidatorConfig'' [VAddress newValidator, VUint32 newGasLimit])"

definition OffchainAggregatorSession_SetValidatorConfig :: "'w bind \<Rightarrow> session \<Rightarrow> address \<Rightarrow> u32 \<Rightarrow> 'w \<Rightarrow> (go_error + Transaction, 'w) go" where
  "OffchainAggregatorSession_SetValidatorConfig B s newValidator newGasLimit = OffchainAggregatorTransactor_SetValidatorConfig B (Transactor (ses_Contract s)) (ses_TransactOpts s) newValidator newGasLimit"

definition OffchainAggregatorTransactorSession_SetValidatorConfig :: "'w bind \<Rightarrow> transactor_session \<Rightarrow> address \<Rightarrow> u32 \<Rightarrow> 'w \<Rightarrow> (go_error + Transaction, 'w) go" where
  "OffchainAggregatorTransactorSession_SetValidatorConfig B s newValidator newGasLimit = OffchainAggregatorTransactor_SetValidatorConfig B (ts_Contract s) (ts_TransactOpts s) newValidator newGasLimit"

definition OffchainAggregatorTransactor_TransferOwnership :: "'w bind \<Rightarrow> transactor \<Rightarrow> TransactOpts \<Rightarrow> address \<Rightarrow> 'w \<Rightarrow> (go_error + Transaction, 'w) go" where
  "OffchainAggregatorTransactor_TransferOwnership B c opts to =
     call (BindTransact B (transactor_contract c) opts ''transferOwnership'' [VAddress to])"

definition OffchainAggregatorSession_TransferOwnership :: "'w bind \<Rightarrow> session \<Rightarrow> address \<Rightarrow> 'w \<Rightarrow> (go_error + Transaction, 'w) go" where
  "OffchainAggregatorSession_TransferOwnership B s to = OffchainAggregatorTransactor_TransferOwnership B (Transactor (ses_Contract s)) (ses_TransactOpts s) to"

definition OffchainAggregatorTransactorSession_TransferOwnership :: "'w bind \<Rightarrow> transactor_session \<Rightarrow> address \<Rightarrow> 'w \<Rightarrow> (go_error + Transaction, 'w) go" where
  "OffchainAggregatorTransactorSession_TransferOwnership B s to = OffchainAggregatorTransactor_TransferOwnership B (ts_Contract s) (ts_TransactOpts s) to"

definition OffchainAggregatorTransactor_TransferPayeeship :: "'w bind \<Rightarrow> transactor \<Rightarrow> TransactOpts \<Rightarrow> address \<Rightarrow> address \<Rightarrow> 'w \<Rightarrow> (go_error + Transaction, 'w) go" where
  "OffchainAggregatorTransactor_TransferPayeeship B c opts transmitter proposed =
     call (BindTransact B (transactor_contract c) opts ''transferPayeeship'' [VAddress transmitter, VAddress proposed])"

definition OffchainAggregatorSession_TransferPayeeship :: "'w bind \<Rightarrow> session \<Rightarrow> address \<Rightarrow> address \<Rightarrow> 'w \<Rightarrow> (go_error + Transaction, 'w) go" where
  "OffchainAggregatorSession_TransferPayeeship B s transmitter proposed = OffchainAggregatorTransactor_TransferPayeeship B (Transactor (ses_Contract s)) (ses_TransactOpts s) transmitter proposed"

definition OffchainAggregatorTransactorSession_TransferPayeeship :: "'w bind \<Rightarrow> transactor_session \<Rightarrow> address \<Rightarrow> address \<Rightarrow> 'w \<Rightarrow> (go_error + Transaction, 'w) go" where
  "OffchainAggregatorTransactorSession_TransferPayeeship B s transmitter proposed = OffchainAggregatorTransactor_TransferPayeeship B (ts_Contract s) (ts_TransactOpts s) transmitter proposed"

definition OffchainAggregatorTransactor_Transmit :: "'w bind \<Rightarrow> transactor \<Rightarrow> TransactOpts \<Rightarrow> string \<Rightarrow> string list \<Rightarrow> string list \<Rightarrow> string \<Rightarrow> 'w \<Rightarrow> (go_error + Transaction, 'w) go" where
  "OffchainAggregatorTransactor_Transmit B c opts report rs ss rawVs =
     call (BindTransact B (transactor_contract c) opts ''transmit'' [VBytes report, VBytes32s rs, VBytes32s ss, VFixed 32 rawVs])"

definition OffchainAggregatorSession_Transmit :: "'w bind \<Rightarrow> session \<Rightarrow> string \<Rightarrow> string list \<Rightarrow> string list \<Rightarrow> string \<Rightarrow> 'w \<Rightarrow> (go_error + Transaction, 'w) go" where
  "OffchainAggregatorSession_Transmit B s report rs ss rawVs = OffchainAggregatorTransactor_Transmit B (Transactor (ses_Contract s)) (ses_TransactOpts s) report rs ss rawVs"

definition OffchainAggregatorTransactorSession_Transmit :: "'w bind \<Rightarrow> transactor_session \<Rightarrow> string \<Rightarrow> string list \<Rightarrow> string list \<Rightarrow> string \<Rightarrow> 'w \<Rightarrow> (go_error + Transaction, 'w) go" where
  "OffchainAggregatorTransactorSession_Transmit B s report rs ss rawVs = OffchainAggregatorTransactor_Transmit B (ts_Contract s) (ts_TransactOpts s) report rs ss rawVs"

definition OffchainAggregatorTransactor_WithdrawFunds :: "'w bind \<Rightarrow> transactor \<Rightarrow> TransactOpts \<Rightarrow> address \<Rightarrow> big \<Rightarrow> 'w \<Rightarrow> (go_error + Transaction, 'w) go" where
  "OffchainAggregatorTransactor_WithdrawFunds B c opts recipient amount =
     call (BindTransact B (transactor_contract c) opts ''withdrawFunds'' [VAddress recipient, VBig amount])"

definition OffchainAggregatorSession_WithdrawFunds :: "'w bind \<Rightarrow> session \<Rightarrow> address \<Rightarrow> big \<Rightarrow> 'w \<Rightarrow> (go_error + Transaction, 'w) go" where
  "OffchainAggregatorSession_WithdrawFunds B s recipient amount = OffchainAggregatorTransactor_WithdrawFunds B (Transactor (ses_Contract s)) (ses_TransactOpts s) recipient amount"

definition OffchainAggregatorTransactorSession_WithdrawFunds :: "'w bind \<Rightarrow> transactor_session \<Rightarrow> address \<Rightarrow> big \<Rightarrow> 'w \<Rightarrow> (go_error + Transaction, 'w) go" where
  "OffchainAggregatorTransactorSession_WithdrawFunds B s recipient amount = OffchainAggregatorTransactor_WithdrawFunds B (ts_Contract s) (ts_TransactOpts s) recipient amount"

definition OffchainAggregatorTransactor_WithdrawPayment :: "'w bind \<Rightarrow> transactor \<Rightarrow> TransactOpts \<Rightarrow> address \<Rightarrow> 'w \<Rightarrow> (go_error + Transaction, 'w) go" where
  "OffchainAggregatorTransactor_WithdrawPayment B c opts transmitter =
     call (BindTransact B (transactor_contract c) opts ''withdrawPayment'' [VAddress transmitter])"

definition OffchainAggregatorSession_WithdrawPayment :: "'w bind \<Rightarrow> session \<Rightarrow> address \<Rightarrow> 'w \<Rightarrow> (go_error + Transaction, 'w) go" where
  "OffchainAggregatorSession_WithdrawPayment B s transmitter = OffchainAggregatorTransactor_WithdrawPayment B (Transactor (ses_Contract s)) (ses_TransactOpts s) transmitter"

definition OffchainAggregatorTransactorSession_WithdrawPayment :: "'w bind \<Rightarrow> transactor_session \<Rightarrow> address \<Rightarrow> 'w \<Rightarrow> (go_error + Transaction, 'w) go" where
  "OffchainAggregatorTransactorSession_WithdrawPayment B s transmitter = OffchainAggregatorTransactor_WithdrawPayment B (ts_Contract s) (ts_TransactOpts s) transmitter"

section \<open>Events\<close>

definition OffchainAggregatorAnswerUpdated :: struct where
  "OffchainAggregatorAnswerUpdated = [(''Current'', TBig), (''RoundId'', TBig), (''UpdatedAt'', TBig)]"

type_synonym OffchainAggregatorAnswerUpdatedIterator = iterator

definition OffchainAggregatorAnswerUpdatedIterator_Next :: "'w bind \<Rightarrow> iterator \<Rightarrow> 'w \<Rightarrow> (bool \<times> iterator, 'w) go" where
  "OffchainAggregatorAnswerUpdatedIterator_Next B it = it_Next B OffchainAggregatorAnswerUpdated it"

definition OffchainAggregatorAnswerUpdatedIterator_Error :: "iterator \<Rightarrow> err" where
  "OffchainAggregatorAnswerUpdatedIterator_Error it = it_Error it"

definition OffchainAggregatorAnswerUpdatedIterator_Close :: "'w bind \<Rightarrow> iterator \<Rightarrow> 'w \<Rightarrow> (err, 'w) go" where
  "OffchainAggregatorAnswerUpdatedIterator_Close B it = it_Close B it"

definition OffchainAggregatorFilterer_FilterAnswerUpdated :: "'w bind \<Rightarrow> filterer \<Rightarrow> FilterOpts \<Rightarrow> big list \<Rightarrow> big list \<Rightarrow> 'w \<Rightarrow> (go_error + iterator, 'w) go" where
  "OffchainAggregatorFilterer_FilterAnswerUpdated B c opts current roundId = filter_logs B (filterer_contract c) opts ''AnswerUpdated'' [map VBig current, map VBig roundId]"

definition OffchainAggregatorFilterer_WatchAnswerUpdated :: "'w bind \<Rightarrow> filterer \<Rightarrow> WatchOpts \<Rightarrow> nat \<Rightarrow> big list \<Rightarrow> big list \<Rightarrow> 'w \<Rightarrow> (go_error + watcher, 'w) go" where
  "OffchainAggregatorFilterer_WatchAnswerUpdated B c opts sink current roundId =
     watch_logs B (filterer_contract c) opts ''AnswerUpdated'' OffchainAggregatorAnswerUpdated sink [map VBig current, map VBig roundId]"

definition OffchainAggregatorFilterer_ParseAnswerUpdated :: "'w bind \<Rightarrow> filterer \<Rightarrow> log \<Rightarrow> go_error + event" where
  "OffchainAggregatorFilterer_ParseAnswerUpdated B c = parse_log B (filterer_contract c) ''AnswerUpdated'' OffchainAggregatorAnswerUpdated"

definition OffchainAggregatorBillingAccessControllerSet :: struct where
  "OffchainAggregatorBillingAccessControllerSet = [(''Old'', TAddress), (''Current'', TAddress)]"

type_synonym OffchainAggregatorBillingAccessControllerSetIterator = iterator

definition OffchainAggregatorBillingAccessControllerSetIterator_Next :: "'w bind \<Rightarrow> iterator \<Rightarrow> 'w \<Rightarrow> (bool \<times> iterator, 'w) go" where
  "OffchainAggregatorBillingAccessControllerSetIterator_Next B it = it_Next B OffchainAggregatorBillingAccessControllerSet it"

definition OffchainAggregatorBillingAccessControllerSetIterator_Error :: "iterator \<Rightarrow> err" where
  "OffchainAggregatorBillingAccessControllerSetIterator_Error it = it_Error it"

definition OffchainAggregatorBillingAccessControllerSetIterator_Close :: "'w bind \<Rightarrow> iterator \<Rightarrow> 'w \<Rightarrow> (err, 'w) go" where
  "OffchainAggregatorBillingAccessControllerSetIterator_Close B it = it_Close B it"

definition OffchainAggregatorFilterer_FilterBillingAccessControllerSet :: "'w bind \<Rightarrow> filterer \<Rightarrow> FilterOpts \<Rightarrow> 'w \<Rightarrow> (go_error + iterator, 'w) go" where
  "OffchainAggregatorFilterer_FilterBillingAccessControllerSet B c opts = filter_logs B (filterer_contract c) opts ''BillingAccessControllerSet'' []"

definition OffchainAggregatorFilterer_WatchBillingAccessControllerSet :: "'w bind \<Rightarrow> filterer \<Rightarrow> WatchOpts \<Rightarrow> nat \<Rightarrow> 'w \<Rightarrow> (go_error + watcher, 'w) go" where
  "OffchainAggregatorFilterer_WatchBillingAccessControllerSet B c opts sink =
     watch_logs B (filterer_contract c) opts ''BillingAccessControllerSet'' OffchainAggregatorBillingAccessControllerSet sink []"

definition OffchainAggregatorFilterer_ParseBillingAccessControllerSet :: "'w bind \<Rightarrow> filterer \<Rightarrow> log \<Rightarrow> go_error + event" where
  "OffchainAggregatorFilterer_ParseBillingAccessControllerSet B c = parse_log B (filterer_contract c) ''BillingAccessControllerSet'' OffchainAggregatorBillingAccessControllerSet"

definition OffchainAggregatorBillingSet :: struct where
  "OffchainAggregatorBillingSet = [(''MaximumGasPrice'', TUint32), (''ReasonableGasPrice'', TUint32), (''MicroLinkPerEth'', TUint32), (''LinkGweiPerObservation'', TUint32), (''LinkGweiPerTransmission'', TUint32)]"

type_synonym OffchainAggregatorBillingSetIterator = iterator

definition OffchainAggregatorBillingSetIterator_Next :: "'w bind \<Rightarrow> iterator \<Rightarrow> 'w \<Rightarrow> (bool \<times> iterator, 'w) go" where
  "OffchainAggregatorBillingSetIterator_Next B it = it_Next B OffchainAggregatorBillingSet it"

definition OffchainAggregatorBillingSetIterator_Error :: "iterator \<Rightarrow> err" where
  "OffchainAggregatorBillingSetIterator_Error it = it_Error it"

definition OffchainAggregatorBillingSetIterator_Close :: "'w bind \<Rightarrow> iterator \<Rightarrow> 'w \<Rightarrow> (err, 'w) go" where
  "OffchainAggregatorBillingSetIterator_Close B it = it_Close B it"

definition OffchainAggregatorFilterer_FilterBillingSet :: "'w bind \<Rightarrow> filterer \<Rightarrow> FilterOpts \<Rightarrow> 'w \<Rightarrow> (go_error + iterator, 'w) go" where
  "OffchainAggregatorFilterer_FilterBillingSet B c opts = filter_logs B (filterer_contract c) opts ''BillingSet'' []"

definition OffchainAggregatorFilterer_WatchBillingSet :: "'w bind \<Rightarrow> filterer \<Rightarrow> WatchOpts \<Rightarrow> nat \<Rightarrow> 'w \<Rightarrow> (go_error + watcher, 'w) go" where
  "OffchainAggregatorFilterer_WatchBillingSet B c opts sink =
     watch_logs B (filterer_contract c) opts ''BillingSet'' OffchainAggregatorBillingSet sink []"

definition OffchainAggregatorFilterer_ParseBillingSet :: "'w bind \<Rightarrow> filterer \<Rightarrow> log \<Rightarrow> go_error + event" where
  "OffchainAggregatorFilterer_ParseBillingSet B c = parse_log B (filterer_contract c) ''BillingSet'' OffchainAggregatorBillingSet"

definition OffchainAggregatorConfigSet :: struct where
  "OffchainAggregatorConfigSet = [(''PreviousConfigBlockNumber'', TUint32), (''ConfigCount'', TUint64), (''Signers'', TAddresses), (''Transmitters'', TAddresses), (''Threshold'', TUint8), (''EncodedConfigVersion'', TUint64), (''Encoded'', TBytes)]"

type_synonym OffchainAggregatorConfigSetIterator = iterator

definition OffchainAggregatorConfigSetIterator_Next :: "'w bind \<Rightarrow> iterator \<Rightarrow> 'w \<Rightarrow> (bool \<times> iterator, 'w) go" where
  "OffchainAggregatorConfigSetIterator_Next B it = it_Next B OffchainAggregatorConfigSet it"

definition OffchainAggregatorConfigSetIterator_Error :: "iterator \<Rightarrow> err" where
  "OffchainAggregatorConfigSetIterator_Error it = it_Error it"

definition OffchainAggregatorConfigSetIterator_Close :: "'w bind \<Rightarrow> iterator \<Rightarrow> 'w \<Rightarrow> (err, 'w) go" where
  "OffchainAggregatorConfigSetIterator_Close B it = it_Close B it"

definition OffchainAggregatorFilterer_FilterConfigSet :: "'w bind \<Rightarrow> filterer \<Rightarrow> FilterOpts \<Rightarrow> 'w \<Rightarrow> (go_error + iterator, 'w) go" where
  "OffchainAggregatorFilterer_FilterConfigSet B c opts = filter_logs B (filterer_contract c) opts ''ConfigSet'' []"

definition OffchainAggregatorFilterer_WatchConfigSet :: "'w bind \<Rightarrow> filterer \<Rightarrow> WatchOpts \<Rightarrow> nat \<Rightarrow> 'w \<Rightarrow> (go_error + watcher, 'w) go" where
  "OffchainAggregatorFilterer_WatchConfigSet B c opts sink =
     watch_logs B (filterer_contract c) opts ''ConfigSet'' OffchainAggregatorConfigSet sink []"

definition OffchainAggregatorFilterer_ParseConfigSet :: "'w bind \<Rightarrow> filterer \<Rightarrow> log \<Rightarrow> go_error + event" where
  "OffchainAggregatorFilterer_ParseConfigSet B c = parse_log B (filterer_contract c) ''ConfigSet'' OffchainAggregatorConfigSet"

definition OffchainAggregatorNewRound :: struct where
  "OffchainAggregatorNewRound = [(''RoundId'', TBig), (''StartedBy'', TAddress), (''StartedAt'', TBig)]"

type_synonym OffchainAggregatorNewRoundIterator = iterator

definition OffchainAggregatorNewRoundIterator_Next :: "'w bind \<Rightarrow> iterator \<Rightarrow> 'w \<Rightarrow> (bool \<times> iterator, 'w) go" where
  "OffchainAggregatorNewRoundIterator_Next B it = it_Next B OffchainAggregatorNewRound it"

definition OffchainAggregatorNewRoundIterator_Error :: "iterator \<Rightarrow> err" where
  "OffchainAggregatorNewRoundIterator_Error it = it_Error it"

definition OffchainAggregatorNewRoundIterator_Close :: "'w bind \<Rightarrow> iterator \<Rightarrow> 'w \<Rightarrow> (err, 'w) go" where
  "OffchainAggregatorNewRoundIterator_Close B it = it_Close B it"

definition OffchainAggregatorFilterer_FilterNewRound :: "'w bind \<Rightarrow> filterer \<Rightarrow> FilterOpts \<Rightarrow> big list \<Rightarrow> address list \<Rightarrow> 'w \<Rightarrow> (go_error + iterator, 'w) go" where
  "OffchainAggregatorFilterer_FilterNewRound B c opts roundId startedBy = filter_logs B (filterer_contract c) opts ''NewRound'' [map VBig roundId, map VAddress startedBy]"

definition OffchainAggregatorFilterer_WatchNewRound :: "'w bind \<Rightarrow> filterer \<Rightarrow> WatchOpts \<Rightarrow> nat \<Rightarrow> big list \<Rightarrow> address list \<Rightarrow> 'w \<Rightarrow> (go_error + watcher, 'w) go" where
  "OffchainAggregatorFilterer_WatchNewRound B c opts sink roundId startedBy =
     watch_logs B (filterer_contract c) opts ''NewRound'' OffchainAggregatorNewRound sink [map VBig roundId, map VAddress startedBy]"

definition OffchainAggregatorFilterer_ParseNewRound :: "'w bind \<Rightarrow> filterer \<Rightarrow> log \<Rightarrow> go_error + event" where
  "OffchainAggregatorFilterer_ParseNewRound B c = parse_log B (filterer_contract c) ''NewRound'' OffchainAggregatorNewRound"

definition OffchainAggregatorNewTransmission :: struct where
  "OffchainAggregatorNewTransmission = [(''AggregatorRoundId'', TUint32), (''Answer'', TBig), (''Transmitter'', TAddress), (''Observations'', TBigs), (''Observers'', TBytes), (''RawReportContext'', TFixed 32)]"

type_synonym OffchainAggregatorNewTransmissionIterator = iterator

definition OffchainAggregatorNewTransmissionIterator_Next :: "'w bind \<Rightarrow> iterator \<Rightarrow> 'w \<Rightarrow> (bool \<times> iterator, 'w) go" where
  "OffchainAggregatorNewTransmissionIterator_Next B it = it_Next B OffchainAggregatorNewTransmission it"

definition OffchainAggregatorNewTransmissionIterator_Error :: "iterator \<Rightarrow> err" where
  "OffchainAggregatorNewTransmissionIterator_Error it = it_Error it"

definition OffchainAggregatorNewTransmissionIterator_Close :: "'w bind \<Rightarrow> iterator \<Rightarrow> 'w \<Rightarrow> (err, 'w) go" where
  "OffchainAggregatorNewTransmissionIterator_Close B it = it_Close B it"

definition OffchainAggregatorFilterer_FilterNewTransmission :: "'w bind \<Rightarrow> filterer \<Rightarrow> FilterOpts \<Rightarrow> u32 list \<Rightarrow> 'w \<Rightarrow> (go_error + iterator, 'w) go" where
  "OffchainAggregatorFilterer_FilterNewTransmission B c opts aggregatorRoundId = filter_logs B (filterer_contract c) opts ''NewTransmission'' [map VUint32 aggregatorRoundId]"

definition OffchainAggregatorFilterer_WatchNewTransmission :: "'w bind \<Rightarrow> filterer \<Rightarrow> WatchOpts \<Rightarrow> nat \<Rightarrow> u32 list \<Rightarrow> 'w \<Rightarrow> (go_error + watcher, 'w) go" where
  "OffchainAggregatorFilterer_WatchNewTransmission B c opts sink aggregatorRoundId =
     watch_logs B (filterer_contract c) opts ''NewTransmission'' OffchainAggregatorNewTransmission sink [map VUint32 aggregatorRoundId]"

definition OffchainAggregatorFilterer_ParseNewTransmission :: "'w bind \<Rightarrow> filterer \<Rightarrow> log \<Rightarrow> go_error + event" where
  "OffchainAggregatorFilterer_ParseNewTransmission B c = parse_log B (filterer_contract c) ''NewTransmission'' OffchainAggregatorNewTransmission"

definition OffchainAggregatorOraclePaid :: struct where
  "OffchainAggregatorOraclePaid = [(''Transmitter'', TAddress), (''Payee'', TAddress), (''Amount'', TBig)]"

type_synonym OffchainAggregatorOraclePaidIterator = iterator

definition OffchainAggregatorOraclePaidIterator_Next :: "'w bind \<Rightarrow> iterator \<Rightarrow> 'w \<Rightarrow> (bool \<times> iterator, 'w) go" where
  "OffchainAggregatorOraclePaidIterator_Next B it = it_Next B OffchainAggregatorOraclePaid it"

definition OffchainAggregatorOraclePaidIterator_Error :: "iterator \<Rightarrow> err" where
  "OffchainAggregatorOraclePaidIterator_Error it = it_Error it"

definition OffchainAggregatorOraclePaidIterator_Close :: "'w bind \<Rightarrow> iterator \<Rightarrow> 'w \<Rightarrow> (err, 'w) go" where
  "OffchainAggregatorOraclePaidIterator_Close B it = it_Close B it"

definition OffchainAggregatorFilterer_FilterOraclePaid :: "'w bind \<Rightarrow> filterer \<Rightarrow> FilterOpts \<Rightarrow> 'w \<Rightarrow> (go_error + iterator, 'w) go" where
  "OffchainAggregatorFilterer_FilterOraclePaid B c opts = filter_logs B (filterer_contract c) opts ''OraclePaid'' []"

definition OffchainAggregatorFilterer_WatchOraclePaid :: "'w bind \<Rightarrow> filterer \<Rightarrow> WatchOpts \<Rightarrow> nat \<Rightarrow> 'w \<Rightarrow> (go_error + watcher, 'w) go" where
  "OffchainAggregatorFilterer_WatchOraclePaid B c opts sink =
     watch_logs B (filterer_contract c) opts ''OraclePaid'' OffchainAggregatorOraclePaid sink []"

definition OffchainAggregatorFilterer_ParseOraclePaid :: "'w bind \<Rightarrow> filterer \<Rightarrow> log \<Rightarrow> go_error + event" where
  "OffchainAggregatorFilterer_ParseOraclePaid B c = parse_log B (filterer_contract c) ''OraclePaid'' OffchainAggregatorOraclePaid"

definition OffchainAggregatorOwnershipTransferRequested :: struct where
  "OffchainAggregatorOwnershipTransferRequested = [(''From'', TAddress), (''To'', TAddress)]"

type_synonym OffchainAggregatorOwnershipTransferRequestedIterator = iterator

definition OffchainAggregatorOwnershipTransferRequestedIterator_Next :: "'w bind \<Rightarrow> iterator \<Rightarrow> 'w \<Rightarrow> (bool \<times> iterator, 'w) go" where
  "OffchainAggregatorOwnershipTransferRequestedIterator_Next B it = it_Next B OffchainAggregatorOwnershipTransferRequested it"

definition OffchainAggregatorOwnershipTransferRequestedIterator_Error :: "iterator \<Rightarrow> err" where
  "OffchainAggregatorOwnershipTransferRequestedIterator_Error it = it_Error it"

definition OffchainAggregatorOwnershipTransferRequestedIterator_Close :: "'w bind \<Rightarrow> iterator \<Rightarrow> 'w \<Rightarrow> (err, 'w) go" where
  "OffchainAggregatorOwnershipTransferRequestedIterator_Close B it = it_Close B it"

definition OffchainAggregatorFilterer_FilterOwnershipTransferRequested :: "'w bind \<Rightarrow> filterer \<Rightarrow> FilterOpts \<Rightarrow> address list \<Rightarrow> address list \<Rightarrow> 'w \<Rightarrow> (go_error + iterator, 'w) go" where
  "OffchainAggregatorFilterer_FilterOwnershipTransferRequested B c opts from to = filter_logs B (filterer_contract c) opts ''OwnershipTransferRequested'' [map VAddress from, map VAddress to]"

definition OffchainAggregatorFilterer_WatchOwnershipTransferRequested :: "'w bind \<Rightarrow> filterer \<Rightarrow> WatchOpts \<Rightarrow> nat \<Rightarrow> address list \<Rightarrow> address list \<Rightarrow> 'w \<Rightarrow> (go_error + watcher, 'w) go" where
  "OffchainAggregatorFilterer_WatchOwnershipTransferRequested B c opts sink from to =
     watch_logs B (filterer_contract c) opts ''OwnershipTransferRequested'' OffchainAggregatorOwnershipTransferRequested sink [map VAddress from, map VAddress to]"

definition OffchainAggregatorFilterer_ParseOwnershipTransferRequested :: "'w bind \<Rightarrow> filterer \<Rightarrow> log \<Rightarrow> go_error + event" where
  "OffchainAggregatorFilterer_ParseOwnershipTransferRequested B c = parse_log B (filterer_contract c) ''OwnershipTransferRequested'' OffchainAggregatorOwnershipTransferRequested"

definition OffchainAggregatorOwnershipTransferred :: struct where
  "OffchainAggregatorOwnershipTransferred = [(''From'', TAddress), (''To'', TAddress)]"

type_synonym OffchainAggregatorOwnershipTransferredIterator = iterator

definition OffchainAggregatorOwnershipTransferredIterator_Next :: "'w bind \<Rightarrow> iterator \<Rightarrow> 'w \<Rightarrow> (bool \<times> iterator, 'w) go" where
  "OffchainAggregatorOwnershipTransferredIterator_Next B it = it_Next B OffchainAggregatorOwnershipTransferred it"

definition OffchainAggregatorOwnershipTransferredIterator_Error :: "iterator \<Rightarrow> err" where
  "OffchainAggregatorOwnershipTransferredIterator_Error it = it_Error it"

definition OffchainAggregatorOwnershipTransferredIterator_Close :: "'w bind \<Rightarrow> iterator \<Rightarrow> 'w \<Rightarrow> (err, 'w) go" where
  "OffchainAggregatorOwnershipTransferredIterator_Close B it = it_Close B it"

definition OffchainAggregatorFilterer_FilterOwnershipTransferred :: "'w bind \<Rightarrow> filterer \<Rightarrow> FilterOpts \<Rightarrow> address list \<Rightarrow> address list \<Rightarrow> 'w \<Rightarrow> (go_error + iterator, 'w) go" where
  "OffchainAggregatorFilterer_FilterOwnershipTransferred B c opts from to = filter_logs B (filterer_contract c) opts ''OwnershipTransferred'' [map VAddress from, map VAddress to]"

definition OffchainAggregatorFilterer_WatchOwnershipTransferred :: "'w bind \<Rightarrow> filterer \<Rightarrow> WatchOpts \<Rightarrow> nat \<Rightarrow> address list \<Rightarrow> address list \<Rightarrow> 'w \<Rightarrow> (go_error + watcher, 'w) go" where
  "OffchainAggregatorFilterer_WatchOwnershipTransferred B c opts sink from to =
     watch_logs B (filterer_contract c) opts ''OwnershipTransferred'' OffchainAggregatorOwnershipTransferred sink [map VAddress from, map VAddress to]"

definition OffchainAggregatorFilterer_ParseOwnershipTransferred :: "'w bind \<Rightarrow> filterer \<Rightarrow> log \<Rightarrow> go_error + event" where
  "OffchainAggregatorFilterer_ParseOwnershipTransferred B c = parse_log B (filterer_contract c) ''OwnershipTransferred'' OffchainAggregatorOwnershipTransferred"

definition OffchainAggregatorPayeeshipTransferRequested :: struct where
  "OffchainAggregatorPayeeshipTransferRequested = [(''Transmitter'', TAddress), (''Current'', TAddress), (''Proposed'', TAddress)]"

type_synonym OffchainAggregatorPayeeshipTransferRequestedIterator = iterator

definition OffchainAggregatorPayeeshipTransferRequestedIterator_Next :: "'w bind \<Rightarrow> iterator \<Rightarrow> 'w \<Rightarrow> (bool \<times> iterator, 'w) go" where
  "OffchainAggregatorPayeeshipTransferRequestedIterator_Next B it = it_Next B OffchainAggregatorPayeeshipTransferRequested it"

definition OffchainAggregatorPayeeshipTransferRequestedIterator_Error :: "iterator \<Rightarrow> err" where
  "OffchainAggregatorPayeeshipTransferRequestedIterator_Error it = it_Error it"

definition OffchainAggregatorPayeeshipTransferRequestedIterator_Close :: "'w bind \<Rightarrow> iterator \<Rightarrow> 'w \<Rightarrow> (err, 'w) go" where
  "OffchainAggregatorPayeeshipTransferRequestedIterator_Close B it = it_Close B it"

definition OffchainAggregatorFilterer_FilterPayeeshipTransferRequested :: "'w bind \<Rightarrow> filterer \<Rightarrow> FilterOpts \<Rightarrow> address list \<Rightarrow> address list \<Rightarrow> address list \<Rightarrow> 'w \<Rightarrow> (go_error + iterator, 'w) go" where
  "OffchainAggregatorFilterer_FilterPayeeshipTransferRequested B c opts transmitter current proposed = filter_logs B (filterer_contract c) opts ''PayeeshipTransferRequested'' [map VAddress transmitter, map VAddress current, map VAddress proposed]"

definition OffchainAggregatorFilterer_WatchPayeeshipTransferRequested :: "'w bind \<Rightarrow> filterer \<Rightarrow> WatchOpts \<Rightarrow> nat \<Rightarrow> address list \<Rightarrow> address list \<Rightarrow> address list \<Rightarrow> 'w \<Rightarrow> (go_error + watcher, 'w) go" where
  "OffchainAggregatorFilterer_WatchPayeeshipTransferRequested B c opts sink transmitter current proposed =
     watch_logs B (filterer_contract c) opts ''PayeeshipTransferRequested'' OffchainAggregatorPayeeshipTransferRequested sink [map VAddress transmitter, map VAddress current, map VAddress proposed]"

definition OffchainAggregatorFilterer_ParsePayeeshipTransferRequested :: "'w bind \<Rightarrow> filterer \<Rightarrow> log \<Rightarrow> go_error + event" where
  "OffchainAggregatorFilterer_ParsePayeeshipTransferRequested B c = parse_log B (filterer_contract c) ''PayeeshipTransferRequested'' OffchainAggregatorPayeeshipTransferRequested"

definition OffchainAggregatorPayeeshipTransferred :: struct where
  "OffchainAggregatorPayeeshipTransferred = [(''Transmitter'', TAddress), (''Previous'', TAddress), (''Current'', TAddress)]"

type_synonym OffchainAggregatorPayeeshipTransferredIterator = iterator

definition OffchainAggregatorPayeeshipTransferredIterator_Next :: "'w bind \<Rightarrow> iterator \<Rightarrow> 'w \<Rightarrow> (bool \<times> iterator, 'w) go" where
  "OffchainAggregatorPayeeshipTransferredIterator_Next B it = it_Next B OffchainAggregatorPayeeshipTransferred it"

definition OffchainAggregatorPayeeshipTransferredIterator_Error :: "iterator \<Rightarrow> err" where
  "OffchainAggregatorPayeeshipTransferredIterator_Error it = it_Error it"

definition OffchainAggregatorPayeeshipTransferredIterator_Close :: "'w bind \<Rightarrow> iterator \<Rightarrow> 'w \<Rightarrow> (err, 'w) go" where
  "OffchainAggregatorPayeeshipTransferredIterator_Close B it = it_Close B it"

definition OffchainAggregatorFilterer_FilterPayeeshipTransferred :: "'w bind \<Rightarrow> filterer \<Rightarrow> FilterOpts \<Rightarrow> address list \<Rightarrow> address list \<Rightarrow> address list \<Rightarrow> 'w \<Rightarrow> (go_error + iterator, 'w) go" where
  "OffchainAggregatorFilterer_FilterPayeeshipTransferred B c opts transmitter previous current = filter_logs B (filterer_contract c) opts ''PayeeshipTransferred'' [map VAddress transmitter, map VAddress previous, map VAddress current]"

definition OffchainAggregatorFilterer_WatchPayeeshipTransferred :: "'w bind \<Rightarrow> filterer \<Rightarrow> WatchOpts \<Rightarrow> nat \<Rightarrow> address list \<Rightarrow> address list \<Rightarrow> address list \<Rightarrow> 'w \<Rightarrow> (go_error + watcher, 'w) go" where
  "OffchainAggregatorFilterer_WatchPayeeshipTransferred B c opts sink transmitter previous current =
     watch_logs B (filterer_contract c) opts ''PayeeshipTransferred'' OffchainAggregatorPayeeshipTransferred sink [map VAddress transmitter, map VAddress previous, map VAddress current]"

definition OffchainAggregatorFilterer_ParsePayeeshipTransferred :: "'w bind \<Rightarrow> filterer \<Rightarrow> log \<Rightarrow> go_error + event" where
  "OffchainAggregatorFilterer_ParsePayeeshipTransferred B c = parse_log B (filterer_contract c) ''PayeeshipTransferred'' OffchainAggregatorPayeeshipTransferred"

definition OffchainAggregatorRequesterAccessControllerSet :: struct where
  "OffchainAggregatorRequesterAccessControllerSet = [(''Old'', TAddress), (''Current'', TAddress)]"

type_synonym OffchainAggregatorRequesterAccessControllerSetIterator = iterator

definition OffchainAggregatorRequesterAccessControllerSetIterator_Next :: "'w bind \<Rightarrow> iterator \<Rightarrow> 'w \<Rightarrow> (bool \<times> iterator, 'w) go" where
  "OffchainAggregatorRequesterAccessControllerSetIterator_Next B it = it_Next B OffchainAggregatorRequesterAccessControllerSet it"

definition OffchainAggregatorRequesterAccessControllerSetIterator_Error :: "iterator \<Rightarrow> err" where
  "OffchainAggregatorRequesterAccessControllerSetIterator_Error it = it_Error it"

definition OffchainAggregatorRequesterAccessControllerSetIterator_Close :: "'w bind \<Rightarrow> iterator \<Rightarrow> 'w \<Rightarrow> (err, 'w) go" where
  "OffchainAggregatorRequesterAccessControllerSetIterator_Close B it = it_Close B it"

definition OffchainAggregatorFilterer_FilterRequesterAccessControllerSet :: "'w bind \<Rightarrow> filterer \<Rightarrow> FilterOpts \<Rightarrow> 'w \<Rightarrow> (go_error + iterator, 'w) go" where
  "OffchainAggregatorFilterer_FilterRequesterAccessControllerSet B c opts = filter_logs B (filterer_contract c) opts ''RequesterAccessControllerSet'' []"

definition OffchainAggregatorFilterer_WatchRequesterAccessControllerSet :: "'w bind \<Rightarrow> filterer \<Rightarrow> WatchOpts \<Rightarrow> nat \<Rightarrow> 'w \<Rightarrow> (go_error + watcher, 'w) go" where
  "OffchainAggregatorFilterer_WatchRequesterAccessControllerSet B c opts sink =
     watch_logs B (filterer_contract c) opts ''RequesterAccessControllerSet'' OffchainAggregatorRequesterAccessControllerSet sink []"

definition OffchainAggregatorFilterer_ParseRequesterAccessControllerSet :: "'w bind \<Rightarrow> filterer \<Rightarrow> log \<Rightarrow> go_error + event" where
  "OffchainAggregatorFilterer_ParseRequesterAccessControllerSet B c = parse_log B (filterer_contract c) ''RequesterAccessControllerSet'' OffchainAggregatorRequesterAccessControllerSet"

definition OffchainAggregatorRoundRequested :: struct where
  "OffchainAggregatorRoundRequested = [(''Requester'', TAddress), (''ConfigDigest'', TFixed 16), (''Epoch'', TUint32), (''Round'', TUint8)]"

type_synonym OffchainAggregatorRoundRequestedIterator = iterator

definition OffchainAggregatorRoundRequestedIterator_Next :: "'w bind \<Rightarrow> iterator \<Rightarrow> 'w \<Rightarrow> (bool \<times> iterator, 'w) go" where
  "OffchainAggregatorRoundRequestedIterator_Next B it = it_Next B OffchainAggregatorRoundRequested it"

definition OffchainAggregatorRoundRequestedIterator_Error :: "iterator \<Rightarrow> err" where
  "OffchainAggregatorRoundRequestedIterator_Error it = it_Error it"

definition OffchainAggregatorRoundRequestedIterator_Close :: "'w bind \<Rightarrow> iterator \<Rightarrow> 'w \<Rightarrow> (err, 'w) go" where
  "OffchainAggregatorRoundRequestedIterator_Close B it = it_Close B it"

definition OffchainAggregatorFilterer_FilterRoundRequested :: "'w bind \<Rightarrow> filterer \<Rightarrow> FilterOpts \<Rightarrow> address list \<Rightarrow> 'w \<Rightarrow> (go_error + iterator, 'w) go" where
  "OffchainAggregatorFilterer_FilterRoundRequested B c opts requester = filter_logs B (filterer_contract c) opts ''RoundRequested'' [map VAddress requester]"

definition OffchainAggregatorFilterer_WatchRoundRequested :: "'w bind \<Rightarrow> filterer \<Rightarrow> WatchOpts \<Rightarrow> nat \<Rightarrow> address list \<Rightarrow> 'w \<Rightarrow> (go_error + watcher, 'w) go" where
  "OffchainAggregatorFilterer_WatchRoundRequested B c opts sink requester =
     watch_logs B (filterer_contract c) opts ''RoundRequested'' OffchainAggregatorRoundRequested sink [map VAddress requester]"

definition OffchainAggregatorFilterer_ParseRoundRequested :: "'w bind \<Rightarrow> filterer \<Rightarrow> log \<Rightarrow> go_error + event" where
  "OffchainAggregatorFilterer_ParseRoundRequested B c = parse_log B (filterer_contract c) ''RoundRequested'' OffchainAggregatorRoundRequested"

definition OffchainAggregatorValidatorConfigSet :: struct where
  "OffchainAggregatorValidatorConfigSet = [(''PreviousValidator'', TAddress), (''PreviousGasLimit'', TUint32), (''CurrentValidator'', TAddress), (''CurrentGasLimit'', TUint32)]"

type_synonym OffchainAggregatorValidatorConfigSetIterator = iterator

definition OffchainAggregatorValidatorConfigSetIterator_Next :: "'w bind \<Rightarrow> iterator \<Rightarrow> 'w \<Rightarrow> (bool \<times> iterator, 'w) go" where
  "OffchainAggregatorValidatorConfigSetIterator_Next B it = it_Next B OffchainAggregatorValidatorConfigSet it"

definition OffchainAggregatorValidatorConfigSetIterator_Error :: "iterator \<Rightarrow> err" where
  "OffchainAggregatorValidatorConfigSetIterator_Error it = it_Error it"

definition OffchainAggregatorValidatorConfigSetIterator_Close :: "'w bind \<Rightarrow> iterator \<Rightarrow> 'w \<Rightarrow> (err, 'w) go" where
  "OffchainAggregatorValidatorConfigSetIterator_Close B it = it_Close B it"

definition OffchainAggregatorFilterer_FilterValidatorConfigSet :: "'w bind \<Rightarrow> filterer \<Rightarrow> FilterOpts \<Rightarrow> address list \<Rightarrow> address list \<Rightarrow> 'w \<Rightarrow> (go_error + iterator, 'w) go" where
  "OffchainAggregatorFilterer_FilterValidatorConfigSet B c opts previousValidator currentValidator = filter_logs B (filterer_contract c) opts ''ValidatorConfigSet'' [map VAddress previousValidator, map VAddress currentValidator]"

definition OffchainAggregatorFilterer_WatchValidatorConfigSet :: "'w bind \<Rightarrow> filterer \<Rightarrow> WatchOpts \<Rightarrow> nat \<Rightarrow> address list \<Rightarrow> address list \<Rightarrow> 'w \<Rightarrow> (go_error + watcher, 'w) go" where
  "OffchainAggregatorFilterer_WatchValidatorConfigSet B c opts sink previousValidator currentValidator =
     watch_logs B (filterer_contract c) opts ''ValidatorConfigSet'' OffchainAggregatorValidatorConfigSet sink [map VAddress previousValidator, map VAddress currentValidator]"

definition OffchainAggregatorFilterer_ParseValidatorConfigSet :: "'w bind \<Rightarrow> filterer \<Rightarrow> log \<Rightarrow> go_error + event" where
  "OffchainAggregatorFilterer_ParseValidatorConfigSet B c = parse_log B (filterer_contract c) ''ValidatorConfigSet'' OffchainAggregatorValidatorConfigSet"

section \<open>Conformity with the ABI\<close>

lemma offchain_aggregator_methods:
  "has_method OffchainAggregatorABI ''LINK'' True [] [TAddress]"
  "has_method OffchainAggregatorABI ''billingAccessController'' True [] [TAddress]"
  "has_method OffchainAggregatorABI ''decimals'' True [] [TUint8]"
  "has_method OffchainAggregatorABI ''description'' True [] [TString]"
  "has_method OffchainAggregatorABI ''getAnswer'' True [TBig] [TBig]"
  "has_method OffchainAggregatorABI ''getBilling'' True [] [TUint32, TUint32, TUint32, TUint32, TUint32]"
  "has_method OffchainAggregatorABI ''getRoundData'' True [TBig] [TBig, TBig, TBig, TBig, TBig]"
  "has_method OffchainAggregatorABI ''getTimestamp'' True [TBig] [TBig]"
  "has_method OffchainAggregatorABI ''latestAnswer'' True [] [TBig]"
  "has_method OffchainAggregatorABI ''latestConfigDetails'' True [] [TUint32, TUint32, TFixed 16]"
  "has_method OffchainAggregatorABI ''latestRound'' True [] [TBig]"
  "has_method OffchainAggregatorABI ''latestRoundData'' True [] [TBig, TBig, TBig, TBig, TBig]"
  "has_method OffchainAggregatorABI ''latestTimestamp'' True [] [TBig]"
  "has_method OffchainAggregatorABI ''latestTransmissionDetails'' True [] [TFixed 16, TUint32, TUint8, TBig, TUint64]"
  "has_method OffchainAggregatorABI ''linkAvailableForPayment'' True [] [TBig]"
  "has_method OffchainAggregatorABI ''maxAnswer'' True [] [TBig]"
  "has_method OffchainAggregatorABI ''minAnswer'' True [] [TBig]"
  "has_method OffchainAggregatorABI ''oracleObservationCount'' True [TAddress] [TUint16]"
  "has_method OffchainAggregatorABI ''owedPayment'' True [TAddress] [TBig]"
  "has_method OffchainAggregatorABI ''owner'' True [] [TAddress]"
  "has_method OffchainAggregatorABI ''requesterAccessController'' True [] [TAddress]"
  "has_method OffchainAggregatorABI ''transmitters'' True [] [TAddresses]"
  "has_method OffchainAggregatorABI ''typeAndVersion'' True [] [TString]"
  "has_method OffchainAggregatorABI ''validatorConfig'' True [] [TAddress, TUint32]"
  "has_method OffchainAggregatorABI ''version'' True [] [TBig]"
  by code_simp+

lemma offchain_aggregator_transactions:
  "has_transaction OffchainAggregatorABI ''acceptOwnership'' []"
  "has_transaction OffchainAggregatorABI ''acceptPayeeship'' [TAddress]"
  "has_transaction OffchainAggregatorABI ''requestNewRound'' []"
  "has_transaction OffchainAggregatorABI ''setBilling'' [TUint32, TUint32, TUint32, TUint32, TUint32]"
  "has_transaction OffchainAggregatorABI ''setBillingAccessController'' [TAddress]"
  "has_transaction OffchainAggregatorABI ''setConfig'' [TAddresses, TAddresses, TUint8, TUint64, TBytes]"
  "has_transaction OffchainAggregatorABI ''setPayees'' [TAddresses, TAddresses]"
  "has_transaction OffchainAggregatorABI ''setRequesterAccessController'' [TAddress]"
  "has_transaction OffchainAggregatorABI ''setValidatorConfig'' [TAddress, TUint32]"
  "has_transaction OffchainAggregatorABI ''transferOwnership'' [TAddress]"
  "has_transaction OffchainAggregatorABI ''transferPayeeship'' [TAddress, TAddress]"
  "has_transaction OffchainAggregatorABI ''transmit'' [TBytes, TBytes32s, TBytes32s, TFixed 32]"
  "has_transaction OffchainAggregatorABI ''withdrawFunds'' [TAddress, TBig]"
  "has_transaction OffchainAggregatorABI ''withdrawPayment'' [TAddress]"
  by code_simp+

lemma offchain_aggregator_events:
  "has_event OffchainAggregatorABI ''AnswerUpdated'' OffchainAggregatorAnswerUpdated [TBig, TBig]"
  "has_event OffchainAggregatorABI ''BillingAccessControllerSet'' OffchainAggregatorBillingAccessControllerSet []"
  "has_event OffchainAggregatorABI ''BillingSet'' OffchainAggregatorBillingSet []"
  "has_event OffchainAggregatorABI ''ConfigSet'' OffchainAggregatorConfigSet []"
  "has_event OffchainAggregatorABI ''NewRound'' OffchainAggregatorNewRound [TBig, TAddress]"
  "has_event OffchainAggregatorABI ''NewTransmission'' OffchainAggregatorNewTransmission [TUint32]"
  "has_event OffchainAggregatorABI ''OraclePaid'' OffchainAggregatorOraclePaid []"
  "has_event OffchainAggregatorABI ''OwnershipTransferRequested'' OffchainAggregatorOwnershipTransferRequested [TAddress, TAddress]"
  "has_event OffchainAggregatorABI ''OwnershipTransferred'' OffchainAggregatorOwnershipTransferred [TAddress, TAddress]"
  "has_event OffchainAggregatorABI ''PayeeshipTransferRequested'' OffchainAggregatorPayeeshipTransferRequested [TAddress, TAddress, TAddress]"
  "has_event OffchainAggregatorABI ''PayeeshipTransferred'' OffchainAggregatorPayeeshipTransferred [TAddress, TAddress, TAddress]"
  "has_event OffchainAggregatorABI ''RequesterAccessControllerSet'' OffchainAggregatorRequesterAccessControllerSet []"
  "has_event OffchainAggregatorABI ''RoundRequested'' OffchainAggregatorRoundRequested [TAddress]"
  "has_event OffchainAggregatorABI ''ValidatorConfigSet'' OffchainAggregatorValidatorConfigSet [TAddress, TAddress]"
  by code_simp+

lemmas offchain_aggregator_defs =
  OffchainAggregatorCaller_LINK_def OffchainAggregatorCaller_BillingAccessController_def
  OffchainAggregatorCaller_Decimals_def OffchainAggregatorCaller_Description_def
  OffchainAggregatorCaller_GetAnswer_def OffchainAggregatorCaller_GetBilling_def
  OffchainAggregatorCaller_GetRoundData_def OffchainAggregatorCaller_GetTimestamp_def
  OffchainAggregatorCaller_LatestAnswer_def OffchainAggregatorCaller_LatestConfigDetails_def
  OffchainAggregatorCaller_LatestRound_def OffchainAggregatorCaller_LatestRoundData_def
  OffchainAggregatorCaller_LatestTimestamp_def OffchainAggregatorCaller_LatestTransmissionDetails_def
  OffchainAggregatorCaller_LinkAvailableForPayment_def OffchainAggregatorCaller_MaxAnswer_def
  OffchainAggregatorCaller_MinAnswer_def OffchainAggregatorCaller_OracleObservationCount_def
  OffchainAggregatorCaller_OwedPayment_def OffchainAggregatorCaller_Owner_def
  OffchainAggregatorCaller_RequesterAccessController_def OffchainAggregatorCaller_Transmitters_def
  OffchainAggregatorCaller_TypeAndVersion_def OffchainAggregatorCaller_ValidatorConfig_def
  OffchainAggregatorCaller_Version_def OffchainAggregatorTransactor_AcceptOwnership_def
  OffchainAggregatorTransactor_AcceptPayeeship_def OffchainAggregatorTransactor_RequestNewRound_def
  OffchainAggregatorTransactor_SetBilling_def OffchainAggregatorTransactor_SetBillingAccessController_def
  OffchainAggregatorTransactor_SetConfig_def OffchainAggregatorTransactor_SetPayees_def
  OffchainAggregatorTransactor_SetRequesterAccessController_def
  OffchainAggregatorTransactor_SetValidatorConfig_def OffchainAggregatorTransactor_TransferOwnership_def
  OffchainAggregatorTransactor_TransferPayeeship_def OffchainAggregatorTransactor_Transmit_def
  OffchainAggregatorTransactor_WithdrawFunds_def OffchainAggregatorTransactor_WithdrawPayment_def
  OffchainAggregatorFilterer_FilterAnswerUpdated_def OffchainAggregatorFilterer_WatchAnswerUpdated_def
  OffchainAggregatorFilterer_ParseAnswerUpdated_def
  OffchainAggregatorFilterer_FilterBillingAccessControllerSet_def
  OffchainAggregatorFilterer_WatchBillingAccessControllerSet_def
  OffchainAggregatorFilterer_ParseBillingAccessControllerSet_def OffchainAggregatorFilterer_FilterBillingSet_def
  OffchainAggregatorFilterer_WatchBillingSet_def OffchainAggregatorFilterer_ParseBillingSet_def
  OffchainAggregatorFilterer_FilterConfigSet_def OffchainAggregatorFilterer_WatchConfigSet_def
  OffchainAggregatorFilterer_ParseConfigSet_def OffchainAggregatorFilterer_FilterNewRound_def
  OffchainAggregatorFilterer_WatchNewRound_def OffchainAggregatorFilterer_ParseNewRound_def
  OffchainAggregatorFilterer_FilterNewTransmission_def OffchainAggregatorFilterer_WatchNewTransmission_def
  OffchainAggregatorFilterer_ParseNewTransmission_def OffchainAggregatorFilterer_FilterOraclePaid_def
  OffchainAggregatorFilterer_WatchOraclePaid_def OffchainAggregatorFilterer_ParseOraclePaid_def
  OffchainAggregatorFilterer_FilterOwnershipTransferRequested_def
  OffchainAggregatorFilterer_WatchOwnershipTransferRequested_def
  OffchainAggregatorFilterer_ParseOwnershipTransferRequested_def
  OffchainAggregatorFilterer_FilterOwnershipTransferred_def
  OffchainAggregatorFilterer_WatchOwnershipTransferred_def
  OffchainAggregatorFilterer_ParseOwnershipTransferred_def
  OffchainAggregatorFilterer_FilterPayeeshipTransferRequested_def
  OffchainAggregatorFilterer_WatchPayeeshipTransferRequested_def
  OffchainAggregatorFilterer_ParsePayeeshipTransferRequested_def
  OffchainAggregatorFilterer_FilterPayeeshipTransferred_def
  OffchainAggregatorFilterer_WatchPayeeshipTransferred_def
  OffchainAggregatorFilterer_ParsePayeeshipTransferred_def
  OffchainAggregatorFilterer_FilterRequesterAccessControllerSet_def
  OffchainAggregatorFilterer_WatchRequesterAccessControllerSet_def
  OffchainAggregatorFilterer_ParseRequesterAccessControllerSet_def
  OffchainAggregatorFilterer_FilterRoundRequested_def OffchainAggregatorFilterer_WatchRoundRequested_def
  OffchainAggregatorFilterer_ParseRoundRequested_def OffchainAggregatorFilterer_FilterValidatorConfigSet_def
  OffchainAggregatorFilterer_WatchValidatorConfigSet_def OffchainAggregatorFilterer_ParseValidatorConfigSet_def
  caller.simps transactor.simps filterer.simps

text \<open>
  Every read-only method of the OffchainAggregator binding calls a view method of the
  contract's ABI with arguments of its types, and reads its results at their types, so that it
  returns and never panics; every transaction
  method sends one of the ABI's methods with arguments of its types; and every event is
  filtered, watched and parsed as the ABI declares it.
\<close>

theorem offchain_aggregator_binding_conforms:
  assumes "abi_typed B" and "bc_abi C = OffchainAggregatorABI"
  shows "safe_call B C opts (OffchainAggregatorCaller_LINK B \<lparr>caller_contract = C\<rparr> opts) \<and>
    safe_call B C opts (OffchainAggregatorCaller_BillingAccessController B \<lparr>caller_contract = C\<rparr> opts) \<and>
    safe_call B C opts (OffchainAggregatorCaller_Decimals B \<lparr>caller_contract = C\<rparr> opts) \<and>
    safe_call B C opts (OffchainAggregatorCaller_Description B \<lparr>caller_contract = C\<rparr> opts) \<and>
    (\<forall>roundId. safe_call B C opts (OffchainAggregatorCaller_GetAnswer B \<lparr>caller_contract = C\<rparr> opts roundId)) \<and>
    safe_call B C opts (OffchainAggregatorCaller_GetBilling B \<lparr>caller_contract = C\<rparr> opts) \<and>
    (\<forall>roundId. safe_call B C opts (OffchainAggregatorCaller_GetRoundData B \<lparr>caller_contract = C\<rparr> opts roundId)) \<and>
    (\<forall>roundId. safe_call B C opts (OffchainAggregatorCaller_GetTimestamp B \<lparr>caller_contract = C\<rparr> opts roundId)) \<and>
    safe_call B C opts (OffchainAggregatorCaller_LatestAnswer B \<lparr>caller_contract = C\<rparr> opts) \<and>
    safe_call B C opts (OffchainAggregatorCaller_LatestConfigDetails B \<lparr>caller_contract = C\<rparr> opts) \<and>
    safe_call B C opts (OffchainAggregatorCaller_LatestRound B \<lparr>caller_contract = C\<rparr> opts) \<and>
    safe_call B C opts (OffchainAggregatorCaller_LatestRoundData B \<lparr>caller_contract = C\<rparr> opts) \<and>
    safe_call B C opts (OffchainAggregatorCaller_LatestTimestamp B \<lparr>caller_contract = C\<rparr> opts) \<and>
    safe_call B C opts (OffchainAggregatorCaller_LatestTransmissionDetails B \<lparr>caller_contract = C\<rparr> opts) \<and>
    safe_call B C opts (OffchainAggregatorCaller_LinkAvailableForPayment B \<lparr>caller_contract = C\<rparr> opts) \<and>
    safe_call B C opts (OffchainAggregatorCaller_MaxAnswer B \<lparr>caller_contract = C\<rparr> opts) \<and>
    safe_call B C opts (OffchainAggregatorCaller_MinAnswer B \<lparr>caller_contract = C\<rparr> opts) \<and>
    (\<forall>signerOrTransmitter. safe_call B C opts (OffchainAggregatorCaller_OracleObservationCount B \<lparr>caller_contract = C\<rparr> opts signerOrTransmitter)) \<and>
    (\<forall>transmitter. safe_call B C opts (OffchainAggregatorCaller_OwedPayment B \<lparr>caller_contract = C\<rparr> opts transmitter)) \<and>
    safe_call B C opts (OffchainAggregatorCaller_Owner B \<lparr>caller_contract = C\<rparr> opts) \<and>
    safe_call B C opts (OffchainAggregatorCaller_RequesterAccessController B \<lparr>caller_contract = C\<rparr> opts) \<and>
    safe_call B C opts (OffchainAggregatorCaller_Transmitters B \<lparr>caller_contract = C\<rparr> opts) \<and>
    safe_call B C opts (OffchainAggregatorCaller_TypeAndVersion B \<lparr>caller_contract = C\<rparr> opts) \<and>
    safe_call B C opts (OffchainAggregatorCaller_ValidatorConfig B \<lparr>caller_contract = C\<rparr> opts) \<and>
    safe_call B C opts (OffchainAggregatorCaller_Version B \<lparr>caller_contract = C\<rparr> opts) \<and>
    safe_transact B C auth (OffchainAggregatorTransactor_AcceptOwnership B \<lparr>transactor_contract = C\<rparr> auth) \<and>
    (\<forall>transmitter. safe_transact B C auth (OffchainAggregatorTransactor_AcceptPayeeship B \<lparr>transactor_contract = C\<rparr> auth transmitter)) \<and>
    safe_transact B C auth (OffchainAggregatorTransactor_RequestNewRound B \<lparr>transactor_contract = C\<rparr> auth) \<and>
    (\<forall>maximumGasPrice reasonableGasPrice microLinkPerEth linkGweiPerObservation linkGweiPerTransmission. safe_transact B C auth (OffchainAggregatorTransactor_SetBilling B \<lparr>transactor_contract = C\<rparr> auth maximumGasPrice reasonableGasPrice microLinkPerEth linkGweiPerObservation linkGweiPerTransmission)) \<and>
    (\<forall>billingAccessController. safe_transact B C auth (OffchainAggregatorTransactor_SetBillingAccessController B \<lparr>transactor_contract = C\<rparr> auth billingAccessController)) \<and>
    (\<forall>signers transmitters threshold encodedConfigVersion encoded. safe_transact B C auth (OffchainAggregatorTransactor_SetConfig B \<lparr>transactor_contract = C\<rparr> auth signers transmitters threshold encodedConfigVersion encoded)) \<and>
    (\<forall>transmitters payees. safe_transact B C auth (OffchainAggregatorTransactor_SetPayees B \<lparr>transactor_contract = C\<rparr> auth transmitters payees)) \<and>
    (\<forall>requesterAccessController. safe_transact B C auth (OffchainAggregatorTransactor_SetRequesterAccessController B \<lparr>transactor_contract = C\<rparr> auth requesterAccessController)) \<and>
    (\<forall>newValidator newGasLimit. safe_transact B C auth (OffchainAggregatorTransactor_SetValidatorConfig B \<lparr>transactor_contract = C\<rparr> auth newValidator newGasLimit)) \<and>
    (\<forall>to. safe_transact B C auth (OffchainAggregatorTransactor_TransferOwnership B \<lparr>transactor_contract = C\<rparr> auth to)) \<and>
    (\<forall>transmitter proposed. safe_transact B C auth (OffchainAggregatorTransactor_TransferPayeeship B \<lparr>transactor_contract = C\<rparr> auth transmitter proposed)) \<and>
    (\<forall>report rs ss rawVs. safe_transact B C auth (OffchainAggregatorTransactor_Transmit B \<lparr>transactor_contract = C\<rparr> auth report rs ss rawVs)) \<and>
    (\<forall>recipient amount. safe_transact B C auth (OffchainAggregatorTransactor_WithdrawFunds B \<lparr>transactor_contract = C\<rparr> auth recipient amount)) \<and>
    (\<forall>transmitter. safe_transact B C auth (OffchainAggregatorTransactor_WithdrawPayment B \<lparr>transactor_contract = C\<rparr> auth transmitter)) \<and>
    (\<forall>current roundId. safe_event B C fopts wopts sink (OffchainAggregatorFilterer_FilterAnswerUpdated B \<lparr>filterer_contract = C\<rparr> fopts current roundId)
      (OffchainAggregatorFilterer_WatchAnswerUpdated B \<lparr>filterer_contract = C\<rparr> wopts sink current roundId) (OffchainAggregatorFilterer_ParseAnswerUpdated B \<lparr>filterer_contract = C\<rparr>)) \<and>
    safe_event B C fopts wopts sink (OffchainAggregatorFilterer_FilterBillingAccessControllerSet B \<lparr>filterer_contract = C\<rparr> fopts)
      (OffchainAggregatorFilterer_WatchBillingAccessControllerSet B \<lparr>filterer_contract = C\<rparr> wopts sink) (OffchainAggregatorFilterer_ParseBillingAccessControllerSet B \<lparr>filterer_contract = C\<rparr>) \<and>
    safe_event B C fopts wopts sink (OffchainAggregatorFilterer_FilterBillingSet B \<lparr>filterer_contract = C\<rparr> fopts)
      (OffchainAggregatorFilterer_WatchBillingSet B \<lparr>filterer_contract = C\<rparr> wopts sink) (OffchainAggregatorFilterer_ParseBillingSet B \<lparr>filterer_contract = C\<rparr>) \<and>
    safe_event B C fopts wopts sink (OffchainAggregatorFilterer_FilterConfigSet B \<lparr>filterer_contract = C\<rparr> fopts)
      (OffchainAggregatorFilterer_WatchConfigSet B \<lparr>filterer_contract = C\<rparr> wopts sink) (OffchainAggregatorFilterer_ParseConfigSet B \<lparr>filterer_contract = C\<rparr>) \<and>
    (\<forall>roundId startedBy. safe_event B C fopts wopts sink (OffchainAggregatorFilterer_FilterNewRound B \<lparr>filterer_contract = C\<rparr> fopts roundId startedBy)
      (OffchainAggregatorFilterer_WatchNewRound B \<lparr>filterer_contract = C\<rparr> wopts sink roundId startedBy) (OffchainAggregatorFilterer_ParseNewRound B \<lparr>filterer_contract = C\<rparr>)) \<and>
    (\<forall>aggregatorRoundId. safe_event B C fopts wopts sink (OffchainAggregatorFilterer_FilterNewTransmission B \<lparr>filterer_contract = C\<rparr> fopts aggregatorRoundId)
      (OffchainAggregatorFilterer_WatchNewTransmission B \<lparr>filterer_contract = C\<rparr> wopts sink aggregatorRoundId) (OffchainAggregatorFilterer_ParseNewTransmission B \<lparr>filterer_contract = C\<rparr>)) \<and>
    safe_event B C fopts wopts sink (OffchainAggregatorFilterer_FilterOraclePaid B \<lparr>filterer_contract = C\<rparr> fopts)
      (OffchainAggregatorFilterer_WatchOraclePaid B \<lparr>filterer_contract = C\<rparr> wopts sink) (OffchainAggregatorFilterer_ParseOraclePaid B \<lparr>filterer_contract = C\<rparr>) \<and>
    (\<forall>from to. safe_event B C fopts wopts sink (OffchainAggregatorFilterer_FilterOwnershipTransferRequested B \<lparr>filterer_contract = C\<rparr> fopts from to)
      (OffchainAggregatorFilterer_WatchOwnershipTransferRequested B \<lparr>filterer_contract = C\<rparr> wopts sink from to) (OffchainAggregatorFilterer_ParseOwnershipTransferRequested B \<lparr>filterer_contract = C\<rparr>)) \<and>
    (\<forall>from to. safe_event B C fopts wopts sink (OffchainAggregatorFilterer_FilterOwnershipTransferred B \<lparr>filterer_contract = C\<rparr> fopts from to)
      (OffchainAggregatorFilterer_WatchOwnershipTransferred B \<lparr>filterer_contract = C\<rparr> wopts sink from to) (OffchainAggregatorFilterer_ParseOwnershipTransferred B \<lparr>filterer_contract = C\<rparr>)) \<and>
    (\<forall>transmitter current proposed. safe_event B C fopts wopts sink (OffchainAggregatorFilterer_FilterPayeeshipTransferRequested B \<lparr>filterer_contract = C\<rparr> fopts transmitter current proposed)
      (OffchainAggregatorFilterer_WatchPayeeshipTransferRequested B \<lparr>filterer_contract = C\<rparr> wopts sink transmitter current proposed) (OffchainAggregatorFilterer_ParsePayeeshipTransferRequested B \<lparr>filterer_contract = C\<rparr>)) \<and>
    (\<forall>transmitter previous current. safe_event B C fopts wopts sink (OffchainAggregatorFilterer_FilterPayeeshipTransferred B \<lparr>filterer_contract = C\<rparr> fopts transmitter previous current)
      (OffchainAggregatorFilterer_WatchPayeeshipTransferred B \<lparr>filterer_contract = C\<rparr> wopts sink transmitter previous current) (OffchainAggregatorFilterer_ParsePayeeshipTransferred B \<lparr>filterer_contract = C\<rparr>)) \<and>
    safe_event B C fopts wopts sink (OffchainAggregatorFilterer_FilterRequesterAccessControllerSet B \<lparr>filterer_contract = C\<rparr> fopts)
      (OffchainAggregatorFilterer_WatchRequesterAccessControllerSet B \<lparr>filterer_contract = C\<rparr> wopts sink) (OffchainAggregatorFilterer_ParseRequesterAccessControllerSet B \<lparr>filterer_contract = C\<rparr>) \<and>
    (\<forall>requester. safe_event B C fopts wopts sink (OffchainAggregatorFilterer_FilterRoundRequested B \<lparr>filterer_contract = C\<rparr> fopts requester)
      (OffchainAggregatorFilterer_WatchRoundRequested B \<lparr>filterer_contract = C\<rparr> wopts sink requester) (OffchainAggregatorFilterer_ParseRoundRequested B \<lparr>filterer_contract = C\<rparr>)) \<and>
    (\<forall>previousValidator currentValidator. safe_event B C fopts wopts sink (OffchainAggregatorFilterer_FilterValidatorConfigSet B \<lparr>filterer_contract = C\<rparr> fopts previousValidator currentValidator)
      (OffchainAggregatorFilterer_WatchValidatorConfigSet B \<lparr>filterer_contract = C\<rparr> wopts sink previousValidator currentValidator) (OffchainAggregatorFilterer_ParseValidatorConfigSet B \<lparr>filterer_contract = C\<rparr>))"
  unfolding offchain_aggregator_defs
  by ((intro conjI allI)?)
     ((rule safe_callI [OF assms(1)], unfold assms(2) list.map type_of.simps, rule offchain_aggregator_methods,
        (auto intro!: out_Value [OF assms(1)] bind_outcome_Value)[1])
      | (rule safe_transactI, unfold assms(2) list.map type_of.simps, rule offchain_aggregator_transactions)
      | (rule safe_eventI, unfold assms(2), rule offchain_aggregator_events, (auto)[1]))+

theorem offchain_aggregator_binding_conforms_witness:
  "\<exists>r w'. OffchainAggregatorCaller_LatestTransmissionDetails sample_bind \<lparr>caller_contract = sample_contract OffchainAggregatorABI\<rparr> sample_opts [] = Ret r w'"
  using offchain_aggregator_binding_conforms [OF sample_bind_typed, of "sample_contract OffchainAggregatorABI" sample_opts]
  by (simp add: safe_call_def sample_contract_def)

end
