(* ===== verification/Contracts.thy ===== *)
theory Contracts
  imports Store_Binding VRF_Binding LinkToken_Binding FluxAggregator_Binding OffchainAggregator_Binding
begin

text \<open>
  \<open>contracts/contract_models.go\<close> and \<open>contracts/ethereum_contracts.go\<close>: the contracts of the
  framework, which deploy, fund, configure and read the Ethereum contracts through the client
  (\<open>Eth_Client\<close>) and the generated bindings. Log output is not modelled. A \<open>context.Context\<close> is
  a number that is passed on.
\<close>

section \<open>Data (\<open>contracts/contract_models.go\<close>)\<close>

record FluxAggregatorOptions =
  fx_PaymentAmount :: big
  fx_Timeout :: u32
  fx_Validator :: address
  fx_MinSubValue :: big
  fx_MaxSubValue :: big
  fx_Decimals :: u8
  fx_Description :: string

record FluxAggregatorData =
  fd_AllocatedFunds :: big
  fd_AvailableFunds :: big
  fd_LatestRoundData :: RoundData
  fd_Oracles :: "address list"

record OffchainOptions =
  oc_MaximumGasPrice :: u32
  oc_ReasonableGasPrice :: u32
  oc_MicroLinkPerEth :: u32
  oc_LinkGweiPerObservation :: u32
  oc_LinkGweiPerTransmission :: u32
  oc_MinimumAnswer :: big
  oc_MaximumAnswer :: big
  oc_BillingAccessController :: address
  oc_RequesterAccessController :: address
  oc_Decimals :: u8
  oc_Description :: string

record OffchainAggregatorData =
  od_LatestRoundData :: RoundData

definition zero_RoundData :: RoundData where
  "zero_RoundData = \<lparr>rd_RoundId = nil, rd_Answer = nil, rd_StartedAt = nil, rd_UpdatedAt = nil, rd_AnsweredInRound = nil\<rparr>"

definition zero_FluxAggregatorData :: FluxAggregatorData where
  "zero_FluxAggregatorData =
     \<lparr>fd_AllocatedFunds = nil, fd_AvailableFunds = nil, fd_LatestRoundData = zero_RoundData, fd_Oracles = []\<rparr>"

section \<open>Shared steps\<close>

text \<open>The \<open>interface{}\<close> that a deployer returns its binding in.\<close>

datatype bound_instance =
    IsStore binding
  | IsVRF binding
  | IsLinkToken binding
  | IsFluxAggregator binding
  | IsOffchainAggregator binding

definition as_instance :: "(binding \<Rightarrow> bound_instance) \<Rightarrow> (go_error + address \<times> Transaction \<times> binding, 'w) go \<Rightarrow>
    (go_error + address \<times> Transaction \<times> bound_instance, 'w) go" where
  "as_instance f m = bind_go m (\<lambda>r w. Ret (map_sum (\<lambda>err. err) (\<lambda>(address, tx, b). (address, tx, f b)) r) w)"

text \<open>The LINK token's address of the client's network.\<close>

definition link_address :: "'w eth_rpc \<Rightarrow> nc_heap \<Rightarrow> EthereumClient \<Rightarrow> address" where
  "link_address E h e = HexToAddress (keys E) (nc_LinkTokenAddress (network_config h e))"

text \<open>The options of a read-only call: from the caller's wallet, on the pending state.\<close>

definition call_opts :: "'w eth_rpc \<Rightarrow> EthereumWallet \<Rightarrow> nat \<Rightarrow> CallOpts" where
  "call_opts E wallet ctxt =
     \<lparr>co_Pending = True, co_From = HexToAddress (keys E) (Address (keys E) wallet), co_BlockNumber = nil, co_Context = ctxt\<rparr>"

text \<open>Make the options, send the transaction, wait for it; stop at the first error.\<close>

definition transact_and_wait :: "'w eth_rpc \<Rightarrow> nc_heap \<Rightarrow> EthereumClient \<Rightarrow> EthereumWallet \<Rightarrow> address \<Rightarrow>
    (TransactOpts \<Rightarrow> 'w \<Rightarrow> (go_error + Transaction, 'w) go) \<Rightarrow> big \<Rightarrow> 'w \<Rightarrow> (err, 'w) go" where
  "transact_and_wait E h e wallet to send value w =
     bind_go (TransactionOpts E h e wallet to value [] w) (\<lambda>r w.
     case r of
       Inl err \<Rightarrow> Ret (Some err) w
     | Inr opts \<Rightarrow> bind_go (send opts w) (\<lambda>r w.
         case r of
           Inl err \<Rightarrow> Ret (Some err) w
         | Inr tx \<Rightarrow> WaitForTransaction E h e (tx_Hash tx) w))"

definition not_zero :: "big \<Rightarrow> bool" where
  "not_zero amount \<longleftrightarrow> amount \<noteq> nil \<and> amount \<noteq> Some 0"

text \<open>\<open>fund\<close>: ETH first, then LINK, each only if its amount is neither nil nor 0.\<close>

definition fund :: "'w bind \<Rightarrow> 'w eth_rpc \<Rightarrow> nc_heap \<Rightarrow> EthereumClient \<Rightarrow> EthereumWallet \<Rightarrow> address \<Rightarrow> big \<Rightarrow> big \<Rightarrow> 'w \<Rightarrow>
    (err, 'w) go" where
  "fund B E h e fromWallet toAddress ethAmount linkAmount w =
     bind_go
       (if not_zero ethAmount
        then bind_go (SendTransaction E h e fromWallet toAddress ethAmount [] w) (\<lambda>(_, err) w. Ret err w)
        else Ret nil w) (\<lambda>err w.
     if err \<noteq> nil then Ret err w
     else if not_zero linkAmount then
       (case NewLinkToken B (link_address E h e) (Client e) of
          Inl err \<Rightarrow> Ret (Some err) w
        | Inr linkInstance \<Rightarrow>
            transact_and_wait E h e fromWallet toAddress
              (\<lambda>opts. LinkTokenTransactor_Transfer B (Transactor linkInstance) opts toAddress linkAmount) nil w)
     else Ret nil w)"

section \<open>Flux aggregator\<close>

record EthereumFluxAggregator =
  efa_client :: EthereumClient
  efa_fluxAggregator :: binding
  efa_callerWallet :: EthereumWallet
  efa_address :: address

definition DeployFluxAggregatorContract :: "'w bind \<Rightarrow> 'w eth_rpc \<Rightarrow> nc_heap \<Rightarrow> EthereumClient \<Rightarrow> EthereumWallet \<Rightarrow>
    FluxAggregatorOptions \<Rightarrow> 'w \<Rightarrow> (go_error + EthereumFluxAggregator, 'w) go" where
  "DeployFluxAggregatorContract B E h ethClient fromWallet fluxOptions w =
     bind_go (DeployContract E h ethClient fromWallet ''Flux Aggregator'' (\<lambda>auth backend w.
       as_instance IsFluxAggregator (DeployFluxAggregator B auth backend (link_address E h ethClient)
         (fx_PaymentAmount fluxOptions) (fx_Timeout fluxOptions) (fx_Validator fluxOptions)
         (fx_MinSubValue fluxOptions) (fx_MaxSubValue fluxOptions) (fx_Decimals fluxOptions)
         (fx_Description fluxOptions) w)) w) (\<lambda>r w.
     case r of
       Inl err \<Rightarrow> Ret (Inl err) w
     | Inr (address, _, inst) \<Rightarrow>
         (case inst of
            IsFluxAggregator b \<Rightarrow> Ret (Inr \<lparr>efa_client = ethClient, efa_fluxAggregator = b,
              efa_callerWallet = fromWallet, efa_address = address\<rparr>) w
          | _ \<Rightarrow> Crash TypeAssertion w))"

definition EthereumFluxAggregator_Fund :: "'w bind \<Rightarrow> 'w eth_rpc \<Rightarrow> nc_heap \<Rightarrow> EthereumFluxAggregator \<Rightarrow> EthereumWallet \<Rightarrow>
    big \<Rightarrow> big \<Rightarrow> 'w \<Rightarrow> (err, 'w) go" where
  "EthereumFluxAggregator_Fund B E h f fromWallet ethAmount linkAmount w =
     fund B E h (efa_client f) fromWallet (efa_address f) ethAmount linkAmount w"

definition EthereumFluxAggregator_GetContractData :: "'w bind \<Rightarrow> 'w eth_rpc \<Rightarrow> EthereumFluxAggregator \<Rightarrow> nat \<Rightarrow> 'w \<Rightarrow>
    (FluxAggregatorData \<times> err, 'w) go" where
  "EthereumFluxAggregator_GetContractData B E f ctxt w =
     (let opts = call_opts E (efa_callerWallet f) ctxt; c = Caller (efa_fluxAggregator f) in
     bind_go (FluxAggregatorCaller_AllocatedFunds B c opts w) (\<lambda>(allocated, err) w.
     if err \<noteq> nil then Ret (zero_FluxAggregatorData, err) w else
     bind_go (FluxAggregatorCaller_AvailableFunds B c opts w) (\<lambda>(available, err) w.
     if err \<noteq> nil then Ret (zero_FluxAggregatorData, err) w else
     bind_go (FluxAggregatorCaller_LatestRoundData B c opts w) (\<lambda>(lr, err) w.
     if err \<noteq> nil then Ret (zero_FluxAggregatorData, err) w else
     bind_go (FluxAggregatorCaller_GetOracles B c opts w) (\<lambda>(oracles, err) w.
     if err \<noteq> nil then Ret (zero_FluxAggregatorData, err) w else
     Ret (\<lparr>fd_AllocatedFunds = allocated, fd_AvailableFunds = available, fd_LatestRoundData = lr,
           fd_Oracles = oracles\<rparr>, nil) w)))))"

definition EthereumFluxAggregator_SetOracles :: "'w bind \<Rightarrow> 'w eth_rpc \<Rightarrow> nc_heap \<Rightarrow> EthereumFluxAggregator \<Rightarrow> EthereumWallet \<Rightarrow>
    address list \<Rightarrow> address list \<Rightarrow> address list \<Rightarrow> u32 \<Rightarrow> u32 \<Rightarrow> u32 \<Rightarrow> 'w \<Rightarrow> (err, 'w) go" where
  "EthereumFluxAggregator_SetOracles B E h f fromWallet toAdd toRemove toAdmin minSubmissions maxSubmissions restartDelay w =
     transact_and_wait E h (efa_client f) fromWallet (efa_address f)
       (\<lambda>opts. FluxAggregatorTransactor_ChangeOracles B (Transactor (efa_fluxAggregator f)) opts
          toRemove toAdd toAdmin minSubmissions maxSubmissions restartDelay) (Some 0) w"

definition EthereumFluxAggregator_Description :: "'w bind \<Rightarrow> 'w eth_rpc \<Rightarrow> EthereumFluxAggregator \<Rightarrow> nat \<Rightarrow> 'w \<Rightarrow>
    (string \<times> err, 'w) go" where
  "EthereumFluxAggregator_Description B E f ctxt w =
     FluxAggregatorCaller_Description B (Caller (efa_fluxAggregator f)) (call_opts E (efa_callerWallet f) ctxt) w"

section \<open>LINK token\<close>

record EthereumLinkToken =
  elt_client :: EthereumClient
  elt_linkToken :: binding
  elt_callerWallet :: EthereumWallet
  elt_address :: address

text \<open>Deploying the token writes its address into the configuration of the client's network.\<close>

definition DeployLinkTokenContract :: "'w bind \<Rightarrow> 'w eth_rpc \<Rightarrow> nc_heap \<Rightarrow> EthereumClient \<Rightarrow> EthereumWallet \<Rightarrow> 'w \<Rightarrow>
    ((go_error + EthereumLinkToken) \<times> nc_heap, 'w) go" where
  "DeployLinkTokenContract B E h ethClient fromWallet w =
     bind_go (DeployContract E h ethClient fromWallet ''LINK Token'' (\<lambda>auth backend w.
       as_instance IsLinkToken (DeployLinkToken B auth backend w)) w) (\<lambda>r w.
     case r of
       Inl err \<Rightarrow> Ret (Inl err, h) w
     | Inr (linkTokenAddress, _, inst) \<Rightarrow>
         let p = Network_Config (Network ethClient);
             h = nc_store h p ((cells h p)\<lparr>nc_LinkTokenAddress := Address_Hex (keys E) linkTokenAddress\<rparr>) in
         (case inst of
            IsLinkToken b \<Rightarrow> Ret (Inr \<lparr>elt_client = ethClient, elt_linkToken = b, elt_callerWallet = fromWallet,
              elt_address = linkTokenAddress\<rparr>, h) w
          | _ \<Rightarrow> Crash TypeAssertion w))"

definition EthereumLinkToken_Fund :: "'w bind \<Rightarrow> 'w eth_rpc \<Rightarrow> nc_heap \<Rightarrow> EthereumLinkToken \<Rightarrow> EthereumWallet \<Rightarrow> big \<Rightarrow> 'w \<Rightarrow>
    (err, 'w) go" where
  "EthereumLinkToken_Fund B E h l fromWallet ethAmount w =
     fund B E h (elt_client l) fromWallet (elt_address l) ethAmount nil w"

definition EthereumLinkToken_Name :: "'w bind \<Rightarrow> 'w eth_rpc \<Rightarrow> EthereumLinkToken \<Rightarrow> nat \<Rightarrow> 'w \<Rightarrow> (string \<times> err, 'w) go" where
  "EthereumLinkToken_Name B E l ctxt w =
     LinkTokenCaller_Name B (Caller (elt_linkToken l)) (call_opts E (elt_callerWallet l) ctxt) w"

section \<open>Offchain aggregator\<close>

record EthereumOffchainAggregator =
  eoa_client :: EthereumClient
  eoa_ocr :: binding
  eoa_callerWallet :: EthereumWallet
  eoa_address :: address

definition DeployOffChainAggregator :: "'w bind \<Rightarrow> 'w eth_rpc \<Rightarrow> nc_heap \<Rightarrow> EthereumClient \<Rightarrow> EthereumWallet \<Rightarrow>
    OffchainOptions \<Rightarrow> 'w \<Rightarrow> (go_error + EthereumOffchainAggregator, 'w) go" where
  "DeployOffChainAggregator B E h ethClient fromWallet offchainOptions w =
     bind_go (DeployContract E h ethClient fromWallet ''OffChain Aggregator'' (\<lambda>auth backend w.
       as_instance IsOffchainAggregator (DeployOffchainAggregator B auth backend
         (oc_MaximumGasPrice offchainOptions) (oc_ReasonableGasPrice offchainOptions)
         (oc_MicroLinkPerEth offchainOptions) (oc_LinkGweiPerObservation offchainOptions)
         (oc_LinkGweiPerTransmission offchainOptions) (link_address E h ethClient)
         (oc_MinimumAnswer offchainOptions) (oc_MaximumAnswer offchainOptions)
         (oc_BillingAccessController offchainOptions) (oc_RequesterAccessController offchainOptions)
         (oc_Decimals offchainOptions) (oc_Description offchainOptions) w)) w) (\<lambda>r w.
     case r of
       Inl err \<Rightarrow> Ret (Inl err) w
     | Inr (address, _, inst) \<Rightarrow>
         (case inst of
            IsOffchainAggregator b \<Rightarrow> Ret (Inr \<lparr>eoa_client = ethClient, eoa_ocr = b, eoa_callerWallet = fromWallet,
              eoa_address = address\<rparr>) w
          | _ \<Rightarrow> Crash TypeAssertion w))"

definition EthereumOffchainAggregator_Fund :: "'w bind \<Rightarrow> 'w eth_rpc \<Rightarrow> nc_heap \<Rightarrow> EthereumOffchainAggregator \<Rightarrow>
    EthereumWallet \<Rightarrow> big \<Rightarrow> big \<Rightarrow> 'w \<Rightarrow> (err, 'w) go" where
  "EthereumOffchainAggregator_Fund B E h oa fromWallet ethAmount linkAmount w =
     fund B E h (eoa_client oa) fromWallet (eoa_address oa) ethAmount linkAmount w"

definition EthereumOffchainAggregator_GetContractData :: "'w bind \<Rightarrow> 'w eth_rpc \<Rightarrow> EthereumOffchainAggregator \<Rightarrow> nat \<Rightarrow> 'w \<Rightarrow>
    (OffchainAggregatorData \<times> err, 'w) go" where
  "EthereumOffchainAggregator_GetContractData B E oa ctxt w =
     bind_go (OffchainAggregatorCaller_LatestRoundData B (Caller (eoa_ocr oa)) (call_opts E (eoa_callerWallet oa) ctxt) w) (\<lambda>(lr, err) w.
     if err \<noteq> nil then Ret (\<lparr>od_LatestRoundData = zero_RoundData\<rparr>, err) w
     else Ret (\<lparr>od_LatestRoundData = lr\<rparr>, nil) w)"

definition EthereumOffchainAggregator_SetPayees :: "'w bind \<Rightarrow> 'w eth_rpc \<Rightarrow> nc_heap \<Rightarrow> EthereumOffchainAggregator \<Rightarrow>
    EthereumWallet \<Rightarrow> address list \<Rightarrow> address list \<Rightarrow> 'w \<Rightarrow> (err, 'w) go" where
  "EthereumOffchainAggregator_SetPayees B E h oa fromWallet transmitters payees w =
     transact_and_wait E h (eoa_client oa) fromWallet (eoa_address oa)
       (\<lambda>opts. OffchainAggregatorTransactor_SetPayees B (Transactor (eoa_ocr oa)) opts transmitters payees) (Some 0) w"

definition EthereumOffchainAggregator_SetConfig :: "'w bind \<Rightarrow> 'w eth_rpc \<Rightarrow> nc_heap \<Rightarrow> EthereumOffchainAggregator \<Rightarrow>
    EthereumWallet \<Rightarrow> address list \<Rightarrow> address list \<Rightarrow> u8 \<Rightarrow> u64 \<Rightarrow> string \<Rightarrow> 'w \<Rightarrow> (err, 'w) go" where
  "EthereumOffchainAggregator_SetConfig B E h oa fromWallet signers transmitters threshold encodedConfigVersion encoded w =
     transact_and_wait E h (eoa_client oa) fromWallet (eoa_address oa)
       (\<lambda>opts. OffchainAggregatorTransactor_SetConfig B (Transactor (eoa_ocr oa)) opts
          signers transmitters threshold encodedConfigVersion encoded) (Some 0) w"

definition EthereumOffchainAggregator_Link :: "'w bind \<Rightarrow> 'w eth_rpc \<Rightarrow> EthereumOffchainAggregator \<Rightarrow> nat \<Rightarrow> 'w \<Rightarrow>
    (address \<times> err, 'w) go" where
  "EthereumOffchainAggregator_Link B E oa ctxt w =
     OffchainAggregatorCaller_LINK B (Caller (eoa_ocr oa)) (call_opts E (eoa_callerWallet oa) ctxt) w"

section \<open>Storage\<close>

record EthereumStorage =
  es_client :: EthereumClient
  es_store :: binding
  es_callerWallet :: EthereumWallet

definition DeployStorageContract :: "'w bind \<Rightarrow> 'w eth_rpc \<Rightarrow> nc_heap \<Rightarrow> EthereumClient \<Rightarrow> EthereumWallet \<Rightarrow> 'w \<Rightarrow>
    (go_error + EthereumStorage, 'w) go" where
  "DeployStorageContract B E h ethClient fromWallet w =
     bind_go (DeployContract E h ethClient fromWallet ''Storage'' (\<lambda>auth backend w.
       as_instance IsStore (DeployStore B auth backend w)) w) (\<lambda>r w.
     case r of
       Inl err \<Rightarrow> Ret (Inl err) w
     | Inr (_, _, inst) \<Rightarrow>
         (case inst of
            IsStore b \<Rightarrow> Ret (Inr \<lparr>es_client = ethClient, es_store = b, es_callerWallet = fromWallet\<rparr>) w
          | _ \<Rightarrow> Crash TypeAssertion w))"

definition EthereumStorage_Set :: "'w bind \<Rightarrow> 'w eth_rpc \<Rightarrow> nc_heap \<Rightarrow> EthereumStorage \<Rightarrow> big \<Rightarrow> 'w \<Rightarrow> (err, 'w) go" where
  "EthereumStorage_Set B E h s value w =
     transact_and_wait E h (es_client s) (es_callerWallet s) 0
       (\<lambda>opts. StoreTransactor_Set B (Transactor (es_store s)) opts value) (Some 0) w"

definition EthereumStorage_Get :: "'w bind \<Rightarrow> 'w eth_rpc \<Rightarrow> EthereumStorage \<Rightarrow> nat \<Rightarrow> 'w \<Rightarrow> (big \<times> err, 'w) go" where
  "EthereumStorage_Get B E s ctxt w =
     StoreCaller_Get B (Caller (es_store s)) (call_opts E (es_callerWallet s) ctxt) w"

section \<open>VRF\<close>

record EthereumVRF =
  ev_client :: EthereumClient
  ev_vrf :: binding
  ev_callerWallet :: EthereumWallet
  ev_address :: address

definition DeployVRFContract :: "'w bind \<Rightarrow> 'w eth_rpc \<Rightarrow> nc_heap \<Rightarrow> EthereumClient \<Rightarrow> EthereumWallet \<Rightarrow> 'w \<Rightarrow>
    (go_error + EthereumVRF, 'w) go" where
  "DeployVRFContract B E h ethClient fromWallet w =
     bind_go (DeployContract E h ethClient fromWallet ''VRF'' (\<lambda>auth backend w.
       as_instance IsVRF (DeployVRF B auth backend w)) w) (\<lambda>r w.
     case r of
       Inl err \<Rightarrow> Ret (Inl err) w
     | Inr (address, _, inst) \<Rightarrow>
         (case inst of
            IsVRF b \<Rightarrow> Ret (Inr \<lparr>ev_client = ethClient, ev_vrf = b, ev_callerWallet = fromWallet, ev_address = address\<rparr>) w
          | _ \<Rightarrow> Crash TypeAssertion w))"

definition EthereumVRF_Fund :: "'w bind \<Rightarrow> 'w eth_rpc \<Rightarrow> nc_heap \<Rightarrow> EthereumVRF \<Rightarrow> EthereumWallet \<Rightarrow> big \<Rightarrow> big \<Rightarrow> 'w \<Rightarrow>
    (err, 'w) go" where
  "EthereumVRF_Fund B E h v fromWallet ethAmount linkAmount w =
     fund B E h (ev_client v) fromWallet (ev_address v) ethAmount linkAmount w"

definition EthereumVRF_ProofLength :: "'w bind \<Rightarrow> 'w eth_rpc \<Rightarrow> EthereumVRF \<Rightarrow> nat \<Rightarrow> 'w \<Rightarrow> (big \<times> err, 'w) go" where
  "EthereumVRF_ProofLength B E v ctxt w =
     VRFCaller_PROOFLENGTH B (Caller (ev_vrf v)) (call_opts E (ev_callerWallet v) ctxt) w"

section \<open>Transactions that are waited for\<close>

lemma case_err_nil:
  "(case r of Inl err \<Rightarrow> Ret (Some (g err)) w | Inr x \<Rightarrow> f x) = Ret nil w' \<longleftrightarrow> (\<exists>x. r = Inr x \<and> f x = Ret nil w')"
  by (cases r) auto

lemma call_eq_Ret: "call f w = Ret a w' \<longleftrightarrow> f w = (a, w')"
  by (cases "f w") (simp add: call_def)

text \<open>What an operation that sends a transaction and waits for it promises.\<close>

locale waited_transaction =
  fixes E :: "'w eth_rpc" and h :: nc_heap and e :: EthereumClient and wallet :: EthereumWallet and to :: address
    and send :: "TransactOpts \<Rightarrow> 'w \<Rightarrow> (go_error + Transaction, 'w) go" and amount :: big
    and perform :: "'w \<Rightarrow> (err, 'w) go"
  assumes performs: "perform w = transact_and_wait E h e wallet to send amount w"
begin

lemma nil_iff:
  "perform w = Ret nil w' \<longleftrightarrow>
     (\<exists>opts tx w1 w2. TransactionOpts E h e wallet to amount [] w = Ret (Inr opts) w1 \<and>
        send opts w1 = Ret (Inr tx) w2 \<and> WaitForTransaction E h e (tx_Hash tx) w2 = Ret nil w')"
  unfolding performs transact_and_wait_def bind_go_eq_Ret case_err_nil by blast

lemma no_options:
  "TransactionOpts E h e wallet to amount [] w = Ret (Inl err) w1 \<Longrightarrow> perform w = Ret (Some err) w1"
  by (simp add: performs transact_and_wait_def)

lemma not_sent:
  "TransactionOpts E h e wallet to amount [] w = Ret (Inr opts) w1 \<Longrightarrow> send opts w1 = Ret (Inl err) w2 \<Longrightarrow>
   perform w = Ret (Some err) w2"
  by (simp add: performs transact_and_wait_def)

end

interpretation set_oracles: waited_transaction E h "efa_client f" fromWallet "efa_address f"
    "\<lambda>opts. FluxAggregatorTransactor_ChangeOracles B (Transactor (efa_fluxAggregator f)) opts
       toRemove toAdd toAdmin minSubmissions maxSubmissions restartDelay" "Some 0"
    "EthereumFluxAggregator_SetOracles B E h f fromWallet toAdd toRemove toAdmin minSubmissions maxSubmissions restartDelay"
  for B E h f fromWallet toAdd toRemove toAdmin minSubmissions maxSubmissions restartDelay
  by unfold_locales (simp add: EthereumFluxAggregator_SetOracles_def)

interpretation set_payees: waited_transaction E h "eoa_client oa" fromWallet "eoa_address oa"
    "\<lambda>opts. OffchainAggregatorTransactor_SetPayees B (Transactor (eoa_ocr oa)) opts transmitters payees" "Some 0"
    "EthereumOffchainAggregator_SetPayees B E h oa fromWallet transmitters payees"
  for B E h oa fromWallet transmitters payees
  by unfold_locales (simp add: EthereumOffchainAggregator_SetPayees_def)

interpretation set_config: waited_transaction E h "eoa_client oa" fromWallet "eoa_address oa"
    "\<lambda>opts. OffchainAggregatorTransactor_SetConfig B (Transactor (eoa_ocr oa)) opts
       signers transmitters threshold encodedConfigVersion encoded" "Some 0"
    "EthereumOffchainAggregator_SetConfig B E h oa fromWallet signers transmitters threshold encodedConfigVersion encoded"
  for B E h oa fromWallet signers transmitters threshold encodedConfigVersion encoded
  by unfold_locales (simp add: EthereumOffchainAggregator_SetConfig_def)

interpretation set_value: waited_transaction E h "es_client s" "es_callerWallet s" 0
    "\<lambda>opts. StoreTransactor_Set B (Transactor (es_store s)) opts x" "Some 0" "EthereumStorage_Set B E h s x"
  for B E h s x
  by unfold_locales (simp add: EthereumStorage_Set_def)

text \<open>The token transfer that \<open>fund\<close> makes.\<close>

interpretation link_transfer: waited_transaction E h e fromWallet toAddress
    "\<lambda>opts. LinkTokenTransactor_Transfer B (Transactor b) opts toAddress linkAmount" nil
    "transact_and_wait E h e fromWallet toAddress (\<lambda>opts. LinkTokenTransactor_Transfer B (Transactor b) opts toAddress linkAmount) nil"
  for B E h e fromWallet toAddress b linkAmount
  by unfold_locales simp

section \<open>Funding\<close>

definition link_contract :: "'w eth_rpc \<Rightarrow> nc_heap \<Rightarrow> EthereumClient \<Rightarrow> BoundContract" where
  "link_contract E h e =
     \<lparr>bc_address = link_address E h e, bc_abi = LinkTokenABI, bc_caller = Some (Client e),
      bc_transactor = Some (Client e), bc_filterer = Some (Client e)\<rparr>"

text \<open>Between two worlds both amounts were sent to the account \<open>to\<close>, of which nil and 0 need no
  transaction, and the waiting for each transaction returned nil.\<close>

definition funded :: "'w bind \<Rightarrow> 'w eth_rpc \<Rightarrow> nc_heap \<Rightarrow> EthereumClient \<Rightarrow> EthereumWallet \<Rightarrow> address \<Rightarrow> big \<Rightarrow> big \<Rightarrow>
    'w \<Rightarrow> 'w \<Rightarrow> bool" where
  "funded B E h e fromWallet to ethAmount linkAmount w w' \<longleftrightarrow>
     (\<exists>w1.
       (if not_zero ethAmount then \<exists>hash. SendTransaction E h e fromWallet to ethAmount [] w = Ret (hash, nil) w1
        else w1 = w) \<and>
       (if not_zero linkAmount then
          abi_JSON B LinkTokenABI = nil \<and>
          (\<exists>opts tx w2 w3. TransactionOpts E h e fromWallet to nil [] w1 = Ret (Inr opts) w2 \<and>
             BindTransact B (link_contract E h e) opts ''transfer'' [VAddress to, VBig linkAmount] w2 = (Inr tx, w3) \<and>
             WaitForTransaction E h e (tx_Hash tx) w3 = Ret nil w')
        else w' = w1))"

lemma NewLinkToken_at:
  "NewLinkToken B (link_address E h e) (Client e) =
     (case abi_JSON B LinkTokenABI of Some err \<Rightarrow> Inl err | None \<Rightarrow> Inr (binding_of (link_contract E h e)))"
  by (simp add: NewLinkToken_def bindLinkToken_def bind_contract_def link_contract_def split: option.split)

lemma bind_go_err_nil:
  "bind_go m (\<lambda>err w. if err \<noteq> nil then Ret err w else k w) = Ret nil w' \<longleftrightarrow> (\<exists>w1. m = Ret nil w1 \<and> k w1 = Ret nil w')"
  by (cases m) auto

lemma fund_nil_iff:
  "fund B E h e fromWallet to ethAmount linkAmount w = Ret nil w' \<longleftrightarrow>
     funded B E h e fromWallet to ethAmount linkAmount w w'"
proof -
  have eth: "(if not_zero ethAmount
      then bind_go (SendTransaction E h e fromWallet to ethAmount [] w) (\<lambda>(_, err) w. Ret err w)
      else Ret nil w) = Ret nil w1 \<longleftrightarrow>
    (if not_zero ethAmount then \<exists>hash. SendTransaction E h e fromWallet to ethAmount [] w = Ret (hash, nil) w1 else w1 = w)" for w1
    by (auto simp: bind_go_eq_Ret)
  have link: "(case NewLinkToken B (link_address E h e) (Client e) of
       Inl err \<Rightarrow> Ret (Some err) w1
     | Inr b \<Rightarrow> transact_and_wait E h e fromWallet to
         (\<lambda>opts. LinkTokenTransactor_Transfer B (Transactor b) opts to linkAmount) nil w1) = Ret nil w' \<longleftrightarrow>
    abi_JSON B LinkTokenABI = nil \<and>
      (\<exists>opts tx w2 w3. TransactionOpts E h e fromWallet to nil [] w1 = Ret (Inr opts) w2 \<and>
         BindTransact B (link_contract E h e) opts ''transfer'' [VAddress to, VBig linkAmount] w2 = (Inr tx, w3) \<and>
         WaitForTransaction E h e (tx_Hash tx) w3 = Ret nil w')" for w1
    using link_transfer.nil_iff [of E h e fromWallet to B "binding_of (link_contract E h e)" linkAmount w1 w']
    by (auto simp: NewLinkToken_at LinkTokenTransactor_Transfer_def binding_of_def call_eq_Ret split: option.split)
  show ?thesis
    unfolding fund_def funded_def bind_go_err_nil eth
    by (cases "not_zero linkAmount") (simp_all only: link if_True if_False, auto)
qed

text \<open>What a contract that can be funded promises.\<close>

locale fundable =
  fixes B :: "'w bind" and E :: "'w eth_rpc" and h :: nc_heap and e :: EthereumClient and at :: address
    and Fund :: "EthereumWallet \<Rightarrow> big \<Rightarrow> big \<Rightarrow> 'w \<Rightarrow> (err, 'w) go"
  assumes Fund_eq: "Fund fromWallet ethAmount linkAmount w = fund B E h e fromWallet at ethAmount linkAmount w"
begin

lemma nil_iff_funded:
  "Fund fromWallet ethAmount linkAmount w = Ret nil w' \<longleftrightarrow> funded B E h e fromWallet at ethAmount linkAmount w w'"
  by (simp add: Fund_eq fund_nil_iff)

lemma nothing_to_send: "\<not> not_zero ethAmount \<Longrightarrow> \<not> not_zero linkAmount \<Longrightarrow> Fund fromWallet ethAmount linkAmount w = Ret nil w"
  by (simp add: Fund_eq fund_def)

end

interpretation flux_fund: fundable B E h "efa_client f" "efa_address f" "EthereumFluxAggregator_Fund B E h f" for B E h f
  by unfold_locales (simp add: EthereumFluxAggregator_Fund_def)

interpretation ocr_fund: fundable B E h "eoa_client oa" "eoa_address oa" "EthereumOffchainAggregator_Fund B E h oa" for B E h oa
  by unfold_locales (simp add: EthereumOffchainAggregator_Fund_def)

interpretation vrf_fund: fundable B E h "ev_client v" "ev_address v" "EthereumVRF_Fund B E h v" for B E h v
  by unfold_locales (simp add: EthereumVRF_Fund_def)

section \<open>Arguments by name\<close>

text \<open>The arguments of a method or of the constructor with the names the ABI gives them.\<close>

definition named_args :: "abi \<Rightarrow> string \<Rightarrow> abi_val list \<Rightarrow> (string \<times> abi_val) list" where
  "named_args a m ps = (case find_method a m of Some am \<Rightarrow> zip (map fst (am_inputs am)) ps | None \<Rightarrow> [])"

definition named_constructor_args :: "abi \<Rightarrow> abi_val list \<Rightarrow> (string \<times> abi_val) list" where
  "named_constructor_args a ps = zip (map fst (ab_constructor a)) ps"

lemma find_config_methods:
  "find_method FluxAggregatorABI ''changeOracles'' = Some \<lparr>am_name = ''changeOracles'',
     am_inputs = [(''_removed'', ''address[]''), (''_added'', ''address[]''), (''_addedAdmins'', ''address[]''),
       (''_minSubmissions'', ''uint32''), (''_maxSubmissions'', ''uint32''), (''_restartDelay'', ''uint32'')],
     am_outputs = [], am_view = False\<rparr>"
  "find_method OffchainAggregatorABI ''setPayees'' = Some \<lparr>am_name = ''setPayees'',
     am_inputs = [(''_transmitters'', ''address[]''), (''_payees'', ''address[]'')], am_outputs = [], am_view = False\<rparr>"
  "find_method OffchainAggregatorABI ''setConfig'' = Some \<lparr>am_name = ''setConfig'',
     am_inputs = [(''_signers'', ''address[]''), (''_transmitters'', ''address[]''), (''_threshold'', ''uint8''),
       (''_encodedConfigVersion'', ''uint64''), (''_encoded'', ''bytes'')], am_outputs = [], am_view = False\<rparr>"
  "find_method StoreABI ''set'' = Some \<lparr>am_name = ''set'', am_inputs = [(''x'', ''uint256'')], am_outputs = [], am_view = False\<rparr>"
  by code_simp+

text \<open>A transaction of the wallet to a contract, with arguments by name, was sent and waited for.\<close>

definition configured :: "'w bind \<Rightarrow> 'w eth_rpc \<Rightarrow> nc_heap \<Rightarrow> EthereumClient \<Rightarrow> EthereumWallet \<Rightarrow> address \<Rightarrow> BoundContract \<Rightarrow>
    abi \<Rightarrow> string \<Rightarrow> (string \<times> abi_val) list \<Rightarrow> 'w \<Rightarrow> 'w \<Rightarrow> bool" where
  "configured B E h e wallet to c a m args w w' \<longleftrightarrow>
     (\<exists>opts ps tx w1 w2. TransactionOpts E h e wallet to (Some 0) [] w = Ret (Inr opts) w1 \<and>
        BindTransact B c opts m ps w1 = (Inr tx, w2) \<and> named_args a m ps = args \<and> length ps = length args \<and>
        WaitForTransaction E h e (tx_Hash tx) w2 = Ret nil w')"

lemma configuredI:
  assumes "find_method a m = Some am" "map fst (am_inputs am) = map fst args"
  shows "configured B E h e wallet to c a m args w w' \<longleftrightarrow>
    (\<exists>opts tx w1 w2. TransactionOpts E h e wallet to (Some 0) [] w = Ret (Inr opts) w1 \<and>
        call (BindTransact B c opts m (map snd args)) w1 = Ret (Inr tx) w2 \<and>
        WaitForTransaction E h e (tx_Hash tx) w2 = Ret nil w')"
proof -
  have "named_args a m ps = args \<and> length ps = length args \<longleftrightarrow> ps = map snd args" for ps
    using assms by (auto simp: named_args_def zip_map_fst_snd) (metis length_map map_snd_zip)
  then show ?thesis unfolding configured_def call_eq_Ret by metis
qed

section \<open>Deployment\<close>

lemma as_instance_Inr:
  "as_instance f m = Ret (Inr (address, tx, inst)) w' \<longleftrightarrow> (\<exists>b. m = Ret (Inr (address, tx, b)) w' \<and> inst = f b)"
  by (cases m) (auto simp: as_instance_def map_sum_def split: sum.splits)

lemma deploy_contract_Inr:
  "deploy_contract B a bin auth backend ps w = Ret (Inr (address, tx, b)) w' \<longleftrightarrow>
     abi_JSON B a = nil \<and> (\<exists>c. BindDeploy B auth a bin backend ps w = (Inr (address, tx, c), w') \<and> b = binding_of c)"
  by (cases "BindDeploy B auth a bin backend ps w")
    (auto simp: deploy_contract_def bind_call split: option.splits sum.splits prod.splits)

lemma DeployContract_Inr:
  "DeployContract E h e wallet name deployer w = Ret (Inr (address, tx, inst)) w' \<longleftrightarrow>
     (\<exists>opts w1 w2. TransactionOpts E h e wallet 0 (Some 0) [] w = Ret (Inr opts) w1 \<and>
        deployer opts (Client e) w1 = Ret (Inr (address, tx, inst)) w2 \<and>
        WaitForTransaction E h e (tx_Hash tx) w2 = Ret nil w')"
  by (auto simp: DeployContract_def go_simps split: prod.splits sum.splits option.splits)

lemma deploy_wrapper:
  "bind_go m (\<lambda>r w. case r of Inl err \<Rightarrow> Ret (g err) w | Inr (at, tx, inst) \<Rightarrow> k at inst w) = Ret y w' \<longleftrightarrow>
     (\<exists>err. m = Ret (Inl err) w' \<and> y = g err) \<or>
     (\<exists>at tx inst w1. m = Ret (Inr (at, tx, inst)) w1 \<and> k at inst w1 = Ret y w')"
  by (cases m) (auto split: sum.splits)

lemma assert_instance:
  "(case inst of IsLinkToken b \<Rightarrow> Ret (k b) w | _ \<Rightarrow> Crash TypeAssertion w) = Ret y w' \<longleftrightarrow>
     (\<exists>b. inst = IsLinkToken b \<and> y = k b \<and> w' = w)"
  "(case inst of IsFluxAggregator b \<Rightarrow> Ret (k b) w | _ \<Rightarrow> Crash TypeAssertion w) = Ret y w' \<longleftrightarrow>
     (\<exists>b. inst = IsFluxAggregator b \<and> y = k b \<and> w' = w)"
  "(case inst of IsOffchainAggregator b \<Rightarrow> Ret (k b) w | _ \<Rightarrow> Crash TypeAssertion w) = Ret y w' \<longleftrightarrow>
     (\<exists>b. inst = IsOffchainAggregator b \<and> y = k b \<and> w' = w)"
  by (cases inst; auto)+

text \<open>A contract was created with arguments by name, by a transaction that was waited for.\<close>

definition deployed :: "'w bind \<Rightarrow> 'w eth_rpc \<Rightarrow> nc_heap \<Rightarrow> EthereumClient \<Rightarrow> EthereumWallet \<Rightarrow> abi \<Rightarrow> bytecode \<Rightarrow>
    (string \<times> abi_val) list \<Rightarrow> address \<Rightarrow> binding \<Rightarrow> 'w \<Rightarrow> 'w \<Rightarrow> bool" where
  "deployed B E h e wallet a bin args at b w w' \<longleftrightarrow>
     (\<exists>opts ps tx c w1 w2. TransactionOpts E h e wallet 0 (Some 0) [] w = Ret (Inr opts) w1 \<and>
        BindDeploy B opts a bin (Client e) ps w1 = (Inr (at, tx, c), w2) \<and> b = binding_of c \<and>
        named_constructor_args a ps = args \<and> length ps = length (ab_constructor a) \<and>
        WaitForTransaction E h e (tx_Hash tx) w2 = Ret nil w')"

lemma deployedI:
  assumes "TransactionOpts E h e wallet 0 (Some 0) [] w = Ret (Inr opts) w1"
    and "BindDeploy B opts a bin (Client e) ps w1 = (Inr (at, tx, c), w2)"
    and "WaitForTransaction E h e (tx_Hash tx) w2 = Ret nil w'"
    and "named_constructor_args a ps = args" "length ps = length (ab_constructor a)"
  shows "deployed B E h e wallet a bin args at (binding_of c) w w'"
  using assms unfolding deployed_def by blast

lemma DeployLinkTokenContract_Inr:
  assumes "DeployLinkTokenContract B E h e wallet w = Ret (Inr l, h') w'"
  shows "deployed B E h e wallet LinkTokenABI LinkTokenBin [] (elt_address l) (elt_linkToken l) w w' \<and>
    elt_client l = e \<and>
    h' = nc_store h (Network_Config (Network e))
      ((network_config h e)\<lparr>nc_LinkTokenAddress := Address_Hex (keys E) (elt_address l)\<rparr>)"
proof -
  from assms obtain at tx b where run: "DeployContract E h e wallet ''LINK Token''
      (\<lambda>auth backend w. as_instance IsLinkToken (DeployLinkToken B auth backend w)) w = Ret (Inr (at, tx, IsLinkToken b)) w'"
    and l: "l = \<lparr>elt_client = e, elt_linkToken = b, elt_callerWallet = wallet, elt_address = at\<rparr>"
    and h': "h' = nc_store h (Network_Config (Network e))
      ((network_config h e)\<lparr>nc_LinkTokenAddress := Address_Hex (keys E) at\<rparr>)"
    unfolding DeployLinkTokenContract_def deploy_wrapper Let_def assert_instance by auto
  from run [unfolded DeployContract_Inr as_instance_Inr DeployLinkToken_def deploy_contract_Inr]
  obtain opts w1 w2 c where "TransactionOpts E h e wallet 0 (Some 0) [] w = Ret (Inr opts) w1"
    "BindDeploy B opts LinkTokenABI LinkTokenBin (Client e) [] w1 = (Inr (at, tx, c), w2)"
    "b = binding_of c" "WaitForTransaction E h e (tx_Hash tx) w2 = Ret nil w'"
    by auto
  with l h' show ?thesis
    by (auto intro!: deployedI simp: named_constructor_args_def LinkTokenABI_def)
qed

lemma DeployFluxAggregatorContract_Inr:
  assumes "DeployFluxAggregatorContract B E h e wallet o1 w = Ret (Inr f) w'"
  shows "deployed B E h e wallet FluxAggregatorABI FluxAggregatorBin
      [(''_link'', VAddress (link_address E h e)), (''_paymentAmount'', VBig (fx_PaymentAmount o1)),
       (''_timeout'', VUint32 (fx_Timeout o1)), (''_validator'', VAddress (fx_Validator o1)),
       (''_minSubmissionValue'', VBig (fx_MinSubValue o1)), (''_maxSubmissionValue'', VBig (fx_MaxSubValue o1)),
       (''_decimals'', VUint8 (fx_Decimals o1)), (''_description'', VString (fx_Description o1))]
      (efa_address f) (efa_fluxAggregator f) w w' \<and> efa_client f = e \<and> efa_callerWallet f = wallet"
proof -
  let ?ps = "[VAddress (link_address E h e), VBig (fx_PaymentAmount o1), VUint32 (fx_Timeout o1), VAddress (fx_Validator o1),
    VBig (fx_MinSubValue o1), VBig (fx_MaxSubValue o1), VUint8 (fx_Decimals o1), VString (fx_Description o1)]"
  from assms obtain at tx b where run: "DeployContract E h e wallet ''Flux Aggregator''
      (\<lambda>auth backend w. as_instance IsFluxAggregator
        (deploy_contract B FluxAggregatorABI FluxAggregatorBin auth backend ?ps w)) w = Ret (Inr (at, tx, IsFluxAggregator b)) w'"
    and f: "f = \<lparr>efa_client = e, efa_fluxAggregator = b, efa_callerWallet = wallet, efa_address = at\<rparr>"
    unfolding DeployFluxAggregatorContract_def DeployFluxAggregator_def deploy_wrapper assert_instance by auto
  from run [unfolded DeployContract_Inr as_instance_Inr deploy_contract_Inr]
  obtain opts w1 w2 c where "TransactionOpts E h e wallet 0 (Some 0) [] w = Ret (Inr opts) w1"
    "BindDeploy B opts FluxAggregatorABI FluxAggregatorBin (Client e) ?ps w1 = (Inr (at, tx, c), w2)"
    "b = binding_of c" "WaitForTransaction E h e (tx_Hash tx) w2 = Ret nil w'"
    by auto
  with f show ?thesis
    by (auto intro!: deployedI simp: named_constructor_args_def FluxAggregatorABI_def)
qed

lemma DeployOffChainAggregator_Inr:
  assumes "DeployOffChainAggregator B E h e wallet o1 w = Ret (Inr oa) w'"
  shows "deployed B E h e wallet OffchainAggregatorABI OffchainAggregatorBin
      [(''_maximumGasPrice'', VUint32 (oc_MaximumGasPrice o1)), (''_reasonableGasPrice'', VUint32 (oc_ReasonableGasPrice o1)),
       (''_microLinkPerEth'', VUint32 (oc_MicroLinkPerEth o1)), (''_linkGweiPerObservation'', VUint32 (oc_LinkGweiPerObservation o1)),
       (''_linkGweiPerTransmission'', VUint32 (oc_LinkGweiPerTransmission o1)), (''_link'', VAddress (link_address E h e)),
       (''_minAnswer'', VBig (oc_MinimumAnswer o1)), (''_maxAnswer'', VBig (oc_MaximumAnswer o1)),
       (''_billingAccessController'', VAddress (oc_BillingAccessController o1)),
       (''_requesterAccessController'', VAddress (oc_RequesterAccessController o1)),
       (''_decimals'', VUint8 (oc_Decimals o1)), (''_description'', VString (oc_Description o1))]
      (eoa_address oa) (eoa_ocr oa) w w' \<and> eoa_client oa = e \<and> eoa_callerWallet oa = wallet"
proof -
  let ?ps = "[VUint32 (oc_MaximumGasPrice o1), VUint32 (oc_ReasonableGasPrice o1), VUint32 (oc_MicroLinkPerEth o1),
    VUint32 (oc_LinkGweiPerObservation o1), VUint32 (oc_LinkGweiPerTransmission o1), VAddress (link_address E h e),
    VBig (oc_MinimumAnswer o1), VBig (oc_MaximumAnswer o1), VAddress (oc_BillingAccessController o1),
    VAddress (oc_RequesterAccessController o1), VUint8 (oc_Decimals o1), VString (oc_Description o1)]"
  from assms obtain at tx b where run: "DeployContract E h e wallet ''OffChain Aggregator''
      (\<lambda>auth backend w. as_instance IsOffchainAggregator
        (deploy_contract B OffchainAggregatorABI OffchainAggregatorBin auth backend ?ps w)) w = Ret (Inr (at, tx, IsOffchainAggregator b)) w'"
    and oa: "oa = \<lparr>eoa_client = e, eoa_ocr = b, eoa_callerWallet = wallet, eoa_address = at\<rparr>"
    unfolding DeployOffChainAggregator_def DeployOffchainAggregator_def deploy_wrapper assert_instance by auto
  from run [unfolded DeployContract_Inr as_instance_Inr deploy_contract_Inr]
  obtain opts w1 w2 c where "TransactionOpts E h e wallet 0 (Some 0) [] w = Ret (Inr opts) w1"
    "BindDeploy B opts OffchainAggregatorABI OffchainAggregatorBin (Client e) ?ps w1 = (Inr (at, tx, c), w2)"
    "b = binding_of c" "WaitForTransaction E h e (tx_Hash tx) w2 = Ret nil w'"
    by auto
  with oa show ?thesis
    by (auto intro!: deployedI simp: named_constructor_args_def OffchainAggregatorABI_def)
qed

section \<open>Reading\<close>

lemma bind_read_nil:
  "bind_go m (\<lambda>(a, err) w. if err \<noteq> nil then Ret (z, err) w else k a w) = Ret (d, err') w' \<longleftrightarrow>
     (\<exists>a err. m = Ret (a, err) w' \<and> err \<noteq> nil \<and> d = z \<and> err' = err) \<or>
     (\<exists>a w1. m = Ret (a, nil) w1 \<and> k a w1 = Ret (d, err') w')"
  by (cases m) (auto split: if_splits)

section \<open>A concrete chain\<close>

text \<open>A wrapper on which every deployment and transaction succeeds and every call returns zero values.\<close>

definition sample_tx :: Transaction where
  "sample_tx = \<lparr>tx_Hash = 8, tx_inner = \<lparr>ltx_Nonce = 3, ltx_GasPrice = 7, ltx_Gas = 0, ltx_To = None, ltx_Value = None, ltx_Data = []\<rparr>\<rparr>"

definition sample_chain :: "nat bind" where
  "sample_chain = \<lparr>abi_JSON = (\<lambda>_. nil),
     BindDeploy = (\<lambda>auth a bin cl ps w. (Inr (77, sample_tx, sample_contract a), w)),
     BindCall = (\<lambda>c opts m ps w. (sample_call (bc_abi c) m, w)),
     BindTransact = (\<lambda>c opts m ps w. (Inr sample_tx, w)),
     BindTransfer = (\<lambda>c opts w. (Inr sample_tx, w)),
     FilterLogs = (\<lambda>c opts e rules w. (Inr 0, w)),
     WatchLogs = (\<lambda>c opts e rules w. (Inr 0, w)),
     UnpackLog = (\<lambda>c ty e lg. Inr []),
     ConvertType = (\<lambda>ty v. if type_of v = ty then Value v else Panic TypeAssertion),
     recv_log = (\<lambda>s w. (Some (Inr nil), w)),
     poll_log = (\<lambda>s w. (None, w)),
     LogsUnsubscribe = (\<lambda>s w. ((), w))\<rparr>"

lemma sample_chain_simps [simp]:
  "abi_JSON sample_chain a = nil"
  "BindDeploy sample_chain auth a bin cl ps w = (Inr (77, sample_tx, sample_contract a), w)"
  "BindCall sample_chain c opts m ps w = (sample_call (bc_abi c) m, w)"
  "BindTransact sample_chain c auth m ps w = (Inr sample_tx, w)"
  "ConvertType sample_chain ty v = (if type_of v = ty then Value v else Panic TypeAssertion)"
  by (simp_all add: sample_chain_def)

lemma sample_hex_roundtrip: "hex_roundtrip sample_crypto"
  by (simp add: hex_roundtrip_def sample_crypto_def)

lemma sample_options:
  "\<exists>opts. TransactionOpts (sample_rpc n) sample_heap sample_client sample_wallet to amount data w = Ret (Inr opts) w"
  by (simp add: TransactionOpts_def TransactionCallMessage_def bind_call)

lemma sample_deployment:
  assumes "\<And>auth backend w. deployer auth backend w = Ret (Inr (77, sample_tx, i)) w"
  shows "DeployContract (sample_rpc 0) sample_heap sample_client sample_wallet name deployer 0 = Ret (Inr (77, sample_tx, i)) 1"
proof -
  obtain opts where "TransactionOpts (sample_rpc 0) sample_heap sample_client sample_wallet 0 (Some 0) [] 0 = Ret (Inr opts) 0"
    using sample_options by blast
  then show ?thesis
    by (simp add: DeployContract_def assms sample_wait sample_tx_def)
qed

section \<open>Properties\<close>

text \<open>
  C3. Funding returns nil exactly when everything asked for was sent and the waiting for each
  transaction returned nil (what that says of the transaction is another matter): an amount
  of ETH that is neither nil nor 0 by a transaction to the contract's address, and after it an
  amount of LINK that is neither nil nor 0 by the token's \<open>transfer\<close> method, of the token at
  the address the network's configuration names, to the contract's address. With nothing to send nothing happens. This holds for flux
  aggregators, offchain aggregators and VRFs; LINK tokens are funded with ETH only.
\<close>

theorem funding_sends_what_was_asked:
  "(EthereumFluxAggregator_Fund B E h f wallet eth link w = Ret nil w' \<longleftrightarrow>
      funded B E h (efa_client f) wallet (efa_address f) eth link w w') \<and>
   (EthereumOffchainAggregator_Fund B E h oa wallet eth link w = Ret nil w' \<longleftrightarrow>
      funded B E h (eoa_client oa) wallet (eoa_address oa) eth link w w') \<and>
   (EthereumVRF_Fund B E h v wallet eth link w = Ret nil w' \<longleftrightarrow>
      funded B E h (ev_client v) wallet (ev_address v) eth link w w') \<and>
   (EthereumLinkToken_Fund B E h l wallet eth w = Ret nil w' \<longleftrightarrow>
      funded B E h (elt_client l) wallet (elt_address l) eth nil w w') \<and>
   EthereumVRF_Fund B E h v wallet (Some 0) nil w = Ret nil w"
  by (simp add: flux_fund.nil_iff_funded ocr_fund.nil_iff_funded vrf_fund.nil_iff_funded EthereumLinkToken_Fund_def
      fund_nil_iff vrf_fund.nothing_to_send not_zero_def)

text \<open>
  C5. The address of a deployed LINK token is shared through the network's configuration:
  afterwards every client of the same network finds the token at its address, so that flux and
  offchain aggregators are constructed with it and LINK is sent through it, while every other
  network's configuration, and every other setting, is as before.
\<close>

theorem link_token_address_is_shared:
  assumes "DeployLinkTokenContract B E h e wallet w = Ret (Inr l, h') w'"
    and "hex_roundtrip (keys E)" and "Network_Config (Network e') = Network_Config (Network e)"
  shows "link_address E h' e' = elt_address l \<and> bc_address (link_contract E h' e') = elt_address l \<and>
    network_config h' e' = (network_config h e)\<lparr>nc_LinkTokenAddress := nc_LinkTokenAddress (network_config h' e')\<rparr> \<and>
    (\<forall>p. p \<noteq> Network_Config (Network e) \<longrightarrow> cells h' p = cells h p)"
  using DeployLinkTokenContract_Inr [OF assms(1)] assms(2,3)
  by (simp add: link_address_def link_contract_def nc_store_def hex_roundtrip_def)

theorem link_token_address_is_shared_witness:
  "\<exists>l h' w'. DeployLinkTokenContract sample_chain (sample_rpc 0) sample_heap sample_client sample_wallet 0 = Ret (Inr l, h') w' \<and>
     link_address (sample_rpc 0) h' sample_client = 77"
proof -
  have run: "\<exists>h'. DeployLinkTokenContract sample_chain (sample_rpc 0) sample_heap sample_client sample_wallet 0 =
      Ret (Inr \<lparr>elt_client = sample_client, elt_linkToken = binding_of (sample_contract LinkTokenABI),
        elt_callerWallet = sample_wallet, elt_address = 77\<rparr>, h') 1"
    unfolding DeployLinkTokenContract_def
    by (subst sample_deployment [where i = "IsLinkToken (binding_of (sample_contract LinkTokenABI))"])
      (simp_all add: as_instance_def DeployLinkToken_def deploy_contract_def bind_call Let_def)
  have "hex_roundtrip (keys (sample_rpc 0))" by (simp add: sample_hex_roundtrip)
  with run link_token_address_is_shared [where e' = sample_client] show ?thesis by fastforce
qed

text \<open>
  C4. The configuring operations return nil exactly when a transaction with what was asked for
  was sent from the given wallet, with value 0, and waited for. The arguments go to the
  parameters the ABI names for them: \<open>SetOracles\<close> takes the added oracles before the removed
  ones, and \<open>changeOracles\<close> gets them in its own order.
\<close>

theorem configuration_reaches_named_parameters:
  "(EthereumFluxAggregator_SetOracles B E h f wallet toAdd toRemove toAdmin minSub maxSub delay w = Ret nil w' \<longleftrightarrow>
      configured B E h (efa_client f) wallet (efa_address f) (transactor_contract (Transactor (efa_fluxAggregator f)))
        FluxAggregatorABI ''changeOracles''
        [(''_removed'', VAddresses toRemove), (''_added'', VAddresses toAdd), (''_addedAdmins'', VAddresses toAdmin),
         (''_minSubmissions'', VUint32 minSub), (''_maxSubmissions'', VUint32 maxSub), (''_restartDelay'', VUint32 delay)] w w') \<and>
   (EthereumOffchainAggregator_SetPayees B E h oa wallet transmitters payees w = Ret nil w' \<longleftrightarrow>
      configured B E h (eoa_client oa) wallet (eoa_address oa) (transactor_contract (Transactor (eoa_ocr oa)))
        OffchainAggregatorABI ''setPayees''
        [(''_transmitters'', VAddresses transmitters), (''_payees'', VAddresses payees)] w w') \<and>
   (EthereumOffchainAggregator_SetConfig B E h oa wallet signers transmitters threshold version encoded w = Ret nil w' \<longleftrightarrow>
      configured B E h (eoa_client oa) wallet (eoa_address oa) (transactor_contract (Transactor (eoa_ocr oa)))
        OffchainAggregatorABI ''setConfig''
        [(''_signers'', VAddresses signers), (''_transmitters'', VAddresses transmitters), (''_threshold'', VUint8 threshold),
         (''_encodedConfigVersion'', VUint64 version), (''_encoded'', VBytes encoded)] w w') \<and>
   (EthereumStorage_Set B E h s x w = Ret nil w' \<longleftrightarrow>
      configured B E h (es_client s) (es_callerWallet s) 0 (transactor_contract (Transactor (es_store s)))
        StoreABI ''set'' [(''x'', VBig x)] w w')"
  by (simp add: set_oracles.nil_iff set_payees.nil_iff set_config.nil_iff set_value.nil_iff
      configuredI [OF find_config_methods(1)] configuredI [OF find_config_methods(2)]
      configuredI [OF find_config_methods(3)] configuredI [OF find_config_methods(4)]
      FluxAggregatorTransactor_ChangeOracles_def OffchainAggregatorTransactor_SetPayees_def
      OffchainAggregatorTransactor_SetConfig_def StoreTransactor_Set_def)

text \<open>
  \<open>GetContractData\<close> of a flux aggregator returns data only as a whole: without an error
  it holds what the four read-only methods returned, called one after the other on the pending
  state as the caller's wallet; with an error, the first that occurred, it holds nothing.
\<close>

theorem flux_contract_data:
  assumes "EthereumFluxAggregator_GetContractData B E f ctxt w = Ret (d, err) w'"
    and "opts = \<lparr>co_Pending = True, co_From = HexToAddress (keys E) (Address (keys E) (efa_callerWallet f)),
           co_BlockNumber = nil, co_Context = ctxt\<rparr>"
    and "c = Caller (efa_fluxAggregator f)"
  shows "(err \<noteq> nil \<and> d = zero_FluxAggregatorData) \<or>
    (err = nil \<and> (\<exists>w1 w2 w3.
       FluxAggregatorCaller_AllocatedFunds B c opts w = Ret (fd_AllocatedFunds d, nil) w1 \<and>
       FluxAggregatorCaller_AvailableFunds B c opts w1 = Ret (fd_AvailableFunds d, nil) w2 \<and>
       FluxAggregatorCaller_LatestRoundData B c opts w2 = Ret (fd_LatestRoundData d, nil) w3 \<and>
       FluxAggregatorCaller_GetOracles B c opts w3 = Ret (fd_Oracles d, nil) w'))"
  using assms(1)
  unfolding EthereumFluxAggregator_GetContractData_def Let_def bind_read_nil assms(2,3) call_opts_def
  by auto

definition sample_flux :: EthereumFluxAggregator where
  "sample_flux = \<lparr>efa_client = sample_client, efa_fluxAggregator = binding_of (sample_contract FluxAggregatorABI),
     efa_callerWallet = sample_wallet, efa_address = 77\<rparr>"

lemma sample_flux_calls:
  "sample_call FluxAggregatorABI ''allocatedFunds'' = Inr [VBig (Some 0)]"
  "sample_call FluxAggregatorABI ''availableFunds'' = Inr [VBig (Some 0)]"
  "sample_call FluxAggregatorABI ''latestRoundData'' = Inr (replicate 5 (VBig (Some 0)))"
  "sample_call FluxAggregatorABI ''getOracles'' = Inr [VAddresses []]"
  by code_simp+

theorem flux_contract_data_witness:
  "\<exists>d. EthereumFluxAggregator_GetContractData sample_chain (sample_rpc 0) sample_flux 5 0 = Ret (d, nil) 0 \<and>
     fd_AllocatedFunds d = Some 0 \<and> fd_Oracles d = []"
proof -
  have run: "\<exists>d. EthereumFluxAggregator_GetContractData sample_chain (sample_rpc 0) sample_flux 5 0 = Ret (d, nil) 0"
    by (simp add: EthereumFluxAggregator_GetContractData_def Let_def sample_flux_def binding_of_def sample_contract_def
        FluxAggregatorCaller_AllocatedFunds_def FluxAggregatorCaller_AvailableFunds_def
        FluxAggregatorCaller_LatestRoundData_def FluxAggregatorCaller_GetOracles_def call_method_with_def bind_call
        sample_flux_calls out_big_def out_addresses_def converted_def index_def)
  then obtain d where d: "EthereumFluxAggregator_GetContractData sample_chain (sample_rpc 0) sample_flux 5 0 = Ret (d, nil) 0"
    by blast
  from flux_contract_data [OF d refl refl] d show ?thesis
    by (auto simp: sample_flux_def binding_of_def sample_contract_def FluxAggregatorCaller_AllocatedFunds_def
        FluxAggregatorCaller_AvailableFunds_def FluxAggregatorCaller_LatestRoundData_def FluxAggregatorCaller_GetOracles_def
        call_method_with_def bind_call sample_flux_calls out_big_def out_addresses_def converted_def index_def)
qed

text \<open>
  C6. Aggregators are constructed with the options given for them: each option goes to the
  constructor parameter the ABI names for it, the LINK token's address of the network's
  configuration goes to \<open>_link\<close>, and the contract is returned only after the transaction that
  created it was waited for, with the address and the binding of that creation.
\<close>

theorem aggregators_constructed_as_configured:
  "(DeployFluxAggregatorContract B E h e wallet fluxOptions w = Ret (Inr f) w' \<longrightarrow>
    deployed B E h e wallet FluxAggregatorABI FluxAggregatorBin
      [(''_link'', VAddress (link_address E h e)), (''_paymentAmount'', VBig (fx_PaymentAmount fluxOptions)),
       (''_timeout'', VUint32 (fx_Timeout fluxOptions)), (''_validator'', VAddress (fx_Validator fluxOptions)),
       (''_minSubmissionValue'', VBig (fx_MinSubValue fluxOptions)), (''_maxSubmissionValue'', VBig (fx_MaxSubValue fluxOptions)),
       (''_decimals'', VUint8 (fx_Decimals fluxOptions)), (''_description'', VString (fx_Description fluxOptions))]
      (efa_address f) (efa_fluxAggregator f) w w') \<and>
   (DeployOffChainAggregator B E h e wallet offchainOptions w = Ret (Inr oa) w' \<longrightarrow>
    deployed B E h e wallet OffchainAggregatorABI OffchainAggregatorBin
      [(''_maximumGasPrice'', VUint32 (oc_MaximumGasPrice offchainOptions)),
       (''_reasonableGasPrice'', VUint32 (oc_ReasonableGasPrice offchainOptions)),
       (''_microLinkPerEth'', VUint32 (oc_MicroLinkPerEth offchainOptions)),
       (''_linkGweiPerObservation'', VUint32 (oc_LinkGweiPerObservation offchainOptions)),
       (''_linkGweiPerTransmission'', VUint32 (oc_LinkGweiPerTransmission offchainOptions)),
       (''_link'', VAddress (link_address E h e)), (''_minAnswer'', VBig (oc_MinimumAnswer offchainOptions)),
       (''_maxAnswer'', VBig (oc_MaximumAnswer offchainOptions)),
       (''_billingAccessController'', VAddress (oc_BillingAccessController offchainOptions)),
       (''_requesterAccessController'', VAddress (oc_RequesterAccessController offchainOptions)),
       (''_decimals'', VUint8 (oc_Decimals offchainOptions)), (''_description'', VString (oc_Description offchainOptions))]
      (eoa_address oa) (eoa_ocr oa) w w')"
  by (intro conjI impI; erule DeployFluxAggregatorContract_Inr [THEN conjunct1] DeployOffChainAggregator_Inr [THEN conjunct1])

definition sample_flux_options :: FluxAggregatorOptions where
  "sample_flux_options = \<lparr>fx_PaymentAmount = Some 1, fx_Timeout = 30, fx_Validator = 0, fx_MinSubValue = Some 0,
     fx_MaxSubValue = Some 100, fx_Decimals = 8, fx_Description = ''Test Flux Aggregator''\<rparr>"

theorem aggregators_constructed_as_configured_witness:
  "DeployFluxAggregatorContract sample_chain (sample_rpc 0) sample_heap sample_client sample_wallet sample_flux_options 0 =
     Ret (Inr sample_flux) 1 \<and>
   (\<exists>args. deployed sample_chain (sample_rpc 0) sample_heap sample_client sample_wallet FluxAggregatorABI FluxAggregatorBin
      args 77 (efa_fluxAggregator sample_flux) 0 1 \<and> (''_timeout'', VUint32 30) \<in> set args)"
proof -
  have run: "DeployFluxAggregatorContract sample_chain (sample_rpc 0) sample_heap sample_client sample_wallet sample_flux_options 0 =
      Ret (Inr sample_flux) 1"
    unfolding DeployFluxAggregatorContract_def
    by (subst sample_deployment [where i = "IsFluxAggregator (binding_of (sample_contract FluxAggregatorABI))"])
      (simp_all add: as_instance_def DeployFluxAggregator_def deploy_contract_def bind_call sample_flux_def)
  from aggregators_constructed_as_configured [THEN conjunct1, rule_format, OF run] run show ?thesis
    by (fastforce simp: sample_flux_def sample_flux_options_def)
qed

end
