(* ===== verification/Evm.thy ===== *)
theory Evm
  imports Main "HOL-Library.Word"
begin

text \<open>
  What the Solidity contracts use of their language and of the virtual machine: machine
  integers, addresses, the context of a call, and the outcome of a call.

  A call either returns, reverts (and then all its effects are undone, so that a reverting call
  has no resulting state), or never ends, which on the machine is running out of gas. Unsigned
  integers are words of their width. An \<open>int256\<close> is an integer between \<open>- (2 ^ 255)\<close> and
  \<open>2 ^ 255 - 1\<close>, and the operations of the language on it wrap around (\<open>int256\<close>). An array in
  memory or in storage is a list, and an access out of its bounds is an invalid opcode.
\<close>

type_synonym uint8 = "8 word"
type_synonym uint16 = "16 word"
type_synonym uint32 = "32 word"
type_synonym uint40 = "40 word"
type_synonym uint64 = "64 word"
type_synonym uint80 = "80 word"
type_synonym uint128 = "128 word"
type_synonym uint256 = "256 word"
type_synonym address = "160 word"
type_synonym bytes = "uint8 list"

section \<open>Outcomes\<close>

text \<open>
  \<open>Require\<close> is a failing \<open>require\<close> or \<open>revert\<close> with its message, \<open>Invalid\<close> the invalid opcode of
  a failing \<open>assert\<close>, a division by zero and an index out of bounds.
\<close>

datatype revert = Require string | Invalid

type_synonym 'a sol = "(revert + 'a) option"

abbreviation Returns :: "'a \<Rightarrow> 'a sol" where
  "Returns x \<equiv> Some (Inr x)"

abbreviation Reverts :: "revert \<Rightarrow> 'a sol" where
  "Reverts e \<equiv> Some (Inl e)"

abbreviation OutOfGas :: "'a sol" where
  "OutOfGas \<equiv> None"

definition bind_sol :: "'a sol \<Rightarrow> ('a \<Rightarrow> 'b sol) \<Rightarrow> 'b sol" where
  "bind_sol m f =
     Option.bind m (\<lambda>r. case r of Inl e \<Rightarrow> Reverts e | Inr x \<Rightarrow> f x)"

definition require :: "bool \<Rightarrow> string \<Rightarrow> 'a sol \<Rightarrow> 'a sol" where
  "require c msg k = (if c then k else Reverts (Require msg))"

definition sol_assert :: "bool \<Rightarrow> 'a sol \<Rightarrow> 'a sol" where
  "sol_assert c k = (if c then k else Reverts Invalid)"

section \<open>The context of a call\<close>

record msg =
  msg_sender :: address
  tx_origin :: address
  block_timestamp :: uint256
  address_this :: address

section \<open>Arrays\<close>

definition array_get :: "'a list \<Rightarrow> uint256 \<Rightarrow> 'a sol" where
  "array_get xs i = (if unat i < length xs then Returns (xs ! unat i) else Reverts Invalid)"

definition array_set :: "'a list \<Rightarrow> uint256 \<Rightarrow> 'a \<Rightarrow> 'a list sol" where
  "array_set xs i x = (if unat i < length xs then Returns (xs[unat i := x]) else Reverts Invalid)"

section \<open>Signed integers\<close>

definition is_int256 :: "int \<Rightarrow> bool" where
  "is_int256 x \<longleftrightarrow> - (2 ^ 255) \<le> x \<and> x < 2 ^ 255"

text \<open>The value of an operation of the language on \<open>int256\<close>, which wraps around.\<close>

definition int256 :: "int \<Rightarrow> int" where
  "int256 x = signed_take_bit 255 x"

definition INT256_MIN :: int where
  "INT256_MIN = - (2 ^ 255)"

definition INT_MAX :: int where
  "INT_MAX = 2 ^ 255 - 1"

section \<open>Lemmas\<close>

named_theorems sol_simps \<open>when a call returns\<close>

lemma bind_sol_simps [simp]:
  "bind_sol (Returns x) f = f x" "bind_sol (Reverts e) f = Reverts e" "bind_sol OutOfGas f = OutOfGas"
  by (simp_all add: bind_sol_def)

lemma bind_sol_Returns [sol_simps]:
  "bind_sol m f = Returns y \<longleftrightarrow> (\<exists>x. m = Returns x \<and> f x = Returns y)"
  by (cases m) (auto simp: bind_sol_def split: sum.splits)

lemma bind_sol_Reverts:
  "bind_sol m f = Reverts e \<longleftrightarrow> m = Reverts e \<or> (\<exists>x. m = Returns x \<and> f x = Reverts e)"
  by (cases m) (auto simp: bind_sol_def split: sum.splits)

lemma bind_sol_OutOfGas:
  "bind_sol m f = OutOfGas \<longleftrightarrow> m = OutOfGas \<or> (\<exists>x. m = Returns x \<and> f x = OutOfGas)"
  by (cases m) (auto simp: bind_sol_def split: sum.splits)

lemma bind_sol_assoc: "bind_sol (bind_sol m f) g = bind_sol m (\<lambda>x. bind_sol (f x) g)"
  by (cases m) (auto simp: bind_sol_def split: sum.splits)

lemma bind_sol_cong [fundef_cong]:
  "m = m' \<Longrightarrow> (\<And>x. m' = Returns x \<Longrightarrow> f x = g x) \<Longrightarrow> bind_sol m f = bind_sol m' g"
  by (cases m') (auto simp: bind_sol_def split: sum.splits)

lemma bind_sol_mono [partial_function_mono]:
  assumes "mono_option B" "\<And>y. mono_option (\<lambda>f. C y f)"
  shows "mono_option (\<lambda>f. bind_sol (B f) (\<lambda>y. C y f))"
proof -
  have "mono_option (\<lambda>f. case r of Inl e \<Rightarrow> Reverts e | Inr x \<Rightarrow> C x f)" for r
    by (cases r) (simp_all add: assms(2) option.const_mono)
  then show ?thesis
    unfolding bind_sol_def using assms(1) by (intro bind_mono)
qed

lemma require_mono [partial_function_mono]:
  "mono_option K \<Longrightarrow> mono_option (\<lambda>f. require c msg (K f))"
  by (cases c) (simp_all add: require_def option.const_mono)

lemma require_Returns [sol_simps]: "require c msg k = Returns x \<longleftrightarrow> c \<and> k = Returns x"
  and require_Reverts: "require c msg k = Reverts e \<longleftrightarrow> (if c then k = Reverts e else e = Require msg)"
  and require_OutOfGas: "require c msg k = OutOfGas \<longleftrightarrow> c \<and> k = OutOfGas"
  and require_simps [simp]: "require True msg k = k" "require False msg k = Reverts (Require msg)"
  by (auto simp: require_def)

lemma sol_assert_Returns [sol_simps]: "sol_assert c k = Returns x \<longleftrightarrow> c \<and> k = Returns x"
  and sol_assert_Reverts: "sol_assert c k = Reverts e \<longleftrightarrow> (if c then k = Reverts e else e = Invalid)"
  and sol_assert_OutOfGas: "sol_assert c k = OutOfGas \<longleftrightarrow> c \<and> k = OutOfGas"
  and sol_assert_simps [simp]: "sol_assert True k = k" "sol_assert False k = Reverts Invalid"
  by (auto simp: sol_assert_def)

lemma array_get_Returns [sol_simps]: "array_get xs i = Returns x \<longleftrightarrow> unat i < length xs \<and> x = xs ! unat i"
  and array_get_in [simp]: "unat i < length xs \<Longrightarrow> array_get xs i = Returns (xs ! unat i)"
  and array_get_ends: "array_get xs i \<noteq> OutOfGas"
  by (auto simp: array_get_def)

lemma array_set_Returns [sol_simps]: "array_set xs i x = Returns ys \<longleftrightarrow> unat i < length xs \<and> ys = xs[unat i := x]"
  and array_set_in [simp]: "unat i < length xs \<Longrightarrow> array_set xs i x = Returns (xs[unat i := x])"
  and array_set_ends: "array_set xs i x \<noteq> OutOfGas"
  by (auto simp: array_set_def)

lemma is_int256_int256 [simp, intro]: "is_int256 (int256 x)"
  using signed_take_bit_int_greater_eq_minus_exp [of 255 x] signed_take_bit_int_less_exp [of 255 x]
  by (simp add: is_int256_def int256_def)

lemma int256_id: "is_int256 x \<Longrightarrow> int256 x = x"
  by (simp add: is_int256_def int256_def signed_take_bit_int_eq_self)

lemma int256_eq_iff: "int256 x = x \<longleftrightarrow> is_int256 x"
  by (metis is_int256_int256 int256_id)

lemma is_int256_0 [simp]: "is_int256 0"
  by (simp add: is_int256_def)

text \<open>Sums over all addresses, of which one changes.\<close>

lemma sum_split: "(\<Sum>x\<in>UNIV. f x) = f a + (\<Sum>x\<in>UNIV - {a}. f x)" for f :: "'a::finite \<Rightarrow> nat"
  by (rule sum.remove) auto

lemma sum_fun_upd: "(\<Sum>x\<in>UNIV. (f(a := v)) x) + f a = (\<Sum>x\<in>UNIV. f x) + v" for f :: "'a::finite \<Rightarrow> nat"
proof -
  have "(\<Sum>x\<in>UNIV - {a}. (f(a := v)) x) = (\<Sum>x\<in>UNIV - {a}. f x)" by (rule sum.cong) auto
  then show ?thesis unfolding sum_split [of "f(a := v)" a] sum_split [of f a] by simp
qed

lemma unat_plus_no_wrap: "unat a + unat b < 2 ^ LENGTH('a) \<Longrightarrow> unat (a + b) = unat a + unat b"
  for a b :: "'a::len word"
  by (simp add: unat_word_ariths)

text \<open>Widening a machine integer.\<close>

lemma unat_ucast_ups [simp]:
  "unat (ucast (a :: uint8) :: uint16) = unat a" "unat (ucast (a :: uint8) :: uint32) = unat a" "unat (ucast (a :: uint8) :: uint256) = unat a"
  "unat (ucast (b :: uint16) :: uint256) = unat b" "unat (ucast (c :: uint32) :: uint64) = unat c"
  "unat (ucast (c :: uint32) :: uint80) = unat c" "unat (ucast (c :: uint32) :: uint256) = unat c"
  "unat (ucast (d :: uint64) :: uint256) = unat d" "unat (ucast (e :: uint128) :: uint256) = unat e"
  by (simp_all add: unsigned_ucast_eq take_bit_nat_eq_self_iff unsigned_less [THEN less_le_trans])

lemma one_le_word: "1 \<le> x \<longleftrightarrow> x \<noteq> 0" for x :: "'a::len word"
  by (metis linorder_not_less word_less_1)

end
