(* ===== verification/Owned.thy ===== *)
theory Owned
  imports Evm
begin

text \<open>
  The contract \<open>contracts/ethereum/v0.6/src/Owned.sol\<close> (that of \<open>v0.7\<close> is the same code): an owner,
  who hands the contract over in two steps. A contract that inherits from it extends the record.
  The locale \<open>sol_handover\<close> is the contract of such a role; it is interpreted here for the owner,
  and in \<open>Flux_History\<close> for the admins of the oracles of the aggregator.
\<close>

datatype owned_event =
    OwnershipTransferRequested address address
  | OwnershipTransferred address address

record owned =
  owner :: address
  pendingOwner :: address
  owned_logs :: "owned_event list"

definition Owned_constructor :: "msg \<Rightarrow> owned" where
  "Owned_constructor m = \<lparr>owner = msg_sender m, pendingOwner = 0, owned_logs = []\<rparr>"

definition onlyOwner :: "msg \<Rightarrow> 'z owned_scheme \<Rightarrow> 'a sol \<Rightarrow> 'a sol" where
  "onlyOwner m s k = require (msg_sender m = owner s) ''Only callable by owner'' k"

definition transferOwnership :: "msg \<Rightarrow> address \<Rightarrow> 'z owned_scheme \<Rightarrow> 'z owned_scheme sol" where
  "transferOwnership m to s =
     onlyOwner m s
     (let s = s\<lparr>pendingOwner := to\<rparr> in
      Returns (s\<lparr>owned_logs := owned_logs s @ [OwnershipTransferRequested (owner s) to]\<rparr>))"

definition acceptOwnership :: "msg \<Rightarrow> 'z owned_scheme \<Rightarrow> 'z owned_scheme sol" where
  "acceptOwnership m s =
     require (msg_sender m = pendingOwner s) ''Must be proposed owner''
     (let oldOwner = owner s;
          s = s\<lparr>owner := msg_sender m, pendingOwner := 0\<rparr> in
      Returns (s\<lparr>owned_logs := owned_logs s @ [OwnershipTransferred oldOwner (msg_sender m)]\<rparr>))"

lemma onlyOwner_Returns [sol_simps]: "onlyOwner m s k = Returns x \<longleftrightarrow> msg_sender m = owner s \<and> k = Returns x"
  by (simp add: onlyOwner_def require_Returns)

section \<open>Roles that are handed over in two steps\<close>

locale sol_handover =
  fixes holder :: "'s \<Rightarrow> address"
    and nominee :: "'s \<Rightarrow> address"
    and nominate :: "msg \<Rightarrow> address \<Rightarrow> 's \<Rightarrow> 's sol"
    and accept :: "msg \<Rightarrow> 's \<Rightarrow> 's sol"
  assumes nominate_holder: "msg_sender m = holder s \<Longrightarrow>
      \<exists>s'. nominate m x s = Returns s' \<and> holder s' = holder s \<and> nominee s' = x"
    and nominate_other: "msg_sender m \<noteq> holder s \<Longrightarrow> \<exists>e. nominate m x s = Reverts e"
    and accept_nominee: "msg_sender m = nominee s \<Longrightarrow>
      \<exists>s'. accept m s = Returns s' \<and> holder s' = msg_sender m \<and> nominee s' = 0"
    and accept_other: "msg_sender m \<noteq> nominee s \<Longrightarrow> \<exists>e. accept m s = Reverts e"
begin

text \<open>The holder can hand over to anyone, and then the nominee alone can take over.\<close>

lemma hand_over:
  assumes "msg_sender m = holder s" "msg_sender m' = x"
  shows "\<exists>s1 s2. nominate m x s = Returns s1 \<and> accept m' s1 = Returns s2 \<and> holder s2 = x \<and> nominee s2 = 0 \<and>
    (\<forall>m''. msg_sender m'' \<noteq> x \<longrightarrow> (\<exists>e. accept m'' s1 = Reverts e))"
proof -
  from nominate_holder [OF assms(1), of x] obtain s1 where s1: "nominate m x s = Returns s1" "nominee s1 = x"
    by blast
  moreover from accept_nominee [of m' s1] s1 assms(2) obtain s2 where "accept m' s1 = Returns s2" "holder s2 = x" "nominee s2 = 0"
    by auto
  ultimately show ?thesis using accept_other [of _ s1] by auto
qed

lemma nominate_Returns: "nominate m x s = Returns s' \<Longrightarrow> msg_sender m = holder s \<and> holder s' = holder s \<and> nominee s' = x"
  using nominate_holder [of m s x] nominate_other [of m s x] by (cases "msg_sender m = holder s") auto

lemma accept_Returns: "accept m s = Returns s' \<Longrightarrow> msg_sender m = nominee s \<and> holder s' = nominee s \<and> nominee s' = 0"
  using accept_nominee [of m s] accept_other [of m s] by (cases "msg_sender m = nominee s") auto

end

interpretation owned: sol_handover owner pendingOwner transferOwnership acceptOwnership
  by unfold_locales (auto simp: transferOwnership_def acceptOwnership_def onlyOwner_def require_def Let_def)

end
