(* ===== verification/Safe_Math.thy ===== *)
theory Safe_Math
  imports Evm "HOL-Library.Signed_Division"
begin

text \<open>
  The arithmetic libraries of the contracts, under \<open>contracts/ethereum\<close>:
  \<open>v0.4/src/vendor/SafeMathChainlink.sol\<close> (it asserts), \<open>v0.6/src/vendor/SafeMathChainlink.sol\<close>
  with \<open>SafeMath32.sol\<close>, \<open>SafeMath64.sol\<close> and \<open>SafeMath128.sol\<close> (the same code at the widths 256,
  32, 64 and 128, hence one definition for every width), and \<open>v0.6/src/SignedSafeMath.sol\<close>.
  The operators of the language wrap around; \<open>/\<close> and \<open>%\<close> on signed integers truncate.
\<close>

section \<open>Unsigned integers, Solidity 0.4\<close>

definition link_mul :: "uint256 \<Rightarrow> uint256 \<Rightarrow> uint256 sol" where
  "link_mul a b =
     (if a = 0 then Returns 0
      else let c = a * b in sol_assert (c div a = b) (Returns c))"

definition link_div :: "uint256 \<Rightarrow> uint256 \<Rightarrow> uint256 sol" where
  "link_div a b = (if b = 0 then Reverts Invalid else Returns (a div b))"

definition link_sub :: "uint256 \<Rightarrow> uint256 \<Rightarrow> uint256 sol" where
  "link_sub a b = sol_assert (b \<le> a) (Returns (a - b))"

definition link_add :: "uint256 \<Rightarrow> uint256 \<Rightarrow> uint256 sol" where
  "link_add a b = (let c = a + b in sol_assert (c \<ge> a) (Returns c))"

section \<open>Unsigned integers, Solidity 0.6\<close>

definition safe_add :: "'a::len word \<Rightarrow> 'a word \<Rightarrow> 'a word sol" where
  "safe_add a b = (let c = a + b in require (c \<ge> a) ''SafeMath: addition overflow'' (Returns c))"

definition safe_sub :: "'a::len word \<Rightarrow> 'a word \<Rightarrow> 'a word sol" where
  "safe_sub a b = require (b \<le> a) ''SafeMath: subtraction overflow'' (let c = a - b in Returns c)"

definition safe_mul :: "'a::len word \<Rightarrow> 'a word \<Rightarrow> 'a word sol" where
  "safe_mul a b =
     (if a = 0 then Returns 0
      else let c = a * b in require (c div a = b) ''SafeMath: multiplication overflow'' (Returns c))"

definition safe_div :: "'a::len word \<Rightarrow> 'a word \<Rightarrow> 'a word sol" where
  "safe_div a b = require (b > 0) ''SafeMath: division by zero'' (let c = a div b in Returns c)"

definition safe_mod :: "'a::len word \<Rightarrow> 'a word \<Rightarrow> 'a word sol" where
  "safe_mod a b = require (b \<noteq> 0) ''SafeMath: modulo by zero'' (Returns (a mod b))"

section \<open>Signed integers\<close>

definition signed_mul :: "int \<Rightarrow> int \<Rightarrow> int sol" where
  "signed_mul a b =
     (if a = 0 then Returns 0
      else
        require (\<not> (a = - 1 \<and> b = INT256_MIN)) ''SignedSafeMath: multiplication overflow''
        (let c = int256 (a * b) in
         require (int256 (c sdiv a) = b) ''SignedSafeMath: multiplication overflow''
         (Returns c)))"

definition signed_div :: "int \<Rightarrow> int \<Rightarrow> int sol" where
  "signed_div a b =
     require (b \<noteq> 0) ''SignedSafeMath: division by zero''
     (require (\<not> (b = - 1 \<and> a = INT256_MIN)) ''SignedSafeMath: division overflow''
      (let c = int256 (a sdiv b) in Returns c))"

definition signed_sub :: "int \<Rightarrow> int \<Rightarrow> int sol" where
  "signed_sub a b =
     (let c = int256 (a - b) in
      require (b \<ge> 0 \<and> c \<le> a \<or> b < 0 \<and> c > a) ''SignedSafeMath: subtraction overflow'' (Returns c))"

definition signed_add :: "int \<Rightarrow> int \<Rightarrow> int sol" where
  "signed_add a b =
     (let c = int256 (a + b) in
      require (b \<ge> 0 \<and> c \<ge> a \<or> b < 0 \<and> c < a) ''SignedSafeMath: addition overflow'' (Returns c))"

definition avg :: "int \<Rightarrow> int \<Rightarrow> int sol" where
  "avg a b =
     (if a < 0 \<and> b > 0 \<or> a > 0 \<and> b < 0
      then bind_sol (signed_add a b) (\<lambda>s. Returns (int256 (s sdiv 2)))
      else
        let remainder = int256 (int256 (a smod 2 + b smod 2) sdiv 2) in
        bind_sol (signed_add (int256 (a sdiv 2)) (int256 (b sdiv 2))) (\<lambda>s.
        signed_add s remainder))"

section \<open>What the unsigned operations return\<close>

lemma word_add_ge_iff: "a \<le> a + b \<longleftrightarrow> unat a + unat b < 2 ^ LENGTH('a)" for a b :: "'a::len word"
  using no_olen_add_nat by blast

lemma safe_add_Returns [sol_simps]:
  "safe_add a b = Returns c \<longleftrightarrow> unat a + unat b < 2 ^ LENGTH('a) \<and> c = a + b" for a b :: "'a::len word"
  by (auto simp: safe_add_def require_Returns word_add_ge_iff)

lemma safe_sub_Returns [sol_simps]: "safe_sub a b = Returns c \<longleftrightarrow> b \<le> a \<and> c = a - b"
  by (auto simp: safe_sub_def require_Returns)

lemma safe_ends [simp]: "safe_add a b \<noteq> OutOfGas" "safe_sub a b \<noteq> OutOfGas" "safe_mul c d \<noteq> OutOfGas"
  by (simp_all add: safe_add_def safe_sub_def safe_mul_def require_def Let_def)

lemma word_mult_div_self:
  fixes a b :: "'a::len word"
  assumes "a \<noteq> 0"
  shows "(a * b) div a = b \<longleftrightarrow> unat a * unat b < 2 ^ LENGTH('a)"
proof
  assume *: "(a * b) div a = b"
  have "unat a * unat b = unat a * (unat (a * b) div unat a)"
    using * by (metis unat_div_distrib)
  also have "\<dots> \<le> unat (a * b)" by simp
  also have "\<dots> < 2 ^ LENGTH('a)" by (rule unsigned_less)
  finally show "unat a * unat b < 2 ^ LENGTH('a)" .
next
  assume "unat a * unat b < 2 ^ LENGTH('a)"
  then have "unat (a * b) = unat a * unat b" by (simp add: unat_word_ariths)
  moreover have "unat a \<noteq> 0" using assms by (simp add: unat_eq_0)
  ultimately show "(a * b) div a = b"
    by (intro word_unat_eq_iff [THEN iffD2]) (simp add: unat_div_distrib)
qed

lemma safe_mul_Returns [sol_simps]:
  "safe_mul a b = Returns c \<longleftrightarrow> unat a * unat b < 2 ^ LENGTH('a) \<and> c = a * b" for a b :: "'a::len word"
  by (auto simp: safe_mul_def require_Returns word_mult_div_self Let_def)

lemma link_add_Returns [sol_simps]: "link_add a b = Returns c \<longleftrightarrow> unat a + unat b < 2 ^ 256 \<and> c = a + b"
  using word_add_ge_iff [of a b] by (auto simp: link_add_def sol_assert_Returns)

lemma link_sub_Returns [sol_simps]: "link_sub a b = Returns c \<longleftrightarrow> b \<le> a \<and> c = a - b"
  by (auto simp: link_sub_def sol_assert_Returns)

lemma link_mul_Returns [sol_simps]: "link_mul a b = Returns c \<longleftrightarrow> unat a * unat b < 2 ^ 256 \<and> c = a * b"
  using word_mult_div_self [of a b] by (auto simp: link_mul_def sol_assert_Returns Let_def)

text \<open>Both generations of the library return the exact result, or revert.\<close>

lemma exact_sum: "safe_add a b = Returns c \<Longrightarrow> unat c = unat a + unat b"
  and exact_difference: "safe_sub a b = Returns c \<Longrightarrow> unat c + unat b = unat a"
  and exact_product: "safe_mul a b = Returns c \<Longrightarrow> unat c = unat a * unat b"
  by (auto simp: sol_simps unat_plus_no_wrap unat_sub word_le_nat_alt unat_word_ariths)

section \<open>What the signed operations return\<close>

lemma int256_shift: "int256 x = (x + 2 ^ 255) mod 2 ^ 256 - 2 ^ 255"
  by (simp add: int256_def signed_take_bit_eq_take_bit_shift take_bit_eq_mod)

lemma int256_wraps: "\<exists>k. int256 x = x - k * 2 ^ 256"
  by (rule exI [of _ "(x + 2 ^ 255) div 2 ^ 256"]) (simp add: int256_shift minus_div_mult_eq_mod [symmetric])

lemma int256_unique:
  assumes "is_int256 y" "x = y + k * 2 ^ 256"
  shows "int256 x = y"
proof -
  have "(x + 2 ^ 255) mod 2 ^ 256 = (y + 2 ^ 255 + k * 2 ^ 256) mod 2 ^ 256"
    by (simp only: assms(2) ac_simps)
  also have "\<dots> = (y + 2 ^ 255) mod 2 ^ 256" by (rule mod_mult_self1)
  also have "\<dots> = y + 2 ^ 255" using assms(1) by (intro mod_pos_pos_trivial) (auto simp: is_int256_def)
  finally show ?thesis by (simp add: int256_shift)
qed

lemma int256_wrap_up: "2 ^ 255 \<le> x \<Longrightarrow> x < 2 ^ 256 \<Longrightarrow> int256 x = x - 2 ^ 256"
  by (rule int256_unique [where k = 1]) (simp_all add: is_int256_def)

lemma int256_wrap_down: "- (2 ^ 256) \<le> x \<Longrightarrow> x < - (2 ^ 255) \<Longrightarrow> int256 x = x + 2 ^ 256"
  by (rule int256_unique [where k = "- 1"]) (simp_all add: is_int256_def)

lemma signed_add_Returns:
  assumes "is_int256 a" "is_int256 b"
  shows "signed_add a b = Returns c \<longleftrightarrow> is_int256 (a + b) \<and> c = a + b"
proof -
  consider "is_int256 (a + b)" | "2 ^ 255 \<le> a + b" | "a + b < - (2 ^ 255)"
    by (fastforce simp: is_int256_def)
  then show ?thesis
  proof cases
    case 1
    then show ?thesis by (auto simp: signed_add_def require_Returns int256_id)
  next
    case 2
    then have "int256 (a + b) = a + b - 2 ^ 256"
      using assms by (intro int256_wrap_up) (auto simp: is_int256_def)
    with 2 assms show ?thesis by (auto simp: signed_add_def require_Returns is_int256_def)
  next
    case 3
    then have "int256 (a + b) = a + b + 2 ^ 256"
      using assms by (intro int256_wrap_down) (auto simp: is_int256_def)
    with 3 assms show ?thesis by (auto simp: signed_add_def require_Returns is_int256_def)
  qed
qed

lemma signed_sub_Returns:
  assumes "is_int256 a" "is_int256 b"
  shows "signed_sub a b = Returns c \<longleftrightarrow> is_int256 (a - b) \<and> c = a - b"
proof -
  consider "is_int256 (a - b)" | "2 ^ 255 \<le> a - b" | "a - b < - (2 ^ 255)"
    by (fastforce simp: is_int256_def)
  then show ?thesis
  proof cases
    case 1
    then show ?thesis by (auto simp: signed_sub_def require_Returns int256_id)
  next
    case 2
    then have "int256 (a - b) = a - b - 2 ^ 256"
      using assms by (intro int256_wrap_up) (auto simp: is_int256_def)
    with 2 assms show ?thesis by (auto simp: signed_sub_def require_Returns is_int256_def)
  next
    case 3
    then have "int256 (a - b) = a - b + 2 ^ 256"
      using assms by (intro int256_wrap_down) (auto simp: is_int256_def)
    with 3 assms show ?thesis by (auto simp: signed_sub_def require_Returns is_int256_def)
  qed
qed

lemma mult_sdiv_self:
  fixes a b :: int
  assumes "a \<noteq> 0"
  shows "(a * b) sdiv a = b"
proof -
  have "\<bar>a * b\<bar> div \<bar>a\<bar> = \<bar>b\<bar>" using assms by (simp add: abs_mult)
  moreover have "sgn (a * b) * sgn a = sgn b" using assms by (cases a "0 :: int" rule: linorder_cases) (simp_all add: sgn_mult)
  ultimately show ?thesis by (simp add: signed_divide_int_def sgn_mult_abs)
qed

lemma sdiv_is_int256:
  assumes "is_int256 a"
  shows "is_int256 (a sdiv b) \<or> a = - (2 ^ 255) \<and> b = - 1"
proof (cases "a \<noteq> 0 \<and> b \<noteq> - 1")
  case True
  then have "a sdiv b \<noteq> - a" by simp
  moreover have "a sdiv b \<le> \<bar>a\<bar>" "- \<bar>a\<bar> \<le> a sdiv b" using sdiv_int_range [of a b] by simp_all
  ultimately show ?thesis using assms
    by (simp add: is_int256_def abs_if del: int_sdiv_negated_is_minus1 split: if_splits)
next
  case False
  with assms show ?thesis by (auto simp: is_int256_def)
qed

lemma signed_mul_Returns:
  assumes a: "is_int256 a" and b: "is_int256 b"
  shows "signed_mul a b = Returns c \<longleftrightarrow> is_int256 (a * b) \<and> c = a * b"
proof (cases "a = 0")
  case True
  then show ?thesis by (auto simp: signed_mul_def)
next
  case False
  let ?c = "int256 (a * b)"
  have "is_int256 (a * b)" if ok: "\<not> (a = - 1 \<and> b = INT256_MIN)" "int256 (?c sdiv a) = b"
  proof -
    have "is_int256 (?c sdiv a)"
    proof (rule ccontr)
      assume "\<not> is_int256 (?c sdiv a)"
      with sdiv_is_int256 [of ?c a] have "?c = - (2 ^ 255)" "a = - 1" by auto
      with ok int256_wrap_up [of "2 ^ 255"] show False by (simp add: INT256_MIN_def)
    qed
    with ok(2) have "?c sdiv a = b" by (simp add: int256_id)
    with sdiv_mult_smod_eq [of ?c a] have "?c = a * b + ?c smod a" by (simp add: mult.commute)
    moreover obtain k where "?c = a * b - k * 2 ^ 256" using int256_wraps by blast
    ultimately have "\<bar>k\<bar> * 2 ^ 256 < \<bar>a\<bar>"
      using smod_int_range [OF False, of ?c] by (auto simp: abs_if split: if_splits)
    also have "\<bar>a\<bar> \<le> 2 ^ 255" using a by (auto simp: is_int256_def)
    finally have "k = 0" by (auto simp: abs_if split: if_splits)
    with \<open>?c = a * b - k * 2 ^ 256\<close> show ?thesis by (metis diff_zero int256_eq_iff mult_zero_left)
  qed
  moreover have "\<not> (a = - 1 \<and> b = INT256_MIN) \<and> int256 (?c sdiv a) = b" if "is_int256 (a * b)"
    using that False b by (auto simp: int256_id mult_sdiv_self is_int256_def INT256_MIN_def)
  moreover have "?c = a * b" if "is_int256 (a * b)" using that by (rule int256_id)
  ultimately show ?thesis
    using False by (auto simp: signed_mul_def require_Returns Let_def)
qed

lemma signed_div_Returns:
  assumes "is_int256 a" "is_int256 b"
  shows "signed_div a b = Returns c \<longleftrightarrow> b \<noteq> 0 \<and> is_int256 (a sdiv b) \<and> c = a sdiv b"
  using sdiv_is_int256 [OF assms(1), of b]
  by (auto simp: signed_div_def require_Returns INT256_MIN_def int256_id is_int256_def)

text \<open>The halves of two numbers and the half of their remainders make the half of their sum.\<close>

lemma half_is_int256: "is_int256 a \<Longrightarrow> is_int256 (a sdiv 2)"
  using sdiv_is_int256 [of a 2] by auto

lemma half_sum:
  assumes "\<not> (a < 0 \<and> 0 < b \<or> 0 < a \<and> b < 0)"
  shows "a sdiv 2 + b sdiv 2 + (a smod 2 + b smod 2) sdiv 2 = (a + b) sdiv (2::int)"
proof -
  consider "0 \<le> a \<and> 0 \<le> b" | "a \<le> 0 \<and> b \<le> 0" using assms by linarith
  then show ?thesis
  proof cases
    case 1
    then have nn: "a sdiv 2 = a div 2" "b sdiv 2 = b div 2" "a smod 2 = a mod 2" "b smod 2 = b mod 2"
      by (auto simp: signed_divide_int_def signed_modulo_int_def sgn_if)
    moreover have "(a mod 2 + b mod 2) sdiv 2 = (a mod 2 + b mod 2) div 2" "(a + b) sdiv 2 = (a + b) div 2"
      using 1 by (auto simp: signed_divide_int_def sgn_if)
    ultimately show ?thesis by presburger
  next
    case 2
    define x y where "x = - a" and "y = - b"
    then have xy: "a = - x" "b = - y" "0 \<le> x" "0 \<le> y" using 2 by auto
    then have nn: "x sdiv 2 = x div 2" "y sdiv 2 = y div 2" "x smod 2 = x mod 2" "y smod 2 = y mod 2"
      by (auto simp: signed_divide_int_def signed_modulo_int_def sgn_if)
    have "- (x mod 2) - y mod 2 = - (x mod 2 + y mod 2)" "- x - y = - (x + y)" by simp_all
    then have "(- (x mod 2) - y mod 2) sdiv 2 = - ((x mod 2 + y mod 2) div 2)" "(- x - y) sdiv 2 = - ((x + y) div 2)"
      using xy by (simp_all only: minus_sdiv_eq) (auto simp: signed_divide_int_def sgn_if)
    with xy nn show ?thesis by (simp only: minus_sdiv_eq minus_smod_eq add_uminus_conv_diff) presburger
  qed
qed

lemma half_sum_is_int256: "is_int256 a \<Longrightarrow> is_int256 b \<Longrightarrow> is_int256 ((a + b) sdiv 2)"
  by (auto simp: is_int256_def signed_divide_int_def sgn_if abs_if)

lemma avg_rounds_to_zero:
  assumes a: "is_int256 a" and b: "is_int256 b"
  shows "avg a b = Returns ((a + b) sdiv 2)"
proof (cases "a < 0 \<and> b > 0 \<or> a > 0 \<and> b < 0")
  case True
  then have "is_int256 (a + b)" using a b by (auto simp: is_int256_def)
  then have "signed_add a b = Returns (a + b)" using a b by (simp add: signed_add_Returns)
  with True show ?thesis using half_sum_is_int256 [OF a b] by (simp add: avg_def int256_id)
next
  case False
  let ?r = "(a smod 2 + b smod 2) sdiv 2"
  have r: "\<bar>a smod 2\<bar> \<le> 1" "\<bar>b smod 2\<bar> \<le> 1" "\<bar>?r\<bar> \<le> 2"
    using smod_int_range [of 2 a] smod_int_range [of 2 b] sdiv_int_range [of "a smod 2 + b smod 2" 2] by auto
  then have "int256 (a smod 2 + b smod 2) = a smod 2 + b smod 2" "int256 ?r = ?r" "is_int256 ?r"
    by (auto simp: int256_eq_iff is_int256_def)
  moreover have "int256 (a sdiv 2) = a sdiv 2" "int256 (b sdiv 2) = b sdiv 2"
    using a b by (auto simp: int256_id half_is_int256)
  moreover have "is_int256 (a sdiv 2 + b sdiv 2)"
    using a b sdiv_int_range [of a 2] sdiv_int_range [of b 2]
    by (auto simp: is_int256_def signed_divide_int_def sgn_if abs_if)
  moreover have "a sdiv 2 + b sdiv 2 + ?r = (a + b) sdiv 2" using half_sum [OF False] .
  ultimately show ?thesis
    using False a b half_is_int256 half_sum_is_int256 [OF a b]
    unfolding avg_def if_not_P [OF False] Let_def by (simp add: signed_add_Returns bind_sol_Returns)
qed

end
