(* ===== verification/Sol_Median.thy ===== *)
theory Sol_Median
  imports Safe_Math "HOL-Library.Multiset"
begin

text \<open>
  The library \<open>contracts/ethereum/v0.6/src/Median.sol\<close>: the median of an array of \<open>int256\<close> by
  quickselect with Hoare's partitioning scheme, down to stretches of at most seven elements,
  which a sorting network orders. The functions work in place: each returns the array it leaves
  with its result. Indices are \<open>uint256\<close>, so they wrap around, as they do when \<open>partition\<close> starts.
  The loops are partial functions: one that never ends would have no value. \<open>calculateInplace\<close> is
  proved to return, and to return the middle of the sorted array.
\<close>

section \<open>Partitioning\<close>

text \<open>\<open>do { lo += 1; } while (list[lo] < pivot)\<close> and \<open>do { hi -= 1; } while (list[hi] > pivot)\<close>.\<close>

partial_function (option) scan_lo :: "int list \<Rightarrow> int \<Rightarrow> uint256 \<Rightarrow> uint256 sol" where
  "scan_lo list pivot lo =
     bind_sol (array_get list (lo + 1)) (\<lambda>x.
     if x < pivot then scan_lo list pivot (lo + 1) else Returns (lo + 1))"

partial_function (option) scan_hi :: "int list \<Rightarrow> int \<Rightarrow> uint256 \<Rightarrow> uint256 sol" where
  "scan_hi list pivot hi =
     bind_sol (array_get list (hi - 1)) (\<lambda>x.
     if x > pivot then scan_hi list pivot (hi - 1) else Returns (hi - 1))"

text \<open>\<open>(list[lo], list[hi]) = (list[hi], list[lo])\<close>\<close>

definition array_swap :: "int list \<Rightarrow> uint256 \<Rightarrow> uint256 \<Rightarrow> int list sol" where
  "array_swap list lo hi =
     bind_sol (array_get list hi) (\<lambda>x.
     bind_sol (array_get list lo) (\<lambda>y.
     bind_sol (array_set list hi y) (\<lambda>list.
     array_set list lo x)))"

partial_function (option) partition_loop ::
  "int list \<Rightarrow> int \<Rightarrow> uint256 \<Rightarrow> uint256 \<Rightarrow> (uint256 \<times> int list) sol" where
  "partition_loop list pivot lo hi =
     bind_sol (scan_lo list pivot lo) (\<lambda>lo.
     bind_sol (scan_hi list pivot hi) (\<lambda>hi.
     if lo < hi
     then bind_sol (array_swap list lo hi) (\<lambda>list. partition_loop list pivot lo hi)
     else Returns (hi, list)))"

definition partition_sol :: "int list \<Rightarrow> uint256 \<Rightarrow> uint256 \<Rightarrow> (uint256 \<times> int list) sol" where
  "partition_sol list lo hi =
     bind_sol (array_get list ((lo + hi) div 2)) (\<lambda>pivot.
     partition_loop list pivot (lo - 1) (hi + 1))"

section \<open>Short stretches\<close>

definition SHORTSELECTTWO_MAX_LENGTH :: uint256 where
  "SHORTSELECTTWO_MAX_LENGTH = 7"

text \<open>The sorting network: each pair \<open>(i, j)\<close> is a line \<open>if (xi > xj) {(xi, xj) = (xj, xi);}\<close>.\<close>

definition compare_exchange :: "nat \<times> nat \<Rightarrow> 'a::linorder list \<Rightarrow> 'a list" where
  "compare_exchange c xs =
     (case c of (i, j) \<Rightarrow> if xs ! i > xs ! j then xs[i := xs ! j, j := xs ! i] else xs)"

definition network :: "(nat \<times> nat) list" where
  "network =
     [(0, 1), (2, 3), (4, 5), (0, 2), (1, 3), (4, 6), (1, 2), (5, 6),
      (0, 4), (1, 5), (2, 6), (1, 4), (3, 6), (2, 4), (3, 5), (3, 4)]"

definition network_sort :: "'a::linorder list \<Rightarrow> 'a list" where
  "network_sort xs = fold compare_exchange network xs"

text \<open>The elements \<open>x0\<close> to \<open>x6\<close>, with \<open>INT_MAX\<close> for those that are missing.\<close>

definition padded :: "int list \<Rightarrow> uint256 \<Rightarrow> uint256 \<Rightarrow> uint256 \<Rightarrow> int sol" where
  "padded list lo len i = (if i = 0 \<or> i < len then array_get list (lo + i) else Returns INT_MAX)"

definition select_index :: "int list \<Rightarrow> uint256 \<Rightarrow> string \<Rightarrow> int sol" where
  "select_index xs index msg =
     (if index \<le> 6 then Returns (xs ! unat index) else Reverts (Require msg))"

definition shortSelectTwo ::
  "int list \<Rightarrow> uint256 \<Rightarrow> uint256 \<Rightarrow> uint256 \<Rightarrow> uint256 \<Rightarrow> (int \<times> int) sol" where
  "shortSelectTwo list lo hi k1 k2 =
     (let len = hi + 1 - lo in
      bind_sol (padded list lo len 0) (\<lambda>x0.
      bind_sol (padded list lo len 1) (\<lambda>x1.
      bind_sol (padded list lo len 2) (\<lambda>x2.
      bind_sol (padded list lo len 3) (\<lambda>x3.
      bind_sol (padded list lo len 4) (\<lambda>x4.
      bind_sol (padded list lo len 5) (\<lambda>x5.
      bind_sol (padded list lo len 6) (\<lambda>x6.
      let xs = network_sort [x0, x1, x2, x3, x4, x5, x6] in
      bind_sol (select_index xs (k1 - lo) ''k1 out of bounds'') (\<lambda>k1th.
      if k1 = k2 then Returns (k1th, k1th)
      else
        bind_sol (select_index xs (k2 - lo) ''k2 out of bounds'') (\<lambda>k2th.
        Returns (k1th, k2th)))))))))))"

section \<open>Quickselect\<close>

partial_function (option) quickselect_loop ::
  "int list \<Rightarrow> uint256 \<Rightarrow> uint256 \<Rightarrow> uint256 \<Rightarrow> (int \<times> int list) sol" where
  "quickselect_loop list lo hi k =
     (if lo < hi
      then
        if hi - lo < SHORTSELECTTWO_MAX_LENGTH
        then bind_sol (shortSelectTwo list lo hi k k) (\<lambda>(kth, ignore). Returns (kth, list))
        else
          bind_sol (partition_sol list lo hi) (\<lambda>r.
          if k \<le> fst r then quickselect_loop (snd r) lo (fst r) k
          else quickselect_loop (snd r) (fst r + 1) hi k)
      else bind_sol (array_get list lo) (\<lambda>x. Returns (x, list)))"

definition quickselect ::
  "int list \<Rightarrow> uint256 \<Rightarrow> uint256 \<Rightarrow> uint256 \<Rightarrow> (int \<times> int list) sol" where
  "quickselect list lo hi k =
     require (lo \<le> k) ''''
     (require (k \<le> hi) ''''
      (quickselect_loop list lo hi k))"

partial_function (option) quickselectTwo_loop ::
  "int list \<Rightarrow> uint256 \<Rightarrow> uint256 \<Rightarrow> uint256 \<Rightarrow> uint256 \<Rightarrow> (int \<times> int \<times> int list) sol" where
  "quickselectTwo_loop list lo hi k1 k2 =
     (if hi - lo < SHORTSELECTTWO_MAX_LENGTH
      then bind_sol (shortSelectTwo list lo hi k1 k2) (\<lambda>(k1th, k2th). Returns (k1th, k2th, list))
      else
        bind_sol (partition_sol list lo hi) (\<lambda>r.
        if k2 \<le> fst r then quickselectTwo_loop (snd r) lo (fst r) k1 k2
        else if fst r < k1 then quickselectTwo_loop (snd r) (fst r + 1) hi k1 k2
        else
          sol_assert (k1 \<le> fst r \<and> fst r < k2)
          (bind_sol (quickselect (snd r) lo (fst r) k1) (\<lambda>(k1th, list).
           bind_sol (quickselect list (fst r + 1) hi k2) (\<lambda>(k2th, list).
           Returns (k1th, k2th, list))))))"

definition quickselectTwo ::
  "int list \<Rightarrow> uint256 \<Rightarrow> uint256 \<Rightarrow> uint256 \<Rightarrow> uint256 \<Rightarrow> (int \<times> int \<times> int list) sol" where
  "quickselectTwo list lo hi k1 k2 =
     require (k1 < k2) ''''
     (require (lo \<le> k1 \<and> k1 \<le> hi) ''''
      (require (lo \<le> k2 \<and> k2 \<le> hi) ''''
       (quickselectTwo_loop list lo hi k1 k2)))"

section \<open>The median\<close>

definition calculateInplace :: "int list \<Rightarrow> (int \<times> int list) sol" where
  "calculateInplace list =
     require (0 < length list) ''list must not be empty''
     (let len = word_of_nat (length list) :: uint256; middleIndex = len div 2 in
      if len mod 2 = 0
      then
        bind_sol (quickselectTwo list 0 (len - 1) (middleIndex - 1) middleIndex) (\<lambda>(median1, median2, list).
        bind_sol (avg median1 median2) (\<lambda>m. Returns (m, list)))
      else quickselect list 0 (len - 1) middleIndex)"

text \<open>\<open>copy\<close> fills a new array; \<open>calculate\<close> works on the copy and leaves its argument alone.\<close>

primrec copy_loop :: "nat \<Rightarrow> int list \<Rightarrow> int list \<Rightarrow> int list" where
  "copy_loop 0 list list2 = list2"
| "copy_loop (Suc n) list list2 = (copy_loop n list list2)[n := list ! n]"

definition copy_sol :: "int list \<Rightarrow> int list" where
  "copy_sol list = copy_loop (length list) list (replicate (length list) 0)"

definition calculate :: "int list \<Rightarrow> int sol" where
  "calculate list = bind_sol (calculateInplace (copy_sol list)) (\<lambda>(m, list2). Returns m)"

section \<open>The sorting network\<close>

text \<open>
  A network sorts whatever it is given once it sorts lists of truth values, since its
  comparators commute with monotone functions (the zero-one principle).
\<close>

lemma length_compare_exchange [simp]: "length (compare_exchange c xs) = length xs"
  by (simp add: compare_exchange_def split: prod.split)

lemma map_compare_exchange:
  assumes "mono f" "fst c < length xs" "snd c < length xs"
  shows "map f (compare_exchange c xs) = compare_exchange c (map f xs)"
proof -
  obtain i j where c: "c = (i, j)" by (cases c)
  show ?thesis
  proof (cases "f (xs ! i) = f (xs ! j)")
    case True
    with assms c show ?thesis by (auto simp: compare_exchange_def map_update intro!: nth_equalityI)
      (auto simp: nth_list_update)
  next
    case False
    with monoD [OF assms(1)] have "f (xs ! j) < f (xs ! i) \<longleftrightarrow> xs ! j < xs ! i"
      by (metis linorder_not_less order_le_less)
    with assms c show ?thesis by (simp add: compare_exchange_def map_update)
  qed
qed

lemma mset_compare_exchange:
  "fst c < length xs \<Longrightarrow> snd c < length xs \<Longrightarrow> mset (compare_exchange c xs) = mset xs"
  by (auto simp: compare_exchange_def mset_swap split: prod.split)

lemma map_fold_compare_exchange:
  assumes "mono f" "\<forall>c\<in>set cs. fst c < length xs \<and> snd c < length xs"
  shows "map f (fold compare_exchange cs xs) = fold compare_exchange cs (map f xs)"
  using assms(2) by (induction cs arbitrary: xs) (simp_all add: map_compare_exchange [OF assms(1)])

lemma mset_fold_compare_exchange:
  "\<forall>c\<in>set cs. fst c < length xs \<and> snd c < length xs \<Longrightarrow> mset (fold compare_exchange cs xs) = mset xs"
  by (induction cs arbitrary: xs) (simp_all add: mset_compare_exchange)

lemma sorted_by_thresholds:
  fixes ys :: "'a::linorder list"
  assumes "\<And>b. sorted (map (\<lambda>x. b \<le> x) ys)"
  shows "sorted ys"
proof (rule sorted_iff_nth_mono [THEN iffD2], intro allI impI)
  fix i j assume "i \<le> j" "j < length ys"
  with assms [of "ys ! i"] show "ys ! i \<le> ys ! j"
    by (auto simp: sorted_iff_nth_mono)
qed

lemma network_sorts_bools: "sorted (network_sort [a, b, c, d, e, f, g])" for a b c d e f g :: bool
  by (cases a; cases b; cases c; cases d; cases e; cases f; cases g)
    (simp_all add: network_sort_def network_def compare_exchange_def)

lemma network_sort_sorts:
  fixes xs :: "'a::linorder list"
  assumes "length xs = 7"
  shows "network_sort xs = sort xs"
proof (rule properties_for_sort [symmetric])
  have in_range: "\<forall>c\<in>set network. fst c < length xs \<and> snd c < length xs"
    using assms by (simp add: network_def)
  show "mset (network_sort xs) = mset xs"
    unfolding network_sort_def using in_range by (rule mset_fold_compare_exchange)
  show "sorted (network_sort xs)"
  proof (rule sorted_by_thresholds)
    fix b :: 'a
    have "mono (\<lambda>x. b \<le> x)" by (auto intro!: monoI)
    then have "map (\<lambda>x. b \<le> x) (network_sort xs) = network_sort (map (\<lambda>x. b \<le> x) xs)"
      unfolding network_sort_def using in_range by (rule map_fold_compare_exchange)
    moreover have "sorted (network_sort (map (\<lambda>x. b \<le> x) xs))"
      using assms by (auto simp: numeral_eq_Suc length_Suc_conv network_sorts_bools)
    ultimately show "sorted (map (\<lambda>x. b \<le> x) (network_sort xs))" by simp
  qed
qed

section \<open>Partitioning an array\<close>

text \<open>Indices of arrays that fit into half of the address space do not wrap around.\<close>

abbreviation fits :: "int list \<Rightarrow> bool" where
  "fits list \<equiv> length list < 2 ^ 255"

lemma unat_idx [simp]: "n \<le> 2 ^ 255 \<Longrightarrow> unat (word_of_nat n :: uint256) = n"
  by (simp add: unat_of_nat)

lemma idx_less_iff: "m \<le> 2 ^ 255 \<Longrightarrow> n \<le> 2 ^ 255 \<Longrightarrow> (word_of_nat m :: uint256) < word_of_nat n \<longleftrightarrow> m < n"
  and idx_le_iff: "m \<le> 2 ^ 255 \<Longrightarrow> n \<le> 2 ^ 255 \<Longrightarrow> (word_of_nat m :: uint256) \<le> word_of_nat n \<longleftrightarrow> m \<le> n"
  by (simp_all add: word_less_nat_alt word_le_nat_alt)

lemma array_get_idx [simp]: "fits xs \<Longrightarrow> n < length xs \<Longrightarrow> array_get xs (word_of_nat n) = Returns (xs ! n)"
  and array_set_idx [simp]: "fits xs \<Longrightarrow> n < length xs \<Longrightarrow> array_set xs (word_of_nat n) x = Returns (xs[n := x])"
  by (simp_all add: array_get_def array_set_def)

lemma scan_lo_stops:
  assumes "fits xs" "a < length xs" "l \<le> a" "pivot \<le> xs ! a"
  shows "\<exists>i. scan_lo xs pivot (word_of_nat l - 1) = Returns (word_of_nat i) \<and> l \<le> i \<and> i \<le> a \<and>
    (\<forall>m. l \<le> m \<and> m < i \<longrightarrow> xs ! m < pivot) \<and> pivot \<le> xs ! i"
  using assms(3)
proof (induction "a - l" arbitrary: l)
  case 0
  with assms show ?case by (intro exI [of _ a]) (subst scan_lo.simps, simp)
next
  case (Suc n)
  show ?case
  proof (cases "xs ! l < pivot")
    case True
    from Suc(2) have "n = a - Suc l" "Suc l \<le> a" by auto
    from Suc(1) [OF this] obtain i where i: "scan_lo xs pivot (word_of_nat (Suc l) - 1) = Returns (word_of_nat i)"
      "Suc l \<le> i" "i \<le> a" "\<And>m. Suc l \<le> m \<Longrightarrow> m < i \<Longrightarrow> xs ! m < pivot" "pivot \<le> xs ! i" by blast
    have "xs ! m < pivot" if "l \<le> m" "m < i" for m
      using i(4) [of m] True that by (cases "m = l") auto
    with i True assms Suc(3) show ?thesis
      by (intro exI [of _ i]) (subst scan_lo.simps, simp)
  next
    case False
    with assms Suc(3) show ?thesis by (intro exI [of _ l]) (subst scan_lo.simps, simp)
  qed
qed

lemma scan_hi_stops:
  assumes "fits xs" "b < h" "h \<le> length xs" "xs ! b \<le> pivot"
  shows "\<exists>j. scan_hi xs pivot (word_of_nat h) = Returns (word_of_nat j) \<and> b \<le> j \<and> j < h \<and>
    (\<forall>m. j < m \<and> m < h \<longrightarrow> pivot < xs ! m) \<and> xs ! j \<le> pivot"
  using assms(2,3)
proof (induction h)
  case 0
  then show ?case by simp
next
  case (Suc h)
  show ?case
  proof (cases "xs ! h \<le> pivot")
    case True
    with assms(1) Suc show ?thesis by (intro exI [of _ h]) (subst scan_hi.simps, auto)
  next
    case False
    with assms(4) Suc have "b < h" by (cases "b = h") auto
    with Suc obtain j where "scan_hi xs pivot (word_of_nat h) = Returns (word_of_nat j)" "b \<le> j" "j < h"
      "\<And>m. j < m \<Longrightarrow> m < h \<Longrightarrow> pivot < xs ! m" "xs ! j \<le> pivot" by auto
    with assms(1) Suc False show ?thesis
      by (intro exI [of _ j]) (subst scan_hi.simps, auto simp: less_Suc_eq)
  qed
qed

lemma array_swap_idx:
  assumes "fits xs" "i < length xs" "j < length xs" "i \<noteq> j"
  shows "array_swap xs (word_of_nat i) (word_of_nat j) = Returns (xs[i := xs ! j, j := xs ! i])"
  using assms by (simp add: array_swap_def list_update_swap)

text \<open>
  What is left of an array after work on the stretch from \<open>lo\<close> to \<open>hi\<close>: a permutation that has
  moved nothing else.
\<close>

definition permuted :: "nat \<Rightarrow> nat \<Rightarrow> int list \<Rightarrow> int list \<Rightarrow> bool" where
  "permuted lo hi xs ys \<longleftrightarrow> mset ys = mset xs \<and> (\<forall>m. m < lo \<or> hi < m \<longrightarrow> ys ! m = xs ! m)"

lemma permuted_refl [simp, intro]: "permuted lo hi xs xs"
  by (simp add: permuted_def)

lemma permuted_length: "permuted lo hi xs ys \<Longrightarrow> length ys = length xs"
  unfolding permuted_def by (metis size_mset)

lemma permuted_trans: "permuted lo hi xs ys \<Longrightarrow> permuted lo hi ys zs \<Longrightarrow> permuted lo hi xs zs"
  by (auto simp: permuted_def)

lemma permuted_mono: "permuted lo hi xs ys \<Longrightarrow> lo' \<le> lo \<Longrightarrow> hi \<le> hi' \<Longrightarrow> permuted lo' hi' xs ys"
  by (auto simp: permuted_def)

lemma permuted_swap:
  "i < length xs \<Longrightarrow> j < length xs \<Longrightarrow> lo \<le> i \<Longrightarrow> i \<le> hi \<Longrightarrow> lo \<le> j \<Longrightarrow> j \<le> hi \<Longrightarrow>
   permuted lo hi xs (xs[i := xs ! j, j := xs ! i])"
  by (auto simp: permuted_def mset_swap nth_list_update)

lemma partition_loop_partitions:
  assumes "fits xs" "hi < length xs" "lo \<le> l" "l \<le> h" "h \<le> Suc hi"
    and "\<And>m. lo \<le> m \<Longrightarrow> m < l \<Longrightarrow> xs ! m \<le> pivot" "\<And>m. h \<le> m \<Longrightarrow> m \<le> hi \<Longrightarrow> pivot \<le> xs ! m"
    and "l \<le> a" "a \<le> hi" "pivot \<le> xs ! a" "h \<le> hi \<or> a < hi" "lo \<le> b" "b < h" "xs ! b \<le> pivot"
  shows "\<exists>p ys. partition_loop xs pivot (word_of_nat l - 1) (word_of_nat h) = Returns (word_of_nat p, ys) \<and>
    lo \<le> p \<and> p < hi \<and> permuted lo hi xs ys \<and>
    (\<forall>m. lo \<le> m \<and> m \<le> p \<longrightarrow> ys ! m \<le> pivot) \<and> (\<forall>m. p < m \<and> m \<le> hi \<longrightarrow> pivot \<le> ys ! m)"
  using assms
proof (induction h arbitrary: xs l a b rule: less_induct)
  case (less h)
  note fits = \<open>fits xs\<close>
  obtain i where i: "scan_lo xs pivot (word_of_nat l - 1) = Returns (word_of_nat i)" "l \<le> i" "i \<le> a"
    "\<And>m. l \<le> m \<Longrightarrow> m < i \<Longrightarrow> xs ! m < pivot" "pivot \<le> xs ! i"
    using scan_lo_stops [of xs a l pivot] less.prems by auto
  obtain j where j: "scan_hi xs pivot (word_of_nat h) = Returns (word_of_nat j)" "b \<le> j" "j < h"
    "\<And>m. j < m \<Longrightarrow> m < h \<Longrightarrow> pivot < xs ! m" "xs ! j \<le> pivot"
    using scan_hi_stops [of xs b h pivot] less.prems by auto
  have below: "xs ! m \<le> pivot" if "lo \<le> m" "m < i" for m
    using less.prems(6) i(4) that by (cases "m < l") (auto intro: less_imp_le)
  have above: "pivot \<le> xs ! m" if "j < m" "m \<le> hi" for m
    using less.prems(7) j(4) that by (cases "m < h") (auto intro: less_imp_le)
  have ij: "i \<le> hi" "j \<le> hi" "lo \<le> i" "lo \<le> j" "hi < length xs"
    using i j less.prems by auto
  show ?case
  proof (cases "i < j")
    case False
    then have "j < hi" using i(3) j(3) \<open>h \<le> hi \<or> a < hi\<close> by auto
    moreover have "\<not> (word_of_nat i :: uint256) < word_of_nat j"
      using False ij fits by (simp add: idx_less_iff)
    moreover have "xs ! m \<le> pivot" if "lo \<le> m" "m \<le> j" for m
      using below [of m] j(5) False that by (cases "m = j") auto
    ultimately show ?thesis
      using i(1) j(1) ij above by (intro exI [of _ j] exI [of _ xs]) (subst partition_loop.simps, simp)
  next
    case True
    let ?ys = "xs[i := xs ! j, j := xs ! i]"
    have rest: "\<exists>p ys. partition_loop ?ys pivot (word_of_nat (Suc i) - 1) (word_of_nat j) = Returns (word_of_nat p, ys) \<and>
      lo \<le> p \<and> p < hi \<and> permuted lo hi ?ys ys \<and>
      (\<forall>m. lo \<le> m \<and> m \<le> p \<longrightarrow> ys ! m \<le> pivot) \<and> (\<forall>m. p < m \<and> m \<le> hi \<longrightarrow> pivot \<le> ys ! m)"
    proof (rule less.IH [where a = j and b = i])
      show "?ys ! m \<le> pivot" if "lo \<le> m" "m < Suc i" for m
        using that below j(5) True ij by (auto simp: nth_list_update less_Suc_eq)
      show "pivot \<le> ?ys ! m" if "j \<le> m" "m \<le> hi" for m
        using that above [of m] i(5) True ij by (cases "m = j") (auto simp: nth_list_update)
    qed (use True ij i j fits in \<open>auto simp: nth_list_update\<close>)
    have less: "(word_of_nat i :: uint256) < word_of_nat j"
      using True ij fits by (simp add: idx_less_iff)
    have step: "partition_loop xs pivot (word_of_nat l - 1) (word_of_nat h) =
        partition_loop ?ys pivot (word_of_nat (Suc i) - 1) (word_of_nat j)"
      using i(1) j(1) ij fits True less by (subst partition_loop.simps) (simp add: array_swap_idx)
    have swapped: "permuted lo hi xs ?ys" using ij by (intro permuted_swap) auto
    from rest show ?thesis unfolding step using permuted_trans [OF swapped] by blast
  qed
qed

text \<open>
  The contract of \<open>partition\<close>: everything up to the index it returns is at most everything
  after it.
\<close>

lemma partition_partitions:
  assumes "fits xs" "lo < hi" "hi < length xs"
  shows "\<exists>p ys. partition_sol xs (word_of_nat lo) (word_of_nat hi) = Returns (word_of_nat p, ys) \<and>
    lo \<le> p \<and> p < hi \<and> permuted lo hi xs ys \<and>
    (\<forall>m n. lo \<le> m \<and> m \<le> p \<and> p < n \<and> n \<le> hi \<longrightarrow> ys ! m \<le> ys ! n)"
proof -
  let ?mid = "(lo + hi) div 2"
  have "((word_of_nat lo + word_of_nat hi) div 2 :: uint256) = word_of_nat ?mid"
  proof -
    have "lo + hi \<le> 2 ^ 256 - 1" using assms by simp
    then have "unat (word_of_nat (lo + hi) :: uint256) = lo + hi" by (simp add: unat_of_nat del: of_nat_add)
    then show ?thesis
      by (intro word_unat_eq_iff [THEN iffD2]) (use assms in \<open>simp add: unat_div_distrib\<close>)
  qed
  then have unfold: "partition_sol xs (word_of_nat lo) (word_of_nat hi) =
      partition_loop xs (xs ! ?mid) (word_of_nat lo - 1) (word_of_nat (Suc hi))"
    using assms by (simp add: partition_sol_def add.commute)
  have mid: "lo \<le> ?mid" "?mid < hi" using assms(2) by auto
  obtain p ys where p: "partition_loop xs (xs ! ?mid) (word_of_nat lo - 1) (word_of_nat (Suc hi)) =
      Returns (word_of_nat p, ys)" "lo \<le> p" "p < hi" "permuted lo hi xs ys"
      "\<And>m. lo \<le> m \<Longrightarrow> m \<le> p \<Longrightarrow> ys ! m \<le> xs ! ?mid" "\<And>m. p < m \<Longrightarrow> m \<le> hi \<Longrightarrow> xs ! ?mid \<le> ys ! m"
    using partition_loop_partitions [of xs hi lo lo "Suc hi" "xs ! ?mid" ?mid ?mid] mid assms by auto
  have "ys ! m \<le> ys ! n" if "lo \<le> m \<and> m \<le> p \<and> p < n \<and> n \<le> hi" for m n
    using p(5) [of m] p(6) [of n] that by auto
  with p(1-4) show ?thesis unfolding unfold by blast
qed

section \<open>Stretches of an array\<close>

definition stretch :: "nat \<Rightarrow> nat \<Rightarrow> int list \<Rightarrow> int list" where
  "stretch lo hi xs = take (Suc hi - lo) (drop lo xs)"

lemma length_stretch [simp]: "hi < length xs \<Longrightarrow> lo \<le> hi \<Longrightarrow> length (stretch lo hi xs) = Suc hi - lo"
  by (simp add: stretch_def)

lemma nth_stretch [simp]: "hi < length xs \<Longrightarrow> lo + i \<le> hi \<Longrightarrow> stretch lo hi xs ! i = xs ! (lo + i)"
  by (simp add: stretch_def)

lemma stretch_whole [simp]: "xs \<noteq> [] \<Longrightarrow> stretch 0 (length xs - Suc 0) xs = xs"
  by (simp add: stretch_def)

lemma stretch_single: "lo < length xs \<Longrightarrow> stretch lo lo xs = [xs ! lo]"
  by (simp add: stretch_def take_Suc_conv_app_nth)

lemma stretch_around: "lo \<le> Suc hi \<Longrightarrow> xs = take lo xs @ stretch lo hi xs @ drop (Suc hi) xs"
  unfolding stretch_def
  by (metis append_take_drop_id drop_drop le_add_diff_inverse2 add.commute)

lemma stretch_split:
  assumes "lo \<le> p" "p < hi"
  shows "stretch lo hi xs = stretch lo p xs @ stretch (Suc p) hi xs"
proof -
  have "Suc hi - lo = (Suc p - lo) + (Suc hi - Suc p)" "Suc p - lo + lo = Suc p" using assms by auto
  then show ?thesis unfolding stretch_def by (simp only: take_add drop_drop)
qed

lemma set_stretch_nth:
  assumes "x \<in> set (stretch lo hi xs)"
  obtains m where "lo \<le> m" "m \<le> hi" "m < length xs" "x = xs ! m"
proof -
  from assms obtain i where "i < length (stretch lo hi xs)" "x = stretch lo hi xs ! i"
    by (auto simp: in_set_conv_nth)
  with that [of "lo + i"] show thesis by (auto simp: stretch_def)
qed

lemma permuted_stretch:
  assumes "permuted lo hi xs ys" "lo \<le> hi"
  shows "mset (stretch lo hi ys) = mset (stretch lo hi xs)"
proof -
  note len = permuted_length [OF assms(1)]
  have "take lo ys = take lo xs" "drop (Suc hi) ys = drop (Suc hi) xs"
    using assms(1) len by (auto intro!: nth_equalityI simp: permuted_def)
  moreover have "mset ys = mset xs" using assms(1) by (simp add: permuted_def)
  ultimately show ?thesis
    using stretch_around [of lo hi xs] stretch_around [of lo hi ys] assms(2)
    by (metis add_left_cancel add_right_cancel le_SucI mset_append)
qed

lemma permuted_other:
  assumes "permuted lo hi xs ys" "hi < lo' \<or> hi' < lo" "hi' < length xs"
  shows "stretch lo' hi' ys = stretch lo' hi' xs"
proof (rule nth_equalityI)
  show "length (stretch lo' hi' ys) = length (stretch lo' hi' xs)"
    using permuted_length [OF assms(1)] by (simp add: stretch_def)
  show "stretch lo' hi' ys ! i = stretch lo' hi' xs ! i" if "i < length (stretch lo' hi' ys)" for i
    using that assms permuted_length [OF assms(1)] by (auto simp: permuted_def stretch_def)
qed

lemma sort_append_le:
  fixes xs ys :: "int list"
  shows "\<forall>x\<in>set xs. \<forall>y\<in>set ys. x \<le> y \<Longrightarrow> sort (xs @ ys) = sort xs @ sort ys"
  by (rule properties_for_sort) (auto simp: sorted_append)

text \<open>Partitioning splits the sorted stretch into two sorted stretches.\<close>

lemma partition_sorts:
  assumes "fits xs" "lo < hi" "hi < length xs"
  obtains p ys where "partition_sol xs (word_of_nat lo) (word_of_nat hi) = Returns (word_of_nat p, ys)"
    "lo \<le> p" "p < hi" "permuted lo hi xs ys" "length ys = length xs" "set ys = set xs"
    "\<And>k. lo \<le> k \<Longrightarrow> k \<le> p \<Longrightarrow> sort (stretch lo hi xs) ! (k - lo) = sort (stretch lo p ys) ! (k - lo)"
    "\<And>k. p < k \<Longrightarrow> k \<le> hi \<Longrightarrow> sort (stretch lo hi xs) ! (k - lo) = sort (stretch (Suc p) hi ys) ! (k - Suc p)"
proof -
  obtain p ys where p: "partition_sol xs (word_of_nat lo) (word_of_nat hi) = Returns (word_of_nat p, ys)"
    "lo \<le> p" "p < hi" "permuted lo hi xs ys"
    "\<And>m n. lo \<le> m \<Longrightarrow> m \<le> p \<Longrightarrow> p < n \<Longrightarrow> n \<le> hi \<Longrightarrow> ys ! m \<le> ys ! n"
    using partition_partitions [OF assms] by blast
  have "x \<le> y" if "x \<in> set (stretch lo p ys)" "y \<in> set (stretch (Suc p) hi ys)" for x y
    using that p(5) by (metis Suc_le_eq set_stretch_nth)
  then have "sort (stretch lo p ys @ stretch (Suc p) hi ys) = sort (stretch lo p ys) @ sort (stretch (Suc p) hi ys)"
    by (intro sort_append_le) blast
  moreover have "sort (stretch lo hi xs) = sort (stretch lo hi ys)"
    using permuted_stretch [OF p(4)] assms(2) by (intro properties_for_sort) auto
  ultimately have sorts: "sort (stretch lo hi xs) = sort (stretch lo p ys) @ sort (stretch (Suc p) hi ys)"
    using stretch_split [OF p(2,3)] by simp
  have len: "length ys = length xs" using p(4) by (rule permuted_length)
  have "sort (stretch lo hi xs) ! (k - lo) = sort (stretch lo p ys) ! (k - lo)" if "lo \<le> k" "k \<le> p" for k
    using that p len assms diff_less_mono [of k "Suc p" lo] by (simp add: sorts nth_append)
  moreover have "sort (stretch lo hi xs) ! (k - lo) = sort (stretch (Suc p) hi ys) ! (k - Suc p)" if "p < k" "k \<le> hi" for k
  proof -
    have "\<not> k - lo < Suc p - lo" "k - lo - (Suc p - lo) = k - Suc p" using that p(2) by linarith+
    with p len assms show ?thesis by (simp add: sorts nth_append)
  qed
  moreover have "set ys = set xs" using p(4) by (auto simp: permuted_def dest: mset_eq_setD)
  ultimately show thesis using that [OF p(1-4) len] by blast
qed

lemma short_stretch:
  assumes "fits xs" "lo \<le> hi" "hi < length xs"
  shows "(word_of_nat hi - word_of_nat lo :: uint256) < SHORTSELECTTWO_MAX_LENGTH \<longleftrightarrow> hi - lo < 7"
proof -
  have "(word_of_nat hi - word_of_nat lo :: uint256) = word_of_nat (hi - lo)" using assms by (simp add: of_nat_diff)
  then show ?thesis using assms idx_less_iff [of "hi - lo" 7] by (simp add: SHORTSELECTTWO_MAX_LENGTH_def del: of_nat_diff)
qed

section \<open>Short stretches of an array\<close>

lemma padded_idx:
  assumes "fits xs" "lo \<le> hi" "hi < length xs" "hi - lo < 7" "i < 7"
  shows "padded xs (word_of_nat lo) (word_of_nat hi + 1 - word_of_nat lo) (word_of_nat i) =
    Returns ((stretch lo hi xs @ replicate (7 - (Suc hi - lo)) INT_MAX) ! i)"
proof -
  have len: "(word_of_nat hi + 1 - word_of_nat lo :: uint256) = word_of_nat (Suc hi - lo)"
    using assms by (simp add: of_nat_diff)
  have idx: "(word_of_nat lo + word_of_nat i :: uint256) = word_of_nat (lo + i)" by simp
  have "(word_of_nat i :: uint256) < word_of_nat (Suc hi - lo) \<longleftrightarrow> i < Suc hi - lo"
    using assms by (intro idx_less_iff) auto
  moreover have "(word_of_nat i :: uint256) = 0 \<longleftrightarrow> i = 0"
    using assms idx_le_iff [of i 0] by auto
  ultimately show ?thesis
    using assms unfolding padded_def len idx by (auto simp: nth_append simp del: of_nat_add)
qed

lemma seven: "length ps = 7 \<Longrightarrow> [ps ! 0, ps ! 1, ps ! 2, ps ! 3, ps ! 4, ps ! 5, ps ! 6] = ps"
  by (rule nth_equalityI) (auto simp: less_Suc_eq numeral_eq_Suc)

lemma select_index_idx:
  assumes "k \<le> 2 ^ 255" "lo \<le> k" "k - lo < 7"
  shows "select_index ps (word_of_nat k - word_of_nat lo) msg = Returns (ps ! (k - lo))"
proof -
  have "(word_of_nat k - word_of_nat lo :: uint256) = word_of_nat (k - lo)" using assms by (simp add: of_nat_diff)
  moreover have "(word_of_nat (k - lo) :: uint256) \<le> 6" using idx_le_iff [of "k - lo" 6] assms by simp
  ultimately show ?thesis using assms by (simp add: select_index_def del: of_nat_diff)
qed

lemma shortSelectTwo_selects:
  assumes "fits xs" "hi < length xs" "hi - lo < 7" "\<forall>x\<in>set xs. x \<le> INT_MAX"
    and k: "lo \<le> k1" "k1 \<le> hi" "lo \<le> k2" "k2 \<le> hi"
  shows "shortSelectTwo xs (word_of_nat lo) (word_of_nat hi) (word_of_nat k1) (word_of_nat k2) =
    Returns (sort (stretch lo hi xs) ! (k1 - lo), sort (stretch lo hi xs) ! (k2 - lo))"
proof -
  let ?s = "stretch lo hi xs" and ?ps = "stretch lo hi xs @ replicate (7 - (Suc hi - lo)) INT_MAX"
  have lohi: "lo \<le> hi" using k by simp
  have len: "length ?ps = 7" using assms lohi by simp
  have "set ?s \<subseteq> set xs" by (auto simp: stretch_def dest: in_set_takeD in_set_dropD)
  then have "sort ?ps = sort ?s @ sort (replicate (7 - (Suc hi - lo)) INT_MAX)"
    using assms(4) by (intro sort_append_le) auto
  then have net: "network_sort ?ps ! i = sort ?s ! i" if "i \<le> hi - lo" for i
    using network_sort_sorts [OF len] that assms(2) lohi less_Suc_eq_le [of i "hi - lo"]
    by (simp add: nth_append Suc_diff_le)
  let ?pad = "padded xs (word_of_nat lo) (word_of_nat hi + 1 - word_of_nat lo)"
  note pad = padded_idx [OF assms(1) lohi assms(2,3)]
  have pads: "?pad 0 = Returns (?ps ! 0)" "?pad 1 = Returns (?ps ! 1)" "?pad 2 = Returns (?ps ! 2)"
    "?pad 3 = Returns (?ps ! 3)" "?pad 4 = Returns (?ps ! 4)" "?pad 5 = Returns (?ps ! 5)" "?pad 6 = Returns (?ps ! 6)"
    using pad [of 0] pad [of 1] pad [of 2] pad [of 3] pad [of 4] pad [of 5] pad [of 6] by simp_all
  have sel: "select_index (network_sort ?ps) (word_of_nat k - word_of_nat lo) msg = Returns (sort ?s ! (k - lo))"
    if "lo \<le> k" "k \<le> hi" for k msg
    using that assms select_index_idx [of k lo "network_sort ?ps" msg] net [of "k - lo"] by simp
  have eq: "(word_of_nat k1 :: uint256) = word_of_nat k2 \<longleftrightarrow> k1 = k2"
  proof -
    have "unat (word_of_nat k1 :: uint256) = k1" "unat (word_of_nat k2 :: uint256) = k2" using assms by simp_all
    then show ?thesis by metis
  qed
  show ?thesis
    unfolding shortSelectTwo_def Let_def pads bind_sol_simps seven [OF len] sel [OF k(1,2)] sel [OF k(3,4)] eq
    by simp
qed

section \<open>Selecting in an array\<close>

lemma quickselect_loop_selects:
  assumes "fits xs" "hi < length xs" "\<forall>x\<in>set xs. x \<le> INT_MAX" "lo \<le> k" "k \<le> hi"
  shows "\<exists>ys. quickselect_loop xs (word_of_nat lo) (word_of_nat hi) (word_of_nat k) =
      Returns (sort (stretch lo hi xs) ! (k - lo), ys) \<and> permuted lo hi xs ys"
  using assms
proof (induction "hi - lo" arbitrary: xs lo hi rule: less_induct)
  case less
  have lt: "(word_of_nat lo :: uint256) < word_of_nat hi \<longleftrightarrow> lo < hi"
    using less.prems by (intro idx_less_iff) auto
  have short: "(word_of_nat hi - word_of_nat lo :: uint256) < SHORTSELECTTWO_MAX_LENGTH \<longleftrightarrow> hi - lo < 7"
    using less.prems by (intro short_stretch) auto
  consider "lo = hi" | "lo < hi" "hi - lo < 7" | "lo < hi" "7 \<le> hi - lo" using less.prems by linarith
  then show ?case
  proof cases
    case 1
    then show ?thesis
      using less.prems by (intro exI [of _ xs]) (subst quickselect_loop.simps, simp add: stretch_single)
  next
    case 2
    then show ?thesis
      using less.prems lt short shortSelectTwo_selects [of xs hi lo k k]
      by (intro exI [of _ xs]) (subst quickselect_loop.simps, simp)
  next
    case 3
    obtain p ys where p: "partition_sol xs (word_of_nat lo) (word_of_nat hi) = Returns (word_of_nat p, ys)"
      "lo \<le> p" "p < hi" "permuted lo hi xs ys" "length ys = length xs" "set ys = set xs"
      "\<And>k. lo \<le> k \<Longrightarrow> k \<le> p \<Longrightarrow> sort (stretch lo hi xs) ! (k - lo) = sort (stretch lo p ys) ! (k - lo)"
      "\<And>k. p < k \<Longrightarrow> k \<le> hi \<Longrightarrow> sort (stretch lo hi xs) ! (k - lo) = sort (stretch (Suc p) hi ys) ! (k - Suc p)"
      using partition_sorts [OF less.prems(1) 3(1) less.prems(2)] by blast
    have smaller: "p - lo < hi - lo" "hi - Suc p < hi - lo" using p(2,3) by linarith+
    have le: "(word_of_nat k :: uint256) \<le> word_of_nat p \<longleftrightarrow> k \<le> p"
      using less.prems p by (intro idx_le_iff) auto
    have unfold: "quickselect_loop xs (word_of_nat lo) (word_of_nat hi) (word_of_nat k) =
        (if k \<le> p then quickselect_loop ys (word_of_nat lo) (word_of_nat p) (word_of_nat k)
         else quickselect_loop ys (word_of_nat (Suc p)) (word_of_nat hi) (word_of_nat k))"
      using 3 lt short p(1) le by (subst quickselect_loop.simps) (simp add: add.commute)
    show ?thesis
      using unfold less.hyps [of p lo ys, OF smaller(1)] less.hyps [of hi "Suc p" ys, OF smaller(2)] less.prems p
        permuted_trans [OF p(4) permuted_mono]
      by (cases "k \<le> p") auto
  qed
qed

lemma quickselect_selects:
  assumes "fits xs" "hi < length xs" "\<forall>x\<in>set xs. x \<le> INT_MAX" "lo \<le> k" "k \<le> hi"
  obtains ys where "quickselect xs (word_of_nat lo) (word_of_nat hi) (word_of_nat k) =
      Returns (sort (stretch lo hi xs) ! (k - lo), ys)" "permuted lo hi xs ys"
proof -
  have "(word_of_nat lo :: uint256) \<le> word_of_nat k" "(word_of_nat k :: uint256) \<le> word_of_nat hi"
    using assms by (auto simp: idx_le_iff)
  with quickselect_loop_selects [OF assms] that show thesis by (auto simp: quickselect_def)
qed

text \<open>Once a pivot lies between the two ranks, one is selected on either side of it.\<close>

lemma quickselect_sides:
  assumes "fits ys" "hi < length ys" "\<forall>x\<in>set ys. x \<le> INT_MAX" "lo \<le> k1" "k1 \<le> p" "p < k2" "k2 \<le> hi"
  shows "\<exists>us. bind_sol (quickselect ys (word_of_nat lo) (word_of_nat p) (word_of_nat k1)) (\<lambda>(k1th, list).
      bind_sol (quickselect list (word_of_nat (Suc p)) (word_of_nat hi) (word_of_nat k2)) (\<lambda>(k2th, list).
      Returns (k1th, k2th, list))) =
    Returns (sort (stretch lo p ys) ! (k1 - lo), sort (stretch (Suc p) hi ys) ! (k2 - Suc p), us) \<and> permuted lo hi ys us"
proof -
  obtain zs where zs: "quickselect ys (word_of_nat lo) (word_of_nat p) (word_of_nat k1) =
      Returns (sort (stretch lo p ys) ! (k1 - lo), zs)" "permuted lo p ys zs"
    using quickselect_selects [of ys p lo k1] assms by auto
  then have zs': "length zs = length ys" "set zs = set ys" "stretch (Suc p) hi zs = stretch (Suc p) hi ys"
    using assms permuted_length [OF zs(2)] permuted_other [OF zs(2), of "Suc p" hi]
    by (auto simp: permuted_def dest: mset_eq_setD)
  obtain us where us: "quickselect zs (word_of_nat (Suc p)) (word_of_nat hi) (word_of_nat k2) =
      Returns (sort (stretch (Suc p) hi zs) ! (k2 - Suc p), us)" "permuted (Suc p) hi zs us"
    using quickselect_selects [of zs hi "Suc p" k2] assms zs' by auto
  have "permuted lo hi ys us"
    using permuted_trans [OF permuted_mono [OF zs(2)] permuted_mono [OF us(2)]] assms by simp
  with zs(1) zs'(3) us(1) show ?thesis by simp
qed

lemma quickselectTwo_loop_selects:
  assumes "fits xs" "hi < length xs" "\<forall>x\<in>set xs. x \<le> INT_MAX" "lo \<le> k1" "k1 < k2" "k2 \<le> hi"
  shows "\<exists>ys. quickselectTwo_loop xs (word_of_nat lo) (word_of_nat hi) (word_of_nat k1) (word_of_nat k2) =
      Returns (sort (stretch lo hi xs) ! (k1 - lo), sort (stretch lo hi xs) ! (k2 - lo), ys) \<and> permuted lo hi xs ys"
  using assms
proof (induction "hi - lo" arbitrary: xs lo hi rule: less_induct)
  case less
  have short: "(word_of_nat hi - word_of_nat lo :: uint256) < SHORTSELECTTWO_MAX_LENGTH \<longleftrightarrow> hi - lo < 7"
    using less.prems by (intro short_stretch) auto
  show ?case
  proof (cases "hi - lo < 7")
    case True
    then show ?thesis
      using less.prems short shortSelectTwo_selects [of xs hi lo k1 k2]
      by (intro exI [of _ xs]) (subst quickselectTwo_loop.simps, simp)
  next
    case False
    then have "lo < hi" by simp
    obtain p ys where p: "partition_sol xs (word_of_nat lo) (word_of_nat hi) = Returns (word_of_nat p, ys)"
      "lo \<le> p" "p < hi" "permuted lo hi xs ys" "length ys = length xs" "set ys = set xs"
      "\<And>k. lo \<le> k \<Longrightarrow> k \<le> p \<Longrightarrow> sort (stretch lo hi xs) ! (k - lo) = sort (stretch lo p ys) ! (k - lo)"
      "\<And>k. p < k \<Longrightarrow> k \<le> hi \<Longrightarrow> sort (stretch lo hi xs) ! (k - lo) = sort (stretch (Suc p) hi ys) ! (k - Suc p)"
      using partition_sorts [OF less.prems(1) \<open>lo < hi\<close> less.prems(2)] by blast
    have smaller: "p - lo < hi - lo" "hi - Suc p < hi - lo" using p(2,3) by linarith+
    have cmp: "(word_of_nat k2 :: uint256) \<le> word_of_nat p \<longleftrightarrow> k2 \<le> p"
      "(word_of_nat p :: uint256) < word_of_nat k1 \<longleftrightarrow> p < k1"
      "(word_of_nat k1 :: uint256) \<le> word_of_nat p \<longleftrightarrow> k1 \<le> p"
      "(word_of_nat p :: uint256) < word_of_nat k2 \<longleftrightarrow> p < k2"
      using less.prems p by (auto simp: idx_le_iff idx_less_iff)
    note unfold = quickselectTwo_loop.simps [of xs "word_of_nat lo" "word_of_nat hi"]
    consider "k2 \<le> p" | "p < k1" | "k1 \<le> p" "p < k2" by linarith
    then show ?thesis
    proof cases
      case 1
      then show ?thesis
        using False short p cmp less.prems less.hyps [of p lo ys, OF smaller(1)] permuted_trans [OF p(4) permuted_mono]
        by (subst unfold) auto
    next
      case 2
      then show ?thesis
        using False short p cmp less.prems less.hyps [of hi "Suc p" ys, OF smaller(2)] permuted_trans [OF p(4) permuted_mono]
        by (subst unfold) (auto simp: add.commute)
    next
      case 3
      then show ?thesis
        using False short p cmp less.prems quickselect_sides [of ys hi lo k1 p k2] permuted_trans [OF p(4)]
        by (subst unfold) (auto simp: add.commute)
    qed
  qed
qed

lemma quickselectTwo_selects:
  assumes "fits xs" "hi < length xs" "\<forall>x\<in>set xs. x \<le> INT_MAX" "lo \<le> k1" "k1 < k2" "k2 \<le> hi"
  obtains ys where "quickselectTwo xs (word_of_nat lo) (word_of_nat hi) (word_of_nat k1) (word_of_nat k2) =
      Returns (sort (stretch lo hi xs) ! (k1 - lo), sort (stretch lo hi xs) ! (k2 - lo), ys)" "permuted lo hi xs ys"
proof -
  have "(word_of_nat lo :: uint256) \<le> word_of_nat k1" "(word_of_nat k1 :: uint256) < word_of_nat k2"
    "(word_of_nat k2 :: uint256) \<le> word_of_nat hi" "(word_of_nat lo :: uint256) \<le> word_of_nat k2"
    "(word_of_nat k1 :: uint256) \<le> word_of_nat hi"
    using assms by (auto simp: idx_le_iff idx_less_iff)
  with quickselectTwo_loop_selects [OF assms] that show thesis by (auto simp: quickselectTwo_def)
qed

section \<open>The median of an array\<close>

text \<open>
  The reference: the middle element of the sorted list, or the average of the two in the middle,
  rounded towards zero.
\<close>

definition sorted_median :: "int list \<Rightarrow> int" where
  "sorted_median xs =
     (let s = sort xs; n = length xs in
      if even n then (s ! (n div 2 - 1) + s ! (n div 2)) sdiv 2 else s ! (n div 2))"

lemma nth_sort_in_set: "i < length xs \<Longrightarrow> sort xs ! i \<in> set xs"
  by (metis length_sort nth_mem set_sort)

lemma calculateInplace_empty: "calculateInplace [] = Reverts (Require ''list must not be empty'')"
  by (simp add: calculateInplace_def)

lemma calculateInplace_sorted:
  assumes "xs \<noteq> []" "fits xs" "\<forall>x\<in>set xs. is_int256 x"
  shows "\<exists>ys. calculateInplace xs = Returns (sorted_median xs, ys) \<and> mset ys = mset xs"
proof -
  let ?n = "length xs"
  have n: "0 < ?n" using assms by simp
  have max: "\<forall>x\<in>set xs. x \<le> INT_MAX" using assms(3) by (auto simp: is_int256_def INT_MAX_def)
  have whole: "stretch 0 (?n - 1) xs = xs" using assms(1) by simp
  have un: "unat (word_of_nat ?n :: uint256) = ?n" using assms(2) by simp
  have half: "(word_of_nat ?n div 2 :: uint256) = word_of_nat (?n div 2)"
    by (rule word_unat_eq_iff [THEN iffD2]) (use assms(2) un in \<open>simp add: unat_div_distrib\<close>)
  have even: "(word_of_nat ?n mod 2 :: uint256) = 0 \<longleftrightarrow> even ?n"
    using un by (simp add: word_unat_eq_iff unat_mod_distrib even_iff_mod_2_eq_zero)
  have last: "(word_of_nat ?n - 1 :: uint256) = word_of_nat (?n - 1)" using n by (cases ?n) simp_all
  show ?thesis
  proof (cases "even ?n")
    case True
    with n have two: "2 \<le> ?n" by presburger
    have prev: "(word_of_nat (?n div 2) - 1 :: uint256) = word_of_nat (?n div 2 - 1)"
      using two by (simp add: of_nat_diff)
    obtain ys where ys: "quickselectTwo xs (word_of_nat 0) (word_of_nat (?n - 1)) (word_of_nat (?n div 2 - 1))
        (word_of_nat (?n div 2)) = Returns (sort xs ! (?n div 2 - 1), sort xs ! (?n div 2), ys)"
      "permuted 0 (?n - 1) xs ys"
    proof -
      have "?n - 1 < ?n" "?n div 2 - 1 < ?n div 2" "?n div 2 \<le> ?n - 1" using two by linarith+
      with quickselectTwo_selects [OF assms(2) _ max, of "?n - 1" 0 "?n div 2 - 1" "?n div 2"] that
      show ?thesis by (metis whole le0 minus_nat.diff_0)
    qed
    have "avg (sort xs ! (?n div 2 - 1)) (sort xs ! (?n div 2)) = Returns (sorted_median xs)"
      using True two assms(3) nth_sort_in_set [of "?n div 2" xs] nth_sort_in_set [of "?n div 2 - 1" xs]
      by (subst avg_rounds_to_zero) (auto simp: sorted_median_def Let_def)
    with True n ys show ?thesis
      by (intro exI [of _ ys])
        (simp add: calculateInplace_def half even last prev permuted_def Let_def del: of_nat_diff)
  next
    case False
    obtain ys where ys: "quickselect xs (word_of_nat 0) (word_of_nat (?n - 1)) (word_of_nat (?n div 2)) =
        Returns (sort xs ! (?n div 2), ys)" "permuted 0 (?n - 1) xs ys"
    proof -
      have "?n - 1 < ?n" "?n div 2 \<le> ?n - 1" using n by linarith+
      with quickselect_selects [OF assms(2) _ max, of "?n - 1" 0 "?n div 2"] that
      show ?thesis by (metis whole le0 minus_nat.diff_0)
    qed
    with False n show ?thesis
      by (intro exI [of _ ys])
        (simp add: calculateInplace_def sorted_median_def half even last permuted_def Let_def del: of_nat_diff)
  qed
qed

lemma copy_loop_copies: "n \<le> length xs \<Longrightarrow> length ys = length xs \<Longrightarrow> copy_loop n xs ys = take n xs @ drop n ys"
  by (induction n) (auto simp: take_Suc_conv_app_nth list_update_append Cons_nth_drop_Suc [symmetric])

lemma copy_sol_copies [simp]: "copy_sol xs = xs"
  by (simp add: copy_sol_def copy_loop_copies)

lemma sdiv_2_between: "a \<le> x \<Longrightarrow> a \<le> y \<Longrightarrow> x \<le> b \<Longrightarrow> y \<le> b \<Longrightarrow> a \<le> (x + y) sdiv 2 \<and> (x + y) sdiv 2 \<le> b"
  for a b x y :: int
  by (auto simp: signed_divide_int_def sgn_if abs_if)

lemma sorted_median_between:
  assumes "xs \<noteq> []" "\<forall>x\<in>set xs. a \<le> x \<and> x \<le> b"
  shows "a \<le> sorted_median xs \<and> sorted_median xs \<le> b"
proof -
  have "length xs div 2 < length xs" "length xs div 2 - 1 < length xs" using assms(1) by (cases xs; simp)+
  from this [THEN nth_sort_in_set] have "a \<le> sort xs ! (length xs div 2) \<and> sort xs ! (length xs div 2) \<le> b"
    "a \<le> sort xs ! (length xs div 2 - 1) \<and> sort xs ! (length xs div 2 - 1) \<le> b"
    using assms(2) by blast+
  with sdiv_2_between [of a "sort xs ! (length xs div 2 - 1)" "sort xs ! (length xs div 2)" b]
  show ?thesis by (simp add: sorted_median_def Let_def)
qed

lemma sorted_median_is_int256:
  assumes "xs \<noteq> []" "\<forall>x\<in>set xs. is_int256 x"
  shows "is_int256 (sorted_median xs)"
proof -
  have "\<forall>x\<in>set xs. - (2 ^ 255) \<le> x \<and> x \<le> 2 ^ 255 - 1" using assms(2) by (auto simp: is_int256_def)
  with sorted_median_between [OF assms(1)] show ?thesis by (force simp: is_int256_def)
qed

text \<open>
  C13. The median of an array: \<open>calculate\<close> and \<open>calculateInplace\<close> end and return the middle element
  of the sorted array, or the average of the two middle ones rounded towards zero, whatever the
  array holds; \<open>calculateInplace\<close> permutes the array; the empty array is refused. The average does
  not overflow. Arrays have fewer than \<open>2 ^ 255\<close> elements, as the code assumes.
\<close>

theorem median_of_sorted_array:
  assumes "length xs < 2 ^ 255" "list_all is_int256 xs"
  shows "if xs = []
    then calculate xs = Reverts (Require ''list must not be empty'') \<and>
      calculateInplace xs = Reverts (Require ''list must not be empty'')
    else calculate xs = Returns (sorted_median xs) \<and> is_int256 (sorted_median xs) \<and>
      (\<exists>ys. calculateInplace xs = Returns (sorted_median xs, ys) \<and> mset ys = mset xs)"
proof (cases "xs = []")
  case True
  then show ?thesis by (simp add: calculate_def calculateInplace_empty)
next
  case False
  moreover from this obtain ys where "calculateInplace xs = Returns (sorted_median xs, ys)" "mset ys = mset xs"
    using calculateInplace_sorted assms by (auto simp: list_all_iff)
  ultimately show ?thesis
    using sorted_median_is_int256 [OF False] assms(2) by (simp add: calculate_def list_all_iff)
qed

theorem median_of_sorted_array_witness:
  "calculate [9, - 4, 7, 1, - 4, 12, 3, 8, 20, 5] = Returns 6 \<and>
   calculate [- (2 ^ 255), - (2 ^ 255) + 1] = Returns (- (2 ^ 255) + 1) \<and>
   (\<exists>ys. calculateInplace [5, 2 ^ 255 - 1, 3] = Returns (5, ys))"
proof (intro conjI)
  let ?xs = "[9, - 4, 7, 1, - 4, 12, 3, 8, 20, 5]" and ?ys = "[- (2 ^ 255), - (2 ^ 255) + 1] :: int list"
  have "sorted_median ?xs = 6" "sorted_median ?ys = - (2 ^ 255) + 1" "sorted_median [5, 2 ^ 255 - 1, 3] = 5"
    by (simp_all add: sorted_median_def)
  with median_of_sorted_array [of ?xs] median_of_sorted_array [of ?ys] median_of_sorted_array [of "[5, 2 ^ 255 - 1, 3]"]
  show "calculate ?xs = Returns 6" "calculate ?ys = Returns (- (2 ^ 255) + 1)"
    "\<exists>ys. calculateInplace [5, 2 ^ 255 - 1, 3] = Returns (5, ys)"
    by (auto simp: is_int256_def)
qed

section \<open>What the comment on \<open>partition\<close> says\<close>

text \<open>
  The comment promises that the element at the returned index is the largest of those up to it.
  Hoare's scheme does not give that, and the selection does not need it.
\<close>

lemma bind_sol_weak_cong: "m = m' \<Longrightarrow> bind_sol m f = bind_sol m' f"
  by simp

lemma partition_index_not_largest:
  "partition_sol [4, 9, 5, 3, 1] 0 4 = Returns (2, [4, 1, 3, 5, 9])"
  by (simp add: partition_sol_def partition_loop.simps scan_lo.simps scan_hi.simps array_get_def array_set_def
      array_swap_def cong: bind_sol_weak_cong)

end
