(* ===== verification/Link_Token.thy ===== *)
theory Link_Token
  imports Safe_Math
begin

text \<open>
  The LINK token, \<open>contracts/ethereum/v0.4/src\<close>: \<open>LinkToken.sol\<close> with what it inherits from
  \<open>vendor/BasicToken.sol\<close>, \<open>vendor/StandardToken.sol\<close> and \<open>ERC677Token.sol\<close>. A function carries the
  name of its contract where several contracts define it; \<open>super.transfer\<close> of \<open>ERC677Token\<close> is that
  of \<open>BasicToken\<close>, the next one in the linearisation of \<open>LinkToken\<close>. The code of the contracts that
  receive tokens with \<open>transferAndCall\<close> is the parameter \<open>receivers\<close>.

  The theory shows that the token refines a ledger of natural numbers: no addition ever
  overflows, since all balances make the supply of \<open>10 ^ 27\<close> together, and nothing but an
  account's own call, or that of a spender within his allowance, takes tokens from it.
\<close>

section \<open>The contract\<close>

datatype link_event =
    Transfer address address uint256
  | TransferData address address uint256 string
  | Approval address address uint256

record link_token =
  balances :: "address \<Rightarrow> uint256"
  allowed :: "address \<Rightarrow> address \<Rightarrow> uint256"
  link_logs :: "link_event list"

definition totalSupply :: uint256 where
  "totalSupply = 10 ^ 27"

definition LinkToken :: "msg \<Rightarrow> link_token" where
  "LinkToken m = \<lparr>balances = (\<lambda>_. 0)(msg_sender m := totalSupply), allowed = \<lambda>_ _. 0, link_logs = []\<rparr>"

definition link_emit :: "link_event \<Rightarrow> link_token \<Rightarrow> link_token" where
  "link_emit e t = t\<lparr>link_logs := link_logs t @ [e]\<rparr>"

definition BasicToken_transfer :: "msg \<Rightarrow> address \<Rightarrow> uint256 \<Rightarrow> link_token \<Rightarrow> (bool \<times> link_token) sol" where
  "BasicToken_transfer m to v t =
     bind_sol (link_sub (balances t (msg_sender m)) v) (\<lambda>b.
     let t = t\<lparr>balances := (balances t)(msg_sender m := b)\<rparr> in
     bind_sol (link_add (balances t to) v) (\<lambda>b.
     let t = t\<lparr>balances := (balances t)(to := b)\<rparr> in
     Returns (True, link_emit (Transfer (msg_sender m) to v) t)))"

definition balanceOf :: "address \<Rightarrow> link_token \<Rightarrow> uint256" where
  "balanceOf a t = balances t a"

definition set_allowed :: "address \<Rightarrow> address \<Rightarrow> uint256 \<Rightarrow> link_token \<Rightarrow> link_token" where
  "set_allowed a spender v t = t\<lparr>allowed := (allowed t)(a := (allowed t a)(spender := v))\<rparr>"

definition StandardToken_transferFrom ::
  "msg \<Rightarrow> address \<Rightarrow> address \<Rightarrow> uint256 \<Rightarrow> link_token \<Rightarrow> (bool \<times> link_token) sol" where
  "StandardToken_transferFrom m from to v t =
     (let allow = allowed t from (msg_sender m) in
      bind_sol (link_sub (balances t from) v) (\<lambda>b.
      let t = t\<lparr>balances := (balances t)(from := b)\<rparr> in
      bind_sol (link_add (balances t to) v) (\<lambda>b.
      let t = t\<lparr>balances := (balances t)(to := b)\<rparr> in
      bind_sol (link_sub allow v) (\<lambda>a.
      let t = set_allowed from (msg_sender m) a t in
      Returns (True, link_emit (Transfer from to v) t)))))"

definition StandardToken_approve :: "msg \<Rightarrow> address \<Rightarrow> uint256 \<Rightarrow> link_token \<Rightarrow> (bool \<times> link_token) sol" where
  "StandardToken_approve m spender v t =
     (let t = set_allowed (msg_sender m) spender v t in
      Returns (True, link_emit (Approval (msg_sender m) spender v) t))"

definition allowance :: "address \<Rightarrow> address \<Rightarrow> link_token \<Rightarrow> uint256" where
  "allowance a spender t = allowed t a spender"

definition increaseApproval :: "msg \<Rightarrow> address \<Rightarrow> uint256 \<Rightarrow> link_token \<Rightarrow> (bool \<times> link_token) sol" where
  "increaseApproval m spender v t =
     bind_sol (link_add (allowed t (msg_sender m) spender) v) (\<lambda>a.
     let t = set_allowed (msg_sender m) spender a t in
     Returns (True, link_emit (Approval (msg_sender m) spender (allowed t (msg_sender m) spender)) t))"

definition decreaseApproval :: "msg \<Rightarrow> address \<Rightarrow> uint256 \<Rightarrow> link_token \<Rightarrow> (bool \<times> link_token) sol" where
  "decreaseApproval m spender v t =
     (let oldValue = allowed t (msg_sender m) spender in
      bind_sol
        (if v > oldValue then Returns (set_allowed (msg_sender m) spender 0 t)
         else bind_sol (link_sub oldValue v) (\<lambda>a. Returns (set_allowed (msg_sender m) spender a t)))
        (\<lambda>t. Returns (True, link_emit (Approval (msg_sender m) spender (allowed t (msg_sender m) spender)) t)))"

text \<open>
  The contracts that may receive tokens with their code, which gets the address of the token,
  the sender, the value and the data and runs on the chain: the token and all other contracts.
\<close>

type_synonym 'w receivers =
  "address \<Rightarrow> (address \<Rightarrow> address \<Rightarrow> uint256 \<Rightarrow> string \<Rightarrow> link_token \<times> 'w \<Rightarrow> (link_token \<times> 'w) sol) option"

definition isContract :: "'w receivers \<Rightarrow> address \<Rightarrow> bool" where
  "isContract receivers addr \<longleftrightarrow> receivers addr \<noteq> None"

definition contractFallback ::
  "'w receivers \<Rightarrow> msg \<Rightarrow> address \<Rightarrow> uint256 \<Rightarrow> string \<Rightarrow> link_token \<times> 'w \<Rightarrow> (link_token \<times> 'w) sol" where
  "contractFallback receivers m to v data tw =
     (case receivers to of
        None \<Rightarrow> Reverts (Require '''')
      | Some onTokenTransfer \<Rightarrow> onTokenTransfer (address_this m) (msg_sender m) v data tw)"

text \<open>What \<open>transferAndCall\<close> does in the token itself, before it calls the receiver.\<close>

definition transfer_with_data :: "msg \<Rightarrow> address \<Rightarrow> uint256 \<Rightarrow> string \<Rightarrow> link_token \<Rightarrow> link_token sol" where
  "transfer_with_data m to v data t =
     bind_sol (BasicToken_transfer m to v t) (\<lambda>(success, t).
     Returns (link_emit (TransferData (msg_sender m) to v data) t))"

definition ERC677Token_transferAndCall ::
  "'w receivers \<Rightarrow> msg \<Rightarrow> address \<Rightarrow> uint256 \<Rightarrow> string \<Rightarrow> link_token \<times> 'w \<Rightarrow> (bool \<times> link_token \<times> 'w) sol" where
  "ERC677Token_transferAndCall receivers m to v data tw =
     (case tw of (t, w) \<Rightarrow>
        bind_sol (transfer_with_data m to v data t) (\<lambda>t.
        if isContract receivers to
        then bind_sol (contractFallback receivers m to v data (t, w)) (\<lambda>tw. Returns (True, tw))
        else Returns (True, (t, w))))"

definition validRecipient :: "msg \<Rightarrow> address \<Rightarrow> 'a sol \<Rightarrow> 'a sol" where
  "validRecipient m recipient k = require (recipient \<noteq> 0 \<and> recipient \<noteq> address_this m) '''' k"

definition LinkToken_transferAndCall ::
  "'w receivers \<Rightarrow> msg \<Rightarrow> address \<Rightarrow> uint256 \<Rightarrow> string \<Rightarrow> link_token \<times> 'w \<Rightarrow> (bool \<times> link_token \<times> 'w) sol" where
  "LinkToken_transferAndCall receivers m to v data tw =
     validRecipient m to (ERC677Token_transferAndCall receivers m to v data tw)"

definition LinkToken_transfer :: "msg \<Rightarrow> address \<Rightarrow> uint256 \<Rightarrow> link_token \<Rightarrow> (bool \<times> link_token) sol" where
  "LinkToken_transfer m to v t = validRecipient m to (BasicToken_transfer m to v t)"

definition LinkToken_approve :: "msg \<Rightarrow> address \<Rightarrow> uint256 \<Rightarrow> link_token \<Rightarrow> (bool \<times> link_token) sol" where
  "LinkToken_approve m spender v t = validRecipient m spender (StandardToken_approve m spender v t)"

definition LinkToken_transferFrom ::
  "msg \<Rightarrow> address \<Rightarrow> address \<Rightarrow> uint256 \<Rightarrow> link_token \<Rightarrow> (bool \<times> link_token) sol" where
  "LinkToken_transferFrom m from to v t = validRecipient m to (StandardToken_transferFrom m from to v t)"

section \<open>Calls of the token\<close>

text \<open>
  A call of any external function that changes the token. All but \<open>transferAndCall\<close> leave the
  rest of the chain as it is; that one ends with the call of the receiver, if it is a contract.
\<close>

datatype link_call =
    CTransfer address uint256
  | CTransferFrom address address uint256
  | CApprove address uint256
  | CIncreaseApproval address uint256
  | CDecreaseApproval address uint256
  | CTransferAndCall address uint256 string

fun link_exec :: "'w receivers \<Rightarrow> msg \<Rightarrow> link_call \<Rightarrow> link_token \<times> 'w \<Rightarrow> (link_token \<times> 'w) sol" where
  "link_exec receivers m (CTransfer to v) (t, w) = bind_sol (LinkToken_transfer m to v t) (\<lambda>(_, t). Returns (t, w))"
| "link_exec receivers m (CTransferFrom from to v) (t, w) =
     bind_sol (LinkToken_transferFrom m from to v t) (\<lambda>(_, t). Returns (t, w))"
| "link_exec receivers m (CApprove spender v) (t, w) = bind_sol (LinkToken_approve m spender v t) (\<lambda>(_, t). Returns (t, w))"
| "link_exec receivers m (CIncreaseApproval spender v) (t, w) =
     bind_sol (increaseApproval m spender v t) (\<lambda>(_, t). Returns (t, w))"
| "link_exec receivers m (CDecreaseApproval spender v) (t, w) =
     bind_sol (decreaseApproval m spender v t) (\<lambda>(_, t). Returns (t, w))"
| "link_exec receivers m (CTransferAndCall to v data) (t, w) =
     bind_sol (LinkToken_transferAndCall receivers m to v data (t, w)) (\<lambda>(_, tw). Returns tw)"

text \<open>
  What a call does to the token before anything else runs: of \<open>transferAndCall\<close>, what precedes the
  receiver. Runs are made of such steps, with those of the receiver's own calls after them, which
  is how they cover every call that returns (\<open>link_exec_runs\<close> below).
\<close>

fun token_step :: "msg \<Rightarrow> link_call \<Rightarrow> link_token \<Rightarrow> link_token sol" where
  "token_step m (CTransfer to v) t = bind_sol (LinkToken_transfer m to v t) (\<lambda>(_, t). Returns t)"
| "token_step m (CTransferFrom from to v) t = bind_sol (LinkToken_transferFrom m from to v t) (\<lambda>(_, t). Returns t)"
| "token_step m (CApprove spender v) t = bind_sol (LinkToken_approve m spender v t) (\<lambda>(_, t). Returns t)"
| "token_step m (CIncreaseApproval spender v) t = bind_sol (increaseApproval m spender v t) (\<lambda>(_, t). Returns t)"
| "token_step m (CDecreaseApproval spender v) t = bind_sol (decreaseApproval m spender v t) (\<lambda>(_, t). Returns t)"
| "token_step m (CTransferAndCall to v data) t = validRecipient m to (transfer_with_data m to v data t)"

text \<open>
  The runs of the token at the address \<open>link\<close> in which all callers are among \<open>callers\<close>.
\<close>

inductive link_run :: "address \<Rightarrow> address set \<Rightarrow> link_token \<Rightarrow> link_token \<Rightarrow> bool"
  for link :: address and callers :: "address set" and t :: link_token where
  run_none: "link_run link callers t t"
| run_call: "link_run link callers t t' \<Longrightarrow> msg_sender m \<in> callers \<Longrightarrow> address_this m = link \<Longrightarrow>
    token_step m c t' = Returns t'' \<Longrightarrow> link_run link callers t t''"

text \<open>Receivers that touch the token only by calling it, as one of \<open>callers\<close>.\<close>

definition receivers_call :: "address \<Rightarrow> address set \<Rightarrow> 'w receivers \<Rightarrow> bool" where
  "receivers_call link callers receivers \<longleftrightarrow>
     (\<forall>to f a v d t w t' w'. receivers to = Some f \<and> f link a v d (t, w) = Returns (t', w') \<longrightarrow>
        link_run link callers t t')"

text \<open>
  The states of the token at the address \<open>link\<close> that calls by anyone reach, with whatever contracts
  there are at the time to receive tokens; the rest of the chain changes at will.
\<close>

inductive link_reach :: "address \<Rightarrow> link_token \<times> 'w \<Rightarrow> bool" for link :: address where
  token_created: "link_reach link (LinkToken m, w)"
| token_called: "link_reach link tw \<Longrightarrow> address_this m = link \<Longrightarrow>
    receivers_call link UNIV (receivers :: 'w receivers) \<Longrightarrow> link_exec receivers m c tw = Returns tw' \<Longrightarrow>
    link_reach link tw'"
| chain_changed: "link_reach link (t, w) \<Longrightarrow> link_reach link (t, w')"

section \<open>The ledger\<close>

text \<open>
  What the token promises: an account of natural numbers. A call is possible or not, and there
  is nothing to overflow, except in an allowance that its owner increases.
\<close>

record link_ledger =
  bal :: "address \<Rightarrow> nat"
  allow :: "address \<Rightarrow> address \<Rightarrow> nat"

definition move :: "address \<Rightarrow> address \<Rightarrow> nat \<Rightarrow> (address \<Rightarrow> nat) \<Rightarrow> address \<Rightarrow> nat" where
  "move a b v f = (let g = f(a := f a - v) in g(b := g b + v))"

definition set_allow :: "address \<Rightarrow> address \<Rightarrow> nat \<Rightarrow> link_ledger \<Rightarrow> link_ledger" where
  "set_allow a b v L = L\<lparr>allow := (allow L)(a := (allow L a)(b := v))\<rparr>"

definition ledger_transfer :: "address \<Rightarrow> address \<Rightarrow> address \<Rightarrow> nat \<Rightarrow> link_ledger \<Rightarrow> link_ledger option" where
  "ledger_transfer link a b v L =
     (if b \<noteq> 0 \<and> b \<noteq> link \<and> v \<le> bal L a then Some (L\<lparr>bal := move a b v (bal L)\<rparr>) else None)"

fun ledger_exec :: "address \<Rightarrow> address \<Rightarrow> link_call \<Rightarrow> link_ledger \<Rightarrow> link_ledger option" where
  "ledger_exec link s (CTransfer to v) L = ledger_transfer link s to (unat v) L"
| "ledger_exec link s (CTransferAndCall to v data) L = ledger_transfer link s to (unat v) L"
| "ledger_exec link s (CTransferFrom from to v) L =
     (if unat v \<le> allow L from s
      then map_option (set_allow from s (allow L from s - unat v)) (ledger_transfer link from to (unat v) L)
      else None)"
| "ledger_exec link s (CApprove spender v) L =
     (if spender \<noteq> 0 \<and> spender \<noteq> link then Some (set_allow s spender (unat v) L) else None)"
| "ledger_exec link s (CIncreaseApproval spender v) L =
     (if allow L s spender + unat v < 2 ^ 256 then Some (set_allow s spender (allow L s spender + unat v) L) else None)"
| "ledger_exec link s (CDecreaseApproval spender v) L = Some (set_allow s spender (allow L s spender - unat v) L)"

definition link_abs :: "link_token \<Rightarrow> link_ledger" where
  "link_abs t = \<lparr>bal = \<lambda>a. unat (balances t a), allow = \<lambda>a b. unat (allowed t a b)\<rparr>"

definition supply_of :: "link_token \<Rightarrow> nat" where
  "supply_of t = (\<Sum>a\<in>UNIV. unat (balances t a))"

lemma link_emit_simps [simp]:
  "balances (link_emit e t) = balances t" "allowed (link_emit e t) = allowed t" "link_abs (link_emit e t) = link_abs t"
  by (simp_all add: link_emit_def link_abs_def)

lemma set_allowed_simps [simp]:
  "balances (set_allowed a b v t) = balances t"
  "allowed (set_allowed a b v t) = (allowed t)(a := (allowed t a)(b := v))"
  "link_abs (set_allowed a b v t) = set_allow a b (unat v) (link_abs t)"
  by (auto simp: set_allowed_def link_abs_def set_allow_def fun_eq_iff)

lemma link_abs_simps [simp]:
  "bal (link_abs t) a = unat (balances t a)" "allow (link_abs t) a b = unat (allowed t a b)"
  by (simp_all add: link_abs_def)

section \<open>Moving tokens\<close>

lemma sum_move: "v \<le> f a \<Longrightarrow> (\<Sum>x\<in>UNIV. move a b v f x) = (\<Sum>x\<in>UNIV. f x)"
  using sum_fun_upd [of f a "f a - v"] sum_fun_upd [of "f(a := f a - v)" b "(f(a := f a - v)) b + v"]
  by (simp add: move_def Let_def)

lemma balance_le_supply: "unat (balances t a) \<le> supply_of t"
  unfolding supply_of_def by (rule member_le_sum) auto

text \<open>The body that \<open>transfer\<close>, \<open>transferFrom\<close> and \<open>transferAndCall\<close> share.\<close>

definition move_tokens :: "address \<Rightarrow> address \<Rightarrow> uint256 \<Rightarrow> link_token \<Rightarrow> link_token sol" where
  "move_tokens a b v t =
     bind_sol (link_sub (balances t a) v) (\<lambda>x.
     let t = t\<lparr>balances := (balances t)(a := x)\<rparr> in
     bind_sol (link_add (balances t b) v) (\<lambda>y.
     Returns (t\<lparr>balances := (balances t)(b := y)\<rparr>)))"

lemma move_tokens_poor: "\<not> v \<le> balances t a \<Longrightarrow> move_tokens a b v t = Reverts Invalid"
  by (simp add: move_tokens_def link_sub_def)

lemma move_tokens_rich:
  assumes "v \<le> balances t a" "supply_of t < 2 ^ 256"
  obtains t' where "move_tokens a b v t = Returns t'" "allowed t' = allowed t"
    "link_abs t' = (link_abs t)\<lparr>bal := move a b (unat v) (bal (link_abs t))\<rparr>" "supply_of t' = supply_of t"
proof -
  let ?f = "(balances t)(a := balances t a - v)"
  have v: "unat v \<le> unat (balances t a)" using assms(1) by (simp add: word_le_nat_alt)
  have "unat (?f b) + unat v \<le> supply_of t"
  proof (cases "b = a")
    case True
    with v balance_le_supply [of t a] show ?thesis by (simp add: unat_sub assms(1))
  next
    case False
    have "unat (balances t a) + unat (balances t b) \<le> supply_of t"
      unfolding supply_of_def sum_split [of _ a] using False by (auto intro!: member_le_sum)
    with v False show ?thesis by simp
  qed
  with assms(2) have fit: "unat (?f b) + unat v < 2 ^ 256" by linarith
  let ?t = "t\<lparr>balances := ?f(b := ?f b + v)\<rparr>"
  have abs: "link_abs ?t = (link_abs t)\<lparr>bal := move a b (unat v) (bal (link_abs t))\<rparr>"
    using fit v by (auto simp: link_abs_def move_def Let_def fun_eq_iff unat_plus_no_wrap unat_sub assms(1))
  moreover have "supply_of ?t = supply_of t"
    using arg_cong [OF abs, of "\<lambda>L. \<Sum>x\<in>UNIV. bal L x"] sum_move [of "unat v" "bal (link_abs t)" a b] v
    by (simp add: supply_of_def)
  moreover have "move_tokens a b v t = Returns ?t"
    using assms(1) fit by (auto simp: move_tokens_def sol_simps)
  ultimately show thesis using that by simp
qed

lemma BasicToken_transfer_moves:
  "BasicToken_transfer m to v t =
     bind_sol (move_tokens (msg_sender m) to v t) (\<lambda>t. Returns (True, link_emit (Transfer (msg_sender m) to v) t))"
  by (simp add: BasicToken_transfer_def move_tokens_def bind_sol_assoc Let_def)

lemma StandardToken_transferFrom_moves:
  "StandardToken_transferFrom m from to v t =
     bind_sol (move_tokens from to v t) (\<lambda>t'.
     bind_sol (link_sub (allowed t from (msg_sender m)) v) (\<lambda>x.
     Returns (True, link_emit (Transfer from to v) (set_allowed from (msg_sender m) x t'))))"
  by (simp add: StandardToken_transferFrom_def move_tokens_def bind_sol_assoc Let_def)

section \<open>The token refines the ledger\<close>

text \<open>A call reverts where the ledger has no step, and else takes it and keeps the supply \<open>n\<close>.\<close>

definition implements :: "nat \<Rightarrow> link_ledger option \<Rightarrow> link_token sol \<Rightarrow> bool" where
  "implements n L r \<longleftrightarrow>
     (case L of
        None \<Rightarrow> (\<exists>e. r = Reverts e)
      | Some L \<Rightarrow> (\<exists>t. r = Returns t \<and> link_abs t = L \<and> supply_of t = n))"

lemma implements_simps [simp]:
  "implements n None (Reverts e)"
  "implements n (Some L) (Returns t) \<longleftrightarrow> link_abs t = L \<and> supply_of t = n"
  by (simp_all add: implements_def)

lemma implements_then:
  assumes "implements n L r" "\<And>t. link_abs (f t) = g (link_abs t)" "\<And>t. supply_of (f t) = supply_of t"
  shows "implements n (map_option g L) (bind_sol r (\<lambda>t. Returns (f t)))"
  using assms by (cases L) (auto simp: implements_def)

lemma supply_of_simps [simp]:
  "supply_of (link_emit e t) = supply_of t" "supply_of (set_allowed a b v t) = supply_of t"
  by (simp_all add: supply_of_def)

lemma move_implements:
  assumes "supply_of t < 2 ^ 256"
  shows "implements (supply_of t) (ledger_transfer (address_this m) a b (unat v) (link_abs t))
    (validRecipient m b (move_tokens a b v t))"
proof (cases "v \<le> balances t a")
  case True
  then obtain t' where "move_tokens a b v t = Returns t'" "supply_of t' = supply_of t"
    "link_abs t' = (link_abs t)\<lparr>bal := move a b (unat v) (bal (link_abs t))\<rparr>"
    using move_tokens_rich assms by blast
  with True show ?thesis
    by (simp add: ledger_transfer_def validRecipient_def require_def word_le_nat_alt)
next
  case False
  then show ?thesis
    using move_tokens_poor [OF False]
    by (auto simp: implements_def ledger_transfer_def validRecipient_def require_def word_le_nat_alt)
qed

lemma validRecipient_bind: "validRecipient m b (bind_sol r f) = bind_sol (validRecipient m b r) f"
  by (simp add: validRecipient_def require_def)

lemma transfers_implement:
  assumes "supply_of t < 2 ^ 256"
  shows "implements (supply_of t) (ledger_transfer (address_this m) a b (unat v) (link_abs t))
    (bind_sol (validRecipient m b (move_tokens a b v t)) (\<lambda>t. Returns (link_emit e t)))"
    "implements (supply_of t) (ledger_transfer (address_this m) a b (unat v) (link_abs t))
    (bind_sol (validRecipient m b (move_tokens a b v t)) (\<lambda>t. Returns (link_emit e' (link_emit e t))))"
  using implements_then [OF move_implements [OF assms], of _ id] by (simp_all add: option.map_id0)

lemma token_step_CTransfer:
  "token_step m (CTransfer to v) t =
     bind_sol (validRecipient m to (move_tokens (msg_sender m) to v t)) (\<lambda>t. Returns (link_emit (Transfer (msg_sender m) to v) t))"
  by (simp add: LinkToken_transfer_def BasicToken_transfer_moves validRecipient_bind bind_sol_assoc)

lemma token_step_CTransferAndCall:
  "token_step m (CTransferAndCall to v d) t =
     bind_sol (validRecipient m to (move_tokens (msg_sender m) to v t))
       (\<lambda>t. Returns (link_emit (TransferData (msg_sender m) to v d) (link_emit (Transfer (msg_sender m) to v) t)))"
  by (simp add: transfer_with_data_def BasicToken_transfer_moves validRecipient_bind bind_sol_assoc)

lemma token_step_CTransferFrom:
  "token_step m (CTransferFrom from to v) t =
     bind_sol (validRecipient m to (move_tokens from to v t)) (\<lambda>t'.
     bind_sol (link_sub (allowed t from (msg_sender m)) v) (\<lambda>x.
     Returns (link_emit (Transfer from to v) (set_allowed from (msg_sender m) x t'))))"
  by (simp add: LinkToken_transferFrom_def StandardToken_transferFrom_moves validRecipient_bind bind_sol_assoc)

lemma transferFrom_implements:
  assumes "supply_of t < 2 ^ 256"
  shows "implements (supply_of t) (ledger_exec (address_this m) (msg_sender m) (CTransferFrom from to v) (link_abs t))
    (token_step m (CTransferFrom from to v) t)"
proof (cases "v \<le> allowed t from (msg_sender m)")
  case True
  then have "unat (allowed t from (msg_sender m) - v) = unat (allowed t from (msg_sender m)) - unat v"
    by (rule unat_sub)
  then show ?thesis
    unfolding token_step_CTransferFrom
    using True implements_then [OF move_implements [OF assms, of m "from" to v], of
        "\<lambda>t'. link_emit (Transfer from to v) (set_allowed from (msg_sender m) (allowed t from (msg_sender m) - v) t')"
        "set_allow from (msg_sender m) (unat (allowed t from (msg_sender m)) - unat v)"]
    by (simp add: link_sub_def word_le_nat_alt)
next
  case False
  have "\<exists>e. token_step m (CTransferFrom from to v) t = Reverts e"
    unfolding token_step_CTransferFrom using False move_implements [OF assms, of m "from" to v]
    by (auto simp: implements_def link_sub_def split: option.splits)
  with False show ?thesis by (auto simp: implements_def word_le_nat_alt)
qed

lemma token_step_implements:
  assumes "supply_of t < 2 ^ 256"
  shows "implements (supply_of t) (ledger_exec (address_this m) (msg_sender m) c (link_abs t)) (token_step m c t)"
proof (cases c)
  case (CTransfer to v)
  show ?thesis unfolding CTransfer token_step_CTransfer using transfers_implement(1) [OF assms] by simp
next
  case (CTransferFrom a to v)
  show ?thesis unfolding CTransferFrom by (rule transferFrom_implements [OF assms])
next
  case (CTransferAndCall to v d)
  show ?thesis unfolding CTransferAndCall token_step_CTransferAndCall using transfers_implement(2) [OF assms] by simp
next
  case (CApprove spender v)
  then show ?thesis
    by (auto simp: implements_def LinkToken_approve_def StandardToken_approve_def validRecipient_def require_def)
next
  case (CIncreaseApproval spender v)
  then show ?thesis
    using word_add_ge_iff [of "allowed t (msg_sender m) spender" v]
    by (auto simp: implements_def increaseApproval_def link_add_def Let_def unat_plus_no_wrap sol_assert_def)
next
  case (CDecreaseApproval spender v)
  then show ?thesis
    by (auto simp: implements_def decreaseApproval_def link_sub_def Let_def unat_sub word_less_nat_alt word_le_nat_alt)
qed

lemma link_run_trans: "link_run link callers t1 t2 \<Longrightarrow> link_run link callers t2 t3 \<Longrightarrow> link_run link callers t1 t3"
  by (rotate_tac, induction rule: link_run.induct) (auto intro: run_call)

lemma link_run_supply:
  assumes "link_run link callers t t'" "supply_of t < 2 ^ 256"
  shows "supply_of t' = supply_of t"
  using assms
proof induction
  case (run_call t' m c t'')
  with token_step_implements [of t' m c] show ?case by (auto simp: implements_def split: option.splits)
qed simp

lemma supply_of_LinkToken: "supply_of (LinkToken m) = 10 ^ 27"
  using sum_fun_upd [of "\<lambda>_. 0" "msg_sender m" "10 ^ 27"]
  by (simp add: supply_of_def LinkToken_def totalSupply_def if_distrib cong: if_cong)

lemma reached_supply: "link_run link callers (LinkToken m) t \<Longrightarrow> supply_of t = 10 ^ 27"
  by (simp add: link_run_supply supply_of_LinkToken)

section \<open>Who can take tokens\<close>

lemma move_balance_le: "c \<noteq> a \<or> v = 0 \<Longrightarrow> f c \<le> move a b v f c"
  by (auto simp: move_def Let_def)

lemma ledger_transfer_others:
  "ledger_transfer link a b v L = Some L' \<Longrightarrow> c \<noteq> a \<or> v = 0 \<Longrightarrow> bal L c \<le> bal L' c \<and> allow L' = allow L"
  by (auto simp: ledger_transfer_def move_balance_le split: if_splits)

lemma ledger_exec_others:
  assumes "ledger_exec link s c L = Some L'" "a \<noteq> s" "allow L a s = 0"
  shows "bal L a \<le> bal L' a \<and> allow L' a = allow L a"
proof (cases c)
  case (CTransferFrom b to v)
  with assms obtain L1 where L1: "ledger_transfer link b to (unat v) L = Some L1" "L' = set_allow b s (allow L b s - unat v) L1"
    "unat v \<le> allow L b s"
    by (auto split: if_splits)
  with assms have "a \<noteq> b \<or> unat v = 0" by auto
  with ledger_transfer_others [OF L1(1)] L1 show ?thesis by (auto simp: set_allow_def fun_eq_iff)
next
  case (CTransfer to v)
  with assms ledger_transfer_others [of link s to "unat v" L L' a] show ?thesis by simp
next
  case (CTransferAndCall to v d)
  with assms ledger_transfer_others [of link s to "unat v" L L' a] show ?thesis by simp
qed (use assms in \<open>auto simp: set_allow_def split: if_splits\<close>)

lemma run_by_others:
  assumes "link_run link callers t t'" "supply_of t = 10 ^ 27" "a \<notin> callers" "\<forall>s\<in>callers. allowed t a s = 0"
  shows "balances t a \<le> balances t' a \<and> allowed t' a = allowed t a \<and> supply_of t' = 10 ^ 27"
  using assms(1)
proof induction
  case run_none
  then show ?case using assms(2) by simp
next
  case (run_call t1 m c t2)
  then have "implements (10 ^ 27) (ledger_exec link (msg_sender m) c (link_abs t1)) (token_step m c t1)"
    using token_step_implements [of t1 m c] by simp
  with run_call(4) have "ledger_exec link (msg_sender m) c (link_abs t1) = Some (link_abs t2)" "supply_of t2 = 10 ^ 27"
    by (auto simp: implements_def split: option.splits)
  moreover have "a \<noteq> msg_sender m" "allow (link_abs t1) a (msg_sender m) = 0"
    using assms(3,4) run_call by auto
  ultimately have "bal (link_abs t1) a \<le> bal (link_abs t2) a" "allow (link_abs t2) a = allow (link_abs t1) a"
    using ledger_exec_others by blast+
  then have "balances t1 a \<le> balances t2 a" "allowed t2 a = allowed t1 a"
    by (auto simp: word_le_nat_alt word_unat_eq_iff fun_eq_iff link_abs_def)
  with run_call.IH \<open>supply_of t2 = 10 ^ 27\<close> show ?case by auto
qed

text \<open>
  Tokens cannot be taken: the balance of an account that makes no call and has given no
  allowance to any of the callers never shrinks, and they do not get an allowance, whatever they
  call in whatever order.
\<close>

theorem link_tokens_are_safe:
  assumes "link_run link UNIV (LinkToken creation) t" "link_run link callers t t'"
    and "a \<notin> callers" "\<forall>s\<in>callers. allowance a s t = 0"
  shows "balanceOf a t \<le> balanceOf a t' \<and> (\<forall>s. allowance a s t' = allowance a s t)"
  using run_by_others [OF assms(2) reached_supply [OF assms(1)] assms(3)] assms(4)
  by (simp add: balanceOf_def allowance_def)

theorem link_tokens_are_safe_witness:
  "let m = \<lparr>msg_sender = 1, tx_origin = 1, block_timestamp = 5, address_this = 9\<rparr>;
       m2 = \<lparr>msg_sender = 2, tx_origin = 2, block_timestamp = 6, address_this = 9\<rparr> in
   \<exists>t'. token_step m2 (CApprove 1 500) (LinkToken m) = Returns t' \<and> balanceOf 1 (LinkToken m) \<le> balanceOf 1 t' \<and>
     allowance 1 2 t' = 0"
proof -
  let ?m = "\<lparr>msg_sender = 1, tx_origin = 1, block_timestamp = 5, address_this = 9\<rparr>"
  let ?m2 = "\<lparr>msg_sender = 2, tx_origin = 2, block_timestamp = 6, address_this = 9\<rparr>"
  obtain t' where t': "token_step ?m2 (CApprove 1 500) (LinkToken ?m) = Returns t'"
    by (simp add: LinkToken_approve_def StandardToken_approve_def validRecipient_def)
  have run: "link_run 9 UNIV (LinkToken ?m) (LinkToken ?m)" by (rule run_none)
  have step: "link_run 9 {2} (LinkToken ?m) t'" by (rule run_call [OF run_none _ _ t']) simp_all
  have "allowance a s (LinkToken ?m) = 0" for a s by (simp add: allowance_def LinkToken_def)
  with link_tokens_are_safe [OF run step, of 1] t' show ?thesis by (auto simp: Let_def)
qed

section \<open>Transfers that call the receiver\<close>

lemma transferAndCall_runs:
  assumes "LinkToken_transferAndCall receivers m to v d (t, w) = Returns (r, t', w')"
    and "receivers_call (address_this m) callers receivers" "msg_sender m \<in> callers"
  shows "r \<and> link_run (address_this m) callers t t'"
proof -
  obtain t1 where t1: "token_step m (CTransferAndCall to v d) t = Returns t1" "r"
    "(t', w') = (t1, w) \<or> (\<exists>f. receivers to = Some f \<and> f (address_this m) (msg_sender m) v d (t1, w) = Returns (t', w'))"
    using assms(1)
    by (auto simp: LinkToken_transferAndCall_def ERC677Token_transferAndCall_def validRecipient_def contractFallback_def
        isContract_def sol_simps split: if_splits option.splits)
  have "link_run (address_this m) callers t t1" using run_call [OF run_none assms(3) _ t1(1)] by simp
  moreover have "link_run (address_this m) callers t1 t'"
    using t1(3) assms(2) run_none unfolding receivers_call_def by blast
  ultimately show ?thesis using t1(2) link_run_trans by blast
qed

lemma link_exec_step:
  "link_exec receivers m c (t, w) =
     bind_sol (token_step m c t) (\<lambda>t1.
       case c of
         CTransferAndCall to v data \<Rightarrow>
           (case receivers to of
              None \<Rightarrow> Returns (t1, w)
            | Some onTokenTransfer \<Rightarrow> onTokenTransfer (address_this m) (msg_sender m) v data (t1, w))
       | _ \<Rightarrow> Returns (t1, w))"
proof (cases c)
  case (CTransferAndCall to v data)
  have unit: "bind_sol r Returns = r" for r :: "'b sol"
    by (cases r) (auto simp: bind_sol_def split: sum.split)
  show ?thesis
    unfolding CTransferAndCall
    by (cases "receivers to")
      (simp_all add: LinkToken_transferAndCall_def ERC677Token_transferAndCall_def isContract_def contractFallback_def
        validRecipient_def require_def bind_sol_assoc unit)
qed (simp_all add: bind_sol_assoc case_prod_unfold)

lemma link_exec_runs:
  assumes "link_exec receivers m c (t, w) = Returns (t', w')"
    and "receivers_call (address_this m) callers receivers" "msg_sender m \<in> callers"
  shows "link_run (address_this m) callers t t'"
proof (cases "\<exists>to v d. c = CTransferAndCall to v d")
  case True
  with assms transferAndCall_runs show ?thesis by (fastforce simp: bind_sol_Returns)
next
  case False
  with assms(1) have "token_step m c t = Returns t'" by (cases c) (auto simp: bind_sol_Returns)
  then show ?thesis using run_call [OF run_none assms(3)] by blast
qed

lemma link_reach_supply: "link_reach link tw \<Longrightarrow> supply_of (fst tw) = 10 ^ 27"
proof (induction rule: link_reach.induct)
  case (token_called tw m receivers c tw')
  then have "link_run link UNIV (fst tw) (fst tw')"
    using link_exec_runs [of receivers m c "fst tw" "snd tw" "fst tw'" "snd tw'" UNIV] by simp
  with token_called.IH show ?case by (simp add: link_run_supply)
qed (simp_all add: supply_of_LinkToken)

text \<open>
  C14. The LINK token refines a ledger of natural numbers. After any calls by anyone, where the
  contracts that receive tokens touch the token only by calling it: a call for which the ledger
  has no step (a recipient that is not allowed, too few tokens, too small an allowance, an
  allowance beyond 256 bits) reverts. Any other call takes the step of the ledger, and returns
  with that, except a \<open>transferAndCall\<close> to a contract: there the step comes first, and then the
  call ends as \<open>onTokenTransfer\<close> of the receiver ends, started in the state after the step, so that
  it reverts if the receiver reverts. No sum of balances overflows, and no token is made or lost:
  the balances always make \<open>10 ^ 27\<close> together.
\<close>

theorem link_token_refines_ledger:
  fixes receivers :: "'w receivers"
  assumes "link_reach (address_this m) (t, w)"
  shows "(case ledger_exec (address_this m) (msg_sender m) c (link_abs t) of
        None \<Rightarrow> (\<exists>e. link_exec receivers m c (t, w) = Reverts e)
      | Some L \<Rightarrow> (\<exists>t1. link_abs t1 = L \<and> link_exec receivers m c (t, w) =
          (case c of
             CTransferAndCall to v data \<Rightarrow>
               (case receivers to of
                  None \<Rightarrow> Returns (t1, w)
                | Some onTokenTransfer \<Rightarrow> onTokenTransfer (address_this m) (msg_sender m) v data (t1, w))
           | _ \<Rightarrow> Returns (t1, w))))
    \<and> (\<Sum>a\<in>UNIV. bal (link_abs t) a) = 10 ^ 27"
proof -
  have s: "supply_of t = 10 ^ 27" using link_reach_supply [OF assms] by simp
  then have "implements (10 ^ 27) (ledger_exec (address_this m) (msg_sender m) c (link_abs t)) (token_step m c t)"
    using token_step_implements [of t m c] by simp
  then show ?thesis
    unfolding link_exec_step using s by (cases "ledger_exec (address_this m) (msg_sender m) c (link_abs t)")
      (auto simp: implements_def supply_of_def simp del: ledger_exec.simps)
qed

text \<open>A receiver at the address 7 that takes no data, as the flux aggregator, and nothing else.\<close>

definition sample_receivers :: "unit receivers" where
  "sample_receivers a = (if a = 7 then Some (\<lambda>link s v data tw. require (data = []) '''' (Returns tw)) else None)"

lemma sample_receivers_call: "receivers_call 9 UNIV sample_receivers"
  by (auto simp: receivers_call_def sample_receivers_def require_Returns run_none split: if_splits)

theorem link_token_refines_ledger_witness:
  "let m = \<lparr>msg_sender = 1, tx_origin = 1, block_timestamp = 5, address_this = 9\<rparr> in
   (\<exists>t'. link_exec sample_receivers m (CTransferAndCall 7 700 []) (LinkToken m, ()) = Returns (t', ()) \<and>
      bal (link_abs t') 1 = 10 ^ 27 - 700 \<and> bal (link_abs t') 7 = 700 \<and>
      (\<exists>e. link_exec sample_receivers m (CTransferFrom 7 1 1) (t', ()) = Reverts e)) \<and>
   (\<exists>e. link_exec sample_receivers m (CTransferAndCall 7 700 ''x'') (LinkToken m, ()) = Reverts e) \<and>
   (\<exists>e. link_exec sample_receivers m (CTransfer 9 700) (LinkToken m, ()) = Reverts e)"
proof -
  let ?m = "\<lparr>msg_sender = 1, tx_origin = 1, block_timestamp = 5, address_this = 9\<rparr>"
  let ?t = "LinkToken ?m"
  have start: "link_reach (address_this ?m) (?t, ())" by (rule token_created)
  have "unat totalSupply = 10 ^ 27" by (simp add: totalSupply_def)
  then have bals: "bal (link_abs ?t) = (\<lambda>_. 0)(1 := 10 ^ 27)"
    by (simp add: LinkToken_def link_abs_def fun_eq_iff)
  note step = link_token_refines_ledger [where receivers = sample_receivers, OF start]
  obtain t' where t': "link_exec sample_receivers ?m (CTransferAndCall 7 700 []) (?t, ()) = Returns (t', ())"
    "link_abs t' = (link_abs ?t)\<lparr>bal := move 1 7 700 (bal (link_abs ?t))\<rparr>"
    using step [of "CTransferAndCall 7 700 []"] bals
    by (auto simp: ledger_transfer_def sample_receivers_def simp del: link_exec.simps link_abs_simps)
  have b: "bal (link_abs t') 1 = 10 ^ 27 - 700" "bal (link_abs t') 7 = 700"
    unfolding t'(2) bals by (simp_all add: move_def)
  have "link_reach (address_this ?m) (t', ())"
    by (rule token_called [OF start, of _ sample_receivers, OF refl _ t'(1)]) (simp add: sample_receivers_call)
  moreover have "allow (link_abs t') 7 1 = 0" unfolding t'(2) by (simp add: link_abs_def LinkToken_def)
  ultimately have "\<exists>e. link_exec sample_receivers ?m (CTransferFrom 7 1 1) (t', ()) = Reverts e"
    using link_token_refines_ledger [where receivers = sample_receivers and c = "CTransferFrom 7 1 1"]
    by (fastforce simp del: link_exec.simps link_abs_simps)
  moreover have "\<exists>e. link_exec sample_receivers ?m (CTransferAndCall 7 700 ''x'') (?t, ()) = Reverts e"
    using step [of "CTransferAndCall 7 700 ''x''"] bals
    by (auto simp: ledger_transfer_def sample_receivers_def simp del: link_exec.simps link_abs_simps)
  moreover have "\<exists>e. link_exec sample_receivers ?m (CTransfer 9 700) (?t, ()) = Reverts e"
    using step [of "CTransfer 9 700"] by (auto simp: ledger_transfer_def simp del: link_exec.simps)
  ultimately show ?thesis using t'(1) b unfolding Let_def by blast
qed

end
