(* ===== verification/Sol_Contracts.thy ===== *)
theory Sol_Contracts
  imports Link_Token
begin

text \<open>
  The contracts that the two aggregators call: the LINK token and a validator, as the parameter
  \<open>'w contracts\<close> on an opaque state \<open>'w\<close> of theirs. What an aggregator relies on of them is the
  locale \<open>link_interface\<close>, in which \<open>Flux_Funds\<close>, \<open>Flux_Progress\<close> and \<open>Offchain_Funds\<close> prove their
  lemmas; \<open>link_token_provides\<close> shows it of the LINK token of the repository, with validators that
  may call the token as they like. A validator that calls the aggregator back is not modelled.
\<close>

section \<open>The other contracts\<close>

text \<open>
  How a call in a \<open>try\<close> statement ends. The compiler checks that there is code at the address, and
  decodes what was returned, in the caller: if there is no code, or too little data comes back,
  it is the caller that reverts. \<open>c_validate\<close> gets the validator, the caller, the gas it may use and
  the arguments of \<open>validate\<close>.
\<close>

datatype 'w validator_reply = NoCode | Threw | ShortReply | Replied bool 'w

record 'w contracts =
  c_balanceOf :: "address \<Rightarrow> address \<Rightarrow> 'w \<Rightarrow> uint256 sol"
  c_transfer :: "address \<Rightarrow> address \<Rightarrow> address \<Rightarrow> uint256 \<Rightarrow> 'w \<Rightarrow> (bool \<times> 'w) sol"
  c_validate :: "address \<Rightarrow> address \<Rightarrow> uint256 \<Rightarrow> uint256 \<Rightarrow> int \<Rightarrow> uint256 \<Rightarrow> int \<Rightarrow> 'w \<Rightarrow> 'w validator_reply"

section \<open>The interface of the token\<close>

text \<open>
  \<open>bal\<close> is the balance of the aggregator in a state of the other contracts that satisfies
  \<open>token_ok\<close>; \<open>recipient\<close> says who may receive tokens.
\<close>

locale link_interface =
  fixes C :: "'w contracts" and link agg :: address and token_ok :: "'w \<Rightarrow> bool" and bal :: "'w \<Rightarrow> nat"
    and recipient :: "address \<Rightarrow> bool" and env :: "'w \<Rightarrow> 'w \<Rightarrow> bool"
  assumes balanceOf: "token_ok w \<Longrightarrow> c_balanceOf C link agg w = Returns (word_of_nat (bal w))"
    and balance_fits: "token_ok w \<Longrightarrow> bal w < 2 ^ 128"
    and transfer_moves: "token_ok w \<Longrightarrow> c_transfer C link agg to v w = Returns (ok, w') \<Longrightarrow>
      token_ok w' \<and> unat v \<le> bal w \<and> (if to = agg then bal w' = bal w else bal w' + unat v = bal w)"
    and transfer_succeeds: "token_ok w \<Longrightarrow> unat v \<le> bal w \<Longrightarrow> recipient to \<Longrightarrow>
      \<exists>w'. c_transfer C link agg to v w = Returns (True, w')"
    and validate_harmless: "token_ok w \<Longrightarrow> c_validate C av agg gas p x q y w = Replied b w' \<Longrightarrow> token_ok w' \<and> bal w \<le> bal w'"
    and env_harmless: "token_ok w \<Longrightarrow> env w w' \<Longrightarrow> token_ok w' \<and> bal w \<le> bal w'"

section \<open>The LINK token as the token of the aggregator\<close>

text \<open>
  The other contracts: the LINK token at the address \<open>link\<close>, with a state \<open>'v\<close> of all the rest.
  What a validator does is a parameter: it may have no code, throw, return too little, or reply,
  and in replying make any calls of the token, by anyone but the aggregator; where one of them
  calls a receiver, the calls of the receiver come after it in the list.
\<close>

datatype 'v validator_run = VNoCode | VThrow | VShort | VReply bool "(address \<times> link_call) list" 'v

type_synonym 'v validators = "address \<Rightarrow> uint256 \<Rightarrow> uint256 \<Rightarrow> int \<Rightarrow> uint256 \<Rightarrow> int \<Rightarrow> link_token \<times> 'v \<Rightarrow> 'v validator_run"

definition link_msg :: "address \<Rightarrow> address \<Rightarrow> msg" where
  "link_msg link sender = \<lparr>msg_sender = sender, tx_origin = sender, block_timestamp = 0, address_this = link\<rparr>"

fun run_calls :: "address \<Rightarrow> address \<Rightarrow> (address \<times> link_call) list \<Rightarrow> link_token \<Rightarrow> link_token sol" where
  "run_calls link agg [] t = Returns t"
| "run_calls link agg ((s, c) # cs) t =
     require (s \<noteq> agg) [] (bind_sol (token_step (link_msg link s) c t) (run_calls link agg cs))"

definition link_validate ::
  "address \<Rightarrow> 'v validators \<Rightarrow> address \<Rightarrow> address \<Rightarrow> uint256 \<Rightarrow> uint256 \<Rightarrow> int \<Rightarrow> uint256 \<Rightarrow> int \<Rightarrow> link_token \<times> 'v \<Rightarrow>
    (link_token \<times> 'v) validator_reply" where
  "link_validate link V av agg gas p x q y tv =
     (if av = agg then Threw
      else
        case V av gas p x q y tv of
          VNoCode \<Rightarrow> NoCode
        | VThrow \<Rightarrow> Threw
        | VShort \<Rightarrow> ShortReply
        | VReply b cs v' \<Rightarrow>
            (case run_calls link agg cs (fst tv) of Returns t' \<Rightarrow> Replied b (t', v') | _ \<Rightarrow> Threw))"

definition link_contracts :: "address \<Rightarrow> 'v validators \<Rightarrow> (link_token \<times> 'v) contracts" where
  "link_contracts link V =
     \<lparr>c_balanceOf = (\<lambda>token a tv. if token = link then Returns (balanceOf a (fst tv)) else Reverts (Require [])),
      c_transfer = (\<lambda>token sender to v tv.
        if token = link
        then bind_sol (LinkToken_transfer (link_msg link sender) to v (fst tv)) (\<lambda>(ok, t). Returns (ok, (t, snd tv)))
        else Reverts (Require [])),
      c_validate = link_validate link V\<rparr>"

definition link_env :: "address \<Rightarrow> address \<Rightarrow> link_token \<times> 'v \<Rightarrow> link_token \<times> 'v \<Rightarrow> bool" where
  "link_env link agg tv tv' \<longleftrightarrow> link_run link (- {agg}) (fst tv) (fst tv')"

definition link_start :: "address \<Rightarrow> address \<Rightarrow> link_token \<times> 'v \<Rightarrow> bool" where
  "link_start link agg tv \<longleftrightarrow> (\<exists>m. link_run link (- {agg}) (LinkToken m) (fst tv))"

definition token_good :: "address \<Rightarrow> link_token \<times> 'v \<Rightarrow> bool" where
  "token_good agg tv \<longleftrightarrow> supply_of (fst tv) = 10 ^ 27 \<and> (\<forall>s. allowed (fst tv) agg s = 0)"

lemma run_calls_run: "run_calls link agg cs t = Returns t' \<Longrightarrow> link_run link (- {agg}) t t'"
proof (induction link agg cs t rule: run_calls.induct)
  case (1 link agg t)
  then show ?case by (simp add: run_none)
next
  case (2 link agg s c cs t)
  then obtain t1 where "s \<noteq> agg" "token_step (link_msg link s) c t = Returns t1" "link_run link (- {agg}) t1 t'"
    by (auto simp: require_Returns bind_sol_Returns)
  then show ?case
    using link_run_trans run_call [OF run_none, of "link_msg link s" "- {agg}" link c t t1] by (auto simp: link_msg_def)
qed

lemma token_good_run:
  "token_good agg tv \<Longrightarrow> link_run link (- {agg}) (fst tv) (fst tv') \<Longrightarrow>
     token_good agg tv' \<and> unat (balances (fst tv) agg) \<le> unat (balances (fst tv') agg)"
  using run_by_others [of link "- {agg}" "fst tv" "fst tv'" agg]
  by (auto simp: token_good_def word_le_nat_alt)

lemma token_good_start:
  assumes "link_start link agg tv"
  shows "token_good agg tv"
proof -
  obtain m where "link_run link (- {agg}) (LinkToken m) (fst tv)" using assms by (auto simp: link_start_def)
  moreover have "allowed (LinkToken m) = (\<lambda>_ _. 0)" by (simp add: LinkToken_def)
  ultimately show ?thesis
    using run_by_others [of link "- {agg}" "LinkToken m" "fst tv" agg] by (simp add: token_good_def supply_of_LinkToken)
qed

lemma link_transfer_moves:
  assumes "supply_of t = 10 ^ 27"
  shows "LinkToken_transfer (link_msg link a) to v t = Returns (ok, t') \<longleftrightarrow>
    ok \<and> to \<noteq> 0 \<and> to \<noteq> link \<and> unat v \<le> unat (balances t a) \<and>
    (\<exists>t1. move_tokens a to v t = Returns t1 \<and> t' = link_emit (Transfer a to v) t1)"
  using move_tokens_poor [of v t a to]
  by (cases "v \<le> balances t a")
    (auto simp: LinkToken_transfer_def BasicToken_transfer_moves validRecipient_def sol_simps link_msg_def word_le_nat_alt)

lemma link_token_provides:
  "link_interface (link_contracts link (V :: 'v validators)) link agg (token_good agg) (\<lambda>tv. unat (balances (fst tv) agg))
    (\<lambda>to. to \<noteq> 0 \<and> to \<noteq> link) (link_env link agg)"
proof
  fix w w' :: "link_token \<times> 'v" and v :: uint256 and to ok av gas p x q y b
  assume good: "token_good agg w"
  then have s: "supply_of (fst w) = 10 ^ 27" "supply_of (fst w) < 2 ^ 256" by (simp_all add: token_good_def)
  show "c_balanceOf (link_contracts link V) link agg w = Returns (word_of_nat (unat (balances (fst w) agg)))"
    by (simp add: link_contracts_def balanceOf_def)
  show "unat (balances (fst w) agg) < 2 ^ 128" using balance_le_supply [of "fst w" agg] s by simp
  { assume "c_transfer (link_contracts link V) link agg to v w = Returns (ok, w')"
    then obtain t1 where t1: "move_tokens agg to v (fst w) = Returns t1" "fst w' = link_emit (Transfer agg to v) t1"
      "v \<le> balances (fst w) agg"
      by (auto simp: link_contracts_def bind_sol_Returns link_transfer_moves [OF s(1)] word_le_nat_alt)
    moreover from move_tokens_rich [OF t1(3) s(2), of to] t1(1) have
      "allowed t1 = allowed (fst w)" "supply_of t1 = supply_of (fst w)"
      "link_abs t1 = (link_abs (fst w))\<lparr>bal := move agg to (unat v) (bal (link_abs (fst w)))\<rparr>" by force+
    moreover from this have "unat (balances t1 agg) = move agg to (unat v) (bal (link_abs (fst w))) agg"
      by (metis link_abs_simps(1) link_ledger.select_convs(1) link_ledger.surjective link_ledger.update_convs(1))
    ultimately show "token_good agg w' \<and> unat v \<le> unat (balances (fst w) agg) \<and>
        (if to = agg then unat (balances (fst w') agg) = unat (balances (fst w) agg)
         else unat (balances (fst w') agg) + unat v = unat (balances (fst w) agg))"
      using good by (auto simp: token_good_def move_def Let_def word_le_nat_alt) }
  { assume "unat v \<le> unat (balances (fst w) agg)" "to \<noteq> 0 \<and> to \<noteq> link"
    moreover from this obtain t1 where "move_tokens agg to v (fst w) = Returns t1"
      using move_tokens_rich [of v "fst w" agg to] s(2) by (auto simp: word_le_nat_alt)
    ultimately show "\<exists>w'. c_transfer (link_contracts link V) link agg to v w = Returns (True, w')"
      by (auto simp: link_contracts_def bind_sol_Returns link_transfer_moves [OF s(1)]) }
  { assume "c_validate (link_contracts link V) av agg gas p x q y w = Replied b w'"
    then obtain cs where "run_calls link agg cs (fst w) = Returns (fst w')"
      by (auto simp: link_contracts_def link_validate_def split: if_splits validator_run.splits option.splits sum.splits)
    then show "token_good agg w' \<and> unat (balances (fst w) agg) \<le> unat (balances (fst w') agg)"
      using token_good_run [OF good] run_calls_run by blast }
  show "token_good agg w' \<and> unat (balances (fst w) agg) \<le> unat (balances (fst w') agg)" if "link_env link agg w w'"
    using token_good_run [OF good, of link w'] that unfolding link_env_def by blast
qed

lemma link_transfer_credits:
  assumes "token_good agg (t, v)" "c_transfer (link_contracts link V) link agg to amount (t, v) = Returns (True, w')" "to \<noteq> agg"
  shows "\<exists>t'. w' = (t', v) \<and> unat (balanceOf to t') = unat (balanceOf to t) + unat amount"
proof -
  have s: "supply_of t = 10 ^ 27" "supply_of t < 2 ^ 256" using assms(1) by (simp_all add: token_good_def)
  obtain t1 where t1: "move_tokens agg to amount t = Returns t1" "w' = (link_emit (Transfer agg to amount) t1, v)"
    "amount \<le> balances t agg"
    using assms(2) by (auto simp: link_contracts_def bind_sol_Returns link_transfer_moves [OF s(1)] word_le_nat_alt)
  with move_tokens_rich [OF t1(3) s(2), of to]
  have "link_abs t1 = (link_abs t)\<lparr>bal := move agg to (unat amount) (bal (link_abs t))\<rparr>" by force
  then have "unat (balances t1 to) = move agg to (unat amount) (bal (link_abs t)) to"
    by (metis link_abs_simps(1) link_ledger.select_convs(1) link_ledger.surjective link_ledger.update_convs(1))
  with t1(2) assms(3) show ?thesis by (auto simp: move_def Let_def balanceOf_def link_emit_def)
qed

end
