(* ===== verification/Flux_Aggregator.thy ===== *)
theory Flux_Aggregator
  imports Owned Sol_Median Sol_Contracts
begin

text \<open>
  The contract \<open>contracts/ethereum/v0.6/src/FluxAggregator.sol\<close>, on which the flux monitor demo
  runs: oracles report to rounds, a round that has enough submissions gets their median as its
  answer, and every submission is paid in LINK. Its storage is the record \<open>flux\<close>, an extension of
  that of \<open>Owned\<close>; each function of the contract is a definition of its name, one that only reads
  takes the storage last and one that writes returns the storage it leaves. A mapping is a
  function, zero everywhere at first.

  The other contracts are the parameter \<open>'w contracts\<close> of \<open>Sol_Contracts\<close>: what the aggregator
  calls of the LINK token and of the validator, on an opaque state \<open>'w\<close> of theirs.
\<close>

section \<open>Storage\<close>

record round =
  rd_answer :: int
  rd_startedAt :: uint64
  rd_updatedAt :: uint64
  rd_answeredInRound :: uint32

record round_details =
  rs_submissions :: "int list"
  rs_maxSubmissions :: uint32
  rs_minSubmissions :: uint32
  rs_timeout :: uint32
  rs_paymentAmount :: uint128

record oracle_status =
  os_withdrawable :: uint128
  os_startingRound :: uint32
  os_endingRound :: uint32
  os_lastReportedRound :: uint32
  os_lastStartedRound :: uint32
  os_latestSubmission :: int
  os_index :: uint16
  os_admin :: address
  os_pendingAdmin :: address

record requester =
  rq_authorized :: bool
  rq_delay :: uint32
  rq_lastStartedRound :: uint32

record funds =
  available :: uint128
  allocated :: uint128

datatype flux_event =
    AvailableFundsUpdated uint256
  | RoundDetailsUpdated uint128 uint32 uint32 uint32 uint32
  | OraclePermissionsUpdated address bool
  | OracleAdminUpdated address address
  | OracleAdminUpdateRequested address address address
  | SubmissionReceived int uint32 address
  | RequesterPermissionsSet address bool uint32
  | ValidatorUpdated address address
  | AnswerUpdated int uint32 uint256
  | NewRound uint32 address uint64

record flux = owned +
  linkToken :: address
  validator :: address
  paymentAmount :: uint128
  maxSubmissionCount :: uint32
  minSubmissionCount :: uint32
  restartDelay :: uint32
  timeout :: uint32
  decimals :: uint8
  description :: string
  minSubmissionValue :: int
  maxSubmissionValue :: int
  reportingRoundId :: uint32
  latestRoundId :: uint32
  oracles :: "address \<Rightarrow> oracle_status"
  rounds :: "uint32 \<Rightarrow> round"
  details :: "uint32 \<Rightarrow> round_details"
  requesters :: "address \<Rightarrow> requester"
  oracleAddresses :: "address list"
  recordedFunds :: funds
  flux_logs :: "flux_event list"

definition RESERVE_ROUNDS :: uint256 where
  "RESERVE_ROUNDS = 2"

definition MAX_ORACLE_COUNT :: uint256 where
  "MAX_ORACLE_COUNT = 77"

definition VALIDATOR_GAS_LIMIT :: uint256 where
  "VALIDATOR_GAS_LIMIT = 100000"

definition ROUND_MAX :: uint32 where
  "ROUND_MAX = 2 ^ 32 - 1"

text \<open>The zero values of the mappings, which \<open>delete\<close> puts back.\<close>

definition no_round :: round where
  "no_round = \<lparr>rd_answer = 0, rd_startedAt = 0, rd_updatedAt = 0, rd_answeredInRound = 0\<rparr>"

definition no_details :: round_details where
  "no_details =
     \<lparr>rs_submissions = [], rs_maxSubmissions = 0, rs_minSubmissions = 0, rs_timeout = 0, rs_paymentAmount = 0\<rparr>"

definition no_oracle :: oracle_status where
  "no_oracle =
     \<lparr>os_withdrawable = 0, os_startingRound = 0, os_endingRound = 0, os_lastReportedRound = 0,
      os_lastStartedRound = 0, os_latestSubmission = 0, os_index = 0, os_admin = 0, os_pendingAdmin = 0\<rparr>"

definition no_requester :: requester where
  "no_requester = \<lparr>rq_authorized = False, rq_delay = 0, rq_lastStartedRound = 0\<rparr>"

text \<open>Writing to one entry of a mapping.\<close>

definition set_oracle :: "address \<Rightarrow> (oracle_status \<Rightarrow> oracle_status) \<Rightarrow> flux \<Rightarrow> flux" where
  "set_oracle a g f = f\<lparr>oracles := (oracles f)(a := g (oracles f a))\<rparr>"

definition set_round :: "uint32 \<Rightarrow> (round \<Rightarrow> round) \<Rightarrow> flux \<Rightarrow> flux" where
  "set_round r g f = f\<lparr>rounds := (rounds f)(r := g (rounds f r))\<rparr>"

definition set_details :: "uint32 \<Rightarrow> (round_details \<Rightarrow> round_details) \<Rightarrow> flux \<Rightarrow> flux" where
  "set_details r g f = f\<lparr>details := (details f)(r := g (details f r))\<rparr>"

definition set_requester :: "address \<Rightarrow> (requester \<Rightarrow> requester) \<Rightarrow> flux \<Rightarrow> flux" where
  "set_requester a g f = f\<lparr>requesters := (requesters f)(a := g (requesters f a))\<rparr>"

definition flux_emit :: "flux_event \<Rightarrow> flux \<Rightarrow> flux" where
  "flux_emit e f = f\<lparr>flux_logs := flux_logs f @ [e]\<rparr>"

section \<open>Reading the state of rounds and oracles\<close>

definition oracleCount :: "flux \<Rightarrow> uint8" where
  "oracleCount f = word_of_nat (length (oracleAddresses f))"

definition timedOut :: "msg \<Rightarrow> uint32 \<Rightarrow> flux \<Rightarrow> bool sol" where
  "timedOut m roundId f =
     (let startedAt = rd_startedAt (rounds f roundId); roundTimeout = rs_timeout (details f roundId) in
      if startedAt > 0 \<and> roundTimeout > 0
      then bind_sol (safe_add startedAt (ucast roundTimeout)) (\<lambda>s. Returns (ucast s < block_timestamp m))
      else Returns False)"

definition supersedable :: "msg \<Rightarrow> uint32 \<Rightarrow> flux \<Rightarrow> bool sol" where
  "supersedable m roundId f =
     (if rd_updatedAt (rounds f roundId) > 0 then Returns True else timedOut m roundId f)"

definition oracleEnabled :: "address \<Rightarrow> flux \<Rightarrow> bool" where
  "oracleEnabled a f \<longleftrightarrow> os_endingRound (oracles f a) = ROUND_MAX"

definition acceptingSubmissions :: "uint32 \<Rightarrow> flux \<Rightarrow> bool" where
  "acceptingSubmissions roundId f \<longleftrightarrow> rs_maxSubmissions (details f roundId) \<noteq> 0"

definition delayed :: "address \<Rightarrow> uint32 \<Rightarrow> flux \<Rightarrow> bool" where
  "delayed a roundId f \<longleftrightarrow>
     (let lastStarted = ucast (os_lastStartedRound (oracles f a)) :: uint256 in
      ucast roundId > lastStarted + ucast (restartDelay f) \<or> lastStarted = 0)"

definition newRound :: "uint32 \<Rightarrow> flux \<Rightarrow> bool sol" where
  "newRound roundId f = bind_sol (safe_add (reportingRoundId f) 1) (\<lambda>n. Returns (roundId = n))"

definition validRoundId :: "uint256 \<Rightarrow> bool" where
  "validRoundId roundId \<longleftrightarrow> roundId \<le> ucast ROUND_MAX"

definition getStartingRound :: "address \<Rightarrow> flux \<Rightarrow> uint32 sol" where
  "getStartingRound a f =
     (let currentRound = reportingRoundId f in
      if currentRound \<noteq> 0 \<and> currentRound = os_endingRound (oracles f a)
      then Returns currentRound
      else safe_add currentRound 1)"

definition previousAndCurrentUnanswered :: "uint32 \<Rightarrow> uint32 \<Rightarrow> flux \<Rightarrow> bool sol" where
  "previousAndCurrentUnanswered roundId rrId f =
     bind_sol (safe_add roundId 1) (\<lambda>n. Returns (n = rrId \<and> rd_updatedAt (rounds f rrId) = 0))"

definition requiredReserve :: "uint256 \<Rightarrow> flux \<Rightarrow> uint256 sol" where
  "requiredReserve payment f =
     bind_sol (safe_mul payment (ucast (oracleCount f))) (\<lambda>x. safe_mul x RESERVE_ROUNDS)"

text \<open>The empty string stands for a round the oracle may report to.\<close>

definition validateOracleRound :: "msg \<Rightarrow> address \<Rightarrow> uint32 \<Rightarrow> flux \<Rightarrow> string sol" where
  "validateOracleRound m a roundId f =
     (let startingRound = os_startingRound (oracles f a); rrId = reportingRoundId f in
      if startingRound = 0 then Returns ''not enabled oracle''
      else if startingRound > roundId then Returns ''not yet enabled oracle''
      else if os_endingRound (oracles f a) < roundId then Returns ''no longer allowed oracle''
      else if os_lastReportedRound (oracles f a) \<ge> roundId then Returns ''cannot report on previous rounds''
      else
        bind_sol
          (if roundId = rrId then Returns False
           else
             bind_sol (safe_add rrId 1) (\<lambda>next.
             if roundId = next then Returns False
             else bind_sol (previousAndCurrentUnanswered roundId rrId f) (\<lambda>b. Returns (\<not> b))))
          (\<lambda>invalid.
           if invalid then Returns ''invalid round to report''
           else if roundId = 1 then Returns ''''
           else
             bind_sol (safe_sub roundId 1) (\<lambda>prev.
             bind_sol (supersedable m prev f) (\<lambda>s.
             Returns (if s then '''' else ''previous round not supersedable'')))))"

definition eligibleForSpecificRound :: "msg \<Rightarrow> address \<Rightarrow> uint32 \<Rightarrow> flux \<Rightarrow> bool sol" where
  "eligibleForSpecificRound m a roundId f =
     (if rd_startedAt (rounds f roundId) > 0
      then
        if acceptingSubmissions roundId f
        then bind_sol (validateOracleRound m a roundId f) (\<lambda>error. Returns (error = ''''))
        else Returns False
      else
        if delayed a roundId f
        then bind_sol (validateOracleRound m a roundId f) (\<lambda>error. Returns (error = ''''))
        else Returns False)"

section \<open>Starting rounds\<close>

definition updateTimedOutRoundInfo :: "msg \<Rightarrow> uint32 \<Rightarrow> flux \<Rightarrow> flux sol" where
  "updateTimedOutRoundInfo m roundId f =
     bind_sol (timedOut m roundId f) (\<lambda>b.
     if \<not> b then Returns f
     else
       bind_sol (safe_sub roundId 1) (\<lambda>prevId.
       let f = set_round roundId (\<lambda>r. r\<lparr>rd_answer := rd_answer (rounds f prevId)\<rparr>) f;
           f = set_round roundId (\<lambda>r. r\<lparr>rd_answeredInRound := rd_answeredInRound (rounds f prevId)\<rparr>) f;
           f = set_round roundId (\<lambda>r. r\<lparr>rd_updatedAt := ucast (block_timestamp m)\<rparr>) f in
       Returns (set_details roundId (\<lambda>_. no_details) f)))"

definition initializeNewRound :: "msg \<Rightarrow> uint32 \<Rightarrow> flux \<Rightarrow> flux sol" where
  "initializeNewRound m roundId f =
     bind_sol (safe_sub roundId 1) (\<lambda>prev.
     bind_sol (updateTimedOutRoundInfo m prev f) (\<lambda>f.
     let f = f\<lparr>reportingRoundId := roundId\<rparr>;
         nextDetails =
           \<lparr>rs_submissions = [], rs_maxSubmissions = maxSubmissionCount f, rs_minSubmissions = minSubmissionCount f,
            rs_timeout = timeout f, rs_paymentAmount = paymentAmount f\<rparr>;
         f = set_details roundId (\<lambda>_. nextDetails) f;
         f = set_round roundId (\<lambda>r. r\<lparr>rd_startedAt := ucast (block_timestamp m)\<rparr>) f in
     Returns (flux_emit (NewRound roundId (msg_sender m) (rd_startedAt (rounds f roundId))) f)))"

definition oracleInitializeNewRound :: "msg \<Rightarrow> uint32 \<Rightarrow> flux \<Rightarrow> flux sol" where
  "oracleInitializeNewRound m roundId f =
     bind_sol (newRound roundId f) (\<lambda>new.
     if \<not> new then Returns f
     else
       let lastStarted = ucast (os_lastStartedRound (oracles f (msg_sender m))) :: uint256 in
       if ucast roundId \<le> lastStarted + ucast (restartDelay f) \<and> lastStarted \<noteq> 0 then Returns f
       else
         bind_sol (initializeNewRound m roundId f) (\<lambda>f.
         Returns (set_oracle (msg_sender m) (\<lambda>os. os\<lparr>os_lastStartedRound := roundId\<rparr>) f)))"

definition requesterInitializeNewRound :: "msg \<Rightarrow> uint32 \<Rightarrow> flux \<Rightarrow> flux sol" where
  "requesterInitializeNewRound m roundId f =
     bind_sol (newRound roundId f) (\<lambda>new.
     if \<not> new then Returns f
     else
       let lastStarted = ucast (rq_lastStartedRound (requesters f (msg_sender m))) :: uint256 in
       require (ucast roundId > lastStarted + ucast (rq_delay (requesters f (msg_sender m))) \<or> lastStarted = 0)
         ''must delay requests''
       (bind_sol (initializeNewRound m roundId f) (\<lambda>f.
        Returns (set_requester (msg_sender m) (\<lambda>rq. rq\<lparr>rq_lastStartedRound := roundId\<rparr>) f))))"

section \<open>Submitting\<close>

definition recordSubmission :: "msg \<Rightarrow> int \<Rightarrow> uint32 \<Rightarrow> flux \<Rightarrow> flux sol" where
  "recordSubmission m submission roundId f =
     require (acceptingSubmissions roundId f) ''round not accepting submissions''
     (let f = set_details roundId (\<lambda>d. d\<lparr>rs_submissions := rs_submissions d @ [submission]\<rparr>) f;
          f = set_oracle (msg_sender m) (\<lambda>os. os\<lparr>os_lastReportedRound := roundId\<rparr>) f;
          f = set_oracle (msg_sender m) (\<lambda>os. os\<lparr>os_latestSubmission := submission\<rparr>) f in
      Returns (flux_emit (SubmissionReceived submission roundId (msg_sender m)) f))"

definition updateRoundAnswer :: "msg \<Rightarrow> uint32 \<Rightarrow> flux \<Rightarrow> ((bool \<times> int) \<times> flux) sol" where
  "updateRoundAnswer m roundId f =
     (if length (rs_submissions (details f roundId)) < unat (rs_minSubmissions (details f roundId))
      then Returns ((False, 0), f)
      else
        bind_sol (calculateInplace (rs_submissions (details f roundId))) (\<lambda>(newAnswer, ignore).
        let f = set_round roundId (\<lambda>r. r\<lparr>rd_answer := newAnswer\<rparr>) f;
            f = set_round roundId (\<lambda>r. r\<lparr>rd_updatedAt := ucast (block_timestamp m)\<rparr>) f;
            f = set_round roundId (\<lambda>r. r\<lparr>rd_answeredInRound := roundId\<rparr>) f;
            f = f\<lparr>latestRoundId := roundId\<rparr> in
        Returns ((True, newAnswer), flux_emit (AnswerUpdated newAnswer roundId (block_timestamp m)) f)))"

definition validateAnswer :: "'w contracts \<Rightarrow> msg \<Rightarrow> uint32 \<Rightarrow> int \<Rightarrow> flux \<times> 'w \<Rightarrow> (flux \<times> 'w) sol" where
  "validateAnswer C m roundId newAnswer fw =
     (case fw of (f, w) \<Rightarrow>
        let av = validator f in
        if av = 0 then Returns (f, w)
        else
          bind_sol (safe_sub roundId 1) (\<lambda>prevRound.
          let prevAnswerRoundId = rd_answeredInRound (rounds f prevRound);
              prevRoundAnswer = rd_answer (rounds f prevRound) in
          (case c_validate C av (address_this m) VALIDATOR_GAS_LIMIT (ucast prevAnswerRoundId) prevRoundAnswer (ucast roundId) newAnswer w of
             NoCode \<Rightarrow> Reverts (Require '''')
           | Threw \<Rightarrow> Returns (f, w)
           | ShortReply \<Rightarrow> Reverts (Require '''')
           | Replied ok w' \<Rightarrow> Returns (f, w'))))"

definition payOracle :: "msg \<Rightarrow> uint32 \<Rightarrow> flux \<Rightarrow> flux sol" where
  "payOracle m roundId f =
     (let payment = rs_paymentAmount (details f roundId) in
      bind_sol (safe_sub (available (recordedFunds f)) payment) (\<lambda>av.
      bind_sol (safe_add (allocated (recordedFunds f)) payment) (\<lambda>al.
      let f = f\<lparr>recordedFunds := \<lparr>available = av, allocated = al\<rparr>\<rparr> in
      bind_sol (safe_add (os_withdrawable (oracles f (msg_sender m))) payment) (\<lambda>wd.
      let f = set_oracle (msg_sender m) (\<lambda>os. os\<lparr>os_withdrawable := wd\<rparr>) f in
      Returns (flux_emit (AvailableFundsUpdated (ucast av)) f)))))"

definition deleteRoundDetails :: "uint32 \<Rightarrow> flux \<Rightarrow> flux" where
  "deleteRoundDetails roundId f =
     (if length (rs_submissions (details f roundId)) < unat (rs_maxSubmissions (details f roundId)) then f
      else set_details roundId (\<lambda>_. no_details) f)"

definition submit :: "'w contracts \<Rightarrow> msg \<Rightarrow> uint256 \<Rightarrow> int \<Rightarrow> flux \<times> 'w \<Rightarrow> (flux \<times> 'w) sol" where
  "submit C m roundId submission fw =
     (case fw of (f, w) \<Rightarrow>
        bind_sol (validateOracleRound m (msg_sender m) (ucast roundId) f) (\<lambda>error.
        require (submission \<ge> minSubmissionValue f) ''value below minSubmissionValue''
        (require (submission \<le> maxSubmissionValue f) ''value above maxSubmissionValue''
         (require (error = '''') error
          (bind_sol (oracleInitializeNewRound m (ucast roundId) f) (\<lambda>f.
           bind_sol (recordSubmission m submission (ucast roundId) f) (\<lambda>f.
           bind_sol (updateRoundAnswer m (ucast roundId) f) (\<lambda>((updated, newAnswer), f).
           bind_sol (payOracle m (ucast roundId) f) (\<lambda>f.
           let f = deleteRoundDetails (ucast roundId) f in
           if updated then validateAnswer C m (ucast roundId) newAnswer (f, w) else Returns (f, w))))))))))"

section \<open>Configuration\<close>

definition updateFutureRounds :: "msg \<Rightarrow> uint128 \<Rightarrow> uint32 \<Rightarrow> uint32 \<Rightarrow> uint32 \<Rightarrow> uint32 \<Rightarrow> flux \<Rightarrow> flux sol" where
  "updateFutureRounds m payment minSubmissions maxSubmissions delay tmo f =
     onlyOwner m f
     (let oracleNum = ucast (oracleCount f) :: uint32 in
      require (maxSubmissions \<ge> minSubmissions) ''max must equal/exceed min''
      (require (oracleNum \<ge> maxSubmissions) ''max cannot exceed total''
       (require (oracleNum = 0 \<or> oracleNum > delay) ''delay cannot exceed total''
        (bind_sol (requiredReserve (ucast payment) f) (\<lambda>reserve.
         require (ucast (available (recordedFunds f)) \<ge> reserve) ''insufficient funds for payment''
         (require (oracleCount f > 0 \<longrightarrow> minSubmissions > 0) ''min must be greater than 0''
          (let f = f\<lparr>paymentAmount := payment, minSubmissionCount := minSubmissions,
                maxSubmissionCount := maxSubmissions, restartDelay := delay, timeout := tmo\<rparr> in
           Returns (flux_emit (RoundDetailsUpdated payment minSubmissions maxSubmissions delay tmo) f))))))))"

definition addOracle :: "address \<Rightarrow> address \<Rightarrow> flux \<Rightarrow> flux sol" where
  "addOracle a adm f =
     require (\<not> oracleEnabled a f) ''oracle already enabled''
     (require (adm \<noteq> 0) ''cannot set admin to 0''
      (require (os_admin (oracles f a) = 0 \<or> os_admin (oracles f a) = adm) ''owner cannot overwrite admin''
       (bind_sol (getStartingRound a f) (\<lambda>start.
        let f = set_oracle a (\<lambda>os. os\<lparr>os_startingRound := start\<rparr>) f;
            f = set_oracle a (\<lambda>os. os\<lparr>os_endingRound := ROUND_MAX\<rparr>) f;
            f = set_oracle a (\<lambda>os. os\<lparr>os_index := word_of_nat (length (oracleAddresses f))\<rparr>) f;
            f = f\<lparr>oracleAddresses := oracleAddresses f @ [a]\<rparr>;
            f = set_oracle a (\<lambda>os. os\<lparr>os_admin := adm\<rparr>) f in
        Returns (flux_emit (OracleAdminUpdated a adm) (flux_emit (OraclePermissionsUpdated a True) f))))))"

definition removeOracle :: "address \<Rightarrow> flux \<Rightarrow> flux sol" where
  "removeOracle a f =
     require (oracleEnabled a f) ''oracle not enabled''
     (bind_sol (safe_add (reportingRoundId f) 1) (\<lambda>ending.
      let f = set_oracle a (\<lambda>os. os\<lparr>os_endingRound := ending\<rparr>) f in
      bind_sol (safe_sub (ucast (oracleCount f) :: uint256) 1) (\<lambda>last.
      bind_sol (array_get (oracleAddresses f) last) (\<lambda>tail.
      let index = os_index (oracles f a);
          f = set_oracle tail (\<lambda>os. os\<lparr>os_index := index\<rparr>) f;
          f = set_oracle a (\<lambda>os. os\<lparr>os_index := 0\<rparr>) f in
      bind_sol (array_set (oracleAddresses f) (ucast index) tail) (\<lambda>addrs.
      let f = f\<lparr>oracleAddresses := butlast addrs\<rparr> in
      Returns (flux_emit (OraclePermissionsUpdated a False) f))))))"

fun removeOracles :: "address list \<Rightarrow> flux \<Rightarrow> flux sol" where
  "removeOracles [] f = Returns f"
| "removeOracles (a # as) f = bind_sol (removeOracle a f) (removeOracles as)"

fun addOracles :: "(address \<times> address) list \<Rightarrow> flux \<Rightarrow> flux sol" where
  "addOracles [] f = Returns f"
| "addOracles ((a, adm) # as) f = bind_sol (addOracle a adm f) (addOracles as)"

definition changeOracles ::
  "msg \<Rightarrow> address list \<Rightarrow> address list \<Rightarrow> address list \<Rightarrow> uint32 \<Rightarrow> uint32 \<Rightarrow> uint32 \<Rightarrow> flux \<Rightarrow> flux sol" where
  "changeOracles m removed added addedAdmins minSubmissions maxSubmissions delay f =
     onlyOwner m f
     (bind_sol (removeOracles removed f) (\<lambda>f.
      require (length added = length addedAdmins) ''need same oracle and admin count''
      (bind_sol (safe_add (ucast (oracleCount f)) (word_of_nat (length added) :: uint256)) (\<lambda>n.
       require (n \<le> MAX_ORACLE_COUNT) ''max oracles allowed''
       (bind_sol (addOracles (zip added addedAdmins) f) (\<lambda>f.
        updateFutureRounds m (paymentAmount f) minSubmissions maxSubmissions delay (timeout f) f))))))"

definition setValidator :: "msg \<Rightarrow> address \<Rightarrow> flux \<Rightarrow> flux sol" where
  "setValidator m newValidator f =
     onlyOwner m f
     (let previous = validator f in
      if previous \<noteq> newValidator
      then Returns (flux_emit (ValidatorUpdated previous newValidator) (f\<lparr>validator := newValidator\<rparr>))
      else Returns f)"

definition setRequesterPermissions :: "msg \<Rightarrow> address \<Rightarrow> bool \<Rightarrow> uint32 \<Rightarrow> flux \<Rightarrow> flux sol" where
  "setRequesterPermissions m a authorized delay f =
     onlyOwner m f
     (if rq_authorized (requesters f a) = authorized then Returns f
      else
        let f =
          (if authorized
           then set_requester a (\<lambda>rq. rq\<lparr>rq_authorized := authorized, rq_delay := delay\<rparr>) f
           else set_requester a (\<lambda>_. no_requester) f) in
        Returns (flux_emit (RequesterPermissionsSet a authorized delay) f))"

definition FluxAggregator ::
  "msg \<Rightarrow> address \<Rightarrow> uint128 \<Rightarrow> uint32 \<Rightarrow> address \<Rightarrow> int \<Rightarrow> int \<Rightarrow> uint8 \<Rightarrow> string \<Rightarrow> flux sol" where
  "FluxAggregator m link payment tmo val minValue maxValue decs desc =
     (let f = \<lparr>owner = owner (Owned_constructor m), pendingOwner = 0, owned_logs = [],
          linkToken = link, validator = 0, paymentAmount = 0, maxSubmissionCount = 0, minSubmissionCount = 0,
          restartDelay = 0, timeout = 0, decimals = 0, description = [], minSubmissionValue = 0, maxSubmissionValue = 0,
          reportingRoundId = 0, latestRoundId = 0, oracles = \<lambda>_. no_oracle, rounds = \<lambda>_. no_round,
          details = \<lambda>_. no_details, requesters = \<lambda>_. no_requester, oracleAddresses = [],
          recordedFunds = \<lparr>available = 0, allocated = 0\<rparr>, flux_logs = []\<rparr> in
      bind_sol (updateFutureRounds m payment 0 0 0 tmo f) (\<lambda>f.
      bind_sol (setValidator m val f) (\<lambda>f.
      let f = f\<lparr>minSubmissionValue := minValue, maxSubmissionValue := maxValue, decimals := decs, description := desc\<rparr> in
      bind_sol (safe_sub (block_timestamp m) (ucast tmo)) (\<lambda>t.
      Returns (set_round 0 (\<lambda>r. r\<lparr>rd_updatedAt := ucast t\<rparr>) f)))))"

section \<open>Rounds on request\<close>

definition requestNewRound :: "msg \<Rightarrow> flux \<Rightarrow> (uint80 \<times> flux) sol" where
  "requestNewRound m f =
     require (rq_authorized (requesters f (msg_sender m))) ''not authorized requester''
     (let current = reportingRoundId f in
      bind_sol (supersedable m current f) (\<lambda>ready.
      require ready ''prev round must be supersedable''
      (bind_sol (safe_add current 1) (\<lambda>newRoundId.
       bind_sol (requesterInitializeNewRound m newRoundId f) (\<lambda>f.
       Returns (ucast newRoundId, f))))))"

section \<open>Funds\<close>

definition updateAvailableFunds :: "'w contracts \<Rightarrow> msg \<Rightarrow> flux \<times> 'w \<Rightarrow> (flux \<times> 'w) sol" where
  "updateAvailableFunds C m fw =
     (case fw of (f, w) \<Rightarrow>
        bind_sol (c_balanceOf C (linkToken f) (address_this m) w) (\<lambda>balance.
        bind_sol (safe_sub balance (ucast (allocated (recordedFunds f)))) (\<lambda>nowAvailable.
        if ucast (available (recordedFunds f)) \<noteq> nowAvailable
        then
          let f = f\<lparr>recordedFunds := (recordedFunds f)\<lparr>available := ucast nowAvailable\<rparr>\<rparr> in
          Returns (flux_emit (AvailableFundsUpdated nowAvailable) f, w)
        else Returns (f, w))))"

definition withdrawPayment ::
  "'w contracts \<Rightarrow> msg \<Rightarrow> address \<Rightarrow> address \<Rightarrow> uint256 \<Rightarrow> flux \<times> 'w \<Rightarrow> (flux \<times> 'w) sol" where
  "withdrawPayment C m a recipient amount256 fw =
     (case fw of (f, w) \<Rightarrow>
        require (os_admin (oracles f a) = msg_sender m) ''only callable by admin''
        (let amount = ucast amount256 :: uint128; avail = os_withdrawable (oracles f a) in
         require (avail \<ge> amount) ''insufficient withdrawable funds''
         (bind_sol (safe_sub avail amount) (\<lambda>wd.
          let f = set_oracle a (\<lambda>os. os\<lparr>os_withdrawable := wd\<rparr>) f in
          bind_sol (safe_sub (allocated (recordedFunds f)) amount) (\<lambda>al.
          let f = f\<lparr>recordedFunds := (recordedFunds f)\<lparr>allocated := al\<rparr>\<rparr> in
          bind_sol (c_transfer C (linkToken f) (address_this m) recipient (ucast amount) w) (\<lambda>(ok, w).
          sol_assert ok (Returns (f, w))))))))"

definition withdrawFunds ::
  "'w contracts \<Rightarrow> msg \<Rightarrow> address \<Rightarrow> uint256 \<Rightarrow> flux \<times> 'w \<Rightarrow> (flux \<times> 'w) sol" where
  "withdrawFunds C m recipient amount fw =
     (case fw of (f, w) \<Rightarrow>
        onlyOwner m f
        (bind_sol (requiredReserve (ucast (paymentAmount f)) f) (\<lambda>reserve.
         bind_sol (safe_sub (ucast (available (recordedFunds f))) reserve) (\<lambda>x.
         require (x \<ge> amount) ''insufficient reserve funds''
         (bind_sol (c_transfer C (linkToken f) (address_this m) recipient amount w) (\<lambda>(ok, w).
          require ok ''token transfer failed''
          (updateAvailableFunds C m (f, w)))))))) "

definition onTokenTransfer :: "'w contracts \<Rightarrow> msg \<Rightarrow> string \<Rightarrow> flux \<times> 'w \<Rightarrow> (flux \<times> 'w) sol" where
  "onTokenTransfer C m data fw =
     require (length data = 0) ''transfer doesn't accept calldata'' (updateAvailableFunds C m fw)"

section \<open>Oracle admins\<close>

definition transferAdmin :: "msg \<Rightarrow> address \<Rightarrow> address \<Rightarrow> flux \<Rightarrow> flux sol" where
  "transferAdmin m a newAdmin f =
     require (os_admin (oracles f a) = msg_sender m) ''only callable by admin''
     (let f = set_oracle a (\<lambda>os. os\<lparr>os_pendingAdmin := newAdmin\<rparr>) f in
      Returns (flux_emit (OracleAdminUpdateRequested a (msg_sender m) newAdmin) f))"

definition acceptAdmin :: "msg \<Rightarrow> address \<Rightarrow> flux \<Rightarrow> flux sol" where
  "acceptAdmin m a f =
     require (os_pendingAdmin (oracles f a) = msg_sender m) ''only callable by pending admin''
     (let f = set_oracle a (\<lambda>os. os\<lparr>os_pendingAdmin := 0\<rparr>) f;
          f = set_oracle a (\<lambda>os. os\<lparr>os_admin := msg_sender m\<rparr>) f in
      Returns (flux_emit (OracleAdminUpdated a (msg_sender m)) f))"

section \<open>Views\<close>

definition latestAnswer :: "flux \<Rightarrow> int" where
  "latestAnswer f = rd_answer (rounds f (latestRoundId f))"

definition latestTimestamp :: "flux \<Rightarrow> uint256" where
  "latestTimestamp f = ucast (rd_updatedAt (rounds f (latestRoundId f)))"

definition latestRound :: "flux \<Rightarrow> uint256" where
  "latestRound f = ucast (latestRoundId f)"

definition getAnswer :: "uint256 \<Rightarrow> flux \<Rightarrow> int" where
  "getAnswer roundId f = (if validRoundId roundId then rd_answer (rounds f (ucast roundId)) else 0)"

definition getTimestamp :: "uint256 \<Rightarrow> flux \<Rightarrow> uint256" where
  "getTimestamp roundId f = (if validRoundId roundId then ucast (rd_updatedAt (rounds f (ucast roundId))) else 0)"

record round_data =
  data_roundId :: uint80
  data_answer :: int
  data_startedAt :: uint256
  data_updatedAt :: uint256
  data_answeredInRound :: uint80

definition getRoundData :: "uint80 \<Rightarrow> flux \<Rightarrow> round_data sol" where
  "getRoundData roundId f =
     (let r = rounds f (ucast roundId) in
      require (rd_answeredInRound r > 0 \<and> validRoundId (ucast roundId)) ''No data present''
      (Returns \<lparr>data_roundId = roundId, data_answer = rd_answer r, data_startedAt = ucast (rd_startedAt r),
        data_updatedAt = ucast (rd_updatedAt r), data_answeredInRound = ucast (rd_answeredInRound r)\<rparr>))"

definition latestRoundData :: "flux \<Rightarrow> round_data sol" where
  "latestRoundData f = getRoundData (ucast (latestRoundId f)) f"

definition withdrawablePayment :: "address \<Rightarrow> flux \<Rightarrow> uint256" where
  "withdrawablePayment a f = ucast (os_withdrawable (oracles f a))"

definition allocatedFunds :: "flux \<Rightarrow> uint128" where
  "allocatedFunds f = allocated (recordedFunds f)"

definition availableFunds :: "flux \<Rightarrow> uint128" where
  "availableFunds f = available (recordedFunds f)"

definition getOracles :: "flux \<Rightarrow> address list" where
  "getOracles f = oracleAddresses f"

definition getAdmin :: "address \<Rightarrow> flux \<Rightarrow> address" where
  "getAdmin a f = os_admin (oracles f a)"

record oracle_round_state =
  st_eligibleToSubmit :: bool
  st_roundId :: uint32
  st_latestSubmission :: int
  st_startedAt :: uint64
  st_timeout :: uint64
  st_availableFunds :: uint128
  st_oracleCount :: uint8
  st_paymentAmount :: uint128

definition oracleRoundStateSuggestRound :: "msg \<Rightarrow> address \<Rightarrow> flux \<Rightarrow> oracle_round_state sol" where
  "oracleRoundStateSuggestRound m a f =
     (let shouldSupersede =
        os_lastReportedRound (oracles f a) = reportingRoundId f \<or> \<not> acceptingSubmissions (reportingRoundId f) f in
      bind_sol (supersedable m (reportingRoundId f) f) (\<lambda>ss.
      bind_sol
        (if ss \<and> shouldSupersede
         then
           bind_sol (safe_add (reportingRoundId f) 1) (\<lambda>roundId.
           Returns (roundId, paymentAmount f, delayed a roundId f))
         else
           let roundId = reportingRoundId f in
           Returns (roundId, rs_paymentAmount (details f roundId), acceptingSubmissions roundId f))
        (\<lambda>(roundId, payment, eligible).
         bind_sol (validateOracleRound m a roundId f) (\<lambda>error.
         Returns
           \<lparr>st_eligibleToSubmit = (if error \<noteq> '''' then False else eligible), st_roundId = roundId,
            st_latestSubmission = os_latestSubmission (oracles f a), st_startedAt = rd_startedAt (rounds f roundId),
            st_timeout = ucast (rs_timeout (details f roundId)), st_availableFunds = available (recordedFunds f),
            st_oracleCount = oracleCount f, st_paymentAmount = payment\<rparr>))))"

definition oracleRoundState :: "msg \<Rightarrow> address \<Rightarrow> uint32 \<Rightarrow> flux \<Rightarrow> oracle_round_state sol" where
  "oracleRoundState m a queriedRoundId f =
     require (msg_sender m = tx_origin m) ''off-chain reading only''
     (if queriedRoundId > 0
      then
        bind_sol (eligibleForSpecificRound m a queriedRoundId f) (\<lambda>eligible.
        Returns
          \<lparr>st_eligibleToSubmit = eligible, st_roundId = queriedRoundId,
           st_latestSubmission = os_latestSubmission (oracles f a),
           st_startedAt = rd_startedAt (rounds f queriedRoundId),
           st_timeout = ucast (rs_timeout (details f queriedRoundId)),
           st_availableFunds = available (recordedFunds f), st_oracleCount = oracleCount f,
           st_paymentAmount =
             (if rd_startedAt (rounds f queriedRoundId) > 0 then rs_paymentAmount (details f queriedRoundId)
              else paymentAmount f)\<rparr>)
      else oracleRoundStateSuggestRound m a f)"

end
