(* ===== verification/Flux_Calls.thy ===== *)
theory Flux_Calls
  imports Flux_Aggregator
begin

text \<open>
  All external functions of the aggregator as one function \<open>flux_exec\<close>, the states that calls of
  anyone can reach (\<open>flux_reach\<close>), and what each function leaves of the storage when it returns.
\<close>

section \<open>Calls\<close>

datatype flux_call =
    Submit uint256 int
  | ChangeOracles "address list" "address list" "address list" uint32 uint32 uint32
  | UpdateFutureRounds uint128 uint32 uint32 uint32 uint32
  | UpdateAvailableFunds
  | WithdrawPayment address address uint256
  | WithdrawFunds address uint256
  | TransferAdmin address address
  | AcceptAdmin address
  | RequestNewRound
  | SetRequesterPermissions address bool uint32
  | OnTokenTransfer string
  | SetValidator address
  | TransferOwnership address
  | AcceptOwnership

definition on_flux :: "(flux \<Rightarrow> flux sol) \<Rightarrow> flux \<times> 'w \<Rightarrow> (flux \<times> 'w) sol" where
  "on_flux g fw = (case fw of (f, w) \<Rightarrow> bind_sol (g f) (\<lambda>f. Returns (f, w)))"

fun flux_exec :: "'w contracts \<Rightarrow> msg \<Rightarrow> flux_call \<Rightarrow> flux \<times> 'w \<Rightarrow> (flux \<times> 'w) sol" where
  "flux_exec C m (Submit roundId s) fw = submit C m roundId s fw"
| "flux_exec C m (ChangeOracles removed added admins lo hi delay) fw =
     on_flux (changeOracles m removed added admins lo hi delay) fw"
| "flux_exec C m (UpdateFutureRounds payment lo hi delay tmo) fw = on_flux (updateFutureRounds m payment lo hi delay tmo) fw"
| "flux_exec C m UpdateAvailableFunds fw = updateAvailableFunds C m fw"
| "flux_exec C m (WithdrawPayment a recipient amount) fw = withdrawPayment C m a recipient amount fw"
| "flux_exec C m (WithdrawFunds recipient amount) fw = withdrawFunds C m recipient amount fw"
| "flux_exec C m (TransferAdmin a adm) fw = on_flux (transferAdmin m a adm) fw"
| "flux_exec C m (AcceptAdmin a) fw = on_flux (acceptAdmin m a) fw"
| "flux_exec C m RequestNewRound fw =
     on_flux (\<lambda>f. bind_sol (requestNewRound m f) (\<lambda>(roundId, f). Returns f)) fw"
| "flux_exec C m (SetRequesterPermissions a authorized delay) fw = on_flux (setRequesterPermissions m a authorized delay) fw"
| "flux_exec C m (OnTokenTransfer data) fw = onTokenTransfer C m data fw"
| "flux_exec C m (SetValidator a) fw = on_flux (setValidator m a) fw"
| "flux_exec C m (TransferOwnership a) fw = on_flux (transferOwnership m a) fw"
| "flux_exec C m AcceptOwnership fw = on_flux (acceptOwnership m) fw"

section \<open>Reachable states\<close>

text \<open>
  An argument of type \<open>int256\<close> is in its range and the length of an array is a \<open>uint256\<close>; the clock
  has not run for \<open>2 ^ 63\<close> seconds; and the 32-bit numbers of rounds are not used up.
\<close>

definition call_typed :: "flux_call \<Rightarrow> bool" where
  "call_typed c =
     (case c of
        Submit roundId s \<Rightarrow> is_int256 s
      | ChangeOracles removed added admins lo hi delay \<Rightarrow> length added < 2 ^ 256
      | _ \<Rightarrow> True)"

definition clock_ok :: "msg \<Rightarrow> bool" where
  "clock_ok m \<longleftrightarrow> 0 < unat (block_timestamp m) \<and> unat (block_timestamp m) < 2 ^ 63"

definition rounds_left :: "flux \<Rightarrow> bool" where
  "rounds_left f \<longleftrightarrow> unat (reportingRoundId f) < 2 ^ 32 - 2"

text \<open>
  From a deployment at the address \<open>agg\<close>, with the token at \<open>link\<close> and the other contracts in a state
  of \<open>init\<close>, anyone but the aggregator itself calls it, in any order; between the calls, the other
  contracts change as \<open>env\<close> allows.
\<close>

inductive flux_reach ::
  "'w contracts \<Rightarrow> address \<Rightarrow> address \<Rightarrow> ('w \<Rightarrow> bool) \<Rightarrow> ('w \<Rightarrow> 'w \<Rightarrow> bool) \<Rightarrow> flux \<times> 'w \<Rightarrow> bool"
  for C :: "'w contracts" and agg :: address and link :: address and init :: "'w \<Rightarrow> bool" and env :: "'w \<Rightarrow> 'w \<Rightarrow> bool" where
  deployed: "FluxAggregator m link payment tmo val lo hi decs desc = Returns f \<Longrightarrow> clock_ok m \<Longrightarrow>
    is_int256 lo \<Longrightarrow> is_int256 hi \<Longrightarrow> init w \<Longrightarrow> flux_reach C agg link init env (f, w)"
| called: "flux_reach C agg link init env (f, w) \<Longrightarrow> rounds_left f \<Longrightarrow> clock_ok m \<Longrightarrow> address_this m = agg \<Longrightarrow>
    msg_sender m \<noteq> agg \<Longrightarrow> call_typed c \<Longrightarrow> flux_exec C m c (f, w) = Returns (f', w') \<Longrightarrow>
    flux_reach C agg link init env (f', w')"
| elsewhere: "flux_reach C agg link init env (f, w) \<Longrightarrow> env w w' \<Longrightarrow> flux_reach C agg link init env (f, w')"

section \<open>What the functions return\<close>

lemmas set_defs = set_oracle_def set_round_def set_details_def set_requester_def flux_emit_def

lemma on_flux_Returns [sol_simps]: "on_flux g (f, w) = Returns (f', w') \<longleftrightarrow> g f = Returns f' \<and> w' = w"
  by (auto simp: on_flux_def bind_sol_Returns)

text \<open>When a round has timed out.\<close>

definition timed_out :: "msg \<Rightarrow> uint32 \<Rightarrow> flux \<Rightarrow> bool" where
  "timed_out m r f \<longleftrightarrow>
     rd_startedAt (rounds f r) > 0 \<and> rs_timeout (details f r) > 0 \<and>
     unat (rd_startedAt (rounds f r)) + unat (rs_timeout (details f r)) < unat (block_timestamp m)"

lemma timedOut_Returns [sol_simps]:
  "timedOut m r f = Returns b \<longleftrightarrow>
     b = timed_out m r f \<and>
     (rd_startedAt (rounds f r) > 0 \<and> rs_timeout (details f r) > 0 \<longrightarrow>
        unat (rd_startedAt (rounds f r)) + unat (rs_timeout (details f r)) < 2 ^ 64)"
  by (auto simp: timedOut_def timed_out_def Let_def sol_simps word_less_nat_alt unat_plus_no_wrap)

lemma supersedable_Returns [sol_simps]:
  "supersedable m r f = Returns b \<longleftrightarrow>
     b = (rd_updatedAt (rounds f r) > 0 \<or> timed_out m r f) \<and>
     (rd_updatedAt (rounds f r) = 0 \<and> rd_startedAt (rounds f r) > 0 \<and> rs_timeout (details f r) > 0 \<longrightarrow>
        unat (rd_startedAt (rounds f r)) + unat (rs_timeout (details f r)) < 2 ^ 64)"
  by (auto simp: supersedable_def timedOut_Returns word_gt_0)

text \<open>The rounds and their details once a timed out round \<open>p\<close> is given up.\<close>

definition closed_rounds :: "msg \<Rightarrow> uint32 \<Rightarrow> flux \<Rightarrow> uint32 \<Rightarrow> round" where
  "closed_rounds m p f =
     (if timed_out m p f
      then (rounds f)(p := \<lparr>rd_answer = rd_answer (rounds f (p - 1)), rd_startedAt = rd_startedAt (rounds f p),
          rd_updatedAt = ucast (block_timestamp m), rd_answeredInRound = rd_answeredInRound (rounds f (p - 1))\<rparr>)
      else rounds f)"

definition closed_details :: "msg \<Rightarrow> uint32 \<Rightarrow> flux \<Rightarrow> uint32 \<Rightarrow> round_details" where
  "closed_details m p f = (if timed_out m p f then (details f)(p := no_details) else details f)"

lemma updateTimedOutRoundInfo_Returns:
  "updateTimedOutRoundInfo m p f = Returns f' \<Longrightarrow> f' = f\<lparr>rounds := closed_rounds m p f, details := closed_details m p f\<rparr>"
  by (auto simp: updateTimedOutRoundInfo_def closed_rounds_def closed_details_def sol_simps set_defs Let_def fun_eq_iff
      split: if_splits)

definition fresh_details :: "flux \<Rightarrow> round_details" where
  "fresh_details f =
     \<lparr>rs_submissions = [], rs_maxSubmissions = maxSubmissionCount f, rs_minSubmissions = minSubmissionCount f,
      rs_timeout = timeout f, rs_paymentAmount = paymentAmount f\<rparr>"

text \<open>The storage after \<open>initializeNewRound\<close> for round \<open>r\<close>.\<close>

definition opened :: "msg \<Rightarrow> uint32 \<Rightarrow> flux \<Rightarrow> flux" where
  "opened m r f =
     f\<lparr>reportingRoundId := r,
       rounds := (closed_rounds m (r - 1) f)(r := (closed_rounds m (r - 1) f r)\<lparr>rd_startedAt := ucast (block_timestamp m)\<rparr>),
       details := (closed_details m (r - 1) f)(r := fresh_details f),
       flux_logs := flux_logs f @ [NewRound r (msg_sender m) (ucast (block_timestamp m))]\<rparr>"

lemma initializeNewRound_Returns: "initializeNewRound m r f = Returns f' \<Longrightarrow> r \<noteq> 0 \<and> f' = opened m r f"
  by (auto simp: initializeNewRound_def opened_def fresh_details_def sol_simps set_defs Let_def one_le_word
      dest!: updateTimedOutRoundInfo_Returns)

definition may_start :: "address \<Rightarrow> uint32 \<Rightarrow> flux \<Rightarrow> bool" where
  "may_start a r f \<longleftrightarrow>
     os_lastStartedRound (oracles f a) = 0 \<or>
     unat (os_lastStartedRound (oracles f a)) + unat (restartDelay f) < unat r"

lemma sum_of_uint32: "unat (ucast (a :: uint32) + ucast (b :: uint32) :: uint256) = unat a + unat b"
proof -
  have "unat a < 2 ^ 32" "unat b < 2 ^ 32" using unsigned_less [of a] unsigned_less [of b] by simp_all
  then show ?thesis by (subst unat_plus_no_wrap) simp_all
qed

lemma ucast_eq_0 [simp]: "(ucast (a :: uint32) :: uint256) = 0 \<longleftrightarrow> a = 0"
  using unat_ucast_ups(7) [of a] by (metis unat_eq_zero unat_0)

lemma delayed_may_start: "delayed a r f \<longleftrightarrow> may_start a r f"
  by (auto simp: delayed_def may_start_def Let_def word_less_nat_alt sum_of_uint32)

text \<open>The storage after \<open>oracleInitializeNewRound\<close>.\<close>

definition oracle_opened :: "msg \<Rightarrow> uint32 \<Rightarrow> flux \<Rightarrow> flux" where
  "oracle_opened m r f =
     (if r = reportingRoundId f + 1 \<and> may_start (msg_sender m) r f
      then set_oracle (msg_sender m) (\<lambda>os. os\<lparr>os_lastStartedRound := r\<rparr>) (opened m r f)
      else f)"

lemma oracleInitializeNewRound_Returns:
  "oracleInitializeNewRound m r f = Returns f' \<Longrightarrow>
     f' = oracle_opened m r f \<and> unat (reportingRoundId f) + 1 < 2 ^ 32"
  by (auto simp: oracleInitializeNewRound_def newRound_def oracle_opened_def may_start_def sol_simps Let_def
      word_le_nat_alt sum_of_uint32 split: if_splits dest!: initializeNewRound_Returns)

text \<open>Does a round that has got the submissions \<open>subs\<close> have an answer, and is it full?\<close>

abbreviation enough :: "int list \<Rightarrow> round_details \<Rightarrow> bool" where
  "enough subs d \<equiv> unat (rs_minSubmissions d) \<le> length subs"

abbreviation full :: "int list \<Rightarrow> round_details \<Rightarrow> bool" where
  "full subs d \<equiv> unat (rs_maxSubmissions d) \<le> length subs"

text \<open>The storage after the steps of \<open>submit\<close>.\<close>

definition recorded :: "msg \<Rightarrow> int \<Rightarrow> uint32 \<Rightarrow> flux \<Rightarrow> flux" where
  "recorded m s r f =
     f\<lparr>details := (details f)(r := (details f r)\<lparr>rs_submissions := rs_submissions (details f r) @ [s]\<rparr>),
       oracles := (oracles f)(msg_sender m := (oracles f (msg_sender m))
         \<lparr>os_lastReportedRound := r, os_latestSubmission := s\<rparr>),
       flux_logs := flux_logs f @ [SubmissionReceived s r (msg_sender m)]\<rparr>"

definition answered :: "msg \<Rightarrow> int \<Rightarrow> uint32 \<Rightarrow> flux \<Rightarrow> flux" where
  "answered m x r f =
     f\<lparr>rounds := (rounds f)(r := (rounds f r)
         \<lparr>rd_answer := x, rd_updatedAt := ucast (block_timestamp m), rd_answeredInRound := r\<rparr>),
       latestRoundId := r,
       flux_logs := flux_logs f @ [AnswerUpdated x r (block_timestamp m)]\<rparr>"

definition paid :: "msg \<Rightarrow> uint128 \<Rightarrow> flux \<Rightarrow> flux" where
  "paid m v f =
     f\<lparr>recordedFunds := \<lparr>available = available (recordedFunds f) - v, allocated = allocated (recordedFunds f) + v\<rparr>,
       oracles := (oracles f)(msg_sender m := (oracles f (msg_sender m))
         \<lparr>os_withdrawable := os_withdrawable (oracles f (msg_sender m)) + v\<rparr>),
       flux_logs := flux_logs f @ [AvailableFundsUpdated (ucast (available (recordedFunds f) - v))]\<rparr>"

definition payable :: "msg \<Rightarrow> uint128 \<Rightarrow> flux \<Rightarrow> bool" where
  "payable m v f \<longleftrightarrow>
     v \<le> available (recordedFunds f) \<and> unat (allocated (recordedFunds f)) + unat v < 2 ^ 128 \<and>
     unat (os_withdrawable (oracles f (msg_sender m))) + unat v < 2 ^ 128"

lemma recordSubmission_Returns:
  "recordSubmission m s r f = Returns f' \<longleftrightarrow> acceptingSubmissions r f \<and> f' = recorded m s r f"
  by (auto simp: recordSubmission_def recorded_def sol_simps set_defs Let_def)

lemma updateRoundAnswer_Returns:
  "updateRoundAnswer m r f = Returns ((upd, x), f') \<longleftrightarrow>
     upd = enough (rs_submissions (details f r)) (details f r) \<and>
     (if upd then (\<exists>ys. calculateInplace (rs_submissions (details f r)) = Returns (x, ys)) \<and> f' = answered m x r f
      else x = 0 \<and> f' = f)"
  by (auto simp: updateRoundAnswer_def answered_def sol_simps set_defs Let_def)

lemma payOracle_Returns:
  "payOracle m r f = Returns f' \<longleftrightarrow>
     payable m (rs_paymentAmount (details f r)) f \<and> f' = paid m (rs_paymentAmount (details f r)) f"
  by (auto simp: payOracle_def paid_def payable_def sol_simps set_defs Let_def)

lemma validateAnswer_Returns: "validateAnswer C m r x (f, w) = Returns (f', w') \<Longrightarrow> f' = f"
  by (auto simp: validateAnswer_def sol_simps Let_def split: if_splits validator_reply.splits)

definition submitted :: "msg \<Rightarrow> uint32 \<Rightarrow> int \<Rightarrow> int \<Rightarrow> flux \<Rightarrow> flux" where
  "submitted m r s x f =
     (let f = recorded m s r (oracle_opened m r f);
          f = (if enough (rs_submissions (details f r)) (details f r) then answered m x r f else f) in
      deleteRoundDetails r (paid m (rs_paymentAmount (details f r)) f))"

text \<open>The submissions to the round, with the new one.\<close>

definition submissions_to :: "msg \<Rightarrow> uint32 \<Rightarrow> int \<Rightarrow> flux \<Rightarrow> int list" where
  "submissions_to m r s f = rs_submissions (details (oracle_opened m r f) r) @ [s]"

abbreviation details_of :: "msg \<Rightarrow> uint32 \<Rightarrow> flux \<Rightarrow> round_details" where
  "details_of m r f \<equiv> details (oracle_opened m r f) r"

lemma submit_Returns:
  assumes "submit C m roundId s (f, w) = Returns (f', w')" "r = ucast roundId"
  obtains x where "validateOracleRound m (msg_sender m) r f = Returns []"
    "minSubmissionValue f \<le> s" "s \<le> maxSubmissionValue f"
    "unat (reportingRoundId f) + 1 < 2 ^ 32" "acceptingSubmissions r (oracle_opened m r f)"
    "enough (submissions_to m r s f) (details_of m r f) \<Longrightarrow> \<exists>ys. calculateInplace (submissions_to m r s f) = Returns (x, ys)"
    "payable m (rs_paymentAmount (details_of m r f)) (oracle_opened m r f)" "f' = submitted m r s x f"
proof -
  let ?f1 = "oracle_opened m r f"
  obtain f2 f3 f4 upd x where steps: "validateOracleRound m (msg_sender m) r f = Returns []"
    "minSubmissionValue f \<le> s" "s \<le> maxSubmissionValue f"
    "oracleInitializeNewRound m r f = Returns ?f1" "unat (reportingRoundId f) + 1 < 2 ^ 32"
    "recordSubmission m s r ?f1 = Returns f2" "updateRoundAnswer m r f2 = Returns ((upd, x), f3)"
    "payOracle m r f3 = Returns f4" "f' = deleteRoundDetails r f4"
    using assms(1) unfolding submit_def assms(2) [symmetric]
    by (auto simp: sol_simps Let_def split: if_splits dest!: validateAnswer_Returns
        dest: oracleInitializeNewRound_Returns)
  have f2: "acceptingSubmissions r ?f1" "f2 = recorded m s r ?f1"
    using steps(6) by (simp_all add: recordSubmission_Returns)
  have subs: "rs_submissions (details f2 r) = submissions_to m r s f" "rs_minSubmissions (details f2 r) = rs_minSubmissions (details ?f1 r)"
    by (simp_all add: f2 recorded_def submissions_to_def)
  have f3: "upd = enough (submissions_to m r s f) (details ?f1 r)"
    "if upd then (\<exists>ys. calculateInplace (submissions_to m r s f) = Returns (x, ys)) \<and> f3 = answered m x r f2 else x = 0 \<and> f3 = f2"
    using steps(7) unfolding updateRoundAnswer_Returns subs by blast+
  have f4: "payable m (rs_paymentAmount (details f3 r)) f3" "f4 = paid m (rs_paymentAmount (details f3 r)) f3"
    using steps(8) by (simp_all add: payOracle_Returns)
  have "payable m (rs_paymentAmount (details ?f1 r)) ?f1"
    using f4(1) f3(2) by (auto simp: f2 payable_def recorded_def answered_def split: if_splits)
  moreover have "f' = submitted m r s x f"
    unfolding submitted_def Let_def f2(2) [symmetric] subs steps(9) f4(2)
    using f3 by (auto split: if_splits)
  ultimately show thesis using that [of x] steps f2(1) f3 by auto
qed

lemma oracle_opened_fields:
  "recordedFunds (oracle_opened m r f) = recordedFunds f" "latestRoundId (oracle_opened m r f) = latestRoundId f"
  "oracleAddresses (oracle_opened m r f) = oracleAddresses f" "requesters (oracle_opened m r f) = requesters f"
  "owner (oracle_opened m r f) = owner f" "pendingOwner (oracle_opened m r f) = pendingOwner f"
  "linkToken (oracle_opened m r f) = linkToken f" "validator (oracle_opened m r f) = validator f"
  "paymentAmount (oracle_opened m r f) = paymentAmount f" "maxSubmissionCount (oracle_opened m r f) = maxSubmissionCount f"
  "minSubmissionCount (oracle_opened m r f) = minSubmissionCount f" "restartDelay (oracle_opened m r f) = restartDelay f"
  "timeout (oracle_opened m r f) = timeout f" "minSubmissionValue (oracle_opened m r f) = minSubmissionValue f"
  "maxSubmissionValue (oracle_opened m r f) = maxSubmissionValue f"
  by (simp_all add: oracle_opened_def opened_def set_oracle_def)

lemma oracle_opened_status:
  "os_withdrawable (oracles (oracle_opened m r f) a) = os_withdrawable (oracles f a)"
  "os_startingRound (oracles (oracle_opened m r f) a) = os_startingRound (oracles f a)"
  "os_endingRound (oracles (oracle_opened m r f) a) = os_endingRound (oracles f a)"
  "os_lastReportedRound (oracles (oracle_opened m r f) a) = os_lastReportedRound (oracles f a)"
  "os_latestSubmission (oracles (oracle_opened m r f) a) = os_latestSubmission (oracles f a)"
  "os_index (oracles (oracle_opened m r f) a) = os_index (oracles f a)"
  "os_admin (oracles (oracle_opened m r f) a) = os_admin (oracles f a)"
  "os_pendingAdmin (oracles (oracle_opened m r f) a) = os_pendingAdmin (oracles f a)"
  by (simp_all add: oracle_opened_def opened_def set_oracle_def)

lemma submitted_fields:
  fixes m r s x f
  defines "f1 \<equiv> oracle_opened m r f" and "d \<equiv> details (oracle_opened m r f) r" and "subs \<equiv> submissions_to m r s f"
    and "me \<equiv> msg_sender m"
  shows "rounds (submitted m r s x f) =
      (if enough subs d
       then (rounds f1)(r := (rounds f1 r)\<lparr>rd_answer := x, rd_updatedAt := ucast (block_timestamp m), rd_answeredInRound := r\<rparr>)
       else rounds f1)"
    "latestRoundId (submitted m r s x f) = (if enough subs d then r else latestRoundId f)"
    "details (submitted m r s x f) =
      (details f1)(r := if full subs d then no_details else d\<lparr>rs_submissions := subs\<rparr>)"
    "oracles (submitted m r s x f) = (oracles f1)(me := (oracles f1 me)
      \<lparr>os_lastReportedRound := r, os_latestSubmission := s,
       os_withdrawable := os_withdrawable (oracles f1 me) + rs_paymentAmount d\<rparr>)"
    "recordedFunds (submitted m r s x f) = \<lparr>available = available (recordedFunds f) - rs_paymentAmount d,
      allocated = allocated (recordedFunds f) + rs_paymentAmount d\<rparr>"
    "reportingRoundId (submitted m r s x f) = reportingRoundId f1"
    "oracleAddresses (submitted m r s x f) = oracleAddresses f"
    "requesters (submitted m r s x f) = requesters f"
    "owner (submitted m r s x f) = owner f" "pendingOwner (submitted m r s x f) = pendingOwner f"
    "linkToken (submitted m r s x f) = linkToken f" "validator (submitted m r s x f) = validator f"
    "paymentAmount (submitted m r s x f) = paymentAmount f" "maxSubmissionCount (submitted m r s x f) = maxSubmissionCount f"
    "minSubmissionCount (submitted m r s x f) = minSubmissionCount f" "restartDelay (submitted m r s x f) = restartDelay f"
    "timeout (submitted m r s x f) = timeout f"
    "minSubmissionValue (submitted m r s x f) = minSubmissionValue f"
    "maxSubmissionValue (submitted m r s x f) = maxSubmissionValue f"
  unfolding assms submitted_def submissions_to_def Let_def recorded_def answered_def paid_def deleteRoundDetails_def
    set_details_def
  by (simp_all add: oracle_opened_fields not_less)

text \<open>The other calls that touch rounds, oracles or the configuration.\<close>

lemma requestNewRound_Returns:
  assumes "requestNewRound m f = Returns (n, f')"
  shows "rq_authorized (requesters f (msg_sender m)) \<and>
    (rd_updatedAt (rounds f (reportingRoundId f)) > 0 \<or> timed_out m (reportingRoundId f) f) \<and>
    unat (reportingRoundId f) + 1 < 2 ^ 32 \<and> n = ucast (reportingRoundId f + 1) \<and>
    f' = set_requester (msg_sender m) (\<lambda>rq. rq\<lparr>rq_lastStartedRound := reportingRoundId f + 1\<rparr>)
      (opened m (reportingRoundId f + 1) f)"
  using assms
  by (auto simp: requestNewRound_def requesterInitializeNewRound_def newRound_def sol_simps Let_def
      dest!: initializeNewRound_Returns split: if_splits)

definition config_ok :: "uint32 \<Rightarrow> uint32 \<Rightarrow> uint32 \<Rightarrow> nat \<Rightarrow> bool" where
  "config_ok lo hi delay n \<longleftrightarrow>
     unat lo \<le> unat hi \<and> unat hi \<le> n \<and> (n = 0 \<or> unat delay < n) \<and> (0 < n \<longrightarrow> 0 < unat lo)"

lemma updateFutureRounds_Returns:
  assumes "updateFutureRounds m payment lo hi delay tmo f = Returns f'"
  shows "msg_sender m = owner f \<and> config_ok lo hi delay (unat (oracleCount f)) \<and>
    2 * (unat payment * unat (oracleCount f)) \<le> unat (available (recordedFunds f)) \<and>
    f' = f\<lparr>paymentAmount := payment, minSubmissionCount := lo, maxSubmissionCount := hi, restartDelay := delay,
      timeout := tmo, flux_logs := flux_logs f @ [RoundDetailsUpdated payment lo hi delay tmo]\<rparr>"
proof -
  have reserve: "unat x = 2 * (unat payment * unat (oracleCount f))"
    if "requiredReserve (ucast payment) f = Returns x" for x
    using that by (auto simp: requiredReserve_def bind_sol_Returns RESERVE_ROUNDS_def dest!: exact_product)
  show ?thesis
    using assms reserve
    by (auto simp: updateFutureRounds_def config_ok_def sol_simps set_defs Let_def word_le_nat_alt word_less_nat_alt
        unat_eq_0 [symmetric] simp del: unat_eq_0)
qed

lemma addOracle_Returns:
  assumes "addOracle a adm f = Returns f'"
  shows "\<not> oracleEnabled a f \<and> adm \<noteq> 0 \<and> (os_admin (oracles f a) = 0 \<or> os_admin (oracles f a) = adm) \<and>
    (\<exists>start. getStartingRound a f = Returns start \<and>
      f' = f\<lparr>oracles := (oracles f)(a := (oracles f a)\<lparr>os_startingRound := start, os_endingRound := ROUND_MAX,
          os_index := word_of_nat (length (oracleAddresses f)), os_admin := adm\<rparr>),
        oracleAddresses := oracleAddresses f @ [a],
        flux_logs := flux_logs f @ [OraclePermissionsUpdated a True, OracleAdminUpdated a adm]\<rparr>)"
  using assms by (auto simp: addOracle_def sol_simps set_defs Let_def)

lemma removeOracle_Returns:
  assumes "removeOracle a f = Returns f'"
  defines "addrs \<equiv> oracleAddresses f" and "i \<equiv> unat (os_index (oracles f a))"
    and "z \<equiv> oracleAddresses f ! (unat (oracleCount f) - 1)"
  shows "oracleEnabled a f \<and> unat (reportingRoundId f) + 1 < 2 ^ 32 \<and>
    0 < unat (oracleCount f) \<and> unat (oracleCount f) - 1 < length addrs \<and> i < length addrs \<and>
    f' = f\<lparr>oracles := (oracles f)(z := (oracles f z)\<lparr>os_index := os_index (oracles f a)\<rparr>,
        a := (oracles f a)\<lparr>os_endingRound := reportingRoundId f + 1, os_index := 0\<rparr>),
      oracleAddresses := butlast (addrs[i := z]),
      flux_logs := flux_logs f @ [OraclePermissionsUpdated a False]\<rparr>"
proof -
  obtain last where last: "safe_sub (ucast (oracleCount f) :: uint256) 1 = Returns last"
    using assms(1) by (auto simp: removeOracle_def sol_simps set_defs Let_def oracleCount_def)
  then have n: "unat last = unat (oracleCount f) - 1" "0 < unat (oracleCount f)"
    by (auto dest!: exact_difference)
  show ?thesis
    using assms(1) last n unfolding assms(2-4)
    by (auto simp: removeOracle_def bind_sol_Returns require_Returns safe_add_Returns array_get_Returns array_set_Returns
        set_defs Let_def oracleCount_def fun_upd_twist)
qed

section \<open>Calls that leave rounds, oracles and configuration alone\<close>

text \<open>The storage without owner, validator, requesters, admins and money.\<close>

definition core :: "flux \<Rightarrow> flux" where
  "core f =
     f\<lparr>owner := 0, pendingOwner := 0, owned_logs := [], validator := 0, requesters := \<lambda>_. no_requester,
       recordedFunds := \<lparr>available = 0, allocated = 0\<rparr>, flux_logs := [],
       oracles := \<lambda>a. (oracles f a)\<lparr>os_withdrawable := 0, os_admin := 0, os_pendingAdmin := 0\<rparr>\<rparr>"

fun light :: "flux_call \<Rightarrow> bool" where
  "light (Submit _ _) = False"
| "light (ChangeOracles _ _ _ _ _ _) = False"
| "light (UpdateFutureRounds _ _ _ _ _) = False"
| "light RequestNewRound = False"
| "light _ = True"

lemma core_simps [simp]:
  "core (f\<lparr>flux_logs := x\<rparr>) = core f" "core (f\<lparr>recordedFunds := y\<rparr>) = core f" "core (f\<lparr>requesters := z\<rparr>) = core f"
  "core (f\<lparr>validator := v\<rparr>) = core f" "core (f\<lparr>owner := v\<rparr>) = core f" "core (f\<lparr>pendingOwner := v\<rparr>) = core f"
  "core (f\<lparr>owned_logs := l\<rparr>) = core f"
  "core (set_oracle a (\<lambda>os. os\<lparr>os_withdrawable := wd\<rparr>) f) = core f"
  "core (set_oracle a (\<lambda>os. os\<lparr>os_admin := v\<rparr>) f) = core f"
  "core (set_oracle a (\<lambda>os. os\<lparr>os_pendingAdmin := v\<rparr>) f) = core f"
  by (auto simp: core_def set_oracle_def fun_eq_iff)

lemma ucast_128_256 [simp]: "ucast (ucast (x :: uint128) :: uint256) = x"
  by transfer simp

lemma updateAvailableFunds_Returns:
  assumes "updateAvailableFunds C m (f, w) = Returns (f', w')"
  obtains balance l where "c_balanceOf C (linkToken f) (address_this m) w = Returns balance"
    "ucast (allocated (recordedFunds f)) \<le> balance" "w' = w"
    "f' = f\<lparr>recordedFunds := \<lparr>available = ucast (balance - ucast (allocated (recordedFunds f))),
      allocated = allocated (recordedFunds f)\<rparr>, flux_logs := l\<rparr>"
proof -
  obtain balance where b: "c_balanceOf C (linkToken f) (address_this m) w = Returns balance"
    "ucast (allocated (recordedFunds f)) \<le> balance"
    and r: "(if ucast (available (recordedFunds f)) \<noteq> balance - ucast (allocated (recordedFunds f))
       then Returns (flux_emit (AvailableFundsUpdated (balance - ucast (allocated (recordedFunds f))))
         (f\<lparr>recordedFunds := (recordedFunds f)\<lparr>available := ucast (balance - ucast (allocated (recordedFunds f)))\<rparr>\<rparr>), w)
       else Returns (f, w)) = Returns (f', w')"
    using assms unfolding updateAvailableFunds_def prod.case bind_sol_Returns safe_sub_Returns Let_def by blast
  show thesis
  proof (cases "ucast (available (recordedFunds f)) = balance - ucast (allocated (recordedFunds f))")
    case True
    then have "available (recordedFunds f) = ucast (balance - ucast (allocated (recordedFunds f)))"
      by (metis ucast_128_256)
    then have "f = f\<lparr>recordedFunds := \<lparr>available = ucast (balance - ucast (allocated (recordedFunds f))),
      allocated = allocated (recordedFunds f)\<rparr>, flux_logs := flux_logs f\<rparr>"
      by (cases f; cases "recordedFunds f") simp
    moreover from True r have "f' = f" "w' = w" by simp_all
    ultimately show ?thesis using that [OF b] by metis
  next
    case False
    with r have "w' = w" "f' = flux_emit (AvailableFundsUpdated (balance - ucast (allocated (recordedFunds f))))
         (f\<lparr>recordedFunds := (recordedFunds f)\<lparr>available := ucast (balance - ucast (allocated (recordedFunds f)))\<rparr>\<rparr>)"
      by simp_all
    moreover have "(recordedFunds f)\<lparr>available := x\<rparr> = \<lparr>available = x, allocated = allocated (recordedFunds f)\<rparr>" for x
      by (cases "recordedFunds f") simp
    ultimately show ?thesis using that [OF b] by (simp only: flux_emit_def)
  qed
qed

lemma updateAvailableFunds_core: "updateAvailableFunds C m (f, w) = Returns (f', w') \<Longrightarrow> core f' = core f \<and> w' = w"
  by (erule updateAvailableFunds_Returns) simp

lemma light_core:
  assumes "flux_exec C m c (f, w) = Returns (f', w')" "light c"
  shows "core f' = core f"
proof (cases c)
  case UpdateAvailableFunds
  then show ?thesis using assms by (simp add: updateAvailableFunds_core)
next
  case (WithdrawPayment a recipient amount)
  then show ?thesis using assms by (auto simp: withdrawPayment_def sol_simps Let_def)
next
  case (WithdrawFunds recipient amount)
  then show ?thesis using assms by (auto simp: withdrawFunds_def sol_simps Let_def dest!: updateAvailableFunds_core)
next
  case (OnTokenTransfer d)
  then show ?thesis using assms by (auto simp: onTokenTransfer_def sol_simps dest!: updateAvailableFunds_core)
next
  case (TransferAdmin a adm)
  then show ?thesis using assms by (auto simp: transferAdmin_def sol_simps Let_def flux_emit_def)
next
  case (AcceptAdmin a)
  then show ?thesis using assms by (auto simp: acceptAdmin_def sol_simps Let_def flux_emit_def)
next
  case (SetRequesterPermissions a b d)
  then show ?thesis
    using assms by (auto simp: setRequesterPermissions_def sol_simps Let_def flux_emit_def set_requester_def split: if_splits)
next
  case (SetValidator a)
  then show ?thesis using assms by (auto simp: setValidator_def sol_simps Let_def flux_emit_def split: if_splits)
next
  case (TransferOwnership a)
  then show ?thesis using assms by (auto simp: transferOwnership_def sol_simps Let_def)
next
  case AcceptOwnership
  then show ?thesis using assms by (auto simp: acceptOwnership_def sol_simps Let_def)
qed (use assms in auto)

text \<open>An invariant that depends on the core only is kept by all light calls.\<close>

lemma light_invariant:
  assumes "\<And>f. I (core f) = I f" "flux_exec C m c (f, w) = Returns (f', w')" "light c" "I f"
  shows "I f'"
  using assms light_core [OF assms(2,3)] by metis

lemma heavy_cases:
  assumes "flux_exec C m c (f, w) = Returns (f', w')" "\<not> light c"
  obtains (submit) roundId s where "c = Submit roundId s" "submit C m roundId s (f, w) = Returns (f', w')"
  | (change) removed added admins lo hi delay where "c = ChangeOracles removed added admins lo hi delay"
      "changeOracles m removed added admins lo hi delay f = Returns f'"
  | (update) payment lo hi delay tmo where "c = UpdateFutureRounds payment lo hi delay tmo"
      "updateFutureRounds m payment lo hi delay tmo f = Returns f'"
  | (request) n where "c = RequestNewRound" "requestNewRound m f = Returns (n, f')"
  using assms by (cases c) (auto simp: on_flux_Returns bind_sol_Returns)

text \<open>An invariant of the core holds in every reachable state if the constructor and the other calls keep it.\<close>

lemma reach_invariant:
  assumes "flux_reach C agg link init env (f, w)" "\<And>f. I (core f) = I f"
    and "\<And>m payment tmo val lo hi decs desc f. FluxAggregator m link payment tmo val lo hi decs desc = Returns f \<Longrightarrow>
      clock_ok m \<Longrightarrow> is_int256 lo \<Longrightarrow> is_int256 hi \<Longrightarrow> I f"
    and "\<And>f w m c f' w'. flux_reach C agg link init env (f, w) \<Longrightarrow> I f \<Longrightarrow> rounds_left f \<Longrightarrow> clock_ok m \<Longrightarrow> call_typed c \<Longrightarrow> \<not> light c \<Longrightarrow>
      flux_exec C m c (f, w) = Returns (f', w') \<Longrightarrow> I f'"
  shows "I f"
  using assms(1)
proof (induction "(f, w)" arbitrary: f w rule: flux_reach.induct)
  case (deployed m payment tmo val lo hi decs desc f w)
  then show ?case by (intro assms(3))
next
  case (called f w m c f' w')
  then show ?case
    using assms(4) [OF called(1) called(2) called(3,4) called(7) _ called(8)]
      light_invariant [of I C m c f w f' w', OF assms(2) called(8) _ called(2)] by (cases "light c") auto
next
  case (elsewhere f w w')
  then show ?case by blast
qed

lemma FluxAggregator_Returns:
  assumes "FluxAggregator m link payment tmo val lo hi decs desc = Returns f"
  shows "ucast tmo \<le> block_timestamp m \<and> (\<exists>l.
    f = \<lparr>owner = msg_sender m, pendingOwner = 0, owned_logs = [], linkToken = link, validator = val,
      paymentAmount = payment, maxSubmissionCount = 0, minSubmissionCount = 0, restartDelay = 0, timeout = tmo,
      decimals = decs, description = desc, minSubmissionValue = lo, maxSubmissionValue = hi,
      reportingRoundId = 0, latestRoundId = 0, oracles = \<lambda>_. no_oracle,
      rounds = (\<lambda>_. no_round)(0 := no_round\<lparr>rd_updatedAt := ucast (block_timestamp m - ucast tmo)\<rparr>),
      details = \<lambda>_. no_details, requesters = \<lambda>_. no_requester, oracleAddresses = [],
      recordedFunds = \<lparr>available = 0, allocated = 0\<rparr>, flux_logs = l\<rparr>)"
  using assms
  by (auto simp: FluxAggregator_def Owned_constructor_def updateFutureRounds_def setValidator_def onlyOwner_def
      requiredReserve_def oracleCount_def sol_simps set_defs Let_def RESERVE_ROUNDS_def split: if_splits)

end
