(* ===== verification/Flux_Oracles.thy ===== *)
theory Flux_Oracles
  imports Flux_Calls
begin

text \<open>
  The oracles of the aggregator and its configuration: the list of oracles, the index of each in
  it and the flag that it is enabled agree in every reachable state, and the configuration of
  rounds fits the number of oracles.
\<close>

definition oracles_listed :: "flux \<Rightarrow> bool" where
  "oracles_listed f \<longleftrightarrow>
     length (oracleAddresses f) \<le> 77 \<and> distinct (oracleAddresses f) \<and>
     (\<forall>a. oracleEnabled a f \<longleftrightarrow> a \<in> set (oracleAddresses f)) \<and>
     (\<forall>i < length (oracleAddresses f). unat (os_index (oracles f (oracleAddresses f ! i))) = i)"

definition configured :: "flux \<Rightarrow> bool" where
  "configured f \<longleftrightarrow>
     config_ok (minSubmissionCount f) (maxSubmissionCount f) (restartDelay f) (length (oracleAddresses f))"

lemma unat_oracleCount: "length (oracleAddresses f) \<le> 77 \<Longrightarrow> unat (oracleCount f) = length (oracleAddresses f)"
  by (simp add: oracleCount_def unat_of_nat)

text \<open>Moving the last element into the place of the removed one.\<close>

lemma swap_out:
  assumes "distinct xs" "i < length xs"
  shows "set (butlast (xs[i := last xs])) = set xs - {xs ! i}" "distinct (butlast (xs[i := last xs]))"
proof -
  obtain ys z where xs: "xs = ys @ [z]" using assms(2) by (cases xs rule: rev_cases) auto
  have "set (butlast (xs[i := last xs])) = set xs - {xs ! i} \<and> distinct (butlast (xs[i := last xs]))"
  proof (cases "i < length ys")
    case True
    with assms xs show ?thesis by (auto simp: list_update_append nth_append set_update_distinct distinct_list_update)
  next
    case False
    then have "i = length ys" using assms(2) xs by simp
    with assms(1) xs show ?thesis by auto
  qed
  then show "set (butlast (xs[i := last xs])) = set xs - {xs ! i}" "distinct (butlast (xs[i := last xs]))" by auto
qed

lemma removeOracle_listed:
  assumes "removeOracle a f = Returns f'" "oracles_listed f" "rounds_left f"
  shows "oracles_listed f' \<and> rounds_left f' \<and> set (oracleAddresses f') = set (oracleAddresses f) - {a} \<and>
    reportingRoundId f' = reportingRoundId f"
proof -
  let ?xs = "oracleAddresses f" and ?i = "unat (os_index (oracles f a))"
  have n: "unat (oracleCount f) = length ?xs" using assms(2) by (intro unat_oracleCount) (simp add: oracles_listed_def)
  note r = removeOracle_Returns [OF assms(1), unfolded n]
  then have a: "a \<in> set ?xs" and ne: "?xs \<noteq> []" using assms(2) by (auto simp: oracles_listed_def)
  then obtain j where j: "j < length ?xs" "a = ?xs ! j" by (auto simp: in_set_conv_nth)
  then have i: "?i = j" using assms(2) by (auto simp: oracles_listed_def)
  have z: "?xs ! (length ?xs - 1) = last ?xs" using ne by (simp add: last_conv_nth)
  have f': "f' = f\<lparr>oracles := (oracles f)(last ?xs := (oracles f (last ?xs))\<lparr>os_index := os_index (oracles f a)\<rparr>,
      a := (oracles f a)\<lparr>os_endingRound := reportingRoundId f + 1, os_index := 0\<rparr>),
    oracleAddresses := butlast (?xs[j := last ?xs]), flux_logs := flux_logs f @ [OraclePermissionsUpdated a False]\<rparr>"
    using r unfolding i z by simp
  let ?ys = "butlast (?xs[j := last ?xs])"
  have addrs: "oracleAddresses f' = ?ys" by (simp add: f')
  have set: "set ?ys = set ?xs - {a}" "distinct ?ys"
    using swap_out [of ?xs j] assms(2) j by (simp_all add: oracles_listed_def)
  have "oracleEnabled b f' \<longleftrightarrow> b \<in> set ?ys" for b
  proof -
    have "reportingRoundId f + 1 \<noteq> ROUND_MAX"
    proof
      assume "reportingRoundId f + 1 = ROUND_MAX"
      then have "unat (reportingRoundId f + 1) = 2 ^ 32 - 1" by (simp add: ROUND_MAX_def)
      with assms(3) show False by (simp add: rounds_left_def unat_word_ariths)
    qed
    with assms(2) a last_in_set [OF ne] show ?thesis
      unfolding set f' by (auto simp: oracles_listed_def oracleEnabled_def)
  qed
  moreover have "unat (os_index (oracles f' (?ys ! k))) = k" if "k < length ?ys" for k
  proof -
    have "?ys ! k = ?xs[j := last ?xs] ! k" using that by (simp add: nth_butlast)
    moreover have "?ys ! k \<in> set ?ys" using that by simp
    moreover have "?xs ! k \<noteq> last ?xs"
    proof -
      have "distinct ?xs" "k < length ?xs" "length ?xs - 1 < length ?xs" "k \<noteq> length ?xs - 1"
        using that assms(2) ne by (auto simp: oracles_listed_def)
      then show ?thesis using nth_eq_iff_index_eq unfolding z [symmetric] by blast
    qed
    ultimately show ?thesis
      using that j i set(1) assms(2)
      by (auto simp: f' nth_list_update oracles_listed_def last_conv_nth nth_eq_iff_index_eq split: if_splits)
  qed
  moreover have "length ?ys \<le> 77" using assms(2) unfolding oracles_listed_def length_butlast length_list_update by linarith
  ultimately show ?thesis
    using set assms(3) by (simp add: oracles_listed_def addrs rounds_left_def) (simp add: f')
qed

lemma addOracle_listed:
  assumes "addOracle a adm f = Returns f'" "oracles_listed f" "length (oracleAddresses f) < 77"
  shows "oracles_listed f' \<and> set (oracleAddresses f') = insert a (set (oracleAddresses f)) \<and>
    length (oracleAddresses f') = Suc (length (oracleAddresses f)) \<and> reportingRoundId f' = reportingRoundId f"
proof -
  let ?xs = "oracleAddresses f"
  obtain start where new: "\<not> oracleEnabled a f" and f': "f' = f\<lparr>oracles := (oracles f)(a := (oracles f a)
      \<lparr>os_startingRound := start, os_endingRound := ROUND_MAX, os_index := word_of_nat (length ?xs), os_admin := adm\<rparr>),
      oracleAddresses := ?xs @ [a], flux_logs := flux_logs f @ [OraclePermissionsUpdated a True, OracleAdminUpdated a adm]\<rparr>"
    using addOracle_Returns [OF assms(1)] by blast
  from new assms(2) have notin: "a \<notin> set ?xs" by (simp add: oracles_listed_def)
  have "unat (os_index (oracles f' ((?xs @ [a]) ! k))) = k" if "k < Suc (length ?xs)" for k
    using that assms(2,3) notin nth_mem [of k ?xs]
    by (auto simp: f' nth_append oracles_listed_def less_Suc_eq unat_of_nat)
  with assms(2,3) notin show ?thesis
    by (auto simp: oracles_listed_def f' oracleEnabled_def)
qed

lemma removeOracles_listed:
  "removeOracles as f = Returns f' \<Longrightarrow> oracles_listed f \<Longrightarrow> rounds_left f \<Longrightarrow>
     oracles_listed f' \<and> set (oracleAddresses f') = set (oracleAddresses f) - set as"
proof (induction as f rule: removeOracles.induct)
  case (2 a as f)
  then obtain f1 where "removeOracle a f = Returns f1" "removeOracles as f1 = Returns f'" by (auto simp: bind_sol_Returns)
  with 2 removeOracle_listed [of a f f1] show ?case by auto
qed auto

lemma addOracles_listed:
  "addOracles as f = Returns f' \<Longrightarrow> oracles_listed f \<Longrightarrow> length (oracleAddresses f) + length as \<le> 77 \<Longrightarrow>
     oracles_listed f' \<and> set (oracleAddresses f') = set (oracleAddresses f) \<union> set (map fst as)"
proof (induction as f rule: addOracles.induct)
  case (2 a adm as f)
  then obtain f1 where "addOracle a adm f = Returns f1" "addOracles as f1 = Returns f'" by (auto simp: bind_sol_Returns)
  with 2 addOracle_listed [of a adm f f1] show ?case by auto
qed auto

lemma updateFutureRounds_listed:
  assumes "updateFutureRounds m payment lo hi delay tmo f = Returns f'" "oracles_listed f"
  shows "oracles_listed f' \<and> configured f' \<and> oracleAddresses f' = oracleAddresses f"
proof -
  have "unat (oracleCount f) = length (oracleAddresses f)"
    using assms(2) by (intro unat_oracleCount) (simp add: oracles_listed_def)
  with updateFutureRounds_Returns [OF assms(1)] assms(2) show ?thesis
    by (auto simp: oracles_listed_def configured_def oracleEnabled_def)
qed

lemma changeOracles_Returns:
  assumes "changeOracles m removed added admins lo hi delay f = Returns f'" "length added < 2 ^ 256"
  obtains f1 f2 where "msg_sender m = owner f" "removeOracles removed f = Returns f1" "length added = length admins"
    "unat (oracleCount f1) + length added \<le> 77" "addOracles (zip added admins) f1 = Returns f2"
    "updateFutureRounds m (paymentAmount f2) lo hi delay (timeout f2) f2 = Returns f'"
proof -
  have len: "unat (word_of_nat (length added) :: uint256) = length added" using assms(2) by (simp add: unat_of_nat)
  obtain f1 n f2 where s: "msg_sender m = owner f" "removeOracles removed f = Returns f1" "length added = length admins"
    "safe_add (ucast (oracleCount f1)) (word_of_nat (length added) :: uint256) = Returns n" "n \<le> MAX_ORACLE_COUNT"
    "addOracles (zip added admins) f1 = Returns f2"
    "updateFutureRounds m (paymentAmount f2) lo hi delay (timeout f2) f2 = Returns f'"
    using assms(1) by (auto simp: changeOracles_def onlyOwner_Returns bind_sol_Returns require_Returns)
  moreover have "unat n \<le> 77" using s(5) by (simp add: MAX_ORACLE_COUNT_def word_le_nat_alt)
  ultimately show thesis using that [OF s(1-3) _ s(6,7)] exact_sum [OF s(4)] len by simp
qed

lemma changeOracles_listed:
  assumes "changeOracles m removed added admins lo hi delay f = Returns f'" "length added < 2 ^ 256"
    "oracles_listed f" "rounds_left f"
  shows "oracles_listed f' \<and> configured f' \<and>
    set (oracleAddresses f') = set (oracleAddresses f) - set removed \<union> set added"
proof -
  obtain f1 f2 where s: "removeOracles removed f = Returns f1" "length added = length admins"
    "unat (oracleCount f1) + length added \<le> 77" "addOracles (zip added admins) f1 = Returns f2"
    "updateFutureRounds m (paymentAmount f2) lo hi delay (timeout f2) f2 = Returns f'"
    using changeOracles_Returns [OF assms(1,2)] by blast
  have f1: "oracles_listed f1" "set (oracleAddresses f1) = set (oracleAddresses f) - set removed"
    using removeOracles_listed [OF s(1) assms(3,4)] by auto
  then have "unat (oracleCount f1) = length (oracleAddresses f1)" by (intro unat_oracleCount) (simp add: oracles_listed_def)
  with addOracles_listed [OF s(4) f1(1)] s(2,3) f1(2)
  have "oracles_listed f2" "set (oracleAddresses f2) = set (oracleAddresses f) - set removed \<union> set added" by auto
  with updateFutureRounds_listed [OF s(5)] show ?thesis by auto
qed

section \<open>In every reachable state\<close>

lemma oracles_listed_cong:
  assumes "oracleAddresses f' = oracleAddresses f"
    "\<And>a. os_endingRound (oracles f' a) = os_endingRound (oracles f a)" "\<And>a. os_index (oracles f' a) = os_index (oracles f a)"
  shows "oracles_listed f' = oracles_listed f"
  using assms by (simp add: oracles_listed_def oracleEnabled_def)

lemma configured_cong:
  assumes "oracleAddresses f' = oracleAddresses f" "minSubmissionCount f' = minSubmissionCount f"
    "maxSubmissionCount f' = maxSubmissionCount f" "restartDelay f' = restartDelay f"
  shows "configured f' = configured f"
  using assms by (simp add: configured_def)

lemma oracles_invariant:
  assumes "flux_reach C agg link init env (f, w)"
  shows "oracles_listed f \<and> configured f"
  using assms
proof (rule reach_invariant)
  fix f
  show "(oracles_listed (core f) \<and> configured (core f)) = (oracles_listed f \<and> configured f)"
    by (simp add: core_def oracles_listed_def configured_def oracleEnabled_def)
next
  fix m payment tmo val lo hi decs desc f
  assume "FluxAggregator m link payment tmo val lo hi decs desc = Returns f"
  from FluxAggregator_Returns [OF this] show "oracles_listed f \<and> configured f"
    by (auto simp: oracles_listed_def configured_def oracleEnabled_def no_oracle_def ROUND_MAX_def config_ok_def)
next
  fix f w m c f' w'
  assume inv: "oracles_listed f \<and> configured f" and left: "rounds_left f" and typed: "call_typed c"
    and c: "\<not> light c" "flux_exec C m c (f, w) = Returns (f', w')"
  from c(2,1) show "oracles_listed f' \<and> configured f'"
  proof (cases rule: heavy_cases)
    case (submit roundId s)
    from submit_Returns [OF submit(2) refl] obtain x where f': "f' = submitted m (ucast roundId) s x f" by blast
    have "oracles_listed f' = oracles_listed f"
      by (rule oracles_listed_cong) (auto simp: f' submitted_fields oracle_opened_status)
    moreover have "configured f' = configured f" by (rule configured_cong) (auto simp: f' submitted_fields)
    ultimately show ?thesis using inv by simp
  next
    case (change removed added admins lo hi delay)
    with typed inv left changeOracles_listed [OF change(2)] show ?thesis by (simp add: call_typed_def)
  next
    case (update payment lo hi delay tmo)
    with inv updateFutureRounds_listed [OF update(2)] show ?thesis by simp
  next
    case (request n)
    from requestNewRound_Returns [OF request(2)] have f': "f' = set_requester (msg_sender m)
      (\<lambda>rq. rq\<lparr>rq_lastStartedRound := reportingRoundId f + 1\<rparr>) (opened m (reportingRoundId f + 1) f)" by blast
    have "oracles_listed f' = oracles_listed f" by (rule oracles_listed_cong) (auto simp: f' set_defs opened_def)
    moreover have "configured f' = configured f" by (rule configured_cong) (auto simp: f' set_defs opened_def)
    ultimately show ?thesis using inv by simp
  qed
qed

end
