(* ===== verification/Flux_Rounds.thy ===== *)
theory Flux_Rounds
  imports Flux_Oracles
begin

text \<open>
  Rounds, submissions and answers of the aggregator: the invariant \<open>rounds_ok\<close> of all reachable
  states, which says that every answer lies within the bounds on submissions, that rounds before
  the reporting one are answered or given up, and that no round has more submissions than it may.
\<close>

section \<open>Numbers of rounds\<close>

lemma unat_next: "unat r + 1 < 2 ^ 32 \<Longrightarrow> unat (r + 1) = unat r + 1" for r :: uint32
  by (simp add: unat_word_ariths)

lemma unat_prev: "r \<noteq> 0 \<Longrightarrow> unat (r - 1) = unat r - 1" for r :: uint32
  using unat_sub [of 1 r] by (simp add: one_le_word)

lemma round_pos: "0 < r \<longleftrightarrow> 0 < unat r" for r :: "'a::len word"
  by (simp add: word_less_nat_alt)

lemmas word_nat = word_less_nat_alt word_le_nat_alt

lemma clock_nonzero: "clock_ok m \<Longrightarrow> (ucast (block_timestamp m) :: uint64) > 0"
  and clock_unat: "clock_ok m \<Longrightarrow> unat (ucast (block_timestamp m) :: uint64) = unat (block_timestamp m)"
proof -
  assume c: "clock_ok m"
  then show u: "unat (ucast (block_timestamp m) :: uint64) = unat (block_timestamp m)"
    by (simp add: clock_ok_def unsigned_ucast_eq take_bit_nat_eq_self_iff)
  with c show "(ucast (block_timestamp m) :: uint64) > 0" by (simp add: round_pos clock_ok_def)
qed

section \<open>When an oracle may report\<close>

lemma validateOracleRound_ok:
  assumes "validateOracleRound m a r f = Returns []"
  shows "os_startingRound (oracles f a) \<noteq> 0 \<and> os_startingRound (oracles f a) \<le> r \<and> r \<le> os_endingRound (oracles f a) \<and>
    os_lastReportedRound (oracles f a) < r \<and>
    (r = reportingRoundId f \<or> r = reportingRoundId f + 1 \<and> unat (reportingRoundId f) + 1 < 2 ^ 32 \<or>
     unat r + 1 = unat (reportingRoundId f) \<and> rd_updatedAt (rounds f (reportingRoundId f)) = 0) \<and>
    (r = 1 \<or> rd_updatedAt (rounds f (r - 1)) > 0 \<or> timed_out m (r - 1) f)"
proof -
  have three: "unat r + 1 = unat (reportingRoundId f) \<and> rd_updatedAt (rounds f (reportingRoundId f)) = 0"
    if "previousAndCurrentUnanswered r (reportingRoundId f) f = Returns True"
    using that unat_next [of r] by (auto simp: previousAndCurrentUnanswered_def sol_simps)
  show ?thesis
    using assms three
    by (auto simp: validateOracleRound_def Let_def bind_sol_Returns safe_add_Returns safe_sub_Returns supersedable_Returns
        not_less not_le split: if_splits)
qed

section \<open>The invariant\<close>

definition in_bounds :: "flux \<Rightarrow> int \<Rightarrow> bool" where
  "in_bounds f x \<longleftrightarrow> minSubmissionValue f \<le> x \<and> x \<le> maxSubmissionValue f \<and> is_int256 x"

definition details_ok :: "flux \<Rightarrow> round_details \<Rightarrow> bool" where
  "details_ok f d \<longleftrightarrow>
     unat (rs_minSubmissions d) \<le> unat (rs_maxSubmissions d) \<and> unat (rs_maxSubmissions d) \<le> 77 \<and>
     (rs_maxSubmissions d = 0 \<longrightarrow> rs_submissions d = []) \<and>
     (rs_maxSubmissions d \<noteq> 0 \<longrightarrow> 0 < unat (rs_minSubmissions d) \<and> length (rs_submissions d) < unat (rs_maxSubmissions d)) \<and>
     (\<forall>x\<in>set (rs_submissions d). in_bounds f x)"

definition round_ok :: "flux \<Rightarrow> uint32 \<Rightarrow> round \<Rightarrow> bool" where
  "round_ok f r d \<longleftrightarrow>
     is_int256 (rd_answer d) \<and> unat (rd_startedAt d) < 2 ^ 63 \<and> rd_answeredInRound d \<le> r \<and>
     (0 < rd_answeredInRound d \<longrightarrow> in_bounds f (rd_answer d) \<and> 0 < rd_updatedAt d)"

definition rounds_ok :: "flux \<Rightarrow> bool" where
  "rounds_ok f \<longleftrightarrow>
     (\<forall>r. round_ok f r (rounds f r) \<and> details_ok f (details f r)) \<and>
     (\<forall>r. reportingRoundId f < r \<longrightarrow> rounds f r = no_round \<and> details f r = no_details) \<and>
     details f 0 = no_details \<and> rd_startedAt (rounds f 0) = 0 \<and>
     (\<forall>r. 0 < r \<and> r < reportingRoundId f \<longrightarrow> 0 < rd_updatedAt (rounds f r)) \<and>
     (\<forall>r. 0 < r \<and> r \<le> reportingRoundId f \<longrightarrow> 0 < rd_startedAt (rounds f r)) \<and>
     latestRoundId f \<le> reportingRoundId f \<and>
     (latestRoundId f \<noteq> 0 \<longrightarrow> 0 < rd_updatedAt (rounds f (latestRoundId f))) \<and>
     (\<forall>a. is_int256 (os_latestSubmission (oracles f a)))"

lemma bounds_cong:
  assumes "minSubmissionValue f' = minSubmissionValue f" "maxSubmissionValue f' = maxSubmissionValue f"
  shows "in_bounds f' = in_bounds f" "details_ok f' = details_ok f" "round_ok f' = round_ok f"
  using assms by (auto simp: in_bounds_def details_ok_def round_ok_def fun_eq_iff)

lemma details_ok_no_details [simp]: "details_ok f no_details"
  by (simp add: details_ok_def no_details_def)

lemma details_ok_fresh: "configured f \<Longrightarrow> length (oracleAddresses f) \<le> 77 \<Longrightarrow> details_ok f (fresh_details f)"
  using unat_gt_0 [of "maxSubmissionCount f"]
  by (auto simp: details_ok_def fresh_details_def configured_def config_ok_def)

lemma round_ok_no_round [simp]: "round_ok f r no_round" "round_ok f r (no_round\<lparr>rd_updatedAt := x\<rparr>)"
  by (simp_all add: round_ok_def no_round_def)

lemma no_round_startedAt [simp]: "rd_startedAt no_round = 0"
  by (simp add: no_round_def)

lemma timed_out_positive: "rounds_ok f \<Longrightarrow> timed_out m p f \<Longrightarrow> p \<noteq> 0"
  by (auto simp: rounds_ok_def timed_out_def)

lemma round_ok_closed:
  assumes "rounds_ok f" "clock_ok m"
  shows "round_ok f r (closed_rounds m p f r)" "details_ok f (closed_details m p f r)"
proof -
  show "details_ok f (closed_details m p f r)" using assms by (auto simp: closed_details_def rounds_ok_def)
  have ok: "round_ok f q (rounds f q)" for q using assms(1) by (simp add: rounds_ok_def)
  show "round_ok f r (closed_rounds m p f r)"
  proof (cases "timed_out m p f \<and> r = p")
    case True
    then have "p \<noteq> 0" using assms(1) timed_out_positive by blast
    then have "rd_answeredInRound (rounds f (p - 1)) \<le> p"
      using ok [of "p - 1"] unat_prev [of p] by (auto simp: round_ok_def word_nat)
    with True ok [of p] ok [of "p - 1"] clock_nonzero [OF assms(2)] show ?thesis
      by (auto simp: closed_rounds_def round_ok_def)
  next
    case False
    then show ?thesis using ok [of r] by (auto simp: closed_rounds_def)
  qed
qed

text \<open>Opening the next round keeps the invariant, if the reporting round may be superseded.\<close>

abbreviation next_round :: "flux \<Rightarrow> uint32" where
  "next_round f \<equiv> reportingRoundId f + 1"

lemma next_round_cases:
  assumes "unat (reportingRoundId f) + 1 < 2 ^ 32"
  shows "next_round f \<noteq> 0" "next_round f - 1 = reportingRoundId f" "reportingRoundId f < next_round f"
    "r < next_round f \<longleftrightarrow> r \<le> reportingRoundId f" "r \<le> next_round f \<longleftrightarrow> r \<le> reportingRoundId f \<or> r = next_round f"
proof -
  note nxt = unat_next [OF assms]
  then show "next_round f - 1 = reportingRoundId f" "reportingRoundId f < next_round f"
    "r < next_round f \<longleftrightarrow> r \<le> reportingRoundId f" "r \<le> next_round f \<longleftrightarrow> r \<le> reportingRoundId f \<or> r = next_round f"
    by (auto simp: word_nat word_unat_eq_iff)
  show "next_round f \<noteq> 0" using nxt by (metis add_is_0 one_neq_zero unat_0)
qed

lemma opened_next:
  assumes "rounds_ok f" "unat (reportingRoundId f) + 1 < 2 ^ 32"
  shows "rounds (opened m (next_round f) f) =
      (closed_rounds m (reportingRoundId f) f)(next_round f := no_round\<lparr>rd_startedAt := ucast (block_timestamp m)\<rparr>)"
    "details (opened m (next_round f) f) = (closed_details m (reportingRoundId f) f)(next_round f := fresh_details f)"
proof -
  have "closed_rounds m (reportingRoundId f) f (next_round f) = no_round"
    using assms(1) next_round_cases(3) [OF assms(2)] by (auto simp: closed_rounds_def rounds_ok_def)
  then show "rounds (opened m (next_round f) f) =
      (closed_rounds m (reportingRoundId f) f)(next_round f := no_round\<lparr>rd_startedAt := ucast (block_timestamp m)\<rparr>)"
    "details (opened m (next_round f) f) = (closed_details m (reportingRoundId f) f)(next_round f := fresh_details f)"
    by (simp_all add: opened_def next_round_cases [OF assms(2)])
qed

lemma rounds_ok_opened:
  assumes "rounds_ok f" "clock_ok m" "configured f" "length (oracleAddresses f) \<le> 77"
    and nxt: "unat (reportingRoundId f) + 1 < 2 ^ 32"
    and "reportingRoundId f = 0 \<or> 0 < rd_updatedAt (rounds f (reportingRoundId f)) \<or> timed_out m (reportingRoundId f) f"
  shows "rounds_ok (opened m (next_round f) f)"
proof -
  let ?rr = "reportingRoundId f" and ?f' = "opened m (next_round f) f"
  note rr = next_round_cases [OF nxt] and rounds = opened_next [OF assms(1) nxt]
  have ts: "(ucast (block_timestamp m) :: uint64) > 0" "unat (ucast (block_timestamp m) :: uint64) < 2 ^ 63"
    using clock_nonzero clock_unat assms(2) by (auto simp: clock_ok_def)
  have cong: "details_ok ?f' = details_ok f" "round_ok ?f' = round_ok f" by (rule bounds_cong; simp add: opened_def)+
  have "round_ok ?f' r (rounds ?f' r)" "details_ok ?f' (details ?f' r)" for r
    unfolding rounds cong using round_ok_closed [OF assms(1,2)] details_ok_fresh [OF assms(3,4)] ts
    by (auto simp: round_ok_def no_round_def)
  moreover have "rounds ?f' r = no_round \<and> details ?f' r = no_details" if "next_round f < r" for r
    using assms(1) less_trans [OF rr(3) that] that by (auto simp: rounds closed_rounds_def closed_details_def rounds_ok_def)
  moreover have "0 < rd_updatedAt (rounds ?f' r)" if "0 < r" "r < next_round f" for r
    using that assms(1,6) ts less_imp_neq [OF that(2)]
    by (cases "r = ?rr") (auto simp: rounds closed_rounds_def rounds_ok_def rr(4))
  moreover have "0 < rd_startedAt (rounds ?f' r)" if "0 < r" "r \<le> next_round f" for r
    using that assms(1) ts unfolding rr(5) by (auto simp: rounds closed_rounds_def rounds_ok_def)
  moreover have "details ?f' 0 = no_details" "rd_startedAt (rounds ?f' 0) = 0"
    using assms(1) timed_out_positive [OF assms(1), of m ?rr] rr(1) not_sym [OF rr(1)]
    by (auto simp: rounds closed_rounds_def closed_details_def rounds_ok_def)
  moreover have "latestRoundId f \<le> next_round f" "latestRoundId f \<noteq> 0 \<longrightarrow> 0 < rd_updatedAt (rounds ?f' (latestRoundId f))"
    using assms(1) less_imp_neq [OF le_less_trans [OF _ rr(3)], of "latestRoundId f"] ts
    by (auto simp: rounds closed_rounds_def rounds_ok_def rr(5))
  ultimately show ?thesis
    using assms(1) unfolding rounds_ok_def by (simp add: opened_def)
qed

lemma rounds_ok_cong:
  assumes "rounds f' = rounds f" "details f' = details f" "reportingRoundId f' = reportingRoundId f"
    "latestRoundId f' = latestRoundId f" "minSubmissionValue f' = minSubmissionValue f"
    "maxSubmissionValue f' = maxSubmissionValue f"
    "\<And>a. os_latestSubmission (oracles f' a) = os_latestSubmission (oracles f a)"
  shows "rounds_ok f' = rounds_ok f"
  unfolding rounds_ok_def bounds_cong [OF assms(5,6)] assms ..

text \<open>The state in which the submission is recorded.\<close>

lemma rounds_ok_oracle_opened:
  assumes "rounds_ok f" "clock_ok m" "configured f" "length (oracleAddresses f) \<le> 77"
    and "validateOracleRound m a r f = Returns []"
  shows "rounds_ok (oracle_opened m r f)"
proof (cases "r = reportingRoundId f + 1 \<and> may_start (msg_sender m) r f")
  case True
  let ?rr = "reportingRoundId f"
  note v = validateOracleRound_ok [OF assms(5)]
  have "unat ?rr + 1 < 2 ^ 32"
  proof (rule ccontr)
    assume "\<not> ?thesis"
    moreover have "unat ?rr < 2 ^ LENGTH(32)" by (rule unsigned_less)
    ultimately have "unat ?rr = 2 ^ 32 - 1" by simp
    then have "?rr + 1 = 0" by (simp add: word_unat_eq_iff unat_word_ariths)
    with v True show False by auto
  qed
  moreover have "?rr = 0 \<or> 0 < rd_updatedAt (rounds f ?rr) \<or> timed_out m ?rr f" using v True by auto
  ultimately have "rounds_ok (opened m r f)" using rounds_ok_opened assms(1-4) True by blast
  moreover have "rounds_ok (oracle_opened m r f) = rounds_ok (opened m r f)"
    using True by (intro rounds_ok_cong) (auto simp: oracle_opened_def set_oracle_def)
  ultimately show ?thesis by simp
next
  case False
  show ?thesis using assms(1) unfolding oracle_opened_def if_not_P [OF False] .
qed

lemma accepting_round:
  assumes "rounds_ok f" "acceptingSubmissions r f"
  shows "r \<noteq> 0" "r \<le> reportingRoundId f"
proof -
  show "r \<noteq> 0" using assms by (auto simp: rounds_ok_def acceptingSubmissions_def no_details_def)
  show "r \<le> reportingRoundId f"
    using assms by (metis acceptingSubmissions_def linorder_not_less no_details_def round_details.select_convs(2) rounds_ok_def)
qed

text \<open>The median of the submissions of a round is the answer, and it is within the bounds.\<close>

lemma answer_is_median:
  assumes "details_ok f d" "rs_maxSubmissions d \<noteq> 0" "in_bounds f s" "calculateInplace (rs_submissions d @ [s]) = Returns (x, ys)"
  shows "x = sorted_median (rs_submissions d @ [s]) \<and> in_bounds f x"
proof -
  let ?subs = "rs_submissions d @ [s]"
  have b: "\<forall>y\<in>set ?subs. in_bounds f y" using assms by (auto simp: details_ok_def)
  have "length ?subs \<le> 77" using assms by (auto simp: details_ok_def)
  then have "fits ?subs" by simp
  with calculateInplace_sorted [of ?subs] b assms(4) have x: "x = sorted_median ?subs" by (auto simp: in_bounds_def)
  moreover have "is_int256 (sorted_median ?subs)" using b by (intro sorted_median_is_int256) (auto simp: in_bounds_def)
  moreover have "minSubmissionValue f \<le> sorted_median ?subs \<and> sorted_median ?subs \<le> maxSubmissionValue f"
    using b by (intro sorted_median_between) (auto simp: in_bounds_def)
  ultimately show ?thesis by (simp add: in_bounds_def)
qed

lemma latest_not_later:
  assumes "rounds_ok f" "validateOracleRound m a r f = Returns []"
  shows "latestRoundId f \<le> r"
proof -
  have l: "latestRoundId f \<le> reportingRoundId f"
    "latestRoundId f \<noteq> 0 \<longrightarrow> 0 < rd_updatedAt (rounds f (latestRoundId f))"
    using assms(1) by (simp_all add: rounds_ok_def)
  from validateOracleRound_ok [OF assms(2)]
  consider "r = reportingRoundId f" | "r = reportingRoundId f + 1" "unat (reportingRoundId f) + 1 < 2 ^ 32"
    | "unat r + 1 = unat (reportingRoundId f)" "rd_updatedAt (rounds f (reportingRoundId f)) = 0" by blast
  then show ?thesis
  proof cases
    case 3
    have "latestRoundId f \<noteq> reportingRoundId f"
    proof
      assume "latestRoundId f = reportingRoundId f"
      moreover from 3(1) have "reportingRoundId f \<noteq> 0" by auto
      ultimately show False using l(2) 3(2) by simp
    qed
    with l(1) 3(1) show ?thesis by (auto simp: word_nat word_unat_eq_iff)
  qed (use l(1) unat_next in \<open>auto simp: word_nat\<close>)
qed

lemma rounds_ok_submitted:
  assumes f1: "rounds_ok (oracle_opened m r f)" "acceptingSubmissions r (oracle_opened m r f)" and clock: "clock_ok m"
    and s: "in_bounds f s" and latest: "latestRoundId f \<le> r"
    and x: "enough (submissions_to m r s f) (details_of m r f) \<Longrightarrow> in_bounds f x"
  shows "rounds_ok (submitted m r s x f)"
proof -
  let ?f1 = "oracle_opened m r f" and ?f' = "submitted m r s x f"
  let ?d = "details ?f1 r" and ?subs = "submissions_to m r s f"
  have r: "r \<noteq> 0" "r \<le> reportingRoundId ?f1" using accepting_round [OF f1] by auto
  have ts: "(ucast (block_timestamp m) :: uint64) > 0" using clock by (rule clock_nonzero)
  have cong: "in_bounds ?f1 = in_bounds f" "details_ok ?f1 = details_ok f" "round_ok ?f1 = round_ok f"
    "in_bounds ?f' = in_bounds f" "details_ok ?f' = details_ok f" "round_ok ?f' = round_ok f"
    by (rule bounds_cong; simp add: submitted_fields oracle_opened_fields)+
  have ok: "round_ok f q (rounds ?f1 q)" "details_ok f (details ?f1 q)" for q
    using f1(1) unfolding rounds_ok_def cong by auto
  have "details_ok f (details ?f' q)" for q
    using ok(2) [of q] ok(2) [of r] f1(2) s
    by (auto simp: submitted_fields submissions_to_def details_ok_def acceptingSubmissions_def no_details_def)
  moreover have "round_ok f q (rounds ?f' q)" for q
    using ok(1) [of q] x ts r(1) by (auto simp: submitted_fields round_ok_def in_bounds_def word_gt_0)
  moreover have "\<forall>q>reportingRoundId ?f1. rounds ?f' q = no_round \<and> details ?f' q = no_details"
    using f1(1) r(2) unfolding rounds_ok_def by (auto simp: submitted_fields)
  moreover have "details ?f' 0 = no_details" "rd_startedAt (rounds ?f' 0) = 0"
    using f1(1) r(1) unfolding rounds_ok_def by (auto simp: submitted_fields)
  moreover have "\<forall>q. 0 < q \<and> q < reportingRoundId ?f1 \<longrightarrow> 0 < rd_updatedAt (rounds ?f' q)"
    using f1(1) ts unfolding rounds_ok_def by (auto simp: submitted_fields)
  moreover have "\<forall>q. 0 < q \<and> q \<le> reportingRoundId ?f1 \<longrightarrow> 0 < rd_startedAt (rounds ?f' q)"
    using f1(1) unfolding rounds_ok_def by (auto simp: submitted_fields)
  moreover have "latestRoundId ?f' \<le> reportingRoundId ?f1"
    "latestRoundId ?f' \<noteq> 0 \<longrightarrow> 0 < rd_updatedAt (rounds ?f' (latestRoundId ?f'))"
    using f1(1) r(2) ts unfolding rounds_ok_def oracle_opened_fields by (auto simp: submitted_fields)
  moreover have "is_int256 (os_latestSubmission (oracles ?f' a))" for a
    using f1(1) s unfolding rounds_ok_def by (auto simp: submitted_fields in_bounds_def)
  ultimately show ?thesis
    unfolding rounds_ok_def cong submitted_fields(6) by blast
qed

section \<open>In every reachable state\<close>

definition same_rounds :: "flux \<Rightarrow> flux \<Rightarrow> bool" where
  "same_rounds f f' \<longleftrightarrow>
     rounds f' = rounds f \<and> details f' = details f \<and> reportingRoundId f' = reportingRoundId f \<and>
     latestRoundId f' = latestRoundId f \<and> minSubmissionValue f' = minSubmissionValue f \<and>
     maxSubmissionValue f' = maxSubmissionValue f \<and> requesters f' = requesters f \<and> recordedFunds f' = recordedFunds f \<and>
     linkToken f' = linkToken f \<and> owner f' = owner f \<and>
     (\<forall>a. os_latestSubmission (oracles f' a) = os_latestSubmission (oracles f a) \<and>
        os_lastReportedRound (oracles f' a) = os_lastReportedRound (oracles f a) \<and>
        os_withdrawable (oracles f' a) = os_withdrawable (oracles f a))"

lemma same_rounds_trans: "same_rounds f g \<Longrightarrow> same_rounds g h \<Longrightarrow> same_rounds f h"
  by (simp add: same_rounds_def)

lemma same_rounds_ok: "same_rounds f f' \<Longrightarrow> rounds_ok f' = rounds_ok f"
  by (rule rounds_ok_cong) (simp_all add: same_rounds_def)

lemma removeOracle_rounds: "removeOracle a f = Returns f' \<Longrightarrow> same_rounds f f'"
  by (drule removeOracle_Returns) (auto simp: same_rounds_def)

lemma addOracle_rounds: "addOracle a adm f = Returns f' \<Longrightarrow> same_rounds f f'"
  by (drule addOracle_Returns) (auto simp: same_rounds_def)

lemma removeOracles_rounds: "removeOracles as f = Returns f' \<Longrightarrow> same_rounds f f'"
proof (induction as f rule: removeOracles.induct)
  case (2 a as f)
  then obtain f1 where "removeOracle a f = Returns f1" "removeOracles as f1 = Returns f'" by (auto simp: bind_sol_Returns)
  with 2 removeOracle_rounds [of a f f1] same_rounds_trans show ?case by blast
qed (simp add: same_rounds_def)

lemma addOracles_rounds: "addOracles as f = Returns f' \<Longrightarrow> same_rounds f f'"
proof (induction as f rule: addOracles.induct)
  case (2 a adm as f)
  then obtain f1 where "addOracle a adm f = Returns f1" "addOracles as f1 = Returns f'" by (auto simp: bind_sol_Returns)
  with 2 addOracle_rounds [of a adm f f1] same_rounds_trans show ?case by blast
qed (simp add: same_rounds_def)

lemma updateFutureRounds_rounds: "updateFutureRounds m payment lo hi delay tmo f = Returns f' \<Longrightarrow> same_rounds f f'"
  by (drule updateFutureRounds_Returns) (auto simp: same_rounds_def)

lemma changeOracles_rounds:
  assumes "changeOracles m removed added admins lo hi delay f = Returns f'"
  shows "same_rounds f f'"
proof -
  obtain f1 f2 where "removeOracles removed f = Returns f1" "addOracles (zip added admins) f1 = Returns f2"
    "updateFutureRounds m (paymentAmount f2) lo hi delay (timeout f2) f2 = Returns f'"
    using assms by (auto simp: changeOracles_def onlyOwner_Returns bind_sol_Returns require_Returns)
  then show ?thesis
    by (meson removeOracles_rounds addOracles_rounds updateFutureRounds_rounds same_rounds_trans)
qed

lemma submit_rounds_ok:
  assumes "submit C m roundId s (f, w) = Returns (f', w')" "rounds_ok f" "clock_ok m" "configured f" "oracles_listed f"
    and "is_int256 s" and r: "r = ucast roundId"
  shows "rounds_ok f' \<and> acceptingSubmissions r (oracle_opened m r f) \<and> rounds_ok (oracle_opened m r f) \<and>
    validateOracleRound m (msg_sender m) r f = Returns [] \<and> latestRoundId f \<le> r \<and> in_bounds f s \<and>
    payable m (rs_paymentAmount (details_of m r f)) (oracle_opened m r f) \<and>
    f' = submitted m r s (sorted_median (submissions_to m r s f)) f"
proof -
  obtain x where sub: "validateOracleRound m (msg_sender m) r f = Returns []"
    "minSubmissionValue f \<le> s" "s \<le> maxSubmissionValue f" "acceptingSubmissions r (oracle_opened m r f)"
    "enough (submissions_to m r s f) (details_of m r f) \<Longrightarrow> \<exists>ys. calculateInplace (submissions_to m r s f) = Returns (x, ys)"
    "payable m (rs_paymentAmount (details_of m r f)) (oracle_opened m r f)" "f' = submitted m r s x f"
    using submit_Returns [OF assms(1) r] by blast
  have s: "in_bounds f s" using sub assms(6) by (simp add: in_bounds_def)
  have f1: "rounds_ok (oracle_opened m r f)"
    using rounds_ok_oracle_opened [OF assms(2-4) _ sub(1)] assms(5) by (simp add: oracles_listed_def)
  have cong: "in_bounds (oracle_opened m r f) = in_bounds f" "details_ok (oracle_opened m r f) = details_ok f"
    by (rule bounds_cong; simp add: oracle_opened_fields)+
  have d: "details_ok f (details_of m r f)" using f1 unfolding rounds_ok_def cong by blast
  have x: "x = sorted_median (submissions_to m r s f) \<and> in_bounds f x"
    if "enough (submissions_to m r s f) (details_of m r f)"
    using answer_is_median [OF d _ s] sub(4,5) that by (auto simp: submissions_to_def acceptingSubmissions_def)
  have "submitted m r s x f = submitted m r s (sorted_median (submissions_to m r s f)) f"
    using x by (auto simp: submitted_def submissions_to_def recorded_def Let_def)
  moreover have "rounds_ok f'"
    unfolding sub(7) using rounds_ok_submitted [OF f1 sub(4) assms(3) s latest_not_later [OF assms(2) sub(1)]] x by blast
  ultimately show ?thesis using sub f1 s latest_not_later [OF assms(2) sub(1)] by simp
qed

lemma rounds_invariant:
  assumes "flux_reach C agg link init env (f, w)"
  shows "rounds_ok f"
  using assms
proof (rule reach_invariant)
  show "rounds_ok (core f) = rounds_ok f" for f by (rule rounds_ok_cong) (simp_all add: core_def)
next
  fix m payment tmo val lo hi decs desc f
  assume "FluxAggregator m link payment tmo val lo hi decs desc = Returns f"
  from FluxAggregator_Returns [OF this] show "rounds_ok f"
    by (auto simp: rounds_ok_def no_oracle_def)
next
  fix f w m c f' w'
  assume reach: "flux_reach C agg link init env (f, w)" and inv: "rounds_ok f" and clock: "clock_ok m" and typed: "call_typed c"
    and c: "\<not> light c" "flux_exec C m c (f, w) = Returns (f', w')"
  have oracles: "oracles_listed f" "configured f" using oracles_invariant [OF reach] by auto
  from c(2,1) show "rounds_ok f'"
  proof (cases rule: heavy_cases)
    case (submit roundId s)
    then have "is_int256 s" using typed by (simp add: call_typed_def)
    then show ?thesis using submit_rounds_ok [OF submit(2) inv clock oracles(2,1) _ refl] by blast
  next
    case (change removed added admins lo hi delay)
    then show ?thesis using inv same_rounds_ok changeOracles_rounds by blast
  next
    case (update payment lo hi delay tmo)
    then show ?thesis using inv same_rounds_ok updateFutureRounds_rounds by blast
  next
    case (request n)
    note req = requestNewRound_Returns [OF request(2)]
    then have "rounds_ok (opened m (reportingRoundId f + 1) f)"
      using rounds_ok_opened [OF inv clock oracles(2)] oracles(1) by (auto simp: oracles_listed_def)
    moreover have "rounds_ok f' = rounds_ok (opened m (reportingRoundId f + 1) f)"
      using req by (intro rounds_ok_cong) (auto simp: set_requester_def)
    ultimately show ?thesis by simp
  qed
qed

end
