(* ===== verification/Flux_Funds.thy ===== *)
theory Flux_Funds
  imports Flux_Rounds
begin

text \<open>
  The money of the aggregator. What it relies on of the token (\<open>interfaces/LinkTokenInterface.sol\<close>)
  and of the other contracts is the locale \<open>link_interface\<close>; inside it, every call keeps the
  aggregator solvent: what it owes to its oracles and what it has recorded as available is
  covered by its balance. The locale is interpreted with the LINK token of the repository, and
  with validators that may call the token as they like.
\<close>

section \<open>What is owed\<close>

definition owed :: "flux \<Rightarrow> nat" where
  "owed f = (\<Sum>a\<in>UNIV. unat (os_withdrawable (oracles f a)))"

definition books_balance :: "nat \<Rightarrow> flux \<Rightarrow> bool" where
  "books_balance n f \<longleftrightarrow>
     unat (allocated (recordedFunds f)) = owed f \<and>
     unat (available (recordedFunds f)) + unat (allocated (recordedFunds f)) \<le> n"

definition same_money :: "flux \<Rightarrow> flux \<Rightarrow> bool" where
  "same_money f f' \<longleftrightarrow>
     recordedFunds f' = recordedFunds f \<and> linkToken f' = linkToken f \<and>
     (\<forall>a. os_withdrawable (oracles f' a) = os_withdrawable (oracles f a))"

lemma same_money_books: "same_money f f' \<Longrightarrow> books_balance n f' = books_balance n f"
  by (simp add: same_money_def books_balance_def owed_def)

lemma owed_update:
  assumes "os_withdrawable (oracles f a) = v" "\<And>b. b \<noteq> a \<Longrightarrow> os_withdrawable (oracles f' b) = os_withdrawable (oracles f b)"
  shows "owed f' + unat v = owed f + unat (os_withdrawable (oracles f' a))"
proof -
  have eq: "(\<lambda>b. unat (os_withdrawable (oracles f' b))) =
      (\<lambda>b. unat (os_withdrawable (oracles f b)))(a := unat (os_withdrawable (oracles f' a)))"
    using assms(2) by (auto simp: fun_eq_iff)
  show ?thesis
    using sum_fun_upd [of "\<lambda>b. unat (os_withdrawable (oracles f b))" a "unat (os_withdrawable (oracles f' a))"] assms(1)
    unfolding owed_def eq [symmetric] by simp
qed

fun moneyless :: "flux_call \<Rightarrow> bool" where
  "moneyless (Submit _ _) = False"
| "moneyless UpdateAvailableFunds = False"
| "moneyless (WithdrawPayment _ _ _) = False"
| "moneyless (WithdrawFunds _ _) = False"
| "moneyless (OnTokenTransfer _) = False"
| "moneyless _ = True"

lemma moneyless_calls:
  assumes "flux_exec C m c (f, w) = Returns (f', w')" "moneyless c"
  shows "same_money f f' \<and> w' = w"
proof (cases c)
  case (ChangeOracles removed added admins lo hi delay)
  then show ?thesis
    using assms changeOracles_rounds [of m removed added admins lo hi delay f f']
    by (auto simp: on_flux_Returns same_rounds_def same_money_def)
next
  case (UpdateFutureRounds payment lo hi delay tmo)
  then show ?thesis
    using assms updateFutureRounds_rounds [of m payment lo hi delay tmo f f']
    by (auto simp: on_flux_Returns same_rounds_def same_money_def)
next
  case RequestNewRound
  then show ?thesis
    using assms
    by (auto simp: on_flux_Returns bind_sol_Returns same_money_def set_requester_def opened_def dest!: requestNewRound_Returns)
qed (use assms in \<open>auto simp: on_flux_Returns transferAdmin_def acceptAdmin_def setRequesterPermissions_def setValidator_def
    transferOwnership_def acceptOwnership_def sol_simps set_defs Let_def same_money_def split: if_splits\<close>)

section \<open>Every call keeps the aggregator solvent\<close>

context link_interface
begin

definition solvent :: "flux \<times> 'w \<Rightarrow> bool" where
  "solvent fw = (case fw of (f, w) \<Rightarrow> linkToken f = link \<and> token_ok w \<and> books_balance (bal w) f)"

lemma books_mono: "books_balance n f \<Longrightarrow> n \<le> n' \<Longrightarrow> books_balance n' f"
  by (simp add: books_balance_def)

lemma updateAvailableFunds_solvent:
  assumes "updateAvailableFunds C m (f, w) = Returns (f', w')" "address_this m = agg" "linkToken f = link" "token_ok w"
    and "unat (allocated (recordedFunds f)) = owed f"
  shows "solvent (f', w') \<and> w' = w \<and> unat (available (recordedFunds f')) + unat (allocated (recordedFunds f)) = bal w \<and>
    allocated (recordedFunds f') = allocated (recordedFunds f)"
proof -
  obtain b l where b: "c_balanceOf C (linkToken f) (address_this m) w = Returns b"
    "ucast (allocated (recordedFunds f)) \<le> b" "w' = w"
    "f' = f\<lparr>recordedFunds := \<lparr>available = ucast (b - ucast (allocated (recordedFunds f))),
      allocated = allocated (recordedFunds f)\<rparr>, flux_logs := l\<rparr>"
    using updateAvailableFunds_Returns [OF assms(1)] by metis
  have small: "bal w < 2 ^ 128" using balance_fits assms(4) by blast
  then have "unat b = bal w" using b(1) assms(2-4) balanceOf by (auto simp: unat_of_nat)
  moreover from this have "unat (b - ucast (allocated (recordedFunds f))) = bal w - unat (allocated (recordedFunds f))"
    "unat (allocated (recordedFunds f)) \<le> bal w"
    using b(2) by (simp_all add: unat_sub word_le_nat_alt)
  moreover from this small have "unat (ucast (b - ucast (allocated (recordedFunds f))) :: uint128) =
      bal w - unat (allocated (recordedFunds f))"
    by (simp add: unsigned_ucast_eq take_bit_nat_eq_self_iff)
  ultimately show ?thesis
    using assms(3-5) b(3,4) by (simp add: solvent_def books_balance_def owed_def)
qed

lemma withdrawPayment_Returns:
  assumes "withdrawPayment C m a to amount (f, w) = Returns (f', w')"
  obtains ok where "os_admin (oracles f a) = msg_sender m" "(ucast amount :: uint128) \<le> os_withdrawable (oracles f a)"
    "(ucast amount :: uint128) \<le> allocated (recordedFunds f)"
    "c_transfer C (linkToken f) (address_this m) to (ucast (ucast amount :: uint128)) w = Returns (ok, w')"
    "f' = (set_oracle a (\<lambda>os. os\<lparr>os_withdrawable := os_withdrawable (oracles f a) - ucast amount\<rparr>) f)
      \<lparr>recordedFunds := (recordedFunds f)\<lparr>allocated := allocated (recordedFunds f) - ucast amount\<rparr>\<rparr>"
  using assms by (auto simp: withdrawPayment_def sol_simps set_oracle_def Let_def)

lemma withdrawPayment_solvent:
  assumes "withdrawPayment C m a to amount (f, w) = Returns (f', w')" "address_this m = agg" "solvent (f, w)"
  shows "solvent (f', w')"
proof -
  let ?v = "ucast amount :: uint128"
  obtain ok where w: "?v \<le> os_withdrawable (oracles f a)" "?v \<le> allocated (recordedFunds f)"
    "c_transfer C (linkToken f) (address_this m) to (ucast ?v) w = Returns (ok, w')"
    "f' = (set_oracle a (\<lambda>os. os\<lparr>os_withdrawable := os_withdrawable (oracles f a) - ?v\<rparr>) f)
      \<lparr>recordedFunds := (recordedFunds f)\<lparr>allocated := allocated (recordedFunds f) - ?v\<rparr>\<rparr>"
    by (rule withdrawPayment_Returns [OF assms(1)])
  from assms(2,3) w(3) have tr: "token_ok w'" "if to = agg then bal w' = bal w else bal w' + unat ?v = bal w"
    using transfer_moves [of w to "ucast ?v" ok w'] by (auto simp: solvent_def)
  have "owed f' + unat (os_withdrawable (oracles f a)) = owed f + unat (os_withdrawable (oracles f' a))"
    by (rule owed_update) (auto simp: w(4) set_oracle_def)
  then have "owed f' + unat ?v = owed f"
    using w(1) by (simp add: w(4) set_oracle_def unat_sub word_le_nat_alt)
  with assms(3) tr w(2) show ?thesis
    by (auto simp: solvent_def books_balance_def w(4) set_oracle_def unat_sub word_le_nat_alt owed_def split: if_splits)
qed

lemma withdrawFunds_Returns:
  assumes "withdrawFunds C m to amount (f, w) = Returns (f', w')"
  obtains reserve :: uint256 and w1 where "msg_sender m = owner f" "unat reserve = 2 * (unat (paymentAmount f) * unat (oracleCount f))"
    "unat reserve + unat amount \<le> unat (available (recordedFunds f))"
    "c_transfer C (linkToken f) (address_this m) to amount w = Returns (True, w1)"
    "updateAvailableFunds C m (f, w1) = Returns (f', w')"
proof -
  obtain reserve x w1 where s: "msg_sender m = owner f" "requiredReserve (ucast (paymentAmount f)) f = Returns reserve"
    "safe_sub (ucast (available (recordedFunds f))) reserve = Returns x" "amount \<le> x"
    "c_transfer C (linkToken f) (address_this m) to amount w = Returns (True, w1)"
    "updateAvailableFunds C m (f, w1) = Returns (f', w')"
    using assms by (auto simp: withdrawFunds_def onlyOwner_Returns bind_sol_Returns require_Returns)
  have "unat reserve = 2 * (unat (paymentAmount f) * unat (oracleCount f))"
    using s(2) by (auto simp: requiredReserve_def bind_sol_Returns RESERVE_ROUNDS_def dest!: exact_product)
  moreover have "unat reserve + unat amount \<le> unat (available (recordedFunds f))"
    using exact_difference [OF s(3)] s(4) by (simp add: word_le_nat_alt)
  ultimately show thesis by (rule that [OF s(1) _ _ s(5,6)])
qed

lemma withdrawFunds_solvent:
  assumes "withdrawFunds C m to amount (f, w) = Returns (f', w')" "address_this m = agg" "solvent (f, w)"
  shows "solvent (f', w') \<and> allocated (recordedFunds f') = allocated (recordedFunds f) \<and>
    2 * (unat (paymentAmount f) * unat (oracleCount f)) \<le> unat (available (recordedFunds f'))"
proof -
  obtain reserve :: uint256 and w1 where s: "unat reserve = 2 * (unat (paymentAmount f) * unat (oracleCount f))"
    "unat reserve + unat amount \<le> unat (available (recordedFunds f))"
    "c_transfer C (linkToken f) (address_this m) to amount w = Returns (True, w1)"
    "updateAvailableFunds C m (f, w1) = Returns (f', w')"
    by (rule withdrawFunds_Returns [OF assms(1)])
  from assms(2,3) s(3) have tr: "token_ok w1" "bal w \<le> bal w1 + unat amount"
    using transfer_moves [of w to amount True w1] by (auto simp: solvent_def split: if_splits)
  from assms(2,3) tr(1) have "solvent (f', w')"
    "unat (available (recordedFunds f')) + unat (allocated (recordedFunds f)) = bal w1"
    "allocated (recordedFunds f') = allocated (recordedFunds f)"
    using updateAvailableFunds_solvent [OF s(4)] by (auto simp: solvent_def books_balance_def)
  with s(1,2) tr(2) assms(3) show ?thesis by (auto simp: solvent_def books_balance_def)
qed

lemma submitted_books:
  assumes "payable m (rs_paymentAmount (details_of m r f)) (oracle_opened m r f)" "books_balance n f"
  shows "books_balance n (submitted m r s x f)"
proof -
  let ?f' = "submitted m r s x f" and ?p = "rs_paymentAmount (details_of m r f)" and ?me = "msg_sender m"
  have pay: "?p \<le> available (recordedFunds f)" "unat (allocated (recordedFunds f)) + unat ?p < 2 ^ 128"
    "unat (os_withdrawable (oracles f ?me)) + unat ?p < 2 ^ 128"
    using assms(1) by (simp_all add: payable_def oracle_opened_fields oracle_opened_status)
  have "owed ?f' + unat (os_withdrawable (oracles f ?me)) = owed f + unat (os_withdrawable (oracles ?f' ?me))"
    by (rule owed_update) (auto simp: submitted_fields oracle_opened_status)
  moreover have "unat (os_withdrawable (oracles ?f' ?me)) = unat (os_withdrawable (oracles f ?me)) + unat ?p"
    using pay(3) by (simp add: submitted_fields oracle_opened_status unat_plus_no_wrap)
  moreover have "unat (allocated (recordedFunds ?f')) = unat (allocated (recordedFunds f)) + unat ?p"
    "unat (available (recordedFunds ?f')) + unat ?p = unat (available (recordedFunds f))"
    using pay(1,2) by (simp_all add: submitted_fields unat_plus_no_wrap unat_sub word_le_nat_alt)
  ultimately show ?thesis using assms(2) by (simp add: books_balance_def)
qed

lemma validateAnswer_world:
  assumes "validateAnswer C m r x (f, w) = Returns (f', w')"
  shows "w' = w \<or> (\<exists>av gas p y q z b. c_validate C av (address_this m) gas p y q z w = Replied b w')"
  using assms by (auto simp: validateAnswer_def sol_simps Let_def split: if_splits validator_reply.splits)

lemma submit_world:
  assumes "submit C m roundId s (f, w) = Returns (f', w')"
  shows "w' = w \<or> (\<exists>av gas p y q z b. c_validate C av (address_this m) gas p y q z w = Replied b w')"
  using assms by (auto simp: submit_def bind_sol_Returns require_Returns Let_def dest!: validateAnswer_world split: if_splits)

lemma submit_solvent:
  assumes "submit C m roundId s (f, w) = Returns (f', w')" "address_this m = agg" "solvent (f, w)"
  shows "solvent (f', w')"
proof -
  obtain x where x: "payable m (rs_paymentAmount (details_of m (ucast roundId) f)) (oracle_opened m (ucast roundId) f)"
    "f' = submitted m (ucast roundId) s x f"
    using submit_Returns [OF assms(1) refl] by blast
  have w': "token_ok w' \<and> bal w \<le> bal w'"
    using submit_world [OF assms(1)] assms(2,3) validate_harmless by (auto simp: solvent_def)
  have "books_balance (bal w) f'"
    unfolding x(2) using assms(3) by (intro submitted_books [OF x(1)]) (simp add: solvent_def)
  moreover have "linkToken f' = link" using assms(3) by (simp add: x(2) submitted_fields solvent_def)
  ultimately show ?thesis using w' books_mono by (auto simp: solvent_def)
qed

text \<open>Every call keeps the aggregator solvent.\<close>

lemma call_solvent:
  assumes "flux_exec C m c (f, w) = Returns (f', w')" "address_this m = agg" "solvent (f, w)"
  shows "solvent (f', w')"
proof (cases "moneyless c")
  case True
  then show ?thesis
    using moneyless_calls [OF assms(1)] same_money_books assms(3) by (auto simp: solvent_def same_money_def)
next
  case False
  have update: "updateAvailableFunds C m (f, w) = Returns (f', w') \<Longrightarrow> solvent (f', w')"
    using updateAvailableFunds_solvent [of m f w f' w'] assms(2,3) by (auto simp: solvent_def books_balance_def)
  show ?thesis
  proof (cases c)
    case (OnTokenTransfer d)
    then show ?thesis using assms(1) update by (simp add: onTokenTransfer_def require_Returns)
  qed (use assms(1) False update submit_solvent [OF _ assms(2,3)] withdrawPayment_solvent [OF _ assms(2,3)]
      withdrawFunds_solvent [OF _ assms(2,3)] in auto)
qed

lemma reach_solvent:
  assumes "flux_reach C agg link init env (f, w)" "\<And>w. init w \<Longrightarrow> token_ok w"
  shows "solvent (f, w)"
  using assms(1)
proof (induction "(f, w)" arbitrary: f w rule: flux_reach.induct)
  case (deployed m payment tmo val lo hi decs desc f w)
  then show ?case
    using FluxAggregator_Returns [OF deployed(1)] assms(2) [OF deployed(5)]
    by (auto simp: solvent_def books_balance_def owed_def no_oracle_def)
next
  case (called f w m c f' w')
  then show ?case using call_solvent by blast
next
  case (elsewhere f w w')
  then show ?case using env_harmless [of w w'] books_mono by (auto simp: solvent_def)
qed

text \<open>An oracle's admin can always withdraw what the oracle has earned.\<close>

lemma withdrawal_possible:
  assumes "flux_reach C agg link init env (f, w)" "\<And>w. init w \<Longrightarrow> token_ok w"
    and "address_this m = agg" "msg_sender m = os_admin (oracles f a)"
    and "unat amount \<le> unat (os_withdrawable (oracles f a))" "recipient to"
  shows "\<exists>f' w'. withdrawPayment C m a to amount (f, w) = Returns (f', w') \<and>
    c_transfer C link agg to amount w = Returns (True, w') \<and>
    unat (os_withdrawable (oracles f' a)) + unat amount = unat (os_withdrawable (oracles f a))"
proof -
  have solv: "solvent (f, w)" using assms(1,2) by (rule reach_solvent)
  have am: "unat (ucast amount :: uint128) = unat amount"
  proof -
    have "unat (os_withdrawable (oracles f a)) < 2 ^ LENGTH(128)" by (rule unsigned_less)
    with assms(5) show ?thesis by (simp add: unsigned_ucast_eq take_bit_nat_eq_self_iff)
  qed
  then have same: "ucast (ucast amount :: uint128) = amount" by (simp add: word_unat_eq_iff)
  have le: "(ucast amount :: uint128) \<le> os_withdrawable (oracles f a)" using assms(5) am by (simp add: word_le_nat_alt)
  have "unat (os_withdrawable (oracles f a)) \<le> owed f" unfolding owed_def by (rule member_le_sum) auto
  with solv assms(5) have "unat amount \<le> unat (allocated (recordedFunds f))" "unat amount \<le> bal w"
    by (auto simp: solvent_def books_balance_def)
  moreover from this obtain w' where "c_transfer C link agg to amount w = Returns (True, w')"
    using transfer_succeeds [of w amount to] solv assms(6) by (auto simp: solvent_def)
  ultimately show ?thesis
    using solv assms(3,4) le am same
    by (auto simp: withdrawPayment_def solvent_def safe_sub_def require_def Let_def set_oracle_def word_le_nat_alt unat_sub)
qed

end

section \<open>With the LINK token\<close>

interpretation lt: link_interface "link_contracts link (V :: 'v validators)" link agg "token_good agg" "\<lambda>tv. unat (balances (fst tv) agg)"
  "\<lambda>to. to \<noteq> 0 \<and> to \<noteq> link" "link_env link agg"
  by (rule link_token_provides)

end
