(* ===== verification/Flux_Progress.thy ===== *)
theory Flux_Progress
  imports Flux_Funds
begin

text \<open>
  When a submission succeeds: no function of the aggregator fails for want of gas or by an
  overflow in a reachable state, and an oracle that \<open>oracleRoundState\<close> calls eligible can submit.
\<close>

section \<open>Calls that cannot fail\<close>

lemma timedOut_total: "rounds_ok f \<Longrightarrow> timedOut m r f = Returns (timed_out m r f)"
proof -
  assume "rounds_ok f"
  then have "unat (rd_startedAt (rounds f r)) < 2 ^ 63" by (simp add: rounds_ok_def round_ok_def)
  moreover have "unat (rs_timeout (details f r)) < 2 ^ LENGTH(32)" by (rule unsigned_less)
  ultimately show ?thesis by (simp add: timedOut_Returns)
qed

lemma supersedable_total:
  "rounds_ok f \<Longrightarrow> supersedable m r f = Returns (rd_updatedAt (rounds f r) > 0 \<or> timed_out m r f)"
  by (simp add: supersedable_def timedOut_total)

lemma initializeNewRound_total:
  assumes "rounds_ok f" "r \<noteq> 0"
  shows "initializeNewRound m r f = Returns (opened m r f)"
proof -
  have "\<exists>f'. updateTimedOutRoundInfo m (r - 1) f = Returns f'"
    using timed_out_positive [OF assms(1), of m "r - 1"]
    by (auto simp: updateTimedOutRoundInfo_def timedOut_total [OF assms(1)] safe_sub_def one_le_word Let_def)
  then have "\<exists>f'. initializeNewRound m r f = Returns f'"
    using assms(2) by (auto simp: initializeNewRound_def safe_sub_def one_le_word Let_def)
  then show ?thesis using initializeNewRound_Returns by blast
qed

lemma oracleInitializeNewRound_total:
  assumes "rounds_ok f" "r \<noteq> 0" "unat (reportingRoundId f) + 1 < 2 ^ 32"
  shows "oracleInitializeNewRound m r f = Returns (oracle_opened m r f)"
proof -
  have "safe_add (reportingRoundId f) 1 = Returns (reportingRoundId f + 1)" using assms(3) by (simp add: safe_add_Returns)
  then have "\<exists>f'. oracleInitializeNewRound m r f = Returns f'"
    using initializeNewRound_total [OF assms(1,2)] by (auto simp: oracleInitializeNewRound_def newRound_def Let_def)
  then show ?thesis using oracleInitializeNewRound_Returns by blast
qed

text \<open>Validation passes later, too, as long as nothing else happens.\<close>

lemma timed_out_mono: "timed_out m r f \<Longrightarrow> unat (block_timestamp m) \<le> unat (block_timestamp m') \<Longrightarrow> timed_out m' r f"
  by (auto simp: timed_out_def)

lemma validateOracleRound_later:
  assumes "validateOracleRound m a r f = Returns []" "rounds_ok f" "unat (block_timestamp m) \<le> unat (block_timestamp m')"
  shows "validateOracleRound m' a r f = Returns []"
  using assms timed_out_mono [OF _ assms(3)]
  by (auto simp: validateOracleRound_def Let_def bind_sol_Returns supersedable_total [OF assms(2)] split: if_splits)

text \<open>A submission succeeds if it passes validation, its round is open, and it can be paid for.\<close>

lemma submit_succeeds:
  assumes f: "rounds_ok f" "configured f" "oracles_listed f" and clock: "clock_ok m"
    and v: "validateOracleRound m (msg_sender m) (ucast roundId) f = Returns []"
    and s: "in_bounds f s" and rr: "unat (reportingRoundId f) + 1 < 2 ^ 32"
    and acc: "acceptingSubmissions (ucast roundId) (oracle_opened m (ucast roundId) f)"
    and pay: "payable m (rs_paymentAmount (details_of m (ucast roundId) f)) (oracle_opened m (ucast roundId) f)"
    and val: "\<And>gas p x q y. validator f \<noteq> 0 \<Longrightarrow> c_validate C (validator f) (address_this m) gas p x q y w \<noteq> NoCode \<and>
      c_validate C (validator f) (address_this m) gas p x q y w \<noteq> ShortReply"
  shows "\<exists>f' w'. submit C m roundId s (f, w) = Returns (f', w')"
proof -
  let ?r = "ucast roundId :: uint32" and ?f1 = "oracle_opened m (ucast roundId) f"
  have r: "?r \<noteq> 0" using validateOracleRound_ok [OF v] by auto
  have f1: "rounds_ok ?f1" using rounds_ok_oracle_opened [OF f(1) clock f(2) _ v] f(3) by (simp add: oracles_listed_def)
  let ?f2 = "recorded m s ?r ?f1"
  have d: "details_ok ?f1 (details ?f1 ?r)" using f1 by (simp add: rounds_ok_def)
  have subs: "\<forall>x\<in>set (rs_submissions (details ?f2 ?r)). is_int256 x" "rs_submissions (details ?f2 ?r) \<noteq> []"
    "length (rs_submissions (details ?f2 ?r)) \<le> 77"
    using d s acc by (auto simp: recorded_def details_ok_def in_bounds_def acceptingSubmissions_def)
  obtain upd x f3 where f3: "updateRoundAnswer m ?r ?f2 = Returns ((upd, x), f3)"
  proof (cases "enough (rs_submissions (details ?f2 ?r)) (details ?f2 ?r)")
    case True
    moreover obtain y ys where "calculateInplace (rs_submissions (details ?f2 ?r)) = Returns (y, ys)"
      using calculateInplace_sorted [OF subs(2) _ subs(1)] subs(3) by auto
    ultimately show ?thesis using that [of True y "answered m y ?r ?f2"] by (auto simp: updateRoundAnswer_Returns)
  next
    case False
    then show ?thesis using that [of False 0 ?f2] by (simp add: updateRoundAnswer_Returns)
  qed
  then have "payable m (rs_paymentAmount (details f3 ?r)) f3"
    using pay by (auto simp: updateRoundAnswer_Returns payable_def recorded_def answered_def split: if_splits)
  then obtain f4 where f4: "payOracle m ?r f3 = Returns f4" by (simp add: payOracle_Returns)
  have "validator (deleteRoundDetails ?r f4) = validator f"
    using f3 f4 by (auto simp: payOracle_Returns updateRoundAnswer_Returns deleteRoundDetails_def set_details_def paid_def
        answered_def recorded_def oracle_opened_fields split: if_splits)
  then have "\<exists>f' w'. validateAnswer C m ?r x (deleteRoundDetails ?r f4, w) = Returns (f', w')"
    using val [of VALIDATOR_GAS_LIMIT] r by (auto simp: validateAnswer_def safe_sub_def one_le_word Let_def split: validator_reply.splits)
  moreover have "recordSubmission m s ?r ?f1 = Returns ?f2" using acc by (simp add: recordSubmission_Returns)
  ultimately show ?thesis
    using v s f3 f4 oracleInitializeNewRound_total [OF f(1) r rr, of m]
    by (auto simp: submit_def in_bounds_def Let_def)
qed

section \<open>What \<open>oracleRoundState\<close> promises\<close>

text \<open>
  An oracle that is called eligible may report to the round, which is open or the next one, and is
  told the payment of that round.
\<close>

definition may_report :: "msg \<Rightarrow> address \<Rightarrow> uint32 \<Rightarrow> flux \<Rightarrow> bool" where
  "may_report m a r f \<longleftrightarrow>
     validateOracleRound m a r f = Returns [] \<and>
     (acceptingSubmissions r f \<or> r = reportingRoundId f + 1 \<and> may_start a r f)"

lemma suggested_round:
  assumes "oracleRoundStateSuggestRound m a f = Returns st" "st_eligibleToSubmit st" "rounds_ok f"
  shows "may_report m a (st_roundId st) f \<and>
    st_availableFunds st = available (recordedFunds f) \<and>
    st_paymentAmount st =
      (if st_roundId st = reportingRoundId f then rs_paymentAmount (details f (st_roundId st)) else paymentAmount f)"
  using assms
  by (auto simp: oracleRoundStateSuggestRound_def may_report_def delayed_may_start bind_sol_Returns safe_add_Returns Let_def
      split: if_splits)

lemma specific_round:
  assumes "eligibleForSpecificRound m a r f = Returns True" "rounds_ok f" "0 < r"
  shows "may_report m a r f \<and> (0 < rd_startedAt (rounds f r) \<longleftrightarrow> r \<le> reportingRoundId f)"
proof -
  have started: "0 < rd_startedAt (rounds f r) \<longleftrightarrow> r \<le> reportingRoundId f"
    using assms(2,3) unfolding rounds_ok_def by (metis linorder_not_less no_round_startedAt word_gt_0)
  have v: "validateOracleRound m a r f = Returns []"
    using assms(1) by (auto simp: eligibleForSpecificRound_def bind_sol_Returns split: if_splits)
  have "r = reportingRoundId f + 1" if "\<not> 0 < rd_startedAt (rounds f r)"
    using validateOracleRound_ok [OF v] that started by (auto simp: word_nat)
  with assms(1) v started show ?thesis
    by (auto simp: eligibleForSpecificRound_def may_report_def delayed_may_start split: if_splits)
qed

lemma next_round_later: "rounds_left f \<Longrightarrow> reportingRoundId f < reportingRoundId f + 1"
  using unat_next [of "reportingRoundId f"] by (simp add: rounds_left_def word_nat)

lemma eligible_state:
  assumes "oracleRoundState m a q f = Returns st" "st_eligibleToSubmit st" "rounds_ok f" "rounds_left f"
  shows "may_report m a (st_roundId st) f \<and> st_availableFunds st = available (recordedFunds f) \<and>
    st_paymentAmount st =
      (if st_roundId st \<le> reportingRoundId f then rs_paymentAmount (details f (st_roundId st)) else paymentAmount f)"
proof (cases "0 < q")
  case True
  then have "eligibleForSpecificRound m a q f = Returns True" "st_roundId st = q"
    "st_availableFunds st = available (recordedFunds f)"
    "st_paymentAmount st =
      (if 0 < rd_startedAt (rounds f q) then rs_paymentAmount (details f q) else paymentAmount f)"
    using assms(1,2) by (auto simp: oracleRoundState_def require_Returns bind_sol_Returns)
  then show ?thesis using specific_round [OF _ assms(3) True] by simp
next
  case False
  then have st: "oracleRoundStateSuggestRound m a f = Returns st"
    using assms(1) by (simp add: oracleRoundState_def require_Returns)
  have "may_report m a (st_roundId st) f" using suggested_round [OF st assms(2,3)] by blast
  then have "st_roundId st \<le> reportingRoundId f \<or> st_roundId st = reportingRoundId f + 1"
    using accepting_round(2) [OF assms(3)] by (auto simp: may_report_def)
  moreover have "st_roundId st = reportingRoundId f \<or> st_roundId st = reportingRoundId f + 1"
    using st by (auto simp: oracleRoundStateSuggestRound_def bind_sol_Returns safe_add_Returns Let_def split: if_splits)
  ultimately show ?thesis
    using suggested_round [OF st assms(2,3)] next_round_later [OF assms(4)] by auto
qed

text \<open>The round is open when the submission is recorded, and pays what was announced.\<close>

lemma reported_round:
  assumes "may_report m a r f" "rounds_ok f" "rounds_left f" "configured f" "oracleAddresses f \<noteq> []" "msg_sender m' = a"
  shows "acceptingSubmissions r (oracle_opened m' r f) \<and>
    rs_paymentAmount (details_of m' r f) =
      (if r \<le> reportingRoundId f then rs_paymentAmount (details f r) else paymentAmount f)"
proof (cases "acceptingSubmissions r f")
  case True
  then have "r \<le> reportingRoundId f" using accepting_round(2) assms(2) by blast
  moreover from this have "oracle_opened m' r f = f"
    using next_round_later [OF assms(3)] by (auto simp: oracle_opened_def)
  ultimately show ?thesis using True by simp
next
  case False
  then have "r = reportingRoundId f + 1" "may_start a r f" using assms(1) by (auto simp: may_report_def)
  moreover have "maxSubmissionCount f \<noteq> 0" using assms(4,5) by (auto simp: configured_def config_ok_def)
  ultimately show ?thesis
    using next_round_later [OF assms(3)] assms(6)
    by (auto simp: oracle_opened_def opened_def set_oracle_def fresh_details_def acceptingSubmissions_def)
qed

lemma ucast_32_256 [simp]: "ucast (ucast (x :: uint32) :: uint256) = x"
  by transfer simp

context link_interface
begin

lemma solvent_payable:
  assumes "solvent (f, w)" "v \<le> available (recordedFunds f)"
  shows "payable m v f"
proof -
  have "unat (os_withdrawable (oracles f (msg_sender m))) \<le> owed f" unfolding owed_def by (rule member_le_sum) auto
  moreover have "unat v \<le> unat (available (recordedFunds f))" using assms(2) by (simp add: word_le_nat_alt)
  ultimately show ?thesis
    using assms balance_fits [of w] by (auto simp: solvent_def books_balance_def payable_def)
qed

lemma eligible_submits:
  assumes reach: "flux_reach C agg link init env (f, w)" "\<And>w. init w \<Longrightarrow> token_ok w"
    and st: "oracleRoundState m a q f = Returns st" "st_eligibleToSubmit st" "st_paymentAmount st \<le> st_availableFunds st"
    and f: "rounds_left f" "oracleAddresses f \<noteq> []"
    and m': "msg_sender m' = a" "address_this m' = agg" "clock_ok m'" "unat (block_timestamp m) \<le> unat (block_timestamp m')"
    and s: "minSubmissionValue f \<le> s" "s \<le> maxSubmissionValue f" "is_int256 s"
    and val: "\<And>gas p x q y. validator f \<noteq> 0 \<Longrightarrow> c_validate C (validator f) agg gas p x q y w \<noteq> NoCode \<and>
      c_validate C (validator f) agg gas p x q y w \<noteq> ShortReply"
  shows "\<exists>f' w'. submit C m' (ucast (st_roundId st)) s (f, w) = Returns (f', w')"
proof -
  let ?r = "st_roundId st"
  have ok: "rounds_ok f" "configured f" "oracles_listed f"
    using rounds_invariant [OF reach(1)] oracles_invariant [OF reach(1)] by auto
  note el = eligible_state [OF st(1,2) ok(1) f(1)]
  then have rep: "acceptingSubmissions ?r (oracle_opened m' ?r f)"
    "rs_paymentAmount (details_of m' ?r f) = st_paymentAmount st"
    using reported_round [OF _ ok(1) f(1) ok(2) f(2) m'(1)] by auto
  have "validateOracleRound m' (msg_sender m') ?r f = Returns []"
    using el validateOracleRound_later [OF _ ok(1) m'(4)] by (simp add: m'(1) may_report_def)
  moreover have "payable m' (st_paymentAmount st) (oracle_opened m' ?r f)"
    using solvent_payable [OF reach_solvent [OF reach], of "st_paymentAmount st" m'] el st(3)
    by (simp add: payable_def oracle_opened_fields oracle_opened_status)
  ultimately show ?thesis
    using ok m'(3) f(1) s rep val by (intro submit_succeeds) (auto simp: in_bounds_def rounds_left_def m'(2))
qed

end

end
