(* ===== verification/Flux_History.thy ===== *)
theory Flux_History
  imports Flux_Progress
begin

text \<open>
  What no call of the aggregator undoes: the numbers of the reporting and of the latest round and
  of the last round an oracle reported to never decrease, and the record of a round that is no
  longer open is final. Then who may take over a role: the owner and the admins of the oracles
  change in two steps only (\<open>sol_handover\<close>, interpreted in \<open>Owned\<close> for the owner and here for the
  admins).
\<close>

section \<open>Runs\<close>

inductive flux_run ::
  "'w contracts \<Rightarrow> address \<Rightarrow> ('w \<Rightarrow> 'w \<Rightarrow> bool) \<Rightarrow> flux \<times> 'w \<Rightarrow> flux \<times> 'w \<Rightarrow> bool"
  for C :: "'w contracts" and agg :: address and env :: "'w \<Rightarrow> 'w \<Rightarrow> bool" and start :: "flux \<times> 'w" where
  run_stop: "flux_run C agg env start start"
| run_called: "flux_run C agg env start (f, w) \<Longrightarrow> rounds_left f \<Longrightarrow> clock_ok m \<Longrightarrow> address_this m = agg \<Longrightarrow>
    msg_sender m \<noteq> agg \<Longrightarrow> call_typed c \<Longrightarrow> flux_exec C m c (f, w) = Returns (f', w') \<Longrightarrow>
    flux_run C agg env start (f', w')"
| run_elsewhere: "flux_run C agg env start (f, w) \<Longrightarrow> env w w' \<Longrightarrow> flux_run C agg env start (f, w')"

lemma run_reach:
  "flux_run C agg env fw fw' \<Longrightarrow> flux_reach C agg link init env fw \<Longrightarrow> flux_reach C agg link init env fw'"
  by (induction rule: flux_run.induct) (auto intro: flux_reach.intros)

definition later :: "flux \<Rightarrow> flux \<Rightarrow> bool" where
  "later f f' \<longleftrightarrow>
     reportingRoundId f \<le> reportingRoundId f' \<and> latestRoundId f \<le> latestRoundId f' \<and>
     (\<forall>a. os_lastReportedRound (oracles f a) \<le> os_lastReportedRound (oracles f' a)) \<and>
     (\<forall>r. unat r + 1 < unat (reportingRoundId f) \<longrightarrow> rounds f' r = rounds f r)"

lemma later_refl [simp]: "later f f"
  by (simp add: later_def)

lemma later_trans: "later f g \<Longrightarrow> later g h \<Longrightarrow> later f h"
  unfolding later_def word_le_nat_alt by (auto intro: le_trans dest: less_le_trans)

lemma later_same_rounds: "same_rounds f f' \<Longrightarrow> later f f'"
  by (simp add: later_def same_rounds_def)

lemma later_core:
  assumes "core f' = core f"
  shows "later f f'"
proof -
  have "reportingRoundId (core f') = reportingRoundId (core f)" "latestRoundId (core f') = latestRoundId (core f)"
    "rounds (core f') = rounds (core f)" "\<And>a. os_lastReportedRound (oracles (core f') a) = os_lastReportedRound (oracles (core f) a)"
    by (simp_all add: assms)
  then show ?thesis by (simp add: later_def core_def)
qed

lemma later_opened:
  assumes "unat (reportingRoundId f) + 1 < 2 ^ 32"
  shows "later f (opened m (reportingRoundId f + 1) f)"
  using unat_next [OF assms] by (auto simp: later_def opened_def closed_rounds_def word_nat word_unat_eq_iff)

lemma later_submitted:
  assumes "validateOracleRound m (msg_sender m) r f = Returns []" "acceptingSubmissions r (oracle_opened m r f)"
    "unat (reportingRoundId f) + 1 < 2 ^ 32" "latestRoundId f \<le> r" "rounds_ok f"
  shows "later f (submitted m r s x f)"
proof -
  have r: "os_lastReportedRound (oracles f (msg_sender m)) < r" "unat (reportingRoundId f) \<le> unat r + 1"
    using validateOracleRound_ok [OF assms(1)] unat_next [OF assms(3)] by auto
  have "later f (oracle_opened m r f)"
  proof (cases "r = reportingRoundId f + 1 \<and> may_start (msg_sender m) r f")
    case True
    then show ?thesis
      using later_opened [OF assms(3), of m] by (auto simp: oracle_opened_def later_def set_oracle_def)
  next
    case False
    then show ?thesis unfolding oracle_opened_def if_not_P [OF False] by simp
  qed
  then show ?thesis
    using r assms(4) by (auto simp: later_def submitted_fields oracle_opened_fields oracle_opened_status)
qed

lemma exec_later:
  assumes "flux_exec C m c (f, w) = Returns (f', w')" "flux_reach C agg link init env (f, w)" "clock_ok m" "call_typed c"
  shows "later f f'"
proof (cases "light c")
  case True
  then show ?thesis using light_core [OF assms(1)] later_core by blast
next
  case False
  with assms(1) show ?thesis
  proof (cases rule: heavy_cases)
    case (submit roundId s)
    have ok: "rounds_ok f" "configured f" "oracles_listed f"
      using rounds_invariant [OF assms(2)] oracles_invariant [OF assms(2)] by auto
    from submit assms(4) have "is_int256 s" by (simp add: call_typed_def)
    note sub = submit_rounds_ok [OF submit(2) ok(1) assms(3) ok(2,3) this refl]
    obtain x where "unat (reportingRoundId f) + 1 < 2 ^ 32" by (rule submit_Returns [OF submit(2) refl])
    then show ?thesis using sub later_submitted ok(1) by blast
  next
    case (change removed added admins lo hi delay)
    then show ?thesis using changeOracles_rounds later_same_rounds by blast
  next
    case (update payment lo hi delay tmo)
    then show ?thesis using updateFutureRounds_rounds later_same_rounds by blast
  next
    case (request n)
    note req = requestNewRound_Returns [OF request(2)]
    then show ?thesis using later_opened [of f m] by (auto simp: later_def set_requester_def)
  qed
qed

lemma run_later:
  assumes "flux_run C agg env (f, w) (f', w')" "flux_reach C agg link init env (f, w)"
  shows "later f f'"
  using assms(1)
proof (induction "(f', w')" arbitrary: f' w' rule: flux_run.induct)
  case (run_called f1 w1 m c f2 w2)
  then show ?case
    using exec_later [OF run_called(8) run_reach [OF run_called(1) assms(2)] run_called(4,7)] later_trans by blast
qed simp_all

text \<open>An oracle that has reported to a round is turned down there and on earlier rounds.\<close>

lemma reported_rejects:
  assumes "ucast roundId \<le> os_lastReportedRound (oracles f (msg_sender m))"
  shows "\<exists>e. submit C m roundId s (f, w) = Reverts e"
  using assms by (auto simp: submit_def validateOracleRound_def require_def Let_def)

lemma submit_reports:
  assumes "submit C m roundId s (f, w) = Returns (f', w')"
  shows "os_lastReportedRound (oracles f' (msg_sender m)) = ucast roundId"
  by (rule submit_Returns [OF assms refl]) (simp add: submitted_fields)

section \<open>Roles\<close>

interpretation flux_admin: sol_handover "getAdmin a" "\<lambda>f. os_pendingAdmin (oracles f a)"
  "\<lambda>m newAdmin. transferAdmin m a newAdmin" "\<lambda>m. acceptAdmin m a"
  by unfold_locales (auto simp: transferAdmin_def acceptAdmin_def require_def Let_def getAdmin_def set_oracle_def flux_emit_def)

definition same_roles :: "flux \<Rightarrow> flux \<Rightarrow> bool" where
  "same_roles f f' \<longleftrightarrow>
     owner f' = owner f \<and> pendingOwner f' = pendingOwner f \<and>
     (\<forall>a. getAdmin a f' = getAdmin a f \<and> os_pendingAdmin (oracles f' a) = os_pendingAdmin (oracles f a))"

text \<open>Adding oracles names admins where there is none.\<close>

definition admins_added :: "flux \<Rightarrow> flux \<Rightarrow> bool" where
  "admins_added f f' \<longleftrightarrow>
     owner f' = owner f \<and> pendingOwner f' = pendingOwner f \<and>
     (\<forall>a. (getAdmin a f \<noteq> 0 \<longrightarrow> getAdmin a f' = getAdmin a f) \<and>
        os_pendingAdmin (oracles f' a) = os_pendingAdmin (oracles f a))"

lemma admins_added_trans: "admins_added f g \<Longrightarrow> admins_added g h \<Longrightarrow> admins_added f h"
  unfolding admins_added_def by metis

lemma addOracle_admins: "addOracle a adm f = Returns f' \<Longrightarrow> admins_added f f'"
  by (drule addOracle_Returns) (auto simp: admins_added_def getAdmin_def)

lemma removeOracle_admins: "removeOracle a f = Returns f' \<Longrightarrow> admins_added f f'"
  by (drule removeOracle_Returns) (auto simp: admins_added_def getAdmin_def)

lemma addOracles_admins: "addOracles as f = Returns f' \<Longrightarrow> admins_added f f'"
proof (induction as f rule: addOracles.induct)
  case (2 a adm as f)
  then show ?case using addOracle_admins admins_added_trans by (fastforce simp: bind_sol_Returns)
qed (simp add: admins_added_def)

lemma removeOracles_admins: "removeOracles as f = Returns f' \<Longrightarrow> admins_added f f'"
proof (induction as f rule: removeOracles.induct)
  case (2 a as f)
  then show ?case using removeOracle_admins admins_added_trans by (fastforce simp: bind_sol_Returns)
qed (simp add: admins_added_def)

lemma changeOracles_admins:
  assumes "changeOracles m removed added admins lo hi delay f = Returns f'"
  shows "msg_sender m = owner f \<and> admins_added f f'"
proof -
  obtain f1 f2 where "msg_sender m = owner f" "removeOracles removed f = Returns f1" "addOracles (zip added admins) f1 = Returns f2"
    "updateFutureRounds m (paymentAmount f2) lo hi delay (timeout f2) f2 = Returns f'"
    using assms by (auto simp: changeOracles_def onlyOwner_Returns bind_sol_Returns require_Returns)
  moreover from this(4) have "admins_added f2 f'"
    by (auto dest!: updateFutureRounds_Returns simp: admins_added_def getAdmin_def)
  ultimately show ?thesis using removeOracles_admins addOracles_admins admins_added_trans by blast
qed

lemma submit_roles: "submit C m roundId s (f, w) = Returns (f', w') \<Longrightarrow> same_roles f f'"
  by (erule submit_Returns [OF _ refl]) (auto simp: same_roles_def getAdmin_def submitted_fields oracle_opened_fields oracle_opened_status)

lemma updateAvailableFunds_roles: "updateAvailableFunds C m (f, w) = Returns (f', w') \<Longrightarrow> same_roles f f'"
  by (erule updateAvailableFunds_Returns) (simp add: same_roles_def getAdmin_def)

fun role_call :: "flux_call \<Rightarrow> bool" where
  "role_call (TransferOwnership _) = True"
| "role_call AcceptOwnership = True"
| "role_call (TransferAdmin _ _) = True"
| "role_call (AcceptAdmin _) = True"
| "role_call (ChangeOracles _ _ _ _ _ _) = True"
| "role_call _ = False"

lemma other_calls_roles:
  assumes "flux_exec C m c (f, w) = Returns (f', w')" "\<not> role_call c"
  shows "same_roles f f'"
proof (cases c)
  case (Submit roundId s)
  then show ?thesis using assms submit_roles by simp
next
  case (UpdateFutureRounds payment lo hi delay tmo)
  then show ?thesis using assms by (auto simp: on_flux_Returns same_roles_def getAdmin_def dest!: updateFutureRounds_Returns)
next
  case RequestNewRound
  then show ?thesis
    using assms by (auto simp: on_flux_Returns bind_sol_Returns same_roles_def getAdmin_def set_requester_def opened_def
        dest!: requestNewRound_Returns)
next
  case UpdateAvailableFunds
  then show ?thesis using assms updateAvailableFunds_roles by simp
next
  case (OnTokenTransfer d)
  then show ?thesis using assms updateAvailableFunds_roles by (auto simp: onTokenTransfer_def require_Returns)
next
  case (WithdrawFunds to amount)
  then show ?thesis
    using assms by (auto simp: withdrawFunds_def onlyOwner_Returns bind_sol_Returns require_Returns dest!: updateAvailableFunds_roles)
qed (use assms in \<open>auto simp: on_flux_Returns withdrawPayment_def setRequesterPermissions_def setValidator_def
    sol_simps set_defs Let_def same_roles_def getAdmin_def split: if_splits\<close>)

text \<open>A call that changes a role is by the one who holds it or was nominated for it.\<close>

lemma roles_step:
  assumes "flux_exec C m c (f, w) = Returns (f', w')"
  shows "(owner f' \<noteq> owner f \<longrightarrow> c = AcceptOwnership \<and> msg_sender m = pendingOwner f \<and> owner f' = msg_sender m)"
    and "(pendingOwner f' \<noteq> pendingOwner f \<longrightarrow>
      c = TransferOwnership (pendingOwner f') \<and> msg_sender m = owner f \<or>
      c = AcceptOwnership \<and> msg_sender m = pendingOwner f \<and> pendingOwner f' = 0)"
    and "(getAdmin a f' \<noteq> getAdmin a f \<longrightarrow>
      c = AcceptAdmin a \<and> msg_sender m = os_pendingAdmin (oracles f a) \<and> getAdmin a f' = msg_sender m \<or>
      (\<exists>removed added admins lo hi delay. c = ChangeOracles removed added admins lo hi delay) \<and>
        msg_sender m = owner f \<and> getAdmin a f = 0)"
    and "(os_pendingAdmin (oracles f' a) \<noteq> os_pendingAdmin (oracles f a) \<longrightarrow>
      c = TransferAdmin a (os_pendingAdmin (oracles f' a)) \<and> msg_sender m = getAdmin a f \<or>
      c = AcceptAdmin a \<and> msg_sender m = os_pendingAdmin (oracles f a) \<and> os_pendingAdmin (oracles f' a) = 0)"
proof -
  have cases: "same_roles f f' \<or> role_call c" using other_calls_roles [OF assms] by blast
  have change: "msg_sender m = owner f \<and> admins_added f f'" if "c = ChangeOracles removed added admins lo hi delay"
    for removed added admins lo hi delay
    using assms that changeOracles_admins by (auto simp: on_flux_Returns)
  note defs = on_flux_Returns transferAdmin_def acceptAdmin_def transferOwnership_def acceptOwnership_def sol_simps Let_def
    set_oracle_def flux_emit_def getAdmin_def
  show "owner f' \<noteq> owner f \<longrightarrow> c = AcceptOwnership \<and> msg_sender m = pendingOwner f \<and> owner f' = msg_sender m"
    using cases assms change by (cases c) (auto simp: same_roles_def admins_added_def defs)
  show "pendingOwner f' \<noteq> pendingOwner f \<longrightarrow>
      c = TransferOwnership (pendingOwner f') \<and> msg_sender m = owner f \<or>
      c = AcceptOwnership \<and> msg_sender m = pendingOwner f \<and> pendingOwner f' = 0"
    using cases assms change by (cases c) (auto simp: same_roles_def admins_added_def defs)
  show "getAdmin a f' \<noteq> getAdmin a f \<longrightarrow>
      c = AcceptAdmin a \<and> msg_sender m = os_pendingAdmin (oracles f a) \<and> getAdmin a f' = msg_sender m \<or>
      (\<exists>removed added admins lo hi delay. c = ChangeOracles removed added admins lo hi delay) \<and>
        msg_sender m = owner f \<and> getAdmin a f = 0"
    using cases assms change by (cases c) (auto simp: same_roles_def admins_added_def defs split: if_splits)
  show "os_pendingAdmin (oracles f' a) \<noteq> os_pendingAdmin (oracles f a) \<longrightarrow>
      c = TransferAdmin a (os_pendingAdmin (oracles f' a)) \<and> msg_sender m = getAdmin a f \<or>
      c = AcceptAdmin a \<and> msg_sender m = os_pendingAdmin (oracles f a) \<and> os_pendingAdmin (oracles f' a) = 0"
    using cases assms change by (cases c) (auto simp: same_roles_def admins_added_def defs split: if_splits)
qed

end
