(* ===== verification/Flux_Sample.thy ===== *)
theory Flux_Sample
  imports Flux_History
begin

text \<open>
  A short history of the aggregator with the LINK token, evaluated step by step. It shows that
  the hypotheses of the properties hold together: its states are reached by calls of the
  contracts.
\<close>

section \<open>Deployment and funding\<close>

text \<open>
  Account 1 deploys the token at address 9 and the aggregator at address 7; the oracles are 2 and
  3, with the admins 12 and 13, and 20 may request rounds. Submissions lie between 1 and 1000 and
  are paid 10; a round times out after 100 seconds and answers from one submission on. The
  contract at 55 is a validator; there is no other.
\<close>

definition by_at :: "uint256 \<Rightarrow> address \<Rightarrow> msg" where
  "by_at t a = \<lparr>msg_sender = a, tx_origin = a, block_timestamp = t, address_this = 7\<rparr>"

definition sample_validators :: "unit validators" where
  "sample_validators av gas p x q y tv = (if av = 55 then VReply True [] () else VNoCode)"

abbreviation sample_contracts :: "(link_token \<times> unit) contracts" where
  "sample_contracts \<equiv> link_contracts 9 sample_validators"

abbreviation sample_reach :: "flux \<times> link_token \<times> unit \<Rightarrow> bool" where
  "sample_reach \<equiv> flux_reach sample_contracts 7 9 (link_start 9 7) (link_env 9 7)"

definition sample_tokens :: "link_token \<times> unit" where
  "sample_tokens =
     (\<lparr>balances = (\<lambda>_. 0)(1 := 10 ^ 27 - 500, 7 := 500), allowed = \<lambda>_ _. 0, link_logs = [Transfer 1 7 500]\<rparr>, ())"

definition sample_deployed :: flux where
  "sample_deployed =
     \<lparr>owner = 1, pendingOwner = 0, owned_logs = [], linkToken = 9, validator = 55, paymentAmount = 10,
      maxSubmissionCount = 0, minSubmissionCount = 0, restartDelay = 0, timeout = 100, decimals = 2, description = ''BTC'',
      minSubmissionValue = 1, maxSubmissionValue = 1000, reportingRoundId = 0, latestRoundId = 0, oracles = \<lambda>_. no_oracle,
      rounds = (\<lambda>_. no_round)(0 := no_round\<lparr>rd_updatedAt := 900\<rparr>), details = \<lambda>_. no_details,
      requesters = \<lambda>_. no_requester, oracleAddresses = [], recordedFunds = \<lparr>available = 0, allocated = 0\<rparr>,
      flux_logs = [RoundDetailsUpdated 10 0 0 0 100, ValidatorUpdated 0 55]\<rparr>"

lemma by_at_simps [simp]:
  "msg_sender (by_at t a) = a" "tx_origin (by_at t a) = a" "block_timestamp (by_at t a) = t" "address_this (by_at t a) = 7"
  by (simp_all add: by_at_def)

lemma sample_flux_deployment: "FluxAggregator (by_at 1000 1) 9 10 100 55 1 1000 2 ''BTC'' = Returns sample_deployed"
  by (simp add: FluxAggregator_def Owned_constructor_def updateFutureRounds_def setValidator_def onlyOwner_def
      requiredReserve_def oracleCount_def safe_mul_def safe_sub_def require_def set_defs Let_def RESERVE_ROUNDS_def
      sample_deployed_def)

lemma sample_token_start: "link_start 9 7 sample_tokens"
proof -
  let ?m = "\<lparr>msg_sender = 1, tx_origin = 1, block_timestamp = 1, address_this = 9\<rparr>"
  have "token_step ?m (CTransfer 7 500) (LinkToken ?m) = Returns (fst sample_tokens)"
    by (simp add: LinkToken_transfer_def validRecipient_def BasicToken_transfer_def link_sub_def link_add_def sol_assert_def
        require_def LinkToken_def totalSupply_def link_emit_def sample_tokens_def Let_def word_le_nat_alt)
  then have "link_run 9 (- {7}) (LinkToken ?m) (fst sample_tokens)"
    by (rule run_call [OF run_none, rotated 2]) simp_all
  then show ?thesis unfolding link_start_def by blast
qed

text \<open>The aggregator learns of its balance, then it gets its oracles and a requester.\<close>

definition sample_funded :: flux where
  "sample_funded = sample_deployed\<lparr>recordedFunds := \<lparr>available = 500, allocated = 0\<rparr>,
     flux_logs := [RoundDetailsUpdated 10 0 0 0 100, ValidatorUpdated 0 55, AvailableFundsUpdated 500]\<rparr>"

definition sample_oracle :: "address \<Rightarrow> uint16 \<Rightarrow> oracle_status" where
  "sample_oracle adm i = no_oracle\<lparr>os_startingRound := 1, os_endingRound := ROUND_MAX, os_index := i, os_admin := adm\<rparr>"

definition sample_staffed :: flux where
  "sample_staffed = sample_funded
     \<lparr>maxSubmissionCount := 2, minSubmissionCount := 1,
      oracles := (\<lambda>_. no_oracle)(2 := sample_oracle 12 0, 3 := sample_oracle 13 1), oracleAddresses := [2, 3],
      flux_logs := flux_logs sample_funded @ [OraclePermissionsUpdated 2 True, OracleAdminUpdated 2 12,
        OraclePermissionsUpdated 3 True, OracleAdminUpdated 3 13, RoundDetailsUpdated 10 1 2 0 100]\<rparr>"

definition sample_flux :: flux where
  "sample_flux = sample_staffed
     \<lparr>requesters := (\<lambda>_. no_requester)(20 := no_requester\<lparr>rq_authorized := True\<rparr>),
      flux_logs := flux_logs sample_staffed @ [RequesterPermissionsSet 20 True 0]\<rparr>"

lemmas sample_defs =
  sample_flux_def sample_staffed_def sample_funded_def sample_deployed_def sample_oracle_def no_oracle_def no_requester_def
  no_round_def no_details_def

lemmas flux_eval =
  on_flux_def changeOracles_def onlyOwner_def addOracle_def oracleEnabled_def getStartingRound_def updateFutureRounds_def
  requiredReserve_def oracleCount_def setRequesterPermissions_def updateAvailableFunds_def link_contracts_def balanceOf_def
  safe_mul_def safe_add_def safe_sub_def require_def set_defs Let_def RESERVE_ROUNDS_def MAX_ORACLE_COUNT_def ROUND_MAX_def

lemma sample_setup:
  "flux_exec sample_contracts (by_at 1010 1) UpdateAvailableFunds (sample_deployed, sample_tokens) =
     Returns (sample_funded, sample_tokens)"
  "flux_exec sample_contracts (by_at 1020 1) (ChangeOracles [] [2, 3] [12, 13] 1 2 0) (sample_funded, sample_tokens) =
     Returns (sample_staffed, sample_tokens)"
  "flux_exec sample_contracts (by_at 1030 1) (SetRequesterPermissions 20 True 0) (sample_staffed, sample_tokens) =
     Returns (sample_flux, sample_tokens)"
  by (simp_all add: flux_eval sample_defs sample_tokens_def)

lemma sample_clock [simp]: "clock_ok (by_at t a) \<longleftrightarrow> 0 < unat t \<and> unat t < 2 ^ 63"
  by (simp add: clock_ok_def)

lemma sample_reach_exec:
  assumes "sample_reach (f, w)" "flux_exec sample_contracts (by_at t a) c (f, w) = Returns (f', w')"
    "rounds_left f" "clock_ok (by_at t a)" "a \<noteq> 7" "call_typed c"
  shows "sample_reach (f', w')"
  using called [OF assms(1,3,4) _ _ assms(6,2)] assms(5) by simp

lemma sample_reach_flux: "sample_reach (sample_flux, sample_tokens)"
proof -
  have "sample_reach (sample_deployed, sample_tokens)"
    by (rule deployed [OF sample_flux_deployment]) (simp_all add: is_int256_def sample_token_start)
  then have "sample_reach (sample_funded, sample_tokens)"
    by (rule sample_reach_exec [OF _ sample_setup(1)]) (simp_all add: rounds_left_def call_typed_def sample_deployed_def)
  then have "sample_reach (sample_staffed, sample_tokens)"
    by (rule sample_reach_exec [OF _ sample_setup(2)]) (simp_all add: rounds_left_def call_typed_def sample_defs)
  then show ?thesis
    by (rule sample_reach_exec [OF _ sample_setup(3)]) (simp_all add: rounds_left_def call_typed_def sample_defs)
qed

section \<open>A round\<close>

text \<open>Oracle 2 opens round 1 and answers it with 42; oracle 3 adds 44, and the answer is 43.\<close>

definition sample_answered :: flux where
  "sample_answered = sample_flux
     \<lparr>reportingRoundId := 1, latestRoundId := 1,
      oracles := (oracles sample_flux)(2 := (sample_oracle 12 0)
        \<lparr>os_withdrawable := 10, os_lastReportedRound := 1, os_lastStartedRound := 1, os_latestSubmission := 42\<rparr>),
      rounds := (rounds sample_flux)(1 := \<lparr>rd_answer = 42, rd_startedAt = 1100, rd_updatedAt = 1100, rd_answeredInRound = 1\<rparr>),
      details := (details sample_flux)(1 := \<lparr>rs_submissions = [42], rs_maxSubmissions = 2, rs_minSubmissions = 1,
        rs_timeout = 100, rs_paymentAmount = 10\<rparr>),
      recordedFunds := \<lparr>available = 490, allocated = 10\<rparr>,
      flux_logs := flux_logs sample_flux @ [NewRound 1 2 1100, SubmissionReceived 42 1 2, AnswerUpdated 42 1 1100,
        AvailableFundsUpdated 490]\<rparr>"

definition sample_full :: flux where
  "sample_full = sample_answered
     \<lparr>oracles := (oracles sample_answered)(3 := (sample_oracle 13 1)
        \<lparr>os_withdrawable := 10, os_lastReportedRound := 1, os_latestSubmission := 44\<rparr>),
      rounds := (rounds sample_answered)(1 := \<lparr>rd_answer = 43, rd_startedAt = 1100, rd_updatedAt = 1110, rd_answeredInRound = 1\<rparr>),
      details := \<lambda>_. no_details, recordedFunds := \<lparr>available = 480, allocated = 20\<rparr>,
      flux_logs := flux_logs sample_answered @ [SubmissionReceived 44 1 3, AnswerUpdated 43 1 1110, AvailableFundsUpdated 480]\<rparr>"

lemma sample_medians:
  "\<exists>ys. calculateInplace [42] = Returns (42, ys)" "\<exists>ys. calculateInplace [42, 44] = Returns (43, ys)"
  using calculateInplace_sorted [of "[42]"] calculateInplace_sorted [of "[42, 44]"]
  by (auto simp: sorted_median_def is_int256_def)

lemmas submit_eval =
  submit_def validateOracleRound_def supersedable_def timedOut_def oracleInitializeNewRound_def newRound_def
  initializeNewRound_def updateTimedOutRoundInfo_def recordSubmission_def acceptingSubmissions_def updateRoundAnswer_def
  payOracle_def deleteRoundDetails_def validateAnswer_def link_validate_def sample_validators_def

lemma sample_submit:
  "submit sample_contracts (by_at 1100 2) 1 42 (sample_flux, sample_tokens) = Returns (sample_answered, sample_tokens)"
  using sample_medians(1)
  by (auto simp: submit_eval flux_eval sample_defs sample_answered_def sample_tokens_def fun_eq_iff)

lemma sample_submit2:
  "submit sample_contracts (by_at 1110 3) 1 44 (sample_answered, sample_tokens) = Returns (sample_full, sample_tokens)"
  using sample_medians(2)
  by (auto simp: submit_eval flux_eval sample_defs sample_answered_def sample_full_def sample_tokens_def fun_eq_iff)

lemma sample_reach_answered: "sample_reach (sample_answered, sample_tokens)"
  using sample_reach_flux
  by (rule sample_reach_exec [where c = "Submit 1 42" and t = 1100 and a = 2])
    (simp_all add: sample_submit rounds_left_def call_typed_def is_int256_def, simp add: sample_defs)

lemma sample_reach_full: "sample_reach (sample_full, sample_tokens)"
  using sample_reach_answered
  by (rule sample_reach_exec [where c = "Submit 1 44" and t = 1110 and a = 3])
    (simp_all add: sample_submit2 rounds_left_def call_typed_def is_int256_def, simp add: sample_answered_def)

text \<open>From the answered round on, 20 requests the next one when the first has timed out.\<close>

definition sample_requested :: flux where
  "sample_requested = sample_answered
     \<lparr>reportingRoundId := 2,
      rounds := (rounds sample_answered)(1 := \<lparr>rd_answer = 0, rd_startedAt = 1100, rd_updatedAt = 1300, rd_answeredInRound = 0\<rparr>,
        2 := no_round\<lparr>rd_startedAt := 1300\<rparr>),
      details := (details sample_answered)(1 := no_details, 2 := \<lparr>rs_submissions = [], rs_maxSubmissions = 2,
        rs_minSubmissions = 1, rs_timeout = 100, rs_paymentAmount = 10\<rparr>),
      requesters := (requesters sample_answered)(20 := \<lparr>rq_authorized = True, rq_delay = 0, rq_lastStartedRound = 2\<rparr>),
      flux_logs := flux_logs sample_answered @ [NewRound 2 20 1300]\<rparr>"

lemma sample_request: "requestNewRound (by_at 1300 20) sample_answered = Returns (2, sample_requested)"
  by (simp add: requestNewRound_def requesterInitializeNewRound_def submit_eval flux_eval sample_defs sample_answered_def
      sample_requested_def fun_upd_twist)

text \<open>The owner may take back 440 of the 480 available.\<close>

lemma sample_withdrawFunds:
  "\<exists>f' w'. withdrawFunds sample_contracts (by_at 1200 1) 1 440 (sample_full, sample_tokens) = Returns (f', w')"
  by (simp add: withdrawFunds_def LinkToken_transfer_def validRecipient_def BasicToken_transfer_def link_sub_def link_add_def
      sol_assert_def link_emit_def link_msg_def flux_eval sample_tokens_def sample_full_def sample_answered_def sample_defs
      word_le_nat_alt)

end
