(* ===== verification/Flux_Properties.thy ===== *)
theory Flux_Properties
  imports Flux_Sample
begin

text \<open>
  The properties of the aggregator, stated over its functions and views: what holds of its money
  when its token is the LINK token of the repository, what its rounds and answers are, what an
  oracle may and can do, and two behaviours that surprise. Each comes with an instance in the
  history of \<open>Flux_Sample\<close>.
\<close>

abbreviation link_flux_reach :: "address \<Rightarrow> address \<Rightarrow> 'v validators \<Rightarrow> flux \<times> link_token \<times> 'v \<Rightarrow> bool" where
  "link_flux_reach link agg V \<equiv> flux_reach (link_contracts link V) agg link (link_start link agg) (link_env link agg)"

section \<open>Money\<close>

lemma getOracles_count: "flux_reach C agg link init env (f, w) \<Longrightarrow> unat (oracleCount f) = length (getOracles f)"
  using oracles_invariant [of C agg link init env f w] unat_oracleCount [of f] by (simp add: getOracles_def oracles_listed_def)

text \<open>
  C11. The aggregator can pay. Whatever calls are made of it and of the token, in any order and
  by anyone, and whatever its validator does: \<open>allocatedFunds\<close> is the sum of what all oracles can
  withdraw, and together with \<open>availableFunds\<close> it is covered by the LINK balance of the
  aggregator. A withdrawal of funds by the owner leaves what is allocated, and available for two
  more rounds of all oracles.
\<close>

theorem flux_funds_covered:
  assumes "link_flux_reach link agg V (f, t, v)"
  shows "unat (allocatedFunds f) = (\<Sum>a\<in>UNIV. unat (withdrawablePayment a f)) \<and>
    unat (availableFunds f) + unat (allocatedFunds f) \<le> unat (balanceOf agg t) \<and>
    (\<forall>m to amount f' w'. address_this m = agg \<and>
      withdrawFunds (link_contracts link V) m to amount (f, t, v) = Returns (f', w') \<longrightarrow>
      allocatedFunds f' = allocatedFunds f \<and>
      2 * unat (paymentAmount f) * length (getOracles f) \<le> unat (availableFunds f'))"
proof -
  have "lt.solvent link agg (f, t, v)" using assms token_good_start by (rule lt.reach_solvent)
  moreover from this have "unat (allocatedFunds f) = (\<Sum>a\<in>UNIV. unat (withdrawablePayment a f))"
    "unat (availableFunds f) + unat (allocatedFunds f) \<le> unat (balanceOf agg t)"
    by (simp_all add: lt.solvent_def books_balance_def owed_def allocatedFunds_def availableFunds_def withdrawablePayment_def
        balanceOf_def)
  ultimately show ?thesis
    using lt.withdrawFunds_solvent [of link V _ _ _ f "(t, v)"] getOracles_count [OF assms]
    by (auto simp: allocatedFunds_def availableFunds_def mult.assoc)
qed

theorem flux_funds_covered_witness:
  "unat (allocatedFunds sample_full) = (\<Sum>a\<in>UNIV. unat (withdrawablePayment a sample_full)) \<and>
   unat (allocatedFunds sample_full) = 20 \<and> unat (availableFunds sample_full) = 480 \<and>
   unat (balanceOf 7 (fst sample_tokens)) = 500 \<and>
   (\<exists>f' w'. withdrawFunds sample_contracts (by_at 1200 1) 1 440 (sample_full, sample_tokens) = Returns (f', w') \<and>
      40 \<le> unat (availableFunds f'))"
proof -
  have reach: "link_flux_reach 9 7 sample_validators (sample_full, fst sample_tokens, snd sample_tokens)"
    using sample_reach_full by (simp only: prod.collapse)
  have s: "unat (paymentAmount sample_full) = 10" "length (getOracles sample_full) = 2"
    "unat (allocatedFunds sample_full) = 20" "unat (availableFunds sample_full) = 480"
    by (simp_all add: sample_full_def sample_answered_def sample_defs getOracles_def allocatedFunds_def availableFunds_def)
  have b: "unat (balanceOf 7 (fst sample_tokens)) = 500" by (simp add: balanceOf_def sample_tokens_def)
  note cov = flux_funds_covered [OF reach, unfolded prod.collapse]
  obtain f' w' where w: "withdrawFunds sample_contracts (by_at 1200 1) 1 440 (sample_full, sample_tokens) = Returns (f', w')"
    using sample_withdrawFunds by blast
  with cov have "2 * unat (paymentAmount sample_full) * length (getOracles sample_full) \<le> unat (availableFunds f')"
    by (metis by_at_simps(4))
  with s have "40 \<le> unat (availableFunds f')" by simp
  with s b w cov show ?thesis by blast
qed

text \<open>
  An oracle gets its money: in every reachable state, the admin of an oracle can withdraw any
  part of what the oracle has earned, to any account that may hold LINK; the account is
  credited with exactly the amount, and the oracle is charged with it.
\<close>

theorem flux_payment_can_be_withdrawn:
  assumes "link_flux_reach link agg V (f, t, v)"
    and "address_this m = agg" "msg_sender m = getAdmin a f" "amount \<le> withdrawablePayment a f"
    and "to \<noteq> 0" "to \<noteq> link" "to \<noteq> agg"
  shows "\<exists>f' t'. withdrawPayment (link_contracts link V) m a to amount (f, t, v) = Returns (f', (t', v)) \<and>
    unat (balanceOf to t') = unat (balanceOf to t) + unat amount \<and>
    unat (withdrawablePayment a f') + unat amount = unat (withdrawablePayment a f)"
proof -
  have "unat amount \<le> unat (os_withdrawable (oracles f a))"
    using assms(4) by (simp add: withdrawablePayment_def word_le_nat_alt)
  then obtain f' w' where w: "withdrawPayment (link_contracts link V) m a to amount (f, t, v) = Returns (f', w')"
    "c_transfer (link_contracts link V) link agg to amount (t, v) = Returns (True, w')"
    "unat (os_withdrawable (oracles f' a)) + unat amount = unat (os_withdrawable (oracles f a))"
    using lt.withdrawal_possible [OF assms(1) token_good_start [of link agg] assms(2), where a = a and amount = amount and to = to] assms(3,5,6)
    by (auto simp: getAdmin_def)
  moreover have "token_good agg (t, v)"
    using lt.reach_solvent [OF assms(1) token_good_start] by (simp add: lt.solvent_def)
  ultimately show ?thesis
    using link_transfer_credits [OF _ w(2) assms(7)] by (fastforce simp: withdrawablePayment_def)
qed

theorem flux_payment_can_be_withdrawn_witness:
  "\<exists>f' t'. withdrawPayment sample_contracts (by_at 1200 12) 2 12 10 (sample_full, sample_tokens) = Returns (f', (t', ())) \<and>
     unat (balanceOf 12 t') = 10 \<and> unat (withdrawablePayment 2 f') = 0"
proof -
  have reach: "link_flux_reach 9 7 sample_validators (sample_full, fst sample_tokens, ())"
    using sample_reach_full by (simp add: sample_tokens_def)
  have "withdrawablePayment 2 sample_full = 10" "getAdmin 2 sample_full = 12" "balanceOf 12 (fst sample_tokens) = 0"
    by (simp_all add: withdrawablePayment_def getAdmin_def balanceOf_def sample_tokens_def sample_full_def sample_answered_def sample_defs)
  then show ?thesis
    using flux_payment_can_be_withdrawn [OF reach, of "by_at 1200 12" 2 10 12] by (simp add: sample_tokens_def)
qed

section \<open>Storage, rounds and answers\<close>

text \<open>
  C30. The storage is well typed in every reachable state: every answer, every open submission and
  every latest submission fits in \<open>int256\<close>; \<open>getOracles\<close> lists exactly the enabled oracles, at
  most 77, each once and at the index its status says, so that \<open>oracleCount\<close> does not wrap around;
  and no round holds more submissions than it may.
\<close>

theorem flux_storage_well_typed:
  assumes "flux_reach C agg link init env (f, w)"
  shows "(\<forall>r. is_int256 (getAnswer r f)) \<and> (\<forall>a. is_int256 (os_latestSubmission (oracles f a))) \<and>
    (\<forall>r. (\<forall>s\<in>set (rs_submissions (details f r)). is_int256 s) \<and>
      length (rs_submissions (details f r)) \<le> unat (rs_maxSubmissions (details f r)) \<and>
      unat (rs_maxSubmissions (details f r)) \<le> 77) \<and>
    distinct (getOracles f) \<and> (\<forall>a. oracleEnabled a f \<longleftrightarrow> a \<in> set (getOracles f)) \<and>
    (\<forall>i < length (getOracles f). unat (os_index (oracles f (getOracles f ! i))) = i) \<and>
    unat (oracleCount f) = length (getOracles f) \<and> length (getOracles f) \<le> 77"
proof -
  have ok: "rounds_ok f" "oracles_listed f" using rounds_invariant [OF assms] oracles_invariant [OF assms] by auto
  have "\<forall>r. is_int256 (getAnswer r f)"
    using ok(1) by (simp add: getAnswer_def rounds_ok_def round_ok_def)
  moreover have "details_ok f (details f r)" for r using ok(1) by (simp add: rounds_ok_def)
  then have "(\<forall>s\<in>set (rs_submissions (details f r)). is_int256 s) \<and>
      length (rs_submissions (details f r)) \<le> unat (rs_maxSubmissions (details f r)) \<and>
      unat (rs_maxSubmissions (details f r)) \<le> 77" for r
    by (cases "rs_maxSubmissions (details f r) = 0") (auto simp: details_ok_def in_bounds_def dest: less_imp_le)
  ultimately show ?thesis
    using ok getOracles_count [OF assms] by (simp add: rounds_ok_def oracles_listed_def getOracles_def)
qed

theorem flux_storage_well_typed_witness:
  "is_int256 (getAnswer 1 sample_full) \<and> getAnswer 1 sample_full = 43 \<and>
   getOracles sample_full = [2, 3] \<and> (\<forall>a. oracleEnabled a sample_full \<longleftrightarrow> a \<in> {2, 3}) \<and>
   unat (oracleCount sample_full) = 2"
proof -
  have "getOracles sample_full = [2, 3]" "getAnswer 1 sample_full = 43"
    by (simp_all add: getOracles_def getAnswer_def validRoundId_def ROUND_MAX_def sample_full_def sample_answered_def sample_defs
        word_le_nat_alt)
  then show ?thesis using flux_storage_well_typed [OF sample_reach_full] by (metis One_nat_def Suc_1 length_Cons list.set list.size(3))
qed

text \<open>What \<open>getRoundData\<close> returns.\<close>

lemma getRoundData_bounded:
  assumes "flux_reach C agg link init env (f, w)" "getRoundData roundId f = Returns d"
  shows "minSubmissionValue f \<le> data_answer d \<and> data_answer d \<le> maxSubmissionValue f \<and> is_int256 (data_answer d) \<and>
    0 < data_startedAt d \<and> 0 < data_updatedAt d \<and> data_roundId d = roundId \<and>
    0 < data_answeredInRound d \<and> data_answeredInRound d \<le> roundId \<and> unat roundId \<le> unat (reportingRoundId f)"
proof -
  let ?r = "ucast roundId :: uint32"
  have ok: "rounds_ok f" using assms(1) by (rule rounds_invariant)
  have d: "0 < rd_answeredInRound (rounds f ?r)" "validRoundId (ucast roundId)"
    "d = \<lparr>data_roundId = roundId, data_answer = rd_answer (rounds f ?r), data_startedAt = ucast (rd_startedAt (rounds f ?r)),
      data_updatedAt = ucast (rd_updatedAt (rounds f ?r)), data_answeredInRound = ucast (rd_answeredInRound (rounds f ?r))\<rparr>"
    using assms(2) by (simp_all add: getRoundData_def Let_def require_Returns)
  have "unat (ucast roundId :: uint256) = unat roundId"
    by (simp add: unsigned_ucast_eq take_bit_nat_eq_self_iff unsigned_less [THEN less_le_trans])
  then have "unat roundId < 2 ^ 32"
    using d(2) by (simp only: validRoundId_def ROUND_MAX_def word_le_nat_alt) simp
  then have r: "unat ?r = unat roundId" by (simp add: unsigned_ucast_eq take_bit_nat_eq_self_iff)
  have ro: "round_ok f ?r (rounds f ?r)" using ok by (simp add: rounds_ok_def)
  then have pos: "0 < ?r" using d(1) by (auto simp: round_ok_def word_nat)
  moreover have le: "?r \<le> reportingRoundId f"
  proof (rule ccontr)
    assume "\<not> ?thesis"
    then have "rounds f ?r = no_round" using ok by (simp add: rounds_ok_def)
    with d(1) show False by (simp add: no_round_def)
  qed
  ultimately have "0 < rd_startedAt (rounds f ?r)" using ok by (simp add: rounds_ok_def)
  then show ?thesis
    using ro d(1,3) le r by (simp add: round_ok_def in_bounds_def word_nat)
qed

text \<open>
  What a consumer reads is within bounds: in every reachable state, data that \<open>getRoundData\<close>
  returns for a round has an answer between \<open>minSubmissionValue\<close> and \<open>maxSubmissionValue\<close>, is of a
  round that was started and updated, and was answered in this round or an earlier one.
\<close>

theorem flux_answers_within_bounds:
  assumes "flux_reach C agg link init env (f, w)" "getRoundData roundId f = Returns d"
  shows "minSubmissionValue f \<le> data_answer d \<and> data_answer d \<le> maxSubmissionValue f \<and> is_int256 (data_answer d) \<and>
    0 < data_startedAt d \<and> 0 < data_updatedAt d \<and> data_roundId d = roundId \<and>
    0 < data_answeredInRound d \<and> data_answeredInRound d \<le> roundId \<and> unat roundId \<le> unat (reportingRoundId f)"
  using assms by (rule getRoundData_bounded)

theorem flux_answers_within_bounds_witness:
  "\<exists>d. getRoundData 1 sample_full = Returns d \<and> data_answer d = 43 \<and>
     minSubmissionValue sample_full \<le> data_answer d \<and> data_answer d \<le> maxSubmissionValue sample_full"
proof -
  have "getRoundData 1 sample_full = Returns \<lparr>data_roundId = 1, data_answer = 43, data_startedAt = 1100, data_updatedAt = 1110,
      data_answeredInRound = 1\<rparr>"
    by (simp add: getRoundData_def validRoundId_def ROUND_MAX_def require_def Let_def sample_full_def word_le_nat_alt)
  with flux_answers_within_bounds [OF sample_reach_full this] show ?thesis by auto
qed

text \<open>
  C12. What a submission does, in every reachable state. It may open its round first
  (\<open>oracleInitializeNewRound\<close>). Then the round has one submission more; from the minimum
  number on, its answer is the median of all of them, given in this round and at this time,
  and it is the latest round; until then no answer changes. A full round accepts no more
  submissions. The oracle earns the payment of the round, out of the available funds.
\<close>

theorem flux_submit_answers_with_median:
  assumes "flux_reach C agg link init env (f, w)" "clock_ok m" "is_int256 s"
    and "submit C m roundId s (f, w) = Returns (f', w')" "r = ucast roundId"
  shows "\<exists>f1. oracleInitializeNewRound m r f = Returns f1 \<and>
    (let d = details f1 r; subs = rs_submissions d @ [s]; me = msg_sender m in
     (if unat (rs_minSubmissions d) \<le> length subs
      then rounds f' = (rounds f1)(r := (rounds f1 r)
          \<lparr>rd_answer := sorted_median subs, rd_updatedAt := ucast (block_timestamp m), rd_answeredInRound := r\<rparr>) \<and>
        latestRound f' = ucast r
      else rounds f' = rounds f1 \<and> latestRound f' = latestRound f) \<and>
     details f' = (details f1)(r :=
       if length subs < unat (rs_maxSubmissions d) then d\<lparr>rs_submissions := subs\<rparr> else no_details) \<and>
     minSubmissionValue f \<le> s \<and> s \<le> maxSubmissionValue f \<and>
     unat (availableFunds f') + unat (rs_paymentAmount d) = unat (availableFunds f) \<and>
     unat (allocatedFunds f') = unat (allocatedFunds f) + unat (rs_paymentAmount d) \<and>
     unat (withdrawablePayment me f') = unat (withdrawablePayment me f) + unat (rs_paymentAmount d) \<and>
     (\<forall>a. a \<noteq> me \<longrightarrow> oracles f' a = oracles f a))"
proof -
  have ok: "rounds_ok f" "configured f" "oracles_listed f"
    using rounds_invariant [OF assms(1)] oracles_invariant [OF assms(1)] by auto
  note sub = submit_rounds_ok [OF assms(4) ok(1) assms(2) ok(2,3) assms(3,5)]
  obtain x where "unat (reportingRoundId f) + 1 < 2 ^ 32" by (rule submit_Returns [OF assms(4) refl])
  moreover have "r \<noteq> 0" using sub validateOracleRound_ok [of m "msg_sender m" r f] by auto
  ultimately have f1: "oracleInitializeNewRound m r f = Returns (oracle_opened m r f)"
    by (intro oracleInitializeNewRound_total ok(1))
  have "oracles (oracle_opened m r f) a = oracles f a" if "a \<noteq> msg_sender m" for a
    using that by (simp add: oracle_opened_def opened_def set_oracle_def)
  then show ?thesis
    using sub f1
    by (simp add: Let_def submitted_fields submissions_to_def in_bounds_def payable_def oracle_opened_fields oracle_opened_status
        availableFunds_def allocatedFunds_def withdrawablePayment_def latestRound_def unat_sub word_le_nat_alt unat_plus_no_wrap not_less)
qed

theorem flux_submit_answers_with_median_witness:
  "\<exists>f'. submit sample_contracts (by_at 1110 3) 1 44 (sample_answered, sample_tokens) = Returns (f', sample_tokens) \<and>
     latestAnswer f' = sorted_median [42, 44] \<and> sorted_median [42, 44] = 43 \<and> latestRound f' = 1 \<and>
     unat (withdrawablePayment 3 f') = 10"
proof -
  have "clock_ok (by_at 1110 3)" "is_int256 44" by (simp_all add: is_int256_def)
  note flux_submit_answers_with_median [OF sample_reach_answered this sample_submit2 refl]
  moreover have "oracleInitializeNewRound (by_at 1110 3) (ucast (1 :: uint256)) sample_answered = Returns sample_answered"
    by (simp add: oracleInitializeNewRound_def newRound_def safe_add_def require_def sample_answered_def Let_def)
  ultimately have "rounds sample_full 1 = (rounds sample_answered 1)\<lparr>rd_answer := sorted_median [42, 44], rd_updatedAt := 1110,
      rd_answeredInRound := 1\<rparr>" "latestRound sample_full = 1"
    "unat (withdrawablePayment 3 sample_full) = unat (withdrawablePayment 3 sample_answered) + 10"
    by (simp_all add: Let_def sample_answered_def)
  then show ?thesis
    using sample_submit2
    by (simp add: latestAnswer_def latestRound_def sorted_median_def withdrawablePayment_def sample_full_def sample_answered_def)
qed

text \<open>
  C10. The past is final. From any reachable state on, whatever is called, as long as the 32-bit numbers of
  rounds last and the clock is below \<open>2 ^ 63\<close> seconds: the latest round never
  goes back, what \<open>getRoundData\<close> says of a round before the last two does not change, and an
  oracle can no longer submit to a round it has reported to, or to an earlier one.
\<close>

theorem flux_history_is_final:
  assumes "flux_reach C agg link init env (f, w)" "flux_run C agg env (f, w) (f', w')"
  shows "latestRound f \<le> latestRound f' \<and>
    (\<forall>roundId. unat roundId + 1 < unat (reportingRoundId f) \<longrightarrow> getRoundData roundId f' = getRoundData roundId f) \<and>
    (\<forall>m roundId s. ucast roundId \<le> os_lastReportedRound (oracles f (msg_sender m)) \<longrightarrow>
      (\<exists>e. submit C m roundId s (f', w') = Reverts e))"
proof -
  have l: "later f f'" using assms(2,1) by (rule run_later)
  have "getRoundData roundId f' = getRoundData roundId f" if "unat roundId + 1 < unat (reportingRoundId f)" for roundId
  proof -
    have "unat (ucast roundId :: uint32) \<le> unat roundId" by (simp add: unsigned_ucast_eq take_bit_nat_less_eq_self)
    then have "rounds f' (ucast roundId) = rounds f (ucast roundId)" using l that by (simp add: later_def)
    then show ?thesis by (simp add: getRoundData_def)
  qed
  moreover have "\<exists>e. submit C m roundId s (f', w') = Reverts e"
    if "ucast roundId \<le> os_lastReportedRound (oracles f (msg_sender m))" for m roundId s
    using l that by (intro reported_rejects) (auto simp: later_def intro: order_trans)
  ultimately show ?thesis using l by (simp add: later_def latestRound_def word_le_nat_alt)
qed

theorem flux_history_is_final_witness:
  "latestRound sample_answered \<le> latestRound sample_full \<and> getRoundData 0 sample_full = getRoundData 0 sample_answered \<and>
   (\<exists>e. submit sample_contracts (by_at 1120 2) 1 50 (sample_full, sample_tokens) = Reverts e)"
proof -
  have "flux_run sample_contracts 7 (link_env 9 7) (sample_answered, sample_tokens) (sample_full, sample_tokens)"
    using sample_submit2 run_called [OF run_stop, of sample_answered "by_at 1110 3" 7 "Submit 1 44"]
    by (simp add: rounds_left_def call_typed_def is_int256_def) (simp add: sample_answered_def)
  note h = flux_history_is_final [OF sample_reach_answered this]
  have "ucast (1 :: uint256) \<le> os_lastReportedRound (oracles sample_answered (msg_sender (by_at 1120 2)))"
    by (simp add: sample_answered_def)
  with h have "\<exists>e. submit sample_contracts (by_at 1120 2) 1 50 (sample_full, sample_tokens) = Reverts e" by blast
  moreover have "getRoundData 0 sample_full = getRoundData 0 sample_answered"
    by (simp add: getRoundData_def sample_full_def)
  ultimately show ?thesis using h by blast
qed

section \<open>Oracles\<close>

text \<open>
  C29. \<open>oracleRoundState\<close> can be trusted: in every reachable state, when it calls an oracle eligible
  for a round and the funds it reports cover the payment it reports, then a submission of the
  oracle to that round, now or later, with a value within the bounds, goes through, as long as
  nothing else happens before. The aggregator must still have an oracle, its 32-bit round
  numbers must not be used up, and a validator must have code and return what its interface says.
\<close>

theorem flux_eligible_oracle_can_submit:
  assumes "link_flux_reach link agg V (f, w)" "rounds_left f" "getOracles f \<noteq> []"
    and "oracleRoundState m a q f = Returns st" "st_eligibleToSubmit st" "st_paymentAmount st \<le> st_availableFunds st"
    and "msg_sender m' = a" "address_this m' = agg" "clock_ok m'" "block_timestamp m \<le> block_timestamp m'"
    and "minSubmissionValue f \<le> s" "s \<le> maxSubmissionValue f" "is_int256 s"
    and "\<And>gas p x q y. validator f \<noteq> 0 \<Longrightarrow> V (validator f) gas p x q y w \<noteq> VNoCode \<and> V (validator f) gas p x q y w \<noteq> VShort"
  shows "\<exists>f' w'. submit (link_contracts link V) m' (ucast (st_roundId st)) s (f, w) = Returns (f', w')"
proof (rule lt.eligible_submits [OF assms(1) token_good_start assms(4-6,2)])
  show "c_validate (link_contracts link V) (validator f) agg gas p x q y w \<noteq> NoCode \<and>
      c_validate (link_contracts link V) (validator f) agg gas p x q y w \<noteq> ShortReply" if "validator f \<noteq> 0" for gas p x q y
    using assms(14) [OF that]
    by (auto simp: link_contracts_def link_validate_def split: validator_run.splits option.splits sum.splits)
qed (use assms in \<open>simp_all add: getOracles_def word_le_nat_alt\<close>)

theorem flux_eligible_oracle_can_submit_witness:
  "\<exists>st. oracleRoundState (by_at 1105 3) 3 0 sample_answered = Returns st \<and> st_eligibleToSubmit st \<and> st_roundId st = 1 \<and>
     (\<exists>f' w'. submit sample_contracts (by_at 1110 3) (ucast (st_roundId st)) 1000 (sample_answered, sample_tokens) = Returns (f', w'))"
proof -
  obtain st where st: "oracleRoundState (by_at 1105 3) 3 0 sample_answered = Returns st" "st_eligibleToSubmit st"
    "st_roundId st = 1" "st_paymentAmount st \<le> st_availableFunds st"
    by (simp add: oracleRoundState_def oracleRoundStateSuggestRound_def submit_eval flux_eval sample_answered_def sample_defs)
  have "rounds_left sample_answered" "getOracles sample_answered \<noteq> []"
    by (simp_all add: rounds_left_def getOracles_def sample_answered_def sample_defs)
  from flux_eligible_oracle_can_submit [OF sample_reach_answered this st(1,2,4), of "by_at 1110 3" 1000] st
  show ?thesis by (simp add: sample_validators_def is_int256_def word_le_nat_alt) (simp add: sample_answered_def sample_defs)
qed

text \<open>
  Roles change hands in two steps. Whatever call is made: a new owner is the one the owner had
  nominated and who calls \<open>acceptOwnership\<close>, only the owner nominates, and the same holds of the
  admin of an oracle; the owner names an admin only where there is none. And a holder can always
  hand over to anyone, with the nominee alone accepting.
\<close>

theorem flux_roles_change_in_two_steps:
  assumes "flux_exec C m c (f, w) = Returns (f', w')"
  shows "(owner f' \<noteq> owner f \<longrightarrow> c = AcceptOwnership \<and> msg_sender m = pendingOwner f \<and> owner f' = msg_sender m) \<and>
    (pendingOwner f' \<noteq> pendingOwner f \<longrightarrow>
      c = TransferOwnership (pendingOwner f') \<and> msg_sender m = owner f \<or>
      c = AcceptOwnership \<and> msg_sender m = pendingOwner f \<and> pendingOwner f' = 0) \<and>
    (getAdmin a f' \<noteq> getAdmin a f \<longrightarrow>
      c = AcceptAdmin a \<and> msg_sender m = os_pendingAdmin (oracles f a) \<and> getAdmin a f' = msg_sender m \<or>
      (\<exists>removed added admins lo hi delay. c = ChangeOracles removed added admins lo hi delay) \<and>
        msg_sender m = owner f \<and> getAdmin a f = 0) \<and>
    (os_pendingAdmin (oracles f' a) \<noteq> os_pendingAdmin (oracles f a) \<longrightarrow>
      c = TransferAdmin a (os_pendingAdmin (oracles f' a)) \<and> msg_sender m = getAdmin a f \<or>
      c = AcceptAdmin a \<and> msg_sender m = os_pendingAdmin (oracles f a) \<and> os_pendingAdmin (oracles f' a) = 0) \<and>
    (\<forall>m1 m2. msg_sender m1 = owner f' \<longrightarrow>
      (\<exists>f1 f2. transferOwnership m1 (msg_sender m2) f' = Returns f1 \<and> acceptOwnership m2 f1 = Returns f2 \<and>
        owner f2 = msg_sender m2)) \<and>
    (\<forall>m1 m2. msg_sender m1 = getAdmin a f' \<longrightarrow>
      (\<exists>f1 f2. transferAdmin m1 a (msg_sender m2) f' = Returns f1 \<and> acceptAdmin m2 a f1 = Returns f2 \<and>
        getAdmin a f2 = msg_sender m2))"
proof -
  have "\<exists>f1 f2. transferOwnership m1 (msg_sender m2) f' = Returns f1 \<and> acceptOwnership m2 f1 = Returns f2 \<and> owner f2 = msg_sender m2"
    if "msg_sender m1 = owner f'" for m1 m2
    using owned.hand_over [OF that refl, of m2] by blast
  moreover have "\<exists>f1 f2. transferAdmin m1 a (msg_sender m2) f' = Returns f1 \<and> acceptAdmin m2 a f1 = Returns f2 \<and>
      getAdmin a f2 = msg_sender m2"
    if "msg_sender m1 = getAdmin a f'" for m1 m2
    using flux_admin.hand_over [OF that refl, of m2] by blast
  moreover note roles_step(1,2) [OF assms] roles_step(3,4) [OF assms, of a]
  ultimately show ?thesis by blast
qed

theorem flux_roles_change_in_two_steps_witness:
  "\<exists>f1 f2. flux_exec sample_contracts (by_at 1200 1) (TransferOwnership 4) (sample_flux, sample_tokens) = Returns (f1, sample_tokens) \<and>
     owner f1 = 1 \<and> pendingOwner f1 = 4 \<and>
     flux_exec sample_contracts (by_at 1210 4) AcceptOwnership (f1, sample_tokens) = Returns (f2, sample_tokens) \<and> owner f2 = 4"
proof -
  obtain f1 where f1: "flux_exec sample_contracts (by_at 1200 1) (TransferOwnership 4) (sample_flux, sample_tokens) =
      Returns (f1, sample_tokens)" "pendingOwner f1 = 4"
    by (simp add: transferOwnership_def flux_eval sample_defs)
  have "owner f1 = owner sample_flux" using flux_roles_change_in_two_steps [OF f1(1)] by blast
  then have "owner f1 = 1" by (simp add: sample_defs)
  moreover obtain f2 where f2: "flux_exec sample_contracts (by_at 1210 4) AcceptOwnership (f1, sample_tokens) = Returns (f2, sample_tokens)"
    "owner f2 = 4"
    using f1(2) by (simp add: acceptOwnership_def flux_eval)
  ultimately show ?thesis using f1 by blast
qed

section \<open>Two surprises\<close>

text \<open>
  C31. A published answer can be lost. When the latest round is answered, still takes submissions,
  and times out, then a request for a new round replaces its answer by that of the round before
  it, while it stays the latest round: \<open>latestAnswer\<close> goes back, and if the round before has no
  answer, there is no data any more.
\<close>

theorem flux_timed_out_answer_is_lost:
  assumes "flux_reach C agg link init env (f, w)" "latestRoundId f = reportingRoundId f"
    and "timedOut m (reportingRoundId f) f = Returns True" "requestNewRound m f = Returns (n, f')"
  shows "latestRound f' = latestRound f \<and> latestAnswer f' = getAnswer (latestRound f - 1) f \<and>
    ((\<forall>d. getRoundData (ucast (latestRoundId f - 1)) f \<noteq> Returns d) \<longrightarrow>
      latestRoundData f' = Reverts (Require ''No data present''))"
proof -
  let ?rr = "reportingRoundId f"
  have ok: "rounds_ok f" using assms(1) by (rule rounds_invariant)
  have to: "timed_out m ?rr f" using assms(3) by (simp add: timedOut_Returns)
  then have rr: "?rr \<noteq> 0" using timed_out_positive [OF ok] by blast
  have f': "unat ?rr + 1 < 2 ^ 32" "latestRoundId f' = ?rr" "rounds f' ?rr = closed_rounds m ?rr f ?rr"
    using requestNewRound_Returns [OF assms(4)] assms(2) unat_next [of ?rr]
    by (auto simp: set_requester_def opened_def)
  have prev: "rd_answer (rounds f' ?rr) = rd_answer (rounds f (?rr - 1))"
    "rd_answeredInRound (rounds f' ?rr) = rd_answeredInRound (rounds f (?rr - 1))"
    using to by (simp_all add: f'(3) closed_rounds_def)
  have "unat (ucast ?rr - 1 :: uint256) = unat (?rr - 1)"
    using rr by (simp add: unat_prev unat_sub one_le_word)
  then have "ucast ?rr - 1 = (ucast (?rr - 1) :: uint256)" by (simp add: word_unat_eq_iff)
  moreover have "validRoundId (ucast r)" for r :: uint32
  proof -
    have "unat r < 2 ^ LENGTH(32)" by (rule unsigned_less)
    then show ?thesis by (simp add: validRoundId_def ROUND_MAX_def word_le_nat_alt)
  qed
  moreover have "ucast (ucast r :: uint80) = r" "ucast (ucast r :: uint80) = (ucast r :: uint256)" for r :: uint32
    by (transfer; simp)+
  ultimately show ?thesis
    using f'(2) prev assms(2)
    by (auto simp: latestRound_def latestAnswer_def getAnswer_def latestRoundData_def getRoundData_def require_def Let_def)
qed

theorem flux_timed_out_answer_is_lost_witness:
  "latestAnswer sample_answered = 42 \<and> latestRound sample_answered = 1 \<and>
   requestNewRound (by_at 1300 20) sample_answered = Returns (2, sample_requested) \<and>
   latestRound sample_requested = 1 \<and> latestAnswer sample_requested = 0 \<and>
   latestRoundData sample_requested = Reverts (Require ''No data present'')"
proof -
  have s: "latestRoundId sample_answered = reportingRoundId sample_answered"
    "timedOut (by_at 1300 20) (reportingRoundId sample_answered) sample_answered = Returns True"
    by (simp_all add: timedOut_def safe_add_def require_def Let_def sample_answered_def)
  have "latestAnswer sample_answered = 42" "latestRound sample_answered = 1" "latestRoundId sample_answered = 1"
    "getAnswer 0 sample_answered = 0" "\<forall>d. getRoundData 0 sample_answered \<noteq> Returns d"
    by (simp_all add: latestAnswer_def latestRound_def getAnswer_def getRoundData_def require_def Let_def sample_answered_def)
      (simp_all add: sample_defs)
  with flux_timed_out_answer_is_lost [OF sample_reach_answered s sample_request] sample_request show ?thesis by simp
qed

text \<open>
  A validator can block the aggregator. The call of the validator is in a \<open>try\<close> statement, but
  one without code, or one that returns too little, makes a submission revert that completes a
  round, so that no answer can be given until the owner replaces it.
\<close>

theorem flux_validator_can_block:
  assumes "oracleInitializeNewRound m r f = Returns f1" "r = ucast roundId" "validator f \<noteq> 0"
    and "unat (rs_minSubmissions (details f1 r)) \<le> length (rs_submissions (details f1 r)) + 1"
    and "\<And>gas p x q y. c_validate C (validator f) (address_this m) gas p x q y w = NoCode \<or>
      c_validate C (validator f) (address_this m) gas p x q y w = ShortReply"
  shows "submit C m roundId s (f, w) \<noteq> Returns fw'"
proof
  assume "submit C m roundId s (f, w) = Returns fw'"
  moreover obtain f' w' where "fw' = (f', w')" by (cases fw')
  ultimately obtain f2 upd x f3 f4 where s: "recordSubmission m s r f1 = Returns f2"
    "updateRoundAnswer m r f2 = Returns ((upd, x), f3)" "payOracle m r f3 = Returns f4"
    "(if upd then validateAnswer C m r x (deleteRoundDetails r f4, w) else Returns (deleteRoundDetails r f4, w)) = Returns (f', w')"
    using assms(1,2) by (auto simp: submit_def bind_sol_Returns require_Returns Let_def)
  have f1: "f1 = oracle_opened m r f" using oracleInitializeNewRound_Returns [OF assms(1)] by blast
  have "upd" using s(1,2) assms(4) by (auto simp: recordSubmission_Returns updateRoundAnswer_Returns recorded_def)
  moreover have "validator (deleteRoundDetails r f4) = validator f"
    using s(1-3) by (auto simp: recordSubmission_Returns updateRoundAnswer_Returns payOracle_Returns f1 recorded_def answered_def
        paid_def deleteRoundDetails_def set_details_def oracle_opened_fields split: if_splits)
  ultimately have "\<exists>p y q z. c_validate C (validator f) (address_this m) VALIDATOR_GAS_LIMIT p y q z w \<noteq> NoCode \<and>
      c_validate C (validator f) (address_this m) VALIDATOR_GAS_LIMIT p y q z w \<noteq> ShortReply"
    using s(4) assms(3) by (auto simp: validateAnswer_def bind_sol_Returns Let_def split: validator_reply.splits)
  with assms(5) show False by blast
qed

theorem flux_validator_can_block_witness:
  "setValidator (by_at 1050 1) 66 sample_flux = Returns (flux_emit (ValidatorUpdated 55 66) (sample_flux\<lparr>validator := 66\<rparr>)) \<and>
   (\<forall>fw'. submit sample_contracts (by_at 1100 2) 1 42
      (flux_emit (ValidatorUpdated 55 66) (sample_flux\<lparr>validator := 66\<rparr>), sample_tokens) \<noteq> Returns fw')"
proof -
  let ?f = "flux_emit (ValidatorUpdated 55 66) (sample_flux\<lparr>validator := 66\<rparr>)"
  have "setValidator (by_at 1050 1) 66 sample_flux = Returns ?f"
    by (simp add: setValidator_def flux_eval sample_defs)
  moreover obtain f1 where "oracleInitializeNewRound (by_at 1100 2) 1 ?f = Returns f1" "rs_minSubmissions (details f1 1) = 1"
    by (simp add: submit_eval flux_eval sample_defs)
  then have "submit sample_contracts (by_at 1100 2) 1 42 (?f, sample_tokens) \<noteq> Returns fw'" for fw'
    using flux_validator_can_block [of "by_at 1100 2" 1 ?f f1 1 sample_contracts sample_tokens 42 fw']
    by (simp add: flux_emit_def link_contracts_def link_validate_def sample_validators_def)
  ultimately show ?thesis by blast
qed

end
