(* ===== verification/Flux_Interface.thy ===== *)
theory Flux_Interface
  imports Contracts Flux_Properties
begin

text \<open>
  Where the Go framework meets the contract. The compiler gives the contract functions that are
  selected by name and take and return ABI values; here they are tables over the definitions of
  \<open>Flux_Aggregator\<close>. They translate no code of their own: they only name the functions through
  which the theorems say that what the framework sends to and reads from the contract are
  arguments and results of its functions.
\<close>

section \<open>The functions of the contract on ABI values\<close>

text \<open>
  Integers of more than 64 bits are \<open>*big.Int\<close> in Go; they are encoded in 256 bits, of which the
  contract takes as many as its type has. A nil pointer cannot be encoded.
\<close>

definition big_word :: "'a::len word \<Rightarrow> abi_val" where
  "big_word x = VBig (Some (uint x))"

definition big_int :: "int \<Rightarrow> abi_val" where
  "big_int x = VBig (Some x)"

type_synonym flux_getter = "msg \<Rightarrow> abi_val list \<Rightarrow> flux \<Rightarrow> abi_val list sol option"

definition get :: "(flux \<Rightarrow> abi_val) \<Rightarrow> flux_getter" where
  "get g m ps f = (if ps = [] then Some (Returns [g f]) else None)"

definition get_by_address :: "(address \<Rightarrow> flux \<Rightarrow> abi_val) \<Rightarrow> flux_getter" where
  "get_by_address g m ps f = (case ps of [VAddress a] \<Rightarrow> Some (Returns [g a f]) | _ \<Rightarrow> None)"

definition get_by_round :: "(uint256 \<Rightarrow> flux \<Rightarrow> abi_val) \<Rightarrow> flux_getter" where
  "get_by_round g m ps f = (case ps of [VBig (Some x)] \<Rightarrow> Some (Returns [g (word_of_int x) f]) | _ \<Rightarrow> None)"

definition round_values :: "round_data \<Rightarrow> abi_val list" where
  "round_values d =
     [big_word (data_roundId d), big_int (data_answer d), big_word (data_startedAt d), big_word (data_updatedAt d),
      big_word (data_answeredInRound d)]"

definition get_round_data :: flux_getter where
  "get_round_data m ps f =
     (case ps of
        [VBig (Some x)] \<Rightarrow> Some (bind_sol (getRoundData (word_of_int x) f) (\<lambda>d. Returns (round_values d)))
      | _ \<Rightarrow> None)"

definition get_latest_round_data :: flux_getter where
  "get_latest_round_data m ps f =
     (if ps = [] then Some (bind_sol (latestRoundData f) (\<lambda>d. Returns (round_values d))) else None)"

definition state_values :: "oracle_round_state \<Rightarrow> abi_val list" where
  "state_values st =
     [VBool (st_eligibleToSubmit st), VUint32 (st_roundId st), big_int (st_latestSubmission st), VUint64 (st_startedAt st),
      VUint64 (st_timeout st), big_word (st_availableFunds st), VUint8 (st_oracleCount st), big_word (st_paymentAmount st)]"

definition get_oracle_round_state :: flux_getter where
  "get_oracle_round_state m ps f =
     (case ps of
        [VAddress a, VUint32 q] \<Rightarrow> Some (bind_sol (oracleRoundState m a q f) (\<lambda>st. Returns (state_values st)))
      | _ \<Rightarrow> None)"

definition flux_getters :: "(string \<times> flux_getter) list" where
  "flux_getters =
     [(''allocatedFunds'', get (\<lambda>f. big_word (allocatedFunds f))),
      (''availableFunds'', get (\<lambda>f. big_word (availableFunds f))),
      (''decimals'', get (\<lambda>f. VUint8 (decimals f))),
      (''description'', get (\<lambda>f. VString (description f))),
      (''getAdmin'', get_by_address (\<lambda>a f. VAddress (getAdmin a f))),
      (''getAnswer'', get_by_round (\<lambda>r f. big_int (getAnswer r f))),
      (''getOracles'', get (\<lambda>f. VAddresses (getOracles f))),
      (''getRoundData'', get_round_data),
      (''getTimestamp'', get_by_round (\<lambda>r f. big_word (getTimestamp r f))),
      (''latestAnswer'', get (\<lambda>f. big_int (latestAnswer f))),
      (''latestRound'', get (\<lambda>f. big_word (latestRound f))),
      (''latestRoundData'', get_latest_round_data),
      (''latestTimestamp'', get (\<lambda>f. big_word (latestTimestamp f))),
      (''linkToken'', get (\<lambda>f. VAddress (linkToken f))),
      (''maxSubmissionCount'', get (\<lambda>f. VUint32 (maxSubmissionCount f))),
      (''maxSubmissionValue'', get (\<lambda>f. big_int (maxSubmissionValue f))),
      (''minSubmissionCount'', get (\<lambda>f. VUint32 (minSubmissionCount f))),
      (''minSubmissionValue'', get (\<lambda>f. big_int (minSubmissionValue f))),
      (''oracleCount'', get (\<lambda>f. VUint8 (oracleCount f))),
      (''oracleRoundState'', get_oracle_round_state),
      (''owner'', get (\<lambda>f. VAddress (owner f))),
      (''paymentAmount'', get (\<lambda>f. big_word (paymentAmount f))),
      (''restartDelay'', get (\<lambda>f. VUint32 (restartDelay f))),
      (''timeout'', get (\<lambda>f. VUint32 (timeout f))),
      (''validator'', get (\<lambda>f. VAddress (validator f))),
      (''version'', get (\<lambda>f. big_int 3)),
      (''withdrawablePayment'', get_by_address (\<lambda>a f. big_word (withdrawablePayment a f)))]"

definition flux_transactions :: "(string \<times> (abi_val list \<Rightarrow> flux_call option)) list" where
  "flux_transactions =
     [(''acceptAdmin'', \<lambda>ps. case ps of [VAddress a] \<Rightarrow> Some (AcceptAdmin a) | _ \<Rightarrow> None),
      (''acceptOwnership'', \<lambda>ps. case ps of [] \<Rightarrow> Some AcceptOwnership | _ \<Rightarrow> None),
      (''changeOracles'', \<lambda>ps. case ps of
         [VAddresses removed, VAddresses added, VAddresses admins, VUint32 lo, VUint32 hi, VUint32 delay] \<Rightarrow>
           Some (ChangeOracles removed added admins lo hi delay) | _ \<Rightarrow> None),
      (''onTokenTransfer'', \<lambda>ps. case ps of [VAddress _, VBig (Some _), VBytes data] \<Rightarrow> Some (OnTokenTransfer data) | _ \<Rightarrow> None),
      (''requestNewRound'', \<lambda>ps. case ps of [] \<Rightarrow> Some RequestNewRound | _ \<Rightarrow> None),
      (''setRequesterPermissions'', \<lambda>ps. case ps of
         [VAddress a, VBool authorized, VUint32 delay] \<Rightarrow> Some (SetRequesterPermissions a authorized delay) | _ \<Rightarrow> None),
      (''setValidator'', \<lambda>ps. case ps of [VAddress a] \<Rightarrow> Some (SetValidator a) | _ \<Rightarrow> None),
      (''submit'', \<lambda>ps. case ps of [VBig (Some r), VBig (Some s)] \<Rightarrow> Some (Submit (word_of_int r) (int256 s)) | _ \<Rightarrow> None),
      (''transferAdmin'', \<lambda>ps. case ps of [VAddress a, VAddress adm] \<Rightarrow> Some (TransferAdmin a adm) | _ \<Rightarrow> None),
      (''transferOwnership'', \<lambda>ps. case ps of [VAddress a] \<Rightarrow> Some (TransferOwnership a) | _ \<Rightarrow> None),
      (''updateAvailableFunds'', \<lambda>ps. case ps of [] \<Rightarrow> Some UpdateAvailableFunds | _ \<Rightarrow> None),
      (''updateFutureRounds'', \<lambda>ps. case ps of
         [VBig (Some p), VUint32 lo, VUint32 hi, VUint32 delay, VUint32 tmo] \<Rightarrow>
           Some (UpdateFutureRounds (word_of_int p) lo hi delay tmo) | _ \<Rightarrow> None),
      (''withdrawFunds'', \<lambda>ps. case ps of [VAddress a, VBig (Some x)] \<Rightarrow> Some (WithdrawFunds a (word_of_int x)) | _ \<Rightarrow> None),
      (''withdrawPayment'', \<lambda>ps. case ps of
         [VAddress a, VAddress to, VBig (Some x)] \<Rightarrow> Some (WithdrawPayment a to (word_of_int x)) | _ \<Rightarrow> None)]"

definition flux_view :: "string \<Rightarrow> flux_getter" where
  "flux_view name m ps f = (case map_of flux_getters name of None \<Rightarrow> None | Some g \<Rightarrow> g m ps f)"

definition flux_transaction :: "string \<Rightarrow> abi_val list \<Rightarrow> flux_call option" where
  "flux_transaction name ps = (case map_of flux_transactions name of None \<Rightarrow> None | Some g \<Rightarrow> g ps)"

definition flux_construct :: "msg \<Rightarrow> abi_val list \<Rightarrow> flux sol option" where
  "flux_construct m ps =
     (case ps of
        [VAddress link, VBig (Some payment), VUint32 tmo, VAddress val, VBig (Some lo), VBig (Some hi), VUint8 decs, VString desc] \<Rightarrow>
          Some (FluxAggregator m link (word_of_int payment) tmo val (int256 lo) (int256 hi) decs desc)
      | _ \<Rightarrow> None)"

lemmas getter_defs = get_def get_by_address_def get_by_round_def get_round_data_def get_latest_round_data_def
  get_oracle_round_state_def round_values_def state_values_def big_word_def big_int_def

section \<open>What the framework reads\<close>

text \<open>
  A node that answers calls of read-only methods of the contract at the address \<open>agg\<close>, if it
  answers them, with the results of the contract in its state \<open>fl w\<close>, called by the account of
  the options; and a conversion of values to the type they have.
\<close>

definition serves_flux :: "'w bind \<Rightarrow> address \<Rightarrow> ('w \<Rightarrow> flux) \<Rightarrow> bool" where
  "serves_flux B agg fl \<longleftrightarrow>
     (\<forall>c opts name ps w out w'. bc_address c = agg \<and> BindCall B c opts name ps w = (Inr out, w') \<longrightarrow>
        (\<exists>t. flux_view name
           \<lparr>msg_sender = co_From opts, tx_origin = co_From opts, block_timestamp = t, address_this = agg\<rparr> ps (fl w) =
           Some (Returns out))) \<and>
     (\<forall>v. ConvertType B (type_of v) v = Value v)"

lemma served_call:
  assumes "serves_flux B agg fl" "bc_address c = agg" "call_method_with B c opts name ps pick zero w = Ret (x, nil) w'"
  obtains m out where "flux_view name m ps (fl w) = Some (Returns out)" "pick out = Value x"
proof -
  obtain r w1 where r: "BindCall B c opts name ps w = (r, w1)" by (cases "BindCall B c opts name ps w")
  with assms(3) obtain out where out: "r = Inr out" "pick out = Value x"
    by (auto simp: call_method_with_def bind_call split: sum.splits outcome.splits)
  with r assms(1,2) that show thesis unfolding serves_flux_def by blast
qed

lemma served_big:
  assumes "serves_flux B agg fl"
  shows "out_big B (VBig x # out) 0 = Value x" "out_addresses B (VAddresses as # out) 0 = Value as"
    "out_big B (v0 # VBig x # out) (Suc 0) = Value x" "out_big B (v0 # v1 # VBig x # out) 2 = Value x"
    "out_big B (v0 # v1 # v2 # VBig x # out) 3 = Value x" "out_big B (v0 # v1 # v2 # v3 # VBig x # out) 4 = Value x"
proof -
  have "ConvertType B TBig (VBig y) = Value (VBig y)" "ConvertType B TAddresses (VAddresses bs) = Value (VAddresses bs)" for y bs
    using assms unfolding serves_flux_def by (metis type_of.simps(1), metis type_of.simps(11))
  then show "out_big B (VBig x # out) 0 = Value x" "out_addresses B (VAddresses as # out) 0 = Value as"
    "out_big B (v0 # VBig x # out) (Suc 0) = Value x" "out_big B (v0 # v1 # VBig x # out) 2 = Value x"
    "out_big B (v0 # v1 # v2 # VBig x # out) 3 = Value x" "out_big B (v0 # v1 # v2 # v3 # VBig x # out) 4 = Value x"
    by (simp_all add: out_big_def out_addresses_def converted_def index_def)
qed

text \<open>
  C9. What the framework reads is what the contract says: when \<open>GetContractData\<close> of an aggregator
  returns without an error, the four parts of its result are \<open>allocatedFunds\<close>, \<open>availableFunds\<close>,
  \<open>latestRoundData\<close> and \<open>getOracles\<close> of the contract, in the states of the four calls, and the
  answer is within the bounds on submissions, if the contract got to that state by calls of its
  functions.
\<close>

theorem framework_reads_the_contract:
  assumes "serves_flux B agg fl" "bc_address (caller_contract (Caller (efa_fluxAggregator a))) = agg"
    and "EthereumFluxAggregator_GetContractData B E a ctxt w = Ret (d, nil) w'"
  shows "\<exists>w1 w2 w3 rd.
    fd_AllocatedFunds d = Some (uint (allocatedFunds (fl w))) \<and> fd_AvailableFunds d = Some (uint (availableFunds (fl w1))) \<and>
    latestRoundData (fl w2) = Returns rd \<and>
    fd_LatestRoundData d = \<lparr>rd_RoundId = Some (uint (data_roundId rd)), rd_Answer = Some (data_answer rd),
      rd_StartedAt = Some (uint (data_startedAt rd)), rd_UpdatedAt = Some (uint (data_updatedAt rd)),
      rd_AnsweredInRound = Some (uint (data_answeredInRound rd))\<rparr> \<and>
    fd_Oracles d = getOracles (fl w3) \<and>
    (\<forall>C link init env x. flux_reach C agg link init env (fl w2, x) \<longrightarrow>
      minSubmissionValue (fl w2) \<le> data_answer rd \<and> data_answer rd \<le> maxSubmissionValue (fl w2))"
proof -
  let ?c = "caller_contract (Caller (efa_fluxAggregator a))"
  obtain opts w1 w2 w3 where reads:
    "FluxAggregatorCaller_AllocatedFunds B (Caller (efa_fluxAggregator a)) opts w = Ret (fd_AllocatedFunds d, nil) w1"
    "FluxAggregatorCaller_AvailableFunds B (Caller (efa_fluxAggregator a)) opts w1 = Ret (fd_AvailableFunds d, nil) w2"
    "FluxAggregatorCaller_LatestRoundData B (Caller (efa_fluxAggregator a)) opts w2 = Ret (fd_LatestRoundData d, nil) w3"
    "FluxAggregatorCaller_GetOracles B (Caller (efa_fluxAggregator a)) opts w3 = Ret (fd_Oracles d, nil) w'"
    using flux_contract_data [OF assms(3) refl refl] by blast
  note defs = flux_view_def flux_getters_def getter_defs served_big [OF assms(1)]
  have "fd_AllocatedFunds d = Some (uint (allocatedFunds (fl w)))"
    by (rule served_call [OF assms(1,2) reads(1) [unfolded FluxAggregatorCaller_AllocatedFunds_def]]) (simp add: defs)
  moreover have "fd_AvailableFunds d = Some (uint (availableFunds (fl w1)))"
    by (rule served_call [OF assms(1,2) reads(2) [unfolded FluxAggregatorCaller_AvailableFunds_def]]) (simp add: defs)
  moreover have "fd_Oracles d = getOracles (fl w3)"
    by (rule served_call [OF assms(1,2) reads(4) [unfolded FluxAggregatorCaller_GetOracles_def]]) (simp add: defs)
  moreover obtain rd where rd: "latestRoundData (fl w2) = Returns rd"
    "fd_LatestRoundData d = \<lparr>rd_RoundId = Some (uint (data_roundId rd)), rd_Answer = Some (data_answer rd),
      rd_StartedAt = Some (uint (data_startedAt rd)), rd_UpdatedAt = Some (uint (data_updatedAt rd)),
      rd_AnsweredInRound = Some (uint (data_answeredInRound rd))\<rparr>"
    by (rule served_call [OF assms(1,2) reads(3) [unfolded FluxAggregatorCaller_LatestRoundData_def]])
      (auto simp: defs bind_sol_Returns)
  moreover have "minSubmissionValue (fl w2) \<le> data_answer rd \<and> data_answer rd \<le> maxSubmissionValue (fl w2)"
    if "flux_reach C agg link init env (fl w2, x)" for C link init env x
    using getRoundData_bounded [OF that rd(1) [unfolded latestRoundData_def]] by blast
  ultimately show ?thesis by blast
qed

text \<open>A node with the contract in the state \<open>sample_full\<close> at address 7.\<close>

definition sample_node :: "nat bind" where
  "sample_node = sample_chain\<lparr>BindCall := (\<lambda>c opts name ps w.
     (case flux_view name
        \<lparr>msg_sender = co_From opts, tx_origin = co_From opts, block_timestamp = 1200, address_this = 7\<rparr> ps sample_full of
        Some (Returns out) \<Rightarrow> Inr out
      | _ \<Rightarrow> Inl (LibError ''execution reverted''), w))\<rparr>"

definition sample_aggregator :: EthereumFluxAggregator where
  "sample_aggregator = \<lparr>efa_client = sample_client,
     efa_fluxAggregator = binding_of ((sample_contract FluxAggregatorABI)\<lparr>bc_address := 7\<rparr>),
     efa_callerWallet = sample_wallet, efa_address = 7\<rparr>"

lemma sample_node_serves: "serves_flux sample_node 7 (\<lambda>_. sample_full)"
proof -
  have "\<exists>t. flux_view name \<lparr>msg_sender = co_From opts, tx_origin = co_From opts, block_timestamp = t, address_this = 7\<rparr> ps sample_full =
      Some (Returns out)" if "BindCall sample_node c opts name ps w = (Inr out, w')" for c opts name ps w out w'
    using that by (auto simp: sample_node_def split: option.splits sum.splits)
  moreover have "ConvertType sample_node (type_of v) v = Value v" for v by (simp add: sample_node_def)
  ultimately show ?thesis unfolding serves_flux_def by blast
qed

theorem framework_reads_the_contract_witness:
  "\<exists>d. EthereumFluxAggregator_GetContractData sample_node (sample_rpc 0) sample_aggregator 5 0 = Ret (d, nil) 0 \<and>
     fd_AllocatedFunds d = Some 20 \<and> fd_AvailableFunds d = Some 480 \<and> rd_Answer (fd_LatestRoundData d) = Some 43 \<and>
     fd_Oracles d = [2, 3]"
proof -
  have addr: "bc_address (caller_contract (Caller (efa_fluxAggregator sample_aggregator))) = 7"
    by (simp add: sample_aggregator_def binding_of_def)
  have full: "allocatedFunds sample_full = 20" "availableFunds sample_full = 480" "getOracles sample_full = [2, 3]"
    by (simp_all add: allocatedFunds_def availableFunds_def getOracles_def sample_full_def sample_answered_def sample_defs)
  have latest: "latestRoundData sample_full = Returns \<lparr>data_roundId = 1, data_answer = 43, data_startedAt = 1100,
      data_updatedAt = 1110, data_answeredInRound = 1\<rparr>"
    by (simp add: latestRoundData_def getRoundData_def validRoundId_def ROUND_MAX_def require_def Let_def sample_full_def
        sample_answered_def word_le_nat_alt)
  obtain d where d: "EthereumFluxAggregator_GetContractData sample_node (sample_rpc 0) sample_aggregator 5 0 = Ret (d, nil) 0"
    by (simp add: EthereumFluxAggregator_GetContractData_def FluxAggregatorCaller_AllocatedFunds_def
        FluxAggregatorCaller_AvailableFunds_def FluxAggregatorCaller_LatestRoundData_def FluxAggregatorCaller_GetOracles_def
        call_method_with_def bind_call sample_node_def flux_view_def flux_getters_def getter_defs latest
        out_big_def out_addresses_def converted_def index_def Let_def)
  from framework_reads_the_contract [OF sample_node_serves addr d] d show ?thesis by (auto simp: full latest)
qed

section \<open>What the framework sets up\<close>

lemma SetOracles_sends:
  assumes "EthereumFluxAggregator_SetOracles B E h a wallet toAdd toRemove toAdmin lo hi delay w = Ret nil w'"
  shows "\<exists>opts tx w1 w2. BindTransact B (transactor_contract (Transactor (efa_fluxAggregator a))) opts ''changeOracles''
    [VAddresses toRemove, VAddresses toAdd, VAddresses toAdmin, VUint32 lo, VUint32 hi, VUint32 delay] w1 = (Inr tx, w2)"
  using assms by (auto simp: set_oracles.nil_iff FluxAggregatorTransactor_ChangeOracles_def call_eq_Ret)

lemma Deploy_sends:
  assumes "DeployFluxAggregatorContract B E h e wallet options w = Ret (Inr a) w'"
  shows "\<exists>opts tx c w1 w2. BindDeploy B opts FluxAggregatorABI FluxAggregatorBin (Client e)
    [VAddress (link_address E h e), VBig (fx_PaymentAmount options), VUint32 (fx_Timeout options), VAddress (fx_Validator options),
     VBig (fx_MinSubValue options), VBig (fx_MaxSubValue options), VUint8 (fx_Decimals options), VString (fx_Description options)]
    w1 = (Inr (efa_address a, tx, c), w2)"
proof -
  let ?args = "[(''_link'', VAddress (link_address E h e)), (''_paymentAmount'', VBig (fx_PaymentAmount options)),
       (''_timeout'', VUint32 (fx_Timeout options)), (''_validator'', VAddress (fx_Validator options)),
       (''_minSubmissionValue'', VBig (fx_MinSubValue options)), (''_maxSubmissionValue'', VBig (fx_MaxSubValue options)),
       (''_decimals'', VUint8 (fx_Decimals options)), (''_description'', VString (fx_Description options))]"
  obtain opts ps tx c w1 w2 where s: "BindDeploy B opts FluxAggregatorABI FluxAggregatorBin (Client e) ps w1 = (Inr (efa_address a, tx, c), w2)"
    "named_constructor_args FluxAggregatorABI ps = ?args" "length ps = length (ab_constructor FluxAggregatorABI)"
    using DeployFluxAggregatorContract_Inr [OF assms] unfolding Contracts.deployed_def by blast
  from s(2,3) have "ps = map snd ?args" unfolding named_constructor_args_def by (metis length_map map_snd_zip)
  then have ps: "ps = [VAddress (link_address E h e), VBig (fx_PaymentAmount options), VUint32 (fx_Timeout options),
      VAddress (fx_Validator options), VBig (fx_MinSubValue options), VBig (fx_MaxSubValue options),
      VUint8 (fx_Decimals options), VString (fx_Description options)]" by simp
  show ?thesis using s(1) unfolding ps by blast
qed

lemma construct_stores:
  assumes "0 \<le> p" "p < 2 ^ 128" "is_int256 lo" "is_int256 hi"
  shows "\<exists>r. flux_construct m [VAddress link, VBig (Some p), VUint32 tmo, VAddress val, VBig (Some lo), VBig (Some hi),
      VUint8 decs, VString desc] = Some r \<and> (\<forall>f. r = Returns f \<longrightarrow>
      owner f = msg_sender m \<and> linkToken f = link \<and> uint (paymentAmount f) = p \<and> timeout f = tmo \<and> validator f = val \<and>
      minSubmissionValue f = lo \<and> maxSubmissionValue f = hi \<and> decimals f = decs \<and> description f = desc)"
proof -
  have "uint (word_of_int p :: uint128) = p" using assms(1,2) by (simp add: unsigned_of_int take_bit_int_eq_self)
  then show ?thesis
    using FluxAggregator_Returns [of m link "word_of_int p" tmo val lo hi decs desc] assms(3,4)
    by (auto simp: flux_construct_def int256_id)
qed

lemma change_oracles_effect:
  assumes "flux_reach C agg link init env (f, x)" "rounds_left f" "length added < 2 ^ 256"
    and "flux_exec C m (ChangeOracles removed added admins lo hi delay) (f, x) = Returns (f', x')"
  shows "msg_sender m = owner f \<and> set (getOracles f') = set (getOracles f) - set removed \<union> set added \<and>
    minSubmissionCount f' = lo \<and> maxSubmissionCount f' = hi \<and> restartDelay f' = delay"
proof -
  have c: "changeOracles m removed added admins lo hi delay f = Returns f'" using assms(4) by (simp add: on_flux_Returns)
  have "msg_sender m = owner f" using changeOracles_admins [OF c] by blast
  moreover have "minSubmissionCount f' = lo \<and> maxSubmissionCount f' = hi \<and> restartDelay f' = delay"
    using c by (auto simp: changeOracles_def onlyOwner_Returns bind_sol_Returns require_Returns dest!: updateFutureRounds_Returns)
  moreover have "set (oracleAddresses f') = set (oracleAddresses f) - set removed \<union> set added"
    using changeOracles_listed [OF c assms(3) _ assms(2)] oracles_invariant [OF assms(1)] by blast
  ultimately show ?thesis by (simp add: getOracles_def)
qed

text \<open>
  C8. What the framework sets up is what the contract gets. The transaction by which an aggregator
  is deployed has arguments with which, if the constructor returns, every option is in the
  storage; and the transaction of \<open>SetOracles\<close> is a call of \<open>changeOracles\<close> after which, if it
  does not revert, the oracles are those that were there, without the removed and with the added
  ones, and the configuration is the one that was given.
\<close>

theorem framework_sets_up_the_contract:
  "(DeployFluxAggregatorContract B E h e wallet options w = Ret (Inr a) w' \<and>
      fx_PaymentAmount options = Some p \<and> fx_MinSubValue options = Some lo \<and> fx_MaxSubValue options = Some hi \<and>
      0 \<le> p \<and> p < 2 ^ 128 \<and> is_int256 lo \<and> is_int256 hi \<longrightarrow>
    (let ps = [VAddress (link_address E h e), VBig (Some p), VUint32 (fx_Timeout options), VAddress (fx_Validator options),
        VBig (Some lo), VBig (Some hi), VUint8 (fx_Decimals options), VString (fx_Description options)] in
      (\<exists>opts tx c w1 w2. BindDeploy B opts FluxAggregatorABI FluxAggregatorBin (Client e) ps w1 = (Inr (efa_address a, tx, c), w2)) \<and>
      (\<forall>m. \<exists>r. flux_construct m ps = Some r \<and> (\<forall>f. r = Returns f \<longrightarrow>
        owner f = msg_sender m \<and> linkToken f = link_address E h e \<and> uint (paymentAmount f) = p \<and>
        timeout f = fx_Timeout options \<and> validator f = fx_Validator options \<and> minSubmissionValue f = lo \<and>
        maxSubmissionValue f = hi \<and> decimals f = fx_Decimals options \<and> description f = fx_Description options)))) \<and>
   (EthereumFluxAggregator_SetOracles B E h a wallet toAdd toRemove toAdmin least most delay w = Ret nil w' \<longrightarrow>
    (let ps = [VAddresses toRemove, VAddresses toAdd, VAddresses toAdmin, VUint32 least, VUint32 most, VUint32 delay] in
      (\<exists>opts tx w1 w2. BindTransact B (transactor_contract (Transactor (efa_fluxAggregator a))) opts ''changeOracles'' ps w1 =
        (Inr tx, w2)) \<and>
      (\<exists>c. flux_transaction ''changeOracles'' ps = Some c \<and> (\<forall>(C :: 'x contracts) agg link init env f x m f' x'.
        flux_reach C agg link init env (f, x) \<and> rounds_left f \<and> length toAdd < 2 ^ 256 \<and>
        flux_exec C m c (f, x) = Returns (f', x') \<longrightarrow>
        msg_sender m = owner f \<and> set (getOracles f') = set (getOracles f) - set toRemove \<union> set toAdd \<and>
        minSubmissionCount f' = least \<and> maxSubmissionCount f' = most \<and> restartDelay f' = delay))))"
  (is "(?deployed \<longrightarrow> ?stored) \<and> (?set \<longrightarrow> ?changed)")
proof (intro conjI impI)
  assume d: ?deployed
  then show ?stored
    unfolding Let_def using Deploy_sends [of B E h e wallet options w a w'] construct_stores [of p lo hi]
    by (intro conjI allI) auto
next
  assume set: ?set
  have effect: "\<forall>(C :: 'x contracts) agg link init env f x m f' x'.
      flux_reach C agg link init env (f, x) \<and> rounds_left f \<and> length toAdd < 2 ^ 256 \<and>
      flux_exec C m (ChangeOracles toRemove toAdd toAdmin least most delay) (f, x) = Returns (f', x') \<longrightarrow>
      msg_sender m = owner f \<and> set (getOracles f') = set (getOracles f) - set toRemove \<union> set toAdd \<and>
      minSubmissionCount f' = least \<and> maxSubmissionCount f' = most \<and> restartDelay f' = delay"
    by (intro allI impI, elim conjE, rule change_oracles_effect)
  have call: "flux_transaction ''changeOracles'' [VAddresses toRemove, VAddresses toAdd, VAddresses toAdmin, VUint32 least,
      VUint32 most, VUint32 delay] = Some (ChangeOracles toRemove toAdd toAdmin least most delay)"
    by (simp add: flux_transaction_def flux_transactions_def)
  show ?changed
    unfolding Let_def by (rule conjI [OF SetOracles_sends [OF set]], rule exI, rule conjI [OF call effect])
qed

text \<open>The history of \<open>Flux_Sample\<close> goes on: oracle 2 is replaced by 4.\<close>

lemma sample_change:
  "\<exists>f'. flux_exec sample_contracts (by_at 1200 1) (ChangeOracles [2] [4] [14] 1 2 0) (sample_full, sample_tokens) =
     Returns (f', sample_tokens)"
  by (simp add: flux_eval removeOracle_def array_get_def array_set_def sample_full_def sample_answered_def sample_defs)

lemma sample_set_oracles:
  "EthereumFluxAggregator_SetOracles sample_chain (sample_rpc 0) sample_heap Contracts.sample_flux sample_wallet [4] [2] [14] 1 2 0 0 =
     Ret nil 1"
proof -
  obtain opts where
    "TransactionOpts (sample_rpc 0) sample_heap (efa_client Contracts.sample_flux) sample_wallet (efa_address Contracts.sample_flux)
      (Some 0) [] 0 = Ret (Inr opts) 0"
    using sample_options by (simp add: Contracts.sample_flux_def) blast
  then show ?thesis
    by (simp add: set_oracles.nil_iff FluxAggregatorTransactor_ChangeOracles_def call_eq_Ret sample_wait sample_tx_def
        Contracts.sample_flux_def)
qed

lemma sample_deploy:
  "DeployFluxAggregatorContract sample_chain (sample_rpc 0) sample_heap sample_client sample_wallet sample_flux_options 0 =
     Ret (Inr Contracts.sample_flux) 1"
  unfolding DeployFluxAggregatorContract_def
  by (subst sample_deployment [where i = "IsFluxAggregator (binding_of (sample_contract FluxAggregatorABI))"])
    (simp_all add: as_instance_def DeployFluxAggregator_def deploy_contract_def bind_call Contracts.sample_flux_def)

lemma sample_construct:
  "\<exists>f. flux_construct (by_at 1000 1) [VAddress link, VBig (Some 1), VUint32 30, VAddress 0, VBig (Some 0), VBig (Some 100), VUint8 8,
     VString desc] = Some (Returns f)"
  by (simp add: flux_construct_def FluxAggregator_def Owned_constructor_def updateFutureRounds_def setValidator_def onlyOwner_def
      requiredReserve_def oracleCount_def safe_mul_def safe_sub_def require_def set_defs Let_def RESERVE_ROUNDS_def)

theorem framework_sets_up_the_contract_witness:
  "(\<exists>f. flux_construct (by_at 1000 1) [VAddress (link_address (sample_rpc 0) sample_heap sample_client), VBig (Some 1), VUint32 30,
      VAddress 0, VBig (Some 0), VBig (Some 100), VUint8 8, VString ''Test Flux Aggregator''] = Some (Returns f) \<and>
      minSubmissionValue f = 0 \<and> maxSubmissionValue f = 100) \<and>
   (\<exists>c f'. flux_transaction ''changeOracles'' [VAddresses [2], VAddresses [4], VAddresses [14], VUint32 1, VUint32 2, VUint32 0] = Some c \<and>
     flux_exec sample_contracts (by_at 1200 1) c (sample_full, sample_tokens) = Returns (f', sample_tokens) \<and>
     set (getOracles f') = {3, 4})"
proof
  obtain f where f: "flux_construct (by_at 1000 1) [VAddress (link_address (sample_rpc 0) sample_heap sample_client), VBig (Some 1),
      VUint32 30, VAddress 0, VBig (Some 0), VBig (Some 100), VUint8 8, VString ''Test Flux Aggregator''] = Some (Returns f)"
    using sample_construct by blast
  have o: "fx_PaymentAmount sample_flux_options = Some 1" "fx_MinSubValue sample_flux_options = Some 0"
    "fx_MaxSubValue sample_flux_options = Some 100" "fx_Timeout sample_flux_options = 30" "fx_Validator sample_flux_options = 0"
    "fx_Decimals sample_flux_options = 8" "fx_Description sample_flux_options = ''Test Flux Aggregator''"
    by (simp_all add: sample_flux_options_def)
  have hyp: "DeployFluxAggregatorContract sample_chain (sample_rpc 0) sample_heap sample_client sample_wallet sample_flux_options 0 =
      Ret (Inr Contracts.sample_flux) 1 \<and> fx_PaymentAmount sample_flux_options = Some 1 \<and>
      fx_MinSubValue sample_flux_options = Some 0 \<and> fx_MaxSubValue sample_flux_options = Some 100 \<and>
      (0 :: int) \<le> 1 \<and> (1 :: int) < 2 ^ 128 \<and> is_int256 0 \<and> is_int256 100"
    by (simp add: sample_deploy o is_int256_def)
  note stored = spec [OF framework_sets_up_the_contract [THEN conjunct1, THEN mp, OF hyp, unfolded Let_def o, THEN conjunct2],
    of "by_at 1000 1"]
  then have "minSubmissionValue f = 0 \<and> maxSubmissionValue f = 100" unfolding f by simp
  with f show "\<exists>f. flux_construct (by_at 1000 1) [VAddress (link_address (sample_rpc 0) sample_heap sample_client), VBig (Some 1),
      VUint32 30, VAddress 0, VBig (Some 0), VBig (Some 100), VUint8 8, VString ''Test Flux Aggregator''] = Some (Returns f) \<and>
      minSubmissionValue f = 0 \<and> maxSubmissionValue f = 100" by blast
next
  obtain f' where f': "flux_exec sample_contracts (by_at 1200 1) (ChangeOracles [2] [4] [14] 1 2 0) (sample_full, sample_tokens) =
      Returns (f', sample_tokens)"
    using sample_change by blast
  have call: "flux_transaction ''changeOracles'' [VAddresses [2], VAddresses [4], VAddresses [14], VUint32 1, VUint32 2, VUint32 0] =
      Some (ChangeOracles [2] [4] [14] 1 2 0)"
    by (simp add: flux_transaction_def flux_transactions_def)
  have "rounds_left sample_full" "getOracles sample_full = [2, 3]"
    by (simp_all add: rounds_left_def getOracles_def sample_full_def sample_answered_def sample_defs)
  with framework_sets_up_the_contract [THEN conjunct2, rule_format, OF sample_set_oracles, unfolded Let_def call] f' sample_reach_full
  have "set (getOracles f') = {3, 4}" by fastforce
  with call f' show "\<exists>c f'. flux_transaction ''changeOracles''
      [VAddresses [2], VAddresses [4], VAddresses [14], VUint32 1, VUint32 2, VUint32 0] = Some c \<and>
     flux_exec sample_contracts (by_at 1200 1) c (sample_full, sample_tokens) = Returns (f', sample_tokens) \<and>
     set (getOracles f') = {3, 4}" by blast
qed

end
