(* ===== verification/Sol_Abi.thy ===== *)
theory Sol_Abi
  imports Evm
begin

unbundle bit_operations_syntax

text \<open>
  What the contracts use of the byte level of the virtual machine: \<open>bytes32\<close> values and their
  bytes, the encoding of arguments (\<open>abi.encode\<close>, \<open>abi.encodePacked\<close>), and decoding, with the checks
  that the compiler puts into \<open>abi.decode\<close>. A \<open>bytes32\<close> is a \<open>uint256\<close>, whose byte \<open>0\<close> is the most
  significant one. The cryptographic functions of the machine are the parameter \<open>evm_crypto\<close>.
\<close>

section \<open>Bytes\<close>

definition byte_at :: "uint256 \<Rightarrow> nat \<Rightarrow> uint8" where
  "byte_at w i = ucast (drop_bit (8 * (31 - i)) w)"

definition abi_word :: "uint256 \<Rightarrow> bytes" where
  "abi_word w = map (byte_at w) [0..<32]"

definition nat_of_bytes :: "bytes \<Rightarrow> nat" where
  "nat_of_bytes bs = foldl (\<lambda>n b. n * 256 + unat b) 0 bs"

text \<open>The word that starts at an offset.\<close>

definition abi_load :: "bytes \<Rightarrow> nat \<Rightarrow> uint256" where
  "abi_load bs i = word_of_nat (nat_of_bytes (take 32 (drop i bs)))"

definition int192 :: "int \<Rightarrow> int" where
  "int192 x = signed_take_bit 191 x"

definition is_int192 :: "int \<Rightarrow> bool" where
  "is_int192 x \<longleftrightarrow> - (2 ^ 191) \<le> x \<and> x < 2 ^ 191"

text \<open>An array, with its length first, and \<open>bytes\<close>, padded to whole words.\<close>

definition abi_words :: "uint256 list \<Rightarrow> bytes" where
  "abi_words ws = concat (map abi_word ws)"

definition abi_array :: "uint256 list \<Rightarrow> bytes" where
  "abi_array ws = abi_word (word_of_nat (length ws)) @ abi_words ws"

definition abi_bytes :: "bytes \<Rightarrow> bytes" where
  "abi_bytes bs = abi_word (word_of_nat (length bs)) @ bs @ replicate ((32 - length bs mod 32) mod 32) 0"

section \<open>Cryptography\<close>

text \<open>
  \<open>ecrecover\<close> gives the zero address for a signature that is not valid. \<open>modexp\<close> is the precompiled
  contract at the address \<open>5\<close>, called with a base, an exponent and a modulus of 32 bytes; \<open>None\<close> is
  a call that fails.
\<close>

record evm_crypto =
  keccak256 :: "bytes \<Rightarrow> uint256"
  ecrecover :: "uint256 \<Rightarrow> uint8 \<Rightarrow> uint256 \<Rightarrow> uint256 \<Rightarrow> address"
  modexp :: "uint256 \<Rightarrow> uint256 \<Rightarrow> uint256 \<Rightarrow> uint256 option"

section \<open>Lemmas\<close>

lemma length_abi_word [simp]: "length (abi_word w) = 32"
  by (simp add: abi_word_def)

lemma length_abi_words [simp]: "length (abi_words ws) = 32 * length ws"
  by (induction ws) (simp_all add: abi_words_def)

lemma abi_words_simps [simp]:
  "abi_words [] = []" "abi_words (w # ws) = abi_word w @ abi_words ws"
  by (simp_all add: abi_words_def)

lemma unat_byte_at: "unat (byte_at w i) = unat w div 256 ^ (31 - i) mod 256"
proof -
  have "take_bit 256 (unat w) = unat w" using unsigned_less [of w] by (simp add: take_bit_nat_eq_self_iff)
  then have "unat (byte_at w i) = take_bit 8 (drop_bit (8 * (31 - i)) (unat w))"
    by (simp add: byte_at_def unsigned_ucast_eq unsigned_drop_bit_eq)
  then show ?thesis by (simp add: take_bit_eq_mod drop_bit_eq_div power_mult)
qed

lemma nat_of_bytes_prefix: "k \<le> 32 \<Longrightarrow> nat_of_bytes (map (byte_at w) [0..<k]) = unat w div 256 ^ (32 - k)"
proof (induction k)
  case 0
  have "unat w < 256 ^ 32" using unsigned_less [of w] by simp
  then show ?case by (simp add: nat_of_bytes_def)
next
  case (Suc k)
  let ?x = "unat w div 256 ^ (31 - k)"
  have "unat w div 256 ^ (32 - k) = ?x div 256"
    using Suc.prems by (simp add: div_mult2_eq [symmetric] Suc_diff_le [symmetric] mult.commute flip: power_Suc)
  moreover have "nat_of_bytes (map (byte_at w) [0..<Suc k]) = nat_of_bytes (map (byte_at w) [0..<k]) * 256 + ?x mod 256"
    by (simp add: nat_of_bytes_def unat_byte_at)
  ultimately show ?case using Suc div_mult_mod_eq [of ?x 256] by simp
qed

lemma nat_of_abi_word [simp]: "nat_of_bytes (abi_word w) = unat w"
  using nat_of_bytes_prefix [of 32 w] by (simp add: abi_word_def)

lemma abi_load_word: "length pre = i \<Longrightarrow> abi_load (pre @ abi_word w @ post) i = w"
  by (simp add: abi_load_def)

lemma abi_load_words:
  assumes "length pre = i" "k < length ws"
  shows "abi_load (pre @ abi_words ws @ post) (i + 32 * k) = ws ! k"
proof -
  have "abi_words (take k ws @ ws ! k # drop (Suc k) ws) = abi_words (take k ws) @ abi_word (ws ! k) @ abi_words (drop (Suc k) ws)"
    by (simp add: abi_words_def)
  then have "abi_words ws = abi_words (take k ws) @ abi_word (ws ! k) @ abi_words (drop (Suc k) ws)"
    using id_take_nth_drop [OF assms(2)] by simp
  then show ?thesis
    using assms abi_load_word [of "pre @ abi_words (take k ws)" "i + 32 * k" "ws ! k" "abi_words (drop (Suc k) ws) @ post"]
    by simp
qed

lemma is_int192_int192 [simp, intro]: "is_int192 (int192 x)"
  using signed_take_bit_int_greater_eq_minus_exp [of 191 x] signed_take_bit_int_less_exp [of 191 x]
  by (simp add: is_int192_def int192_def)

lemma int192_of_word: "is_int192 x \<Longrightarrow> int192 (uint (word_of_int x :: uint256)) = x"
proof -
  assume "is_int192 x"
  then have "signed_take_bit 191 x = x" by (simp add: is_int192_def signed_take_bit_int_eq_self)
  then show ?thesis by (simp add: int192_def uint_word_of_int_eq signed_take_bit_take_bit)
qed

lemma is_int192_0 [simp]: "is_int192 0"
  by (simp add: is_int192_def)

lemma is_int192_256: "is_int192 x \<Longrightarrow> is_int256 x"
  by (simp add: is_int192_def is_int256_def)

end
