(* ===== verification/Offchain_Billing.thy ===== *)
theory Offchain_Billing
  imports Owned Sol_Contracts Sol_Abi
begin

text \<open>
  The contract \<open>contracts/ethereum/v0.7/src/OffchainAggregatorBilling.sol\<close>: what the oracles of an
  off-chain reporting aggregator are owed, in LINK, and how they are paid. The storage is that of
  the whole contract, with the variables of \<open>OffchainAggregator.sol\<close>, which inherits from this one;
  its functions are in \<open>Offchain_Aggregator\<close>. Each function of the contract is a definition of its
  name. The access controllers are the parameter \<open>'w access\<close>, the token and the validator \<open>'w contracts\<close>.
\<close>

section \<open>Storage\<close>

datatype role = Unset | Signer | Transmitter

record oracle_entry =
  ora_index :: uint8
  ora_role :: role

record billing_terms =
  maximumGasPrice :: uint32
  reasonableGasPrice :: uint32
  microLinkPerEth :: uint32
  linkGweiPerObservation :: uint32
  linkGweiPerTransmission :: uint32

record hot_vars =
  latestConfigDigest :: uint128
  latestEpochAndRound :: uint40
  threshold :: uint8
  latestAggregatorRoundId :: uint32

record transmission =
  tr_answer :: int
  tr_timestamp :: uint64

record validator_config =
  vc_validator :: address
  vc_gasLimit :: uint32

datatype ocr_event =
    BillingSet uint32 uint32 uint32 uint32 uint32
  | BillingAccessControllerSet address address
  | OraclePaid address address uint256
  | PayeeshipTransferRequested address address address
  | PayeeshipTransferred address address address
  | ConfigSet uint32 uint64 "address list" "address list" uint8 uint64 bytes
  | ValidatorConfigSet address uint32 address uint32
  | RequesterAccessControllerSet address address
  | RoundRequested address uint128 uint32 uint8
  | NewTransmission uint32 int address "int list" bytes uint256
  | NewRound uint256 address uint256
  | AnswerUpdated int uint256 uint256

record ocr = owned +
  s_billing :: billing_terms
  LINK :: address
  s_billingAccessController :: address
  s_oracleObservationsCounts :: "uint16 list"
  s_payees :: "address \<Rightarrow> address"
  s_proposedPayees :: "address \<Rightarrow> address"
  s_gasReimbursementsLinkWei :: "uint256 list"
  s_oracles :: "address \<Rightarrow> oracle_entry"
  s_signers :: "address list"
  s_transmitters :: "address list"
  s_hotVars :: hot_vars
  s_transmissions :: "uint32 \<Rightarrow> transmission"
  s_configCount :: uint32
  s_latestConfigBlockNumber :: uint32
  minAnswer :: int
  maxAnswer :: int
  s_validatorConfig :: validator_config
  s_requesterAccessController :: address
  decimals :: uint8
  s_description :: string
  ocr_logs :: "ocr_event list"

definition maxNumOracles :: nat where
  "maxNumOracles = 31"

definition maxUint16 :: uint256 where
  "maxUint16 = 2 ^ 16 - 1"

definition maxUint128 :: uint256 where
  "maxUint128 = 2 ^ 128 - 1"

definition gwei :: uint256 where
  "gwei = 10 ^ 9"

definition no_oracle_entry :: oracle_entry where
  "no_oracle_entry = \<lparr>ora_index = 0, ora_role = Unset\<rparr>"

definition ocr_emit :: "ocr_event \<Rightarrow> ocr \<Rightarrow> ocr" where
  "ocr_emit e f = f\<lparr>ocr_logs := ocr_logs f @ [e]\<rparr>"

section \<open>What surrounds a call\<close>

text \<open>
  A transaction: the context of the call, the data it was sent with, the price of its gas, the
  block it is in, and what \<open>gasleft\<close> returns at the beginning of \<open>transmit\<close> and near its end.
\<close>

record tx =
  tx_msg :: msg
  msg_data :: bytes
  tx_gasprice :: uint256
  block_number :: uint256
  initial_gas :: uint256
  gas_left :: uint256

text \<open>
  \<open>hasAccess\<close> of an access controller: its address, the calling contract, the user and the data.
  It is a view, so it leaves the other contracts as they are.
\<close>

type_synonym 'w access = "address \<Rightarrow> address \<Rightarrow> address \<Rightarrow> bytes \<Rightarrow> 'w \<Rightarrow> bool sol"

definition owner_or_access :: "'w access \<Rightarrow> tx \<Rightarrow> address \<Rightarrow> ocr \<Rightarrow> 'w \<Rightarrow> bool sol" where
  "owner_or_access A x controller f w =
     (if msg_sender (tx_msg x) = owner f then Returns True
      else A controller (address_this (tx_msg x)) (msg_sender (tx_msg x)) (msg_data x) w)"

section \<open>Helper functions\<close>

definition min_sol :: "uint256 \<Rightarrow> uint256 \<Rightarrow> uint256" where
  "min_sol a b = (if a < b then a else b)"

definition saturatingAddUint16 :: "uint16 \<Rightarrow> uint16 \<Rightarrow> uint16" where
  "saturatingAddUint16 x y = ucast (min_sol (ucast x + ucast y) maxUint16)"

section \<open>Billing parameters\<close>

definition setBillingInternal :: "uint32 \<Rightarrow> uint32 \<Rightarrow> uint32 \<Rightarrow> uint32 \<Rightarrow> uint32 \<Rightarrow> ocr \<Rightarrow> ocr" where
  "setBillingInternal maxGas reasonable microLink perObservation perTransmission f =
     (let f = f\<lparr>s_billing := \<lparr>maximumGasPrice = maxGas, reasonableGasPrice = reasonable, microLinkPerEth = microLink,
        linkGweiPerObservation = perObservation, linkGweiPerTransmission = perTransmission\<rparr>\<rparr> in
      ocr_emit (BillingSet maxGas reasonable microLink perObservation perTransmission) f)"

definition getBilling :: "ocr \<Rightarrow> uint32 \<times> uint32 \<times> uint32 \<times> uint32 \<times> uint32" where
  "getBilling f =
     (let b = s_billing f in
      (maximumGasPrice b, reasonableGasPrice b, microLinkPerEth b, linkGweiPerObservation b, linkGweiPerTransmission b))"

definition setBillingAccessControllerInternal :: "address \<Rightarrow> ocr \<Rightarrow> ocr" where
  "setBillingAccessControllerInternal controller f =
     (let oldController = s_billingAccessController f in
      if controller \<noteq> oldController
      then ocr_emit (BillingAccessControllerSet oldController controller) (f\<lparr>s_billingAccessController := controller\<rparr>)
      else f)"

definition setBillingAccessController :: "msg \<Rightarrow> address \<Rightarrow> ocr \<Rightarrow> ocr sol" where
  "setBillingAccessController m controller f =
     onlyOwner m f (Returns (setBillingAccessControllerInternal controller f))"

definition billingAccessController :: "ocr \<Rightarrow> address" where
  "billingAccessController f = s_billingAccessController f"

section \<open>Paying oracles\<close>

definition owedPayment :: "address \<Rightarrow> ocr \<Rightarrow> uint256 sol" where
  "owedPayment a f =
     (let orc = s_oracles f a in
      if ora_role orc = Unset then Returns 0
      else
        bind_sol (array_get (s_oracleObservationsCounts f) (ucast (ora_index orc))) (\<lambda>count.
        let linkWeiAmount = ucast (count - 1) * ucast (linkGweiPerObservation (s_billing f)) * gwei in
        bind_sol (array_get (s_gasReimbursementsLinkWei f) (ucast (ora_index orc))) (\<lambda>gas.
        Returns (linkWeiAmount + (gas - 1)))))"

definition payOracle :: "'w contracts \<Rightarrow> msg \<Rightarrow> address \<Rightarrow> ocr \<times> 'w \<Rightarrow> (ocr \<times> 'w) sol" where
  "payOracle C m a fw =
     (case fw of (f, w) \<Rightarrow>
        let orc = s_oracles f a in
        bind_sol (owedPayment a f) (\<lambda>linkWeiAmount.
        if linkWeiAmount > 0
        then
          let payee = s_payees f a in
          bind_sol (c_transfer C (LINK f) (address_this m) payee linkWeiAmount w) (\<lambda>(ok, w).
          require ok ''insufficient funds''
          (bind_sol (array_set (s_oracleObservationsCounts f) (ucast (ora_index orc)) 1) (\<lambda>counts.
           let f = f\<lparr>s_oracleObservationsCounts := counts\<rparr> in
           bind_sol (array_set (s_gasReimbursementsLinkWei f) (ucast (ora_index orc)) 1) (\<lambda>gas.
           let f = f\<lparr>s_gasReimbursementsLinkWei := gas\<rparr> in
           Returns (ocr_emit (OraclePaid a payee linkWeiAmount) f, w)))))
        else Returns (f, w)))"

definition withdrawPayment :: "'w contracts \<Rightarrow> msg \<Rightarrow> address \<Rightarrow> ocr \<times> 'w \<Rightarrow> (ocr \<times> 'w) sol" where
  "withdrawPayment C m a fw =
     (case fw of (f, w) \<Rightarrow>
        require (msg_sender m = s_payees f a) ''Only payee can withdraw'' (payOracle C m a (f, w)))"

text \<open>
  The loop of \<open>payOracles\<close> over the transmitters from the index \<open>i\<close> on; \<open>counts\<close> and \<open>gas\<close> are its
  copies of the accounts in memory.
\<close>

fun payOracles_loop ::
  "'w contracts \<Rightarrow> msg \<Rightarrow> nat \<Rightarrow> address list \<Rightarrow> uint16 list \<times> uint256 list \<times> ocr \<times> 'w \<Rightarrow>
    (uint16 list \<times> uint256 list \<times> ocr \<times> 'w) sol" where
  "payOracles_loop C m i [] s = Returns s"
| "payOracles_loop C m i (a # as) (counts, gas, f, w) =
     bind_sol (array_get gas (word_of_nat i)) (\<lambda>g.
     let reimbursementAmountLinkWei = g - 1 in
     bind_sol (array_get counts (word_of_nat i)) (\<lambda>n.
     let obsCount = ucast (n - 1);
         linkWeiAmount = obsCount * ucast (linkGweiPerObservation (s_billing f)) * gwei + reimbursementAmountLinkWei in
     bind_sol
       (if linkWeiAmount > 0
        then
          let payee = s_payees f a in
          bind_sol (c_transfer C (LINK f) (address_this m) payee linkWeiAmount w) (\<lambda>(ok, w).
          require ok ''insufficient funds''
          (bind_sol (array_set counts (word_of_nat i) 1) (\<lambda>counts.
           bind_sol (array_set gas (word_of_nat i) 1) (\<lambda>gas.
           Returns (counts, gas, ocr_emit (OraclePaid a payee linkWeiAmount) f, w)))))
        else Returns (counts, gas, f, w))
       (payOracles_loop C m (Suc i) as)))"

definition payOracles :: "'w contracts \<Rightarrow> msg \<Rightarrow> ocr \<times> 'w \<Rightarrow> (ocr \<times> 'w) sol" where
  "payOracles C m fw =
     (case fw of (f, w) \<Rightarrow>
        bind_sol (payOracles_loop C m 0 (s_transmitters f) (s_oracleObservationsCounts f, s_gasReimbursementsLinkWei f, f, w))
        (\<lambda>(counts, gas, f, w).
         Returns (f\<lparr>s_oracleObservationsCounts := counts, s_gasReimbursementsLinkWei := gas\<rparr>, w)))"

definition setBilling ::
  "'w contracts \<Rightarrow> 'w access \<Rightarrow> tx \<Rightarrow> uint32 \<Rightarrow> uint32 \<Rightarrow> uint32 \<Rightarrow> uint32 \<Rightarrow> uint32 \<Rightarrow> ocr \<times> 'w \<Rightarrow> (ocr \<times> 'w) sol" where
  "setBilling C A x maxGas reasonable microLink perObservation perTransmission fw =
     (case fw of (f, w) \<Rightarrow>
        bind_sol (owner_or_access A x (s_billingAccessController f) f w) (\<lambda>allowed.
        require allowed ''Only owner&billingAdmin can call''
        (bind_sol (payOracles C (tx_msg x) (f, w)) (\<lambda>(f, w).
         Returns (setBillingInternal maxGas reasonable microLink perObservation perTransmission f, w)))))"

section \<open>Rewarding oracles\<close>

fun oracleRewards :: "bytes \<Rightarrow> uint16 list \<Rightarrow> uint16 list sol" where
  "oracleRewards [] observations = Returns observations"
| "oracleRewards (observer # obs) observations =
     bind_sol (array_get observations (ucast observer)) (\<lambda>n.
     bind_sol (array_set observations (ucast observer) (saturatingAddUint16 n 1)) (oracleRewards obs))"

definition accountingGasCost :: uint256 where
  "accountingGasCost = 6035"

definition impliedGasPrice :: "uint256 \<Rightarrow> uint256 \<Rightarrow> uint256 \<Rightarrow> uint256" where
  "impliedGasPrice txGasPrice reasonable maximum =
     (let gasPrice = txGasPrice;
          gasPrice = (if txGasPrice < reasonable then gasPrice + (reasonable - txGasPrice) div 2 else gasPrice) in
      min_sol gasPrice maximum)"

definition transmitterGasCostEthWei :: "uint256 \<Rightarrow> uint256 \<Rightarrow> uint256 \<Rightarrow> uint256 \<Rightarrow> uint128 sol" where
  "transmitterGasCostEthWei initialGas gasPrice callDataCost gasLeft =
     require (initialGas \<ge> gasLeft) ''gasLeft cannot exceed initialGas''
     (let gasUsed = initialGas - gasLeft + callDataCost + accountingGasCost;
          fullGasCostEthWei = gasUsed * gasPrice * gwei in
      sol_assert (fullGasCostEthWei < maxUint128) (Returns (ucast fullGasCostEthWei)))"

definition reimburseAndRewardOracles :: "tx \<Rightarrow> uint32 \<Rightarrow> bytes \<Rightarrow> ocr \<Rightarrow> ocr sol" where
  "reimburseAndRewardOracles x initialGas observers f =
     (let txOracle = s_oracles f (msg_sender (tx_msg x)); billing = s_billing f in
      bind_sol (oracleRewards observers (s_oracleObservationsCounts f)) (\<lambda>counts.
      let f = f\<lparr>s_oracleObservationsCounts := counts\<rparr> in
      require (ora_role txOracle = Transmitter) ''sent by undesignated transmitter''
      (let gasPrice = impliedGasPrice (tx_gasprice x div gwei) (ucast (reasonableGasPrice billing)) (ucast (maximumGasPrice billing));
           callDataGasCost = 16 * word_of_nat (length (msg_data x)) in
       bind_sol (transmitterGasCostEthWei (ucast initialGas) gasPrice callDataGasCost (gas_left x)) (\<lambda>cost.
       let gasCostEthWei = ucast cost :: uint256;
           gasCostLinkWei = (gasCostEthWei * ucast (microLinkPerEth billing)) div 1000000 in
       bind_sol (array_get (s_gasReimbursementsLinkWei f) (ucast (ora_index txOracle))) (\<lambda>old.
       bind_sol (array_set (s_gasReimbursementsLinkWei f) (ucast (ora_index txOracle))
         (old + gasCostLinkWei + ucast (linkGweiPerTransmission billing) * gwei)) (\<lambda>gas.
       Returns (f\<lparr>s_gasReimbursementsLinkWei := gas\<rparr>)))))))"

definition oracleObservationCount :: "address \<Rightarrow> ocr \<Rightarrow> uint16 sol" where
  "oracleObservationCount a f =
     (let orc = s_oracles f a in
      if ora_role orc = Unset then Returns 0
      else bind_sol (array_get (s_oracleObservationsCounts f) (ucast (ora_index orc))) (\<lambda>n. Returns (n - 1)))"

section \<open>Funds\<close>

fun sum_reimbursements :: "uint256 list \<Rightarrow> nat \<Rightarrow> address list \<Rightarrow> uint256 \<Rightarrow> uint256 sol" where
  "sum_reimbursements gas i [] linkDue = Returns linkDue"
| "sum_reimbursements gas i (a # as) linkDue =
     bind_sol (array_get gas (word_of_nat i)) (\<lambda>g. sum_reimbursements gas (Suc i) as (linkDue + (g - 1)))"

definition totalLINKDue :: "ocr \<Rightarrow> uint256 sol" where
  "totalLINKDue f =
     (let linkDue = foldl (\<lambda>due n. due + ucast (n - 1)) 0 (s_oracleObservationsCounts f);
          linkDue = linkDue * (ucast (linkGweiPerObservation (s_billing f)) * gwei) in
      sum_reimbursements (s_gasReimbursementsLinkWei f) 0 (s_transmitters f) linkDue)"

definition withdrawFunds :: "'w contracts \<Rightarrow> 'w access \<Rightarrow> tx \<Rightarrow> address \<Rightarrow> uint256 \<Rightarrow> ocr \<times> 'w \<Rightarrow> (ocr \<times> 'w) sol" where
  "withdrawFunds C A x recipient amount fw =
     (case fw of (f, w) \<Rightarrow>
        bind_sol (owner_or_access A x (s_billingAccessController f) f w) (\<lambda>allowed.
        require allowed ''Only owner&billingAdmin can call''
        (bind_sol (totalLINKDue f) (\<lambda>linkDue.
         bind_sol (c_balanceOf C (LINK f) (address_this (tx_msg x)) w) (\<lambda>linkBalance.
         require (linkBalance \<ge> linkDue) ''insufficient balance''
         (bind_sol (c_transfer C (LINK f) (address_this (tx_msg x)) recipient (min_sol (linkBalance - linkDue) amount) w) (\<lambda>(ok, w).
          require ok ''insufficient funds'' (Returns (f, w))))))))) "

definition linkAvailableForPayment :: "'w contracts \<Rightarrow> msg \<Rightarrow> ocr \<times> 'w \<Rightarrow> int sol" where
  "linkAvailableForPayment C m fw =
     (case fw of (f, w) \<Rightarrow>
        bind_sol (c_balanceOf C (LINK f) (address_this m) w) (\<lambda>b.
        bind_sol (totalLINKDue f) (\<lambda>d.
        let balance = int256 (uint b); due = int256 (uint d) in Returns (int256 (balance - due)))))"

section \<open>Payees\<close>

fun setPayees_loop :: "(address \<times> address) list \<Rightarrow> ocr \<Rightarrow> ocr sol" where
  "setPayees_loop [] f = Returns f"
| "setPayees_loop ((transmitter, payee) # ps) f =
     (let currentPayee = s_payees f transmitter; zeroedOut = (currentPayee = 0) in
      require (zeroedOut \<or> currentPayee = payee) ''payee already set''
      (let f = f\<lparr>s_payees := (s_payees f)(transmitter := payee)\<rparr>;
           f = (if currentPayee \<noteq> payee then ocr_emit (PayeeshipTransferred transmitter currentPayee payee) f else f) in
       setPayees_loop ps f))"

definition setPayees :: "msg \<Rightarrow> address list \<Rightarrow> address list \<Rightarrow> ocr \<Rightarrow> ocr sol" where
  "setPayees m ts payees f =
     onlyOwner m f
     (require (length ts = length payees) ''transmitters.size != payees.size'' (setPayees_loop (zip ts payees) f))"

definition transferPayeeship :: "msg \<Rightarrow> address \<Rightarrow> address \<Rightarrow> ocr \<Rightarrow> ocr sol" where
  "transferPayeeship m transmitter proposed f =
     require (msg_sender m = s_payees f transmitter) ''only current payee can update''
     (require (msg_sender m \<noteq> proposed) ''cannot transfer to self''
      (let previousProposed = s_proposedPayees f transmitter;
           f = f\<lparr>s_proposedPayees := (s_proposedPayees f)(transmitter := proposed)\<rparr> in
       Returns (if previousProposed \<noteq> proposed
                then ocr_emit (PayeeshipTransferRequested transmitter (msg_sender m) proposed) f else f)))"

definition acceptPayeeship :: "msg \<Rightarrow> address \<Rightarrow> ocr \<Rightarrow> ocr sol" where
  "acceptPayeeship m transmitter f =
     require (msg_sender m = s_proposedPayees f transmitter) ''only proposed payees can accept''
     (let currentPayee = s_payees f transmitter;
          f = f\<lparr>s_payees := (s_payees f)(transmitter := msg_sender m)\<rparr>;
          f = f\<lparr>s_proposedPayees := (s_proposedPayees f)(transmitter := 0)\<rparr> in
      Returns (ocr_emit (PayeeshipTransferred transmitter currentPayee (msg_sender m)) f))"

section \<open>Construction\<close>

text \<open>The storage of a contract before its constructors run.\<close>

definition no_terms :: billing_terms where
  "no_terms = \<lparr>maximumGasPrice = 0, reasonableGasPrice = 0, microLinkPerEth = 0, linkGweiPerObservation = 0,
     linkGweiPerTransmission = 0\<rparr>"

definition no_hot_vars :: hot_vars where
  "no_hot_vars = \<lparr>latestConfigDigest = 0, latestEpochAndRound = 0, threshold = 0, latestAggregatorRoundId = 0\<rparr>"

definition empty_storage :: "msg \<Rightarrow> ocr" where
  "empty_storage m =
     owned.extend (Owned_constructor m)
       (ocr.fields no_terms 0 0 (replicate maxNumOracles 0) (\<lambda>_. 0) (\<lambda>_. 0) (replicate maxNumOracles 0)
          (\<lambda>_. no_oracle_entry) [] [] no_hot_vars (\<lambda>_. \<lparr>tr_answer = 0, tr_timestamp = 0\<rparr>) 0 0 0 0
          \<lparr>vc_validator = 0, vc_gasLimit = 0\<rparr> 0 0 '''' [])"

definition OffchainAggregatorBilling ::
  "msg \<Rightarrow> uint32 \<Rightarrow> uint32 \<Rightarrow> uint32 \<Rightarrow> uint32 \<Rightarrow> uint32 \<Rightarrow> address \<Rightarrow> address \<Rightarrow> ocr" where
  "OffchainAggregatorBilling m maxGas reasonable microLink perObservation perTransmission link controller =
     (let f = setBillingInternal maxGas reasonable microLink perObservation perTransmission (empty_storage m);
          f = setBillingAccessControllerInternal controller f;
          f = f\<lparr>LINK := link\<rparr> in
      f\<lparr>s_oracleObservationsCounts := replicate maxNumOracles 1, s_gasReimbursementsLinkWei := replicate maxNumOracles 1\<rparr>)"

end
