(* ===== verification/Offchain_Aggregator.thy ===== *)
theory Offchain_Aggregator
  imports Offchain_Billing
begin

unbundle bit_operations_syntax

text \<open>
  The contract \<open>contracts/ethereum/v0.7/src/OffchainAggregator.sol\<close>: oracles agree on a report off
  the chain, sign it, and one of them transmits it; the contract checks the report and its
  signatures, records the median of the observations, and credits the oracles. Each function of
  the contract is a definition of its name, on the storage of \<open>Offchain_Billing\<close>; \<open>keccak256\<close> and
  \<open>ecrecover\<close> are the parameter \<open>evm_crypto\<close>.
\<close>

definition maxUint32 :: uint256 where
  "maxUint32 = 2 ^ 32 - 1"

section \<open>Configuration\<close>

definition checkConfigValid :: "nat \<Rightarrow> nat \<Rightarrow> uint256 \<Rightarrow> 'a sol \<Rightarrow> 'a sol" where
  "checkConfigValid numSigners numTransmitters thr k =
     require (numSigners \<le> maxNumOracles) ''too many signers''
     (require (thr > 0) ''threshold must be positive''
      (require (numSigners = numTransmitters) ''oracle addresses out of registration''
       (require (word_of_nat numSigners > 3 * thr) ''faulty-oracle threshold too high'' k)))"

definition configDigestFromConfigData ::
  "evm_crypto \<Rightarrow> address \<Rightarrow> uint64 \<Rightarrow> address list \<Rightarrow> address list \<Rightarrow> uint8 \<Rightarrow> uint64 \<Rightarrow> bytes \<Rightarrow> uint128" where
  "configDigestFromConfigData cr this configCount signers ts thr version encoded =
     (let tail1 = 7 * 32; tail2 = tail1 + 32 * (1 + length signers); tail3 = tail2 + 32 * (1 + length ts);
          h = keccak256 cr
            (abi_words [ucast this, ucast configCount, word_of_nat tail1, word_of_nat tail2, ucast thr, ucast version, word_of_nat tail3]
             @ abi_array (map ucast signers) @ abi_array (map ucast ts) @ abi_bytes encoded) in
      ucast (drop_bit 128 h))"

text \<open>The loop that pays and removes the oracles of the old configuration, the last one first.\<close>

partial_function (option) remove_oracles :: "'w contracts \<Rightarrow> msg \<Rightarrow> ocr \<times> 'w \<Rightarrow> (ocr \<times> 'w) sol" where
  "remove_oracles C m fw =
     (case fw of (f, w) \<Rightarrow>
        if s_signers f = [] then Returns (f, w)
        else
          let lastIdx = length (s_signers f) - 1; signer = s_signers f ! lastIdx in
          bind_sol (array_get (s_transmitters f) (word_of_nat lastIdx)) (\<lambda>transmitter.
          bind_sol (payOracle C m transmitter (f, w)) (\<lambda>(f, w).
          let f = f\<lparr>s_oracles := (s_oracles f)(signer := no_oracle_entry)\<rparr>;
              f = f\<lparr>s_oracles := (s_oracles f)(transmitter := no_oracle_entry)\<rparr>;
              f = f\<lparr>s_signers := butlast (s_signers f)\<rparr>;
              f = f\<lparr>s_transmitters := butlast (s_transmitters f)\<rparr> in
          remove_oracles C m (f, w))))"

fun add_oracles :: "nat \<Rightarrow> (address \<times> address) list \<Rightarrow> ocr \<Rightarrow> ocr sol" where
  "add_oracles i [] f = Returns f"
| "add_oracles i ((signer, transmitter) # os) f =
     require (ora_role (s_oracles f signer) = Unset) ''repeated signer address''
     (let f = f\<lparr>s_oracles := (s_oracles f)(signer := \<lparr>ora_index = word_of_nat i, ora_role = Signer\<rparr>)\<rparr> in
      require (s_payees f transmitter \<noteq> 0) ''payee must be set''
      (require (ora_role (s_oracles f transmitter) = Unset) ''repeated transmitter address''
       (let f = f\<lparr>s_oracles := (s_oracles f)(transmitter := \<lparr>ora_index = word_of_nat i, ora_role = Transmitter\<rparr>)\<rparr>;
            f = f\<lparr>s_signers := s_signers f @ [signer]\<rparr>;
            f = f\<lparr>s_transmitters := s_transmitters f @ [transmitter]\<rparr> in
        add_oracles (Suc i) os f)))"

text \<open>What \<open>setConfig\<close> does once the oracles are in place.\<close>

definition start_config ::
  "evm_crypto \<Rightarrow> tx \<Rightarrow> address list \<Rightarrow> address list \<Rightarrow> uint8 \<Rightarrow> uint64 \<Rightarrow> bytes \<Rightarrow> ocr \<Rightarrow> ocr" where
  "start_config cr x signers ts thr version encoded f =
     (let f = f\<lparr>s_hotVars := (s_hotVars f)\<lparr>threshold := thr\<rparr>\<rparr>;
          previousConfigBlockNumber = s_latestConfigBlockNumber f;
          f = f\<lparr>s_latestConfigBlockNumber := ucast (block_number x)\<rparr>;
          f = f\<lparr>s_configCount := s_configCount f + 1\<rparr>;
          configCount = ucast (s_configCount f);
          digest = configDigestFromConfigData cr (address_this (tx_msg x)) configCount signers ts thr version encoded;
          f = f\<lparr>s_hotVars := (s_hotVars f)\<lparr>latestConfigDigest := digest\<rparr>\<rparr>;
          f = f\<lparr>s_hotVars := (s_hotVars f)\<lparr>latestEpochAndRound := 0\<rparr>\<rparr> in
      ocr_emit (ConfigSet previousConfigBlockNumber configCount signers ts thr version encoded) f)"

definition setConfig ::
  "'w contracts \<Rightarrow> evm_crypto \<Rightarrow> tx \<Rightarrow> address list \<Rightarrow> address list \<Rightarrow> uint8 \<Rightarrow> uint64 \<Rightarrow> bytes \<Rightarrow> ocr \<times> 'w \<Rightarrow> (ocr \<times> 'w) sol" where
  "setConfig C cr x signers ts thr version encoded fw =
     (case fw of (f, w) \<Rightarrow>
        checkConfigValid (length signers) (length ts) (ucast thr)
        (onlyOwner (tx_msg x) f
         (bind_sol (remove_oracles C (tx_msg x) (f, w)) (\<lambda>(f, w).
          bind_sol (add_oracles 0 (zip signers ts) f) (\<lambda>f.
          Returns (start_config cr x signers ts thr version encoded f, w))))))"

definition latestConfigDetails :: "ocr \<Rightarrow> uint32 \<times> uint32 \<times> uint128" where
  "latestConfigDetails f = (s_configCount f, s_latestConfigBlockNumber f, latestConfigDigest (s_hotVars f))"

definition transmitters :: "ocr \<Rightarrow> address list" where
  "transmitters f = s_transmitters f"

section \<open>Validation\<close>

definition validatorConfig :: "ocr \<Rightarrow> address \<times> uint32" where
  "validatorConfig f = (let vc = s_validatorConfig f in (vc_validator vc, vc_gasLimit vc))"

definition setValidatorConfig :: "msg \<Rightarrow> address \<Rightarrow> uint32 \<Rightarrow> ocr \<Rightarrow> ocr sol" where
  "setValidatorConfig m newValidator newGasLimit f =
     onlyOwner m f
     (let previous = s_validatorConfig f in
      Returns
        (if vc_validator previous \<noteq> newValidator \<or> vc_gasLimit previous \<noteq> newGasLimit
         then ocr_emit (ValidatorConfigSet (vc_validator previous) (vc_gasLimit previous) newValidator newGasLimit)
           (f\<lparr>s_validatorConfig := \<lparr>vc_validator = newValidator, vc_gasLimit = newGasLimit\<rparr>\<rparr>)
         else f))"

definition validateAnswer :: "'w contracts \<Rightarrow> msg \<Rightarrow> uint32 \<Rightarrow> int \<Rightarrow> ocr \<times> 'w \<Rightarrow> (ocr \<times> 'w) sol" where
  "validateAnswer C m aggregatorRoundId answer fw =
     (case fw of (f, w) \<Rightarrow>
        let vc = s_validatorConfig f in
        if vc_validator vc = 0 then Returns (f, w)
        else
          let prevAggregatorRoundId = aggregatorRoundId - 1;
              prevAggregatorRoundAnswer = tr_answer (s_transmissions f prevAggregatorRoundId) in
          (case c_validate C (vc_validator vc) (address_this m) (ucast (vc_gasLimit vc)) (ucast prevAggregatorRoundId)
              prevAggregatorRoundAnswer (ucast aggregatorRoundId) answer w of
             NoCode \<Rightarrow> Reverts (Require '''')
           | Threw \<Rightarrow> Returns (f, w)
           | ShortReply \<Rightarrow> Reverts (Require '''')
           | Replied ok w' \<Rightarrow> Returns (f, w')))"

section \<open>Requesting rounds\<close>

definition requesterAccessController :: "ocr \<Rightarrow> address" where
  "requesterAccessController f = s_requesterAccessController f"

definition setRequesterAccessController :: "msg \<Rightarrow> address \<Rightarrow> ocr \<Rightarrow> ocr sol" where
  "setRequesterAccessController m controller f =
     onlyOwner m f
     (let oldController = s_requesterAccessController f in
      Returns
        (if controller \<noteq> oldController
         then ocr_emit (RequesterAccessControllerSet oldController controller) (f\<lparr>s_requesterAccessController := controller\<rparr>)
         else f))"

definition epoch_of :: "uint40 \<Rightarrow> uint32" where
  "epoch_of e = ucast (drop_bit 8 e)"

definition round_of :: "uint40 \<Rightarrow> uint8" where
  "round_of e = ucast e"

definition requestNewRound :: "'w access \<Rightarrow> tx \<Rightarrow> ocr \<times> 'w \<Rightarrow> (uint80 \<times> ocr) sol" where
  "requestNewRound A x fw =
     (case fw of (f, w) \<Rightarrow>
        bind_sol (owner_or_access A x (s_requesterAccessController f) f w) (\<lambda>allowed.
        require allowed ''Only owner&requester can call''
        (let hotVars = s_hotVars f;
             f = ocr_emit (RoundRequested (msg_sender (tx_msg x)) (latestConfigDigest hotVars)
               (epoch_of (latestEpochAndRound hotVars)) (round_of (latestEpochAndRound hotVars))) f in
         Returns (ucast (latestAggregatorRoundId hotVars + 1), f))))"

section \<open>Transmission\<close>

text \<open>
  \<open>abi.decode\<close> of a report: the head is three words long, the last of which is the offset of the
  observations. An observation is the low 192 bits of its word.
\<close>

definition decodeReport :: "bytes \<Rightarrow> (uint256 \<times> uint256 \<times> int list) sol" where
  "decodeReport report =
     require (96 \<le> length report) ''''
     (let off = unat (abi_load report 64) in
      require (off \<le> 2 ^ 32) ''''
      (require (off + 32 \<le> length report) ''''
       (let n = unat (abi_load report off) in
        require (n \<le> 2 ^ 32 \<and> off + 32 + 32 * n \<le> length report) ''''
        (Returns (abi_load report 0, abi_load report 32,
           map (\<lambda>i. int192 (uint (abi_load report (off + 32 + 32 * i)))) [0..<n])))))"

definition latestTransmissionDetails :: "msg \<Rightarrow> ocr \<Rightarrow> (uint128 \<times> uint32 \<times> uint8 \<times> int \<times> uint64) sol" where
  "latestTransmissionDetails m f =
     require (msg_sender m = tx_origin m) ''Only callable by EOA''
     (let hotVars = s_hotVars f; tr = s_transmissions f (latestAggregatorRoundId hotVars) in
      Returns (latestConfigDigest hotVars, epoch_of (latestEpochAndRound hotVars), round_of (latestEpochAndRound hotVars),
        tr_answer tr, tr_timestamp tr))"

definition TRANSMIT_MSGDATA_CONSTANT_LENGTH_COMPONENT :: nat where
  "TRANSMIT_MSGDATA_CONSTANT_LENGTH_COMPONENT = 4 + 32 + 32 + 32 + 32 + 32 + 32 + 32"

definition expectedMsgDataLength :: "bytes \<Rightarrow> uint256 list \<Rightarrow> uint256 list \<Rightarrow> nat" where
  "expectedMsgDataLength report rs ss =
     TRANSMIT_MSGDATA_CONSTANT_LENGTH_COMPONENT + length report + length rs * 32 + length ss * 32"

definition context_digest :: "uint256 \<Rightarrow> uint128" where
  "context_digest rawReportContext = ucast (drop_bit 128 (push_bit 88 rawReportContext))"

definition context_epoch :: "uint256 \<Rightarrow> uint40" where
  "context_epoch rawReportContext = ucast rawReportContext"

text \<open>The loop that copies the observers, at the indices that are left, and the one over the signatures.\<close>

fun copy_observers :: "uint256 \<Rightarrow> nat list \<Rightarrow> bool list \<Rightarrow> bytes sol" where
  "copy_observers rawObservers [] seen = Returns []"
| "copy_observers rawObservers (i # is) seen =
     (let observerIdx = byte_at rawObservers i in
      bind_sol (array_get seen (ucast observerIdx)) (\<lambda>s.
      require (\<not> s) ''observer index repeated''
      (bind_sol (array_set seen (ucast observerIdx) True) (\<lambda>seen.
       bind_sol (copy_observers rawObservers is seen) (\<lambda>os. Returns (observerIdx # os))))))"

fun check_signatures ::
  "evm_crypto \<Rightarrow> (address \<Rightarrow> oracle_entry) \<Rightarrow> uint256 \<Rightarrow> (uint8 \<times> uint256 \<times> uint256) list \<Rightarrow> bool list \<Rightarrow> unit sol" where
  "check_signatures cr oracles h [] hasSigned = Returns ()"
| "check_signatures cr oracles h ((v, r, s) # sigs) hasSigned =
     (let signer = ecrecover cr h (v + 27) r s; orc = oracles signer in
      require (ora_role orc = Signer) ''address not authorized to sign''
      (bind_sol (array_get hasSigned (ucast (ora_index orc))) (\<lambda>b.
       require (\<not> b) ''non-unique signature''
       (bind_sol (array_set hasSigned (ucast (ora_index orc)) True) (check_signatures cr oracles h sigs)))))"

fun check_sorted :: "int list \<Rightarrow> unit sol" where
  "check_sorted (x # y # ys) = require (x \<le> y) ''observations not sorted'' (check_sorted (y # ys))"
| "check_sorted xs = Returns ()"

text \<open>
  The three parts of \<open>transmit\<close>: checking the report against the state, checking its signatures,
  and recording its median.
\<close>

definition check_report ::
  "msg \<Rightarrow> bytes \<Rightarrow> uint256 list \<Rightarrow> uint256 list \<Rightarrow> ocr \<Rightarrow> (uint256 \<times> bytes \<times> int list \<times> hot_vars) sol" where
  "check_report m report rs ss f =
     (let hotVars = s_hotVars f in
      bind_sol (decodeReport report) (\<lambda>(rawReportContext, rawObservers, observations).
      require (latestConfigDigest hotVars = context_digest rawReportContext) ''configDigest mismatch''
      (let epochAndRound = context_epoch rawReportContext in
       require (latestEpochAndRound hotVars < epochAndRound) ''stale report''
       (require (length rs > unat (threshold hotVars)) ''not enough signatures''
        (require (length rs \<le> maxNumOracles) ''too many signatures''
         (require (length ss = length rs) ''signatures out of registration''
          (require (length observations \<le> maxNumOracles) ''num observations out of bounds''
           (require (length observations > unat (2 * threshold hotVars)) ''too few values to trust median''
            (bind_sol (copy_observers rawObservers [0..<length observations] (replicate maxNumOracles False)) (\<lambda>observers.
             let transmitter = s_oracles f (msg_sender m) in
             bind_sol
               (if ora_role transmitter = Transmitter
                then
                  bind_sol (array_get (s_transmitters f) (ucast (ora_index transmitter))) (\<lambda>t. Returns (msg_sender m = t))
                else Returns False)
               (\<lambda>authorized.
                require authorized ''unauthorized transmitter''
                (Returns (rawReportContext, observers, observations,
                   hotVars\<lparr>latestEpochAndRound := epochAndRound\<rparr>)))))))))))))"

definition verify_signatures ::
  "evm_crypto \<Rightarrow> bytes \<Rightarrow> uint256 list \<Rightarrow> uint256 list \<Rightarrow> uint256 \<Rightarrow> ocr \<Rightarrow> unit sol" where
  "verify_signatures cr report rs ss rawVs f =
     (let vs = map (byte_at rawVs) [0..<length rs]; h = keccak256 cr report in
      check_signatures cr (s_oracles f) h (zip vs (zip rs ss)) (replicate maxNumOracles False))"

definition record_median ::
  "'w contracts \<Rightarrow> msg \<Rightarrow> uint256 \<Rightarrow> bytes \<Rightarrow> int list \<Rightarrow> hot_vars \<Rightarrow> ocr \<times> 'w \<Rightarrow> (hot_vars \<times> ocr \<times> 'w) sol" where
  "record_median C m rawReportContext observers observations hotVars fw =
     (case fw of (f, w) \<Rightarrow>
        bind_sol (check_sorted observations) (\<lambda>_.
        let median = observations ! (length observations div 2) in
        require (minAnswer f \<le> median \<and> median \<le> maxAnswer f) ''median is out of min-max range''
        (let hotVars = hotVars\<lparr>latestAggregatorRoundId := latestAggregatorRoundId hotVars + 1\<rparr>;
             roundId = latestAggregatorRoundId hotVars;
             f = f\<lparr>s_transmissions := (s_transmissions f)(roundId := \<lparr>tr_answer = median, tr_timestamp = ucast (block_timestamp m)\<rparr>)\<rparr>;
             f = ocr_emit (NewTransmission roundId median (msg_sender m) observations observers rawReportContext) f;
             f = ocr_emit (NewRound (ucast roundId) 0 (block_timestamp m)) f;
             f = ocr_emit (AnswerUpdated median (ucast roundId) (block_timestamp m)) f in
         bind_sol (validateAnswer C m roundId median (f, w)) (\<lambda>(f, w). Returns (hotVars, f, w)))))"

definition transmit ::
  "'w contracts \<Rightarrow> evm_crypto \<Rightarrow> tx \<Rightarrow> bytes \<Rightarrow> uint256 list \<Rightarrow> uint256 list \<Rightarrow> uint256 \<Rightarrow> ocr \<times> 'w \<Rightarrow> (ocr \<times> 'w) sol" where
  "transmit C cr x report rs ss rawVs fw =
     (case fw of (f, w) \<Rightarrow>
        let initialGas = initial_gas x; m = tx_msg x in
        require (length (msg_data x) = expectedMsgDataLength report rs ss) ''transmit message too long''
        (bind_sol (check_report m report rs ss f) (\<lambda>(rawReportContext, observers, observations, hotVars).
         bind_sol (verify_signatures cr report rs ss rawVs f) (\<lambda>_.
         bind_sol (record_median C m rawReportContext observers observations hotVars (f, w)) (\<lambda>(hotVars, f, w).
         let f = f\<lparr>s_hotVars := hotVars\<rparr> in
         sol_assert (initialGas < maxUint32)
         (bind_sol (reimburseAndRewardOracles x (ucast initialGas) observers f) (\<lambda>f. Returns (f, w))))))))"

section \<open>Reading answers\<close>

definition latestAnswer :: "ocr \<Rightarrow> int" where
  "latestAnswer f = tr_answer (s_transmissions f (latestAggregatorRoundId (s_hotVars f)))"

definition latestTimestamp :: "ocr \<Rightarrow> uint256" where
  "latestTimestamp f = ucast (tr_timestamp (s_transmissions f (latestAggregatorRoundId (s_hotVars f))))"

definition latestRound :: "ocr \<Rightarrow> uint256" where
  "latestRound f = ucast (latestAggregatorRoundId (s_hotVars f))"

definition getAnswer :: "uint256 \<Rightarrow> ocr \<Rightarrow> int" where
  "getAnswer roundId f = (if roundId > 0xFFFFFFFF then 0 else tr_answer (s_transmissions f (ucast roundId)))"

definition getTimestamp :: "uint256 \<Rightarrow> ocr \<Rightarrow> uint256" where
  "getTimestamp roundId f = (if roundId > 0xFFFFFFFF then 0 else ucast (tr_timestamp (s_transmissions f (ucast roundId))))"

definition V3_NO_DATA_ERROR :: string where
  "V3_NO_DATA_ERROR = ''No data present''"

definition version :: uint256 where
  "version = 4"

definition description :: "ocr \<Rightarrow> string" where
  "description f = s_description f"

definition typeAndVersion :: string where
  "typeAndVersion = ''OffchainAggregator 2.0.0''"

definition getRoundData :: "uint80 \<Rightarrow> ocr \<Rightarrow> (uint80 \<times> int \<times> uint256 \<times> uint256 \<times> uint80) sol" where
  "getRoundData roundId f =
     require (roundId \<le> 0xFFFFFFFF) V3_NO_DATA_ERROR
     (let tr = s_transmissions f (ucast roundId) in
      Returns (roundId, tr_answer tr, ucast (tr_timestamp tr), ucast (tr_timestamp tr), roundId))"

definition latestRoundData :: "ocr \<Rightarrow> uint80 \<times> int \<times> uint256 \<times> uint256 \<times> uint80" where
  "latestRoundData f =
     (let roundId = ucast (latestAggregatorRoundId (s_hotVars f)) :: uint80;
          tr = s_transmissions f (ucast roundId) in
      (roundId, tr_answer tr, ucast (tr_timestamp tr), ucast (tr_timestamp tr), roundId))"

section \<open>Construction\<close>

definition OffchainAggregator ::
  "msg \<Rightarrow> uint32 \<Rightarrow> uint32 \<Rightarrow> uint32 \<Rightarrow> uint32 \<Rightarrow> uint32 \<Rightarrow> address \<Rightarrow> int \<Rightarrow> int \<Rightarrow> address \<Rightarrow> address \<Rightarrow> uint8 \<Rightarrow>
    string \<Rightarrow> ocr sol" where
  "OffchainAggregator m maxGas reasonable microLink perObservation perTransmission link lo hi billingController
      requesterController decs desc =
     (let f = OffchainAggregatorBilling m maxGas reasonable microLink perObservation perTransmission link billingController;
          f = f\<lparr>decimals := decs\<rparr>;
          f = f\<lparr>s_description := desc\<rparr> in
      bind_sol (setRequesterAccessController m requesterController f) (\<lambda>f.
      bind_sol (setValidatorConfig m 0 0 f) (\<lambda>f.
      Returns (f\<lparr>minAnswer := lo, maxAnswer := hi\<rparr>))))"

end
