(* ===== verification/Offchain_Calls.thy ===== *)
theory Offchain_Calls
  imports Offchain_Aggregator
begin

text \<open>
  All external functions of the off-chain aggregator as one function \<open>ocr_exec\<close>, the states that
  calls of anyone can reach (\<open>ocr_reach\<close>), the invariant of the contract, and what the functions
  that deal with oracles and their accounts do to the storage.
\<close>

section \<open>Calls\<close>

datatype ocr_call =
    SetConfig "address list" "address list" uint8 uint64 bytes
  | SetValidatorConfig address uint32
  | SetRequesterAccessController address
  | RequestNewRound
  | Transmit bytes "uint256 list" "uint256 list" uint256
  | SetBilling uint32 uint32 uint32 uint32 uint32
  | SetBillingAccessController address
  | WithdrawPayment address
  | WithdrawFunds address uint256
  | SetPayees "address list" "address list"
  | TransferPayeeship address address
  | AcceptPayeeship address
  | TransferOwnership address
  | AcceptOwnership

definition on_ocr :: "(ocr \<Rightarrow> ocr sol) \<Rightarrow> ocr \<times> 'w \<Rightarrow> (ocr \<times> 'w) sol" where
  "on_ocr g fw = (case fw of (f, w) \<Rightarrow> bind_sol (g f) (\<lambda>f. Returns (f, w)))"

fun ocr_exec :: "'w contracts \<Rightarrow> 'w access \<Rightarrow> evm_crypto \<Rightarrow> tx \<Rightarrow> ocr_call \<Rightarrow> ocr \<times> 'w \<Rightarrow> (ocr \<times> 'w) sol" where
  "ocr_exec C A cr x (SetConfig signers ts thr vers encoded) fw = setConfig C cr x signers ts thr vers encoded fw"
| "ocr_exec C A cr x (SetValidatorConfig a gas) fw = on_ocr (setValidatorConfig (tx_msg x) a gas) fw"
| "ocr_exec C A cr x (SetRequesterAccessController a) fw = on_ocr (setRequesterAccessController (tx_msg x) a) fw"
| "ocr_exec C A cr x RequestNewRound fw =
     bind_sol (requestNewRound A x fw) (\<lambda>(roundId, f). Returns (f, snd fw))"
| "ocr_exec C A cr x (Transmit report rs ss rawVs) fw = transmit C cr x report rs ss rawVs fw"
| "ocr_exec C A cr x (SetBilling b1 b2 b3 b4 b5) fw = setBilling C A x b1 b2 b3 b4 b5 fw"
| "ocr_exec C A cr x (SetBillingAccessController a) fw = on_ocr (setBillingAccessController (tx_msg x) a) fw"
| "ocr_exec C A cr x (WithdrawPayment a) fw = withdrawPayment C (tx_msg x) a fw"
| "ocr_exec C A cr x (WithdrawFunds a v) fw = withdrawFunds C A x a v fw"
| "ocr_exec C A cr x (SetPayees ts ps) fw = on_ocr (setPayees (tx_msg x) ts ps) fw"
| "ocr_exec C A cr x (TransferPayeeship t p) fw = on_ocr (transferPayeeship (tx_msg x) t p) fw"
| "ocr_exec C A cr x (AcceptPayeeship t) fw = on_ocr (acceptPayeeship (tx_msg x) t) fw"
| "ocr_exec C A cr x (TransferOwnership a) fw = on_ocr (transferOwnership (tx_msg x) a) fw"
| "ocr_exec C A cr x AcceptOwnership fw = on_ocr (acceptOwnership (tx_msg x)) fw"

section \<open>Reachable states\<close>

text \<open>
  Nobody has the zero address, the aggregator does not call itself, and the 32-bit counters of
  configurations and of rounds are not used up.
\<close>

definition sender_ok :: "address \<Rightarrow> tx \<Rightarrow> bool" where
  "sender_ok agg x \<longleftrightarrow> address_this (tx_msg x) = agg \<and> msg_sender (tx_msg x) \<noteq> agg \<and> msg_sender (tx_msg x) \<noteq> 0"

definition counters_left :: "ocr \<Rightarrow> bool" where
  "counters_left f \<longleftrightarrow>
     unat (s_configCount f) < 2 ^ 32 - 1 \<and> unat (latestAggregatorRoundId (s_hotVars f)) < 2 ^ 32 - 1"

inductive ocr_reach ::
  "'w contracts \<Rightarrow> 'w access \<Rightarrow> evm_crypto \<Rightarrow> address \<Rightarrow> address \<Rightarrow> ('w \<Rightarrow> bool) \<Rightarrow> ('w \<Rightarrow> 'w \<Rightarrow> bool) \<Rightarrow> ocr \<times> 'w \<Rightarrow> bool"
  for C :: "'w contracts" and A :: "'w access" and cr :: evm_crypto and agg :: address and link :: address
    and init :: "'w \<Rightarrow> bool" and env :: "'w \<Rightarrow> 'w \<Rightarrow> bool" where
  deployed: "OffchainAggregator m b1 b2 b3 b4 b5 link lo hi bc rc decs desc = Returns f \<Longrightarrow>
    is_int192 lo \<Longrightarrow> is_int192 hi \<Longrightarrow> init w \<Longrightarrow> ocr_reach C A cr agg link init env (f, w)"
| called: "ocr_reach C A cr agg link init env (f, w) \<Longrightarrow> counters_left f \<Longrightarrow> sender_ok agg x \<Longrightarrow>
    ocr_exec C A cr x c (f, w) = Returns (f', w') \<Longrightarrow> ocr_reach C A cr agg link init env (f', w')"
| elsewhere: "ocr_reach C A cr agg link init env (f, w) \<Longrightarrow> env w w' \<Longrightarrow> ocr_reach C A cr agg link init env (f, w')"

text \<open>The states that a run from a given state can reach.\<close>

inductive ocr_run ::
  "'w contracts \<Rightarrow> 'w access \<Rightarrow> evm_crypto \<Rightarrow> address \<Rightarrow> ('w \<Rightarrow> 'w \<Rightarrow> bool) \<Rightarrow> ocr \<times> 'w \<Rightarrow> ocr \<times> 'w \<Rightarrow> bool"
  for C :: "'w contracts" and A :: "'w access" and cr :: evm_crypto and agg :: address and env :: "'w \<Rightarrow> 'w \<Rightarrow> bool"
    and start :: "ocr \<times> 'w" where
  run_none: "ocr_run C A cr agg env start start"
| run_called: "ocr_run C A cr agg env start (f, w) \<Longrightarrow> counters_left f \<Longrightarrow> sender_ok agg x \<Longrightarrow>
    ocr_exec C A cr x c (f, w) = Returns (f', w') \<Longrightarrow> ocr_run C A cr agg env start (f', w')"
| run_elsewhere: "ocr_run C A cr agg env start (f, w) \<Longrightarrow> env w w' \<Longrightarrow> ocr_run C A cr agg env start (f, w')"

lemma ocr_reach_run:
  assumes "ocr_reach C A cr agg link init env (f, w)" "ocr_run C A cr agg env (f, w) (f', w')"
  shows "ocr_reach C A cr agg link init env (f', w')"
  using assms(2,1)
  by (induction "(f', w')" arbitrary: f' w' rule: ocr_run.induct) (auto intro: ocr_reach.intros)

section \<open>The invariant\<close>

text \<open>The arrays have their lengths, and the accounts in them are stored one greater than they are.\<close>

definition accounts_ok :: "ocr \<Rightarrow> bool" where
  "accounts_ok f \<longleftrightarrow>
     length (s_oracleObservationsCounts f) = 31 \<and> length (s_gasReimbursementsLinkWei f) = 31 \<and>
     (\<forall>i<31. 1 \<le> unat (s_oracleObservationsCounts f ! i)) \<and>
     (\<forall>i<31. 1 \<le> unat (s_gasReimbursementsLinkWei f ! i) \<and>
       unat (s_gasReimbursementsLinkWei f ! i) \<le> 1 + unat (latestEpochAndRound (s_hotVars f)) * 2 ^ 160) \<and>
     (\<forall>i<31. length (s_transmitters f) \<le> i \<longrightarrow> s_gasReimbursementsLinkWei f ! i = 1)"

text \<open>
  The table of oracles is exact: the signers and transmitters are pairwise different, have their
  roles and indices, and nobody else has a role; every transmitter has a payee.
\<close>

definition registered :: "ocr \<Rightarrow> bool" where
  "registered f \<longleftrightarrow>
     length (s_signers f) = length (s_transmitters f) \<and> length (s_transmitters f) \<le> 31 \<and>
     distinct (s_signers f @ s_transmitters f) \<and>
     (\<forall>i<length (s_signers f). s_oracles f (s_signers f ! i) = \<lparr>ora_index = word_of_nat i, ora_role = Signer\<rparr>) \<and>
     (\<forall>i<length (s_transmitters f). s_oracles f (s_transmitters f ! i) = \<lparr>ora_index = word_of_nat i, ora_role = Transmitter\<rparr>) \<and>
     (\<forall>a. a \<notin> set (s_signers f @ s_transmitters f) \<longrightarrow> s_oracles f a = no_oracle_entry) \<and>
     (\<forall>a\<in>set (s_transmitters f). s_payees f a \<noteq> 0)"

definition quorum_ok :: "ocr \<Rightarrow> bool" where
  "quorum_ok f \<longleftrightarrow>
     s_transmitters f = [] \<and> threshold (s_hotVars f) = 0 \<or>
     0 < unat (threshold (s_hotVars f)) \<and> 3 * unat (threshold (s_hotVars f)) < length (s_transmitters f)"

definition answers_ok :: "ocr \<Rightarrow> bool" where
  "answers_ok f \<longleftrightarrow>
     is_int192 (minAnswer f) \<and> is_int192 (maxAnswer f) \<and>
     (\<forall>r. if 0 < unat r \<and> unat r \<le> unat (latestAggregatorRoundId (s_hotVars f))
          then minAnswer f \<le> tr_answer (s_transmissions f r) \<and> tr_answer (s_transmissions f r) \<le> maxAnswer f
          else s_transmissions f r = \<lparr>tr_answer = 0, tr_timestamp = 0\<rparr>)"

definition ocr_inv :: "ocr \<Rightarrow> bool" where
  "ocr_inv f \<longleftrightarrow> accounts_ok f \<and> registered f \<and> quorum_ok f \<and> answers_ok f"

section \<open>The accounts\<close>

text \<open>What the oracle with the index \<open>i\<close> is owed.\<close>

definition owed_at :: "ocr \<Rightarrow> nat \<Rightarrow> nat" where
  "owed_at f i =
     (unat (s_oracleObservationsCounts f ! i) - 1) * (unat (linkGweiPerObservation (s_billing f)) * 10 ^ 9) +
     (unat (s_gasReimbursementsLinkWei f ! i) - 1)"

lemma unat_gwei: "unat gwei = 10 ^ 9"
  by (simp add: gwei_def)

lemma unat_dec: "1 \<le> unat a \<Longrightarrow> unat (a - 1) = unat a - 1" for a :: "'a::len word"
  by (metis One_nat_def Suc_le_eq unat_eq_zero unat_minus_one less_numeral_extra(3))

lemma unat_mult_no_wrap: "unat a * unat b < 2 ^ LENGTH('a) \<Longrightarrow> unat (a * b) = unat a * unat b" for a b :: "'a::len word"
  by (simp add: unat_word_ariths)

lemma reward_exact:
  "unat (ucast (n :: uint16) * ucast (p :: uint32) * gwei) = unat n * (unat p * 10 ^ 9)"
  "unat n * (unat p * 10 ^ 9) < 2 ^ 78"
proof -
  have n: "unat n < 2 ^ 16" and p: "unat p < 2 ^ 32" using unsigned_less [of n] unsigned_less [of p] by simp_all
  then have np: "unat n * unat p < 2 ^ 48" using mult_strict_mono [OF n p] by simp
  then have "unat (ucast n * ucast p :: uint256) = unat n * unat p" by (subst unat_mult_no_wrap) simp_all
  moreover have lim: "unat n * (unat p * 10 ^ 9) < 2 ^ 78"
    using mult_strict_right_mono [OF np, of "10 ^ 9"] by (simp add: mult.assoc)
  ultimately have "unat (ucast n * ucast p * gwei) = unat n * (unat p * 10 ^ 9)"
    by (subst unat_mult_no_wrap) (simp_all add: unat_gwei mult.assoc)
  with lim show "unat (ucast n * ucast p * gwei) = unat n * (unat p * 10 ^ 9)" "unat n * (unat p * 10 ^ 9) < 2 ^ 78"
    by blast+
qed

lemma amount_exact:
  fixes n :: uint16 and p :: uint32 and g :: uint256
  assumes "1 \<le> unat n" "1 \<le> unat g" "unat g \<le> 2 ^ 201"
  shows "unat (ucast (n - 1) * ucast p * gwei + (g - 1)) = (unat n - 1) * (unat p * 10 ^ 9) + (unat g - 1)"
    "(unat n - 1) * (unat p * 10 ^ 9) + (unat g - 1) < 2 ^ 202"
proof -
  define q where "q = (unat n - 1) * (unat p * 10 ^ 9)"
  have "unat (ucast (n - 1) * ucast p * gwei :: uint256) = q" "q < 2 ^ 78"
    using reward_exact [of "n - 1" p] unfolding unat_dec [OF assms(1)] q_def by blast+
  moreover have "unat (g - 1) = unat g - 1" using assms(2) by (rule unat_dec)
  ultimately have "unat (ucast (n - 1) * ucast p * gwei + (g - 1)) = q + (unat g - 1)" "q + (unat g - 1) < 2 ^ 202"
    using assms(2,3) by (simp_all add: unat_plus_no_wrap)
  then show "unat (ucast (n - 1) * ucast p * gwei + (g - 1)) = (unat n - 1) * (unat p * 10 ^ 9) + (unat g - 1)"
    "(unat n - 1) * (unat p * 10 ^ 9) + (unat g - 1) < 2 ^ 202"
    unfolding q_def .
qed

lemma gas_small: "accounts_ok f \<Longrightarrow> i < 31 \<Longrightarrow> unat (s_gasReimbursementsLinkWei f ! i) \<le> 2 ^ 201"
proof -
  assume ok: "accounts_ok f" "i < 31"
  have "unat (latestEpochAndRound (s_hotVars f)) < 2 ^ 40" using unsigned_less [of "latestEpochAndRound (s_hotVars f)"] by simp
  moreover have "unat (s_gasReimbursementsLinkWei f ! i) \<le> 1 + unat (latestEpochAndRound (s_hotVars f)) * 2 ^ 160"
    using ok by (simp add: accounts_ok_def)
  ultimately show ?thesis by simp
qed

lemma owed_at_exact:
  assumes "accounts_ok f" "i < 31"
  shows "unat (ucast (s_oracleObservationsCounts f ! i - 1) * ucast (linkGweiPerObservation (s_billing f)) * gwei +
      (s_gasReimbursementsLinkWei f ! i - 1) :: uint256) = owed_at f i"
    "owed_at f i < 2 ^ 202"
  using amount_exact [of "s_oracleObservationsCounts f ! i" "s_gasReimbursementsLinkWei f ! i" "linkGweiPerObservation (s_billing f)"]
    gas_small [OF assms] assms by (simp_all add: accounts_ok_def owed_at_def)

lemma unat_word_of_nat_31: "i < 31 \<Longrightarrow> unat (word_of_nat i :: uint8) = i" "i < 31 \<Longrightarrow> unat (word_of_nat i :: uint256) = i"
  by (simp_all add: unat_of_nat)

lemma owedPayment_registered:
  assumes "accounts_ok f" "s_oracles f a = \<lparr>ora_index = word_of_nat i, ora_role = r\<rparr>" "r \<noteq> Unset" "i < 31"
  shows "owedPayment a f = Returns (word_of_nat (owed_at f i))"
proof -
  have "owedPayment a f = Returns (ucast (s_oracleObservationsCounts f ! i - 1) *
      ucast (linkGweiPerObservation (s_billing f)) * gwei + (s_gasReimbursementsLinkWei f ! i - 1))"
    using assms by (simp add: owedPayment_def accounts_ok_def unat_word_of_nat_31 Let_def)
  then show ?thesis using owed_at_exact [OF assms(1,4)] by (simp add: word_unat_eq_iff unat_of_nat)
qed

lemma owedPayment_Unset: "ora_role (s_oracles f a) = Unset \<Longrightarrow> owedPayment a f = Returns 0"
  by (simp add: owedPayment_def)

text \<open>The account of the oracle with the index \<open>i\<close>, paid.\<close>

definition paid_out :: "nat \<Rightarrow> ocr \<Rightarrow> ocr" where
  "paid_out i f =
     f\<lparr>s_oracleObservationsCounts := (s_oracleObservationsCounts f)[i := 1],
       s_gasReimbursementsLinkWei := (s_gasReimbursementsLinkWei f)[i := 1]\<rparr>"

lemma payOracle_registered:
  assumes "accounts_ok f" "s_oracles f a = \<lparr>ora_index = word_of_nat i, ora_role = r\<rparr>" "r \<noteq> Unset" "i < 31"
  shows "payOracle C m a (f, w) =
    (if owed_at f i = 0 then Returns (f, w)
     else
       bind_sol (c_transfer C (LINK f) (address_this m) (s_payees f a) (word_of_nat (owed_at f i)) w) (\<lambda>(ok, w).
       require ok ''insufficient funds''
       (Returns (ocr_emit (OraclePaid a (s_payees f a) (word_of_nat (owed_at f i))) (paid_out i f), w))))"
proof -
  have "owed_at f i < 2 ^ 256" using owed_at_exact(2) [OF assms(1,4)] by simp
  then have "unat (word_of_nat (owed_at f i) :: uint256) = owed_at f i" by (simp add: unat_of_nat)
  then have "0 < (word_of_nat (owed_at f i) :: uint256) \<longleftrightarrow> owed_at f i \<noteq> 0"
    by (simp add: word_less_nat_alt)
  with assms(1,2,4) show ?thesis
    by (auto simp: payOracle_def owedPayment_registered [OF assms] paid_out_def accounts_ok_def unat_word_of_nat_31 Let_def
        intro!: arg_cong2 [where f = bind_sol])
qed

lemma payOracle_Unset: "ora_role (s_oracles f a) = Unset \<Longrightarrow> payOracle C m a (f, w) = Returns (f, w)"
  by (simp add: payOracle_def owedPayment_Unset Let_def)

end
