(* ===== verification/Offchain_Invariant.thy ===== *)
theory Offchain_Invariant
  imports Offchain_Calls
begin

text \<open>
  The invariant \<open>ocr_inv\<close> holds in every state that calls of anyone can reach: function by function,
  then for any call. \<open>Offchain_Reports\<close> has the case of \<open>transmit\<close>.
\<close>

lemmas ocr_inv_defs = ocr_inv_def accounts_ok_def registered_def quorum_ok_def answers_ok_def

section \<open>Functions that leave the oracles and their accounts\<close>

definition same_oracles :: "ocr \<Rightarrow> ocr \<Rightarrow> bool" where
  "same_oracles f f' \<longleftrightarrow>
     s_oracleObservationsCounts f' = s_oracleObservationsCounts f \<and>
     s_gasReimbursementsLinkWei f' = s_gasReimbursementsLinkWei f \<and> s_hotVars f' = s_hotVars f \<and>
     s_oracles f' = s_oracles f \<and> s_signers f' = s_signers f \<and> s_transmitters f' = s_transmitters f \<and>
     s_payees f' = s_payees f \<and> minAnswer f' = minAnswer f \<and> maxAnswer f' = maxAnswer f \<and>
     s_transmissions f' = s_transmissions f \<and> s_billing f' = s_billing f \<and> s_configCount f' = s_configCount f \<and>
     LINK f' = LINK f"

lemma same_oracles_inv: "same_oracles f f' \<Longrightarrow> ocr_inv f' = ocr_inv f"
  by (simp add: same_oracles_def ocr_inv_defs)

fun administrative :: "ocr_call \<Rightarrow> bool" where
  "administrative (SetValidatorConfig _ _) = True"
| "administrative (SetRequesterAccessController _) = True"
| "administrative RequestNewRound = True"
| "administrative (SetBillingAccessController _) = True"
| "administrative (WithdrawFunds _ _) = True"
| "administrative (TransferPayeeship _ _) = True"
| "administrative (TransferOwnership _) = True"
| "administrative AcceptOwnership = True"
| "administrative _ = False"

lemma on_ocr_Returns [sol_simps]: "on_ocr g (f, w) = Returns (f', w') \<longleftrightarrow> g f = Returns f' \<and> w' = w"
  by (auto simp: on_ocr_def bind_sol_Returns)

lemma administrative_calls:
  assumes "ocr_exec C A cr x c (f, w) = Returns (f', w')" "administrative c"
  shows "same_oracles f f'"
  using assms
  by (cases c)
    (auto simp: sol_simps same_oracles_def setValidatorConfig_def setRequesterAccessController_def requestNewRound_def
      setBillingAccessController_def setBillingAccessControllerInternal_def withdrawFunds_def transferPayeeship_def
      transferOwnership_def acceptOwnership_def ocr_emit_def Let_def split: if_splits)

section \<open>Payees\<close>

lemma setPayees_loop_Returns:
  "setPayees_loop ps f = Returns f' \<Longrightarrow>
     (\<exists>p l. f' = f\<lparr>s_payees := p, ocr_logs := l\<rparr>) \<and> (\<forall>a. s_payees f a \<noteq> 0 \<longrightarrow> s_payees f' a = s_payees f a)"
proof (induction ps f rule: setPayees_loop.induct)
  case (1 f)
  have "f = f\<lparr>s_payees := s_payees f, ocr_logs := ocr_logs f\<rparr>" by simp
  then have "\<exists>p l. f = f\<lparr>s_payees := p, ocr_logs := l\<rparr>" by (intro exI)
  with 1 show ?case by simp
next
  case (2 t p ps f)
  let ?f = "f\<lparr>s_payees := (s_payees f)(t := p)\<rparr>"
  let ?g = "if s_payees f t \<noteq> p then ocr_emit (PayeeshipTransferred t (s_payees f t) p) ?f else ?f"
  from "2.prems" have ok: "s_payees f t = 0 \<or> s_payees f t = p" and rest: "setPayees_loop ps ?g = Returns f'"
    by (auto simp: require_Returns Let_def)
  from "2.IH" [OF refl refl refl refl rest] obtain p' l' where f': "f' = ?g\<lparr>s_payees := p', ocr_logs := l'\<rparr>"
    "\<And>a. s_payees ?g a \<noteq> 0 \<Longrightarrow> s_payees f' a = s_payees ?g a" by blast
  have "f' = f\<lparr>s_payees := p', ocr_logs := l'\<rparr>" using f'(1) by (simp add: ocr_emit_def split: if_splits)
  moreover have "s_payees ?g = (s_payees f)(t := p)" by (simp add: ocr_emit_def)
  then have "s_payees f' a = s_payees f a" if "s_payees f a \<noteq> 0" for a
    using f'(2) [of a] ok that by (cases "a = t") auto
  ultimately show ?case by blast
qed

lemma payees_inv:
  assumes "ocr_inv f" "f' = f\<lparr>s_payees := p, s_proposedPayees := q, ocr_logs := l\<rparr>" "\<And>a. s_payees f a \<noteq> 0 \<Longrightarrow> p a \<noteq> 0"
  shows "ocr_inv f'"
  using assms by (auto simp: ocr_inv_defs)

lemma setPayees_inv:
  assumes "ocr_inv f" "setPayees m ts ps f = Returns f'"
  shows "ocr_inv f'"
proof -
  obtain p l where "f' = f\<lparr>s_payees := p, ocr_logs := l\<rparr>" "\<And>a. s_payees f a \<noteq> 0 \<Longrightarrow> s_payees f' a = s_payees f a"
    using assms(2) setPayees_loop_Returns [of "zip ts ps" f f'] by (auto simp: setPayees_def sol_simps)
  then show ?thesis using payees_inv [OF assms(1), where p = p and q = "s_proposedPayees f" and l = l] by simp
qed

lemma acceptPayeeship_inv:
  assumes "ocr_inv f" "acceptPayeeship m t f = Returns f'" "msg_sender m \<noteq> 0"
  shows "ocr_inv f'"
proof -
  obtain l where "f' = f\<lparr>s_payees := (s_payees f)(t := msg_sender m), s_proposedPayees := (s_proposedPayees f)(t := 0), ocr_logs := l\<rparr>"
    using assms(2) by (auto simp: acceptPayeeship_def sol_simps ocr_emit_def Let_def)
  then show ?thesis by (rule payees_inv [OF assms(1)]) (use assms(3) in auto)
qed

section \<open>Paying\<close>

lemma nth_upd: "xs[i := v] ! j = (if j = i \<and> i < length xs then v else xs ! j)"
  by (cases "i < length xs") (auto simp: nth_list_update list_update_beyond)

lemma paid_out_accounts: "accounts_ok f \<Longrightarrow> accounts_ok (paid_out i f)"
  by (auto simp: accounts_ok_def paid_out_def nth_upd)

lemma paid_out_fields [simp]:
  "s_hotVars (paid_out i f) = s_hotVars f" "s_oracles (paid_out i f) = s_oracles f" "s_signers (paid_out i f) = s_signers f"
  "s_transmitters (paid_out i f) = s_transmitters f" "s_payees (paid_out i f) = s_payees f" "s_billing (paid_out i f) = s_billing f"
  "LINK (paid_out i f) = LINK f"
  by (simp_all add: paid_out_def)

lemma ocr_emit_fields [simp]:
  "s_hotVars (ocr_emit e f) = s_hotVars f" "s_oracles (ocr_emit e f) = s_oracles f" "s_signers (ocr_emit e f) = s_signers f"
  "s_transmitters (ocr_emit e f) = s_transmitters f" "s_payees (ocr_emit e f) = s_payees f" "s_billing (ocr_emit e f) = s_billing f"
  "s_oracleObservationsCounts (ocr_emit e f) = s_oracleObservationsCounts f"
  "s_gasReimbursementsLinkWei (ocr_emit e f) = s_gasReimbursementsLinkWei f" "LINK (ocr_emit e f) = LINK f"
  "accounts_ok (ocr_emit e f) = accounts_ok f"
  by (simp_all add: ocr_emit_def accounts_ok_def)

text \<open>An oracle with a role has an index and shares the account of it.\<close>

lemma registered_cases:
  assumes "registered f"
  obtains "s_oracles f a = no_oracle_entry" "a \<notin> set (s_signers f @ s_transmitters f)"
  | i where "i < length (s_transmitters f)" "i < 31" "a = s_signers f ! i"
      "s_oracles f a = \<lparr>ora_index = word_of_nat i, ora_role = Signer\<rparr>"
  | i where "i < length (s_transmitters f)" "i < 31" "a = s_transmitters f ! i"
      "s_oracles f a = \<lparr>ora_index = word_of_nat i, ora_role = Transmitter\<rparr>"
  using assms by (auto simp: registered_def in_set_conv_nth)

lemma payOracle_role:
  assumes "payOracle C m a (f, w) = Returns (f', w')" "accounts_ok f"
    "s_oracles f a = \<lparr>ora_index = word_of_nat i, ora_role = r\<rparr>" "r \<noteq> Unset" "i < 31"
  shows "if owed_at f i = 0 then f' = f \<and> w' = w
    else c_transfer C (LINK f) (address_this m) (s_payees f a) (word_of_nat (owed_at f i)) w = Returns (True, w') \<and>
      f' = ocr_emit (OraclePaid a (s_payees f a) (word_of_nat (owed_at f i))) (paid_out i f)"
  using assms(1) unfolding payOracle_registered [OF assms(2-5)] by (auto simp: bind_sol_Returns require_Returns split: if_splits)

text \<open>What a call of \<open>payOracle\<close> does, if it returns.\<close>

lemma ocr_payOracle_Returns:
  assumes "payOracle C m a (f, w) = Returns (f', w')" "accounts_ok f" "registered f"
  obtains "f' = f" "w' = w" "s_oracles f a = no_oracle_entry"
  | i where "i < length (s_transmitters f)" "i < 31" "unat (ora_index (s_oracles f a)) = i" "ora_role (s_oracles f a) \<noteq> Unset"
      "if owed_at f i = 0 then f' = f \<and> w' = w
       else c_transfer C (LINK f) (address_this m) (s_payees f a) (word_of_nat (owed_at f i)) w = Returns (True, w') \<and>
         f' = ocr_emit (OraclePaid a (s_payees f a) (word_of_nat (owed_at f i))) (paid_out i f)"
proof (cases rule: registered_cases [OF assms(3), of a])
  case 1
  then show thesis using assms(1) payOracle_Unset [of f a C m w] that(1) by (simp add: no_oracle_entry_def)
next
  case (2 i)
  then show thesis using payOracle_role [OF assms(1,2) 2(4)] that(2) [of i] by (simp add: unat_word_of_nat_31)
next
  case (3 i)
  then show thesis using payOracle_role [OF assms(1,2) 3(4)] that(2) [of i] by (simp add: unat_word_of_nat_31)
qed

text \<open>Only the accounts and the log change, and the account is empty afterwards.\<close>

definition accounts_only :: "ocr \<Rightarrow> ocr \<Rightarrow> bool" where
  "accounts_only f f' \<longleftrightarrow>
     (\<exists>counts gas l. f' = f\<lparr>s_oracleObservationsCounts := counts, s_gasReimbursementsLinkWei := gas, ocr_logs := l\<rparr>)"

lemma accounts_only_fields:
  assumes "accounts_only f f'"
  shows "s_hotVars f' = s_hotVars f" "s_oracles f' = s_oracles f" "s_signers f' = s_signers f"
    "s_transmitters f' = s_transmitters f" "s_payees f' = s_payees f" "s_billing f' = s_billing f" "LINK f' = LINK f"
    "s_proposedPayees f' = s_proposedPayees f" "s_configCount f' = s_configCount f" "s_transmissions f' = s_transmissions f"
    "minAnswer f' = minAnswer f" "maxAnswer f' = maxAnswer f" "owner f' = owner f" "registered f' = registered f"
    "quorum_ok f' = quorum_ok f" "answers_ok f' = answers_ok f"
  using assms by (auto simp: accounts_only_def registered_def quorum_ok_def answers_ok_def)

lemma accounts_only_refl [simp, intro]: "accounts_only f f"
proof -
  have "f = f\<lparr>s_oracleObservationsCounts := s_oracleObservationsCounts f, s_gasReimbursementsLinkWei := s_gasReimbursementsLinkWei f,
    ocr_logs := ocr_logs f\<rparr>" by simp
  then show ?thesis unfolding accounts_only_def by (intro exI)
qed

lemma accounts_only_paid [simp, intro]: "accounts_only f (ocr_emit e (paid_out i f))"
  by (auto simp: accounts_only_def ocr_emit_def paid_out_def)

lemma payOracle_accounts:
  assumes "payOracle C m a (f, w) = Returns (f', w')" "accounts_ok f" "registered f"
  shows "accounts_only f f'" "accounts_ok f'"
    "i < 31 \<Longrightarrow> s_oracles f a = \<lparr>ora_index = word_of_nat i, ora_role = r\<rparr> \<Longrightarrow> r \<noteq> Unset \<Longrightarrow> owed_at f' i = 0"
proof -
  have "accounts_only f f' \<and> accounts_ok f'"
    by (rule ocr_payOracle_Returns [OF assms]) (use assms(2) in \<open>auto simp: paid_out_accounts split: if_splits\<close>)
  then show "accounts_only f f'" "accounts_ok f'" by blast+
  show "owed_at f' i = 0" if i: "i < 31" "s_oracles f a = \<lparr>ora_index = word_of_nat i, ora_role = r\<rparr>" "r \<noteq> Unset"
    using payOracle_role [OF assms(1,2) i(2,3,1)] i(1) assms(2)
    by (auto simp: owed_at_def paid_out_def accounts_ok_def split: if_splits)
qed

lemma withdrawPayment_inv:
  assumes "ocr_inv f" "withdrawPayment C m a (f, w) = Returns (f', w')"
  shows "ocr_inv f'"
proof -
  have "payOracle C m a (f, w) = Returns (f', w')" using assms(2) by (simp add: withdrawPayment_def require_Returns)
  with assms(1) show ?thesis
    using payOracle_accounts(1,2) [of C m a f w f' w'] accounts_only_fields(14-16) [of f f'] by (auto simp: ocr_inv_def)
qed

definition due_word :: "uint32 \<Rightarrow> uint16 \<Rightarrow> uint256 \<Rightarrow> uint256" where
  "due_word p n g = ucast (n - 1) * ucast p * gwei + (g - 1)"

text \<open>The accounts \<open>(counts', gas')\<close> are those before, with the ones in a range paid.\<close>

definition settled :: "uint32 \<Rightarrow> nat set \<Rightarrow> uint16 list \<Rightarrow> uint256 list \<Rightarrow> uint16 list \<Rightarrow> uint256 list \<Rightarrow> bool" where
  "settled p I counts gas counts' gas' \<longleftrightarrow>
     length counts' = 31 \<and> length gas' = 31 \<and>
     (\<forall>j<31. if j \<in> I \<and> due_word p (counts ! j) (gas ! j) \<noteq> 0 then counts' ! j = 1 \<and> gas' ! j = 1
            else counts' ! j = counts ! j \<and> gas' ! j = gas ! j)"

lemma settled_skip: "due_word p (counts ! i) (gas ! i) = 0 \<Longrightarrow>
    settled p (insert i I) counts gas counts' gas' = settled p I counts gas counts' gas'"
proof -
  assume "due_word p (counts ! i) (gas ! i) = 0"
  then have "j \<in> insert i I \<and> due_word p (counts ! j) (gas ! j) \<noteq> 0 \<longleftrightarrow> j \<in> I \<and> due_word p (counts ! j) (gas ! j) \<noteq> 0" for j
    by auto
  then show ?thesis unfolding settled_def by (simp only:)
qed

lemma settled_pay:
  assumes "settled p I (counts[i := 1]) (gas[i := 1]) counts' gas'" "due_word p (counts ! i) (gas ! i) \<noteq> 0" "i \<notin> I"
    "i < 31" "length counts = 31" "length gas = 31"
  shows "settled p (insert i I) counts gas counts' gas'"
  unfolding settled_def
proof (intro conjI allI impI)
  show "length counts' = 31" "length gas' = 31" using assms(1) by (simp_all add: settled_def)
  show "if j \<in> insert i I \<and> due_word p (counts ! j) (gas ! j) \<noteq> 0 then counts' ! j = 1 \<and> gas' ! j = 1
      else counts' ! j = counts ! j \<and> gas' ! j = gas ! j" if "j < 31" for j
  proof (cases "j = i")
    case True
    with assms that show ?thesis by (auto simp: settled_def)
  next
    case False
    then have "(counts[i := 1]) ! j = counts ! j" "(gas[i := 1]) ! j = gas ! j" by simp_all
    with assms(1) that False show ?thesis unfolding settled_def by (metis insert_iff)
  qed
qed

lemma payOracles_loop_Returns:
  assumes "payOracles_loop C m i as (counts, gas, f, w) = Returns (counts', gas', f', w')"
    "length counts = 31" "length gas = 31" "i + length as \<le> 31"
  shows "(\<exists>l. f' = f\<lparr>ocr_logs := l\<rparr>) \<and>
    settled (linkGweiPerObservation (s_billing f)) {i..<i + length as} counts gas counts' gas'"
  using assms
proof (induction as arbitrary: i counts gas f w)
  case Nil
  then have "f' = f\<lparr>ocr_logs := ocr_logs f\<rparr>" by simp
  then have "\<exists>l. f' = f\<lparr>ocr_logs := l\<rparr>" by (rule exI)
  with Nil show ?case unfolding settled_def by auto
next
  case (Cons a as)
  let ?p = "linkGweiPerObservation (s_billing f)"
  have i: "i < 31" using Cons.prems(4) by simp
  have range: "{i..<i + length (a # as)} = insert i {Suc i..<Suc i + length as}" by auto
  show ?case
  proof (cases "due_word ?p (counts ! i) (gas ! i) = 0")
    case True
    then have "payOracles_loop C m (Suc i) as (counts, gas, f, w) = Returns (counts', gas', f', w')"
      using Cons.prems i by (auto simp: due_word_def Let_def unat_word_of_nat_31)
    with Cons.IH [OF this] Cons.prems(2-4) show ?thesis unfolding range by (simp add: settled_skip [OF True])
  next
    case False
    then obtain w1 e where "payOracles_loop C m (Suc i) as (counts[i := 1], gas[i := 1], ocr_emit e f, w1) = Returns (counts', gas', f', w')"
      using Cons.prems i by (auto simp: due_word_def Let_def unat_word_of_nat_31 word_gt_0 bind_sol_Returns require_Returns)
    from Cons.IH [OF this] Cons.prems(2-4) obtain l where "f' = f\<lparr>ocr_logs := l\<rparr>"
      "settled ?p {Suc i..<Suc i + length as} (counts[i := 1]) (gas[i := 1]) counts' gas'"
      by (auto simp: ocr_emit_def)
    then show ?thesis unfolding range using settled_pay [OF _ False _ i Cons.prems(2,3)] by auto
  qed
qed

lemma due_word_owed: "accounts_ok f \<Longrightarrow> i < 31 \<Longrightarrow>
    unat (due_word (linkGweiPerObservation (s_billing f)) (s_oracleObservationsCounts f ! i) (s_gasReimbursementsLinkWei f ! i)) = owed_at f i"
  using owed_at_exact(1) [of f i] by (simp add: due_word_def)

lemma payOracles_Returns:
  assumes "payOracles C m (f, w) = Returns (f', w')" "accounts_ok f" "registered f"
  shows "accounts_only f f'" "accounts_ok f'" "i < length (s_transmitters f) \<Longrightarrow> owed_at f' i = 0"
    "i < length (s_transmitters f) \<Longrightarrow> owed_at f i = 0 \<Longrightarrow> s_oracleObservationsCounts f' ! i = s_oracleObservationsCounts f ! i \<and>
      s_gasReimbursementsLinkWei f' ! i = s_gasReimbursementsLinkWei f ! i"
proof -
  let ?p = "linkGweiPerObservation (s_billing f)" and ?c = "s_oracleObservationsCounts f" and ?g = "s_gasReimbursementsLinkWei f"
  have n: "length (s_transmitters f) \<le> 31" using assms(3) by (simp add: registered_def)
  obtain counts gas l where f': "f' = f\<lparr>ocr_logs := l, s_oracleObservationsCounts := counts, s_gasReimbursementsLinkWei := gas\<rparr>"
    and set: "settled ?p {0..<length (s_transmitters f)} ?c ?g counts gas"
    using assms(1,2) n payOracles_loop_Returns [of C m 0 "s_transmitters f" ?c ?g f w]
    by (auto simp: payOracles_def bind_sol_Returns accounts_ok_def)
  show "accounts_only f f'" unfolding accounts_only_def f' by (intro exI [of _ counts] exI [of _ gas] exI [of _ l]) simp
  show "accounts_ok f'"
    using assms(2) set unfolding accounts_ok_def settled_def f' by (auto split: if_splits)
  have due: "due_word ?p (?c ! i) (?g ! i) = 0 \<longleftrightarrow> owed_at f i = 0" if "i < length (s_transmitters f)"
    using due_word_owed [OF assms(2), of i] that n by (auto simp: unat_eq_0)
  show same: "s_oracleObservationsCounts f' ! i = ?c ! i \<and> s_gasReimbursementsLinkWei f' ! i = ?g ! i"
    if "i < length (s_transmitters f)" "owed_at f i = 0"
    using set that n due by (auto simp: settled_def f')
  show "owed_at f' i = 0" if i: "i < length (s_transmitters f)"
  proof (cases "owed_at f i = 0")
    case True
    with same [OF i] show ?thesis by (simp add: owed_at_def f')
  next
    case False
    with set i n due have "counts ! i = 1" "gas ! i = 1" by (auto simp: settled_def)
    then show ?thesis by (simp add: owed_at_def f')
  qed
qed

lemma setBilling_inv:
  assumes "ocr_inv f" "setBilling C A x b1 b2 b3 b4 b5 (f, w) = Returns (f', w')"
  shows "ocr_inv f'"
proof -
  obtain f1 where f1: "payOracles C (tx_msg x) (f, w) = Returns (f1, w')" "f' = setBillingInternal b1 b2 b3 b4 b5 f1"
    using assms(2) by (auto simp: setBilling_def sol_simps)
  have "ocr_inv f1"
    using assms(1) payOracles_Returns(1,2) [OF f1(1)] accounts_only_fields(14-16) [of f f1] by (auto simp: ocr_inv_def)
  then show ?thesis unfolding f1(2) setBillingInternal_def Let_def ocr_emit_def ocr_inv_defs by simp
qed

section \<open>Replacing the oracles\<close>

text \<open>One round of the loop that removes the oracles.\<close>

definition drop_last :: "ocr \<Rightarrow> ocr" where
  "drop_last f =
     f\<lparr>s_oracles := (s_oracles f)(last (s_signers f) := no_oracle_entry, last (s_transmitters f) := no_oracle_entry),
       s_signers := butlast (s_signers f), s_transmitters := butlast (s_transmitters f)\<rparr>"

lemma remove_oracles_step:
  assumes "registered f" "s_signers f \<noteq> []"
  shows "remove_oracles C m (f, w) =
    bind_sol (payOracle C m (last (s_transmitters f)) (f, w)) (\<lambda>(f1, w1). remove_oracles C m
      (f1\<lparr>s_oracles := (s_oracles f1)(last (s_signers f) := no_oracle_entry, last (s_transmitters f) := no_oracle_entry),
        s_signers := butlast (s_signers f1), s_transmitters := butlast (s_transmitters f1)\<rparr>, w1))"
proof -
  have len: "length (s_signers f) = length (s_transmitters f)" "length (s_transmitters f) \<le> 31" "s_transmitters f \<noteq> []"
    using assms by (auto simp: registered_def)
  have "unat (word_of_nat (length (s_signers f) - 1) :: uint256) = length (s_transmitters f) - 1"
    using len unat_word_of_nat_31(2) [of "length (s_transmitters f) - 1"] by (cases "s_transmitters f") auto
  with len assms(2) show ?thesis
    by (subst remove_oracles.simps) (simp add: last_conv_nth Let_def)
qed

lemma drop_last_registered:
  assumes "registered f" "s_signers f \<noteq> []"
  shows "registered (drop_last f)"
proof -
  obtain ss s ts t where l: "s_signers f = ss @ [s]" "s_transmitters f = ts @ [t]"
    using assms by (metis append_butlast_last_id length_0_conv registered_def)
  have r: "length ss = length ts" "length ts < 31" "distinct (ss @ s # ts @ [t])"
    "\<And>a. a \<notin> set (ss @ s # ts @ [t]) \<Longrightarrow> s_oracles f a = no_oracle_entry" "\<And>a. a \<in> set ts \<Longrightarrow> s_payees f a \<noteq> 0"
    using assms(1) unfolding registered_def l by auto
  have "s_oracles f ((ss @ [s]) ! i) = \<lparr>ora_index = word_of_nat i, ora_role = Signer\<rparr>"
    "s_oracles f ((ts @ [t]) ! i) = \<lparr>ora_index = word_of_nat i, ora_role = Transmitter\<rparr>" if "i < length ts" for i
    using assms(1) that unfolding registered_def l by simp_all
  then have "s_oracles f (ss ! i) = \<lparr>ora_index = word_of_nat i, ora_role = Signer\<rparr>"
    "s_oracles f (ts ! i) = \<lparr>ora_index = word_of_nat i, ora_role = Transmitter\<rparr>" if "i < length ts" for i
    using that r(1) by (simp_all add: nth_append)
  moreover
  have "ss ! i \<noteq> s \<and> ss ! i \<noteq> t" if "i < length ss" for i using r(3) that nth_mem [OF that] by auto
  moreover have "ts ! i \<noteq> s \<and> ts ! i \<noteq> t" if "i < length ts" for i using r(3) that nth_mem [OF that] by auto
  ultimately show ?thesis using r by (auto simp: registered_def drop_last_def l)
qed

lemma drop_last_accounts:
  assumes "accounts_ok f" "s_transmitters f \<noteq> []" "owed_at f (length (s_transmitters f) - 1) = 0"
  shows "accounts_ok (drop_last f)"
proof -
  have "s_gasReimbursementsLinkWei f ! i = 1" if "i < 31" "length (s_transmitters f) - 1 \<le> i" for i
  proof (cases "i = length (s_transmitters f) - 1")
    case True
    with assms(3) have "unat (s_gasReimbursementsLinkWei f ! i) \<le> 1" by (simp add: owed_at_def)
    moreover have "1 \<le> unat (s_gasReimbursementsLinkWei f ! i)" using assms(1) that(1) by (simp add: accounts_ok_def)
    ultimately show ?thesis by (simp add: word_unat_eq_iff)
  next
    case False
    with assms(1) that show ?thesis by (simp add: accounts_ok_def)
  qed
  with assms(1) show ?thesis by (simp add: accounts_ok_def drop_last_def)
qed

text \<open>Only the oracles, their accounts and the log change.\<close>

definition oracles_only :: "ocr \<Rightarrow> ocr \<Rightarrow> bool" where
  "oracles_only f f' \<longleftrightarrow>
     (\<exists>os ss ts counts gas l. f' = f\<lparr>s_oracles := os, s_signers := ss, s_transmitters := ts,
        s_oracleObservationsCounts := counts, s_gasReimbursementsLinkWei := gas, ocr_logs := l\<rparr>)"

lemma oracles_only_trans: "oracles_only f f' \<Longrightarrow> oracles_only f' f'' \<Longrightarrow> oracles_only f f''"
  unfolding oracles_only_def by (elim exE) (simp, metis)

lemma oracles_only_refl [simp, intro]: "oracles_only f f"
proof -
  have "f = f\<lparr>s_oracles := s_oracles f, s_signers := s_signers f, s_transmitters := s_transmitters f,
    s_oracleObservationsCounts := s_oracleObservationsCounts f, s_gasReimbursementsLinkWei := s_gasReimbursementsLinkWei f,
    ocr_logs := ocr_logs f\<rparr>" by simp
  then show ?thesis unfolding oracles_only_def by (intro exI)
qed

lemma accounts_oracles_only: "accounts_only f f' \<Longrightarrow> oracles_only f f'"
proof -
  assume "accounts_only f f'"
  then obtain counts gas l where "f' = f\<lparr>s_oracleObservationsCounts := counts, s_gasReimbursementsLinkWei := gas, ocr_logs := l\<rparr>"
    by (auto simp: accounts_only_def)
  then have "f' = f\<lparr>s_oracles := s_oracles f, s_signers := s_signers f, s_transmitters := s_transmitters f,
    s_oracleObservationsCounts := counts, s_gasReimbursementsLinkWei := gas, ocr_logs := l\<rparr>" by simp
  then show ?thesis unfolding oracles_only_def by (intro exI)
qed

lemma drop_last_oracles_only: "oracles_only f (drop_last f)"
proof -
  have "drop_last f = f\<lparr>s_oracles := s_oracles (drop_last f), s_signers := s_signers (drop_last f),
    s_transmitters := s_transmitters (drop_last f), s_oracleObservationsCounts := s_oracleObservationsCounts f,
    s_gasReimbursementsLinkWei := s_gasReimbursementsLinkWei f, ocr_logs := ocr_logs f\<rparr>"
    by (simp add: drop_last_def)
  then show ?thesis unfolding oracles_only_def by (intro exI)
qed

lemma last_transmitter:
  assumes "registered f" "s_signers f \<noteq> []"
  shows "length (s_transmitters f) - 1 < 31" "s_transmitters f \<noteq> []"
    "s_oracles f (last (s_transmitters f)) = \<lparr>ora_index = word_of_nat (length (s_transmitters f) - 1), ora_role = Transmitter\<rparr>"
proof -
  show ne: "s_transmitters f \<noteq> []" and "length (s_transmitters f) - 1 < 31" using assms by (auto simp: registered_def)
  then have "length (s_transmitters f) - 1 < length (s_transmitters f)" by simp
  with assms(1) ne show "s_oracles f (last (s_transmitters f)) =
      \<lparr>ora_index = word_of_nat (length (s_transmitters f) - 1), ora_role = Transmitter\<rparr>"
    unfolding registered_def last_conv_nth [OF ne] by blast
qed

lemma remove_oracles_Returns:
  assumes "remove_oracles C m (f, w) = Returns (f', w')" "accounts_ok f" "registered f"
  shows "s_signers f' = [] \<and> s_transmitters f' = [] \<and> accounts_ok f' \<and> registered f' \<and> oracles_only f f'"
  using assms
proof (induction "length (s_signers f)" arbitrary: f w)
  case 0
  then show ?case by (subst (asm) remove_oracles.simps) (auto simp: registered_def)
next
  case (Suc n)
  then have ne: "s_signers f \<noteq> []" by auto
  obtain f1 w1 where pay: "payOracle C m (last (s_transmitters f)) (f, w) = Returns (f1, w1)"
    and rest: "remove_oracles C m (f1\<lparr>s_oracles := (s_oracles f1)(last (s_signers f) := no_oracle_entry,
      last (s_transmitters f) := no_oracle_entry), s_signers := butlast (s_signers f1),
      s_transmitters := butlast (s_transmitters f1)\<rparr>, w1) = Returns (f', w')"
    using Suc.prems(1) unfolding remove_oracles_step [OF Suc.prems(3) ne] by (auto simp: bind_sol_Returns)
  note acc = payOracle_accounts [OF pay Suc.prems(2,3)]
  note lt = last_transmitter [OF Suc.prems(3) ne]
  note same = accounts_only_fields [OF acc(1)]
  have rest': "remove_oracles C m (drop_last f1, w1) = Returns (f', w')"
    using rest by (simp add: drop_last_def same)
  have "accounts_ok (drop_last f1)"
    using drop_last_accounts [OF acc(2)] acc(3) [OF lt(1,3)] lt(2) by (simp add: same)
  moreover have "registered (drop_last f1)" using drop_last_registered Suc.prems(3) ne by (simp add: same)
  moreover have "n = length (s_signers (drop_last f1))" using Suc.hyps(2) by (simp add: drop_last_def same)
  moreover have "oracles_only f (drop_last f1)"
    using accounts_oracles_only [OF acc(1)] drop_last_oracles_only oracles_only_trans by blast
  ultimately show ?case using Suc.hyps(1) [OF _ rest'] oracles_only_trans by blast
qed

lemma registered_role: "registered f \<Longrightarrow> ora_role (s_oracles f a) = Unset \<longleftrightarrow> a \<notin> set (s_signers f @ s_transmitters f)"
proof (rule registered_cases [of f a])
  assume "s_oracles f a = no_oracle_entry" "a \<notin> set (s_signers f @ s_transmitters f)"
  then show ?thesis by (simp add: no_oracle_entry_def)
qed (auto simp: registered_def)

definition add_one :: "nat \<Rightarrow> address \<Rightarrow> address \<Rightarrow> ocr \<Rightarrow> ocr" where
  "add_one i s t f =
     f\<lparr>s_oracles := (s_oracles f)(s := \<lparr>ora_index = word_of_nat i, ora_role = Signer\<rparr>,
         t := \<lparr>ora_index = word_of_nat i, ora_role = Transmitter\<rparr>),
       s_signers := s_signers f @ [s], s_transmitters := s_transmitters f @ [t]\<rparr>"

lemma add_oracles_Cons:
  "add_oracles i ((s, t) # os) f = Returns f' \<longleftrightarrow>
     ora_role (s_oracles f s) = Unset \<and> s_payees f t \<noteq> 0 \<and> t \<noteq> s \<and> ora_role (s_oracles f t) = Unset \<and>
     add_oracles (Suc i) os (add_one i s t f) = Returns f'"
  by (auto simp: require_Returns add_one_def Let_def)

lemma add_one_registered:
  assumes "registered f" "i = length (s_transmitters f)" "i < 31"
    "ora_role (s_oracles f s) = Unset" "s_payees f t \<noteq> 0" "t \<noteq> s" "ora_role (s_oracles f t) = Unset"
  shows "registered (add_one i s t f)"
proof -
  have new: "s \<notin> set (s_signers f @ s_transmitters f)" "t \<notin> set (s_signers f @ s_transmitters f)"
    using assms(4,7) registered_role [OF assms(1)] by blast+
  have old: "length (s_signers f) = i"
    "\<And>j. j < i \<Longrightarrow> s_oracles f (s_signers f ! j) = \<lparr>ora_index = word_of_nat j, ora_role = Signer\<rparr>"
    "\<And>j. j < i \<Longrightarrow> s_oracles f (s_transmitters f ! j) = \<lparr>ora_index = word_of_nat j, ora_role = Transmitter\<rparr>"
    "\<And>a. a \<notin> set (s_signers f @ s_transmitters f) \<Longrightarrow> s_oracles f a = no_oracle_entry"
    "distinct (s_signers f @ s_transmitters f)" "\<And>a. a \<in> set (s_transmitters f) \<Longrightarrow> s_payees f a \<noteq> 0"
    using assms(1,2) by (auto simp: registered_def)
  have "s_signers f ! j \<noteq> s \<and> s_signers f ! j \<noteq> t" "s_transmitters f ! j \<noteq> s \<and> s_transmitters f ! j \<noteq> t" if "j < i" for j
    using new that old(1) assms(2) nth_mem [of j "s_signers f"] nth_mem [of j "s_transmitters f"] by auto
  with old assms(2,3,5,6) new show ?thesis
    unfolding registered_def add_one_def by (auto simp: nth_append less_Suc_eq)
qed

lemma add_oracles_Returns:
  assumes "add_oracles i os f = Returns f'" "registered f" "i = length (s_transmitters f)" "i + length os \<le> 31"
  shows "registered f' \<and> s_signers f' = s_signers f @ map fst os \<and> s_transmitters f' = s_transmitters f @ map snd os \<and>
    (\<exists>es ss ts. f' = f\<lparr>s_oracles := es, s_signers := ss, s_transmitters := ts\<rparr>)"
  using assms
proof (induction os arbitrary: i f)
  case Nil
  then have "f' = f\<lparr>s_oracles := s_oracles f, s_signers := s_signers f, s_transmitters := s_transmitters f\<rparr>" by simp
  then have "\<exists>es ss ts. f' = f\<lparr>s_oracles := es, s_signers := ss, s_transmitters := ts\<rparr>" by (intro exI)
  with Nil show ?case by simp
next
  case (Cons st os)
  obtain s t where st: "st = (s, t)" by (cases st)
  note c = Cons.prems(1) [unfolded st add_oracles_Cons]
  have "registered (add_one i s t f)" using c Cons.prems(2-4) by (intro add_one_registered) auto
  then have "registered f' \<and> s_signers f' = s_signers (add_one i s t f) @ map fst os \<and>
      s_transmitters f' = s_transmitters (add_one i s t f) @ map snd os \<and>
      (\<exists>es ss ts. f' = (add_one i s t f)\<lparr>s_oracles := es, s_signers := ss, s_transmitters := ts\<rparr>)"
    using c Cons.prems(3,4) by (intro Cons.IH) (auto simp: add_one_def)
  then show ?case by (auto simp: add_one_def st)
qed

lemma checkConfigValid_Returns:
  "checkConfigValid n k (ucast (thr :: uint8)) r = Returns y \<longleftrightarrow>
     n \<le> 31 \<and> 0 < unat thr \<and> n = k \<and> 3 * unat thr < n \<and> r = Returns y"
proof -
  have "unat thr < 2 ^ 8" using unsigned_less [of thr] by simp
  then have "unat (3 * ucast thr :: uint256) = 3 * unat thr" by (subst unat_mult_no_wrap) simp_all
  moreover have "unat (word_of_nat n :: uint256) = n" if "n \<le> 31" using that by (simp add: unat_of_nat)
  ultimately show ?thesis
    by (auto simp: checkConfigValid_def require_Returns maxNumOracles_def word_less_nat_alt)
qed

text \<open>What \<open>setConfig\<close> leaves, if it returns.\<close>

lemma setConfig_Returns:
  assumes "setConfig C cr x ss ts thr vers enc (f, w) = Returns (f', w')" "accounts_ok f" "registered f"
  obtains f1 f2 where "msg_sender (tx_msg x) = owner f" "length ss = length ts" "length ts \<le> 31" "0 < unat thr" "3 * unat thr < length ts"
    "remove_oracles C (tx_msg x) (f, w) = Returns (f1, w')" "oracles_only f f1" "accounts_ok f1" "s_transmitters f1 = []"
    "\<exists>es ss ts. f2 = f1\<lparr>s_oracles := es, s_signers := ss, s_transmitters := ts\<rparr>" "registered f2" "s_signers f2 = ss" "s_transmitters f2 = ts"
    "f' = start_config cr x ss ts thr vers enc f2"
proof -
  obtain f1 f2 where s: "msg_sender (tx_msg x) = owner f" "length ss = length ts" "length ts \<le> 31" "0 < unat thr" "3 * unat thr < length ts"
    "remove_oracles C (tx_msg x) (f, w) = Returns (f1, w')" "add_oracles 0 (zip ss ts) f1 = Returns f2"
    "f' = start_config cr x ss ts thr vers enc f2"
    using assms(1) by (auto simp: setConfig_def checkConfigValid_Returns sol_simps)
  have f1: "s_signers f1 = []" "s_transmitters f1 = []" "accounts_ok f1" "registered f1" "oracles_only f f1"
    using remove_oracles_Returns [OF s(6) assms(2,3)] by blast+
  from add_oracles_Returns [OF s(7) f1(4)] s(2,3) f1(1,2) have "registered f2" "s_signers f2 = ss" "s_transmitters f2 = ts"
    "\<exists>es ss ts. f2 = f1\<lparr>s_oracles := es, s_signers := ss, s_transmitters := ts\<rparr>" by auto
  then show thesis using that s f1 by blast
qed

lemma start_config_fields [simp]:
  "s_hotVars (start_config cr x ss ts thr vers enc f) = (s_hotVars f)\<lparr>threshold := thr, latestConfigDigest :=
     configDigestFromConfigData cr (address_this (tx_msg x)) (ucast (s_configCount f + 1)) ss ts thr vers enc, latestEpochAndRound := 0\<rparr>"
  "s_configCount (start_config cr x ss ts thr vers enc f) = s_configCount f + 1"
  "s_oracles (start_config cr x ss ts thr vers enc f) = s_oracles f" "s_signers (start_config cr x ss ts thr vers enc f) = s_signers f"
  "s_transmitters (start_config cr x ss ts thr vers enc f) = s_transmitters f" "s_payees (start_config cr x ss ts thr vers enc f) = s_payees f"
  "s_oracleObservationsCounts (start_config cr x ss ts thr vers enc f) = s_oracleObservationsCounts f"
  "s_gasReimbursementsLinkWei (start_config cr x ss ts thr vers enc f) = s_gasReimbursementsLinkWei f"
  "s_transmissions (start_config cr x ss ts thr vers enc f) = s_transmissions f"
  "minAnswer (start_config cr x ss ts thr vers enc f) = minAnswer f" "maxAnswer (start_config cr x ss ts thr vers enc f) = maxAnswer f"
  "LINK (start_config cr x ss ts thr vers enc f) = LINK f" "s_billing (start_config cr x ss ts thr vers enc f) = s_billing f"
  by (simp_all add: start_config_def ocr_emit_def Let_def)

lemma setConfig_inv:
  assumes "ocr_inv f" "setConfig C cr x ss ts thr vers enc (f, w) = Returns (f', w')"
  shows "ocr_inv f'"
proof -
  have f: "accounts_ok f" "registered f" using assms(1) by (simp_all add: ocr_inv_def)
  obtain f1 f2 where s: "0 < unat thr" "3 * unat thr < length ts" "oracles_only f f1" "accounts_ok f1" "s_transmitters f1 = []"
    "\<exists>es ss ts. f2 = f1\<lparr>s_oracles := es, s_signers := ss, s_transmitters := ts\<rparr>" "registered f2" "s_transmitters f2 = ts"
    "f' = start_config cr x ss ts thr vers enc f2"
    by (rule setConfig_Returns [OF assms(2) f])
  have "s_gasReimbursementsLinkWei f1 ! i = 1" if "i < 31" for i using s(4,5) that by (simp add: accounts_ok_def)
  then have "accounts_ok f'" using s(4,6) by (auto simp: accounts_ok_def s(9))
  moreover have "registered f'" using s(7) by (simp add: registered_def s(9))
  moreover have "quorum_ok f'" using s(1,2,8) by (simp add: quorum_ok_def s(9))
  moreover have "answers_ok f'" using assms(1) s(3,6) by (auto simp: ocr_inv_def answers_ok_def s(9) oracles_only_def)
  ultimately show ?thesis by (simp add: ocr_inv_def)
qed

end
