(* ===== verification/Offchain_Reports.thy ===== *)
theory Offchain_Reports
  imports Offchain_Invariant
begin

text \<open>
  What \<open>transmit\<close> accepts and what it does: the loops as properties of lists, the encoding of reports,
  the credit for a report, and \<open>transmit\<close> as a whole; with that, the invariant of all calls.
\<close>

section \<open>Reports\<close>

definition encode_report :: "uint256 \<Rightarrow> uint256 \<Rightarrow> int list \<Rightarrow> bytes" where
  "encode_report ctx rawObservers obs = abi_words [ctx, rawObservers, 96] @ abi_array (map word_of_int obs)"

lemma length_encode_report [simp]: "length (encode_report ctx rawObservers obs) = 128 + 32 * length obs"
  by (simp add: encode_report_def abi_array_def)

lemma decodeReport_encode:
  assumes "length obs \<le> 2 ^ 32" "\<forall>z\<in>set obs. is_int192 z"
  shows "decodeReport (encode_report ctx rawObservers obs) = Returns (ctx, rawObservers, obs)"
proof -
  let ?r = "encode_report ctx rawObservers obs" and ?ws = "map word_of_int obs :: uint256 list"
  have r: "?r = abi_words ([ctx, rawObservers, 96, word_of_nat (length obs)] @ ?ws)"
    by (simp add: encode_report_def abi_array_def)
  have load: "abi_load ?r (32 * k) = ([ctx, rawObservers, 96, word_of_nat (length obs)] @ ?ws) ! k" if "k < 4 + length obs" for k
    unfolding r using abi_load_words [of "[]" 0 k "[ctx, rawObservers, 96, word_of_nat (length obs)] @ ?ws" "[]"] that
    by (simp del: abi_words_simps)
  have heads: "abi_load ?r 0 = ctx" "abi_load ?r 32 = rawObservers" "abi_load ?r 64 = 96" "abi_load ?r 96 = word_of_nat (length obs)"
    using load [of 0] load [of 1] load [of 2] load [of 3] by simp_all
  have "int192 (uint (abi_load ?r (96 + 32 + 32 * i))) = obs ! i" if "i < length obs" for i
    using load [of "4 + i"] that assms(2) by (simp add: int192_of_word)
  then have "map (\<lambda>i. int192 (uint (abi_load ?r (96 + 32 + 32 * i)))) [0..<length obs] = obs"
    by (intro nth_equalityI) simp_all
  moreover have "unat (word_of_nat (length obs) :: uint256) = length obs" using assms(1) by (simp add: unat_of_nat)
  ultimately show ?thesis
    unfolding decodeReport_def Let_def using assms(1) by (simp add: heads)
qed

section \<open>The loops\<close>

lemma unat_eq_word: "unat a = unat b \<longleftrightarrow> a = b" for a b :: "'a::len word"
  by (simp add: word_unat_eq_iff)

text \<open>Both loops mark indices in an array, and no index may be marked twice.\<close>

definition fresh_marks :: "bool list \<Rightarrow> uint8 list \<Rightarrow> bool" where
  "fresh_marks marks bs \<longleftrightarrow> distinct bs \<and> (\<forall>b\<in>set bs. unat b < length marks \<and> \<not> marks ! unat b)"

lemma fresh_marks_Nil [simp]: "fresh_marks marks []"
  by (simp add: fresh_marks_def)

lemma fresh_marks_Cons [simp]:
  "fresh_marks marks (b # bs) \<longleftrightarrow> unat b < length marks \<and> \<not> marks ! unat b \<and> fresh_marks (marks[unat b := True]) bs"
  by (auto simp: fresh_marks_def nth_upd unat_eq_word split: if_splits)

lemma fresh_marks_31: "fresh_marks (replicate 31 False) bs \<longleftrightarrow> distinct bs \<and> (\<forall>b\<in>set bs. unat b < 31)"
  by (auto simp: fresh_marks_def)

lemma copy_observers_Returns:
  "copy_observers raw is seen = Returns os \<longleftrightarrow> os = map (byte_at raw) is \<and> fresh_marks seen os"
  by (induction "is" arbitrary: seen os) (auto simp: sol_simps Let_def)

text \<open>The entries of the signers that the signatures recover to.\<close>

definition signer_entries ::
  "evm_crypto \<Rightarrow> (address \<Rightarrow> oracle_entry) \<Rightarrow> uint256 \<Rightarrow> (uint8 \<times> uint256 \<times> uint256) list \<Rightarrow> oracle_entry list" where
  "signer_entries cr oracles h sigs = map (\<lambda>(v, r, s). oracles (ecrecover cr h (v + 27) r s)) sigs"

lemma signer_entries_simps [simp]:
  "signer_entries cr oracles h [] = []"
  "signer_entries cr oracles h ((v, r, s) # sigs) = oracles (ecrecover cr h (v + 27) r s) # signer_entries cr oracles h sigs"
  by (simp_all add: signer_entries_def)

lemma check_signatures_Returns:
  "check_signatures cr oracles h sigs marked = Returns y \<longleftrightarrow>
     (\<forall>e\<in>set (signer_entries cr oracles h sigs). ora_role e = Signer) \<and>
     fresh_marks marked (map ora_index (signer_entries cr oracles h sigs))"
  by (induction cr oracles h sigs marked rule: check_signatures.induct) (auto simp: sol_simps Let_def)

lemma check_sorted_Returns: "check_sorted xs = Returns y \<longleftrightarrow> sorted xs"
  by (induction xs rule: check_sorted.induct) (auto simp: require_Returns intro: order_trans)

lemma unat_saturatingAddUint16: "unat (saturatingAddUint16 a b) = min (unat a + unat b) 65535"
proof -
  have "unat a < 2 ^ 16" "unat b < 2 ^ 16" using unsigned_less [of a] unsigned_less [of b] by simp_all
  then have "unat (ucast a + ucast b :: uint256) = unat a + unat b" by (simp add: unat_plus_no_wrap)
  moreover have "unat maxUint16 = 65535" by (simp add: maxUint16_def)
  ultimately have "unat (min_sol (ucast a + ucast b) maxUint16) = min (unat a + unat b) 65535"
    by (auto simp: min_sol_def word_less_nat_alt)
  then show ?thesis by (simp add: saturatingAddUint16_def unsigned_ucast_eq take_bit_nat_eq_self_iff)
qed

lemma oracleRewards_Returns:
  assumes "distinct os" "\<forall>b\<in>set os. unat b < length counts"
  shows "\<exists>counts'. oracleRewards os counts = Returns counts' \<and> length counts' = length counts \<and>
    (\<forall>j<length counts. counts' ! j = (if j \<in> unat ` set os then saturatingAddUint16 (counts ! j) 1 else counts ! j))"
  using assms
proof (induction os arbitrary: counts)
  case (Cons b os)
  let ?c = "counts[unat b := saturatingAddUint16 (counts ! unat b) 1]"
  have "\<forall>b\<in>set os. unat b < length ?c" using Cons.prems(2) by simp
  from Cons.IH [OF _ this] Cons.prems(1) obtain c' where c': "oracleRewards os ?c = Returns c'" "length c' = length counts"
    "\<forall>j<length counts. c' ! j = (if j \<in> unat ` set os then saturatingAddUint16 (?c ! j) 1 else ?c ! j)" by auto
  have "unat b \<notin> unat ` set os" using Cons.prems(1) by (auto simp: unat_eq_word)
  with c' Cons.prems(2) show ?case by (auto simp: nth_upd)
qed simp

section \<open>The credit for a report\<close>

definition credit :: "billing_terms \<Rightarrow> uint128 \<Rightarrow> nat" where
  "credit b cost = unat cost * unat (microLinkPerEth b) div 10 ^ 6 + unat (linkGweiPerTransmission b) * 10 ^ 9"

lemma unat_div_word: "unat (a div b) = unat a div unat b" for a b :: "'a::len word"
  by (simp add: unat_div)

lemma credit_exact:
  fixes old :: uint256
  assumes "unat old \<le> 2 ^ 201"
  shows "unat (old + (ucast cost * ucast (microLinkPerEth b)) div 1000000 + ucast (linkGweiPerTransmission b) * gwei) =
    unat old + credit b cost" "credit b cost \<le> 2 ^ 160"
proof -
  define c where "c = unat cost * unat (microLinkPerEth b)"
  define t where "t = unat (linkGweiPerTransmission b) * 10 ^ 9"
  have s: "unat cost < 2 ^ 128" "unat (microLinkPerEth b) < 2 ^ 32" "unat (linkGweiPerTransmission b) < 2 ^ 32"
    using unsigned_less [of cost] unsigned_less [of "microLinkPerEth b"] unsigned_less [of "linkGweiPerTransmission b"] by simp_all
  have c: "c < 2 ^ 160" unfolding c_def using mult_strict_mono [OF s(1,2)] by simp
  have t: "t < 2 ^ 62" using s(3) by (simp add: t_def)
  have "unat (ucast cost * ucast (microLinkPerEth b) :: uint256) = c"
    unfolding c_def by (subst unat_mult_no_wrap) (use c in \<open>simp_all add: c_def\<close>)
  then have d: "unat ((ucast cost * ucast (microLinkPerEth b)) div 1000000 :: uint256) = c div 10 ^ 6"
    by (simp add: unat_div_word)
  have "unat (ucast (linkGweiPerTransmission b) * gwei :: uint256) = t"
    unfolding t_def by (subst unat_mult_no_wrap) (use t in \<open>simp_all add: t_def unat_gwei\<close>)
  moreover have small: "c div 10 ^ 6 < 2 ^ 142" using c by (simp add: less_mult_imp_div_less)
  moreover have "unat (old + (ucast cost * ucast (microLinkPerEth b)) div 1000000) = unat old + c div 10 ^ 6"
    unfolding d [symmetric] by (rule unat_plus_no_wrap) (use d small assms in simp)
  ultimately show "unat (old + (ucast cost * ucast (microLinkPerEth b)) div 1000000 + ucast (linkGweiPerTransmission b) * gwei) =
      unat old + credit b cost"
    using assms t unfolding credit_def c_def [symmetric] t_def [symmetric] by (subst unat_plus_no_wrap) simp_all
  show "credit b cost \<le> 2 ^ 160"
    using small t unfolding credit_def c_def [symmetric] t_def [symmetric] by simp
qed

text \<open>What the transmitter's gas costs, by the terms of the contract.\<close>

definition gas_cost :: "tx \<Rightarrow> uint32 \<Rightarrow> ocr \<Rightarrow> uint128 sol" where
  "gas_cost x initialGas f =
     transmitterGasCostEthWei (ucast initialGas)
       (impliedGasPrice (tx_gasprice x div gwei) (ucast (reasonableGasPrice (s_billing f))) (ucast (maximumGasPrice (s_billing f))))
       (16 * word_of_nat (length (msg_data x))) (gas_left x)"

definition rewarded :: "ocr \<Rightarrow> ocr \<Rightarrow> bytes \<Rightarrow> nat \<Rightarrow> uint128 \<Rightarrow> bool" where
  "rewarded f f' os i cost \<longleftrightarrow>
     length (s_oracleObservationsCounts f') = 31 \<and> length (s_gasReimbursementsLinkWei f') = 31 \<and>
     (\<forall>j<31. unat (s_oracleObservationsCounts f' ! j) =
        (if j \<in> unat ` set os then min (unat (s_oracleObservationsCounts f ! j) + 1) 65535
         else unat (s_oracleObservationsCounts f ! j))) \<and>
     (\<forall>j<31. unat (s_gasReimbursementsLinkWei f' ! j) =
        unat (s_gasReimbursementsLinkWei f ! j) + (if j = i then credit (s_billing f) cost else 0))"

lemma reimburse_Returns:
  assumes "accounts_ok f" "distinct os" "\<forall>b\<in>set os. unat b < 31" "i < 31"
    "s_oracles f (msg_sender (tx_msg x)) = \<lparr>ora_index = word_of_nat i, ora_role = Transmitter\<rparr>"
  shows "reimburseAndRewardOracles x initialGas os f = Returns f' \<longleftrightarrow>
    (\<exists>cost counts gas. gas_cost x initialGas f = Returns cost \<and>
      f' = f\<lparr>s_oracleObservationsCounts := counts, s_gasReimbursementsLinkWei := gas\<rparr> \<and> rewarded f f' os i cost)"
    (is "?l \<longleftrightarrow> ?r")
proof -
  let ?b = "s_billing f" and ?g = "s_gasReimbursementsLinkWei f" and ?n = "s_oracleObservationsCounts f"
  let ?new = "\<lambda>cost. ?g ! i + (ucast (cost :: uint128) * ucast (microLinkPerEth ?b)) div 1000000 + ucast (linkGweiPerTransmission ?b) * gwei"
  have len: "length ?n = 31" "length ?g = 31" using assms(1) by (simp_all add: accounts_ok_def)
  from oracleRewards_Returns [OF assms(2), of ?n] assms(3) len(1) obtain c' where c': "oracleRewards os ?n = Returns c'" "length c' = 31"
    "\<forall>j<31. c' ! j = (if j \<in> unat ` set os then saturatingAddUint16 (?n ! j) 1 else ?n ! j)" by auto
  have run: "?l \<longleftrightarrow> (\<exists>cost. gas_cost x initialGas f = Returns cost \<and>
      f' = f\<lparr>s_oracleObservationsCounts := c', s_gasReimbursementsLinkWei := ?g[i := ?new cost]\<rparr>)"
    using c'(1) assms(4,5) len(2)
    by (auto simp: reimburseAndRewardOracles_def gas_cost_def bind_sol_Returns unat_word_of_nat_31 Let_def)
  have new: "unat (?new cost) = unat (?g ! i) + credit ?b cost" for cost
    using credit_exact(1) gas_small [OF assms(1,4)] by blast
  have eff: "rewarded f (f\<lparr>s_oracleObservationsCounts := c', s_gasReimbursementsLinkWei := ?g[i := ?new cost]\<rparr>) os i cost" for cost
    using c'(2,3) len(2) new [of cost] by (auto simp: rewarded_def unat_saturatingAddUint16 nth_upd)
  have uniq: "counts = c' \<and> gas = ?g[i := ?new cost]"
    if r: "rewarded f (f\<lparr>s_oracleObservationsCounts := counts, s_gasReimbursementsLinkWei := gas\<rparr>) os i cost" for counts gas cost
  proof -
    have "length counts = 31" "length gas = 31" using r by (simp_all add: rewarded_def)
    moreover have "counts ! j = c' ! j" "gas ! j = ?g[i := ?new cost] ! j" if "j < 31" for j
      using r eff [of cost] that unfolding rewarded_def by (simp_all flip: unat_eq_word)
    ultimately show ?thesis using c'(2) len(2) by (auto intro: nth_equalityI)
  qed
  show ?thesis unfolding run using eff uniq by blast
qed

section \<open>Transmitting\<close>

text \<open>
  What a report, its signatures and its sender must be. The observers are the first bytes of
  \<open>rawObservers\<close>, one for each observation.
\<close>

definition observers_of :: "uint256 \<Rightarrow> int list \<Rightarrow> bytes" where
  "observers_of rawObservers obs = map (byte_at rawObservers) [0..<length obs]"

definition signers_of :: "evm_crypto \<Rightarrow> bytes \<Rightarrow> uint256 list \<Rightarrow> uint256 list \<Rightarrow> uint256 \<Rightarrow> ocr \<Rightarrow> oracle_entry list" where
  "signers_of cr report rs ss rawVs f =
     signer_entries cr (s_oracles f) (keccak256 cr report) (zip (map (byte_at rawVs) [0..<length rs]) (zip rs ss))"

definition median_of :: "int list \<Rightarrow> int" where
  "median_of obs = obs ! (length obs div 2)"

definition report_fits :: "bytes \<Rightarrow> uint256 \<Rightarrow> uint256 \<Rightarrow> int list \<Rightarrow> ocr \<Rightarrow> bool" where
  "report_fits report ctx rawObservers obs f \<longleftrightarrow>
     decodeReport report = Returns (ctx, rawObservers, obs) \<and>
     latestConfigDigest (s_hotVars f) = context_digest ctx \<and> latestEpochAndRound (s_hotVars f) < context_epoch ctx \<and>
     length obs \<le> 31 \<and> unat (2 * threshold (s_hotVars f)) < length obs \<and>
     distinct (observers_of rawObservers obs) \<and> (\<forall>b\<in>set (observers_of rawObservers obs). unat b < 31) \<and>
     sorted obs \<and> minAnswer f \<le> median_of obs \<and> median_of obs \<le> maxAnswer f"

definition signatures_fit :: "evm_crypto \<Rightarrow> bytes \<Rightarrow> uint256 list \<Rightarrow> uint256 list \<Rightarrow> uint256 \<Rightarrow> ocr \<Rightarrow> bool" where
  "signatures_fit cr report rs ss rawVs f \<longleftrightarrow>
     unat (threshold (s_hotVars f)) < length rs \<and> length rs \<le> 31 \<and> length ss = length rs \<and>
     (\<forall>e\<in>set (signers_of cr report rs ss rawVs f). ora_role e = Signer \<and> unat (ora_index e) < 31) \<and>
     distinct (map ora_index (signers_of cr report rs ss rawVs f))"

text \<open>The sender is the transmitter with the index \<open>i\<close>.\<close>

definition sent_by :: "nat \<Rightarrow> tx \<Rightarrow> ocr \<Rightarrow> bool" where
  "sent_by i x f \<longleftrightarrow>
     i < length (s_transmitters f) \<and> s_transmitters f ! i = msg_sender (tx_msg x) \<and>
     s_oracles f (msg_sender (tx_msg x)) = \<lparr>ora_index = word_of_nat i, ora_role = Transmitter\<rparr>"

lemma transmitter_checked:
  assumes "registered f"
  shows "bind_sol (if ora_role (s_oracles f a) = Transmitter
      then bind_sol (array_get (s_transmitters f) (ucast (ora_index (s_oracles f a)))) (\<lambda>t. Returns (a = t))
      else Returns False) k = Returns y \<longleftrightarrow>
    (if ora_role (s_oracles f a) = Transmitter then k True = Returns y else k False = Returns y)"
proof (rule registered_cases [OF assms, of a])
  fix i assume "i < length (s_transmitters f)" "i < 31" "a = s_transmitters f ! i"
    "s_oracles f a = \<lparr>ora_index = word_of_nat i, ora_role = Transmitter\<rparr>"
  then show ?thesis by (simp add: unat_word_of_nat_31)
qed (simp_all add: no_oracle_entry_def)

lemma role_Transmitter:
  assumes "registered f"
  shows "ora_role (s_oracles f (msg_sender (tx_msg x))) = Transmitter \<longleftrightarrow> (\<exists>i. sent_by i x f)"
  by (rule registered_cases [OF assms, of "msg_sender (tx_msg x)"]) (auto simp: sent_by_def no_oracle_entry_def)

lemma check_report_Returns:
  assumes "registered f"
  shows "check_report m report rs ss f = Returns (ctx, os, obs, hv) \<longleftrightarrow>
    (\<exists>rawObservers. decodeReport report = Returns (ctx, rawObservers, obs) \<and>
      latestConfigDigest (s_hotVars f) = context_digest ctx \<and> latestEpochAndRound (s_hotVars f) < context_epoch ctx \<and>
      unat (threshold (s_hotVars f)) < length rs \<and> length rs \<le> 31 \<and> length ss = length rs \<and>
      length obs \<le> 31 \<and> unat (2 * threshold (s_hotVars f)) < length obs \<and>
      os = observers_of rawObservers obs \<and> distinct os \<and> (\<forall>b\<in>set os. unat b < 31)) \<and>
    ora_role (s_oracles f (msg_sender m)) = Transmitter \<and> hv = (s_hotVars f)\<lparr>latestEpochAndRound := context_epoch ctx\<rparr>"
  unfolding check_report_def Let_def
  by (simp add: bind_sol_Returns [of "decodeReport report"] bind_sol_Returns [of "copy_observers _ _ _"] require_Returns split_beta
      transmitter_checked [OF assms] copy_observers_Returns fresh_marks_31 observers_of_def maxNumOracles_def)
    auto

lemma verify_signatures_Returns:
  "verify_signatures cr report rs ss rawVs f = Returns y \<longleftrightarrow>
     (\<forall>e\<in>set (signers_of cr report rs ss rawVs f). ora_role e = Signer \<and> unat (ora_index e) < 31) \<and>
     distinct (map ora_index (signers_of cr report rs ss rawVs f))"
  by (auto simp: verify_signatures_def signers_of_def check_signatures_Returns fresh_marks_31 maxNumOracles_def Let_def)

text \<open>The state of the other contracts after the call of the validator, which is not let down.\<close>

definition validated :: "'w contracts \<Rightarrow> address \<Rightarrow> uint32 \<Rightarrow> int \<Rightarrow> ocr \<Rightarrow> 'w \<Rightarrow> 'w \<Rightarrow> bool" where
  "validated C agg r z f w w' \<longleftrightarrow>
     (let vc = s_validatorConfig f in
      if vc_validator vc = 0 then w' = w
      else
        (case c_validate C (vc_validator vc) agg (ucast (vc_gasLimit vc)) (ucast (r - 1)) (tr_answer (s_transmissions f (r - 1))) (ucast r) z w of
           NoCode \<Rightarrow> False | ShortReply \<Rightarrow> False | Threw \<Rightarrow> w' = w | Replied ok w1 \<Rightarrow> w' = w1))"

lemma ocr_validateAnswer_Returns:
  "validateAnswer C m r z (f, w) = Returns (f', w') \<longleftrightarrow> f' = f \<and> validated C (address_this m) r z f w w'"
  by (auto simp: validateAnswer_def validated_def Let_def split: validator_reply.splits)

text \<open>The storage with the report on it, before the oracles are credited.\<close>

definition next_round :: "ocr \<Rightarrow> uint32" where
  "next_round f = latestAggregatorRoundId (s_hotVars f) + 1"

definition posted :: "tx \<Rightarrow> uint256 \<Rightarrow> bytes \<Rightarrow> int list \<Rightarrow> ocr \<Rightarrow> ocr" where
  "posted x ctx os obs f =
     f\<lparr>s_hotVars := (s_hotVars f)\<lparr>latestEpochAndRound := context_epoch ctx, latestAggregatorRoundId := next_round f\<rparr>,
       s_transmissions := (s_transmissions f)
         (next_round f := \<lparr>tr_answer = median_of obs, tr_timestamp = ucast (block_timestamp (tx_msg x))\<rparr>),
       ocr_logs := ocr_logs f @
         [NewTransmission (next_round f) (median_of obs) (msg_sender (tx_msg x)) obs os ctx,
          NewRound (ucast (next_round f)) 0 (block_timestamp (tx_msg x)),
          AnswerUpdated (median_of obs) (ucast (next_round f)) (block_timestamp (tx_msg x))]\<rparr>"

lemma posted_fields [simp]:
  "s_oracles (posted x ctx os obs f) = s_oracles f" "s_billing (posted x ctx os obs f) = s_billing f"
  "s_signers (posted x ctx os obs f) = s_signers f" "s_transmitters (posted x ctx os obs f) = s_transmitters f"
  "s_oracleObservationsCounts (posted x ctx os obs f) = s_oracleObservationsCounts f"
  "s_gasReimbursementsLinkWei (posted x ctx os obs f) = s_gasReimbursementsLinkWei f"
  "s_payees (posted x ctx os obs f) = s_payees f" "minAnswer (posted x ctx os obs f) = minAnswer f"
  "maxAnswer (posted x ctx os obs f) = maxAnswer f" "LINK (posted x ctx os obs f) = LINK f"
  "s_configCount (posted x ctx os obs f) = s_configCount f"
  by (simp_all add: posted_def)

lemma record_median_Returns:
  "record_median C (tx_msg x) ctx os obs ((s_hotVars f)\<lparr>latestEpochAndRound := context_epoch ctx\<rparr>) (f, w) = Returns (hv, f1, w') \<and>
     f2 = f1\<lparr>s_hotVars := hv\<rparr> \<longleftrightarrow>
   sorted obs \<and> minAnswer f \<le> median_of obs \<and> median_of obs \<le> maxAnswer f \<and>
     validated C (address_this (tx_msg x)) (next_round f) (median_of obs) (posted x ctx os obs f) w w' \<and>
     f2 = posted x ctx os obs f \<and> hv = s_hotVars f2 \<and> f1 = f2\<lparr>s_hotVars := s_hotVars f\<rparr>"
proof -
  let ?f1 = "(posted x ctx os obs f)\<lparr>s_hotVars := s_hotVars f\<rparr>" and ?hv = "s_hotVars (posted x ctx os obs f)"
  have "record_median C (tx_msg x) ctx os obs ((s_hotVars f)\<lparr>latestEpochAndRound := context_epoch ctx\<rparr>) (f, w) =
      bind_sol (check_sorted obs) (\<lambda>_. require (minAnswer f \<le> median_of obs \<and> median_of obs \<le> maxAnswer f)
        ''median is out of min-max range''
        (bind_sol (validateAnswer C (tx_msg x) (next_round f) (median_of obs) (?f1, w)) (\<lambda>(f, w). Returns (?hv, f, w))))"
    by (simp add: record_median_def posted_def next_round_def median_of_def ocr_emit_def Let_def)
  moreover have "validated C a r z ?f1 w w' = validated C a r z (posted x ctx os obs f) w w'" for a r z by (simp add: validated_def)
  ultimately show ?thesis
    by (auto simp: bind_sol_Returns require_Returns check_sorted_Returns ocr_validateAnswer_Returns)
qed

text \<open>What \<open>transmit\<close> accepts, and what it does.\<close>

definition accepts ::
  "'w contracts \<Rightarrow> evm_crypto \<Rightarrow> tx \<Rightarrow> bytes \<Rightarrow> uint256 list \<Rightarrow> uint256 list \<Rightarrow> uint256 \<Rightarrow> ocr \<Rightarrow> 'w \<Rightarrow> uint256 \<Rightarrow> uint256 \<Rightarrow> int list \<Rightarrow>
    nat \<Rightarrow> uint128 \<Rightarrow> 'w \<Rightarrow> bool" where
  "accepts C cr x report rs ss rawVs f w ctx rawObservers obs i cost w' \<longleftrightarrow>
     length (msg_data x) = expectedMsgDataLength report rs ss \<and> report_fits report ctx rawObservers obs f \<and>
     signatures_fit cr report rs ss rawVs f \<and> sent_by i x f \<and> initial_gas x < maxUint32 \<and>
     validated C (address_this (tx_msg x)) (next_round f) (median_of obs) (posted x ctx (observers_of rawObservers obs) obs f) w w' \<and>
     gas_cost x (ucast (initial_gas x)) f = Returns cost"

lemma gas_cost_posted [simp]: "gas_cost x g (posted x' ctx os obs f) = gas_cost x g f"
  by (simp add: gas_cost_def)

lemma sent_by_31: "registered f \<Longrightarrow> sent_by i x f \<Longrightarrow> i < 31"
  by (auto simp: registered_def sent_by_def)

lemma sent_by_unique: "registered f \<Longrightarrow> sent_by i x f \<Longrightarrow> sent_by j x f \<Longrightarrow> i = j"
  by (metis oracle_entry.select_convs(1) sent_by_31 sent_by_def unat_word_of_nat_31(1))

lemma posted_accounts_ok:
  assumes "accounts_ok f" "latestEpochAndRound (s_hotVars f) < context_epoch ctx"
  shows "accounts_ok (posted x ctx os obs f)"
proof -
  have "unat (latestEpochAndRound (s_hotVars f)) * 2 ^ 160 \<le> unat (context_epoch ctx) * 2 ^ 160"
    using assms(2) by (simp add: word_less_nat_alt)
  then have "n \<le> 1 + unat (context_epoch ctx) * 2 ^ 160" if "n \<le> 1 + unat (latestEpochAndRound (s_hotVars f)) * 2 ^ 160" for n
    using that by linarith
  with assms(1) show ?thesis by (simp add: accounts_ok_def posted_def)
qed

lemma rewarded_posted [simp]: "rewarded (posted x ctx os' obs f) f' os i cost = rewarded f f' os i cost"
  by (simp add: rewarded_def)

lemma transmit_steps:
  "transmit C cr x report rs ss rawVs (f, w) = Returns (f', w') \<longleftrightarrow>
     length (msg_data x) = expectedMsgDataLength report rs ss \<and> initial_gas x < maxUint32 \<and>
     (\<exists>ctx os obs hv hv' f1 f2. check_report (tx_msg x) report rs ss f = Returns (ctx, os, obs, hv) \<and>
       verify_signatures cr report rs ss rawVs f = Returns () \<and>
       (record_median C (tx_msg x) ctx os obs hv (f, w) = Returns (hv', f1, w') \<and> f2 = f1\<lparr>s_hotVars := hv'\<rparr>) \<and>
       reimburseAndRewardOracles x (ucast (initial_gas x)) os f2 = Returns f')"
  by (auto simp: transmit_def require_Returns bind_sol_Returns sol_assert_Returns Let_def)

lemma transmit_posts:
  assumes "registered f"
  shows "transmit C cr x report rs ss rawVs (f, w) = Returns (f', w') \<longleftrightarrow>
    (\<exists>ctx raw obs. length (msg_data x) = expectedMsgDataLength report rs ss \<and> report_fits report ctx raw obs f \<and>
      signatures_fit cr report rs ss rawVs f \<and> (\<exists>i. sent_by i x f) \<and> initial_gas x < maxUint32 \<and>
      validated C (address_this (tx_msg x)) (next_round f) (median_of obs) (posted x ctx (observers_of raw obs) obs f) w w' \<and>
      reimburseAndRewardOracles x (ucast (initial_gas x)) (observers_of raw obs) (posted x ctx (observers_of raw obs) obs f) = Returns f')"
  (is "?l \<longleftrightarrow> ?r")
proof
  assume ?l
  then obtain ctx os obs hv hv' f1 f2 where s: "length (msg_data x) = expectedMsgDataLength report rs ss" "initial_gas x < maxUint32"
    "check_report (tx_msg x) report rs ss f = Returns (ctx, os, obs, hv)" "verify_signatures cr report rs ss rawVs f = Returns ()"
    "record_median C (tx_msg x) ctx os obs hv (f, w) = Returns (hv', f1, w') \<and> f2 = f1\<lparr>s_hotVars := hv'\<rparr>"
    "reimburseAndRewardOracles x (ucast (initial_gas x)) os f2 = Returns f'"
    unfolding transmit_steps by blast
  note c = s(3) [unfolded check_report_Returns [OF assms] role_Transmitter [OF assms]]
  then obtain raw where raw: "decodeReport report = Returns (ctx, raw, obs)" "os = observers_of raw obs" by blast
  have hv: "hv = (s_hotVars f)\<lparr>latestEpochAndRound := context_epoch ctx\<rparr>" using c by blast
  note m = s(5) [unfolded hv record_median_Returns]
  have "report_fits report ctx raw obs f" using c raw m by (auto simp: report_fits_def)
  moreover have "signatures_fit cr report rs ss rawVs f" using c s(4) by (auto simp: signatures_fit_def verify_signatures_Returns)
  ultimately show ?r
    using s(1,2,6) c m unfolding raw(2) by (intro exI [of _ ctx] exI [of _ raw] exI [of _ obs]) simp
next
  assume ?r
  then obtain ctx raw obs i where r: "length (msg_data x) = expectedMsgDataLength report rs ss" "report_fits report ctx raw obs f"
    "signatures_fit cr report rs ss rawVs f" "sent_by i x f" "initial_gas x < maxUint32"
    "validated C (address_this (tx_msg x)) (next_round f) (median_of obs) (posted x ctx (observers_of raw obs) obs f) w w'"
    "reimburseAndRewardOracles x (ucast (initial_gas x)) (observers_of raw obs) (posted x ctx (observers_of raw obs) obs f) = Returns f'"
    by blast
  let ?hv = "(s_hotVars f)\<lparr>latestEpochAndRound := context_epoch ctx\<rparr>"
  have "check_report (tx_msg x) report rs ss f = Returns (ctx, observers_of raw obs, obs, ?hv)"
    unfolding check_report_Returns [OF assms] role_Transmitter [OF assms] using r(2-4) by (auto simp: report_fits_def signatures_fit_def)
  moreover have "verify_signatures cr report rs ss rawVs f = Returns ()"
    using r(3) by (simp add: signatures_fit_def verify_signatures_Returns)
  moreover have "record_median C (tx_msg x) ctx (observers_of raw obs) obs ?hv (f, w) =
      Returns (s_hotVars (posted x ctx (observers_of raw obs) obs f),
        (posted x ctx (observers_of raw obs) obs f)\<lparr>s_hotVars := s_hotVars f\<rparr>, w') \<and>
      posted x ctx (observers_of raw obs) obs f =
        (posted x ctx (observers_of raw obs) obs f)\<lparr>s_hotVars := s_hotVars f\<rparr>\<lparr>s_hotVars := s_hotVars (posted x ctx (observers_of raw obs) obs f)\<rparr>"
    unfolding record_median_Returns using r(2,6) by (simp add: report_fits_def)
  ultimately show ?l unfolding transmit_steps using r(1,5,7) by blast
qed

lemma transmit_Returns:
  assumes "accounts_ok f" "registered f"
  shows "transmit C cr x report rs ss rawVs (f, w) = Returns (f', w') \<longleftrightarrow>
    (\<exists>ctx rawObservers obs i cost counts gas.
      accepts C cr x report rs ss rawVs f w ctx rawObservers obs i cost w' \<and>
      f' = (posted x ctx (observers_of rawObservers obs) obs f)
        \<lparr>s_oracleObservationsCounts := counts, s_gasReimbursementsLinkWei := gas\<rparr> \<and>
      rewarded f f' (observers_of rawObservers obs) i cost)"
proof -
  have "reimburseAndRewardOracles x (ucast (initial_gas x)) (observers_of raw obs) (posted x ctx (observers_of raw obs) obs f) = Returns f' \<longleftrightarrow>
      (\<exists>cost counts gas. gas_cost x (ucast (initial_gas x)) f = Returns cost \<and>
        f' = (posted x ctx (observers_of raw obs) obs f)\<lparr>s_oracleObservationsCounts := counts, s_gasReimbursementsLinkWei := gas\<rparr> \<and>
        rewarded f f' (observers_of raw obs) i cost)" if "report_fits report ctx raw obs f" "sent_by i x f" for ctx raw obs i
    using reimburse_Returns [of "posted x ctx (observers_of raw obs) obs f" "observers_of raw obs" i x "ucast (initial_gas x)" f']
      posted_accounts_ok [OF assms(1)] that sent_by_31 [OF assms(2) that(2)]
    by (simp add: report_fits_def sent_by_def)
  then show ?thesis unfolding transmit_posts [OF assms(2)] accepts_def by (blast intro: sent_by_unique [OF assms(2)])
qed

text \<open>The cost of the gas can always be computed: it is far below \<open>2 ^ 128\<close>.\<close>

lemma impliedGasPrice_le: "unat (impliedGasPrice p r mx) \<le> unat mx"
  by (simp add: impliedGasPrice_def min_sol_def Let_def word_less_nat_alt)

lemma initial_gas_same: "g < maxUint32 \<Longrightarrow> ucast (ucast g :: uint32) = g" for g :: uint256
proof -
  assume "g < maxUint32"
  then have "unat g < 2 ^ 32" by (simp add: maxUint32_def word_less_nat_alt)
  then have "unat (ucast g :: uint32) = unat g" by (simp add: unsigned_ucast_eq take_bit_nat_eq_self_iff)
  then show ?thesis by (metis unat_ucast_ups(7) word_unat_eq_iff)
qed

lemma gas_cost_total:
  assumes "gas_left x \<le> initial_gas x" "initial_gas x < maxUint32" "length (msg_data x) < 2 ^ 32"
  shows "\<exists>cost. gas_cost x (ucast (initial_gas x)) f = Returns cost"
proof -
  let ?p = "impliedGasPrice (tx_gasprice x div gwei) (ucast (reasonableGasPrice (s_billing f))) (ucast (maximumGasPrice (s_billing f))) :: uint256"
  let ?used = "initial_gas x - gas_left x + 16 * word_of_nat (length (msg_data x)) + accountingGasCost"
  have ini: "unat (initial_gas x) < 2 ^ 32" using assms(2) by (simp add: maxUint32_def word_less_nat_alt)
  note same = initial_gas_same [OF assms(2)]
  have "unat (16 * word_of_nat (length (msg_data x)) :: uint256) = 16 * length (msg_data x)"
    using assms(3) by (subst unat_mult_no_wrap) (simp_all add: unat_of_nat)
  moreover have "unat (initial_gas x - gas_left x) \<le> unat (initial_gas x)" using assms(1) by (simp add: unat_sub word_le_nat_alt)
  ultimately have used: "unat ?used < 2 ^ 37"
    using ini assms(3) by (simp add: unat_word_ariths accountingGasCost_def)
  have "unat (maximumGasPrice (s_billing f)) < 2 ^ 32" using unsigned_less [of "maximumGasPrice (s_billing f)"] by simp
  then have p: "unat ?p < 2 ^ 32"
    using impliedGasPrice_le [of "tx_gasprice x div gwei" "ucast (reasonableGasPrice (s_billing f))" "ucast (maximumGasPrice (s_billing f))"] by simp
  have "unat ?used * unat ?p < 2 ^ 69" using mult_strict_mono [OF used p] by simp
  moreover from this have "unat (?used * ?p) = unat ?used * unat ?p" by (intro unat_mult_no_wrap) simp
  ultimately have up: "unat (?used * ?p) < 2 ^ 69" by metis
  then have "unat (?used * ?p * gwei) = unat (?used * ?p) * 10 ^ 9"
    by (subst unat_mult_no_wrap) (simp_all add: unat_gwei)
  with up have "?used * ?p * gwei < maxUint128" by (simp add: maxUint128_def word_less_nat_alt)
  then show ?thesis using assms(1) by (simp add: gas_cost_def transmitterGasCostEthWei_def same Let_def)
qed

lemma transmit_succeeds:
  assumes "accounts_ok f" "registered f" "length (msg_data x) = expectedMsgDataLength report rs ss" "report_fits report ctx raw obs f"
    "signatures_fit cr report rs ss rawVs f" "sent_by i x f" "initial_gas x < maxUint32" "gas_left x \<le> initial_gas x"
    "length (msg_data x) < 2 ^ 32" "vc_validator (s_validatorConfig f) = 0"
  shows "\<exists>f'. transmit C cr x report rs ss rawVs (f, w) = Returns (f', w)"
proof -
  let ?os = "observers_of raw obs" and ?f = "posted x ctx (observers_of raw obs) obs f"
  have os: "distinct ?os" "\<forall>b\<in>set ?os. unat b < 31" using assms(4) by (simp_all add: report_fits_def)
  have len: "length (s_oracleObservationsCounts ?f) = 31" "length (s_gasReimbursementsLinkWei ?f) = 31"
    using assms(1) by (simp_all add: accounts_ok_def)
  from oracleRewards_Returns [OF os(1), of "s_oracleObservationsCounts ?f"] os(2) len(1)
  obtain counts where "oracleRewards ?os (s_oracleObservationsCounts ?f) = Returns counts" by auto
  moreover obtain cost where "gas_cost x (ucast (initial_gas x)) ?f = Returns cost" using gas_cost_total [OF assms(8,7,9)] by blast
  ultimately have "\<exists>f'. reimburseAndRewardOracles x (ucast (initial_gas x)) ?os ?f = Returns f'"
    using assms(6) sent_by_31 [OF assms(2,6)] len
    by (auto simp: reimburseAndRewardOracles_def gas_cost_def sent_by_def unat_word_of_nat_31 Let_def)
  moreover have "validated C (address_this (tx_msg x)) (next_round f) (median_of obs) ?f w w"
    using assms(10) by (simp add: validated_def posted_def)
  ultimately show ?thesis unfolding transmit_posts [OF assms(2)] using assms(3-7) by blast
qed

section \<open>The invariant of all calls\<close>

lemma transmit_accounts:
  assumes "accounts_ok f" "rewarded f f' os i cost" "latestEpochAndRound (s_hotVars f) < latestEpochAndRound (s_hotVars f')"
    "i < length (s_transmitters f)" "s_transmitters f' = s_transmitters f"
  shows "accounts_ok f'"
proof -
  let ?e = "unat (latestEpochAndRound (s_hotVars f))" and ?e' = "unat (latestEpochAndRound (s_hotVars f'))"
  have "?e + 1 \<le> ?e'" using assms(3) by (simp add: word_less_nat_alt)
  then have "(?e + 1) * 2 ^ 160 \<le> ?e' * 2 ^ 160" by (rule mult_right_mono) simp
  moreover have "credit (s_billing f) cost \<le> 2 ^ 160" using credit_exact(2) [of 0] by simp
  ultimately have "1 + ?e * 2 ^ 160 + credit (s_billing f) cost \<le> 1 + ?e' * 2 ^ 160" "?e * 2 ^ 160 \<le> ?e' * 2 ^ 160" by simp_all
  then have "1 \<le> unat (s_gasReimbursementsLinkWei f' ! j) \<and> unat (s_gasReimbursementsLinkWei f' ! j) \<le> 1 + ?e' * 2 ^ 160" if "j < 31" for j
    using assms(1,2) that unfolding accounts_ok_def rewarded_def by (cases "j = i") (force intro: order_trans)+
  moreover have "1 \<le> unat (s_oracleObservationsCounts f' ! j)" if "j < 31" for j
    using assms(1,2) that by (auto simp: accounts_ok_def rewarded_def)
  moreover have "s_gasReimbursementsLinkWei f' ! j = 1" if "j < 31" "length (s_transmitters f) \<le> j" for j
  proof -
    have "unat (s_gasReimbursementsLinkWei f' ! j) = 1" using assms(1,2,4) that by (simp add: accounts_ok_def rewarded_def)
    then show ?thesis by (simp add: word_unat_eq_iff)
  qed
  ultimately show ?thesis using assms(2,5) by (simp add: accounts_ok_def rewarded_def)
qed

lemma posted_answers_ok:
  assumes "answers_ok f" "unat (latestAggregatorRoundId (s_hotVars f)) < 2 ^ 32 - 1"
    "minAnswer f \<le> median_of obs" "median_of obs \<le> maxAnswer f"
  shows "answers_ok (posted x ctx os obs f)"
proof -
  have n: "unat (next_round f) = unat (latestAggregatorRoundId (s_hotVars f)) + 1"
    using assms(2) by (simp add: next_round_def unat_plus_no_wrap)
  have same: "0 < unat r \<and> unat r \<le> unat (next_round f) \<longleftrightarrow> 0 < unat r \<and> unat r \<le> unat (latestAggregatorRoundId (s_hotVars f))"
    if "r \<noteq> next_round f" for r
    using that n by (metis add.commute le_Suc_eq plus_1_eq_Suc word_unat_eq_iff)
  show ?thesis
    unfolding answers_ok_def
  proof (intro conjI allI)
    fix r
    show "if 0 < unat r \<and> unat r \<le> unat (latestAggregatorRoundId (s_hotVars (posted x ctx os obs f)))
        then minAnswer (posted x ctx os obs f) \<le> tr_answer (s_transmissions (posted x ctx os obs f) r) \<and>
          tr_answer (s_transmissions (posted x ctx os obs f) r) \<le> maxAnswer (posted x ctx os obs f)
        else s_transmissions (posted x ctx os obs f) r = \<lparr>tr_answer = 0, tr_timestamp = 0\<rparr>"
      using assms(1,3,4) n same [of r] by (cases "r = next_round f") (simp_all add: posted_def answers_ok_def)
  qed (use assms(1) in \<open>simp_all add: answers_ok_def\<close>)
qed

lemma answers_ok_accounts:
  "answers_ok (f\<lparr>s_oracleObservationsCounts := counts, s_gasReimbursementsLinkWei := gas\<rparr>) = answers_ok f"
  by (simp add: answers_ok_def)

lemma transmit_inv:
  assumes "ocr_inv f" "counters_left f" "transmit C cr x report rs ss rawVs (f, w) = Returns (f', w')"
  shows "ocr_inv f'"
proof -
  have f: "accounts_ok f" "registered f" "quorum_ok f" "answers_ok f" using assms(1) by (simp_all add: ocr_inv_def)
  obtain ctx raw obs i cost counts gas where t: "accepts C cr x report rs ss rawVs f w ctx raw obs i cost w'"
    "f' = (posted x ctx (observers_of raw obs) obs f)\<lparr>s_oracleObservationsCounts := counts, s_gasReimbursementsLinkWei := gas\<rparr>"
    "rewarded f f' (observers_of raw obs) i cost"
    using assms(3) unfolding transmit_Returns [OF f(1,2)] by blast
  have "accounts_ok f'"
    using t(1) transmit_accounts [OF f(1) t(3)] by (simp add: t(2) accepts_def report_fits_def sent_by_def posted_def)
  moreover have "registered f'" using f(2) by (simp add: t(2) registered_def)
  moreover have "quorum_ok f'" using f(3) by (simp add: t(2) quorum_ok_def posted_def)
  moreover have "answers_ok (posted x ctx (observers_of raw obs) obs f)"
    using t(1) assms(2) by (intro posted_answers_ok [OF f(4)]) (simp_all add: accepts_def report_fits_def counters_left_def)
  then have "answers_ok f'" by (simp add: t(2) answers_ok_accounts)
  ultimately show ?thesis by (simp add: ocr_inv_def)
qed

lemma call_inv:
  assumes "ocr_inv f" "counters_left f" "sender_ok agg x" "ocr_exec C A cr x c (f, w) = Returns (f', w')"
  shows "ocr_inv f'"
proof (cases "administrative c")
  case True
  then show ?thesis using administrative_calls [OF assms(4)] same_oracles_inv assms(1) by blast
next
  case False
  show ?thesis
  proof (cases c)
    case (SetConfig ss ts thr vers enc)
    then show ?thesis using assms(4) setConfig_inv [OF assms(1)] by simp
  next
    case (Transmit report rs ss vs)
    then show ?thesis using assms(4) transmit_inv [OF assms(1,2)] by simp
  next
    case (SetBilling b1 b2 b3 b4 b5)
    then show ?thesis using assms(4) setBilling_inv [OF assms(1)] by simp
  next
    case (WithdrawPayment a)
    then show ?thesis using assms(4) withdrawPayment_inv [OF assms(1)] by simp
  next
    case (SetPayees ts ps)
    then show ?thesis using assms(4) setPayees_inv [OF assms(1), of "tx_msg x" ts ps f'] by (simp add: on_ocr_Returns)
  next
    case (AcceptPayeeship t)
    then show ?thesis using assms(3,4) acceptPayeeship_inv [OF assms(1), of "tx_msg x" t f'] by (simp add: on_ocr_Returns sender_ok_def)
  qed (use False in simp_all)
qed

lemma OffchainAggregator_Returns:
  assumes "OffchainAggregator m b1 b2 b3 b4 b5 link lo hi bc rc decs desc = Returns f"
  shows "s_oracleObservationsCounts f = replicate 31 1" "s_gasReimbursementsLinkWei f = replicate 31 1" "s_hotVars f = no_hot_vars"
    "s_oracles f = (\<lambda>_. no_oracle_entry)" "s_signers f = []" "s_transmitters f = []" "minAnswer f = lo" "maxAnswer f = hi"
    "s_transmissions f = (\<lambda>_. \<lparr>tr_answer = 0, tr_timestamp = 0\<rparr>)" "LINK f = link" "owner f = msg_sender m"
    "s_billing f = \<lparr>maximumGasPrice = b1, reasonableGasPrice = b2, microLinkPerEth = b3, linkGweiPerObservation = b4, linkGweiPerTransmission = b5\<rparr>"
    "s_configCount f = 0" "s_payees f = (\<lambda>_. 0)"
  using assms
  by (auto simp: OffchainAggregator_def OffchainAggregatorBilling_def setRequesterAccessController_def setValidatorConfig_def
      setBillingInternal_def setBillingAccessControllerInternal_def empty_storage_def ocr_emit_def owned.defs ocr.defs
      Owned_constructor_def maxNumOracles_def sol_simps Let_def split: if_splits)

lemma reach_inv:
  assumes "ocr_reach C A cr agg link init env (f, w)"
  shows "ocr_inv f"
  using assms
proof (induction "(f, w)" arbitrary: f w rule: ocr_reach.induct)
  case (deployed m b1 b2 b3 b4 b5 lo hi bc rc decs desc f w)
  note d = OffchainAggregator_Returns [OF deployed(1)]
  show ?case using deployed(2,3) by (simp add: ocr_inv_defs d no_hot_vars_def)
next
  case (called f w x c f' w')
  show ?case by (rule call_inv [OF called(2-5)])
qed

end
