(* ===== verification/Offchain_Funds.thy ===== *)
theory Offchain_Funds
  imports Offchain_Reports
begin

text \<open>
  The money of the off-chain aggregator: the sums it computes are exact, the token is only touched
  as \<open>link_interface\<close> allows, a payee gets what its oracle is owed, and what the owner withdraws is
  not owed to anyone. The lemmas on the token are proved in the locale, which is interpreted with
  the LINK token.
\<close>

section \<open>What is due\<close>

text \<open>The observations that were not paid yet, of the accounts in a set.\<close>

definition unpaid_observations :: "ocr \<Rightarrow> nat set \<Rightarrow> nat" where
  "unpaid_observations f I = (\<Sum>j\<in>I. unat (s_oracleObservationsCounts f ! j) - 1)"

definition total_due :: "ocr \<Rightarrow> nat" where
  "total_due f =
     unpaid_observations f {..<31} * (unat (linkGweiPerObservation (s_billing f)) * 10 ^ 9) +
     (\<Sum>i<length (s_transmitters f). unat (s_gasReimbursementsLinkWei f ! i) - 1)"

lemma uint16_less: "unat (n :: uint16) < 2 ^ 16"
  using unsigned_less [of n] by simp

lemma fold_counts:
  fixes ns :: "uint16 list"
  assumes "\<forall>n\<in>set ns. 1 \<le> unat n" "unat due + 2 ^ 16 * length ns < 2 ^ 256"
  shows "unat (foldl (\<lambda>due n. due + ucast (n - 1)) due ns :: uint256) = unat due + (\<Sum>n\<leftarrow>ns. unat n - 1)"
  using assms
proof (induction ns arbitrary: due)
  case (Cons n ns)
  have n: "unat (n - 1) = unat n - 1" "unat n < 2 ^ 16" using Cons.prems(1) uint16_less [of n] by (simp_all add: unat_dec)
  then have add: "unat (due + ucast (n - 1) :: uint256) = unat due + (unat n - 1)"
    using Cons.prems(2) by (subst unat_plus_no_wrap) auto
  have "unat (due + ucast (n - 1) :: uint256) + 2 ^ 16 * length ns < 2 ^ 256" using Cons.prems(2) n(2) by (simp add: add)
  with Cons.IH [OF _ this] Cons.prems(1) show ?case by (simp add: add)
qed simp

lemma sum_reimbursements_exact:
  assumes "length gas = 31" "i + length as \<le> 31" "\<forall>j<31. 1 \<le> unat (gas ! j) \<and> unat (gas ! j) \<le> 2 ^ 201"
    "unat due + length as * 2 ^ 201 < 2 ^ 256"
  shows "\<exists>d. sum_reimbursements gas i as due = Returns d \<and> unat d = unat due + (\<Sum>j=i..<i + length as. unat (gas ! j) - 1)"
  using assms
proof (induction as arbitrary: i due)
  case (Cons a as)
  have g: "unat (gas ! i - 1) = unat (gas ! i) - 1" "unat (gas ! i) \<le> 2 ^ 201"
    using Cons.prems(2,3) by (simp_all add: unat_dec)
  then have add: "unat (due + (gas ! i - 1)) = unat due + (unat (gas ! i) - 1)"
    using Cons.prems(4) by (subst unat_plus_no_wrap) auto
  have "unat (due + (gas ! i - 1)) + length as * 2 ^ 201 < 2 ^ 256" using Cons.prems(4) g(2) by (simp add: add)
  moreover have "Suc i + length as \<le> 31" using Cons.prems(2) by simp
  ultimately obtain d where "sum_reimbursements gas (Suc i) as (due + (gas ! i - 1)) = Returns d"
    "unat d = unat (due + (gas ! i - 1)) + (\<Sum>j=Suc i..<Suc i + length as. unat (gas ! j) - 1)"
    using Cons.IH [OF Cons.prems(1) _ Cons.prems(3)] by blast
  moreover have "(\<Sum>j=i..<i + length (a # as). unat (gas ! j) - 1) =
      (unat (gas ! i) - 1) + (\<Sum>j=Suc i..<Suc i + length as. unat (gas ! j) - 1)"
    by (subst sum.atLeast_Suc_lessThan) simp_all
  ultimately show ?case using Cons.prems(1,2) by (simp add: add unat_of_nat)
qed simp

lemma unpaid_observations_list: "accounts_ok f \<Longrightarrow> (\<Sum>n\<leftarrow>s_oracleObservationsCounts f. unat n - 1) = unpaid_observations f {..<31}"
  by (simp add: unpaid_observations_def accounts_ok_def sum_list_sum_nth atLeast0LessThan)

lemma unpaid_observations_less: "unpaid_observations f {..<31} < 2 ^ 21"
proof -
  have "unpaid_observations f {..<31} \<le> (\<Sum>j<31::nat. 2 ^ 16)"
    unfolding unpaid_observations_def
    using less_imp_le [OF uint16_less] by (intro sum_mono) (meson diff_le_self le_trans)
  then show ?thesis by simp
qed

text \<open>\<open>totalLINKDue\<close> does not overflow.\<close>

lemma totalLINKDue_exact:
  assumes "accounts_ok f" "registered f"
  shows "totalLINKDue f = Returns (word_of_nat (total_due f))" "total_due f < 2 ^ 207"
proof -
  define n where "n = unpaid_observations f {..<31}"
  define p where "p = unat (linkGweiPerObservation (s_billing f)) * 10 ^ 9"
  let ?fold = "foldl (\<lambda>due n. due + ucast (n - 1)) 0 (s_oracleObservationsCounts f) :: uint256"
  let ?price = "ucast (linkGweiPerObservation (s_billing f)) * gwei :: uint256"
  let ?gas = "s_gasReimbursementsLinkWei f" and ?ts = "s_transmitters f"
  have n: "unat ?fold = n" "n < 2 ^ 21"
    using fold_counts [of "s_oracleObservationsCounts f" 0] unpaid_observations_list [OF assms(1)] unpaid_observations_less [of f] assms(1)
    by (simp_all add: n_def accounts_ok_def all_set_conv_all_nth)
  have "unat (linkGweiPerObservation (s_billing f)) < 2 ^ 32" using unsigned_less [of "linkGweiPerObservation (s_billing f)"] by simp
  then have p_less: "p < 2 ^ 62" by (simp add: p_def)
  have p: "unat ?price = p"
    unfolding p_def by (subst unat_mult_no_wrap) (use p_less in \<open>simp_all add: unat_gwei p_def\<close>)
  have np: "n * p < 2 ^ 83" using mult_strict_mono [OF n(2) p_less] by simp
  then have first: "unat (?fold * ?price) = n * p"
    by (subst unat_mult_no_wrap) (simp_all add: n(1) p)
  have ts: "length ?ts \<le> 31" using assms(2) by (simp add: registered_def)
  then have "length ?ts * 2 ^ 201 \<le> 31 * 2 ^ 201" by (rule mult_right_mono) simp
  with np first have "unat (?fold * ?price) + length ?ts * 2 ^ 201 < 2 ^ 256" by simp
  moreover have gas: "\<forall>j<31. 1 \<le> unat (?gas ! j) \<and> unat (?gas ! j) \<le> 2 ^ 201" "length ?gas = 31"
    using assms(1) gas_small [OF assms(1)] by (auto simp: accounts_ok_def)
  ultimately obtain d where d: "totalLINKDue f = Returns d" "unat d = n * p + (\<Sum>j=0..<length ?ts. unat (?gas ! j) - 1)"
    using sum_reimbursements_exact [OF gas(2) _ gas(1), of 0 ?ts "?fold * ?price"] ts first by (auto simp: totalLINKDue_def Let_def)
  then have eq: "unat d = total_due f" by (simp add: total_due_def n_def p_def atLeast0LessThan)
  then show "totalLINKDue f = Returns (word_of_nat (total_due f))"
    using d(1) by (simp flip: eq)
  have "(\<Sum>j=0..<length ?ts. unat (?gas ! j) - 1) \<le> (\<Sum>j=0..<length ?ts. 2 ^ 201)"
  proof (rule sum_mono)
    fix j assume "j \<in> {0..<length ?ts}"
    with ts gas(1) have "unat (?gas ! j) \<le> 2 ^ 201" by simp
    then show "unat (?gas ! j) - 1 \<le> 2 ^ 201" by linarith
  qed
  also have "\<dots> \<le> 31 * 2 ^ 201" using ts by simp
  finally show "total_due f < 2 ^ 207" using np d(2) eq by simp
qed

text \<open>
  What is due is what the oracles are owed, and the observations of accounts that no oracle has.
\<close>

lemma total_due_owed:
  assumes "registered f"
  shows "total_due f = (\<Sum>i<length (s_transmitters f). owed_at f i) +
    unpaid_observations f {length (s_transmitters f)..<31} * (unat (linkGweiPerObservation (s_billing f)) * 10 ^ 9)"
proof -
  let ?n = "length (s_transmitters f)" and ?p = "unat (linkGweiPerObservation (s_billing f)) * 10 ^ 9"
  have "?n \<le> 31" using assms by (simp add: registered_def)
  then have "{..<31} = {..<?n} \<union> {?n..<31}" by auto
  then have "unpaid_observations f {..<31} = unpaid_observations f {..<?n} + unpaid_observations f {?n..<31}"
    unfolding unpaid_observations_def by (simp add: sum.union_disjoint ivl_disj_int)
  then show ?thesis
    by (simp add: total_due_def owed_at_def sum.distrib add_mult_distrib unpaid_observations_def flip: sum_distrib_right)
qed

section \<open>The token\<close>

lemma transfer_facts:
  assumes "(if owed_at f i = 0 then f' = f \<and> w' = w
     else c_transfer C (LINK f) agg to (word_of_nat (owed_at f i)) w = Returns (True, w') \<and> Q)"
  shows "w' = w \<and> owed_at f i = 0 \<or> c_transfer C (LINK f) agg to (word_of_nat (owed_at f i)) w = Returns (True, w')"
  using assms by (auto split: if_splits)

context link_interface
begin

text \<open>The token is fine, and the balance has not grown.\<close>

definition spent :: "'w \<Rightarrow> 'w \<Rightarrow> bool" where
  "spent w w' \<longleftrightarrow> token_ok w' \<and> bal w' \<le> bal w"

lemma transfer_spent: "token_ok w \<Longrightarrow> c_transfer C link agg to v w = Returns (ok, w') \<Longrightarrow> spent w w' \<and> unat v \<le> bal w"
  using transfer_moves [of w to v ok w'] by (auto simp: spent_def split: if_splits)

lemma payOracle_spent:
  assumes "payOracle C m a (f, w) = Returns (f', w')" "accounts_ok f" "registered f"
    and "address_this m = agg" "LINK f = link" "token_ok w"
  shows "spent w w'"
    and "i < 31 \<Longrightarrow> s_oracles f a = \<lparr>ora_index = word_of_nat i, ora_role = r\<rparr> \<Longrightarrow> r \<noteq> Unset \<Longrightarrow> owed_at f i \<le> bal w"
proof -
  have same: "spent w w" using assms(6) by (simp add: spent_def)
  show "spent w w'"
    by (rule ocr_payOracle_Returns [OF assms(1-3)])
      (use same transfer_spent [OF assms(6)] assms(4,5) in \<open>auto dest!: transfer_facts\<close>)
  show "owed_at f i \<le> bal w" if i: "i < 31" "s_oracles f a = \<lparr>ora_index = word_of_nat i, ora_role = r\<rparr>" "r \<noteq> Unset"
  proof -
    have "unat (word_of_nat (owed_at f i) :: uint256) = owed_at f i"
      using owed_at_exact(2) [OF assms(2) i(1)] by (simp add: unat_of_nat)
    then show ?thesis
      using transfer_facts [OF payOracle_role [OF assms(1,2) i(2,3,1)]] assms(4,5)
        transfer_spent [OF assms(6), of "s_payees f a" "word_of_nat (owed_at f i)" True w'] by auto
  qed
qed

lemma spent_trans: "spent w w' \<Longrightarrow> spent w' w'' \<Longrightarrow> spent w w''"
  by (auto simp: spent_def)

lemma remove_oracles_spent:
  assumes "remove_oracles C m (f, w) = Returns (f', w')" "accounts_ok f" "registered f"
    and "address_this m = agg" "LINK f = link" "token_ok w"
  shows "spent w w' \<and> (\<forall>i<length (s_transmitters f). owed_at f i \<le> bal w)"
  using assms
proof (induction "length (s_signers f)" arbitrary: f w)
  case 0
  then show ?case by (subst (asm) remove_oracles.simps) (auto simp: registered_def spent_def)
next
  case (Suc n)
  then have ne: "s_signers f \<noteq> []" by auto
  obtain f1 w1 where pay: "payOracle C m (last (s_transmitters f)) (f, w) = Returns (f1, w1)"
    and rest: "remove_oracles C m (f1\<lparr>s_oracles := (s_oracles f1)(last (s_signers f) := no_oracle_entry,
      last (s_transmitters f) := no_oracle_entry), s_signers := butlast (s_signers f1),
      s_transmitters := butlast (s_transmitters f1)\<rparr>, w1) = Returns (f', w')"
    using Suc.prems(1) unfolding remove_oracles_step [OF Suc.prems(3) ne] by (auto simp: bind_sol_Returns)
  note acc = payOracle_accounts [OF pay Suc.prems(2,3)]
  note lt = last_transmitter [OF Suc.prems(3) ne]
  note same = accounts_only_fields [OF acc(1)]
  note sp = payOracle_spent [OF pay Suc.prems(2-6)]
  have rest': "remove_oracles C m (drop_last f1, w1) = Returns (f', w')" using rest by (simp add: drop_last_def same)
  have "accounts_ok (drop_last f1)" using drop_last_accounts [OF acc(2)] acc(3) [OF lt(1,3)] lt(2) by (simp add: same)
  moreover have "registered (drop_last f1)" using drop_last_registered Suc.prems(3) ne by (simp add: same)
  moreover have "n = length (s_signers (drop_last f1))" using Suc.hyps(2) by (simp add: drop_last_def same)
  moreover have "LINK (drop_last f1) = link" using Suc.prems(5) by (simp add: drop_last_def same)
  ultimately have IH: "spent w1 w'" "\<forall>i<length (s_transmitters f) - 1. owed_at (drop_last f1) i \<le> bal w1"
    using Suc.hyps(1) [OF _ rest' _ _ Suc.prems(4)] sp(1) by (auto simp: spent_def drop_last_def same)
  have "owed_at f i \<le> bal w" if "i < length (s_transmitters f)" for i
  proof (cases "i = length (s_transmitters f) - 1")
    case True
    then show ?thesis using sp(2) [OF lt(1,3)] by simp
  next
    case False
    with that have i: "i < length (s_transmitters f) - 1" by simp
    then have "owed_at (drop_last f1) i = owed_at f i"
      using payOracle_role [OF pay Suc.prems(2) lt(3) _ lt(1)]
      by (auto simp: owed_at_def drop_last_def paid_out_def split: if_splits)
    with IH(2) i sp(1) show ?thesis by (auto simp: spent_def intro: order_trans)
  qed
  with IH(1) sp(1) show ?case using spent_trans by blast
qed

lemma payOracles_loop_spent:
  assumes "payOracles_loop C m i as (counts, gas, f, w) = Returns (counts', gas', f', w')"
    "length counts = 31" "length gas = 31" "i + length as \<le> 31" "address_this m = agg" "LINK f = link" "token_ok w"
  shows "spent w w' \<and>
    (\<forall>j\<in>{i..<i + length as}. unat (due_word (linkGweiPerObservation (s_billing f)) (counts ! j) (gas ! j)) \<le> bal w)"
  using assms
proof (induction as arbitrary: i counts gas f w)
  case Nil
  then show ?case by (auto simp: spent_def)
next
  case (Cons a as)
  let ?p = "linkGweiPerObservation (s_billing f)"
  have i: "i < 31" using Cons.prems(4) by simp
  have range: "{i..<i + length (a # as)} = insert i {Suc i..<Suc i + length as}" by auto
  show ?case
  proof (cases "due_word ?p (counts ! i) (gas ! i) = 0")
    case True
    then have "payOracles_loop C m (Suc i) as (counts, gas, f, w) = Returns (counts', gas', f', w')"
      using Cons.prems i by (auto simp: due_word_def Let_def unat_word_of_nat_31)
    with Cons.IH [OF this] Cons.prems(2-7) True show ?thesis unfolding range by simp
  next
    case False
    then obtain w1 e to where t: "c_transfer C link agg to (due_word ?p (counts ! i) (gas ! i)) w = Returns (True, w1)"
      "payOracles_loop C m (Suc i) as (counts[i := 1], gas[i := 1], ocr_emit e f, w1) = Returns (counts', gas', f', w')"
      using Cons.prems i by (auto simp: due_word_def Let_def unat_word_of_nat_31 word_gt_0 bind_sol_Returns require_Returns)
    from transfer_spent [OF Cons.prems(7) t(1)] have sp: "spent w w1" "unat (due_word ?p (counts ! i) (gas ! i)) \<le> bal w" by blast+
    from Cons.IH [OF t(2)] Cons.prems(2-6) sp(1) have "spent w1 w'"
      "\<forall>j\<in>{Suc i..<Suc i + length as}. unat (due_word ?p (counts[i := 1] ! j) (gas[i := 1] ! j)) \<le> bal w1"
      by (auto simp: spent_def)
    with sp show ?thesis unfolding range using spent_trans [OF sp(1)] by (auto simp: spent_def intro: order_trans)
  qed
qed

lemma payOracles_spent:
  assumes "payOracles C m (f, w) = Returns (f', w')" "accounts_ok f" "registered f"
    and "address_this m = agg" "LINK f = link" "token_ok w"
  shows "spent w w' \<and> (\<forall>i<length (s_transmitters f). owed_at f i \<le> bal w)"
proof -
  have n: "length (s_transmitters f) \<le> 31" using assms(3) by (simp add: registered_def)
  obtain counts gas g where "payOracles_loop C m 0 (s_transmitters f) (s_oracleObservationsCounts f, s_gasReimbursementsLinkWei f, f, w) =
      Returns (counts, gas, g, w')"
    using assms(1) by (auto simp: payOracles_def bind_sol_Returns)
  from payOracles_loop_spent [OF this] n assms(2,4-6) show ?thesis
    using due_word_owed [OF assms(2)] by (auto simp: accounts_ok_def)
qed

text \<open>The token stays fine, and its address the same, in all calls.\<close>

lemma transmit_token:
  assumes "transmit C cr x report rs ss rawVs (f, w) = Returns (f', w')" "accounts_ok f" "registered f"
    "address_this (tx_msg x) = agg" "token_ok w"
  shows "token_ok w' \<and> LINK f' = LINK f"
proof -
  obtain ctx raw obs i cost counts gas where t: "accepts C cr x report rs ss rawVs f w ctx raw obs i cost w'"
    "f' = (posted x ctx (observers_of raw obs) obs f)\<lparr>s_oracleObservationsCounts := counts, s_gasReimbursementsLinkWei := gas\<rparr>"
    using assms(1) unfolding transmit_Returns [OF assms(2,3)] by blast
  have "token_ok w'"
    using t(1) assms(4,5) validate_harmless
    by (auto simp: accepts_def validated_def Let_def split: if_splits validator_reply.splits)
  then show ?thesis by (simp add: t(2))
qed

lemma call_token:
  assumes "ocr_exec C A cr x c (f, w) = Returns (f', w')" "ocr_inv f" "address_this (tx_msg x) = agg" "LINK f = link" "token_ok w"
  shows "token_ok w' \<and> LINK f' = link"
proof -
  have f: "accounts_ok f" "registered f" using assms(2) by (simp_all add: ocr_inv_def)
  show ?thesis
  proof (cases c)
    case (SetConfig ss ts thr vers enc)
    then have s: "setConfig C cr x ss ts thr vers enc (f, w) = Returns (f', w')" using assms(1) by simp
    obtain f1 f2 where r: "remove_oracles C (tx_msg x) (f, w) = Returns (f1, w')" "oracles_only f f1"
      "\<exists>es ss ts. f2 = f1\<lparr>s_oracles := es, s_signers := ss, s_transmitters := ts\<rparr>" "f' = start_config cr x ss ts thr vers enc f2"
      by (rule setConfig_Returns [OF s f])
    with assms(4) show ?thesis
      using remove_oracles_spent [OF r(1) f assms(3-5)] by (auto simp: spent_def oracles_only_def)
  next
    case (Transmit report rs ss vs)
    then show ?thesis using assms(1,3-5) transmit_token [OF _ f, of cr x report rs ss vs w f' w'] by simp
  next
    case (SetBilling b1 b2 b3 b4 b5)
    then obtain f1 where p: "payOracles C (tx_msg x) (f, w) = Returns (f1, w')" "f' = setBillingInternal b1 b2 b3 b4 b5 f1"
      using assms(1) by (auto simp: setBilling_def sol_simps)
    show ?thesis
      using payOracles_spent [OF p(1) f assms(3-5)] accounts_only_fields(7) [OF payOracles_Returns(1) [OF p(1) f]] assms(4)
      by (simp add: spent_def p(2) setBillingInternal_def ocr_emit_def Let_def)
  next
    case (WithdrawPayment a)
    then have p: "payOracle C (tx_msg x) a (f, w) = Returns (f', w')" using assms(1) by (simp add: withdrawPayment_def require_Returns)
    show ?thesis
      using payOracle_spent(1) [OF p f assms(3-5)] accounts_only_fields(7) [OF payOracle_accounts(1) [OF p f]] assms(4)
      by (simp add: spent_def)
  next
    case (WithdrawFunds to v)
    then show ?thesis
      using assms(1,3-5) transfer_spent [OF assms(5)] by (auto simp: withdrawFunds_def sol_simps spent_def)
  next
    case (SetPayees ts ps)
    then show ?thesis
      using assms(1,4,5) setPayees_loop_Returns [of "zip ts ps" f f'] by (auto simp: sol_simps setPayees_def)
  qed (use assms(1,4,5) in \<open>auto simp: sol_simps setValidatorConfig_def setRequesterAccessController_def requestNewRound_def
      setBillingAccessController_def setBillingAccessControllerInternal_def transferPayeeship_def acceptPayeeship_def
      transferOwnership_def acceptOwnership_def ocr_emit_def Let_def split: if_splits\<close>)
qed

lemma ocr_reach_token:
  assumes "ocr_reach C A cr agg link init env (f, w)" "\<And>w. init w \<Longrightarrow> token_ok w"
  shows "LINK f = link \<and> token_ok w"
  using assms(1)
proof (induction "(f, w)" arbitrary: f w rule: ocr_reach.induct)
  case (deployed m b1 b2 b3 b4 b5 lo hi bc rc decs desc f w)
  then show ?case using OffchainAggregator_Returns(10) [OF deployed(1)] assms(2) by simp
next
  case (called f w x c f' w')
  then show ?case using call_token [OF called(5) reach_inv [OF called(1)]] by (simp add: sender_ok_def)
next
  case (elsewhere f w w')
  then show ?case using env_harmless by blast
qed

text \<open>Who withdraws funds takes at most what is left when all that is due is paid.\<close>

lemma withdrawFunds_leaves_due:
  assumes "withdrawFunds C A x to v (f, w) = Returns (f', w')" "accounts_ok f" "registered f"
    "address_this (tx_msg x) = agg" "LINK f = link" "token_ok w"
  shows "f' = f \<and> total_due f \<le> bal w' \<and> bal w \<le> bal w' + unat v"
proof -
  let ?d = "word_of_nat (total_due f) :: uint256" and ?b = "word_of_nat (bal w) :: uint256"
  have "unat ?b = bal w" using balance_fits [OF assms(6)] by (simp add: unat_of_nat)
  moreover have "unat ?d = total_due f" using totalLINKDue_exact(2) [OF assms(2,3)] by (simp add: unat_of_nat)
  moreover obtain ok where w: "?d \<le> ?b" "c_transfer C link agg to (min_sol (?b - ?d) v) w = Returns (ok, w')" "f' = f"
    using assms(1,4,5) balanceOf [OF assms(6)] totalLINKDue_exact(1) [OF assms(2,3)] by (auto simp: withdrawFunds_def sol_simps)
  moreover have "unat (min_sol (?b - ?d) v) \<le> unat (?b - ?d)" "unat (min_sol (?b - ?d) v) \<le> unat v"
    by (auto simp: min_sol_def word_less_nat_alt)
  ultimately show ?thesis
    using transfer_moves [OF assms(6) w(2)] by (auto simp: unat_sub word_le_nat_alt split: if_splits)
qed

text \<open>A payee gets what is owed, if the balance covers it.\<close>

lemma payment_possible:
  assumes "accounts_ok f" "registered f" "address_this m = agg" "LINK f = link" "token_ok w" "i < length (s_transmitters f)"
    "msg_sender m = s_payees f (s_transmitters f ! i)" "recipient (msg_sender m)" "owed_at f i \<le> bal w"
  shows "\<exists>f' w'. withdrawPayment C m (s_transmitters f ! i) (f, w) = Returns (f', w') \<and> owed_at f' i = 0 \<and>
    (if owed_at f i = 0 then w' = w else c_transfer C link agg (msg_sender m) (word_of_nat (owed_at f i)) w = Returns (True, w'))"
proof -
  have i: "i < 31" "s_oracles f (s_transmitters f ! i) = \<lparr>ora_index = word_of_nat i, ora_role = Transmitter\<rparr>"
    using assms(2,6) by (auto simp: registered_def)
  have "unat (word_of_nat (owed_at f i) :: uint256) = owed_at f i"
    using owed_at_exact(2) [OF assms(1) i(1)] by (simp add: unat_of_nat)
  then obtain w1 where w1: "c_transfer C link agg (msg_sender m) (word_of_nat (owed_at f i)) w = Returns (True, w1)"
    using transfer_succeeds [OF assms(5) _ assms(8), of "word_of_nat (owed_at f i)"] assms(9) by auto
  have len: "i < length (s_oracleObservationsCounts f)" "i < length (s_gasReimbursementsLinkWei f)"
    using assms(1) i(1) by (simp_all add: accounts_ok_def)
  have "withdrawPayment C m (s_transmitters f ! i) (f, w) =
      (if owed_at f i = 0 then Returns (f, w)
       else Returns (ocr_emit (OraclePaid (s_transmitters f ! i) (msg_sender m) (word_of_nat (owed_at f i))) (paid_out i f), w1))"
    using w1 assms(3,4,7) unfolding withdrawPayment_def by (simp add: payOracle_registered [OF assms(1) i(2) _ i(1)])
  moreover have "owed_at (ocr_emit e (paid_out i f)) i = 0" for e using len by (simp add: owed_at_def paid_out_def)
  ultimately show ?thesis using w1 by auto
qed

end

section \<open>With the LINK token\<close>

interpretation lo: link_interface "link_contracts link (V :: 'v validators)" link agg "token_good agg" "\<lambda>tv. unat (balances (fst tv) agg)"
  "\<lambda>to. to \<noteq> 0 \<and> to \<noteq> link" "link_env link agg"
  by (rule link_token_provides)

end
