(* ===== verification/Offchain_History.thy ===== *)
theory Offchain_History
  imports Offchain_Funds
begin

text \<open>
  What never changes back in the off-chain aggregator (answers that were given, the place in the
  sequence of configurations, epochs and rounds), what follows for reports that are sent again,
  and who may become the payee of an oracle.
\<close>

section \<open>Time goes on\<close>

definition later :: "ocr \<Rightarrow> ocr \<Rightarrow> bool" where
  "later f f' \<longleftrightarrow>
     unat (s_configCount f) \<le> unat (s_configCount f') \<and>
     (s_configCount f' = s_configCount f \<longrightarrow>
        latestConfigDigest (s_hotVars f') = latestConfigDigest (s_hotVars f) \<and>
        latestEpochAndRound (s_hotVars f) \<le> latestEpochAndRound (s_hotVars f')) \<and>
     unat (latestAggregatorRoundId (s_hotVars f)) \<le> unat (latestAggregatorRoundId (s_hotVars f')) \<and>
     (\<forall>r. unat r \<le> unat (latestAggregatorRoundId (s_hotVars f)) \<longrightarrow> s_transmissions f' r = s_transmissions f r)"

lemma ocr_later_refl [simp, intro]: "later f f"
  by (simp add: later_def)

lemma later_same: "s_configCount f' = s_configCount f \<Longrightarrow> s_hotVars f' = s_hotVars f \<Longrightarrow> s_transmissions f' = s_transmissions f \<Longrightarrow>
    later f f'"
  by (simp add: later_def)

lemma ocr_later_trans:
  assumes "later f f'" "later f' f''"
  shows "later f f''"
proof -
  have "s_configCount f' = s_configCount f" if "s_configCount f'' = s_configCount f"
    using assms that by (auto simp: later_def word_unat_eq_iff)
  with assms show ?thesis by (auto simp: later_def intro: order_trans)
qed

lemma posted_later:
  assumes "unat (latestAggregatorRoundId (s_hotVars f)) < 2 ^ 32 - 1" "latestEpochAndRound (s_hotVars f) < context_epoch ctx"
  shows "later f ((posted x ctx os obs f)\<lparr>s_oracleObservationsCounts := counts, s_gasReimbursementsLinkWei := gas\<rparr>)"
proof -
  have "unat (next_round f) = unat (latestAggregatorRoundId (s_hotVars f)) + 1"
    using assms(1) by (simp add: next_round_def unat_plus_no_wrap)
  then show ?thesis using assms(2) by (auto simp: later_def posted_def)
qed

lemma call_later:
  assumes "ocr_exec C A cr x c (f, w) = Returns (f', w')" "ocr_inv f" "counters_left f"
  shows "later f f'"
proof (cases "administrative c")
  case True
  then show ?thesis using administrative_calls [OF assms(1)] by (auto simp: same_oracles_def intro: later_same)
next
  case False
  have f: "accounts_ok f" "registered f" using assms(2) by (simp_all add: ocr_inv_def)
  show ?thesis
  proof (cases c)
    case (SetConfig ss ts thr vers enc)
    then have s: "setConfig C cr x ss ts thr vers enc (f, w) = Returns (f', w')" using assms(1) by simp
    obtain f1 f2 where r: "oracles_only f f1" "\<exists>es ss ts. f2 = f1\<lparr>s_oracles := es, s_signers := ss, s_transmitters := ts\<rparr>"
      "f' = start_config cr x ss ts thr vers enc f2"
      by (rule setConfig_Returns [OF s f])
    have "s_configCount f2 = s_configCount f" "s_transmissions f2 = s_transmissions f" "s_hotVars f2 = s_hotVars f"
      using r(1,2) by (auto simp: oracles_only_def)
    moreover have "unat (s_configCount f + 1) = unat (s_configCount f) + 1"
      using assms(3) by (simp add: counters_left_def unat_plus_no_wrap)
    ultimately show ?thesis by (auto simp: later_def r(3))
  next
    case (Transmit report rs ss vs)
    then obtain ctx raw obs i cost counts gas where "accepts C cr x report rs ss vs f w ctx raw obs i cost w'"
      "f' = (posted x ctx (observers_of raw obs) obs f)\<lparr>s_oracleObservationsCounts := counts, s_gasReimbursementsLinkWei := gas\<rparr>"
      using assms(1) transmit_Returns [OF f, of C cr x report rs ss vs w f' w'] by auto
    with assms(3) show ?thesis using posted_later [of f ctx] by (simp add: accepts_def report_fits_def counters_left_def)
  next
    case (SetBilling b1 b2 b3 b4 b5)
    then obtain f1 where p: "payOracles C (tx_msg x) (f, w) = Returns (f1, w')" "f' = setBillingInternal b1 b2 b3 b4 b5 f1"
      using assms(1) by (auto simp: setBilling_def sol_simps)
    note same = accounts_only_fields [OF payOracles_Returns(1) [OF p(1) f]]
    show ?thesis by (rule later_same) (simp_all add: p(2) setBillingInternal_def ocr_emit_def Let_def same)
  next
    case (WithdrawPayment a)
    then have p: "payOracle C (tx_msg x) a (f, w) = Returns (f', w')" using assms(1) by (simp add: withdrawPayment_def require_Returns)
    show ?thesis using accounts_only_fields [OF payOracle_accounts(1) [OF p f]] by (intro later_same)
  next
    case (SetPayees ts ps)
    then show ?thesis
      using assms(1) setPayees_loop_Returns [of "zip ts ps" f f'] by (auto simp: sol_simps setPayees_def intro: later_same)
  next
    case (AcceptPayeeship t)
    then show ?thesis using assms(1) by (auto simp: sol_simps acceptPayeeship_def ocr_emit_def Let_def intro: later_same)
  qed (use False in simp_all)
qed

lemma ocr_run_later:
  assumes "ocr_run C A cr agg env (f, w) (f', w')" "ocr_reach C A cr agg link init env (f, w)"
  shows "later f f'"
  using assms
proof (induction "(f', w')" arbitrary: f' w' rule: ocr_run.induct)
  case (run_called f1 w1 x c f2 w2)
  have "ocr_inv f1" by (rule reach_inv [OF ocr_reach_run [OF run_called.prems run_called.hyps(1)]])
  then have "later f1 f2" by (rule call_later [OF run_called.hyps(5) _ run_called.hyps(3)])
  then show ?case by (rule ocr_later_trans [OF run_called.hyps(2) [OF run_called.prems]])
qed auto

section \<open>Reports that are sent again\<close>

text \<open>The context of a report: the configuration, epoch and round it was made in.\<close>

definition report_context :: "bytes \<Rightarrow> uint256" where
  "report_context report = abi_load report 0"

lemma decodeReport_context: "decodeReport report = Returns (ctx, raw, obs) \<Longrightarrow> ctx = report_context report"
  by (auto simp: decodeReport_def require_Returns report_context_def Let_def)

lemma transmit_context:
  assumes "transmit C cr x report rs ss rawVs (f, w) = Returns (f', w')" "accounts_ok f" "registered f"
  shows "latestConfigDigest (s_hotVars f) = context_digest (report_context report)"
    "latestEpochAndRound (s_hotVars f) < context_epoch (report_context report)"
    "latestEpochAndRound (s_hotVars f') = context_epoch (report_context report)" "s_configCount f' = s_configCount f"
    "latestConfigDigest (s_hotVars f') = latestConfigDigest (s_hotVars f)"
proof -
  obtain ctx raw obs i cost counts gas where t: "accepts C cr x report rs ss rawVs f w ctx raw obs i cost w'"
    "f' = (posted x ctx (observers_of raw obs) obs f)\<lparr>s_oracleObservationsCounts := counts, s_gasReimbursementsLinkWei := gas\<rparr>"
    using assms(1) unfolding transmit_Returns [OF assms(2,3)] by blast
  have "ctx = report_context report" using t(1) decodeReport_context by (auto simp: accepts_def report_fits_def)
  with t show "latestConfigDigest (s_hotVars f) = context_digest (report_context report)"
    "latestEpochAndRound (s_hotVars f) < context_epoch (report_context report)"
    "latestEpochAndRound (s_hotVars f') = context_epoch (report_context report)" "s_configCount f' = s_configCount f"
    "latestConfigDigest (s_hotVars f') = latestConfigDigest (s_hotVars f)"
    by (auto simp: accepts_def report_fits_def posted_def)
qed

section \<open>Payees\<close>

lemma setPayees_loop_changes:
  "setPayees_loop ps f = Returns f' \<Longrightarrow> s_payees f' a \<noteq> s_payees f a \<Longrightarrow> s_payees f a = 0"
  using setPayees_loop_Returns [of ps f f'] by auto

text \<open>Which calls change the payee of an oracle.\<close>

lemma call_payee:
  assumes "ocr_exec C A cr x c (f, w) = Returns (f', w')" "ocr_inv f" "s_payees f' a \<noteq> s_payees f a"
  shows "s_payees f a = 0 \<and> msg_sender (tx_msg x) = owner f \<and> (\<exists>ts ps. c = SetPayees ts ps) \<or>
    c = AcceptPayeeship a \<and> msg_sender (tx_msg x) = s_proposedPayees f a \<and> s_payees f' a = s_proposedPayees f a"
proof (cases "administrative c")
  case True
  then show ?thesis using administrative_calls [OF assms(1)] assms(3) by (simp add: same_oracles_def)
next
  case False
  have f: "accounts_ok f" "registered f" using assms(2) by (simp_all add: ocr_inv_def)
  show ?thesis
  proof (cases c)
    case (SetConfig ss ts thr vers enc)
    then have s: "setConfig C cr x ss ts thr vers enc (f, w) = Returns (f', w')" using assms(1) by simp
    obtain f1 f2 where r: "oracles_only f f1" "\<exists>es ss ts. f2 = f1\<lparr>s_oracles := es, s_signers := ss, s_transmitters := ts\<rparr>"
      "f' = start_config cr x ss ts thr vers enc f2"
      by (rule setConfig_Returns [OF s f])
    then show ?thesis using assms(3) by (auto simp: oracles_only_def)
  next
    case (Transmit report rs ss vs)
    then show ?thesis using assms(1,3) transmit_Returns [OF f, of C cr x report rs ss vs w f' w'] by auto
  next
    case (SetBilling b1 b2 b3 b4 b5)
    then obtain f1 where p: "payOracles C (tx_msg x) (f, w) = Returns (f1, w')" "f' = setBillingInternal b1 b2 b3 b4 b5 f1"
      using assms(1) by (auto simp: setBilling_def sol_simps)
    then show ?thesis
      using assms(3) accounts_only_fields(5) [OF payOracles_Returns(1) [OF p(1) f]]
      by (simp add: setBillingInternal_def ocr_emit_def Let_def)
  next
    case (WithdrawPayment b)
    then have p: "payOracle C (tx_msg x) b (f, w) = Returns (f', w')" using assms(1) by (simp add: withdrawPayment_def require_Returns)
    show ?thesis using assms(3) accounts_only_fields(5) [OF payOracle_accounts(1) [OF p f]] by simp
  next
    case (SetPayees ts ps)
    then show ?thesis
      using assms(1,3) setPayees_loop_changes [of "zip ts ps" f f' a] by (auto simp: sol_simps setPayees_def)
  next
    case (AcceptPayeeship t)
    then show ?thesis
      using assms(1,3) by (auto simp: sol_simps acceptPayeeship_def ocr_emit_def Let_def split: if_splits)
  qed (use False in simp_all)
qed

text \<open>Only the payee of an oracle proposes another one.\<close>

lemma call_proposed:
  assumes "ocr_exec C A cr x c (f, w) = Returns (f', w')" "ocr_inv f" "s_proposedPayees f' a \<noteq> s_proposedPayees f a"
    "s_proposedPayees f' a \<noteq> 0"
  shows "msg_sender (tx_msg x) = s_payees f a"
proof -
  have f: "accounts_ok f" "registered f" using assms(2) by (simp_all add: ocr_inv_def)
  show ?thesis
  proof (cases c)
    case (SetConfig ss ts thr vers enc)
    then have s: "setConfig C cr x ss ts thr vers enc (f, w) = Returns (f', w')" using assms(1) by simp
    obtain f1 f2 where r: "oracles_only f f1" "\<exists>es ss ts. f2 = f1\<lparr>s_oracles := es, s_signers := ss, s_transmitters := ts\<rparr>"
      "f' = start_config cr x ss ts thr vers enc f2"
      by (rule setConfig_Returns [OF s f])
    then show ?thesis using assms(3) by (auto simp: oracles_only_def start_config_def ocr_emit_def Let_def)
  next
    case (Transmit report rs ss vs)
    then show ?thesis using assms(1,3) transmit_Returns [OF f, of C cr x report rs ss vs w f' w'] by (auto simp: posted_def)
  next
    case (SetBilling b1 b2 b3 b4 b5)
    then obtain f1 where p: "payOracles C (tx_msg x) (f, w) = Returns (f1, w')" "f' = setBillingInternal b1 b2 b3 b4 b5 f1"
      using assms(1) by (auto simp: setBilling_def sol_simps)
    then show ?thesis
      using assms(3) accounts_only_fields(8) [OF payOracles_Returns(1) [OF p(1) f]]
      by (simp add: setBillingInternal_def ocr_emit_def Let_def)
  next
    case (WithdrawPayment b)
    then have p: "payOracle C (tx_msg x) b (f, w) = Returns (f', w')" using assms(1) by (simp add: withdrawPayment_def require_Returns)
    show ?thesis using assms(3) accounts_only_fields(8) [OF payOracle_accounts(1) [OF p f]] by simp
  next
    case (SetPayees ts ps)
    then show ?thesis
      using assms(1,3) setPayees_loop_Returns [of "zip ts ps" f f'] by (auto simp: sol_simps setPayees_def)
  qed (use assms(1,3,4) in \<open>auto simp: sol_simps setValidatorConfig_def setRequesterAccessController_def requestNewRound_def
      setBillingAccessController_def setBillingAccessControllerInternal_def transferPayeeship_def acceptPayeeship_def withdrawFunds_def
      transferOwnership_def acceptOwnership_def ocr_emit_def Let_def split: if_splits\<close>)
qed

end
