(* ===== verification/Offchain_Sample.thy ===== *)
theory Offchain_Sample
  imports Offchain_History
begin

text \<open>
  A short history of the off-chain aggregator with the LINK token, evaluated step by step. It
  shows that the hypotheses of the properties hold together: its states are reached by calls.
\<close>

section \<open>Deployment\<close>

text \<open>
  Account 1 deploys the token at address 9 and the aggregator at address 7, which gets some LINK.
  The oracles sign with the addresses 21 to 24, transmit with 11 to 14, and are paid at 31 to 34.
  For the cryptography there are functions to compute with: a hash depends on the length only, and
  \<open>(r, s)\<close> is a signature of the account \<open>r\<close> if \<open>s\<close> is the hash.
\<close>

definition ocr_msg :: "address \<Rightarrow> msg" where
  "ocr_msg a = \<lparr>msg_sender = a, tx_origin = a, block_timestamp = 1000, address_this = 7\<rparr>"

definition ocr_tx :: "address \<Rightarrow> nat \<Rightarrow> tx" where
  "ocr_tx a n = \<lparr>tx_msg = ocr_msg a, msg_data = replicate n 0, tx_gasprice = 20000000000, block_number = 77,
     initial_gas = 500000, gas_left = 100000\<rparr>"

definition ocr_crypto :: evm_crypto where
  "ocr_crypto = \<lparr>keccak256 = (\<lambda>bs. word_of_nat (length bs) * (2 ^ 128 + 1)),
     ecrecover = (\<lambda>h v r s. if s = h then ucast r else 0), modexp = (\<lambda>b e m. None)\<rparr>"

definition ocr_access :: "(link_token \<times> unit) access" where
  "ocr_access controller this user data w = Reverts (Require '''')"

definition ocr_validators :: "unit validators" where
  "ocr_validators av gas p x q y tv = VNoCode"

abbreviation ocr_contracts :: "(link_token \<times> unit) contracts" where
  "ocr_contracts \<equiv> link_contracts 9 ocr_validators"

abbreviation ocr_sample_reach :: "ocr \<times> link_token \<times> unit \<Rightarrow> bool" where
  "ocr_sample_reach \<equiv> ocr_reach ocr_contracts ocr_access ocr_crypto 7 9 (link_start 9 7) (link_env 9 7)"

definition ocr_tokens :: "link_token \<times> unit" where
  "ocr_tokens =
     (\<lparr>balances = (\<lambda>_. 0)(1 := 10 ^ 27 - 10 ^ 18, 7 := 10 ^ 18), allowed = \<lambda>_ _. 0, link_logs = [Transfer 1 7 (10 ^ 18)]\<rparr>, ())"

definition ocr_deployed :: ocr where
  "ocr_deployed =
     \<lparr>owner = 1, pendingOwner = 0, owned_logs = [],
      s_billing = \<lparr>maximumGasPrice = 100, reasonableGasPrice = 10, microLinkPerEth = 1000, linkGweiPerObservation = 2,
        linkGweiPerTransmission = 3\<rparr>,
      LINK = 9, s_billingAccessController = 0, s_oracleObservationsCounts = replicate 31 1, s_payees = \<lambda>_. 0,
      s_proposedPayees = \<lambda>_. 0, s_gasReimbursementsLinkWei = replicate 31 1, s_oracles = \<lambda>_. no_oracle_entry,
      s_signers = [], s_transmitters = [], s_hotVars = no_hot_vars, s_transmissions = \<lambda>_. \<lparr>tr_answer = 0, tr_timestamp = 0\<rparr>,
      s_configCount = 0, s_latestConfigBlockNumber = 0, minAnswer = 1, maxAnswer = 1000,
      s_validatorConfig = \<lparr>vc_validator = 0, vc_gasLimit = 0\<rparr>, s_requesterAccessController = 0, decimals = 2,
      s_description = ''BTC'', ocr_logs = [BillingSet 100 10 1000 2 3]\<rparr>"

lemma ocr_msg_simps [simp]:
  "msg_sender (ocr_msg a) = a" "tx_origin (ocr_msg a) = a" "block_timestamp (ocr_msg a) = 1000" "address_this (ocr_msg a) = 7"
  by (simp_all add: ocr_msg_def)

lemma ocr_tx_simps [simp]:
  "tx_msg (ocr_tx a n) = ocr_msg a" "length (msg_data (ocr_tx a n)) = n" "block_number (ocr_tx a n) = 77"
  "initial_gas (ocr_tx a n) = 500000" "gas_left (ocr_tx a n) = 100000" "tx_gasprice (ocr_tx a n) = 20000000000"
  by (simp_all add: ocr_tx_def)

lemma ocr_deployment: "OffchainAggregator (ocr_msg 1) 100 10 1000 2 3 9 1 1000 0 0 2 ''BTC'' = Returns ocr_deployed"
  by (simp add: OffchainAggregator_def OffchainAggregatorBilling_def setRequesterAccessController_def setValidatorConfig_def
      setBillingInternal_def setBillingAccessControllerInternal_def empty_storage_def ocr_emit_def owned.defs ocr.defs
      Owned_constructor_def maxNumOracles_def onlyOwner_def Let_def ocr_deployed_def)

lemma ocr_token_start: "link_start 9 7 ocr_tokens"
proof -
  let ?m = "\<lparr>msg_sender = 1, tx_origin = 1, block_timestamp = 1, address_this = 9\<rparr>"
  have "token_step ?m (CTransfer 7 (10 ^ 18)) (LinkToken ?m) = Returns (fst ocr_tokens)"
    by (simp add: LinkToken_transfer_def validRecipient_def BasicToken_transfer_def link_sub_def link_add_def sol_assert_def
        require_def LinkToken_def totalSupply_def link_emit_def ocr_tokens_def Let_def word_le_nat_alt)
  then have "link_run 9 (- {7}) (LinkToken ?m) (fst ocr_tokens)"
    by (rule link_run.run_call [OF link_run.run_none, rotated 2]) simp_all
  then show ?thesis unfolding link_start_def by blast
qed

section \<open>Payees and oracles\<close>

definition ocr_payees :: ocr where
  "ocr_payees = ocr_deployed
     \<lparr>s_payees := (\<lambda>_. 0)(11 := 31, 12 := 32, 13 := 33, 14 := 34),
      ocr_logs := ocr_logs ocr_deployed @ [PayeeshipTransferred 11 0 31, PayeeshipTransferred 12 0 32,
        PayeeshipTransferred 13 0 33, PayeeshipTransferred 14 0 34]\<rparr>"

definition ocr_configured :: ocr where
  "ocr_configured = ocr_payees
     \<lparr>s_oracles := (\<lambda>_. no_oracle_entry)
        (21 := \<lparr>ora_index = 0, ora_role = Signer\<rparr>, 11 := \<lparr>ora_index = 0, ora_role = Transmitter\<rparr>,
         22 := \<lparr>ora_index = 1, ora_role = Signer\<rparr>, 12 := \<lparr>ora_index = 1, ora_role = Transmitter\<rparr>,
         23 := \<lparr>ora_index = 2, ora_role = Signer\<rparr>, 13 := \<lparr>ora_index = 2, ora_role = Transmitter\<rparr>,
         24 := \<lparr>ora_index = 3, ora_role = Signer\<rparr>, 14 := \<lparr>ora_index = 3, ora_role = Transmitter\<rparr>),
      s_signers := [21, 22, 23, 24], s_transmitters := [11, 12, 13, 14],
      s_hotVars := \<lparr>latestConfigDigest = 576, latestEpochAndRound = 0, threshold = 1, latestAggregatorRoundId = 0\<rparr>,
      s_configCount := 1, s_latestConfigBlockNumber := 77,
      ocr_logs := ocr_logs ocr_payees @ [ConfigSet 0 1 [21, 22, 23, 24] [11, 12, 13, 14] 1 5 []]\<rparr>"

lemmas ocr_sample_defs = ocr_configured_def ocr_payees_def ocr_deployed_def no_hot_vars_def no_oracle_entry_def

lemma ocr_digest: "configDigestFromConfigData ocr_crypto 7 1 [21, 22, 23, 24] [11, 12, 13, 14] 1 5 [] = 576"
  by (simp add: configDigestFromConfigData_def ocr_crypto_def abi_array_def abi_bytes_def Let_def drop_bit_eq_div
      word_unat_eq_iff unsigned_ucast_eq unat_div_word)

lemma ocr_setup:
  "ocr_exec ocr_contracts ocr_access ocr_crypto (ocr_tx 1 0) (SetPayees [11, 12, 13, 14] [31, 32, 33, 34]) (ocr_deployed, w) =
     Returns (ocr_payees, w)"
  "ocr_exec ocr_contracts ocr_access ocr_crypto (ocr_tx 1 0) (SetConfig [21, 22, 23, 24] [11, 12, 13, 14] 1 5 []) (ocr_payees, w) =
     Returns (ocr_configured, w)"
  by (simp_all add: on_ocr_def setPayees_def setConfig_def checkConfigValid_def onlyOwner_def remove_oracles.simps start_config_def
      ocr_digest ocr_sample_defs ocr_emit_def Let_def maxNumOracles_def)

lemma ocr_sample_exec:
  assumes "ocr_sample_reach (f, w)" "ocr_exec ocr_contracts ocr_access ocr_crypto (ocr_tx a n) c (f, w) = Returns (f', w')"
    "counters_left f" "a \<noteq> 7" "a \<noteq> 0"
  shows "ocr_sample_reach (f', w')"
  by (rule ocr_reach.called [OF assms(1,3) _ assms(2)]) (simp add: sender_ok_def assms(4,5))

lemma ocr_reach_configured:
  assumes "link_start 9 7 w"
  shows "ocr_sample_reach (ocr_configured, w)"
proof -
  have "ocr_sample_reach (ocr_deployed, w)"
    by (rule ocr_reach.deployed [OF ocr_deployment]) (simp_all add: is_int192_def assms)
  then have "ocr_sample_reach (ocr_payees, w)"
    by (rule ocr_sample_exec [OF _ ocr_setup(1)]) (simp_all add: counters_left_def ocr_sample_defs)
  then show ?thesis
    by (rule ocr_sample_exec [OF _ ocr_setup(2)]) (simp_all add: counters_left_def ocr_sample_defs)
qed

section \<open>A report\<close>

text \<open>
  In epoch 1 and round 1, the oracles observe 5, 6, 7 and 8. The oracles 0 and 2 sign the report, and
  oracle 1 transmits it. It is paid for its gas.
\<close>

definition ocr_context :: uint256 where
  "ocr_context = 576 * 2 ^ 40 + 257"

definition ocr_observers :: uint256 where
  "ocr_observers = 0x00010203 * 2 ^ 224"

definition ocr_report :: bytes where
  "ocr_report = encode_report ocr_context ocr_observers [5, 6, 7, 8]"

definition ocr_rs :: "uint256 list" where
  "ocr_rs = [21, 23]"

definition ocr_ss :: "uint256 list" where
  "ocr_ss = [256 * (2 ^ 128 + 1), 256 * (2 ^ 128 + 1)]"

definition ocr_credit :: uint256 where
  "ocr_credit = 8316540 * 10 ^ 6 + 3 * 10 ^ 9"

definition ocr_reported :: ocr where
  "ocr_reported = ocr_configured
     \<lparr>s_hotVars := \<lparr>latestConfigDigest = 576, latestEpochAndRound = 257, threshold = 1, latestAggregatorRoundId = 1\<rparr>,
      s_transmissions := (\<lambda>_. \<lparr>tr_answer = 0, tr_timestamp = 0\<rparr>)(1 := \<lparr>tr_answer = 7, tr_timestamp = 1000\<rparr>),
      s_oracleObservationsCounts := [2, 2, 2, 2] @ replicate 27 1,
      s_gasReimbursementsLinkWei := [1, 1 + ocr_credit] @ replicate 29 1,
      ocr_logs := ocr_logs ocr_configured @ [NewTransmission 1 7 12 [5, 6, 7, 8] [0, 1, 2, 3] ocr_context,
        NewRound 1 0 1000, AnswerUpdated 7 1 1000]\<rparr>"

lemma byte_at_eval: "byte_at w i = word_of_nat (unat w div 256 ^ (31 - i) mod 256)"
  using unat_byte_at [of w i] by (metis of_nat_unat ucast_id)

lemma ocr_report_facts:
  "decodeReport ocr_report = Returns (ocr_context, ocr_observers, [5, 6, 7, 8])" "length ocr_report = 256"
  "context_digest ocr_context = 576" "context_epoch ocr_context = 257"
  "observers_of ocr_observers [5, 6, 7, 8] = [0, 1, 2, 3]"
  "keccak256 ocr_crypto ocr_report = 256 * (2 ^ 128 + 1)"
proof -
  show "decodeReport ocr_report = Returns (ocr_context, ocr_observers, [5, 6, 7, 8])"
    unfolding ocr_report_def by (rule decodeReport_encode) (simp_all add: is_int192_def)
  show len: "length ocr_report = 256" by (simp add: ocr_report_def)
  show "context_digest ocr_context = 576" "context_epoch ocr_context = 257"
    by (simp_all add: context_digest_def context_epoch_def ocr_context_def push_bit_eq_mult drop_bit_eq_div word_unat_eq_iff
        unsigned_ucast_eq unat_div_word)
  show "observers_of ocr_observers [5, 6, 7, 8] = [0, 1, 2, 3]"
    by (simp add: observers_of_def byte_at_eval ocr_observers_def)
  show "keccak256 ocr_crypto ocr_report = 256 * (2 ^ 128 + 1)" by (simp add: ocr_crypto_def len)
qed

lemma ocr_steps:
  "check_report (ocr_msg 12) ocr_report ocr_rs ocr_ss ocr_configured =
     Returns (ocr_context, [0, 1, 2, 3], [5, 6, 7, 8],
       \<lparr>latestConfigDigest = 576, latestEpochAndRound = 257, threshold = 1, latestAggregatorRoundId = 0\<rparr>)"
  "verify_signatures ocr_crypto ocr_report ocr_rs ocr_ss 0 ocr_configured = Returns ()"
  "record_median ocr_contracts (ocr_msg 12) ocr_context [0, 1, 2, 3] [5, 6, 7, 8]
     \<lparr>latestConfigDigest = 576, latestEpochAndRound = 257, threshold = 1, latestAggregatorRoundId = 0\<rparr> (ocr_configured, w) =
     Returns (s_hotVars ocr_reported, ocr_reported\<lparr>s_hotVars := s_hotVars ocr_configured,
       s_oracleObservationsCounts := replicate 31 1, s_gasReimbursementsLinkWei := replicate 31 1\<rparr>, w)"
  "reimburseAndRewardOracles (ocr_tx 12 612) 500000 [0, 1, 2, 3]
     (ocr_reported\<lparr>s_oracleObservationsCounts := replicate 31 1, s_gasReimbursementsLinkWei := replicate 31 1\<rparr>) = Returns ocr_reported"
proof -
  have reg: "registered ocr_configured" using reach_inv [OF ocr_reach_configured [OF ocr_token_start]] by (simp add: ocr_inv_def)
  show "check_report (ocr_msg 12) ocr_report ocr_rs ocr_ss ocr_configured =
     Returns (ocr_context, [0, 1, 2, 3], [5, 6, 7, 8],
       \<lparr>latestConfigDigest = 576, latestEpochAndRound = 257, threshold = 1, latestAggregatorRoundId = 0\<rparr>)"
    unfolding check_report_Returns [OF reg]
    by (simp add: ocr_report_facts(1,3-5) ocr_rs_def ocr_ss_def ocr_sample_defs)
  show "verify_signatures ocr_crypto ocr_report ocr_rs ocr_ss 0 ocr_configured = Returns ()"
    unfolding verify_signatures_def ocr_report_facts(6)
    by (simp add: ocr_crypto_def ocr_rs_def ocr_ss_def ocr_sample_defs maxNumOracles_def Let_def upt_rec array_set_def)
  show "record_median ocr_contracts (ocr_msg 12) ocr_context [0, 1, 2, 3] [5, 6, 7, 8]
     \<lparr>latestConfigDigest = 576, latestEpochAndRound = 257, threshold = 1, latestAggregatorRoundId = 0\<rparr> (ocr_configured, w) =
     Returns (s_hotVars ocr_reported, ocr_reported\<lparr>s_hotVars := s_hotVars ocr_configured,
       s_oracleObservationsCounts := replicate 31 1, s_gasReimbursementsLinkWei := replicate 31 1\<rparr>, w)"
    by (simp add: record_median_def validateAnswer_def ocr_reported_def ocr_sample_defs ocr_emit_def Let_def)
  have "oracleRewards [0, 1, 2, 3] (replicate 31 1) = Returns ([2, 2, 2, 2] @ replicate 27 1)" by code_simp
  moreover have "array_set (replicate 31 1) 1 v = Returns ([1, v] @ replicate 29 1)" for v :: uint256
    by (simp add: array_set_def numeral_eq_Suc)
  moreover have "transmitterGasCostEthWei 500000 (impliedGasPrice 20 10 100) 9792 100000 = Returns 8316540000000000"
    by code_simp
  ultimately show "reimburseAndRewardOracles (ocr_tx 12 612) 500000 [0, 1, 2, 3]
     (ocr_reported\<lparr>s_oracleObservationsCounts := replicate 31 1, s_gasReimbursementsLinkWei := replicate 31 1\<rparr>) = Returns ocr_reported"
    by (simp add: reimburseAndRewardOracles_def gwei_def ocr_reported_def ocr_sample_defs ocr_credit_def Let_def)
qed

lemma ocr_transmit:
  "transmit ocr_contracts ocr_crypto (ocr_tx 12 612) ocr_report ocr_rs ocr_ss 0 (ocr_configured, w) = Returns (ocr_reported, w)"
proof -
  have "expectedMsgDataLength ocr_report ocr_rs ocr_ss = 612" "(500000 :: uint256) < maxUint32"
    by (simp_all add: expectedMsgDataLength_def TRANSMIT_MSGDATA_CONSTANT_LENGTH_COMPONENT_def ocr_report_facts(2) ocr_rs_def ocr_ss_def
        maxUint32_def)
  then show ?thesis by (simp add: transmit_def ocr_steps Let_def)
qed

end
