(* ===== verification/Offchain_Properties.thy ===== *)
theory Offchain_Properties
  imports Offchain_Sample
begin

text \<open>
  The properties of the off-chain aggregator, stated over its functions and views: its oracles, the
  reports it accepts and the answers it gives, what the oracles are owed and how they are paid, and
  two behaviours that surprise. Each comes with an instance in the history of \<open>Offchain_Sample\<close>.
\<close>

abbreviation link_ocr_reach ::
  "address \<Rightarrow> address \<Rightarrow> 'v validators \<Rightarrow> (link_token \<times> 'v) access \<Rightarrow> evm_crypto \<Rightarrow> ocr \<times> link_token \<times> 'v \<Rightarrow> bool" where
  "link_ocr_reach link agg V A cr \<equiv> ocr_reach (link_contracts link V) A cr agg link (link_start link agg) (link_env link agg)"

lemma reach_ok:
  assumes "ocr_reach C A cr agg link init env (f, w)"
  shows "accounts_ok f" "registered f" "quorum_ok f" "answers_ok f"
  using reach_inv [OF assms] by (simp_all add: ocr_inv_def)

lemma link_reach_token:
  assumes "link_ocr_reach link agg V A cr (f, w)"
  shows "LINK f = link \<and> token_good agg w"
  using lo.ocr_reach_token [OF assms] token_good_start by blast

lemma reach_reported: "link_start 9 7 w \<Longrightarrow> ocr_sample_reach (ocr_reported, w)"
proof (rule ocr_sample_exec [OF ocr_reach_configured])
  show "ocr_exec ocr_contracts ocr_access ocr_crypto (ocr_tx 12 612) (Transmit ocr_report ocr_rs ocr_ss 0) (ocr_configured, w) =
    Returns (ocr_reported, w)" by (simp add: ocr_transmit)
qed (simp_all add: counters_left_def ocr_sample_defs)

lemma unat_twice_threshold:
  assumes "registered f" "quorum_ok f"
  shows "unat (2 * threshold (s_hotVars f)) = 2 * unat (threshold (s_hotVars f))"
proof -
  have "3 * unat (threshold (s_hotVars f)) \<le> 31" using assms by (auto simp: registered_def quorum_ok_def)
  then show ?thesis by (subst unat_mult_no_wrap) simp_all
qed

section \<open>Oracles\<close>

text \<open>
  C18. The table of oracles is always right. Whatever calls are made, the signers and transmitters are
  as many and pairwise different, at most 31, and more than three times the threshold; each address
  in the lists has its role and its place in \<open>s_oracles\<close>, no other address has a role, every
  transmitter has a payee, and the answers of all rounds are within the bounds.
\<close>

theorem ocr_table_is_exact:
  assumes "ocr_reach C A cr agg link init env (f, w)"
  shows "length (s_signers f) = length (transmitters f) \<and> length (transmitters f) \<le> 31 \<and>
    distinct (s_signers f @ transmitters f) \<and>
    (transmitters f \<noteq> [] \<longrightarrow> 0 < unat (threshold (s_hotVars f)) \<and> 3 * unat (threshold (s_hotVars f)) < length (transmitters f)) \<and>
    (\<forall>a. ora_role (s_oracles f a) = Signer \<longleftrightarrow> a \<in> set (s_signers f)) \<and>
    (\<forall>a. ora_role (s_oracles f a) = Transmitter \<longleftrightarrow> a \<in> set (transmitters f)) \<and>
    (\<forall>i<length (transmitters f). unat (ora_index (s_oracles f (s_signers f ! i))) = i \<and>
      unat (ora_index (s_oracles f (transmitters f ! i))) = i \<and> s_payees f (transmitters f ! i) \<noteq> 0) \<and>
    (\<forall>r. 0 < unat r \<and> unat r \<le> unat (latestRound f) \<longrightarrow> minAnswer f \<le> getAnswer r f \<and> getAnswer r f \<le> maxAnswer f)"
proof -
  note ok = reach_ok [OF assms]
  have roles: "(ora_role (s_oracles f a) = Signer \<longleftrightarrow> a \<in> set (s_signers f)) \<and>
      (ora_role (s_oracles f a) = Transmitter \<longleftrightarrow> a \<in> set (s_transmitters f))" for a
  proof (rule registered_cases [OF ok(2), of a])
    fix i assume i: "i < length (s_transmitters f)" "a = s_signers f ! i" "s_oracles f a = \<lparr>ora_index = word_of_nat i, ora_role = Signer\<rparr>"
    then have "a \<in> set (s_signers f)" using ok(2) by (auto simp: registered_def)
    moreover have "a \<notin> set (s_transmitters f)" using ok(2) calculation by (auto simp: registered_def)
    ultimately show ?thesis using i by simp
  next
    fix i assume i: "i < length (s_transmitters f)" "a = s_transmitters f ! i"
      "s_oracles f a = \<lparr>ora_index = word_of_nat i, ora_role = Transmitter\<rparr>"
    then have "a \<in> set (s_transmitters f)" by simp
    moreover have "a \<notin> set (s_signers f)" using ok(2) calculation by (auto simp: registered_def)
    ultimately show ?thesis using i by simp
  qed (simp add: no_oracle_entry_def)
  have answers: "minAnswer f \<le> getAnswer r f \<and> getAnswer r f \<le> maxAnswer f" if r: "0 < unat r" "unat r \<le> unat (latestRound f)" for r
  proof -
    have "unat (latestAggregatorRoundId (s_hotVars f)) < 2 ^ 32"
      using unsigned_less [of "latestAggregatorRoundId (s_hotVars f)"] by simp
    then have "unat r < 2 ^ 32" using r(2) by (simp add: latestRound_def)
    then have "\<not> 0xFFFFFFFF < r" "unat (ucast r :: uint32) = unat r"
      by (simp_all add: word_less_nat_alt unsigned_ucast_eq take_bit_nat_eq_self_iff)
    then show ?thesis using ok(4) r by (auto simp: answers_ok_def getAnswer_def latestRound_def)
  qed
  show ?thesis
    using ok(2,3) roles answers by (auto simp: registered_def quorum_ok_def transmitters_def unat_word_of_nat_31)
qed

theorem ocr_table_is_exact_witness:
  "3 * unat (threshold (s_hotVars ocr_reported)) < length (transmitters ocr_reported) \<and>
   ora_role (s_oracles ocr_reported 22) = Signer \<and> minAnswer ocr_reported \<le> getAnswer 1 ocr_reported \<and> getAnswer 1 ocr_reported = 7"
proof -
  have s: "transmitters ocr_reported \<noteq> []" "22 \<in> set (s_signers ocr_reported)" "unat (latestRound ocr_reported) = 1" "getAnswer 1 ocr_reported = 7"
    by (simp_all add: ocr_reported_def ocr_sample_defs transmitters_def latestRound_def getAnswer_def)
  note t = ocr_table_is_exact [OF reach_reported [OF ocr_token_start]]
  from t s(1) have "3 * unat (threshold (s_hotVars ocr_reported)) < length (transmitters ocr_reported)" by blast
  moreover from t s(2) have "ora_role (s_oracles ocr_reported 22) = Signer" by blast
  moreover from t have "minAnswer ocr_reported \<le> getAnswer 1 ocr_reported" using s(3) by simp
  ultimately show ?thesis using s(4) by blast
qed

section \<open>Reports\<close>

lemma zip_signatures:
  "length ss = length rs \<Longrightarrow> signers_of cr report rs ss rawVs f =
     map (\<lambda>k. s_oracles f (ecrecover cr (keccak256 cr report) (byte_at rawVs k + 27) (rs ! k) (ss ! k))) [0..<length rs]"
  by (intro nth_equalityI) (simp_all add: signers_of_def signer_entries_def)

text \<open>
  C15. A report needs a quorum. If \<open>transmit\<close> returns, the sender is one of the transmitters, the report
  is for the current configuration and newer than all reports of it, and more of the signers than
  the threshold have signed it: so, of all oracles but at most \<open>threshold\<close> faulty ones, at least one.
\<close>

theorem ocr_report_needs_quorum:
  assumes "ocr_reach C A cr agg link init env (f, w)" "transmit C cr x report rs ss rawVs (f, w) = Returns (f', w')"
  shows "msg_sender (tx_msg x) \<in> set (transmitters f) \<and>
    latestConfigDigest (s_hotVars f) = context_digest (report_context report) \<and>
    latestEpochAndRound (s_hotVars f) < context_epoch (report_context report) \<and>
    (\<exists>S. S \<subseteq> set (s_signers f) \<and> unat (threshold (s_hotVars f)) < card S \<and>
      (\<forall>a\<in>S. \<exists>k<length rs. ecrecover cr (keccak256 cr report) (byte_at rawVs k + 27) (rs ! k) (ss ! k) = a) \<and>
      (\<forall>F. finite F \<and> card F \<le> unat (threshold (s_hotVars f)) \<longrightarrow> S - F \<noteq> {}))"
proof -
  note ok = reach_ok [OF assms(1)]
  obtain ctx raw obs i cost where a: "accepts C cr x report rs ss rawVs f w ctx raw obs i cost w'"
    using assms(2) unfolding transmit_Returns [OF ok(1,2)] by blast
  let ?rec = "\<lambda>k. ecrecover cr (keccak256 cr report) (byte_at rawVs k + 27) (rs ! k) (ss ! k)"
  let ?S = "?rec ` {..<length rs}"
  have sig: "length ss = length rs" "unat (threshold (s_hotVars f)) < length rs"
    "\<forall>e\<in>set (signers_of cr report rs ss rawVs f). ora_role e = Signer"
    "distinct (map ora_index (signers_of cr report rs ss rawVs f))"
    using a by (simp_all add: accepts_def signatures_fit_def)
  have "inj_on ?rec {..<length rs}"
    using sig(4) by (auto simp: zip_signatures [OF sig(1)] distinct_map inj_on_def)
  then have card: "card ?S = length rs" by (simp add: card_image)
  have "a \<in> set (s_signers f)" if "a \<in> ?S" for a
  proof -
    have "ora_role (s_oracles f a) = Signer" using sig(3) that by (auto simp: zip_signatures [OF sig(1)])
    then show ?thesis
      using ok(2) by (cases rule: registered_cases [OF ok(2), of a]) (auto simp: no_oracle_entry_def registered_def)
  qed
  moreover have "?S - F \<noteq> {}" if "finite F" "card F \<le> unat (threshold (s_hotVars f))" for F
    using card_mono [OF that(1), of ?S] that(2) card sig(2) by auto
  moreover have "msg_sender (tx_msg x) \<in> set (transmitters f)" using a by (auto simp: accepts_def sent_by_def transmitters_def in_set_conv_nth)
  ultimately show ?thesis
    using transmit_context [OF assms(2) ok(1,2)] card sig(2) by (intro conjI exI [of _ ?S]) auto
qed

theorem ocr_report_needs_quorum_witness:
  "12 \<in> set (transmitters ocr_configured) \<and>
   (\<exists>S. S \<subseteq> {21, 22, 23, 24} \<and> 1 < card S \<and> (\<forall>a\<in>S. \<exists>k<2. ecrecover ocr_crypto (keccak256 ocr_crypto ocr_report) (byte_at 0 k + 27)
     (ocr_rs ! k) (ocr_ss ! k) = a))"
proof -
  have s: "s_signers ocr_configured = [21, 22, 23, 24]" "unat (threshold (s_hotVars ocr_configured)) = 1" "length ocr_rs = 2"
    by (simp_all add: ocr_sample_defs ocr_rs_def)
  note q = ocr_report_needs_quorum [OF ocr_reach_configured [OF ocr_token_start] ocr_transmit, unfolded s]
  then have "12 \<in> set (transmitters ocr_configured)" by simp
  moreover from q obtain S where "S \<subseteq> {21, 22, 23, 24}" "1 < card S"
    "\<forall>a\<in>S. \<exists>k<2. ecrecover ocr_crypto (keccak256 ocr_crypto ocr_report) (byte_at 0 k + 27) (ocr_rs ! k) (ocr_ss ! k) = a"
    by auto
  ultimately show ?thesis by blast
qed

lemma outside_faulty:
  assumes "finite F" "card F \<le> t" "t < card I" "finite I"
  obtains i where "i \<in> I" "i \<notin> F"
proof -
  have "\<not> I \<subseteq> F" using card_mono [OF assms(1), of I] assms(2,3) by auto
  then show thesis using that by blast
qed

text \<open>
  C16. Answers can be trusted. A report that is accepted makes a new round, whose answer is the median of
  its observations, and is within the bounds. If at most \<open>threshold\<close> of the observations are
  faulty, the answer lies between two observations that are not.
\<close>

theorem ocr_answer_between_honest_observations:
  assumes "ocr_reach C A cr agg link init env (f, w)" "transmit C cr x report rs ss rawVs (f, w) = Returns (f', w')"
    "counters_left f" "decodeReport report = Returns (ctx, raw, obs)"
  shows "latestAnswer f' = obs ! (length obs div 2) \<and> unat (latestRound f') = unat (latestRound f) + 1 \<and>
    latestTimestamp f' = ucast (ucast (block_timestamp (tx_msg x)) :: uint64) \<and>
    minAnswer f \<le> latestAnswer f' \<and> latestAnswer f' \<le> maxAnswer f \<and>
    (\<forall>F. finite F \<and> card F \<le> unat (threshold (s_hotVars f)) \<longrightarrow>
      (\<exists>i j. i < length obs \<and> j < length obs \<and> i \<notin> F \<and> j \<notin> F \<and> obs ! i \<le> latestAnswer f' \<and> latestAnswer f' \<le> obs ! j))"
proof -
  note ok = reach_ok [OF assms(1)]
  obtain ctx' raw' obs' i cost counts gas where t: "accepts C cr x report rs ss rawVs f w ctx' raw' obs' i cost w'"
    "f' = (posted x ctx' (observers_of raw' obs') obs' f)\<lparr>s_oracleObservationsCounts := counts, s_gasReimbursementsLinkWei := gas\<rparr>"
    using assms(2) unfolding transmit_Returns [OF ok(1,2)] by blast
  then have obs: "obs' = obs" using assms(4) by (simp add: accepts_def report_fits_def)
  let ?t = "unat (threshold (s_hotVars f))" and ?m = "length obs div 2"
  have r: "2 * ?t < length obs" "sorted obs" "minAnswer f \<le> median_of obs" "median_of obs \<le> maxAnswer f"
    using t(1) unat_twice_threshold [OF ok(2,3)] by (auto simp: accepts_def report_fits_def obs)
  have ans: "latestAnswer f' = obs ! ?m" by (simp add: latestAnswer_def t(2) posted_def median_of_def obs)
  have "\<exists>i j. i < length obs \<and> j < length obs \<and> i \<notin> F \<and> j \<notin> F \<and> obs ! i \<le> obs ! ?m \<and> obs ! ?m \<le> obs ! j"
    if F: "finite F" "card F \<le> ?t" for F
  proof -
    obtain i where "i \<in> {..?m}" "i \<notin> F" by (rule outside_faulty [OF F, of "{..?m}"]) (use r(1) in auto)
    moreover obtain j where "j \<in> {?m..<length obs}" "j \<notin> F" by (rule outside_faulty [OF F, of "{?m..<length obs}"]) (use r(1) in auto)
    ultimately show ?thesis using r(1,2) by (intro exI [of _ i] exI [of _ j]) (auto simp: sorted_iff_nth_mono)
  qed
  moreover have "unat (latestRound f') = unat (latestRound f) + 1"
    using assms(3) by (simp add: latestRound_def t(2) posted_def next_round_def counters_left_def unat_plus_no_wrap)
  moreover have "latestTimestamp f' = ucast (ucast (block_timestamp (tx_msg x)) :: uint64)"
    by (simp add: latestTimestamp_def t(2) posted_def)
  ultimately show ?thesis using r(3,4) ans by (auto simp: median_of_def)
qed

theorem ocr_answer_between_honest_observations_witness:
  "latestAnswer ocr_reported = 7 \<and> unat (latestRound ocr_reported) = 1 \<and>
   (\<exists>i j. i < 4 \<and> j < 4 \<and> i \<noteq> 2 \<and> j \<noteq> 2 \<and> [5, 6, 7, 8] ! i \<le> latestAnswer ocr_reported \<and> latestAnswer ocr_reported \<le> [5, 6, 7, 8] ! j)"
proof -
  have "counters_left ocr_configured" by (simp add: counters_left_def ocr_sample_defs)
  note a = ocr_answer_between_honest_observations [OF ocr_reach_configured [OF ocr_token_start] ocr_transmit this ocr_report_facts(1)]
  have s: "unat (threshold (s_hotVars ocr_configured)) = 1" "unat (latestRound ocr_configured) = 0"
    by (simp_all add: ocr_sample_defs latestRound_def)
  have "finite {2::nat} \<and> card {2::nat} \<le> unat (threshold (s_hotVars ocr_configured))" by (simp add: s)
  then have "\<exists>i j. i < length [5, 6, 7, 8 :: int] \<and> j < length [5, 6, 7, 8 :: int] \<and> i \<notin> {2} \<and> j \<notin> {2} \<and>
      [5, 6, 7, 8] ! i \<le> latestAnswer ocr_reported \<and> latestAnswer ocr_reported \<le> [5, 6, 7, 8] ! j"
    using a by blast
  then obtain i j where "i < 4" "j < 4" "i \<noteq> 2" "j \<noteq> 2" "[5, 6, 7, 8] ! i \<le> latestAnswer ocr_reported"
    "latestAnswer ocr_reported \<le> [5, 6, 7, 8] ! j" by (auto simp: eval_nat_numeral)
  moreover have "latestAnswer ocr_reported = 7" using a [THEN conjunct1] by simp
  moreover have "unat (latestRound ocr_reported) = 1" using a [THEN conjunct2, THEN conjunct1] s(2) by simp
  ultimately show ?thesis by blast
qed

text \<open>
  C17. A report counts once, and answers are final. After \<open>transmit\<close> has accepted a report, whatever is
  called afterwards: a report accepted later in the same configuration is for a later epoch or
  round, the same report is never accepted again unless a new configuration has the same digest,
  and the answers of all rounds up to this one stay as they are.
\<close>

theorem ocr_report_counts_once:
  assumes "ocr_reach C A cr agg link init env (f, w)" "counters_left f" "sender_ok agg x"
    "transmit C cr x report rs ss rawVs (f, w) = Returns (f1, w1)" "ocr_run C A cr agg env (f1, w1) (f2, w2)"
    "transmit C cr x' report' rs' ss' rawVs' (f2, w2) = Returns (f3, w3)"
  shows "(s_configCount f2 = s_configCount f \<longrightarrow>
      context_epoch (report_context report) < context_epoch (report_context report')) \<and>
    (report' = report \<longrightarrow> unat (s_configCount f) < unat (s_configCount f2) \<and>
      latestConfigDigest (s_hotVars f2) = latestConfigDigest (s_hotVars f)) \<and>
    (\<forall>r. r \<le> latestRound f1 \<longrightarrow> getAnswer r f2 = getAnswer r f1 \<and> getTimestamp r f2 = getTimestamp r f1)"
proof -
  note ok = reach_ok [OF assms(1)]
  have reach1: "ocr_reach C A cr agg link init env (f1, w1)"
    by (rule ocr_reach.called [OF assms(1-3), of "Transmit report rs ss rawVs"]) (simp add: assms(4))
  have reach2: "ocr_reach C A cr agg link init env (f2, w2)" by (rule ocr_reach_run [OF reach1 assms(5)])
  have later: "later f1 f2" by (rule ocr_run_later [OF assms(5) reach1])
  note c1 = transmit_context [OF assms(4) ok(1,2)]
  note c2 = transmit_context [OF assms(6) reach_ok(1,2) [OF reach2]]
  have epochs: "context_epoch (report_context report) < context_epoch (report_context report')" if "s_configCount f2 = s_configCount f"
    using later c1(3,4) c2(2) that unfolding later_def by (metis le_less_trans)
  moreover have "unat (s_configCount f) < unat (s_configCount f2) \<and> latestConfigDigest (s_hotVars f2) = latestConfigDigest (s_hotVars f)"
    if same: "report' = report"
  proof -
    have "s_configCount f2 \<noteq> s_configCount f" using epochs same by auto
    moreover have "unat (s_configCount f) \<le> unat (s_configCount f2)" using later c1(4) by (simp add: later_def)
    ultimately show ?thesis using c1(1) c2(1) same by (simp add: order_le_less word_unat_eq_iff)
  qed
  moreover have "getAnswer r f2 = getAnswer r f1 \<and> getTimestamp r f2 = getTimestamp r f1" if "r \<le> latestRound f1" for r
  proof -
    have "unat (latestAggregatorRoundId (s_hotVars f1)) < 2 ^ 32"
      using unsigned_less [of "latestAggregatorRoundId (s_hotVars f1)"] by simp
    moreover have "unat r \<le> unat (latestAggregatorRoundId (s_hotVars f1))" using that by (simp add: latestRound_def word_le_nat_alt)
    moreover from calculation have "unat (ucast r :: uint32) = unat r" by (simp add: unsigned_ucast_eq take_bit_nat_eq_self_iff)
    ultimately show ?thesis using later by (auto simp: later_def getAnswer_def getTimestamp_def)
  qed
  ultimately show ?thesis by blast
qed

text \<open>A second report of the sample history, for the next round.\<close>

definition ocr_report2 :: bytes where
  "ocr_report2 = encode_report (ocr_context + 1) ocr_observers [6, 7, 8, 9]"

lemma ocr_report2_facts:
  "decodeReport ocr_report2 = Returns (ocr_context + 1, ocr_observers, [6, 7, 8, 9])" "length ocr_report2 = 256"
  "context_digest (ocr_context + 1) = 576" "context_epoch (ocr_context + 1) = 258"
  "observers_of ocr_observers [6, 7, 8, 9] = [0, 1, 2, 3]" "keccak256 ocr_crypto ocr_report2 = 256 * (2 ^ 128 + 1)"
  "report_context ocr_report2 = ocr_context + 1" "report_context ocr_report = ocr_context"
proof -
  show d: "decodeReport ocr_report2 = Returns (ocr_context + 1, ocr_observers, [6, 7, 8, 9])"
    unfolding ocr_report2_def by (rule decodeReport_encode) (simp_all add: is_int192_def)
  show len: "length ocr_report2 = 256" by (simp add: ocr_report2_def)
  show "context_digest (ocr_context + 1) = 576" "context_epoch (ocr_context + 1) = 258"
    by (simp_all add: context_digest_def context_epoch_def ocr_context_def push_bit_eq_mult drop_bit_eq_div word_unat_eq_iff
        unsigned_ucast_eq unat_div_word)
  show "observers_of ocr_observers [6, 7, 8, 9] = [0, 1, 2, 3]" using ocr_report_facts(5) by (simp add: observers_of_def)
  show "keccak256 ocr_crypto ocr_report2 = 256 * (2 ^ 128 + 1)" by (simp add: ocr_crypto_def len)
  show "report_context ocr_report2 = ocr_context + 1" using decodeReport_context [OF d] by simp
  show "report_context ocr_report = ocr_context" using decodeReport_context [OF ocr_report_facts(1)] by simp
qed

lemma ocr_second_transmit:
  "\<exists>f' w'. transmit ocr_contracts ocr_crypto (ocr_tx 12 612) ocr_report2 ocr_rs ocr_ss 0 (ocr_reported, ocr_tokens) = Returns (f', w')"
proof -
  have fits: "report_fits ocr_report2 (ocr_context + 1) ocr_observers [6, 7, 8, 9] ocr_reported"
    by (simp add: report_fits_def ocr_report2_facts ocr_reported_def ocr_sample_defs median_of_def)
  have sig: "signatures_fit ocr_crypto ocr_report2 ocr_rs ocr_ss 0 ocr_reported"
    unfolding signatures_fit_def signers_of_def ocr_report2_facts(6)
    by (simp add: ocr_crypto_def ocr_rs_def ocr_ss_def ocr_reported_def ocr_sample_defs upt_rec)
  have sent: "sent_by 1 (ocr_tx 12 612) ocr_reported" by (simp add: sent_by_def ocr_reported_def ocr_sample_defs)
  have val: "vc_validator (s_validatorConfig ocr_reported) = 0" by (simp add: ocr_reported_def ocr_sample_defs)
  have len: "length (msg_data (ocr_tx 12 612)) = expectedMsgDataLength ocr_report2 ocr_rs ocr_ss"
    by (simp add: expectedMsgDataLength_def TRANSMIT_MSGDATA_CONSTANT_LENGTH_COMPONENT_def ocr_report2_facts(2) ocr_rs_def ocr_ss_def)
  have "\<exists>f'. transmit ocr_contracts ocr_crypto (ocr_tx 12 612) ocr_report2 ocr_rs ocr_ss 0 (ocr_reported, ocr_tokens) = Returns (f', ocr_tokens)"
    by (rule transmit_succeeds [OF reach_ok(1,2) [OF reach_reported [OF ocr_token_start]] len fits sig sent _ _ _ val])
      (simp_all add: maxUint32_def)
  then show ?thesis by blast
qed

theorem ocr_report_counts_once_witness:
  "context_epoch (report_context ocr_report) < context_epoch (report_context ocr_report2) \<and>
   (\<exists>f' w'. transmit ocr_contracts ocr_crypto (ocr_tx 12 612) ocr_report2 ocr_rs ocr_ss 0 (ocr_reported, ocr_tokens) = Returns (f', w'))"
proof -
  obtain f' w' where t: "transmit ocr_contracts ocr_crypto (ocr_tx 12 612) ocr_report2 ocr_rs ocr_ss 0 (ocr_reported, ocr_tokens) = Returns (f', w')"
    using ocr_second_transmit by blast
  have left: "counters_left ocr_configured" "sender_ok 7 (ocr_tx 12 612)" "s_configCount ocr_reported = s_configCount ocr_configured"
    by (simp_all add: counters_left_def sender_ok_def ocr_reported_def ocr_sample_defs)
  have "context_epoch (report_context ocr_report) < context_epoch (report_context ocr_report2)"
    using ocr_report_counts_once [OF ocr_reach_configured [OF ocr_token_start] left(1,2) ocr_transmit ocr_run.run_none t] left(3) by blast
  with t show ?thesis by blast
qed

text \<open>
  C19. Honest oracles are heard. If enough oracles sign the report of their current epoch, and one of them
  sends it, then it is accepted, and the answer is the median of its observations, provided that
  these are sorted, from different observers and more than twice the threshold, that the median is
  within the bounds, and that there is no validator.
\<close>

theorem ocr_honest_report_is_accepted:
  assumes "ocr_reach C A cr agg link init env (f, w)" "i < length (transmitters f)" "msg_sender (tx_msg x) = transmitters f ! i"
    and "context_digest ctx = latestConfigDigest (s_hotVars f)" "latestEpochAndRound (s_hotVars f) < context_epoch ctx"
    and "sorted obs" "2 * unat (threshold (s_hotVars f)) < length obs" "length obs \<le> 31" "\<forall>z\<in>set obs. is_int192 z"
    and "minAnswer f \<le> obs ! (length obs div 2)" "obs ! (length obs div 2) \<le> maxAnswer f"
    and "distinct (map (byte_at raw) [0..<length obs])" "\<forall>k<length obs. unat (byte_at raw k) < 31"
    and "distinct ks" "unat (threshold (s_hotVars f)) < length ks" "length rs = length ks" "length ss = length ks"
    and "\<forall>k<length ks. ks ! k < length (s_signers f) \<and>
      ecrecover cr (keccak256 cr (encode_report ctx raw obs)) (byte_at rawVs k + 27) (rs ! k) (ss ! k) = s_signers f ! (ks ! k)"
    and "length (msg_data x) = expectedMsgDataLength (encode_report ctx raw obs) rs ss" "gas_left x \<le> initial_gas x"
    and "initial_gas x < maxUint32" "fst (validatorConfig f) = 0"
  shows "\<exists>f'. transmit C cr x (encode_report ctx raw obs) rs ss rawVs (f, w) = Returns (f', w) \<and>
    latestAnswer f' = obs ! (length obs div 2) \<and> latestRound f' = ucast (latestAggregatorRoundId (s_hotVars f) + 1)"
proof -
  note ok = reach_ok [OF assms(1)]
  let ?r = "encode_report ctx raw obs" and ?n = "length (s_signers f)"
  have n: "?n \<le> 31" "length (transmitters f) = ?n" using ok(2) by (auto simp: registered_def transmitters_def)
  have dec: "decodeReport ?r = Returns (ctx, raw, obs)" using assms(8,9) by (intro decodeReport_encode) simp_all
  have fits: "report_fits ?r ctx raw obs f"
    using assms(4-8,10-13) dec unat_twice_threshold [OF ok(2,3)]
    by (auto simp: report_fits_def observers_of_def median_of_def)
  have ks: "set ks \<subseteq> {..<?n}" using assms(18) by (auto simp: in_set_conv_nth)
  then have "length ks \<le> 31" using card_mono [OF _ ks] n(1) distinct_card [OF assms(14)] by simp
  moreover have entries: "signers_of cr ?r rs ss rawVs f = map (\<lambda>j. \<lparr>ora_index = word_of_nat j, ora_role = Signer\<rparr>) ks"
    using assms(16-18) ok(2) by (intro nth_equalityI) (simp_all add: zip_signatures registered_def)
  have "inj_on (word_of_nat :: nat \<Rightarrow> uint8) (set ks)"
    using ks n(1) unat_word_of_nat_31(1) by (intro inj_onI) (metis lessThan_iff less_le_trans subsetD)
  then have "distinct (map ora_index (signers_of cr ?r rs ss rawVs f))"
    unfolding entries using assms(14) by (simp add: distinct_map comp_def)
  moreover have "\<forall>e\<in>set (signers_of cr ?r rs ss rawVs f). ora_role e = Signer \<and> unat (ora_index e) < 31"
    unfolding entries using ks n(1) by (auto simp: unat_word_of_nat_31 subset_iff)
  ultimately have sig: "signatures_fit cr ?r rs ss rawVs f" using assms(15-17) by (simp add: signatures_fit_def)
  have sent: "sent_by i x f" using assms(2,3) ok(2) by (auto simp: sent_by_def transmitters_def registered_def)
  have "length (msg_data x) < 2 ^ 32"
    using assms(8,16,17,19) \<open>length ks \<le> 31\<close>
    by (simp add: expectedMsgDataLength_def TRANSMIT_MSGDATA_CONSTANT_LENGTH_COMPONENT_def)
  then have "\<exists>f'. transmit C cr x ?r rs ss rawVs (f, w) = Returns (f', w)"
    using assms(22) by (intro transmit_succeeds [OF ok(1,2) assms(19) fits sig sent assms(21,20)]) (simp_all add: validatorConfig_def Let_def)
  then obtain f' where t: "transmit C cr x ?r rs ss rawVs (f, w) = Returns (f', w)" ..
  then obtain ctx' raw' obs' i' cost counts gas where t': "accepts C cr x ?r rs ss rawVs f w ctx' raw' obs' i' cost w"
    "f' = (posted x ctx' (observers_of raw' obs') obs' f)\<lparr>s_oracleObservationsCounts := counts, s_gasReimbursementsLinkWei := gas\<rparr>"
    unfolding transmit_Returns [OF ok(1,2)] by blast
  then have "obs' = obs" using dec by (simp add: accepts_def report_fits_def)
  with t t'(2) show ?thesis by (simp add: latestAnswer_def latestRound_def posted_def median_of_def next_round_def)
qed

theorem ocr_honest_report_is_accepted_witness:
  "\<exists>f'. transmit ocr_contracts ocr_crypto (ocr_tx 12 612) ocr_report ocr_rs ocr_ss 0 (ocr_configured, ocr_tokens) = Returns (f', ocr_tokens) \<and>
     latestAnswer f' = 7"
proof -
  have obs: "map (byte_at ocr_observers) [0..<length [5, 6, 7, 8 :: int]] = [0, 1, 2, 3]"
    using ocr_report_facts(5) unfolding observers_of_def by simp
  then have small: "\<forall>k<length [5, 6, 7, 8 :: int]. unat (byte_at ocr_observers k) < 31"
    by (auto simp: upt_rec less_Suc_eq)
  have signed: "\<forall>k<length [0, 2 :: nat]. [0, 2] ! k < length (s_signers ocr_configured) \<and>
      ecrecover ocr_crypto (keccak256 ocr_crypto (encode_report ocr_context ocr_observers [5, 6, 7, 8])) (byte_at 0 k + 27) (ocr_rs ! k) (ocr_ss ! k) =
        s_signers ocr_configured ! ([0, 2] ! k)"
    unfolding ocr_report_def [symmetric] ocr_report_facts(6)
    by (auto simp: less_Suc_eq ocr_crypto_def ocr_rs_def ocr_ss_def ocr_sample_defs)
  have len: "length (msg_data (ocr_tx 12 612)) = expectedMsgDataLength (encode_report ocr_context ocr_observers [5, 6, 7, 8]) ocr_rs ocr_ss"
    by (simp add: expectedMsgDataLength_def TRANSMIT_MSGDATA_CONSTANT_LENGTH_COMPONENT_def ocr_rs_def ocr_ss_def)
  have "\<exists>f'. transmit ocr_contracts ocr_crypto (ocr_tx 12 612) (encode_report ocr_context ocr_observers [5, 6, 7, 8]) ocr_rs ocr_ss 0
      (ocr_configured, ocr_tokens) = Returns (f', ocr_tokens) \<and> latestAnswer f' = [5, 6, 7, 8] ! (length [5, 6, 7, 8 :: int] div 2) \<and>
      latestRound f' = ucast (latestAggregatorRoundId (s_hotVars ocr_configured) + 1)"
    by (rule ocr_honest_report_is_accepted [OF ocr_reach_configured [OF ocr_token_start], of 1, where ks = "[0, 2]"])
      (use obs small signed len in \<open>simp_all add: transmitters_def validatorConfig_def ocr_report_facts(3,4) ocr_rs_def ocr_ss_def is_int192_def
        maxUint32_def ocr_sample_defs\<close>)
  then show ?thesis by (auto simp: ocr_report_def)
qed

section \<open>Money\<close>

lemma transmitter_entry:
  "registered f \<Longrightarrow> i < length (transmitters f) \<Longrightarrow>
     i < 31 \<and> s_oracles f (transmitters f ! i) = \<lparr>ora_index = word_of_nat i, ora_role = Transmitter\<rparr>"
  by (auto simp: registered_def transmitters_def)

lemma owedPayment_transmitter:
  assumes "accounts_ok f" "registered f" "i < length (transmitters f)"
  shows "\<exists>d. owedPayment (transmitters f ! i) f = Returns d \<and> unat d = owed_at f i"
proof -
  note e = transmitter_entry [OF assms(2,3)]
  have "owedPayment (transmitters f ! i) f = Returns (word_of_nat (owed_at f i))"
    using e owedPayment_registered [OF assms(1), of _ i Transmitter] by simp
  moreover have "unat (word_of_nat (owed_at f i) :: uint256) = owed_at f i"
    using owed_at_exact(2) [OF assms(1), of i] e by (simp add: unat_of_nat)
  ultimately show ?thesis by blast
qed

text \<open>
  C20. The accounts are exact. Whatever calls are made, \<open>owedPayment\<close> and \<open>totalLINKDue\<close> return, without
  overflow: an oracle is owed its unpaid observations at the current price and its reimbursements,
  less than \<open>2 ^ 202\<close>, and the total is the sum of what the oracles are owed and of the observations
  at indices that no oracle has.
\<close>

theorem ocr_accounts_are_exact:
  assumes "ocr_reach C A cr agg link init env (f, w)"
  shows "(\<forall>i<length (transmitters f). owedPayment (transmitters f ! i) f = Returns (word_of_nat (owed_at f i)) \<and> owed_at f i < 2 ^ 202) \<and>
    (\<exists>d. totalLINKDue f = Returns d \<and> unat d = (\<Sum>i<length (transmitters f). owed_at f i) +
      (\<Sum>i\<in>{length (transmitters f)..<31}. unat (s_oracleObservationsCounts f ! i) - 1) * (unat (linkGweiPerObservation (s_billing f)) * 10 ^ 9))"
proof -
  note ok = reach_ok [OF assms]
  have "owedPayment (transmitters f ! i) f = Returns (word_of_nat (owed_at f i)) \<and> owed_at f i < 2 ^ 202"
    if "i < length (transmitters f)" for i
    using transmitter_entry [OF ok(2) that] owedPayment_registered [OF ok(1), of "transmitters f ! i" i Transmitter]
      owed_at_exact(2) [OF ok(1), of i] by simp
  moreover have "unat (word_of_nat (total_due f) :: uint256) = total_due f"
    using totalLINKDue_exact(2) [OF ok(1,2)] by (simp add: unat_of_nat)
  ultimately show ?thesis
    using totalLINKDue_exact(1) [OF ok(1,2)] total_due_owed [OF ok(2)] unfolding unpaid_observations_def transmitters_def by auto
qed

lemma ocr_reported_owed:
  "owed_at ocr_reported 0 = 2 * 10 ^ 9" "owed_at ocr_reported 1 = 8321540 * 10 ^ 6" "owed_at ocr_reported 2 = 2 * 10 ^ 9"
  "owed_at ocr_reported 3 = 2 * 10 ^ 9" "length (transmitters ocr_reported) = 4" "transmitters ocr_reported ! 1 = 12"
  by (simp_all add: owed_at_def transmitters_def ocr_reported_def ocr_sample_defs ocr_credit_def)

lemma ocr_reported_sums:
  "(\<Sum>i<length (transmitters ocr_reported). owed_at ocr_reported i) = 8327540000000"
  "(\<Sum>i\<in>{length (transmitters ocr_reported)..<31}. unat (s_oracleObservationsCounts ocr_reported ! i) - 1) = 0"
  using ocr_reported_owed by (simp_all add: lessThan_nat_numeral) (auto simp: ocr_reported_def nth_append)

theorem ocr_accounts_are_exact_witness:
  "owedPayment 12 ocr_reported = Returns 8321540000000 \<and> (\<exists>d. totalLINKDue ocr_reported = Returns d \<and> unat d = 8327540000000)"
proof -
  note a = ocr_accounts_are_exact [OF reach_reported [OF ocr_token_start]]
  from a [THEN conjunct1] have "owedPayment (transmitters ocr_reported ! 1) ocr_reported = Returns (word_of_nat (owed_at ocr_reported 1))"
    unfolding ocr_reported_owed(5) by simp
  moreover from a [THEN conjunct2] have "\<exists>d. totalLINKDue ocr_reported = Returns d \<and> unat d = 8327540000000"
    unfolding ocr_reported_sums by simp
  ultimately show ?thesis unfolding ocr_reported_owed(2,6) by simp
qed

lemma owed_after_report:
  assumes "accounts_ok f" "rewarded f f' os i cost" "s_billing f' = s_billing f" "j < 31"
  shows "owed_at f' j = owed_at f j +
    (if j \<in> unat ` set os \<and> unat (s_oracleObservationsCounts f ! j) < 65535
     then unat (linkGweiPerObservation (s_billing f)) * 10 ^ 9 else 0) + (if j = i then credit (s_billing f) cost else 0)"
proof -
  define p where "p = unat (linkGweiPerObservation (s_billing f)) * 10 ^ 9"
  have "unat (s_oracleObservationsCounts f ! j) \<le> 65535" using uint16_less [of "s_oracleObservationsCounts f ! j"] by simp
  moreover have "1 \<le> unat (s_oracleObservationsCounts f ! j)" "1 \<le> unat (s_gasReimbursementsLinkWei f ! j)"
    using assms(1,4) by (simp_all add: accounts_ok_def)
  moreover define n g where "n = unat (s_oracleObservationsCounts f ! j) - 1" and "g = unat (s_gasReimbursementsLinkWei f ! j) - 1"
  ultimately have ng: "unat (s_oracleObservationsCounts f ! j) = Suc n" "unat (s_gasReimbursementsLinkWei f ! j) = Suc g" "n \<le> 65534"
    by simp_all
  then have "unat (s_oracleObservationsCounts f' ! j) = Suc (if j \<in> unat ` set os \<and> Suc n < 65535 then Suc n else n)"
    "unat (s_gasReimbursementsLinkWei f' ! j) = Suc (g + (if j = i then credit (s_billing f) cost else 0))"
    using assms(2,4) unfolding rewarded_def by (auto simp: min_def)
  then show ?thesis unfolding owed_at_def assms(3) p_def [symmetric] by (simp add: ng)
qed

text \<open>
  C21. A report is paid for. When \<open>transmit\<close> accepts a report, what each oracle is owed grows by the price
  of an observation if it is among the observers, unless its 16 bit count is full, and for the sender
  also by its gas, at the price the terms allow, and the fee of a transmission; nobody else is
  owed more, and nobody less.
\<close>

theorem ocr_report_is_paid_for:
  assumes "ocr_reach C A cr agg link init env (f, w)" "transmit C cr x report rs ss rawVs (f, w) = Returns (f', w')"
    "sender_ok agg x" "counters_left f" "decodeReport report = Returns (ctx, raw, obs)"
  shows "\<exists>i cost. i < length (transmitters f) \<and> msg_sender (tx_msg x) = transmitters f ! i \<and>
    transmitterGasCostEthWei (initial_gas x)
      (impliedGasPrice (tx_gasprice x div gwei) (ucast (reasonableGasPrice (s_billing f))) (ucast (maximumGasPrice (s_billing f))))
      (16 * word_of_nat (length (msg_data x))) (gas_left x) = Returns cost \<and>
    transmitters f' = transmitters f \<and>
    (\<forall>j<length (transmitters f). \<exists>d d'. owedPayment (transmitters f ! j) f = Returns d \<and> owedPayment (transmitters f ! j) f' = Returns d' \<and>
      unat d' = unat d +
        (if j \<in> unat ` set (map (byte_at raw) [0..<length obs]) \<and> unat (s_oracleObservationsCounts f ! j) < 65535
         then unat (linkGweiPerObservation (s_billing f)) * 10 ^ 9 else 0) +
        (if j = i then unat cost * unat (microLinkPerEth (s_billing f)) div 10 ^ 6 + unat (linkGweiPerTransmission (s_billing f)) * 10 ^ 9
         else 0))"
proof -
  note ok = reach_ok [OF assms(1)]
  have "ocr_reach C A cr agg link init env (f', w')"
    by (rule ocr_reach.called [OF assms(1,4,3), of "Transmit report rs ss rawVs"]) (simp add: assms(2))
  note ok' = reach_ok [OF this]
  obtain ctx' raw' obs' i cost counts gas where t: "accepts C cr x report rs ss rawVs f w ctx' raw' obs' i cost w'"
    "f' = (posted x ctx' (observers_of raw' obs') obs' f)\<lparr>s_oracleObservationsCounts := counts, s_gasReimbursementsLinkWei := gas\<rparr>"
    "rewarded f f' (observers_of raw' obs') i cost"
    using assms(2) unfolding transmit_Returns [OF ok(1,2)] by blast
  have raw: "raw' = raw" "obs' = obs" using t(1) assms(5) by (simp_all add: accepts_def report_fits_def)
  have same: "transmitters f' = transmitters f" "s_billing f' = s_billing f" by (simp_all add: t(2) transmitters_def)
  have small: "ucast (ucast (initial_gas x) :: uint32) = initial_gas x"
    using t(1) by (intro initial_gas_same) (simp add: accepts_def)
  note owed = owed_after_report [OF ok(1) t(3) same(2), unfolded raw]
  show ?thesis
  proof (intro exI [of _ i] exI [of _ cost] conjI allI impI)
    show "i < length (transmitters f)" "msg_sender (tx_msg x) = transmitters f ! i"
      using t(1) by (auto simp: accepts_def sent_by_def transmitters_def)
    show "transmitterGasCostEthWei (initial_gas x)
      (impliedGasPrice (tx_gasprice x div gwei) (ucast (reasonableGasPrice (s_billing f))) (ucast (maximumGasPrice (s_billing f))))
      (16 * word_of_nat (length (msg_data x))) (gas_left x) = Returns cost"
      using t(1) unfolding accepts_def gas_cost_def small by blast
    show "transmitters f' = transmitters f" by (rule same(1))
    fix j assume j: "j < length (transmitters f)"
    from owedPayment_transmitter [OF ok(1,2) j] owedPayment_transmitter [OF ok'(1,2), of j] j same(1)
    obtain d d' where "owedPayment (transmitters f ! j) f = Returns d" "unat d = owed_at f j"
      "owedPayment (transmitters f ! j) f' = Returns d'" "unat d' = owed_at f' j" by auto
    with owed [of j] transmitter_entry [OF ok(2) j]
    show "\<exists>d d'. owedPayment (transmitters f ! j) f = Returns d \<and> owedPayment (transmitters f ! j) f' = Returns d' \<and>
      unat d' = unat d +
        (if j \<in> unat ` set (map (byte_at raw) [0..<length obs]) \<and> unat (s_oracleObservationsCounts f ! j) < 65535
         then unat (linkGweiPerObservation (s_billing f)) * 10 ^ 9 else 0) +
        (if j = i then unat cost * unat (microLinkPerEth (s_billing f)) div 10 ^ 6 + unat (linkGweiPerTransmission (s_billing f)) * 10 ^ 9
         else 0)"
      unfolding observers_of_def credit_def by auto
  qed
qed

theorem ocr_report_is_paid_for_witness:
  "\<exists>d d'. owedPayment 13 ocr_configured = Returns d \<and> owedPayment 13 ocr_reported = Returns d' \<and> unat d' = unat d + 2 * 10 ^ 9"
proof -
  have left: "counters_left ocr_configured" "sender_ok 7 (ocr_tx 12 612)"
    by (simp_all add: counters_left_def sender_ok_def ocr_sample_defs)
  have c: "length (transmitters ocr_configured) = 4" "transmitters ocr_configured ! 2 = 13" "transmitters ocr_configured ! 1 = 12"
    "transmitters ocr_configured = [11, 12, 13, 14]"
    "unat (linkGweiPerObservation (s_billing ocr_configured)) = 2" "unat (s_oracleObservationsCounts ocr_configured ! 2) = 1"
    by (simp_all add: transmitters_def ocr_sample_defs)
  have obs: "2 \<in> unat ` set (map (byte_at ocr_observers) [0..<length [5, 6, 7, 8 :: int]])"
    using ocr_report_facts(5) unfolding observers_of_def by simp
  obtain i cost where i: "i < 4" "msg_sender (tx_msg (ocr_tx 12 612)) = transmitters ocr_configured ! i"
    and paid: "\<forall>j<4. \<exists>d d'. owedPayment (transmitters ocr_configured ! j) ocr_configured = Returns d \<and>
      owedPayment (transmitters ocr_configured ! j) ocr_reported = Returns d' \<and>
      unat d' = unat d +
        (if j \<in> unat ` set (map (byte_at ocr_observers) [0..<length [5, 6, 7, 8 :: int]]) \<and>
           unat (s_oracleObservationsCounts ocr_configured ! j) < 65535
         then unat (linkGweiPerObservation (s_billing ocr_configured)) * 10 ^ 9 else 0) +
        (if j = i then unat (cost :: uint128) * unat (microLinkPerEth (s_billing ocr_configured)) div 10 ^ 6 +
           unat (linkGweiPerTransmission (s_billing ocr_configured)) * 10 ^ 9
         else 0)"
    using ocr_report_is_paid_for [OF ocr_reach_configured [OF ocr_token_start] ocr_transmit left(2,1) ocr_report_facts(1)]
    unfolding c(1) by blast
  have "i \<noteq> 2" using i(2) by (auto simp: c(2))
  with paid [rule_format, of 2] obs show ?thesis by (simp add: c(2,5,6))
qed

text \<open>
  C22. An oracle's payee gets the money. Whatever calls were made, if the balance of the aggregator in the
  LINK token covers what an oracle is owed, its payee can withdraw it: \<open>withdrawPayment\<close> returns, the
  balance of the payee grows by exactly what \<open>owedPayment\<close> said, and nothing is owed any more.
\<close>

theorem ocr_payee_can_withdraw:
  assumes "link_ocr_reach link agg V A cr (f, t, v)" "i < length (transmitters f)" "address_this m = agg"
    and "msg_sender m = s_payees f (transmitters f ! i)" "msg_sender m \<noteq> link" "msg_sender m \<noteq> agg"
    and "owedPayment (transmitters f ! i) f = Returns d" "unat d \<le> unat (balanceOf agg t)"
  shows "\<exists>f' t'. withdrawPayment (link_contracts link V) m (transmitters f ! i) (f, t, v) = Returns (f', t', v) \<and>
    unat (balanceOf (msg_sender m) t') = unat (balanceOf (msg_sender m) t) + unat d \<and>
    owedPayment (transmitters f ! i) f' = Returns 0"
proof -
  note ok = reach_ok [OF assms(1)]
  have i: "i < length (s_transmitters f)" using assms(2) by (simp add: transmitters_def)
  have tok: "LINK f = link" "token_good agg (t, v)" using link_reach_token [OF assms(1)] by blast+
  obtain d' where "owedPayment (transmitters f ! i) f = Returns d'" "unat d' = owed_at f i"
    using owedPayment_transmitter [OF ok(1,2) assms(2)] by blast
  then have d: "unat d = owed_at f i" "d = word_of_nat (owed_at f i)" using assms(7) by (auto simp flip: \<open>unat d' = owed_at f i\<close>)
  have pay: "msg_sender m = s_payees f (s_transmitters f ! i)" "msg_sender m \<noteq> 0 \<and> msg_sender m \<noteq> link"
    "owed_at f i \<le> unat (balances (fst (t, v)) agg)"
    using assms(4,5,8) ok(2) i d(1) by (auto simp: registered_def transmitters_def balanceOf_def)
  obtain f' w' where w: "withdrawPayment (link_contracts link V) m (s_transmitters f ! i) (f, t, v) = Returns (f', w')" "owed_at f' i = 0"
    "if owed_at f i = 0 then w' = (t, v) else c_transfer (link_contracts link V) link agg (msg_sender m) d (t, v) = Returns (True, w')"
    using lo.payment_possible [OF ok(1,2) assms(3) tok i pay] unfolding d(2) by blast
  have credit: "\<exists>t'. w' = (t', v) \<and> unat (balanceOf (msg_sender m) t') = unat (balanceOf (msg_sender m) t) + unat d"
    using w(3) link_transfer_credits [OF tok(2), of link V "msg_sender m" d w'] assms(6) d(1) by (auto split: if_splits)
  have p: "payOracle (link_contracts link V) m (s_transmitters f ! i) (f, t, v) = Returns (f', w')"
    using w(1) by (simp add: withdrawPayment_def require_Returns)
  have acc: "accounts_ok f'" "s_oracles f' = s_oracles f"
    using payOracle_accounts [OF p ok(1,2)] accounts_only_fields by blast+
  have "owedPayment (transmitters f ! i) f' = Returns 0"
    using owedPayment_registered [OF acc(1), of "transmitters f ! i" i Transmitter] transmitter_entry [OF ok(2) assms(2)] acc(2) w(2) by simp
  then show ?thesis using w(1) credit by (auto simp: transmitters_def)
qed

theorem ocr_payee_can_withdraw_witness:
  "\<exists>f' t'. withdrawPayment ocr_contracts (ocr_msg 32) 12 (ocr_reported, ocr_tokens) = Returns (f', t', ()) \<and>
     unat (balanceOf 32 t') = 8321540000000"
proof -
  have o1: "owedPayment (transmitters ocr_reported ! 1) ocr_reported = Returns 8321540000000"
    by (simp add: ocr_reported_def ocr_sample_defs transmitters_def owedPayment_def ocr_credit_def gwei_def)
  have s: "1 < length (transmitters ocr_reported)" "s_payees ocr_reported (transmitters ocr_reported ! 1) = 32"
    "unat (balanceOf 7 (fst ocr_tokens)) = 10 ^ 18" "unat (balanceOf 32 (fst ocr_tokens)) = 0"
    by (simp_all add: ocr_reported_def ocr_sample_defs transmitters_def ocr_tokens_def balanceOf_def)
  have eta: "(fst ocr_tokens, ()) = ocr_tokens" by (simp add: ocr_tokens_def)
  have reach: "link_ocr_reach 9 7 ocr_validators ocr_access ocr_crypto (ocr_reported, fst ocr_tokens, ())"
    using reach_reported [OF ocr_token_start] by (simp add: eta)
  show ?thesis
    using ocr_payee_can_withdraw [OF reach s(1), of "ocr_msg 32" 8321540000000] o1 s(2-4) ocr_reported_owed(6) by (auto simp: eta)
qed

text \<open>
  C23. What is due stays. Whatever calls were made, \<open>withdrawFunds\<close> leaves at least as much in the LINK token
  as is owed to all oracles together, and changes no account; only the owner, or whom the billing
  access controller lets, can call it.
\<close>

theorem ocr_withdrawal_leaves_what_is_due:
  assumes "link_ocr_reach link agg V A cr (f, w)" "address_this (tx_msg x) = agg"
    and "withdrawFunds (link_contracts link V) A x to amount (f, w) = Returns (f', w')"
  shows "f' = f \<and> (\<Sum>i<length (transmitters f). owed_at f i) \<le> unat (balanceOf agg (fst w')) \<and>
    unat (balanceOf agg (fst w)) \<le> unat (balanceOf agg (fst w')) + unat amount \<and>
    (msg_sender (tx_msg x) = owner f \<or>
      A (s_billingAccessController f) agg (msg_sender (tx_msg x)) (msg_data x) w = Returns True)"
proof -
  note ok = reach_ok [OF assms(1)]
  have tok: "LINK f = link" "token_good agg w" using link_reach_token [OF assms(1)] by blast+
  have "msg_sender (tx_msg x) = owner f \<or> A (s_billingAccessController f) agg (msg_sender (tx_msg x)) (msg_data x) w = Returns True"
    using assms(2,3) by (auto simp: withdrawFunds_def owner_or_access_def sol_simps split: if_splits)
  then show ?thesis
    using lo.withdrawFunds_leaves_due [OF assms(3) ok(1,2) assms(2) tok] total_due_owed [OF ok(2)]
    by (simp add: transmitters_def balanceOf_def)
qed

theorem ocr_withdrawal_leaves_what_is_due_witness:
  "\<exists>f' w'. withdrawFunds ocr_contracts ocr_access (ocr_tx 1 0) 1 (2 ^ 255) (ocr_reported, ocr_tokens) = Returns (f', w') \<and>
     8327540000000 \<le> unat (balanceOf 7 (fst w'))"
proof -
  note ok = reach_ok [OF reach_reported [OF ocr_token_start]]
  have total: "totalLINKDue ocr_reported = Returns 8327540000000"
  proof -
    have "total_due ocr_reported = 8327540000000"
      using total_due_owed [OF ok(2)] ocr_reported_sums unfolding unpaid_observations_def transmitters_def by simp
    then show ?thesis using totalLINKDue_exact(1) [OF ok(1,2)] by simp
  qed
  have good: "token_good 7 ocr_tokens" by (rule token_good_start [OF ocr_token_start])
  have bal: "unat (balances (fst ocr_tokens) 7) = 10 ^ 18" by (simp add: ocr_tokens_def)
  obtain w' where "c_transfer ocr_contracts 9 7 1 (10 ^ 18 - 8327540000000) ocr_tokens = Returns (True, w')"
    using lo.transfer_succeeds [OF good, of "10 ^ 18 - 8327540000000" 1 9 ocr_validators] unfolding bal by auto
  moreover have "c_balanceOf ocr_contracts 9 7 ocr_tokens = Returns (10 ^ 18)"
    using lo.balanceOf [OF good, of 9 ocr_validators] unfolding bal by simp
  ultimately have "withdrawFunds ocr_contracts ocr_access (ocr_tx 1 0) 1 (2 ^ 255) (ocr_reported, ocr_tokens) = Returns (ocr_reported, w')"
    by (simp add: withdrawFunds_def owner_or_access_def total min_sol_def) (simp add: ocr_reported_def ocr_sample_defs)
  moreover from ocr_withdrawal_leaves_what_is_due [OF reach_reported [OF ocr_token_start] _ this]
  have "8327540000000 \<le> unat (balanceOf 7 (fst w'))" unfolding ocr_reported_sums by simp
  ultimately show ?thesis by blast
qed

text \<open>
  Payees choose their successors. Whatever calls were made, a call changes the payee of a transmitter
  only if there was none and the owner sets it, or if the new payee accepts what was proposed to
  it; and only the payee of a transmitter can propose another one.
\<close>

theorem ocr_payees_change_in_two_steps:
  assumes "ocr_reach C A cr agg link init env (f, w)" "ocr_exec C A cr x c (f, w) = Returns (f', w')"
  shows "(s_payees f' a \<noteq> s_payees f a \<longrightarrow>
      s_payees f a = 0 \<and> msg_sender (tx_msg x) = owner f \<and> (\<exists>ts ps. c = SetPayees ts ps) \<or>
      c = AcceptPayeeship a \<and> msg_sender (tx_msg x) = s_proposedPayees f a \<and> s_payees f' a = s_proposedPayees f a) \<and>
    (s_proposedPayees f' a \<noteq> s_proposedPayees f a \<and> s_proposedPayees f' a \<noteq> 0 \<longrightarrow> msg_sender (tx_msg x) = s_payees f a)"
  using call_payee [OF assms(2) reach_inv [OF assms(1)], of a] call_proposed [OF assms(2) reach_inv [OF assms(1)], of a]
  by (intro conjI impI) simp_all

theorem ocr_payees_change_in_two_steps_witness:
  "\<exists>f'. ocr_exec ocr_contracts ocr_access ocr_crypto (ocr_tx 31 0) (TransferPayeeship 11 35) (ocr_configured, ocr_tokens) = Returns (f', ocr_tokens) \<and>
     s_payees f' 11 = 31 \<and> s_proposedPayees f' 11 = 35 \<and> s_payees ocr_configured 11 = 31"
proof -
  obtain f' where f': "ocr_exec ocr_contracts ocr_access ocr_crypto (ocr_tx 31 0) (TransferPayeeship 11 35) (ocr_configured, ocr_tokens) =
      Returns (f', ocr_tokens)" "s_proposedPayees f' 11 = 35" "s_proposedPayees ocr_configured 11 = 0" "s_payees ocr_configured 11 = 31"
    by (simp add: on_ocr_def transferPayeeship_def ocr_sample_defs ocr_emit_def Let_def)
  note p = ocr_payees_change_in_two_steps [OF ocr_reach_configured [OF ocr_token_start] f'(1), of 11]
  then have "s_payees f' 11 = s_payees ocr_configured 11" using f'(4) by auto
  with f' show ?thesis by auto
qed

section \<open>Behaviours that surprise\<close>

lemma payOracles_loop_nothing:
  assumes "length counts = 31" "length gas = 31" "i + length as \<le> 31"
    "\<forall>j\<in>{i..<i + length as}. due_word (linkGweiPerObservation (s_billing f)) (counts ! j) (gas ! j) = 0"
  shows "payOracles_loop C m i as (counts, gas, f, w) = Returns (counts, gas, f, w)"
  using assms
proof (induction as arbitrary: i)
  case (Cons a as)
  have "due_word (linkGweiPerObservation (s_billing f)) (counts ! i) (gas ! i) = 0" "i < 31" using Cons.prems by simp_all
  moreover have "payOracles_loop C m (Suc i) as (counts, gas, f, w) = Returns (counts, gas, f, w)" using Cons.prems by (intro Cons.IH) auto
  ultimately show ?case using Cons.prems(1,2) by (simp add: due_word_def unat_word_of_nat_31 Let_def)
qed simp

lemma payOracles_nothing:
  assumes "accounts_ok f" "registered f" "\<forall>i<length (s_transmitters f). owed_at f i = 0"
  shows "payOracles C m (f, w) = Returns (f, w)"
proof -
  have n: "length (s_transmitters f) \<le> 31" using assms(2) by (simp add: registered_def)
  have "due_word (linkGweiPerObservation (s_billing f)) (s_oracleObservationsCounts f ! j) (s_gasReimbursementsLinkWei f ! j) = 0"
    if "j < length (s_transmitters f)" for j
    using due_word_owed [OF assms(1), of j] assms(3) that n by (simp add: unat_eq_0)
  then show ?thesis
    using assms(1) n payOracles_loop_nothing [of "s_oracleObservationsCounts f" "s_gasReimbursementsLinkWei f" 0 "s_transmitters f" f C m w]
    by (simp add: payOracles_def accounts_ok_def)
qed

text \<open>
  C24. Free observations are charged later. The comment of the contract says that the oracles are paid
  with the old parameters before these change. But who is owed nothing is not paid, and the count is
  not reset: observations that were made while the price was zero are owed at the new price
  when \<open>setBilling\<close> returns.
\<close>

theorem ocr_free_observations_are_charged_later:
  assumes "ocr_reach C A cr agg link init env (f, w)" "i < length (transmitters f)"
    and "owedPayment (transmitters f ! i) f = Returns 0" "oracleObservationCount (transmitters f ! i) f = Returns n"
    and "setBilling C A x maxGas reasonable microLink price fee (f, w) = Returns (f', w')"
  shows "\<exists>d. owedPayment (transmitters f ! i) f' = Returns d \<and> unat d = unat n * (unat price * 10 ^ 9)"
proof -
  note ok = reach_ok [OF assms(1)]
  note e = transmitter_entry [OF ok(2) assms(2)]
  have i: "i < length (s_transmitters f)" using assms(2) by (simp add: transmitters_def)
  obtain d where "owedPayment (transmitters f ! i) f = Returns d" "unat d = owed_at f i"
    using owedPayment_transmitter [OF ok(1,2) assms(2)] by blast
  then have zero: "owed_at f i = 0" using assms(3) by simp
  obtain f1 where p: "payOracles C (tx_msg x) (f, w) = Returns (f1, w')" "f' = setBillingInternal maxGas reasonable microLink price fee f1"
    using assms(5) by (auto simp: setBilling_def sol_simps)
  note same = payOracles_Returns(4) [OF p(1) ok(1,2) i zero]
  note fields = accounts_only_fields [OF payOracles_Returns(1) [OF p(1) ok(1,2)]]
  have f': "accounts_ok f'" "registered f'" "transmitters f' = transmitters f"
    using payOracles_Returns(2) [OF p(1) ok(1,2)] ok(2)
    by (simp_all add: p(2) fields setBillingInternal_def ocr_emit_def Let_def accounts_ok_def registered_def transmitters_def)
  have n: "n = s_oracleObservationsCounts f ! i - 1"
    using assms(4) e ok(1) by (auto simp: oracleObservationCount_def accounts_ok_def unat_word_of_nat_31 Let_def)
  have one: "1 \<le> unat (s_oracleObservationsCounts f ! i)" using ok(1) e by (simp add: accounts_ok_def)
  have "owed_at f' i = unat n * (unat price * 10 ^ 9)"
    using zero same unat_dec [OF one] by (simp add: n owed_at_def p(2) setBillingInternal_def ocr_emit_def Let_def)
  then show ?thesis using owedPayment_transmitter [OF f'(1,2), of i] assms(2) f'(3) by simp
qed

text \<open>The sample history with free observations: the owner sets all terms to zero, and then there is a report.\<close>

definition ocr_free :: ocr where
  "ocr_free = setBillingInternal 0 0 0 0 0 ocr_configured"

lemma ocr_free_simps [simp]:
  "s_transmitters ocr_free = s_transmitters ocr_configured" "s_oracles ocr_free = s_oracles ocr_configured" "s_signers ocr_free = s_signers ocr_configured"
  "s_hotVars ocr_free = s_hotVars ocr_configured" "s_validatorConfig ocr_free = s_validatorConfig ocr_configured"
  "minAnswer ocr_free = minAnswer ocr_configured" "maxAnswer ocr_free = maxAnswer ocr_configured" "s_configCount ocr_free = s_configCount ocr_configured"
  "s_oracleObservationsCounts ocr_free = replicate 31 1" "s_gasReimbursementsLinkWei ocr_free = replicate 31 1" "owner ocr_free = 1"
  "s_billing ocr_free = no_terms"
  by (simp_all add: ocr_free_def setBillingInternal_def ocr_emit_def Let_def no_terms_def) (simp_all add: ocr_sample_defs)

lemma ocr_free_reach: "ocr_sample_reach (ocr_free, ocr_tokens)"
proof -
  note reach = ocr_reach_configured [OF ocr_token_start]
  have "payOracles ocr_contracts (ocr_msg 1) (ocr_configured, ocr_tokens) = Returns (ocr_configured, ocr_tokens)"
    by (rule payOracles_nothing [OF reach_ok(1,2) [OF reach]]) (auto simp: owed_at_def ocr_sample_defs)
  moreover have "owner ocr_configured = 1" by (simp add: ocr_sample_defs)
  ultimately have "ocr_exec ocr_contracts ocr_access ocr_crypto (ocr_tx 1 0) (SetBilling 0 0 0 0 0) (ocr_configured, ocr_tokens) =
      Returns (ocr_free, ocr_tokens)"
    by (simp add: setBilling_def owner_or_access_def ocr_free_def)
  then show ?thesis by (rule ocr_sample_exec [OF reach]) (simp_all add: counters_left_def ocr_sample_defs)
qed

lemma ocr_free_transmit:
  "\<exists>f. ocr_sample_reach (f, ocr_tokens) \<and> s_transmitters f = [11, 12, 13, 14] \<and> owner f = 1 \<and> s_billing f = no_terms \<and>
     (\<forall>i<4. unat (s_oracleObservationsCounts f ! i) = 2 \<and> unat (s_gasReimbursementsLinkWei f ! i) = 1)"
proof -
  note ok = reach_ok [OF ocr_free_reach]
  have fits: "report_fits ocr_report ocr_context ocr_observers [5, 6, 7, 8] ocr_free"
    by (simp add: report_fits_def ocr_report_facts median_of_def) (simp add: ocr_sample_defs)
  have sig: "signatures_fit ocr_crypto ocr_report ocr_rs ocr_ss 0 ocr_free"
    unfolding signatures_fit_def signers_of_def ocr_report_facts(6)
    by (simp add: ocr_crypto_def ocr_rs_def ocr_ss_def upt_rec) (simp add: ocr_sample_defs)
  have sent: "sent_by 1 (ocr_tx 12 612) ocr_free" by (simp add: sent_by_def) (simp add: ocr_sample_defs)
  have len: "length (msg_data (ocr_tx 12 612)) = expectedMsgDataLength ocr_report ocr_rs ocr_ss"
    by (simp add: expectedMsgDataLength_def TRANSMIT_MSGDATA_CONSTANT_LENGTH_COMPONENT_def ocr_report_facts(2) ocr_rs_def ocr_ss_def)
  have "vc_validator (s_validatorConfig ocr_free) = 0" by simp (simp add: ocr_sample_defs)
  then have "\<exists>f. transmit ocr_contracts ocr_crypto (ocr_tx 12 612) ocr_report ocr_rs ocr_ss 0 (ocr_free, ocr_tokens) = Returns (f, ocr_tokens)"
    by (intro transmit_succeeds [OF ok(1,2) len fits sig sent]) (simp_all add: maxUint32_def)
  then obtain f where t: "transmit ocr_contracts ocr_crypto (ocr_tx 12 612) ocr_report ocr_rs ocr_ss 0 (ocr_free, ocr_tokens) = Returns (f, ocr_tokens)" ..
  then obtain ctx raw obs i cost counts gas where a: "accepts ocr_contracts ocr_crypto (ocr_tx 12 612) ocr_report ocr_rs ocr_ss 0 ocr_free ocr_tokens ctx raw obs i cost ocr_tokens"
    "f = (posted (ocr_tx 12 612) ctx (observers_of raw obs) obs ocr_free)\<lparr>s_oracleObservationsCounts := counts, s_gasReimbursementsLinkWei := gas\<rparr>"
    "rewarded ocr_free f (observers_of raw obs) i cost"
    unfolding transmit_Returns [OF ok(1,2)] by blast
  have "raw = ocr_observers" "obs = [5, 6, 7, 8]" using a(1) ocr_report_facts(1) by (simp_all add: accepts_def report_fits_def)
  then have "rewarded ocr_free f [0, 1, 2, 3] i cost" using a(3) ocr_report_facts(5) by simp
  then have "unat (s_oracleObservationsCounts f ! j) = 2 \<and> unat (s_gasReimbursementsLinkWei f ! j) = 1" if "j < 4" for j
    using that by (auto simp: rewarded_def credit_def no_terms_def)
  moreover have "ocr_sample_reach (f, ocr_tokens)"
    by (rule ocr_sample_exec [OF ocr_free_reach, of 12 612 "Transmit ocr_report ocr_rs ocr_ss 0"])
      (simp_all add: t counters_left_def, simp_all add: ocr_sample_defs)
  moreover have "s_transmitters f = [11, 12, 13, 14]" by (simp add: a(2)) (simp add: ocr_sample_defs)
  moreover have "owner f = 1" "s_billing f = no_terms" by (simp_all add: a(2) posted_def)
  ultimately show ?thesis by blast
qed

theorem ocr_free_observations_are_charged_later_witness:
  "\<exists>f f' w'. ocr_sample_reach (f, ocr_tokens) \<and> owedPayment 11 f = Returns 0 \<and>
     setBilling ocr_contracts ocr_access (ocr_tx 1 0) 0 0 0 5 0 (f, ocr_tokens) = Returns (f', w') \<and>
     (\<exists>d. owedPayment 11 f' = Returns d \<and> unat d = 5 * 10 ^ 9)"
proof -
  obtain f where f: "ocr_sample_reach (f, ocr_tokens)" "s_transmitters f = [11, 12, 13, 14]" "owner f = 1" "s_billing f = no_terms"
    "\<forall>i<4. unat (s_oracleObservationsCounts f ! i) = 2 \<and> unat (s_gasReimbursementsLinkWei f ! i) = 1"
    using ocr_free_transmit by blast
  note ok = reach_ok [OF f(1)]
  have zero: "\<forall>i<length (s_transmitters f). owed_at f i = 0" using f(2,4,5) by (auto simp: owed_at_def no_terms_def)
  have tr: "0 < length (transmitters f)" "transmitters f ! 0 = 11" by (simp_all add: transmitters_def f(2))
  note e = transmitter_entry [OF ok(2) tr(1)]
  have owed: "owedPayment (transmitters f ! 0) f = Returns 0"
    using owedPayment_transmitter [OF ok(1,2) tr(1)] zero f(2) by (auto simp: unat_eq_0)
  have two: "s_oracleObservationsCounts f ! 0 = 2" using f(5) by (simp add: word_unat_eq_iff)
  then have count: "oracleObservationCount (transmitters f ! 0) f = Returns 1"
    using e ok(1) by (simp add: oracleObservationCount_def accounts_ok_def Let_def)
  obtain f' where b: "setBilling ocr_contracts ocr_access (ocr_tx 1 0) 0 0 0 5 0 (f, ocr_tokens) = Returns (f', ocr_tokens)"
    using payOracles_nothing [OF ok(1,2) zero, of ocr_contracts "ocr_msg 1" ocr_tokens] f(3)
    by (simp add: setBilling_def owner_or_access_def)
  have "\<exists>d. owedPayment 11 f' = Returns d \<and> unat d = 5 * 10 ^ 9"
    using ocr_free_observations_are_charged_later [OF f(1) tr(1) owed count b] by (simp add: tr(2))
  with f(1) b owed show ?thesis unfolding tr(2) by blast
qed

text \<open>
  Who cannot pay cannot change. If the aggregator has less LINK than one of its oracles is owed, then
  neither \<open>setConfig\<close> nor \<open>setBilling\<close> returns, whoever calls them: the oracles and the terms stay as they
  are until somebody sends LINK to it.
\<close>

theorem ocr_underfunded_cannot_be_reconfigured:
  assumes "link_ocr_reach link agg V A cr (f, t, v)" "i < length (transmitters f)" "address_this (tx_msg x) = agg"
    and "owedPayment (transmitters f ! i) f = Returns d" "unat (balanceOf agg t) < unat d"
  shows "setConfig (link_contracts link V) cr x signers ts thr vers enc (f, t, v) \<noteq> Returns r \<and>
    setBilling (link_contracts link V) A x maxGas reasonable microLink price fee (f, t, v) \<noteq> Returns r"
proof -
  note ok = reach_ok [OF assms(1)]
  have i: "i < length (s_transmitters f)" using assms(2) by (simp add: transmitters_def)
  have tok: "LINK f = link" "token_good agg (t, v)" using link_reach_token [OF assms(1)] by blast+
  have poor: "\<not> (\<forall>i<length (s_transmitters f). owed_at f i \<le> unat (balances (fst (t, v)) agg))"
    using owedPayment_transmitter [OF ok(1,2) assms(2)] assms(4,5) i by (auto simp: balanceOf_def not_le)
  obtain f' w' where r: "r = (f', w')" by (cases r)
  have "setConfig (link_contracts link V) cr x signers ts thr vers enc (f, t, v) \<noteq> Returns (f', w')"
  proof
    assume "setConfig (link_contracts link V) cr x signers ts thr vers enc (f, t, v) = Returns (f', w')"
    then obtain f1 where "remove_oracles (link_contracts link V) (tx_msg x) (f, t, v) = Returns (f1, w')"
      using setConfig_Returns [OF _ ok(1,2)] by metis
    from lo.remove_oracles_spent [OF this ok(1,2) assms(3) tok] poor show False by blast
  qed
  moreover have "setBilling (link_contracts link V) A x maxGas reasonable microLink price fee (f, t, v) \<noteq> Returns (f', w')"
  proof
    assume "setBilling (link_contracts link V) A x maxGas reasonable microLink price fee (f, t, v) = Returns (f', w')"
    then obtain f1 where "payOracles (link_contracts link V) (tx_msg x) (f, t, v) = Returns (f1, w')"
      by (auto simp: setBilling_def sol_simps)
    from lo.payOracles_spent [OF this ok(1,2) assms(3) tok] poor show False by blast
  qed
  ultimately show ?thesis by (simp add: r)
qed

theorem ocr_underfunded_cannot_be_reconfigured_witness:
  "\<nexists>r. setBilling ocr_contracts ocr_access (ocr_tx 1 0) 0 0 0 5 0 (ocr_reported, LinkToken (ocr_msg 1), ()) = Returns r"
proof -
  have "link_start 9 7 (LinkToken (ocr_msg 1), ())" unfolding link_start_def by (auto intro: link_run.run_none)
  note reach = reach_reported [OF this]
  have s: "1 < length (transmitters ocr_reported)" "owedPayment (transmitters ocr_reported ! 1) ocr_reported = Returns 8321540000000"
    "balanceOf 7 (LinkToken (ocr_msg 1)) = 0"
    by (simp_all add: ocr_reported_def ocr_sample_defs transmitters_def owedPayment_def ocr_credit_def gwei_def balanceOf_def LinkToken_def)
  show ?thesis using ocr_underfunded_cannot_be_reconfigured [OF reach s(1) _ s(2), of "ocr_tx 1 0"] by (simp add: s(3))
qed

end
