(* ===== verification/Vrf_Contract.thy ===== *)
theory Vrf_Contract
  imports Sol_Abi
begin

text \<open>
  The contract \<open>contracts/ethereum/v0.6/src/VRF.sol\<close>, which verifies proofs of a verifiable random
  function on the curve \<open>secp256k1\<close>. Each function of the contract is a definition of its name. A
  \<open>uint256[2]\<close> is a pair. Hashing, \<open>ecrecover\<close> and modular exponentiation are the parameter
  \<open>evm_crypto\<close>; the two loops end if the hashes they draw allow it, and run out of gas otherwise.
\<close>

type_synonym vrf_point = "uint256 \<times> uint256"

section \<open>Constants\<close>

definition GROUP_ORDER :: uint256 where
  "GROUP_ORDER = 0xFFFFFFFFFFFFFFFFFFFFFFFFFFFFFFFEBAAEDCE6AF48A03BBFD25E8CD0364141"

definition FIELD_SIZE :: uint256 where
  "FIELD_SIZE = 0xFFFFFFFFFFFFFFFFFFFFFFFFFFFFFFFFFFFFFFFFFFFFFFFFFFFFFFFEFFFFFC2F"

definition SQRT_POWER :: uint256 where
  "SQRT_POWER = drop_bit 2 (FIELD_SIZE + 1)"

definition HASH_TO_CURVE_HASH_PREFIX :: uint256 where
  "HASH_TO_CURVE_HASH_PREFIX = 1"

definition SCALAR_FROM_CURVE_POINTS_HASH_PREFIX :: uint256 where
  "SCALAR_FROM_CURVE_POINTS_HASH_PREFIX = 2"

definition VRF_RANDOM_OUTPUT_HASH_PREFIX :: uint256 where
  "VRF_RANDOM_OUTPUT_HASH_PREFIX = 3"

definition PROOF_LENGTH :: nat where
  "PROOF_LENGTH = 64 + 64 + 32 + 32 + 32 + 0 + 32 + 64 + 64 + 32"

text \<open>The arithmetic of the machine modulo a number that is not zero; the intermediate results do not wrap.\<close>

definition mulmod :: "uint256 \<Rightarrow> uint256 \<Rightarrow> uint256 \<Rightarrow> uint256" where
  "mulmod a b m = word_of_int (uint a * uint b mod uint m)"

definition addmod :: "uint256 \<Rightarrow> uint256 \<Rightarrow> uint256 \<Rightarrow> uint256" where
  "addmod a b m = word_of_int ((uint a + uint b) mod uint m)"

text \<open>\<open>abi.encodePacked\<close> of a point and of an address, which takes 20 bytes.\<close>

definition packed_point :: "vrf_point \<Rightarrow> bytes" where
  "packed_point p = abi_words [fst p, snd p]"

definition packed_address :: "address \<Rightarrow> bytes" where
  "packed_address a = drop 12 (abi_word (ucast a))"

section \<open>The field and the curve\<close>

definition bigModExp :: "evm_crypto \<Rightarrow> uint256 \<Rightarrow> uint256 \<Rightarrow> uint256 sol" where
  "bigModExp cr base exponent =
     (case modexp cr base exponent FIELD_SIZE of
        None \<Rightarrow> Reverts (Require ''bigModExp failure!'')
      | Some output \<Rightarrow> Returns output)"

definition squareRoot :: "evm_crypto \<Rightarrow> uint256 \<Rightarrow> uint256 sol" where
  "squareRoot cr x = bigModExp cr x SQRT_POWER"

definition ySquared :: "uint256 \<Rightarrow> uint256" where
  "ySquared x =
     (let xCubed = mulmod x (mulmod x x FIELD_SIZE) FIELD_SIZE in addmod xCubed 7 FIELD_SIZE)"

definition isOnCurve :: "vrf_point \<Rightarrow> bool" where
  "isOnCurve p \<longleftrightarrow> ySquared (fst p) = mulmod (snd p) (snd p) FIELD_SIZE"

section \<open>Hashing to the curve\<close>

partial_function (option) fieldHash_loop :: "evm_crypto \<Rightarrow> uint256 \<Rightarrow> uint256 sol" where
  "fieldHash_loop cr x =
     (if x \<ge> FIELD_SIZE then fieldHash_loop cr (keccak256 cr (abi_word x)) else Returns x)"

definition fieldHash :: "evm_crypto \<Rightarrow> bytes \<Rightarrow> uint256 sol" where
  "fieldHash cr b = fieldHash_loop cr (keccak256 cr b)"

definition newCandidateSecp256k1Point :: "evm_crypto \<Rightarrow> bytes \<Rightarrow> vrf_point sol" where
  "newCandidateSecp256k1Point cr b =
     bind_sol (fieldHash cr b) (\<lambda>x.
     bind_sol (squareRoot cr (ySquared x)) (\<lambda>y.
     Returns (x, if y mod 2 = 1 then FIELD_SIZE - y else y)))"

partial_function (option) hashToCurve_loop :: "evm_crypto \<Rightarrow> vrf_point \<Rightarrow> vrf_point sol" where
  "hashToCurve_loop cr rv =
     (if \<not> isOnCurve rv
      then bind_sol (newCandidateSecp256k1Point cr (abi_word (fst rv))) (\<lambda>rv. hashToCurve_loop cr rv)
      else Returns rv)"

definition hashToCurve :: "evm_crypto \<Rightarrow> vrf_point \<Rightarrow> uint256 \<Rightarrow> vrf_point sol" where
  "hashToCurve cr pk input =
     bind_sol (newCandidateSecp256k1Point cr (abi_word HASH_TO_CURVE_HASH_PREFIX @ packed_point pk @ abi_word input))
       (hashToCurve_loop cr)"

section \<open>Multiplication and addition of points\<close>

definition ecmulVerify :: "evm_crypto \<Rightarrow> vrf_point \<Rightarrow> uint256 \<Rightarrow> vrf_point \<Rightarrow> bool sol" where
  "ecmulVerify cr multiplicand scalar product =
     require (scalar \<noteq> 0) ''''
     (let x = fst multiplicand;
          v = (if snd multiplicand mod 2 = 0 then 27 else 28);
          scalarTimesX = mulmod scalar x GROUP_ORDER;
          actual = ecrecover cr 0 v x scalarTimesX;
          expected = ucast (keccak256 cr (packed_point product)) in
      Returns (actual = expected))"

definition projectiveSub :: "uint256 \<Rightarrow> uint256 \<Rightarrow> uint256 \<Rightarrow> uint256 \<Rightarrow> uint256 \<times> uint256" where
  "projectiveSub x1 z1 x2 z2 =
     (let num1 = mulmod z2 x1 FIELD_SIZE;
          num2 = mulmod (FIELD_SIZE - x2) z1 FIELD_SIZE in
      (addmod num1 num2 FIELD_SIZE, mulmod z1 z2 FIELD_SIZE))"

definition projectiveMul :: "uint256 \<Rightarrow> uint256 \<Rightarrow> uint256 \<Rightarrow> uint256 \<Rightarrow> uint256 \<times> uint256" where
  "projectiveMul x1 z1 x2 z2 = (mulmod x1 x2 FIELD_SIZE, mulmod z1 z2 FIELD_SIZE)"

definition projectiveECAdd :: "uint256 \<Rightarrow> uint256 \<Rightarrow> uint256 \<Rightarrow> uint256 \<Rightarrow> uint256 \<times> uint256 \<times> uint256" where
  "projectiveECAdd px py qx qy =
     (let (z1, z2) = (1, 1);
          lx = addmod qy (FIELD_SIZE - py) FIELD_SIZE;
          lz = addmod qx (FIELD_SIZE - px) FIELD_SIZE;
          (sx, dx) = projectiveMul lx lz lx lz;
          (sx, dx) = projectiveSub sx dx px z1;
          (sx, dx) = projectiveSub sx dx qx z2;
          (sy, dy) = projectiveSub px z1 sx dx;
          (sy, dy) = projectiveMul sy dy lx lz;
          (sy, dy) = projectiveSub sy dy py z1 in
      if dx \<noteq> dy then (mulmod sx dy FIELD_SIZE, mulmod sy dx FIELD_SIZE, mulmod dx dy FIELD_SIZE)
      else (sx, sy, dx))"

definition affineECAdd :: "vrf_point \<Rightarrow> vrf_point \<Rightarrow> uint256 \<Rightarrow> vrf_point sol" where
  "affineECAdd p1 p2 invZ =
     (let (x, y, z) = projectiveECAdd (fst p1) (snd p1) (fst p2) (snd p2) in
      require (mulmod z invZ FIELD_SIZE = 1) ''invZ must be inverse of z''
      (Returns (mulmod x invZ FIELD_SIZE, mulmod y invZ FIELD_SIZE)))"

definition verifyLinearCombinationWithGenerator ::
  "evm_crypto \<Rightarrow> uint256 \<Rightarrow> vrf_point \<Rightarrow> uint256 \<Rightarrow> address \<Rightarrow> bool sol" where
  "verifyLinearCombinationWithGenerator cr c p s lcWitness =
     require (lcWitness \<noteq> 0) ''bad witness''
     (let v = (if snd p mod 2 = 0 then 27 else 28);
          pseudoHash = GROUP_ORDER - mulmod (fst p) s GROUP_ORDER;
          pseudoSignature = mulmod c (fst p) GROUP_ORDER;
          computed = ecrecover cr pseudoHash v (fst p) pseudoSignature in
      Returns (computed = lcWitness))"

definition linearCombination ::
  "evm_crypto \<Rightarrow> uint256 \<Rightarrow> vrf_point \<Rightarrow> vrf_point \<Rightarrow> uint256 \<Rightarrow> vrf_point \<Rightarrow> vrf_point \<Rightarrow> uint256 \<Rightarrow> vrf_point sol" where
  "linearCombination cr c p1 cp1Witness s p2 sp2Witness zInv =
     require ((fst cp1Witness - fst sp2Witness) mod FIELD_SIZE \<noteq> 0) ''points in sum must be distinct''
     (bind_sol (ecmulVerify cr p1 c cp1Witness) (\<lambda>ok.
      require ok ''First multiplication check failed''
      (bind_sol (ecmulVerify cr p2 s sp2Witness) (\<lambda>ok.
       require ok ''Second multiplication check failed''
       (affineECAdd cp1Witness sp2Witness zInv)))))"

section \<open>Proofs\<close>

definition scalarFromCurvePoints :: "evm_crypto \<Rightarrow> vrf_point \<Rightarrow> vrf_point \<Rightarrow> vrf_point \<Rightarrow> address \<Rightarrow> vrf_point \<Rightarrow> uint256" where
  "scalarFromCurvePoints cr hash pk gamma uWitness v =
     keccak256 cr (abi_word SCALAR_FROM_CURVE_POINTS_HASH_PREFIX @ packed_point hash @ packed_point pk @ packed_point gamma @
       packed_point v @ packed_address uWitness)"

definition verifyVRFProof ::
  "evm_crypto \<Rightarrow> vrf_point \<Rightarrow> vrf_point \<Rightarrow> uint256 \<Rightarrow> uint256 \<Rightarrow> uint256 \<Rightarrow> address \<Rightarrow> vrf_point \<Rightarrow> vrf_point \<Rightarrow> uint256 \<Rightarrow> unit sol" where
  "verifyVRFProof cr pk gamma c s seed uWitness cGammaWitness sHashWitness zInv =
     require (isOnCurve pk) ''public key is not on curve''
     (require (isOnCurve gamma) ''gamma is not on curve''
      (require (isOnCurve cGammaWitness) ''cGammaWitness is not on curve''
       (require (isOnCurve sHashWitness) ''sHashWitness is not on curve''
        (bind_sol (verifyLinearCombinationWithGenerator cr c pk s uWitness) (\<lambda>ok.
         require ok (''addr(c*pk+s*g)'' @ [CHR 0xE2, CHR 0x89, CHR 0xA0] @ ''_uWitness'')
         (bind_sol (hashToCurve cr pk seed) (\<lambda>hash.
          bind_sol (linearCombination cr c gamma cGammaWitness s hash sHashWitness zInv) (\<lambda>v.
          let derivedC = scalarFromCurvePoints cr hash pk gamma uWitness v in
          require (c = derivedC) ''invalid proof'' (Returns ()))))))))) "

text \<open>
  The proof is decoded word by word, an address being the low 160 bits of its word. The hash of the
  output is of the prefix and the point, each word as it is.
\<close>

definition randomValueFromVRFProof :: "evm_crypto \<Rightarrow> bytes \<Rightarrow> uint256 sol" where
  "randomValueFromVRFProof cr bs =
     require (length bs = PROOF_LENGTH) ''wrong proof length''
     (let pk = (abi_load bs 0, abi_load bs 32);
          gamma = (abi_load bs 64, abi_load bs 96);
          c = abi_load bs 128; s = abi_load bs 160; seed = abi_load bs 192;
          uWitness = ucast (abi_load bs 224);
          cGammaWitness = (abi_load bs 256, abi_load bs 288);
          sHashWitness = (abi_load bs 320, abi_load bs 352);
          zInv = abi_load bs 384 in
      bind_sol (verifyVRFProof cr pk gamma c s seed uWitness cGammaWitness sHashWitness zInv) (\<lambda>_.
      Returns (keccak256 cr (abi_word VRF_RANDOM_OUTPUT_HASH_PREFIX @ packed_point gamma))))"

end
