(* ===== verification/Vrf_Curve.thy ===== *)
theory Vrf_Curve
  imports Vrf_Contract "HOL-Library.Numeral_Type"
begin

text \<open>
  The arithmetic of the contract is that of the integers modulo \<open>FIELD_SIZE\<close>: a type with as many
  elements is a ring, and \<open>fp\<close> reads a word as an element of it. With this, the addition of points is
  the law of the secant, and stays on the curve.
\<close>

section \<open>The field\<close>

type_synonym fp = "115792089237316195423570985008687907853269984665640564039457584007908834671663"

definition fp :: "uint256 \<Rightarrow> fp" where
  "fp x = of_int (uint x)"

lemma uint_FIELD_SIZE: "uint FIELD_SIZE = 115792089237316195423570985008687907853269984665640564039457584007908834671663"
  by (simp add: FIELD_SIZE_def)

lemma card_fp: "int CARD(fp) = uint FIELD_SIZE"
  by (simp add: uint_FIELD_SIZE)

lemma of_int_fp: "(of_int a :: fp) = of_int b \<longleftrightarrow> a mod uint FIELD_SIZE = b mod uint FIELD_SIZE"
proof -
  have "0 \<le> z mod int CARD(fp) \<and> z mod int CARD(fp) < int CARD(fp)" for z by (simp add: pos_mod_bound)
  then show ?thesis
    unfolding bit1.of_int_eq by (subst Abs_bit1_inject) (simp_all add: uint_FIELD_SIZE)
qed

lemma of_int_mod_fp: "of_int (z mod uint FIELD_SIZE) = (of_int z :: fp)" "of_int (uint FIELD_SIZE) = (0 :: fp)"
  using of_int_fp [of "z mod uint FIELD_SIZE" z] of_int_fp [of "uint FIELD_SIZE" 0] by simp_all

lemma uint_mulmod: "uint (mulmod a b FIELD_SIZE) = uint a * uint b mod uint FIELD_SIZE"
  and uint_addmod: "uint (addmod a b FIELD_SIZE) = (uint a + uint b) mod uint FIELD_SIZE"
proof -
  have small: "uint (word_of_int (z mod uint FIELD_SIZE) :: uint256) = z mod uint FIELD_SIZE" for z
  proof -
    have "z mod uint FIELD_SIZE < uint FIELD_SIZE" "0 \<le> z mod uint FIELD_SIZE" by (simp_all add: uint_FIELD_SIZE)
    then show ?thesis by (simp add: uint_word_of_int_eq take_bit_int_eq_self_iff uint_FIELD_SIZE)
  qed
  show "uint (mulmod a b FIELD_SIZE) = uint a * uint b mod uint FIELD_SIZE" by (simp add: mulmod_def small)
  show "uint (addmod a b FIELD_SIZE) = (uint a + uint b) mod uint FIELD_SIZE" by (simp add: addmod_def small)
qed

lemma mulmod_less [simp]: "mulmod a b FIELD_SIZE < FIELD_SIZE"
  and addmod_less [simp]: "addmod a b FIELD_SIZE < FIELD_SIZE"
  by (simp_all add: word_less_def uint_mulmod uint_addmod) (simp_all add: uint_FIELD_SIZE)

lemma fp_mulmod [simp]: "fp (mulmod a b FIELD_SIZE) = fp a * fp b"
  and fp_addmod [simp]: "fp (addmod a b FIELD_SIZE) = fp a + fp b"
  unfolding fp_def uint_mulmod uint_addmod of_int_mod_fp of_int_mult of_int_add by (rule refl)+

lemma fp_minus: "x \<le> FIELD_SIZE \<Longrightarrow> fp (FIELD_SIZE - x) = - fp x"
proof -
  assume "x \<le> FIELD_SIZE"
  then have "uint (FIELD_SIZE - x) = uint FIELD_SIZE - uint x" by (simp add: uint_minus_simple_alt)
  then show ?thesis unfolding fp_def by (simp only: of_int_diff of_int_mod_fp) simp
qed

lemma fp_eq: "a < FIELD_SIZE \<Longrightarrow> b < FIELD_SIZE \<Longrightarrow> fp a = fp b \<longleftrightarrow> a = b"
  unfolding fp_def of_int_fp by (simp add: word_less_def word_uint_eq_iff)

lemma fp_simps [simp]: "fp 0 = 0" "fp 1 = 1" "fp 7 = 7"
  by (simp_all add: fp_def)

lemma isOnCurve_fp: "isOnCurve p \<longleftrightarrow> fp (snd p) * fp (snd p) = fp (fst p) * (fp (fst p) * fp (fst p)) + 7"
proof -
  have "isOnCurve p \<longleftrightarrow> fp (ySquared (fst p)) = fp (mulmod (snd p) (snd p) FIELD_SIZE)"
    unfolding isOnCurve_def by (rule fp_eq [symmetric]) (simp_all add: ySquared_def Let_def)
  then show ?thesis by (auto simp: ySquared_def Let_def)
qed

section \<open>The sum of two points\<close>

text \<open>The third point of the curve on a secant, mirrored.\<close>

lemma secant_meets_curve:
  fixes x1 y1 x2 y2 l u :: "'a::comm_ring_1"
  assumes "u * (x2 - x1) = 1" "l * (x2 - x1) = y2 - y1" "y1 * y1 = x1 * (x1 * x1) + b" "y2 * y2 = x2 * (x2 * x2) + b"
    "x3 = l * l - x1 - x2" "y3 = l * (x1 - x3) - y1"
  shows "y3 * y3 = x3 * (x3 * x3) + b"
proof -
  define h where "h = x1 * x1 + x1 * x2 + x2 * x2 - l * l * (x2 - x1) - 2 * l * y1"
  have "(x2 - x1) * h = x2 * (x2 * x2) - x1 * (x1 * x1) - (l * (x2 - x1)) * (l * (x2 - x1)) - 2 * y1 * (l * (x2 - x1))"
    by (simp add: h_def algebra_simps)
  also have "\<dots> = (x2 * (x2 * x2) + b) - (x1 * (x1 * x1) + b) - (y2 - y1) * (y2 - y1) - 2 * y1 * (y2 - y1)"
    by (simp add: assms(2))
  also have "\<dots> = y2 * y2 - y1 * y1 - (y2 - y1) * (y2 - y1) - 2 * y1 * (y2 - y1)" by (simp only: assms(3,4))
  also have "\<dots> = 0" by (simp add: algebra_simps)
  finally have "u * (x2 - x1) * h = 0" by (simp add: mult.assoc)
  then have h: "h = 0" by (simp add: assms(1))
  have "x3 * (x3 * x3) + b - y3 * y3 = (x1 * (x1 * x1) + b - y1 * y1) + (x3 - x1) * h + (x3 - x1) * (x3 - x2) * (x3 + x1 + x2 - l * l)"
    by (simp add: assms(6) h_def algebra_simps)
  then show ?thesis by (simp add: h assms(3,5))
qed

lemma projectiveSub_fp:
  assumes "projectiveSub x1 z1 x2 z2 = (x3, z3)" "x2 \<le> FIELD_SIZE"
  shows "fp x3 = fp z2 * fp x1 - fp x2 * fp z1" "fp z3 = fp z1 * fp z2" "x3 < FIELD_SIZE" "z3 < FIELD_SIZE"
  using assms(1) fp_minus [OF assms(2)] by (auto simp: projectiveSub_def Let_def)

lemma projectiveMul_fp:
  assumes "projectiveMul x1 z1 x2 z2 = (x3, z3)"
  shows "fp x3 = fp x1 * fp x2" "fp z3 = fp z1 * fp z2" "x3 < FIELD_SIZE" "z3 < FIELD_SIZE"
  using assms by (auto simp: projectiveMul_def)

lemma projectiveECAdd_fp:
  assumes "projectiveECAdd px py qx qy = (sx, sy, sz)" "px < FIELD_SIZE" "py < FIELD_SIZE" "qx < FIELD_SIZE"
  defines "lx \<equiv> fp qy - fp py" and "lz \<equiv> fp qx - fp px"
  defines "nx \<equiv> lx * lx - (fp px + fp qx) * (lz * lz)"
  defines "ny \<equiv> lx * (lz * lz * fp px - nx) - fp py * (lz * lz * lz)"
  shows "fp sx = nx * (lz * lz * lz) \<and> fp sy = ny * (lz * lz) \<and> fp sz = lz * lz * (lz * lz * lz) \<or>
    lz * lz = lz * lz * lz \<and> fp sx = nx \<and> fp sy = ny \<and> fp sz = lz * lz"
proof -
  define lx' lz' where "lx' = addmod qy (FIELD_SIZE - py) FIELD_SIZE" and "lz' = addmod qx (FIELD_SIZE - px) FIELD_SIZE"
  obtain s1 d1 s2 d2 s3 d3 s4 d4 s5 d5 s6 d6 where
    1: "projectiveMul lx' lz' lx' lz' = (s1, d1)" and 2: "projectiveSub s1 d1 px 1 = (s2, d2)" and 3: "projectiveSub s2 d2 qx 1 = (s3, d3)"
    and 4: "projectiveSub px 1 s3 d3 = (s4, d4)" and 5: "projectiveMul s4 d4 lx' lz' = (s5, d5)" and 6: "projectiveSub s5 d5 py 1 = (s6, d6)"
    by (meson surj_pair)
  have run: "(sx, sy, sz) = (if d3 \<noteq> d6 then (mulmod s3 d6 FIELD_SIZE, mulmod s6 d3 FIELD_SIZE, mulmod d3 d6 FIELD_SIZE) else (s3, s6, d3))"
    using assms(1) 1 2 3 4 5 6 by (simp add: projectiveECAdd_def lx'_def lz'_def)
  have l: "fp lx' = lx" "fp lz' = lz"
    using fp_minus assms(2,3) by (simp_all add: lx'_def lz'_def lx_def lz_def)
  have le: "px \<le> FIELD_SIZE" "py \<le> FIELD_SIZE" "qx \<le> FIELD_SIZE" using assms(2-4) by simp_all
  note r1 = projectiveMul_fp [OF 1] and r2 = projectiveSub_fp [OF 2 le(1)] and r3 = projectiveSub_fp [OF 3 le(3)]
  have s3: "fp s3 = nx" "fp d3 = lz * lz"
    unfolding r3(1,2) r2(1,2) r1(1,2) l by (simp_all add: nx_def algebra_simps)
  note r4 = projectiveSub_fp [OF 4 less_imp_le [OF r3(3)]] and r5 = projectiveMul_fp [OF 5] and r6 = projectiveSub_fp [OF 6 le(2)]
  have s6: "fp s6 = ny" "fp d6 = lz * lz * lz"
    unfolding r6(1,2) r5(1,2) r4(1,2) s3 l by (simp_all add: ny_def algebra_simps)
  show ?thesis
  proof (cases "d3 = d6")
    case True
    then have "lz * lz = lz * lz * lz" using s3(2) s6(2) by simp
    with True run s3 s6 show ?thesis by simp
  next
    case False
    then show ?thesis using run s3 s6 by simp
  qed
qed

text \<open>The law of the secant, with the gradient \<open>l\<close>.\<close>

definition secant_sum :: "vrf_point \<Rightarrow> vrf_point \<Rightarrow> vrf_point \<Rightarrow> fp \<Rightarrow> bool" where
  "secant_sum p q r l \<longleftrightarrow>
     l * (fp (fst q) - fp (fst p)) = fp (snd q) - fp (snd p) \<and>
     fp (fst r) = l * l - fp (fst p) - fp (fst q) \<and> fp (snd r) = l * (fp (fst p) - fp (fst r)) - fp (snd p)"

definition reduced :: "vrf_point \<Rightarrow> bool" where
  "reduced p \<longleftrightarrow> fst p < FIELD_SIZE \<and> snd p < FIELD_SIZE"

lemma affineECAdd_secant:
  assumes "affineECAdd p q invZ = Returns r" "reduced p" "reduced q"
  shows "reduced r" "\<exists>u l. u * (fp (fst q) - fp (fst p)) = 1 \<and> secant_sum p q r l"
proof -
  obtain sx sy sz where add: "projectiveECAdd (fst p) (snd p) (fst q) (snd q) = (sx, sy, sz)"
    by (cases "projectiveECAdd (fst p) (snd p) (fst q) (snd q)")
  have inv: "mulmod sz invZ FIELD_SIZE = 1" and r: "r = (mulmod sx invZ FIELD_SIZE, mulmod sy invZ FIELD_SIZE)"
    using assms(1) by (simp_all add: affineECAdd_def add require_Returns)
  show "reduced r" by (simp add: r reduced_def)
  define i where "i = fp invZ"
  have i: "fp sz * i = 1" using arg_cong [OF inv, of fp] by (simp add: i_def)
  define lx lz where "lx = fp (snd q) - fp (snd p)" and "lz = fp (fst q) - fp (fst p)"
  define nx where "nx = lx * lx - (fp (fst p) + fp (fst q)) * (lz * lz)"
  define ny where "ny = lx * (lz * lz * fp (fst p) - nx) - fp (snd p) * (lz * lz * lz)"
  have "fp sx = nx * (lz * lz * lz) \<and> fp sy = ny * (lz * lz) \<and> fp sz = lz * lz * (lz * lz * lz) \<or>
      lz * lz = lz * lz * lz \<and> fp sx = nx \<and> fp sy = ny \<and> fp sz = lz * lz"
    unfolding ny_def nx_def lx_def lz_def using assms(2,3) by (intro projectiveECAdd_fp [OF add]) (simp_all add: reduced_def)
  then obtain u where u: "u * lz = 1" "fp sx * i = nx * (u * u)" "fp sy * i = ny * (u * u * u)"
  proof
    assume s: "fp sx = nx * (lz * lz * lz) \<and> fp sy = ny * (lz * lz) \<and> fp sz = lz * lz * (lz * lz * lz)"
    define u where "u = lz * (lz * lz * lz) * i"
    have u: "u * lz = 1" using i s by (simp add: u_def mult_ac)
    have "u * u * (lz * lz * (lz * lz * lz) * i) = u * lz * (u * lz) * (lz * lz * lz * i)"
      "u * u * u * (lz * lz * (lz * lz * lz) * i) = u * lz * (u * lz) * (u * lz) * (lz * lz * i)" by (simp_all only: mult_ac)
    then have "u * u = lz * lz * lz * i" "u * u * u = lz * lz * i" using u i s by simp_all
    then show thesis using that [OF u] s by (simp add: mult_ac)
  next
    assume s: "lz * lz = lz * lz * lz \<and> fp sx = nx \<and> fp sy = ny \<and> fp sz = lz * lz"
    then have "lz * lz * i = lz * (lz * lz * i)" by (simp add: mult_ac)
    then have "lz = 1" "i = 1" using i s by simp_all
    then show thesis using that [of 1] s by simp
  qed
  have "secant_sum p q r (lx * u)"
    unfolding secant_sum_def
  proof (intro conjI)
    have ul: "lz * u = 1" using u(1) by (simp add: mult.commute)
    show "lx * u * (fp (fst q) - fp (fst p)) = fp (snd q) - fp (snd p)"
      using u(1) unfolding lx_def [symmetric] lz_def [symmetric] by (simp add: mult.assoc)
    have "nx * (u * u) = lx * u * (lx * u) - (fp (fst p) + fp (fst q)) * (lz * u * (lz * u))" by (simp add: nx_def algebra_simps)
    then show x: "fp (fst r) = lx * u * (lx * u) - fp (fst p) - fp (fst q)" using u(2) ul by (simp add: r i_def)
    have "ny * (u * u * u) = lx * u * (lz * u * (lz * u) * fp (fst p) - nx * (u * u)) - fp (snd p) * (lz * u * (lz * u) * (lz * u))"
      by (simp add: ny_def algebra_simps)
    then show "fp (snd r) = lx * u * (fp (fst p) - fp (fst r)) - fp (snd p)" using u(2,3) ul by (simp add: r i_def)
  qed
  then show "\<exists>u l. u * (fp (fst q) - fp (fst p)) = 1 \<and> secant_sum p q r l" using u(1) unfolding lz_def by blast
qed

lemma fp_surj: "\<exists>x. fp x = e"
proof (cases e)
  case (of_int z)
  then have "0 \<le> z" "z < 2 ^ 256" by simp_all
  then have "uint (word_of_int z :: uint256) = z" by (simp add: uint_word_of_int_eq take_bit_int_eq_self_iff)
  then have "fp (word_of_int z) = e" unfolding fp_def of_int(1) by (rule arg_cong)
  then show ?thesis ..
qed

lemma affineECAdd_succeeds:
  assumes "reduced p" "reduced q" "u * (fp (fst q) - fp (fst p)) = 1"
  shows "\<exists>invZ r. affineECAdd p q invZ = Returns r"
proof -
  obtain sx sy sz where add: "projectiveECAdd (fst p) (snd p) (fst q) (snd q) = (sx, sy, sz)"
    by (cases "projectiveECAdd (fst p) (snd p) (fst q) (snd q)")
  define lz where "lz = fp (fst q) - fp (fst p)"
  have "fp sz = lz * lz * (lz * lz * lz) \<or> fp sz = lz * lz"
    using projectiveECAdd_fp [OF add] assms(1,2) unfolding lz_def reduced_def by blast
  moreover have "u * lz = 1" using assms(3) by (simp add: lz_def)
  then have "lz * lz * (u * u) = 1" "lz * lz * (lz * lz * lz) * (u * u * (u * u * u)) = 1"
    by (metis (no_types) mult.commute mult.left_commute mult_1)+
  ultimately obtain v where v: "fp sz * v = 1" by metis
  obtain invZ where "fp invZ = v" using fp_surj by blast
  then have "fp (mulmod sz invZ FIELD_SIZE) = fp 1" using v by simp
  moreover have "(1 :: uint256) < FIELD_SIZE" by (simp add: FIELD_SIZE_def)
  ultimately have "mulmod sz invZ FIELD_SIZE = 1" by (simp only: fp_eq mulmod_less)
  then show ?thesis by (intro exI [of _ invZ]) (simp add: affineECAdd_def add)
qed

end
