(* ===== verification/Vrf_Properties.thy ===== *)
theory Vrf_Properties
  imports Vrf_Curve
begin

text \<open>
  The properties of the verifier of random values: the sum of two points is the one of the group
  law, hashing to the curve gives points of the curve, a value is returned for proofs only whose
  equations hold, and it is returned for them if the coordinates of the witnesses are less than the size
  of the field, with one exception.
\<close>

section \<open>Hashing to the curve\<close>

text \<open>What is documented of the precompiled contract: its result is less than the modulus.\<close>

definition modexp_reduces :: "evm_crypto \<Rightarrow> bool" where
  "modexp_reduces cr \<longleftrightarrow> (\<forall>b e r. modexp cr b e FIELD_SIZE = Some r \<longrightarrow> r < FIELD_SIZE)"

text \<open>The hashes that \<open>fieldHash\<close> draws.\<close>

fun hash_chain :: "evm_crypto \<Rightarrow> uint256 \<Rightarrow> nat \<Rightarrow> uint256" where
  "hash_chain cr x 0 = x"
| "hash_chain cr x (Suc n) = hash_chain cr (keccak256 cr (abi_word x)) n"

lemma fieldHash_loop_first:
  "FIELD_SIZE > hash_chain cr x n \<Longrightarrow> \<forall>m<n. FIELD_SIZE \<le> hash_chain cr x m \<Longrightarrow> fieldHash_loop cr x = Returns (hash_chain cr x n)"
proof (induction n arbitrary: x)
  case 0
  then have "\<not> FIELD_SIZE \<le> x" by simp
  then show ?case by (subst fieldHash_loop.simps) simp
next
  case (Suc n)
  then have "FIELD_SIZE \<le> x" by (metis hash_chain.simps(1) zero_less_Suc)
  moreover have "fieldHash_loop cr (keccak256 cr (abi_word x)) = Returns (hash_chain cr (keccak256 cr (abi_word x)) n)"
    using Suc.prems by (intro Suc.IH) (auto dest: spec [of _ "Suc _"])
  ultimately show ?case by (subst fieldHash_loop.simps) simp
qed

text \<open>\<open>x\<close> is the first of the hashes that is small enough.\<close>

definition first_fit :: "evm_crypto \<Rightarrow> uint256 \<Rightarrow> nat \<Rightarrow> bool" where
  "first_fit cr x n \<longleftrightarrow> hash_chain cr x n < FIELD_SIZE \<and> (\<forall>m<n. FIELD_SIZE \<le> hash_chain cr x m)"

lemma fieldHash_loop_outcome:
  assumes "fieldHash_loop cr x = Some r"
  shows "\<exists>n. r = Inr (hash_chain cr x n) \<and> first_fit cr x n"
proof (rule fieldHash_loop.raw_induct [where P = "\<lambda>cr x r. \<exists>n. r = Inr (hash_chain cr x n) \<and> first_fit cr x n"
      and xa = "(cr, x)", unfolded prod.case, OF _ assms])
  fix loop :: "evm_crypto \<Rightarrow> uint256 \<Rightarrow> uint256 sol" and cr x r
  assume IH: "\<And>cr x r. loop cr x = Some r \<Longrightarrow> \<exists>n. r = Inr (hash_chain cr x n) \<and> first_fit cr x n"
    and run: "(if FIELD_SIZE \<le> x then loop cr (keccak256 cr (abi_word x)) else Returns x) = Some r"
  show "\<exists>n. r = Inr (hash_chain cr x n) \<and> first_fit cr x n"
  proof (cases "FIELD_SIZE \<le> x")
    case True
    then have "loop cr (keccak256 cr (abi_word x)) = Some r" using run by simp
    from IH [OF this] obtain n where n: "r = Inr (hash_chain cr x (Suc n))" "hash_chain cr x (Suc n) < FIELD_SIZE"
      "\<forall>m<n. FIELD_SIZE \<le> hash_chain cr x (Suc m)"
      by (auto simp: first_fit_def)
    have "FIELD_SIZE \<le> hash_chain cr x m" if "m < Suc n" for m using n(3) True that by (cases m) simp_all
    with n(1,2) show ?thesis unfolding first_fit_def by blast
  next
    case False
    with run show ?thesis by (intro exI [of _ 0]) (simp add: first_fit_def not_le)
  qed
qed

text \<open>
  Hashing into the field ends as soon as it can. \<open>fieldHash\<close> returns exactly if one of the hashes that it
  draws is less than the size of the field, and then it returns the first one that is; otherwise it
  runs out of gas, and it never reverts.
\<close>

theorem vrf_field_hash_draws_until_it_fits:
  "(fieldHash cr b = Returns x \<longleftrightarrow>
      (\<exists>n. x = hash_chain cr (keccak256 cr b) n \<and> x < FIELD_SIZE \<and> (\<forall>m<n. FIELD_SIZE \<le> hash_chain cr (keccak256 cr b) m))) \<and>
   (fieldHash cr b = OutOfGas \<longleftrightarrow> (\<forall>n. FIELD_SIZE \<le> hash_chain cr (keccak256 cr b) n)) \<and> fieldHash cr b \<noteq> Reverts e"
proof -
  let ?h = "hash_chain cr (keccak256 cr b)"
  have out: "\<exists>n. r = Inr (?h n) \<and> ?h n < FIELD_SIZE \<and> (\<forall>m<n. FIELD_SIZE \<le> ?h m)" if "fieldHash cr b = Some r" for r
    using fieldHash_loop_outcome that unfolding fieldHash_def first_fit_def by blast
  have first: "fieldHash cr b = Returns (?h n)" if "?h n < FIELD_SIZE" "\<forall>m<n. FIELD_SIZE \<le> ?h m" for n
    using fieldHash_loop_first that by (simp add: fieldHash_def)
  have "fieldHash cr b = OutOfGas \<longleftrightarrow> (\<forall>n. FIELD_SIZE \<le> ?h n)"
  proof
    assume none: "fieldHash cr b = OutOfGas"
    show "\<forall>n. FIELD_SIZE \<le> ?h n"
    proof
      fix n show "FIELD_SIZE \<le> ?h n" using first none by (induction n rule: less_induct) (metis not_le option.distinct(1))
    qed
  next
    assume big: "\<forall>n. FIELD_SIZE \<le> ?h n"
    show "fieldHash cr b = OutOfGas" using out big by (cases "fieldHash cr b") (auto simp: not_less [symmetric])
  qed
  moreover have "fieldHash cr b \<noteq> Reverts e" using out by blast
  moreover have "fieldHash cr b = Returns x \<longleftrightarrow> (\<exists>n. x = ?h n \<and> x < FIELD_SIZE \<and> (\<forall>m<n. FIELD_SIZE \<le> ?h m))"
    using out first by blast
  ultimately show ?thesis by blast
qed

lemma candidate_even:
  assumes "newCandidateSecp256k1Point cr b = Returns p" "modexp_reduces cr"
  shows "fst p < FIELD_SIZE \<and> snd p < FIELD_SIZE \<and> even (unat (snd p))"
proof -
  obtain x y where xy: "fieldHash cr b = Returns x" "squareRoot cr (ySquared x) = Returns y" "p = (x, if y mod 2 = 1 then FIELD_SIZE - y else y)"
    using assms(1) by (auto simp: newCandidateSecp256k1Point_def bind_sol_Returns)
  have "x < FIELD_SIZE" using xy(1) fieldHash_loop_outcome [of cr "keccak256 cr b" "Inr x"] by (auto simp: fieldHash_def first_fit_def)
  moreover have y: "unat y < unat FIELD_SIZE"
    using xy(2) assms(2) by (auto simp: squareRoot_def bigModExp_def modexp_reduces_def word_less_nat_alt split: option.splits)
  moreover have odd: "y mod 2 = 1 \<longleftrightarrow> odd (unat y)" by (simp add: word_unat_eq_iff unat_mod odd_iff_mod_2_eq_one)
  moreover have "odd (unat FIELD_SIZE)" by (simp add: FIELD_SIZE_def)
  ultimately show ?thesis
    using unat_sub [of y FIELD_SIZE] odd_pos [of "unat y"] by (auto simp: xy(3) word_less_nat_alt word_le_nat_alt)
qed

lemma hashToCurve_loop_outcome:
  assumes "hashToCurve_loop cr rv = Some r"
  shows "\<forall>p. r = Inr p \<longrightarrow> isOnCurve p \<and> (p = rv \<or> (\<exists>b. newCandidateSecp256k1Point cr b = Returns p))"
proof (rule hashToCurve_loop.raw_induct [where P = "\<lambda>cr rv r. \<forall>p. r = Inr p \<longrightarrow>
      isOnCurve p \<and> (p = rv \<or> (\<exists>b. newCandidateSecp256k1Point cr b = Returns p))", OF _ assms])
  fix loop :: "evm_crypto \<Rightarrow> vrf_point \<Rightarrow> vrf_point sol" and cr rv r
  assume IH: "\<And>cr rv r. loop cr rv = Some r \<Longrightarrow>
      \<forall>p. r = Inr p \<longrightarrow> isOnCurve p \<and> (p = rv \<or> (\<exists>b. newCandidateSecp256k1Point cr b = Returns p))"
    and run: "(if \<not> isOnCurve rv then bind_sol (newCandidateSecp256k1Point cr (abi_word (fst rv))) (\<lambda>rv. loop cr rv) else Returns rv) = Some r"
  show "\<forall>p. r = Inr p \<longrightarrow> isOnCurve p \<and> (p = rv \<or> (\<exists>b. newCandidateSecp256k1Point cr b = Returns p))"
  proof (intro allI impI)
    fix p assume r: "r = Inr p"
    show "isOnCurve p \<and> (p = rv \<or> (\<exists>b. newCandidateSecp256k1Point cr b = Returns p))"
    proof (cases "isOnCurve rv")
      case True
      with run r show ?thesis by simp
    next
      case False
      then obtain q where q: "newCandidateSecp256k1Point cr (abi_word (fst rv)) = Returns q" "loop cr q = Returns p"
        using run r by (auto simp: bind_sol_Returns)
      with IH [OF q(2)] show ?thesis by blast
    qed
  qed
qed

lemma hashToCurve_outcome:
  assumes "hashToCurve cr pk input = Returns p"
  shows "isOnCurve p \<and> (\<exists>b. newCandidateSecp256k1Point cr b = Returns p)"
  using assms hashToCurve_loop_outcome unfolding hashToCurve_def bind_sol_Returns by blast

text \<open>
  Hashing to the curve gives a point of the curve: if \<open>hashToCurve\<close> returns, the coordinates of the result are
  less than the size of the field, they satisfy the equation of the curve in the integers modulo this size,
  and the second one is even.
\<close>

theorem vrf_hash_is_on_the_curve:
  assumes "modexp_reduces cr" "hashToCurve cr pk input = Returns p"
  shows "fp (snd p) ^ 2 = fp (fst p) ^ 3 + 7 \<and> fst p < FIELD_SIZE \<and> snd p < FIELD_SIZE \<and> even (unat (snd p))"
proof -
  obtain b where b: "isOnCurve p" "newCandidateSecp256k1Point cr b = Returns p" using hashToCurve_outcome [OF assms(2)] by blast
  from b(1) have "fp (snd p) ^ 2 = fp (fst p) ^ 3 + 7" by (simp add: isOnCurve_fp power2_eq_square power3_eq_cube mult.assoc)
  with candidate_even [OF b(2) assms(1)] show ?thesis by blast
qed

text \<open>
  To compute with there are two points of the curve whose second coordinates are even, and functions of
  cryptography that know only of the first one: every hash is its first coordinate, every root its
  second one, and every recovered address is the hash.
\<close>

definition vrf_A :: vrf_point where
  "vrf_A = (1, 29896722852569046015560700294576055776214335159245303116488692907525646231534)"

definition vrf_B :: vrf_point where
  "vrf_B = (2, 46580984542418694471253469931035885126779956971428003686700937153791839982430)"

definition vrf_crypto :: evm_crypto where
  "vrf_crypto = \<lparr>keccak256 = (\<lambda>bs. 1), ecrecover = (\<lambda>h v r s. 1), modexp = (\<lambda>b e m. Some (snd vrf_A))\<rparr>"

lemma isOnCurve_certificate:
  assumes "uint (snd p) * uint (snd p) = uint (fst p) * (uint (fst p) * uint (fst p)) + 7 + uint FIELD_SIZE * k"
  shows "isOnCurve p"
proof -
  have "fp (snd p) * fp (snd p) = (of_int (uint (snd p) * uint (snd p)) :: fp)" by (simp add: fp_def)
  also have "\<dots> = of_int (uint (fst p) * (uint (fst p) * uint (fst p)) + 7) + of_int (uint FIELD_SIZE) * of_int k"
    unfolding assms by (simp only: of_int_add of_int_mult)
  also have "\<dots> = fp (fst p) * (fp (fst p) * fp (fst p)) + 7" unfolding of_int_mod_fp fp_def by simp
  finally show ?thesis unfolding isOnCurve_fp .
qed

lemma vrf_points: "isOnCurve vrf_A" "isOnCurve vrf_B" "reduced vrf_A" "reduced vrf_B"
proof -
  show "isOnCurve vrf_A"
    by (rule isOnCurve_certificate [where k = 7719128683233705066404389367829327015248518908378223810281666465860726814596])
      (simp add: vrf_A_def uint_FIELD_SIZE)
  show "isOnCurve vrf_B"
    by (rule isOnCurve_certificate [where k = 18738655941288552241361145386487537700971289564932559496100272911947286346395])
      (simp add: vrf_B_def uint_FIELD_SIZE)
  show "reduced vrf_A" "reduced vrf_B" by (simp_all add: reduced_def vrf_A_def vrf_B_def FIELD_SIZE_def)
qed

lemma vrf_hash: "hashToCurve vrf_crypto pk input = Returns vrf_A"
proof -
  have "fieldHash vrf_crypto b = Returns (fst vrf_A)" for b
    unfolding fieldHash_def by (subst fieldHash_loop.simps) (simp add: vrf_crypto_def vrf_A_def FIELD_SIZE_def word_le_nat_alt)
  then have "newCandidateSecp256k1Point vrf_crypto b = Returns vrf_A" for b
    by (simp add: newCandidateSecp256k1Point_def squareRoot_def bigModExp_def vrf_crypto_def vrf_A_def)
  moreover have "hashToCurve_loop vrf_crypto vrf_A = Returns vrf_A" by (subst hashToCurve_loop.simps) (simp add: vrf_points(1))
  ultimately show ?thesis by (simp add: hashToCurve_def)
qed

theorem vrf_hash_is_on_the_curve_witness:
  "hashToCurve vrf_crypto vrf_B 5 = Returns vrf_A \<and> fp (snd vrf_A) ^ 2 = fp (fst vrf_A) ^ 3 + 7"
proof -
  have "modexp_reduces vrf_crypto" by (simp add: modexp_reduces_def vrf_crypto_def vrf_A_def FIELD_SIZE_def)
  from vrf_hash_is_on_the_curve [OF this vrf_hash] vrf_hash show ?thesis by blast
qed

section \<open>The sum of points\<close>

text \<open>
  C26. The sum of two points is that of the group. For points with coordinates in the field, \<open>affineECAdd\<close> succeeds
  for some inverse exactly if the difference of the first coordinates has one; whatever inverse it is given, if it
  succeeds, the result is the same, is the third intersection of the secant with the curve, mirrored, by the
  only gradient there is, and is on the curve if the two points are.
\<close>

theorem vrf_sum_follows_the_group_law:
  assumes "reduced p" "reduced q"
  shows "((\<exists>invZ r. affineECAdd p q invZ = Returns r) \<longleftrightarrow> (\<exists>u. u * (fp (fst q) - fp (fst p)) = 1)) \<and>
    (affineECAdd p q invZ = Returns r \<longrightarrow> reduced r \<and> (\<exists>!l. secant_sum p q r l) \<and> (isOnCurve p \<and> isOnCurve q \<longrightarrow> isOnCurve r)) \<and>
    (affineECAdd p q invZ = Returns r \<and> affineECAdd p q invZ' = Returns r' \<longrightarrow> r' = r)"
proof -
  have gradient: "l = l'" if "u * (fp (fst q) - fp (fst p)) = 1" "secant_sum p q r l" "secant_sum p q r' l'" for u l l' r r'
  proof -
    have "l * (fp (fst q) - fp (fst p)) = l' * (fp (fst q) - fp (fst p))" using that(2,3) by (simp add: secant_sum_def)
    then have "l * (u * (fp (fst q) - fp (fst p))) = l' * (u * (fp (fst q) - fp (fst p)))" unfolding mult.left_commute [of _ u] by simp
    then show ?thesis unfolding that(1) by simp
  qed
  have curve: "isOnCurve r" if "isOnCurve p" "isOnCurve q" "u * (fp (fst q) - fp (fst p)) = 1" "secant_sum p q r l" for u l
    using that secant_meets_curve [of u "fp (fst q)" "fp (fst p)" l "fp (snd q)" "fp (snd p)" 7 "fp (fst r)" "fp (snd r)"]
    unfolding isOnCurve_fp secant_sum_def by blast
  have law: "reduced r \<and> (\<exists>!l. secant_sum p q r l) \<and> (isOnCurve p \<and> isOnCurve q \<longrightarrow> isOnCurve r)" if "affineECAdd p q invZ = Returns r"
    using affineECAdd_secant [OF that assms] gradient curve by blast
  have same: "r' = r" if r: "affineECAdd p q invZ = Returns r" "affineECAdd p q invZ' = Returns r'"
  proof -
    obtain u l l' where l: "u * (fp (fst q) - fp (fst p)) = 1" "secant_sum p q r l" "secant_sum p q r' l'"
      using affineECAdd_secant(2) [OF _ assms] r by meson
    have "fp (fst r') = fp (fst r) \<and> fp (snd r') = fp (snd r)" using l(2,3) gradient [OF l] by (simp add: secant_sum_def)
    moreover have "reduced r" "reduced r'" using affineECAdd_secant(1) [OF _ assms] r by blast+
    ultimately show ?thesis by (simp add: reduced_def fp_eq prod_eq_iff)
  qed
  have "(\<exists>invZ r. affineECAdd p q invZ = Returns r) \<longleftrightarrow> (\<exists>u. u * (fp (fst q) - fp (fst p)) = 1)"
    using affineECAdd_succeeds [OF assms] affineECAdd_secant(2) [OF _ assms] by blast
  with law same show ?thesis by blast
qed

lemma vrf_difference: "1 * (fp (fst vrf_B) - fp (fst vrf_A)) = 1"
  by (simp add: vrf_A_def vrf_B_def fp_def)

theorem vrf_sum_follows_the_group_law_witness:
  "\<exists>invZ r. affineECAdd vrf_A vrf_B invZ = Returns r \<and> isOnCurve r"
proof -
  note law = vrf_sum_follows_the_group_law [OF vrf_points(3,4)]
  have "\<exists>u. u * (fp (fst vrf_B) - fp (fst vrf_A)) = 1" using vrf_difference by blast
  with law [THEN conjunct1] obtain invZ r where r: "affineECAdd vrf_A vrf_B invZ = Returns r" by blast
  with law [THEN conjunct2, THEN conjunct1, of invZ r] vrf_points(1,2) have "isOnCurve r" by blast
  with r show ?thesis by blast
qed

section \<open>Proofs\<close>

record vrf_proof =
  pf_pk :: vrf_point
  pf_gamma :: vrf_point
  pf_c :: uint256
  pf_s :: uint256
  pf_seed :: uint256
  pf_u :: address
  pf_cGamma :: vrf_point
  pf_sHash :: vrf_point
  pf_zInv :: uint256

definition encode_proof :: "vrf_proof \<Rightarrow> bytes" where
  "encode_proof P = abi_words [fst (pf_pk P), snd (pf_pk P), fst (pf_gamma P), snd (pf_gamma P), pf_c P, pf_s P, pf_seed P,
     ucast (pf_u P), fst (pf_cGamma P), snd (pf_cGamma P), fst (pf_sHash P), snd (pf_sHash P), pf_zInv P]"

definition decode_proof :: "bytes \<Rightarrow> vrf_proof" where
  "decode_proof bs =
     \<lparr>pf_pk = (abi_load bs 0, abi_load bs 32), pf_gamma = (abi_load bs 64, abi_load bs 96), pf_c = abi_load bs 128,
      pf_s = abi_load bs 160, pf_seed = abi_load bs 192, pf_u = ucast (abi_load bs 224), pf_cGamma = (abi_load bs 256, abi_load bs 288),
      pf_sHash = (abi_load bs 320, abi_load bs 352), pf_zInv = abi_load bs 384\<rparr>"

lemma decode_encode_proof: "decode_proof (encode_proof P) = P"
proof -
  have load: "abi_load (abi_words ws) (32 * k) = ws ! k" if "k < length ws" for k and ws :: "uint256 list"
    using abi_load_words [of "[]" 0 k ws "[]"] that by simp
  have "ucast (ucast a :: uint256) = a" for a :: address by transfer simp
  then show ?thesis
    unfolding decode_proof_def encode_proof_def
    using load [of 0] load [of 1] load [of 2] load [of 3] load [of 4] load [of 5] load [of 6] load [of 7] load [of 8] load [of 9]
      load [of 10] load [of 11] load [of 12] by (simp del: abi_words_simps)
qed

text \<open>
  The equations of a proof, for the point \<open>hash\<close> that the key and the seed are hashed to, and the sum \<open>v\<close> of the
  two witnesses. Multiplications are checked by the addresses that \<open>ecrecover\<close> gives, which depend on the
  parity of the second coordinate.
\<close>

definition curve_point :: "vrf_point \<Rightarrow> bool" where
  "curve_point p \<longleftrightarrow> fp (snd p) ^ 2 = fp (fst p) ^ 3 + 7"

definition recovered :: "evm_crypto \<Rightarrow> uint256 \<Rightarrow> vrf_point \<Rightarrow> uint256 \<Rightarrow> address" where
  "recovered cr h p scalar = ecrecover cr h (if even (unat (snd p)) then 27 else 28) (fst p) (mulmod scalar (fst p) GROUP_ORDER)"

definition proof_equations :: "evm_crypto \<Rightarrow> vrf_proof \<Rightarrow> vrf_point \<Rightarrow> vrf_point \<Rightarrow> bool" where
  "proof_equations cr P hash v \<longleftrightarrow>
     curve_point (pf_pk P) \<and> curve_point (pf_gamma P) \<and> curve_point (pf_cGamma P) \<and> curve_point (pf_sHash P) \<and>
     hashToCurve cr (pf_pk P) (pf_seed P) = Returns hash \<and> curve_point hash \<and> pf_c P \<noteq> 0 \<and> pf_s P \<noteq> 0 \<and> pf_u P \<noteq> 0 \<and>
     recovered cr (GROUP_ORDER - mulmod (fst (pf_pk P)) (pf_s P) GROUP_ORDER) (pf_pk P) (pf_c P) = pf_u P \<and>
     recovered cr 0 (pf_gamma P) (pf_c P) = ucast (keccak256 cr (packed_point (pf_cGamma P))) \<and>
     recovered cr 0 hash (pf_s P) = ucast (keccak256 cr (packed_point (pf_sHash P))) \<and>
     pf_c P = scalarFromCurvePoints cr hash (pf_pk P) (pf_gamma P) (pf_u P) v"

lemma curve_point_iff: "isOnCurve p \<longleftrightarrow> curve_point p"
  by (simp add: isOnCurve_fp curve_point_def power2_eq_square power3_eq_cube mult.assoc)

lemma mod_2_even: "y mod 2 = 0 \<longleftrightarrow> even (unat y)" for y :: uint256
  by (simp add: word_unat_eq_iff unat_mod even_iff_mod_2_eq_zero)

lemma ecmulVerify_Returns:
  "ecmulVerify cr p scalar q = Returns ok \<longleftrightarrow> scalar \<noteq> 0 \<and> ok = (recovered cr 0 p scalar = ucast (keccak256 cr (packed_point q)))"
  by (auto simp: ecmulVerify_def recovered_def mod_2_even require_Returns Let_def)

lemma verifyLinearCombinationWithGenerator_Returns:
  "bind_sol (verifyLinearCombinationWithGenerator cr c p s a) (\<lambda>ok. require ok msg k) = Returns y \<longleftrightarrow>
     a \<noteq> 0 \<and> recovered cr (GROUP_ORDER - mulmod (fst p) s GROUP_ORDER) p c = a \<and> k = Returns y"
  by (auto simp: verifyLinearCombinationWithGenerator_def recovered_def mod_2_even require_Returns bind_sol_Returns Let_def)

lemma linearCombination_Returns:
  "linearCombination cr c p1 cp1 s p2 sp2 zInv = Returns v \<longleftrightarrow>
     (fst cp1 - fst sp2) mod FIELD_SIZE \<noteq> 0 \<and> c \<noteq> 0 \<and> s \<noteq> 0 \<and> recovered cr 0 p1 c = ucast (keccak256 cr (packed_point cp1)) \<and>
     recovered cr 0 p2 s = ucast (keccak256 cr (packed_point sp2)) \<and> affineECAdd cp1 sp2 zInv = Returns v"
  by (auto simp: linearCombination_def require_Returns bind_sol_Returns ecmulVerify_Returns)

lemma verifyVRFProof_Returns:
  "verifyVRFProof cr (pf_pk P) (pf_gamma P) (pf_c P) (pf_s P) (pf_seed P) (pf_u P) (pf_cGamma P) (pf_sHash P) (pf_zInv P) = Returns y \<longleftrightarrow>
     (\<exists>hash v. proof_equations cr P hash v \<and> (fst (pf_cGamma P) - fst (pf_sHash P)) mod FIELD_SIZE \<noteq> 0 \<and>
       affineECAdd (pf_cGamma P) (pf_sHash P) (pf_zInv P) = Returns v)"
proof -
  have hash: "curve_point hash" if "hashToCurve cr pk seed = Returns hash" for pk seed hash
    using hashToCurve_outcome [OF that] by (simp add: curve_point_iff)
  show ?thesis
    unfolding verifyVRFProof_def require_Returns verifyLinearCombinationWithGenerator_Returns
    unfolding bind_sol_Returns require_Returns linearCombination_Returns proof_equations_def curve_point_iff Let_def
    by (intro iffI; elim exE conjE; intro exI conjI; (assumption | simp add: hash))
qed

lemma randomValue_Returns:
  fixes bs :: bytes
  defines "P \<equiv> decode_proof bs"
  shows "randomValueFromVRFProof cr bs = Returns out \<longleftrightarrow>
     length bs = PROOF_LENGTH \<and> out = keccak256 cr (abi_word VRF_RANDOM_OUTPUT_HASH_PREFIX @ packed_point (pf_gamma P)) \<and>
     (\<exists>hash v. proof_equations cr P hash v \<and> (fst (pf_cGamma P) - fst (pf_sHash P)) mod FIELD_SIZE \<noteq> 0 \<and>
       affineECAdd (pf_cGamma P) (pf_sHash P) (pf_zInv P) = Returns v)"
proof -
  have run: "randomValueFromVRFProof cr bs =
      require (length bs = PROOF_LENGTH) ''wrong proof length''
      (bind_sol (verifyVRFProof cr (pf_pk P) (pf_gamma P) (pf_c P) (pf_s P) (pf_seed P) (pf_u P) (pf_cGamma P) (pf_sHash P) (pf_zInv P)) (\<lambda>_.
       Returns (keccak256 cr (abi_word VRF_RANDOM_OUTPUT_HASH_PREFIX @ packed_point (pf_gamma P)))))"
    by (simp add: randomValueFromVRFProof_def P_def decode_proof_def Let_def)
  show ?thesis unfolding run require_Returns bind_sol_Returns verifyVRFProof_Returns by auto
qed

lemma sum_on_curve:
  assumes "affineECAdd p q invZ = Returns v" "reduced p" "reduced q" "curve_point p" "curve_point q"
  shows "reduced v \<and> curve_point v \<and> (\<exists>l. secant_sum p q v l)"
proof -
  obtain u l where l: "u * (fp (fst q) - fp (fst p)) = 1" "secant_sum p q v l" "reduced v"
    using affineECAdd_secant [OF assms(1-3)] by blast
  have "isOnCurve v"
    using l(1,2) assms(4,5) secant_meets_curve [of u "fp (fst q)" "fp (fst p)" l "fp (snd q)" "fp (snd p)" 7 "fp (fst v)" "fp (snd v)"]
    unfolding curve_point_iff [symmetric] isOnCurve_fp secant_sum_def by blast
  with l(2,3) show ?thesis by (auto simp: curve_point_iff)
qed

text \<open>
  C25. A value has a proof. If \<open>randomValueFromVRFProof\<close> returns a value, then its argument has 416 bytes, the key,
  \<open>gamma\<close> and the two witnesses in it satisfy the equation of the curve, the key and the seed hash to a point of the curve,
  the three addresses are those that \<open>ecrecover\<close> gives for the scalars, the challenge is the hash of the
  points and of what \<open>affineECAdd\<close> makes of the witnesses, and the value is the hash of \<open>gamma\<close> alone. If the
  coordinates of the witnesses are less than the size of the field, which the contract does not check, then that is
  the sum of the witnesses in the group, and a point of the curve.
\<close>

theorem vrf_value_has_a_proof:
  assumes "randomValueFromVRFProof cr bs = Returns out"
  shows "length bs = 416 \<and> out = keccak256 cr (abi_word 3 @ packed_point (pf_gamma (decode_proof bs))) \<and>
    (\<exists>hash v. proof_equations cr (decode_proof bs) hash v \<and>
      affineECAdd (pf_cGamma (decode_proof bs)) (pf_sHash (decode_proof bs)) (pf_zInv (decode_proof bs)) = Returns v \<and>
      (reduced (pf_cGamma (decode_proof bs)) \<and> reduced (pf_sHash (decode_proof bs)) \<longrightarrow>
        reduced v \<and> curve_point v \<and> (\<exists>l. secant_sum (pf_cGamma (decode_proof bs)) (pf_sHash (decode_proof bs)) v l)))"
proof -
  obtain hash v where v: "proof_equations cr (decode_proof bs) hash v" "length bs = PROOF_LENGTH"
    "out = keccak256 cr (abi_word VRF_RANDOM_OUTPUT_HASH_PREFIX @ packed_point (pf_gamma (decode_proof bs)))"
    "affineECAdd (pf_cGamma (decode_proof bs)) (pf_sHash (decode_proof bs)) (pf_zInv (decode_proof bs)) = Returns v"
    using assms unfolding randomValue_Returns by blast
  have "curve_point (pf_cGamma (decode_proof bs))" "curve_point (pf_sHash (decode_proof bs))"
    using v(1) unfolding proof_equations_def by blast+
  note sum = sum_on_curve [OF v(4) _ _ this]
  have "length bs = 416" "out = keccak256 cr (abi_word 3 @ packed_point (pf_gamma (decode_proof bs)))"
    using v(2,3) by (simp_all add: PROOF_LENGTH_def VRF_RANDOM_OUTPUT_HASH_PREFIX_def)
  with v(1,4) sum show ?thesis by blast
qed

text \<open>The converse, without the inverse, which there is for every proof.\<close>

lemma vrf_accepts:
  assumes "proof_equations cr P hash v" "reduced (pf_cGamma P)" "reduced (pf_sHash P)" "reduced v"
    and "secant_sum (pf_cGamma P) (pf_sHash P) v l" "u * (fp (fst (pf_sHash P)) - fp (fst (pf_cGamma P))) = 1"
    and "(fst (pf_cGamma P) - fst (pf_sHash P)) mod FIELD_SIZE \<noteq> 0"
  shows "\<exists>zInv. randomValueFromVRFProof cr (encode_proof (P\<lparr>pf_zInv := zInv\<rparr>)) = Returns (keccak256 cr (abi_word 3 @ packed_point (pf_gamma P)))"
proof -
  obtain zInv r where r: "affineECAdd (pf_cGamma P) (pf_sHash P) zInv = Returns r"
    using affineECAdd_succeeds [OF assms(2,3,6)] by blast
  obtain l' where l': "secant_sum (pf_cGamma P) (pf_sHash P) r l'" "reduced r"
    using affineECAdd_secant [OF r assms(2,3)] by blast
  have "l * (u * (fp (fst (pf_sHash P)) - fp (fst (pf_cGamma P)))) = l' * (u * (fp (fst (pf_sHash P)) - fp (fst (pf_cGamma P))))"
    using assms(5) l'(1) unfolding mult.left_commute [of _ u] by (simp add: secant_sum_def)
  then have "l = l'" unfolding assms(6) by simp
  then have "r = v" using assms(4,5) l' by (simp add: secant_sum_def reduced_def prod_eq_iff flip: fp_eq)
  moreover have "length (encode_proof Q) = PROOF_LENGTH" for Q by (simp add: encode_proof_def PROOF_LENGTH_def)
  moreover have "proof_equations cr (P\<lparr>pf_zInv := zInv\<rparr>) = proof_equations cr P" by (intro ext) (simp add: proof_equations_def)
  then have "proof_equations cr (P\<lparr>pf_zInv := zInv\<rparr>) hash v" using assms(1) by simp
  ultimately show ?thesis
    using r assms(7) by (intro exI [of _ zInv]) (auto simp: randomValue_Returns decode_encode_proof VRF_RANDOM_OUTPUT_HASH_PREFIX_def simp del: split_paired_Ex)
qed

definition vrf_sample :: vrf_proof where
  "vrf_sample = \<lparr>pf_pk = vrf_A, pf_gamma = vrf_B, pf_c = 1, pf_s = 1, pf_seed = 5, pf_u = 1, pf_cGamma = vrf_A, pf_sHash = vrf_B, pf_zInv = 0\<rparr>"

lemma vrf_sample_equations: "proof_equations vrf_crypto vrf_sample vrf_A v"
proof -
  have "curve_point vrf_A" "curve_point vrf_B" using vrf_points(1,2) by (simp_all add: curve_point_iff)
  then show ?thesis
    by (simp add: proof_equations_def vrf_sample_def vrf_hash recovered_def vrf_crypto_def scalarFromCurvePoints_def)
      (simp add: vrf_hash flip: vrf_crypto_def)
qed

lemma vrf_sample_sum:
  obtains v l where "reduced v" "secant_sum (pf_cGamma vrf_sample) (pf_sHash vrf_sample) v l"
proof -
  obtain invZ v where "affineECAdd vrf_A vrf_B invZ = Returns v"
    using affineECAdd_succeeds [OF vrf_points(3,4) vrf_difference] by blast
  then obtain l where "reduced v" "secant_sum vrf_A vrf_B v l" using affineECAdd_secant [OF _ vrf_points(3,4)] by blast
  then show thesis using that by (simp add: vrf_sample_def)
qed

lemma vrf_sample_facts:
  "reduced (pf_cGamma vrf_sample)" "reduced (pf_sHash vrf_sample)" "1 * (fp (fst (pf_sHash vrf_sample)) - fp (fst (pf_cGamma vrf_sample))) = 1"
  "(fst (pf_cGamma vrf_sample) - fst (pf_sHash vrf_sample)) mod FIELD_SIZE \<noteq> 0" "keccak256 vrf_crypto bs = 1"
  using vrf_points(3,4) vrf_difference
  by (simp_all add: vrf_sample_def vrf_crypto_def)
    (simp add: vrf_A_def vrf_B_def FIELD_SIZE_def word_unat_eq_iff unat_mod)

lemma vrf_sample_accepted:
  obtains zInv where "randomValueFromVRFProof vrf_crypto (encode_proof (vrf_sample\<lparr>pf_zInv := zInv\<rparr>)) = Returns 1"
proof -
  obtain v l where v: "reduced v" "secant_sum (pf_cGamma vrf_sample) (pf_sHash vrf_sample) v l" by (rule vrf_sample_sum)
  from vrf_accepts [OF vrf_sample_equations vrf_sample_facts(1,2) v vrf_sample_facts(3,4)] show thesis
    unfolding vrf_sample_facts(5) using that by blast
qed

theorem vrf_value_has_a_proof_witness:
  "\<exists>zInv hash v l. randomValueFromVRFProof vrf_crypto (encode_proof (vrf_sample\<lparr>pf_zInv := zInv\<rparr>)) = Returns 1 \<and>
     proof_equations vrf_crypto (vrf_sample\<lparr>pf_zInv := zInv\<rparr>) hash v \<and> affineECAdd vrf_A vrf_B zInv = Returns v \<and>
     curve_point v \<and> secant_sum vrf_A vrf_B v l"
proof -
  obtain zInv where z: "randomValueFromVRFProof vrf_crypto (encode_proof (vrf_sample\<lparr>pf_zInv := zInv\<rparr>)) = Returns 1"
    by (rule vrf_sample_accepted)
  have w: "pf_cGamma (vrf_sample\<lparr>pf_zInv := zInv\<rparr>) = vrf_A" "pf_sHash (vrf_sample\<lparr>pf_zInv := zInv\<rparr>) = vrf_B"
    "pf_zInv (vrf_sample\<lparr>pf_zInv := zInv\<rparr>) = zInv" by (simp_all add: vrf_sample_def)
  from vrf_value_has_a_proof [OF z] show ?thesis unfolding decode_encode_proof w using vrf_points(3,4) z by blast
qed

text \<open>
  Witnesses with larger coordinates are not rejected. With the size of the field added to its first coordinate, \<open>vrf_A\<close>
  still counts as on the curve, but the difference with which \<open>affineECAdd\<close> negates a coordinate wraps around, and is not
  its negative in the field.
\<close>

lemma vrf_large_coordinate:
  "isOnCurve (FIELD_SIZE + 1, snd vrf_A)" "fp (FIELD_SIZE - (FIELD_SIZE + 1)) \<noteq> - fp (FIELD_SIZE + 1)"
proof -
  have one: "fp (FIELD_SIZE + 1) = fp 1" by (simp add: fp_def FIELD_SIZE_def)
  with vrf_points(1) show "isOnCurve (FIELD_SIZE + 1, snd vrf_A)" by (simp add: isOnCurve_fp vrf_A_def)
  have "FIELD_SIZE - (FIELD_SIZE + 1) = - 1" by simp
  then have "fp (FIELD_SIZE - (FIELD_SIZE + 1)) = fp (2 ^ 32 + 976)"
    by (simp add: fp_def of_int_fp uint_FIELD_SIZE unsigned_minus_1_eq_mask mask_eq_exp_minus_1)
  moreover have "- fp (FIELD_SIZE + 1) = fp (FIELD_SIZE - 1)" unfolding one by (rule fp_minus [symmetric]) (simp add: FIELD_SIZE_def)
  moreover have "fp (2 ^ 32 + 976) \<noteq> fp (FIELD_SIZE - 1)" by (subst fp_eq) (simp_all add: FIELD_SIZE_def)
  ultimately show "fp (FIELD_SIZE - (FIELD_SIZE + 1)) \<noteq> - fp (FIELD_SIZE + 1)" by simp
qed

text \<open>
  C27. A proof gives a value. Let the equations hold of a proof, for the sum of its witnesses in the group; let the
  coordinates of the witnesses and of the sum be less than the size of the field, the difference of the first
  coordinates of the witnesses have an inverse in the field, and the test of the contract for equal points not
  reject them. Then there is an inverse with which the encoded proof decodes to itself and is accepted, and the
  value is the hash of \<open>gamma\<close>.
\<close>

theorem vrf_proof_gives_a_value:
  assumes "proof_equations cr P hash v" "reduced (pf_cGamma P)" "reduced (pf_sHash P)" "reduced v"
    and "secant_sum (pf_cGamma P) (pf_sHash P) v l" "u * (fp (fst (pf_sHash P)) - fp (fst (pf_cGamma P))) = 1"
    and "(fst (pf_cGamma P) - fst (pf_sHash P)) mod FIELD_SIZE \<noteq> 0"
  shows "\<exists>zInv. decode_proof (encode_proof (P\<lparr>pf_zInv := zInv\<rparr>)) = P\<lparr>pf_zInv := zInv\<rparr> \<and>
    randomValueFromVRFProof cr (encode_proof (P\<lparr>pf_zInv := zInv\<rparr>)) = Returns (keccak256 cr (abi_word 3 @ packed_point (pf_gamma P)))"
  using vrf_accepts [OF assms] decode_encode_proof by blast

theorem vrf_proof_gives_a_value_witness:
  "\<exists>zInv. randomValueFromVRFProof vrf_crypto (encode_proof (vrf_sample\<lparr>pf_zInv := zInv\<rparr>)) = Returns 1"
proof -
  obtain v l where v: "reduced v" "secant_sum (pf_cGamma vrf_sample) (pf_sHash vrf_sample) v l" by (rule vrf_sample_sum)
  from vrf_proof_gives_a_value [OF vrf_sample_equations vrf_sample_facts(1,2) v vrf_sample_facts(3,4)] show ?thesis
    unfolding vrf_sample_facts(5) by blast
qed

text \<open>
  C28. Some distinct points count as equal. The test of \<open>linearCombination\<close> subtracts the first coordinates modulo
  \<open>2 ^ 256\<close>, not modulo the size of the field: if the second one is the first one plus \<open>2 ^ 32 + 977\<close>, the
  combination is rejected as one of equal points, although the points can be added, and are on the curve.
\<close>

theorem vrf_distinct_points_are_rejected:
  assumes "fst q = fst p + (2 ^ 32 + 977)" "fst q < FIELD_SIZE" "fst p < fst q"
  shows "linearCombination cr c p1 p s p2 q zInv = Reverts (Require ''points in sum must be distinct'') \<and> fp (fst p) \<noteq> fp (fst q)"
proof -
  have "fst p - fst q = FIELD_SIZE" by (simp add: assms(1) FIELD_SIZE_def)
  moreover have "fst p \<noteq> fst q" "fst p < FIELD_SIZE" using assms(2,3) by auto
  ultimately show ?thesis using assms(2) by (simp add: linearCombination_def fp_eq)
qed

definition vrf_D :: vrf_point where
  "vrf_D = (4294968274, 63971064522293324831044597009877614277438437910902094171582941809045750387348)"

theorem vrf_distinct_points_are_rejected_witness:
  "linearCombination vrf_crypto 1 vrf_A vrf_A 1 vrf_A vrf_D 0 = Reverts (Require ''points in sum must be distinct'') \<and>
   isOnCurve vrf_A \<and> isOnCurve vrf_D \<and> fp (fst vrf_A) \<noteq> fp (fst vrf_D)"
proof -
  have d: "fst vrf_D = fst vrf_A + (2 ^ 32 + 977)" "fst vrf_D < FIELD_SIZE" "fst vrf_A < fst vrf_D"
    by (simp_all add: vrf_A_def vrf_D_def FIELD_SIZE_def word_less_nat_alt)
  have "isOnCurve vrf_D"
    by (rule isOnCurve_certificate [where k = 35341767499576261115088386526219961436896372171975941631179054355274491315471])
      (simp add: vrf_D_def uint_FIELD_SIZE)
  with vrf_distinct_points_are_rejected [OF d] vrf_points(1) show ?thesis by blast
qed

end
