(* ===== verification/Spec2Isabelle.thy ===== *)
theory Spec2Isabelle
  imports Main_Program Feed_Properties Request_Properties Flux_Interface Offchain_Properties Vrf_Properties
begin

text \<open>
  A verification development for three parts of this repository. The Go framework
  (\<open>src/fm-demo/go-scripts\<close>) sets up the flux monitor demo: it logs in to Chainlink nodes and
  manages their jobs, bridges and keys over HTTP, and deploys, funds, configures and reads
  contracts on an EVM chain. The Solidity contracts it deploys
  (\<open>src/fm-demo/go-scripts/contracts/ethereum/v0.*\<close>) are what the demo runs on: the flux aggregator
  collects submissions of oracles in rounds, answers with their median and pays them in LINK; the
  off-chain aggregator takes reports that the oracles have agreed on and signed; a third contract
  verifies proofs of random values.
  The Substrate pallets, in Rust, bring the same to a Substrate chain: the feed pallet is an
  aggregator for many feeds, the request pallet passes single requests to operators.

  \<^bold>\<open>Parts of the program and where they are modelled.\<close>

  \<^item> \<open>config/config.go\<close>, theory \<open>Framework_Config\<close>: the configuration file, network settings
    and key stores. Network configurations are shared by pointer, so they live in a heap
    (\<open>nc_heap\<close>); \<open>NewWithPath\<close>, \<open>GetNetworkConfig\<close> and the two \<open>Fetch\<close> methods are definitions of
    the same names. Viper, which reads the file, is the parameter \<open>viper\<close>.
  \<^item> \<open>client/blockchain.go\<close>, theory \<open>Blockchain\<close>: networks and wallets. go-ethereum's key and
    address functions are the parameter \<open>crypto\<close>.
  \<^item> \<open>client/ethereum.go\<close>, theory \<open>Eth_Client\<close>: sending transactions, making transaction options,
    deploying, and the loop that waits for confirmations, a partial function whose \<open>None\<close> is
    not returning. The JSON-RPC connection is the parameter \<open>'w eth_rpc\<close>.
  \<^item> \<open>client/chainlink_models.go\<close> and \<open>client/chainlink.go\<close>, theory \<open>Chainlink_Client\<close>: the REST
    client, on the theories \<open>Go_Json\<close> (the texts \<open>encoding/json\<close> writes and reads) and
    \<open>Json_Decode\<close> (unmarshalling into structs, slices and maps). The exchange with the server
    is the parameter \<open>'w http\<close>.
  \<^item> \<open>main.go\<close>, theory \<open>Main_Program\<close>: one job spec per file of \<open>../specs\<close>. The file system is
    the parameter \<open>'w files\<close>.
  \<^item> \<open>contracts/ethereum/*.go\<close>, theories \<open>Bind\<close>, \<open>Store_Binding\<close>, \<open>VRF_Binding\<close>,
    \<open>LinkToken_Binding\<close>, \<open>FluxAggregator_Binding\<close> and \<open>OffchainAggregator_Binding\<close>: the generated
    contract bindings. Each has the ABI as data, and one definition per function, named
    \<open>Receiver_Method\<close>; what the generator repeats (conversion of results, iterators, watchers)
    is in \<open>Bind\<close>. go-ethereum's \<open>bind\<close> package is the parameter \<open>'w bind\<close>. Compiled bytecode
    is named, not spelled out.
  \<^item> \<open>contracts/contract_models.go\<close> and \<open>contracts/ethereum_contracts.go\<close>, theory \<open>Contracts\<close>: the
    contracts of the framework, built on the client and the bindings.

  \<^item> \<open>v0.4/src\<close>, theory \<open>Link_Token\<close>: the LINK token, every function under the name of its
    contract; contracts that receive tokens are the parameter \<open>receivers\<close>. An abstract ledger
    (\<open>link_ledger\<close>) specifies it.
  \<^item> \<open>v0.6/src/Median.sol\<close> and the \<open>SafeMath\<close> libraries, theories \<open>Sol_Median\<close> and \<open>Safe_Math\<close>:
    median by quickselect, with its loops as partial functions, and checked arithmetic.
  \<^item> \<open>v0.6/src/FluxAggregator.sol\<close> and \<open>Owned.sol\<close>, theories \<open>Owned\<close> and \<open>Flux_Aggregator\<close>: the
    storage as a record and every function under its own name; the token and the validator are
    the parameter \<open>'w contracts\<close> of theory \<open>Sol_Contracts\<close>, which also has the LINK token as an
    instance of it. \<open>Flux_Calls\<close> has any external call as \<open>flux_exec\<close>, the states
    that calls of anyone can reach (\<open>flux_reach\<close>), and what each function leaves of the storage.
    \<open>Flux_Oracles\<close> and \<open>Flux_Rounds\<close> prove the invariants, \<open>Flux_Funds\<close> that the money is
    there, \<open>Flux_Progress\<close> when a submission succeeds, \<open>Flux_History\<close> what never changes back and
    who may take over a role; \<open>Flux_Properties\<close> has the properties, with witnesses on the
    history of \<open>Flux_Sample\<close>.
  \<^item> \<open>Flux_Interface\<close> connects the framework with the contract: the functions of the contract on
    the ABI values of the binding (\<open>flux_getters\<close>, \<open>flux_transactions\<close>, \<open>flux_construct\<close>).
  \<^item> \<open>v0.7/src/OffchainAggregatorBilling.sol\<close> and \<open>OffchainAggregator.sol\<close>, theories
    \<open>Offchain_Billing\<close> and \<open>Offchain_Aggregator\<close>: the storage of both as one record, every function
    under its own name; \<open>transmit\<close> is split at the blocks of its body. Access controllers are the
    parameter \<open>'w access\<close>, hashing and signature recovery the parameter \<open>evm_crypto\<close>.
    \<open>Offchain_Calls\<close> has any external call (\<open>ocr_exec\<close>), the states that calls of anyone can reach
    (\<open>ocr_reach\<close>) and the invariant, which \<open>Offchain_Invariant\<close> and \<open>Offchain_Reports\<close> prove, the
    latter with what a transmission needs and does; \<open>Offchain_Funds\<close> is about the money,
    \<open>Offchain_History\<close> about what never changes back; \<open>Offchain_Properties\<close> has the properties, with
    witnesses on the history of \<open>Offchain_Sample\<close>.
  \<^item> \<open>v0.6/src/VRF.sol\<close>, theory \<open>Vrf_Contract\<close>: every function under its own name; the two loops that
    hash until the result fits are partial functions. \<open>Vrf_Curve\<close> reads words as integers modulo the
    size of the field and relates the computation with projective coordinates to the law of the
    secant; the properties are in \<open>Vrf_Properties\<close>.

  \<^item> \<open>src/pallet-chainlink-feed/src\<close>, theory \<open>Feed_Pallet\<close>: the storage of the pallet as a record,
    every dispatchable under its own name, and the proxy \<open>Feed\<close>, a copy of a feed's configuration
    that is written back when it is dropped (\<open>with_feed\<close>). \<open>dispatch_call\<close> runs any call of the
    pallet. \<open>Feed_Invariant\<close>, \<open>Feed_Submit\<close> and \<open>Feed_Calls\<close> prove its invariant, \<open>Feed_Ledger\<close>
    the refinement of a ledger, \<open>Feed_Roles\<close> who may do what, \<open>Feed_Errors\<close> the error paths,
    \<open>Feed_Progress\<close> when submissions are accepted, \<open>Feed_Timeouts\<close> and \<open>Feed_Stuck\<close> rounds that
    time out, \<open>Feed_Median\<close> the median; \<open>Feed_Properties\<close> has the properties, with witnesses on
    the histories of \<open>Feed_Sample\<close>.
  \<^item> \<open>src/pallet-chainlink/src/lib.rs\<close> and the example pallet of the node
    (\<open>runtime/src/example.rs\<close>), theory \<open>Request_Pallet\<close>; their properties are in
    \<open>Request_Properties\<close>.

  \<open>Evm\<close> holds what the contracts use of Solidity: unsigned integers as words of their width,
  \<open>int256\<close> as integers with the wrap-around written out, and calls that return, revert with
  their reason or an invalid opcode, or do not end. \<open>Sol_Abi\<close> holds what they use of bytes: encoding
  and decoding of arguments, and the cryptographic functions of the machine as a parameter.

  \<open>Substrate\<close> holds what both pallets use of the runtime: results of dispatchables, origins,
  transactions, checked and saturating arithmetic, and the currency, a record of the operations
  of \<open>ReservableCurrency\<close> with the documented behaviour as the named hypotheses \<open>reservable\<close> and
  \<open>failures_atomic\<close>, satisfied by \<open>sample_currency\<close>.

  \<open>Go_Prelude\<close> holds what the Go parts use of Go: errors as values, panics, calls that talk to
  the outside, decimal formatting, white space. A call takes the state of the outside world \<open>'w\<close>
  and returns \<open>Ret\<close> with the result and the next world, \<open>Crash\<close> for a panic, or \<open>Hang\<close> if it
  never returns. The parameters are records of functions on worlds; what the program relies on
  of them are named hypotheses (\<open>hex_roundtrip\<close>, \<open>abi_typed\<close>, \<open>delivers\<close>, \<open>responds\<close>), each shown
  to be satisfiable by a concrete instance (\<open>sample_crypto\<close>, \<open>sample_bind\<close>, \<open>sample_http\<close>).

  \<^bold>\<open>What is shown.\<close>

  \<^item> Configuration and wallets: every unmarshalled network is available with its own keys,
    whatever the order of Go's map; wallets come one per key or not at all; the default wallet
    after any calls; which indices panic. This theory connects them: a network that a local
    configuration lists comes up with a wallet for each of its keys, if they are all valid.
  \<^item> Ethereum client: exactly when waiting for a transaction returns nil, that it returns once
    the transaction is confirmed, and that its timeout does not bound it; at most one transaction
    is broadcast, signed by the sender; the fields of transaction options with their
    wrap-around; deployment means waiting.
  \<^item> Chainlink client: what each error says about the server's answer; one request per call,
    with the right method, path, cookies and body; logging in; round trips of bridges and key
    lists through JSON, which rest on \<open>parse_json_print\<close> (parsing gives back what was printed)
    and the locale \<open>codec\<close>.
  \<^item> Bindings: every method conforms with its contract's ABI, so that no read panics;
    iterators deliver each log once and in order, watchers forward each event once (a step
    relation, by rule induction).
  \<^item> Contracts: what funding sends and that it waits for it, where configuration arguments go, with what aggregators
    are constructed, and that the LINK token's address is shared through the heap.

  \<^item> LINK token: it refines the ledger, in which no sum overflows and no token is made or lost, and
    a \<open>transferAndCall\<close> to a contract then ends as the receiver does; nobody's tokens can be taken.
  \<^item> Median: the loops end, and the result is that of sorting, for every array the machine can
    hold.
  \<^item> Flux aggregator, with the LINK token and any validator: over all states that calls of anyone can
    reach, what oracles have earned is covered by the balance and can be withdrawn, the owner
    cannot take it, answers are within the bounds, the list of oracles is exact, old rounds are
    final and no oracle reports twice; a submission answers with the median and is paid, and one
    that \<open>oracleRoundState\<close> announces as possible is, if a validator that is set has code and replies
    in full; roles change in two steps. Two theorems show
    behaviour that is not intended: an answered round that times out loses its answer, and a
    validator without code blocks the aggregator.
  \<^item> Off-chain aggregator: over all states that calls of anyone can reach, its table of oracles is
    exact and its accounts do not overflow; a report needs the signatures of more than the threshold
    of oracles, is used once, and makes the median the answer, which lies between right observations
    if at most as many as the threshold are wrong; a report that is in order is accepted; it is paid
    for exactly; with the LINK token, a payee gets what its oracle is owed if it is there, and the
    owner cannot withdraw it; payees change in two steps. Two theorems show behaviour that surprises:
    observations that were free are owed at the next price, and a contract that cannot pay cannot
    be reconfigured.
  \<^item> Random values: a value is returned for a proof only whose equations hold, and for every such proof
    with coordinates less than the size of the field, up to a test that takes some different points for
    equal; for such coordinates, which the contract does not check, the sum of two points is that of the
    group of the curve, and hashing to the curve gives points on it, if it ends.
  \<^item> Framework and aggregator together: what the framework sets up is what the contract
    gets, and what it reads is what the contract says, for a node that answers with the results of the contract (\<open>serves_flux\<close>, satisfied by
    \<open>sample_node\<close>).
  \<^item> Feed pallet: over all states that calls of anyone can reach, a feed has data for its latest
    round, and its oracle count is exact; a submission answers a round with the median of its
    submissions, in the middle of them; a submission that is in order is accepted; no oracle
    reports twice or out of order; what is owed to
    oracles stays covered by the reserve and the debts of the feeds (a refinement of an abstract
    ledger); roles are handed over in two steps; no call panics, and a failing one changes
    nothing; pruning ends. Three theorems show behaviour that is not intended: an answered round
    that times out loses its answer, or blocks its feed for ever, and a failing withdrawal loses
    the reserve of an oracle.
  \<^item> Request pallet: a request is kept until its period is over, whatever is called; the end of
    a block removes exactly the expired ones, in whatever order the storage is iterated; and the
    fee of a request is never paid.

  The interfaces between parts are locales, interpreted on the model's definitions:
  \<open>key_store\<close>, \<open>blockchain_wallets\<close>, \<open>codec\<close>, \<open>waited_transaction\<close>, \<open>fundable\<close> and, for the three
  roles of the feed pallet, \<open>two_step_transfer\<close>. For the contracts these are \<open>sol_handover\<close> (the
  owner and the admins of oracles) and \<open>link_interface\<close>, what both aggregators rely on of their
  token, interpreted with the LINK token for each.

  \<^bold>\<open>Bounds.\<close> No definition takes fuel. The nesting depth of JSON is Go's own limit of 10000
  levels. Machine integers are words of their width where they are computed with. The loop
  \<open>nexts\<close> over an iterator is given a number of rounds, and one more than there are logs is
  proved to be enough. The invariant of the feed pallet holds while the 32-bit numbers of rounds
  last (\<open>rounds_left\<close>: the reporting round is not yet the largest one), for a limit of oracles
  below the largest number (\<open>runtime_ok\<close>) and for lists of oracles that a call can hold
  (\<open>call_fits\<close>: fewer than \<open>2 ^ 32\<close>); that of the request pallet while the 64-bit numbers of
  requests last. The invariants of the flux aggregator hold while its 32-bit round numbers last (there
  are two left), for a clock below \<open>2 ^ 63\<close> seconds and arguments of their types (\<open>call_typed\<close>);
  those of the off-chain aggregator while its 32-bit numbers of configurations and of rounds last
  (\<open>counters_left\<close>);
  the median is computed for arrays below \<open>2 ^ 255\<close> elements, whose indices do not wrap around.

  \<^bold>\<open>Not modelled.\<close> Log output; the wording of JSON errors; closing files and response bodies;
  the conversion of JSON numbers in untyped maps to floating point (they are kept as literals,
  only overflow is decided); of the contracts, gas other than by loops that do not end, the order
  of events of different contracts, and a validator or a receiver of tokens that calls back into
  an aggregator within a call (it may call the token, and \<open>submit\<close> of the flux aggregator calls the
  validator last, so that what it calls of the aggregator is as if called after it); what
  \<open>ecrecover\<close> has to do with points of the curve, and that the size of the field is a prime number:
  where a division is needed, the theorems ask for the inverse; of the pallets, weights,
  benchmarks and mocks; an answer handler or a callback that calls back into the pallet that
  runs it; and the node, the template pallet, the front end, the external adapter and the scripts
  of the demos, which are glue.
\<close>

section \<open>From the configuration file to wallets\<close>

lemma process_keys_good:
  assumes "list_all (\<lambda>key. \<exists>x. wallet_of_key cr key x) ks"
  shows "\<exists>ws. list_all2 (wallet_of_key cr) ks ws \<and>
    process_keys cr ks [] = (\<lparr>defaultWallet = 0, wallets = ws\<rparr>, nil)"
proof (cases rule: process_keys_cases [of cr ks "[]"])
  case (bad_key good key rest ws e)
  with assms show ?thesis by (auto simp: wallet_of_key_def)
qed auto

text \<open>
  C39. The Hardhat, Kovan and Goerli networks come up as a local configuration lists them. If the
  configuration was loaded from the file with the private keys in it, and lists the network with at
  least one key, every one of which is valid, then the constructor of the network gives it with
  its URL, the network gives one wallet for each of its keys, in order and stripped of white
  space, and the first one is the default wallet.
\<close>

theorem configured_network_comes_up:
  assumes "NewWithPath vp LocalConfig path h = Value ((Some conf, err), h')"
    and "Unmarshal vp (config_settings path) = ((ns, ks), err)"
    and "(net, NewNetwork) \<in> {(EthereumHardhatID, NewHardhatNetwork), (EthereumKovanID, NewKovanNetwork),
      (EthereumGoerliID, NewGoerliNetwork)}"
    and "map_of ns net = Some (Some c)" "nc_PrivateKeys c = Some (key # others)"
    and "list_all (\<lambda>key. \<exists>x. wallet_of_key cr key x) (key # others)"
  shows "\<exists>network ws x. NewNetwork conf = Inr network \<and> Network_URL h' network = nc_URL c \<and>
    Network_Wallets cr h' network = Value (Some ws, nil) \<and>
    list_all2 (wallet_of_key cr) (key # others) (wallets ws) \<and>
    Default ws = Value x \<and> PrivateKey x = TrimSpace key"
proof -
  obtain p where p: "GetNetworkConfig conf net = Inr p" "cells h' p = with_key_store LocalConfig c"
    using NewWithPath_entry [OF assms(1,2,4)] by blast
  obtain ws where ws: "list_all2 (wallet_of_key cr) (key # others) ws"
    "process_keys cr (key # others) [] = (\<lparr>defaultWallet = 0, wallets = ws\<rparr>, nil)"
    using process_keys_good [OF assms(6)] by blast
  have "newEthereumWallets cr (nc_PrivateKeyStore (with_key_store LocalConfig c)) =
      Value (Some \<lparr>defaultWallet = 0, wallets = ws\<rparr>, nil)"
    using assms(5) ws(2)
    by (simp add: newEthereumWallets_def with_key_store_def NewPrivateKeyStore_def LocalStore_Fetch_def del: process_keys.simps)
  moreover obtain x ws' where "ws = x # ws'" "wallet_of_key cr key x"
    using ws(1) by (cases ws) auto
  moreover have "NewNetwork conf = newEthereumNetwork conf net"
    using assms(3) by (auto simp: NewHardhatNetwork_def NewKovanNetwork_def NewGoerliNetwork_def)
  ultimately show ?thesis
    using p ws(1)
    by (intro exI [of _ "\<lparr>networkID = net, networkConfig = p\<rparr>"]
        exI [of _ "\<lparr>defaultWallet = 0, wallets = ws\<rparr>"] exI [of _ x])
      (simp add: newEthereumNetwork_def Network_URL_def Network_Wallets_def with_key_store_def
        Default_def index_def wallet_of_key_PrivateKey)
qed

theorem configured_network_comes_up_witness:
  "\<exists>conf h' network ws x. NewWithPath sample_viper LocalConfig [] sample_heap = Value ((Some conf, nil), h') \<and>
     NewHardhatNetwork conf = Inr network \<and> Network_Wallets sample_crypto h' network = Value (Some ws, nil) \<and>
     Default ws = Value x \<and> PrivateKey x = ''ac0974''"
proof -
  obtain conf h' where load: "NewWithPath sample_viper LocalConfig [] sample_heap = Value ((Some conf, nil), h')"
    by (simp add: NewWithPath_def sample_viper_def)
  have nets: "Unmarshal sample_viper (config_settings []) = (([(EthereumHardhatID, Some sample_network)], []), nil)"
    by (simp add: sample_viper_def EthereumHardhatID_def)
  have trim: "TrimSpace ''ac0974'' = ''ac0974''" "TrimSpace '' 59c699 '' = ''59c699''"
    by (simp_all add: TrimSpace_def ascii_space_def space2_def space3_def)
  have two: "nc_PrivateKeys sample_network = Some [''ac0974'', '' 59c699 '']"
    by (simp add: sample_network_def)
  have "list_all (\<lambda>key. \<exists>x. wallet_of_key sample_crypto key x) [''ac0974'', '' 59c699 '']"
    by (simp add: wallet_of_key_def NewEthereumWallet_def sample_crypto_def trim)
  from configured_network_comes_up [OF load nets _ _ two this, of EthereumHardhatID NewHardhatNetwork] load trim(1) show ?thesis
    by (auto simp: sample_viper_def)
qed

end
